(* ===== verification/Prelude.thy ===== *)
theory Prelude
  imports Main "HOL-Library.Word" "HOL-Library.Sublist"
begin

text \<open>
  What every component of the development shares: names for Go's integer types, the result
  type of a fallible Go function, Go's wrapping signed arithmetic, the bit-level reading of a byte
  slice and 64-bit integers in network byte order.
\<close>

unbundle bit_operations_syntax

section \<open>Go's types and results\<close>

type_synonym u8 = "8 word"
type_synonym u16 = "16 word"
type_synonym u32 = "32 word"
type_synonym u64 = "64 word"

text \<open>
  A Go function of result type \<^verbatim>\<open>(T, error)\<close> is a sum: the left side is what stops the caller,
  an error value with its text or a run-time panic (an index out of range, a nil pointer).
\<close>

datatype go_err = Fail string | Panic

type_synonym 'a res = "go_err + 'a"

text \<open>
  \<^verbatim>\<open>if err != nil { return err }\<close> after a call, and Go's signed 64-bit arithmetic, which wraps.
\<close>

definition rbind :: "'a res \<Rightarrow> ('a \<Rightarrow> 'b res) \<Rightarrow> 'b res" where
  "rbind r f = (case r of Inl e \<Rightarrow> Inl e | Inr x \<Rightarrow> f x)"

definition i64 :: "int \<Rightarrow> int" where
  "i64 x = signed_take_bit 63 x"

named_theorems bits_simps \<open>reading byte lists as bit lists\<close>
named_theorems ctx_simps \<open>field access of the gNB and UE contexts\<close>

lemma rbind_simps [simp]:
  "rbind (Inl e) f = Inl e"
  "rbind (Inr x) f = f x"
  by (simp_all add: rbind_def)

lemma rbind_cong [fundef_cong]:
  "r = r' \<Longrightarrow> (\<And>x. r' = Inr x \<Longrightarrow> f x = g x) \<Longrightarrow> rbind r f = rbind r' g"
  by (auto simp: rbind_def split: sum.split)

lemma rbind_eq_Inr: "rbind r f = Inr y \<longleftrightarrow> (\<exists>x. r = Inr x \<and> f x = Inr y)"
  by (cases r) simp_all

lemma i64_id [simp]: "- (2 ^ 63) \<le> x \<Longrightarrow> x < 2 ^ 63 \<Longrightarrow> i64 x = x"
  by (simp add: i64_def signed_take_bit_int_eq_self)

section \<open>Bytes as bits, most significant bit first\<close>

definition byte_bits :: "u8 \<Rightarrow> bool list" where
  "byte_bits b = map (\<lambda>i. bit b (7 - i)) [0..<8]"

definition bits_of :: "u8 list \<Rightarrow> bool list" where
  "bits_of bs = concat (map byte_bits bs)"

text \<open>The unsigned number a bit list spells.\<close>

definition val_of :: "bool list \<Rightarrow> nat" where
  "val_of bs = foldl (\<lambda>v b. 2 * v + of_bool b) 0 bs"

lemma length_byte_bits [simp]: "length (byte_bits b) = 8"
  by (simp add: byte_bits_def)

lemma nth_byte_bits [bits_simps]: "i < 8 \<Longrightarrow> byte_bits b ! i = bit b (7 - i)"
  by (simp add: byte_bits_def del: upt_rec_numeral upt_Suc)

lemma bits_of_Nil [simp]: "bits_of [] = []"
  by (simp add: bits_of_def)

lemma bits_of_Cons [simp]: "bits_of (b # bs) = byte_bits b @ bits_of bs"
  by (simp add: bits_of_def)

lemma bits_of_append [simp]: "bits_of (xs @ ys) = bits_of xs @ bits_of ys"
  by (simp add: bits_of_def)

lemma length_bits_of [simp]: "length (bits_of bs) = 8 * length bs"
  by (induction bs) auto

lemma nth_bits_of [bits_simps]:
  "k < 8 * length bs \<Longrightarrow> bits_of bs ! k = bit (bs ! (k div 8)) (7 - k mod 8)"
proof (induction bs arbitrary: k)
  case Nil
  then show ?case by simp
next
  case (Cons b bs)
  show ?case
  proof (cases "k < 8")
    case True
    then show ?thesis by (simp add: nth_append nth_byte_bits)
  next
    case False
    then obtain j where k: "k = j + 8"
      by (metis le_add_diff_inverse2 not_less)
    then have "bits_of bs ! j = bit (bs ! (j div 8)) (7 - j mod 8)"
      using Cons.prems by (intro Cons.IH) auto
    moreover have "(j + 8) div 8 = Suc (j div 8)"
      by presburger
    ultimately show ?thesis
      using k by (simp add: nth_append)
  qed
qed

lemma byte_bits_inj: "byte_bits a = byte_bits b \<Longrightarrow> a = b"
proof -
  assume eq: "byte_bits a = byte_bits b"
  show "a = b"
  proof (rule bit_word_eqI)
    fix n assume "n < LENGTH(8)"
    then have n: "n < 8" by simp
    have "byte_bits a ! (7 - n) = byte_bits b ! (7 - n)"
      by (simp add: eq)
    then show "bit a n = bit b n"
      using n by (simp add: nth_byte_bits)
  qed
qed

lemma bits_of_inj: "length a = length b \<Longrightarrow> bits_of a = bits_of b \<Longrightarrow> a = b"
  by (induction a b rule: list_induct2) (auto dest: byte_bits_inj)

lemma bits_of_take: "bits_of (take n bs) = take (8 * n) (bits_of bs)"
proof (induction bs arbitrary: n)
  case Nil
  then show ?case by simp
next
  case (Cons b bs)
  then show ?case by (cases n) auto
qed

lemma bits_of_drop: "bits_of (drop n bs) = drop (8 * n) (bits_of bs)"
proof (induction bs arbitrary: n)
  case Nil
  then show ?case by simp
next
  case (Cons b bs)
  then show ?case by (cases n) auto
qed

lemma val_of_Nil [simp]: "val_of [] = 0"
  by (simp add: val_of_def)

lemma val_of_snoc [simp]: "val_of (bs @ [b]) = 2 * val_of bs + of_bool b"
  by (simp add: val_of_def)

lemma val_of_append: "val_of (xs @ ys) = val_of xs * 2 ^ length ys + val_of ys"
proof (induction ys rule: rev_induct)
  case Nil
  then show ?case by simp
next
  case (snoc y ys)
  have "val_of (xs @ ys @ [y]) = 2 * val_of (xs @ ys) + of_bool y"
    by (metis append.assoc val_of_snoc)
  with snoc show ?case by (simp add: algebra_simps)
qed

lemma val_of_less: "val_of bs < 2 ^ length bs"
proof (induction bs rule: rev_induct)
  case Nil
  then show ?case by simp
next
  case (snoc b bs)
  then show ?case by (cases b) auto
qed

lemma val_of_zeros [simp]: "val_of (replicate n False) = 0"
  by (induction n) (simp_all add: replicate_append_same [symmetric])

lemma val_of_inj: "length a = length b \<Longrightarrow> val_of a = val_of b \<Longrightarrow> a = b"
proof (induction a arbitrary: b rule: rev_induct)
  case Nil
  then show ?case by simp
next
  case (snoc x xs)
  then obtain y ys where b: "b = ys @ [y]"
    by (metis length_0_conv length_append_singleton nat.simps(3) rev_exhaust)
  with snoc.prems have "2 * val_of xs + of_bool x = 2 * val_of ys + of_bool y"
    by simp
  then have "x = y" and "val_of xs = val_of ys"
    by (cases x; cases y; simp; presburger)+
  with snoc b show ?case by simp
qed

lemma val_of_bit:
  "i < length bs \<Longrightarrow> bit (val_of bs) i = bs ! (length bs - 1 - i)"
proof (induction bs arbitrary: i rule: rev_induct)
  case Nil
  then show ?case by simp
next
  case (snoc b bs)
  show ?case
  proof (cases i)
    case 0
    then show ?thesis by (simp add: bit_0)
  next
    case (Suc j)
    then have j: "j < length bs" using snoc.prems by simp
    have "bit (val_of (bs @ [b])) (Suc j) = bit (val_of bs) j"
      by (simp add: bit_Suc)
    moreover have "length bs - Suc j < length bs"
      using j by arith
    ultimately show ?thesis
      using snoc.IH [OF j] Suc j by (simp add: nth_append)
  qed
qed

lemma val_of_byte_bits: "val_of (byte_bits b) = unat b"
proof (rule bit_eqI)
  fix n :: nat
  show "bit (val_of (byte_bits b)) n = bit (unat b) n"
  proof (cases "n < 8")
    case True
    then show ?thesis
      by (simp add: val_of_bit nth_byte_bits bit_unsigned_iff)
  next
    case False
    have "val_of (byte_bits b) < 2 ^ 8"
      using val_of_less [of "byte_bits b"] by simp
    then have "\<not> bit (val_of (byte_bits b)) n"
      using False by (metis bit_take_bit_iff take_bit_nat_eq_self)
    moreover have "\<not> bit (unat b) n"
      using False by (auto simp: bit_unsigned_iff dest: bit_imp_le_length)
    ultimately show ?thesis by simp
  qed
qed

section \<open>Network byte order\<close>

text \<open>\<^verbatim>\<open>binary.BigEndian.PutUint64\<close> and \<^verbatim>\<open>binary.BigEndian.Uint64\<close>, the latter on eight bytes.\<close>

definition be64_bytes :: "u64 \<Rightarrow> u8 list" where
  "be64_bytes v = map (\<lambda>i. ucast (drop_bit (8 * (7 - i)) v)) [0..<8]"

definition be64_of :: "u8 list \<Rightarrow> u64" where
  "be64_of bs = foldl (\<lambda>v b. push_bit 8 v OR ucast b) 0 bs"

lemma length_be64_bytes [simp]: "length (be64_bytes v) = 8"
  by (simp add: be64_bytes_def)

lemma be64_bytes_eq:
  "be64_bytes v = [ucast (drop_bit 56 v), ucast (drop_bit 48 v), ucast (drop_bit 40 v), ucast (drop_bit 32 v),
     ucast (drop_bit 24 v), ucast (drop_bit 16 v), ucast (drop_bit 8 v), ucast v]"
proof -
  have "[0..<8] = [0, 1, 2, 3, 4, 5, 6, 7 :: nat]"
    by (simp add: upt_rec)
  then show ?thesis
    unfolding be64_bytes_def by simp
qed

lemma be64_round_trip: "be64_of (be64_bytes v) = v"
proof (rule bit_word_eqI)
  fix n assume "n < LENGTH(64)"
  then have n: "n < 64" by simp
  have cases: "n < 8 \<or> 8 \<le> n \<and> n < 16 \<or> 16 \<le> n \<and> n < 24 \<or> 24 \<le> n \<and> n < 32 \<or> 32 \<le> n \<and> n < 40 \<or>
      40 \<le> n \<and> n < 48 \<or> 48 \<le> n \<and> n < 56 \<or> 56 \<le> n \<and> n < 64"
    using n by linarith
  show "bit (be64_of (be64_bytes v)) n = bit v n"
    using cases n unfolding be64_of_def be64_bytes_eq
    by (elim disjE) (auto simp: bit_push_bit_iff bit_or_iff bit_ucast_iff bit_drop_bit_eq)
qed

end
