(* ===== verification/Aper_Bits.thy ===== *)
theory Aper_Bits
  imports Prelude
begin

text \<open>
  The reading half of the bit layer of the aligned PER codec, \<^verbatim>\<open>lib/aper/aper.go\<close>. A reader
  (\<^verbatim>\<open>perBitData\<close>) is a byte slice with a byte and a bit offset. Its abstract content is a bit
  list, most significant bit first; the lemmas of this theory say that the byte-shifting code
  reads exactly the bits at its position.
\<close>

section \<open>Reading: perBitData\<close>

text \<open>Go's subtraction of two \<^verbatim>\<open>uint\<close> values (64 bits) wraps around below zero.\<close>

definition usub :: "nat \<Rightarrow> nat \<Rightarrow> nat" where
  "usub a b = (if b \<le> a then a - b else 2 ^ 64 + a - b)"

text \<open>\<^verbatim>\<open>x >> (8 - off)\<close> on a byte: for \<open>off > 8\<close> the count wraps to a huge one and the shift is 0.\<close>

definition shr8_sub :: "u8 \<Rightarrow> nat \<Rightarrow> u8" where
  "shr8_sub x off = (if off \<le> 8 then drop_bit (8 - off) x else 0)"

definition GetBitString :: "u8 list \<Rightarrow> nat \<Rightarrow> nat \<Rightarrow> u8 list res" where
  "GetBitString srcBytes bitsOffset numBits =
     (let bitsLeft = usub (length srcBytes * 8) bitsOffset in
      if numBits > bitsLeft then Inl (Fail ''Get bits overflow'')
      else
        let byteLen = (bitsOffset + numBits + 7) div 8;
            numBitsByteLen = (numBits + 7) div 8
        in if numBits = 0 \<or> length srcBytes < byteLen \<or> numBitsByteLen + 1 < byteLen
           then Inl Panic
           else
             let numBitsMask = (if numBits mod 8 = 0 then 255
                                else push_bit (8 - numBits mod 8) 255 :: u8);
                 dst0 = replicate numBitsByteLen 0;
                 dst1 = foldl (\<lambda>d i. d[i - 1 := push_bit bitsOffset (srcBytes ! (i - 1))
                                               OR shr8_sub (srcBytes ! i) bitsOffset])
                          dst0 [1..<byteLen];
                 dst2 = (if byteLen = numBitsByteLen
                         then dst1[byteLen - 1 := push_bit bitsOffset (srcBytes ! (byteLen - 1))]
                         else dst1)
             in Inr (dst2[numBitsByteLen - 1 := dst2 ! (numBitsByteLen - 1) AND numBitsMask]))"

definition GetBitsValue :: "u8 list \<Rightarrow> nat \<Rightarrow> nat \<Rightarrow> u64 res" where
  "GetBitsValue srcBytes bitsOffset numBits =
     (case GetBitString srcBytes bitsOffset numBits of
        Inl e \<Rightarrow> Inl e
      | Inr dstBytes \<Rightarrow>
          let value = foldl (\<lambda>v i. push_bit 8 v OR ucast (dstBytes ! i)) 0 [0..<numBits div 8];
              numBitsOff = numBits mod 8
          in if numBitsOff = 0 then Inr value
             else Inr (push_bit numBitsOff value OR
                       (ucast (drop_bit (8 - numBitsOff) (dstBytes ! (length dstBytes - 1)))
                        AND (2 ^ numBitsOff - 1))))"

record perBitData =
  bytes :: "u8 list"
  byteOffset :: nat
  bitsOffset :: nat

definition bitCarry :: "perBitData \<Rightarrow> perBitData" where
  "bitCarry pd = pd\<lparr>byteOffset := byteOffset pd + bitsOffset pd div 8,
                    bitsOffset := bitsOffset pd mod 8\<rparr>"

definition getBitString :: "nat \<Rightarrow> perBitData \<Rightarrow> (u8 list \<times> perBitData) res" where
  "getBitString numBits pd =
     (if length (bytes pd) < byteOffset pd then Inl Panic
      else case GetBitString (drop (byteOffset pd) (bytes pd)) (bitsOffset pd) numBits of
             Inl e \<Rightarrow> Inl e
           | Inr dstBytes \<Rightarrow>
               Inr (dstBytes, bitCarry (pd\<lparr>bitsOffset := bitsOffset pd + numBits\<rparr>)))"

definition getBitsValue :: "nat \<Rightarrow> perBitData \<Rightarrow> (u64 \<times> perBitData) res" where
  "getBitsValue numBits pd =
     (if length (bytes pd) < byteOffset pd then Inl Panic
      else case GetBitsValue (drop (byteOffset pd) (bytes pd)) (bitsOffset pd) numBits of
             Inl e \<Rightarrow> Inl e
           | Inr value \<Rightarrow> Inr (value, bitCarry (pd\<lparr>bitsOffset := bitsOffset pd + numBits\<rparr>)))"

definition parseAlignBits :: "perBitData \<Rightarrow> perBitData res" where
  "parseAlignBits pd =
     (if bitsOffset pd mod 8 > 0 then
        case getBitsValue (8 - bitsOffset pd mod 8) pd of
          Inl e \<Rightarrow> Inl e
        | Inr (val, pd') \<Rightarrow>
            if val \<noteq> 0 then Inl (Fail ''Align Bit is not zero'') else Inr pd'
      else if bitsOffset pd \<noteq> 0 then Inr (bitCarry pd)
      else Inr pd)"

section \<open>The abstract bit streams\<close>

text \<open>What a reader has consumed, as a position in bits, and the positions the code produces.\<close>

definition pos :: "perBitData \<Rightarrow> nat" where
  "pos pd = 8 * byteOffset pd + bitsOffset pd"

definition reader :: "u8 list \<Rightarrow> nat \<Rightarrow> perBitData" where
  "reader buf p = \<lparr>bytes = buf, byteOffset = p div 8, bitsOffset = p mod 8\<rparr>"

text \<open>The unused low bits of the last byte of a bit string, from the bits used in it.\<close>

definition slack :: "nat \<Rightarrow> nat" where
  "slack off = (8 - off) mod 8"

text \<open>The \<open>n\<close> low bits of a number, most significant first.\<close>

definition nbits :: "nat \<Rightarrow> nat \<Rightarrow> bool list" where
  "nbits n v = map (\<lambda>i. bit v (n - 1 - i)) [0..<n]"

section \<open>Bit lists of numbers\<close>

lemma length_nbits [simp]: "length (nbits n v) = n"
  by (simp add: nbits_def)

lemma nth_nbits [bits_simps]: "i < n \<Longrightarrow> nbits n v ! i = bit v (n - 1 - i)"
  by (simp add: nbits_def)

lemma val_of_nbits: "val_of (nbits n v) = v mod 2 ^ n"
proof (rule bit_eqI)
  fix k :: nat
  show "bit (val_of (nbits n v)) k = bit (v mod 2 ^ n) k"
  proof (cases "k < n")
    case True
    then show ?thesis
      by (simp add: val_of_bit nth_nbits bit_take_bit_iff flip: take_bit_eq_mod)
  next
    case False
    have "val_of (nbits n v) < 2 ^ n"
      using val_of_less [of "nbits n v"] by simp
    then have "\<not> bit (val_of (nbits n v)) k"
      using False by (metis bit_take_bit_iff take_bit_nat_eq_self)
    with False show ?thesis
      by (simp add: bit_take_bit_iff flip: take_bit_eq_mod)
  qed
qed

lemma nbits_val_of: "nbits (length bs) (val_of bs) = bs"
  by (rule val_of_inj) (simp_all add: val_of_nbits val_of_less)

lemma slack_less [simp]: "slack off < 8"
  by (simp add: slack_def)

lemma slack_0 [simp]: "slack 0 = 0"
  by (simp add: slack_def)

lemma slack_pos: "0 < off \<Longrightarrow> off < 8 \<Longrightarrow> slack off = 8 - off"
  by (simp add: slack_def)

lemma byte_count: "8 * ((n + 7) div 8) = n + slack (n mod 8)"
proof -
  define q t where "q = n div 8" and "t = n mod 8"
  have n: "n = 8 * q + t" and t: "t < 8" unfolding q_def t_def by simp_all
  show ?thesis
  proof (cases "t = 0")
    case True
    then show ?thesis by (simp add: n)
  next
    case False
    then have "n + 7 = 8 * Suc q + (t - 1)" and "t - 1 < 8" using n t by simp_all
    then have "(n + 7) div 8 = Suc q" by (simp only: div_mult_self4 div_less add_0_right)
    moreover have "slack t = 8 - t" using False t by (simp add: slack_pos)
    ultimately show ?thesis unfolding t_def [symmetric] using n t by simp
  qed
qed

section \<open>GetBitString copies a bit range\<close>

lemma foldl_update:
  "m \<le> Suc (length d) \<Longrightarrow>
   foldl (\<lambda>d i. d[i - 1 := f i]) d [1..<m] = map (\<lambda>j. if Suc j < m then f (Suc j) else d ! j) [0..<length d]"
proof (induction m)
  case 0
  then show ?case by (simp add: map_nth)
next
  case (Suc m)
  show ?case
  proof (cases "m = 0")
    case True
    then show ?thesis by (simp add: map_nth)
  next
    case False
    with Suc.prems obtain j where m: "m = Suc j" and j: "j < length d"
      by (cases m) auto
    have "[1..<Suc m] = [1..<m] @ [m]"
      using False by simp
    then have "foldl (\<lambda>d i. d[i - 1 := f i]) d [1..<Suc m] =
        (map (\<lambda>j. if Suc j < m then f (Suc j) else d ! j) [0..<length d])[m - 1 := f m]"
      using Suc by simp
    also have "\<dots> = map (\<lambda>j. if Suc j < Suc m then f (Suc j) else d ! j) [0..<length d]"
      by (rule nth_equalityI) (use m j in \<open>auto simp: nth_list_update\<close>)
    finally show ?thesis .
  qed
qed

lemma byteLen_cases:
  assumes "off < 8"
  shows "(off + n + 7) div 8 = (n + 7) div 8 \<or> (off + n + 7) div 8 = Suc ((n + 7) div 8)"
proof -
  have "(n + 7) div 8 \<le> (off + n + 7) div 8"
    by (rule div_le_mono) simp
  moreover have "(off + n + 7) div 8 \<le> (n + 7 + 8) div 8"
    using assms by (intro div_le_mono) simp
  moreover have "(n + 7 + 8) div 8 = Suc ((n + 7) div 8)"
    by presburger
  ultimately show ?thesis by linarith
qed

lemma div_mod8: "r < 8 \<Longrightarrow> (8 * j + r) div 8 = j" "r < 8 \<Longrightarrow> (8 * j + r) mod 8 = r" for j r :: nat
  by simp_all

lemma less_ceil8: "8 * a < x \<Longrightarrow> a < (x + 7) div 8" for a x :: nat
  using less_eq_div_iff_mult_less_eq [of 8 "Suc a" "x + 7"] by simp

text \<open>The bytes the two assignments of the loop leave, before the mask.\<close>

definition shifted :: "u8 list \<Rightarrow> nat \<Rightarrow> nat \<Rightarrow> nat \<Rightarrow> u8" where
  "shifted src off byteLen j =
     push_bit off (src ! j) OR (if Suc j < byteLen then drop_bit (8 - off) (src ! Suc j) else 0)"

lemma GetBitString_closed:
  assumes off: "off < 8" and n: "0 < n" and fits: "off + n \<le> 8 * length src"
  shows "GetBitString src off n =
     Inr ((map (shifted src off ((off + n + 7) div 8)) [0..<(n + 7) div 8])
          [(n + 7) div 8 - 1 :=
             shifted src off ((off + n + 7) div 8) ((n + 7) div 8 - 1) AND
             (if n mod 8 = 0 then 255 else push_bit (8 - n mod 8) 255)])"
proof -
  define bl where "bl = (off + n + 7) div 8"
  define nb where "nb = (n + 7) div 8"
  have bl: "bl = nb \<or> bl = Suc nb"
    unfolding bl_def nb_def using byteLen_cases [OF off] .
  have nb: "0 < nb" using n unfolding nb_def by presburger
  have src: "bl \<le> length src"
    using fits unfolding bl_def by presburger
  have left: "\<not> usub (length src * 8) off < n"
    using fits by (simp add: usub_def)
  have loop: "foldl (\<lambda>d i. d[i - 1 := push_bit off (src ! (i - 1)) OR shr8_sub (src ! i) off])
          (replicate nb 0) [1..<bl] =
        map (\<lambda>j. if Suc j < bl then push_bit off (src ! j) OR drop_bit (8 - off) (src ! Suc j) else 0) [0..<nb]"
    (is "?l = ?r")
  proof -
    have "bl \<le> Suc (length (replicate nb (0::u8)))" using bl by auto
    from foldl_update [OF this, where f = "\<lambda>i. push_bit off (src ! (i - 1)) OR shr8_sub (src ! i) off"]
    show ?thesis using off by (simp add: shr8_sub_def cong: map_cong if_cong)
  qed
  have final: "(if bl = nb then ?r[bl - 1 := push_bit off (src ! (bl - 1))] else ?r) =
        map (shifted src off bl) [0..<nb]"
    by (rule nth_equalityI) (use bl nb in \<open>auto simp: nth_list_update shifted_def\<close>)
  show ?thesis
    unfolding GetBitString_def Let_def bl_def [symmetric] nb_def [symmetric]
    unfolding loop final using left n nb bl src by auto
qed

lemma bit_shifted:
  assumes off: "off < 8" and r: "r < 8"
  shows "bit (shifted src off bl j) (7 - r) =
    (if off + r < 8 then bit (src ! j) (7 - (off + r))
     else Suc j < bl \<and> bit (src ! Suc j) (7 - (off + r - 8)))"
proof (cases "off + r < 8")
  case True
  have "\<not> bit (src ! Suc j) (7 - r + (8 - off))"
    using True off by (intro notI) (drule bit_imp_le_length, simp)
  moreover have "7 - r - off = 7 - (off + r)"
    by simp
  ultimately show ?thesis
    using True off r
    by (auto simp: shifted_def bit_or_iff bit_push_bit_iff bit_drop_bit_eq ac_simps simp del: diff_diff_left)
next
  case False
  then have "8 - off + (7 - r) = 7 - (off + r - 8)"
    using off r by simp
  with False off r show ?thesis
    by (auto simp: shifted_def bit_or_iff bit_push_bit_iff bit_drop_bit_eq)
qed

lemma bit_mask_byte:
  "r < 8 \<Longrightarrow> bit (if m = 0 then 255 else push_bit (8 - m) 255 :: u8) (7 - r) \<longleftrightarrow> m = 0 \<or> r < m"
  if "m < 8"
proof -
  have all_ones: "(255 :: u8) = - 1"
    by simp
  have all: "bit (255 :: u8) i \<longleftrightarrow> i < 8" for i
    unfolding all_ones bit_minus_1_iff by simp
  assume "r < 8"
  then show ?thesis
    using that by (auto simp only: bit_push_bit_iff all split: if_splits) simp_all
qed

text \<open>Bit \<open>8 * j + r\<close> of the shifted bytes is bit \<open>off + 8 * j + r\<close> of the source.\<close>

lemma bit_shifted_source:
  assumes off: "off < 8" and r: "r < 8" and k: "8 * j + r < n" and fits: "off + n \<le> 8 * length src"
  shows "bit (shifted src off ((off + n + 7) div 8) j) (7 - r) = bits_of src ! (off + (8 * j + r))"
proof -
  have src: "bits_of src ! (off + (8 * j + r)) =
      bit (src ! ((off + (8 * j + r)) div 8)) (7 - (off + (8 * j + r)) mod 8)"
    using k fits by (intro nth_bits_of) simp
  show ?thesis
  proof (cases "off + r < 8")
    case True
    have "off + (8 * j + r) = 8 * j + (off + r)" by simp
    then have "(off + (8 * j + r)) div 8 = j" "(off + (8 * j + r)) mod 8 = off + r"
      using True by (simp_all only: div_mod8)
    with True r off src show ?thesis by (simp add: bit_shifted)
  next
    case False
    then have *: "off + (8 * j + r) = 8 * Suc j + (off + r - 8)" by simp
    have "off + r - 8 < 8" using off r by simp
    then have dm: "(off + (8 * j + r)) div 8 = Suc j" "(off + (8 * j + r)) mod 8 = off + r - 8"
      unfolding * by (simp_all only: div_mod8)
    have "8 * Suc j < off + n" using k * by simp
    then have "Suc j < (off + n + 7) div 8" by (rule less_ceil8)
    with False r off dm src show ?thesis by (simp add: bit_shifted)
  qed
qed

text \<open>The mask on the last byte clears exactly the bits at and after position \<open>n\<close>.\<close>

lemma mask_last_byte:
  assumes nb: "nb = (n + 7) div 8" and j: "j < nb" and r: "r < 8"
  shows "(j = nb - 1 \<longrightarrow> bit (if n mod 8 = 0 then 255 else push_bit (8 - n mod 8) 255 :: u8) (7 - r))
    \<longleftrightarrow> 8 * j + r < n"
proof -
  define q t where "q = n div 8" and "t = n mod 8"
  have n': "n = 8 * q + t" and t: "t < 8" unfolding q_def t_def by simp_all
  have size: "8 * nb = n + slack t" unfolding nb t_def by (rule byte_count)
  have m: "bit (if t = 0 then 255 else push_bit (8 - t) 255 :: u8) (7 - r) \<longleftrightarrow> t = 0 \<or> r < t"
    using t r by (rule bit_mask_byte)
  show ?thesis
  proof (cases "t = 0")
    case True
    then have "8 * nb = n" using size by simp
    then show ?thesis using m True j r by (simp add: t_def [symmetric])
  next
    case False
    then have "nb = Suc q" using size n' t by (simp add: slack_pos)
    moreover have "8 * j + r < 8 * q + t \<longleftrightarrow> (j = q \<longrightarrow> r < t)" if "j \<le> q"
      using that r t by (cases "j = q") simp_all
    ultimately show ?thesis
      using m False j t unfolding t_def [symmetric] n' by (auto simp: mod_less)
  qed
qed

theorem GetBitString_bits:
  assumes off: "off < 8" and n: "0 < n" and fits: "off + n \<le> 8 * length src"
  obtains d where "GetBitString src off n = Inr d" and "length d = (n + 7) div 8"
    and "bits_of d = take n (drop off (bits_of src)) @ replicate (slack (n mod 8)) False"
proof -
  define nb where "nb = (n + 7) div 8"
  define f where "f = shifted src off ((off + n + 7) div 8)"
  define m where "m = (if n mod 8 = 0 then 255 else push_bit (8 - n mod 8) 255 :: u8)"
  define d where "d = (map f [0..<nb]) [nb - 1 := f (nb - 1) AND m]"
  have ok: "GetBitString src off n = Inr d"
    unfolding d_def m_def f_def nb_def by (rule GetBitString_closed [OF assms])
  have len: "length d = nb" by (simp add: d_def)
  have size: "8 * nb = n + slack (n mod 8)"
    unfolding nb_def by (rule byte_count)
  have bits: "bits_of d = take n (drop off (bits_of src)) @ replicate (slack (n mod 8)) False"
    (is "_ = ?bs")
  proof (rule nth_equalityI)
    show "length (bits_of d) = length ?bs"
      using fits len size by simp
  next
    fix k assume "k < length (bits_of d)"
    then have k: "k < 8 * nb" by (simp add: len)
    define j r where "j = k div 8" and "r = k mod 8"
    have jr: "k = 8 * j + r" and r: "r < 8" and j: "j < nb"
      using k unfolding j_def r_def by (simp_all add: less_mult_imp_div_less mult.commute)
    have "bits_of d ! k = bit (d ! j) (7 - r)"
      using k by (simp add: nth_bits_of len j_def r_def)
    also have "\<dots> = (bit (f j) (7 - r) \<and> (j = nb - 1 \<longrightarrow> bit m (7 - r)))"
      using j by (auto simp: d_def nth_list_update bit_and_iff)
    also have "\<dots> = (bit (f j) (7 - r) \<and> k < n)"
      unfolding m_def mask_last_byte [OF nb_def j r] jr ..
    also have "\<dots> = ?bs ! k"
      using bit_shifted_source [OF off r _ fits, of j] k size fits
      by (auto simp: f_def nth_append jr)
    finally show "bits_of d ! k = ?bs ! k" .
  qed
  show thesis using that [OF ok] len bits unfolding nb_def by simp
qed

lemma GetBitString_overflow:
  assumes "off \<le> 8 * length src" and "8 * length src < off + n"
  shows "GetBitString src off n = Inl (Fail ''Get bits overflow'')"
  using assms by (simp add: GetBitString_def usub_def)

section \<open>GetBitsValue reads a number\<close>

lemma push_bit_or_nat: "m < 2 ^ k \<Longrightarrow> push_bit k a OR m = a * 2 ^ k + m" for a m :: nat
proof -
  assume m: "m < 2 ^ k"
  have "push_bit k a AND m = 0"
  proof (rule bit_eqI)
    fix i
    have "bit m i \<Longrightarrow> i < k"
      using m by (metis bit_take_bit_iff take_bit_nat_eq_self)
    then show "bit (push_bit k a AND m) i = bit (0 :: nat) i"
      by (auto simp: bit_and_iff bit_push_bit_iff)
  qed
  then show ?thesis
    by (simp add: disjunctive_add_eq_or push_bit_eq_mult flip: disjunctive_add_eq_or)
qed

lemma push_bit_or_of_nat:
  "m < 2 ^ k \<Longrightarrow> push_bit k (of_nat a) OR of_nat m = (of_nat (a * 2 ^ k + m) :: u64)"
  using push_bit_or_nat [of m k a, symmetric]
  by (simp only: of_nat_or_eq of_nat_push_bit)

lemma val_of_take: "val_of (take k bs) = val_of bs div 2 ^ (length bs - k)"
proof -
  have "val_of bs = val_of (take k bs) * 2 ^ length (drop k bs) + val_of (drop k bs)"
    using val_of_append [of "take k bs" "drop k bs"] by simp
  moreover have "val_of (drop k bs) < 2 ^ length (drop k bs)"
    by (rule val_of_less)
  ultimately show ?thesis by simp
qed

lemma value_loop:
  "m \<le> length d \<Longrightarrow>
   foldl (\<lambda>v i. push_bit 8 v OR ucast (d ! i)) 0 [0..<m] = (of_nat (val_of (bits_of (take m d))) :: u64)"
proof (induction m)
  case 0
  then show ?case by simp
next
  case (Suc m)
  have "take (Suc m) d = take m d @ [d ! m]"
    using Suc.prems by (simp add: take_Suc_conv_app_nth)
  then have "val_of (bits_of (take (Suc m) d)) = val_of (bits_of (take m d)) * 2 ^ 8 + unat (d ! m)"
    by (simp add: val_of_append val_of_byte_bits)
  moreover have "unat (d ! m) < 2 ^ 8"
    using unsigned_less [of "d ! m", where 'a = nat] by simp
  moreover have "ucast (d ! m) = (of_nat (unat (d ! m)) :: u64)"
    by simp
  ultimately show ?case
    using Suc by (simp add: push_bit_or_of_nat del: of_nat_unat)
qed

lemma ucast_mask_of_nat: "v < 2 ^ k \<Longrightarrow> (of_nat v :: u64) AND (2 ^ k - 1) = of_nat v"
proof -
  assume v: "v < 2 ^ k"
  have "(of_nat v :: u64) AND (2 ^ k - 1) = take_bit k (of_nat v)"
    by (simp only: take_bit_eq_mask mask_eq_exp_minus_1)
  also have "\<dots> = of_nat (take_bit k v)"
    by (simp only: of_nat_take_bit)
  finally show ?thesis using v by (simp add: take_bit_nat_eq_self)
qed

text \<open>The last byte of an unaligned bit string holds its last bits on the left.\<close>

lemma last_byte_top:
  assumes bits: "bits_of d = bs @ replicate (8 - k) False" and k: "k < 8"
    and lbs: "length bs = 8 * q + k" and ld: "length d = Suc q"
  shows "drop (8 * q) bs = take k (byte_bits (d ! q))"
proof -
  have "d = take q d @ [d ! q]"
    using ld by (metis less_Suc_eq order_refl take_Suc_conv_app_nth take_all)
  then have "bits_of d = bits_of (take q d) @ byte_bits (d ! q)"
    by (metis append_Nil2 bits_of_Cons bits_of_Nil bits_of_append)
  then have "drop (8 * q) (bits_of d) = byte_bits (d ! q)"
    using ld by simp
  moreover have "drop (8 * q) (bits_of d) = drop (8 * q) bs @ replicate (8 - k) False"
    unfolding bits using lbs by simp
  ultimately show ?thesis
    using lbs by (metis add_diff_cancel_left' append_eq_conv_conj length_drop)
qed

lemma val_of_split:
  "val_of bs = val_of (take m bs) * 2 ^ (length bs - m) + val_of (drop m bs)"
  using val_of_append [of "take m bs" "drop m bs"] by simp

theorem GetBitsValue_val:
  assumes off: "off < 8" and n: "0 < n" and fits: "off + n \<le> 8 * length src"
  shows "GetBitsValue src off n = Inr (of_nat (val_of (take n (drop off (bits_of src)))))"
proof -
  let ?bs = "take n (drop off (bits_of src))"
  obtain d where d: "GetBitString src off n = Inr d" and len: "length d = (n + 7) div 8"
    and bits: "bits_of d = ?bs @ replicate (slack (n mod 8)) False"
    using GetBitString_bits [OF assms] .
  define k q where "k = n mod 8" and "q = n div 8"
  have k: "k < 8" and nq: "n = 8 * q + k" unfolding k_def q_def by simp_all
  have lbs: "length ?bs = n" using fits by simp
  have "q \<le> length d" using len nq by simp
  moreover have "bits_of (take q d) = take (8 * q) ?bs"
    unfolding bits_of_take bits using lbs nq by simp
  ultimately have loop: "foldl (\<lambda>v i. push_bit 8 v OR ucast (d ! i)) 0 [0..<q] =
      (of_nat (val_of (take (8 * q) ?bs)) :: u64)"
    by (simp add: value_loop)
  show ?thesis
  proof (cases "k = 0")
    case True
    with nq have "8 * q = n" by simp
    with True loop d show ?thesis
      by (simp add: GetBitsValue_def flip: k_def q_def)
  next
    case False
    define low where "low = val_of (drop (8 * q) ?bs)"
    have lq: "length d = Suc q"
      using len k False unfolding nq by simp
    have "bits_of d = ?bs @ replicate (8 - k) False"
      using bits False k by (simp add: slack_pos flip: k_def)
    then have top: "drop (8 * q) ?bs = take k (byte_bits (d ! q))"
      using last_byte_top k lbs nq lq by metis
    have "low = unat (drop_bit (8 - k) (d ! q))"
      unfolding low_def top val_of_take
      by (simp add: val_of_byte_bits unat_drop_bit_eq flip: drop_bit_eq_div)
    then have "ucast (drop_bit (8 - k) (d ! q)) = (of_nat low :: u64)" by simp
    moreover have "low < 2 ^ k"
      using val_of_less [of "drop (8 * q) ?bs"] lbs nq by (simp add: low_def)
    moreover have "val_of ?bs = val_of (take (8 * q) ?bs) * 2 ^ k + low"
    proof -
      have "length ?bs - 8 * q = k"
        unfolding lbs using nq by linarith
      then show ?thesis
        using val_of_split [of ?bs "8 * q"] by (simp only: low_def)
    qed
    ultimately show ?thesis
      using False lq loop
      by (simp add: GetBitsValue_def d ucast_mask_of_nat push_bit_or_of_nat flip: k_def q_def)
  qed
qed

end
