(* ===== verification/Aper_Writer.thy ===== *)
theory Aper_Writer
  imports Aper_Bits
begin

text \<open>
  The writing half of the bit layer, \<^verbatim>\<open>lib/aper/marshal.go\<close>. A writer (\<^verbatim>\<open>perRawBitData\<close>) is a
  growing byte slice with the number of bits used in its last byte (0: all of them). Its
  abstract content \<open>raw_bits\<close> is the list of bits written; \<open>valid_raw\<close> says the unused bits of
  the last byte are zero, which is what lets the code OR new bits into it.
\<close>

unbundle bit_operations_syntax

section \<open>Writing: perRawBitData\<close>

record perRawBitData =
  rbytes :: "u8 list"
  rbitsOffset :: nat

definition appendAlignBits :: "perRawBitData \<Rightarrow> perRawBitData" where
  "appendAlignBits pd = pd\<lparr>rbitsOffset := 0\<rparr>"

definition or_last :: "u8 list \<Rightarrow> u8 \<Rightarrow> u8 list" where
  "or_last bs x = bs[length bs - 1 := bs ! (length bs - 1) OR x]"

definition putBitString :: "u8 list \<Rightarrow> nat \<Rightarrow> perRawBitData \<Rightarrow> perRawBitData res" where
  "putBitString bs numBits pd =
     (let k = (numBits + 7) div 8; bs = take k bs in
      if length bs < k then Inl Panic
      else if rbitsOffset pd = 0 then
        Inr (pd\<lparr>rbytes := rbytes pd @ bs, rbitsOffset := numBits mod 8\<rparr>)
      else
        let bitsLeft = usub 8 (rbitsOffset pd);
            off' = (numBits mod 8 + rbitsOffset pd) mod 8
        in if numBits \<le> bitsLeft then
             (if rbytes pd = [] \<or> bs = [] then Inl Panic
              else Inr (pd\<lparr>rbytes := or_last (rbytes pd) (drop_bit (rbitsOffset pd) (bs ! 0)),
                           rbitsOffset := off'\<rparr>))
           else
             case GetBitString (0 # bs) bitsLeft (rbitsOffset pd + numBits) of
               Inl e \<Rightarrow> Inl e
             | Inr shiftBytes \<Rightarrow>
                 if rbytes pd = [] \<or> shiftBytes = [] then Inl Panic
                 else Inr (pd\<lparr>rbytes := or_last (rbytes pd) (shiftBytes ! 0) @ tl shiftBytes,
                              rbitsOffset := off'\<rparr>))"

text \<open>
  The loop of \<^verbatim>\<open>putBitsValue\<close> that fills the leading bytes from the right: its first argument
  is \<open>i + 1\<close> for the loop's index \<open>i\<close>, so that 0 stands for the negative index.
\<close>

fun put_fill :: "nat \<Rightarrow> u64 \<Rightarrow> u8 list \<Rightarrow> u8 list res" where
  "put_fill 0 value tempBytes =
     (if value > 0 then Inl (Fail ''Bits Value is over capacity'') else Inr tempBytes)"
| "put_fill (Suc i) value tempBytes =
     (if value > 0 then put_fill i (drop_bit 8 value) (tempBytes[i := ucast value])
      else Inr tempBytes)"

definition putBitsValue :: "u64 \<Rightarrow> nat \<Rightarrow> perRawBitData \<Rightarrow> perRawBitData res" where
  "putBitsValue value numBits pd =
     (if numBits = 0 then Inr pd
      else
        let Byteslen = (numBits + 7) div 8;
            bitOff = (if numBits mod 8 = 0 then 8 else numBits mod 8);
            LeftbitOff = 8 - bitOff;
            tempBytes = (replicate Byteslen 0)[Byteslen - 1 := ucast (push_bit LeftbitOff value)]
        in case put_fill (Byteslen - 1) (drop_bit bitOff value) tempBytes of
             Inl e \<Rightarrow> Inl e
           | Inr tempBytes \<Rightarrow> putBitString tempBytes numBits pd)"

section \<open>The bits written\<close>

definition raw_bits :: "perRawBitData \<Rightarrow> bool list" where
  "raw_bits pd = take (8 * length (rbytes pd) - slack (rbitsOffset pd)) (bits_of (rbytes pd))"

definition valid_raw :: "perRawBitData \<Rightarrow> bool" where
  "valid_raw pd \<longleftrightarrow> rbitsOffset pd < 8 \<and> (rbitsOffset pd \<noteq> 0 \<longrightarrow> rbytes pd \<noteq> []) \<and>
     bits_of (rbytes pd) = raw_bits pd @ replicate (slack (rbitsOffset pd)) False"

section \<open>Appending bits\<close>

lemma bits_of_snoc: "bs \<noteq> [] \<Longrightarrow> bits_of bs = bits_of (butlast bs) @ byte_bits (last bs)"
  by (metis append_butlast_last_id bits_of_Cons bits_of_Nil bits_of_append append_Nil2)

lemma or_last_snoc: "bs \<noteq> [] \<Longrightarrow> or_last bs x = butlast bs @ [last bs OR x]"
  by (induction bs rule: rev_induct) (simp_all add: or_last_def list_update_append)

lemma length_or_last [simp]: "length (or_last bs x) = length bs"
  by (simp add: or_last_def)

text \<open>OR-ing bits into the free low part of a byte appends them.\<close>

lemma byte_or_append:
  assumes x: "byte_bits x = p @ replicate (8 - length p) False" and p: "length p < 8"
    and y: "byte_bits y = replicate (length p) False @ q"
  shows "byte_bits (x OR y) = p @ q"
proof (rule nth_equalityI)
  show "length (byte_bits (x OR y)) = length (p @ q)"
    using arg_cong [OF y, of length] p by simp
next
  fix i assume "i < length (byte_bits (x OR y))"
  then have i: "i < 8" by simp
  then have "byte_bits (x OR y) ! i \<longleftrightarrow> byte_bits x ! i \<or> byte_bits y ! i"
    by (simp add: nth_byte_bits bit_or_iff)
  then show "byte_bits (x OR y) ! i = (p @ q) ! i"
    using i p unfolding x y by (simp add: nth_append)
qed

lemma byte_bits_drop_bit:
  "off \<le> 8 \<Longrightarrow> byte_bits (drop_bit off y) = replicate off False @ take (8 - off) (byte_bits y)"
  (is "_ \<Longrightarrow> ?l = ?r")
proof (rule nth_equalityI)
  assume off: "off \<le> 8"
  then show "length ?l = length ?r" by simp
  fix i assume "i < length ?l"
  then have i: "i < 8" by simp
  have "\<not> bit y (off + (7 - i))" if "i < off"
    using that i by (intro notI) (drule bit_imp_le_length, simp)
  then show "?l ! i = ?r ! i"
    using i off by (auto simp: nth_byte_bits bit_drop_bit_eq nth_append add.commute)
qed

lemma raw_bits_aligned: "rbitsOffset pd = 0 \<Longrightarrow> raw_bits pd = bits_of (rbytes pd)"
  by (simp add: raw_bits_def)

lemma valid_raw_aligned: "rbitsOffset pd = 0 \<Longrightarrow> valid_raw pd"
  by (simp add: valid_raw_def raw_bits_aligned)

lemma raw_bits_eqI:
  assumes "bits_of (rbytes pd) = b @ replicate (slack (rbitsOffset pd)) False"
    and "rbitsOffset pd < 8" and "rbitsOffset pd \<noteq> 0 \<Longrightarrow> rbytes pd \<noteq> []"
  shows "raw_bits pd = b \<and> valid_raw pd"
proof -
  have "8 * length (rbytes pd) = length b + slack (rbitsOffset pd)"
    using arg_cong [OF assms(1), of length] by simp
  then have "raw_bits pd = b"
    by (simp add: raw_bits_def assms(1))
  with assms show ?thesis by (simp add: valid_raw_def)
qed

lemma length_raw_bits: "valid_raw pd \<Longrightarrow> length (raw_bits pd) mod 8 = rbitsOffset pd"
proof -
  assume v: "valid_raw pd"
  then have len: "8 * length (rbytes pd) = length (raw_bits pd) + slack (rbitsOffset pd)"
    unfolding valid_raw_def by (metis length_append length_bits_of length_replicate)
  have off: "rbitsOffset pd < 8" using v by (simp add: valid_raw_def)
  show ?thesis
  proof (cases "rbitsOffset pd = 0")
    case True
    then have "length (raw_bits pd) = 8 * length (rbytes pd)" using len by simp
    with True show ?thesis by simp
  next
    case False
    then have "length (raw_bits pd) = 8 * (length (rbytes pd) - 1) + rbitsOffset pd"
      using len off v by (simp add: slack_pos valid_raw_def)
    then show ?thesis by (simp only: div_mod8 off)
  qed
qed

text \<open>The last byte of an unaligned writer: its used bits, then zeros.\<close>

lemma raw_lastE:
  assumes v: "valid_raw pd" and off: "rbitsOffset pd \<noteq> 0"
  obtains p where "length p = rbitsOffset pd" and "rbytes pd \<noteq> []"
    and "byte_bits (last (rbytes pd)) = p @ replicate (8 - length p) False"
    and "raw_bits pd = bits_of (butlast (rbytes pd)) @ p"
proof -
  let ?off = "rbitsOffset pd" and ?m = "8 * (length (rbytes pd) - 1)"
  define p where "p = drop ?m (raw_bits pd)"
  have ne: "rbytes pd \<noteq> []" and off8: "?off < 8"
    and vb: "bits_of (rbytes pd) = raw_bits pd @ replicate (slack ?off) False"
    using v off by (simp_all add: valid_raw_def)
  have sl: "slack ?off = 8 - ?off" using off off8 by (simp add: slack_pos)
  have lraw: "8 * length (rbytes pd) = length (raw_bits pd) + (8 - ?off)"
    using arg_cong [OF vb, of length] by (simp add: sl)
  have "bits_of (butlast (rbytes pd)) @ byte_bits (last (rbytes pd)) =
      raw_bits pd @ replicate (8 - ?off) False"
    using vb ne by (simp add: bits_of_snoc sl)
  then have bl: "bits_of (butlast (rbytes pd)) = take ?m (raw_bits pd)"
    and last: "byte_bits (last (rbytes pd)) = p @ replicate (8 - ?off) False"
    using lraw ne off off8 unfolding p_def append_eq_conv_conj by (auto simp: neq_Nil_conv)
  have lp: "length p = ?off"
    using arg_cong [OF last, of length] off off8 by simp
  show thesis
    by (rule that [of p]) (use ne last lp in \<open>simp_all add: bl p_def\<close>)
qed

text \<open>What a bit string argument denotes: its first \<open>n\<close> bits, the rest of its last byte zero.\<close>

definition padded :: "u8 list \<Rightarrow> nat \<Rightarrow> bool list \<Rightarrow> bool" where
  "padded bs n b \<longleftrightarrow> length b = n \<and>
     bits_of (take ((n + 7) div 8) bs) = b @ replicate (slack (n mod 8)) False"

lemma padded_length: "padded bs n b \<Longrightarrow> length (take ((n + 7) div 8) bs) = (n + 7) div 8"
  using byte_count [of n] unfolding padded_def
  by (metis length_append length_bits_of length_replicate mult_left_cancel zero_neq_numeral)

lemma putBitString_aligned:
  assumes "rbitsOffset pd = 0" and pad: "padded bs n b" and n: "0 < n"
  obtains pd' where "putBitString bs n pd = Inr pd'" and "valid_raw pd'"
    and "raw_bits pd' = raw_bits pd @ b"
proof -
  let ?pd = "pd\<lparr>rbytes := rbytes pd @ take ((n + 7) div 8) bs, rbitsOffset := n mod 8\<rparr>"
  have "raw_bits ?pd = raw_bits pd @ b \<and> valid_raw ?pd"
    by (rule raw_bits_eqI)
      (use assms padded_length [OF pad] in \<open>auto simp: raw_bits_aligned padded_def\<close>)
  moreover have "putBitString bs n pd = Inr ?pd"
    using assms(1) padded_length [OF pad] by (simp add: putBitString_def Let_def)
  ultimately show thesis using that by blast
qed

lemma putBitString_within:
  assumes v: "valid_raw pd" and off: "rbitsOffset pd \<noteq> 0" and n: "0 < n"
    and small: "n \<le> 8 - rbitsOffset pd" and pad: "padded bs n b"
  obtains pd' where "putBitString bs n pd = Inr pd'" and "valid_raw pd'"
    and "raw_bits pd' = raw_bits pd @ b"
proof -
  let ?off = "rbitsOffset pd"
  let ?y = "drop_bit ?off (bs ! 0)" and ?off' = "(n mod 8 + ?off) mod 8"
  let ?pd = "pd\<lparr>rbytes := or_last (rbytes pd) ?y, rbitsOffset := ?off'\<rparr>"
  obtain p where lp: "length p = ?off" and ne: "rbytes pd \<noteq> []"
    and last: "byte_bits (last (rbytes pd)) = p @ replicate (8 - length p) False"
    and raw: "raw_bits pd = bits_of (butlast (rbytes pd)) @ p"
    using raw_lastE [OF v off] .
  have off8: "?off < 8" using v by (simp add: valid_raw_def)
  have n7: "n \<le> 7" and k1: "(n + 7) div 8 = 1" and lb: "length b = n"
    using small off n pad by (simp_all add: padded_def)
  have one: "take 1 bs = [bs ! 0]"
    using padded_length [OF pad] k1 by (cases bs) simp_all
  then have "byte_bits (bs ! 0) = b @ replicate (8 - n) False"
    using pad k1 n7 n by (simp add: padded_def slack_pos)
  then have "byte_bits ?y = replicate ?off False @ b @ replicate (8 - ?off - n) False"
    using off8 small lb by (simp add: byte_bits_drop_bit)
  with last have "byte_bits (last (rbytes pd) OR ?y) = p @ b @ replicate (8 - ?off - n) False"
    using off8 by (intro byte_or_append) (simp_all add: lp)
  moreover have "8 - ?off - n = slack ?off'"
    using small off n off8 by (cases "n + ?off = 8") (simp_all add: slack_pos)
  ultimately have "raw_bits ?pd = raw_bits pd @ b \<and> valid_raw ?pd"
    by (intro raw_bits_eqI) (simp_all add: or_last_snoc ne raw)
  moreover have "putBitString bs n pd = Inr ?pd"
    using off off8 small ne k1 one by (cases bs) (simp_all add: putBitString_def Let_def usub_def)
  ultimately show thesis using that by blast
qed

lemma byte_bits_0: "byte_bits 0 = replicate 8 False"
  by (rule nth_equalityI) (simp_all add: nth_byte_bits)

lemma putBitString_across:
  assumes v: "valid_raw pd" and off: "rbitsOffset pd \<noteq> 0"
    and large: "8 - rbitsOffset pd < n" and pad: "padded bs n b"
  obtains pd' where "putBitString bs n pd = Inr pd'" and "valid_raw pd'"
    and "raw_bits pd' = raw_bits pd @ b"
proof -
  let ?off = "rbitsOffset pd" and ?k = "(n + 7) div 8"
  let ?src = "0 # take ?k bs" and ?off' = "(n mod 8 + ?off) mod 8"
  let ?z = "replicate (slack ((?off + n) mod 8)) False"
  obtain p where lp: "length p = ?off" and ne: "rbytes pd \<noteq> []"
    and last: "byte_bits (last (rbytes pd)) = p @ replicate (8 - length p) False"
    and raw: "raw_bits pd = bits_of (butlast (rbytes pd)) @ p"
    using raw_lastE [OF v off] .
  have off8: "?off < 8" using v by (simp add: valid_raw_def)
  have lk: "length (take ?k bs) = ?k" using pad by (rule padded_length)
  have lb: "length b = n" using pad by (simp add: padded_def)
  have fits: "(8 - ?off) + (?off + n) \<le> 8 * length ?src"
    using off8 byte_count [of n] by (simp add: lk del: length_take)
  have "8 - ?off < 8" "0 < ?off + n" using off by simp_all
  from GetBitString_bits [OF this fits] obtain d where
    d: "GetBitString ?src (8 - ?off) (?off + n) = Inr d" and ld: "length d = (?off + n + 7) div 8"
    and db: "bits_of d = take (?off + n) (drop (8 - ?off) (bits_of ?src)) @ ?z" .
  have "bits_of ?src = replicate 8 False @ b @ replicate (slack (n mod 8)) False"
    using pad by (simp add: padded_def byte_bits_0)
  then have db': "bits_of d = (replicate ?off False @ take (8 - ?off) b) @ (drop (8 - ?off) b @ ?z)"
    using db off8 lb by simp
  have dne: "d \<noteq> []" using ld off by auto
  then have "byte_bits (d ! 0) @ bits_of (tl d) =
      (replicate ?off False @ take (8 - ?off) b) @ (drop (8 - ?off) b @ ?z)"
    using db' by (cases d) simp_all
  moreover have "length (byte_bits (d ! 0)) = length (replicate ?off False @ take (8 - ?off) b)"
    using large lb off8 by simp
  ultimately have hd: "byte_bits (d ! 0) = replicate ?off False @ take (8 - ?off) b"
    and tl: "bits_of (tl d) = drop (8 - ?off) b @ ?z"
    using append_eq_append_conv by blast+
  let ?pd = "pd\<lparr>rbytes := or_last (rbytes pd) (d ! 0) @ tl d, rbitsOffset := ?off'\<rparr>"
  have "byte_bits (last (rbytes pd) OR d ! 0) = p @ take (8 - ?off) b"
    using last hd off8 by (intro byte_or_append) (simp_all add: lp)
  moreover have "(?off + n) mod 8 = ?off'" by presburger
  moreover have "take (8 - ?off) b @ drop (8 - ?off) b @ w = b @ w" for w
    by (metis append_assoc append_take_drop_id)
  ultimately have "raw_bits ?pd = raw_bits pd @ b \<and> valid_raw ?pd"
    by (intro raw_bits_eqI) (simp_all add: or_last_snoc ne raw tl)
  moreover have "putBitString bs n pd = Inr ?pd"
    using off off8 lk large ne dne d by (simp add: putBitString_def Let_def usub_def)
  ultimately show thesis using that by blast
qed

text \<open>What the writer appends is the bit string.\<close>

theorem putBitString_bits:
  assumes v: "valid_raw pd" and n: "0 < n" and pad: "padded bs n b"
  obtains pd' where "putBitString bs n pd = Inr pd'" and "valid_raw pd'"
    and "raw_bits pd' = raw_bits pd @ b"
proof -
  consider "rbitsOffset pd = 0" | "rbitsOffset pd \<noteq> 0" "n \<le> 8 - rbitsOffset pd"
    | "rbitsOffset pd \<noteq> 0" "8 - rbitsOffset pd < n"
    by linarith
  then show thesis
    by cases (use putBitString_aligned putBitString_within putBitString_across that assms in blast)+
qed

text \<open>The buffer \<^verbatim>\<open>putBitsValue\<close> prepares holds the low \<open>n\<close> bits of the value, left aligned.\<close>

lemma bits_of_update_nth:
  "k < 8 * length t \<Longrightarrow> i < length t \<Longrightarrow>
   bits_of (t[i := x]) ! k = (if k div 8 = i then bit x (7 - k mod 8) else bits_of t ! k)"
  by (auto simp: nth_bits_of nth_list_update)

lemma unat_drop_bit_div: "unat (drop_bit k v) = unat v div 2 ^ k"
  by (metis drop_bit_eq_div unat_drop_bit_eq)

lemma put_fill_ok:
  assumes "i \<le> length t" and "unat v < 2 ^ (8 * i)" and "\<forall>j < i. t ! j = 0"
  shows "\<exists>t'. put_fill i v t = Inr t' \<and> length t' = length t \<and> drop i t' = drop i t \<and>
           bits_of (take i t') = nbits (8 * i) (unat v)"
  using assms
proof (induction i arbitrary: v t)
  case 0
  then show ?case by (simp add: nbits_def word_neq_0_conv unat_eq_0)
next
  case (Suc i)
  show ?case
  proof (cases "v = 0")
    case True
    have "take (Suc i) t = replicate (Suc i) 0"
      by (rule nth_equalityI) (use Suc.prems in \<open>auto simp del: replicate.simps\<close>)
    moreover have "bits_of (replicate m 0) = replicate (8 * m) False" for m
      by (induction m) (simp_all add: byte_bits_0 replicate_add)
    moreover have "nbits m 0 = replicate m False" for m
      by (rule nth_equalityI) (simp_all add: nth_nbits)
    ultimately show ?thesis using True by (simp del: replicate.simps)
  next
    case False
    let ?t = "t[i := ucast v]" and ?v = "drop_bit 8 v"
    have "unat ?v = unat v div 2 ^ 8"
      by (rule unat_drop_bit_div)
    then have "unat ?v < 2 ^ (8 * i)"
      using Suc.prems(2) by (simp add: less_mult_imp_div_less power_add mult.commute)
    moreover have "\<forall>j < i. ?t ! j = 0" using Suc.prems(3) by simp
    ultimately obtain t' where t': "put_fill i ?v ?t = Inr t'" "length t' = length t"
      and dr: "drop i t' = drop i ?t" and bt: "bits_of (take i t') = nbits (8 * i) (unat ?v)"
      using Suc.IH [of ?t ?v] Suc.prems(1) by auto
    have il: "i < length t" using Suc.prems(1) by simp
    have "t' ! i = ucast v"
      using arg_cong [OF dr, of hd] t'(2) il by (simp add: hd_drop_conv_nth)
    then have "bits_of (take (Suc i) t') = nbits (8 * i) (unat ?v) @ byte_bits (ucast v)"
      using t'(2) il bt by (simp add: take_Suc_conv_app_nth)
    also have "\<dots> = nbits (8 * Suc i) (unat v)"
      by (rule nth_equalityI)
        (auto simp: nth_append nth_nbits nth_byte_bits unat_drop_bit_eq bit_drop_bit_eq
           bit_ucast_iff bit_unsigned_iff algebra_simps)
    finally have "bits_of (take (Suc i) t') = nbits (8 * Suc i) (unat v)" .
    moreover have "drop (Suc i) t' = drop (Suc i) t"
      using arg_cong [OF dr, of "drop 1"] by (simp add: drop_update_cancel)
    ultimately show ?thesis
      using t' False by (simp add: word_neq_0_conv)
  qed
qed

lemma value_buffer:
  assumes n: "0 < n" and v: "unat v < 2 ^ n"
  obtains t where
    "put_fill ((n + 7) div 8 - 1) (drop_bit (if n mod 8 = 0 then 8 else n mod 8) v)
       ((replicate ((n + 7) div 8) 0)
         [(n + 7) div 8 - 1 := ucast (push_bit (8 - (if n mod 8 = 0 then 8 else n mod 8)) v)]) = Inr t"
    and "padded t n (nbits n (unat v))"
proof -
  define bo where "bo = (if n mod 8 = 0 then 8 else n mod 8)"
  define q where "q = (n + 7) div 8 - 1"
  have bo: "0 < bo" "bo \<le> 8"
    by (simp_all add: bo_def less_imp_le)
  have "0 < (n + 7) div 8" using n less_ceil8 [of 0 n] by simp
  then have k: "(n + 7) div 8 = Suc q" by (simp add: q_def)
  have "slack (n mod 8) = 8 - bo"
    using bo by (simp add: bo_def slack_def)
  then have nq: "n = 8 * q + bo"
    using byte_count [of n] k bo by simp
  let ?x = "ucast (push_bit (8 - bo) v) :: u8"
  let ?t = "(replicate (Suc q) 0)[q := ?x]"
  have vs: "unat (drop_bit bo v) = unat v div 2 ^ bo"
    by (rule unat_drop_bit_div)
  have "unat (drop_bit bo v) < 2 ^ (8 * q)"
    using v unfolding vs nq by (simp add: less_mult_imp_div_less power_add mult.commute)
  moreover have "\<forall>j < q. ?t ! j = 0"
    by (simp del: replicate.simps)
  ultimately obtain t where t: "put_fill q (drop_bit bo v) ?t = Inr t" and lt: "length t = Suc q"
    and dr: "drop q t = drop q ?t" and bt: "bits_of (take q t) = nbits (8 * q) (unat (drop_bit bo v))"
    using put_fill_ok [of q ?t "drop_bit bo v"] by (auto simp del: replicate.simps)
  have "t ! q = ?x"
    using arg_cong [OF dr, of hd] lt by (simp add: hd_drop_conv_nth del: replicate.simps)
  then have "bits_of t = nbits (8 * q) (unat (drop_bit bo v)) @ byte_bits ?x"
    using lt bt by (metis append_Nil2 bits_of_Cons bits_of_Nil bits_of_append lessI take_Suc_conv_app_nth take_all_iff order_refl)
  also have "\<dots> = nbits n (unat v) @ replicate (8 - bo) False"
    by (rule nth_equalityI)
      (use bo in \<open>auto simp: nq nth_append nth_nbits nth_byte_bits unat_drop_bit_eq bit_drop_bit_eq
         bit_ucast_iff bit_unsigned_iff bit_push_bit_iff algebra_simps\<close>)
  also have "8 - bo = slack (n mod 8)"
    using n by (simp add: bo_def slack_def)
  finally have "padded t n (nbits n (unat v))"
    using lt k by (simp add: padded_def)
  with t show thesis
    using that by (simp add: k flip: bo_def)
qed

theorem putBitsValue_bits:
  assumes v: "valid_raw pd" and val: "unat x < 2 ^ n"
  obtains pd' where "putBitsValue x n pd = Inr pd'" and "valid_raw pd'"
    and "raw_bits pd' = raw_bits pd @ nbits n (unat x)"
proof (cases "n = 0")
  case True
  then show thesis using that [of pd] v by (simp add: putBitsValue_def nbits_def)
next
  case False
  then obtain t where t: "put_fill ((n + 7) div 8 - 1) (drop_bit (if n mod 8 = 0 then 8 else n mod 8) x)
       ((replicate ((n + 7) div 8) 0)
         [(n + 7) div 8 - 1 := ucast (push_bit (8 - (if n mod 8 = 0 then 8 else n mod 8)) x)]) = Inr t"
    and pad: "padded t n (nbits n (unat x))"
    using value_buffer [of n x] val by blast
  have "0 < n" using False by simp
  from putBitString_bits [OF v this pad] obtain pd' where
    "putBitString t n pd = Inr pd'" "valid_raw pd'" "raw_bits pd' = raw_bits pd @ nbits n (unat x)" .
  moreover have "putBitsValue x n pd = putBitString t n pd"
    using False t by (simp only: putBitsValue_def Let_def if_False sum.case)
  ultimately show thesis using that by simp
qed

end
