(* ===== verification/Aper_Codec.thy ===== *)
theory Aper_Codec
  imports Aper_Writer
begin

text \<open>
  The contract between the two halves of the codec. A type of the codec is an encoding of its
  values as bits, which may depend on the bit phase because the aligned variant pads, together
  with the function that writes it and the function that reads it back.
\<close>

section \<open>Reading at a position\<close>

lemma reader_simps [simp]:
  "bytes (reader buf p) = buf"
  "byteOffset (reader buf p) = p div 8"
  "bitsOffset (reader buf p) = p mod 8"
  by (simp_all add: reader_def)

lemma bitCarry_reader:
  "bitCarry \<lparr>bytes = buf, byteOffset = p div 8, bitsOffset = p mod 8 + n\<rparr> = reader buf (p + n)"
proof -
  have "(p + n) div 8 = p div 8 + (p mod 8 + n) div 8"
    using div_mult_self2 [of 8 "p mod 8 + n" "p div 8"] by simp
  then show ?thesis
    by (simp add: bitCarry_def reader_def mod_simps)
qed

lemma drop_reader: "drop (p mod 8) (bits_of (drop (p div 8) buf)) = drop p (bits_of buf)"
  by (simp add: bits_of_drop add.commute)

lemma reader_room:
  "p + n \<le> 8 * length buf \<Longrightarrow> p mod 8 + n \<le> 8 * length (drop (p div 8) buf)"
proof -
  assume "p + n \<le> 8 * length buf"
  moreover have "8 * (p div 8) + p mod 8 = p" by simp
  ultimately show ?thesis by (simp only: length_drop diff_mult_distrib2)
qed

lemma reader_inside: "0 < n \<Longrightarrow> p + n \<le> 8 * length buf \<Longrightarrow> \<not> length buf < p div 8"
  by (simp add: not_less)

lemma getBitsValue_reader:
  assumes n: "0 < n" and fits: "p + n \<le> 8 * length buf"
  shows "getBitsValue n (reader buf p) =
    Inr (of_nat (val_of (take n (drop p (bits_of buf)))), reader buf (p + n))"
  using GetBitsValue_val [OF _ n reader_room [OF fits]] reader_inside [OF n fits]
  by (simp add: getBitsValue_def drop_reader bitCarry_reader reader_def [of buf p])

lemma getBitString_reader:
  assumes n: "0 < n" and fits: "p + n \<le> 8 * length buf"
  obtains d where "getBitString n (reader buf p) = Inr (d, reader buf (p + n))"
    and "length d = (n + 7) div 8"
    and "bits_of d = take n (drop p (bits_of buf)) @ replicate (slack (n mod 8)) False"
proof -
  obtain d where "GetBitString (drop (p div 8) buf) (p mod 8) n = Inr d" "length d = (n + 7) div 8"
    "bits_of d = take n (drop p (bits_of buf)) @ replicate (slack (n mod 8)) False"
    using GetBitString_bits [OF _ n reader_room [OF fits]] by (auto simp: drop_reader)
  with that reader_inside [OF n fits] show thesis
    by (simp add: getBitString_def bitCarry_reader reader_def [of buf p])
qed

lemma prefix_room:
  assumes "prefix b (drop p (bits_of buf))" and "b \<noteq> []"
  shows "p + length b \<le> 8 * length buf"
proof -
  have "length b \<le> 8 * length buf - p"
    using prefix_length_le [OF assms(1)] by simp
  moreover have "0 < length b"
    using assms(2) by simp
  ultimately show ?thesis by linarith
qed

lemma prefix_take: "prefix b xs \<Longrightarrow> take (length b) xs = b"
  by (auto simp: prefix_def)

lemma prefix_append_drop:
  "prefix (a @ b) (drop p xs) \<longleftrightarrow> prefix a (drop p xs) \<and> prefix b (drop (p + length a) xs)"
proof -
  define ys where "ys = drop p xs"
  have "drop (p + length a) xs = drop (length a) ys"
    by (simp add: ys_def add.commute)
  then show ?thesis by (auto simp: prefix_def simp flip: ys_def)
qed

text \<open>Reading a number that was written with \<open>n\<close> bits.\<close>

lemma getBitsValue_nbits:
  assumes n: "0 < n" and v: "unat v < 2 ^ n" and b: "prefix (nbits n (unat v)) (drop p (bits_of buf))"
  shows "getBitsValue n (reader buf p) = Inr (v, reader buf (p + n))"
proof -
  have ne: "nbits n (unat v) \<noteq> []"
    using n length_nbits [of n "unat v"] by fastforce
  have "take n (drop p (bits_of buf)) = nbits n (unat v)"
    using prefix_take [OF b] by simp
  then show ?thesis
    using getBitsValue_reader [OF n] prefix_room [OF b ne] v by (simp add: val_of_nbits)
qed

section \<open>Alignment\<close>

definition align :: "nat \<Rightarrow> bool list" where
  "align off = replicate (slack off) False"

lemma length_align [simp]: "length (align off) = slack off"
  by (simp add: align_def)

lemma align_0 [simp]: "align 0 = []"
  by (simp add: align_def)

lemma aligned_mod [simp]: "(p + slack (p mod 8)) mod 8 = 0"
proof -
  have "(p mod 8 + slack (p mod 8)) mod 8 = 0"
    by (cases "p mod 8 = 0") (simp_all add: slack_pos)
  then show ?thesis by (simp only: mod_add_left_eq)
qed

lemma appendAlignBits_bits:
  assumes "valid_raw pd"
  shows "valid_raw (appendAlignBits pd)"
    and "raw_bits (appendAlignBits pd) = raw_bits pd @ align (rbitsOffset pd)"
    and "rbitsOffset (appendAlignBits pd) = 0"
  using assms
  by (simp_all add: appendAlignBits_def valid_raw_aligned raw_bits_aligned align_def valid_raw_def)

lemma parseAlignBits_reader:
  assumes b: "prefix (align (p mod 8)) (drop p (bits_of buf))"
  shows "parseAlignBits (reader buf p) = Inr (reader buf (p + slack (p mod 8)))"
proof (cases "p mod 8 = 0")
  case True
  then show ?thesis by (simp add: parseAlignBits_def)
next
  case False
  let ?n = "8 - p mod 8"
  have sl: "slack (p mod 8) = ?n" using False by (simp add: slack_pos)
  have "nbits ?n (unat (0 :: u64)) = align (p mod 8)"
    by (rule nth_equalityI) (simp_all add: nth_nbits align_def sl)
  then have "getBitsValue ?n (reader buf p) = Inr (0, reader buf (p + ?n))"
    using b by (intro getBitsValue_nbits) simp_all
  with False sl show ?thesis by (simp add: parseAlignBits_def)
qed

section \<open>The contract\<close>

locale per_codec =
  fixes enc :: "nat \<Rightarrow> 'v \<Rightarrow> bool list"
    and put :: "'w \<Rightarrow> perRawBitData \<Rightarrow> perRawBitData res"
    and get :: "perBitData \<Rightarrow> ('w \<times> perBitData) res"
    and val :: "'w \<Rightarrow> 'v"
    and ok :: "'w \<Rightarrow> bool"
  assumes put_enc: "\<lbrakk>valid_raw pd; ok w\<rbrakk> \<Longrightarrow>
      \<exists>pd'. put w pd = Inr pd' \<and> valid_raw pd' \<and> raw_bits pd' = raw_bits pd @ enc (rbitsOffset pd) (val w)"
    and get_enc: "\<lbrakk>ok w; prefix (enc (p mod 8) (val w)) (drop p (bits_of buf))\<rbrakk> \<Longrightarrow>
      \<exists>w'. get (reader buf p) = Inr (w', reader buf (p + length (enc (p mod 8) (val w)))) \<and> val w' = val w"
begin

text \<open>What was written is read back, from any buffer that goes on after it.\<close>

lemma round_trip:
  assumes "valid_raw pd" and "ok w" and "put w pd = Inr pd'" and "prefix (raw_bits pd') (bits_of buf)"
  shows "\<exists>w'. get (reader buf (length (raw_bits pd))) = Inr (w', reader buf (length (raw_bits pd')))
    \<and> val w' = val w"
proof -
  let ?p = "length (raw_bits pd)" and ?e = "enc (rbitsOffset pd) (val w)"
  have raw: "raw_bits pd' = raw_bits pd @ ?e"
    using put_enc [OF assms(1,2)] assms(3) by auto
  have "prefix ?e (drop ?p (bits_of buf))"
    using assms(4) unfolding raw by (auto simp: prefix_def)
  then show ?thesis
    using get_enc [OF assms(2), of ?p buf] length_raw_bits [OF assms(1)] raw by simp
qed

lemma round_trip_total:
  assumes "valid_raw pd" and "ok w"
  shows "\<exists>pd'. put w pd = Inr pd' \<and> valid_raw pd' \<and>
    (\<forall>buf. prefix (raw_bits pd') (bits_of buf) \<longrightarrow>
      (\<exists>w'. get (reader buf (length (raw_bits pd))) = Inr (w', reader buf (length (raw_bits pd'))) \<and>
        val w' = val w))"
  using put_enc [OF assms] round_trip [OF assms] by blast

text \<open>No encoding is a proper prefix of another one's, nor do two values share one.\<close>

lemma enc_prefix_free:
  assumes "ok w" and "ok v" and "prefix (enc (p mod 8) (val w)) (enc (p mod 8) (val v))"
    and "prefix (enc (p mod 8) (val v)) (drop p (bits_of buf))"
  shows "val w = val v"
proof -
  have "prefix (enc (p mod 8) (val w)) (drop p (bits_of buf))"
    using assms(3,4) by (rule prefix_order.trans)
  from get_enc [OF assms(1) this] get_enc [OF assms(2,4)] show ?thesis by auto
qed

end

section \<open>Element loops\<close>

text \<open>
  The loops of both \<^verbatim>\<open>parseSequenceOf\<close> functions over the elements, for the element's own
  \<^verbatim>\<open>makeField\<close> and \<^verbatim>\<open>parseField\<close>.
\<close>

fun put_all :: "('w \<Rightarrow> perRawBitData \<Rightarrow> perRawBitData res) \<Rightarrow> 'w list \<Rightarrow> perRawBitData \<Rightarrow>
    perRawBitData res" where
  "put_all put [] pd = Inr pd"
| "put_all put (w # ws) pd = rbind (put w pd) (put_all put ws)"

fun get_all :: "(perBitData \<Rightarrow> ('w \<times> perBitData) res) \<Rightarrow> nat \<Rightarrow> perBitData \<Rightarrow>
    ('w list \<times> perBitData) res" where
  "get_all get 0 pd = Inr ([], pd)"
| "get_all get (Suc n) pd =
     rbind (get pd) (\<lambda>(w, pd). rbind (get_all get n pd) (\<lambda>(ws, pd). Inr (w # ws, pd)))"

fun enc_all :: "(nat \<Rightarrow> 'v \<Rightarrow> bool list) \<Rightarrow> nat \<Rightarrow> 'v list \<Rightarrow> bool list" where
  "enc_all enc off [] = []"
| "enc_all enc off (v # vs) = enc off v @ enc_all enc ((off + length (enc off v)) mod 8) vs"

lemma raw_offset_append:
  "valid_raw pd \<Longrightarrow> valid_raw pd' \<Longrightarrow> raw_bits pd' = raw_bits pd @ b \<Longrightarrow>
   rbitsOffset pd' = (rbitsOffset pd + length b) mod 8"
  by (metis length_append length_raw_bits mod_add_left_eq)

context per_codec
begin

lemma put_all_enc:
  "\<lbrakk>valid_raw pd; list_all ok ws\<rbrakk> \<Longrightarrow>
   \<exists>pd'. put_all put ws pd = Inr pd' \<and> valid_raw pd' \<and>
     raw_bits pd' = raw_bits pd @ enc_all enc (rbitsOffset pd) (map val ws)"
proof (induction ws arbitrary: pd)
  case Nil
  then show ?case by simp
next
  case (Cons w ws)
  then obtain pd1 where pd1: "put w pd = Inr pd1" "valid_raw pd1"
    "raw_bits pd1 = raw_bits pd @ enc (rbitsOffset pd) (val w)"
    using put_enc [of pd w] by auto
  moreover obtain pd2 where "put_all put ws pd1 = Inr pd2" "valid_raw pd2"
    "raw_bits pd2 = raw_bits pd1 @ enc_all enc (rbitsOffset pd1) (map val ws)"
    using Cons.IH [OF pd1(2)] Cons.prems(2) by auto
  ultimately show ?case
    using raw_offset_append [OF Cons.prems(1) pd1(2,3)] by simp
qed

lemma get_all_enc:
  "\<lbrakk>list_all ok ws; prefix (enc_all enc (p mod 8) (map val ws)) (drop p (bits_of buf))\<rbrakk> \<Longrightarrow>
   \<exists>ws'. get_all get (length ws) (reader buf p) =
       Inr (ws', reader buf (p + length (enc_all enc (p mod 8) (map val ws)))) \<and> map val ws' = map val ws"
proof (induction ws arbitrary: p)
  case Nil
  then show ?case by simp
next
  case (Cons w ws)
  let ?e = "enc (p mod 8) (val w)"
  have pre: "prefix ?e (drop p (bits_of buf))"
    and rest: "prefix (enc_all enc ((p + length ?e) mod 8) (map val ws)) (drop (p + length ?e) (bits_of buf))"
    using Cons.prems(2) by (simp_all add: prefix_append_drop mod_add_left_eq)
  obtain w' where "get (reader buf p) = Inr (w', reader buf (p + length ?e))" "val w' = val w"
    using get_enc [OF _ pre] Cons.prems(1) by auto
  with Cons.IH [OF _ rest] Cons.prems(1) show ?case
    by (auto simp: mod_add_left_eq add.assoc)
qed

text \<open>A list of known length is a type of the codec again.\<close>

lemma per_codec_all:
  "per_codec (enc_all enc) (put_all put) (get_all get n) (map val) (\<lambda>ws. length ws = n \<and> list_all ok ws)"
  by unfold_locales (use put_all_enc get_all_enc in auto)

end

section \<open>Writing and reading in steps\<close>

text \<open>A number in a fixed field, and what a writer adds to a valid state.\<close>

definition emits :: "perRawBitData res \<Rightarrow> perRawBitData \<Rightarrow> bool list \<Rightarrow> bool" where
  "emits r pd b \<longleftrightarrow> (\<exists>pd'. r = Inr pd' \<and> valid_raw pd' \<and> raw_bits pd' = raw_bits pd @ b)"

lemma emits_putBitsValue:
  "valid_raw pd \<Longrightarrow> unat v < 2 ^ n \<Longrightarrow> emits (putBitsValue v n pd) pd (nbits n (unat v))"
  using putBitsValue_bits [of pd v n] unfolding emits_def by blast

lemma emits_aligned:
  "valid_raw pd \<Longrightarrow> emits r (appendAlignBits pd) b \<Longrightarrow> emits r pd (align (rbitsOffset pd) @ b)"
  by (simp add: emits_def appendAlignBits_bits)

lemma emits_rbind:
  assumes "emits r pd a" and "valid_raw pd"
    and "\<And>pd'. valid_raw pd' \<Longrightarrow> rbitsOffset pd' = (rbitsOffset pd + length a) mod 8 \<Longrightarrow> emits (f pd') pd' b"
  shows "emits (rbind r f) pd (a @ b)"
proof -
  obtain pd' where pd': "r = Inr pd'" "valid_raw pd'" "raw_bits pd' = raw_bits pd @ a"
    using assms(1) by (auto simp: emits_def)
  then have "emits (f pd') pd' b"
    using assms(2,3) raw_offset_append by blast
  with pd' show ?thesis by (auto simp: emits_def)
qed

text \<open>What a reader does at a position: \<open>w\<close> and the position after the bits \<open>b\<close>.\<close>

definition fetches :: "('w \<times> perBitData) res \<Rightarrow> u8 list \<Rightarrow> nat \<Rightarrow> bool list \<Rightarrow> 'w \<Rightarrow> bool" where
  "fetches r buf p b w \<longleftrightarrow> r = Inr (w, reader buf (p + length b))"

lemma fetches_getBitsValue:
  "0 < n \<Longrightarrow> unat v < 2 ^ n \<Longrightarrow> prefix (nbits n (unat v)) (drop p (bits_of buf)) \<Longrightarrow>
   fetches (getBitsValue n (reader buf p)) buf p (nbits n (unat v)) v"
  by (simp add: fetches_def getBitsValue_nbits)

lemma fetches_aligned:
  assumes "prefix (align (p mod 8) @ b) (drop p (bits_of buf))"
    and "\<And>q. q mod 8 = 0 \<Longrightarrow> prefix b (drop q (bits_of buf)) \<Longrightarrow> fetches (f (reader buf q)) buf q b w"
  shows "fetches (rbind (parseAlignBits (reader buf p)) f) buf p (align (p mod 8) @ b) w"
  using assms(1) assms(2) [of "p + slack (p mod 8)"]
  by (simp add: prefix_append_drop parseAlignBits_reader fetches_def add.assoc)

lemma fetches_rbind:
  assumes "fetches r buf p a v" and "prefix (a @ b) (drop p (bits_of buf))"
    and "\<And>q. q mod 8 = (p + length a) mod 8 \<Longrightarrow> prefix b (drop q (bits_of buf)) \<Longrightarrow>
           fetches (f (v, reader buf q)) buf q b w"
  shows "fetches (rbind r f) buf p (a @ b) w"
  using assms(1,2) assms(3) [of "p + length a"]
  by (simp add: fetches_def prefix_append_drop add.assoc)

lemma per_codecI:
  assumes "\<And>pd w. valid_raw pd \<Longrightarrow> ok w \<Longrightarrow> emits (put w pd) pd (enc (rbitsOffset pd) (val w))"
    and "\<And>p w buf. ok w \<Longrightarrow> prefix (enc (p mod 8) (val w)) (drop p (bits_of buf)) \<Longrightarrow>
      \<exists>w'. fetches (get (reader buf p)) buf p (enc (p mod 8) (val w)) w' \<and> val w' = val w"
  shows "per_codec enc put get val ok"
  by unfold_locales (use assms in \<open>auto simp: emits_def fetches_def\<close>)

lemma emits_bytes:
  "rbitsOffset pd = 0 \<Longrightarrow> emits (Inr (pd\<lparr>rbytes := rbytes pd @ bs\<rparr>)) pd (bits_of bs)"
  by (simp add: emits_def valid_raw_aligned raw_bits_aligned)

lemma read_bytes:
  assumes q: "q mod 8 = 0" and b: "prefix (bits_of bs) (drop q (bits_of buf))" and ne: "bs \<noteq> []"
  shows "take (length bs) (drop (q div 8) buf) = bs" and "q div 8 + length bs \<le> length buf"
proof -
  have q8: "8 * (q div 8) = q" using q by presburger
  have "bits_of bs \<noteq> []" using ne by (metis bits_of_Nil length_0_conv length_bits_of mult_is_0 zero_neq_numeral)
  from prefix_room [OF b this] have "q + 8 * length bs \<le> 8 * length buf" by simp
  then show room: "q div 8 + length bs \<le> length buf" using q8 by linarith
  show "take (length bs) (drop (q div 8) buf) = bs"
  proof (rule bits_of_inj)
    show "length (take (length bs) (drop (q div 8) buf)) = length bs" using room by simp
    show "bits_of (take (length bs) (drop (q div 8) buf)) = bits_of bs"
      using prefix_take [OF b] by (simp add: bits_of_take bits_of_drop q8)
  qed
qed

lemma reader_advance:
  "(reader buf q)\<lparr>byteOffset := q div 8 + n\<rparr> = reader buf (q + 8 * n)"
  by (simp add: reader_def)

lemma byte_bits_of_nat: "n < 256 \<Longrightarrow> byte_bits (of_nat n) = nbits 8 n"
  by (rule nth_equalityI) (auto simp: nth_byte_bits nth_nbits bit_of_nat_iff)

lemma emits_realigned:
  "valid_raw pd \<Longrightarrow> rbitsOffset pd = 0 \<Longrightarrow> emits r (appendAlignBits pd) b \<Longrightarrow> emits r pd b"
  using emits_aligned [of pd r b] by simp

end
