(* ===== verification/Aper_Prim.thy ===== *)
theory Aper_Prim
  imports Aper_Codec
begin

text \<open>
  The first primitive types of the aligned PER codec: constrained whole numbers, lengths,
  BOOLEAN, ENUMERATED and CHOICE indices, each as the pair of functions
  \<^verbatim>\<open>lib/aper/marshal.go\<close> and \<^verbatim>\<open>lib/aper/aper.go\<close> have, and each a \<open>per_codec\<close>. Bounds are the optional
  \<^verbatim>\<open>*int64\<close> of a struct tag; \<^verbatim>\<open>int64\<close> values are integers kept in range by \<open>i64\<close>, \<^verbatim>\<open>uint64\<close>
  values are words.
\<close>

unbundle bit_operations_syntax

section \<open>Constrained whole numbers and lengths\<close>

text \<open>\<^verbatim>\<open>for i = 1; i <= 8; i++ { if 1 << i >= valueRange { break } }\<close>\<close>

function range_bits_from :: "nat \<Rightarrow> int \<Rightarrow> nat" where
  "range_bits_from i valueRange =
     (if i \<le> 8 then (if 2 ^ i \<ge> valueRange then i else range_bits_from (Suc i) valueRange) else i)"
  by auto
termination
  by (relation "measure (\<lambda>(i, _). 9 - i)") auto

definition range_bits :: "int \<Rightarrow> nat" where
  "range_bits valueRange = range_bits_from 1 valueRange"

definition parseConstraintValue :: "int \<Rightarrow> perBitData \<Rightarrow> (u64 \<times> perBitData) res" where
  "parseConstraintValue valueRange pd =
     (if valueRange \<le> 255 then
        if valueRange < 0 then Inl (Fail ''Value range is negative'')
        else getBitsValue (range_bits valueRange) pd
      else if valueRange > 65536 then Inl (Fail ''Constraint Value is large than 65536'')
      else
        let bytes = (if valueRange = 256 then 1 else 2) in
        rbind (parseAlignBits pd) (getBitsValue (bytes * 8)))"

definition appendConstraintValue :: "int \<Rightarrow> u64 \<Rightarrow> perRawBitData \<Rightarrow> perRawBitData res" where
  "appendConstraintValue valueRange value pd =
     (if valueRange \<le> 255 then
        if valueRange < 0 then Inl (Fail ''Value range is negative'')
        else putBitsValue value (range_bits valueRange) pd
      else if valueRange > 65536 then Inl (Fail ''Constraint Value is large than 65536'')
      else
        let bytes = (if valueRange = 256 then 1 else 2) in
        putBitsValue value (bytes * 8) (appendAlignBits pd))"

text \<open>The Boolean result is the \<^verbatim>\<open>*repeat\<close> the Go function sets: another fragment follows.\<close>

definition parseLength :: "int \<Rightarrow> perBitData \<Rightarrow> ((u64 \<times> bool) \<times> perBitData) res" where
  "parseLength sizeRange pd =
     (if sizeRange \<le> 65536 \<and> sizeRange > 0 then
        rbind (parseConstraintValue sizeRange pd) (\<lambda>(value, pd). Inr ((value, False), pd))
      else
        rbind (parseAlignBits pd) (\<lambda>pd.
        rbind (getBitsValue 8 pd) (\<lambda>(firstByte, pd).
          if firstByte AND 128 = 0 then Inr ((firstByte AND 0x7F, False), pd)
          else if firstByte AND 64 = 0 then
            rbind (getBitsValue 8 pd) (\<lambda>(secondByte, pd).
              Inr ((push_bit 8 (firstByte AND 63) OR secondByte, False), pd))
          else
            let firstByte = firstByte AND 63 in
            if firstByte < 1 \<or> firstByte > 4 then Inl (Fail ''Parse Length Out of Constraint'')
            else Inr ((16384 * firstByte, True), pd))))"

definition appendLength :: "int \<Rightarrow> u64 \<Rightarrow> perRawBitData \<Rightarrow> perRawBitData res" where
  "appendLength sizeRange value pd =
     (if sizeRange \<le> 65536 \<and> sizeRange > 0 then appendConstraintValue sizeRange value pd
      else
        let pd = appendAlignBits pd in
        if value \<le> 127 then putBitsValue value 8 pd
        else if value \<le> 16383 then putBitsValue (value OR 0x8000) 16 pd
        else putBitsValue (drop_bit 14 value OR 0xc0) 8 pd)"

section \<open>BOOLEAN, ENUMERATED, CHOICE\<close>

definition parseBool :: "perBitData \<Rightarrow> (bool \<times> perBitData) res" where
  "parseBool pd = rbind (getBitsValue 1 pd) (\<lambda>(bit, pd). Inr (bit = 1, pd))"

definition appendBool :: "bool \<Rightarrow> perRawBitData \<Rightarrow> perRawBitData res" where
  "appendBool value pd = (if value then putBitsValue 1 1 pd else putBitsValue 0 1 pd)"

definition parseEnumerated ::
  "bool \<Rightarrow> int option \<Rightarrow> int option \<Rightarrow> perBitData \<Rightarrow> (u64 \<times> perBitData) res" where
  "parseEnumerated extensed lowerBoundPtr upperBoundPtr pd =
     (if extensed then Inl (Fail ''Unsupport the extensive value of ENUMERATED '')
      else case (lowerBoundPtr, upperBoundPtr) of
        (Some lb, Some ub) \<Rightarrow>
          let valueRange = i64 (ub - lb + 1) in
          if valueRange > 1 then parseConstraintValue valueRange pd else Inr (0, pd)
      | _ \<Rightarrow> Inl (Fail ''ENUMERATED value constraint is error ''))"

definition appendEnumerated ::
  "u64 \<Rightarrow> bool \<Rightarrow> int option \<Rightarrow> int option \<Rightarrow> perRawBitData \<Rightarrow> perRawBitData res" where
  "appendEnumerated value extensive lowerBoundPtr upperBoundPtr pd =
     (case (lowerBoundPtr, upperBoundPtr) of
        (Some lb, Some ub) \<Rightarrow>
          let signedValue = sint value in
          if signedValue > ub then
            (if extensive then Inl (Fail ''Unsupport the extensive value of ENUMERATED '')
             else Inl (Fail ''ENUMERATED value is larger than upperbound''))
          else if signedValue < lb then Inl (Fail ''ENUMERATED value is smaller than lowerbound'')
          else
            rbind (if extensive then putBitsValue 0 1 pd else Inr pd) (\<lambda>pd.
              let valueRange = i64 (ub - lb + 1) in
              if valueRange > 1 then appendConstraintValue valueRange value pd else Inr pd)
      | _ \<Rightarrow> Inl (Fail ''ENUMERATED value constraint is error ''))"

definition getChoiceIndex :: "bool \<Rightarrow> int option \<Rightarrow> perBitData \<Rightarrow> (int \<times> perBitData) res" where
  "getChoiceIndex extensed upperBoundPtr pd =
     (if extensed then Inl (Fail ''Unsupport value of CHOICE type is in Extensed'')
      else case upperBoundPtr of
        None \<Rightarrow> Inl (Fail ''The upper bound of CHIOCE is missing'')
      | Some ub \<Rightarrow>
          if ub < 0 then Inl (Fail ''The upper bound of CHIOCE is negative'')
          else rbind (parseConstraintValue (i64 (ub + 1)) pd) (\<lambda>(rawChoice, pd).
            Inr (i64 (sint rawChoice + 1), pd)))"

definition appendChoiceIndex :: "int \<Rightarrow> bool \<Rightarrow> int option \<Rightarrow> perRawBitData \<Rightarrow> perRawBitData res" where
  "appendChoiceIndex present extensive upperBoundPtr pd =
     (let rawChoice = i64 (present - 1) in
      case upperBoundPtr of
        None \<Rightarrow> Inl (Fail ''The upper bound of CHIOCE is missing'')
      | Some ub \<Rightarrow>
          if ub < 0 then Inl (Fail ''The upper bound of CHIOCE is negative'')
          else if extensive \<and> rawChoice > ub then
            Inl (Fail ''Unsupport value of CHOICE type is in Extensed'')
          else appendConstraintValue (i64 (ub + 1)) (word_of_int rawChoice) pd)"

text \<open>
  \<^verbatim>\<open>parseField\<close> reads the extension bit itself, before it calls the parser of the type with the
  bit as \<open>extensed\<close>; the encoders write it.
\<close>

definition parse_ext :: "bool \<Rightarrow> (bool \<Rightarrow> perBitData \<Rightarrow> ('w \<times> perBitData) res) \<Rightarrow> perBitData \<Rightarrow>
    ('w \<times> perBitData) res" where
  "parse_ext extensible parse pd =
     (if extensible then rbind (getBitsValue 1 pd) (\<lambda>(bitsValue, pd). parse (bitsValue \<noteq> 0) pd)
      else parse False pd)"

section \<open>Constrained numbers and lengths are types of the codec\<close>

declare range_bits_from.simps [simp del]

lemma range_bits_cases:
  "range_bits r =
     (if r \<le> 2 then 1 else if r \<le> 4 then 2 else if r \<le> 8 then 3 else if r \<le> 16 then 4
      else if r \<le> 32 then 5 else if r \<le> 64 then 6 else if r \<le> 128 then 7
      else if r \<le> 256 then 8 else 9)"
  by (simp add: range_bits_def range_bits_from.simps [of 1] range_bits_from.simps [of 2]
      range_bits_from.simps [of 3] range_bits_from.simps [of 4] range_bits_from.simps [of 5]
      range_bits_from.simps [of 6] range_bits_from.simps [of 7] range_bits_from.simps [of 8]
      range_bits_from.simps [of 9] numeral_2_eq_2 [symmetric] eval_nat_numeral(3) [symmetric]
      del: One_nat_def)

lemma range_bits_bounds:
  "1 \<le> range_bits r"
  "r \<le> 256 \<Longrightarrow> range_bits r \<le> 8"
  "r \<le> 256 \<Longrightarrow> r \<le> 2 ^ range_bits r"
  by (simp_all add: range_bits_cases)

lemma uint_less_unat: "uint v < 2 ^ n \<Longrightarrow> unat v < 2 ^ n" for v :: u64
  by (metis nat_less_numeral_power_cancel_iff unat_eq_nat_uint)

definition enc_constraint :: "int \<Rightarrow> nat \<Rightarrow> u64 \<Rightarrow> bool list" where
  "enc_constraint valueRange off v =
     (if valueRange \<le> 255 then nbits (range_bits valueRange) (unat v)
      else align off @ nbits (if valueRange = 256 then 8 else 16) (unat v))"

lemma range_capacity:
  assumes "uint (v :: u64) < r" and "r \<le> 65536"
  shows "r \<le> 255 \<Longrightarrow> unat v < 2 ^ range_bits r"
    and "unat v < 2 ^ (if r = 256 then 8 else 16)"
    and "0 \<le> r"
proof -
  show "0 \<le> r" using assms(1) uint_ge_0 [of v] by linarith
  show "r \<le> 255 \<Longrightarrow> unat v < 2 ^ range_bits r"
    using assms(1) range_bits_bounds(3) [of r] by (intro uint_less_unat) linarith
  have "uint v < 2 ^ (if r = 256 then 8 else 16)"
    using assms by simp
  then show "unat v < 2 ^ (if r = 256 then 8 else 16)" by (rule uint_less_unat)
qed

interpretation constraint: per_codec "enc_constraint r" "appendConstraintValue r"
  "parseConstraintValue r" id "\<lambda>v. r \<le> 65536 \<and> uint v < r" for r
proof (rule per_codecI)
  fix pd and w :: u64 assume pd: "valid_raw pd" and "r \<le> 65536 \<and> uint w < r"
  then have r: "r \<le> 65536" and w: "uint w < r" by simp_all
  show "emits (appendConstraintValue r w pd) pd (enc_constraint r (rbitsOffset pd) (id w))"
    using emits_putBitsValue [OF pd range_capacity(1) [OF w r]] range_capacity(3) [OF w r] r
      emits_aligned [OF pd emits_putBitsValue [OF appendAlignBits_bits(1) [OF pd] range_capacity(2) [OF w r]]]
    by (auto simp: appendConstraintValue_def enc_constraint_def Let_def)
next
  fix p and w :: u64 and buf assume "r \<le> 65536 \<and> uint w < r"
    and b: "prefix (enc_constraint r (p mod 8) (id w)) (drop p (bits_of buf))"
  then have r: "r \<le> 65536" and w: "uint w < r" by simp_all
  show "\<exists>w'. fetches (parseConstraintValue r (reader buf p)) buf p
      (enc_constraint r (p mod 8) (id w)) w' \<and> id w' = id w"
    using b r w range_capacity [OF w r] range_bits_bounds(1) [of r]
    by (auto simp: parseConstraintValue_def enc_constraint_def Let_def
        intro!: fetches_getBitsValue fetches_aligned split: if_splits)
qed

lemma nbits_append: "nbits (m + k) v = nbits m (v div 2 ^ k) @ nbits k v"
  by (rule nth_equalityI)
    (auto simp: nth_nbits nth_append bit_drop_bit_eq algebra_simps simp flip: drop_bit_eq_div)

definition enc_length :: "int \<Rightarrow> nat \<Rightarrow> u64 \<times> bool \<Rightarrow> bool list" where
  "enc_length sizeRange off l =
     (let v = fst l in
      if sizeRange \<le> 65536 \<and> sizeRange > 0 then enc_constraint sizeRange off v
      else align off @
        (if v \<le> 127 then nbits 8 (unat v)
         else if v \<le> 16383 then nbits 8 (unat (drop_bit 8 (v OR 0x8000))) @ nbits 8 (unat (take_bit 8 v))
         else nbits 8 (unat (drop_bit 14 v OR 0xc0))))"

definition length_ok :: "int \<Rightarrow> u64 \<times> bool \<Rightarrow> bool" where
  "length_ok sizeRange l =
     (if sizeRange \<le> 65536 \<and> sizeRange > 0 then uint (fst l) < sizeRange \<and> \<not> snd l
      else if fst l \<le> 16383 then \<not> snd l
      else fst l \<in> {16384, 32768, 49152, 65536} \<and> snd l)"

lemma take_bit_below: "unat v < 2 ^ n \<Longrightarrow> take_bit n v = v" for v :: u64
  by (simp add: word_unat_eq_iff unsigned_take_bit_eq take_bit_nat_eq_self)

lemma bit_below: "unat v < 2 ^ n \<Longrightarrow> bit v k \<Longrightarrow> k < n" for v :: u64
  by (metis bit_take_bit_iff take_bit_below)

lemma unat_below: "take_bit n v = v \<Longrightarrow> unat v < 2 ^ n" for v :: u64
  by (metis take_bit_nat_less_exp unsigned_take_bit_eq)

lemma short_length:
  assumes "v \<le> (127 :: u64)" shows "unat v < 2 ^ 8" "v AND 128 = 0" "v AND 0x7F = v"
proof -
  have v: "unat v < 2 ^ 7" using assms by (simp add: word_le_nat_alt)
  then show "unat v < 2 ^ 8" by simp
  have "\<not> bit v 7" using bit_below [OF v, of 7] by blast
  then show "v AND 128 = 0" using and_exp_eq_0_iff_not_bit [of v 7] by simp
  have "v AND mask 7 = v" using take_bit_below [OF v] by (simp only: take_bit_eq_mask)
  then show "v AND 0x7F = v" by (simp add: mask_numeral)
qed

text \<open>The two-octet form: the top bit set, the next one clear, the length in the other 14.\<close>

lemma medium_bits:
  assumes v: "unat (v :: u64) < 2 ^ 14" and x: "x = v OR 2 ^ 15"
  shows "unat x < 2 ^ 16" "bit x 15" "\<not> bit x 14"
    "push_bit 8 (take_bit 6 (drop_bit 8 x)) OR take_bit 8 v = v"
    "nbits 8 (unat x) = nbits 8 (unat (take_bit 8 v))"
proof -
  have bx: "bit x k \<longleftrightarrow> bit v k \<or> k = 15" for k
    unfolding x bit_or_iff bit_exp_iff by auto
  note low = bit_below [OF v]
  show "bit x 15" "\<not> bit x 14" using low [of 14] by (auto simp: bx)
  have "take_bit 16 x = x"
    by (rule bit_eqI) (use low in \<open>force simp: bit_take_bit_iff bx\<close>)
  then show "unat x < 2 ^ 16" by (rule unat_below)
  show "push_bit 8 (take_bit 6 (drop_bit 8 x)) OR take_bit 8 v = v"
  proof (rule bit_word_eqI)
    fix n assume "n < LENGTH(64)"
    then show "bit (push_bit 8 (take_bit 6 (drop_bit 8 x)) OR take_bit 8 v) n = bit v n"
      using low [of n]
      by (cases "n < 8") (auto simp: bit_or_iff bit_push_bit_iff bit_take_bit_iff bit_drop_bit_eq bx)
  qed
  show "nbits 8 (unat x) = nbits 8 (unat (take_bit 8 v))"
    by (rule nth_equalityI) (auto simp: nth_nbits bit_unsigned_iff bit_take_bit_iff bx)
qed

lemma medium_length:
  assumes "v \<le> (16383 :: u64)" and x: "x = v OR 0x8000"
  shows "unat x < 2 ^ 16" "drop_bit 8 x AND 128 \<noteq> 0" "drop_bit 8 x AND 64 = 0"
    "push_bit 8 (drop_bit 8 x AND 63) OR take_bit 8 v = v"
    "nbits 16 (unat x) = nbits 8 (unat (drop_bit 8 x)) @ nbits 8 (unat (take_bit 8 v))"
    "unat (drop_bit 8 x) < 2 ^ 8" "unat (take_bit 8 v) < 2 ^ 8"
proof -
  have "unat v < 2 ^ 14" using assms by (simp add: word_le_nat_alt)
  note m = medium_bits [OF this, of x]
  have x': "x = v OR 2 ^ 15" using x by simp
  show "unat x < 2 ^ 16" using m(1) [OF x'] .
  then show "unat (drop_bit 8 x) < 2 ^ 8" by (simp add: unat_drop_bit_div less_mult_imp_div_less)
  show "unat (take_bit 8 v) < 2 ^ 8" by (rule unat_below) simp
  have "drop_bit 8 x AND 2 ^ 7 \<noteq> 0" "drop_bit 8 x AND 2 ^ 6 = 0"
    unfolding and_exp_eq_0_iff_not_bit using m(2,3) [OF x'] by (simp_all add: bit_drop_bit_eq)
  then show "drop_bit 8 x AND 128 \<noteq> 0" "drop_bit 8 x AND 64 = 0" by simp_all
  have "(63 :: u64) = mask 6" by (simp add: mask_numeral)
  then show "push_bit 8 (drop_bit 8 x AND 63) OR take_bit 8 v = v"
    using m(4) [OF x'] by (simp only: take_bit_eq_mask)
  show "nbits 16 (unat x) = nbits 8 (unat (drop_bit 8 x)) @ nbits 8 (unat (take_bit 8 v))"
    using nbits_append [of 8 8 "unat x"] m(5) [OF x'] by (simp add: unat_drop_bit_div)
qed

lemma fragment_length:
  assumes "v \<in> {16384, 32768, 49152, 65536 :: u64}"
  defines "x \<equiv> drop_bit 14 v OR 0xc0"
  shows "unat x < 2 ^ 8" "x AND 128 \<noteq> 0" "x AND 64 \<noteq> 0" "\<not> x AND 63 < 1" "\<not> x AND 63 > 4"
    "16384 * (x AND 63) = v" "\<not> v \<le> 16383"
  using assms by auto

lemma appendLength_emits:
  assumes pd: "valid_raw pd" and ok: "length_ok r (v, rep)"
  shows "emits (appendLength r v pd) pd (enc_length r (rbitsOffset pd) (v, rep))"
proof (cases "r \<le> 65536 \<and> r > 0")
  case True
  with ok constraint.put_enc [OF pd, of r v] show ?thesis
    by (auto simp: appendLength_def enc_length_def length_ok_def emits_def)
next
  case False
  note put = emits_putBitsValue [OF appendAlignBits_bits(1) [OF pd]]
  consider "v \<le> 127" | "\<not> v \<le> 127" "v \<le> 16383" | "v \<in> {16384, 32768, 49152, 65536}"
    using ok False by (auto simp: length_ok_def split: if_splits)
  then show ?thesis
  proof cases
    case 1
    from emits_aligned [OF pd put [OF short_length(1) [OF 1]]] 1 False show ?thesis
      by (simp only: appendLength_def enc_length_def Let_def fst_conv if_False if_True)
  next
    case 2
    note m = medium_length [OF 2(2) refl]
    from emits_aligned [OF pd put [OF m(1)]] 2 False show ?thesis
      by (simp only: m(5) appendLength_def enc_length_def Let_def fst_conv if_False if_True)
  next
    case 3
    note m = fragment_length [OF 3]
    have "\<not> v \<le> 127" using 3 by auto
    with emits_aligned [OF pd put [OF m(1)]] m(7) False show ?thesis
      by (simp only: appendLength_def enc_length_def Let_def fst_conv if_False if_True)
  qed
qed

lemma parseLength_fetches:
  assumes ok: "length_ok r (v, rep)"
    and b: "prefix (enc_length r (p mod 8) (v, rep)) (drop p (bits_of buf))"
  shows "fetches (parseLength r (reader buf p)) buf p (enc_length r (p mod 8) (v, rep)) (v, rep)"
proof (cases "r \<le> 65536 \<and> r > 0")
  case True
  with ok constraint.get_enc [of r v p buf] b show ?thesis
    by (auto simp: parseLength_def enc_length_def length_ok_def fetches_def)
next
  case False
  consider "v \<le> 127" "\<not> rep" | "\<not> v \<le> 127" "v \<le> 16383" "\<not> rep" | "v \<in> {16384, 32768, 49152, 65536}" "rep"
    using ok False by (auto simp: length_ok_def split: if_splits)
  then show ?thesis
  proof cases
    case 1
    note m = short_length [OF 1(1)]
    have enc: "enc_length r (p mod 8) (v, rep) = align (p mod 8) @ nbits 8 (unat v)"
      using False 1 by (simp only: enc_length_def Let_def fst_conv if_False if_True)
    show ?thesis
      using False 1 b m unfolding parseLength_def if_not_P [OF False] enc
      by (intro fetches_aligned) (auto simp: fetches_def getBitsValue_nbits)
  next
    case 2
    define x where "x = v OR 0x8000"
    note m = medium_length [OF 2(2) x_def]
    have enc: "enc_length r (p mod 8) (v, rep) =
        align (p mod 8) @ nbits 8 (unat (drop_bit 8 x)) @ nbits 8 (unat (take_bit 8 v))"
      using False 2 by (simp only: enc_length_def Let_def fst_conv if_False if_True x_def)
    show ?thesis
      using b 2(3) m unfolding parseLength_def if_not_P [OF False] enc
      by (intro fetches_aligned fetches_rbind [OF fetches_getBitsValue])
        (auto simp: fetches_def getBitsValue_nbits prefix_append_drop)
  next
    case 3
    define x where "x = drop_bit 14 v OR 0xc0"
    note m = fragment_length [OF 3(1), folded x_def]
    have "\<not> v \<le> 127" using 3 by auto
    then have enc: "enc_length r (p mod 8) (v, rep) = align (p mod 8) @ nbits 8 (unat x)"
      using False m(7) by (simp only: enc_length_def Let_def fst_conv if_False if_True x_def)
    show ?thesis
      using b 3(2) m unfolding parseLength_def if_not_P [OF False] enc
      by (intro fetches_aligned) (auto simp: fetches_def getBitsValue_nbits Let_def)
  qed
qed

interpretation len: per_codec "enc_length r" "\<lambda>l. appendLength r (fst l)" "parseLength r" id "length_ok r" for r
  by (rule per_codecI) (auto intro: appendLength_emits parseLength_fetches)

section \<open>BOOLEAN, ENUMERATED and CHOICE indices are types of the codec\<close>

interpretation boolean: per_codec "\<lambda>_ v. [v]" appendBool parseBool id "\<lambda>_. True"
proof (rule per_codecI)
  fix pd v assume pd: "valid_raw pd"
  have "nbits 1 (unat (if v then 1 else 0 :: u64)) = [v]"
    by (simp add: nbits_def bit_0)
  then show "emits (appendBool v pd) pd [id v]"
    using emits_putBitsValue [OF pd, of "if v then 1 else 0" 1]
    by (auto simp: appendBool_def split: if_splits)
next
  fix p v buf assume b: "prefix [id v] (drop p (bits_of buf))"
  have "nbits 1 (unat (if v then 1 else 0 :: u64)) = [v]"
    by (simp add: nbits_def bit_0)
  then have "getBitsValue 1 (reader buf p) = Inr (if v then 1 else 0, reader buf (p + 1))"
    using b by (intro getBitsValue_nbits) simp_all
  then show "\<exists>w'. fetches (parseBool (reader buf p)) buf p [id v] w' \<and> id w' = id v"
    by (simp add: parseBool_def fetches_def)
qed

text \<open>The extension bit in front of a root value.\<close>

lemma ext_bit_put: "valid_raw pd \<Longrightarrow> emits (putBitsValue 0 1 pd) pd [False]"
  and ext_bit_set: "valid_raw pd \<Longrightarrow> emits (putBitsValue 1 1 pd) pd [True]"
  using emits_putBitsValue [of pd 0 1] emits_putBitsValue [of pd 1 1]
  by (simp_all add: nbits_def bit_0)

lemma ext_written:
  assumes "valid_raw pd"
  obtains pd' where "putBitsValue (of_bool e) 1 pd = Inr pd'" "valid_raw pd'"
    "raw_bits pd' = raw_bits pd @ [e]" "rbitsOffset pd' = (rbitsOffset pd + 1) mod 8"
proof -
  obtain pd' where "putBitsValue (of_bool e) 1 pd = Inr pd'" "valid_raw pd'" "raw_bits pd' = raw_bits pd @ [e]"
    using ext_bit_put [OF assms] ext_bit_set [OF assms] by (cases e) (auto simp: emits_def)
  with that raw_offset_append [OF assms, of pd' "[e]"] show thesis by simp
qed

lemma getBitsValue_ext:
  "prefix [e] (drop p (bits_of buf)) \<Longrightarrow>
   getBitsValue 1 (reader buf p) = Inr (if e then 1 else 0, reader buf (p + 1))"
  by (cases e; rule getBitsValue_nbits) (simp_all add: nbits_def bit_0)

lemma parse_ext_fetches:
  assumes b: "prefix ((if ext then [e] else []) @ b) (drop p (bits_of buf))"
    and e: "e \<Longrightarrow> ext"
    and rest: "\<And>q. q mod 8 = (p + of_bool ext) mod 8 \<Longrightarrow> prefix b (drop q (bits_of buf)) \<Longrightarrow>
      fetches (parse e (reader buf q)) buf q b w"
  shows "fetches (parse_ext ext parse (reader buf p)) buf p ((if ext then [e] else []) @ b) w"
proof (cases ext)
  case True
  with b have "prefix [e] (drop p (bits_of buf))" "prefix b (drop (p + 1) (bits_of buf))"
    using prefix_append_drop [of "[e]" b p "bits_of buf"] by simp_all
  with getBitsValue_ext rest [of "p + 1"] True show ?thesis
    by (cases e) (simp_all add: parse_ext_def fetches_def)
next
  case False
  with e have "\<not> e" by blast
  with False b rest [of p] show ?thesis by (simp add: parse_ext_def)
qed

definition enc_enumerated :: "bool \<Rightarrow> int \<Rightarrow> int \<Rightarrow> nat \<Rightarrow> u64 \<Rightarrow> bool list" where
  "enc_enumerated ext lb ub off v =
     (if ext then [False] else []) @
     (if ub - lb + 1 > 1 then enc_constraint (ub - lb + 1) ((off + of_bool ext) mod 8) v else [])"

text \<open>The indices of a root enumeration, which the schema numbers from 0.\<close>

definition enumerated_ok :: "int \<Rightarrow> int \<Rightarrow> u64 \<Rightarrow> bool" where
  "enumerated_ok lb ub v \<longleftrightarrow> lb = 0 \<and> 0 \<le> ub \<and> ub < 65536 \<and> uint v \<le> ub"

lemma sint_small: "uint v < 2 ^ 63 \<Longrightarrow> sint v = uint v" for v :: u64
proof -
  assume v: "uint v < 2 ^ 63"
  moreover have "- (2 ^ 63) \<le> uint v"
    by (rule order_trans [OF _ uint_ge_0]) simp
  ultimately have "signed_take_bit 63 (uint v) = uint v" by (intro signed_take_bit_int_eq_self)
  then show ?thesis by (simp add: sint_uint)
qed

lemma uint_of_int64: "0 \<le> x \<Longrightarrow> x < 2 ^ 64 \<Longrightarrow> uint (word_of_int x :: u64) = x"
  by (simp add: uint_word_of_int_eq take_bit_int_eq_self)

lemma unat_of_int64: "0 \<le> x \<Longrightarrow> x < 2 ^ 64 \<Longrightarrow> unat (word_of_int x :: u64) = nat x"
  by (simp only: unat_eq_nat_uint uint_of_int64)

interpretation enumerated: per_codec "enc_enumerated ext lb ub"
  "\<lambda>v. appendEnumerated v ext (Some lb) (Some ub)"
  "parse_ext ext (\<lambda>e. parseEnumerated e (Some lb) (Some ub))" id "enumerated_ok lb ub" for ext lb ub
proof (rule per_codecI)
  fix pd and v :: u64 assume pd: "valid_raw pd" and ok: "enumerated_ok lb ub v"
  then have r: "lb = 0" "0 \<le> ub" "ub < 65536" "uint v \<le> ub" "sint v = uint v"
    by (simp_all add: enumerated_ok_def sint_small)
  have body: "emits (if ub + 1 > 1 then appendConstraintValue (ub + 1) v pd' else Inr pd') pd'
      (if ub + 1 > 1 then enc_constraint (ub + 1) (rbitsOffset pd') v else [])" if "valid_raw pd'" for pd'
    using constraint.put_enc [OF that, of "ub + 1" v] r that by (auto simp: emits_def)
  have off: "rbitsOffset pd < 8" using pd by (simp add: valid_raw_def)
  show "emits (appendEnumerated v ext (Some lb) (Some ub) pd) pd
      (enc_enumerated ext lb ub (rbitsOffset pd) (id v))"
  proof (cases ext)
    case True
    have "emits (rbind (putBitsValue 0 1 pd)
        (\<lambda>pd'. if ub + 1 > 1 then appendConstraintValue (ub + 1) v pd' else Inr pd')) pd
        ([False] @ (if ub + 1 > 1 then enc_constraint (ub + 1) ((rbitsOffset pd + 1) mod 8) v else []))"
      by (rule emits_rbind [OF ext_bit_put [OF pd] pd]) (use body in force)
    then show ?thesis
      using True r by (auto simp: appendEnumerated_def enc_enumerated_def Let_def split: if_splits)
  next
    case False
    with body [OF pd] r off show ?thesis
      by (auto simp: appendEnumerated_def enc_enumerated_def Let_def split: if_splits)
  qed
next
  fix p and v :: u64 and buf assume ok: "enumerated_ok lb ub v"
    and b: "prefix (enc_enumerated ext lb ub (p mod 8) (id v)) (drop p (bits_of buf))"
  then have r: "lb = 0" "0 \<le> ub" "ub < 65536" "uint v \<le> ub"
    by (simp_all add: enumerated_ok_def)
  have "uint v = 0" if "ub = 0" using that r uint_ge_0 [of v] by linarith
  then have z: "ub = 0 \<Longrightarrow> v = 0" by (simp add: word_uint_eqI)
  have "fetches (parse_ext ext (\<lambda>e. parseEnumerated e (Some lb) (Some ub)) (reader buf p)) buf p
      (enc_enumerated ext lb ub (p mod 8) v) v"
    unfolding enc_enumerated_def
  proof (rule parse_ext_fetches)
    show "prefix ((if ext then [False] else []) @ (if ub - lb + 1 > 1 then
        enc_constraint (ub - lb + 1) ((p mod 8 + of_bool ext) mod 8) v else [])) (drop p (bits_of buf))"
      using b by (simp add: enc_enumerated_def)
  next
    fix q assume "q mod 8 = (p + of_bool ext) mod 8" and "prefix (if ub - lb + 1 > 1 then
        enc_constraint (ub - lb + 1) ((p mod 8 + of_bool ext) mod 8) v else []) (drop q (bits_of buf))"
    then show "fetches (parseEnumerated False (Some lb) (Some ub) (reader buf q)) buf q
        (if ub - lb + 1 > 1 then enc_constraint (ub - lb + 1) ((p mod 8 + of_bool ext) mod 8) v else []) v"
      using constraint.get_enc [of "ub + 1" v q buf] r z
      by (auto simp: parseEnumerated_def fetches_def mod_simps)
  qed simp
  then show "\<exists>w'. fetches (parse_ext ext (\<lambda>e. parseEnumerated e (Some lb) (Some ub)) (reader buf p))
      buf p (enc_enumerated ext lb ub (p mod 8) (id v)) w' \<and> id w' = id v"
    by auto
qed

text \<open>A CHOICE index counts from 1. Its extension bit is written by \<^verbatim>\<open>makeField\<close>.\<close>

definition enc_choice :: "int \<Rightarrow> nat \<Rightarrow> int \<Rightarrow> bool list" where
  "enc_choice ub off present = enc_constraint (ub + 1) off (word_of_int (present - 1))"

interpretation choice: per_codec "enc_choice ub" "\<lambda>present. appendChoiceIndex present ext (Some ub)"
  "getChoiceIndex False (Some ub)" id
  "\<lambda>present. 0 \<le> ub \<and> ub < 65536 \<and> 1 \<le> present \<and> present \<le> ub + 1" for ub ext
proof (rule per_codecI)
  fix pd and w :: int assume pd: "valid_raw pd" and w: "0 \<le> ub \<and> ub < 65536 \<and> 1 \<le> w \<and> w \<le> ub + 1"
  then have "uint (word_of_int (w - 1) :: u64) = w - 1"
    by (intro uint_of_int64) simp_all
  with constraint.put_enc [OF pd, of "ub + 1" "word_of_int (w - 1)"] w
  show "emits (appendChoiceIndex w ext (Some ub) pd) pd (enc_choice ub (rbitsOffset pd) (id w))"
    by (auto simp: appendChoiceIndex_def enc_choice_def emits_def)
next
  fix p and w :: int and buf assume w: "0 \<le> ub \<and> ub < 65536 \<and> 1 \<le> w \<and> w \<le> ub + 1"
    and b: "prefix (enc_choice ub (p mod 8) (id w)) (drop p (bits_of buf))"
  from w have u: "uint (word_of_int (w - 1) :: u64) = w - 1"
    by (intro uint_of_int64) simp_all
  then have "sint (word_of_int (w - 1) :: u64) = w - 1"
    using w by (subst sint_small) simp_all
  with constraint.get_enc [of "ub + 1" "word_of_int (w - 1)" p buf] w b u
  show "\<exists>w'. fetches (getChoiceIndex False (Some ub) (reader buf p)) buf p
      (enc_choice ub (p mod 8) (id w)) w' \<and> id w' = id w"
    by (auto simp: getChoiceIndex_def enc_choice_def fetches_def)
qed

end
