(* ===== verification/Aper_Integer.thy ===== *)
theory Aper_Integer
  imports Aper_Prim
begin

text \<open>
  INTEGER of the aligned PER codec: unconstrained, semi-constrained, and constrained to small
  and to large ranges, with the extension bit. \<open>appendInteger\<close> is \<^verbatim>\<open>lib/aper/marshal.go\<close>,
  \<open>parseInteger\<close> is \<^verbatim>\<open>lib/aper/aper.go\<close>.
\<close>

unbundle bit_operations_syntax

section \<open>INTEGER\<close>

text \<open>
  The three byte-counting loops. Each runs \<open>n\<close> from 1 while \<open>n \<le> 127\<close>; the 64-bit number is
  exhausted after eight rounds. \<open>raw_len\<close> tests before it shifts; the two \<^verbatim>\<open>byteLen\<close> loops shift
  first, and stop at different values in the encoder (1) and in the decoder (0).
\<close>

function raw_len_from :: "nat \<Rightarrow> u64 \<Rightarrow> nat" where
  "raw_len_from n u =
     (if n \<le> 127 then (if u = 0 then n else raw_len_from (Suc n) (drop_bit 8 u)) else n)"
  by auto
termination
  by (relation "measure (\<lambda>(n, _). 128 - n)") auto

function byte_len_from :: "u64 \<Rightarrow> nat \<Rightarrow> u64 \<Rightarrow> nat" where
  "byte_len_from stop n u =
     (if n \<le> 127 then
        (let u = drop_bit 8 u in if u \<le> stop then n else byte_len_from stop (Suc n) u)
      else n)"
  by auto
termination
  by (relation "measure (\<lambda>(_, n, _). 128 - n)") auto

text \<open>
  \<^verbatim>\<open>appendInteger\<close> first settles the lower bound and the value range (\<open>-1\<close>: unconstrained, 0:
  no upper bound) and writes the extension bit, then writes the number; a failure to write
  that bit is only printed.
\<close>

definition append_integer_range ::
  "int \<Rightarrow> bool \<Rightarrow> int option \<Rightarrow> int option \<Rightarrow> perRawBitData \<Rightarrow> (int \<times> int \<times> perRawBitData) res" where
  "append_integer_range value extensive lowerBoundPtr upperBoundPtr pd =
     (case lowerBoundPtr of
        None \<Rightarrow> Inr (0, - 1, pd)
      | Some lb \<Rightarrow>
          if value < lb then Inl (Fail ''INTEGER value is smaller than lowerbound'')
          else case upperBoundPtr of
            None \<Rightarrow> Inr (lb, 0, pd)
          | Some ub \<Rightarrow>
              if \<not> value \<le> ub \<and> \<not> extensive then
                Inl (Fail ''INTEGER value is larger than upperbound'')
              else
                let valueRange = (if value \<le> ub then i64 (ub - lb + 1) else 0) in
                if \<not> extensive then Inr (lb, valueRange, pd)
                else if valueRange = 0 then
                  Inr (lb, - 1, case putBitsValue 1 1 pd of Inl _ \<Rightarrow> pd | Inr pd \<Rightarrow> pd)
                else
                  Inr (lb, valueRange, case putBitsValue 0 1 pd of Inl _ \<Rightarrow> pd | Inr pd \<Rightarrow> pd))"

text \<open>\<^verbatim>\<open>uint64(((value ^ y) - y)) - 1\<close> with \<^verbatim>\<open>y := value >> 63\<close> for a negative number.\<close>

definition unsigned_value :: "int \<Rightarrow> u64" where
  "unsigned_value value = (if value < 0 then word_of_int (- value) - 1 else word_of_int value)"

definition int_octets :: "int \<Rightarrow> int \<Rightarrow> nat" where
  "int_octets valueRange value =
     raw_len_from 1 (drop_bit (if valueRange \<le> 0 then 7 else 8) (unsigned_value value))"

text \<open>The bits of the length field of a range above 65536, from the bytes of the range.\<close>

definition length_bits :: "u64 \<Rightarrow> int \<Rightarrow> nat" where
  "length_bits stop valueRange =
     range_bits (int (byte_len_from stop 1 (word_of_int (valueRange - 1))))"

definition append_integer_body :: "int \<Rightarrow> int \<Rightarrow> int \<Rightarrow> perRawBitData \<Rightarrow> perRawBitData res" where
  "append_integer_body value lb valueRange pd =
     (if valueRange = 1 then Inr pd
      else if 0 < valueRange \<and> valueRange \<le> 65536 then
        appendConstraintValue valueRange (word_of_int (value - lb)) pd
      else
        let rawLength = int_octets valueRange value in
        rbind
          (if valueRange \<le> 0 then
             let pd = appendAlignBits pd in
             Inr (pd\<lparr>rbytes := rbytes pd @ [of_nat rawLength]\<rparr>)
           else putBitsValue (of_nat (rawLength - 1)) (length_bits 1 valueRange) pd)
          (\<lambda>pd.
             let rawLength = rawLength * 8; pd = appendAlignBits pd in
             if valueRange < 0 then
               putBitsValue (word_of_int value AND (push_bit rawLength 1 - 1)) rawLength pd
             else putBitsValue (word_of_int (value - lb)) rawLength pd))"

definition appendInteger ::
  "int \<Rightarrow> bool \<Rightarrow> int option \<Rightarrow> int option \<Rightarrow> perRawBitData \<Rightarrow> perRawBitData res" where
  "appendInteger value extensive lowerBoundPtr upperBoundPtr pd =
     rbind (append_integer_range value extensive lowerBoundPtr upperBoundPtr pd)
       (\<lambda>(lb, valueRange, pd). append_integer_body value lb valueRange pd)"

definition parse_integer_range :: "bool \<Rightarrow> int option \<Rightarrow> int option \<Rightarrow> int \<times> int \<times> int" where
  "parse_integer_range extensed lowerBoundPtr upperBoundPtr =
     (if extensed then (0, - 1, - 1)
      else case lowerBoundPtr of
        None \<Rightarrow> (0, - 1, - 1)
      | Some lb \<Rightarrow>
          (case upperBoundPtr of
             None \<Rightarrow> (lb, - 1, 0)
           | Some ub \<Rightarrow> (lb, ub, i64 (ub - lb + 1))))"

definition parse_integer_length :: "int \<Rightarrow> perBitData \<Rightarrow> (nat \<times> perBitData) res" where
  "parse_integer_length valueRange pd =
     (if valueRange \<le> 0 then
        rbind (parseAlignBits pd) (\<lambda>pd.
          if byteOffset pd \<ge> length (bytes pd) then Inl (Fail ''per data out of range'')
          else Inr (unat (bytes pd ! byteOffset pd), pd\<lparr>byteOffset := byteOffset pd + 1\<rparr>))
      else
        rbind (getBitsValue (length_bits 0 valueRange) pd) (\<lambda>(tempLength, pd).
        rbind (parseAlignBits pd) (\<lambda>pd. Inr (unat tempLength + 1, pd))))"

definition parse_integer_value :: "int \<Rightarrow> int \<Rightarrow> nat \<Rightarrow> u64 \<Rightarrow> int" where
  "parse_integer_value valueRange lb rawLength rawValue =
     (let signedBitMask = push_bit (rawLength * 8 - 1) 1; valueMask = signedBitMask - 1 in
      if valueRange < 0 \<and> rawValue AND signedBitMask > 0
      then i64 (sint ((NOT rawValue AND valueMask) + 1) * - 1)
      else i64 (sint rawValue + lb))"

definition parseInteger ::
  "bool \<Rightarrow> int option \<Rightarrow> int option \<Rightarrow> perBitData \<Rightarrow> (int \<times> perBitData) res" where
  "parseInteger extensed lowerBoundPtr upperBoundPtr pd =
     (let (lb, ub, valueRange) = parse_integer_range extensed lowerBoundPtr upperBoundPtr in
      if valueRange = 1 then Inr (ub, pd)
      else if 0 < valueRange \<and> valueRange \<le> 65536 then
        rbind (parseConstraintValue valueRange pd) (\<lambda>(rawValue, pd).
          Inr (i64 (sint rawValue + lb), pd))
      else
        rbind (parse_integer_length valueRange pd) (\<lambda>(rawLength, pd).
        rbind (getBitsValue (rawLength * 8) pd) (\<lambda>(rawValue, pd).
          Inr (parse_integer_value valueRange lb rawLength rawValue, pd))))"


section \<open>The byte counts\<close>

declare raw_len_from.simps [simp del] byte_len_from.simps [simp del]

lemma raw_len_bounds:
  "unat u < 2 ^ (8 * k) \<Longrightarrow> n + k \<le> 127 \<Longrightarrow>
   n \<le> raw_len_from n u \<and> raw_len_from n u \<le> n + k \<and> unat u < 2 ^ (8 * (raw_len_from n u - n))"
proof (induction k arbitrary: n u)
  case 0
  then have "u = 0" by (simp add: unat_eq_0)
  then show ?case by (simp add: raw_len_from.simps)
next
  case (Suc k)
  show ?case
  proof (cases "u = 0")
    case True
    then show ?thesis by (simp add: raw_len_from.simps)
  next
    case False
    let ?u = "drop_bit 8 u" and ?r = "raw_len_from (Suc n) (drop_bit 8 u)"
    have "unat ?u < 2 ^ (8 * k)"
      using Suc.prems(1) by (simp add: unat_drop_bit_div less_mult_imp_div_less power_add mult.commute)
    then have IH: "Suc n \<le> ?r \<and> ?r \<le> Suc n + k \<and> unat ?u < 2 ^ (8 * (?r - Suc n))"
      using Suc.prems(2) by (intro Suc.IH) simp_all
    then have "unat u < 2 ^ (8 * (?r - Suc n)) * 2 ^ 8"
      by (simp add: unat_drop_bit_div div_less_iff_less_mult)
    also have "\<dots> = 2 ^ (8 * (?r - n))"
    proof -
      have "?r - n = Suc (?r - Suc n)" using IH by linarith
      then have "8 * (?r - n) = 8 * (?r - Suc n) + 8" by (simp only: mult_Suc_right add.commute)
      then show ?thesis by (simp only: power_add)
    qed
    finally have "unat u < 2 ^ (8 * (?r - n))" .
    moreover have "raw_len_from n u = ?r"
      using False Suc.prems(2) by (simp add: raw_len_from.simps [of n])
    ultimately show ?thesis using IH by simp
  qed
qed

lemma raw_len_mono: "unat u \<le> unat u' \<Longrightarrow> raw_len_from n u \<le> raw_len_from n u'"
proof (induction n u arbitrary: u' rule: raw_len_from.induct)
  case (1 n u)
  have ge: "n \<le> raw_len_from n v" for v
  proof (induction n v rule: raw_len_from.induct)
    case (1 n u)
    then show ?case by (subst raw_len_from.simps) (auto dest: Suc_leD)
  qed
  show ?case
  proof (cases "n \<le> 127 \<and> u \<noteq> 0")
    case True
    then have "u' \<noteq> 0" using "1.prems" by (auto simp: unat_eq_0 simp flip: unat_gt_0)
    moreover have "unat (drop_bit 8 u) \<le> unat (drop_bit 8 u')"
      using "1.prems" by (simp add: unat_drop_bit_div div_le_mono)
    ultimately show ?thesis
      using True "1.IH" by (simp add: raw_len_from.simps [of n])
  next
    case False
    then have "raw_len_from n u = n" by (subst raw_len_from.simps) auto
    then show ?thesis using ge by simp
  qed
qed

text \<open>The decoder's count of the bytes of the range is the encoder's count of the bytes of a value.\<close>

lemma byte_len_raw_len: "byte_len_from 0 n u = raw_len_from n (drop_bit 8 u)"
proof (induction n "drop_bit 8 u" arbitrary: u rule: raw_len_from.induct)
  case (1 n u)
  show ?case
    using "1" by (subst byte_len_from.simps, subst raw_len_from.simps) (simp add: Let_def)
qed

section \<open>The bits of an INTEGER\<close>

definition enc_int_body :: "int \<Rightarrow> int \<Rightarrow> nat \<Rightarrow> int \<Rightarrow> bool list" where
  "enc_int_body lb r off v =
     (let l = int_octets r v; w = length_bits 0 r in
      if r = 1 then []
      else if 0 < r \<and> r \<le> 65536 then enc_constraint r off (word_of_int (v - lb))
      else if r \<le> 0 then
        align off @ nbits 8 l @ nbits (l * 8) (nat (if r < 0 then v mod 2 ^ (l * 8) else v - lb))
      else nbits w (l - 1) @ align ((off + w) mod 8) @ nbits (l * 8) (nat (v - lb)))"

text \<open>The numbers a range can carry, and the bounds a schema may give.\<close>

definition int_body_ok :: "int \<Rightarrow> int \<Rightarrow> int \<Rightarrow> bool" where
  "int_body_ok lb r v \<longleftrightarrow> - (2 ^ 63) \<le> v \<and> v < 2 ^ 63 \<and> r < 2 ^ 63 \<and>
     (if r < 0 then True
      else if r = 0 then 0 \<le> lb \<and> lb \<le> v
      else - (2 ^ 63) \<le> lb \<and> lb \<le> v \<and> v < lb + r \<and> (r > 65536 \<longrightarrow> lb = 0 \<and> length_bits 1 r = length_bits 0 r))"

lemma uint_unsigned_value:
  "- (2 ^ 63) \<le> v \<Longrightarrow> v < 2 ^ 63 \<Longrightarrow> unat (unsigned_value v) = nat (if v < 0 then - v - 1 else v)"
proof -
  assume v: "- (2 ^ 63) \<le> v" "v < 2 ^ 63"
  have "unsigned_value v = word_of_int (if v < 0 then - v - 1 else v)"
    by (simp add: unsigned_value_def)
  moreover have "uint (word_of_int (if v < 0 then - v - 1 else v) :: u64) = (if v < 0 then - v - 1 else v)"
    using v by (intro uint_of_int64) auto
  ultimately show ?thesis by (simp only: unat_eq_nat_uint)
qed

lemma int_octets_signed:
  assumes v: "- (2 ^ 63) \<le> v" "v < 2 ^ 63" and r: "r \<le> 0"
  defines "l \<equiv> int_octets r v"
  shows "1 \<le> l" "l \<le> 8" "- (2 ^ (l * 8 - 1)) \<le> v" "v < 2 ^ (l * 8 - 1)"
proof -
  let ?u = "drop_bit 7 (unsigned_value v)" and ?n = "if v < 0 then - v - 1 else v"
  have u: "unat ?u = nat ?n div 2 ^ 7"
    by (simp only: unat_drop_bit_div uint_unsigned_value [OF v])
  have "nat ?n < 2 ^ 63" using v by auto
  then have "unat ?u < 2 ^ (8 * 7)"
    unfolding u by (simp add: less_mult_imp_div_less)
  from raw_len_bounds [OF this, of 1] r have l: "1 \<le> l" "l \<le> 8" and ul: "unat ?u < 2 ^ (8 * (l - 1))"
    by (simp_all add: l_def int_octets_def)
  show "1 \<le> l" "l \<le> 8" by (fact l)+
  have "l * 8 - 1 = 8 * (l - 1) + 7" using l(1) by (cases l) simp_all
  then have "nat ?n < 2 ^ (l * 8 - 1)"
    using ul unfolding u by (simp add: div_less_iff_less_mult power_add)
  then have "?n < 2 ^ (l * 8 - 1)"
    by (simp add: nat_less_iff)
  then show "- (2 ^ (l * 8 - 1)) \<le> v" "v < 2 ^ (l * 8 - 1)"
    by (auto split: if_splits)
qed

lemma int_octets_large:
  assumes v: "0 \<le> v" "v < r" and r: "65536 < r" "r < 2 ^ 63"
  defines "l \<equiv> int_octets r v" and "bl \<equiv> byte_len_from 0 1 (word_of_int (r - 1))"
  shows "1 \<le> l" "l \<le> bl" "bl \<le> 8" "v < 2 ^ (l * 8)"
proof -
  have uv: "unat (unsigned_value v) = nat v"
    using v r by (subst uint_unsigned_value) simp_all
  have ur: "unat (word_of_int (r - 1) :: u64) = nat (r - 1)"
    using r uint_of_int64 [of "r - 1"] by (simp add: unat_eq_nat_uint)
  have l: "l = raw_len_from 1 (drop_bit 8 (unsigned_value v))"
    using r by (simp add: l_def int_octets_def)
  have "unat (drop_bit 8 (word_of_int (r - 1) :: u64)) < 2 ^ (8 * 7)"
    using r unfolding unat_drop_bit_div ur by (simp add: less_mult_imp_div_less nat_less_iff)
  from raw_len_bounds [OF this, of 1] show "bl \<le> 8"
    by (simp add: bl_def byte_len_raw_len)
  have "unat (drop_bit 8 (unsigned_value v)) \<le> unat (drop_bit 8 (word_of_int (r - 1) :: u64))"
    unfolding unat_drop_bit_div uv ur using v by (intro div_le_mono) simp
  then show "l \<le> bl" unfolding l bl_def byte_len_raw_len by (rule raw_len_mono)
  have "unat (drop_bit 8 (unsigned_value v)) < 2 ^ (8 * 7)"
    using v r unfolding unat_drop_bit_div uv by (simp add: less_mult_imp_div_less nat_less_iff)
  from raw_len_bounds [OF this, of 1]
  have "1 \<le> l" and "unat (drop_bit 8 (unsigned_value v)) < 2 ^ (8 * (l - 1))"
    by (simp_all add: l)
  then show "1 \<le> l" and "v < 2 ^ (l * 8)"
    using v unfolding unat_drop_bit_div uv
    by (simp_all add: div_less_iff_less_mult nat_less_iff flip: power_add) (cases l; simp add: algebra_simps power_add)
qed

lemma not_bit_below: "0 \<le> x \<Longrightarrow> x < 2 ^ k \<Longrightarrow> k \<le> n \<Longrightarrow> \<not> bit x n" for x :: int
  by (metis bit_take_bit_iff not_le take_bit_int_eq_self)

text \<open>The sign bit of a two's complement number, and the negation the decoder computes.\<close>

lemma sign_bit:
  assumes "- (2 ^ k) \<le> v" "v < 2 ^ k" "k < 64"
  shows "bit (take_bit (Suc k) (word_of_int v) :: u64) k \<longleftrightarrow> v < 0"
proof -
  have "bit v k \<longleftrightarrow> v < 0"
  proof (cases "v < 0")
    case True
    then have "\<not> bit (NOT v) k" using assms by (intro not_bit_below [where k = k]) (simp_all add: not_int_def)
    with True show ?thesis by (simp add: bit_not_int_iff)
  next
    case False
    then show ?thesis using assms not_bit_below [of v k k] by simp
  qed
  then show ?thesis using assms(3) by (simp add: bit_take_bit_iff bit_word_of_int_iff)
qed

lemma negated_low_bits:
  assumes "- (2 ^ k) \<le> v" "v < 0" "k < 64"
  shows "NOT (take_bit (Suc k) (word_of_int v)) AND (push_bit k 1 - 1) = (word_of_int (NOT v) :: u64)"
proof -
  have small: "0 \<le> NOT v" "NOT v < 2 ^ k" using assms by (simp_all add: not_int_def)
  have "take_bit k (NOT (take_bit (Suc k) (word_of_int v))) = (word_of_int (NOT v) :: u64)"
  proof (rule bit_word_eqI)
    fix n assume "n < LENGTH(64)"
    then show "bit (take_bit k (NOT (take_bit (Suc k) (word_of_int v))) :: u64) n =
        bit (word_of_int (NOT v) :: u64) n"
      using not_bit_below [OF small, of n] not_le [of k n]
      by (auto simp: bit_take_bit_iff bit_not_iff bit_word_of_int_iff bit_not_int_iff not_less)
  qed
  then show ?thesis by (simp add: take_bit_eq_mask mask_eq_exp_minus_1 push_bit_eq_mult)
qed

lemma i64_neg_sint: "i64 (sint (word_of_int x :: u64) * - 1) = i64 (- x)"
  by (simp add: i64_def sint_sbintrunc' signed_take_bit_minus)

lemma signed_round:
  assumes l: "1 \<le> l" "l \<le> 8" and v: "- (2 ^ (l * 8 - 1)) \<le> v" "v < 2 ^ (l * 8 - 1)" and r: "r < 0"
  shows "parse_integer_value r 0 l (word_of_int v AND (push_bit (l * 8) 1 - 1)) = v"
    and "unat (word_of_int v AND (push_bit (l * 8) 1 - 1) :: u64) = nat (v mod 2 ^ (l * 8))"
proof -
  let ?raw = "take_bit (l * 8) (word_of_int v) :: u64"
  define k where "k = l * 8 - 1"
  have raw: "word_of_int v AND (push_bit (l * 8) 1 - 1) = ?raw"
    by (simp add: take_bit_eq_mask mask_eq_exp_minus_1 push_bit_eq_mult)
  have k: "k < 64" "l * 8 = Suc k" using l by (auto simp: k_def)
  note v = v [folded k_def]
  have u: "uint ?raw = v mod 2 ^ (l * 8)"
    using l by (simp add: uint_word_of_int_eq unsigned_take_bit_eq flip: take_bit_eq_mod)
  show "unat (word_of_int v AND (push_bit (l * 8) 1 - 1) :: u64) = nat (v mod 2 ^ (l * 8))"
    unfolding raw unat_eq_nat_uint u ..
  have le63: "(2 :: int) ^ k \<le> 2 ^ 63" using k(1) by (intro power_increasing) simp_all
  have i64v: "i64 v = v" using v le63 by (intro i64_id) linarith+
  have mask: "?raw AND push_bit k 1 > 0 \<longleftrightarrow> v < 0"
    using sign_bit [OF v k(1)] and_exp_eq_0_iff_not_bit [of ?raw k]
    by (simp add: k(2) word_gt_0 push_bit_eq_mult)
  show "parse_integer_value r 0 l (word_of_int v AND (push_bit (l * 8) 1 - 1)) = v"
  proof (cases "v < 0")
    case True
    have "NOT ?raw AND (push_bit k 1 - 1) = word_of_int (NOT v)"
      unfolding k(2) using v(1) True k(1) by (rule negated_low_bits)
    then have "(NOT ?raw AND (push_bit k 1 - 1)) + 1 = word_of_int (- v)"
      by (simp add: not_int_def)
    then show ?thesis
      using True r mask i64v
        i64_neg_sint [of "- v"] unfolding parse_integer_value_def Let_def raw k_def [symmetric]
      by (simp only: simp_thms if_True minus_minus)
  next
    case False
    then have "v mod 2 ^ Suc k = v"
      using v(2) by (intro mod_pos_pos_trivial) simp_all
    then have "uint ?raw = v"
      using u by (simp only: k(2))
    then have "sint ?raw = v"
      using sint_small [of ?raw] v(2) le63 by simp
    then show ?thesis
      using False mask i64v by (simp only: parse_integer_value_def Let_def raw flip: k_def) simp
  qed
qed


text \<open>A length octet and the contents octets, and a length field and the contents octets.\<close>

lemma emits_octets:
  assumes pd: "valid_raw pd" and l: "l < 256" and x: "unat x < 2 ^ (l * 8)"
  shows "emits (let pd = appendAlignBits pd in
      rbind (Inr (pd\<lparr>rbytes := rbytes pd @ [of_nat l]\<rparr>)) (\<lambda>pd. putBitsValue x (l * 8) (appendAlignBits pd)))
      pd (align (rbitsOffset pd) @ nbits 8 l @ nbits (l * 8) (unat x))"
  unfolding Let_def
proof (rule emits_aligned [OF pd emits_rbind])
  let ?pd = "appendAlignBits pd"
  show "emits (Inr (?pd\<lparr>rbytes := rbytes ?pd @ [of_nat l]\<rparr>)) ?pd (nbits 8 l)"
    using emits_bytes [of ?pd "[of_nat l]"] l appendAlignBits_bits(3) [OF pd] by (simp add: byte_bits_of_nat)
  show "valid_raw ?pd" using pd by (rule appendAlignBits_bits)
  fix pd' assume pd': "valid_raw pd'" and "rbitsOffset pd' = (rbitsOffset ?pd + length (nbits 8 l)) mod 8"
  then have zero: "rbitsOffset pd' = 0" using appendAlignBits_bits(3) [OF pd] by simp
  have "emits (putBitsValue x (l * 8) (appendAlignBits pd')) (appendAlignBits pd') (nbits (l * 8) (unat x))"
    using appendAlignBits_bits(1) [OF pd'] x by (rule emits_putBitsValue)
  then show "emits (putBitsValue x (l * 8) (appendAlignBits pd')) pd' (nbits (l * 8) (unat x))"
    by (rule emits_realigned [OF pd' zero])
qed

lemma emits_counted:
  assumes pd: "valid_raw pd" and n: "n < 2 ^ w" "w \<le> 8" and x: "unat x < 2 ^ m"
  shows "emits (rbind (putBitsValue (of_nat n) w pd) (\<lambda>pd. putBitsValue x m (appendAlignBits pd)))
      pd (nbits w n @ align ((rbitsOffset pd + w) mod 8) @ nbits m (unat x))"
proof (rule emits_rbind [OF _ pd])
  have "n < 2 ^ 8" using n power_increasing [of w 8 "2 :: nat"] by simp
  then have un: "unat (of_nat n :: u64) = n" by (simp add: unat_of_nat)
  with emits_putBitsValue [OF pd, of "of_nat n" w] n
  show "emits (putBitsValue (of_nat n) w pd) pd (nbits w n)" by simp
  fix pd' assume pd': "valid_raw pd'" and "rbitsOffset pd' = (rbitsOffset pd + length (nbits w n)) mod 8"
  then show "emits (putBitsValue x m (appendAlignBits pd')) pd'
      (align ((rbitsOffset pd + w) mod 8) @ nbits m (unat x))"
    using emits_aligned [OF pd' emits_putBitsValue [OF appendAlignBits_bits(1) [OF pd'] x]] by simp
qed

lemma parse_value_unsigned:
  assumes "0 \<le> v - lb" "v - lb < 2 ^ 63" "- (2 ^ 63) \<le> v" "v < 2 ^ 63" "0 \<le> r"
  shows "parse_integer_value r lb l (word_of_int (v - lb)) = v"
    and "i64 (sint (word_of_int (v - lb) :: u64) + lb) = v"
proof -
  have "sint (word_of_int (v - lb) :: u64) = v - lb"
    using assms by (subst sint_small) (simp_all add: uint_of_int64 del: of_int_diff)
  then show i: "i64 (sint (word_of_int (v - lb) :: u64) + lb) = v"
    using assms by (simp del: of_int_diff)
  show "parse_integer_value r lb l (word_of_int (v - lb)) = v"
    using assms(5) i by (simp add: parse_integer_value_def del: of_int_diff)
qed

text \<open>What the contents octets hold, and that they hold it.\<close>

definition int_contents :: "int \<Rightarrow> int \<Rightarrow> int \<Rightarrow> u64" where
  "int_contents lb r v =
     (if r < 0 then word_of_int v AND (push_bit (int_octets r v * 8) 1 - 1) else word_of_int (v - lb))"

lemma int_body_range:
  assumes "int_body_ok lb r v"
  shows "- (2 ^ 63) \<le> v" "v < 2 ^ 63" "r < 2 ^ 63"
    and "0 \<le> r \<Longrightarrow> 0 \<le> v - lb" "0 \<le> r \<Longrightarrow> v - lb < 2 ^ 63" "0 < r \<Longrightarrow> v - lb < r"
  using assms by (auto simp: int_body_ok_def split: if_splits)

lemma int_contents_small:
  assumes ok: "int_body_ok lb r v" and r: "r \<le> 0"
  shows "1 \<le> int_octets r v" "int_octets r v \<le> 8"
    and "unat (int_contents lb r v) = nat (if r < 0 then v mod 2 ^ (int_octets r v * 8) else v - lb)"
    and "unat (int_contents lb r v) < 2 ^ (int_octets r v * 8)"
    and "(r < 0 \<Longrightarrow> lb = 0) \<Longrightarrow> parse_integer_value r lb (int_octets r v) (int_contents lb r v) = v"
proof -
  note rng = int_body_range [OF ok]
  note l = int_octets_signed [OF rng(1,2) r]
  show "1 \<le> int_octets r v" "int_octets r v \<le> 8" by (fact l)+
  show u: "unat (int_contents lb r v) = nat (if r < 0 then v mod 2 ^ (int_octets r v * 8) else v - lb)"
    using signed_round(2) [OF l] unat_of_int64 [of "v - lb"] rng(4,5) r
    by (cases "r < 0") (simp_all add: int_contents_def del: of_int_diff)
  show "unat (int_contents lb r v) < 2 ^ (int_octets r v * 8)"
  proof (cases "r < 0")
    case True
    then show ?thesis by (simp add: u nat_less_iff)
  next
    case False
    have "(2 :: int) ^ (int_octets r v * 8 - 1) \<le> 2 ^ (int_octets r v * 8)" by (rule power_increasing) simp_all
    moreover have "0 \<le> lb" using False r ok by (simp add: int_body_ok_def)
    ultimately have "v - lb < 2 ^ (int_octets r v * 8)" using l(4) by linarith
    with False show ?thesis by (simp add: u nat_less_iff)
  qed
  show "parse_integer_value r lb (int_octets r v) (int_contents lb r v) = v" if "r < 0 \<Longrightarrow> lb = 0"
    using signed_round(1) [OF l] parse_value_unsigned(1) [OF rng(4,5,1,2)] that r
    by (cases "r < 0") (simp_all add: int_contents_def del: of_int_diff)
qed

lemma int_contents_large:
  assumes ok: "int_body_ok lb r v" and r: "65536 < r"
  shows "1 \<le> int_octets r v" "int_octets r v - 1 < 2 ^ length_bits 0 r" "length_bits 0 r \<le> 8"
    and "length_bits 1 r = length_bits 0 r" and "lb = 0"
    and "unat (int_contents lb r v) = nat (v - lb)"
    and "unat (int_contents lb r v) < 2 ^ (int_octets r v * 8)"
    and "parse_integer_value r lb (int_octets r v) (int_contents lb r v) = v"
proof -
  note rng = int_body_range [OF ok]
  let ?b = "int (byte_len_from 0 1 (word_of_int (r - 1)))"
  show lb: "lb = 0" and "length_bits 1 r = length_bits 0 r" using ok r by (auto simp: int_body_ok_def)
  have v: "0 \<le> v" "v < r" using rng(4,6) lb r by simp_all
  note l = int_octets_large [OF v r rng(3)]
  show "1 \<le> int_octets r v" by (fact l)
  show "length_bits 0 r \<le> 8" unfolding length_bits_def using l(3) by (intro range_bits_bounds) simp
  have "?b \<le> int (2 ^ length_bits 0 r)"
    using range_bits_bounds(3) [of ?b] l(3) by (simp add: length_bits_def)
  then show "int_octets r v - 1 < 2 ^ length_bits 0 r" using l(1,2) by linarith
  show u: "unat (int_contents lb r v) = nat (v - lb)"
    using unat_of_int64 [of "v - lb"] rng(4,5) r by (simp add: int_contents_def del: of_int_diff)
  show "unat (int_contents lb r v) < 2 ^ (int_octets r v * 8)"
    using lb v l(4) unfolding u by (simp add: nat_less_iff)
  show "parse_integer_value r lb (int_octets r v) (int_contents lb r v) = v"
    using parse_value_unsigned(1) [OF rng(4,5,1,2)] r by (simp add: int_contents_def del: of_int_diff)
qed

lemma int_body_emits:
  assumes pd: "valid_raw pd" and ok: "int_body_ok lb r v"
  shows "emits (append_integer_body v lb r pd) pd (enc_int_body lb r (rbitsOffset pd) v)"
proof -
  note rng = int_body_range [OF ok]
  let ?l = "int_octets r v"
  consider "r = 1" | "0 < r" "r \<le> 65536" "r \<noteq> 1" | "r \<le> 0" | "65536 < r" by linarith
  then show ?thesis
  proof cases
    case 1
    then show ?thesis using pd by (simp add: append_integer_body_def enc_int_body_def emits_def)
  next
    case 2
    then have "uint (word_of_int (v - lb) :: u64) < r"
      using rng(4,5,6) by (subst uint_of_int64) simp_all
    with 2 constraint.put_enc [OF pd, of r "word_of_int (v - lb)"] show ?thesis
      by (auto simp: append_integer_body_def enc_int_body_def emits_def simp del: of_int_diff)
  next
    case 3
    note c = int_contents_small [OF ok 3]
    from emits_octets [OF pd _ c(4), unfolded c(3)] c(2) 3 show ?thesis
      by (cases "r < 0")
        (simp_all add: append_integer_body_def enc_int_body_def int_contents_def Let_def)
  next
    case 4
    note c = int_contents_large [OF ok 4]
    from emits_counted [OF pd c(2,3,7), unfolded c(6)] c(4) 4 show ?thesis
      by (simp add: append_integer_body_def enc_int_body_def int_contents_def Let_def)
  qed
qed

section \<open>Reading an INTEGER back\<close>

lemma fetches_int_length:
  assumes l: "1 \<le> l" "l \<le> 8" and r: "r \<le> 0"
    and b: "prefix (align (p mod 8) @ nbits 8 l) (drop p (bits_of buf))"
  shows "fetches (parse_integer_length r (reader buf p)) buf p (align (p mod 8) @ nbits 8 l) l"
  unfolding parse_integer_length_def if_P [OF r]
proof (rule fetches_aligned [OF b])
  fix q assume q: "q mod 8 = 0" and pre: "prefix (nbits 8 l) (drop q (bits_of buf))"
  have bb: "nbits 8 l = bits_of [of_nat l]" using l by (simp add: byte_bits_of_nat)
  have rd: "take 1 (drop (q div 8) buf) = [of_nat l]"
    using read_bytes(1) [OF q pre [unfolded bb]] by simp
  have "drop (q div 8) buf \<noteq> [] \<and> hd (drop (q div 8) buf) = of_nat l"
    using rd by (cases "drop (q div 8) buf") simp_all
  then have "q div 8 < length buf" "buf ! (q div 8) = of_nat l"
    by (auto simp: hd_drop_conv_nth)
  then show "fetches (if byteOffset (reader buf q) \<ge> length (bytes (reader buf q))
      then Inl (Fail ''per data out of range'')
      else Inr (unat (bytes (reader buf q) ! byteOffset (reader buf q)),
                (reader buf q)\<lparr>byteOffset := byteOffset (reader buf q) + 1\<rparr>)) buf q (nbits 8 l) l"
    using l reader_advance [where buf = buf and q = q and n = 1] by (simp add: fetches_def unat_of_nat)
qed

lemma fetches_counted_length:
  assumes r: "65536 < r" and w: "w = length_bits 0 r"
    and n: "n < 2 ^ w" "w \<le> 8"
    and b: "prefix (nbits w n @ align ((p mod 8 + w) mod 8)) (drop p (bits_of buf))"
  shows "fetches (parse_integer_length r (reader buf p)) buf p
    (nbits w n @ align ((p mod 8 + w) mod 8)) (n + 1)"
proof -
  have "n < 2 ^ 8" using n power_increasing [of w 8 "2 :: nat"] by simp
  then have un: "unat (of_nat n :: u64) = n" by (simp add: unat_of_nat)
  have pre: "prefix (nbits w n) (drop p (bits_of buf))"
    and al: "prefix (align ((p + w) mod 8)) (drop (p + w) (bits_of buf))"
    using b by (simp_all add: prefix_append_drop mod_simps)
  have "0 < w" using range_bits_bounds(1) by (simp add: w length_bits_def Suc_le_eq)
  then have "getBitsValue w (reader buf p) = Inr (of_nat n, reader buf (p + w))"
    using getBitsValue_nbits [of w "of_nat n" p buf] n pre by (simp add: un)
  with parseAlignBits_reader [OF al] un r show ?thesis
    by (simp add: parse_integer_length_def fetches_def mod_simps add.assoc flip: w)
qed

lemma fetches_octets:
  assumes len: "fetches r buf p a l" and l: "0 < l" and x: "unat x < 2 ^ (l * 8)"
    and b: "prefix (a @ nbits (l * 8) (unat x)) (drop p (bits_of buf))"
    and v: "parse_integer_value rng lb l x = v"
  shows "fetches (rbind r (\<lambda>(rawLength, pd). rbind (getBitsValue (rawLength * 8) pd)
      (\<lambda>(rawValue, pd). Inr (parse_integer_value rng lb rawLength rawValue, pd)))) buf p
      (a @ nbits (l * 8) (unat x)) v"
  by (rule fetches_rbind [OF len b]) (use l x v in \<open>simp add: fetches_def getBitsValue_nbits\<close>)

lemma int_body_fetches:
  assumes ok: "int_body_ok lb r v" and r1: "r = 1 \<Longrightarrow> ub = v" and rlb: "r < 0 \<Longrightarrow> lb = 0"
    and b: "prefix (enc_int_body lb r (p mod 8) v) (drop p (bits_of buf))"
  shows "fetches
     (if r = 1 then Inr (ub, reader buf p)
      else if 0 < r \<and> r \<le> 65536 then
        rbind (parseConstraintValue r (reader buf p)) (\<lambda>(rawValue, pd). Inr (i64 (sint rawValue + lb), pd))
      else
        rbind (parse_integer_length r (reader buf p)) (\<lambda>(rawLength, pd).
        rbind (getBitsValue (rawLength * 8) pd) (\<lambda>(rawValue, pd).
          Inr (parse_integer_value r lb rawLength rawValue, pd)))) buf p (enc_int_body lb r (p mod 8) v) v"
proof -
  note rng = int_body_range [OF ok]
  let ?l = "int_octets r v" and ?x = "int_contents lb r v"
  consider "r = 1" | "0 < r" "r \<le> 65536" "r \<noteq> 1" | "r \<le> 0" | "65536 < r" by linarith
  then show ?thesis
  proof cases
    case 1
    then show ?thesis using r1 by (simp add: enc_int_body_def fetches_def)
  next
    case 2
    then have "uint (word_of_int (v - lb) :: u64) < r"
      using rng(4,5,6) by (subst uint_of_int64) simp_all
    with 2 b constraint.get_enc [of r "word_of_int (v - lb)" p buf]
      parse_value_unsigned(2) [OF rng(4,5,1,2)]
    show ?thesis
      by (auto simp: enc_int_body_def fetches_def simp del: of_int_diff)
  next
    case 3
    note c = int_contents_small [OF ok 3]
    have enc: "enc_int_body lb r (p mod 8) v = (align (p mod 8) @ nbits 8 ?l) @ nbits (?l * 8) (unat ?x)"
      unfolding c(3) using 3 by (simp add: enc_int_body_def Let_def)
    have len: "fetches (parse_integer_length r (reader buf p)) buf p (align (p mod 8) @ nbits 8 ?l) ?l"
      using fetches_int_length [OF c(1,2) 3] b unfolding enc prefix_append_drop by blast
    show ?thesis
      using fetches_octets [OF len _ c(4) b [unfolded enc] c(5) [OF rlb]] c(1) 3 unfolding enc by simp
  next
    case 4
    note c = int_contents_large [OF ok 4]
    let ?w = "length_bits 0 r"
    have enc: "enc_int_body lb r (p mod 8) v =
        (nbits ?w (?l - 1) @ align ((p mod 8 + ?w) mod 8)) @ nbits (?l * 8) (unat ?x)"
      using 4 unfolding c(6) by (simp add: enc_int_body_def Let_def)
    have len: "fetches (parse_integer_length r (reader buf p)) buf p
        (nbits ?w (?l - 1) @ align ((p mod 8 + ?w) mod 8)) ?l"
      using fetches_counted_length [OF 4 refl c(2,3), of p buf] b c(1) unfolding enc prefix_append_drop by simp
    show ?thesis
      using fetches_octets [OF len _ c(7) b [unfolded enc] c(8)] c(1) 4 unfolding enc by simp
  qed
qed

section \<open>INTEGER is a type of the codec\<close>

definition enc_integer :: "bool \<Rightarrow> int option \<Rightarrow> int option \<Rightarrow> nat \<Rightarrow> int \<Rightarrow> bool list" where
  "enc_integer ext lbo ubo off v =
     (case (lbo, ubo) of
        (None, _) \<Rightarrow> enc_int_body 0 (- 1) off v
      | (Some lb, None) \<Rightarrow> enc_int_body lb 0 off v
      | (Some lb, Some ub) \<Rightarrow>
          if v \<le> ub then (if ext then [False] else []) @
            enc_int_body lb (ub - lb + 1) ((off + of_bool ext) mod 8) v
          else [True] @ enc_int_body 0 (- 1) ((off + 1) mod 8) v)"

text \<open>
  The numbers the code can carry: inside the bounds, or above them when the type is extensible.
  A range above 65536 starts at 0 and its length field has the same width on both sides.
\<close>

definition integer_ok :: "bool \<Rightarrow> int option \<Rightarrow> int option \<Rightarrow> int \<Rightarrow> bool" where
  "integer_ok ext lbo ubo v \<longleftrightarrow> - (2 ^ 63) \<le> v \<and> v < 2 ^ 63 \<and>
     (case (lbo, ubo) of
        (None, _) \<Rightarrow> \<not> ext
      | (Some lb, None) \<Rightarrow> \<not> ext \<and> 0 \<le> lb \<and> lb \<le> v
      | (Some lb, Some ub) \<Rightarrow> - (2 ^ 63) \<le> lb \<and> lb \<le> ub \<and> ub - lb + 1 < 2 ^ 63 \<and> lb \<le> v \<and> (v \<le> ub \<or> ext) \<and>
          (65536 \<le> ub - lb \<longrightarrow> lb = 0 \<and> length_bits 1 (ub + 1) = length_bits 0 (ub + 1)))"

lemma int_body_unconstrained: "enc_int_body lb (- 1) off v = enc_int_body 0 (- 1) off v"
  by (simp add: enc_int_body_def)

lemma integer_ok_body:
  assumes "integer_ok ext lbo ubo v"
  shows "int_body_ok 0 (- 1) v" "int_body_ok lb (- 1) v"
    and "lbo = Some lb \<Longrightarrow> ubo = None \<Longrightarrow> int_body_ok lb 0 v"
    and "lbo = Some lb \<Longrightarrow> ubo = Some ub \<Longrightarrow> v \<le> ub \<Longrightarrow> int_body_ok lb (ub - lb + 1) v"
  using assms by (auto simp: integer_ok_def int_body_ok_def)

lemma appendInteger_emits:
  assumes pd: "valid_raw pd" and ok: "integer_ok ext lbo ubo v"
  shows "emits (appendInteger v ext lbo ubo pd) pd (enc_integer ext lbo ubo (rbitsOffset pd) v)"
proof -
  note body = integer_ok_body [OF ok]
  have off: "rbitsOffset pd mod 8 = rbitsOffset pd" using pd by (simp add: valid_raw_def)
  obtain pf where pf: "putBitsValue 0 1 pd = Inr pf" "valid_raw pf" "raw_bits pf = raw_bits pd @ [False]"
    "rbitsOffset pf = (rbitsOffset pd + 1) mod 8" using ext_written [OF pd, of False] by auto
  obtain pt where pt: "putBitsValue 1 1 pd = Inr pt" "valid_raw pt" "raw_bits pt = raw_bits pd @ [True]"
    "rbitsOffset pt = (rbitsOffset pd + 1) mod 8" using ext_written [OF pd, of True] by auto
  consider "lbo = None" | lb where "lbo = Some lb" "ubo = None"
    | lb ub where "lbo = Some lb" "ubo = Some ub" "v \<le> ub" "\<not> ext"
    | lb ub where "lbo = Some lb" "ubo = Some ub" "v \<le> ub" "ext"
    | lb ub where "lbo = Some lb" "ubo = Some ub" "\<not> v \<le> ub"
    by (cases lbo; cases ubo) blast+
  then show ?thesis
  proof cases
    case 1
    then show ?thesis
      using int_body_emits [OF pd body(1)]
      by (simp add: appendInteger_def append_integer_range_def enc_integer_def)
  next
    case 2
    then show ?thesis
      using int_body_emits [OF pd body(3)] ok
      by (simp add: appendInteger_def append_integer_range_def enc_integer_def integer_ok_def)
  next
    case 3
    then show ?thesis
      using int_body_emits [OF pd body(4) [OF 3(1,2,3)]] ok off
      by (simp add: appendInteger_def append_integer_range_def enc_integer_def integer_ok_def)
  next
    case 4
    then show ?thesis
      using int_body_emits [OF pf(2) body(4) [OF 4(1,2,3)]] ok pf
      by (auto simp: appendInteger_def append_integer_range_def enc_integer_def integer_ok_def emits_def)
  next
    case 5
    then show ?thesis
      using int_body_emits [OF pt(2) body(2), of lb] int_body_unconstrained [of lb] ok pt 5(3)
      by (auto simp: appendInteger_def append_integer_range_def enc_integer_def integer_ok_def emits_def)
  qed
qed

lemma parseInteger_fetches:
  assumes ok: "integer_ok ext lbo ubo v"
    and b: "prefix (enc_integer ext lbo ubo (p mod 8) v) (drop p (bits_of buf))"
  shows "fetches (parse_ext ext (\<lambda>e. parseInteger e lbo ubo) (reader buf p)) buf p
    (enc_integer ext lbo ubo (p mod 8) v) v"
proof -
  note body = integer_ok_body [OF ok]
  consider "lbo = None" "\<not> ext" | lb where "lbo = Some lb" "ubo = None" "\<not> ext"
    | lb ub where "lbo = Some lb" "ubo = Some ub" "v \<le> ub"
    | lb ub where "lbo = Some lb" "ubo = Some ub" "\<not> v \<le> ub" "ext"
    using ok by (cases lbo; cases ubo) (auto simp: integer_ok_def)
  then show ?thesis
  proof cases
    case 1
    then show ?thesis
      using int_body_fetches [OF body(1), of "- 1" p buf] b
      by (simp add: parse_ext_def parseInteger_def parse_integer_range_def enc_integer_def)
  next
    case 2
    then show ?thesis
      using int_body_fetches [OF body(3) [OF 2(1,2)], of "- 1" p buf] b
      by (simp add: parse_ext_def parseInteger_def parse_integer_range_def enc_integer_def)
  next
    case 3
    let ?r = "ub - lb + 1"
    have enc: "enc_integer ext lbo ubo (p mod 8) v = (if ext then [False] else []) @
        enc_int_body lb ?r ((p + of_bool ext) mod 8) v"
      using 3 by (simp add: enc_integer_def mod_simps)
    have r: "i64 ?r = ?r" "lb \<le> v" "0 < ?r" using ok 3 by (auto simp: integer_ok_def intro!: i64_id)
    show ?thesis unfolding enc
    proof (rule parse_ext_fetches [OF b [unfolded enc]])
      fix q assume "q mod 8 = (p + of_bool ext) mod 8"
        and "prefix (enc_int_body lb ?r ((p + of_bool ext) mod 8) v) (drop q (bits_of buf))"
      then show "fetches (parseInteger False lbo ubo (reader buf q)) buf q
          (enc_int_body lb ?r ((p + of_bool ext) mod 8) v) v"
        using int_body_fetches [OF body(4) [OF 3], of ub q buf] r 3
        by (simp add: parseInteger_def parse_integer_range_def)
    qed simp
  next
    case 4
    have enc: "enc_integer ext lbo ubo (p mod 8) v = (if ext then [True] else []) @
        enc_int_body 0 (- 1) ((p + of_bool ext) mod 8) v"
      using 4 by (simp add: enc_integer_def mod_simps)
    show ?thesis unfolding enc
    proof (rule parse_ext_fetches [OF b [unfolded enc]])
      fix q assume "q mod 8 = (p + of_bool ext) mod 8"
        and "prefix (enc_int_body 0 (- 1) ((p + of_bool ext) mod 8) v) (drop q (bits_of buf))"
      then show "fetches (parseInteger True lbo ubo (reader buf q)) buf q
          (enc_int_body 0 (- 1) ((p + of_bool ext) mod 8) v) v"
        using int_body_fetches [OF body(1), of "- 1" q buf] 4
        by (simp add: parseInteger_def parse_integer_range_def)
    qed (use 4 in simp)
  qed
qed

interpretation integer: per_codec "enc_integer ext lbo ubo" "\<lambda>v. appendInteger v ext lbo ubo"
  "parse_ext ext (\<lambda>e. parseInteger e lbo ubo)" id "integer_ok ext lbo ubo" for ext lbo ubo
  by (rule per_codecI) (auto intro: appendInteger_emits parseInteger_fetches)

end
