(* ===== verification/Aper_Strings.thy ===== *)
theory Aper_Strings
  imports Aper_Prim
begin

text \<open>
  OCTET STRING, BIT STRING and open types of the aligned PER codec, with the extension bit and
  the fragmentation of long contents. \<^verbatim>\<open>append...\<close> is \<^verbatim>\<open>lib/aper/marshal.go\<close>, \<^verbatim>\<open>parse...\<close> is
  \<^verbatim>\<open>lib/aper/aper.go\<close>. A slice of a Go slice is taken inside its length: the callers build
  every slice they pass with no spare capacity.
\<close>

unbundle bit_operations_syntax

lemma word_pos: "x \<noteq> 0 \<Longrightarrow> 0 < unat x" for x :: u64
  by (simp add: unat_gt_0)

lemma word_ceil_pos: "x \<noteq> 0 \<Longrightarrow> 0 < (unat x + 7) div 8" for x :: u64
  using less_ceil8 [of 0 "unat x"] by (simp add: word_pos)

section \<open>Writing\<close>

text \<open>
  How both string encoders settle the lower bound, the upper bound and the size range and write
  the extension bit. The error texts differ.
\<close>

definition append_size_range ::
  "string \<Rightarrow> u64 \<Rightarrow> bool \<Rightarrow> int option \<Rightarrow> int option \<Rightarrow> perRawBitData \<Rightarrow> (int \<times> int \<times> int \<times> perRawBitData) res" where
  "append_size_range msg len extensive lowerBoundPtr upperBoundPtr pd =
     rbind
       (case (lowerBoundPtr, upperBoundPtr) of
          (None, _) \<Rightarrow> Inr (0, - 1, - 1, pd)
        | (Some lb, None) \<Rightarrow> Inr (lb, - 1, - 1, pd)
        | (Some lb, Some ub) \<Rightarrow>
            if \<not> len \<le> word_of_int ub \<and> \<not> extensive then Inl (Fail msg)
            else
              let sizeRange = (if len \<le> word_of_int ub then i64 (ub - lb + 1) else - 1) in
              if \<not> extensive then Inr (lb, ub, sizeRange, pd)
              else if sizeRange = - 1 then
                Inr (0, ub, sizeRange, case putBitsValue 1 1 pd of Inl _ \<Rightarrow> pd | Inr pd \<Rightarrow> pd)
              else Inr (lb, ub, sizeRange, case putBitsValue 0 1 pd of Inl _ \<Rightarrow> pd | Inr pd \<Rightarrow> pd))
       (\<lambda>(lb, ub, sizeRange, pd). Inr (lb, ub, if ub > 65535 then - 1 else sizeRange, pd))"

definition part_of_raw :: "u64 \<Rightarrow> u64" where
  "part_of_raw rawLength =
     (if rawLength > 65536 then 65536
      else if rawLength \<ge> 16384 then rawLength AND 0xc000
      else rawLength)"

function (sequential) append_octets ::
  "int \<Rightarrow> u64 \<Rightarrow> u8 list \<Rightarrow> nat \<Rightarrow> u64 \<Rightarrow> perRawBitData \<Rightarrow> perRawBitData res" where
  "append_octets sizeRange lb bs off rawLength pd =
     rbind (appendLength sizeRange (part_of_raw rawLength) pd) (\<lambda>pd.
       let partOfRawLength = part_of_raw rawLength + lb in
       if partOfRawLength = 0 then Inr pd
       else if off + unat partOfRawLength > length bs then Inl Panic
       else
         let pd = appendAlignBits pd;
             pd = pd\<lparr>rbytes := rbytes pd @ take (unat partOfRawLength) (drop off bs)\<rparr>;
             rawLength = rawLength - (partOfRawLength - lb)
         in if rawLength > 0
            then append_octets sizeRange lb bs (off + unat partOfRawLength) rawLength pd
            else Inr pd)"
  by pat_completeness auto
termination
  by (relation "measure (\<lambda>(_, _, bs, off, _, _). length bs - off)")
    (auto dest!: word_pos intro!: diff_less_mono2)

definition appendOctetString ::
  "u8 list \<Rightarrow> bool \<Rightarrow> int option \<Rightarrow> int option \<Rightarrow> perRawBitData \<Rightarrow> perRawBitData res" where
  "appendOctetString bs extensive lowerBoundPtr upperBoundPtr pd =
     (let byteLen = of_nat (length bs) :: u64 in
      rbind (append_size_range ''OctetString Length is over upperbound'' byteLen extensive
               lowerBoundPtr upperBoundPtr pd)
        (\<lambda>(lb, ub, sizeRange, pd).
           if sizeRange = 1 then
             if byteLen > 2 then
               let pd = appendAlignBits pd; pd = pd\<lparr>rbytes := rbytes pd @ bs\<rparr> in
               if byteLen \<noteq> word_of_int ub then Inl (Fail ''OctetString Length is not match fix-sized'')
               else Inr pd
             else putBitString bs (length bs * 8) pd
           else append_octets sizeRange (word_of_int lb) bs 0 (byteLen - word_of_int lb) pd))"

text \<open>
  An open type: the inner encoding on a fresh writer, then its bytes as an octet string. The
  \<^verbatim>\<open>appendAlignBits\<close> that closes the Go loop finds the writer aligned.
\<close>

definition appendOpenType ::
  "(perRawBitData \<Rightarrow> perRawBitData res) \<Rightarrow> perRawBitData \<Rightarrow> perRawBitData res" where
  "appendOpenType makeField pd =
     rbind (makeField \<lparr>rbytes = [], rbitsOffset = 0\<rparr>) (\<lambda>pdOpenType.
       append_octets (- 1) 0 (rbytes pdOpenType) 0 (of_nat (length (rbytes pdOpenType))) pd)"

function (sequential) append_bits ::
  "int \<Rightarrow> u64 \<Rightarrow> u8 list \<Rightarrow> nat \<Rightarrow> u64 \<Rightarrow> perRawBitData \<Rightarrow> perRawBitData res" where
  "append_bits sizeRange lb bs off rawLength pd =
     rbind (appendLength sizeRange (part_of_raw rawLength) pd) (\<lambda>pd.
       let partOfRawLength = part_of_raw rawLength + lb;
           sizes = (unat partOfRawLength + 7) div 8
       in
       if partOfRawLength = 0 then Inr pd
       else if off + sizes > length bs then Inl Panic
       else
         let pd = appendAlignBits pd;
             pd = pd\<lparr>rbytes := rbytes pd @ take sizes (drop off bs)\<rparr>;
             rawLength = rawLength - (partOfRawLength - lb)
         in if rawLength > 0 then append_bits sizeRange lb bs (off + sizes) rawLength pd
            else Inr (pd\<lparr>rbitsOffset := rbitsOffset pd + unat (partOfRawLength AND 7)\<rparr>))"
  by pat_completeness auto
termination
  by (relation "measure (\<lambda>(_, _, bs, off, _, _). length bs - off)")
    (auto dest!: word_ceil_pos intro!: diff_less_mono2)

definition append_bit_body ::
  "int \<Rightarrow> int \<Rightarrow> int \<Rightarrow> u8 list \<Rightarrow> u64 \<Rightarrow> perRawBitData \<Rightarrow> perRawBitData res" where
  "append_bit_body lb ub sizeRange bs bitsLength pd =
     (let sizes = (unat bitsLength + 7) div 8;
          shift = 8 - unat (bitsLength AND 7)
      in
      if shift \<noteq> 8 \<and> length bs < sizes then Inl Panic
      else
        let bs = (if shift \<noteq> 8 then bs[sizes - 1 := bs ! (sizes - 1) AND push_bit shift 255] else bs) in
        if sizeRange = 1 then
          if sizes > 2 then
            let pd = appendAlignBits pd;
                pd = pd\<lparr>rbytes := rbytes pd @ bs, rbitsOffset := nat (ub mod 8)\<rparr> in
            if bitsLength \<noteq> word_of_int ub then Inl (Fail ''bitString Length is not match fix-sized'')
            else Inr pd
          else putBitString bs (unat bitsLength) pd
        else append_bits sizeRange (word_of_int lb) bs 0 (bitsLength - word_of_int lb) pd)"

definition appendBitString ::
  "u8 list \<Rightarrow> u64 \<Rightarrow> bool \<Rightarrow> int option \<Rightarrow> int option \<Rightarrow> perRawBitData \<Rightarrow> perRawBitData res" where
  "appendBitString bs bitsLength extensive lowerBoundPtr upperBoundPtr pd =
     rbind (append_size_range ''bitString Length is over upperbound'' bitsLength extensive
              lowerBoundPtr upperBoundPtr pd)
       (\<lambda>(lb, ub, sizeRange, pd). append_bit_body lb ub sizeRange bs bitsLength pd)"

section \<open>Reading\<close>

definition parse_size_range :: "bool \<Rightarrow> int option \<Rightarrow> int option \<Rightarrow> int \<times> int \<times> int" where
  "parse_size_range extensed lowerBoundPtr upperBoundPtr =
     (let lb = (if extensed then 0 else case lowerBoundPtr of Some lb \<Rightarrow> lb | None \<Rightarrow> 0);
          (ub, sizeRange) = (if extensed then (- 1, - 1)
             else case upperBoundPtr of Some ub \<Rightarrow> (ub, i64 (ub - lb + 1)) | None \<Rightarrow> (- 1, - 1))
      in (lb, ub, if ub > 65535 then - 1 else sizeRange))"

text \<open>No reading step changes the bytes or moves backwards; this is why the loops end.\<close>

definition advances :: "perBitData \<Rightarrow> perBitData \<Rightarrow> bool" where
  "advances pd pd' \<longleftrightarrow> bytes pd' = bytes pd \<and> byteOffset pd \<le> byteOffset pd' \<and> pos pd \<le> pos pd'"

lemma advances_trans: "advances a b \<Longrightarrow> advances b c \<Longrightarrow> advances a c"
  by (simp add: advances_def)

lemma pos_bitCarry [simp]: "pos (bitCarry pd) = pos pd"
  by (simp add: pos_def bitCarry_def algebra_simps)

lemma getBitsValue_moves:
  "getBitsValue n pd = Inr (v, pd') \<Longrightarrow> pd' = bitCarry (pd\<lparr>bitsOffset := bitsOffset pd + n\<rparr>)"
  by (auto simp: getBitsValue_def split: if_splits sum.splits)

lemma getBitsValue_advances: "getBitsValue n pd = Inr (v, pd') \<Longrightarrow> advances pd pd'"
  by (drule getBitsValue_moves) (simp add: advances_def, simp add: pos_def bitCarry_def)

lemma parseAlignBits_advances: "parseAlignBits pd = Inr pd' \<Longrightarrow> advances pd pd'"
  by (auto simp: parseAlignBits_def dest!: getBitsValue_advances split: if_splits sum.splits)
    (simp_all add: advances_def, simp_all add: bitCarry_def)

lemma parseAlignBits_aligned:
  assumes "parseAlignBits pd = Inr pd'" shows "bitsOffset pd' = 0"
proof -
  have "(bitsOffset pd mod 8 + (8 - bitsOffset pd mod 8)) mod 8 = 0" by simp
  then have "(bitsOffset pd + (8 - bitsOffset pd mod 8)) mod 8 = 0" by (simp only: mod_add_left_eq)
  then show ?thesis
    using assms
    by (auto simp: parseAlignBits_def bitCarry_def dest!: getBitsValue_moves split: if_splits sum.splits)
qed

lemma parseConstraintValue_advances: "parseConstraintValue r pd = Inr (v, pd') \<Longrightarrow> advances pd pd'"
  by (auto simp: parseConstraintValue_def rbind_eq_Inr Let_def split: if_splits
      dest!: getBitsValue_advances parseAlignBits_advances intro: advances_trans)

lemma parseLength_advances: "parseLength r pd = Inr (v, pd') \<Longrightarrow> advances pd pd'"
  by (auto simp: parseLength_def rbind_eq_Inr Let_def split: if_splits prod.splits
      dest!: getBitsValue_advances parseAlignBits_advances parseConstraintValue_advances
      intro: advances_trans)

function (sequential) parse_octets ::
  "int \<Rightarrow> u64 \<Rightarrow> u8 list \<Rightarrow> perBitData \<Rightarrow> (u8 list \<times> perBitData) res" where
  "parse_octets sizeRange lb acc pd =
     rbind (parseLength sizeRange pd) (\<lambda>(l, pd).
       let rawLength = fst l + lb in
       if rawLength = 0 then Inr (acc, pd)
       else
         rbind (parseAlignBits pd) (\<lambda>pd.
           if unat rawLength + byteOffset pd > length (bytes pd)
           then Inl (Fail ''per data out of range '')
           else
             let acc = acc @ take (unat rawLength) (drop (byteOffset pd) (bytes pd));
                 pd = pd\<lparr>byteOffset := byteOffset pd + unat rawLength\<rparr>
             in if snd l then parse_octets sizeRange lb acc pd else Inr (acc, pd)))"
  by pat_completeness auto
termination
  by (relation "measure (\<lambda>(_, _, _, pd). length (bytes pd) - byteOffset pd)")
    (auto dest!: parseLength_advances parseAlignBits_advances word_pos simp: advances_def)

definition parseOctetString ::
  "bool \<Rightarrow> int option \<Rightarrow> int option \<Rightarrow> perBitData \<Rightarrow> (u8 list \<times> perBitData) res" where
  "parseOctetString extensed lowerBoundPtr upperBoundPtr pd =
     (let (lb, ub, sizeRange) = parse_size_range extensed lowerBoundPtr upperBoundPtr in
      if sizeRange = 1 then
        if ub > 2 then
          rbind (parseAlignBits pd) (\<lambda>pd.
            if int (byteOffset pd) + ub > int (length (bytes pd)) then Inl (Fail ''per data out of range'')
            else Inr (take (nat ub) (drop (byteOffset pd) (bytes pd)),
                      pd\<lparr>byteOffset := byteOffset pd + nat ub\<rparr>))
        else getBitString (unat (word_of_int (ub * 8) :: u64)) pd
      else parse_octets sizeRange (word_of_int lb) [] pd)"

text \<open>The contents octets of an open type are parsed on a reader of their own.\<close>

definition parseOpenType ::
  "(perBitData \<Rightarrow> ('w \<times> perBitData) res) \<Rightarrow> perBitData \<Rightarrow> ('w \<times> perBitData) res" where
  "parseOpenType parseField pd =
     rbind (parse_octets (- 1) 0 [] pd) (\<lambda>(content, pd).
     rbind (parseField \<lparr>bytes = content, byteOffset = 0, bitsOffset = 0\<rparr>) (\<lambda>(v, _). Inr (v, pd)))"

record BitString =
  Bytes :: "u8 list"
  BitLength :: u64

function (sequential) parse_bits ::
  "int \<Rightarrow> u64 \<Rightarrow> BitString \<Rightarrow> perBitData \<Rightarrow> (BitString \<times> perBitData) res" where
  "parse_bits sizeRange lb acc pd =
     rbind (parseLength sizeRange pd) (\<lambda>(l, pd).
       let rawLength = fst l + lb; sizes = (unat rawLength + 7) div 8 in
       if rawLength = 0 then Inr (acc, pd)
       else
         rbind (parseAlignBits pd) (\<lambda>pd.
           if byteOffset pd + sizes > length (bytes pd) then Inl (Fail ''PER data out of range'')
           else
             let acc = \<lparr>Bytes = Bytes acc @ take sizes (drop (byteOffset pd) (bytes pd)),
                        BitLength = BitLength acc + rawLength\<rparr>;
                 rest = unat rawLength mod 8;
                 pd = pd\<lparr>byteOffset := byteOffset pd + sizes - (if rest \<noteq> 0 then 1 else 0),
                         bitsOffset := rest\<rparr>
             in if snd l then parse_bits sizeRange lb acc pd else Inr (acc, pd)))"
  by pat_completeness auto
termination
proof (relation "measure (\<lambda>(_, _, _, pd). 8 * length (bytes pd) - pos pd)")
  fix sizeRange :: int and lb :: u64 and acc pd x l pda raw sizes pdb acca rest pd'
  assume len: "parseLength sizeRange pd = Inr x" and x: "(l, pda) = x" and raw: "raw = fst l + lb"
    and sizes: "sizes = (unat raw + 7) div 8" and nz: "raw \<noteq> 0" and al: "parseAlignBits pda = Inr pdb"
    and fits: "\<not> byteOffset pdb + sizes > length (bytes pdb)" and rest: "rest = unat raw mod 8"
    and pd': "pd' = pdb\<lparr>byteOffset := byteOffset pdb + sizes - (if rest \<noteq> 0 then 1 else 0), bitsOffset := rest\<rparr>"
  have "advances pd pda" using len x by (auto dest: parseLength_advances)
  then have adv: "advances pd pdb" using parseAlignBits_advances [OF al] by (rule advances_trans)
  have posb: "pos pdb = 8 * byteOffset pdb" using parseAlignBits_aligned [OF al] by (simp add: pos_def)
  have sz: "8 * sizes = unat raw + slack rest" unfolding sizes rest by (rule byte_count)
  have "pos pd' = 8 * byteOffset pdb + unat raw"
    using sz word_ceil_pos [OF nz] unfolding sizes [symmetric] pd' pos_def
    by (cases "rest = 0") (simp_all add: slack_pos rest)
  moreover have "8 * byteOffset pdb + unat raw \<le> 8 * length (bytes pdb)" using fits sz by linarith
  ultimately show "((sizeRange, lb, acca, pd'), sizeRange, lb, acc, pd)
      \<in> measure (\<lambda>(_, _, _, pd). 8 * length (bytes pd) - pos pd)"
    using adv posb word_pos [OF nz] by (simp add: advances_def pd') arith
qed simp

definition parseBitString ::
  "bool \<Rightarrow> int option \<Rightarrow> int option \<Rightarrow> perBitData \<Rightarrow> (BitString \<times> perBitData) res" where
  "parseBitString extensed lowerBoundPtr upperBoundPtr pd =
     (let (lb, ub, sizeRange) = parse_size_range extensed lowerBoundPtr upperBoundPtr in
      if sizeRange = 1 then
        let sizes = unat (drop_bit 3 (word_of_int (ub + 7) :: u64)); rest = nat (ub mod 8) in
        if sizes > 2 then
          rbind (parseAlignBits pd) (\<lambda>pd.
            if byteOffset pd + sizes > length (bytes pd) then Inl (Fail ''PER data out of range'')
            else Inr (\<lparr>Bytes = take sizes (drop (byteOffset pd) (bytes pd)), BitLength = word_of_int ub\<rparr>,
                      pd\<lparr>byteOffset := byteOffset pd + sizes - (if rest > 0 then 1 else 0),
                         bitsOffset := rest\<rparr>))
        else
          rbind (getBitString (unat (word_of_int ub :: u64)) pd) (\<lambda>(bs, pd).
            Inr (\<lparr>Bytes = bs, BitLength = word_of_int ub\<rparr>, pd))
      else parse_bits sizeRange (word_of_int lb) \<lparr>Bytes = [], BitLength = 0\<rparr> pd)"

section \<open>Fragments\<close>

definition fragment :: "nat \<Rightarrow> nat" where
  "fragment m = (if m > 65536 then 65536 else 16384 * (m div 16384))"

lemma fragment_bounds: "16384 \<le> m \<Longrightarrow> 0 < fragment m \<and> fragment m \<le> m \<and> fragment m \<le> 65536"
proof -
  assume m: "16384 \<le> m"
  have "1 \<le> m div 16384" using m div_le_mono [of 16384 m 16384] by simp
  moreover have "16384 * (m div 16384) \<le> m" by simp
  ultimately show ?thesis by (auto simp: fragment_def)
qed

lemma fragment_pos: "\<not> m < lb + 16384 \<Longrightarrow> 0 < fragment m"
  using fragment_bounds [of m] by simp

lemma fragment_values: "16384 \<le> m \<Longrightarrow> fragment m \<in> {16384, 32768, 49152, 65536}"
proof -
  assume m: "16384 \<le> m"
  show ?thesis
  proof (cases "m > 65536")
    case False
    have "1 \<le> m div 16384" using m div_le_mono [of 16384 m 16384] by simp
    moreover have "m div 16384 \<le> 4" using False div_le_mono [of m 65536 16384] by simp
    ultimately have "m div 16384 = 1 \<or> m div 16384 = 2 \<or> m div 16384 = 3 \<or> m div 16384 = 4" by linarith
    then show ?thesis using False by (auto simp: fragment_def)
  qed (simp add: fragment_def)
qed

lemma and_c000:
  assumes "m < 65536" shows "(of_nat m :: u64) AND 0xc000 = of_nat (16384 * (m div 16384))"
proof -
  have m: "m < 2 ^ 16" using assms by simp
  have c: "(0xc000 :: u64) = 2 ^ 14 OR 2 ^ 15" by simp
  have "(of_nat m :: u64) AND 0xc000 = push_bit 14 (drop_bit 14 (of_nat m))"
  proof (rule bit_word_eqI)
    fix n assume "n < LENGTH(64)"
    moreover have "bit m n \<Longrightarrow> n < 16" using m by (metis bit_take_bit_iff take_bit_nat_eq_self)
    ultimately show "bit ((of_nat m :: u64) AND 0xc000) n = bit (push_bit 14 (drop_bit 14 (of_nat m :: u64))) n"
      unfolding c bit_and_iff bit_or_iff bit_exp_iff bit_push_bit_iff bit_drop_bit_eq
      by (auto simp: bit_of_nat_iff)
  qed
  also have "drop_bit 14 (of_nat m :: u64) = of_nat (m div 16384)"
    using m by (simp add: word_unat_eq_iff unat_drop_bit_div unat_of_nat)
  finally show ?thesis by (simp add: push_bit_eq_mult mult.commute)
qed

function enc_octets :: "int \<Rightarrow> nat \<Rightarrow> nat \<Rightarrow> u8 list \<Rightarrow> bool list" where
  "enc_octets r lb off bs =
     (if length bs < lb + 16384 then
        let l = enc_length r off (of_nat (length bs - lb), False) in
        l @ (if bs = [] then [] else align ((off + length l) mod 8) @ bits_of bs)
      else
        let k = fragment (length bs) in
        enc_length r off (of_nat k, True) @ bits_of (take k bs) @ enc_octets r lb 0 (drop k bs))"
  by pat_completeness auto
termination
  by (relation "measure (\<lambda>(_, _, _, bs). length bs)")
    (auto intro!: diff_less fragment_pos)

declare enc_octets.simps [simp del] append_octets.simps [simp del] parse_octets.simps [simp del]

text \<open>
  The lengths both loops agree on: one fragment, or an unconstrained string that is not a
  multiple of 16384 octets long.
\<close>

definition octets_ok :: "int \<Rightarrow> nat \<Rightarrow> nat \<Rightarrow> bool" where
  "octets_ok r lb n \<longleftrightarrow>
     (if n < lb + 16384 then lb \<le> n \<and> n < 2 ^ 63 \<and> (0 < r \<and> r \<le> 65536 \<longrightarrow> int (n - lb) < r)
      else lb = 0 \<and> r = - 1 \<and> n < 2 ^ 63 \<and> n mod 16384 \<noteq> 0)"

lemma part_small: "n < 16384 \<Longrightarrow> part_of_raw (of_nat n) = of_nat n"
  by (simp add: part_of_raw_def word_le_nat_alt word_less_nat_alt unat_of_nat)

lemma part_fragment:
  assumes "16384 \<le> n" "n < 2 ^ 63" "n mod 16384 \<noteq> 0"
  shows "part_of_raw (of_nat n) = of_nat (fragment n)" "fragment n < n"
proof -
  have u: "unat (of_nat n :: u64) = n" using assms by (simp add: unat_of_nat)
  have "n \<noteq> 65536" using assms(3) by auto
  then show "part_of_raw (of_nat n) = of_nat (fragment n)"
    using assms and_c000 [of n] by (auto simp: part_of_raw_def fragment_def word_le_nat_alt word_less_nat_alt u)
  have "16384 * (n div 16384) \<noteq> n" using assms(3) by (metis mod_mult_self1_is_0)
  then show "fragment n < n" using fragment_bounds [OF assms(1)] by (auto simp: fragment_def)
qed

lemma fragment_mod: "16384 \<le> n \<Longrightarrow> (n - fragment n) mod 16384 = n mod 16384"
proof -
  assume n: "16384 \<le> n"
  have "fragment n mod 16384 = 0" using fragment_values [OF n] by auto
  then show ?thesis using fragment_bounds [OF n]
    by (metis (no_types) add.right_neutral le_add_diff_inverse2 mod_add_right_eq)
qed


text \<open>The loop only looks at what lies behind its offset.\<close>

lemma append_octets_drop:
  "boff \<le> length bs \<Longrightarrow>
   append_octets r lb bs boff raw pd = append_octets r lb (drop boff bs) 0 raw pd"
proof (induction "length bs - boff" arbitrary: bs boff raw pd rule: less_induct)
  case less
  let ?p = "part_of_raw raw + lb"
  have step: "append_octets r lb bs (boff + unat ?p) raw' pd' = append_octets r lb (drop boff bs) (unat ?p) raw' pd'"
    if "?p \<noteq> 0" "boff + unat ?p \<le> length bs" for raw' pd'
  proof -
    have "0 < unat ?p" using that(1) by (rule word_pos)
    then have "append_octets r lb bs (boff + unat ?p) raw' pd' = append_octets r lb (drop (boff + unat ?p) bs) 0 raw' pd'"
      using that less.prems by (intro less.hyps) auto
    moreover have "append_octets r lb (drop boff bs) (unat ?p) raw' pd' =
        append_octets r lb (drop (unat ?p) (drop boff bs)) 0 raw' pd'"
      using that \<open>0 < unat ?p\<close> by (intro less.hyps) auto
    ultimately show ?thesis by (simp add: add.commute)
  qed
  have "length (drop boff bs) < unat ?p \<longleftrightarrow> length bs < boff + unat ?p"
    using less.prems by auto
  then show ?case
    by (subst (1 2) append_octets.simps) (auto simp: Let_def step not_less intro!: rbind_cong)
qed


lemma octets_last:
  assumes pd: "valid_raw pd" and ok: "octets_ok r lb (length bs)" and m: "length bs < lb + 16384"
  shows "emits (append_octets r (of_nat lb) bs 0 (of_nat (length bs - lb)) pd) pd
    (enc_octets r lb (rbitsOffset pd) bs)"
proof -
  let ?m = "length bs" and ?raw = "of_nat (length bs - lb) :: u64"
  let ?l = "enc_length r (rbitsOffset pd) (?raw, False)"
  have n: "lb \<le> ?m" "?m < 2 ^ 63" "?m - lb < 16384" and r: "0 < r \<and> r \<le> 65536 \<longrightarrow> int (?m - lb) < r"
    using ok m by (auto simp: octets_ok_def)
  have sum: "?raw + of_nat lb = of_nat ?m" using n(1) by (metis le_add_diff_inverse2 of_nat_add)
  then have diff: "?raw - (of_nat ?m - of_nat lb) = 0" by (simp add: algebra_simps)
  have um: "unat (of_nat ?m :: u64) = ?m" using n(2) by (simp add: unat_of_nat)
  then have zero: "(of_nat ?m :: u64) = 0 \<longleftrightarrow> bs = []" using word_pos [of "of_nat ?m"] by force
  have "length_ok r (?raw, False)"
    using r n(3) by (auto simp: length_ok_def word_le_nat_alt unat_of_nat uint_nat)
  then have len: "emits (appendLength r (part_of_raw ?raw) pd) pd ?l"
    using appendLength_emits [OF pd] n(3) by (simp add: part_small)
  have "emits (append_octets r (of_nat lb) bs 0 ?raw pd) pd
      (?l @ (if bs = [] then [] else align ((rbitsOffset pd + length ?l) mod 8) @ bits_of bs))"
    unfolding append_octets.simps [of r "of_nat lb" bs 0]
  proof (rule emits_rbind [OF len pd])
    fix pd' assume pd': "valid_raw pd'" and off: "rbitsOffset pd' = (rbitsOffset pd + length ?l) mod 8"
    have "emits (Inr ((appendAlignBits pd')\<lparr>rbytes := rbytes (appendAlignBits pd') @ bs\<rparr>)) pd'
        (align (rbitsOffset pd') @ bits_of bs)"
      by (rule emits_aligned [OF pd' emits_bytes]) (rule appendAlignBits_bits(3) [OF pd'])
    then show "emits (let partOfRawLength = part_of_raw ?raw + of_nat lb in
        if partOfRawLength = 0 then Inr pd'
        else if 0 + unat partOfRawLength > length bs then Inl Panic
        else let pd = appendAlignBits pd';
                 pd = pd\<lparr>rbytes := rbytes pd @ take (unat partOfRawLength) (drop 0 bs)\<rparr>;
                 rawLength = ?raw - (partOfRawLength - of_nat lb)
             in if rawLength > 0
                then append_octets r (of_nat lb) bs (0 + unat partOfRawLength) rawLength pd
                else Inr pd) pd' (if bs = [] then [] else align ((rbitsOffset pd + length ?l) mod 8) @ bits_of bs)"
      using pd' n(3) zero off by (auto simp: part_small sum um diff Let_def emits_def)
  qed
  then show ?thesis using m by (simp add: enc_octets.simps Let_def)
qed


lemma octets_fragment:
  assumes ok: "octets_ok r lb (length bs)" and m: "\<not> length bs < lb + 16384"
  defines "k \<equiv> fragment (length bs)"
  shows "lb = 0" "r = - 1" "part_of_raw (of_nat (length bs)) = of_nat k" "0 < k" "k < length bs"
    and "unat (of_nat k :: u64) = k" "(of_nat (length bs) :: u64) - of_nat k = of_nat (length bs - k)"
    and "length_ok r (of_nat k, True)" "octets_ok r lb (length bs - k)" "(of_nat (length bs - k) :: u64) > 0"
proof -
  show lb: "lb = 0" and r: "r = - 1" using ok m by (simp_all add: octets_ok_def)
  have n: "16384 \<le> length bs" "length bs < 2 ^ 63" "length bs mod 16384 \<noteq> 0"
    using ok m by (simp_all add: octets_ok_def)
  show "part_of_raw (of_nat (length bs)) = of_nat k" and k: "k < length bs"
    unfolding k_def by (rule part_fragment [OF n])+
  have b: "0 < k" "k \<le> 65536" using fragment_bounds [OF n(1)] by (simp_all add: k_def)
  then show "0 < k" "unat (of_nat k :: u64) = k" by (simp_all add: unat_of_nat)
  show "(of_nat (length bs) :: u64) - of_nat k = of_nat (length bs - k)"
    using k by (simp add: of_nat_diff)
  have "k \<in> {16384, 32768, 49152, 65536}" unfolding k_def by (rule fragment_values [OF n(1)])
  then show "length_ok r (of_nat k, True)" using r by (auto simp: length_ok_def)
  have "unat (of_nat (length bs - k) :: u64) = length bs - k"
    using n(2) by (simp add: unat_of_nat)
  then show "(of_nat (length bs - k) :: u64) > 0" using k by (simp add: word_less_nat_alt)
  have "(length bs - k) mod 16384 \<noteq> 0" unfolding k_def using n(3) by (simp add: fragment_mod [OF n(1)])
  then show "octets_ok r lb (length bs - k)"
    using lb r n(2) k by (auto simp: octets_ok_def)
qed

lemma aligned_length: "\<not> (0 < r \<and> r \<le> 65536) \<Longrightarrow> length_ok r l \<Longrightarrow> (off + length (enc_length r off l)) mod 8 = 0"
  if "off < 8"
proof -
  assume r: "\<not> (0 < r \<and> r \<le> 65536)"
  have "(off + slack off) mod 8 = 0" using aligned_mod [of off] that by simp
  then have "(off + slack off + 8 * c) mod 8 = 0" for c by simp
  from this [of 1] this [of 2] show ?thesis
    using r by (auto simp: enc_length_def Let_def add.assoc split: if_splits)
qed

lemma octets_emits:
  assumes "valid_raw pd" and "octets_ok r lb (length bs)"
  shows "emits (append_octets r (of_nat lb) bs 0 (of_nat (length bs - lb)) pd) pd
    (enc_octets r lb (rbitsOffset pd) bs)"
  using assms
proof (induction "length bs" arbitrary: bs pd rule: less_induct)
  case less
  note pd = less.prems(1) and ok = less.prems(2)
  show ?case
  proof (cases "length bs < lb + 16384")
    case True
    with pd ok show ?thesis by (rule octets_last)
  next
    case False
    let ?k = "fragment (length bs)" and ?l = "enc_length r (rbitsOffset pd) (of_nat (fragment (length bs)), True)"
    note f = octets_fragment [OF ok False]
    have off8: "rbitsOffset pd < 8" using pd by (simp add: valid_raw_def)
    have len: "emits (appendLength r (of_nat ?k) pd) pd ?l"
      using pd f(8) by (rule appendLength_emits)
    have "emits (append_octets r 0 bs 0 (of_nat (length bs)) pd) pd
        (?l @ bits_of (take ?k bs) @ enc_octets r 0 0 (drop ?k bs))"
      unfolding append_octets.simps [of r 0 bs 0 "of_nat (length bs)"] f(3)
    proof (rule emits_rbind [OF len pd])
      fix pd' assume pd': "valid_raw pd'" and "rbitsOffset pd' = (rbitsOffset pd + length ?l) mod 8"
      then have off: "rbitsOffset pd' = 0" using aligned_length [OF off8 _ f(8)] f(2) by simp
      let ?pd = "(appendAlignBits pd')\<lparr>rbytes := rbytes (appendAlignBits pd') @ take ?k bs\<rparr>"
      have same: "appendAlignBits pd' = pd'" using off by (simp add: appendAlignBits_def)
      have step: "emits (rbind (Inr ?pd) (append_octets r 0 (drop ?k bs) 0 (of_nat (length bs - ?k)))) pd'
          (bits_of (take ?k bs) @ enc_octets r 0 0 (drop ?k bs))"
      proof (rule emits_rbind [OF _ pd'])
        show "emits (Inr ?pd) pd' (bits_of (take ?k bs))" unfolding same using off by (rule emits_bytes)
        fix pd'' assume "valid_raw pd''" "rbitsOffset pd'' = (rbitsOffset pd' + length (bits_of (take ?k bs))) mod 8"
        then show "emits (append_octets r 0 (drop ?k bs) 0 (of_nat (length bs - ?k)) pd'') pd''
            (enc_octets r 0 0 (drop ?k bs))"
          using less.hyps [of "drop ?k bs" pd''] f(1,4,5,9) off by simp
      qed
      have "(of_nat ?k :: u64) \<noteq> 0" using f(4,6) by force
      then show "emits (let partOfRawLength = of_nat ?k + 0 in
        if partOfRawLength = 0 then Inr pd'
        else if 0 + unat partOfRawLength > length bs then Inl Panic
        else let pd = appendAlignBits pd';
                 pd = pd\<lparr>rbytes := rbytes pd @ take (unat partOfRawLength) (drop 0 bs)\<rparr>;
                 rawLength = of_nat (length bs) - (partOfRawLength - 0)
             in if rawLength > 0 then append_octets r 0 bs (0 + unat partOfRawLength) rawLength pd
                else Inr pd) pd' (bits_of (take ?k bs) @ enc_octets r 0 0 (drop ?k bs))"
        using step f(6,10) append_octets_drop [OF less_imp_le [OF f(5)], of r 0] less_not_sym [OF f(5)]
        by (simp only: Let_def add_0_right diff_zero if_False if_True add_0 drop_0 f(7) rbind_simps)
    qed
    with False f(1) show ?thesis by (simp add: enc_octets.simps [of r 0 "rbitsOffset pd"] Let_def)
  qed
qed

text \<open>Reading the octets of one length.\<close>

lemma fetches_take_octets:
  assumes q: "q mod 8 = 0" and b: "prefix (bits_of bs) (drop q (bits_of buf))" and ne: "bs \<noteq> []"
  shows "\<not> length bs + q div 8 > length buf" "take (length bs) (drop (q div 8) buf) = bs"
    and "(reader buf q)\<lparr>byteOffset := q div 8 + length bs\<rparr> = reader buf (q + length (bits_of bs))"
  using read_bytes [OF q b ne] by (simp_all add: reader_advance)

lemma octets_fetches:
  assumes "octets_ok r lb (length bs)" and "prefix (enc_octets r lb (p mod 8) bs) (drop p (bits_of buf))"
  shows "fetches (parse_octets r (of_nat lb) acc (reader buf p)) buf p (enc_octets r lb (p mod 8) bs) (acc @ bs)"
  using assms
proof (induction "length bs" arbitrary: bs p acc rule: less_induct)
  case less
  note ok = less.prems(1) and pre = less.prems(2)
  show ?case
  proof (cases "length bs < lb + 16384")
    case True
    let ?m = "length bs" and ?raw = "of_nat (length bs - lb) :: u64"
    let ?l = "enc_length r (p mod 8) (?raw, False)"
    let ?q = "p + length ?l"
    have n: "lb \<le> ?m" "?m < 2 ^ 63" "?m - lb < 16384" and r: "0 < r \<and> r \<le> 65536 \<longrightarrow> int (?m - lb) < r"
      using ok True by (auto simp: octets_ok_def)
    have sum: "?raw + of_nat lb = of_nat ?m" using n(1) by (metis le_add_diff_inverse2 of_nat_add)
    have um: "unat (of_nat ?m :: u64) = ?m" using n(2) by (simp add: unat_of_nat)
    then have zero: "(of_nat ?m :: u64) = 0 \<longleftrightarrow> bs = []" using word_pos [of "of_nat ?m"] by force
    have lok: "length_ok r (?raw, False)"
      using r n(3) by (auto simp: length_ok_def word_le_nat_alt unat_of_nat uint_nat)
    have enc: "enc_octets r lb (p mod 8) bs =
        ?l @ (if bs = [] then [] else align (?q mod 8) @ bits_of bs)"
      using True by (simp add: enc_octets.simps Let_def mod_simps)
    have "prefix ?l (drop p (bits_of buf))" using pre unfolding enc prefix_append_drop by blast
    from parseLength_fetches [OF lok this]
    have len: "parseLength r (reader buf p) = Inr ((?raw, False), reader buf ?q)" by (simp add: fetches_def)
    show ?thesis
    proof (cases "bs = []")
      case True
      then show ?thesis
        unfolding enc parse_octets.simps [of r "of_nat lb" acc "reader buf p"] len
        using n(1) by (simp add: fetches_def)
    next
      case False
      have "prefix (align (?q mod 8) @ bits_of bs) (drop ?q (bits_of buf))"
        using pre [unfolded enc if_not_P [OF False]]
          prefix_append_drop [of ?l "align (?q mod 8) @ bits_of bs" p "bits_of buf"] by blast
      then have "fetches (rbind (parseAlignBits (reader buf ?q)) (\<lambda>pd.
           if unat (of_nat ?m :: u64) + byteOffset pd > length (bytes pd)
           then Inl (Fail ''per data out of range '')
           else Inr (acc @ take ?m (drop (byteOffset pd) (bytes pd)), pd\<lparr>byteOffset := byteOffset pd + ?m\<rparr>)))
          buf ?q (align (?q mod 8) @ bits_of bs) (acc @ bs)"
        by (rule fetches_aligned) (use fetches_take_octets [OF _ _ False] in \<open>simp add: um fetches_def\<close>)
      then show ?thesis
        unfolding enc parse_octets.simps [of r "of_nat lb" acc "reader buf p"] len
        using False zero by (simp add: sum um fetches_def Let_def add.assoc cong: if_cong)
    qed
  next
    case False
    let ?k = "fragment (length bs)" and ?l = "enc_length r (p mod 8) (of_nat (fragment (length bs)), True)"
    note f = octets_fragment [OF ok False]
    let ?q = "p + length ?l" and ?bk = "take ?k bs"
    have enc: "enc_octets r lb (p mod 8) bs = ?l @ bits_of ?bk @ enc_octets r lb 0 (drop ?k bs)"
      using False by (simp add: enc_octets.simps [of r lb "p mod 8"] Let_def)
    have "?q mod 8 = (p mod 8 + length ?l) mod 8" by (simp add: mod_simps)
    also have "\<dots> = 0" using aligned_length [of "p mod 8" r, OF _ _ f(8)] f(2) by simp
    finally have q: "?q mod 8 = 0" .
    have lk: "length ?bk = ?k" and ne: "?bk \<noteq> []" using f(4,5) by auto
    have pl: "prefix ?l (drop p (bits_of buf))" and pk: "prefix (bits_of ?bk) (drop ?q (bits_of buf))"
      and pr: "prefix (enc_octets r lb 0 (drop ?k bs)) (drop (?q + 8 * ?k) (bits_of buf))"
      using pre lk unfolding enc prefix_append_drop by simp_all
    from parseLength_fetches [OF f(8) pl]
    have len: "parseLength r (reader buf p) = Inr ((of_nat ?k, True), reader buf ?q)" by (simp add: fetches_def)
    have al: "parseAlignBits (reader buf ?q) = Inr (reader buf ?q)"
      using parseAlignBits_reader [of ?q buf] q by simp
    note t = fetches_take_octets [OF q pk ne, unfolded lk]
    have "(?q + 8 * ?k) mod 8 = 0" using q by presburger
    then have "fetches (parse_octets r (of_nat lb) (acc @ ?bk) (reader buf (?q + 8 * ?k))) buf (?q + 8 * ?k)
        (enc_octets r lb 0 (drop ?k bs)) ((acc @ ?bk) @ drop ?k bs)"
      using less.hyps [of "drop ?k bs" "?q + 8 * ?k" "acc @ ?bk"] f(4,5,9) pr by simp
    moreover have "(of_nat ?k :: u64) \<noteq> 0" using f(4,6) by force
    ultimately show ?thesis
      unfolding enc parse_octets.simps [of r "of_nat lb" acc "reader buf p"] len
      using t f(1,6) lk by (simp add: al fetches_def Let_def add.assoc)
  qed
qed

section \<open>OCTET STRING is a type of the codec\<close>

definition enc_octet_body :: "int \<Rightarrow> nat \<Rightarrow> nat \<Rightarrow> u8 list \<Rightarrow> bool list" where
  "enc_octet_body r lb off bs =
     (if r = 1 then (if length bs > 2 then align off else []) @ bits_of bs else enc_octets r lb off bs)"

definition size_range :: "int \<Rightarrow> int \<Rightarrow> int" where
  "size_range lb ub = (if ub > 65535 then - 1 else ub - lb + 1)"

definition enc_octet_string :: "bool \<Rightarrow> int option \<Rightarrow> int option \<Rightarrow> nat \<Rightarrow> u8 list \<Rightarrow> bool list" where
  "enc_octet_string ext lbo ubo off bs =
     (case (lbo, ubo) of
        (None, _) \<Rightarrow> enc_octet_body (- 1) 0 off bs
      | (Some lb, None) \<Rightarrow> enc_octet_body (- 1) (nat lb) off bs
      | (Some lb, Some ub) \<Rightarrow>
          if int (length bs) \<le> ub then (if ext then [False] else []) @
            enc_octet_body (size_range lb ub) (nat lb) ((off + of_bool ext) mod 8) bs
          else [True] @ enc_octet_body (- 1) 0 ((off + 1) mod 8) bs)"

definition octet_string_ok :: "bool \<Rightarrow> int option \<Rightarrow> int option \<Rightarrow> u8 list \<Rightarrow> bool" where
  "octet_string_ok ext lbo ubo bs \<longleftrightarrow> length bs < 2 ^ 62 \<and>
     (case (lbo, ubo) of
        (None, None) \<Rightarrow> \<not> ext \<and> octets_ok (- 1) 0 (length bs)
      | (None, Some _) \<Rightarrow> False
      | (Some lb, None) \<Rightarrow> \<not> ext \<and> 0 \<le> lb \<and> octets_ok (- 1) (nat lb) (length bs)
      | (Some lb, Some ub) \<Rightarrow> 0 \<le> lb \<and> lb \<le> ub \<and> ub < 2 ^ 62 \<and> lb \<le> int (length bs) \<and>
          (if int (length bs) \<le> ub
           then (if size_range lb ub = 1 then 0 < ub else octets_ok (size_range lb ub) (nat lb) (length bs))
           else ext \<and> octets_ok (- 1) 0 (length bs)))"

text \<open>A string of fixed size has no length; three octets and more are aligned.\<close>

lemma fixed_emits:
  assumes pd: "valid_raw pd" and n: "0 < length bs" "length bs < 2 ^ 62"
  shows "emits (if (of_nat (length bs) :: u64) > 2 then
       Inr ((appendAlignBits pd)\<lparr>rbytes := rbytes (appendAlignBits pd) @ bs\<rparr>)
     else putBitString bs (length bs * 8) pd) pd (enc_octet_body 1 lb (rbitsOffset pd) bs)"
proof (cases "length bs > 2")
  case True
  have "emits (Inr ((appendAlignBits pd)\<lparr>rbytes := rbytes (appendAlignBits pd) @ bs\<rparr>)) pd
      (align (rbitsOffset pd) @ bits_of bs)"
    by (rule emits_aligned [OF pd emits_bytes]) (rule appendAlignBits_bits(3) [OF pd])
  with True n show ?thesis by (simp add: enc_octet_body_def word_less_nat_alt unat_of_nat)
next
  case False
  have pad: "padded bs (length bs * 8) (bits_of bs)" by (simp add: padded_def mult.commute)
  have "emits (putBitString bs (length bs * 8) pd) pd (bits_of bs)"
    using putBitString_bits [OF pd _ pad] n(1) unfolding emits_def by (auto simp del: length_greater_0_conv)
  with False n show ?thesis by (simp add: enc_octet_body_def word_less_nat_alt unat_of_nat)
qed

lemma fixed_fetches:
  assumes n: "0 < length bs" "length bs < 2 ^ 62" and ub: "ub = int (length bs)"
    and b: "prefix (enc_octet_body 1 lb (p mod 8) bs) (drop p (bits_of buf))"
  shows "fetches
      (if ub > 2 then
          rbind (parseAlignBits (reader buf p)) (\<lambda>pd.
            if int (byteOffset pd) + ub > int (length (bytes pd)) then Inl (Fail ''per data out of range'')
            else Inr (take (nat ub) (drop (byteOffset pd) (bytes pd)),
                      pd\<lparr>byteOffset := byteOffset pd + nat ub\<rparr>))
        else getBitString (unat (word_of_int (ub * 8) :: u64)) (reader buf p)) buf p
      (enc_octet_body 1 lb (p mod 8) bs) bs"
proof (cases "length bs > 2")
  case True
  then have enc: "enc_octet_body 1 lb (p mod 8) bs = align (p mod 8) @ bits_of bs"
    by (simp add: enc_octet_body_def)
  have ne: "bs \<noteq> []" using n by auto
  have "ub > 2" using True ub by simp
  then show ?thesis unfolding enc if_P [OF \<open>ub > 2\<close>]
    by (intro fetches_aligned [OF b [unfolded enc]])
      (use fetches_take_octets [OF _ _ ne] in \<open>force simp: ub fetches_def\<close>)
next
  case False
  then have enc: "enc_octet_body 1 lb (p mod 8) bs = bits_of bs" by (simp add: enc_octet_body_def)
  have pre: "prefix (bits_of bs) (drop p (bits_of buf))" using b by (simp only: enc)
  have "bits_of bs \<noteq> []" using n(1) by (cases bs) (auto simp: byte_bits_def)
  from prefix_room [OF pre this] have fits: "p + length bs * 8 \<le> 8 * length buf" by simp
  obtain d where d: "getBitString (length bs * 8) (reader buf p) = Inr (d, reader buf (p + length bs * 8))"
    and ld: "length d = length bs" and bd: "bits_of d = bits_of bs"
    using getBitString_reader [OF _ fits] n(1) prefix_take [OF pre] by (auto simp: mult.commute)
  have "d = bs" using bits_of_inj [OF ld bd] .
  moreover have "unat (word_of_int (ub * 8) :: u64) = length bs * 8"
    using False ub by (subst unat_of_int64) (simp_all add: nat_mult_distrib)
  ultimately show ?thesis using False d ub by (simp add: enc fetches_def mult.commute)
qed


lemma octet_params:
  assumes ok: "octet_string_ok ext (Some lb) (Some ub) bs" and n: "int (length bs) \<le> ub"
  shows "(of_nat (length bs) :: u64) \<le> word_of_int ub" "i64 (ub - lb + 1) = ub - lb + 1"
    and "word_of_int lb = (of_nat (nat lb) :: u64)"
    and "size_range lb ub = 1 \<Longrightarrow> ub = int (length bs) \<and> 0 < length bs"
    and "(of_nat (length bs) :: u64) - of_nat (nat lb) = of_nat (length bs - nat lb)"
    and "ub - lb + 1 \<noteq> - 1"
proof -
  have b: "0 \<le> lb" "lb \<le> ub" "ub < 2 ^ 62" "lb \<le> int (length bs)" "length bs < 2 ^ 62"
    using ok by (auto simp: octet_string_ok_def)
  show "(of_nat (length bs) :: u64) \<le> word_of_int ub"
    using n b by (simp add: word_le_nat_alt unat_of_nat unat_of_int64)
  show "i64 (ub - lb + 1) = ub - lb + 1" using b by (intro i64_id) simp_all
  show "word_of_int lb = (of_nat (nat lb) :: u64)" using b(1) by (metis int_nat_eq of_int_of_nat_eq)
  show "(of_nat (length bs) :: u64) - of_nat (nat lb) = of_nat (length bs - nat lb)"
    using b(1,4) by (simp add: of_nat_diff nat_le_iff)
  show "ub - lb + 1 \<noteq> - 1" using b(2) by simp
  show "ub = int (length bs) \<and> 0 < length bs" if "size_range lb ub = 1"
  proof -
    have "ub = lb" using that by (simp add: size_range_def split: if_splits)
    moreover have "0 < ub" using ok n that by (simp add: octet_string_ok_def)
    ultimately show ?thesis using b n by auto
  qed
qed

lemma append_size_range_root:
  assumes "len \<le> word_of_int ub" "i64 (ub - lb + 1) = ub - lb + 1" "ub - lb + 1 \<noteq> - 1"
    and "putBitsValue 0 1 pd = Inr pf"
  shows "append_size_range msg len ext (Some lb) (Some ub) pd =
    Inr (lb, ub, size_range lb ub, if ext then pf else pd)"
  using assms by (simp add: append_size_range_def size_range_def)

lemma append_size_range_ext:
  assumes "\<not> len \<le> word_of_int ub" "putBitsValue 1 1 pd = Inr pt"
  shows "append_size_range msg len True (Some lb) (Some ub) pd = Inr (0, ub, - 1, pt)"
  using assms by (simp add: append_size_range_def)

lemma octet_body_emits:
  assumes pd: "valid_raw pd"
    and fixed: "r = 1 \<Longrightarrow> 0 < length bs \<and> length bs < 2 ^ 62 \<and> (of_nat (length bs) :: u64) = word_of_int ub"
    and ok: "r \<noteq> 1 \<Longrightarrow> octets_ok r lb (length bs)"
  shows "emits
      (if r = 1 then
         if (of_nat (length bs) :: u64) > 2 then
           let pd = appendAlignBits pd; pd = pd\<lparr>rbytes := rbytes pd @ bs\<rparr> in
           if of_nat (length bs) \<noteq> (word_of_int ub :: u64) then Inl (Fail ''OctetString Length is not match fix-sized'')
           else Inr pd
         else putBitString bs (length bs * 8) pd
       else append_octets r (of_nat lb) bs 0 (of_nat (length bs - lb)) pd) pd
      (enc_octet_body r lb (rbitsOffset pd) bs)"
proof (cases "r = 1")
  case True
  with fixed_emits [OF pd, of bs lb] fixed show ?thesis by (auto simp: Let_def split: if_splits)
next
  case False
  with octets_emits [OF pd ok] show ?thesis by (simp add: enc_octet_body_def)
qed

lemma appendOctetString_emits:
  assumes pd: "valid_raw pd" and ok: "octet_string_ok ext lbo ubo bs"
  shows "emits (appendOctetString bs ext lbo ubo pd) pd (enc_octet_string ext lbo ubo (rbitsOffset pd) bs)"
proof -
  have off: "rbitsOffset pd mod 8 = rbitsOffset pd" using pd by (simp add: valid_raw_def)
  obtain pf where pf: "putBitsValue 0 1 pd = Inr pf" "valid_raw pf" "raw_bits pf = raw_bits pd @ [False]"
    "rbitsOffset pf = (rbitsOffset pd + 1) mod 8" using ext_written [OF pd, of False] by auto
  obtain pt where pt: "putBitsValue 1 1 pd = Inr pt" "valid_raw pt" "raw_bits pt = raw_bits pd @ [True]"
    "rbitsOffset pt = (rbitsOffset pd + 1) mod 8" using ext_written [OF pd, of True] by auto
  consider "lbo = None" "ubo = None" | lb where "lbo = Some lb" "ubo = None"
    | lb ub where "lbo = Some lb" "ubo = Some ub" "int (length bs) \<le> ub"
    | lb ub where "lbo = Some lb" "ubo = Some ub" "\<not> int (length bs) \<le> ub"
    using ok by (cases lbo; cases ubo) (auto simp: octet_string_ok_def)
  then show ?thesis
  proof cases
    case 1
    then have "octets_ok (- 1) 0 (length bs)" using ok by (simp add: octet_string_ok_def)
    with octet_body_emits [OF pd, of "- 1" bs "- 1" 0] 1 show ?thesis
      by (simp add: appendOctetString_def append_size_range_def enc_octet_string_def Let_def)
  next
    case 2
    then have o: "octets_ok (- 1) (nat lb) (length bs)" "0 \<le> lb" using ok by (simp_all add: octet_string_ok_def)
    then have "nat lb \<le> length bs" by (auto simp: octets_ok_def split: if_splits)
    then have "(of_nat (length bs) :: u64) - of_nat (nat lb) = of_nat (length bs - nat lb)"
      "word_of_int lb = (of_nat (nat lb) :: u64)"
      using o(2) by (simp add: of_nat_diff, metis int_nat_eq of_int_of_nat_eq)
    with octet_body_emits [OF pd, of "- 1" bs "- 1" "nat lb"] 2 o(1) show ?thesis
      by (simp add: appendOctetString_def append_size_range_def enc_octet_string_def Let_def)
  next
    case 3
    note par = octet_params [OF ok [unfolded 3(1,2)] 3(3)]
    have o: "size_range lb ub \<noteq> 1 \<Longrightarrow> octets_ok (size_range lb ub) (nat lb) (length bs)" "length bs < 2 ^ 62"
      using ok 3 by (simp_all add: octet_string_ok_def)
    have f: "size_range lb ub = 1 \<Longrightarrow> 0 < length bs \<and> length bs < 2 ^ 62 \<and>
        (of_nat (length bs) :: u64) = word_of_int ub"
      using par(4) o(2) by simp
    have v: "valid_raw (if ext then pf else pd)" using pd pf by simp
    show ?thesis
      using octet_body_emits [OF v f o(1)] append_size_range_root [OF par(1,2,6) pf(1)] par(3,5) 3 pf off
      by (cases ext) (auto simp: appendOctetString_def enc_octet_string_def Let_def emits_def)
  next
    case 4
    have o: "ext" "octets_ok (- 1) 0 (length bs)" and "0 \<le> ub" "ub < 2 ^ 62" "length bs < 2 ^ 62"
      using ok 4 by (auto simp: octet_string_ok_def)
    then have "\<not> (of_nat (length bs) :: u64) \<le> word_of_int ub"
      using 4(3) by (simp add: word_le_nat_alt unat_of_nat unat_of_int64)
    from append_size_range_ext [OF this pt(1)] octet_body_emits [OF pt(2), of "- 1" bs ub 0] o 4 pt
    show ?thesis
      by (auto simp: appendOctetString_def enc_octet_string_def Let_def emits_def)
  qed
qed

lemma octet_body_fetches:
  assumes fixed: "r = 1 \<Longrightarrow> 0 < length bs \<and> length bs < 2 ^ 62 \<and> ub = int (length bs)"
    and ok: "r \<noteq> 1 \<Longrightarrow> octets_ok r lb (length bs)"
    and range: "parse_size_range e lbo ubo = (lbi, ub, r)" and lb: "(word_of_int lbi :: u64) = of_nat lb"
    and b: "prefix (enc_octet_body r lb (p mod 8) bs) (drop p (bits_of buf))"
  shows "fetches (parseOctetString e lbo ubo (reader buf p)) buf p (enc_octet_body r lb (p mod 8) bs) bs"
proof (cases "r = 1")
  case True
  with fixed have n: "0 < length bs" "length bs < 2 ^ 62" "ub = int (length bs)" by blast+
  have pre: "prefix (enc_octet_body 1 lb (p mod 8) bs) (drop p (bits_of buf))" using b by (simp only: True)
  show ?thesis
    unfolding parseOctetString_def range Let_def prod.case True
    using fixed_fetches [OF n pre] by (simp only: if_True simp_thms)
next
  case False
  with octets_fetches [OF ok, of p buf "[]"] b range lb show ?thesis
    by (simp add: parseOctetString_def enc_octet_body_def)
qed

lemma parseOctetString_fetches:
  assumes ok: "octet_string_ok ext lbo ubo bs"
    and b: "prefix (enc_octet_string ext lbo ubo (p mod 8) bs) (drop p (bits_of buf))"
  shows "fetches (parse_ext ext (\<lambda>e. parseOctetString e lbo ubo) (reader buf p)) buf p
    (enc_octet_string ext lbo ubo (p mod 8) bs) bs"
proof -
  consider "lbo = None" "ubo = None" "\<not> ext" | lb where "lbo = Some lb" "ubo = None" "\<not> ext"
    | lb ub where "lbo = Some lb" "ubo = Some ub" "int (length bs) \<le> ub"
    | lb ub where "lbo = Some lb" "ubo = Some ub" "\<not> int (length bs) \<le> ub" "ext"
    using ok by (cases lbo; cases ubo) (auto simp: octet_string_ok_def split: if_splits)
  then show ?thesis
  proof cases
    case 1
    then have "octets_ok (- 1) 0 (length bs)" using ok by (simp add: octet_string_ok_def)
    with octet_body_fetches [of "- 1" bs "- 1" 0 False lbo ubo 0 p buf] 1 b show ?thesis
      by (simp add: parse_ext_def enc_octet_string_def parse_size_range_def)
  next
    case 2
    then have o: "octets_ok (- 1) (nat lb) (length bs)" "0 \<le> lb" using ok by (simp_all add: octet_string_ok_def)
    then have lb: "(word_of_int lb :: u64) = of_nat (nat lb)" by (metis int_nat_eq of_int_of_nat_eq)
    from octet_body_fetches [where r = "- 1" and ub = "- 1", OF _ _ _ lb, of bs False lbo ubo p buf] o(1) 2 b
    show ?thesis
      by (simp add: parse_ext_def enc_octet_string_def parse_size_range_def)
  next
    case 3
    note par = octet_params [OF ok [unfolded 3(1,2)] 3(3)]
    let ?r = "size_range lb ub"
    have o: "?r \<noteq> 1 \<Longrightarrow> octets_ok ?r (nat lb) (length bs)" "length bs < 2 ^ 62"
      using ok 3 by (simp_all add: octet_string_ok_def)
    have f: "?r = 1 \<Longrightarrow> 0 < length bs \<and> length bs < 2 ^ 62 \<and> ub = int (length bs)"
      using par(4) o(2) by simp
    have range: "parse_size_range False lbo ubo = (lb, ub, ?r)"
      using 3 par(2) by (simp add: parse_size_range_def size_range_def)
    have enc: "enc_octet_string ext lbo ubo (p mod 8) bs = (if ext then [False] else []) @
        enc_octet_body ?r (nat lb) ((p + of_bool ext) mod 8) bs"
      using 3 by (simp add: enc_octet_string_def mod_simps)
    show ?thesis unfolding enc
    proof (rule parse_ext_fetches [OF b [unfolded enc]])
      fix q assume "q mod 8 = (p + of_bool ext) mod 8"
        and "prefix (enc_octet_body ?r (nat lb) ((p + of_bool ext) mod 8) bs) (drop q (bits_of buf))"
      then show "fetches (parseOctetString False lbo ubo (reader buf q)) buf q
          (enc_octet_body ?r (nat lb) ((p + of_bool ext) mod 8) bs) bs"
        using octet_body_fetches [OF f o(1) range par(3), of q buf] by simp
    qed simp
  next
    case 4
    have o: "octets_ok (- 1) 0 (length bs)" using ok 4 by (simp add: octet_string_ok_def)
    have enc: "enc_octet_string ext lbo ubo (p mod 8) bs = (if ext then [True] else []) @
        enc_octet_body (- 1) 0 ((p + of_bool ext) mod 8) bs"
      using 4 by (simp add: enc_octet_string_def mod_simps)
    show ?thesis unfolding enc
    proof (rule parse_ext_fetches [OF b [unfolded enc]])
      fix q assume "q mod 8 = (p + of_bool ext) mod 8"
        and "prefix (enc_octet_body (- 1) 0 ((p + of_bool ext) mod 8) bs) (drop q (bits_of buf))"
      then show "fetches (parseOctetString True lbo ubo (reader buf q)) buf q
          (enc_octet_body (- 1) 0 ((p + of_bool ext) mod 8) bs) bs"
        using octet_body_fetches [of "- 1" bs "- 1" 0 True lbo ubo 0 q buf] o
        by (simp add: parse_size_range_def)
    qed (use 4 in simp)
  qed
qed

interpretation octet_string: per_codec "enc_octet_string ext lbo ubo"
  "\<lambda>bs. appendOctetString bs ext lbo ubo" "parse_ext ext (\<lambda>e. parseOctetString e lbo ubo)" id
  "octet_string_ok ext lbo ubo" for ext lbo ubo
  by (rule per_codecI) (auto intro: appendOctetString_emits parseOctetString_fetches)

end
