(* ===== verification/Aper_Bit_String.thy ===== *)
theory Aper_Bit_String
  imports Aper_Strings
begin

text \<open>
  The correctness of BIT STRING: \<open>appendBitString\<close> and \<open>parseBitString\<close> of the theory of strings
  implement one encoding, for strings of one fragment, of fixed and of variable size, with and
  without the extension bit.
\<close>

unbundle bit_operations_syntax

section \<open>BIT STRING is a type of the codec\<close>

declare append_bits.simps [simp del] parse_bits.simps [simp del]

text \<open>
  The value of a bit string is its first \<^verbatim>\<open>BitLength\<close> bits: an aligned decoder hands out whole
  bytes of the message, whose last bits may belong to the next field.
\<close>

definition bit_value :: "BitString \<Rightarrow> bool list" where
  "bit_value w = take (unat (BitLength w)) (bits_of (Bytes w))"

definition enc_bit_body :: "int \<Rightarrow> nat \<Rightarrow> nat \<Rightarrow> bool list \<Rightarrow> bool list" where
  "enc_bit_body r lb off b =
     (if r = 1 then (if length b > 16 then align off else []) @ b
      else
        let l = enc_length r off (of_nat (length b - lb), False) in
        l @ (if b = [] then [] else align ((off + length l) mod 8) @ b))"

definition enc_bit_string :: "bool \<Rightarrow> int option \<Rightarrow> int option \<Rightarrow> nat \<Rightarrow> bool list \<Rightarrow> bool list" where
  "enc_bit_string ext lbo ubo off b =
     (case (lbo, ubo) of
        (None, _) \<Rightarrow> enc_bit_body (- 1) 0 off b
      | (Some lb, None) \<Rightarrow> enc_bit_body (- 1) (nat lb) off b
      | (Some lb, Some ub) \<Rightarrow>
          if int (length b) \<le> ub then (if ext then [False] else []) @
            enc_bit_body (size_range lb ub) (nat lb) ((off + of_bool ext) mod 8) b
          else [True] @ enc_bit_body (- 1) 0 ((off + 1) mod 8) b)"

text \<open>Strings below 16384 bits, in one fragment, with exactly the bytes they need.\<close>

definition bit_string_ok :: "bool \<Rightarrow> int option \<Rightarrow> int option \<Rightarrow> BitString \<Rightarrow> bool" where
  "bit_string_ok ext lbo ubo w \<longleftrightarrow>
     (let n = unat (BitLength w) in
      n < 16384 \<and> length (Bytes w) = (n + 7) div 8 \<and>
      (case (lbo, ubo) of
         (None, None) \<Rightarrow> \<not> ext
       | (None, Some _) \<Rightarrow> False
       | (Some lb, None) \<Rightarrow> \<not> ext \<and> 0 \<le> lb \<and> lb \<le> int n
       | (Some lb, Some ub) \<Rightarrow> 0 \<le> lb \<and> lb \<le> ub \<and> ub < 2 ^ 62 \<and> lb \<le> int n \<and> 0 < ub \<and> (int n \<le> ub \<or> ext)))"

lemma length_bit_value: "length (Bytes w) = (unat (BitLength w) + 7) div 8 \<Longrightarrow> length (bit_value w) = unat (BitLength w)"
  using byte_count [of "unat (BitLength w)"] by (simp add: bit_value_def)

lemma unat_and_7: "unat (n AND 7 :: u64) = unat n mod 8"
proof -
  have "n AND 7 = take_bit 3 n" by (simp add: take_bit_eq_mask mask_numeral)
  then show ?thesis by (simp only: unsigned_take_bit_eq) (simp add: take_bit_eq_mod)
qed

text \<open>The encoder clears the unused bits of the last byte.\<close>

lemma mask_bits:
  assumes len: "length bs = (n + 7) div 8" and n: "n mod 8 \<noteq> 0"
  shows "bits_of (bs[(n + 7) div 8 - 1 := bs ! ((n + 7) div 8 - 1) AND push_bit (8 - n mod 8) 255]) =
    take n (bits_of bs) @ replicate (slack (n mod 8)) False" (is "bits_of ?m = ?r")
proof (rule nth_equalityI)
  have sz: "8 * length bs = n + slack (n mod 8)" unfolding len by (rule byte_count)
  then show "length (bits_of ?m) = length ?r" by simp
  fix k assume "k < length (bits_of ?m)"
  then have k: "k < 8 * length bs" by simp
  define j r where "j = k div 8" and "r = k mod 8"
  have jr: "k = 8 * j + r" and r: "r < 8" and j: "j < length bs"
    using k unfolding j_def r_def by (simp_all add: less_mult_imp_div_less mult.commute)
  have "bits_of ?m ! k = bit (?m ! j) (7 - r)"
    using k by (simp add: nth_bits_of j_def r_def)
  also have "\<dots> = (bit (bs ! j) (7 - r) \<and> (j = length bs - 1 \<longrightarrow> bit (push_bit (8 - n mod 8) 255 :: u8) (7 - r)))"
    using j len by (auto simp: nth_list_update bit_and_iff)
  also have "\<dots> = (bit (bs ! j) (7 - r) \<and> k < n)"
    using mask_last_byte [OF len j r] n unfolding jr by simp
  also have "\<dots> = ?r ! k"
    using k sz by (auto simp: nth_append nth_bits_of j_def r_def)
  finally show "bits_of ?m ! k = ?r ! k" .
qed

definition masked :: "nat \<Rightarrow> u8 list \<Rightarrow> u8 list" where
  "masked n bs = (if n mod 8 \<noteq> 0 then bs[(n + 7) div 8 - 1 := bs ! ((n + 7) div 8 - 1) AND push_bit (8 - n mod 8) 255] else bs)"

lemma masked_bits:
  assumes "length bs = (n + 7) div 8"
  shows "bits_of (masked n bs) = take n (bits_of bs) @ replicate (slack (n mod 8)) False"
    and "length (masked n bs) = (n + 7) div 8"
  using assms mask_bits [OF assms] byte_count [of n] by (auto simp: masked_def)

lemma emits_bit_bytes:
  assumes off: "rbitsOffset pd = 0" and bits: "bits_of bs = b @ replicate (slack (length b mod 8)) False"
  shows "emits (Inr (pd\<lparr>rbytes := rbytes pd @ bs, rbitsOffset := length b mod 8\<rparr>)) pd b"
proof -
  let ?pd = "pd\<lparr>rbytes := rbytes pd @ bs, rbitsOffset := length b mod 8\<rparr>"
  have "raw_bits ?pd = raw_bits pd @ b \<and> valid_raw ?pd"
    by (rule raw_bits_eqI) (use assms in \<open>auto simp: raw_bits_aligned\<close>)
  then show ?thesis by (simp add: emits_def)
qed

text \<open>One fragment of a bit string: its length, then its bits from a byte boundary.\<close>

lemma append_bits_emits:
  assumes pd: "valid_raw pd" and n: "n < 16384" "lb \<le> n" and r: "0 < r \<and> r \<le> 65536 \<longrightarrow> int (n - lb) < r"
    and len: "length bs = (n + 7) div 8"
    and bits: "bits_of bs = b @ replicate (slack (n mod 8)) False" and lb: "length b = n" and r1: "r \<noteq> 1"
  shows "emits (append_bits r (of_nat lb) bs 0 (of_nat (n - lb)) pd) pd (enc_bit_body r lb (rbitsOffset pd) b)"
proof -
  let ?raw = "of_nat (n - lb) :: u64" and ?l = "enc_length r (rbitsOffset pd) (of_nat (n - lb), False)"
  have sum: "?raw + of_nat lb = of_nat n" using n by (metis le_add_diff_inverse2 of_nat_add)
  then have diff: "?raw - (of_nat n - of_nat lb) = 0" by (simp add: algebra_simps)
  have um: "unat (of_nat n :: u64) = n" using n by (simp add: unat_of_nat)
  then have zero: "(of_nat n :: u64) = 0 \<longleftrightarrow> b = []" using word_pos [of "of_nat n"] lb by force
  have small: "n - lb < 16384" using n(1) by simp
  then have "length_ok r (?raw, False)"
    using r by (auto simp: length_ok_def word_le_nat_alt unat_of_nat uint_nat)
  then have lene: "emits (appendLength r (part_of_raw ?raw) pd) pd ?l"
    using appendLength_emits [OF pd] small by (simp add: part_small)
  have "emits (append_bits r (of_nat lb) bs 0 ?raw pd) pd
      (?l @ (if b = [] then [] else align ((rbitsOffset pd + length ?l) mod 8) @ b))"
    unfolding append_bits.simps [of r "of_nat lb" bs 0]
  proof (rule emits_rbind [OF lene pd], goal_cases)
    case (1 pd')
    let ?pd = "appendAlignBits pd'"
    note al = appendAlignBits_bits [OF 1(1)]
    have "emits (Inr (?pd\<lparr>rbytes := rbytes ?pd @ bs, rbitsOffset := n mod 8\<rparr>)) pd' (align (rbitsOffset pd') @ b)"
      by (rule emits_aligned [OF 1(1)]) (use emits_bit_bytes [OF al(3), of bs b] bits lb in simp)
    then show ?case
      using 1 small zero al(3) len by (auto simp: part_small sum um diff Let_def unat_and_7 emits_def)
  qed
  then show ?thesis using r1 lb by (simp add: enc_bit_body_def Let_def)
qed

lemma bit_body_emits:
  assumes pd: "valid_raw pd" and n: "unat bl < 16384" "lb \<le> unat bl" and len: "length bs = (unat bl + 7) div 8"
    and r: "0 < r \<and> r \<le> 65536 \<longrightarrow> int (unat bl - lb) < r" and fixed: "r = 1 \<Longrightarrow> 0 < unat bl \<and> ub = int (unat bl)"
    and lbi: "(word_of_int lbi :: u64) = of_nat lb"
  shows "emits (append_bit_body lbi ub r bs bl pd) pd
     (enc_bit_body r lb (rbitsOffset pd) (take (unat bl) (bits_of bs)))"
proof -
  let ?n = "unat bl" and ?b = "take (unat bl) (bits_of bs)"
  note m = masked_bits [OF len]
  have lb: "length ?b = ?n" using len byte_count [of ?n] by simp
  have bl: "bl - of_nat lb = of_nat (?n - lb)" using n(2) by (simp add: of_nat_diff)
  have mask: "(if 8 - unat (bl AND 7) \<noteq> 8 then bs[(?n + 7) div 8 - 1 := bs ! ((?n + 7) div 8 - 1) AND
      push_bit (8 - unat (bl AND 7)) 255] else bs) = masked ?n bs"
    by (auto simp: masked_def unat_and_7)
  consider "r \<noteq> 1" | "r = 1" "?n > 16" | "r = 1" "?n \<le> 16" by linarith
  then have "emits (if r = 1 then
              if (?n + 7) div 8 > 2 then
                let pd = appendAlignBits pd;
                    pd = pd\<lparr>rbytes := rbytes pd @ masked ?n bs, rbitsOffset := nat (ub mod 8)\<rparr> in
                if bl \<noteq> word_of_int ub then Inl (Fail ''bitString Length is not match fix-sized'')
                else Inr pd
              else putBitString (masked ?n bs) ?n pd
            else append_bits r (of_nat lb) (masked ?n bs) 0 (bl - of_nat lb) pd) pd
     (enc_bit_body r lb (rbitsOffset pd) ?b)"
  proof cases
    case 1
    with append_bits_emits [OF pd n r m(2,1) lb] show ?thesis by (simp add: bl)
  next
    case 2
    then have ub: "ub = int ?n" and sz: "(?n + 7) div 8 > 2" using fixed less_ceil8 [of 2 ?n] by simp_all
    let ?pd = "appendAlignBits pd"
    note al = appendAlignBits_bits [OF pd]
    have "emits (Inr (?pd\<lparr>rbytes := rbytes ?pd @ masked ?n bs, rbitsOffset := ?n mod 8\<rparr>)) pd
        (align (rbitsOffset pd) @ ?b)"
      by (rule emits_aligned [OF pd]) (use emits_bit_bytes [OF al(3), of "masked ?n bs" ?b] m lb in simp)
    then show ?thesis using 2 ub sz lb by (simp add: enc_bit_body_def Let_def nat_mod_distrib)
  next
    case 3
    then have sz: "\<not> (?n + 7) div 8 > 2" and pos: "0 < ?n" using fixed by auto
    have "padded (masked ?n bs) ?n ?b" using m lb by (simp add: padded_def)
    from putBitString_bits [OF pd pos this] have "emits (putBitString (masked ?n bs) ?n pd) pd ?b"
      unfolding emits_def by blast
    then show ?thesis using 3 sz lb by (simp add: enc_bit_body_def)
  qed
  then show ?thesis using len unfolding append_bit_body_def Let_def mask lbi by simp
qed

text \<open>Reading the bits behind a byte boundary as whole bytes.\<close>

lemma read_bit_bytes:
  assumes q: "q mod 8 = 0" and b: "prefix b (drop q (bits_of buf))" and ne: "b \<noteq> []"
  defines "k \<equiv> (length b + 7) div 8"
  shows "\<not> q div 8 + k > length buf" "take (length b) (bits_of (take k (drop (q div 8) buf))) = b"
    and "(reader buf q)\<lparr>byteOffset := q div 8 + k - (if length b mod 8 \<noteq> 0 then 1 else 0),
           bitsOffset := length b mod 8\<rparr> = reader buf (q + length b)"
proof -
  let ?n = "length b"
  have q8: "8 * (q div 8) = q" using q by presburger
  have k8: "8 * k = ?n + slack (?n mod 8)" unfolding k_def by (rule byte_count)
  have "q + ?n \<le> 8 * length buf" by (rule prefix_room [OF b ne])
  then show "\<not> q div 8 + k > length buf"
    using q8 k8 slack_less [of "?n mod 8"] by linarith
  show "take ?n (bits_of (take k (drop (q div 8) buf))) = b"
    using prefix_take [OF b] k8 by (simp add: bits_of_take bits_of_drop q8 min_def)
  have "k - (if ?n mod 8 \<noteq> 0 then 1 else 0) = ?n div 8" and "(if ?n mod 8 \<noteq> 0 then 1 else 0) \<le> k"
    using k8 div_mult_mod_eq [of ?n 8] by (auto simp: slack_pos split: if_splits)
  moreover have "(q + ?n) div 8 = q div 8 + ?n div 8" "(q + ?n) mod 8 = ?n mod 8"
    using q8 by (metis div_mult_self2 add.commute zero_neq_numeral, metis mod_mult_self2 add.commute)
  ultimately show "(reader buf q)\<lparr>byteOffset := q div 8 + k - (if ?n mod 8 \<noteq> 0 then 1 else 0),
      bitsOffset := ?n mod 8\<rparr> = reader buf (q + ?n)"
    by (simp add: reader_def split: if_splits) arith?
qed

text \<open>The two ways the decoder hands a bit string out: a copy of the bits, or the bytes around them.\<close>

definition bit_fetches :: "(BitString \<times> perBitData) res \<Rightarrow> u8 list \<Rightarrow> nat \<Rightarrow> bool list \<Rightarrow> bool list \<Rightarrow> bool" where
  "bit_fetches r buf p e b \<longleftrightarrow> (\<exists>w. fetches r buf p e w \<and> bit_value w = b)"

lemma bit_fetches_aligned:
  assumes "prefix (align (p mod 8) @ e) (drop p (bits_of buf))"
    and "\<And>q. q mod 8 = 0 \<Longrightarrow> prefix e (drop q (bits_of buf)) \<Longrightarrow> bit_fetches (f (reader buf q)) buf q e b"
  shows "bit_fetches (rbind (parseAlignBits (reader buf p)) f) buf p (align (p mod 8) @ e) b"
proof -
  let ?q = "p + slack (p mod 8)"
  have "prefix e (drop ?q (bits_of buf))" using assms(1) by (simp add: prefix_append_drop)
  then obtain w where "fetches (f (reader buf ?q)) buf ?q e w" "bit_value w = b"
    using assms(2) [of ?q] by (auto simp: bit_fetches_def)
  with assms(1) show ?thesis
    by (auto simp: bit_fetches_def fetches_def prefix_append_drop parseAlignBits_reader add.assoc)
qed

lemma fixed_bits_fetches:
  assumes n: "0 < length b" "length b < 16384" and ub: "ub = int (length b)"
    and pre: "prefix (enc_bit_body 1 lb (p mod 8) b) (drop p (bits_of buf))"
    and range: "parse_size_range e lbo ubo = (lbi, ub, 1)"
  shows "bit_fetches (parseBitString e lbo ubo (reader buf p)) buf p (enc_bit_body 1 lb (p mod 8) b) b"
proof -
  let ?n = "length b" and ?k = "(length b + 7) div 8"
  have bl: "unat (word_of_int ub :: u64) = ?n" using n ub by (subst unat_of_int64) simp_all
  have sz: "unat (drop_bit 3 (word_of_int (ub + 7) :: u64)) = ?k"
    unfolding unat_drop_bit_div using n ub by (subst unat_of_int64) (simp_all add: nat_add_distrib)
  have ne: "b \<noteq> []" using n by auto
  have rest: "nat (ub mod 8) = ?n mod 8" using ub by (simp add: nat_mod_distrib)
  show ?thesis
  proof (cases "?n > 16")
    case True
    then have enc: "enc_bit_body 1 lb (p mod 8) b = align (p mod 8) @ b" and k: "?k > 2"
      using less_ceil8 [of 2 ?n] by (simp_all add: enc_bit_body_def)
    show ?thesis
      unfolding parseBitString_def range Let_def prod.case sz rest enc if_P [OF refl] if_P [OF k]
      by (rule bit_fetches_aligned [OF pre [unfolded enc]])
        (use read_bit_bytes [OF _ _ ne] in \<open>simp add: bit_fetches_def fetches_def bit_value_def bl\<close>)
  next
    case False
    then have enc: "enc_bit_body 1 lb (p mod 8) b = b" and k: "\<not> ?k > 2"
      by (simp_all add: enc_bit_body_def)
    have pre': "prefix b (drop p (bits_of buf))" using pre by (simp only: enc)
    obtain d where "getBitString ?n (reader buf p) = Inr (d, reader buf (p + ?n))"
      and "bits_of d = b @ replicate (slack (?n mod 8)) False"
      using getBitString_reader [OF n(1) prefix_room [OF pre' ne]] prefix_take [OF pre'] by auto
    then show ?thesis
      unfolding parseBitString_def range Let_def prod.case sz enc if_P [OF refl] if_not_P [OF k] bl
      by (simp add: bit_fetches_def fetches_def bit_value_def bl)
  qed
qed

lemma parse_bits_fetches:
  assumes n: "length b < 16384" "lb \<le> length b" and r: "0 < r \<and> r \<le> 65536 \<longrightarrow> int (length b - lb) < r"
    and r1: "r \<noteq> 1" and pre: "prefix (enc_bit_body r lb (p mod 8) b) (drop p (bits_of buf))"
  shows "bit_fetches (parse_bits r (of_nat lb) \<lparr>Bytes = [], BitLength = 0\<rparr> (reader buf p)) buf p
    (enc_bit_body r lb (p mod 8) b) b"
proof -
  let ?n = "length b" and ?raw = "of_nat (length b - lb) :: u64"
  let ?l = "enc_length r (p mod 8) (?raw, False)"
  let ?q = "p + length ?l"
  have sum: "?raw + of_nat lb = of_nat ?n" using n by (metis le_add_diff_inverse2 of_nat_add)
  have um: "unat (of_nat ?n :: u64) = ?n" using n by (simp add: unat_of_nat)
  then have zero: "(of_nat ?n :: u64) = 0 \<longleftrightarrow> b = []" using word_pos [of "of_nat ?n"] by force
  have "?n - lb < 16384" using n(1) by simp
  then have lok: "length_ok r (?raw, False)"
    using r by (auto simp: length_ok_def word_le_nat_alt unat_of_nat uint_nat)
  have enc: "enc_bit_body r lb (p mod 8) b = ?l @ (if b = [] then [] else align (?q mod 8) @ b)"
    using r1 by (simp add: enc_bit_body_def Let_def mod_simps)
  have "prefix ?l (drop p (bits_of buf))" using pre unfolding enc prefix_append_drop by blast
  from parseLength_fetches [OF lok this]
  have len: "parseLength r (reader buf p) = Inr ((?raw, False), reader buf ?q)" by (simp add: fetches_def)
  note unf = parse_bits.simps [of r "of_nat lb" "\<lparr>Bytes = [], BitLength = 0\<rparr>" "reader buf p"]
  show ?thesis
  proof (cases "b = []")
    case True
    then show ?thesis
      unfolding enc unf len using n(2) by (simp add: bit_fetches_def fetches_def bit_value_def)
  next
    case False
    have "prefix (align (?q mod 8) @ b) (drop ?q (bits_of buf))"
      using pre [unfolded enc if_not_P [OF False]]
        prefix_append_drop [of ?l "align (?q mod 8) @ b" p "bits_of buf"] by blast
    then have "bit_fetches (rbind (parseAlignBits (reader buf ?q)) (\<lambda>pd.
           if byteOffset pd + (?n + 7) div 8 > length (bytes pd) then Inl (Fail ''PER data out of range'')
           else Inr (\<lparr>Bytes = take ((?n + 7) div 8) (drop (byteOffset pd) (bytes pd)), BitLength = of_nat ?n\<rparr>,
             pd\<lparr>byteOffset := byteOffset pd + (?n + 7) div 8 - (if ?n mod 8 \<noteq> 0 then 1 else 0),
                bitsOffset := ?n mod 8\<rparr>))) buf ?q (align (?q mod 8) @ b) b"
      by (rule bit_fetches_aligned)
        (use read_bit_bytes [OF _ _ False] in \<open>simp add: bit_fetches_def fetches_def bit_value_def um\<close>)
    then show ?thesis
      unfolding enc unf len
      using False zero by (simp add: sum um bit_fetches_def fetches_def Let_def add.assoc cong: if_cong)
  qed
qed

lemma bit_string_sizes:
  assumes ok: "bit_string_ok ext lbo ubo w"
  shows "unat (BitLength w) < 16384" "length (Bytes w) = (unat (BitLength w) + 7) div 8"
    and "length (bit_value w) = unat (BitLength w)"
  using ok length_bit_value by (simp_all add: bit_string_ok_def Let_def)

lemma bit_params:
  assumes ok: "bit_string_ok ext (Some lb) (Some ub) w" and n: "int (unat (BitLength w)) \<le> ub"
  shows "BitLength w \<le> word_of_int ub" "i64 (ub - lb + 1) = ub - lb + 1" "ub - lb + 1 \<noteq> - 1"
    and "word_of_int lb = (of_nat (nat lb) :: u64)" "nat lb \<le> unat (BitLength w)"
    and "size_range lb ub = 1 \<Longrightarrow> 0 < unat (BitLength w) \<and> ub = int (unat (BitLength w))"
    and "0 < size_range lb ub \<and> size_range lb ub \<le> 65536 \<longrightarrow> int (unat (BitLength w) - nat lb) < size_range lb ub"
proof -
  have b: "0 \<le> lb" "lb \<le> ub" "ub < 2 ^ 62" "lb \<le> int (unat (BitLength w))" "0 < ub"
    using ok by (auto simp: bit_string_ok_def Let_def)
  have "unat (BitLength w) \<le> nat ub" using n by linarith
  then show "BitLength w \<le> word_of_int ub" using b by (simp add: word_le_nat_alt unat_of_int64)
  show "i64 (ub - lb + 1) = ub - lb + 1" using b by (intro i64_id) simp_all
  show "ub - lb + 1 \<noteq> - 1" using b(2) by simp
  show "word_of_int lb = (of_nat (nat lb) :: u64)" using b(1) by (metis int_nat_eq of_int_of_nat_eq)
  show "nat lb \<le> unat (BitLength w)" using b(4) by linarith
  show "0 < unat (BitLength w) \<and> ub = int (unat (BitLength w))" if "size_range lb ub = 1"
    using that b n by (simp add: size_range_def split: if_splits del: of_nat_unat)
  show "0 < size_range lb ub \<and> size_range lb ub \<le> 65536 \<longrightarrow>
      int (unat (BitLength w) - nat lb) < size_range lb ub"
    using b n by (auto simp: size_range_def of_nat_diff simp del: of_nat_unat)
qed

lemma appendBitString_emits:
  assumes pd: "valid_raw pd" and ok: "bit_string_ok ext lbo ubo w"
  shows "emits (appendBitString (Bytes w) (BitLength w) ext lbo ubo pd) pd
    (enc_bit_string ext lbo ubo (rbitsOffset pd) (bit_value w))"
proof -
  note sz = bit_string_sizes [OF ok]
  have off: "rbitsOffset pd mod 8 = rbitsOffset pd" using pd by (simp add: valid_raw_def)
  obtain pf where pf: "putBitsValue 0 1 pd = Inr pf" "valid_raw pf" "raw_bits pf = raw_bits pd @ [False]"
    "rbitsOffset pf = (rbitsOffset pd + 1) mod 8" using ext_written [OF pd, of False] by auto
  obtain pt where pt: "putBitsValue 1 1 pd = Inr pt" "valid_raw pt" "raw_bits pt = raw_bits pd @ [True]"
    "rbitsOffset pt = (rbitsOffset pd + 1) mod 8" using ext_written [OF pd, of True] by auto
  consider "lbo = None" "ubo = None" | lb where "lbo = Some lb" "ubo = None"
    | lb ub where "lbo = Some lb" "ubo = Some ub" "int (unat (BitLength w)) \<le> ub"
    | lb ub where "lbo = Some lb" "ubo = Some ub" "\<not> int (unat (BitLength w)) \<le> ub"
    using ok by (cases lbo; cases ubo) (auto simp: bit_string_ok_def Let_def)
  then show ?thesis
  proof cases
    case 1
    from bit_body_emits [OF pd sz(1) _ sz(2), of 0 "- 1" "- 1" 0] 1 show ?thesis
      by (simp add: appendBitString_def append_size_range_def enc_bit_string_def bit_value_def)
  next
    case 2
    then have lb: "0 \<le> lb" "nat lb \<le> unat (BitLength w)"
      using ok by (simp_all add: bit_string_ok_def Let_def nat_le_iff)
    then have w: "(word_of_int lb :: u64) = of_nat (nat lb)" by (metis int_nat_eq of_int_of_nat_eq)
    from bit_body_emits [OF pd sz(1) lb(2) sz(2) _ _ w, of "- 1" "- 1"] 2 show ?thesis
      by (simp add: appendBitString_def append_size_range_def enc_bit_string_def bit_value_def)
  next
    case 3
    note par = bit_params [OF ok [unfolded 3(1,2)] 3(3)]
    have v: "valid_raw (if ext then pf else pd)" using pd pf by simp
    show ?thesis
      using bit_body_emits [OF v sz(1) par(5) sz(2) par(7,6,4)]
        append_size_range_root [OF par(1,2,3) pf(1)] 3 pf off sz(3)
      by (cases ext) (auto simp: appendBitString_def enc_bit_string_def emits_def bit_value_def)
  next
    case 4
    have "ext" "0 \<le> ub" "ub < 2 ^ 62" using ok 4 by (auto simp: bit_string_ok_def Let_def)
    moreover from this have "\<not> unat (BitLength w) \<le> nat ub" using 4(3) by linarith
    ultimately have "\<not> BitLength w \<le> word_of_int ub" by (simp add: word_le_nat_alt unat_of_int64)
    from append_size_range_ext [OF this pt(1)] bit_body_emits [OF pt(2) sz(1) _ sz(2), of 0 "- 1" ub 0]
      \<open>ext\<close> 4 pt sz(3)
    show ?thesis
      by (auto simp: appendBitString_def enc_bit_string_def emits_def bit_value_def)
  qed
qed

lemma bit_body_fetches:
  assumes n: "length b < 16384" "lb \<le> length b" and r: "0 < r \<and> r \<le> 65536 \<longrightarrow> int (length b - lb) < r"
    and fixed: "r = 1 \<Longrightarrow> 0 < length b \<and> ub = int (length b)"
    and range: "parse_size_range e lbo ubo = (lbi, ub, r)" and lb: "(word_of_int lbi :: u64) = of_nat lb"
    and pre: "prefix (enc_bit_body r lb (p mod 8) b) (drop p (bits_of buf))"
  shows "bit_fetches (parseBitString e lbo ubo (reader buf p)) buf p (enc_bit_body r lb (p mod 8) b) b"
proof (cases "r = 1")
  case True
  then have "0 < length b" "ub = int (length b)" using fixed by simp_all
  with fixed_bits_fetches [OF _ n(1), of ub lb p buf e lbo ubo lbi] pre range True show ?thesis by simp
next
  case False
  with parse_bits_fetches [OF n r False pre] show ?thesis
    by (simp add: parseBitString_def range lb)
qed

lemma bit_ext_fetches:
  assumes b: "prefix ((if ext then [e] else []) @ enc) (drop p (bits_of buf))" and e: "e \<Longrightarrow> ext"
    and rest: "\<And>q. q mod 8 = (p + of_bool ext) mod 8 \<Longrightarrow> prefix enc (drop q (bits_of buf)) \<Longrightarrow>
      bit_fetches (parse e (reader buf q)) buf q enc v"
  shows "bit_fetches (parse_ext ext parse (reader buf p)) buf p ((if ext then [e] else []) @ enc) v"
proof -
  let ?q = "p + of_bool ext"
  have "prefix enc (drop ?q (bits_of buf))" using b prefix_append_drop [of "[e]" enc p "bits_of buf"] by (cases ext) auto
  then obtain w where w: "fetches (parse e (reader buf ?q)) buf ?q enc w" "bit_value w = v"
    using rest [of ?q] by (auto simp: bit_fetches_def)
  have "fetches (parse_ext ext parse (reader buf p)) buf p ((if ext then [e] else []) @ enc) w"
    using b e w prefix_append_drop [of "[e]" enc p "bits_of buf"] getBitsValue_ext [of e p buf]
    by (cases ext; cases e) (auto simp: parse_ext_def fetches_def)
  with w show ?thesis by (auto simp: bit_fetches_def)
qed

lemma parseBitString_fetches:
  assumes ok: "bit_string_ok ext lbo ubo w"
    and pre: "prefix (enc_bit_string ext lbo ubo (p mod 8) (bit_value w)) (drop p (bits_of buf))"
  shows "bit_fetches (parse_ext ext (\<lambda>e. parseBitString e lbo ubo) (reader buf p)) buf p
    (enc_bit_string ext lbo ubo (p mod 8) (bit_value w)) (bit_value w)"
proof -
  note sz = bit_string_sizes [OF ok]
  let ?b = "bit_value w"
  have n: "length ?b < 16384" using sz by simp
  consider "lbo = None" "ubo = None" "\<not> ext" | lb where "lbo = Some lb" "ubo = None" "\<not> ext"
    | lb ub where "lbo = Some lb" "ubo = Some ub" "int (length ?b) \<le> ub"
    | lb ub where "lbo = Some lb" "ubo = Some ub" "\<not> int (length ?b) \<le> ub" "ext"
    using ok sz(3) by (cases lbo; cases ubo) (auto simp: bit_string_ok_def Let_def)
  then show ?thesis
  proof cases
    case 1
    from bit_body_fetches [OF n, of 0 "- 1" "- 1" False lbo ubo 0 p buf] 1 pre show ?thesis
      by (simp add: parse_ext_def enc_bit_string_def parse_size_range_def)
  next
    case 2
    then have lb: "0 \<le> lb" "nat lb \<le> length ?b"
      using ok unfolding sz(3) by (simp_all add: bit_string_ok_def Let_def nat_le_iff)
    then have w: "(word_of_int lb :: u64) = of_nat (nat lb)" by (metis int_nat_eq of_int_of_nat_eq)
    have range: "parse_size_range False lbo ubo = (lb, - 1, - 1)" using 2 by (simp add: parse_size_range_def)
    from bit_body_fetches [OF n lb(2) _ _ range w, of p buf] 2 pre show ?thesis
      by (simp add: parse_ext_def enc_bit_string_def)
  next
    case 3
    note par = bit_params [OF ok [unfolded 3(1,2)] 3(3) [unfolded sz(3)], folded sz(3)]
    let ?r = "size_range lb ub"
    have range: "parse_size_range False lbo ubo = (lb, ub, ?r)"
      using 3 par(2) by (simp add: parse_size_range_def size_range_def)
    have enc: "enc_bit_string ext lbo ubo (p mod 8) ?b = (if ext then [False] else []) @
        enc_bit_body ?r (nat lb) ((p + of_bool ext) mod 8) ?b"
      using 3 by (simp add: enc_bit_string_def mod_simps)
    show ?thesis unfolding enc
    proof (rule bit_ext_fetches [OF pre [unfolded enc]])
      fix q assume "q mod 8 = (p + of_bool ext) mod 8"
        and "prefix (enc_bit_body ?r (nat lb) ((p + of_bool ext) mod 8) ?b) (drop q (bits_of buf))"
      then show "bit_fetches (parseBitString False lbo ubo (reader buf q)) buf q
          (enc_bit_body ?r (nat lb) ((p + of_bool ext) mod 8) ?b) ?b"
        using bit_body_fetches [OF n par(5,7,6) range par(4), of q buf] by simp
    qed simp
  next
    case 4
    have range: "parse_size_range True lbo ubo = (0, - 1, - 1)" by (simp add: parse_size_range_def)
    have enc: "enc_bit_string ext lbo ubo (p mod 8) ?b = (if ext then [True] else []) @
        enc_bit_body (- 1) 0 ((p + of_bool ext) mod 8) ?b"
      using 4 by (simp add: enc_bit_string_def mod_simps)
    show ?thesis unfolding enc
    proof (rule bit_ext_fetches [OF pre [unfolded enc]])
      fix q assume "q mod 8 = (p + of_bool ext) mod 8"
        and "prefix (enc_bit_body (- 1) 0 ((p + of_bool ext) mod 8) ?b) (drop q (bits_of buf))"
      then show "bit_fetches (parseBitString True lbo ubo (reader buf q)) buf q
          (enc_bit_body (- 1) 0 ((p + of_bool ext) mod 8) ?b) ?b"
        using bit_body_fetches [OF n _ _ _ range, of 0 q buf] by simp
    qed (use 4 in simp)
  qed
qed

interpretation bit_string: per_codec "enc_bit_string ext lbo ubo"
  "\<lambda>w. appendBitString (Bytes w) (BitLength w) ext lbo ubo"
  "parse_ext ext (\<lambda>e. parseBitString e lbo ubo)" bit_value "bit_string_ok ext lbo ubo" for ext lbo ubo
  by (rule per_codecI) (use appendBitString_emits parseBitString_fetches in \<open>auto simp: bit_fetches_def\<close>)

end
