(* ===== verification/Aper_Sequence.thy ===== *)
theory Aper_Sequence
  imports Aper_Integer Aper_Bit_String
begin

text \<open>
  SEQUENCE OF: the two \<^verbatim>\<open>parseSequenceOf\<close> functions, of \<^verbatim>\<open>lib/aper/marshal.go\<close> (which writes) and
  of \<^verbatim>\<open>lib/aper/aper.go\<close>. The element's \<^verbatim>\<open>makeField\<close> and \<^verbatim>\<open>parseField\<close> are parameters. The
  properties of the codec close the theory.
\<close>

unbundle bit_operations_syntax

section \<open>The model\<close>

definition put_sequence_length ::
  "bool \<Rightarrow> int option \<Rightarrow> int option \<Rightarrow> nat \<Rightarrow> perRawBitData \<Rightarrow> perRawBitData res" where
  "put_sequence_length sizeExtensible sizeLowerBound sizeUpperBound len pd =
     (let numElements = int len;
          lb = (case sizeLowerBound of Some l \<Rightarrow> if l < 65536 then l else 0 | None \<Rightarrow> 0);
          (ub, bounded) = (case sizeUpperBound of Some u \<Rightarrow> (if u < 65536 then (u, True) else (- 1, False))
                           | None \<Rightarrow> (- 1, False))
      in
      rbind
        (if bounded then
           if sizeExtensible then
             if numElements > ub then rbind (putBitsValue 1 1 pd) (\<lambda>pd. Inr (- 1, pd))
             else rbind (putBitsValue 0 1 pd) (\<lambda>pd. Inr (i64 (ub - lb + 1), pd))
           else if numElements > ub then Inl (Fail ''SEQUENCE OF Size is larger than upperbound'')
           else Inr (i64 (ub - lb + 1), pd)
         else Inr (- 1, pd))
        (\<lambda>(sizeRange, pd).
           if numElements < lb then Inl (Fail ''SEQUENCE OF Size is lower than lowerbound'')
           else if sizeRange = 1 then
             (if numElements \<noteq> ub then Inl (Fail ''Encoding Length != fix-size'') else Inr pd)
           else if sizeRange > 0 then
             appendConstraintValue sizeRange (word_of_int (numElements - lb)) pd
           else
             let pd = appendAlignBits pd in
             Inr (pd\<lparr>rbytes := rbytes pd @ [word_of_int numElements]\<rparr>)))"

definition appendSequenceOf ::
  "('w \<Rightarrow> perRawBitData \<Rightarrow> perRawBitData res) \<Rightarrow> bool \<Rightarrow> int option \<Rightarrow> int option \<Rightarrow> 'w list \<Rightarrow>
   perRawBitData \<Rightarrow> perRawBitData res" where
  "appendSequenceOf makeField sizeExtensible sizeLowerBound sizeUpperBound v pd =
     rbind (put_sequence_length sizeExtensible sizeLowerBound sizeUpperBound (length v) pd)
       (put_all makeField v)"

text \<open>
  The decoder does not return when the constrained count cannot be read: it goes on with the
  lower bound as the count, from where the failed read left the reader, and the first element
  overwrites the error. \<open>error_pd\<close> is that reader: a failed \<^verbatim>\<open>getBitsValue\<close> leaves it alone, the
  padding may have been consumed.
\<close>

definition error_pd :: "int \<Rightarrow> perBitData \<Rightarrow> perBitData" where
  "error_pd valueRange pd =
     (if valueRange \<le> 255 \<or> valueRange > 65536 then pd
      else if bitsOffset pd mod 8 > 0 then
        (case getBitsValue (8 - bitsOffset pd mod 8) pd of Inl _ \<Rightarrow> pd | Inr (_, pd') \<Rightarrow> pd')
      else if bitsOffset pd \<noteq> 0 then bitCarry pd
      else pd)"

text \<open>The count, and the error that is returned when there is no element to overwrite it.\<close>

definition get_sequence_length ::
  "bool \<Rightarrow> int option \<Rightarrow> int option \<Rightarrow> perBitData \<Rightarrow> ((nat \<times> go_err option) \<times> perBitData) res" where
  "get_sequence_length sizeExtensed sizeLowerBound sizeUpperBound pd =
     (let lb = (case sizeLowerBound of Some l \<Rightarrow> if l < 65536 then l else 0 | None \<Rightarrow> 0);
          sizeRange = (case sizeUpperBound of
              Some ub \<Rightarrow> if \<not> sizeExtensed \<and> ub < 65536 then i64 (ub - lb + 1) else - 1
            | None \<Rightarrow> - 1)
      in
      if sizeRange > 1 then
        (case parseConstraintValue sizeRange pd of
           Inr (numElements, pd) \<Rightarrow> Inr ((unat (numElements + word_of_int lb), None), pd)
         | Inl Panic \<Rightarrow> Inl Panic
         | Inl e \<Rightarrow> Inr ((unat (word_of_int lb :: u64), Some e), error_pd sizeRange pd))
      else if sizeRange = 1 then Inr ((unat (word_of_int lb :: u64), None), pd)
      else
        rbind (parseAlignBits pd) (\<lambda>pd.
          if byteOffset pd \<ge> length (bytes pd) then Inl (Fail ''per data out of range'')
          else Inr ((unat (bytes pd ! byteOffset pd), None), pd\<lparr>byteOffset := byteOffset pd + 1\<rparr>)))"

definition parseSequenceOf ::
  "(perBitData \<Rightarrow> ('w \<times> perBitData) res) \<Rightarrow> int option \<Rightarrow> int option \<Rightarrow> bool \<Rightarrow> perBitData \<Rightarrow>
   ('w list \<times> perBitData) res" where
  "parseSequenceOf parseField sizeLowerBound sizeUpperBound sizeExtensed pd =
     rbind (get_sequence_length sizeExtensed sizeLowerBound sizeUpperBound pd) (\<lambda>((n, err), pd).
       if n = 0 \<and> err \<noteq> None then Inl (the err) else get_all parseField n pd)"

section \<open>SEQUENCE OF is a type of the codec\<close>

text \<open>The sizes of the schema: bounded below 65536, or unbounded and below 256.\<close>

definition sequence_ok :: "bool \<Rightarrow> int option \<Rightarrow> int option \<Rightarrow> nat \<Rightarrow> bool" where
  "sequence_ok ext lbo ubo n \<longleftrightarrow>
     (case ubo of
        None \<Rightarrow> \<not> ext \<and> lbo = None \<and> n < 256
      | Some ub \<Rightarrow> ub < 65536 \<and> (case lbo of None \<Rightarrow> False | Some lb \<Rightarrow>
          0 \<le> lb \<and> lb \<le> ub \<and> lb \<le> int n \<and> (int n \<le> ub \<or> ext \<and> n < 256)))"

definition enc_sequence_length :: "bool \<Rightarrow> int option \<Rightarrow> int option \<Rightarrow> nat \<Rightarrow> nat \<Rightarrow> bool list" where
  "enc_sequence_length ext lbo ubo off n =
     (case (lbo, ubo) of
        (Some lb, Some ub) \<Rightarrow>
          if int n \<le> ub then (if ext then [False] else []) @
            (if lb = ub then [] else
             enc_constraint (ub - lb + 1) ((off + of_bool ext) mod 8) (word_of_int (int n - lb)))
          else [True] @ align ((off + 1) mod 8) @ nbits 8 n
      | _ \<Rightarrow> align off @ nbits 8 n)"

lemma put_octet_count:
  assumes pd: "valid_raw pd" and n: "n < 256"
  shows "emits (let pd = appendAlignBits pd in Inr (pd\<lparr>rbytes := rbytes pd @ [word_of_int (int n)]\<rparr>)) pd
    (align (rbitsOffset pd) @ nbits 8 n)"
proof -
  have "emits (Inr ((appendAlignBits pd)\<lparr>rbytes := rbytes (appendAlignBits pd) @ [of_nat n]\<rparr>)) pd
      (align (rbitsOffset pd) @ bits_of [of_nat n])"
    by (rule emits_aligned [OF pd emits_bytes]) (rule appendAlignBits_bits(3) [OF pd])
  then show ?thesis using n by (simp add: byte_bits_of_nat Let_def)
qed

lemma get_octet_count:
  assumes n: "n < 256" and b: "prefix (align (p mod 8) @ nbits 8 n) (drop p (bits_of buf))"
  shows "fetches (rbind (parseAlignBits (reader buf p)) (\<lambda>pd.
      if byteOffset pd \<ge> length (bytes pd) then Inl (Fail ''per data out of range'')
      else Inr ((unat (bytes pd ! byteOffset pd), None), pd\<lparr>byteOffset := byteOffset pd + 1\<rparr>)))
      buf p (align (p mod 8) @ nbits 8 n) (n, None)"
proof (rule fetches_aligned [OF b])
  fix q assume q: "q mod 8 = 0" and pre: "prefix (nbits 8 n) (drop q (bits_of buf))"
  have bb: "nbits 8 n = bits_of [of_nat n]" using n by (simp add: byte_bits_of_nat)
  have rd: "take 1 (drop (q div 8) buf) = [of_nat n]"
    using read_bytes(1) [OF q pre [unfolded bb]] by simp
  have "drop (q div 8) buf \<noteq> [] \<and> hd (drop (q div 8) buf) = of_nat n"
    using rd by (cases "drop (q div 8) buf") simp_all
  then have "q div 8 < length buf" "buf ! (q div 8) = of_nat n"
    by (auto simp: hd_drop_conv_nth)
  then show "fetches (if byteOffset (reader buf q) \<ge> length (bytes (reader buf q))
      then Inl (Fail ''per data out of range'')
      else Inr ((unat (bytes (reader buf q) ! byteOffset (reader buf q)), None),
                (reader buf q)\<lparr>byteOffset := byteOffset (reader buf q) + 1\<rparr>)) buf q (nbits 8 n) (n, None)"
    using n reader_advance [where buf = buf and q = q and n = 1] by (simp add: fetches_def unat_of_nat)
qed

lemma sequence_bounds:
  assumes ok: "sequence_ok ext (Some lb) (Some ub) n"
  shows "0 \<le> lb" "lb \<le> ub" "ub < 65536" "lb \<le> int n" "i64 (ub - lb + 1) = ub - lb + 1"
    and "int n \<le> ub \<Longrightarrow> uint (word_of_int (int n - lb) :: u64) = int n - lb"
    and "int n \<le> ub \<Longrightarrow> unat (word_of_int (int n - lb) + word_of_int lb :: u64) = n"
proof -
  show b: "0 \<le> lb" "lb \<le> ub" "ub < 65536" "lb \<le> int n" using ok by (auto simp: sequence_ok_def)
  show "i64 (ub - lb + 1) = ub - lb + 1" using b by (intro i64_id) simp_all
  assume "int n \<le> ub"
  with b show "uint (word_of_int (int n - lb) :: u64) = int n - lb" by (intro uint_of_int64) simp_all
  have "word_of_int (int n - lb) + word_of_int lb = (of_nat n :: u64)" by simp
  then show "unat (word_of_int (int n - lb) + word_of_int lb :: u64) = n"
    using b \<open>int n \<le> ub\<close> by (simp add: unat_of_nat)
qed

lemma sequence_length_emits:
  assumes pd: "valid_raw pd" and ok: "sequence_ok ext lbo ubo n"
  shows "emits (put_sequence_length ext lbo ubo n pd) pd (enc_sequence_length ext lbo ubo (rbitsOffset pd) n)"
proof -
  have off: "rbitsOffset pd mod 8 = rbitsOffset pd" using pd by (simp add: valid_raw_def)
  obtain pf where pf: "putBitsValue 0 1 pd = Inr pf" "valid_raw pf" "raw_bits pf = raw_bits pd @ [False]"
    "rbitsOffset pf = (rbitsOffset pd + 1) mod 8" using ext_written [OF pd, of False] by auto
  obtain pt where pt: "putBitsValue 1 1 pd = Inr pt" "valid_raw pt" "raw_bits pt = raw_bits pd @ [True]"
    "rbitsOffset pt = (rbitsOffset pd + 1) mod 8" using ext_written [OF pd, of True] by auto
  show ?thesis
  proof (cases ubo)
    case None
    with ok put_octet_count [OF pd, of n] show ?thesis
      by (simp add: sequence_ok_def put_sequence_length_def enc_sequence_length_def)
  next
    case (Some ub)
    then obtain lb where lb: "lbo = Some lb" using ok by (auto simp: sequence_ok_def split: option.splits)
    note b = sequence_bounds [OF ok [unfolded lb Some]]
    show ?thesis
    proof (cases "int n \<le> ub")
      case True
      have v: "valid_raw (if ext then pf else pd)" using pd pf by simp
      have "r = ub - lb + 1 \<Longrightarrow> r \<le> 65536 \<and> uint (word_of_int (int n - lb) :: u64) < r" for r
        using b True by simp
      with constraint.put_enc [OF v, of "ub - lb + 1" "word_of_int (int n - lb)"] True b lb Some pf pd off
      show ?thesis
        by (cases ext; cases "lb = ub")
          (auto simp: put_sequence_length_def enc_sequence_length_def emits_def simp del: of_int_diff)
    next
      case False
      then have "ext" "n < 256" using ok lb Some by (auto simp: sequence_ok_def)
      with put_octet_count [OF pt(2), of n] False b lb Some pt show ?thesis
        by (auto simp: put_sequence_length_def enc_sequence_length_def emits_def Let_def)
    qed
  qed
qed

lemma sequence_length_fetches:
  assumes ok: "sequence_ok ext lbo ubo n"
    and b: "prefix (enc_sequence_length ext lbo ubo (p mod 8) n) (drop p (bits_of buf))"
  shows "fetches (parse_ext ext (\<lambda>e. get_sequence_length e lbo ubo) (reader buf p)) buf p
    (enc_sequence_length ext lbo ubo (p mod 8) n) (n, None)"
proof (cases ubo)
  case None
  with ok get_octet_count [of n p buf] b show ?thesis
    by (simp add: sequence_ok_def parse_ext_def get_sequence_length_def enc_sequence_length_def)
next
  case (Some ub)
  then obtain lb where lb: "lbo = Some lb" using ok by (auto simp: sequence_ok_def split: option.splits)
  note bd = sequence_bounds [OF ok [unfolded lb Some]]
  show ?thesis
  proof (cases "int n \<le> ub")
    case True
    let ?x = "word_of_int (int n - lb) :: u64"
    let ?e = "if lb = ub then [] else enc_constraint (ub - lb + 1) ((p + of_bool ext) mod 8) ?x"
    have enc: "enc_sequence_length ext lbo ubo (p mod 8) n = (if ext then [False] else []) @ ?e"
      using True lb Some by (simp add: enc_sequence_length_def mod_simps)
    show ?thesis unfolding enc
    proof (rule parse_ext_fetches [OF b [unfolded enc]])
      fix q assume q: "q mod 8 = (p + of_bool ext) mod 8" and pre: "prefix ?e (drop q (bits_of buf))"
      show "fetches (get_sequence_length False lbo ubo (reader buf q)) buf q ?e (n, None)"
      proof (cases "lb = ub")
        case eq: True
        have "unat (word_of_int lb :: u64) = nat lb" using bd(1,2,3) by (intro unat_of_int64) simp_all
        then show ?thesis
          using eq True bd lb Some by (simp add: get_sequence_length_def fetches_def)
      next
        case False
        have "uint ?x < ub - lb + 1" "ub - lb + 1 \<le> 65536" using bd True by simp_all
        with constraint.get_enc [of "ub - lb + 1" ?x q buf] pre q False
        have "parseConstraintValue (ub - lb + 1) (reader buf q) = Inr (?x, reader buf (q + length ?e))"
          by (simp del: of_int_diff)
        then show ?thesis
          using False True bd lb Some by (simp add: get_sequence_length_def fetches_def del: of_int_diff)
      qed
    qed simp
  next
    case False
    then have e: "ext" "n < 256" using ok lb Some by (auto simp: sequence_ok_def)
    have enc: "enc_sequence_length ext lbo ubo (p mod 8) n = (if ext then [True] else []) @
        align ((p + of_bool ext) mod 8) @ nbits 8 n"
      using False e lb Some by (simp add: enc_sequence_length_def mod_simps)
    show ?thesis unfolding enc
    proof (rule parse_ext_fetches [OF b [unfolded enc]])
      fix q assume "q mod 8 = (p + of_bool ext) mod 8"
        and "prefix (align ((p + of_bool ext) mod 8) @ nbits 8 n) (drop q (bits_of buf))"
      then show "fetches (get_sequence_length True lbo ubo (reader buf q)) buf q
          (align ((p + of_bool ext) mod 8) @ nbits 8 n) (n, None)"
        using get_octet_count [OF e(2), of q buf] Some lb by (simp add: get_sequence_length_def)
    qed (use e in simp)
  qed
qed

definition enc_sequence :: "(nat \<Rightarrow> 'v \<Rightarrow> bool list) \<Rightarrow> bool \<Rightarrow> int option \<Rightarrow> int option \<Rightarrow> nat \<Rightarrow> 'v list \<Rightarrow> bool list" where
  "enc_sequence enc ext lbo ubo off vs =
     (let l = enc_sequence_length ext lbo ubo off (length vs) in
      l @ enc_all enc ((off + length l) mod 8) vs)"

lemma parse_ext_rbind:
  "rbind (parse_ext ext f pd) g = parse_ext ext (\<lambda>e pd. rbind (f e pd) g) pd"
  by (simp add: parse_ext_def rbind_def split: sum.splits prod.splits)

context per_codec
begin

text \<open>With a type of the codec for its elements, SEQUENCE OF is one.\<close>

lemma per_codec_sequence:
  "per_codec (enc_sequence enc ext lbo ubo) (appendSequenceOf put ext lbo ubo)
     (parse_ext ext (\<lambda>e. parseSequenceOf get lbo ubo e)) (map val)
     (\<lambda>ws. sequence_ok ext lbo ubo (length ws) \<and> list_all ok ws)"
proof (rule per_codecI)
  fix pd ws assume pd: "valid_raw pd" and ok: "sequence_ok ext lbo ubo (length ws) \<and> list_all ok ws"
  let ?l = "enc_sequence_length ext lbo ubo (rbitsOffset pd) (length ws)"
  have "emits (rbind (put_sequence_length ext lbo ubo (length ws) pd) (put_all put ws)) pd
      (?l @ enc_all enc ((rbitsOffset pd + length ?l) mod 8) (map val ws))"
  proof (rule emits_rbind [OF sequence_length_emits [OF pd] pd])
    fix pd' assume "valid_raw pd'" "rbitsOffset pd' = (rbitsOffset pd + length ?l) mod 8"
    then show "emits (put_all put ws pd') pd' (enc_all enc ((rbitsOffset pd + length ?l) mod 8) (map val ws))"
      using put_all_enc [of pd' ws] ok by (auto simp: emits_def)
  qed (use ok in simp)
  then show "emits (appendSequenceOf put ext lbo ubo ws pd) pd
      (enc_sequence enc ext lbo ubo (rbitsOffset pd) (map val ws))"
    by (simp add: appendSequenceOf_def enc_sequence_def Let_def)
next
  fix p ws buf assume ok: "sequence_ok ext lbo ubo (length ws) \<and> list_all ok ws"
    and b: "prefix (enc_sequence enc ext lbo ubo (p mod 8) (map val ws)) (drop p (bits_of buf))"
  let ?l = "enc_sequence_length ext lbo ubo (p mod 8) (length ws)"
  let ?q = "p + length ?l"
  have enc: "enc_sequence enc ext lbo ubo (p mod 8) (map val ws) = ?l @ enc_all enc (?q mod 8) (map val ws)"
    by (simp add: enc_sequence_def Let_def mod_simps)
  have pl: "prefix ?l (drop p (bits_of buf))"
    and pr: "prefix (enc_all enc (?q mod 8) (map val ws)) (drop ?q (bits_of buf))"
    using b unfolding enc prefix_append_drop by blast+
  from sequence_length_fetches [OF _ pl] ok
  have len: "parse_ext ext (\<lambda>e. get_sequence_length e lbo ubo) (reader buf p) = Inr ((length ws, None), reader buf ?q)"
    by (simp add: fetches_def)
  obtain ws' where "get_all get (length ws) (reader buf ?q) =
      Inr (ws', reader buf (?q + length (enc_all enc (?q mod 8) (map val ws))))" "map val ws' = map val ws"
    using get_all_enc [OF _ pr] ok by auto
  then show "\<exists>ws'. fetches (parse_ext ext (\<lambda>e. parseSequenceOf get lbo ubo e) (reader buf p)) buf p
      (enc_sequence enc ext lbo ubo (p mod 8) (map val ws)) ws' \<and> map val ws' = map val ws"
    using len unfolding enc parseSequenceOf_def
    by (intro exI [of _ ws']) (simp add: fetches_def add.assoc flip: parse_ext_rbind)
qed

end

section \<open>Arbitrary input\<close>

text \<open>The readers a decoder runs on: inside their buffer, at one of the eight bits of a byte.\<close>

definition valid_reader :: "perBitData \<Rightarrow> bool" where
  "valid_reader pd \<longleftrightarrow> bitsOffset pd < 8 \<and> pos pd \<le> 8 * length (bytes pd)"

text \<open>A reading step that neither panics nor leaves its buffer.\<close>

definition safe :: "('w \<times> perBitData) res \<Rightarrow> bool" where
  "safe r \<longleftrightarrow> r \<noteq> Inl Panic \<and> (\<forall>v pd. r = Inr (v, pd) \<longrightarrow> valid_reader pd)"

lemma valid_reader_reader: "valid_reader pd \<Longrightarrow> pd = reader (bytes pd) (pos pd)"
  by (cases pd) (simp add: valid_reader_def reader_def pos_def)

lemma reader_valid: "p \<le> 8 * length buf \<Longrightarrow> valid_reader (reader buf p)"
  by (simp add: valid_reader_def pos_def)

lemma getBitsValue_safe:
  assumes v: "valid_reader pd" and n: "0 < n"
  shows "safe (getBitsValue n pd)"
proof -
  let ?p = "pos pd" and ?b = "bytes pd"
  have pd: "pd = reader ?b ?p" using v by (rule valid_reader_reader)
  have in8: "?p \<le> 8 * length ?b" using v by (simp add: valid_reader_def)
  show ?thesis
  proof (cases "?p + n \<le> 8 * length ?b")
    case True
    then have "getBitsValue n pd = Inr (of_nat (val_of (take n (drop ?p (bits_of ?b)))), reader ?b (?p + n))"
      using getBitsValue_reader [OF n, of ?p ?b] pd by simp
    then show ?thesis using reader_valid [OF True] by (simp add: safe_def)
  next
    case False
    let ?src = "drop (?p div 8) ?b"
    have d: "?p div 8 \<le> length ?b" using in8 by (simp add: div_le_mono [of _ "8 * length ?b" 8, simplified])
    have eq: "8 * (?p div 8) + ?p mod 8 = ?p" by simp
    have "?p mod 8 \<le> 8 * length ?src" "8 * length ?src < ?p mod 8 + n"
      unfolding length_drop diff_mult_distrib2 using in8 False eq by linarith+
    from GetBitString_overflow [OF this] have "getBitsValue n (reader ?b ?p) = Inl (Fail ''Get bits overflow'')"
      using d by (simp add: getBitsValue_def GetBitsValue_def)
    then show ?thesis using pd by (simp add: safe_def)
  qed
qed

lemma getBitString_safe: "safe (getBitsValue n pd) \<Longrightarrow> safe (getBitString n pd)"
  by (auto simp: getBitsValue_def getBitString_def GetBitsValue_def safe_def Let_def
      split: if_splits sum.splits)

lemma parseAlignBits_safe:
  assumes v: "valid_reader pd"
  shows "parseAlignBits pd \<noteq> Inl Panic"
    and "parseAlignBits pd = Inr pd' \<Longrightarrow> valid_reader pd' \<and> bitsOffset pd' = 0"
proof -
  have "(parseAlignBits pd \<noteq> Inl Panic) \<and> (parseAlignBits pd = Inr pd' \<longrightarrow> valid_reader pd')"
  proof (cases "bitsOffset pd = 0")
    case True
    with v show ?thesis by (auto simp: parseAlignBits_def)
  next
    case False
    have "safe (getBitsValue (8 - bitsOffset pd mod 8) pd)"
      by (rule getBitsValue_safe [OF v]) simp
    with False v show ?thesis
      by (cases "getBitsValue (8 - bitsOffset pd mod 8) pd")
        (auto simp: parseAlignBits_def safe_def valid_reader_def split: if_splits)
  qed
  then show "parseAlignBits pd \<noteq> Inl Panic"
    "parseAlignBits pd = Inr pd' \<Longrightarrow> valid_reader pd' \<and> bitsOffset pd' = 0"
    using parseAlignBits_aligned by blast+
qed

lemma safe_aligned:
  assumes "valid_reader pd"
    and "\<And>pd'. parseAlignBits pd = Inr pd' \<Longrightarrow> valid_reader pd' \<Longrightarrow> bitsOffset pd' = 0 \<Longrightarrow> safe (f pd')"
  shows "safe (rbind (parseAlignBits pd) f)"
  using parseAlignBits_safe [OF assms(1)] assms(2)
  by (cases "parseAlignBits pd") (auto simp: safe_def)

lemma safe_rbind:
  assumes "safe r" and "\<And>v pd. r = Inr (v, pd) \<Longrightarrow> valid_reader pd \<Longrightarrow> safe (f (v, pd))"
  shows "safe (rbind r f)"
  using assms by (cases r) (auto simp: safe_def)

lemma safe_simps [simp]: "safe (Inl (Fail m))" "safe (Inr (v, pd)) \<longleftrightarrow> valid_reader pd"
  by (simp_all add: safe_def)

lemma parseConstraintValue_safe: "valid_reader pd \<Longrightarrow> safe (parseConstraintValue r pd)"
  using range_bits_bounds(1) [of r]
  by (auto simp: parseConstraintValue_def Let_def Suc_le_eq intro!: safe_aligned getBitsValue_safe)

lemma parseLength_safe: "valid_reader pd \<Longrightarrow> safe (parseLength r pd)"
  by (auto simp: parseLength_def Let_def
      intro!: safe_aligned safe_rbind getBitsValue_safe parseConstraintValue_safe)

lemma octets_taken_safe:
  "valid_reader pd \<Longrightarrow> bitsOffset pd = 0 \<Longrightarrow> k + byteOffset pd \<le> length (bytes pd) \<Longrightarrow>
   valid_reader (pd\<lparr>byteOffset := byteOffset pd + k\<rparr>)"
  by (simp add: valid_reader_def pos_def)

lemma parse_octets_safe: "valid_reader pd \<Longrightarrow> safe (parse_octets r lb acc pd)"
proof (induction r lb acc pd rule: parse_octets.induct)
  case (1 r lb acc pd)
  show ?case
    unfolding parse_octets.simps [of r lb acc pd]
  proof (rule safe_rbind [OF parseLength_safe [OF "1.prems"]], goal_cases)
    case (1 l pd1)
    have "safe (rbind (parseAlignBits pd1) (\<lambda>pd.
        if unat (fst l + lb) + byteOffset pd > length (bytes pd) then Inl (Fail ''per data out of range '')
        else let acc = acc @ take (unat (fst l + lb)) (drop (byteOffset pd) (bytes pd));
                 pd = pd\<lparr>byteOffset := byteOffset pd + unat (fst l + lb)\<rparr>
             in if snd l then parse_octets r lb acc pd else Inr (acc, pd)))" if nz: "fst l + lb \<noteq> 0"
    proof (rule safe_aligned [OF 1(2)])
      fix pd' assume al: "parseAlignBits pd1 = Inr pd'" and v: "valid_reader pd'" "bitsOffset pd' = 0"
      show "safe (if unat (fst l + lb) + byteOffset pd' > length (bytes pd') then Inl (Fail ''per data out of range '')
        else let acc = acc @ take (unat (fst l + lb)) (drop (byteOffset pd') (bytes pd'));
                 pd = pd'\<lparr>byteOffset := byteOffset pd' + unat (fst l + lb)\<rparr>
             in if snd l then parse_octets r lb acc pd else Inr (acc, pd))"
        using "1.IH" [OF 1(1) refl refl nz al _ refl refl] octets_taken_safe [OF v] by (simp add: Let_def)
    qed
    with 1(2) show ?case by (simp add: Let_def)
  qed
qed

section \<open>Properties of the codec\<close>

text \<open>GetBitString copies the bits at an offset, left aligned, the rest of the last byte zero.\<close>

theorem get_bit_string_copies:
  assumes "off < 8" and "0 < n" and "off + n \<le> 8 * length src"
  shows "\<exists>d. GetBitString src off n = Inr d \<and> length d = (n + 7) div 8 \<and>
    bits_of d = take n (drop off (bits_of src)) @ replicate (slack (n mod 8)) False"
  using GetBitString_bits [OF assms] by blast

lemma get_bit_string_copies_witness:
  "\<exists>d. GetBitString [0xAB, 0xCD] 4 8 = Inr d \<and> length d = (8 + 7) div 8 \<and>
    bits_of d = take 8 (drop 4 (bits_of [0xAB, 0xCD])) @ replicate (slack (8 mod 8)) False"
  by (rule get_bit_string_copies) simp_all

text \<open>C14: an INTEGER that was written is read back, whatever follows it in the message.\<close>

theorem integer_round_trip:
  assumes "valid_raw pd" and "integer_ok ext lbo ubo v"
  shows "\<exists>pd'. appendInteger v ext lbo ubo pd = Inr pd' \<and> valid_raw pd' \<and>
    (\<forall>buf. prefix (raw_bits pd') (bits_of buf) \<longrightarrow>
      parse_ext ext (\<lambda>e. parseInteger e lbo ubo) (reader buf (length (raw_bits pd))) =
        Inr (v, reader buf (length (raw_bits pd'))))"
  using integer.round_trip_total [OF assms] by auto

lemma integer_round_trip_witness:
  "\<exists>pd'. appendInteger 70000 False (Some 0) (Some 4294967295) \<lparr>rbytes = [], rbitsOffset = 0\<rparr> = Inr pd' \<and>
    valid_raw pd' \<and>
    (\<forall>buf. prefix (raw_bits pd') (bits_of buf) \<longrightarrow>
      parse_ext False (\<lambda>e. parseInteger e (Some 0) (Some 4294967295))
        (reader buf (length (raw_bits \<lparr>rbytes = [], rbitsOffset = 0\<rparr>))) =
        Inr (70000, reader buf (length (raw_bits pd'))))"
proof (rule integer_round_trip)
  show "valid_raw \<lparr>rbytes = [], rbitsOffset = 0\<rparr>" by (simp add: valid_raw_aligned)
  have "length_bits 1 4294967296 = 2" "length_bits 0 4294967296 = 2" by code_simp+
  then show "integer_ok False (Some 0) (Some 4294967295) 70000" by (simp add: integer_ok_def)
qed

text \<open>An OCTET STRING that was written is read back, in one fragment or in several.\<close>

theorem octet_string_round_trip:
  assumes "valid_raw pd" and "octet_string_ok ext lbo ubo bs"
  shows "\<exists>pd'. appendOctetString bs ext lbo ubo pd = Inr pd' \<and> valid_raw pd' \<and>
    (\<forall>buf. prefix (raw_bits pd') (bits_of buf) \<longrightarrow>
      parse_ext ext (\<lambda>e. parseOctetString e lbo ubo) (reader buf (length (raw_bits pd))) =
        Inr (bs, reader buf (length (raw_bits pd'))))"
  using octet_string.round_trip_total [OF assms] by auto

lemma octet_string_round_trip_witness:
  "\<exists>pd'. appendOctetString (replicate 20000 7) False None None \<lparr>rbytes = [], rbitsOffset = 0\<rparr> = Inr pd' \<and>
    valid_raw pd' \<and>
    (\<forall>buf. prefix (raw_bits pd') (bits_of buf) \<longrightarrow>
      parse_ext False (\<lambda>e. parseOctetString e None None)
        (reader buf (length (raw_bits \<lparr>rbytes = [], rbitsOffset = 0\<rparr>))) =
        Inr (replicate 20000 7, reader buf (length (raw_bits pd'))))"
  by (rule octet_string_round_trip) (simp_all add: valid_raw_aligned octet_string_ok_def octets_ok_def)

text \<open>A BIT STRING that was written is read back, bit for bit.\<close>

theorem bit_string_round_trip:
  assumes "valid_raw pd" and "bit_string_ok ext lbo ubo w"
  shows "\<exists>pd'. appendBitString (Bytes w) (BitLength w) ext lbo ubo pd = Inr pd' \<and> valid_raw pd' \<and>
    (\<forall>buf. prefix (raw_bits pd') (bits_of buf) \<longrightarrow>
      (\<exists>w'. parse_ext ext (\<lambda>e. parseBitString e lbo ubo) (reader buf (length (raw_bits pd))) =
        Inr (w', reader buf (length (raw_bits pd'))) \<and> bit_value w' = bit_value w))"
  using bit_string.round_trip_total [OF assms] by auto

lemma bit_string_round_trip_witness:
  "\<exists>pd'. appendBitString [1, 2, 3] 22 False (Some 22) (Some 32) \<lparr>rbytes = [], rbitsOffset = 0\<rparr> = Inr pd' \<and>
    valid_raw pd' \<and>
    (\<forall>buf. prefix (raw_bits pd') (bits_of buf) \<longrightarrow>
      (\<exists>w'. parse_ext False (\<lambda>e. parseBitString e (Some 22) (Some 32))
        (reader buf (length (raw_bits \<lparr>rbytes = [], rbitsOffset = 0\<rparr>))) =
        Inr (w', reader buf (length (raw_bits pd'))) \<and> bit_value w' = bit_value \<lparr>Bytes = [1, 2, 3], BitLength = 22\<rparr>))"
  using bit_string_round_trip [of "\<lparr>rbytes = [], rbitsOffset = 0\<rparr>" False "Some 22" "Some 32"
      "\<lparr>Bytes = [1, 2, 3], BitLength = 22\<rparr>"]
  by (simp add: valid_raw_aligned bit_string_ok_def)

text \<open>A SEQUENCE OF whose elements are INTEGERs is read back.\<close>

theorem sequence_of_integers_round_trip:
  assumes "valid_raw pd" and "sequence_ok ext lbo ubo (length vs)"
    and "list_all (integer_ok iext ilb iub) vs"
  shows "\<exists>pd'. appendSequenceOf (\<lambda>v. appendInteger v iext ilb iub) ext lbo ubo vs pd = Inr pd' \<and> valid_raw pd' \<and>
    (\<forall>buf. prefix (raw_bits pd') (bits_of buf) \<longrightarrow>
      parse_ext ext (parseSequenceOf (parse_ext iext (\<lambda>e. parseInteger e ilb iub)) lbo ubo)
        (reader buf (length (raw_bits pd))) = Inr (vs, reader buf (length (raw_bits pd'))))"
  using per_codec.round_trip_total [OF integer.per_codec_sequence, of pd ext lbo ubo vs iext ilb iub] assms
  by auto

lemma sequence_of_integers_round_trip_witness:
  "\<exists>pd'. appendSequenceOf (\<lambda>v. appendInteger v False (Some 0) (Some 255)) False (Some 1) (Some 16) [5, 6, 7]
      \<lparr>rbytes = [], rbitsOffset = 0\<rparr> = Inr pd' \<and> valid_raw pd' \<and>
    (\<forall>buf. prefix (raw_bits pd') (bits_of buf) \<longrightarrow>
      parse_ext False (parseSequenceOf (parse_ext False (\<lambda>e. parseInteger e (Some 0) (Some 255))) (Some 1) (Some 16))
        (reader buf (length (raw_bits \<lparr>rbytes = [], rbitsOffset = 0\<rparr>))) =
        Inr ([5, 6, 7], reader buf (length (raw_bits pd'))))"
  by (rule sequence_of_integers_round_trip) (simp_all add: valid_raw_aligned sequence_ok_def integer_ok_def)



text \<open>
  The values from 65536 of the NGAP type RepetitionPeriod, INTEGER (0..131071), cannot be
  encoded: the encoder gives the length field one bit, because it stops counting the bytes of the
  range at 1 where the decoder stops at 0.
\<close>

theorem repetition_period_overflow:
  assumes "65536 \<le> v" and "v \<le> 131071"
  shows "appendInteger v False (Some 0) (Some 131071) pd = Inl (Fail ''Bits Value is over capacity'')"
proof -
  have w: "length_bits 1 131072 = 1" by code_simp
  have l: "int_octets 131072 v = 3"
  proof -
    have "unat (unsigned_value v) = nat v" using assms by (subst uint_unsigned_value) simp_all
    then have u: "unat (drop_bit (8 * k) (unsigned_value v)) = nat v div 2 ^ (8 * k)" for k
      by (simp only: unat_drop_bit_div)
    have d1: "drop_bit 8 (unsigned_value v) \<noteq> 0" and d2: "drop_bit 16 (unsigned_value v) \<noteq> 0"
      and d3: "drop_bit 24 (unsigned_value v) = 0"
      using u [of 1] u [of 2] u [of 3] assms
      by (auto simp: unat_eq_0 [symmetric] div_eq_0_iff simp flip: unat_eq_0)
    then show ?thesis by (simp add: int_octets_def raw_len_from.simps)
  qed
  have "putBitsValue 2 1 pd = Inl (Fail ''Bits Value is over capacity'')"
    by (simp add: putBitsValue_def)
  then show ?thesis
    using assms by (simp add: appendInteger_def append_integer_range_def append_integer_body_def w l)
qed

lemma repetition_period_overflow_witness:
  "appendInteger 65536 False (Some 0) (Some 131071) \<lparr>rbytes = [], rbitsOffset = 0\<rparr> =
    Inl (Fail ''Bits Value is over capacity'')"
  by (rule repetition_period_overflow) simp_all

text \<open>
  An OCTET STRING of exactly 65536 octets is encoded, without an error, as the empty string:
  the mask of the fragment size turns 65536 into 0.
\<close>

theorem octets_65536_lost:
  assumes "valid_raw pd" and "length bs = 65536"
  shows "\<exists>pd'. appendOctetString bs False None None pd = Inr pd' \<and>
    rbytes pd' = rbytes pd @ [0] \<and> rbitsOffset pd' = 0"
proof -
  have "part_of_raw 65536 = 0" by (simp add: part_of_raw_def)
  then have "appendOctetString bs False None None pd = putBitsValue 0 8 (appendAlignBits pd)"
    using assms(2) by (simp add: appendOctetString_def append_size_range_def append_octets.simps appendLength_def
        rbind_def split: sum.split)
  moreover have "putBitsValue 0 8 (appendAlignBits pd) = Inr (pd\<lparr>rbytes := rbytes pd @ [0], rbitsOffset := 0\<rparr>)"
    by (simp add: putBitsValue_def putBitString_def appendAlignBits_def)
  ultimately show ?thesis by simp
qed

lemma octets_65536_lost_witness:
  "\<exists>pd'. appendOctetString (replicate 65536 1) False None None \<lparr>rbytes = [], rbitsOffset = 0\<rparr> = Inr pd' \<and>
    rbytes pd' = rbytes \<lparr>rbytes = [], rbitsOffset = 0\<rparr> @ [0] \<and> rbitsOffset pd' = 0"
  by (rule octets_65536_lost) (simp_all add: valid_raw_aligned)

text \<open>
  An OCTET STRING of fixed size that is too short, one or two octets, is written without the
  error the code has for it: the result of \<^verbatim>\<open>putBitString\<close> overwrites it.
\<close>

theorem short_fixed_octets_accepted:
  assumes "valid_raw pd" and "bs \<noteq> []" and "length bs \<le> 2" and "int (length bs) < n" and "n \<le> 65535"
  shows "\<exists>pd'. appendOctetString bs False (Some n) (Some n) pd = Inr pd' \<and>
    raw_bits pd' = raw_bits pd @ bits_of bs"
proof -
  have len: "0 < length bs" "length bs < 2 ^ 62" using assms(2,3) by simp_all
  have "\<not> (of_nat (length bs) :: u64) > 2" using assms(3) by (simp add: word_less_nat_alt unat_of_nat)
  moreover have "(of_nat (length bs) :: u64) \<le> word_of_int n"
    using assms by (simp add: word_le_nat_alt unat_of_nat unat_of_int64)
  ultimately have "appendOctetString bs False (Some n) (Some n) pd = putBitString bs (length bs * 8) pd"
    using assms(4,5) by (simp add: appendOctetString_def append_size_range_def)
  moreover have "emits (putBitString bs (length bs * 8) pd) pd (bits_of bs)"
    using fixed_emits [OF assms(1) len] \<open>\<not> (of_nat (length bs) :: u64) > 2\<close> assms(3)
    by (simp add: enc_octet_body_def)
  ultimately show ?thesis by (auto simp: emits_def)
qed

lemma short_fixed_octets_accepted_witness:
  "\<exists>pd'. appendOctetString [1, 2] False (Some 3) (Some 3) \<lparr>rbytes = [], rbitsOffset = 0\<rparr> = Inr pd' \<and>
    raw_bits pd' = raw_bits \<lparr>rbytes = [], rbitsOffset = 0\<rparr> @ bits_of [1, 2]"
  by (rule short_fixed_octets_accepted) (simp_all add: valid_raw_aligned)

end
