(* ===== verification/Go_Strings.thy ===== *)
theory Go_Strings
  imports Prelude "HOL-Library.Char_ord"
begin

text \<open>
  What the program uses of Go's string library: \<^verbatim>\<open>encoding/hex\<close>, \<^verbatim>\<open>strings.TrimSpace\<close>, the \<open>%x\<close>,
  \<open>%02x\<close> and \<open>%d\<close> verbs of \<^verbatim>\<open>fmt\<close>, and \<^verbatim>\<open>strconv.Atoi\<close> on one digit. Strings are lists of
  characters, and the program's identifiers are ASCII, where a Go byte, a Go rune and a HOL
  character are the same thing.
\<close>

section \<open>Hexadecimal\<close>

definition hex_digit :: "nat \<Rightarrow> char" where
  "hex_digit n = ''0123456789abcdef'' ! n"

definition hex_val :: "char \<Rightarrow> nat option" where
  "hex_val c =
     (let n = of_char c :: nat in
      if 48 \<le> n \<and> n \<le> 57 then Some (n - 48)
      else if 97 \<le> n \<and> n \<le> 102 then Some (n - 87)
      else if 65 \<le> n \<and> n \<le> 70 then Some (n - 55)
      else None)"

text \<open>
  \<^verbatim>\<open>hex.DecodeString\<close> returns the bytes decoded before an error together with the error.
\<close>

fun DecodeString :: "string \<Rightarrow> u8 list \<times> go_err option" where
  "DecodeString [] = ([], None)"
| "DecodeString [c] =
     ([], Some (Fail (if hex_val c = None then ''encoding/hex: invalid byte'' else ''encoding/hex: odd length hex string'')))"
| "DecodeString (c # d # r) =
     (case hex_val c of None \<Rightarrow> ([], Some (Fail ''encoding/hex: invalid byte''))
      | Some a \<Rightarrow>
        (case hex_val d of None \<Rightarrow> ([], Some (Fail ''encoding/hex: invalid byte''))
         | Some b \<Rightarrow> (let (bs, e) = DecodeString r in (of_nat (16 * a + b) # bs, e))))"

definition hex_byte :: "u8 \<Rightarrow> string" where
  "hex_byte b = [hex_digit (unat b div 16), hex_digit (unat b mod 16)]"

definition EncodeToString :: "u8 list \<Rightarrow> string" where
  "EncodeToString bs = concat (map hex_byte bs)"

lemma hex_val_digit [simp]: "n < 16 \<Longrightarrow> hex_val (hex_digit n) = Some n"
proof -
  assume "n < 16"
  then have "n \<in> set [0..<16]" by simp
  moreover have "list_all (\<lambda>n. hex_val (hex_digit n) = Some n) [0..<16]" by code_simp
  ultimately show ?thesis by (simp add: list_all_iff)
qed

lemma unat_byte: "unat (b :: u8) < 256"
  using unsigned_less [of b, where 'a = nat] by simp

theorem hex_round_trip: "DecodeString (EncodeToString bs) = (bs, None)"
proof (induction bs)
  case (Cons b bs)
  have "unat b div 16 < 16" using unat_byte [of b] by simp
  then show ?case using Cons
    by (simp add: EncodeToString_def hex_byte_def)
qed (simp add: EncodeToString_def)

lemma length_EncodeToString [simp]: "length (EncodeToString bs) = 2 * length bs"
  by (induction bs) (simp_all add: EncodeToString_def hex_byte_def)

definition digit_char :: "nat \<Rightarrow> char" where
  "digit_char d = char_of (48 + d)"

definition is_digit :: "char \<Rightarrow> bool" where
  "is_digit c \<longleftrightarrow> 48 \<le> (of_char c :: nat) \<and> (of_char c :: nat) \<le> 57"

definition digit_val :: "char \<Rightarrow> nat" where
  "digit_val c = of_char c - 48"

lemma digit_val_less: "is_digit c \<Longrightarrow> digit_val c < 10"
  by (auto simp: is_digit_def digit_val_def)

lemma hex_val_is_digit: "is_digit c \<Longrightarrow> hex_val c = Some (digit_val c)"
  by (simp add: is_digit_def digit_val_def hex_val_def)

lemma hex_digit_val: "is_digit c \<Longrightarrow> hex_digit (digit_val c) = c"
proof -
  assume c: "is_digit c"
  have "list_all (\<lambda>n. hex_digit n = char_of (48 + n)) [0..<10]" by code_simp
  then have "hex_digit (digit_val c) = char_of (48 + digit_val c)"
    using digit_val_less [OF c] by (simp add: list_all_iff)
  also have "48 + digit_val c = of_char c" using c by (simp add: is_digit_def digit_val_def)
  finally show ?thesis by simp
qed

section \<open>Trimming and numbers\<close>

definition is_space :: "char \<Rightarrow> bool" where
  "is_space c \<longleftrightarrow> (of_char c :: nat) \<in> {9, 10, 11, 12, 13, 32}"

definition TrimSpace :: "string \<Rightarrow> string" where
  "TrimSpace s = rev (dropWhile is_space (rev (dropWhile is_space s)))"

lemma TrimSpace_id:
  assumes "\<And>c. c \<in> set s \<Longrightarrow> \<not> is_space c"
  shows "TrimSpace s = s"
proof -
  have d: "dropWhile is_space t = t" if "\<And>c. c \<in> set t \<Longrightarrow> \<not> is_space c" for t
    using that by (cases t) auto
  have "dropWhile is_space (rev s) = rev s" by (rule d) (simp add: assms)
  then show ?thesis using assms by (simp add: TrimSpace_def d)
qed

lemma digit_not_space: "is_digit c \<Longrightarrow> \<not> is_space c"
  by (auto simp: is_digit_def is_space_def)

function dec_nat :: "nat \<Rightarrow> string" where
  "dec_nat n = (if n < 10 then [digit_char n] else dec_nat (n div 10) @ [digit_char (n mod 10)])"
  by auto
termination by (relation "measure id") auto

declare dec_nat.simps [simp del]

lemma dec_nat_digits: "c \<in> set (dec_nat n) \<Longrightarrow> is_digit c"
proof (induction n rule: dec_nat.induct)
  case (1 n)
  have "is_digit (digit_char d)" if "d < 10" for d
    using that by (simp add: is_digit_def digit_char_def)
  then show ?case using 1 by (subst (asm) dec_nat.simps) (auto split: if_splits)
qed

end
