(* ===== verification/Aper_Field.thy ===== *)
theory Aper_Field
  imports Aper_Sequence Go_Strings
begin

text \<open>
  The walk of the aligned PER codec over Go values: \<^verbatim>\<open>makeField\<close> (\<^verbatim>\<open>lib/aper/marshal.go\<close>) and
  \<^verbatim>\<open>parseField\<close> (\<^verbatim>\<open>lib/aper/aper.go\<close>), driven by the types and the struct tags, whose reader is
  \<^verbatim>\<open>lib/aper/common.go\<close>. The code inspects its argument with the reflection library; here a Go type is a
  value of \<open>gtype\<close> and a Go value one of \<open>gval\<close>. A slice has no nil of its own, it is the empty one.
  A value is parsed into a fresh destination, all of whose fields are zero.
\<close>

unbundle bit_operations_syntax

section \<open>Go types and values\<close>

datatype gtype =
    TBitString | TObjectIdentifier | TOctetString | TEnumerated
  | TBool | TInt | TString | TPtr gtype | TSlice gtype | TStruct "gfield list"
and gfield = Field (fname: string) (ftag: string) (ftype: gtype)

datatype gval =
    VBitString BitString | VOctetString "u8 list" | VEnumerated u64
  | VBool bool | VInt int | VString "u8 list" | VPtr "gval option" | VSlice "gval list" | VStruct "gval list"

lemma size_field: "size f = Suc (size (ftype f))"
  by (cases f) simp

lemma field_size [termination_simp]: "f \<in> set fs \<Longrightarrow> size (ftype f) < Suc (size_list size fs)"
proof (induction fs)
  case (Cons g fs)
  then show ?case by (auto simp: size_field)
qed simp

lemma size_bounds:
  "size (ftype f) < Suc (size f + n)"
  "size (ftype f) < Suc (Suc (size f + n))"
  "2 * size (ftype f) < Suc (Suc (2 * size f + n))"
  "fs \<noteq> [] \<Longrightarrow> size (ftype (hd fs)) < Suc (size_list size fs)"
  using field_size [of "hd fs" fs] by (simp_all add: size_field)

text \<open>The zero value of a type.\<close>

fun zero_val :: "gtype \<Rightarrow> gval" where
  "zero_val TBitString = VBitString \<lparr>Bytes = [], BitLength = 0\<rparr>"
| "zero_val TObjectIdentifier = VOctetString []"
| "zero_val TOctetString = VOctetString []"
| "zero_val TEnumerated = VEnumerated 0"
| "zero_val TBool = VBool False"
| "zero_val TInt = VInt 0"
| "zero_val TString = VString []"
| "zero_val (TPtr t) = VPtr None"
| "zero_val (TSlice t) = VSlice []"
| "zero_val (TStruct fs) = VStruct (map (\<lambda>f. zero_val (ftype f)) fs)"

text \<open>\<^verbatim>\<open>v.Kind() == reflect.Slice\<close>: an \<^verbatim>\<open>OctetString\<close> and an \<^verbatim>\<open>ObjectIdentifier\<close> are byte slices.\<close>

definition is_slice :: "gtype \<Rightarrow> bool" where
  "is_slice t = (case t of TSlice _ \<Rightarrow> True | TOctetString \<Rightarrow> True | TObjectIdentifier \<Rightarrow> True | _ \<Rightarrow> False)"

text \<open>\<^verbatim>\<open>v.IsNil()\<close> panics on a value that cannot be nil.\<close>

definition IsNil :: "gval \<Rightarrow> bool res" where
  "IsNil v = (case v of VPtr x \<Rightarrow> Inr (x = None) | VSlice xs \<Rightarrow> Inr (xs = [])
     | VOctetString bs \<Rightarrow> Inr (bs = []) | _ \<Rightarrow> Inl Panic)"

text \<open>\<^verbatim>\<open>PkgPath\<close> is empty for the fields whose name starts with an upper case letter.\<close>

definition exported :: "string \<Rightarrow> bool" where
  "exported n \<longleftrightarrow> n \<noteq> [] \<and> 65 \<le> (of_char (hd n) :: nat) \<and> (of_char (hd n) :: nat) \<le> 90"

section \<open>Struct tags\<close>

record fieldParameters =
  optional :: bool
  sizeExtensible :: bool
  valueExtensible :: bool
  sizeLowerBound :: "int option"
  sizeUpperBound :: "int option"
  valueLowerBound :: "int option"
  valueUpperBound :: "int option"
  defaultValue :: "int option"
  openType :: bool
  referenceFieldName :: string
  referenceFieldValue :: "int option"

definition noParameters :: fieldParameters where
  "noParameters = \<lparr>optional = False, sizeExtensible = False, valueExtensible = False,
     sizeLowerBound = None, sizeUpperBound = None, valueLowerBound = None, valueUpperBound = None,
     defaultValue = None, openType = False, referenceFieldName = [], referenceFieldValue = None\<rparr>"

text \<open>\<^verbatim>\<open>strings.Split\<close> at a character, and \<^verbatim>\<open>strconv.ParseInt(s, 10, 64)\<close> where it has no error.\<close>

fun split_at :: "char \<Rightarrow> string \<Rightarrow> string list" where
  "split_at c [] = [[]]"
| "split_at c (x # xs) =
     (case split_at c xs of [] \<Rightarrow> [] | p # ps \<Rightarrow> if x = c then [] # p # ps else (x # p) # ps)"

definition digits_val :: "string \<Rightarrow> int option" where
  "digits_val s = (if s \<noteq> [] \<and> list_all is_digit s
     then Some (foldl (\<lambda>n c. 10 * n + int (digit_val c)) 0 s) else None)"

definition ParseInt :: "string \<Rightarrow> int option" where
  "ParseInt s =
     (case s of [] \<Rightarrow> None
      | c # r \<Rightarrow>
        (case (if c = CHR ''-'' then map_option uminus (digits_val r)
               else if c = CHR ''+'' then digits_val r else digits_val s) of
           None \<Rightarrow> None
         | Some i \<Rightarrow> if - (2 ^ 63) \<le> i \<and> i < 2 ^ 63 then Some i else None))"

text \<open>The text after a prefix, for \<^verbatim>\<open>strings.HasPrefix\<close> and the slice that follows it.\<close>

fun after :: "string \<Rightarrow> string \<Rightarrow> string option" where
  "after [] s = Some s"
| "after (c # cs) [] = None"
| "after (c # cs) (x # xs) = (if c = x then after cs xs else None)"

definition set_number :: "(int option \<Rightarrow> fieldParameters) \<Rightarrow> fieldParameters \<Rightarrow> string \<Rightarrow> fieldParameters" where
  "set_number upd params s = (case ParseInt s of None \<Rightarrow> params | Some i \<Rightarrow> upd (Some i))"

definition parse_part :: "string \<Rightarrow> fieldParameters \<Rightarrow> fieldParameters" where
  "parse_part part params =
     (if part = ''optional'' then params\<lparr>optional := True\<rparr>
      else if part = ''sizeExt'' then params\<lparr>sizeExtensible := True\<rparr>
      else if part = ''valueExt'' then params\<lparr>valueExtensible := True\<rparr>
      else case after ''sizeLB:'' part of Some s \<Rightarrow> set_number (\<lambda>i. params\<lparr>sizeLowerBound := i\<rparr>) params s
      | None \<Rightarrow> case after ''sizeUB:'' part of Some s \<Rightarrow> set_number (\<lambda>i. params\<lparr>sizeUpperBound := i\<rparr>) params s
      | None \<Rightarrow> case after ''valueLB:'' part of Some s \<Rightarrow> set_number (\<lambda>i. params\<lparr>valueLowerBound := i\<rparr>) params s
      | None \<Rightarrow> case after ''valueUB:'' part of Some s \<Rightarrow> set_number (\<lambda>i. params\<lparr>valueUpperBound := i\<rparr>) params s
      | None \<Rightarrow> case after ''default:'' part of Some s \<Rightarrow> set_number (\<lambda>i. params\<lparr>defaultValue := i\<rparr>) params s
      | None \<Rightarrow> if part = ''openType'' then params\<lparr>openType := True\<rparr>
      else case after ''referenceFieldName:'' part of Some s \<Rightarrow> params\<lparr>referenceFieldName := s\<rparr>
      | None \<Rightarrow> case after ''referenceFieldValue:'' part of
          Some s \<Rightarrow> set_number (\<lambda>i. params\<lparr>referenceFieldValue := i\<rparr>) params s
      | None \<Rightarrow> params)"

definition parseFieldParameters :: "string \<Rightarrow> fieldParameters" where
  "parseFieldParameters str = fold parse_part (split_at (CHR '','') str) noParameters"

text \<open>What \<^verbatim>\<open>parseSequenceOf\<close> passes on to the elements.\<close>

definition elementParameters :: "fieldParameters \<Rightarrow> fieldParameters" where
  "elementParameters params = params\<lparr>sizeExtensible := False, sizeUpperBound := None, sizeLowerBound := None\<rparr>"

section \<open>References of open types\<close>

text \<open>A field of a value; in Go, an index out of range panics.\<close>

definition field_at :: "'a list \<Rightarrow> int \<Rightarrow> 'a res" where
  "field_at xs i = (if 0 \<le> i \<and> i < int (length xs) then Inr (xs ! nat i) else Inl Panic)"

lemma field_at_cases: "field_at xs i = Inr x \<Longrightarrow> 0 \<le> i \<and> i < int (length xs) \<and> x = xs ! nat i \<and> x \<in> set xs"
  by (auto simp: field_at_def split: if_splits)

definition is_choice :: "gfield list \<Rightarrow> bool" where
  "is_choice fs \<longleftrightarrow> fs \<noteq> [] \<and> fname (hd fs) = ''Present''"

function (sequential) getReferenceFieldValue :: "gtype \<Rightarrow> gval \<Rightarrow> int res" where
  "getReferenceFieldValue TInt (VInt i) = Inr i"
| "getReferenceFieldValue (TStruct []) (VStruct vs) = Inl Panic"
| "getReferenceFieldValue (TStruct fs) (VStruct (v0 # vs)) =
     (if is_choice fs then
        case v0 of VInt present \<Rightarrow>
          if present = 0 then Inl (Fail ''ReferenceField Value present is 0(present's field number)'')
          else if present \<ge> int (length fs) then Inl (Fail ''Present is bigger than number of struct field'')
          else rbind (field_at fs present) (\<lambda>f. rbind (field_at (v0 # vs) present) (getReferenceFieldValue (ftype f)))
        | _ \<Rightarrow> Inl Panic
      else getReferenceFieldValue (ftype (hd fs)) v0)"
| "getReferenceFieldValue _ _ = Inl (Fail ''OpenType reference only support INTEGER'')"
  by pat_completeness auto
termination
  by (relation "measure (\<lambda>(t, _). size t)") (auto dest!: field_at_cases field_size simp: size_bounds)


text \<open>The reference of an open type is an earlier field of its struct.\<close>

definition resolve_reference :: "(gfield \<times> gval) list \<Rightarrow> fieldParameters \<Rightarrow> fieldParameters res" where
  "resolve_reference prev params =
     (if openType params then
        case find (\<lambda>(f, v). fname f = referenceFieldName params) prev of
          None \<Rightarrow> Inl (Fail ''Open type is not reference to the other field in the struct'')
        | Some (f, v) \<Rightarrow> rbind (getReferenceFieldValue (ftype f) v) (\<lambda>i. Inr (params\<lparr>referenceFieldValue := Some i\<rparr>))
      else Inr params)"

section \<open>Encoding\<close>

text \<open>
  The first loop over the fields counts the optional ones and collects the presence bits; the
  fields of a CHOICE have none.
\<close>

fun scan_optional :: "bool \<Rightarrow> gfield list \<Rightarrow> gval list \<Rightarrow> nat \<Rightarrow> u64 \<Rightarrow> (nat \<times> u64) res" where
  "scan_optional sequenceType (f # fs) (v # vs) optionalCount optionalPresents =
     (if \<not> exported (fname f) then Inl (Fail ''struct contains unexported fields'')
      else if sequenceType \<and> optional (parseFieldParameters (ftag f)) then
        rbind (IsNil v) (\<lambda>nil. scan_optional sequenceType fs vs (optionalCount + 1)
          (push_bit 1 optionalPresents + (if nil then 0 else 1)))
      else scan_optional sequenceType fs vs optionalCount optionalPresents)"
| "scan_optional sequenceType fs vs optionalCount optionalPresents = Inr (optionalCount, optionalPresents)"

text \<open>
  A nil pointer in a mandatory field sets an error that is overwritten, and is an error again when
  the field is written. A value that is not of its type has no counterpart in Go.
\<close>

function (sequential) makeField ::
    "gtype \<Rightarrow> gval \<Rightarrow> fieldParameters \<Rightarrow> perRawBitData \<Rightarrow> perRawBitData res"
  and makeFields ::
    "gfield list \<Rightarrow> gval list \<Rightarrow> (gfield \<times> gval) list \<Rightarrow> u64 \<Rightarrow> nat \<Rightarrow> perRawBitData \<Rightarrow> perRawBitData res"
where
  "makeField t v params pd =
     (case (t, v) of
        (TPtr t, VPtr None) \<Rightarrow> Inl (Fail ''aper: cannot marshal nil value'')
      | (TPtr t, VPtr (Some v)) \<Rightarrow> makeField t v params pd
      | (TBitString, VBitString w) \<Rightarrow>
          appendBitString (Bytes w) (BitLength w) (sizeExtensible params) (sizeLowerBound params) (sizeUpperBound params) pd
      | (TObjectIdentifier, _) \<Rightarrow> Inl (Fail ''Unsupport ObjectIdenfier type'')
      | (TOctetString, VOctetString bs) \<Rightarrow>
          appendOctetString bs (sizeExtensible params) (sizeLowerBound params) (sizeUpperBound params) pd
      | (TEnumerated, VEnumerated e) \<Rightarrow>
          appendEnumerated e (valueExtensible params) (valueLowerBound params) (valueUpperBound params) pd
      | (TBool, VBool b) \<Rightarrow> appendBool b pd
      | (TInt, VInt i) \<Rightarrow>
          appendInteger i (valueExtensible params) (valueLowerBound params) (valueUpperBound params) pd
      | (TString, VString bs) \<Rightarrow>
          appendOctetString bs (sizeExtensible params) (sizeLowerBound params) (sizeUpperBound params) pd
      | (TSlice t, VSlice xs) \<Rightarrow>
          appendSequenceOf (\<lambda>v pd. makeField t v (elementParameters params) pd)
            (sizeExtensible params) (sizeLowerBound params) (sizeUpperBound params) xs pd
      | (TStruct fs, VStruct vs) \<Rightarrow>
         rbind (if valueExtensible params then putBitsValue 0 1 pd else Inr pd) (\<lambda>pd.
         rbind (scan_optional (\<not> is_choice fs) fs vs 0 0) (\<lambda>(optionalCount, optionalPresents).
         rbind (if optionalCount > 0 then putBitsValue optionalPresents optionalCount pd else Inr pd) (\<lambda>pd.
           if is_choice fs then
             case vs of VInt present # _ \<Rightarrow>
               if present = 0 then Inl (Fail ''CHOICE or OpenType present is 0(present's field number)'')
               else if present \<ge> int (length fs) then Inl (Fail ''Present is bigger than number of struct field'')
               else
                 rbind (field_at fs present) (\<lambda>f. rbind (field_at vs present) (\<lambda>v.
                   let structParams = parseFieldParameters (ftag f) in
                   if openType params then
                     (case referenceFieldValue params of
                        None \<Rightarrow> Inl (Fail ''OpenType reference value is empty'')
                      | Some refValue \<Rightarrow>
                          if referenceFieldValue structParams \<noteq> Some refValue
                          then Inl (Fail ''reference value and present reference value is not match'')
                          else appendOpenType (\<lambda>pd. makeField (ftype f) v structParams pd) pd)
                   else
                     rbind (appendChoiceIndex present (valueExtensible params) (valueUpperBound params) pd) (\<lambda>pd.
                       makeField (ftype f) v structParams pd)))
             | _ \<Rightarrow> Inl Panic
           else makeFields fs vs [] optionalPresents optionalCount pd)))
      | _ \<Rightarrow> Inl Panic)"
| "makeFields (f # fs) (v # vs) prev optionalPresents optionalCount pd =
     (let params = parseFieldParameters (ftag f);
          counted = optional params \<and> optionalCount > 0;
          optionalCount = (if counted then optionalCount - 1 else optionalCount)
      in
      if counted \<and> optionalPresents AND push_bit optionalCount 1 = 0 then
        makeFields fs vs (prev @ [(f, v)]) optionalPresents optionalCount pd
      else
        rbind (resolve_reference prev params) (\<lambda>params.
        rbind (makeField (ftype f) v params pd) (\<lambda>pd.
          makeFields fs vs (prev @ [(f, v)]) optionalPresents optionalCount pd)))"
| "makeFields fs vs prev optionalPresents optionalCount pd = Inr pd"
  by pat_completeness auto
termination
  by (relation "measure (\<lambda>x. case x of Inl (t, _) \<Rightarrow> size t | Inr (fs, _) \<Rightarrow> size_list size fs)")
    (auto dest!: field_at_cases field_size simp: size_bounds split: if_splits)

definition MarshalWithParams :: "gtype \<Rightarrow> gval \<Rightarrow> string \<Rightarrow> u8 list res" where
  "MarshalWithParams t val params =
     rbind (makeField t val (parseFieldParameters params) \<lparr>rbytes = [], rbitsOffset = 0\<rparr>) (\<lambda>pd.
       Inr (if rbytes pd = [] then [0] else rbytes pd))"

section \<open>Decoding\<close>

text \<open>The alternative of an open type whose tag has the value of the reference.\<close>

definition find_alternative :: "int \<Rightarrow> gfield list \<Rightarrow> nat option" where
  "find_alternative refValue fs =
     find (\<lambda>j. referenceFieldValue (parseFieldParameters (ftag (fs ! j))) = Some refValue) [1..<length fs]"

text \<open>A CHOICE with one alternative set.\<close>

definition chosen :: "gfield list \<Rightarrow> nat \<Rightarrow> gval \<Rightarrow> gval" where
  "chosen fs present v = VStruct ((map (\<lambda>f. zero_val (ftype f)) fs)[0 := VInt (int present), present := v])"

definition rmap :: "('a \<Rightarrow> 'b) \<Rightarrow> ('a \<times> perBitData) res \<Rightarrow> ('b \<times> perBitData) res" where
  "rmap g r = rbind r (\<lambda>(v, pd). Inr (g v, pd))"

function (sequential) parseField :: "gtype \<Rightarrow> fieldParameters \<Rightarrow> perBitData \<Rightarrow> (gval \<times> perBitData) res"
  and parseBody :: "gtype \<Rightarrow> fieldParameters \<Rightarrow> bool \<Rightarrow> bool \<Rightarrow> perBitData \<Rightarrow> (gval \<times> perBitData) res"
  and parseFields ::
    "gfield list \<Rightarrow> (gfield \<times> gval) list \<Rightarrow> u64 \<Rightarrow> nat \<Rightarrow> perBitData \<Rightarrow> (gval list \<times> perBitData) res"
where
  "parseField t params pd =
     (if byteOffset pd = length (bytes pd) then Inl (Fail ''sequence truncated'')
      else case t of
        TPtr t \<Rightarrow> rmap (\<lambda>v. VPtr (Some v)) (parseField t params pd)
      | _ \<Rightarrow> parse_ext (sizeExtensible params) (\<lambda>sizeExt.
               parse_ext (valueExtensible params \<and> \<not> is_slice t) (\<lambda>valueExt pd.
                 parseBody t params sizeExt valueExt pd)) pd)"
| "parseBody t params sizeExt valueExt pd =
     (case t of
        TBitString \<Rightarrow>
          rmap VBitString (parseBitString sizeExt (sizeLowerBound params) (sizeUpperBound params) pd)
      | TObjectIdentifier \<Rightarrow> Inl (Fail ''Unsupport ObjectIdenfier type'')
      | TOctetString \<Rightarrow>
          rmap VOctetString (parseOctetString sizeExt (sizeLowerBound params) (sizeUpperBound params) pd)
      | TEnumerated \<Rightarrow>
          rmap VEnumerated (parseEnumerated valueExt (valueLowerBound params) (valueUpperBound params) pd)
      | TBool \<Rightarrow> rmap VBool (parseBool pd)
      | TInt \<Rightarrow>
          rmap VInt (parseInteger valueExt (valueLowerBound params) (valueUpperBound params) pd)
      | TString \<Rightarrow>
          rmap VString (parseOctetString sizeExt (sizeLowerBound params) (sizeUpperBound params) pd)
      | TSlice t \<Rightarrow>
          rmap VSlice (parseSequenceOf (\<lambda>pd. parseField t (elementParameters params) pd)
            (sizeLowerBound params) (sizeUpperBound params) sizeExt pd)
      | TPtr t \<Rightarrow> Inl Panic
      | TStruct fs \<Rightarrow>
          (if list_ex (\<lambda>f. \<not> exported (fname f)) fs then Inl (Fail ''struct contains unexported fields'')
           else
             let optionalCount = length (filter (\<lambda>f. optional (parseFieldParameters (ftag f))) fs) in
             rbind (if optionalCount > 0 then getBitsValue optionalCount pd else Inr (0, pd)) (\<lambda>(optionalPresents, pd).
               if is_choice fs then
                 if openType params then
                   (case referenceFieldValue params of
                      None \<Rightarrow> Inl (Fail ''OpenType reference value is empty'')
                    | Some refValue \<Rightarrow>
                       (case find_alternative refValue fs of
                          None \<Rightarrow> Inl (Fail ''OpenType reference value does not match any field'')
                        | Some present \<Rightarrow>
                            rbind (field_at fs (int present)) (\<lambda>f.
                              rmap (chosen fs present)
                                (parseOpenType (\<lambda>pd. parseField (ftype f) (parseFieldParameters (ftag f)) pd) pd))))
                 else
                   (case getChoiceIndex valueExt (valueUpperBound params) pd of
                      Inl Panic \<Rightarrow> Inl Panic
                    | Inl (Fail _) \<Rightarrow> Inl (Fail ''CHOICE present is 0(present's field number)'')
                    | Inr (present, pd) \<Rightarrow>
                        if present = 0 then Inl (Fail ''CHOICE present is 0(present's field number)'')
                        else if present \<ge> int (length fs) then
                          Inl (Fail ''CHOICE Present is bigger than number of struct field'')
                        else rbind (field_at fs present) (\<lambda>f.
                          rmap (chosen fs (nat present)) (parseField (ftype f) (parseFieldParameters (ftag f)) pd)))
               else rmap VStruct (parseFields fs [] optionalPresents optionalCount pd))))"
| "parseFields [] prev optionalPresents optionalCount pd = Inr ([], pd)"
| "parseFields (f # fs) prev optionalPresents optionalCount pd =
     (let params = parseFieldParameters (ftag f);
          counted = optional params \<and> optionalCount > 0;
          optionalCount = (if counted then optionalCount - 1 else optionalCount)
      in
      if counted \<and> optionalPresents AND push_bit optionalCount 1 = 0 then
        let v = zero_val (ftype f) in
        rmap (\<lambda>vs. v # vs) (parseFields fs (prev @ [(f, v)]) optionalPresents optionalCount pd)
      else
        rbind (resolve_reference prev params) (\<lambda>params.
        rbind (parseField (ftype f) params pd) (\<lambda>(v, pd).
          rmap (\<lambda>vs. v # vs) (parseFields fs (prev @ [(f, v)]) optionalPresents optionalCount pd))))"
  by pat_completeness auto
termination
  by (relation "measure (\<lambda>x. case x of Inl (t, _) \<Rightarrow> 2 * size t + 1
      | Inr (Inl (t, _)) \<Rightarrow> 2 * size t | Inr (Inr (fs, _)) \<Rightarrow> 2 * size_list size fs + 1)")
    (auto dest!: field_at_cases field_size simp: size_bounds split: if_splits)

definition UnmarshalWithParams :: "u8 list \<Rightarrow> gtype \<Rightarrow> string \<Rightarrow> gval res" where
  "UnmarshalWithParams b t params =
     rbind (parseField t (parseFieldParameters params) \<lparr>bytes = b, byteOffset = 0, bitsOffset = 0\<rparr>) (\<lambda>(v, _). Inr v)"

text \<open>Unfolded one type at a time.\<close>

declare makeField.simps [simp del] parseField.simps [simp del] parseBody.simps [simp del]
  makeFields.simps(1) [simp del] parseFields.simps(2) [simp del]

end
