(* ===== verification/Aper_Round_Trip.thy ===== *)
theory Aper_Round_Trip
  imports Aper_Field
begin

text \<open>
  What \<^verbatim>\<open>Marshal\<close> writes, \<^verbatim>\<open>Unmarshal\<close> reads back. A writer and a
      reader that agree on one value are
  related by \<open>carries\<close>, which is closed under the ways the walk over a Go value combines them. The
  values a type can carry are given by the executable predicate \<open>fits\<close>; the round trip is proved by
  induction on the type.
\<close>

unbundle bit_operations_syntax

section \<open>Writers and readers that agree\<close>

text \<open>At a bit phase, the writer appends the bits \<open>b\<close> and the reader gets a value with
    \<open>P\<close> from them.\<close>

definition agree :: "(perRawBitData \<Rightarrow> perRawBitData res) \<Rightarrow> (perBitData \<Rightarrow> ('w
    \<times> perBitData) res) \<Rightarrow>
    ('w \<Rightarrow> bool) \<Rightarrow> nat \<Rightarrow> bool list \<Rightarrow> bool" where
  "agree put get P off b \<longleftrightarrow>
     (\<forall>pd. valid_raw pd \<longrightarrow> rbitsOffset pd = off \<longrightarrow> emits (put pd) pd b) \<and>
     (\<forall>buf p. p mod 8 = off \<longrightarrow> prefix b (drop p (bits_of buf)) \<longrightarrow>
        (\<exists>w. fetches (get (reader buf p)) buf p b w \<and> P w))"

lemma agreeI:
  assumes "\<And>pd. valid_raw pd \<Longrightarrow> rbitsOffset pd = off \<Longrightarrow> emits (put pd) pd b"
    and "\<And>buf p. p mod 8 = off \<Longrightarrow> prefix b (drop p (bits_of buf)) \<Longrightarrow>
      \<exists>w. fetches (get (reader buf p)) buf p b w \<and> P w"
  shows "agree put get P off b"
  using assms by (simp add: agree_def)

lemma agree_put: "agree put get P off b \<Longrightarrow> valid_raw pd
    \<Longrightarrow> rbitsOffset pd = off \<Longrightarrow> emits (put pd) pd b"
  by (simp add: agree_def)

lemma agree_get:
  assumes "agree put get P off b" and "p mod 8 = off" and "prefix b (drop p (bits_of buf))"
  obtains w where "fetches (get (reader buf p)) buf p b w" and "P w"
  using assms unfolding agree_def by blast

text \<open>Agreement at every phase, on at most \<open>n\<close> bits of which there are some if
    \<open>ne\<close>.\<close>

definition carries :: "bool \<Rightarrow> nat \<Rightarrow> (perRawBitData \<Rightarrow> perRawBitData res)
    \<Rightarrow>
    (perBitData \<Rightarrow> ('w \<times> perBitData) res) \<Rightarrow> ('w \<Rightarrow> bool) \<Rightarrow> bool"
        where
  "carries ne n put get P \<longleftrightarrow> (\<forall>off < 8. \<exists>b. (ne \<longrightarrow> b \<noteq> [])
      \<and> length b \<le> n \<and> agree put get P off b)"

lemma carriesI:
  assumes "\<And>off. off < 8 \<Longrightarrow> (ne \<longrightarrow> e off \<noteq> [])
      \<and> length (e off) \<le> n"
    and "\<And>pd. valid_raw pd \<Longrightarrow> emits (put pd) pd (e (rbitsOffset pd))"
    and "\<And>buf p. prefix (e (p mod 8)) (drop p (bits_of buf)) \<Longrightarrow>
      \<exists>w. fetches (get (reader buf p)) buf p (e (p mod 8)) w \<and> P w"
  shows "carries ne n put get P"
  unfolding carries_def
proof (intro allI impI)
  fix off :: nat assume "off < 8"
  then have "(ne \<longrightarrow> e off \<noteq> []) \<and> length (e off) \<le> n
      \<and> agree put get P off (e off)"
    using assms by (auto simp: agree_def)
  then show "\<exists>b. (ne \<longrightarrow> b \<noteq> []) \<and> length b \<le> n \<and> agree put get P off b" ..
qed

lemma carriesE:
  assumes "carries ne n put get P" and "off < 8"
  obtains b where "ne \<Longrightarrow> b \<noteq> []" and "length b \<le> n" and "agree put get P off b"
  using assms unfolding carries_def by blast

lemma carries_map:
  assumes "carries ne n put get P" and "ne' \<Longrightarrow> ne"
    and "\<And>off b. off < 8 \<Longrightarrow> (ne \<Longrightarrow> b \<noteq> [])
        \<Longrightarrow> agree put get P off b \<Longrightarrow> agree put' get' Q off b"
    and "n \<le> n'"
  shows "carries ne' n' put' get' Q"
  unfolding carries_def
proof (intro allI impI)
  fix off :: nat assume off: "off < 8"
  obtain b where b: "ne \<Longrightarrow> b \<noteq> []" "length b \<le> n" "agree put get P off b"
    by (rule carriesE [OF assms(1) off]) blast
  with assms(2,4) assms(3) [OF off b(1,3)]
  show "\<exists>b. (ne' \<longrightarrow> b \<noteq> []) \<and> length b \<le> n' \<and> agree put' get' Q off b"
    by (intro exI [of _ b]) auto
qed

lemma carries_codec:
  assumes codec: "per_codec enc put get val ok" and ok: "ok w"
    and ne: "\<And>off. off < 8 \<Longrightarrow> (ne \<longrightarrow> enc off (val w) \<noteq> [])
        \<and> length (enc off (val w)) \<le> n"
  shows "carries ne n (put w) get (\<lambda>w'. val w' = val w)"
proof (rule carriesI [where e = "\<lambda>off. enc off (val w)"])
  show "emits (put w pd) pd (enc (rbitsOffset pd) (val w))" if "valid_raw pd" for pd
    using per_codec.put_enc [OF codec that ok] by (simp add: emits_def)
  show "\<exists>w'. fetches (get (reader buf p)) buf p (enc (p mod 8) (val w)) w' \<and> val w' = val w"
    if "prefix (enc (p mod 8) (val w)) (drop p (bits_of buf))" for buf p
    using per_codec.get_enc [OF codec ok that] by (simp add: fetches_def)
qed (rule ne)

lemma carries_weaken:
  assumes "carries ne n put get P" and "ne' \<Longrightarrow> ne" and "\<And>w. P w
      \<Longrightarrow> Q w" and "n \<le> n'"
  shows "carries ne' n' put get Q"
  using assms(1,2) _ assms(4)
proof (rule carries_map)
  fix off b assume "agree put get P off b"
  then show "agree put get Q off b" using assms(3) unfolding agree_def by blast
qed

lemma carries_pure: "P w \<Longrightarrow> carries False 0 Inr (\<lambda>pd. Inr (w, pd)) P"
  by (rule carriesI [where e = "\<lambda>_. []"]) (auto simp: emits_def fetches_def)

lemma agree_bind:
  assumes one: "agree put1 get1 P off b1" and two: "agree put2 get2 Q ((off + length b1) mod 8) b2"
    and step: "\<And>w pd. P w \<Longrightarrow> f (w, pd) = rmap (h w) (get2 pd)"
    and res: "\<And>w u. P w \<Longrightarrow> Q u \<Longrightarrow> R (h w u)"
  shows "agree (\<lambda>pd. rbind (put1 pd) put2) (\<lambda>pd. rbind (get1 pd) f) R off (b1 @ b2)"
proof (rule agreeI)
  fix pd assume pd: "valid_raw pd" "rbitsOffset pd = off"
  show "emits (rbind (put1 pd) put2) pd (b1 @ b2)"
    by (rule emits_rbind [OF agree_put [OF one pd] pd(1)]) (use agree_put [OF two] pd(2) in simp)
next
  fix buf p assume p: "p mod 8 = off" and pre: "prefix (b1 @ b2) (drop p (bits_of buf))"
  let ?q = "p + length b1"
  have q: "?q mod 8 = (off + length b1) mod 8" using p by (metis mod_add_left_eq)
  have pre1: "prefix b1 (drop p (bits_of buf))" and pre2: "prefix b2 (drop ?q (bits_of buf))"
    using pre by (simp_all add: prefix_append_drop)
  obtain w where "fetches (get1 (reader buf p)) buf p b1 w" "P w" by (rule agree_get [OF one p pre1])
  moreover obtain u where "fetches (get2 (reader buf ?q)) buf ?q b2 u" "Q u" by (rule agree_get [OF two q pre2])
  ultimately show "\<exists>w. fetches (rbind (get1 (reader buf p)) f) buf p (b1 @ b2) w \<and> R w"
    using step [of w] res by (intro exI [of _ "h w u"]) (simp add: fetches_def rmap_def add.assoc)
qed

lemma carries_bind:
  assumes one: "carries a m put1 get1 P" and two: "carries b n put2 get2 Q"
    and step: "\<And>w pd. P w \<Longrightarrow> f (w, pd) = rmap (h w) (get2 pd)"
    and res: "\<And>w u. P w \<Longrightarrow> Q u \<Longrightarrow> R (h w u)"
  shows "carries (a \<or> b) (m + n) (\<lambda>pd. rbind (put1 pd) put2) (\<lambda>pd. rbind (get1 pd) f) R"
  unfolding carries_def
proof (intro allI impI)
  fix off :: nat assume off: "off < 8"
  obtain b1 where b1: "a \<Longrightarrow> b1 \<noteq> []" "length b1 \<le> m" "agree put1 get1 P off b1"
    by (rule carriesE [OF one off]) blast
  have "(off + length b1) mod 8 < 8" by simp
  from two this obtain b2 where b2: "b \<Longrightarrow> b2 \<noteq> []" "length b2 \<le> n" "agree put2 get2 Q ((off
      + length b1) mod 8) b2"
    by (rule carriesE) blast
  have "agree (\<lambda>pd. rbind (put1 pd) put2) (\<lambda>pd. rbind (get1 pd) f) R off (b1 @ b2)"
    by (rule agree_bind [where h = h, OF b1(3) b2(3)]) (fact step, fact res)
  with b1(1,2) b2(1,2) show "\<exists>c. (a \<or> b \<longrightarrow> c \<noteq> [])
      \<and> length c \<le> m + n \<and> agree (\<lambda>pd. rbind (put1 pd) put2)
      (\<lambda>pd. rbind (get1 pd) f) R off c"
    by (intro exI [of _ "b1 @ b2"]) auto
qed

lemma carries_rmap:
  assumes "carries ne n put get P" and "\<And>w. P w \<Longrightarrow> Q (g w)"
  shows "carries ne n put (\<lambda>pd. rmap g (get pd)) Q"
  using assms(1) _ _ order_refl
proof (rule carries_map)
  fix off b assume ag: "agree put get P off b"
  show "agree put (\<lambda>pd. rmap g (get pd)) Q off b"
  proof (rule agreeI)
    fix buf p assume "p mod 8 = off" "prefix b (drop p (bits_of buf))"
    with ag obtain w where "fetches (get (reader buf p)) buf p b w" "P w" by (rule agree_get)
    then show "\<exists>w. fetches (rmap g (get (reader buf p))) buf p b w \<and> Q w"
      using assms(2) by (auto simp: fetches_def rmap_def)
  qed (rule agree_put [OF ag])
qed

text \<open>The test for the end of the data never meets a value that has bits.\<close>

lemma not_at_end: "prefix b (drop p (bits_of buf)) \<Longrightarrow> b \<noteq> []
    \<Longrightarrow> p div 8 < length buf"
  using prefix_room [of b p buf] by (cases b) (auto simp: less_mult_imp_div_less)

lemma carries_nonempty:
  assumes "carries True n put get P"
    and "\<And>buf p. p div 8 < length buf \<Longrightarrow> get' (reader buf p) = get (reader buf p)"
  shows "carries True n put get' P"
  using assms(1) _ _ order_refl
proof (rule carries_map)
  fix off b assume ne: "True \<Longrightarrow> b \<noteq> []" and ag: "agree put get P off b"
  show "agree put get' P off b"
  proof (rule agreeI)
    fix buf p assume p: "p mod 8 = off" and pre: "prefix b (drop p (bits_of buf))"
    from ag p pre obtain w where "fetches (get (reader buf p)) buf p b w" "P w" by (rule agree_get)
    then show "\<exists>w. fetches (get' (reader buf p)) buf p b w \<and> P w"
      using assms(2) [OF not_at_end [OF pre]] ne by auto
  qed (rule agree_put [OF ag])
qed

lemma loop_steps:
  shows put_all_Nil: "put_all put [] = Inr" and get_all_0: "get_all get 0 = (\<lambda>pd. Inr ([], pd))"
    and put_all_Cons: "put_all put (v # vs) = (\<lambda>pd. rbind (put v pd) (put_all put vs))"
    and get_all_Suc: "get_all get (Suc n) =
      (\<lambda>pd. rbind (get pd) (\<lambda>(w, pd). rbind (get_all get n pd) (\<lambda>(ws, pd). Inr (w # ws,
          pd))))"
  by (simp_all add: fun_eq_iff)

lemma carries_all:
  assumes "\<And>v. v \<in> set vs \<Longrightarrow> carries True (n v) (put v) get (\<lambda>w. c w = c v)"
  shows "carries (vs \<noteq> []) (sum_list (map n vs)) (put_all put vs) (get_all get (length vs)) (\<lambda>ws. map
      c ws = map c vs)"
  using assms
proof (induction vs)
  case Nil
  then show ?case
    using carries_pure [of "\<lambda>ws. map c ws = []" "[]"] by (simp add: put_all_Nil get_all_0)
next
  case (Cons v vs)
  have "carries (True \<or> vs \<noteq> []) (n v + sum_list (map n vs))
      (\<lambda>pd. rbind (put v pd) (put_all put vs))
      (\<lambda>pd. rbind (get pd) (\<lambda>(w, pd). rbind (get_all get (length vs) pd) (\<lambda>(ws, pd). Inr (w #
          ws, pd))))
      (\<lambda>ws. map c ws = map c (v # vs))"
    by (rule carries_bind [where h = "\<lambda>w ws. w # ws", OF Cons.prems Cons.IH])
        (use Cons.prems in \<open>auto simp: rmap_def\<close>)
  then show ?case by (simp add: put_all_Cons get_all_Suc)
qed


section \<open>The values a type can carry\<close>

text \<open>
  The decoder may leave bits of the next field behind the last bit of a BIT STRING. \<open>spelled\<close> is the
  value with its bit strings spelled bit by bit, so that two values spelled alike are the same message.
\<close>

primrec spelled :: "gval \<Rightarrow> gval" where
  "spelled (VBitString w) = VBitString \<lparr>Bytes = map of_bool (bit_value w), BitLength = of_nat (length
      (bit_value w))\<rparr>"
| "spelled (VOctetString bs) = VOctetString bs"
| "spelled (VEnumerated e) = VEnumerated e"
| "spelled (VBool b) = VBool b"
| "spelled (VInt i) = VInt i"
| "spelled (VString bs) = VString bs"
| "spelled (VPtr x) = VPtr (map_option spelled x)"
| "spelled (VSlice xs) = VSlice (map spelled xs)"
| "spelled (VStruct xs) = VStruct (map spelled xs)"

text \<open>
  A bound on the number of bits of an encoded value. Open types are below 16384 octets, so that they
  take one fragment.
\<close>

primrec room :: "gval \<Rightarrow> nat" where
  "room (VBitString w) = 8 * length (Bytes w) + 64"
| "room (VOctetString bs) = 9 * length bs + 64"
| "room (VEnumerated e) = 64"
| "room (VBool b) = 64"
| "room (VInt i) = 128"
| "room (VString bs) = 9 * length bs + 64"
| "room (VPtr x) = (case map_option room x of None \<Rightarrow> 0 | Some n \<Rightarrow> n)"
| "room (VSlice xs) = 64 + sum_list (map room xs)"
| "room (VStruct xs) = 128 + sum_list (map room xs)"

text \<open>A count that takes at least one bit.\<close>

definition counted_ok :: "fieldParameters \<Rightarrow> gval list \<Rightarrow> bool" where
  "counted_ok params xs \<longleftrightarrow>
     sequence_ok (sizeExtensible params) (sizeLowerBound params) (sizeUpperBound params) (length xs) \<and>
     (xs \<noteq> [] \<or> sizeExtensible params \<or> sizeLowerBound params \<noteq> sizeUpperBound params \<or>
         sizeUpperBound params = None)"

definition optional_count :: "gfield list \<Rightarrow> nat" where
  "optional_count fs = length (filter (\<lambda>f. optional (parseFieldParameters (ftag f))) fs)"

function (sequential) fits :: "gtype \<Rightarrow> fieldParameters \<Rightarrow> gval \<Rightarrow> bool"
  and fits_fields :: "gfield list \<Rightarrow> gval list \<Rightarrow> (gfield \<times> gval) list \<Rightarrow>
      bool"
where
  "fits t params v =
     (case (t, v) of
        (TPtr t, VPtr (Some v)) \<Rightarrow> fits t params v
      | (TBitString, VBitString w) \<Rightarrow> \<not> valueExtensible params \<and>
          bit_string_ok (sizeExtensible params) (sizeLowerBound params) (sizeUpperBound params) w
      | (TOctetString, VOctetString bs) \<Rightarrow>
          octet_string_ok (sizeExtensible params) (sizeLowerBound params) (sizeUpperBound params) bs
      | (TString, VString bs) \<Rightarrow> \<not> valueExtensible params \<and>
          octet_string_ok (sizeExtensible params) (sizeLowerBound params) (sizeUpperBound params) bs
      | (TEnumerated, VEnumerated e) \<Rightarrow> \<not> sizeExtensible params \<and>
          (case (valueLowerBound params, valueUpperBound params) of
             (Some lb, Some ub) \<Rightarrow> enumerated_ok lb ub e \<and> (0 < ub \<or> valueExtensible params)
           | _ \<Rightarrow> False)
      | (TBool, VBool b) \<Rightarrow> \<not> sizeExtensible params \<and> \<not> valueExtensible params
      | (TInt, VInt i) \<Rightarrow> \<not> sizeExtensible params \<and>
          integer_ok (valueExtensible params) (valueLowerBound params) (valueUpperBound params) i \<and>
          (valueExtensible params \<or> valueLowerBound params = None \<or> valueLowerBound params \<noteq>
              valueUpperBound params)
      | (TSlice t, VSlice xs) \<Rightarrow> counted_ok params xs
          \<and> list_all (\<lambda>v. fits t (elementParameters params) v) xs
      | (TStruct fs, VStruct vs) \<Rightarrow>
          \<not> sizeExtensible params \<and> list_all (\<lambda>f. exported (fname f)) fs
              \<and> length vs = length fs \<and>
          (if is_choice fs then
             optional_count fs = 0 \<and>
             (case vs of VInt present # _ \<Rightarrow>
                if 0 < present \<and> present < int (length fs) then
                  let f = fs ! nat present; v = vs ! nat present; structParams = parseFieldParameters (ftag f) in
                  VStruct vs = chosen fs (nat present) v \<and> fits (ftype f) structParams v \<and>
                  (if openType params then
                     (case referenceFieldValue params of
                        Some refValue \<Rightarrow> find_alternative refValue fs = Some (nat present)
                            \<and> room v \<le> 131064
                      | None \<Rightarrow> False)
                   else (case valueUpperBound params of
                           Some ub \<Rightarrow> 0 \<le> ub \<and> ub < 65536
                               \<and> present \<le> ub + 1 | None \<Rightarrow> False))
                else False
              | _ \<Rightarrow> False)
           else
             optional_count fs \<le> 64 \<and> (valueExtensible params \<or> fs \<noteq> [])
                 \<and> fits_fields fs vs [])
      | _ \<Rightarrow> False)"
| "fits_fields [] [] prev = True"
| "fits_fields (f # fs) (v # vs) prev =
     ((if optional (parseFieldParameters (ftag f)) \<and> IsNil v = Inr True then v = zero_val (ftype f)
       else (optional (parseFieldParameters (ftag f)) \<longrightarrow> IsNil v = Inr False) \<and>
         (case resolve_reference prev (parseFieldParameters (ftag f)) of
            Inr params \<Rightarrow> fits (ftype f) params v | Inl _ \<Rightarrow> False)) \<and>
      fits_fields fs vs (prev @ [(f, v)]))"
| "fits_fields _ _ _ = False"
  by pat_completeness auto
termination
  by (relation "measure (\<lambda>x. case x of Inl (t, _) \<Rightarrow> size t | Inr (fs, _) \<Rightarrow> size_list
      size fs)")
    (auto intro!: field_size nth_mem simp: size_bounds split: if_splits)

declare fits.simps [simp del]

section \<open>Encodings have bits\<close>

lemma nbits_nonempty: "nbits n v = [] \<longleftrightarrow> n = 0"
  using length_nbits [of n v] by (metis length_0_conv)

lemma enc_constraint_nonempty: "enc_constraint r off v \<noteq> []"
  using range_bits_bounds(1) [of r] by (auto simp: enc_constraint_def nbits_nonempty)

lemma enc_length_nonempty: "enc_length r off l \<noteq> []"
  by (simp add: enc_length_def Let_def enc_constraint_nonempty nbits_nonempty)

lemma enc_octets_nonempty: "enc_octets r lb off bs \<noteq> []"
  by (subst enc_octets.simps) (simp add: Let_def enc_length_nonempty)

lemma bits_of_nonempty: "bits_of bs = [] \<longleftrightarrow> bs = []"
  by (metis length_0_conv length_bits_of mult_is_0 zero_neq_numeral)

lemma enc_octet_string_nonempty:
  assumes "octet_string_ok ext lbo ubo bs"
  shows "enc_octet_string ext lbo ubo off bs \<noteq> []"
proof -
  have "bs \<noteq> []" if "lbo = Some lb" "ubo = Some ub" "int (length bs) \<le> ub" "size_range lb ub = 1" for lb ub
    using assms that by (auto simp: octet_string_ok_def size_range_def split: if_splits)
  then show ?thesis
    by (auto simp: enc_octet_string_def enc_octet_body_def enc_octets_nonempty bits_of_nonempty split: option.splits)
qed

lemma enc_bit_string_nonempty:
  assumes "bit_string_ok ext lbo ubo w"
  shows "enc_bit_string ext lbo ubo off (bit_value w) \<noteq> []"
proof -
  have len: "length (bit_value w) = unat (BitLength w)"
    using assms by (intro length_bit_value) (auto simp: bit_string_ok_def Let_def)
  have "bit_value w \<noteq> []" if b: "lbo = Some lb" "ubo = Some ub" and r: "size_range lb ub = 1" for lb ub
  proof -
    have "0 < ub" "lb \<le> int (length (bit_value w))"
      using assms b len by (simp_all add: bit_string_ok_def Let_def)
    moreover have "lb = ub" using r by (simp add: size_range_def split: if_splits)
    ultimately show ?thesis by auto
  qed
  then show ?thesis
    by (auto simp: enc_bit_string_def enc_bit_body_def enc_length_nonempty Let_def split: option.splits)
qed

lemma raw_len_ge: "n \<le> raw_len_from n u"
proof (induction n u rule: raw_len_from.induct)
  case (1 n u)
  then show ?case by (subst raw_len_from.simps) (auto dest: Suc_leD)
qed

lemma enc_integer_nonempty:
  assumes "integer_ok ext lbo ubo v" and "ext \<or> lbo = None \<or> lbo \<noteq> ubo"
  shows "enc_integer ext lbo ubo off v \<noteq> []"
proof -
  have "enc_int_body lb r off v \<noteq> []" if "r \<noteq> 1" for lb r off v
    using that raw_len_ge [of 1]
    by (cases "r \<le> 65536")
      (auto simp: enc_int_body_def Let_def enc_constraint_nonempty nbits_nonempty int_octets_def Suc_le_eq)
  then show ?thesis
    using assms by (auto simp: enc_integer_def integer_ok_def split: option.splits if_splits)
qed

lemma enc_enumerated_nonempty: "0 < ub - lb \<or> ext \<Longrightarrow> enc_enumerated ext lb ub off v \<noteq> []"
  by (auto simp: enc_enumerated_def enc_constraint_nonempty)

lemma enc_sequence_length_nonempty:
  "ext \<or> lbo \<noteq> ubo \<or> ubo = None \<Longrightarrow> enc_sequence_length ext lbo ubo off n \<noteq> []"
  by (auto simp: enc_sequence_length_def enc_constraint_nonempty nbits_nonempty split: option.splits)


text \<open>How long they get.\<close>

lemma align_length: "length (align off) \<le> 7"
  by (simp add: slack_def split: if_splits)

lemma range_bits_small: "range_bits r \<le> 9"
  by (simp add: range_bits_cases)

lemma enc_constraint_length: "length (enc_constraint r off v) \<le> 23"
  using range_bits_small [of r] align_length [of off] by (simp add: enc_constraint_def)

lemma enc_length_length: "length (enc_length r off l) \<le> 23"
  using enc_constraint_length [of r off "fst l"] align_length [of off] by (simp add: enc_length_def Let_def)

lemma enc_octets_length:
  shows "length (enc_octets r lb off bs) \<le> 9 * length bs + 38"
    and "length bs < lb + 16384 \<Longrightarrow> length (enc_octets r lb off bs) \<le> 8 * length bs + 30"
proof -
  show small: "length (enc_octets r lb off bs) \<le> 8 * length bs + 30" if "length bs < lb + 16384" for r lb off bs
    using that enc_length_length [of r off "(of_nat (length bs - lb), False)"] enc_length_length [of r off "(0,
        False)"]
      align_length [of "(off + length (enc_length r off (of_nat (length bs - lb), False))) mod 8"]
    by (subst enc_octets.simps) (simp add: Let_def)
  show "length (enc_octets r lb off bs) \<le> 9 * length bs + 38"
  proof (induction r lb off bs rule: enc_octets.induct)
    case (1 r lb off bs)
    show ?case
    proof (cases "length bs < lb + 16384")
      case True
      then show ?thesis using small [OF True, of r off] by simp
    next
      case False
      let ?k = "fragment (length bs)"
      have k: "16384 \<le> ?k" "?k \<le> length bs" using False by (auto simp: fragment_def)
      have "length (enc_octets r lb 0 (drop ?k bs)) \<le> 9 * (length bs - ?k) + 38"
        using "1.IH" [OF False refl] by simp
      then show ?thesis
        using False k enc_length_length [of r off "(of_nat ?k, True)"]
        by (subst enc_octets.simps) (simp add: Let_def)
    qed
  qed
qed

lemma enc_octet_string_length: "length (enc_octet_string ext lbo ubo off bs) \<le> 9 * length bs + 64"
proof -
  have "length (enc_octet_body r lb off bs) \<le> 9 * length bs + 38" for r lb off
    using align_length [of off] enc_octets_length(1) [of r lb off bs] by (simp add: enc_octet_body_def)
  then have "length (enc_octet_body r lb off bs) \<le> 9 * length bs + 64"
    "length (enc_octet_body r lb off bs) \<le> 63 + 9 * length bs" for r lb off
    by (rule order_trans, simp)+
  then show ?thesis by (simp add: enc_octet_string_def split: option.splits)
qed

lemma enc_bit_string_length:
  assumes "bit_string_ok ext lbo ubo w"
  shows "length (enc_bit_string ext lbo ubo off (bit_value w)) \<le> 8 * length (Bytes w) + 64"
proof -
  let ?b = "bit_value w"
  have "length ?b \<le> 8 * length (Bytes w)" by (simp add: bit_value_def)
  moreover have "length (enc_bit_body r lb off ?b) \<le> length ?b + 30" for r lb off
    using align_length [of off] enc_length_length [of r off "(of_nat (length ?b - lb), False)"]
      enc_length_length [of r off "(0, False)"]
      align_length [of "(off + length (enc_length r off (of_nat (length ?b - lb), False))) mod 8"]
    by (simp add: enc_bit_body_def Let_def)
  ultimately have "length (enc_bit_body r lb off ?b) \<le> 8 * length (Bytes w) + 30" for r lb off
    by (meson add_le_mono1 order_trans)
  then have "length (enc_bit_body r lb off ?b) \<le> 8 * length (Bytes w) + 64"
    "length (enc_bit_body r lb off ?b) \<le> 63 + 8 * length (Bytes w)" for r lb off
    by (rule order_trans, simp)+
  then show ?thesis by (simp add: enc_bit_string_def split: option.splits)
qed

lemma enc_integer_length:
  shows "length (enc_integer ext lbo ubo off v) \<le> 128"
proof -
  have len: "int_octets r v \<le> 9" for r
  proof -
    have "unat u < 2 ^ (8 * 8)" for u :: u64 using unsigned_less [of u, where 'a = nat] by simp
    from raw_len_bounds [OF this, of 1] show ?thesis by (simp add: int_octets_def)
  qed
  have width: "length_bits 0 r \<le> 9" for r by (simp add: length_bits_def range_bits_small)
  have "length (enc_int_body lb r off v) \<le> 127" for lb r off
    using width [of r] align_length [of off] align_length [of "(off + length_bits 0 r) mod 8"] len [of r]
      enc_constraint_length [of r off "word_of_int (v - lb)"]
    by (simp add: enc_int_body_def Let_def)
  then have "length (enc_int_body lb r off v) \<le> 128" "length (enc_int_body lb r off v) \<le> 127" for lb r off
    by (rule order_trans, simp)+
  then show ?thesis by (simp add: enc_integer_def split: option.splits)
qed

lemma enc_enumerated_length: "length (enc_enumerated ext lb ub off v) \<le> 64"
  by (auto simp: enc_enumerated_def intro: order_trans [OF enc_constraint_length])

lemma enc_sequence_length_length: "length (enc_sequence_length ext lbo ubo off n) \<le> 64"
  using align_length [of off] align_length [of "(off + 1) mod 8"]
  by (auto simp: enc_sequence_length_def split: option.splits intro: order_trans [OF enc_constraint_length])

section \<open>References\<close>

text \<open>The value of a reference does not depend on how bit strings are filled up.\<close>

lemma field_at_map: "field_at (map g xs) i = map_sum id g (field_at xs i)"
  by (simp add: field_at_def nat_less_iff)

lemma reference_spelled: "getReferenceFieldValue t (spelled v) = getReferenceFieldValue t v"
proof (induction t v rule: getReferenceFieldValue.induct)
  case (3 f fs v0 vs)
  show ?case
  proof (cases "is_choice (f # fs)")
    case True
    then show ?thesis
      using "3.IH"(1) [OF True]
      by (cases v0) (auto simp: field_at_def nth_Cons' simp del: One_nat_def)
  next
    case False
    then show ?thesis using "3.IH"(2) by simp
  qed
qed simp_all

abbreviation spelled_fields :: "(gfield \<times> gval) list \<Rightarrow> (gfield \<times> gval) list" where
  "spelled_fields prev \<equiv> map (\<lambda>(f, v). (f, spelled v)) prev"

lemma find_spelled:
  "find (\<lambda>(f, v). fname f = n) (spelled_fields prev) =
     map_option (\<lambda>(f, v). (f, spelled v)) (find (\<lambda>(f, v). fname f = n) prev)"
  by (induction prev) auto

lemma resolve_spelled: "resolve_reference (spelled_fields prev) params = resolve_reference prev params"
  by (auto simp: resolve_reference_def find_spelled reference_spelled split: option.splits)

lemma resolve_cong:
  "spelled_fields prev = spelled_fields prev' \<Longrightarrow> resolve_reference prev params = resolve_reference
      prev' params"
  by (metis resolve_spelled)

lemma parseFields_cong:
  "spelled_fields prev = spelled_fields prev' \<Longrightarrow>
   parseFields fs prev presents count pd = parseFields fs prev' presents count pd"
proof (induction fs arbitrary: prev prev' count pd)
  case (Cons f fs)
  have step: "parseFields fs (prev @ [(f, v)]) presents c pd = parseFields fs (prev' @ [(f, v)]) presents c pd" for v
      c pd
    by (rule Cons.IH) (simp add: Cons.prems)
  show ?case
    unfolding parseFields.simps(2) resolve_cong [OF Cons.prems] step ..
qed simp


section \<open>Presence bits\<close>

definition flags :: "gfield list \<Rightarrow> gval list \<Rightarrow> bool list" where
  "flags fs vs = map (\<lambda>(f, v). IsNil v \<noteq> Inr True) (filter (\<lambda>(f, v). optional
      (parseFieldParameters (ftag f))) (zip fs vs))"

lemma flags_simps [simp]:
  "flags [] vs = []"
  "flags (f # fs) (v # vs) =
     (if optional (parseFieldParameters (ftag f)) then (IsNil v \<noteq> Inr True) # flags fs vs else flags fs vs)"
  by (simp_all add: flags_def)

lemma length_flags: "length vs = length fs \<Longrightarrow> length (flags fs vs) = optional_count fs"
proof (induction fs arbitrary: vs)
  case (Cons f fs)
  then show ?case by (cases vs) (simp_all add: optional_count_def)
qed (simp add: optional_count_def)

lemma fits_fields_length: "fits_fields fs vs prev \<Longrightarrow> length vs = length fs"
proof (induction fs arbitrary: vs prev)
  case Nil
  then show ?case by (cases vs) simp_all
next
  case (Cons f fs)
  then show ?case by (cases vs) auto
qed

lemma scan_flags:
  "list_all (\<lambda>f. exported (fname f)) fs \<Longrightarrow> fits_fields fs vs prev \<Longrightarrow>
   scan_optional True fs vs c b =
     Inr (c + length (flags fs vs), foldl (\<lambda>b x. push_bit 1 b + of_bool x) b (flags fs vs))"
proof (induction fs arbitrary: vs prev c b)
  case (Cons f fs)
  then obtain v vs' where vs: "vs = v # vs'" by (cases vs) auto
  have "IsNil v = Inr True \<or> IsNil v = Inr False" if "optional (parseFieldParameters (ftag f))"
    using Cons.prems(2) that vs by (auto split: if_splits)
  then show ?case
    using Cons.IH [of vs' "prev @ [(f, v)]"] Cons.prems vs by auto
qed auto

lemma fold_flags: "foldl (\<lambda>b x. push_bit 1 b + of_bool x) 0 bs = (of_nat (val_of bs) :: u64)"
  by (induction bs rule: rev_induct) (simp_all add: push_bit_eq_mult mult.commute)

lemma presence_bits:
  assumes "length bs \<le> 64"
  shows "unat (of_nat (val_of bs) :: u64) = val_of bs"
    and "i < length bs \<Longrightarrow> bit (of_nat (val_of bs) :: u64) i = bs ! (length bs - 1 - i)"
proof -
  have "val_of bs < 2 ^ 64"
    using val_of_less [of bs] power_increasing [OF assms, of "2 :: nat"] by simp
  then show "unat (of_nat (val_of bs) :: u64) = val_of bs" by (simp add: unat_of_nat)
  show "bit (of_nat (val_of bs) :: u64) i = bs ! (length bs - 1 - i)" if "i < length bs"
    using that assms val_of_bit [OF that] by (simp add: bit_of_nat_iff)
qed

section \<open>Fields of a struct\<close>

abbreviation field_carried :: "gtype \<Rightarrow> fieldParameters \<Rightarrow> gval \<Rightarrow> bool" where
  "field_carried t params v \<equiv>
     carries True (room v) (\<lambda>pd. makeField t v params pd)
         (\<lambda>pd. parseField t params pd) (\<lambda>w. spelled w = spelled v)"

lemma rmap_id: "rmap (\<lambda>u. u) r = r"
  by (cases r) (auto simp: rmap_def)

lemma fields_carried:
  assumes "\<And>f params v. f \<in> set fs \<Longrightarrow> fits (ftype f) params v
      \<Longrightarrow> field_carried (ftype f) params v"
    and "fits_fields fs vs prev"
    and "\<And>i. i < length (flags fs vs) \<Longrightarrow> bit presents i = flags fs vs ! (length (flags fs vs) - 1
        - i)"
  shows "carries (fs \<noteq> [] \<and> flags fs vs = []) (sum_list (map room vs))
    (\<lambda>pd. makeFields fs vs prev presents (length (flags fs vs)) pd)
    (\<lambda>pd. parseFields fs prev presents (length (flags fs vs)) pd) (\<lambda>ws. map spelled ws = map spelled
        vs)"
  using assms
proof (induction fs arbitrary: vs prev)
  case Nil
  then show ?case using carries_pure [of "\<lambda>ws. map spelled ws = []" "[]"] by (cases vs) simp_all
next
  case (Cons f fs)
  then obtain v vs' where vs: "vs = v # vs'" by (cases vs) auto
  let ?params = "parseFieldParameters (ftag f)" and ?n = "length (flags fs vs')"
  have bits: "bit presents i = flags fs vs' ! (?n - 1 - i)" if "i < ?n" for i
    using Cons.prems(3) [of i] that vs by (auto simp: nth_Cons' split: if_splits)
  have rest: "carries False (sum_list (map room vs'))
      (\<lambda>pd. makeFields fs vs' (prev @ [(f, v)]) presents ?n pd)
      (\<lambda>pd. parseFields fs (prev @ [(f, v)]) presents ?n pd) (\<lambda>ws. map spelled ws = map spelled vs')"
    by (rule carries_weaken [OF Cons.IH]) (use Cons.prems(1,2) bits vs in auto)
  show ?case
  proof (cases "optional ?params \<and> IsNil v = Inr True")
    case True
    then have zero: "v = zero_val (ftype f)" using Cons.prems(2) vs by simp
    have "presents AND push_bit ?n 1 = 0"
      using Cons.prems(3) [of ?n] True vs by (simp add: and_exp_eq_0_iff_not_bit)
    moreover have "carries False (sum_list (map room vs'))
        (\<lambda>pd. makeFields fs vs' (prev @ [(f, v)]) presents ?n pd)
      (\<lambda>pd. rmap (\<lambda>ws. v # ws) (parseFields fs (prev @ [(f, v)]) presents ?n pd))
      (\<lambda>ws. map spelled ws = map spelled vs)"
      by (rule carries_rmap [OF rest]) (simp add: vs)
    ultimately have "carries False (sum_list (map room vs'))
        (\<lambda>pd. makeFields (f # fs) vs prev presents (Suc ?n) pd)
        (\<lambda>pd. parseFields (f # fs) prev presents (Suc ?n) pd) (\<lambda>ws. map spelled ws = map spelled vs)"
      using True vs by (simp add: makeFields.simps(1) parseFields.simps(2) zero Let_def)
    moreover have "length (flags (f # fs) vs) = Suc ?n" using True vs by simp
    ultimately show ?thesis
      using vs True by (simp only:) (erule carries_weaken, simp_all)
  next
    case False
    then obtain params where params: "resolve_reference prev ?params = Inr params" "fits (ftype f) params v"
      using Cons.prems(2) vs by (auto split: sum.splits)
    have step: "carries (True \<or> False) (room v + sum_list (map room vs'))
        (\<lambda>pd. rbind (makeField (ftype f) v params pd)
            (\<lambda>pd. makeFields fs vs' (prev @ [(f, v)]) presents ?n pd))
        (\<lambda>pd. rbind (parseField (ftype f) params pd) (\<lambda>(w, pd).
          rmap (\<lambda>ws. w # ws) (parseFields fs (prev @ [(f, w)]) presents ?n pd)))
        (\<lambda>ws. map spelled ws = map spelled vs)"
    proof (rule carries_bind [where h = "\<lambda>w ws. w # ws", OF Cons.prems(1) rest])
      fix w pd assume "spelled w = spelled v"
      then have "parseFields fs (prev @ [(f, w)]) presents ?n pd = parseFields fs (prev @ [(f, v)]) presents ?n pd"
        by (intro parseFields_cong) simp
      then show "(case (w, pd) of (w, pd) \<Rightarrow> rmap (\<lambda>ws. w # ws) (parseFields fs (prev @ [(f, w)])
          presents ?n pd)) =
          rmap (\<lambda>ws. w # ws) (parseFields fs (prev @ [(f, v)]) presents ?n pd)" by simp
    qed (use params vs in simp_all)
    have "\<not> presents AND push_bit ?n 1 = 0" if "optional ?params"
      using Cons.prems(3) [of ?n] that False vs by (simp add: and_exp_eq_0_iff_not_bit)
    then show ?thesis
      using params(1) vs False by (auto simp: makeFields.simps(1) parseFields.simps(2) intro: carries_weaken [OF
          step])
  qed
qed

section \<open>Choices and open types\<close>

lemma carries_open:
  assumes c: "carries True n put get P" and n: "n \<le> 131064"
  shows "carries True (n + 37) (appendOpenType put) (parseOpenType get) P"
proof -
  obtain b where b: "b \<noteq> []" "length b \<le> n" and ag: "agree put get P 0 b"
      by (rule carriesE [OF c, of 0]) auto
  have v0: "valid_raw \<lparr>rbytes = [], rbitsOffset = 0\<rparr>" by (simp add: valid_raw_aligned)
  obtain pd where pd: "put \<lparr>rbytes = [], rbitsOffset = 0\<rparr> = Inr pd" "valid_raw pd" "raw_bits pd = b"
    using agree_put [OF ag v0] by (auto simp: emits_def raw_bits_aligned)
  let ?bs = "rbytes pd"
  have pre: "prefix b (drop 0 (bits_of ?bs))"
    using pd(2,3) by (simp add: valid_raw_def)
  obtain w where w: "fetches (get (reader ?bs 0)) ?bs 0 b w" "P w"
    by (rule agree_get [OF ag _ pre]) simp_all
  have "bits_of ?bs = b @ replicate (slack (rbitsOffset pd)) False" using pd(2,3) by (simp add: valid_raw_def)
  then have "8 * length ?bs = length b + slack (rbitsOffset pd)"
      by (metis length_append length_bits_of length_replicate)
  moreover have "slack (rbitsOffset pd) \<le> 7" by (simp add: slack_def split: if_splits)
  ultimately have len: "8 * length ?bs \<le> n + 7" using b(2) by simp
  then have small: "length ?bs < 16384" using n by simp
  then have oct: "octets_ok (- 1) 0 (length ?bs)" by (simp add: octets_ok_def)
  show ?thesis
  proof (rule carriesI [where e = "\<lambda>off. enc_octets (- 1) 0 off ?bs"])
    show "emits (appendOpenType put q) q (enc_octets (- 1) 0 (rbitsOffset q) ?bs)" if "valid_raw q" for q
      using octets_emits [OF that oct] pd(1) by (simp add: appendOpenType_def)
    show "\<exists>w. fetches (parseOpenType get (reader buf p)) buf p (enc_octets (- 1) 0 (p mod 8) ?bs) w
        \<and> P w"
      if "prefix (enc_octets (- 1) 0 (p mod 8) ?bs) (drop p (bits_of buf))" for buf p
      using octets_fetches [OF oct that, of "[]"] w
      by (auto simp: parseOpenType_def fetches_def reader_def)
    show "(True \<longrightarrow> enc_octets (- 1) 0 off ?bs \<noteq> [])
        \<and> length (enc_octets (- 1) 0 off ?bs) \<le> n + 37" for off
      using enc_octets_length(2) [of ?bs 0 "- 1" off] small len by (simp add: enc_octets_nonempty)
  qed
qed

lemma carries_get_cong:
  assumes "carries ne n put get P" and "\<And>pd r. get pd = Inr r \<Longrightarrow> get' pd = Inr r"
  shows "carries ne n put get' P"
  using assms(1) _ _ order_refl
proof (rule carries_map)
  fix off b assume ag: "agree put get P off b"
  show "agree put get' P off b"
  proof (rule agreeI)
    fix buf p assume "p mod 8 = off" "prefix b (drop p (bits_of buf))"
    with ag obtain w where "fetches (get (reader buf p)) buf p b w" "P w" by (rule agree_get)
    then show "\<exists>w. fetches (get' (reader buf p)) buf p b w \<and> P w"
      using assms(2) by (auto simp: fetches_def)
  qed (rule agree_put [OF ag])
qed

lemma carries_ext:
  assumes "carries ne n put (get False) P"
  shows "carries (ext \<or> ne) (1 + n) (\<lambda>pd. rbind (if ext then putBitsValue 0 1 pd else Inr pd) put)
      (parse_ext ext get) P"
proof (cases ext)
  case True
  have bit: "carries True 1 (putBitsValue 0 1) (getBitsValue 1) (\<lambda>w. w = 0)"
    by (rule carriesI [where e = "\<lambda>_. [False]"])
      (use getBitsValue_ext [of False] ext_bit_put in \<open>auto simp: fetches_def\<close>)
  have "carries (True \<or> ne) (1 + n) (\<lambda>pd. rbind (putBitsValue 0 1 pd) put)
      (\<lambda>pd. rbind (getBitsValue 1 pd) (\<lambda>(b, pd). get (b \<noteq> 0) pd)) P"
    by (rule carries_bind [where h = "\<lambda>_ u. u", OF bit assms]) (auto simp: rmap_id)
  then show ?thesis using True by (simp add: parse_ext_def [abs_def])
next
  case False
  then have "carries ne n (\<lambda>pd. rbind (if ext then putBitsValue 0 1 pd else Inr pd) put)
      (parse_ext ext get) P"
    using assms by (simp add: parse_ext_def [abs_def])
  then show ?thesis by (rule carries_weaken) (use False in simp_all)
qed


section \<open>The round trip\<close>

text \<open>What \<^verbatim>\<open>parseField\<close> does on the types other than pointers when there is data
    left.\<close>

lemma parse_value:
  assumes "carries True (room v) (\<lambda>pd. makeField t v params pd)
      (parse_ext (sizeExtensible params) (\<lambda>sizeExt. parse_ext (valueExtensible params
          \<and> \<not> is_slice t)
        (\<lambda>valueExt pd. parseBody t params sizeExt valueExt pd))) (\<lambda>w. spelled w = spelled v)"
    and "\<And>t'. t \<noteq> TPtr t'"
  shows "field_carried t params v"
  using assms(1)
  by (rule carries_nonempty) (use assms(2) in \<open>simp add: parseField.simps split: gtype.splits\<close>)

lemma parse_ext_False: "parse_ext False f = f False"
  by (simp add: parse_ext_def fun_eq_iff)

lemma parse_ext_rmap: "(\<lambda>pd. rmap g (parse_ext ext f pd)) = parse_ext ext (\<lambda>e pd. rmap g (f e pd))"
  by (simp add: rmap_def parse_ext_rbind fun_eq_iff)

lemma rmap_rbind: "rmap g (rbind r f) = rbind r (\<lambda>x. rmap g (f x))"
  by (cases r) (simp_all add: rmap_def)

lemma primitive_carried:
  assumes "per_codec enc put (parse_ext ext get) val ok" and "ok w"
    and "\<And>off. off < 8 \<Longrightarrow> enc off (val w) \<noteq> [] \<and> length (enc off (val w)) \<le> n"
    and "\<And>w'. val w' = val w \<Longrightarrow> spelled (con w') = spelled (con w)"
  shows "carries True n (put w) (parse_ext ext (\<lambda>e pd. rmap con (get e pd))) (\<lambda>v. spelled v = spelled
      (con w))"
proof -
  have "carries True n (put w) (parse_ext ext get) (\<lambda>w'. val w' = val w)"
    by (rule carries_codec [OF assms(1,2)]) (use assms(3) in simp)
  then show ?thesis
    unfolding parse_ext_rmap [symmetric] by (rule carries_rmap) (rule assms(4))
qed

lemma slice_carried:
  assumes el: "\<And>v. v \<in> set xs \<Longrightarrow> field_carried t (elementParameters params) v" and ok:
      "counted_ok params xs"
  shows "field_carried (TSlice t) params (VSlice xs)"
proof (rule parse_value)
  let ?ext = "sizeExtensible params" and ?lb = "sizeLowerBound params" and ?ub = "sizeUpperBound params"
  let ?put = "\<lambda>v pd. makeField t v (elementParameters params) pd"
  let ?get = "\<lambda>pd. parseField t (elementParameters params) pd"
  have sok: "sequence_ok ?ext ?lb ?ub (length xs)" using ok by (simp add: counted_ok_def)
  have len: "carries (?ext \<or> ?lb \<noteq> ?ub \<or> ?ub = None) 64 (put_sequence_length ?ext ?lb ?ub (length xs))
      (parse_ext ?ext (\<lambda>e. get_sequence_length e ?lb ?ub)) (\<lambda>w. w = (length xs, None))"
    by (rule carriesI [where e = "\<lambda>off. enc_sequence_length ?ext ?lb ?ub off (length xs)"])
      (use sequence_length_emits [OF _ sok] sequence_length_fetches [OF sok] enc_sequence_length_nonempty
          enc_sequence_length_length in auto)
  have "carries ((?ext \<or> ?lb \<noteq> ?ub \<or> ?ub = None) \<or> xs \<noteq> []) (64 + sum_list (map room xs))
      (\<lambda>pd. rbind (put_sequence_length ?ext ?lb ?ub (length xs) pd) (put_all ?put xs))
      (\<lambda>pd. rbind (parse_ext ?ext (\<lambda>e. get_sequence_length e ?lb ?ub) pd)
        (\<lambda>((n, err), pd). rmap VSlice (if n = 0
            \<and> err \<noteq> None then Inl (the err) else get_all ?get n pd)))
      (\<lambda>w. spelled w = spelled (VSlice xs))"
    by (rule carries_bind [where h = "\<lambda>_. VSlice", OF len carries_all [where c = spelled, OF el]]) auto
  then show "carries True (room (VSlice xs)) (\<lambda>pd. makeField (TSlice t) (VSlice xs) params pd)
      (parse_ext ?ext (\<lambda>sizeExt. parse_ext (valueExtensible params \<and> \<not> is_slice (TSlice t))
        (\<lambda>valueExt pd. parseBody (TSlice t) params sizeExt valueExt pd))) (\<lambda>w. spelled w = spelled
            (VSlice xs))"
    using ok
    by (auto simp: makeField.simps [of "TSlice t"] parseBody.simps [of "TSlice t"] appendSequenceOf_def
        parseSequenceOf_def is_slice_def parse_ext_False counted_ok_def parse_ext_rbind rmap_rbind case_prod_unfold)
qed simp


text \<open>The struct cases: the extension bit, the presence bits, then the fields or one alternative.\<close>

lemma presence_carried:
  assumes "unat x < 2 ^ n" and "n = 0 \<Longrightarrow> x = 0"
  shows "carries (0 < n) n (\<lambda>pd. if 0 < n then putBitsValue x n pd else Inr pd)
    (\<lambda>pd. if 0 < n then getBitsValue n pd else Inr (0, pd)) (\<lambda>w. w = x)"
proof (rule carriesI [where e = "\<lambda>_. if 0 < n then nbits n (unat x) else []"])
  show "emits (if 0 < n then putBitsValue x n pd else Inr pd) pd (if 0 < n then nbits n (unat x) else [])"
    if "valid_raw pd" for pd
    using emits_putBitsValue [OF that assms(1)] that by (simp add: emits_def)
  show "\<exists>w. fetches (if 0 < n then getBitsValue n (reader buf p) else Inr (0, reader buf p)) buf p
      (if 0 < n then nbits n (unat x) else []) w \<and> w = x"
    if "prefix (if 0 < n then nbits n (unat x) else []) (drop p (bits_of buf))" for buf p
    using fetches_getBitsValue [OF _ assms(1)] that assms(2) by (auto simp: fetches_def)
qed (simp add: nbits_nonempty)

lemma struct_value:
  assumes "carries ne n (\<lambda>pd. rbind (scan_optional (\<not> is_choice fs) fs vs 0 0) (\<lambda>(optionalCount,
      optionalPresents).
        rbind (if optionalCount > 0 then putBitsValue optionalPresents optionalCount pd else Inr pd)
          (rest optionalCount optionalPresents)))
      (\<lambda>pd. parseBody (TStruct fs) params False False pd) (\<lambda>w. spelled w = spelled (VStruct vs))"
    and "\<And>pd. makeField (TStruct fs) (VStruct vs) params pd =
      rbind (if valueExtensible params then putBitsValue 0 1 pd else Inr pd)
        (\<lambda>pd. rbind (scan_optional (\<not> is_choice fs) fs vs 0 0) (\<lambda>(optionalCount,
            optionalPresents).
          rbind (if optionalCount > 0 then putBitsValue optionalPresents optionalCount pd else Inr pd)
            (rest optionalCount optionalPresents)))"
    and "\<not> sizeExtensible params" and "valueExtensible params \<or> ne" and "n < room (VStruct vs)"
  shows "field_carried (TStruct fs) params (VStruct vs)"
proof (rule parse_value)
  show "carries True (room (VStruct vs)) (\<lambda>pd. makeField (TStruct fs) (VStruct vs) params pd)
      (parse_ext (sizeExtensible params) (\<lambda>sizeExt. parse_ext (valueExtensible params
          \<and> \<not> is_slice (TStruct fs))
        (\<lambda>valueExt pd. parseBody (TStruct fs) params sizeExt valueExt pd))) (\<lambda>w. spelled w = spelled
            (VStruct vs))"
    using carries_weaken [OF carries_ext [where ext = "valueExtensible params" and
          get = "\<lambda>e pd. parseBody (TStruct fs) params False e pd", OF assms(1)], of True] assms(3,4,5)
    by (simp add: assms(2) parse_ext_False is_slice_def)
qed simp

lemma sequence_carried:
  assumes fs: "\<And>f params v. f \<in> set fs \<Longrightarrow> fits (ftype f) params v
      \<Longrightarrow> field_carried (ftype f) params v"
    and ok: "fits (TStruct fs) params (VStruct vs)" and seq: "\<not> is_choice fs"
  shows "field_carried (TStruct fs) params (VStruct vs)"
proof (rule struct_value)
  let ?flags = "flags fs vs" and ?x = "of_nat (val_of (flags fs vs)) :: u64"
  have ok': "\<not> sizeExtensible params" "list_all (\<lambda>f. exported (fname f)) fs" "length vs = length fs"
    "optional_count fs \<le> 64" "valueExtensible params \<or> fs \<noteq> []" "fits_fields fs vs []"
    using ok seq by (simp_all add: fits.simps)
  have n: "length ?flags = optional_count fs" by (rule length_flags [OF ok'(3)])
  then have len: "length ?flags \<le> 64" using ok'(4) by simp
  have scan: "scan_optional True fs vs 0 0 = Inr (length ?flags, ?x)"
    using scan_flags [OF ok'(2,6), of 0 0, unfolded fold_flags] by simp
  have x: "unat ?x < 2 ^ length ?flags" "length ?flags = 0 \<Longrightarrow> ?x = 0"
    using presence_bits(1) [OF len] val_of_less [of ?flags] by simp_all
  have fields: "carries (fs \<noteq> [] \<and> ?flags = []) (sum_list (map room vs))
      (\<lambda>pd. makeFields fs vs [] ?x (length ?flags) pd)
      (\<lambda>pd. parseFields fs [] ?x (length ?flags) pd) (\<lambda>ws. map spelled ws = map spelled vs)"
    by (rule fields_carried [OF fs ok'(6)]) (use presence_bits(2) [OF len] in simp_all)
  have all: "carries (0 < length ?flags \<or> fs \<noteq> []
      \<and> ?flags = []) (length ?flags + sum_list (map room vs))
      (\<lambda>pd. rbind (if 0 < length ?flags then putBitsValue ?x (length ?flags) pd else Inr pd)
        (\<lambda>pd. makeFields fs vs [] ?x (length ?flags) pd))
      (\<lambda>pd. rbind (if 0 < length ?flags then getBitsValue (length ?flags) pd else Inr (0, pd))
        (\<lambda>(presents, pd). rmap VStruct (parseFields fs [] presents (length ?flags) pd)))
      (\<lambda>w. spelled w = spelled (VStruct vs))"
    by (rule carries_bind [where h = "\<lambda>_. VStruct", OF presence_carried [OF x] fields]) auto
  have ex: "\<not> list_ex (\<lambda>f. \<not> exported (fname f)) fs" using ok'(2)
      by (simp add: list_all_iff list_ex_iff)
  have body: "parseBody (TStruct fs) params False False pd =
      rbind (if 0 < length ?flags then getBitsValue (length ?flags) pd else Inr (0, pd))
        (\<lambda>(presents, pd). rmap VStruct (parseFields fs [] presents (length ?flags) pd))" for pd
    using ex seq n by (simp only: parseBody.simps optional_count_def gtype.case Let_def if_False)
  show "carries (0 < length ?flags \<or> fs \<noteq> [] \<and> ?flags = []) (length ?flags + sum_list (map room vs))
      (\<lambda>pd. rbind (scan_optional (\<not> is_choice fs) fs vs 0 0) (\<lambda>(optionalCount, optionalPresents).
        rbind (if optionalCount > 0 then putBitsValue optionalPresents optionalCount pd else Inr pd)
          (\<lambda>pd. makeFields fs vs [] optionalPresents optionalCount pd)))
      (\<lambda>pd. parseBody (TStruct fs) params False False pd) (\<lambda>w. spelled w = spelled (VStruct vs))"
    using all seq by (simp only: body scan not_False_eq_True rbind_simps prod.case)
  show "makeField (TStruct fs) (VStruct vs) params pd =
      rbind (if valueExtensible params then putBitsValue 0 1 pd else Inr pd)
        (\<lambda>pd. rbind (scan_optional (\<not> is_choice fs) fs vs 0 0) (\<lambda>(optionalCount,
            optionalPresents).
          rbind (if optionalCount > 0 then putBitsValue optionalPresents optionalCount pd else Inr pd)
            (\<lambda>pd. makeFields fs vs [] optionalPresents optionalCount pd)))" for pd
    using seq by (simp add: makeField.simps)
  show "valueExtensible params \<or> 0 < length ?flags \<or> fs \<noteq> [] \<and> ?flags = []" using ok'(5) by auto
  show "length ?flags + sum_list (map room vs) < room (VStruct vs)" using len by simp
qed (use ok in \<open>simp add: fits.simps\<close>)


lemma scan_choice:
  "list_all (\<lambda>f. exported (fname f)) fs \<Longrightarrow> scan_optional False fs vs c b = Inr (c, b)"
proof (induction fs arbitrary: vs)
  case (Cons f fs)
  then show ?case by (cases vs) simp_all
qed simp

lemma spelled_chosen: "spelled w = spelled v \<Longrightarrow> spelled (chosen fs n w) = spelled (chosen fs n v)"
  by (simp add: chosen_def map_update)

lemma find_alternative_reference:
  "find_alternative r fs = Some j \<Longrightarrow> referenceFieldValue (parseFieldParameters (ftag (fs ! j))) = Some
      r"
  by (auto simp: find_alternative_def find_Some_iff)

lemma choice_carried:
  assumes fs: "\<And>f params v. f \<in> set fs \<Longrightarrow> fits (ftype f) params v
      \<Longrightarrow> field_carried (ftype f) params v"
    and ok: "fits (TStruct fs) params (VStruct vs)" and ch: "is_choice fs"
  shows "field_carried (TStruct fs) params (VStruct vs)"
proof -
  obtain present vs' where vs: "vs = VInt present # vs'"
    using ok ch by (auto simp: fits.simps split: list.splits gval.splits if_splits)
  let ?n = "nat present"
  let ?f = "fs ! ?n" and ?v = "vs ! ?n"
  let ?sp = "parseFieldParameters (ftag ?f)"
  have pr: "0 < present" "present < int (length fs)" "length vs = length fs"
    using ok ch vs by (auto simp: fits.simps split: if_splits)
  have ok': "\<not> sizeExtensible params" "list_all (\<lambda>f. exported (fname f)) fs" "optional_count fs = 0"
    "VStruct vs = chosen fs ?n ?v" "fits (ftype ?f) ?sp ?v"
    using ok ch vs pr by (simp_all add: fits.simps Let_def)
  have el: "field_carried (ftype ?f) ?sp ?v" using pr by (intro fs [OF _ ok'(5)]) simp
  have at: "field_at fs present = Inr ?f" "field_at vs present = Inr ?v" "field_at fs (int ?n) = Inr ?f"
    using pr by (simp_all add: field_at_def)
  have ex: "\<not> list_ex (\<lambda>f. \<not> exported (fname f)) fs" using ok'(2)
      by (simp add: list_all_iff list_ex_iff)
  have n0: "length (filter (\<lambda>f. optional (parseFieldParameters (ftag f))) fs) = 0"
    using ok'(3) by (simp only: optional_count_def)
  note scan = scan_choice [OF ok'(2)]
  have "room ?v \<le> sum_list (map room vs)" using pr by (intro member_le_sum_list) auto
  then have small: "room ?v + 37 < room (VStruct vs)" "23 + room ?v < room (VStruct vs)" by simp_all
  have again: "spelled (chosen fs ?n w) = spelled (VStruct vs)" if "spelled w = spelled ?v" for w
    unfolding ok'(4) by (rule spelled_chosen [OF that])
  show ?thesis
  proof (cases "openType params")
    case True
    then obtain r where r: "referenceFieldValue params = Some r" "find_alternative r fs = Some ?n"
      and size: "room ?v \<le> 131064"
      using ok ch vs pr by (auto simp: fits.simps Let_def split: option.splits)
    note ref = find_alternative_reference [OF r(2)]
    show ?thesis
    proof (rule struct_value [where ne = True and
          rest = "\<lambda>_ _ pd. appendOpenType (\<lambda>pd. makeField (ftype ?f) ?v ?sp pd) pd"])
      have "parseBody (TStruct fs) params False False pd =
          rmap (chosen fs ?n) (parseOpenType (\<lambda>pd. parseField (ftype ?f) ?sp pd) pd)" for pd
        using ex ch True r at(3) by (simp add: parseBody.simps n0)
      moreover have "carries True (room ?v + 37) (appendOpenType (\<lambda>pd. makeField (ftype ?f) ?v ?sp pd))
          (\<lambda>pd. rmap (chosen fs ?n) (parseOpenType (\<lambda>pd. parseField (ftype ?f) ?sp pd) pd))
          (\<lambda>w. spelled w = spelled (VStruct vs))"
        by (rule carries_rmap [OF carries_open [OF el size]]) (rule again)
      ultimately show "carries True (room ?v + 37) (\<lambda>pd. rbind (scan_optional (\<not> is_choice fs) fs vs 0
          0) (\<lambda>(optionalCount, optionalPresents).
          rbind (if optionalCount > 0 then putBitsValue optionalPresents optionalCount pd else Inr pd)
            (\<lambda>pd. appendOpenType (\<lambda>pd. makeField (ftype ?f) ?v ?sp pd) pd)))
        (\<lambda>pd. parseBody (TStruct fs) params False False pd) (\<lambda>w. spelled w = spelled (VStruct vs))"
        using ch by (simp add: scan)
    qed (use ch vs pr True r ref at ok'(1) small in \<open>simp_all add: makeField.simps [of "TStruct fs"]
        scan\<close>)
  next
    case False
    then obtain ub where ub: "valueUpperBound params = Some ub" "0 \<le> ub" "ub < 65536" "present \<le> ub + 1"
      using ok ch vs pr by (auto simp: fits.simps Let_def split: option.splits)
    let ?put = "appendChoiceIndex present (valueExtensible params) (Some ub)"
    have "carries False 23 ?put (getChoiceIndex False (Some ub)) (\<lambda>w. id w = id present)"
      by (rule carries_codec [OF choice.per_codec_axioms])
          (use ub pr in \<open>simp_all add: enc_choice_def enc_constraint_length\<close>)
    then have idx: "carries False 23 ?put (getChoiceIndex False (Some ub)) (\<lambda>w. w = present)" by simp
    have "carries (False \<or> True) (23 + room ?v) (\<lambda>pd. rbind (?put pd)
        (\<lambda>pd. makeField (ftype ?f) ?v ?sp pd))
        (\<lambda>pd. rbind (getChoiceIndex False (Some ub) pd) (\<lambda>(w, pd).
          if w = 0 then Inl (Fail ''CHOICE present is 0(present's field number)'')
          else if w \<ge> int (length fs) then Inl (Fail ''CHOICE Present is bigger than number of struct field'')
          else rbind (field_at fs w) (\<lambda>f. rmap (chosen fs (nat w))
            (parseField (ftype f) (parseFieldParameters (ftag f)) pd)))) (\<lambda>w. spelled w = spelled (VStruct
                vs))"
      by (rule carries_bind [where h = "\<lambda>w. chosen fs (nat w)", OF idx el]) (use again pr at in auto)
    then have "carries True (23 + room ?v) (\<lambda>pd. rbind (?put pd)
        (\<lambda>pd. makeField (ftype ?f) ?v ?sp pd))
        (\<lambda>pd. parseBody (TStruct fs) params False False pd) (\<lambda>w. spelled w = spelled (VStruct vs))"
      by (rule carries_get_cong [THEN carries_weaken])
        (use ex ch False ub in \<open>auto simp: parseBody.simps n0 rbind_eq_Inr\<close>)
    note alt = this
    show ?thesis
    proof (rule struct_value [where ne = True and
          rest = "\<lambda>_ _ pd. rbind (?put pd) (\<lambda>pd. makeField (ftype ?f) ?v ?sp pd)"])
      show "carries True (23 + room ?v) (\<lambda>pd. rbind (scan_optional (\<not> is_choice fs) fs vs 0 0)
          (\<lambda>(optionalCount, optionalPresents).
          rbind (if optionalCount > 0 then putBitsValue optionalPresents optionalCount pd else Inr pd)
            (\<lambda>pd. rbind (?put pd) (\<lambda>pd. makeField (ftype ?f) ?v ?sp pd))))
        (\<lambda>pd. parseBody (TStruct fs) params False False pd) (\<lambda>w. spelled w = spelled (VStruct vs))"
        using alt ch by (simp add: scan)
    qed (use ch vs pr False ub at ok'(1) small in \<open>simp_all add: makeField.simps [of "TStruct fs"] scan\<close>)
  qed
qed

text \<open>One step of the walk at a primitive type.\<close>

lemmas primitive_steps = is_slice_def parse_ext_False
  makeField.simps [of TBitString] parseBody.simps [of TBitString]
  makeField.simps [of TOctetString] parseBody.simps [of TOctetString]
  makeField.simps [of TEnumerated] parseBody.simps [of TEnumerated]
  makeField.simps [of TBool] parseBody.simps [of TBool]
  makeField.simps [of TInt] parseBody.simps [of TInt]
  makeField.simps [of TString] parseBody.simps [of TString]

lemma bit_string_carried:
  assumes "fits TBitString params v"
  shows "field_carried TBitString params v"
proof -
  obtain x where v: "v = VBitString x" and ok': "\<not> valueExtensible params" "bit_string_ok (sizeExtensible
      params) (sizeLowerBound params) (sizeUpperBound params) x"
    using assms by (cases v) (auto simp: fits.simps [of TBitString] split: option.splits)
  have "carries True (room (VBitString x)) (appendBitString (Bytes x) (BitLength x) (sizeExtensible params)
      (sizeLowerBound params) (sizeUpperBound params))
      (parse_ext (sizeExtensible params) (\<lambda>e pd. rmap VBitString (parseBitString e (sizeLowerBound params)
      (sizeUpperBound params) pd))) (\<lambda>w. spelled w = spelled (VBitString x))"
    by (rule primitive_carried [OF bit_string.per_codec_axioms])
        (use ok' in \<open>simp_all add: enc_bit_string_nonempty enc_bit_string_length\<close>)
  then show ?thesis
    unfolding v by (intro parse_value) (use ok' in \<open>simp_all add: primitive_steps\<close>)
qed

lemma octets_carried:
  assumes "fits TOctetString params v"
  shows "field_carried TOctetString params v"
proof -
  obtain x where v: "v = VOctetString x" and ok': "octet_string_ok (sizeExtensible params) (sizeLowerBound params)
      (sizeUpperBound params) x"
    using assms by (cases v) (auto simp: fits.simps [of TOctetString] split: option.splits)
  have "carries True (room (VOctetString x)) (appendOctetString x (sizeExtensible params) (sizeLowerBound params)
      (sizeUpperBound params)) (parse_ext (sizeExtensible params) (\<lambda>e pd. rmap VOctetString (parseOctetString
      e (sizeLowerBound params) (sizeUpperBound params) pd))) (\<lambda>w. spelled w = spelled (VOctetString x))"
    by (rule primitive_carried [OF octet_string.per_codec_axioms])
        (use ok' in \<open>simp_all add: enc_octet_string_nonempty enc_octet_string_length\<close>)
  then show ?thesis
    unfolding v by (intro parse_value) (use ok' in \<open>simp_all add: primitive_steps\<close>)
qed

lemma enumerated_carried:
  assumes "fits TEnumerated params v"
  shows "field_carried TEnumerated params v"
proof -
  obtain x lb ub where v: "v = VEnumerated x" and ok': "\<not> sizeExtensible params" "enumerated_ok lb ub x"
    "valueLowerBound params = Some lb" "valueUpperBound params = Some ub" "0 < ub - lb \<or> valueExtensible params"
    using assms by (cases v) (auto simp: fits.simps [of TEnumerated] enumerated_ok_def split: option.splits)
  have "carries True (room (VEnumerated x)) (appendEnumerated x (valueExtensible params) (Some lb) (Some ub))
      (parse_ext (valueExtensible params) (\<lambda>e pd. rmap VEnumerated (parseEnumerated e (Some lb) (Some ub)
          pd)))
      (\<lambda>w. spelled w = spelled (VEnumerated x))"
    by (rule primitive_carried [OF enumerated.per_codec_axioms])
        (use ok' in \<open>simp_all add: enc_enumerated_nonempty enc_enumerated_length\<close>)
  then show ?thesis
    unfolding v by (intro parse_value) (use ok' in \<open>simp_all add: primitive_steps\<close>)
qed

lemma bool_carried:
  assumes "fits TBool params v"
  shows "field_carried TBool params v"
proof -
  obtain x where v: "v = VBool x" and ok': "\<not> sizeExtensible params" "\<not> valueExtensible params"
    using assms by (cases v) (auto simp: fits.simps [of TBool])
  have "carries True 64 (appendBool x) parseBool (\<lambda>w. w = x)"
    using carries_codec [OF boolean.per_codec_axioms, where w = x and ne = True and n = 64] by simp
  then have "carries True (room (VBool x)) (appendBool x)
      (\<lambda>pd. rmap VBool (parseBool pd)) (\<lambda>w. spelled w = spelled (VBool x))"
    unfolding room.simps by (rule carries_rmap) simp
  then show ?thesis
    unfolding v by (intro parse_value) (use ok' in \<open>simp_all add: primitive_steps\<close>)
qed

lemma int_carried:
  assumes "fits TInt params v"
  shows "field_carried TInt params v"
proof -
  obtain x where v: "v = VInt x" and ok': "\<not> sizeExtensible params" "integer_ok (valueExtensible params)
      (valueLowerBound params) (valueUpperBound params) x" "valueExtensible params \<or> valueLowerBound params =
      None \<or> valueLowerBound params \<noteq> valueUpperBound params"
    using assms by (cases v) (auto simp: fits.simps [of TInt] split: option.splits)
  have "carries True (room (VInt x)) (appendInteger x (valueExtensible params) (valueLowerBound params)
      (valueUpperBound params)) (parse_ext (valueExtensible params) (\<lambda>e pd. rmap VInt (parseInteger e
      (valueLowerBound params) (valueUpperBound params) pd))) (\<lambda>w. spelled w = spelled (VInt x))"
    by (rule primitive_carried [OF integer.per_codec_axioms])
        (use ok' in \<open>simp_all add: enc_integer_nonempty enc_integer_length\<close>)
  then show ?thesis
    unfolding v by (intro parse_value) (use ok' in \<open>simp_all add: primitive_steps\<close>)
qed

lemma string_carried:
  assumes "fits TString params v"
  shows "field_carried TString params v"
proof -
  obtain x where v: "v = VString x" and ok': "\<not> valueExtensible params" "octet_string_ok (sizeExtensible params)
      (sizeLowerBound params) (sizeUpperBound params) x"
    using assms by (cases v) (auto simp: fits.simps [of TString] split: option.splits)
  have "carries True (room (VString x)) (appendOctetString x (sizeExtensible params) (sizeLowerBound params)
      (sizeUpperBound params)) (parse_ext (sizeExtensible params) (\<lambda>e pd. rmap VString (parseOctetString e
      (sizeLowerBound params) (sizeUpperBound params) pd))) (\<lambda>w. spelled w = spelled (VString x))"
    by (rule primitive_carried [OF octet_string.per_codec_axioms])
        (use ok' in \<open>simp_all add: enc_octet_string_nonempty enc_octet_string_length\<close>)
  then show ?thesis
    unfolding v by (intro parse_value) (use ok' in \<open>simp_all add: primitive_steps\<close>)
qed

lemma field_round_trip: "fits t params v \<Longrightarrow> field_carried t params v"
proof (induction "size t" arbitrary: t params v rule: less_induct)
  case less
  note ok = less.prems
  have fs: "field_carried (ftype f) p w" if "t = TStruct fs" "f \<in> set fs" "fits (ftype f) p w" for f fs p w
    using that field_size [of f fs] by (intro less.hyps) simp_all
  show ?case
  proof (cases t)
    case (TPtr t')
    then obtain v' where v: "v = VPtr (Some v')" and ok': "fits t' params v'"
      using ok by (cases v) (auto simp: fits.simps [of "TPtr t'"] split: option.splits)
    have "carries True (room v') (\<lambda>pd. makeField t' v' params pd)
        (\<lambda>pd. rmap (\<lambda>v. VPtr (Some v)) (parseField t' params pd))
        (\<lambda>w. spelled w = spelled v)"
      by (rule carries_rmap [OF less.hyps]) (use TPtr ok' v in simp_all)
    moreover have "makeField t v params pd = makeField t' v' params pd" for pd
      by (simp add: TPtr v makeField.simps [of "TPtr t'"])
    ultimately have "carries True (room v) (\<lambda>pd. makeField t v params pd)
        (\<lambda>pd. rmap (\<lambda>v. VPtr (Some v)) (parseField t' params pd)) (\<lambda>w. spelled w = spelled
            v)" by (simp add: v)
    then show ?thesis
      by (rule carries_nonempty) (simp add: TPtr parseField.simps [of "TPtr t'"])
  next
    case (TSlice t')
    then obtain xs where v: "v = VSlice xs" and ok': "counted_ok params xs"
      "list_all (\<lambda>v. fits t' (elementParameters params) v) xs"
      using ok by (cases v) (auto simp: fits.simps [of "TSlice t'"])
    show ?thesis
      unfolding TSlice v by (rule slice_carried [OF less.hyps ok'(1)])
          (use ok'(2) TSlice in \<open>auto simp: list_all_iff\<close>)
  next
    case (TStruct gs)
    then obtain vs where v: "v = VStruct vs"
      using ok by (cases v) (auto simp: fits.simps [of "TStruct gs"])
    show ?thesis
      using choice_carried [of gs params vs] sequence_carried [of gs params vs] fs [OF TStruct] ok
      unfolding TStruct v by blast
  next
    case TBitString
    then show ?thesis using ok bit_string_carried by simp
  next
    case TOctetString
    then show ?thesis using ok octets_carried by simp
  next
    case TEnumerated
    then show ?thesis using ok enumerated_carried by simp
  next
    case TBool
    then show ?thesis using ok bool_carried by simp
  next
    case TInt
    then show ?thesis using ok int_carried by simp
  next
    case TString
    then show ?thesis using ok string_carried by simp
  next
    case TObjectIdentifier
    then show ?thesis using ok by (cases v) (simp_all add: fits.simps)
  qed
qed


section \<open>Messages\<close>

lemma marshal_encodes:
  assumes "fits t (parseFieldParameters params) v"
  obtains bs where "MarshalWithParams t v params = Inr bs" and "bs \<noteq> []" and "8 * length bs \<le> room v + 7"
    and "\<And>rest. \<exists>v'. UnmarshalWithParams (bs @ rest) t params = Inr v' \<and> spelled v' = spelled v"
proof -
  let ?p = "parseFieldParameters params"
  obtain b where b: "b \<noteq> []" "length b \<le> room v" and ag: "agree
      (\<lambda>pd. makeField t v ?p pd) (\<lambda>pd. parseField t ?p pd)
      (\<lambda>w. spelled w = spelled v) 0 b"
    by (rule carriesE [OF field_round_trip [OF assms], of 0]) auto
  have v0: "valid_raw \<lparr>rbytes = [], rbitsOffset = 0\<rparr>" by (simp add: valid_raw_aligned)
  obtain pd where pd: "makeField t v ?p \<lparr>rbytes = [], rbitsOffset = 0\<rparr> = Inr pd" "valid_raw pd"
      "raw_bits pd = b"
    using agree_put [OF ag v0] by (auto simp: emits_def raw_bits_aligned)
  have bits: "bits_of (rbytes pd) = b @ replicate (slack (rbitsOffset pd)) False"
    using pd(2,3) by (simp add: valid_raw_def)
  then have ne: "rbytes pd \<noteq> []" using b by auto
  have "8 * length (rbytes pd) = length b + slack (rbitsOffset pd)"
    using bits by (metis length_append length_bits_of length_replicate)
  moreover have "slack (rbitsOffset pd) \<le> 7" by (simp add: slack_def split: if_splits)
  ultimately have len: "8 * length (rbytes pd) \<le> room v + 7" using b(2) by simp
  have rt: "\<exists>v'. UnmarshalWithParams (rbytes pd @ rest) t params = Inr v'
      \<and> spelled v' = spelled v" for rest
  proof -
    have pre: "prefix b (drop 0 (bits_of (rbytes pd @ rest)))" using bits by simp
    obtain w where "fetches (parseField t ?p (reader (rbytes pd @ rest) 0)) (rbytes pd @ rest) 0 b w" "spelled w =
        spelled v"
      by (rule agree_get [OF ag _ pre]) simp_all
    then show ?thesis by (auto simp: UnmarshalWithParams_def fetches_def reader_def)
  qed
  show thesis by (rule that [of "rbytes pd"]) (use pd(1) ne len rt in \<open>simp_all add:
      MarshalWithParams_def\<close>)
qed

text \<open>
  C1: a value that fits its type is encoded, and decoding the bytes gives the same value, whatever
  follows them: the padding bits of BIT STRINGs are the only ones that may differ.
\<close>

theorem marshal_round_trip:
  assumes "fits t (parseFieldParameters params) v"
  shows "\<exists>bs. MarshalWithParams t v params = Inr bs \<and> bs \<noteq> [] \<and>
    (\<forall>rest. \<exists>v'. UnmarshalWithParams (bs @ rest) t params = Inr v' \<and> spelled v' = spelled v)"
  using assms by (rule marshal_encodes) blast

lemma marshal_round_trip_witness:
  "\<exists>bs. MarshalWithParams (TStruct [Field ''Value'' ''valueLB:0,valueUB:255'' TInt, Field ''List'' ''optional'' (TPtr TBool)])
      (VStruct [VInt 7, VPtr (Some (VBool True))]) ''valueExt'' = Inr bs \<and> bs \<noteq> [] \<and>
    (\<forall>rest. \<exists>v'. UnmarshalWithParams (bs @ rest)
      (TStruct [Field ''Value'' ''valueLB:0,valueUB:255'' TInt, Field ''List'' ''optional'' (TPtr TBool)]) ''valueExt'' = Inr v' \<and>
      spelled v' = spelled (VStruct [VInt 7, VPtr (Some (VBool True))]))"
proof (rule marshal_round_trip)
  have tags: "parseFieldParameters ''valueExt'' = noParameters\<lparr>valueExtensible := True\<rparr>"
    "parseFieldParameters ''valueLB:0,valueUB:255'' = noParameters\<lparr>valueLowerBound := Some 0, valueUpperBound := Some 255\<rparr>"
    "parseFieldParameters ''optional'' = noParameters\<lparr>optional := True\<rparr>"
    by code_simp+
  show "fits (TStruct [Field ''Value'' ''valueLB:0,valueUB:255'' TInt, Field ''List'' ''optional'' (TPtr TBool)])
      (parseFieldParameters ''valueExt'') (VStruct [VInt 7, VPtr (Some (VBool True))])"
    by (simp add: fits.simps tags noParameters_def is_choice_def exported_def optional_count_def IsNil_def
      resolve_reference_def integer_ok_def)
qed

end
