(* ===== verification/Ngap_Types.thy ===== *)
theory Ngap_Types
  imports Aper_Field
begin

text \<open>
  The structs of \<^verbatim>\<open>lib/ngap/ngapType\<close> from which an NGAP message is made: one constant per struct, with its
  fields in order, their types and their \<^verbatim>\<open>aper\<close> tags. A struct is a SEQUENCE, or a CHOICE when its first
  field is \<^verbatim>\<open>Present\<close>. Every struct is defined after those it refers to, up to \<^verbatim>\<open>NGAPPDU\<close>.
\<close>

definition ProcedureCode :: gtype where
  "ProcedureCode = TStruct [Field ''Value'' ''valueLB:0,valueUB:255'' TInt]"

definition Criticality :: gtype where
  "Criticality = TStruct [Field ''Value'' ''valueLB:0,valueUB:2'' TEnumerated]"

definition ProtocolIEID :: gtype where
  "ProtocolIEID = TStruct [Field ''Value'' ''valueLB:0,valueUB:65535'' TInt]"

definition AMFName :: gtype where
  "AMFName = TStruct [Field ''Value'' ''sizeExt,sizeLB:1,sizeUB:150'' TString]"

definition PLMNIdentity :: gtype where
  "PLMNIdentity = TStruct [Field ''Value'' ''sizeLB:3,sizeUB:3'' TOctetString]"

definition AMFRegionID :: gtype where
  "AMFRegionID = TStruct [Field ''Value'' ''sizeLB:8,sizeUB:8'' TBitString]"

definition AMFSetID :: gtype where
  "AMFSetID = TStruct [Field ''Value'' ''sizeLB:10,sizeUB:10'' TBitString]"

definition AMFPointer :: gtype where
  "AMFPointer = TStruct [Field ''Value'' ''sizeLB:6,sizeUB:6'' TBitString]"

definition ProtocolExtensionID :: gtype where
  "ProtocolExtensionID = TStruct [Field ''Value'' ''valueLB:0,valueUB:65535'' TInt]"

definition GUAMIExtIEsExtensionValue :: gtype where
  "GUAMIExtIEsExtensionValue = TStruct [Field ''Present'' '''' TInt]"

definition GUAMIExtIEs :: gtype where
  "GUAMIExtIEs = TStruct [
     Field ''Id'' '''' ProtocolExtensionID,
     Field ''Criticality'' '''' Criticality,
     Field ''ExtensionValue'' ''openType,referenceFieldName:Id'' GUAMIExtIEsExtensionValue]"

definition ProtocolExtensionContainerGUAMIExtIEs :: gtype where
  "ProtocolExtensionContainerGUAMIExtIEs = TStruct [
     Field ''List'' ''sizeLB:1,sizeUB:65535'' (TSlice GUAMIExtIEs)]"

definition GUAMI :: gtype where
  "GUAMI = TStruct [
     Field ''PLMNIdentity'' '''' PLMNIdentity,
     Field ''AMFRegionID'' '''' AMFRegionID,
     Field ''AMFSetID'' '''' AMFSetID,
     Field ''AMFPointer'' '''' AMFPointer,
     Field ''IEExtensions'' ''optional'' (TPtr ProtocolExtensionContainerGUAMIExtIEs)]"

definition ServedGUAMIItemExtIEsExtensionValue :: gtype where
  "ServedGUAMIItemExtIEsExtensionValue = TStruct [Field ''Present'' '''' TInt]"

definition ServedGUAMIItemExtIEs :: gtype where
  "ServedGUAMIItemExtIEs = TStruct [
     Field ''Id'' '''' ProtocolExtensionID,
     Field ''Criticality'' '''' Criticality,
     Field ''ExtensionValue'' ''openType,referenceFieldName:Id'' ServedGUAMIItemExtIEsExtensionValue]"

definition ProtocolExtensionContainerServedGUAMIItemExtIEs :: gtype where
  "ProtocolExtensionContainerServedGUAMIItemExtIEs = TStruct [
     Field ''List'' ''sizeLB:1,sizeUB:65535'' (TSlice ServedGUAMIItemExtIEs)]"

definition ServedGUAMIItem :: gtype where
  "ServedGUAMIItem = TStruct [
     Field ''GUAMI'' ''valueExt'' GUAMI,
     Field ''BackupAMFName'' ''sizeExt,sizeLB:1,sizeUB:150,optional'' (TPtr AMFName),
     Field ''IEExtensions'' ''optional'' (TPtr ProtocolExtensionContainerServedGUAMIItemExtIEs)]"

definition ServedGUAMIList :: gtype where
  "ServedGUAMIList = TStruct [Field ''List'' ''valueExt,sizeLB:1,sizeUB:256'' (TSlice ServedGUAMIItem)]"

definition RelativeAMFCapacity :: gtype where
  "RelativeAMFCapacity = TStruct [Field ''Value'' ''valueLB:0,valueUB:255'' TInt]"

definition SST :: gtype where
  "SST = TStruct [Field ''Value'' ''sizeLB:1,sizeUB:1'' TOctetString]"

definition SD :: gtype where
  "SD = TStruct [Field ''Value'' ''sizeLB:3,sizeUB:3'' TOctetString]"

definition SNSSAIExtIEsExtensionValue :: gtype where
  "SNSSAIExtIEsExtensionValue = TStruct [Field ''Present'' '''' TInt]"

definition SNSSAIExtIEs :: gtype where
  "SNSSAIExtIEs = TStruct [
     Field ''Id'' '''' ProtocolExtensionID,
     Field ''Criticality'' '''' Criticality,
     Field ''ExtensionValue'' ''openType,referenceFieldName:Id'' SNSSAIExtIEsExtensionValue]"

definition ProtocolExtensionContainerSNSSAIExtIEs :: gtype where
  "ProtocolExtensionContainerSNSSAIExtIEs = TStruct [
     Field ''List'' ''sizeLB:1,sizeUB:65535'' (TSlice SNSSAIExtIEs)]"

definition SNSSAI :: gtype where
  "SNSSAI = TStruct [
     Field ''SST'' '''' SST,
     Field ''SD'' ''optional'' (TPtr SD),
     Field ''IEExtensions'' ''optional'' (TPtr ProtocolExtensionContainerSNSSAIExtIEs)]"

definition SliceSupportItemExtIEsExtensionValue :: gtype where
  "SliceSupportItemExtIEsExtensionValue = TStruct [Field ''Present'' '''' TInt]"

definition SliceSupportItemExtIEs :: gtype where
  "SliceSupportItemExtIEs = TStruct [
     Field ''Id'' '''' ProtocolExtensionID,
     Field ''Criticality'' '''' Criticality,
     Field ''ExtensionValue'' ''openType,referenceFieldName:Id'' SliceSupportItemExtIEsExtensionValue]"

definition ProtocolExtensionContainerSliceSupportItemExtIEs :: gtype where
  "ProtocolExtensionContainerSliceSupportItemExtIEs = TStruct [
     Field ''List'' ''sizeLB:1,sizeUB:65535'' (TSlice SliceSupportItemExtIEs)]"

definition SliceSupportItem :: gtype where
  "SliceSupportItem = TStruct [
     Field ''SNSSAI'' ''valueExt'' SNSSAI,
     Field ''IEExtensions'' ''optional'' (TPtr ProtocolExtensionContainerSliceSupportItemExtIEs)]"

definition SliceSupportList :: gtype where
  "SliceSupportList = TStruct [Field ''List'' ''valueExt,sizeLB:1,sizeUB:1024'' (TSlice SliceSupportItem)]"

definition PLMNSupportItemExtIEsExtensionValue :: gtype where
  "PLMNSupportItemExtIEsExtensionValue = TStruct [Field ''Present'' '''' TInt]"

definition PLMNSupportItemExtIEs :: gtype where
  "PLMNSupportItemExtIEs = TStruct [
     Field ''Id'' '''' ProtocolExtensionID,
     Field ''Criticality'' '''' Criticality,
     Field ''ExtensionValue'' ''openType,referenceFieldName:Id'' PLMNSupportItemExtIEsExtensionValue]"

definition ProtocolExtensionContainerPLMNSupportItemExtIEs :: gtype where
  "ProtocolExtensionContainerPLMNSupportItemExtIEs = TStruct [
     Field ''List'' ''sizeLB:1,sizeUB:65535'' (TSlice PLMNSupportItemExtIEs)]"

definition PLMNSupportItem :: gtype where
  "PLMNSupportItem = TStruct [
     Field ''PLMNIdentity'' '''' PLMNIdentity,
     Field ''SliceSupportList'' '''' SliceSupportList,
     Field ''IEExtensions'' ''optional'' (TPtr ProtocolExtensionContainerPLMNSupportItemExtIEs)]"

definition PLMNSupportList :: gtype where
  "PLMNSupportList = TStruct [Field ''List'' ''valueExt,sizeLB:1,sizeUB:12'' (TSlice PLMNSupportItem)]"

definition TransportLayerAddress :: gtype where
  "TransportLayerAddress = TStruct [Field ''Value'' ''sizeExt,sizeLB:1,sizeUB:160'' TBitString]"

definition ProtocolIESingleContainerCPTransportLayerInformationExtIEs :: gtype where
  "ProtocolIESingleContainerCPTransportLayerInformationExtIEs = TStruct []"

definition CPTransportLayerInformation :: gtype where
  "CPTransportLayerInformation = TStruct [
     Field ''Present'' '''' TInt,
     Field ''EndpointIPAddress'' '''' (TPtr TransportLayerAddress),
     Field ''ChoiceExtensions'' '''' (TPtr ProtocolIESingleContainerCPTransportLayerInformationExtIEs)]"

definition TNLAssociationUsage :: gtype where
  "TNLAssociationUsage = TStruct [Field ''Value'' ''valueExt,valueLB:0,valueUB:2'' TEnumerated]"

definition TNLAddressWeightFactor :: gtype where
  "TNLAddressWeightFactor = TStruct [Field ''Value'' ''valueLB:0,valueUB:255'' TInt]"

definition AMFTNLAssociationToAddItemExtIEsExtensionValue :: gtype where
  "AMFTNLAssociationToAddItemExtIEsExtensionValue = TStruct [Field ''Present'' '''' TInt]"

definition AMFTNLAssociationToAddItemExtIEs :: gtype where
  "AMFTNLAssociationToAddItemExtIEs = TStruct [
     Field ''Id'' '''' ProtocolExtensionID,
     Field ''Criticality'' '''' Criticality,
     Field ''ExtensionValue'' ''openType,referenceFieldName:Id'' AMFTNLAssociationToAddItemExtIEsExtensionValue]"

definition ProtocolExtensionContainerAMFTNLAssociationToAddItemExtIEs :: gtype where
  "ProtocolExtensionContainerAMFTNLAssociationToAddItemExtIEs = TStruct [
     Field ''List'' ''sizeLB:1,sizeUB:65535'' (TSlice AMFTNLAssociationToAddItemExtIEs)]"

definition AMFTNLAssociationToAddItem :: gtype where
  "AMFTNLAssociationToAddItem = TStruct [
     Field ''AMFTNLAssociationAddress'' ''valueLB:0,valueUB:1'' CPTransportLayerInformation,
     Field ''TNLAssociationUsage'' ''optional'' (TPtr TNLAssociationUsage),
     Field ''TNLAddressWeightFactor'' '''' TNLAddressWeightFactor,
     Field ''IEExtensions'' ''optional'' (TPtr ProtocolExtensionContainerAMFTNLAssociationToAddItemExtIEs)]"

definition AMFTNLAssociationToAddList :: gtype where
  "AMFTNLAssociationToAddList = TStruct [
     Field ''List'' ''valueExt,sizeLB:1,sizeUB:32'' (TSlice AMFTNLAssociationToAddItem)]"

definition AMFTNLAssociationToRemoveItemExtIEsExtensionValue :: gtype where
  "AMFTNLAssociationToRemoveItemExtIEsExtensionValue = TStruct [Field ''Present'' '''' TInt]"

definition AMFTNLAssociationToRemoveItemExtIEs :: gtype where
  "AMFTNLAssociationToRemoveItemExtIEs = TStruct [
     Field ''Id'' '''' ProtocolExtensionID,
     Field ''Criticality'' '''' Criticality,
     Field ''ExtensionValue'' ''openType,referenceFieldName:Id'' AMFTNLAssociationToRemoveItemExtIEsExtensionValue]"

definition ProtocolExtensionContainerAMFTNLAssociationToRemoveItemExtIEs :: gtype where
  "ProtocolExtensionContainerAMFTNLAssociationToRemoveItemExtIEs = TStruct [
     Field ''List'' ''sizeLB:1,sizeUB:65535'' (TSlice AMFTNLAssociationToRemoveItemExtIEs)]"

definition AMFTNLAssociationToRemoveItem :: gtype where
  "AMFTNLAssociationToRemoveItem = TStruct [
     Field ''AMFTNLAssociationAddress'' ''valueLB:0,valueUB:1'' CPTransportLayerInformation,
     Field ''IEExtensions'' ''optional'' (TPtr ProtocolExtensionContainerAMFTNLAssociationToRemoveItemExtIEs)]"

definition AMFTNLAssociationToRemoveList :: gtype where
  "AMFTNLAssociationToRemoveList = TStruct [
     Field ''List'' ''valueExt,sizeLB:1,sizeUB:32'' (TSlice AMFTNLAssociationToRemoveItem)]"

definition AMFTNLAssociationToUpdateItemExtIEsExtensionValue :: gtype where
  "AMFTNLAssociationToUpdateItemExtIEsExtensionValue = TStruct [Field ''Present'' '''' TInt]"

definition AMFTNLAssociationToUpdateItemExtIEs :: gtype where
  "AMFTNLAssociationToUpdateItemExtIEs = TStruct [
     Field ''Id'' '''' ProtocolExtensionID,
     Field ''Criticality'' '''' Criticality,
     Field ''ExtensionValue'' ''openType,referenceFieldName:Id'' AMFTNLAssociationToUpdateItemExtIEsExtensionValue]"

definition ProtocolExtensionContainerAMFTNLAssociationToUpdateItemExtIEs :: gtype where
  "ProtocolExtensionContainerAMFTNLAssociationToUpdateItemExtIEs = TStruct [
     Field ''List'' ''sizeLB:1,sizeUB:65535'' (TSlice AMFTNLAssociationToUpdateItemExtIEs)]"

definition AMFTNLAssociationToUpdateItem :: gtype where
  "AMFTNLAssociationToUpdateItem = TStruct [
     Field ''AMFTNLAssociationAddress'' ''valueLB:0,valueUB:1'' CPTransportLayerInformation,
     Field ''TNLAssociationUsage'' ''optional'' (TPtr TNLAssociationUsage),
     Field ''TNLAddressWeightFactor'' ''optional'' (TPtr TNLAddressWeightFactor),
     Field ''IEExtensions'' ''optional'' (TPtr ProtocolExtensionContainerAMFTNLAssociationToUpdateItemExtIEs)]"

definition AMFTNLAssociationToUpdateList :: gtype where
  "AMFTNLAssociationToUpdateList = TStruct [
     Field ''List'' ''valueExt,sizeLB:1,sizeUB:32'' (TSlice AMFTNLAssociationToUpdateItem)]"

definition AMFConfigurationUpdateIEsValue :: gtype where
  "AMFConfigurationUpdateIEsValue = TStruct [
     Field ''Present'' '''' TInt,
     Field ''AMFName'' ''referenceFieldValue:1'' (TPtr AMFName),
     Field ''ServedGUAMIList'' ''referenceFieldValue:96'' (TPtr ServedGUAMIList),
     Field ''RelativeAMFCapacity'' ''referenceFieldValue:86'' (TPtr RelativeAMFCapacity),
     Field ''PLMNSupportList'' ''referenceFieldValue:80'' (TPtr PLMNSupportList),
     Field ''AMFTNLAssociationToAddList'' ''referenceFieldValue:6'' (TPtr AMFTNLAssociationToAddList),
     Field ''AMFTNLAssociationToRemoveList'' ''referenceFieldValue:7'' (TPtr AMFTNLAssociationToRemoveList),
     Field ''AMFTNLAssociationToUpdateList'' ''referenceFieldValue:8'' (TPtr AMFTNLAssociationToUpdateList)]"

definition AMFConfigurationUpdateIEs :: gtype where
  "AMFConfigurationUpdateIEs = TStruct [
     Field ''Id'' '''' ProtocolIEID,
     Field ''Criticality'' '''' Criticality,
     Field ''Value'' ''openType,referenceFieldName:Id'' AMFConfigurationUpdateIEsValue]"

definition ProtocolIEContainerAMFConfigurationUpdateIEs :: gtype where
  "ProtocolIEContainerAMFConfigurationUpdateIEs = TStruct [
     Field ''List'' ''sizeLB:0,sizeUB:65535'' (TSlice AMFConfigurationUpdateIEs)]"

definition AMFConfigurationUpdate :: gtype where
  "AMFConfigurationUpdate = TStruct [Field ''ProtocolIEs'' '''' ProtocolIEContainerAMFConfigurationUpdateIEs]"

definition AMFUENGAPID :: gtype where
  "AMFUENGAPID = TStruct [Field ''Value'' ''valueLB:0,valueUB:1099511627775'' TInt]"

definition RANUENGAPID :: gtype where
  "RANUENGAPID = TStruct [Field ''Value'' ''valueLB:0,valueUB:4294967295'' TInt]"

definition CauseRadioNetwork :: gtype where
  "CauseRadioNetwork = TStruct [Field ''Value'' ''valueExt,valueLB:0,valueUB:44'' TEnumerated]"

definition CauseTransport :: gtype where
  "CauseTransport = TStruct [Field ''Value'' ''valueExt,valueLB:0,valueUB:1'' TEnumerated]"

definition CauseNas :: gtype where
  "CauseNas = TStruct [Field ''Value'' ''valueExt,valueLB:0,valueUB:3'' TEnumerated]"

definition CauseProtocol :: gtype where
  "CauseProtocol = TStruct [Field ''Value'' ''valueExt,valueLB:0,valueUB:6'' TEnumerated]"

definition CauseMisc :: gtype where
  "CauseMisc = TStruct [Field ''Value'' ''valueExt,valueLB:0,valueUB:5'' TEnumerated]"

definition ProtocolIESingleContainerCauseExtIEs :: gtype where
  "ProtocolIESingleContainerCauseExtIEs = TStruct []"

definition Cause :: gtype where
  "Cause = TStruct [
     Field ''Present'' '''' TInt,
     Field ''RadioNetwork'' '''' (TPtr CauseRadioNetwork),
     Field ''Transport'' '''' (TPtr CauseTransport),
     Field ''Nas'' '''' (TPtr CauseNas),
     Field ''Protocol'' '''' (TPtr CauseProtocol),
     Field ''Misc'' '''' (TPtr CauseMisc),
     Field ''ChoiceExtensions'' '''' (TPtr ProtocolIESingleContainerCauseExtIEs)]"

definition HandoverCancelIEsValue :: gtype where
  "HandoverCancelIEsValue = TStruct [
     Field ''Present'' '''' TInt,
     Field ''AMFUENGAPID'' ''referenceFieldValue:10'' (TPtr AMFUENGAPID),
     Field ''RANUENGAPID'' ''referenceFieldValue:85'' (TPtr RANUENGAPID),
     Field ''Cause'' ''referenceFieldValue:15,valueLB:0,valueUB:5'' (TPtr Cause)]"

definition HandoverCancelIEs :: gtype where
  "HandoverCancelIEs = TStruct [
     Field ''Id'' '''' ProtocolIEID,
     Field ''Criticality'' '''' Criticality,
     Field ''Value'' ''openType,referenceFieldName:Id'' HandoverCancelIEsValue]"

definition ProtocolIEContainerHandoverCancelIEs :: gtype where
  "ProtocolIEContainerHandoverCancelIEs = TStruct [
     Field ''List'' ''sizeLB:0,sizeUB:65535'' (TSlice HandoverCancelIEs)]"

definition HandoverCancel :: gtype where
  "HandoverCancel = TStruct [Field ''ProtocolIEs'' '''' ProtocolIEContainerHandoverCancelIEs]"

definition HandoverType :: gtype where
  "HandoverType = TStruct [Field ''Value'' ''valueExt,valueLB:0,valueUB:2'' TEnumerated]"

definition ProtocolIESingleContainerGNBIDExtIEs :: gtype where
  "ProtocolIESingleContainerGNBIDExtIEs = TStruct []"

definition GNBID :: gtype where
  "GNBID = TStruct [
     Field ''Present'' '''' TInt,
     Field ''GNBID'' ''sizeLB:22,sizeUB:32'' (TPtr TBitString),
     Field ''ChoiceExtensions'' '''' (TPtr ProtocolIESingleContainerGNBIDExtIEs)]"

definition GlobalGNBIDExtIEsExtensionValue :: gtype where
  "GlobalGNBIDExtIEsExtensionValue = TStruct [Field ''Present'' '''' TInt]"

definition GlobalGNBIDExtIEs :: gtype where
  "GlobalGNBIDExtIEs = TStruct [
     Field ''Id'' '''' ProtocolExtensionID,
     Field ''Criticality'' '''' Criticality,
     Field ''ExtensionValue'' ''openType,referenceFieldName:Id'' GlobalGNBIDExtIEsExtensionValue]"

definition ProtocolExtensionContainerGlobalGNBIDExtIEs :: gtype where
  "ProtocolExtensionContainerGlobalGNBIDExtIEs = TStruct [
     Field ''List'' ''sizeLB:1,sizeUB:65535'' (TSlice GlobalGNBIDExtIEs)]"

definition GlobalGNBID :: gtype where
  "GlobalGNBID = TStruct [
     Field ''PLMNIdentity'' '''' PLMNIdentity,
     Field ''GNBID'' ''valueLB:0,valueUB:1'' GNBID,
     Field ''IEExtensions'' ''optional'' (TPtr ProtocolExtensionContainerGlobalGNBIDExtIEs)]"

definition ProtocolIESingleContainerNgENBIDExtIEs :: gtype where
  "ProtocolIESingleContainerNgENBIDExtIEs = TStruct []"

definition NgENBID :: gtype where
  "NgENBID = TStruct [
     Field ''Present'' '''' TInt,
     Field ''MacroNgENBID'' ''sizeLB:20,sizeUB:20'' (TPtr TBitString),
     Field ''ShortMacroNgENBID'' ''sizeLB:18,sizeUB:18'' (TPtr TBitString),
     Field ''LongMacroNgENBID'' ''sizeLB:21,sizeUB:21'' (TPtr TBitString),
     Field ''ChoiceExtensions'' '''' (TPtr ProtocolIESingleContainerNgENBIDExtIEs)]"

definition GlobalNgENBIDExtIEsExtensionValue :: gtype where
  "GlobalNgENBIDExtIEsExtensionValue = TStruct [Field ''Present'' '''' TInt]"

definition GlobalNgENBIDExtIEs :: gtype where
  "GlobalNgENBIDExtIEs = TStruct [
     Field ''Id'' '''' ProtocolExtensionID,
     Field ''Criticality'' '''' Criticality,
     Field ''ExtensionValue'' ''openType,referenceFieldName:Id'' GlobalNgENBIDExtIEsExtensionValue]"

definition ProtocolExtensionContainerGlobalNgENBIDExtIEs :: gtype where
  "ProtocolExtensionContainerGlobalNgENBIDExtIEs = TStruct [
     Field ''List'' ''sizeLB:1,sizeUB:65535'' (TSlice GlobalNgENBIDExtIEs)]"

definition GlobalNgENBID :: gtype where
  "GlobalNgENBID = TStruct [
     Field ''PLMNIdentity'' '''' PLMNIdentity,
     Field ''NgENBID'' ''valueLB:0,valueUB:3'' NgENBID,
     Field ''IEExtensions'' ''optional'' (TPtr ProtocolExtensionContainerGlobalNgENBIDExtIEs)]"

definition ProtocolIESingleContainerN3IWFIDExtIEs :: gtype where
  "ProtocolIESingleContainerN3IWFIDExtIEs = TStruct []"

definition N3IWFID :: gtype where
  "N3IWFID = TStruct [
     Field ''Present'' '''' TInt,
     Field ''N3IWFID'' ''sizeLB:16,sizeUB:16'' (TPtr TBitString),
     Field ''ChoiceExtensions'' '''' (TPtr ProtocolIESingleContainerN3IWFIDExtIEs)]"

definition GlobalN3IWFIDExtIEsExtensionValue :: gtype where
  "GlobalN3IWFIDExtIEsExtensionValue = TStruct [Field ''Present'' '''' TInt]"

definition GlobalN3IWFIDExtIEs :: gtype where
  "GlobalN3IWFIDExtIEs = TStruct [
     Field ''Id'' '''' ProtocolExtensionID,
     Field ''Criticality'' '''' Criticality,
     Field ''ExtensionValue'' ''openType,referenceFieldName:Id'' GlobalN3IWFIDExtIEsExtensionValue]"

definition ProtocolExtensionContainerGlobalN3IWFIDExtIEs :: gtype where
  "ProtocolExtensionContainerGlobalN3IWFIDExtIEs = TStruct [
     Field ''List'' ''sizeLB:1,sizeUB:65535'' (TSlice GlobalN3IWFIDExtIEs)]"

definition GlobalN3IWFID :: gtype where
  "GlobalN3IWFID = TStruct [
     Field ''PLMNIdentity'' '''' PLMNIdentity,
     Field ''N3IWFID'' ''valueLB:0,valueUB:1'' N3IWFID,
     Field ''IEExtensions'' ''optional'' (TPtr ProtocolExtensionContainerGlobalN3IWFIDExtIEs)]"

definition ProtocolIESingleContainerGlobalRANNodeIDExtIEs :: gtype where
  "ProtocolIESingleContainerGlobalRANNodeIDExtIEs = TStruct []"

definition GlobalRANNodeID :: gtype where
  "GlobalRANNodeID = TStruct [
     Field ''Present'' '''' TInt,
     Field ''GlobalGNBID'' ''valueExt'' (TPtr GlobalGNBID),
     Field ''GlobalNgENBID'' ''valueExt'' (TPtr GlobalNgENBID),
     Field ''GlobalN3IWFID'' ''valueExt'' (TPtr GlobalN3IWFID),
     Field ''ChoiceExtensions'' '''' (TPtr ProtocolIESingleContainerGlobalRANNodeIDExtIEs)]"

definition TAC :: gtype where
  "TAC = TStruct [Field ''Value'' ''sizeLB:3,sizeUB:3'' TOctetString]"

definition TAIExtIEsExtensionValue :: gtype where
  "TAIExtIEsExtensionValue = TStruct [Field ''Present'' '''' TInt]"

definition TAIExtIEs :: gtype where
  "TAIExtIEs = TStruct [
     Field ''Id'' '''' ProtocolExtensionID,
     Field ''Criticality'' '''' Criticality,
     Field ''ExtensionValue'' ''openType,referenceFieldName:Id'' TAIExtIEsExtensionValue]"

definition ProtocolExtensionContainerTAIExtIEs :: gtype where
  "ProtocolExtensionContainerTAIExtIEs = TStruct [
     Field ''List'' ''sizeLB:1,sizeUB:65535'' (TSlice TAIExtIEs)]"

definition TAI :: gtype where
  "TAI = TStruct [
     Field ''PLMNIdentity'' '''' PLMNIdentity,
     Field ''TAC'' '''' TAC,
     Field ''IEExtensions'' ''optional'' (TPtr ProtocolExtensionContainerTAIExtIEs)]"

definition TargetRANNodeIDExtIEsExtensionValue :: gtype where
  "TargetRANNodeIDExtIEsExtensionValue = TStruct [Field ''Present'' '''' TInt]"

definition TargetRANNodeIDExtIEs :: gtype where
  "TargetRANNodeIDExtIEs = TStruct [
     Field ''Id'' '''' ProtocolExtensionID,
     Field ''Criticality'' '''' Criticality,
     Field ''ExtensionValue'' ''openType,referenceFieldName:Id'' TargetRANNodeIDExtIEsExtensionValue]"

definition ProtocolExtensionContainerTargetRANNodeIDExtIEs :: gtype where
  "ProtocolExtensionContainerTargetRANNodeIDExtIEs = TStruct [
     Field ''List'' ''sizeLB:1,sizeUB:65535'' (TSlice TargetRANNodeIDExtIEs)]"

definition TargetRANNodeID :: gtype where
  "TargetRANNodeID = TStruct [
     Field ''GlobalRANNodeID'' ''valueLB:0,valueUB:3'' GlobalRANNodeID,
     Field ''SelectedTAI'' ''valueExt'' TAI,
     Field ''IEExtensions'' ''optional'' (TPtr ProtocolExtensionContainerTargetRANNodeIDExtIEs)]"

definition EPSTAC :: gtype where
  "EPSTAC = TStruct [Field ''Value'' ''sizeLB:2,sizeUB:2'' TOctetString]"

definition EPSTAIExtIEsExtensionValue :: gtype where
  "EPSTAIExtIEsExtensionValue = TStruct [Field ''Present'' '''' TInt]"

definition EPSTAIExtIEs :: gtype where
  "EPSTAIExtIEs = TStruct [
     Field ''Id'' '''' ProtocolExtensionID,
     Field ''Criticality'' '''' Criticality,
     Field ''ExtensionValue'' ''openType,referenceFieldName:Id'' EPSTAIExtIEsExtensionValue]"

definition ProtocolExtensionContainerEPSTAIExtIEs :: gtype where
  "ProtocolExtensionContainerEPSTAIExtIEs = TStruct [
     Field ''List'' ''sizeLB:1,sizeUB:65535'' (TSlice EPSTAIExtIEs)]"

definition EPSTAI :: gtype where
  "EPSTAI = TStruct [
     Field ''PLMNIdentity'' '''' PLMNIdentity,
     Field ''EPSTAC'' '''' EPSTAC,
     Field ''IEExtensions'' ''optional'' (TPtr ProtocolExtensionContainerEPSTAIExtIEs)]"

definition TargeteNBIDExtIEsExtensionValue :: gtype where
  "TargeteNBIDExtIEsExtensionValue = TStruct [Field ''Present'' '''' TInt]"

definition TargeteNBIDExtIEs :: gtype where
  "TargeteNBIDExtIEs = TStruct [
     Field ''Id'' '''' ProtocolExtensionID,
     Field ''Criticality'' '''' Criticality,
     Field ''ExtensionValue'' ''openType,referenceFieldName:Id'' TargeteNBIDExtIEsExtensionValue]"

definition ProtocolExtensionContainerTargeteNBIDExtIEs :: gtype where
  "ProtocolExtensionContainerTargeteNBIDExtIEs = TStruct [
     Field ''List'' ''sizeLB:1,sizeUB:65535'' (TSlice TargeteNBIDExtIEs)]"

definition TargeteNBID :: gtype where
  "TargeteNBID = TStruct [
     Field ''GlobalENBID'' ''valueExt'' GlobalNgENBID,
     Field ''SelectedEPSTAI'' ''valueExt'' EPSTAI,
     Field ''IEExtensions'' ''optional'' (TPtr ProtocolExtensionContainerTargeteNBIDExtIEs)]"

definition ProtocolIESingleContainerTargetIDExtIEs :: gtype where
  "ProtocolIESingleContainerTargetIDExtIEs = TStruct []"

definition TargetID :: gtype where
  "TargetID = TStruct [
     Field ''Present'' '''' TInt,
     Field ''TargetRANNodeID'' ''valueExt'' (TPtr TargetRANNodeID),
     Field ''TargeteNBID'' ''valueExt'' (TPtr TargeteNBID),
     Field ''ChoiceExtensions'' '''' (TPtr ProtocolIESingleContainerTargetIDExtIEs)]"

definition DirectForwardingPathAvailability :: gtype where
  "DirectForwardingPathAvailability = TStruct [Field ''Value'' ''valueExt,valueLB:0,valueUB:0'' TEnumerated]"

definition PDUSessionID :: gtype where
  "PDUSessionID = TStruct [Field ''Value'' ''valueLB:0,valueUB:255'' TInt]"

definition PDUSessionResourceItemHORqdExtIEsExtensionValue :: gtype where
  "PDUSessionResourceItemHORqdExtIEsExtensionValue = TStruct [Field ''Present'' '''' TInt]"

definition PDUSessionResourceItemHORqdExtIEs :: gtype where
  "PDUSessionResourceItemHORqdExtIEs = TStruct [
     Field ''Id'' '''' ProtocolExtensionID,
     Field ''Criticality'' '''' Criticality,
     Field ''ExtensionValue'' ''openType,referenceFieldName:Id'' PDUSessionResourceItemHORqdExtIEsExtensionValue]"

definition ProtocolExtensionContainerPDUSessionResourceItemHORqdExtIEs :: gtype where
  "ProtocolExtensionContainerPDUSessionResourceItemHORqdExtIEs = TStruct [
     Field ''List'' ''sizeLB:1,sizeUB:65535'' (TSlice PDUSessionResourceItemHORqdExtIEs)]"

definition PDUSessionResourceItemHORqd :: gtype where
  "PDUSessionResourceItemHORqd = TStruct [
     Field ''PDUSessionID'' '''' PDUSessionID,
     Field ''HandoverRequiredTransfer'' '''' TOctetString,
     Field ''IEExtensions'' ''optional'' (TPtr ProtocolExtensionContainerPDUSessionResourceItemHORqdExtIEs)]"

definition PDUSessionResourceListHORqd :: gtype where
  "PDUSessionResourceListHORqd = TStruct [
     Field ''List'' ''valueExt,sizeLB:1,sizeUB:256'' (TSlice PDUSessionResourceItemHORqd)]"

definition SourceToTargetTransparentContainer :: gtype where
  "SourceToTargetTransparentContainer = TStruct [Field ''Value'' '''' TOctetString]"

definition HandoverRequiredIEsValue :: gtype where
  "HandoverRequiredIEsValue = TStruct [
     Field ''Present'' '''' TInt,
     Field ''AMFUENGAPID'' ''referenceFieldValue:10'' (TPtr AMFUENGAPID),
     Field ''RANUENGAPID'' ''referenceFieldValue:85'' (TPtr RANUENGAPID),
     Field ''HandoverType'' ''referenceFieldValue:29'' (TPtr HandoverType),
     Field ''Cause'' ''referenceFieldValue:15,valueLB:0,valueUB:5'' (TPtr Cause),
     Field ''TargetID'' ''referenceFieldValue:105,valueLB:0,valueUB:2'' (TPtr TargetID),
     Field ''DirectForwardingPathAvailability'' ''referenceFieldValue:22'' (TPtr DirectForwardingPathAvailability),
     Field ''PDUSessionResourceListHORqd'' ''referenceFieldValue:61'' (TPtr PDUSessionResourceListHORqd),
     Field ''SourceToTargetTransparentContainer'' ''referenceFieldValue:101'' (TPtr SourceToTargetTransparentContainer)]"

definition HandoverRequiredIEs :: gtype where
  "HandoverRequiredIEs = TStruct [
     Field ''Id'' '''' ProtocolIEID,
     Field ''Criticality'' '''' Criticality,
     Field ''Value'' ''openType,referenceFieldName:Id'' HandoverRequiredIEsValue]"

definition ProtocolIEContainerHandoverRequiredIEs :: gtype where
  "ProtocolIEContainerHandoverRequiredIEs = TStruct [
     Field ''List'' ''sizeLB:0,sizeUB:65535'' (TSlice HandoverRequiredIEs)]"

definition HandoverRequired :: gtype where
  "HandoverRequired = TStruct [Field ''ProtocolIEs'' '''' ProtocolIEContainerHandoverRequiredIEs]"

definition BitRate :: gtype where
  "BitRate = TStruct [Field ''Value'' ''valueExt,valueLB:0,valueUB:4000000000000'' TInt]"

definition UEAggregateMaximumBitRateExtIEsExtensionValue :: gtype where
  "UEAggregateMaximumBitRateExtIEsExtensionValue = TStruct [Field ''Present'' '''' TInt]"

definition UEAggregateMaximumBitRateExtIEs :: gtype where
  "UEAggregateMaximumBitRateExtIEs = TStruct [
     Field ''Id'' '''' ProtocolExtensionID,
     Field ''Criticality'' '''' Criticality,
     Field ''ExtensionValue'' ''openType,referenceFieldName:Id'' UEAggregateMaximumBitRateExtIEsExtensionValue]"

definition ProtocolExtensionContainerUEAggregateMaximumBitRateExtIEs :: gtype where
  "ProtocolExtensionContainerUEAggregateMaximumBitRateExtIEs = TStruct [
     Field ''List'' ''sizeLB:1,sizeUB:65535'' (TSlice UEAggregateMaximumBitRateExtIEs)]"

definition UEAggregateMaximumBitRate :: gtype where
  "UEAggregateMaximumBitRate = TStruct [
     Field ''UEAggregateMaximumBitRateDL'' '''' BitRate,
     Field ''UEAggregateMaximumBitRateUL'' '''' BitRate,
     Field ''IEExtensions'' ''optional'' (TPtr ProtocolExtensionContainerUEAggregateMaximumBitRateExtIEs)]"

definition ProtocolIESingleContainerUEIdentityIndexValueExtIEs :: gtype where
  "ProtocolIESingleContainerUEIdentityIndexValueExtIEs = TStruct []"

definition UEIdentityIndexValue :: gtype where
  "UEIdentityIndexValue = TStruct [
     Field ''Present'' '''' TInt,
     Field ''IndexLength10'' ''sizeLB:10,sizeUB:10'' (TPtr TBitString),
     Field ''ChoiceExtensions'' '''' (TPtr ProtocolIESingleContainerUEIdentityIndexValueExtIEs)]"

definition PagingDRX :: gtype where
  "PagingDRX = TStruct [Field ''Value'' ''valueExt,valueLB:0,valueUB:3'' TEnumerated]"

definition PeriodicRegistrationUpdateTimer :: gtype where
  "PeriodicRegistrationUpdateTimer = TStruct [Field ''Value'' ''sizeLB:8,sizeUB:8'' TBitString]"

definition MICOModeIndication :: gtype where
  "MICOModeIndication = TStruct [Field ''Value'' ''valueExt,valueLB:0,valueUB:0'' TEnumerated]"

definition TAIListForInactiveItemExtIEsExtensionValue :: gtype where
  "TAIListForInactiveItemExtIEsExtensionValue = TStruct [Field ''Present'' '''' TInt]"

definition TAIListForInactiveItemExtIEs :: gtype where
  "TAIListForInactiveItemExtIEs = TStruct [
     Field ''Id'' '''' ProtocolExtensionID,
     Field ''Criticality'' '''' Criticality,
     Field ''ExtensionValue'' ''openType,referenceFieldName:Id'' TAIListForInactiveItemExtIEsExtensionValue]"

definition ProtocolExtensionContainerTAIListForInactiveItemExtIEs :: gtype where
  "ProtocolExtensionContainerTAIListForInactiveItemExtIEs = TStruct [
     Field ''List'' ''sizeLB:1,sizeUB:65535'' (TSlice TAIListForInactiveItemExtIEs)]"

definition TAIListForInactiveItem :: gtype where
  "TAIListForInactiveItem = TStruct [
     Field ''TAI'' ''valueExt'' TAI,
     Field ''IEExtensions'' ''optional'' (TPtr ProtocolExtensionContainerTAIListForInactiveItemExtIEs)]"

definition TAIListForInactive :: gtype where
  "TAIListForInactive = TStruct [
     Field ''List'' ''valueExt,sizeLB:1,sizeUB:16'' (TSlice TAIListForInactiveItem)]"

definition ExpectedActivityPeriod :: gtype where
  "ExpectedActivityPeriod = TStruct [Field ''Value'' '''' TInt]"

definition ExpectedIdlePeriod :: gtype where
  "ExpectedIdlePeriod = TStruct [Field ''Value'' '''' TInt]"

definition SourceOfUEActivityBehaviourInformation :: gtype where
  "SourceOfUEActivityBehaviourInformation = TStruct [
     Field ''Value'' ''valueExt,valueLB:0,valueUB:1'' TEnumerated]"

definition ExpectedUEActivityBehaviourExtIEsExtensionValue :: gtype where
  "ExpectedUEActivityBehaviourExtIEsExtensionValue = TStruct [Field ''Present'' '''' TInt]"

definition ExpectedUEActivityBehaviourExtIEs :: gtype where
  "ExpectedUEActivityBehaviourExtIEs = TStruct [
     Field ''Id'' '''' ProtocolExtensionID,
     Field ''Criticality'' '''' Criticality,
     Field ''ExtensionValue'' ''openType,referenceFieldName:Id'' ExpectedUEActivityBehaviourExtIEsExtensionValue]"

definition ProtocolExtensionContainerExpectedUEActivityBehaviourExtIEs :: gtype where
  "ProtocolExtensionContainerExpectedUEActivityBehaviourExtIEs = TStruct [
     Field ''List'' ''sizeLB:1,sizeUB:65535'' (TSlice ExpectedUEActivityBehaviourExtIEs)]"

definition ExpectedUEActivityBehaviour :: gtype where
  "ExpectedUEActivityBehaviour = TStruct [
     Field ''ExpectedActivityPeriod'' ''optional'' (TPtr ExpectedActivityPeriod),
     Field ''ExpectedIdlePeriod'' ''optional'' (TPtr ExpectedIdlePeriod),
     Field ''SourceOfUEActivityBehaviourInformation'' ''optional'' (TPtr SourceOfUEActivityBehaviourInformation),
     Field ''IEExtensions'' ''optional'' (TPtr ProtocolExtensionContainerExpectedUEActivityBehaviourExtIEs)]"

definition ExpectedHOInterval :: gtype where
  "ExpectedHOInterval = TStruct [Field ''Value'' ''valueExt,valueLB:0,valueUB:6'' TEnumerated]"

definition ExpectedUEMobility :: gtype where
  "ExpectedUEMobility = TStruct [Field ''Value'' ''valueExt,valueLB:0,valueUB:1'' TEnumerated]"

definition NRCellIdentity :: gtype where
  "NRCellIdentity = TStruct [Field ''Value'' ''sizeLB:36,sizeUB:36'' TBitString]"

definition NRCGIExtIEsExtensionValue :: gtype where
  "NRCGIExtIEsExtensionValue = TStruct [Field ''Present'' '''' TInt]"

definition NRCGIExtIEs :: gtype where
  "NRCGIExtIEs = TStruct [
     Field ''Id'' '''' ProtocolExtensionID,
     Field ''Criticality'' '''' Criticality,
     Field ''ExtensionValue'' ''openType,referenceFieldName:Id'' NRCGIExtIEsExtensionValue]"

definition ProtocolExtensionContainerNRCGIExtIEs :: gtype where
  "ProtocolExtensionContainerNRCGIExtIEs = TStruct [
     Field ''List'' ''sizeLB:1,sizeUB:65535'' (TSlice NRCGIExtIEs)]"

definition NRCGI :: gtype where
  "NRCGI = TStruct [
     Field ''PLMNIdentity'' '''' PLMNIdentity,
     Field ''NRCellIdentity'' '''' NRCellIdentity,
     Field ''IEExtensions'' ''optional'' (TPtr ProtocolExtensionContainerNRCGIExtIEs)]"

definition EUTRACellIdentity :: gtype where
  "EUTRACellIdentity = TStruct [Field ''Value'' ''sizeLB:28,sizeUB:28'' TBitString]"

definition EUTRACGIExtIEsExtensionValue :: gtype where
  "EUTRACGIExtIEsExtensionValue = TStruct [Field ''Present'' '''' TInt]"

definition EUTRACGIExtIEs :: gtype where
  "EUTRACGIExtIEs = TStruct [
     Field ''Id'' '''' ProtocolExtensionID,
     Field ''Criticality'' '''' Criticality,
     Field ''ExtensionValue'' ''openType,referenceFieldName:Id'' EUTRACGIExtIEsExtensionValue]"

definition ProtocolExtensionContainerEUTRACGIExtIEs :: gtype where
  "ProtocolExtensionContainerEUTRACGIExtIEs = TStruct [
     Field ''List'' ''sizeLB:1,sizeUB:65535'' (TSlice EUTRACGIExtIEs)]"

definition EUTRACGI :: gtype where
  "EUTRACGI = TStruct [
     Field ''PLMNIdentity'' '''' PLMNIdentity,
     Field ''EUTRACellIdentity'' '''' EUTRACellIdentity,
     Field ''IEExtensions'' ''optional'' (TPtr ProtocolExtensionContainerEUTRACGIExtIEs)]"

definition ProtocolIESingleContainerNGRANCGIExtIEs :: gtype where
  "ProtocolIESingleContainerNGRANCGIExtIEs = TStruct []"

definition NGRANCGI :: gtype where
  "NGRANCGI = TStruct [
     Field ''Present'' '''' TInt,
     Field ''NRCGI'' ''valueExt'' (TPtr NRCGI),
     Field ''EUTRACGI'' ''valueExt'' (TPtr EUTRACGI),
     Field ''ChoiceExtensions'' '''' (TPtr ProtocolIESingleContainerNGRANCGIExtIEs)]"

definition ExpectedUEMovingTrajectoryItemExtIEsExtensionValue :: gtype where
  "ExpectedUEMovingTrajectoryItemExtIEsExtensionValue = TStruct [Field ''Present'' '''' TInt]"

definition ExpectedUEMovingTrajectoryItemExtIEs :: gtype where
  "ExpectedUEMovingTrajectoryItemExtIEs = TStruct [
     Field ''Id'' '''' ProtocolExtensionID,
     Field ''Criticality'' '''' Criticality,
     Field ''ExtensionValue'' ''openType,referenceFieldName:Id'' ExpectedUEMovingTrajectoryItemExtIEsExtensionValue]"

definition ProtocolExtensionContainerExpectedUEMovingTrajectoryItemExtIEs :: gtype where
  "ProtocolExtensionContainerExpectedUEMovingTrajectoryItemExtIEs = TStruct [
     Field ''List'' ''sizeLB:1,sizeUB:65535'' (TSlice ExpectedUEMovingTrajectoryItemExtIEs)]"

definition ExpectedUEMovingTrajectoryItem :: gtype where
  "ExpectedUEMovingTrajectoryItem = TStruct [
     Field ''NGRANCGI'' ''valueLB:0,valueUB:2'' NGRANCGI,
     Field ''TimeStayedInCell'' ''valueLB:0,valueUB:4095,optional'' (TPtr TInt),
     Field ''IEExtensions'' ''optional'' (TPtr ProtocolExtensionContainerExpectedUEMovingTrajectoryItemExtIEs)]"

definition ExpectedUEMovingTrajectory :: gtype where
  "ExpectedUEMovingTrajectory = TStruct [
     Field ''List'' ''valueExt,sizeLB:1,sizeUB:16'' (TSlice ExpectedUEMovingTrajectoryItem)]"

definition ExpectedUEBehaviourExtIEsExtensionValue :: gtype where
  "ExpectedUEBehaviourExtIEsExtensionValue = TStruct [Field ''Present'' '''' TInt]"

definition ExpectedUEBehaviourExtIEs :: gtype where
  "ExpectedUEBehaviourExtIEs = TStruct [
     Field ''Id'' '''' ProtocolExtensionID,
     Field ''Criticality'' '''' Criticality,
     Field ''ExtensionValue'' ''openType,referenceFieldName:Id'' ExpectedUEBehaviourExtIEsExtensionValue]"

definition ProtocolExtensionContainerExpectedUEBehaviourExtIEs :: gtype where
  "ProtocolExtensionContainerExpectedUEBehaviourExtIEs = TStruct [
     Field ''List'' ''sizeLB:1,sizeUB:65535'' (TSlice ExpectedUEBehaviourExtIEs)]"

definition ExpectedUEBehaviour :: gtype where
  "ExpectedUEBehaviour = TStruct [
     Field ''ExpectedUEActivityBehaviour'' ''valueExt,optional'' (TPtr ExpectedUEActivityBehaviour),
     Field ''ExpectedHOInterval'' ''optional'' (TPtr ExpectedHOInterval),
     Field ''ExpectedUEMobility'' ''optional'' (TPtr ExpectedUEMobility),
     Field ''ExpectedUEMovingTrajectory'' ''optional'' (TPtr ExpectedUEMovingTrajectory),
     Field ''IEExtensions'' ''optional'' (TPtr ProtocolExtensionContainerExpectedUEBehaviourExtIEs)]"

definition CoreNetworkAssistanceInformationExtIEsExtensionValue :: gtype where
  "CoreNetworkAssistanceInformationExtIEsExtensionValue = TStruct [Field ''Present'' '''' TInt]"

definition CoreNetworkAssistanceInformationExtIEs :: gtype where
  "CoreNetworkAssistanceInformationExtIEs = TStruct [
     Field ''Id'' '''' ProtocolExtensionID,
     Field ''Criticality'' '''' Criticality,
     Field ''ExtensionValue'' ''openType,referenceFieldName:Id'' CoreNetworkAssistanceInformationExtIEsExtensionValue]"

definition ProtocolExtensionContainerCoreNetworkAssistanceInformationExtIEs :: gtype where
  "ProtocolExtensionContainerCoreNetworkAssistanceInformationExtIEs = TStruct [
     Field ''List'' ''sizeLB:1,sizeUB:65535'' (TSlice CoreNetworkAssistanceInformationExtIEs)]"

definition CoreNetworkAssistanceInformation :: gtype where
  "CoreNetworkAssistanceInformation = TStruct [
     Field ''UEIdentityIndexValue'' ''valueLB:0,valueUB:1'' UEIdentityIndexValue,
     Field ''UESpecificDRX'' ''optional'' (TPtr PagingDRX),
     Field ''PeriodicRegistrationUpdateTimer'' '''' PeriodicRegistrationUpdateTimer,
     Field ''MICOModeIndication'' ''optional'' (TPtr MICOModeIndication),
     Field ''TAIListForInactive'' '''' TAIListForInactive,
     Field ''ExpectedUEBehaviour'' ''valueExt,optional'' (TPtr ExpectedUEBehaviour),
     Field ''IEExtensions'' ''optional'' (TPtr ProtocolExtensionContainerCoreNetworkAssistanceInformationExtIEs)]"

definition NRencryptionAlgorithms :: gtype where
  "NRencryptionAlgorithms = TStruct [Field ''Value'' ''sizeExt,sizeLB:16,sizeUB:16'' TBitString]"

definition NRintegrityProtectionAlgorithms :: gtype where
  "NRintegrityProtectionAlgorithms = TStruct [Field ''Value'' ''sizeExt,sizeLB:16,sizeUB:16'' TBitString]"

definition EUTRAencryptionAlgorithms :: gtype where
  "EUTRAencryptionAlgorithms = TStruct [Field ''Value'' ''sizeExt,sizeLB:16,sizeUB:16'' TBitString]"

definition EUTRAintegrityProtectionAlgorithms :: gtype where
  "EUTRAintegrityProtectionAlgorithms = TStruct [Field ''Value'' ''sizeExt,sizeLB:16,sizeUB:16'' TBitString]"

definition UESecurityCapabilitiesExtIEsExtensionValue :: gtype where
  "UESecurityCapabilitiesExtIEsExtensionValue = TStruct [Field ''Present'' '''' TInt]"

definition UESecurityCapabilitiesExtIEs :: gtype where
  "UESecurityCapabilitiesExtIEs = TStruct [
     Field ''Id'' '''' ProtocolExtensionID,
     Field ''Criticality'' '''' Criticality,
     Field ''ExtensionValue'' ''openType,referenceFieldName:Id'' UESecurityCapabilitiesExtIEsExtensionValue]"

definition ProtocolExtensionContainerUESecurityCapabilitiesExtIEs :: gtype where
  "ProtocolExtensionContainerUESecurityCapabilitiesExtIEs = TStruct [
     Field ''List'' ''sizeLB:1,sizeUB:65535'' (TSlice UESecurityCapabilitiesExtIEs)]"

definition UESecurityCapabilities :: gtype where
  "UESecurityCapabilities = TStruct [
     Field ''NRencryptionAlgorithms'' '''' NRencryptionAlgorithms,
     Field ''NRintegrityProtectionAlgorithms'' '''' NRintegrityProtectionAlgorithms,
     Field ''EUTRAencryptionAlgorithms'' '''' EUTRAencryptionAlgorithms,
     Field ''EUTRAintegrityProtectionAlgorithms'' '''' EUTRAintegrityProtectionAlgorithms,
     Field ''IEExtensions'' ''optional'' (TPtr ProtocolExtensionContainerUESecurityCapabilitiesExtIEs)]"

definition NextHopChainingCount :: gtype where
  "NextHopChainingCount = TStruct [Field ''Value'' ''valueLB:0,valueUB:7'' TInt]"

definition SecurityKey :: gtype where
  "SecurityKey = TStruct [Field ''Value'' ''sizeLB:256,sizeUB:256'' TBitString]"

definition SecurityContextExtIEsExtensionValue :: gtype where
  "SecurityContextExtIEsExtensionValue = TStruct [Field ''Present'' '''' TInt]"

definition SecurityContextExtIEs :: gtype where
  "SecurityContextExtIEs = TStruct [
     Field ''Id'' '''' ProtocolExtensionID,
     Field ''Criticality'' '''' Criticality,
     Field ''ExtensionValue'' ''openType,referenceFieldName:Id'' SecurityContextExtIEsExtensionValue]"

definition ProtocolExtensionContainerSecurityContextExtIEs :: gtype where
  "ProtocolExtensionContainerSecurityContextExtIEs = TStruct [
     Field ''List'' ''sizeLB:1,sizeUB:65535'' (TSlice SecurityContextExtIEs)]"

definition SecurityContext :: gtype where
  "SecurityContext = TStruct [
     Field ''NextHopChainingCount'' '''' NextHopChainingCount,
     Field ''NextHopNH'' '''' SecurityKey,
     Field ''IEExtensions'' ''optional'' (TPtr ProtocolExtensionContainerSecurityContextExtIEs)]"

definition NewSecurityContextInd :: gtype where
  "NewSecurityContextInd = TStruct [Field ''Value'' ''valueExt,valueLB:0,valueUB:0'' TEnumerated]"

definition NASPDU :: gtype where
  "NASPDU = TStruct [Field ''Value'' '''' TOctetString]"

definition PDUSessionResourceSetupItemHOReqExtIEsExtensionValue :: gtype where
  "PDUSessionResourceSetupItemHOReqExtIEsExtensionValue = TStruct [Field ''Present'' '''' TInt]"

definition PDUSessionResourceSetupItemHOReqExtIEs :: gtype where
  "PDUSessionResourceSetupItemHOReqExtIEs = TStruct [
     Field ''Id'' '''' ProtocolExtensionID,
     Field ''Criticality'' '''' Criticality,
     Field ''ExtensionValue'' ''openType,referenceFieldName:Id'' PDUSessionResourceSetupItemHOReqExtIEsExtensionValue]"

definition ProtocolExtensionContainerPDUSessionResourceSetupItemHOReqExtIEs :: gtype where
  "ProtocolExtensionContainerPDUSessionResourceSetupItemHOReqExtIEs = TStruct [
     Field ''List'' ''sizeLB:1,sizeUB:65535'' (TSlice PDUSessionResourceSetupItemHOReqExtIEs)]"

definition PDUSessionResourceSetupItemHOReq :: gtype where
  "PDUSessionResourceSetupItemHOReq = TStruct [
     Field ''PDUSessionID'' '''' PDUSessionID,
     Field ''SNSSAI'' ''valueExt'' SNSSAI,
     Field ''HandoverRequestTransfer'' '''' TOctetString,
     Field ''IEExtensions'' ''optional'' (TPtr ProtocolExtensionContainerPDUSessionResourceSetupItemHOReqExtIEs)]"

definition PDUSessionResourceSetupListHOReq :: gtype where
  "PDUSessionResourceSetupListHOReq = TStruct [
     Field ''List'' ''valueExt,sizeLB:1,sizeUB:256'' (TSlice PDUSessionResourceSetupItemHOReq)]"

definition AllowedNSSAIItemExtIEsExtensionValue :: gtype where
  "AllowedNSSAIItemExtIEsExtensionValue = TStruct [Field ''Present'' '''' TInt]"

definition AllowedNSSAIItemExtIEs :: gtype where
  "AllowedNSSAIItemExtIEs = TStruct [
     Field ''Id'' '''' ProtocolExtensionID,
     Field ''Criticality'' '''' Criticality,
     Field ''ExtensionValue'' ''openType,referenceFieldName:Id'' AllowedNSSAIItemExtIEsExtensionValue]"

definition ProtocolExtensionContainerAllowedNSSAIItemExtIEs :: gtype where
  "ProtocolExtensionContainerAllowedNSSAIItemExtIEs = TStruct [
     Field ''List'' ''sizeLB:1,sizeUB:65535'' (TSlice AllowedNSSAIItemExtIEs)]"

definition AllowedNSSAIItem :: gtype where
  "AllowedNSSAIItem = TStruct [
     Field ''SNSSAI'' ''valueExt'' SNSSAI,
     Field ''IEExtensions'' ''optional'' (TPtr ProtocolExtensionContainerAllowedNSSAIItemExtIEs)]"

definition AllowedNSSAI :: gtype where
  "AllowedNSSAI = TStruct [Field ''List'' ''valueExt,sizeLB:1,sizeUB:8'' (TSlice AllowedNSSAIItem)]"

definition NGRANTraceID :: gtype where
  "NGRANTraceID = TStruct [Field ''Value'' ''sizeLB:8,sizeUB:8'' TOctetString]"

definition InterfacesToTrace :: gtype where
  "InterfacesToTrace = TStruct [Field ''Value'' ''sizeLB:8,sizeUB:8'' TBitString]"

definition TraceDepth :: gtype where
  "TraceDepth = TStruct [Field ''Value'' ''valueExt,valueLB:0,valueUB:5'' TEnumerated]"

definition TraceActivationExtIEsExtensionValue :: gtype where
  "TraceActivationExtIEsExtensionValue = TStruct [Field ''Present'' '''' TInt]"

definition TraceActivationExtIEs :: gtype where
  "TraceActivationExtIEs = TStruct [
     Field ''Id'' '''' ProtocolExtensionID,
     Field ''Criticality'' '''' Criticality,
     Field ''ExtensionValue'' ''openType,referenceFieldName:Id'' TraceActivationExtIEsExtensionValue]"

definition ProtocolExtensionContainerTraceActivationExtIEs :: gtype where
  "ProtocolExtensionContainerTraceActivationExtIEs = TStruct [
     Field ''List'' ''sizeLB:1,sizeUB:65535'' (TSlice TraceActivationExtIEs)]"

definition TraceActivation :: gtype where
  "TraceActivation = TStruct [
     Field ''NGRANTraceID'' '''' NGRANTraceID,
     Field ''InterfacesToTrace'' '''' InterfacesToTrace,
     Field ''TraceDepth'' '''' TraceDepth,
     Field ''TraceCollectionEntityIPAddress'' '''' TransportLayerAddress,
     Field ''IEExtensions'' ''optional'' (TPtr ProtocolExtensionContainerTraceActivationExtIEs)]"

definition MaskedIMEISV :: gtype where
  "MaskedIMEISV = TStruct [Field ''Value'' ''sizeLB:64,sizeUB:64'' TBitString]"

definition EquivalentPLMNs :: gtype where
  "EquivalentPLMNs = TStruct [Field ''List'' ''sizeLB:1,sizeUB:15'' (TSlice PLMNIdentity)]"

definition RATRestrictionInformation :: gtype where
  "RATRestrictionInformation = TStruct [Field ''Value'' ''sizeExt,sizeLB:8,sizeUB:8'' TBitString]"

definition RATRestrictionsItemExtIEsExtensionValue :: gtype where
  "RATRestrictionsItemExtIEsExtensionValue = TStruct [Field ''Present'' '''' TInt]"

definition RATRestrictionsItemExtIEs :: gtype where
  "RATRestrictionsItemExtIEs = TStruct [
     Field ''Id'' '''' ProtocolExtensionID,
     Field ''Criticality'' '''' Criticality,
     Field ''ExtensionValue'' ''openType,referenceFieldName:Id'' RATRestrictionsItemExtIEsExtensionValue]"

definition ProtocolExtensionContainerRATRestrictionsItemExtIEs :: gtype where
  "ProtocolExtensionContainerRATRestrictionsItemExtIEs = TStruct [
     Field ''List'' ''sizeLB:1,sizeUB:65535'' (TSlice RATRestrictionsItemExtIEs)]"

definition RATRestrictionsItem :: gtype where
  "RATRestrictionsItem = TStruct [
     Field ''PLMNIdentity'' '''' PLMNIdentity,
     Field ''RATRestrictionInformation'' '''' RATRestrictionInformation,
     Field ''IEExtensions'' ''optional'' (TPtr ProtocolExtensionContainerRATRestrictionsItemExtIEs)]"

definition RATRestrictions :: gtype where
  "RATRestrictions = TStruct [Field ''List'' ''valueExt,sizeLB:0,sizeUB:16'' (TSlice RATRestrictionsItem)]"

definition ForbiddenTACs :: gtype where
  "ForbiddenTACs = TStruct [Field ''List'' ''sizeLB:1,sizeUB:4096'' (TSlice TAC)]"

definition ForbiddenAreaInformationItemExtIEsExtensionValue :: gtype where
  "ForbiddenAreaInformationItemExtIEsExtensionValue = TStruct [Field ''Present'' '''' TInt]"

definition ForbiddenAreaInformationItemExtIEs :: gtype where
  "ForbiddenAreaInformationItemExtIEs = TStruct [
     Field ''Id'' '''' ProtocolExtensionID,
     Field ''Criticality'' '''' Criticality,
     Field ''ExtensionValue'' ''openType,referenceFieldName:Id'' ForbiddenAreaInformationItemExtIEsExtensionValue]"

definition ProtocolExtensionContainerForbiddenAreaInformationItemExtIEs :: gtype where
  "ProtocolExtensionContainerForbiddenAreaInformationItemExtIEs = TStruct [
     Field ''List'' ''sizeLB:1,sizeUB:65535'' (TSlice ForbiddenAreaInformationItemExtIEs)]"

definition ForbiddenAreaInformationItem :: gtype where
  "ForbiddenAreaInformationItem = TStruct [
     Field ''PLMNIdentity'' '''' PLMNIdentity,
     Field ''ForbiddenTACs'' '''' ForbiddenTACs,
     Field ''IEExtensions'' ''optional'' (TPtr ProtocolExtensionContainerForbiddenAreaInformationItemExtIEs)]"

definition ForbiddenAreaInformation :: gtype where
  "ForbiddenAreaInformation = TStruct [
     Field ''List'' ''valueExt,sizeLB:1,sizeUB:16'' (TSlice ForbiddenAreaInformationItem)]"

definition AllowedTACs :: gtype where
  "AllowedTACs = TStruct [Field ''List'' ''sizeLB:1,sizeUB:16'' (TSlice TAC)]"

definition NotAllowedTACs :: gtype where
  "NotAllowedTACs = TStruct [Field ''List'' ''sizeLB:1,sizeUB:16'' (TSlice TAC)]"

definition ServiceAreaInformationItemExtIEsExtensionValue :: gtype where
  "ServiceAreaInformationItemExtIEsExtensionValue = TStruct [Field ''Present'' '''' TInt]"

definition ServiceAreaInformationItemExtIEs :: gtype where
  "ServiceAreaInformationItemExtIEs = TStruct [
     Field ''Id'' '''' ProtocolExtensionID,
     Field ''Criticality'' '''' Criticality,
     Field ''ExtensionValue'' ''openType,referenceFieldName:Id'' ServiceAreaInformationItemExtIEsExtensionValue]"

definition ProtocolExtensionContainerServiceAreaInformationItemExtIEs :: gtype where
  "ProtocolExtensionContainerServiceAreaInformationItemExtIEs = TStruct [
     Field ''List'' ''sizeLB:1,sizeUB:65535'' (TSlice ServiceAreaInformationItemExtIEs)]"

definition ServiceAreaInformationItem :: gtype where
  "ServiceAreaInformationItem = TStruct [
     Field ''PLMNIdentity'' '''' PLMNIdentity,
     Field ''AllowedTACs'' ''optional'' (TPtr AllowedTACs),
     Field ''NotAllowedTACs'' ''optional'' (TPtr NotAllowedTACs),
     Field ''IEExtensions'' ''optional'' (TPtr ProtocolExtensionContainerServiceAreaInformationItemExtIEs)]"

definition ServiceAreaInformation :: gtype where
  "ServiceAreaInformation = TStruct [
     Field ''List'' ''valueExt,sizeLB:1,sizeUB:16'' (TSlice ServiceAreaInformationItem)]"

definition MobilityRestrictionListExtIEsExtensionValue :: gtype where
  "MobilityRestrictionListExtIEsExtensionValue = TStruct [Field ''Present'' '''' TInt]"

definition MobilityRestrictionListExtIEs :: gtype where
  "MobilityRestrictionListExtIEs = TStruct [
     Field ''Id'' '''' ProtocolExtensionID,
     Field ''Criticality'' '''' Criticality,
     Field ''ExtensionValue'' ''openType,referenceFieldName:Id'' MobilityRestrictionListExtIEsExtensionValue]"

definition ProtocolExtensionContainerMobilityRestrictionListExtIEs :: gtype where
  "ProtocolExtensionContainerMobilityRestrictionListExtIEs = TStruct [
     Field ''List'' ''sizeLB:1,sizeUB:65535'' (TSlice MobilityRestrictionListExtIEs)]"

definition MobilityRestrictionList :: gtype where
  "MobilityRestrictionList = TStruct [
     Field ''ServingPLMN'' '''' PLMNIdentity,
     Field ''EquivalentPLMNs'' ''optional'' (TPtr EquivalentPLMNs),
     Field ''RATRestrictions'' ''optional'' (TPtr RATRestrictions),
     Field ''ForbiddenAreaInformation'' ''optional'' (TPtr ForbiddenAreaInformation),
     Field ''ServiceAreaInformation'' ''optional'' (TPtr ServiceAreaInformation),
     Field ''IEExtensions'' ''optional'' (TPtr ProtocolExtensionContainerMobilityRestrictionListExtIEs)]"

definition EventType :: gtype where
  "EventType = TStruct [Field ''Value'' ''valueExt,valueLB:0,valueUB:5'' TEnumerated]"

definition ReportArea :: gtype where
  "ReportArea = TStruct [Field ''Value'' ''valueExt,valueLB:0,valueUB:0'' TEnumerated]"

definition AreaOfInterestTAIItemExtIEsExtensionValue :: gtype where
  "AreaOfInterestTAIItemExtIEsExtensionValue = TStruct [Field ''Present'' '''' TInt]"

definition AreaOfInterestTAIItemExtIEs :: gtype where
  "AreaOfInterestTAIItemExtIEs = TStruct [
     Field ''Id'' '''' ProtocolExtensionID,
     Field ''Criticality'' '''' Criticality,
     Field ''ExtensionValue'' ''openType,referenceFieldName:Id'' AreaOfInterestTAIItemExtIEsExtensionValue]"

definition ProtocolExtensionContainerAreaOfInterestTAIItemExtIEs :: gtype where
  "ProtocolExtensionContainerAreaOfInterestTAIItemExtIEs = TStruct [
     Field ''List'' ''sizeLB:1,sizeUB:65535'' (TSlice AreaOfInterestTAIItemExtIEs)]"

definition AreaOfInterestTAIItem :: gtype where
  "AreaOfInterestTAIItem = TStruct [
     Field ''TAI'' ''valueExt'' TAI,
     Field ''IEExtensions'' ''optional'' (TPtr ProtocolExtensionContainerAreaOfInterestTAIItemExtIEs)]"

definition AreaOfInterestTAIList :: gtype where
  "AreaOfInterestTAIList = TStruct [
     Field ''List'' ''valueExt,sizeLB:1,sizeUB:16'' (TSlice AreaOfInterestTAIItem)]"

definition AreaOfInterestCellItemExtIEsExtensionValue :: gtype where
  "AreaOfInterestCellItemExtIEsExtensionValue = TStruct [Field ''Present'' '''' TInt]"

definition AreaOfInterestCellItemExtIEs :: gtype where
  "AreaOfInterestCellItemExtIEs = TStruct [
     Field ''Id'' '''' ProtocolExtensionID,
     Field ''Criticality'' '''' Criticality,
     Field ''ExtensionValue'' ''openType,referenceFieldName:Id'' AreaOfInterestCellItemExtIEsExtensionValue]"

definition ProtocolExtensionContainerAreaOfInterestCellItemExtIEs :: gtype where
  "ProtocolExtensionContainerAreaOfInterestCellItemExtIEs = TStruct [
     Field ''List'' ''sizeLB:1,sizeUB:65535'' (TSlice AreaOfInterestCellItemExtIEs)]"

definition AreaOfInterestCellItem :: gtype where
  "AreaOfInterestCellItem = TStruct [
     Field ''NGRANCGI'' ''valueLB:0,valueUB:2'' NGRANCGI,
     Field ''IEExtensions'' ''optional'' (TPtr ProtocolExtensionContainerAreaOfInterestCellItemExtIEs)]"

definition AreaOfInterestCellList :: gtype where
  "AreaOfInterestCellList = TStruct [
     Field ''List'' ''valueExt,sizeLB:1,sizeUB:256'' (TSlice AreaOfInterestCellItem)]"

definition AreaOfInterestRANNodeItemExtIEsExtensionValue :: gtype where
  "AreaOfInterestRANNodeItemExtIEsExtensionValue = TStruct [Field ''Present'' '''' TInt]"

definition AreaOfInterestRANNodeItemExtIEs :: gtype where
  "AreaOfInterestRANNodeItemExtIEs = TStruct [
     Field ''Id'' '''' ProtocolExtensionID,
     Field ''Criticality'' '''' Criticality,
     Field ''ExtensionValue'' ''openType,referenceFieldName:Id'' AreaOfInterestRANNodeItemExtIEsExtensionValue]"

definition ProtocolExtensionContainerAreaOfInterestRANNodeItemExtIEs :: gtype where
  "ProtocolExtensionContainerAreaOfInterestRANNodeItemExtIEs = TStruct [
     Field ''List'' ''sizeLB:1,sizeUB:65535'' (TSlice AreaOfInterestRANNodeItemExtIEs)]"

definition AreaOfInterestRANNodeItem :: gtype where
  "AreaOfInterestRANNodeItem = TStruct [
     Field ''GlobalRANNodeID'' ''valueLB:0,valueUB:3'' GlobalRANNodeID,
     Field ''IEExtensions'' ''optional'' (TPtr ProtocolExtensionContainerAreaOfInterestRANNodeItemExtIEs)]"

definition AreaOfInterestRANNodeList :: gtype where
  "AreaOfInterestRANNodeList = TStruct [
     Field ''List'' ''valueExt,sizeLB:1,sizeUB:64'' (TSlice AreaOfInterestRANNodeItem)]"

definition AreaOfInterestExtIEsExtensionValue :: gtype where
  "AreaOfInterestExtIEsExtensionValue = TStruct [Field ''Present'' '''' TInt]"

definition AreaOfInterestExtIEs :: gtype where
  "AreaOfInterestExtIEs = TStruct [
     Field ''Id'' '''' ProtocolExtensionID,
     Field ''Criticality'' '''' Criticality,
     Field ''ExtensionValue'' ''openType,referenceFieldName:Id'' AreaOfInterestExtIEsExtensionValue]"

definition ProtocolExtensionContainerAreaOfInterestExtIEs :: gtype where
  "ProtocolExtensionContainerAreaOfInterestExtIEs = TStruct [
     Field ''List'' ''sizeLB:1,sizeUB:65535'' (TSlice AreaOfInterestExtIEs)]"

definition AreaOfInterest :: gtype where
  "AreaOfInterest = TStruct [
     Field ''AreaOfInterestTAIList'' ''optional'' (TPtr AreaOfInterestTAIList),
     Field ''AreaOfInterestCellList'' ''optional'' (TPtr AreaOfInterestCellList),
     Field ''AreaOfInterestRANNodeList'' ''optional'' (TPtr AreaOfInterestRANNodeList),
     Field ''IEExtensions'' ''optional'' (TPtr ProtocolExtensionContainerAreaOfInterestExtIEs)]"

definition LocationReportingReferenceID :: gtype where
  "LocationReportingReferenceID = TStruct [Field ''Value'' ''valueExt,valueLB:1,valueUB:64'' TInt]"

definition AreaOfInterestItemExtIEsExtensionValue :: gtype where
  "AreaOfInterestItemExtIEsExtensionValue = TStruct [Field ''Present'' '''' TInt]"

definition AreaOfInterestItemExtIEs :: gtype where
  "AreaOfInterestItemExtIEs = TStruct [
     Field ''Id'' '''' ProtocolExtensionID,
     Field ''Criticality'' '''' Criticality,
     Field ''ExtensionValue'' ''openType,referenceFieldName:Id'' AreaOfInterestItemExtIEsExtensionValue]"

definition ProtocolExtensionContainerAreaOfInterestItemExtIEs :: gtype where
  "ProtocolExtensionContainerAreaOfInterestItemExtIEs = TStruct [
     Field ''List'' ''sizeLB:1,sizeUB:65535'' (TSlice AreaOfInterestItemExtIEs)]"

definition AreaOfInterestItem :: gtype where
  "AreaOfInterestItem = TStruct [
     Field ''AreaOfInterest'' ''valueExt'' AreaOfInterest,
     Field ''LocationReportingReferenceID'' '''' LocationReportingReferenceID,
     Field ''IEExtensions'' ''optional'' (TPtr ProtocolExtensionContainerAreaOfInterestItemExtIEs)]"

definition AreaOfInterestList :: gtype where
  "AreaOfInterestList = TStruct [Field ''List'' ''valueExt,sizeLB:1,sizeUB:64'' (TSlice AreaOfInterestItem)]"

definition LocationReportingRequestTypeExtIEsExtensionValue :: gtype where
  "LocationReportingRequestTypeExtIEsExtensionValue = TStruct [Field ''Present'' '''' TInt]"

definition LocationReportingRequestTypeExtIEs :: gtype where
  "LocationReportingRequestTypeExtIEs = TStruct [
     Field ''Id'' '''' ProtocolExtensionID,
     Field ''Criticality'' '''' Criticality,
     Field ''ExtensionValue'' ''openType,referenceFieldName:Id'' LocationReportingRequestTypeExtIEsExtensionValue]"

definition ProtocolExtensionContainerLocationReportingRequestTypeExtIEs :: gtype where
  "ProtocolExtensionContainerLocationReportingRequestTypeExtIEs = TStruct [
     Field ''List'' ''sizeLB:1,sizeUB:65535'' (TSlice LocationReportingRequestTypeExtIEs)]"

definition LocationReportingRequestType :: gtype where
  "LocationReportingRequestType = TStruct [
     Field ''EventType'' '''' EventType,
     Field ''ReportArea'' '''' ReportArea,
     Field ''AreaOfInterestList'' ''optional'' (TPtr AreaOfInterestList),
     Field ''LocationReportingReferenceIDToBeCancelled'' ''optional'' (TPtr LocationReportingReferenceID),
     Field ''IEExtensions'' ''optional'' (TPtr ProtocolExtensionContainerLocationReportingRequestTypeExtIEs)]"

definition RRCInactiveTransitionReportRequest :: gtype where
  "RRCInactiveTransitionReportRequest = TStruct [
     Field ''Value'' ''valueExt,valueLB:0,valueUB:2'' TEnumerated]"

definition HandoverRequestIEsValue :: gtype where
  "HandoverRequestIEsValue = TStruct [
     Field ''Present'' '''' TInt,
     Field ''AMFUENGAPID'' ''referenceFieldValue:10'' (TPtr AMFUENGAPID),
     Field ''HandoverType'' ''referenceFieldValue:29'' (TPtr HandoverType),
     Field ''Cause'' ''referenceFieldValue:15,valueLB:0,valueUB:5'' (TPtr Cause),
     Field ''UEAggregateMaximumBitRate'' ''valueExt,referenceFieldValue:110'' (TPtr UEAggregateMaximumBitRate),
     Field ''CoreNetworkAssistanceInformation'' ''valueExt,referenceFieldValue:18'' (TPtr CoreNetworkAssistanceInformation),
     Field ''UESecurityCapabilities'' ''valueExt,referenceFieldValue:119'' (TPtr UESecurityCapabilities),
     Field ''SecurityContext'' ''valueExt,referenceFieldValue:93'' (TPtr SecurityContext),
     Field ''NewSecurityContextInd'' ''referenceFieldValue:41'' (TPtr NewSecurityContextInd),
     Field ''NASC'' ''referenceFieldValue:37'' (TPtr NASPDU),
     Field ''PDUSessionResourceSetupListHOReq'' ''referenceFieldValue:73'' (TPtr PDUSessionResourceSetupListHOReq),
     Field ''AllowedNSSAI'' ''referenceFieldValue:0'' (TPtr AllowedNSSAI),
     Field ''TraceActivation'' ''valueExt,referenceFieldValue:108'' (TPtr TraceActivation),
     Field ''MaskedIMEISV'' ''referenceFieldValue:34'' (TPtr MaskedIMEISV),
     Field ''SourceToTargetTransparentContainer'' ''referenceFieldValue:101'' (TPtr SourceToTargetTransparentContainer),
     Field ''MobilityRestrictionList'' ''valueExt,referenceFieldValue:36'' (TPtr MobilityRestrictionList),
     Field ''LocationReportingRequestType'' ''valueExt,referenceFieldValue:33'' (TPtr LocationReportingRequestType),
     Field ''RRCInactiveTransitionReportRequest'' ''referenceFieldValue:91'' (TPtr RRCInactiveTransitionReportRequest),
     Field ''GUAMI'' ''valueExt,referenceFieldValue:28'' (TPtr GUAMI)]"

definition HandoverRequestIEs :: gtype where
  "HandoverRequestIEs = TStruct [
     Field ''Id'' '''' ProtocolIEID,
     Field ''Criticality'' '''' Criticality,
     Field ''Value'' ''openType,referenceFieldName:Id'' HandoverRequestIEsValue]"

definition ProtocolIEContainerHandoverRequestIEs :: gtype where
  "ProtocolIEContainerHandoverRequestIEs = TStruct [
     Field ''List'' ''sizeLB:0,sizeUB:65535'' (TSlice HandoverRequestIEs)]"

definition HandoverRequest :: gtype where
  "HandoverRequest = TStruct [Field ''ProtocolIEs'' '''' ProtocolIEContainerHandoverRequestIEs]"

definition PDUSessionResourceSetupItemCxtReqExtIEsExtensionValue :: gtype where
  "PDUSessionResourceSetupItemCxtReqExtIEsExtensionValue = TStruct [Field ''Present'' '''' TInt]"

definition PDUSessionResourceSetupItemCxtReqExtIEs :: gtype where
  "PDUSessionResourceSetupItemCxtReqExtIEs = TStruct [
     Field ''Id'' '''' ProtocolExtensionID,
     Field ''Criticality'' '''' Criticality,
     Field ''ExtensionValue'' ''openType,referenceFieldName:Id'' PDUSessionResourceSetupItemCxtReqExtIEsExtensionValue]"

definition ProtocolExtensionContainerPDUSessionResourceSetupItemCxtReqExtIEs :: gtype where
  "ProtocolExtensionContainerPDUSessionResourceSetupItemCxtReqExtIEs = TStruct [
     Field ''List'' ''sizeLB:1,sizeUB:65535'' (TSlice PDUSessionResourceSetupItemCxtReqExtIEs)]"

definition PDUSessionResourceSetupItemCxtReq :: gtype where
  "PDUSessionResourceSetupItemCxtReq = TStruct [
     Field ''PDUSessionID'' '''' PDUSessionID,
     Field ''NASPDU'' ''optional'' (TPtr NASPDU),
     Field ''SNSSAI'' ''valueExt'' SNSSAI,
     Field ''PDUSessionResourceSetupRequestTransfer'' '''' TOctetString,
     Field ''IEExtensions'' ''optional'' (TPtr ProtocolExtensionContainerPDUSessionResourceSetupItemCxtReqExtIEs)]"

definition PDUSessionResourceSetupListCxtReq :: gtype where
  "PDUSessionResourceSetupListCxtReq = TStruct [
     Field ''List'' ''valueExt,sizeLB:1,sizeUB:256'' (TSlice PDUSessionResourceSetupItemCxtReq)]"

definition UERadioCapability :: gtype where
  "UERadioCapability = TStruct [Field ''Value'' '''' TOctetString]"

definition IndexToRFSP :: gtype where
  "IndexToRFSP = TStruct [Field ''Value'' ''valueExt,valueLB:1,valueUB:256'' TInt]"

definition EmergencyFallbackRequestIndicator :: gtype where
  "EmergencyFallbackRequestIndicator = TStruct [Field ''Value'' ''valueExt,valueLB:0,valueUB:0'' TEnumerated]"

definition EmergencyServiceTargetCN :: gtype where
  "EmergencyServiceTargetCN = TStruct [Field ''Value'' ''valueExt,valueLB:0,valueUB:1'' TEnumerated]"

definition EmergencyFallbackIndicatorExtIEsExtensionValue :: gtype where
  "EmergencyFallbackIndicatorExtIEsExtensionValue = TStruct [Field ''Present'' '''' TInt]"

definition EmergencyFallbackIndicatorExtIEs :: gtype where
  "EmergencyFallbackIndicatorExtIEs = TStruct [
     Field ''Id'' '''' ProtocolExtensionID,
     Field ''Criticality'' '''' Criticality,
     Field ''ExtensionValue'' ''openType,referenceFieldName:Id'' EmergencyFallbackIndicatorExtIEsExtensionValue]"

definition ProtocolExtensionContainerEmergencyFallbackIndicatorExtIEs :: gtype where
  "ProtocolExtensionContainerEmergencyFallbackIndicatorExtIEs = TStruct [
     Field ''List'' ''sizeLB:1,sizeUB:65535'' (TSlice EmergencyFallbackIndicatorExtIEs)]"

definition EmergencyFallbackIndicator :: gtype where
  "EmergencyFallbackIndicator = TStruct [
     Field ''EmergencyFallbackRequestIndicator'' '''' EmergencyFallbackRequestIndicator,
     Field ''EmergencyServiceTargetCN'' ''optional'' (TPtr EmergencyServiceTargetCN),
     Field ''IEExtensions'' ''optional'' (TPtr ProtocolExtensionContainerEmergencyFallbackIndicatorExtIEs)]"

definition UERadioCapabilityForPagingOfNR :: gtype where
  "UERadioCapabilityForPagingOfNR = TStruct [Field ''Value'' '''' TOctetString]"

definition UERadioCapabilityForPagingOfEUTRA :: gtype where
  "UERadioCapabilityForPagingOfEUTRA = TStruct [Field ''Value'' '''' TOctetString]"

definition UERadioCapabilityForPagingExtIEsExtensionValue :: gtype where
  "UERadioCapabilityForPagingExtIEsExtensionValue = TStruct [Field ''Present'' '''' TInt]"

definition UERadioCapabilityForPagingExtIEs :: gtype where
  "UERadioCapabilityForPagingExtIEs = TStruct [
     Field ''Id'' '''' ProtocolExtensionID,
     Field ''Criticality'' '''' Criticality,
     Field ''ExtensionValue'' ''openType,referenceFieldName:Id'' UERadioCapabilityForPagingExtIEsExtensionValue]"

definition ProtocolExtensionContainerUERadioCapabilityForPagingExtIEs :: gtype where
  "ProtocolExtensionContainerUERadioCapabilityForPagingExtIEs = TStruct [
     Field ''List'' ''sizeLB:1,sizeUB:65535'' (TSlice UERadioCapabilityForPagingExtIEs)]"

definition UERadioCapabilityForPaging :: gtype where
  "UERadioCapabilityForPaging = TStruct [
     Field ''UERadioCapabilityForPagingOfNR'' ''optional'' (TPtr UERadioCapabilityForPagingOfNR),
     Field ''UERadioCapabilityForPagingOfEUTRA'' ''optional'' (TPtr UERadioCapabilityForPagingOfEUTRA),
     Field ''IEExtensions'' ''optional'' (TPtr ProtocolExtensionContainerUERadioCapabilityForPagingExtIEs)]"

definition InitialContextSetupRequestIEsValue :: gtype where
  "InitialContextSetupRequestIEsValue = TStruct [
     Field ''Present'' '''' TInt,
     Field ''AMFUENGAPID'' ''referenceFieldValue:10'' (TPtr AMFUENGAPID),
     Field ''RANUENGAPID'' ''referenceFieldValue:85'' (TPtr RANUENGAPID),
     Field ''OldAMF'' ''referenceFieldValue:48'' (TPtr AMFName),
     Field ''UEAggregateMaximumBitRate'' ''valueExt,referenceFieldValue:110'' (TPtr UEAggregateMaximumBitRate),
     Field ''CoreNetworkAssistanceInformation'' ''valueExt,referenceFieldValue:18'' (TPtr CoreNetworkAssistanceInformation),
     Field ''GUAMI'' ''valueExt,referenceFieldValue:28'' (TPtr GUAMI),
     Field ''PDUSessionResourceSetupListCxtReq'' ''referenceFieldValue:71'' (TPtr PDUSessionResourceSetupListCxtReq),
     Field ''AllowedNSSAI'' ''referenceFieldValue:0'' (TPtr AllowedNSSAI),
     Field ''UESecurityCapabilities'' ''valueExt,referenceFieldValue:119'' (TPtr UESecurityCapabilities),
     Field ''SecurityKey'' ''referenceFieldValue:94'' (TPtr SecurityKey),
     Field ''TraceActivation'' ''valueExt,referenceFieldValue:108'' (TPtr TraceActivation),
     Field ''MobilityRestrictionList'' ''valueExt,referenceFieldValue:36'' (TPtr MobilityRestrictionList),
     Field ''UERadioCapability'' ''referenceFieldValue:117'' (TPtr UERadioCapability),
     Field ''IndexToRFSP'' ''referenceFieldValue:31'' (TPtr IndexToRFSP),
     Field ''MaskedIMEISV'' ''referenceFieldValue:34'' (TPtr MaskedIMEISV),
     Field ''NASPDU'' ''referenceFieldValue:38'' (TPtr NASPDU),
     Field ''EmergencyFallbackIndicator'' ''valueExt,referenceFieldValue:24'' (TPtr EmergencyFallbackIndicator),
     Field ''RRCInactiveTransitionReportRequest'' ''referenceFieldValue:91'' (TPtr RRCInactiveTransitionReportRequest),
     Field ''UERadioCapabilityForPaging'' ''valueExt,referenceFieldValue:118'' (TPtr UERadioCapabilityForPaging)]"

definition InitialContextSetupRequestIEs :: gtype where
  "InitialContextSetupRequestIEs = TStruct [
     Field ''Id'' '''' ProtocolIEID,
     Field ''Criticality'' '''' Criticality,
     Field ''Value'' ''openType,referenceFieldName:Id'' InitialContextSetupRequestIEsValue]"

definition ProtocolIEContainerInitialContextSetupRequestIEs :: gtype where
  "ProtocolIEContainerInitialContextSetupRequestIEs = TStruct [
     Field ''List'' ''sizeLB:0,sizeUB:65535'' (TSlice InitialContextSetupRequestIEs)]"

definition InitialContextSetupRequest :: gtype where
  "InitialContextSetupRequest = TStruct [
     Field ''ProtocolIEs'' '''' ProtocolIEContainerInitialContextSetupRequestIEs]"

definition ResetAll :: gtype where
  "ResetAll = TStruct [Field ''Value'' ''valueExt,valueLB:0,valueUB:0'' TEnumerated]"

definition UEAssociatedLogicalNGConnectionItemExtIEsExtensionValue :: gtype where
  "UEAssociatedLogicalNGConnectionItemExtIEsExtensionValue = TStruct [Field ''Present'' '''' TInt]"

definition UEAssociatedLogicalNGConnectionItemExtIEs :: gtype where
  "UEAssociatedLogicalNGConnectionItemExtIEs = TStruct [
     Field ''Id'' '''' ProtocolExtensionID,
     Field ''Criticality'' '''' Criticality,
     Field ''ExtensionValue'' ''openType,referenceFieldName:Id'' UEAssociatedLogicalNGConnectionItemExtIEsExtensionValue]"

definition ProtocolExtensionContainerUEAssociatedLogicalNGConnectionItemExtIEs :: gtype where
  "ProtocolExtensionContainerUEAssociatedLogicalNGConnectionItemExtIEs = TStruct [
     Field ''List'' ''sizeLB:1,sizeUB:65535'' (TSlice UEAssociatedLogicalNGConnectionItemExtIEs)]"

definition UEAssociatedLogicalNGConnectionItem :: gtype where
  "UEAssociatedLogicalNGConnectionItem = TStruct [
     Field ''AMFUENGAPID'' ''optional'' (TPtr AMFUENGAPID),
     Field ''RANUENGAPID'' ''optional'' (TPtr RANUENGAPID),
     Field ''IEExtensions'' ''optional'' (TPtr ProtocolExtensionContainerUEAssociatedLogicalNGConnectionItemExtIEs)]"

definition UEAssociatedLogicalNGConnectionList :: gtype where
  "UEAssociatedLogicalNGConnectionList = TStruct [
     Field ''List'' ''valueExt,sizeLB:1,sizeUB:65536'' (TSlice UEAssociatedLogicalNGConnectionItem)]"

definition ProtocolIESingleContainerResetTypeExtIEs :: gtype where
  "ProtocolIESingleContainerResetTypeExtIEs = TStruct []"

definition ResetType :: gtype where
  "ResetType = TStruct [
     Field ''Present'' '''' TInt,
     Field ''NGInterface'' '''' (TPtr ResetAll),
     Field ''PartOfNGInterface'' '''' (TPtr UEAssociatedLogicalNGConnectionList),
     Field ''ChoiceExtensions'' '''' (TPtr ProtocolIESingleContainerResetTypeExtIEs)]"

definition NGResetIEsValue :: gtype where
  "NGResetIEsValue = TStruct [
     Field ''Present'' '''' TInt,
     Field ''Cause'' ''referenceFieldValue:15,valueLB:0,valueUB:5'' (TPtr Cause),
     Field ''ResetType'' ''referenceFieldValue:88,valueLB:0,valueUB:2'' (TPtr ResetType)]"

definition NGResetIEs :: gtype where
  "NGResetIEs = TStruct [
     Field ''Id'' '''' ProtocolIEID,
     Field ''Criticality'' '''' Criticality,
     Field ''Value'' ''openType,referenceFieldName:Id'' NGResetIEsValue]"

definition ProtocolIEContainerNGResetIEs :: gtype where
  "ProtocolIEContainerNGResetIEs = TStruct [Field ''List'' ''sizeLB:0,sizeUB:65535'' (TSlice NGResetIEs)]"

definition NGReset :: gtype where
  "NGReset = TStruct [Field ''ProtocolIEs'' '''' ProtocolIEContainerNGResetIEs]"

definition RANNodeName :: gtype where
  "RANNodeName = TStruct [Field ''Value'' ''sizeExt,sizeLB:1,sizeUB:150'' TString]"

definition BroadcastPLMNItemExtIEsExtensionValue :: gtype where
  "BroadcastPLMNItemExtIEsExtensionValue = TStruct [Field ''Present'' '''' TInt]"

definition BroadcastPLMNItemExtIEs :: gtype where
  "BroadcastPLMNItemExtIEs = TStruct [
     Field ''Id'' '''' ProtocolExtensionID,
     Field ''Criticality'' '''' Criticality,
     Field ''ExtensionValue'' ''openType,referenceFieldName:Id'' BroadcastPLMNItemExtIEsExtensionValue]"

definition ProtocolExtensionContainerBroadcastPLMNItemExtIEs :: gtype where
  "ProtocolExtensionContainerBroadcastPLMNItemExtIEs = TStruct [
     Field ''List'' ''sizeLB:1,sizeUB:65535'' (TSlice BroadcastPLMNItemExtIEs)]"

definition BroadcastPLMNItem :: gtype where
  "BroadcastPLMNItem = TStruct [
     Field ''PLMNIdentity'' '''' PLMNIdentity,
     Field ''TAISliceSupportList'' '''' SliceSupportList,
     Field ''IEExtensions'' ''optional'' (TPtr ProtocolExtensionContainerBroadcastPLMNItemExtIEs)]"

definition BroadcastPLMNList :: gtype where
  "BroadcastPLMNList = TStruct [Field ''List'' ''valueExt,sizeLB:1,sizeUB:12'' (TSlice BroadcastPLMNItem)]"

definition SupportedTAItemExtIEsExtensionValue :: gtype where
  "SupportedTAItemExtIEsExtensionValue = TStruct [Field ''Present'' '''' TInt]"

definition SupportedTAItemExtIEs :: gtype where
  "SupportedTAItemExtIEs = TStruct [
     Field ''Id'' '''' ProtocolExtensionID,
     Field ''Criticality'' '''' Criticality,
     Field ''ExtensionValue'' ''openType,referenceFieldName:Id'' SupportedTAItemExtIEsExtensionValue]"

definition ProtocolExtensionContainerSupportedTAItemExtIEs :: gtype where
  "ProtocolExtensionContainerSupportedTAItemExtIEs = TStruct [
     Field ''List'' ''sizeLB:1,sizeUB:65535'' (TSlice SupportedTAItemExtIEs)]"

definition SupportedTAItem :: gtype where
  "SupportedTAItem = TStruct [
     Field ''TAC'' '''' TAC,
     Field ''BroadcastPLMNList'' '''' BroadcastPLMNList,
     Field ''IEExtensions'' ''optional'' (TPtr ProtocolExtensionContainerSupportedTAItemExtIEs)]"

definition SupportedTAList :: gtype where
  "SupportedTAList = TStruct [Field ''List'' ''valueExt,sizeLB:1,sizeUB:256'' (TSlice SupportedTAItem)]"

definition NGSetupRequestIEsValue :: gtype where
  "NGSetupRequestIEsValue = TStruct [
     Field ''Present'' '''' TInt,
     Field ''GlobalRANNodeID'' ''referenceFieldValue:27,valueLB:0,valueUB:3'' (TPtr GlobalRANNodeID),
     Field ''RANNodeName'' ''referenceFieldValue:82'' (TPtr RANNodeName),
     Field ''SupportedTAList'' ''referenceFieldValue:102'' (TPtr SupportedTAList),
     Field ''DefaultPagingDRX'' ''referenceFieldValue:21'' (TPtr PagingDRX)]"

definition NGSetupRequestIEs :: gtype where
  "NGSetupRequestIEs = TStruct [
     Field ''Id'' '''' ProtocolIEID,
     Field ''Criticality'' '''' Criticality,
     Field ''Value'' ''openType,referenceFieldName:Id'' NGSetupRequestIEsValue]"

definition ProtocolIEContainerNGSetupRequestIEs :: gtype where
  "ProtocolIEContainerNGSetupRequestIEs = TStruct [
     Field ''List'' ''sizeLB:0,sizeUB:65535'' (TSlice NGSetupRequestIEs)]"

definition NGSetupRequest :: gtype where
  "NGSetupRequest = TStruct [Field ''ProtocolIEs'' '''' ProtocolIEContainerNGSetupRequestIEs]"

definition TimeStamp :: gtype where
  "TimeStamp = TStruct [Field ''Value'' ''sizeLB:4,sizeUB:4'' TOctetString]"

definition UserLocationInformationEUTRAExtIEsExtensionValue :: gtype where
  "UserLocationInformationEUTRAExtIEsExtensionValue = TStruct [Field ''Present'' '''' TInt]"

definition UserLocationInformationEUTRAExtIEs :: gtype where
  "UserLocationInformationEUTRAExtIEs = TStruct [
     Field ''Id'' '''' ProtocolExtensionID,
     Field ''Criticality'' '''' Criticality,
     Field ''ExtensionValue'' ''openType,referenceFieldName:Id'' UserLocationInformationEUTRAExtIEsExtensionValue]"

definition ProtocolExtensionContainerUserLocationInformationEUTRAExtIEs :: gtype where
  "ProtocolExtensionContainerUserLocationInformationEUTRAExtIEs = TStruct [
     Field ''List'' ''sizeLB:1,sizeUB:65535'' (TSlice UserLocationInformationEUTRAExtIEs)]"

definition UserLocationInformationEUTRA :: gtype where
  "UserLocationInformationEUTRA = TStruct [
     Field ''EUTRACGI'' ''valueExt'' EUTRACGI,
     Field ''TAI'' ''valueExt'' TAI,
     Field ''TimeStamp'' ''optional'' (TPtr TimeStamp),
     Field ''IEExtensions'' ''optional'' (TPtr ProtocolExtensionContainerUserLocationInformationEUTRAExtIEs)]"

definition UserLocationInformationNRExtIEsExtensionValue :: gtype where
  "UserLocationInformationNRExtIEsExtensionValue = TStruct [Field ''Present'' '''' TInt]"

definition UserLocationInformationNRExtIEs :: gtype where
  "UserLocationInformationNRExtIEs = TStruct [
     Field ''Id'' '''' ProtocolExtensionID,
     Field ''Criticality'' '''' Criticality,
     Field ''ExtensionValue'' ''openType,referenceFieldName:Id'' UserLocationInformationNRExtIEsExtensionValue]"

definition ProtocolExtensionContainerUserLocationInformationNRExtIEs :: gtype where
  "ProtocolExtensionContainerUserLocationInformationNRExtIEs = TStruct [
     Field ''List'' ''sizeLB:1,sizeUB:65535'' (TSlice UserLocationInformationNRExtIEs)]"

definition UserLocationInformationNR :: gtype where
  "UserLocationInformationNR = TStruct [
     Field ''NRCGI'' ''valueExt'' NRCGI,
     Field ''TAI'' ''valueExt'' TAI,
     Field ''TimeStamp'' ''optional'' (TPtr TimeStamp),
     Field ''IEExtensions'' ''optional'' (TPtr ProtocolExtensionContainerUserLocationInformationNRExtIEs)]"

definition PortNumber :: gtype where
  "PortNumber = TStruct [Field ''Value'' ''sizeLB:2,sizeUB:2'' TOctetString]"

definition UserLocationInformationN3IWFExtIEsExtensionValue :: gtype where
  "UserLocationInformationN3IWFExtIEsExtensionValue = TStruct [Field ''Present'' '''' TInt]"

definition UserLocationInformationN3IWFExtIEs :: gtype where
  "UserLocationInformationN3IWFExtIEs = TStruct [
     Field ''Id'' '''' ProtocolExtensionID,
     Field ''Criticality'' '''' Criticality,
     Field ''ExtensionValue'' ''openType,referenceFieldName:Id'' UserLocationInformationN3IWFExtIEsExtensionValue]"

definition ProtocolExtensionContainerUserLocationInformationN3IWFExtIEs :: gtype where
  "ProtocolExtensionContainerUserLocationInformationN3IWFExtIEs = TStruct [
     Field ''List'' ''sizeLB:1,sizeUB:65535'' (TSlice UserLocationInformationN3IWFExtIEs)]"

definition UserLocationInformationN3IWF :: gtype where
  "UserLocationInformationN3IWF = TStruct [
     Field ''IPAddress'' '''' TransportLayerAddress,
     Field ''PortNumber'' '''' PortNumber,
     Field ''IEExtensions'' ''optional'' (TPtr ProtocolExtensionContainerUserLocationInformationN3IWFExtIEs)]"

definition ProtocolIESingleContainerUserLocationInformationExtIEs :: gtype where
  "ProtocolIESingleContainerUserLocationInformationExtIEs = TStruct []"

definition UserLocationInformation :: gtype where
  "UserLocationInformation = TStruct [
     Field ''Present'' '''' TInt,
     Field ''UserLocationInformationEUTRA'' ''valueExt'' (TPtr UserLocationInformationEUTRA),
     Field ''UserLocationInformationNR'' ''valueExt'' (TPtr UserLocationInformationNR),
     Field ''UserLocationInformationN3IWF'' ''valueExt'' (TPtr UserLocationInformationN3IWF),
     Field ''ChoiceExtensions'' '''' (TPtr ProtocolIESingleContainerUserLocationInformationExtIEs)]"

definition PDUSessionResourceToBeSwitchedDLItemExtIEsExtensionValue :: gtype where
  "PDUSessionResourceToBeSwitchedDLItemExtIEsExtensionValue = TStruct [Field ''Present'' '''' TInt]"

definition PDUSessionResourceToBeSwitchedDLItemExtIEs :: gtype where
  "PDUSessionResourceToBeSwitchedDLItemExtIEs = TStruct [
     Field ''Id'' '''' ProtocolExtensionID,
     Field ''Criticality'' '''' Criticality,
     Field ''ExtensionValue'' ''openType,referenceFieldName:Id'' PDUSessionResourceToBeSwitchedDLItemExtIEsExtensionValue]"

definition ProtocolExtensionContainerPDUSessionResourceToBeSwitchedDLItemExtIEs :: gtype where
  "ProtocolExtensionContainerPDUSessionResourceToBeSwitchedDLItemExtIEs = TStruct [
     Field ''List'' ''sizeLB:1,sizeUB:65535'' (TSlice PDUSessionResourceToBeSwitchedDLItemExtIEs)]"

definition PDUSessionResourceToBeSwitchedDLItem :: gtype where
  "PDUSessionResourceToBeSwitchedDLItem = TStruct [
     Field ''PDUSessionID'' '''' PDUSessionID,
     Field ''PathSwitchRequestTransfer'' '''' TOctetString,
     Field ''IEExtensions'' ''optional'' (TPtr ProtocolExtensionContainerPDUSessionResourceToBeSwitchedDLItemExtIEs)]"

definition PDUSessionResourceToBeSwitchedDLList :: gtype where
  "PDUSessionResourceToBeSwitchedDLList = TStruct [
     Field ''List'' ''valueExt,sizeLB:1,sizeUB:256'' (TSlice PDUSessionResourceToBeSwitchedDLItem)]"

definition PDUSessionResourceFailedToSetupItemPSReqExtIEsExtensionValue :: gtype where
  "PDUSessionResourceFailedToSetupItemPSReqExtIEsExtensionValue = TStruct [Field ''Present'' '''' TInt]"

definition PDUSessionResourceFailedToSetupItemPSReqExtIEs :: gtype where
  "PDUSessionResourceFailedToSetupItemPSReqExtIEs = TStruct [
     Field ''Id'' '''' ProtocolExtensionID,
     Field ''Criticality'' '''' Criticality,
     Field ''ExtensionValue'' ''openType,referenceFieldName:Id'' PDUSessionResourceFailedToSetupItemPSReqExtIEsExtensionValue]"

definition ProtocolExtensionContainerPDUSessionResourceFailedToSetupItemPSReqExtIEs :: gtype where
  "ProtocolExtensionContainerPDUSessionResourceFailedToSetupItemPSReqExtIEs = TStruct [
     Field ''List'' ''sizeLB:1,sizeUB:65535'' (TSlice PDUSessionResourceFailedToSetupItemPSReqExtIEs)]"

definition PDUSessionResourceFailedToSetupItemPSReq :: gtype where
  "PDUSessionResourceFailedToSetupItemPSReq = TStruct [
     Field ''PDUSessionID'' '''' PDUSessionID,
     Field ''PathSwitchRequestSetupFailedTransfer'' '''' TOctetString,
     Field ''IEExtensions'' ''optional'' (TPtr ProtocolExtensionContainerPDUSessionResourceFailedToSetupItemPSReqExtIEs)]"

definition PDUSessionResourceFailedToSetupListPSReq :: gtype where
  "PDUSessionResourceFailedToSetupListPSReq = TStruct [
     Field ''List'' ''valueExt,sizeLB:1,sizeUB:256'' (TSlice PDUSessionResourceFailedToSetupItemPSReq)]"

definition PathSwitchRequestIEsValue :: gtype where
  "PathSwitchRequestIEsValue = TStruct [
     Field ''Present'' '''' TInt,
     Field ''RANUENGAPID'' ''referenceFieldValue:85'' (TPtr RANUENGAPID),
     Field ''SourceAMFUENGAPID'' ''referenceFieldValue:100'' (TPtr AMFUENGAPID),
     Field ''UserLocationInformation'' ''referenceFieldValue:121,valueLB:0,valueUB:3'' (TPtr UserLocationInformation),
     Field ''UESecurityCapabilities'' ''valueExt,referenceFieldValue:119'' (TPtr UESecurityCapabilities),
     Field ''PDUSessionResourceToBeSwitchedDLList'' ''referenceFieldValue:76'' (TPtr PDUSessionResourceToBeSwitchedDLList),
     Field ''PDUSessionResourceFailedToSetupListPSReq'' ''referenceFieldValue:57'' (TPtr PDUSessionResourceFailedToSetupListPSReq)]"

definition PathSwitchRequestIEs :: gtype where
  "PathSwitchRequestIEs = TStruct [
     Field ''Id'' '''' ProtocolIEID,
     Field ''Criticality'' '''' Criticality,
     Field ''Value'' ''openType,referenceFieldName:Id'' PathSwitchRequestIEsValue]"

definition ProtocolIEContainerPathSwitchRequestIEs :: gtype where
  "ProtocolIEContainerPathSwitchRequestIEs = TStruct [
     Field ''List'' ''sizeLB:0,sizeUB:65535'' (TSlice PathSwitchRequestIEs)]"

definition PathSwitchRequest :: gtype where
  "PathSwitchRequest = TStruct [Field ''ProtocolIEs'' '''' ProtocolIEContainerPathSwitchRequestIEs]"

definition RANPagingPriority :: gtype where
  "RANPagingPriority = TStruct [Field ''Value'' ''valueLB:1,valueUB:256'' TInt]"

definition PDUSessionResourceModifyItemModReqExtIEsExtensionValue :: gtype where
  "PDUSessionResourceModifyItemModReqExtIEsExtensionValue = TStruct [Field ''Present'' '''' TInt]"

definition PDUSessionResourceModifyItemModReqExtIEs :: gtype where
  "PDUSessionResourceModifyItemModReqExtIEs = TStruct [
     Field ''Id'' '''' ProtocolExtensionID,
     Field ''Criticality'' '''' Criticality,
     Field ''ExtensionValue'' ''openType,referenceFieldName:Id'' PDUSessionResourceModifyItemModReqExtIEsExtensionValue]"

definition ProtocolExtensionContainerPDUSessionResourceModifyItemModReqExtIEs :: gtype where
  "ProtocolExtensionContainerPDUSessionResourceModifyItemModReqExtIEs = TStruct [
     Field ''List'' ''sizeLB:1,sizeUB:65535'' (TSlice PDUSessionResourceModifyItemModReqExtIEs)]"

definition PDUSessionResourceModifyItemModReq :: gtype where
  "PDUSessionResourceModifyItemModReq = TStruct [
     Field ''PDUSessionID'' '''' PDUSessionID,
     Field ''NASPDU'' ''optional'' (TPtr NASPDU),
     Field ''PDUSessionResourceModifyRequestTransfer'' '''' TOctetString,
     Field ''IEExtensions'' ''optional'' (TPtr ProtocolExtensionContainerPDUSessionResourceModifyItemModReqExtIEs)]"

definition PDUSessionResourceModifyListModReq :: gtype where
  "PDUSessionResourceModifyListModReq = TStruct [
     Field ''List'' ''valueExt,sizeLB:1,sizeUB:256'' (TSlice PDUSessionResourceModifyItemModReq)]"

definition PDUSessionResourceModifyRequestIEsValue :: gtype where
  "PDUSessionResourceModifyRequestIEsValue = TStruct [
     Field ''Present'' '''' TInt,
     Field ''AMFUENGAPID'' ''referenceFieldValue:10'' (TPtr AMFUENGAPID),
     Field ''RANUENGAPID'' ''referenceFieldValue:85'' (TPtr RANUENGAPID),
     Field ''RANPagingPriority'' ''referenceFieldValue:83'' (TPtr RANPagingPriority),
     Field ''PDUSessionResourceModifyListModReq'' ''referenceFieldValue:64'' (TPtr PDUSessionResourceModifyListModReq)]"

definition PDUSessionResourceModifyRequestIEs :: gtype where
  "PDUSessionResourceModifyRequestIEs = TStruct [
     Field ''Id'' '''' ProtocolIEID,
     Field ''Criticality'' '''' Criticality,
     Field ''Value'' ''openType,referenceFieldName:Id'' PDUSessionResourceModifyRequestIEsValue]"

definition ProtocolIEContainerPDUSessionResourceModifyRequestIEs :: gtype where
  "ProtocolIEContainerPDUSessionResourceModifyRequestIEs = TStruct [
     Field ''List'' ''sizeLB:0,sizeUB:65535'' (TSlice PDUSessionResourceModifyRequestIEs)]"

definition PDUSessionResourceModifyRequest :: gtype where
  "PDUSessionResourceModifyRequest = TStruct [
     Field ''ProtocolIEs'' '''' ProtocolIEContainerPDUSessionResourceModifyRequestIEs]"

definition PDUSessionResourceModifyItemModIndExtIEsExtensionValue :: gtype where
  "PDUSessionResourceModifyItemModIndExtIEsExtensionValue = TStruct [Field ''Present'' '''' TInt]"

definition PDUSessionResourceModifyItemModIndExtIEs :: gtype where
  "PDUSessionResourceModifyItemModIndExtIEs = TStruct [
     Field ''Id'' '''' ProtocolExtensionID,
     Field ''Criticality'' '''' Criticality,
     Field ''ExtensionValue'' ''openType,referenceFieldName:Id'' PDUSessionResourceModifyItemModIndExtIEsExtensionValue]"

definition ProtocolExtensionContainerPDUSessionResourceModifyItemModIndExtIEs :: gtype where
  "ProtocolExtensionContainerPDUSessionResourceModifyItemModIndExtIEs = TStruct [
     Field ''List'' ''sizeLB:1,sizeUB:65535'' (TSlice PDUSessionResourceModifyItemModIndExtIEs)]"

definition PDUSessionResourceModifyItemModInd :: gtype where
  "PDUSessionResourceModifyItemModInd = TStruct [
     Field ''PDUSessionID'' '''' PDUSessionID,
     Field ''PDUSessionResourceModifyIndicationTransfer'' '''' TOctetString,
     Field ''IEExtensions'' ''optional'' (TPtr ProtocolExtensionContainerPDUSessionResourceModifyItemModIndExtIEs)]"

definition PDUSessionResourceModifyListModInd :: gtype where
  "PDUSessionResourceModifyListModInd = TStruct [
     Field ''List'' ''valueExt,sizeLB:1,sizeUB:256'' (TSlice PDUSessionResourceModifyItemModInd)]"

definition PDUSessionResourceModifyIndicationIEsValue :: gtype where
  "PDUSessionResourceModifyIndicationIEsValue = TStruct [
     Field ''Present'' '''' TInt,
     Field ''AMFUENGAPID'' ''referenceFieldValue:10'' (TPtr AMFUENGAPID),
     Field ''RANUENGAPID'' ''referenceFieldValue:85'' (TPtr RANUENGAPID),
     Field ''PDUSessionResourceModifyListModInd'' ''referenceFieldValue:63'' (TPtr PDUSessionResourceModifyListModInd)]"

definition PDUSessionResourceModifyIndicationIEs :: gtype where
  "PDUSessionResourceModifyIndicationIEs = TStruct [
     Field ''Id'' '''' ProtocolIEID,
     Field ''Criticality'' '''' Criticality,
     Field ''Value'' ''openType,referenceFieldName:Id'' PDUSessionResourceModifyIndicationIEsValue]"

definition ProtocolIEContainerPDUSessionResourceModifyIndicationIEs :: gtype where
  "ProtocolIEContainerPDUSessionResourceModifyIndicationIEs = TStruct [
     Field ''List'' ''sizeLB:0,sizeUB:65535'' (TSlice PDUSessionResourceModifyIndicationIEs)]"

definition PDUSessionResourceModifyIndication :: gtype where
  "PDUSessionResourceModifyIndication = TStruct [
     Field ''ProtocolIEs'' '''' ProtocolIEContainerPDUSessionResourceModifyIndicationIEs]"

definition PDUSessionResourceToReleaseItemRelCmdExtIEsExtensionValue :: gtype where
  "PDUSessionResourceToReleaseItemRelCmdExtIEsExtensionValue = TStruct [Field ''Present'' '''' TInt]"

definition PDUSessionResourceToReleaseItemRelCmdExtIEs :: gtype where
  "PDUSessionResourceToReleaseItemRelCmdExtIEs = TStruct [
     Field ''Id'' '''' ProtocolExtensionID,
     Field ''Criticality'' '''' Criticality,
     Field ''ExtensionValue'' ''openType,referenceFieldName:Id'' PDUSessionResourceToReleaseItemRelCmdExtIEsExtensionValue]"

definition ProtocolExtensionContainerPDUSessionResourceToReleaseItemRelCmdExtIEs :: gtype where
  "ProtocolExtensionContainerPDUSessionResourceToReleaseItemRelCmdExtIEs = TStruct [
     Field ''List'' ''sizeLB:1,sizeUB:65535'' (TSlice PDUSessionResourceToReleaseItemRelCmdExtIEs)]"

definition PDUSessionResourceToReleaseItemRelCmd :: gtype where
  "PDUSessionResourceToReleaseItemRelCmd = TStruct [
     Field ''PDUSessionID'' '''' PDUSessionID,
     Field ''PDUSessionResourceReleaseCommandTransfer'' '''' TOctetString,
     Field ''IEExtensions'' ''optional'' (TPtr ProtocolExtensionContainerPDUSessionResourceToReleaseItemRelCmdExtIEs)]"

definition PDUSessionResourceToReleaseListRelCmd :: gtype where
  "PDUSessionResourceToReleaseListRelCmd = TStruct [
     Field ''List'' ''valueExt,sizeLB:1,sizeUB:256'' (TSlice PDUSessionResourceToReleaseItemRelCmd)]"

definition PDUSessionResourceReleaseCommandIEsValue :: gtype where
  "PDUSessionResourceReleaseCommandIEsValue = TStruct [
     Field ''Present'' '''' TInt,
     Field ''AMFUENGAPID'' ''referenceFieldValue:10'' (TPtr AMFUENGAPID),
     Field ''RANUENGAPID'' ''referenceFieldValue:85'' (TPtr RANUENGAPID),
     Field ''RANPagingPriority'' ''referenceFieldValue:83'' (TPtr RANPagingPriority),
     Field ''NASPDU'' ''referenceFieldValue:38'' (TPtr NASPDU),
     Field ''PDUSessionResourceToReleaseListRelCmd'' ''referenceFieldValue:79'' (TPtr PDUSessionResourceToReleaseListRelCmd)]"

definition PDUSessionResourceReleaseCommandIEs :: gtype where
  "PDUSessionResourceReleaseCommandIEs = TStruct [
     Field ''Id'' '''' ProtocolIEID,
     Field ''Criticality'' '''' Criticality,
     Field ''Value'' ''openType,referenceFieldName:Id'' PDUSessionResourceReleaseCommandIEsValue]"

definition ProtocolIEContainerPDUSessionResourceReleaseCommandIEs :: gtype where
  "ProtocolIEContainerPDUSessionResourceReleaseCommandIEs = TStruct [
     Field ''List'' ''sizeLB:0,sizeUB:65535'' (TSlice PDUSessionResourceReleaseCommandIEs)]"

definition PDUSessionResourceReleaseCommand :: gtype where
  "PDUSessionResourceReleaseCommand = TStruct [
     Field ''ProtocolIEs'' '''' ProtocolIEContainerPDUSessionResourceReleaseCommandIEs]"

definition PDUSessionResourceSetupItemSUReqExtIEsExtensionValue :: gtype where
  "PDUSessionResourceSetupItemSUReqExtIEsExtensionValue = TStruct [Field ''Present'' '''' TInt]"

definition PDUSessionResourceSetupItemSUReqExtIEs :: gtype where
  "PDUSessionResourceSetupItemSUReqExtIEs = TStruct [
     Field ''Id'' '''' ProtocolExtensionID,
     Field ''Criticality'' '''' Criticality,
     Field ''ExtensionValue'' ''openType,referenceFieldName:Id'' PDUSessionResourceSetupItemSUReqExtIEsExtensionValue]"

definition ProtocolExtensionContainerPDUSessionResourceSetupItemSUReqExtIEs :: gtype where
  "ProtocolExtensionContainerPDUSessionResourceSetupItemSUReqExtIEs = TStruct [
     Field ''List'' ''sizeLB:1,sizeUB:65535'' (TSlice PDUSessionResourceSetupItemSUReqExtIEs)]"

definition PDUSessionResourceSetupItemSUReq :: gtype where
  "PDUSessionResourceSetupItemSUReq = TStruct [
     Field ''PDUSessionID'' '''' PDUSessionID,
     Field ''PDUSessionNASPDU'' ''optional'' (TPtr NASPDU),
     Field ''SNSSAI'' ''valueExt'' SNSSAI,
     Field ''PDUSessionResourceSetupRequestTransfer'' '''' TOctetString,
     Field ''IEExtensions'' ''optional'' (TPtr ProtocolExtensionContainerPDUSessionResourceSetupItemSUReqExtIEs)]"

definition PDUSessionResourceSetupListSUReq :: gtype where
  "PDUSessionResourceSetupListSUReq = TStruct [
     Field ''List'' ''valueExt,sizeLB:1,sizeUB:256'' (TSlice PDUSessionResourceSetupItemSUReq)]"

definition PDUSessionResourceSetupRequestIEsValue :: gtype where
  "PDUSessionResourceSetupRequestIEsValue = TStruct [
     Field ''Present'' '''' TInt,
     Field ''AMFUENGAPID'' ''referenceFieldValue:10'' (TPtr AMFUENGAPID),
     Field ''RANUENGAPID'' ''referenceFieldValue:85'' (TPtr RANUENGAPID),
     Field ''RANPagingPriority'' ''referenceFieldValue:83'' (TPtr RANPagingPriority),
     Field ''NASPDU'' ''referenceFieldValue:38'' (TPtr NASPDU),
     Field ''PDUSessionResourceSetupListSUReq'' ''referenceFieldValue:74'' (TPtr PDUSessionResourceSetupListSUReq),
     Field ''UEAggregateMaximumBitRate'' ''valueExt,referenceFieldValue:110'' (TPtr UEAggregateMaximumBitRate)]"

definition PDUSessionResourceSetupRequestIEs :: gtype where
  "PDUSessionResourceSetupRequestIEs = TStruct [
     Field ''Id'' '''' ProtocolIEID,
     Field ''Criticality'' '''' Criticality,
     Field ''Value'' ''openType,referenceFieldName:Id'' PDUSessionResourceSetupRequestIEsValue]"

definition ProtocolIEContainerPDUSessionResourceSetupRequestIEs :: gtype where
  "ProtocolIEContainerPDUSessionResourceSetupRequestIEs = TStruct [
     Field ''List'' ''sizeLB:0,sizeUB:65535'' (TSlice PDUSessionResourceSetupRequestIEs)]"

definition PDUSessionResourceSetupRequest :: gtype where
  "PDUSessionResourceSetupRequest = TStruct [
     Field ''ProtocolIEs'' '''' ProtocolIEContainerPDUSessionResourceSetupRequestIEs]"

definition MessageIdentifier :: gtype where
  "MessageIdentifier = TStruct [Field ''Value'' ''sizeLB:16,sizeUB:16'' TBitString]"

definition SerialNumber :: gtype where
  "SerialNumber = TStruct [Field ''Value'' ''sizeLB:16,sizeUB:16'' TBitString]"

definition EUTRACGIListForWarning :: gtype where
  "EUTRACGIListForWarning = TStruct [Field ''List'' ''valueExt,sizeLB:1,sizeUB:65535'' (TSlice EUTRACGI)]"

definition NRCGIListForWarning :: gtype where
  "NRCGIListForWarning = TStruct [Field ''List'' ''valueExt,sizeLB:1,sizeUB:65535'' (TSlice NRCGI)]"

definition TAIListForWarning :: gtype where
  "TAIListForWarning = TStruct [Field ''List'' ''valueExt,sizeLB:1,sizeUB:65535'' (TSlice TAI)]"

definition EmergencyAreaID :: gtype where
  "EmergencyAreaID = TStruct [Field ''Value'' ''sizeLB:3,sizeUB:3'' TOctetString]"

definition EmergencyAreaIDList :: gtype where
  "EmergencyAreaIDList = TStruct [Field ''List'' ''sizeLB:1,sizeUB:65535'' (TSlice EmergencyAreaID)]"

definition ProtocolIESingleContainerWarningAreaListExtIEs :: gtype where
  "ProtocolIESingleContainerWarningAreaListExtIEs = TStruct []"

definition WarningAreaList :: gtype where
  "WarningAreaList = TStruct [
     Field ''Present'' '''' TInt,
     Field ''EUTRACGIListForWarning'' '''' (TPtr EUTRACGIListForWarning),
     Field ''NRCGIListForWarning'' '''' (TPtr NRCGIListForWarning),
     Field ''TAIListForWarning'' '''' (TPtr TAIListForWarning),
     Field ''EmergencyAreaIDList'' '''' (TPtr EmergencyAreaIDList),
     Field ''ChoiceExtensions'' '''' (TPtr ProtocolIESingleContainerWarningAreaListExtIEs)]"

definition CancelAllWarningMessages :: gtype where
  "CancelAllWarningMessages = TStruct [Field ''Value'' ''valueExt,valueLB:0,valueUB:0'' TEnumerated]"

definition PWSCancelRequestIEsValue :: gtype where
  "PWSCancelRequestIEsValue = TStruct [
     Field ''Present'' '''' TInt,
     Field ''MessageIdentifier'' ''referenceFieldValue:35'' (TPtr MessageIdentifier),
     Field ''SerialNumber'' ''referenceFieldValue:95'' (TPtr SerialNumber),
     Field ''WarningAreaList'' ''referenceFieldValue:122,valueLB:0,valueUB:4'' (TPtr WarningAreaList),
     Field ''CancelAllWarningMessages'' ''referenceFieldValue:14'' (TPtr CancelAllWarningMessages)]"

definition PWSCancelRequestIEs :: gtype where
  "PWSCancelRequestIEs = TStruct [
     Field ''Id'' '''' ProtocolIEID,
     Field ''Criticality'' '''' Criticality,
     Field ''Value'' ''openType,referenceFieldName:Id'' PWSCancelRequestIEsValue]"

definition ProtocolIEContainerPWSCancelRequestIEs :: gtype where
  "ProtocolIEContainerPWSCancelRequestIEs = TStruct [
     Field ''List'' ''sizeLB:0,sizeUB:65535'' (TSlice PWSCancelRequestIEs)]"

definition PWSCancelRequest :: gtype where
  "PWSCancelRequest = TStruct [Field ''ProtocolIEs'' '''' ProtocolIEContainerPWSCancelRequestIEs]"

definition RANConfigurationUpdateIEsValue :: gtype where
  "RANConfigurationUpdateIEsValue = TStruct [
     Field ''Present'' '''' TInt,
     Field ''RANNodeName'' ''referenceFieldValue:82'' (TPtr RANNodeName),
     Field ''SupportedTAList'' ''referenceFieldValue:102'' (TPtr SupportedTAList),
     Field ''DefaultPagingDRX'' ''referenceFieldValue:21'' (TPtr PagingDRX)]"

definition RANConfigurationUpdateIEs :: gtype where
  "RANConfigurationUpdateIEs = TStruct [
     Field ''Id'' '''' ProtocolIEID,
     Field ''Criticality'' '''' Criticality,
     Field ''Value'' ''openType,referenceFieldName:Id'' RANConfigurationUpdateIEsValue]"

definition ProtocolIEContainerRANConfigurationUpdateIEs :: gtype where
  "ProtocolIEContainerRANConfigurationUpdateIEs = TStruct [
     Field ''List'' ''sizeLB:0,sizeUB:65535'' (TSlice RANConfigurationUpdateIEs)]"

definition RANConfigurationUpdate :: gtype where
  "RANConfigurationUpdate = TStruct [Field ''ProtocolIEs'' '''' ProtocolIEContainerRANConfigurationUpdateIEs]"

definition UEContextModificationRequestIEsValue :: gtype where
  "UEContextModificationRequestIEsValue = TStruct [
     Field ''Present'' '''' TInt,
     Field ''AMFUENGAPID'' ''referenceFieldValue:10'' (TPtr AMFUENGAPID),
     Field ''RANUENGAPID'' ''referenceFieldValue:85'' (TPtr RANUENGAPID),
     Field ''RANPagingPriority'' ''referenceFieldValue:83'' (TPtr RANPagingPriority),
     Field ''SecurityKey'' ''referenceFieldValue:94'' (TPtr SecurityKey),
     Field ''IndexToRFSP'' ''referenceFieldValue:31'' (TPtr IndexToRFSP),
     Field ''UEAggregateMaximumBitRate'' ''valueExt,referenceFieldValue:110'' (TPtr UEAggregateMaximumBitRate),
     Field ''UESecurityCapabilities'' ''valueExt,referenceFieldValue:119'' (TPtr UESecurityCapabilities),
     Field ''CoreNetworkAssistanceInformation'' ''valueExt,referenceFieldValue:18'' (TPtr CoreNetworkAssistanceInformation),
     Field ''EmergencyFallbackIndicator'' ''valueExt,referenceFieldValue:24'' (TPtr EmergencyFallbackIndicator),
     Field ''NewAMFUENGAPID'' ''referenceFieldValue:40'' (TPtr AMFUENGAPID),
     Field ''RRCInactiveTransitionReportRequest'' ''referenceFieldValue:91'' (TPtr RRCInactiveTransitionReportRequest)]"

definition UEContextModificationRequestIEs :: gtype where
  "UEContextModificationRequestIEs = TStruct [
     Field ''Id'' '''' ProtocolIEID,
     Field ''Criticality'' '''' Criticality,
     Field ''Value'' ''openType,referenceFieldName:Id'' UEContextModificationRequestIEsValue]"

definition ProtocolIEContainerUEContextModificationRequestIEs :: gtype where
  "ProtocolIEContainerUEContextModificationRequestIEs = TStruct [
     Field ''List'' ''sizeLB:0,sizeUB:65535'' (TSlice UEContextModificationRequestIEs)]"

definition UEContextModificationRequest :: gtype where
  "UEContextModificationRequest = TStruct [
     Field ''ProtocolIEs'' '''' ProtocolIEContainerUEContextModificationRequestIEs]"

definition UENGAPIDPairExtIEsExtensionValue :: gtype where
  "UENGAPIDPairExtIEsExtensionValue = TStruct [Field ''Present'' '''' TInt]"

definition UENGAPIDPairExtIEs :: gtype where
  "UENGAPIDPairExtIEs = TStruct [
     Field ''Id'' '''' ProtocolExtensionID,
     Field ''Criticality'' '''' Criticality,
     Field ''ExtensionValue'' ''openType,referenceFieldName:Id'' UENGAPIDPairExtIEsExtensionValue]"

definition ProtocolExtensionContainerUENGAPIDPairExtIEs :: gtype where
  "ProtocolExtensionContainerUENGAPIDPairExtIEs = TStruct [
     Field ''List'' ''sizeLB:1,sizeUB:65535'' (TSlice UENGAPIDPairExtIEs)]"

definition UENGAPIDPair :: gtype where
  "UENGAPIDPair = TStruct [
     Field ''AMFUENGAPID'' '''' AMFUENGAPID,
     Field ''RANUENGAPID'' '''' RANUENGAPID,
     Field ''IEExtensions'' ''optional'' (TPtr ProtocolExtensionContainerUENGAPIDPairExtIEs)]"

definition ProtocolIESingleContainerUENGAPIDsExtIEs :: gtype where
  "ProtocolIESingleContainerUENGAPIDsExtIEs = TStruct []"

definition UENGAPIDs :: gtype where
  "UENGAPIDs = TStruct [
     Field ''Present'' '''' TInt,
     Field ''UENGAPIDPair'' ''valueExt'' (TPtr UENGAPIDPair),
     Field ''AMFUENGAPID'' '''' (TPtr AMFUENGAPID),
     Field ''ChoiceExtensions'' '''' (TPtr ProtocolIESingleContainerUENGAPIDsExtIEs)]"

definition UEContextReleaseCommandIEsValue :: gtype where
  "UEContextReleaseCommandIEsValue = TStruct [
     Field ''Present'' '''' TInt,
     Field ''UENGAPIDs'' ''referenceFieldValue:114,valueLB:0,valueUB:2'' (TPtr UENGAPIDs),
     Field ''Cause'' ''referenceFieldValue:15,valueLB:0,valueUB:5'' (TPtr Cause)]"

definition UEContextReleaseCommandIEs :: gtype where
  "UEContextReleaseCommandIEs = TStruct [
     Field ''Id'' '''' ProtocolIEID,
     Field ''Criticality'' '''' Criticality,
     Field ''Value'' ''openType,referenceFieldName:Id'' UEContextReleaseCommandIEsValue]"

definition ProtocolIEContainerUEContextReleaseCommandIEs :: gtype where
  "ProtocolIEContainerUEContextReleaseCommandIEs = TStruct [
     Field ''List'' ''sizeLB:0,sizeUB:65535'' (TSlice UEContextReleaseCommandIEs)]"

definition UEContextReleaseCommand :: gtype where
  "UEContextReleaseCommand = TStruct [
     Field ''ProtocolIEs'' '''' ProtocolIEContainerUEContextReleaseCommandIEs]"

definition UERadioCapabilityCheckRequestIEsValue :: gtype where
  "UERadioCapabilityCheckRequestIEsValue = TStruct [
     Field ''Present'' '''' TInt,
     Field ''AMFUENGAPID'' ''referenceFieldValue:10'' (TPtr AMFUENGAPID),
     Field ''RANUENGAPID'' ''referenceFieldValue:85'' (TPtr RANUENGAPID),
     Field ''UERadioCapability'' ''referenceFieldValue:117'' (TPtr UERadioCapability)]"

definition UERadioCapabilityCheckRequestIEs :: gtype where
  "UERadioCapabilityCheckRequestIEs = TStruct [
     Field ''Id'' '''' ProtocolIEID,
     Field ''Criticality'' '''' Criticality,
     Field ''Value'' ''openType,referenceFieldName:Id'' UERadioCapabilityCheckRequestIEsValue]"

definition ProtocolIEContainerUERadioCapabilityCheckRequestIEs :: gtype where
  "ProtocolIEContainerUERadioCapabilityCheckRequestIEs = TStruct [
     Field ''List'' ''sizeLB:0,sizeUB:65535'' (TSlice UERadioCapabilityCheckRequestIEs)]"

definition UERadioCapabilityCheckRequest :: gtype where
  "UERadioCapabilityCheckRequest = TStruct [
     Field ''ProtocolIEs'' '''' ProtocolIEContainerUERadioCapabilityCheckRequestIEs]"

definition RepetitionPeriod :: gtype where
  "RepetitionPeriod = TStruct [Field ''Value'' ''valueLB:0,valueUB:131071'' TInt]"

definition NumberOfBroadcastsRequested :: gtype where
  "NumberOfBroadcastsRequested = TStruct [Field ''Value'' ''valueLB:0,valueUB:65535'' TInt]"

definition WarningType :: gtype where
  "WarningType = TStruct [Field ''Value'' ''sizeLB:2,sizeUB:2'' TOctetString]"

definition WarningSecurityInfo :: gtype where
  "WarningSecurityInfo = TStruct [Field ''Value'' ''sizeLB:50,sizeUB:50'' TOctetString]"

definition DataCodingScheme :: gtype where
  "DataCodingScheme = TStruct [Field ''Value'' ''sizeLB:8,sizeUB:8'' TBitString]"

definition WarningMessageContents :: gtype where
  "WarningMessageContents = TStruct [Field ''Value'' ''sizeLB:1,sizeUB:9600'' TOctetString]"

definition ConcurrentWarningMessageInd :: gtype where
  "ConcurrentWarningMessageInd = TStruct [Field ''Value'' ''valueExt,valueLB:0,valueUB:0'' TEnumerated]"

definition WarningAreaCoordinates :: gtype where
  "WarningAreaCoordinates = TStruct [Field ''Value'' ''sizeLB:1,sizeUB:1024'' TOctetString]"

definition WriteReplaceWarningRequestIEsValue :: gtype where
  "WriteReplaceWarningRequestIEsValue = TStruct [
     Field ''Present'' '''' TInt,
     Field ''MessageIdentifier'' ''referenceFieldValue:35'' (TPtr MessageIdentifier),
     Field ''SerialNumber'' ''referenceFieldValue:95'' (TPtr SerialNumber),
     Field ''WarningAreaList'' ''referenceFieldValue:122,valueLB:0,valueUB:4'' (TPtr WarningAreaList),
     Field ''RepetitionPeriod'' ''referenceFieldValue:87'' (TPtr RepetitionPeriod),
     Field ''NumberOfBroadcastsRequested'' ''referenceFieldValue:47'' (TPtr NumberOfBroadcastsRequested),
     Field ''WarningType'' ''referenceFieldValue:125'' (TPtr WarningType),
     Field ''WarningSecurityInfo'' ''referenceFieldValue:124'' (TPtr WarningSecurityInfo),
     Field ''DataCodingScheme'' ''referenceFieldValue:20'' (TPtr DataCodingScheme),
     Field ''WarningMessageContents'' ''referenceFieldValue:123'' (TPtr WarningMessageContents),
     Field ''ConcurrentWarningMessageInd'' ''referenceFieldValue:17'' (TPtr ConcurrentWarningMessageInd),
     Field ''WarningAreaCoordinates'' ''referenceFieldValue:141'' (TPtr WarningAreaCoordinates)]"

definition WriteReplaceWarningRequestIEs :: gtype where
  "WriteReplaceWarningRequestIEs = TStruct [
     Field ''Id'' '''' ProtocolIEID,
     Field ''Criticality'' '''' Criticality,
     Field ''Value'' ''openType,referenceFieldName:Id'' WriteReplaceWarningRequestIEsValue]"

definition ProtocolIEContainerWriteReplaceWarningRequestIEs :: gtype where
  "ProtocolIEContainerWriteReplaceWarningRequestIEs = TStruct [
     Field ''List'' ''sizeLB:0,sizeUB:65535'' (TSlice WriteReplaceWarningRequestIEs)]"

definition WriteReplaceWarningRequest :: gtype where
  "WriteReplaceWarningRequest = TStruct [
     Field ''ProtocolIEs'' '''' ProtocolIEContainerWriteReplaceWarningRequestIEs]"

definition TimerApproachForGUAMIRemoval :: gtype where
  "TimerApproachForGUAMIRemoval = TStruct [Field ''Value'' ''valueExt,valueLB:0,valueUB:0'' TEnumerated]"

definition UnavailableGUAMIItemExtIEsExtensionValue :: gtype where
  "UnavailableGUAMIItemExtIEsExtensionValue = TStruct [Field ''Present'' '''' TInt]"

definition UnavailableGUAMIItemExtIEs :: gtype where
  "UnavailableGUAMIItemExtIEs = TStruct [
     Field ''Id'' '''' ProtocolExtensionID,
     Field ''Criticality'' '''' Criticality,
     Field ''ExtensionValue'' ''openType,referenceFieldName:Id'' UnavailableGUAMIItemExtIEsExtensionValue]"

definition ProtocolExtensionContainerUnavailableGUAMIItemExtIEs :: gtype where
  "ProtocolExtensionContainerUnavailableGUAMIItemExtIEs = TStruct [
     Field ''List'' ''sizeLB:1,sizeUB:65535'' (TSlice UnavailableGUAMIItemExtIEs)]"

definition UnavailableGUAMIItem :: gtype where
  "UnavailableGUAMIItem = TStruct [
     Field ''GUAMI'' ''valueExt'' GUAMI,
     Field ''TimerApproachForGUAMIRemoval'' ''optional'' (TPtr TimerApproachForGUAMIRemoval),
     Field ''BackupAMFName'' ''sizeExt,sizeLB:1,sizeUB:150,optional'' (TPtr AMFName),
     Field ''IEExtensions'' ''optional'' (TPtr ProtocolExtensionContainerUnavailableGUAMIItemExtIEs)]"

definition UnavailableGUAMIList :: gtype where
  "UnavailableGUAMIList = TStruct [
     Field ''List'' ''valueExt,sizeLB:1,sizeUB:256'' (TSlice UnavailableGUAMIItem)]"

definition AMFStatusIndicationIEsValue :: gtype where
  "AMFStatusIndicationIEsValue = TStruct [
     Field ''Present'' '''' TInt,
     Field ''UnavailableGUAMIList'' ''referenceFieldValue:120'' (TPtr UnavailableGUAMIList)]"

definition AMFStatusIndicationIEs :: gtype where
  "AMFStatusIndicationIEs = TStruct [
     Field ''Id'' '''' ProtocolIEID,
     Field ''Criticality'' '''' Criticality,
     Field ''Value'' ''openType,referenceFieldName:Id'' AMFStatusIndicationIEsValue]"

definition ProtocolIEContainerAMFStatusIndicationIEs :: gtype where
  "ProtocolIEContainerAMFStatusIndicationIEs = TStruct [
     Field ''List'' ''sizeLB:0,sizeUB:65535'' (TSlice AMFStatusIndicationIEs)]"

definition AMFStatusIndication :: gtype where
  "AMFStatusIndication = TStruct [Field ''ProtocolIEs'' '''' ProtocolIEContainerAMFStatusIndicationIEs]"

definition CellTrafficTraceIEsValue :: gtype where
  "CellTrafficTraceIEsValue = TStruct [
     Field ''Present'' '''' TInt,
     Field ''AMFUENGAPID'' ''referenceFieldValue:10'' (TPtr AMFUENGAPID),
     Field ''RANUENGAPID'' ''referenceFieldValue:85'' (TPtr RANUENGAPID),
     Field ''NGRANTraceID'' ''referenceFieldValue:44'' (TPtr NGRANTraceID),
     Field ''NGRANCGI'' ''referenceFieldValue:43,valueLB:0,valueUB:2'' (TPtr NGRANCGI),
     Field ''TraceCollectionEntityIPAddress'' ''referenceFieldValue:109'' (TPtr TransportLayerAddress)]"

definition CellTrafficTraceIEs :: gtype where
  "CellTrafficTraceIEs = TStruct [
     Field ''Id'' '''' ProtocolIEID,
     Field ''Criticality'' '''' Criticality,
     Field ''Value'' ''openType,referenceFieldName:Id'' CellTrafficTraceIEsValue]"

definition ProtocolIEContainerCellTrafficTraceIEs :: gtype where
  "ProtocolIEContainerCellTrafficTraceIEs = TStruct [
     Field ''List'' ''sizeLB:0,sizeUB:65535'' (TSlice CellTrafficTraceIEs)]"

definition CellTrafficTrace :: gtype where
  "CellTrafficTrace = TStruct [Field ''ProtocolIEs'' '''' ProtocolIEContainerCellTrafficTraceIEs]"

definition DeactivateTraceIEsValue :: gtype where
  "DeactivateTraceIEsValue = TStruct [
     Field ''Present'' '''' TInt,
     Field ''AMFUENGAPID'' ''referenceFieldValue:10'' (TPtr AMFUENGAPID),
     Field ''RANUENGAPID'' ''referenceFieldValue:85'' (TPtr RANUENGAPID),
     Field ''NGRANTraceID'' ''referenceFieldValue:44'' (TPtr NGRANTraceID)]"

definition DeactivateTraceIEs :: gtype where
  "DeactivateTraceIEs = TStruct [
     Field ''Id'' '''' ProtocolIEID,
     Field ''Criticality'' '''' Criticality,
     Field ''Value'' ''openType,referenceFieldName:Id'' DeactivateTraceIEsValue]"

definition ProtocolIEContainerDeactivateTraceIEs :: gtype where
  "ProtocolIEContainerDeactivateTraceIEs = TStruct [
     Field ''List'' ''sizeLB:0,sizeUB:65535'' (TSlice DeactivateTraceIEs)]"

definition DeactivateTrace :: gtype where
  "DeactivateTrace = TStruct [Field ''ProtocolIEs'' '''' ProtocolIEContainerDeactivateTraceIEs]"

definition DownlinkNASTransportIEsValue :: gtype where
  "DownlinkNASTransportIEsValue = TStruct [
     Field ''Present'' '''' TInt,
     Field ''AMFUENGAPID'' ''referenceFieldValue:10'' (TPtr AMFUENGAPID),
     Field ''RANUENGAPID'' ''referenceFieldValue:85'' (TPtr RANUENGAPID),
     Field ''OldAMF'' ''referenceFieldValue:48'' (TPtr AMFName),
     Field ''RANPagingPriority'' ''referenceFieldValue:83'' (TPtr RANPagingPriority),
     Field ''NASPDU'' ''referenceFieldValue:38'' (TPtr NASPDU),
     Field ''MobilityRestrictionList'' ''valueExt,referenceFieldValue:36'' (TPtr MobilityRestrictionList),
     Field ''IndexToRFSP'' ''referenceFieldValue:31'' (TPtr IndexToRFSP),
     Field ''UEAggregateMaximumBitRate'' ''valueExt,referenceFieldValue:110'' (TPtr UEAggregateMaximumBitRate),
     Field ''AllowedNSSAI'' ''referenceFieldValue:0'' (TPtr AllowedNSSAI)]"

definition DownlinkNASTransportIEs :: gtype where
  "DownlinkNASTransportIEs = TStruct [
     Field ''Id'' '''' ProtocolIEID,
     Field ''Criticality'' '''' Criticality,
     Field ''Value'' ''openType,referenceFieldName:Id'' DownlinkNASTransportIEsValue]"

definition ProtocolIEContainerDownlinkNASTransportIEs :: gtype where
  "ProtocolIEContainerDownlinkNASTransportIEs = TStruct [
     Field ''List'' ''sizeLB:0,sizeUB:65535'' (TSlice DownlinkNASTransportIEs)]"

definition DownlinkNASTransport :: gtype where
  "DownlinkNASTransport = TStruct [Field ''ProtocolIEs'' '''' ProtocolIEContainerDownlinkNASTransportIEs]"

definition RoutingID :: gtype where
  "RoutingID = TStruct [Field ''Value'' '''' TOctetString]"

definition NRPPaPDU :: gtype where
  "NRPPaPDU = TStruct [Field ''Value'' '''' TOctetString]"

definition DownlinkNonUEAssociatedNRPPaTransportIEsValue :: gtype where
  "DownlinkNonUEAssociatedNRPPaTransportIEsValue = TStruct [
     Field ''Present'' '''' TInt,
     Field ''RoutingID'' ''referenceFieldValue:89'' (TPtr RoutingID),
     Field ''NRPPaPDU'' ''referenceFieldValue:46'' (TPtr NRPPaPDU)]"

definition DownlinkNonUEAssociatedNRPPaTransportIEs :: gtype where
  "DownlinkNonUEAssociatedNRPPaTransportIEs = TStruct [
     Field ''Id'' '''' ProtocolIEID,
     Field ''Criticality'' '''' Criticality,
     Field ''Value'' ''openType,referenceFieldName:Id'' DownlinkNonUEAssociatedNRPPaTransportIEsValue]"

definition ProtocolIEContainerDownlinkNonUEAssociatedNRPPaTransportIEs :: gtype where
  "ProtocolIEContainerDownlinkNonUEAssociatedNRPPaTransportIEs = TStruct [
     Field ''List'' ''sizeLB:0,sizeUB:65535'' (TSlice DownlinkNonUEAssociatedNRPPaTransportIEs)]"

definition DownlinkNonUEAssociatedNRPPaTransport :: gtype where
  "DownlinkNonUEAssociatedNRPPaTransport = TStruct [
     Field ''ProtocolIEs'' '''' ProtocolIEContainerDownlinkNonUEAssociatedNRPPaTransportIEs]"

definition SourceRANNodeIDExtIEsExtensionValue :: gtype where
  "SourceRANNodeIDExtIEsExtensionValue = TStruct [Field ''Present'' '''' TInt]"

definition SourceRANNodeIDExtIEs :: gtype where
  "SourceRANNodeIDExtIEs = TStruct [
     Field ''Id'' '''' ProtocolExtensionID,
     Field ''Criticality'' '''' Criticality,
     Field ''ExtensionValue'' ''openType,referenceFieldName:Id'' SourceRANNodeIDExtIEsExtensionValue]"

definition ProtocolExtensionContainerSourceRANNodeIDExtIEs :: gtype where
  "ProtocolExtensionContainerSourceRANNodeIDExtIEs = TStruct [
     Field ''List'' ''sizeLB:1,sizeUB:65535'' (TSlice SourceRANNodeIDExtIEs)]"

definition SourceRANNodeID :: gtype where
  "SourceRANNodeID = TStruct [
     Field ''GlobalRANNodeID'' ''valueLB:0,valueUB:3'' GlobalRANNodeID,
     Field ''SelectedTAI'' ''valueExt'' TAI,
     Field ''IEExtensions'' ''optional'' (TPtr ProtocolExtensionContainerSourceRANNodeIDExtIEs)]"

definition SONInformationRequest :: gtype where
  "SONInformationRequest = TStruct [Field ''Value'' ''valueExt,valueLB:0,valueUB:0'' TEnumerated]"

definition XnTLAs :: gtype where
  "XnTLAs = TStruct [Field ''List'' ''sizeLB:1,sizeUB:16'' (TSlice TransportLayerAddress)]"

definition XnGTPTLAs :: gtype where
  "XnGTPTLAs = TStruct [Field ''List'' ''sizeLB:1,sizeUB:16'' (TSlice TransportLayerAddress)]"

definition XnExtTLAItemExtIEsExtensionValue :: gtype where
  "XnExtTLAItemExtIEsExtensionValue = TStruct [Field ''Present'' '''' TInt]"

definition XnExtTLAItemExtIEs :: gtype where
  "XnExtTLAItemExtIEs = TStruct [
     Field ''Id'' '''' ProtocolExtensionID,
     Field ''Criticality'' '''' Criticality,
     Field ''ExtensionValue'' ''openType,referenceFieldName:Id'' XnExtTLAItemExtIEsExtensionValue]"

definition ProtocolExtensionContainerXnExtTLAItemExtIEs :: gtype where
  "ProtocolExtensionContainerXnExtTLAItemExtIEs = TStruct [
     Field ''List'' ''sizeLB:1,sizeUB:65535'' (TSlice XnExtTLAItemExtIEs)]"

definition XnExtTLAItem :: gtype where
  "XnExtTLAItem = TStruct [
     Field ''IPsecTLA'' ''optional'' (TPtr TransportLayerAddress),
     Field ''GTPTLAs'' ''optional'' (TPtr XnGTPTLAs),
     Field ''IEExtensions'' ''optional'' (TPtr ProtocolExtensionContainerXnExtTLAItemExtIEs)]"

definition XnExtTLAs :: gtype where
  "XnExtTLAs = TStruct [Field ''List'' ''valueExt,sizeLB:1,sizeUB:2'' (TSlice XnExtTLAItem)]"

definition XnTNLConfigurationInfoExtIEsExtensionValue :: gtype where
  "XnTNLConfigurationInfoExtIEsExtensionValue = TStruct [Field ''Present'' '''' TInt]"

definition XnTNLConfigurationInfoExtIEs :: gtype where
  "XnTNLConfigurationInfoExtIEs = TStruct [
     Field ''Id'' '''' ProtocolExtensionID,
     Field ''Criticality'' '''' Criticality,
     Field ''ExtensionValue'' ''openType,referenceFieldName:Id'' XnTNLConfigurationInfoExtIEsExtensionValue]"

definition ProtocolExtensionContainerXnTNLConfigurationInfoExtIEs :: gtype where
  "ProtocolExtensionContainerXnTNLConfigurationInfoExtIEs = TStruct [
     Field ''List'' ''sizeLB:1,sizeUB:65535'' (TSlice XnTNLConfigurationInfoExtIEs)]"

definition XnTNLConfigurationInfo :: gtype where
  "XnTNLConfigurationInfo = TStruct [
     Field ''XnTransportLayerAddresses'' '''' XnTLAs,
     Field ''XnExtendedTransportLayerAddresses'' ''optional'' (TPtr XnExtTLAs),
     Field ''IEExtensions'' ''optional'' (TPtr ProtocolExtensionContainerXnTNLConfigurationInfoExtIEs)]"

definition SONInformationReplyExtIEsExtensionValue :: gtype where
  "SONInformationReplyExtIEsExtensionValue = TStruct [Field ''Present'' '''' TInt]"

definition SONInformationReplyExtIEs :: gtype where
  "SONInformationReplyExtIEs = TStruct [
     Field ''Id'' '''' ProtocolExtensionID,
     Field ''Criticality'' '''' Criticality,
     Field ''ExtensionValue'' ''openType,referenceFieldName:Id'' SONInformationReplyExtIEsExtensionValue]"

definition ProtocolExtensionContainerSONInformationReplyExtIEs :: gtype where
  "ProtocolExtensionContainerSONInformationReplyExtIEs = TStruct [
     Field ''List'' ''sizeLB:1,sizeUB:65535'' (TSlice SONInformationReplyExtIEs)]"

definition SONInformationReply :: gtype where
  "SONInformationReply = TStruct [
     Field ''XnTNLConfigurationInfo'' ''valueExt,optional'' (TPtr XnTNLConfigurationInfo),
     Field ''IEExtensions'' ''optional'' (TPtr ProtocolExtensionContainerSONInformationReplyExtIEs)]"

definition ProtocolIESingleContainerSONInformationExtIEs :: gtype where
  "ProtocolIESingleContainerSONInformationExtIEs = TStruct []"

definition SONInformation :: gtype where
  "SONInformation = TStruct [
     Field ''Present'' '''' TInt,
     Field ''SONInformationRequest'' '''' (TPtr SONInformationRequest),
     Field ''SONInformationReply'' ''valueExt'' (TPtr SONInformationReply),
     Field ''ChoiceExtensions'' '''' (TPtr ProtocolIESingleContainerSONInformationExtIEs)]"

definition SONConfigurationTransferExtIEsExtensionValue :: gtype where
  "SONConfigurationTransferExtIEsExtensionValue = TStruct [Field ''Present'' '''' TInt]"

definition SONConfigurationTransferExtIEs :: gtype where
  "SONConfigurationTransferExtIEs = TStruct [
     Field ''Id'' '''' ProtocolExtensionID,
     Field ''Criticality'' '''' Criticality,
     Field ''ExtensionValue'' ''openType,referenceFieldName:Id'' SONConfigurationTransferExtIEsExtensionValue]"

definition ProtocolExtensionContainerSONConfigurationTransferExtIEs :: gtype where
  "ProtocolExtensionContainerSONConfigurationTransferExtIEs = TStruct [
     Field ''List'' ''sizeLB:1,sizeUB:65535'' (TSlice SONConfigurationTransferExtIEs)]"

definition SONConfigurationTransfer :: gtype where
  "SONConfigurationTransfer = TStruct [
     Field ''TargetRANNodeID'' ''valueExt'' TargetRANNodeID,
     Field ''SourceRANNodeID'' ''valueExt'' SourceRANNodeID,
     Field ''SONInformation'' ''valueLB:0,valueUB:2'' SONInformation,
     Field ''XnTNLConfigurationInfo'' ''valueExt'' XnTNLConfigurationInfo,
     Field ''IEExtensions'' ''optional'' (TPtr ProtocolExtensionContainerSONConfigurationTransferExtIEs)]"

definition DownlinkRANConfigurationTransferIEsValue :: gtype where
  "DownlinkRANConfigurationTransferIEsValue = TStruct [
     Field ''Present'' '''' TInt,
     Field ''SONConfigurationTransferDL'' ''valueExt,referenceFieldValue:98'' (TPtr SONConfigurationTransfer)]"

definition DownlinkRANConfigurationTransferIEs :: gtype where
  "DownlinkRANConfigurationTransferIEs = TStruct [
     Field ''Id'' '''' ProtocolIEID,
     Field ''Criticality'' '''' Criticality,
     Field ''Value'' ''openType,referenceFieldName:Id'' DownlinkRANConfigurationTransferIEsValue]"

definition ProtocolIEContainerDownlinkRANConfigurationTransferIEs :: gtype where
  "ProtocolIEContainerDownlinkRANConfigurationTransferIEs = TStruct [
     Field ''List'' ''sizeLB:0,sizeUB:65535'' (TSlice DownlinkRANConfigurationTransferIEs)]"

definition DownlinkRANConfigurationTransfer :: gtype where
  "DownlinkRANConfigurationTransfer = TStruct [
     Field ''ProtocolIEs'' '''' ProtocolIEContainerDownlinkRANConfigurationTransferIEs]"

definition DRBID :: gtype where
  "DRBID = TStruct [Field ''Value'' ''valueExt,valueLB:1,valueUB:32'' TInt]"

definition COUNTValueForPDCPSN12ExtIEsExtensionValue :: gtype where
  "COUNTValueForPDCPSN12ExtIEsExtensionValue = TStruct [Field ''Present'' '''' TInt]"

definition COUNTValueForPDCPSN12ExtIEs :: gtype where
  "COUNTValueForPDCPSN12ExtIEs = TStruct [
     Field ''Id'' '''' ProtocolExtensionID,
     Field ''Criticality'' '''' Criticality,
     Field ''ExtensionValue'' ''openType,referenceFieldName:Id'' COUNTValueForPDCPSN12ExtIEsExtensionValue]"

definition ProtocolExtensionContainerCOUNTValueForPDCPSN12ExtIEs :: gtype where
  "ProtocolExtensionContainerCOUNTValueForPDCPSN12ExtIEs = TStruct [
     Field ''List'' ''sizeLB:1,sizeUB:65535'' (TSlice COUNTValueForPDCPSN12ExtIEs)]"

definition COUNTValueForPDCPSN12 :: gtype where
  "COUNTValueForPDCPSN12 = TStruct [
     Field ''PDCPSN12'' ''valueLB:0,valueUB:4095'' TInt,
     Field ''HFNPDCPSN12'' ''valueLB:0,valueUB:1048575'' TInt,
     Field ''IEExtensions'' ''optional'' (TPtr ProtocolExtensionContainerCOUNTValueForPDCPSN12ExtIEs)]"

definition DRBStatusUL12ExtIEsExtensionValue :: gtype where
  "DRBStatusUL12ExtIEsExtensionValue = TStruct [Field ''Present'' '''' TInt]"

definition DRBStatusUL12ExtIEs :: gtype where
  "DRBStatusUL12ExtIEs = TStruct [
     Field ''Id'' '''' ProtocolExtensionID,
     Field ''Criticality'' '''' Criticality,
     Field ''ExtensionValue'' ''openType,referenceFieldName:Id'' DRBStatusUL12ExtIEsExtensionValue]"

definition ProtocolExtensionContainerDRBStatusUL12ExtIEs :: gtype where
  "ProtocolExtensionContainerDRBStatusUL12ExtIEs = TStruct [
     Field ''List'' ''sizeLB:1,sizeUB:65535'' (TSlice DRBStatusUL12ExtIEs)]"

definition DRBStatusUL12 :: gtype where
  "DRBStatusUL12 = TStruct [
     Field ''ULCOUNTValue'' ''valueExt'' COUNTValueForPDCPSN12,
     Field ''ReceiveStatusOfULPDCPSDUs'' ''sizeLB:1,sizeUB:2048,optional'' (TPtr TBitString),
     Field ''IEExtension'' ''optional'' (TPtr ProtocolExtensionContainerDRBStatusUL12ExtIEs)]"

definition COUNTValueForPDCPSN18ExtIEsExtensionValue :: gtype where
  "COUNTValueForPDCPSN18ExtIEsExtensionValue = TStruct [Field ''Present'' '''' TInt]"

definition COUNTValueForPDCPSN18ExtIEs :: gtype where
  "COUNTValueForPDCPSN18ExtIEs = TStruct [
     Field ''Id'' '''' ProtocolExtensionID,
     Field ''Criticality'' '''' Criticality,
     Field ''ExtensionValue'' ''openType,referenceFieldName:Id'' COUNTValueForPDCPSN18ExtIEsExtensionValue]"

definition ProtocolExtensionContainerCOUNTValueForPDCPSN18ExtIEs :: gtype where
  "ProtocolExtensionContainerCOUNTValueForPDCPSN18ExtIEs = TStruct [
     Field ''List'' ''sizeLB:1,sizeUB:65535'' (TSlice COUNTValueForPDCPSN18ExtIEs)]"

definition COUNTValueForPDCPSN18 :: gtype where
  "COUNTValueForPDCPSN18 = TStruct [
     Field ''PDCPSN18'' ''valueLB:0,valueUB:262143'' TInt,
     Field ''HFNPDCPSN18'' ''valueLB:0,valueUB:16383'' TInt,
     Field ''IEExtensions'' ''optional'' (TPtr ProtocolExtensionContainerCOUNTValueForPDCPSN18ExtIEs)]"

definition DRBStatusUL18ExtIEsExtensionValue :: gtype where
  "DRBStatusUL18ExtIEsExtensionValue = TStruct [Field ''Present'' '''' TInt]"

definition DRBStatusUL18ExtIEs :: gtype where
  "DRBStatusUL18ExtIEs = TStruct [
     Field ''Id'' '''' ProtocolExtensionID,
     Field ''Criticality'' '''' Criticality,
     Field ''ExtensionValue'' ''openType,referenceFieldName:Id'' DRBStatusUL18ExtIEsExtensionValue]"

definition ProtocolExtensionContainerDRBStatusUL18ExtIEs :: gtype where
  "ProtocolExtensionContainerDRBStatusUL18ExtIEs = TStruct [
     Field ''List'' ''sizeLB:1,sizeUB:65535'' (TSlice DRBStatusUL18ExtIEs)]"

definition DRBStatusUL18 :: gtype where
  "DRBStatusUL18 = TStruct [
     Field ''ULCOUNTValue'' ''valueExt'' COUNTValueForPDCPSN18,
     Field ''ReceiveStatusOfULPDCPSDUs'' ''sizeLB:1,sizeUB:131072,optional'' (TPtr TBitString),
     Field ''IEExtension'' ''optional'' (TPtr ProtocolExtensionContainerDRBStatusUL18ExtIEs)]"

definition ProtocolIESingleContainerDRBStatusULExtIEs :: gtype where
  "ProtocolIESingleContainerDRBStatusULExtIEs = TStruct []"

definition DRBStatusUL :: gtype where
  "DRBStatusUL = TStruct [
     Field ''Present'' '''' TInt,
     Field ''DRBStatusUL12'' ''valueExt'' (TPtr DRBStatusUL12),
     Field ''DRBStatusUL18'' ''valueExt'' (TPtr DRBStatusUL18),
     Field ''ChoiceExtensions'' '''' (TPtr ProtocolIESingleContainerDRBStatusULExtIEs)]"

definition DRBStatusDL12ExtIEsExtensionValue :: gtype where
  "DRBStatusDL12ExtIEsExtensionValue = TStruct [Field ''Present'' '''' TInt]"

definition DRBStatusDL12ExtIEs :: gtype where
  "DRBStatusDL12ExtIEs = TStruct [
     Field ''Id'' '''' ProtocolExtensionID,
     Field ''Criticality'' '''' Criticality,
     Field ''ExtensionValue'' ''openType,referenceFieldName:Id'' DRBStatusDL12ExtIEsExtensionValue]"

definition ProtocolExtensionContainerDRBStatusDL12ExtIEs :: gtype where
  "ProtocolExtensionContainerDRBStatusDL12ExtIEs = TStruct [
     Field ''List'' ''sizeLB:1,sizeUB:65535'' (TSlice DRBStatusDL12ExtIEs)]"

definition DRBStatusDL12 :: gtype where
  "DRBStatusDL12 = TStruct [
     Field ''DLCOUNTValue'' ''valueExt'' COUNTValueForPDCPSN12,
     Field ''IEExtension'' ''optional'' (TPtr ProtocolExtensionContainerDRBStatusDL12ExtIEs)]"

definition DRBStatusDL18ExtIEsExtensionValue :: gtype where
  "DRBStatusDL18ExtIEsExtensionValue = TStruct [Field ''Present'' '''' TInt]"

definition DRBStatusDL18ExtIEs :: gtype where
  "DRBStatusDL18ExtIEs = TStruct [
     Field ''Id'' '''' ProtocolExtensionID,
     Field ''Criticality'' '''' Criticality,
     Field ''ExtensionValue'' ''openType,referenceFieldName:Id'' DRBStatusDL18ExtIEsExtensionValue]"

definition ProtocolExtensionContainerDRBStatusDL18ExtIEs :: gtype where
  "ProtocolExtensionContainerDRBStatusDL18ExtIEs = TStruct [
     Field ''List'' ''sizeLB:1,sizeUB:65535'' (TSlice DRBStatusDL18ExtIEs)]"

definition DRBStatusDL18 :: gtype where
  "DRBStatusDL18 = TStruct [
     Field ''DLCOUNTValue'' ''valueExt'' COUNTValueForPDCPSN18,
     Field ''IEExtension'' ''optional'' (TPtr ProtocolExtensionContainerDRBStatusDL18ExtIEs)]"

definition ProtocolIESingleContainerDRBStatusDLExtIEs :: gtype where
  "ProtocolIESingleContainerDRBStatusDLExtIEs = TStruct []"

definition DRBStatusDL :: gtype where
  "DRBStatusDL = TStruct [
     Field ''Present'' '''' TInt,
     Field ''DRBStatusDL12'' ''valueExt'' (TPtr DRBStatusDL12),
     Field ''DRBStatusDL18'' ''valueExt'' (TPtr DRBStatusDL18),
     Field ''ChoiceExtensions'' '''' (TPtr ProtocolIESingleContainerDRBStatusDLExtIEs)]"

definition DRBsSubjectToStatusTransferItemExtIEsExtensionValue :: gtype where
  "DRBsSubjectToStatusTransferItemExtIEsExtensionValue = TStruct [Field ''Present'' '''' TInt]"

definition DRBsSubjectToStatusTransferItemExtIEs :: gtype where
  "DRBsSubjectToStatusTransferItemExtIEs = TStruct [
     Field ''Id'' '''' ProtocolExtensionID,
     Field ''Criticality'' '''' Criticality,
     Field ''ExtensionValue'' ''openType,referenceFieldName:Id'' DRBsSubjectToStatusTransferItemExtIEsExtensionValue]"

definition ProtocolExtensionContainerDRBsSubjectToStatusTransferItemExtIEs :: gtype where
  "ProtocolExtensionContainerDRBsSubjectToStatusTransferItemExtIEs = TStruct [
     Field ''List'' ''sizeLB:1,sizeUB:65535'' (TSlice DRBsSubjectToStatusTransferItemExtIEs)]"

definition DRBsSubjectToStatusTransferItem :: gtype where
  "DRBsSubjectToStatusTransferItem = TStruct [
     Field ''DRBID'' '''' DRBID,
     Field ''DRBStatusUL'' ''valueLB:0,valueUB:2'' DRBStatusUL,
     Field ''DRBStatusDL'' ''valueLB:0,valueUB:2'' DRBStatusDL,
     Field ''IEExtension'' ''optional'' (TPtr ProtocolExtensionContainerDRBsSubjectToStatusTransferItemExtIEs)]"

definition DRBsSubjectToStatusTransferList :: gtype where
  "DRBsSubjectToStatusTransferList = TStruct [
     Field ''List'' ''valueExt,sizeLB:1,sizeUB:32'' (TSlice DRBsSubjectToStatusTransferItem)]"

definition RANStatusTransferTransparentContainerExtIEsExtensionValue :: gtype where
  "RANStatusTransferTransparentContainerExtIEsExtensionValue = TStruct [Field ''Present'' '''' TInt]"

definition RANStatusTransferTransparentContainerExtIEs :: gtype where
  "RANStatusTransferTransparentContainerExtIEs = TStruct [
     Field ''Id'' '''' ProtocolExtensionID,
     Field ''Criticality'' '''' Criticality,
     Field ''ExtensionValue'' ''openType,referenceFieldName:Id'' RANStatusTransferTransparentContainerExtIEsExtensionValue]"

definition ProtocolExtensionContainerRANStatusTransferTransparentContainerExtIEs :: gtype where
  "ProtocolExtensionContainerRANStatusTransferTransparentContainerExtIEs = TStruct [
     Field ''List'' ''sizeLB:1,sizeUB:65535'' (TSlice RANStatusTransferTransparentContainerExtIEs)]"

definition RANStatusTransferTransparentContainer :: gtype where
  "RANStatusTransferTransparentContainer = TStruct [
     Field ''DRBsSubjectToStatusTransferList'' '''' DRBsSubjectToStatusTransferList,
     Field ''IEExtensions'' ''optional'' (TPtr ProtocolExtensionContainerRANStatusTransferTransparentContainerExtIEs)]"

definition DownlinkRANStatusTransferIEsValue :: gtype where
  "DownlinkRANStatusTransferIEsValue = TStruct [
     Field ''Present'' '''' TInt,
     Field ''AMFUENGAPID'' ''referenceFieldValue:10'' (TPtr AMFUENGAPID),
     Field ''RANUENGAPID'' ''referenceFieldValue:85'' (TPtr RANUENGAPID),
     Field ''RANStatusTransferTransparentContainer'' ''valueExt,referenceFieldValue:84'' (TPtr RANStatusTransferTransparentContainer)]"

definition DownlinkRANStatusTransferIEs :: gtype where
  "DownlinkRANStatusTransferIEs = TStruct [
     Field ''Id'' '''' ProtocolIEID,
     Field ''Criticality'' '''' Criticality,
     Field ''Value'' ''openType,referenceFieldName:Id'' DownlinkRANStatusTransferIEsValue]"

definition ProtocolIEContainerDownlinkRANStatusTransferIEs :: gtype where
  "ProtocolIEContainerDownlinkRANStatusTransferIEs = TStruct [
     Field ''List'' ''sizeLB:0,sizeUB:65535'' (TSlice DownlinkRANStatusTransferIEs)]"

definition DownlinkRANStatusTransfer :: gtype where
  "DownlinkRANStatusTransfer = TStruct [
     Field ''ProtocolIEs'' '''' ProtocolIEContainerDownlinkRANStatusTransferIEs]"

definition DownlinkUEAssociatedNRPPaTransportIEsValue :: gtype where
  "DownlinkUEAssociatedNRPPaTransportIEsValue = TStruct [
     Field ''Present'' '''' TInt,
     Field ''AMFUENGAPID'' ''referenceFieldValue:10'' (TPtr AMFUENGAPID),
     Field ''RANUENGAPID'' ''referenceFieldValue:85'' (TPtr RANUENGAPID),
     Field ''RoutingID'' ''referenceFieldValue:89'' (TPtr RoutingID),
     Field ''NRPPaPDU'' ''referenceFieldValue:46'' (TPtr NRPPaPDU)]"

definition DownlinkUEAssociatedNRPPaTransportIEs :: gtype where
  "DownlinkUEAssociatedNRPPaTransportIEs = TStruct [
     Field ''Id'' '''' ProtocolIEID,
     Field ''Criticality'' '''' Criticality,
     Field ''Value'' ''openType,referenceFieldName:Id'' DownlinkUEAssociatedNRPPaTransportIEsValue]"

definition ProtocolIEContainerDownlinkUEAssociatedNRPPaTransportIEs :: gtype where
  "ProtocolIEContainerDownlinkUEAssociatedNRPPaTransportIEs = TStruct [
     Field ''List'' ''sizeLB:0,sizeUB:65535'' (TSlice DownlinkUEAssociatedNRPPaTransportIEs)]"

definition DownlinkUEAssociatedNRPPaTransport :: gtype where
  "DownlinkUEAssociatedNRPPaTransport = TStruct [
     Field ''ProtocolIEs'' '''' ProtocolIEContainerDownlinkUEAssociatedNRPPaTransportIEs]"

definition TriggeringMessage :: gtype where
  "TriggeringMessage = TStruct [Field ''Value'' ''valueLB:0,valueUB:2'' TEnumerated]"

definition TypeOfError :: gtype where
  "TypeOfError = TStruct [Field ''Value'' ''valueExt,valueLB:0,valueUB:1'' TEnumerated]"

definition CriticalityDiagnosticsIEItemExtIEsExtensionValue :: gtype where
  "CriticalityDiagnosticsIEItemExtIEsExtensionValue = TStruct [Field ''Present'' '''' TInt]"

definition CriticalityDiagnosticsIEItemExtIEs :: gtype where
  "CriticalityDiagnosticsIEItemExtIEs = TStruct [
     Field ''Id'' '''' ProtocolExtensionID,
     Field ''Criticality'' '''' Criticality,
     Field ''ExtensionValue'' ''openType,referenceFieldName:Id'' CriticalityDiagnosticsIEItemExtIEsExtensionValue]"

definition ProtocolExtensionContainerCriticalityDiagnosticsIEItemExtIEs :: gtype where
  "ProtocolExtensionContainerCriticalityDiagnosticsIEItemExtIEs = TStruct [
     Field ''List'' ''sizeLB:1,sizeUB:65535'' (TSlice CriticalityDiagnosticsIEItemExtIEs)]"

definition CriticalityDiagnosticsIEItem :: gtype where
  "CriticalityDiagnosticsIEItem = TStruct [
     Field ''IECriticality'' '''' Criticality,
     Field ''IEID'' '''' ProtocolIEID,
     Field ''TypeOfError'' '''' TypeOfError,
     Field ''IEExtensions'' ''optional'' (TPtr ProtocolExtensionContainerCriticalityDiagnosticsIEItemExtIEs)]"

definition CriticalityDiagnosticsIEList :: gtype where
  "CriticalityDiagnosticsIEList = TStruct [
     Field ''List'' ''valueExt,sizeLB:1,sizeUB:256'' (TSlice CriticalityDiagnosticsIEItem)]"

definition CriticalityDiagnosticsExtIEsExtensionValue :: gtype where
  "CriticalityDiagnosticsExtIEsExtensionValue = TStruct [Field ''Present'' '''' TInt]"

definition CriticalityDiagnosticsExtIEs :: gtype where
  "CriticalityDiagnosticsExtIEs = TStruct [
     Field ''Id'' '''' ProtocolExtensionID,
     Field ''Criticality'' '''' Criticality,
     Field ''ExtensionValue'' ''openType,referenceFieldName:Id'' CriticalityDiagnosticsExtIEsExtensionValue]"

definition ProtocolExtensionContainerCriticalityDiagnosticsExtIEs :: gtype where
  "ProtocolExtensionContainerCriticalityDiagnosticsExtIEs = TStruct [
     Field ''List'' ''sizeLB:1,sizeUB:65535'' (TSlice CriticalityDiagnosticsExtIEs)]"

definition CriticalityDiagnostics :: gtype where
  "CriticalityDiagnostics = TStruct [
     Field ''ProcedureCode'' ''optional'' (TPtr ProcedureCode),
     Field ''TriggeringMessage'' ''optional'' (TPtr TriggeringMessage),
     Field ''ProcedureCriticality'' ''optional'' (TPtr Criticality),
     Field ''IEsCriticalityDiagnostics'' ''optional'' (TPtr CriticalityDiagnosticsIEList),
     Field ''IEExtensions'' ''optional'' (TPtr ProtocolExtensionContainerCriticalityDiagnosticsExtIEs)]"

definition ErrorIndicationIEsValue :: gtype where
  "ErrorIndicationIEsValue = TStruct [
     Field ''Present'' '''' TInt,
     Field ''AMFUENGAPID'' ''referenceFieldValue:10'' (TPtr AMFUENGAPID),
     Field ''RANUENGAPID'' ''referenceFieldValue:85'' (TPtr RANUENGAPID),
     Field ''Cause'' ''referenceFieldValue:15,valueLB:0,valueUB:5'' (TPtr Cause),
     Field ''CriticalityDiagnostics'' ''valueExt,referenceFieldValue:19'' (TPtr CriticalityDiagnostics)]"

definition ErrorIndicationIEs :: gtype where
  "ErrorIndicationIEs = TStruct [
     Field ''Id'' '''' ProtocolIEID,
     Field ''Criticality'' '''' Criticality,
     Field ''Value'' ''openType,referenceFieldName:Id'' ErrorIndicationIEsValue]"

definition ProtocolIEContainerErrorIndicationIEs :: gtype where
  "ProtocolIEContainerErrorIndicationIEs = TStruct [
     Field ''List'' ''sizeLB:0,sizeUB:65535'' (TSlice ErrorIndicationIEs)]"

definition ErrorIndication :: gtype where
  "ErrorIndication = TStruct [Field ''ProtocolIEs'' '''' ProtocolIEContainerErrorIndicationIEs]"

definition HandoverNotifyIEsValue :: gtype where
  "HandoverNotifyIEsValue = TStruct [
     Field ''Present'' '''' TInt,
     Field ''AMFUENGAPID'' ''referenceFieldValue:10'' (TPtr AMFUENGAPID),
     Field ''RANUENGAPID'' ''referenceFieldValue:85'' (TPtr RANUENGAPID),
     Field ''UserLocationInformation'' ''referenceFieldValue:121,valueLB:0,valueUB:3'' (TPtr UserLocationInformation)]"

definition HandoverNotifyIEs :: gtype where
  "HandoverNotifyIEs = TStruct [
     Field ''Id'' '''' ProtocolIEID,
     Field ''Criticality'' '''' Criticality,
     Field ''Value'' ''openType,referenceFieldName:Id'' HandoverNotifyIEsValue]"

definition ProtocolIEContainerHandoverNotifyIEs :: gtype where
  "ProtocolIEContainerHandoverNotifyIEs = TStruct [
     Field ''List'' ''sizeLB:0,sizeUB:65535'' (TSlice HandoverNotifyIEs)]"

definition HandoverNotify :: gtype where
  "HandoverNotify = TStruct [Field ''ProtocolIEs'' '''' ProtocolIEContainerHandoverNotifyIEs]"

definition RRCEstablishmentCause :: gtype where
  "RRCEstablishmentCause = TStruct [Field ''Value'' ''valueExt,valueLB:0,valueUB:9'' TEnumerated]"

definition FiveGTMSI :: gtype where
  "FiveGTMSI = TStruct [Field ''Value'' ''sizeLB:4,sizeUB:4'' TOctetString]"

definition FiveGSTMSIExtIEsExtensionValue :: gtype where
  "FiveGSTMSIExtIEsExtensionValue = TStruct [Field ''Present'' '''' TInt]"

definition FiveGSTMSIExtIEs :: gtype where
  "FiveGSTMSIExtIEs = TStruct [
     Field ''Id'' '''' ProtocolExtensionID,
     Field ''Criticality'' '''' Criticality,
     Field ''ExtensionValue'' ''openType,referenceFieldName:Id'' FiveGSTMSIExtIEsExtensionValue]"

definition ProtocolExtensionContainerFiveGSTMSIExtIEs :: gtype where
  "ProtocolExtensionContainerFiveGSTMSIExtIEs = TStruct [
     Field ''List'' ''sizeLB:1,sizeUB:65535'' (TSlice FiveGSTMSIExtIEs)]"

definition FiveGSTMSI :: gtype where
  "FiveGSTMSI = TStruct [
     Field ''AMFSetID'' '''' AMFSetID,
     Field ''AMFPointer'' '''' AMFPointer,
     Field ''FiveGTMSI'' '''' FiveGTMSI,
     Field ''IEExtensions'' ''optional'' (TPtr ProtocolExtensionContainerFiveGSTMSIExtIEs)]"

definition UEContextRequest :: gtype where
  "UEContextRequest = TStruct [Field ''Value'' ''valueExt,valueLB:0,valueUB:0'' TEnumerated]"

definition InitialUEMessageIEsValue :: gtype where
  "InitialUEMessageIEsValue = TStruct [
     Field ''Present'' '''' TInt,
     Field ''RANUENGAPID'' ''referenceFieldValue:85'' (TPtr RANUENGAPID),
     Field ''NASPDU'' ''referenceFieldValue:38'' (TPtr NASPDU),
     Field ''UserLocationInformation'' ''referenceFieldValue:121,valueLB:0,valueUB:3'' (TPtr UserLocationInformation),
     Field ''RRCEstablishmentCause'' ''referenceFieldValue:90'' (TPtr RRCEstablishmentCause),
     Field ''FiveGSTMSI'' ''valueExt,referenceFieldValue:26'' (TPtr FiveGSTMSI),
     Field ''AMFSetID'' ''referenceFieldValue:3'' (TPtr AMFSetID),
     Field ''UEContextRequest'' ''referenceFieldValue:112'' (TPtr UEContextRequest),
     Field ''AllowedNSSAI'' ''referenceFieldValue:0'' (TPtr AllowedNSSAI)]"

definition InitialUEMessageIEs :: gtype where
  "InitialUEMessageIEs = TStruct [
     Field ''Id'' '''' ProtocolIEID,
     Field ''Criticality'' '''' Criticality,
     Field ''Value'' ''openType,referenceFieldName:Id'' InitialUEMessageIEsValue]"

definition ProtocolIEContainerInitialUEMessageIEs :: gtype where
  "ProtocolIEContainerInitialUEMessageIEs = TStruct [
     Field ''List'' ''sizeLB:0,sizeUB:65535'' (TSlice InitialUEMessageIEs)]"

definition InitialUEMessage :: gtype where
  "InitialUEMessage = TStruct [Field ''ProtocolIEs'' '''' ProtocolIEContainerInitialUEMessageIEs]"

definition UEPresence :: gtype where
  "UEPresence = TStruct [Field ''Value'' ''valueExt,valueLB:0,valueUB:2'' TEnumerated]"

definition UEPresenceInAreaOfInterestItemExtIEsExtensionValue :: gtype where
  "UEPresenceInAreaOfInterestItemExtIEsExtensionValue = TStruct [Field ''Present'' '''' TInt]"

definition UEPresenceInAreaOfInterestItemExtIEs :: gtype where
  "UEPresenceInAreaOfInterestItemExtIEs = TStruct [
     Field ''Id'' '''' ProtocolExtensionID,
     Field ''Criticality'' '''' Criticality,
     Field ''ExtensionValue'' ''openType,referenceFieldName:Id'' UEPresenceInAreaOfInterestItemExtIEsExtensionValue]"

definition ProtocolExtensionContainerUEPresenceInAreaOfInterestItemExtIEs :: gtype where
  "ProtocolExtensionContainerUEPresenceInAreaOfInterestItemExtIEs = TStruct [
     Field ''List'' ''sizeLB:1,sizeUB:65535'' (TSlice UEPresenceInAreaOfInterestItemExtIEs)]"

definition UEPresenceInAreaOfInterestItem :: gtype where
  "UEPresenceInAreaOfInterestItem = TStruct [
     Field ''LocationReportingReferenceID'' '''' LocationReportingReferenceID,
     Field ''UEPresence'' '''' UEPresence,
     Field ''IEExtensions'' ''optional'' (TPtr ProtocolExtensionContainerUEPresenceInAreaOfInterestItemExtIEs)]"

definition UEPresenceInAreaOfInterestList :: gtype where
  "UEPresenceInAreaOfInterestList = TStruct [
     Field ''List'' ''valueExt,sizeLB:1,sizeUB:64'' (TSlice UEPresenceInAreaOfInterestItem)]"

definition LocationReportIEsValue :: gtype where
  "LocationReportIEsValue = TStruct [
     Field ''Present'' '''' TInt,
     Field ''AMFUENGAPID'' ''referenceFieldValue:10'' (TPtr AMFUENGAPID),
     Field ''RANUENGAPID'' ''referenceFieldValue:85'' (TPtr RANUENGAPID),
     Field ''UserLocationInformation'' ''referenceFieldValue:121,valueLB:0,valueUB:3'' (TPtr UserLocationInformation),
     Field ''UEPresenceInAreaOfInterestList'' ''referenceFieldValue:116'' (TPtr UEPresenceInAreaOfInterestList),
     Field ''LocationReportingRequestType'' ''valueExt,referenceFieldValue:33'' (TPtr LocationReportingRequestType)]"

definition LocationReportIEs :: gtype where
  "LocationReportIEs = TStruct [
     Field ''Id'' '''' ProtocolIEID,
     Field ''Criticality'' '''' Criticality,
     Field ''Value'' ''openType,referenceFieldName:Id'' LocationReportIEsValue]"

definition ProtocolIEContainerLocationReportIEs :: gtype where
  "ProtocolIEContainerLocationReportIEs = TStruct [
     Field ''List'' ''sizeLB:0,sizeUB:65535'' (TSlice LocationReportIEs)]"

definition LocationReport :: gtype where
  "LocationReport = TStruct [Field ''ProtocolIEs'' '''' ProtocolIEContainerLocationReportIEs]"

definition LocationReportingControlIEsValue :: gtype where
  "LocationReportingControlIEsValue = TStruct [
     Field ''Present'' '''' TInt,
     Field ''AMFUENGAPID'' ''referenceFieldValue:10'' (TPtr AMFUENGAPID),
     Field ''RANUENGAPID'' ''referenceFieldValue:85'' (TPtr RANUENGAPID),
     Field ''LocationReportingRequestType'' ''valueExt,referenceFieldValue:33'' (TPtr LocationReportingRequestType)]"

definition LocationReportingControlIEs :: gtype where
  "LocationReportingControlIEs = TStruct [
     Field ''Id'' '''' ProtocolIEID,
     Field ''Criticality'' '''' Criticality,
     Field ''Value'' ''openType,referenceFieldName:Id'' LocationReportingControlIEsValue]"

definition ProtocolIEContainerLocationReportingControlIEs :: gtype where
  "ProtocolIEContainerLocationReportingControlIEs = TStruct [
     Field ''List'' ''sizeLB:0,sizeUB:65535'' (TSlice LocationReportingControlIEs)]"

definition LocationReportingControl :: gtype where
  "LocationReportingControl = TStruct [
     Field ''ProtocolIEs'' '''' ProtocolIEContainerLocationReportingControlIEs]"

definition LocationReportingFailureIndicationIEsValue :: gtype where
  "LocationReportingFailureIndicationIEsValue = TStruct [
     Field ''Present'' '''' TInt,
     Field ''AMFUENGAPID'' ''referenceFieldValue:10'' (TPtr AMFUENGAPID),
     Field ''RANUENGAPID'' ''referenceFieldValue:85'' (TPtr RANUENGAPID),
     Field ''Cause'' ''referenceFieldValue:15,valueLB:0,valueUB:5'' (TPtr Cause)]"

definition LocationReportingFailureIndicationIEs :: gtype where
  "LocationReportingFailureIndicationIEs = TStruct [
     Field ''Id'' '''' ProtocolIEID,
     Field ''Criticality'' '''' Criticality,
     Field ''Value'' ''openType,referenceFieldName:Id'' LocationReportingFailureIndicationIEsValue]"

definition ProtocolIEContainerLocationReportingFailureIndicationIEs :: gtype where
  "ProtocolIEContainerLocationReportingFailureIndicationIEs = TStruct [
     Field ''List'' ''sizeLB:0,sizeUB:65535'' (TSlice LocationReportingFailureIndicationIEs)]"

definition LocationReportingFailureIndication :: gtype where
  "LocationReportingFailureIndication = TStruct [
     Field ''ProtocolIEs'' '''' ProtocolIEContainerLocationReportingFailureIndicationIEs]"

definition NASNonDeliveryIndicationIEsValue :: gtype where
  "NASNonDeliveryIndicationIEsValue = TStruct [
     Field ''Present'' '''' TInt,
     Field ''AMFUENGAPID'' ''referenceFieldValue:10'' (TPtr AMFUENGAPID),
     Field ''RANUENGAPID'' ''referenceFieldValue:85'' (TPtr RANUENGAPID),
     Field ''NASPDU'' ''referenceFieldValue:38'' (TPtr NASPDU),
     Field ''Cause'' ''referenceFieldValue:15,valueLB:0,valueUB:5'' (TPtr Cause)]"

definition NASNonDeliveryIndicationIEs :: gtype where
  "NASNonDeliveryIndicationIEs = TStruct [
     Field ''Id'' '''' ProtocolIEID,
     Field ''Criticality'' '''' Criticality,
     Field ''Value'' ''openType,referenceFieldName:Id'' NASNonDeliveryIndicationIEsValue]"

definition ProtocolIEContainerNASNonDeliveryIndicationIEs :: gtype where
  "ProtocolIEContainerNASNonDeliveryIndicationIEs = TStruct [
     Field ''List'' ''sizeLB:0,sizeUB:65535'' (TSlice NASNonDeliveryIndicationIEs)]"

definition NASNonDeliveryIndication :: gtype where
  "NASNonDeliveryIndication = TStruct [
     Field ''ProtocolIEs'' '''' ProtocolIEContainerNASNonDeliveryIndicationIEs]"

definition OverloadAction :: gtype where
  "OverloadAction = TStruct [Field ''Value'' ''valueExt,valueLB:0,valueUB:3'' TEnumerated]"

definition ProtocolIESingleContainerOverloadResponseExtIEs :: gtype where
  "ProtocolIESingleContainerOverloadResponseExtIEs = TStruct []"

definition OverloadResponse :: gtype where
  "OverloadResponse = TStruct [
     Field ''Present'' '''' TInt,
     Field ''OverloadAction'' '''' (TPtr OverloadAction),
     Field ''ChoiceExtensions'' '''' (TPtr ProtocolIESingleContainerOverloadResponseExtIEs)]"

definition TrafficLoadReductionIndication :: gtype where
  "TrafficLoadReductionIndication = TStruct [Field ''Value'' ''valueLB:1,valueUB:99'' TInt]"

definition SliceOverloadItemExtIEsExtensionValue :: gtype where
  "SliceOverloadItemExtIEsExtensionValue = TStruct [Field ''Present'' '''' TInt]"

definition SliceOverloadItemExtIEs :: gtype where
  "SliceOverloadItemExtIEs = TStruct [
     Field ''Id'' '''' ProtocolExtensionID,
     Field ''Criticality'' '''' Criticality,
     Field ''ExtensionValue'' ''openType,referenceFieldName:Id'' SliceOverloadItemExtIEsExtensionValue]"

definition ProtocolExtensionContainerSliceOverloadItemExtIEs :: gtype where
  "ProtocolExtensionContainerSliceOverloadItemExtIEs = TStruct [
     Field ''List'' ''sizeLB:1,sizeUB:65535'' (TSlice SliceOverloadItemExtIEs)]"

definition SliceOverloadItem :: gtype where
  "SliceOverloadItem = TStruct [
     Field ''SNSSAI'' ''valueExt'' SNSSAI,
     Field ''IEExtensions'' ''optional'' (TPtr ProtocolExtensionContainerSliceOverloadItemExtIEs)]"

definition SliceOverloadList :: gtype where
  "SliceOverloadList = TStruct [Field ''List'' ''valueExt,sizeLB:1,sizeUB:1024'' (TSlice SliceOverloadItem)]"

definition OverloadStartNSSAIItemExtIEsExtensionValue :: gtype where
  "OverloadStartNSSAIItemExtIEsExtensionValue = TStruct [Field ''Present'' '''' TInt]"

definition OverloadStartNSSAIItemExtIEs :: gtype where
  "OverloadStartNSSAIItemExtIEs = TStruct [
     Field ''Id'' '''' ProtocolExtensionID,
     Field ''Criticality'' '''' Criticality,
     Field ''ExtensionValue'' ''openType,referenceFieldName:Id'' OverloadStartNSSAIItemExtIEsExtensionValue]"

definition ProtocolExtensionContainerOverloadStartNSSAIItemExtIEs :: gtype where
  "ProtocolExtensionContainerOverloadStartNSSAIItemExtIEs = TStruct [
     Field ''List'' ''sizeLB:1,sizeUB:65535'' (TSlice OverloadStartNSSAIItemExtIEs)]"

definition OverloadStartNSSAIItem :: gtype where
  "OverloadStartNSSAIItem = TStruct [
     Field ''SliceOverloadList'' '''' SliceOverloadList,
     Field ''SliceOverloadResponse'' ''valueLB:0,valueUB:1,optional'' (TPtr OverloadResponse),
     Field ''SliceTrafficLoadReductionIndication'' ''optional'' (TPtr TrafficLoadReductionIndication),
     Field ''IEExtensions'' ''optional'' (TPtr ProtocolExtensionContainerOverloadStartNSSAIItemExtIEs)]"

definition OverloadStartNSSAIList :: gtype where
  "OverloadStartNSSAIList = TStruct [
     Field ''List'' ''valueExt,sizeLB:1,sizeUB:1024'' (TSlice OverloadStartNSSAIItem)]"

definition OverloadStartIEsValue :: gtype where
  "OverloadStartIEsValue = TStruct [
     Field ''Present'' '''' TInt,
     Field ''AMFOverloadResponse'' ''referenceFieldValue:2,valueLB:0,valueUB:1'' (TPtr OverloadResponse),
     Field ''AMFTrafficLoadReductionIndication'' ''referenceFieldValue:9'' (TPtr TrafficLoadReductionIndication),
     Field ''OverloadStartNSSAIList'' ''referenceFieldValue:49'' (TPtr OverloadStartNSSAIList)]"

definition OverloadStartIEs :: gtype where
  "OverloadStartIEs = TStruct [
     Field ''Id'' '''' ProtocolIEID,
     Field ''Criticality'' '''' Criticality,
     Field ''Value'' ''openType,referenceFieldName:Id'' OverloadStartIEsValue]"

definition ProtocolIEContainerOverloadStartIEs :: gtype where
  "ProtocolIEContainerOverloadStartIEs = TStruct [
     Field ''List'' ''sizeLB:0,sizeUB:65535'' (TSlice OverloadStartIEs)]"

definition OverloadStart :: gtype where
  "OverloadStart = TStruct [Field ''ProtocolIEs'' '''' ProtocolIEContainerOverloadStartIEs]"

definition OverloadStopIEsValue :: gtype where
  "OverloadStopIEsValue = TStruct [Field ''Present'' '''' TInt]"

definition OverloadStopIEs :: gtype where
  "OverloadStopIEs = TStruct [
     Field ''Id'' '''' ProtocolIEID,
     Field ''Criticality'' '''' Criticality,
     Field ''Value'' ''openType,referenceFieldName:Id'' OverloadStopIEsValue]"

definition ProtocolIEContainerOverloadStopIEs :: gtype where
  "ProtocolIEContainerOverloadStopIEs = TStruct [
     Field ''List'' ''sizeLB:0,sizeUB:65535'' (TSlice OverloadStopIEs)]"

definition OverloadStop :: gtype where
  "OverloadStop = TStruct [Field ''ProtocolIEs'' '''' ProtocolIEContainerOverloadStopIEs]"

definition ProtocolIESingleContainerUEPagingIdentityExtIEs :: gtype where
  "ProtocolIESingleContainerUEPagingIdentityExtIEs = TStruct []"

definition UEPagingIdentity :: gtype where
  "UEPagingIdentity = TStruct [
     Field ''Present'' '''' TInt,
     Field ''FiveGSTMSI'' ''valueExt'' (TPtr FiveGSTMSI),
     Field ''ChoiceExtensions'' '''' (TPtr ProtocolIESingleContainerUEPagingIdentityExtIEs)]"

definition TAIListForPagingItemExtIEsExtensionValue :: gtype where
  "TAIListForPagingItemExtIEsExtensionValue = TStruct [Field ''Present'' '''' TInt]"

definition TAIListForPagingItemExtIEs :: gtype where
  "TAIListForPagingItemExtIEs = TStruct [
     Field ''Id'' '''' ProtocolExtensionID,
     Field ''Criticality'' '''' Criticality,
     Field ''ExtensionValue'' ''openType,referenceFieldName:Id'' TAIListForPagingItemExtIEsExtensionValue]"

definition ProtocolExtensionContainerTAIListForPagingItemExtIEs :: gtype where
  "ProtocolExtensionContainerTAIListForPagingItemExtIEs = TStruct [
     Field ''List'' ''sizeLB:1,sizeUB:65535'' (TSlice TAIListForPagingItemExtIEs)]"

definition TAIListForPagingItem :: gtype where
  "TAIListForPagingItem = TStruct [
     Field ''TAI'' ''valueExt'' TAI,
     Field ''IEExtensions'' ''optional'' (TPtr ProtocolExtensionContainerTAIListForPagingItemExtIEs)]"

definition TAIListForPaging :: gtype where
  "TAIListForPaging = TStruct [Field ''List'' ''valueExt,sizeLB:1,sizeUB:16'' (TSlice TAIListForPagingItem)]"

definition PagingPriority :: gtype where
  "PagingPriority = TStruct [Field ''Value'' ''valueExt,valueLB:0,valueUB:7'' TEnumerated]"

definition PagingOrigin :: gtype where
  "PagingOrigin = TStruct [Field ''Value'' ''valueExt,valueLB:0,valueUB:0'' TEnumerated]"

definition RecommendedCellItemExtIEsExtensionValue :: gtype where
  "RecommendedCellItemExtIEsExtensionValue = TStruct [Field ''Present'' '''' TInt]"

definition RecommendedCellItemExtIEs :: gtype where
  "RecommendedCellItemExtIEs = TStruct [
     Field ''Id'' '''' ProtocolExtensionID,
     Field ''Criticality'' '''' Criticality,
     Field ''ExtensionValue'' ''openType,referenceFieldName:Id'' RecommendedCellItemExtIEsExtensionValue]"

definition ProtocolExtensionContainerRecommendedCellItemExtIEs :: gtype where
  "ProtocolExtensionContainerRecommendedCellItemExtIEs = TStruct [
     Field ''List'' ''sizeLB:1,sizeUB:65535'' (TSlice RecommendedCellItemExtIEs)]"

definition RecommendedCellItem :: gtype where
  "RecommendedCellItem = TStruct [
     Field ''NGRANCGI'' ''valueLB:0,valueUB:2'' NGRANCGI,
     Field ''TimeStayedInCell'' ''valueLB:0,valueUB:4095,optional'' (TPtr TInt),
     Field ''IEExtensions'' ''optional'' (TPtr ProtocolExtensionContainerRecommendedCellItemExtIEs)]"

definition RecommendedCellList :: gtype where
  "RecommendedCellList = TStruct [
     Field ''List'' ''valueExt,sizeLB:1,sizeUB:16'' (TSlice RecommendedCellItem)]"

definition RecommendedCellsForPagingExtIEsExtensionValue :: gtype where
  "RecommendedCellsForPagingExtIEsExtensionValue = TStruct [Field ''Present'' '''' TInt]"

definition RecommendedCellsForPagingExtIEs :: gtype where
  "RecommendedCellsForPagingExtIEs = TStruct [
     Field ''Id'' '''' ProtocolExtensionID,
     Field ''Criticality'' '''' Criticality,
     Field ''ExtensionValue'' ''openType,referenceFieldName:Id'' RecommendedCellsForPagingExtIEsExtensionValue]"

definition ProtocolExtensionContainerRecommendedCellsForPagingExtIEs :: gtype where
  "ProtocolExtensionContainerRecommendedCellsForPagingExtIEs = TStruct [
     Field ''List'' ''sizeLB:1,sizeUB:65535'' (TSlice RecommendedCellsForPagingExtIEs)]"

definition RecommendedCellsForPaging :: gtype where
  "RecommendedCellsForPaging = TStruct [
     Field ''RecommendedCellList'' '''' RecommendedCellList,
     Field ''IEExtensions'' ''optional'' (TPtr ProtocolExtensionContainerRecommendedCellsForPagingExtIEs)]"

definition AssistanceDataForRecommendedCellsExtIEsExtensionValue :: gtype where
  "AssistanceDataForRecommendedCellsExtIEsExtensionValue = TStruct [Field ''Present'' '''' TInt]"

definition AssistanceDataForRecommendedCellsExtIEs :: gtype where
  "AssistanceDataForRecommendedCellsExtIEs = TStruct [
     Field ''Id'' '''' ProtocolExtensionID,
     Field ''Criticality'' '''' Criticality,
     Field ''ExtensionValue'' ''openType,referenceFieldName:Id'' AssistanceDataForRecommendedCellsExtIEsExtensionValue]"

definition ProtocolExtensionContainerAssistanceDataForRecommendedCellsExtIEs :: gtype where
  "ProtocolExtensionContainerAssistanceDataForRecommendedCellsExtIEs = TStruct [
     Field ''List'' ''sizeLB:1,sizeUB:65535'' (TSlice AssistanceDataForRecommendedCellsExtIEs)]"

definition AssistanceDataForRecommendedCells :: gtype where
  "AssistanceDataForRecommendedCells = TStruct [
     Field ''RecommendedCellsForPaging'' ''valueExt'' RecommendedCellsForPaging,
     Field ''IEExtensions'' ''optional'' (TPtr ProtocolExtensionContainerAssistanceDataForRecommendedCellsExtIEs)]"

definition PagingAttemptCount :: gtype where
  "PagingAttemptCount = TStruct [Field ''Value'' ''valueExt,valueLB:1,valueUB:16'' TInt]"

definition IntendedNumberOfPagingAttempts :: gtype where
  "IntendedNumberOfPagingAttempts = TStruct [Field ''Value'' ''valueExt,valueLB:1,valueUB:16'' TInt]"

definition NextPagingAreaScope :: gtype where
  "NextPagingAreaScope = TStruct [Field ''Value'' ''valueExt,valueLB:0,valueUB:1'' TEnumerated]"

definition PagingAttemptInformationExtIEsExtensionValue :: gtype where
  "PagingAttemptInformationExtIEsExtensionValue = TStruct [Field ''Present'' '''' TInt]"

definition PagingAttemptInformationExtIEs :: gtype where
  "PagingAttemptInformationExtIEs = TStruct [
     Field ''Id'' '''' ProtocolExtensionID,
     Field ''Criticality'' '''' Criticality,
     Field ''ExtensionValue'' ''openType,referenceFieldName:Id'' PagingAttemptInformationExtIEsExtensionValue]"

definition ProtocolExtensionContainerPagingAttemptInformationExtIEs :: gtype where
  "ProtocolExtensionContainerPagingAttemptInformationExtIEs = TStruct [
     Field ''List'' ''sizeLB:1,sizeUB:65535'' (TSlice PagingAttemptInformationExtIEs)]"

definition PagingAttemptInformation :: gtype where
  "PagingAttemptInformation = TStruct [
     Field ''PagingAttemptCount'' '''' PagingAttemptCount,
     Field ''IntendedNumberOfPagingAttempts'' '''' IntendedNumberOfPagingAttempts,
     Field ''NextPagingAreaScope'' ''optional'' (TPtr NextPagingAreaScope),
     Field ''IEExtensions'' ''optional'' (TPtr ProtocolExtensionContainerPagingAttemptInformationExtIEs)]"

definition AssistanceDataForPagingExtIEsExtensionValue :: gtype where
  "AssistanceDataForPagingExtIEsExtensionValue = TStruct [Field ''Present'' '''' TInt]"

definition AssistanceDataForPagingExtIEs :: gtype where
  "AssistanceDataForPagingExtIEs = TStruct [
     Field ''Id'' '''' ProtocolExtensionID,
     Field ''Criticality'' '''' Criticality,
     Field ''ExtensionValue'' ''openType,referenceFieldName:Id'' AssistanceDataForPagingExtIEsExtensionValue]"

definition ProtocolExtensionContainerAssistanceDataForPagingExtIEs :: gtype where
  "ProtocolExtensionContainerAssistanceDataForPagingExtIEs = TStruct [
     Field ''List'' ''sizeLB:1,sizeUB:65535'' (TSlice AssistanceDataForPagingExtIEs)]"

definition AssistanceDataForPaging :: gtype where
  "AssistanceDataForPaging = TStruct [
     Field ''AssistanceDataForRecommendedCells'' ''valueExt,optional'' (TPtr AssistanceDataForRecommendedCells),
     Field ''PagingAttemptInformation'' ''valueExt,optional'' (TPtr PagingAttemptInformation),
     Field ''IEExtensions'' ''optional'' (TPtr ProtocolExtensionContainerAssistanceDataForPagingExtIEs)]"

definition PagingIEsValue :: gtype where
  "PagingIEsValue = TStruct [
     Field ''Present'' '''' TInt,
     Field ''UEPagingIdentity'' ''referenceFieldValue:115,valueLB:0,valueUB:1'' (TPtr UEPagingIdentity),
     Field ''PagingDRX'' ''referenceFieldValue:50'' (TPtr PagingDRX),
     Field ''TAIListForPaging'' ''referenceFieldValue:103'' (TPtr TAIListForPaging),
     Field ''PagingPriority'' ''referenceFieldValue:52'' (TPtr PagingPriority),
     Field ''UERadioCapabilityForPaging'' ''valueExt,referenceFieldValue:118'' (TPtr UERadioCapabilityForPaging),
     Field ''PagingOrigin'' ''referenceFieldValue:51'' (TPtr PagingOrigin),
     Field ''AssistanceDataForPaging'' ''valueExt,referenceFieldValue:11'' (TPtr AssistanceDataForPaging)]"

definition PagingIEs :: gtype where
  "PagingIEs = TStruct [
     Field ''Id'' '''' ProtocolIEID,
     Field ''Criticality'' '''' Criticality,
     Field ''Value'' ''openType,referenceFieldName:Id'' PagingIEsValue]"

definition ProtocolIEContainerPagingIEs :: gtype where
  "ProtocolIEContainerPagingIEs = TStruct [Field ''List'' ''sizeLB:0,sizeUB:65535'' (TSlice PagingIEs)]"

definition Paging :: gtype where
  "Paging = TStruct [Field ''ProtocolIEs'' '''' ProtocolIEContainerPagingIEs]"

definition PDUSessionResourceNotifyItemExtIEsExtensionValue :: gtype where
  "PDUSessionResourceNotifyItemExtIEsExtensionValue = TStruct [Field ''Present'' '''' TInt]"

definition PDUSessionResourceNotifyItemExtIEs :: gtype where
  "PDUSessionResourceNotifyItemExtIEs = TStruct [
     Field ''Id'' '''' ProtocolExtensionID,
     Field ''Criticality'' '''' Criticality,
     Field ''ExtensionValue'' ''openType,referenceFieldName:Id'' PDUSessionResourceNotifyItemExtIEsExtensionValue]"

definition ProtocolExtensionContainerPDUSessionResourceNotifyItemExtIEs :: gtype where
  "ProtocolExtensionContainerPDUSessionResourceNotifyItemExtIEs = TStruct [
     Field ''List'' ''sizeLB:1,sizeUB:65535'' (TSlice PDUSessionResourceNotifyItemExtIEs)]"

definition PDUSessionResourceNotifyItem :: gtype where
  "PDUSessionResourceNotifyItem = TStruct [
     Field ''PDUSessionID'' '''' PDUSessionID,
     Field ''PDUSessionResourceNotifyTransfer'' '''' TOctetString,
     Field ''IEExtensions'' ''optional'' (TPtr ProtocolExtensionContainerPDUSessionResourceNotifyItemExtIEs)]"

definition PDUSessionResourceNotifyList :: gtype where
  "PDUSessionResourceNotifyList = TStruct [
     Field ''List'' ''valueExt,sizeLB:1,sizeUB:256'' (TSlice PDUSessionResourceNotifyItem)]"

definition PDUSessionResourceReleasedItemNotExtIEsExtensionValue :: gtype where
  "PDUSessionResourceReleasedItemNotExtIEsExtensionValue = TStruct [Field ''Present'' '''' TInt]"

definition PDUSessionResourceReleasedItemNotExtIEs :: gtype where
  "PDUSessionResourceReleasedItemNotExtIEs = TStruct [
     Field ''Id'' '''' ProtocolExtensionID,
     Field ''Criticality'' '''' Criticality,
     Field ''ExtensionValue'' ''openType,referenceFieldName:Id'' PDUSessionResourceReleasedItemNotExtIEsExtensionValue]"

definition ProtocolExtensionContainerPDUSessionResourceReleasedItemNotExtIEs :: gtype where
  "ProtocolExtensionContainerPDUSessionResourceReleasedItemNotExtIEs = TStruct [
     Field ''List'' ''sizeLB:1,sizeUB:65535'' (TSlice PDUSessionResourceReleasedItemNotExtIEs)]"

definition PDUSessionResourceReleasedItemNot :: gtype where
  "PDUSessionResourceReleasedItemNot = TStruct [
     Field ''PDUSessionID'' '''' PDUSessionID,
     Field ''PDUSessionResourceNotifyReleasedTransfer'' '''' TOctetString,
     Field ''IEExtensions'' ''optional'' (TPtr ProtocolExtensionContainerPDUSessionResourceReleasedItemNotExtIEs)]"

definition PDUSessionResourceReleasedListNot :: gtype where
  "PDUSessionResourceReleasedListNot = TStruct [
     Field ''List'' ''valueExt,sizeLB:1,sizeUB:256'' (TSlice PDUSessionResourceReleasedItemNot)]"

definition PDUSessionResourceNotifyIEsValue :: gtype where
  "PDUSessionResourceNotifyIEsValue = TStruct [
     Field ''Present'' '''' TInt,
     Field ''AMFUENGAPID'' ''referenceFieldValue:10'' (TPtr AMFUENGAPID),
     Field ''RANUENGAPID'' ''referenceFieldValue:85'' (TPtr RANUENGAPID),
     Field ''PDUSessionResourceNotifyList'' ''referenceFieldValue:66'' (TPtr PDUSessionResourceNotifyList),
     Field ''PDUSessionResourceReleasedListNot'' ''referenceFieldValue:67'' (TPtr PDUSessionResourceReleasedListNot),
     Field ''UserLocationInformation'' ''referenceFieldValue:121,valueLB:0,valueUB:3'' (TPtr UserLocationInformation)]"

definition PDUSessionResourceNotifyIEs :: gtype where
  "PDUSessionResourceNotifyIEs = TStruct [
     Field ''Id'' '''' ProtocolIEID,
     Field ''Criticality'' '''' Criticality,
     Field ''Value'' ''openType,referenceFieldName:Id'' PDUSessionResourceNotifyIEsValue]"

definition ProtocolIEContainerPDUSessionResourceNotifyIEs :: gtype where
  "ProtocolIEContainerPDUSessionResourceNotifyIEs = TStruct [
     Field ''List'' ''sizeLB:0,sizeUB:65535'' (TSlice PDUSessionResourceNotifyIEs)]"

definition PDUSessionResourceNotify :: gtype where
  "PDUSessionResourceNotify = TStruct [
     Field ''ProtocolIEs'' '''' ProtocolIEContainerPDUSessionResourceNotifyIEs]"

definition PrivateIEID :: gtype where
  "PrivateIEID = TStruct [
     Field ''Present'' '''' TInt,
     Field ''Local'' ''valueLB:0,valueUB:65535'' (TPtr TInt),
     Field ''Global'' '''' (TPtr TObjectIdentifier)]"

definition PrivateMessageIEsValue :: gtype where
  "PrivateMessageIEsValue = TStruct [Field ''Present'' '''' TInt]"

definition PrivateMessageIEs :: gtype where
  "PrivateMessageIEs = TStruct [
     Field ''Id'' '''' PrivateIEID,
     Field ''Criticality'' '''' Criticality,
     Field ''Value'' ''openType,referenceFieldName:Id'' PrivateMessageIEsValue]"

definition PrivateIEContainerPrivateMessageIEs :: gtype where
  "PrivateIEContainerPrivateMessageIEs = TStruct [
     Field ''List'' ''sizeLB:1,sizeUB:65535'' (TSlice PrivateMessageIEs)]"

definition PrivateMessage :: gtype where
  "PrivateMessage = TStruct [Field ''PrivateIEs'' '''' PrivateIEContainerPrivateMessageIEs]"

definition EUTRACGIList :: gtype where
  "EUTRACGIList = TStruct [Field ''List'' ''valueExt,sizeLB:1,sizeUB:256'' (TSlice EUTRACGI)]"

definition NRCGIList :: gtype where
  "NRCGIList = TStruct [Field ''List'' ''valueExt,sizeLB:1,sizeUB:16384'' (TSlice NRCGI)]"

definition ProtocolIESingleContainerPWSFailedCellIDListExtIEs :: gtype where
  "ProtocolIESingleContainerPWSFailedCellIDListExtIEs = TStruct []"

definition PWSFailedCellIDList :: gtype where
  "PWSFailedCellIDList = TStruct [
     Field ''Present'' '''' TInt,
     Field ''EUTRACGIPWSFailedList'' '''' (TPtr EUTRACGIList),
     Field ''NRCGIPWSFailedList'' '''' (TPtr NRCGIList),
     Field ''ChoiceExtensions'' '''' (TPtr ProtocolIESingleContainerPWSFailedCellIDListExtIEs)]"

definition PWSFailureIndicationIEsValue :: gtype where
  "PWSFailureIndicationIEsValue = TStruct [
     Field ''Present'' '''' TInt,
     Field ''PWSFailedCellIDList'' ''referenceFieldValue:81,valueLB:0,valueUB:2'' (TPtr PWSFailedCellIDList),
     Field ''GlobalRANNodeID'' ''referenceFieldValue:27,valueLB:0,valueUB:3'' (TPtr GlobalRANNodeID)]"

definition PWSFailureIndicationIEs :: gtype where
  "PWSFailureIndicationIEs = TStruct [
     Field ''Id'' '''' ProtocolIEID,
     Field ''Criticality'' '''' Criticality,
     Field ''Value'' ''openType,referenceFieldName:Id'' PWSFailureIndicationIEsValue]"

definition ProtocolIEContainerPWSFailureIndicationIEs :: gtype where
  "ProtocolIEContainerPWSFailureIndicationIEs = TStruct [
     Field ''List'' ''sizeLB:0,sizeUB:65535'' (TSlice PWSFailureIndicationIEs)]"

definition PWSFailureIndication :: gtype where
  "PWSFailureIndication = TStruct [Field ''ProtocolIEs'' '''' ProtocolIEContainerPWSFailureIndicationIEs]"

definition ProtocolIESingleContainerCellIDListForRestartExtIEs :: gtype where
  "ProtocolIESingleContainerCellIDListForRestartExtIEs = TStruct []"

definition CellIDListForRestart :: gtype where
  "CellIDListForRestart = TStruct [
     Field ''Present'' '''' TInt,
     Field ''EUTRACGIListforRestart'' '''' (TPtr EUTRACGIList),
     Field ''NRCGIListforRestart'' '''' (TPtr NRCGIList),
     Field ''ChoiceExtensions'' '''' (TPtr ProtocolIESingleContainerCellIDListForRestartExtIEs)]"

definition TAIListForRestart :: gtype where
  "TAIListForRestart = TStruct [Field ''List'' ''valueExt,sizeLB:1,sizeUB:2048'' (TSlice TAI)]"

definition EmergencyAreaIDListForRestart :: gtype where
  "EmergencyAreaIDListForRestart = TStruct [Field ''List'' ''sizeLB:1,sizeUB:256'' (TSlice EmergencyAreaID)]"

definition PWSRestartIndicationIEsValue :: gtype where
  "PWSRestartIndicationIEsValue = TStruct [
     Field ''Present'' '''' TInt,
     Field ''CellIDListForRestart'' ''referenceFieldValue:16,valueLB:0,valueUB:2'' (TPtr CellIDListForRestart),
     Field ''GlobalRANNodeID'' ''referenceFieldValue:27,valueLB:0,valueUB:3'' (TPtr GlobalRANNodeID),
     Field ''TAIListForRestart'' ''referenceFieldValue:104'' (TPtr TAIListForRestart),
     Field ''EmergencyAreaIDListForRestart'' ''referenceFieldValue:23'' (TPtr EmergencyAreaIDListForRestart)]"

definition PWSRestartIndicationIEs :: gtype where
  "PWSRestartIndicationIEs = TStruct [
     Field ''Id'' '''' ProtocolIEID,
     Field ''Criticality'' '''' Criticality,
     Field ''Value'' ''openType,referenceFieldName:Id'' PWSRestartIndicationIEsValue]"

definition ProtocolIEContainerPWSRestartIndicationIEs :: gtype where
  "ProtocolIEContainerPWSRestartIndicationIEs = TStruct [
     Field ''List'' ''sizeLB:0,sizeUB:65535'' (TSlice PWSRestartIndicationIEs)]"

definition PWSRestartIndication :: gtype where
  "PWSRestartIndication = TStruct [Field ''ProtocolIEs'' '''' ProtocolIEContainerPWSRestartIndicationIEs]"

definition RerouteNASRequestIEsValue :: gtype where
  "RerouteNASRequestIEsValue = TStruct [
     Field ''Present'' '''' TInt,
     Field ''RANUENGAPID'' ''referenceFieldValue:85'' (TPtr RANUENGAPID),
     Field ''AMFUENGAPID'' ''referenceFieldValue:10'' (TPtr AMFUENGAPID),
     Field ''NGAPMessage'' ''referenceFieldValue:42'' (TPtr TOctetString),
     Field ''AMFSetID'' ''referenceFieldValue:3'' (TPtr AMFSetID),
     Field ''AllowedNSSAI'' ''referenceFieldValue:0'' (TPtr AllowedNSSAI)]"

definition RerouteNASRequestIEs :: gtype where
  "RerouteNASRequestIEs = TStruct [
     Field ''Id'' '''' ProtocolIEID,
     Field ''Criticality'' '''' Criticality,
     Field ''Value'' ''openType,referenceFieldName:Id'' RerouteNASRequestIEsValue]"

definition ProtocolIEContainerRerouteNASRequestIEs :: gtype where
  "ProtocolIEContainerRerouteNASRequestIEs = TStruct [
     Field ''List'' ''sizeLB:0,sizeUB:65535'' (TSlice RerouteNASRequestIEs)]"

definition RerouteNASRequest :: gtype where
  "RerouteNASRequest = TStruct [Field ''ProtocolIEs'' '''' ProtocolIEContainerRerouteNASRequestIEs]"

definition RRCState :: gtype where
  "RRCState = TStruct [Field ''Value'' ''valueExt,valueLB:0,valueUB:1'' TEnumerated]"

definition RRCInactiveTransitionReportIEsValue :: gtype where
  "RRCInactiveTransitionReportIEsValue = TStruct [
     Field ''Present'' '''' TInt,
     Field ''AMFUENGAPID'' ''referenceFieldValue:10'' (TPtr AMFUENGAPID),
     Field ''RANUENGAPID'' ''referenceFieldValue:85'' (TPtr RANUENGAPID),
     Field ''RRCState'' ''referenceFieldValue:92'' (TPtr RRCState),
     Field ''UserLocationInformation'' ''referenceFieldValue:121,valueLB:0,valueUB:3'' (TPtr UserLocationInformation)]"

definition RRCInactiveTransitionReportIEs :: gtype where
  "RRCInactiveTransitionReportIEs = TStruct [
     Field ''Id'' '''' ProtocolIEID,
     Field ''Criticality'' '''' Criticality,
     Field ''Value'' ''openType,referenceFieldName:Id'' RRCInactiveTransitionReportIEsValue]"

definition ProtocolIEContainerRRCInactiveTransitionReportIEs :: gtype where
  "ProtocolIEContainerRRCInactiveTransitionReportIEs = TStruct [
     Field ''List'' ''sizeLB:0,sizeUB:65535'' (TSlice RRCInactiveTransitionReportIEs)]"

definition RRCInactiveTransitionReport :: gtype where
  "RRCInactiveTransitionReport = TStruct [
     Field ''ProtocolIEs'' '''' ProtocolIEContainerRRCInactiveTransitionReportIEs]"

definition TraceFailureIndicationIEsValue :: gtype where
  "TraceFailureIndicationIEsValue = TStruct [
     Field ''Present'' '''' TInt,
     Field ''AMFUENGAPID'' ''referenceFieldValue:10'' (TPtr AMFUENGAPID),
     Field ''RANUENGAPID'' ''referenceFieldValue:85'' (TPtr RANUENGAPID),
     Field ''NGRANTraceID'' ''referenceFieldValue:44'' (TPtr NGRANTraceID),
     Field ''Cause'' ''referenceFieldValue:15,valueLB:0,valueUB:5'' (TPtr Cause)]"

definition TraceFailureIndicationIEs :: gtype where
  "TraceFailureIndicationIEs = TStruct [
     Field ''Id'' '''' ProtocolIEID,
     Field ''Criticality'' '''' Criticality,
     Field ''Value'' ''openType,referenceFieldName:Id'' TraceFailureIndicationIEsValue]"

definition ProtocolIEContainerTraceFailureIndicationIEs :: gtype where
  "ProtocolIEContainerTraceFailureIndicationIEs = TStruct [
     Field ''List'' ''sizeLB:0,sizeUB:65535'' (TSlice TraceFailureIndicationIEs)]"

definition TraceFailureIndication :: gtype where
  "TraceFailureIndication = TStruct [Field ''ProtocolIEs'' '''' ProtocolIEContainerTraceFailureIndicationIEs]"

definition TraceStartIEsValue :: gtype where
  "TraceStartIEsValue = TStruct [
     Field ''Present'' '''' TInt,
     Field ''AMFUENGAPID'' ''referenceFieldValue:10'' (TPtr AMFUENGAPID),
     Field ''RANUENGAPID'' ''referenceFieldValue:85'' (TPtr RANUENGAPID),
     Field ''TraceActivation'' ''valueExt,referenceFieldValue:108'' (TPtr TraceActivation)]"

definition TraceStartIEs :: gtype where
  "TraceStartIEs = TStruct [
     Field ''Id'' '''' ProtocolIEID,
     Field ''Criticality'' '''' Criticality,
     Field ''Value'' ''openType,referenceFieldName:Id'' TraceStartIEsValue]"

definition ProtocolIEContainerTraceStartIEs :: gtype where
  "ProtocolIEContainerTraceStartIEs = TStruct [
     Field ''List'' ''sizeLB:0,sizeUB:65535'' (TSlice TraceStartIEs)]"

definition TraceStart :: gtype where
  "TraceStart = TStruct [Field ''ProtocolIEs'' '''' ProtocolIEContainerTraceStartIEs]"

definition PDUSessionResourceItemCxtRelReqExtIEsExtensionValue :: gtype where
  "PDUSessionResourceItemCxtRelReqExtIEsExtensionValue = TStruct [Field ''Present'' '''' TInt]"

definition PDUSessionResourceItemCxtRelReqExtIEs :: gtype where
  "PDUSessionResourceItemCxtRelReqExtIEs = TStruct [
     Field ''Id'' '''' ProtocolExtensionID,
     Field ''Criticality'' '''' Criticality,
     Field ''ExtensionValue'' ''openType,referenceFieldName:Id'' PDUSessionResourceItemCxtRelReqExtIEsExtensionValue]"

definition ProtocolExtensionContainerPDUSessionResourceItemCxtRelReqExtIEs :: gtype where
  "ProtocolExtensionContainerPDUSessionResourceItemCxtRelReqExtIEs = TStruct [
     Field ''List'' ''sizeLB:1,sizeUB:65535'' (TSlice PDUSessionResourceItemCxtRelReqExtIEs)]"

definition PDUSessionResourceItemCxtRelReq :: gtype where
  "PDUSessionResourceItemCxtRelReq = TStruct [
     Field ''PDUSessionID'' '''' PDUSessionID,
     Field ''IEExtensions'' ''optional'' (TPtr ProtocolExtensionContainerPDUSessionResourceItemCxtRelReqExtIEs)]"

definition PDUSessionResourceListCxtRelReq :: gtype where
  "PDUSessionResourceListCxtRelReq = TStruct [
     Field ''List'' ''valueExt,sizeLB:1,sizeUB:256'' (TSlice PDUSessionResourceItemCxtRelReq)]"

definition UEContextReleaseRequestIEsValue :: gtype where
  "UEContextReleaseRequestIEsValue = TStruct [
     Field ''Present'' '''' TInt,
     Field ''AMFUENGAPID'' ''referenceFieldValue:10'' (TPtr AMFUENGAPID),
     Field ''RANUENGAPID'' ''referenceFieldValue:85'' (TPtr RANUENGAPID),
     Field ''PDUSessionResourceListCxtRelReq'' ''referenceFieldValue:133'' (TPtr PDUSessionResourceListCxtRelReq),
     Field ''Cause'' ''referenceFieldValue:15,valueLB:0,valueUB:5'' (TPtr Cause)]"

definition UEContextReleaseRequestIEs :: gtype where
  "UEContextReleaseRequestIEs = TStruct [
     Field ''Id'' '''' ProtocolIEID,
     Field ''Criticality'' '''' Criticality,
     Field ''Value'' ''openType,referenceFieldName:Id'' UEContextReleaseRequestIEsValue]"

definition ProtocolIEContainerUEContextReleaseRequestIEs :: gtype where
  "ProtocolIEContainerUEContextReleaseRequestIEs = TStruct [
     Field ''List'' ''sizeLB:0,sizeUB:65535'' (TSlice UEContextReleaseRequestIEs)]"

definition UEContextReleaseRequest :: gtype where
  "UEContextReleaseRequest = TStruct [
     Field ''ProtocolIEs'' '''' ProtocolIEContainerUEContextReleaseRequestIEs]"

definition UERadioCapabilityInfoIndicationIEsValue :: gtype where
  "UERadioCapabilityInfoIndicationIEsValue = TStruct [
     Field ''Present'' '''' TInt,
     Field ''AMFUENGAPID'' ''referenceFieldValue:10'' (TPtr AMFUENGAPID),
     Field ''RANUENGAPID'' ''referenceFieldValue:85'' (TPtr RANUENGAPID),
     Field ''UERadioCapability'' ''referenceFieldValue:117'' (TPtr UERadioCapability),
     Field ''UERadioCapabilityForPaging'' ''valueExt,referenceFieldValue:118'' (TPtr UERadioCapabilityForPaging)]"

definition UERadioCapabilityInfoIndicationIEs :: gtype where
  "UERadioCapabilityInfoIndicationIEs = TStruct [
     Field ''Id'' '''' ProtocolIEID,
     Field ''Criticality'' '''' Criticality,
     Field ''Value'' ''openType,referenceFieldName:Id'' UERadioCapabilityInfoIndicationIEsValue]"

definition ProtocolIEContainerUERadioCapabilityInfoIndicationIEs :: gtype where
  "ProtocolIEContainerUERadioCapabilityInfoIndicationIEs = TStruct [
     Field ''List'' ''sizeLB:0,sizeUB:65535'' (TSlice UERadioCapabilityInfoIndicationIEs)]"

definition UERadioCapabilityInfoIndication :: gtype where
  "UERadioCapabilityInfoIndication = TStruct [
     Field ''ProtocolIEs'' '''' ProtocolIEContainerUERadioCapabilityInfoIndicationIEs]"

definition UETNLABindingReleaseRequestIEsValue :: gtype where
  "UETNLABindingReleaseRequestIEsValue = TStruct [
     Field ''Present'' '''' TInt,
     Field ''AMFUENGAPID'' ''referenceFieldValue:10'' (TPtr AMFUENGAPID),
     Field ''RANUENGAPID'' ''referenceFieldValue:85'' (TPtr RANUENGAPID)]"

definition UETNLABindingReleaseRequestIEs :: gtype where
  "UETNLABindingReleaseRequestIEs = TStruct [
     Field ''Id'' '''' ProtocolIEID,
     Field ''Criticality'' '''' Criticality,
     Field ''Value'' ''openType,referenceFieldName:Id'' UETNLABindingReleaseRequestIEsValue]"

definition ProtocolIEContainerUETNLABindingReleaseRequestIEs :: gtype where
  "ProtocolIEContainerUETNLABindingReleaseRequestIEs = TStruct [
     Field ''List'' ''sizeLB:0,sizeUB:65535'' (TSlice UETNLABindingReleaseRequestIEs)]"

definition UETNLABindingReleaseRequest :: gtype where
  "UETNLABindingReleaseRequest = TStruct [
     Field ''ProtocolIEs'' '''' ProtocolIEContainerUETNLABindingReleaseRequestIEs]"

definition UplinkNASTransportIEsValue :: gtype where
  "UplinkNASTransportIEsValue = TStruct [
     Field ''Present'' '''' TInt,
     Field ''AMFUENGAPID'' ''referenceFieldValue:10'' (TPtr AMFUENGAPID),
     Field ''RANUENGAPID'' ''referenceFieldValue:85'' (TPtr RANUENGAPID),
     Field ''NASPDU'' ''referenceFieldValue:38'' (TPtr NASPDU),
     Field ''UserLocationInformation'' ''referenceFieldValue:121,valueLB:0,valueUB:3'' (TPtr UserLocationInformation)]"

definition UplinkNASTransportIEs :: gtype where
  "UplinkNASTransportIEs = TStruct [
     Field ''Id'' '''' ProtocolIEID,
     Field ''Criticality'' '''' Criticality,
     Field ''Value'' ''openType,referenceFieldName:Id'' UplinkNASTransportIEsValue]"

definition ProtocolIEContainerUplinkNASTransportIEs :: gtype where
  "ProtocolIEContainerUplinkNASTransportIEs = TStruct [
     Field ''List'' ''sizeLB:0,sizeUB:65535'' (TSlice UplinkNASTransportIEs)]"

definition UplinkNASTransport :: gtype where
  "UplinkNASTransport = TStruct [Field ''ProtocolIEs'' '''' ProtocolIEContainerUplinkNASTransportIEs]"

definition UplinkNonUEAssociatedNRPPaTransportIEsValue :: gtype where
  "UplinkNonUEAssociatedNRPPaTransportIEsValue = TStruct [
     Field ''Present'' '''' TInt,
     Field ''RoutingID'' ''referenceFieldValue:89'' (TPtr RoutingID),
     Field ''NRPPaPDU'' ''referenceFieldValue:46'' (TPtr NRPPaPDU)]"

definition UplinkNonUEAssociatedNRPPaTransportIEs :: gtype where
  "UplinkNonUEAssociatedNRPPaTransportIEs = TStruct [
     Field ''Id'' '''' ProtocolIEID,
     Field ''Criticality'' '''' Criticality,
     Field ''Value'' ''openType,referenceFieldName:Id'' UplinkNonUEAssociatedNRPPaTransportIEsValue]"

definition ProtocolIEContainerUplinkNonUEAssociatedNRPPaTransportIEs :: gtype where
  "ProtocolIEContainerUplinkNonUEAssociatedNRPPaTransportIEs = TStruct [
     Field ''List'' ''sizeLB:0,sizeUB:65535'' (TSlice UplinkNonUEAssociatedNRPPaTransportIEs)]"

definition UplinkNonUEAssociatedNRPPaTransport :: gtype where
  "UplinkNonUEAssociatedNRPPaTransport = TStruct [
     Field ''ProtocolIEs'' '''' ProtocolIEContainerUplinkNonUEAssociatedNRPPaTransportIEs]"

definition UplinkRANConfigurationTransferIEsValue :: gtype where
  "UplinkRANConfigurationTransferIEsValue = TStruct [
     Field ''Present'' '''' TInt,
     Field ''SONConfigurationTransferUL'' ''valueExt,referenceFieldValue:99'' (TPtr SONConfigurationTransfer)]"

definition UplinkRANConfigurationTransferIEs :: gtype where
  "UplinkRANConfigurationTransferIEs = TStruct [
     Field ''Id'' '''' ProtocolIEID,
     Field ''Criticality'' '''' Criticality,
     Field ''Value'' ''openType,referenceFieldName:Id'' UplinkRANConfigurationTransferIEsValue]"

definition ProtocolIEContainerUplinkRANConfigurationTransferIEs :: gtype where
  "ProtocolIEContainerUplinkRANConfigurationTransferIEs = TStruct [
     Field ''List'' ''sizeLB:0,sizeUB:65535'' (TSlice UplinkRANConfigurationTransferIEs)]"

definition UplinkRANConfigurationTransfer :: gtype where
  "UplinkRANConfigurationTransfer = TStruct [
     Field ''ProtocolIEs'' '''' ProtocolIEContainerUplinkRANConfigurationTransferIEs]"

definition UplinkRANStatusTransferIEsValue :: gtype where
  "UplinkRANStatusTransferIEsValue = TStruct [
     Field ''Present'' '''' TInt,
     Field ''AMFUENGAPID'' ''referenceFieldValue:10'' (TPtr AMFUENGAPID),
     Field ''RANUENGAPID'' ''referenceFieldValue:85'' (TPtr RANUENGAPID),
     Field ''RANStatusTransferTransparentContainer'' ''valueExt,referenceFieldValue:84'' (TPtr RANStatusTransferTransparentContainer)]"

definition UplinkRANStatusTransferIEs :: gtype where
  "UplinkRANStatusTransferIEs = TStruct [
     Field ''Id'' '''' ProtocolIEID,
     Field ''Criticality'' '''' Criticality,
     Field ''Value'' ''openType,referenceFieldName:Id'' UplinkRANStatusTransferIEsValue]"

definition ProtocolIEContainerUplinkRANStatusTransferIEs :: gtype where
  "ProtocolIEContainerUplinkRANStatusTransferIEs = TStruct [
     Field ''List'' ''sizeLB:0,sizeUB:65535'' (TSlice UplinkRANStatusTransferIEs)]"

definition UplinkRANStatusTransfer :: gtype where
  "UplinkRANStatusTransfer = TStruct [
     Field ''ProtocolIEs'' '''' ProtocolIEContainerUplinkRANStatusTransferIEs]"

definition UplinkUEAssociatedNRPPaTransportIEsValue :: gtype where
  "UplinkUEAssociatedNRPPaTransportIEsValue = TStruct [
     Field ''Present'' '''' TInt,
     Field ''AMFUENGAPID'' ''referenceFieldValue:10'' (TPtr AMFUENGAPID),
     Field ''RANUENGAPID'' ''referenceFieldValue:85'' (TPtr RANUENGAPID),
     Field ''RoutingID'' ''referenceFieldValue:89'' (TPtr RoutingID),
     Field ''NRPPaPDU'' ''referenceFieldValue:46'' (TPtr NRPPaPDU)]"

definition UplinkUEAssociatedNRPPaTransportIEs :: gtype where
  "UplinkUEAssociatedNRPPaTransportIEs = TStruct [
     Field ''Id'' '''' ProtocolIEID,
     Field ''Criticality'' '''' Criticality,
     Field ''Value'' ''openType,referenceFieldName:Id'' UplinkUEAssociatedNRPPaTransportIEsValue]"

definition ProtocolIEContainerUplinkUEAssociatedNRPPaTransportIEs :: gtype where
  "ProtocolIEContainerUplinkUEAssociatedNRPPaTransportIEs = TStruct [
     Field ''List'' ''sizeLB:0,sizeUB:65535'' (TSlice UplinkUEAssociatedNRPPaTransportIEs)]"

definition UplinkUEAssociatedNRPPaTransport :: gtype where
  "UplinkUEAssociatedNRPPaTransport = TStruct [
     Field ''ProtocolIEs'' '''' ProtocolIEContainerUplinkUEAssociatedNRPPaTransportIEs]"

definition InitiatingMessageValue :: gtype where
  "InitiatingMessageValue = TStruct [
     Field ''Present'' '''' TInt,
     Field ''AMFConfigurationUpdate'' ''valueExt,referenceFieldValue:0'' (TPtr AMFConfigurationUpdate),
     Field ''HandoverCancel'' ''valueExt,referenceFieldValue:10'' (TPtr HandoverCancel),
     Field ''HandoverRequired'' ''valueExt,referenceFieldValue:12'' (TPtr HandoverRequired),
     Field ''HandoverRequest'' ''valueExt,referenceFieldValue:13'' (TPtr HandoverRequest),
     Field ''InitialContextSetupRequest'' ''valueExt,referenceFieldValue:14'' (TPtr InitialContextSetupRequest),
     Field ''NGReset'' ''valueExt,referenceFieldValue:20'' (TPtr NGReset),
     Field ''NGSetupRequest'' ''valueExt,referenceFieldValue:21'' (TPtr NGSetupRequest),
     Field ''PathSwitchRequest'' ''valueExt,referenceFieldValue:25'' (TPtr PathSwitchRequest),
     Field ''PDUSessionResourceModifyRequest'' ''valueExt,referenceFieldValue:26'' (TPtr PDUSessionResourceModifyRequest),
     Field ''PDUSessionResourceModifyIndication'' ''valueExt,referenceFieldValue:27'' (TPtr PDUSessionResourceModifyIndication),
     Field ''PDUSessionResourceReleaseCommand'' ''valueExt,referenceFieldValue:28'' (TPtr PDUSessionResourceReleaseCommand),
     Field ''PDUSessionResourceSetupRequest'' ''valueExt,referenceFieldValue:29'' (TPtr PDUSessionResourceSetupRequest),
     Field ''PWSCancelRequest'' ''valueExt,referenceFieldValue:32'' (TPtr PWSCancelRequest),
     Field ''RANConfigurationUpdate'' ''valueExt,referenceFieldValue:35'' (TPtr RANConfigurationUpdate),
     Field ''UEContextModificationRequest'' ''valueExt,referenceFieldValue:40'' (TPtr UEContextModificationRequest),
     Field ''UEContextReleaseCommand'' ''valueExt,referenceFieldValue:41'' (TPtr UEContextReleaseCommand),
     Field ''UERadioCapabilityCheckRequest'' ''valueExt,referenceFieldValue:43'' (TPtr UERadioCapabilityCheckRequest),
     Field ''WriteReplaceWarningRequest'' ''valueExt,referenceFieldValue:51'' (TPtr WriteReplaceWarningRequest),
     Field ''AMFStatusIndication'' ''valueExt,referenceFieldValue:1'' (TPtr AMFStatusIndication),
     Field ''CellTrafficTrace'' ''valueExt,referenceFieldValue:2'' (TPtr CellTrafficTrace),
     Field ''DeactivateTrace'' ''valueExt,referenceFieldValue:3'' (TPtr DeactivateTrace),
     Field ''DownlinkNASTransport'' ''valueExt,referenceFieldValue:4'' (TPtr DownlinkNASTransport),
     Field ''DownlinkNonUEAssociatedNRPPaTransport'' ''valueExt,referenceFieldValue:5'' (TPtr DownlinkNonUEAssociatedNRPPaTransport),
     Field ''DownlinkRANConfigurationTransfer'' ''valueExt,referenceFieldValue:6'' (TPtr DownlinkRANConfigurationTransfer),
     Field ''DownlinkRANStatusTransfer'' ''valueExt,referenceFieldValue:7'' (TPtr DownlinkRANStatusTransfer),
     Field ''DownlinkUEAssociatedNRPPaTransport'' ''valueExt,referenceFieldValue:8'' (TPtr DownlinkUEAssociatedNRPPaTransport),
     Field ''ErrorIndication'' ''valueExt,referenceFieldValue:9'' (TPtr ErrorIndication),
     Field ''HandoverNotify'' ''valueExt,referenceFieldValue:11'' (TPtr HandoverNotify),
     Field ''InitialUEMessage'' ''valueExt,referenceFieldValue:15'' (TPtr InitialUEMessage),
     Field ''LocationReport'' ''valueExt,referenceFieldValue:18'' (TPtr LocationReport),
     Field ''LocationReportingControl'' ''valueExt,referenceFieldValue:16'' (TPtr LocationReportingControl),
     Field ''LocationReportingFailureIndication'' ''valueExt,referenceFieldValue:17'' (TPtr LocationReportingFailureIndication),
     Field ''NASNonDeliveryIndication'' ''valueExt,referenceFieldValue:19'' (TPtr NASNonDeliveryIndication),
     Field ''OverloadStart'' ''valueExt,referenceFieldValue:22'' (TPtr OverloadStart),
     Field ''OverloadStop'' ''valueExt,referenceFieldValue:23'' (TPtr OverloadStop),
     Field ''Paging'' ''valueExt,referenceFieldValue:24'' (TPtr Paging),
     Field ''PDUSessionResourceNotify'' ''valueExt,referenceFieldValue:30'' (TPtr PDUSessionResourceNotify),
     Field ''PrivateMessage'' ''valueExt,referenceFieldValue:31'' (TPtr PrivateMessage),
     Field ''PWSFailureIndication'' ''valueExt,referenceFieldValue:33'' (TPtr PWSFailureIndication),
     Field ''PWSRestartIndication'' ''valueExt,referenceFieldValue:34'' (TPtr PWSRestartIndication),
     Field ''RerouteNASRequest'' ''valueExt,referenceFieldValue:36'' (TPtr RerouteNASRequest),
     Field ''RRCInactiveTransitionReport'' ''valueExt,referenceFieldValue:37'' (TPtr RRCInactiveTransitionReport),
     Field ''TraceFailureIndication'' ''valueExt,referenceFieldValue:38'' (TPtr TraceFailureIndication),
     Field ''TraceStart'' ''valueExt,referenceFieldValue:39'' (TPtr TraceStart),
     Field ''UEContextReleaseRequest'' ''valueExt,referenceFieldValue:42'' (TPtr UEContextReleaseRequest),
     Field ''UERadioCapabilityInfoIndication'' ''valueExt,referenceFieldValue:44'' (TPtr UERadioCapabilityInfoIndication),
     Field ''UETNLABindingReleaseRequest'' ''valueExt,referenceFieldValue:45'' (TPtr UETNLABindingReleaseRequest),
     Field ''UplinkNASTransport'' ''valueExt,referenceFieldValue:46'' (TPtr UplinkNASTransport),
     Field ''UplinkNonUEAssociatedNRPPaTransport'' ''valueExt,referenceFieldValue:47'' (TPtr UplinkNonUEAssociatedNRPPaTransport),
     Field ''UplinkRANConfigurationTransfer'' ''valueExt,referenceFieldValue:48'' (TPtr UplinkRANConfigurationTransfer),
     Field ''UplinkRANStatusTransfer'' ''valueExt,referenceFieldValue:49'' (TPtr UplinkRANStatusTransfer),
     Field ''UplinkUEAssociatedNRPPaTransport'' ''valueExt,referenceFieldValue:50'' (TPtr UplinkUEAssociatedNRPPaTransport)]"

definition InitiatingMessage :: gtype where
  "InitiatingMessage = TStruct [
     Field ''ProcedureCode'' '''' ProcedureCode,
     Field ''Criticality'' '''' Criticality,
     Field ''Value'' ''openType,referenceFieldName:ProcedureCode'' InitiatingMessageValue]"

definition AMFTNLAssociationSetupItemExtIEsExtensionValue :: gtype where
  "AMFTNLAssociationSetupItemExtIEsExtensionValue = TStruct [Field ''Present'' '''' TInt]"

definition AMFTNLAssociationSetupItemExtIEs :: gtype where
  "AMFTNLAssociationSetupItemExtIEs = TStruct [
     Field ''Id'' '''' ProtocolExtensionID,
     Field ''Criticality'' '''' Criticality,
     Field ''ExtensionValue'' ''openType,referenceFieldName:Id'' AMFTNLAssociationSetupItemExtIEsExtensionValue]"

definition ProtocolExtensionContainerAMFTNLAssociationSetupItemExtIEs :: gtype where
  "ProtocolExtensionContainerAMFTNLAssociationSetupItemExtIEs = TStruct [
     Field ''List'' ''sizeLB:1,sizeUB:65535'' (TSlice AMFTNLAssociationSetupItemExtIEs)]"

definition AMFTNLAssociationSetupItem :: gtype where
  "AMFTNLAssociationSetupItem = TStruct [
     Field ''AMFTNLAssociationAddress'' ''valueLB:0,valueUB:1'' CPTransportLayerInformation,
     Field ''IEExtensions'' ''optional'' (TPtr ProtocolExtensionContainerAMFTNLAssociationSetupItemExtIEs)]"

definition AMFTNLAssociationSetupList :: gtype where
  "AMFTNLAssociationSetupList = TStruct [
     Field ''List'' ''valueExt,sizeLB:1,sizeUB:32'' (TSlice AMFTNLAssociationSetupItem)]"

definition TNLAssociationItemExtIEsExtensionValue :: gtype where
  "TNLAssociationItemExtIEsExtensionValue = TStruct [Field ''Present'' '''' TInt]"

definition TNLAssociationItemExtIEs :: gtype where
  "TNLAssociationItemExtIEs = TStruct [
     Field ''Id'' '''' ProtocolExtensionID,
     Field ''Criticality'' '''' Criticality,
     Field ''ExtensionValue'' ''openType,referenceFieldName:Id'' TNLAssociationItemExtIEsExtensionValue]"

definition ProtocolExtensionContainerTNLAssociationItemExtIEs :: gtype where
  "ProtocolExtensionContainerTNLAssociationItemExtIEs = TStruct [
     Field ''List'' ''sizeLB:1,sizeUB:65535'' (TSlice TNLAssociationItemExtIEs)]"

definition TNLAssociationItem :: gtype where
  "TNLAssociationItem = TStruct [
     Field ''TNLAssociationAddress'' ''valueLB:0,valueUB:1'' CPTransportLayerInformation,
     Field ''Cause'' ''valueLB:0,valueUB:5'' Cause,
     Field ''IEExtensions'' ''optional'' (TPtr ProtocolExtensionContainerTNLAssociationItemExtIEs)]"

definition TNLAssociationList :: gtype where
  "TNLAssociationList = TStruct [Field ''List'' ''valueExt,sizeLB:1,sizeUB:32'' (TSlice TNLAssociationItem)]"

definition AMFConfigurationUpdateAcknowledgeIEsValue :: gtype where
  "AMFConfigurationUpdateAcknowledgeIEsValue = TStruct [
     Field ''Present'' '''' TInt,
     Field ''AMFTNLAssociationSetupList'' ''referenceFieldValue:5'' (TPtr AMFTNLAssociationSetupList),
     Field ''AMFTNLAssociationFailedToSetupList'' ''referenceFieldValue:4'' (TPtr TNLAssociationList),
     Field ''CriticalityDiagnostics'' ''valueExt,referenceFieldValue:19'' (TPtr CriticalityDiagnostics)]"

definition AMFConfigurationUpdateAcknowledgeIEs :: gtype where
  "AMFConfigurationUpdateAcknowledgeIEs = TStruct [
     Field ''Id'' '''' ProtocolIEID,
     Field ''Criticality'' '''' Criticality,
     Field ''Value'' ''openType,referenceFieldName:Id'' AMFConfigurationUpdateAcknowledgeIEsValue]"

definition ProtocolIEContainerAMFConfigurationUpdateAcknowledgeIEs :: gtype where
  "ProtocolIEContainerAMFConfigurationUpdateAcknowledgeIEs = TStruct [
     Field ''List'' ''sizeLB:0,sizeUB:65535'' (TSlice AMFConfigurationUpdateAcknowledgeIEs)]"

definition AMFConfigurationUpdateAcknowledge :: gtype where
  "AMFConfigurationUpdateAcknowledge = TStruct [
     Field ''ProtocolIEs'' '''' ProtocolIEContainerAMFConfigurationUpdateAcknowledgeIEs]"

definition HandoverCancelAcknowledgeIEsValue :: gtype where
  "HandoverCancelAcknowledgeIEsValue = TStruct [
     Field ''Present'' '''' TInt,
     Field ''AMFUENGAPID'' ''referenceFieldValue:10'' (TPtr AMFUENGAPID),
     Field ''RANUENGAPID'' ''referenceFieldValue:85'' (TPtr RANUENGAPID),
     Field ''CriticalityDiagnostics'' ''valueExt,referenceFieldValue:19'' (TPtr CriticalityDiagnostics)]"

definition HandoverCancelAcknowledgeIEs :: gtype where
  "HandoverCancelAcknowledgeIEs = TStruct [
     Field ''Id'' '''' ProtocolIEID,
     Field ''Criticality'' '''' Criticality,
     Field ''Value'' ''openType,referenceFieldName:Id'' HandoverCancelAcknowledgeIEsValue]"

definition ProtocolIEContainerHandoverCancelAcknowledgeIEs :: gtype where
  "ProtocolIEContainerHandoverCancelAcknowledgeIEs = TStruct [
     Field ''List'' ''sizeLB:0,sizeUB:65535'' (TSlice HandoverCancelAcknowledgeIEs)]"

definition HandoverCancelAcknowledge :: gtype where
  "HandoverCancelAcknowledge = TStruct [
     Field ''ProtocolIEs'' '''' ProtocolIEContainerHandoverCancelAcknowledgeIEs]"

definition NASSecurityParametersFromNGRAN :: gtype where
  "NASSecurityParametersFromNGRAN = TStruct [Field ''Value'' '''' TOctetString]"

definition PDUSessionResourceHandoverItemExtIEsExtensionValue :: gtype where
  "PDUSessionResourceHandoverItemExtIEsExtensionValue = TStruct [Field ''Present'' '''' TInt]"

definition PDUSessionResourceHandoverItemExtIEs :: gtype where
  "PDUSessionResourceHandoverItemExtIEs = TStruct [
     Field ''Id'' '''' ProtocolExtensionID,
     Field ''Criticality'' '''' Criticality,
     Field ''ExtensionValue'' ''openType,referenceFieldName:Id'' PDUSessionResourceHandoverItemExtIEsExtensionValue]"

definition ProtocolExtensionContainerPDUSessionResourceHandoverItemExtIEs :: gtype where
  "ProtocolExtensionContainerPDUSessionResourceHandoverItemExtIEs = TStruct [
     Field ''List'' ''sizeLB:1,sizeUB:65535'' (TSlice PDUSessionResourceHandoverItemExtIEs)]"

definition PDUSessionResourceHandoverItem :: gtype where
  "PDUSessionResourceHandoverItem = TStruct [
     Field ''PDUSessionID'' '''' PDUSessionID,
     Field ''HandoverCommandTransfer'' '''' TOctetString,
     Field ''IEExtensions'' ''optional'' (TPtr ProtocolExtensionContainerPDUSessionResourceHandoverItemExtIEs)]"

definition PDUSessionResourceHandoverList :: gtype where
  "PDUSessionResourceHandoverList = TStruct [
     Field ''List'' ''valueExt,sizeLB:1,sizeUB:256'' (TSlice PDUSessionResourceHandoverItem)]"

definition PDUSessionResourceToReleaseItemHOCmdExtIEsExtensionValue :: gtype where
  "PDUSessionResourceToReleaseItemHOCmdExtIEsExtensionValue = TStruct [Field ''Present'' '''' TInt]"

definition PDUSessionResourceToReleaseItemHOCmdExtIEs :: gtype where
  "PDUSessionResourceToReleaseItemHOCmdExtIEs = TStruct [
     Field ''Id'' '''' ProtocolExtensionID,
     Field ''Criticality'' '''' Criticality,
     Field ''ExtensionValue'' ''openType,referenceFieldName:Id'' PDUSessionResourceToReleaseItemHOCmdExtIEsExtensionValue]"

definition ProtocolExtensionContainerPDUSessionResourceToReleaseItemHOCmdExtIEs :: gtype where
  "ProtocolExtensionContainerPDUSessionResourceToReleaseItemHOCmdExtIEs = TStruct [
     Field ''List'' ''sizeLB:1,sizeUB:65535'' (TSlice PDUSessionResourceToReleaseItemHOCmdExtIEs)]"

definition PDUSessionResourceToReleaseItemHOCmd :: gtype where
  "PDUSessionResourceToReleaseItemHOCmd = TStruct [
     Field ''PDUSessionID'' '''' PDUSessionID,
     Field ''HandoverPreparationUnsuccessfulTransfer'' '''' TOctetString,
     Field ''IEExtensions'' ''optional'' (TPtr ProtocolExtensionContainerPDUSessionResourceToReleaseItemHOCmdExtIEs)]"

definition PDUSessionResourceToReleaseListHOCmd :: gtype where
  "PDUSessionResourceToReleaseListHOCmd = TStruct [
     Field ''List'' ''valueExt,sizeLB:1,sizeUB:256'' (TSlice PDUSessionResourceToReleaseItemHOCmd)]"

definition TargetToSourceTransparentContainer :: gtype where
  "TargetToSourceTransparentContainer = TStruct [Field ''Value'' '''' TOctetString]"

definition HandoverCommandIEsValue :: gtype where
  "HandoverCommandIEsValue = TStruct [
     Field ''Present'' '''' TInt,
     Field ''AMFUENGAPID'' ''referenceFieldValue:10'' (TPtr AMFUENGAPID),
     Field ''RANUENGAPID'' ''referenceFieldValue:85'' (TPtr RANUENGAPID),
     Field ''HandoverType'' ''referenceFieldValue:29'' (TPtr HandoverType),
     Field ''NASSecurityParametersFromNGRAN'' ''referenceFieldValue:39'' (TPtr NASSecurityParametersFromNGRAN),
     Field ''PDUSessionResourceHandoverList'' ''referenceFieldValue:59'' (TPtr PDUSessionResourceHandoverList),
     Field ''PDUSessionResourceToReleaseListHOCmd'' ''referenceFieldValue:78'' (TPtr PDUSessionResourceToReleaseListHOCmd),
     Field ''TargetToSourceTransparentContainer'' ''referenceFieldValue:106'' (TPtr TargetToSourceTransparentContainer),
     Field ''CriticalityDiagnostics'' ''valueExt,referenceFieldValue:19'' (TPtr CriticalityDiagnostics)]"

definition HandoverCommandIEs :: gtype where
  "HandoverCommandIEs = TStruct [
     Field ''Id'' '''' ProtocolIEID,
     Field ''Criticality'' '''' Criticality,
     Field ''Value'' ''openType,referenceFieldName:Id'' HandoverCommandIEsValue]"

definition ProtocolIEContainerHandoverCommandIEs :: gtype where
  "ProtocolIEContainerHandoverCommandIEs = TStruct [
     Field ''List'' ''sizeLB:0,sizeUB:65535'' (TSlice HandoverCommandIEs)]"

definition HandoverCommand :: gtype where
  "HandoverCommand = TStruct [Field ''ProtocolIEs'' '''' ProtocolIEContainerHandoverCommandIEs]"

definition PDUSessionResourceAdmittedItemExtIEsExtensionValue :: gtype where
  "PDUSessionResourceAdmittedItemExtIEsExtensionValue = TStruct [Field ''Present'' '''' TInt]"

definition PDUSessionResourceAdmittedItemExtIEs :: gtype where
  "PDUSessionResourceAdmittedItemExtIEs = TStruct [
     Field ''Id'' '''' ProtocolExtensionID,
     Field ''Criticality'' '''' Criticality,
     Field ''ExtensionValue'' ''openType,referenceFieldName:Id'' PDUSessionResourceAdmittedItemExtIEsExtensionValue]"

definition ProtocolExtensionContainerPDUSessionResourceAdmittedItemExtIEs :: gtype where
  "ProtocolExtensionContainerPDUSessionResourceAdmittedItemExtIEs = TStruct [
     Field ''List'' ''sizeLB:1,sizeUB:65535'' (TSlice PDUSessionResourceAdmittedItemExtIEs)]"

definition PDUSessionResourceAdmittedItem :: gtype where
  "PDUSessionResourceAdmittedItem = TStruct [
     Field ''PDUSessionID'' '''' PDUSessionID,
     Field ''HandoverRequestAcknowledgeTransfer'' '''' TOctetString,
     Field ''IEExtensions'' ''optional'' (TPtr ProtocolExtensionContainerPDUSessionResourceAdmittedItemExtIEs)]"

definition PDUSessionResourceAdmittedList :: gtype where
  "PDUSessionResourceAdmittedList = TStruct [
     Field ''List'' ''valueExt,sizeLB:1,sizeUB:256'' (TSlice PDUSessionResourceAdmittedItem)]"

definition PDUSessionResourceFailedToSetupItemHOAckExtIEsExtensionValue :: gtype where
  "PDUSessionResourceFailedToSetupItemHOAckExtIEsExtensionValue = TStruct [Field ''Present'' '''' TInt]"

definition PDUSessionResourceFailedToSetupItemHOAckExtIEs :: gtype where
  "PDUSessionResourceFailedToSetupItemHOAckExtIEs = TStruct [
     Field ''Id'' '''' ProtocolExtensionID,
     Field ''Criticality'' '''' Criticality,
     Field ''ExtensionValue'' ''openType,referenceFieldName:Id'' PDUSessionResourceFailedToSetupItemHOAckExtIEsExtensionValue]"

definition ProtocolExtensionContainerPDUSessionResourceFailedToSetupItemHOAckExtIEs :: gtype where
  "ProtocolExtensionContainerPDUSessionResourceFailedToSetupItemHOAckExtIEs = TStruct [
     Field ''List'' ''sizeLB:1,sizeUB:65535'' (TSlice PDUSessionResourceFailedToSetupItemHOAckExtIEs)]"

definition PDUSessionResourceFailedToSetupItemHOAck :: gtype where
  "PDUSessionResourceFailedToSetupItemHOAck = TStruct [
     Field ''PDUSessionID'' '''' PDUSessionID,
     Field ''HandoverResourceAllocationUnsuccessfulTransfer'' '''' TOctetString,
     Field ''IEExtensions'' ''optional'' (TPtr ProtocolExtensionContainerPDUSessionResourceFailedToSetupItemHOAckExtIEs)]"

definition PDUSessionResourceFailedToSetupListHOAck :: gtype where
  "PDUSessionResourceFailedToSetupListHOAck = TStruct [
     Field ''List'' ''valueExt,sizeLB:1,sizeUB:256'' (TSlice PDUSessionResourceFailedToSetupItemHOAck)]"

definition HandoverRequestAcknowledgeIEsValue :: gtype where
  "HandoverRequestAcknowledgeIEsValue = TStruct [
     Field ''Present'' '''' TInt,
     Field ''AMFUENGAPID'' ''referenceFieldValue:10'' (TPtr AMFUENGAPID),
     Field ''RANUENGAPID'' ''referenceFieldValue:85'' (TPtr RANUENGAPID),
     Field ''PDUSessionResourceAdmittedList'' ''referenceFieldValue:53'' (TPtr PDUSessionResourceAdmittedList),
     Field ''PDUSessionResourceFailedToSetupListHOAck'' ''referenceFieldValue:56'' (TPtr PDUSessionResourceFailedToSetupListHOAck),
     Field ''TargetToSourceTransparentContainer'' ''referenceFieldValue:106'' (TPtr TargetToSourceTransparentContainer),
     Field ''CriticalityDiagnostics'' ''valueExt,referenceFieldValue:19'' (TPtr CriticalityDiagnostics)]"

definition HandoverRequestAcknowledgeIEs :: gtype where
  "HandoverRequestAcknowledgeIEs = TStruct [
     Field ''Id'' '''' ProtocolIEID,
     Field ''Criticality'' '''' Criticality,
     Field ''Value'' ''openType,referenceFieldName:Id'' HandoverRequestAcknowledgeIEsValue]"

definition ProtocolIEContainerHandoverRequestAcknowledgeIEs :: gtype where
  "ProtocolIEContainerHandoverRequestAcknowledgeIEs = TStruct [
     Field ''List'' ''sizeLB:0,sizeUB:65535'' (TSlice HandoverRequestAcknowledgeIEs)]"

definition HandoverRequestAcknowledge :: gtype where
  "HandoverRequestAcknowledge = TStruct [
     Field ''ProtocolIEs'' '''' ProtocolIEContainerHandoverRequestAcknowledgeIEs]"

definition PDUSessionResourceSetupItemCxtResExtIEsExtensionValue :: gtype where
  "PDUSessionResourceSetupItemCxtResExtIEsExtensionValue = TStruct [Field ''Present'' '''' TInt]"

definition PDUSessionResourceSetupItemCxtResExtIEs :: gtype where
  "PDUSessionResourceSetupItemCxtResExtIEs = TStruct [
     Field ''Id'' '''' ProtocolExtensionID,
     Field ''Criticality'' '''' Criticality,
     Field ''ExtensionValue'' ''openType,referenceFieldName:Id'' PDUSessionResourceSetupItemCxtResExtIEsExtensionValue]"

definition ProtocolExtensionContainerPDUSessionResourceSetupItemCxtResExtIEs :: gtype where
  "ProtocolExtensionContainerPDUSessionResourceSetupItemCxtResExtIEs = TStruct [
     Field ''List'' ''sizeLB:1,sizeUB:65535'' (TSlice PDUSessionResourceSetupItemCxtResExtIEs)]"

definition PDUSessionResourceSetupItemCxtRes :: gtype where
  "PDUSessionResourceSetupItemCxtRes = TStruct [
     Field ''PDUSessionID'' '''' PDUSessionID,
     Field ''PDUSessionResourceSetupResponseTransfer'' '''' TOctetString,
     Field ''IEExtensions'' ''optional'' (TPtr ProtocolExtensionContainerPDUSessionResourceSetupItemCxtResExtIEs)]"

definition PDUSessionResourceSetupListCxtRes :: gtype where
  "PDUSessionResourceSetupListCxtRes = TStruct [
     Field ''List'' ''valueExt,sizeLB:1,sizeUB:256'' (TSlice PDUSessionResourceSetupItemCxtRes)]"

definition PDUSessionResourceFailedToSetupItemCxtResExtIEsExtensionValue :: gtype where
  "PDUSessionResourceFailedToSetupItemCxtResExtIEsExtensionValue = TStruct [Field ''Present'' '''' TInt]"

definition PDUSessionResourceFailedToSetupItemCxtResExtIEs :: gtype where
  "PDUSessionResourceFailedToSetupItemCxtResExtIEs = TStruct [
     Field ''Id'' '''' ProtocolExtensionID,
     Field ''Criticality'' '''' Criticality,
     Field ''ExtensionValue'' ''openType,referenceFieldName:Id'' PDUSessionResourceFailedToSetupItemCxtResExtIEsExtensionValue]"

definition ProtocolExtensionContainerPDUSessionResourceFailedToSetupItemCxtResExtIEs :: gtype where
  "ProtocolExtensionContainerPDUSessionResourceFailedToSetupItemCxtResExtIEs = TStruct [
     Field ''List'' ''sizeLB:1,sizeUB:65535'' (TSlice PDUSessionResourceFailedToSetupItemCxtResExtIEs)]"

definition PDUSessionResourceFailedToSetupItemCxtRes :: gtype where
  "PDUSessionResourceFailedToSetupItemCxtRes = TStruct [
     Field ''PDUSessionID'' '''' PDUSessionID,
     Field ''PDUSessionResourceSetupUnsuccessfulTransfer'' '''' TOctetString,
     Field ''IEExtensions'' ''optional'' (TPtr ProtocolExtensionContainerPDUSessionResourceFailedToSetupItemCxtResExtIEs)]"

definition PDUSessionResourceFailedToSetupListCxtRes :: gtype where
  "PDUSessionResourceFailedToSetupListCxtRes = TStruct [
     Field ''List'' ''valueExt,sizeLB:1,sizeUB:256'' (TSlice PDUSessionResourceFailedToSetupItemCxtRes)]"

definition InitialContextSetupResponseIEsValue :: gtype where
  "InitialContextSetupResponseIEsValue = TStruct [
     Field ''Present'' '''' TInt,
     Field ''AMFUENGAPID'' ''referenceFieldValue:10'' (TPtr AMFUENGAPID),
     Field ''RANUENGAPID'' ''referenceFieldValue:85'' (TPtr RANUENGAPID),
     Field ''PDUSessionResourceSetupListCxtRes'' ''referenceFieldValue:72'' (TPtr PDUSessionResourceSetupListCxtRes),
     Field ''PDUSessionResourceFailedToSetupListCxtRes'' ''referenceFieldValue:55'' (TPtr PDUSessionResourceFailedToSetupListCxtRes),
     Field ''CriticalityDiagnostics'' ''valueExt,referenceFieldValue:19'' (TPtr CriticalityDiagnostics)]"

definition InitialContextSetupResponseIEs :: gtype where
  "InitialContextSetupResponseIEs = TStruct [
     Field ''Id'' '''' ProtocolIEID,
     Field ''Criticality'' '''' Criticality,
     Field ''Value'' ''openType,referenceFieldName:Id'' InitialContextSetupResponseIEsValue]"

definition ProtocolIEContainerInitialContextSetupResponseIEs :: gtype where
  "ProtocolIEContainerInitialContextSetupResponseIEs = TStruct [
     Field ''List'' ''sizeLB:0,sizeUB:65535'' (TSlice InitialContextSetupResponseIEs)]"

definition InitialContextSetupResponse :: gtype where
  "InitialContextSetupResponse = TStruct [
     Field ''ProtocolIEs'' '''' ProtocolIEContainerInitialContextSetupResponseIEs]"

definition NGResetAcknowledgeIEsValue :: gtype where
  "NGResetAcknowledgeIEsValue = TStruct [
     Field ''Present'' '''' TInt,
     Field ''UEAssociatedLogicalNGConnectionList'' ''referenceFieldValue:111'' (TPtr UEAssociatedLogicalNGConnectionList),
     Field ''CriticalityDiagnostics'' ''valueExt,referenceFieldValue:19'' (TPtr CriticalityDiagnostics)]"

definition NGResetAcknowledgeIEs :: gtype where
  "NGResetAcknowledgeIEs = TStruct [
     Field ''Id'' '''' ProtocolIEID,
     Field ''Criticality'' '''' Criticality,
     Field ''Value'' ''openType,referenceFieldName:Id'' NGResetAcknowledgeIEsValue]"

definition ProtocolIEContainerNGResetAcknowledgeIEs :: gtype where
  "ProtocolIEContainerNGResetAcknowledgeIEs = TStruct [
     Field ''List'' ''sizeLB:0,sizeUB:65535'' (TSlice NGResetAcknowledgeIEs)]"

definition NGResetAcknowledge :: gtype where
  "NGResetAcknowledge = TStruct [Field ''ProtocolIEs'' '''' ProtocolIEContainerNGResetAcknowledgeIEs]"

definition NGSetupResponseIEsValue :: gtype where
  "NGSetupResponseIEsValue = TStruct [
     Field ''Present'' '''' TInt,
     Field ''AMFName'' ''referenceFieldValue:1'' (TPtr AMFName),
     Field ''ServedGUAMIList'' ''referenceFieldValue:96'' (TPtr ServedGUAMIList),
     Field ''RelativeAMFCapacity'' ''referenceFieldValue:86'' (TPtr RelativeAMFCapacity),
     Field ''PLMNSupportList'' ''referenceFieldValue:80'' (TPtr PLMNSupportList),
     Field ''CriticalityDiagnostics'' ''valueExt,referenceFieldValue:19'' (TPtr CriticalityDiagnostics)]"

definition NGSetupResponseIEs :: gtype where
  "NGSetupResponseIEs = TStruct [
     Field ''Id'' '''' ProtocolIEID,
     Field ''Criticality'' '''' Criticality,
     Field ''Value'' ''openType,referenceFieldName:Id'' NGSetupResponseIEsValue]"

definition ProtocolIEContainerNGSetupResponseIEs :: gtype where
  "ProtocolIEContainerNGSetupResponseIEs = TStruct [
     Field ''List'' ''sizeLB:0,sizeUB:65535'' (TSlice NGSetupResponseIEs)]"

definition NGSetupResponse :: gtype where
  "NGSetupResponse = TStruct [Field ''ProtocolIEs'' '''' ProtocolIEContainerNGSetupResponseIEs]"

definition PDUSessionResourceSwitchedItemExtIEsExtensionValue :: gtype where
  "PDUSessionResourceSwitchedItemExtIEsExtensionValue = TStruct [Field ''Present'' '''' TInt]"

definition PDUSessionResourceSwitchedItemExtIEs :: gtype where
  "PDUSessionResourceSwitchedItemExtIEs = TStruct [
     Field ''Id'' '''' ProtocolExtensionID,
     Field ''Criticality'' '''' Criticality,
     Field ''ExtensionValue'' ''openType,referenceFieldName:Id'' PDUSessionResourceSwitchedItemExtIEsExtensionValue]"

definition ProtocolExtensionContainerPDUSessionResourceSwitchedItemExtIEs :: gtype where
  "ProtocolExtensionContainerPDUSessionResourceSwitchedItemExtIEs = TStruct [
     Field ''List'' ''sizeLB:1,sizeUB:65535'' (TSlice PDUSessionResourceSwitchedItemExtIEs)]"

definition PDUSessionResourceSwitchedItem :: gtype where
  "PDUSessionResourceSwitchedItem = TStruct [
     Field ''PDUSessionID'' '''' PDUSessionID,
     Field ''PathSwitchRequestAcknowledgeTransfer'' '''' TOctetString,
     Field ''IEExtensions'' ''optional'' (TPtr ProtocolExtensionContainerPDUSessionResourceSwitchedItemExtIEs)]"

definition PDUSessionResourceSwitchedList :: gtype where
  "PDUSessionResourceSwitchedList = TStruct [
     Field ''List'' ''valueExt,sizeLB:1,sizeUB:256'' (TSlice PDUSessionResourceSwitchedItem)]"

definition PDUSessionResourceReleasedItemPSAckExtIEsExtensionValue :: gtype where
  "PDUSessionResourceReleasedItemPSAckExtIEsExtensionValue = TStruct [Field ''Present'' '''' TInt]"

definition PDUSessionResourceReleasedItemPSAckExtIEs :: gtype where
  "PDUSessionResourceReleasedItemPSAckExtIEs = TStruct [
     Field ''Id'' '''' ProtocolExtensionID,
     Field ''Criticality'' '''' Criticality,
     Field ''ExtensionValue'' ''openType,referenceFieldName:Id'' PDUSessionResourceReleasedItemPSAckExtIEsExtensionValue]"

definition ProtocolExtensionContainerPDUSessionResourceReleasedItemPSAckExtIEs :: gtype where
  "ProtocolExtensionContainerPDUSessionResourceReleasedItemPSAckExtIEs = TStruct [
     Field ''List'' ''sizeLB:1,sizeUB:65535'' (TSlice PDUSessionResourceReleasedItemPSAckExtIEs)]"

definition PDUSessionResourceReleasedItemPSAck :: gtype where
  "PDUSessionResourceReleasedItemPSAck = TStruct [
     Field ''PDUSessionID'' '''' PDUSessionID,
     Field ''PathSwitchRequestUnsuccessfulTransfer'' '''' TOctetString,
     Field ''IEExtensions'' ''optional'' (TPtr ProtocolExtensionContainerPDUSessionResourceReleasedItemPSAckExtIEs)]"

definition PDUSessionResourceReleasedListPSAck :: gtype where
  "PDUSessionResourceReleasedListPSAck = TStruct [
     Field ''List'' ''valueExt,sizeLB:1,sizeUB:256'' (TSlice PDUSessionResourceReleasedItemPSAck)]"

definition PathSwitchRequestAcknowledgeIEsValue :: gtype where
  "PathSwitchRequestAcknowledgeIEsValue = TStruct [
     Field ''Present'' '''' TInt,
     Field ''AMFUENGAPID'' ''referenceFieldValue:10'' (TPtr AMFUENGAPID),
     Field ''RANUENGAPID'' ''referenceFieldValue:85'' (TPtr RANUENGAPID),
     Field ''UESecurityCapabilities'' ''valueExt,referenceFieldValue:119'' (TPtr UESecurityCapabilities),
     Field ''SecurityContext'' ''valueExt,referenceFieldValue:93'' (TPtr SecurityContext),
     Field ''NewSecurityContextInd'' ''referenceFieldValue:41'' (TPtr NewSecurityContextInd),
     Field ''PDUSessionResourceSwitchedList'' ''referenceFieldValue:77'' (TPtr PDUSessionResourceSwitchedList),
     Field ''PDUSessionResourceReleasedListPSAck'' ''referenceFieldValue:68'' (TPtr PDUSessionResourceReleasedListPSAck),
     Field ''AllowedNSSAI'' ''referenceFieldValue:0'' (TPtr AllowedNSSAI),
     Field ''CoreNetworkAssistanceInformation'' ''valueExt,referenceFieldValue:18'' (TPtr CoreNetworkAssistanceInformation),
     Field ''RRCInactiveTransitionReportRequest'' ''referenceFieldValue:91'' (TPtr RRCInactiveTransitionReportRequest),
     Field ''CriticalityDiagnostics'' ''valueExt,referenceFieldValue:19'' (TPtr CriticalityDiagnostics)]"

definition PathSwitchRequestAcknowledgeIEs :: gtype where
  "PathSwitchRequestAcknowledgeIEs = TStruct [
     Field ''Id'' '''' ProtocolIEID,
     Field ''Criticality'' '''' Criticality,
     Field ''Value'' ''openType,referenceFieldName:Id'' PathSwitchRequestAcknowledgeIEsValue]"

definition ProtocolIEContainerPathSwitchRequestAcknowledgeIEs :: gtype where
  "ProtocolIEContainerPathSwitchRequestAcknowledgeIEs = TStruct [
     Field ''List'' ''sizeLB:0,sizeUB:65535'' (TSlice PathSwitchRequestAcknowledgeIEs)]"

definition PathSwitchRequestAcknowledge :: gtype where
  "PathSwitchRequestAcknowledge = TStruct [
     Field ''ProtocolIEs'' '''' ProtocolIEContainerPathSwitchRequestAcknowledgeIEs]"

definition PDUSessionResourceModifyItemModResExtIEsExtensionValue :: gtype where
  "PDUSessionResourceModifyItemModResExtIEsExtensionValue = TStruct [Field ''Present'' '''' TInt]"

definition PDUSessionResourceModifyItemModResExtIEs :: gtype where
  "PDUSessionResourceModifyItemModResExtIEs = TStruct [
     Field ''Id'' '''' ProtocolExtensionID,
     Field ''Criticality'' '''' Criticality,
     Field ''ExtensionValue'' ''openType,referenceFieldName:Id'' PDUSessionResourceModifyItemModResExtIEsExtensionValue]"

definition ProtocolExtensionContainerPDUSessionResourceModifyItemModResExtIEs :: gtype where
  "ProtocolExtensionContainerPDUSessionResourceModifyItemModResExtIEs = TStruct [
     Field ''List'' ''sizeLB:1,sizeUB:65535'' (TSlice PDUSessionResourceModifyItemModResExtIEs)]"

definition PDUSessionResourceModifyItemModRes :: gtype where
  "PDUSessionResourceModifyItemModRes = TStruct [
     Field ''PDUSessionID'' '''' PDUSessionID,
     Field ''PDUSessionResourceModifyResponseTransfer'' ''optional'' (TPtr TOctetString),
     Field ''IEExtensions'' ''optional'' (TPtr ProtocolExtensionContainerPDUSessionResourceModifyItemModResExtIEs)]"

definition PDUSessionResourceModifyListModRes :: gtype where
  "PDUSessionResourceModifyListModRes = TStruct [
     Field ''List'' ''valueExt,sizeLB:1,sizeUB:256'' (TSlice PDUSessionResourceModifyItemModRes)]"

definition PDUSessionResourceFailedToModifyItemModResExtIEsExtensionValue :: gtype where
  "PDUSessionResourceFailedToModifyItemModResExtIEsExtensionValue = TStruct [Field ''Present'' '''' TInt]"

definition PDUSessionResourceFailedToModifyItemModResExtIEs :: gtype where
  "PDUSessionResourceFailedToModifyItemModResExtIEs = TStruct [
     Field ''Id'' '''' ProtocolExtensionID,
     Field ''Criticality'' '''' Criticality,
     Field ''ExtensionValue'' ''openType,referenceFieldName:Id'' PDUSessionResourceFailedToModifyItemModResExtIEsExtensionValue]"

definition ProtocolExtensionContainerPDUSessionResourceFailedToModifyItemModResExtIEs :: gtype where
  "ProtocolExtensionContainerPDUSessionResourceFailedToModifyItemModResExtIEs = TStruct [
     Field ''List'' ''sizeLB:1,sizeUB:65535'' (TSlice PDUSessionResourceFailedToModifyItemModResExtIEs)]"

definition PDUSessionResourceFailedToModifyItemModRes :: gtype where
  "PDUSessionResourceFailedToModifyItemModRes = TStruct [
     Field ''PDUSessionID'' '''' PDUSessionID,
     Field ''PDUSessionResourceModifyUnsuccessfulTransfer'' '''' TOctetString,
     Field ''IEExtensions'' ''optional'' (TPtr ProtocolExtensionContainerPDUSessionResourceFailedToModifyItemModResExtIEs)]"

definition PDUSessionResourceFailedToModifyListModRes :: gtype where
  "PDUSessionResourceFailedToModifyListModRes = TStruct [
     Field ''List'' ''valueExt,sizeLB:1,sizeUB:256'' (TSlice PDUSessionResourceFailedToModifyItemModRes)]"

definition PDUSessionResourceModifyResponseIEsValue :: gtype where
  "PDUSessionResourceModifyResponseIEsValue = TStruct [
     Field ''Present'' '''' TInt,
     Field ''AMFUENGAPID'' ''referenceFieldValue:10'' (TPtr AMFUENGAPID),
     Field ''RANUENGAPID'' ''referenceFieldValue:85'' (TPtr RANUENGAPID),
     Field ''PDUSessionResourceModifyListModRes'' ''referenceFieldValue:65'' (TPtr PDUSessionResourceModifyListModRes),
     Field ''PDUSessionResourceFailedToModifyListModRes'' ''referenceFieldValue:54'' (TPtr PDUSessionResourceFailedToModifyListModRes),
     Field ''UserLocationInformation'' ''referenceFieldValue:121,valueLB:0,valueUB:3'' (TPtr UserLocationInformation),
     Field ''CriticalityDiagnostics'' ''valueExt,referenceFieldValue:19'' (TPtr CriticalityDiagnostics)]"

definition PDUSessionResourceModifyResponseIEs :: gtype where
  "PDUSessionResourceModifyResponseIEs = TStruct [
     Field ''Id'' '''' ProtocolIEID,
     Field ''Criticality'' '''' Criticality,
     Field ''Value'' ''openType,referenceFieldName:Id'' PDUSessionResourceModifyResponseIEsValue]"

definition ProtocolIEContainerPDUSessionResourceModifyResponseIEs :: gtype where
  "ProtocolIEContainerPDUSessionResourceModifyResponseIEs = TStruct [
     Field ''List'' ''sizeLB:0,sizeUB:65535'' (TSlice PDUSessionResourceModifyResponseIEs)]"

definition PDUSessionResourceModifyResponse :: gtype where
  "PDUSessionResourceModifyResponse = TStruct [
     Field ''ProtocolIEs'' '''' ProtocolIEContainerPDUSessionResourceModifyResponseIEs]"

definition PDUSessionResourceModifyItemModCfmExtIEsExtensionValue :: gtype where
  "PDUSessionResourceModifyItemModCfmExtIEsExtensionValue = TStruct [Field ''Present'' '''' TInt]"

definition PDUSessionResourceModifyItemModCfmExtIEs :: gtype where
  "PDUSessionResourceModifyItemModCfmExtIEs = TStruct [
     Field ''Id'' '''' ProtocolExtensionID,
     Field ''Criticality'' '''' Criticality,
     Field ''ExtensionValue'' ''openType,referenceFieldName:Id'' PDUSessionResourceModifyItemModCfmExtIEsExtensionValue]"

definition ProtocolExtensionContainerPDUSessionResourceModifyItemModCfmExtIEs :: gtype where
  "ProtocolExtensionContainerPDUSessionResourceModifyItemModCfmExtIEs = TStruct [
     Field ''List'' ''sizeLB:1,sizeUB:65535'' (TSlice PDUSessionResourceModifyItemModCfmExtIEs)]"

definition PDUSessionResourceModifyItemModCfm :: gtype where
  "PDUSessionResourceModifyItemModCfm = TStruct [
     Field ''PDUSessionID'' '''' PDUSessionID,
     Field ''PDUSessionResourceModifyConfirmTransfer'' '''' TOctetString,
     Field ''IEExtensions'' ''optional'' (TPtr ProtocolExtensionContainerPDUSessionResourceModifyItemModCfmExtIEs)]"

definition PDUSessionResourceModifyListModCfm :: gtype where
  "PDUSessionResourceModifyListModCfm = TStruct [
     Field ''List'' ''valueExt,sizeLB:1,sizeUB:256'' (TSlice PDUSessionResourceModifyItemModCfm)]"

definition PDUSessionResourceFailedToModifyItemModCfmExtIEsExtensionValue :: gtype where
  "PDUSessionResourceFailedToModifyItemModCfmExtIEsExtensionValue = TStruct [Field ''Present'' '''' TInt]"

definition PDUSessionResourceFailedToModifyItemModCfmExtIEs :: gtype where
  "PDUSessionResourceFailedToModifyItemModCfmExtIEs = TStruct [
     Field ''Id'' '''' ProtocolExtensionID,
     Field ''Criticality'' '''' Criticality,
     Field ''ExtensionValue'' ''openType,referenceFieldName:Id'' PDUSessionResourceFailedToModifyItemModCfmExtIEsExtensionValue]"

definition ProtocolExtensionContainerPDUSessionResourceFailedToModifyItemModCfmExtIEs :: gtype where
  "ProtocolExtensionContainerPDUSessionResourceFailedToModifyItemModCfmExtIEs = TStruct [
     Field ''List'' ''sizeLB:1,sizeUB:65535'' (TSlice PDUSessionResourceFailedToModifyItemModCfmExtIEs)]"

definition PDUSessionResourceFailedToModifyItemModCfm :: gtype where
  "PDUSessionResourceFailedToModifyItemModCfm = TStruct [
     Field ''PDUSessionID'' '''' PDUSessionID,
     Field ''PDUSessionResourceModifyIndicationUnsuccessfulTransfer'' '''' TOctetString,
     Field ''IEExtensions'' ''optional'' (TPtr ProtocolExtensionContainerPDUSessionResourceFailedToModifyItemModCfmExtIEs)]"

definition PDUSessionResourceFailedToModifyListModCfm :: gtype where
  "PDUSessionResourceFailedToModifyListModCfm = TStruct [
     Field ''List'' ''valueExt,sizeLB:1,sizeUB:256'' (TSlice PDUSessionResourceFailedToModifyItemModCfm)]"

definition PDUSessionResourceModifyConfirmIEsValue :: gtype where
  "PDUSessionResourceModifyConfirmIEsValue = TStruct [
     Field ''Present'' '''' TInt,
     Field ''AMFUENGAPID'' ''referenceFieldValue:10'' (TPtr AMFUENGAPID),
     Field ''RANUENGAPID'' ''referenceFieldValue:85'' (TPtr RANUENGAPID),
     Field ''PDUSessionResourceModifyListModCfm'' ''referenceFieldValue:62'' (TPtr PDUSessionResourceModifyListModCfm),
     Field ''PDUSessionResourceFailedToModifyListModCfm'' ''referenceFieldValue:131'' (TPtr PDUSessionResourceFailedToModifyListModCfm),
     Field ''CriticalityDiagnostics'' ''valueExt,referenceFieldValue:19'' (TPtr CriticalityDiagnostics)]"

definition PDUSessionResourceModifyConfirmIEs :: gtype where
  "PDUSessionResourceModifyConfirmIEs = TStruct [
     Field ''Id'' '''' ProtocolIEID,
     Field ''Criticality'' '''' Criticality,
     Field ''Value'' ''openType,referenceFieldName:Id'' PDUSessionResourceModifyConfirmIEsValue]"

definition ProtocolIEContainerPDUSessionResourceModifyConfirmIEs :: gtype where
  "ProtocolIEContainerPDUSessionResourceModifyConfirmIEs = TStruct [
     Field ''List'' ''sizeLB:0,sizeUB:65535'' (TSlice PDUSessionResourceModifyConfirmIEs)]"

definition PDUSessionResourceModifyConfirm :: gtype where
  "PDUSessionResourceModifyConfirm = TStruct [
     Field ''ProtocolIEs'' '''' ProtocolIEContainerPDUSessionResourceModifyConfirmIEs]"

definition PDUSessionResourceReleasedItemRelResExtIEsExtensionValue :: gtype where
  "PDUSessionResourceReleasedItemRelResExtIEsExtensionValue = TStruct [Field ''Present'' '''' TInt]"

definition PDUSessionResourceReleasedItemRelResExtIEs :: gtype where
  "PDUSessionResourceReleasedItemRelResExtIEs = TStruct [
     Field ''Id'' '''' ProtocolExtensionID,
     Field ''Criticality'' '''' Criticality,
     Field ''ExtensionValue'' ''openType,referenceFieldName:Id'' PDUSessionResourceReleasedItemRelResExtIEsExtensionValue]"

definition ProtocolExtensionContainerPDUSessionResourceReleasedItemRelResExtIEs :: gtype where
  "ProtocolExtensionContainerPDUSessionResourceReleasedItemRelResExtIEs = TStruct [
     Field ''List'' ''sizeLB:1,sizeUB:65535'' (TSlice PDUSessionResourceReleasedItemRelResExtIEs)]"

definition PDUSessionResourceReleasedItemRelRes :: gtype where
  "PDUSessionResourceReleasedItemRelRes = TStruct [
     Field ''PDUSessionID'' '''' PDUSessionID,
     Field ''PDUSessionResourceReleaseResponseTransfer'' '''' TOctetString,
     Field ''IEExtensions'' ''optional'' (TPtr ProtocolExtensionContainerPDUSessionResourceReleasedItemRelResExtIEs)]"

definition PDUSessionResourceReleasedListRelRes :: gtype where
  "PDUSessionResourceReleasedListRelRes = TStruct [
     Field ''List'' ''valueExt,sizeLB:1,sizeUB:256'' (TSlice PDUSessionResourceReleasedItemRelRes)]"

definition PDUSessionResourceReleaseResponseIEsValue :: gtype where
  "PDUSessionResourceReleaseResponseIEsValue = TStruct [
     Field ''Present'' '''' TInt,
     Field ''AMFUENGAPID'' ''referenceFieldValue:10'' (TPtr AMFUENGAPID),
     Field ''RANUENGAPID'' ''referenceFieldValue:85'' (TPtr RANUENGAPID),
     Field ''PDUSessionResourceReleasedListRelRes'' ''referenceFieldValue:70'' (TPtr PDUSessionResourceReleasedListRelRes),
     Field ''UserLocationInformation'' ''referenceFieldValue:121,valueLB:0,valueUB:3'' (TPtr UserLocationInformation),
     Field ''CriticalityDiagnostics'' ''valueExt,referenceFieldValue:19'' (TPtr CriticalityDiagnostics)]"

definition PDUSessionResourceReleaseResponseIEs :: gtype where
  "PDUSessionResourceReleaseResponseIEs = TStruct [
     Field ''Id'' '''' ProtocolIEID,
     Field ''Criticality'' '''' Criticality,
     Field ''Value'' ''openType,referenceFieldName:Id'' PDUSessionResourceReleaseResponseIEsValue]"

definition ProtocolIEContainerPDUSessionResourceReleaseResponseIEs :: gtype where
  "ProtocolIEContainerPDUSessionResourceReleaseResponseIEs = TStruct [
     Field ''List'' ''sizeLB:0,sizeUB:65535'' (TSlice PDUSessionResourceReleaseResponseIEs)]"

definition PDUSessionResourceReleaseResponse :: gtype where
  "PDUSessionResourceReleaseResponse = TStruct [
     Field ''ProtocolIEs'' '''' ProtocolIEContainerPDUSessionResourceReleaseResponseIEs]"

definition PDUSessionResourceSetupItemSUResExtIEsExtensionValue :: gtype where
  "PDUSessionResourceSetupItemSUResExtIEsExtensionValue = TStruct [Field ''Present'' '''' TInt]"

definition PDUSessionResourceSetupItemSUResExtIEs :: gtype where
  "PDUSessionResourceSetupItemSUResExtIEs = TStruct [
     Field ''Id'' '''' ProtocolExtensionID,
     Field ''Criticality'' '''' Criticality,
     Field ''ExtensionValue'' ''openType,referenceFieldName:Id'' PDUSessionResourceSetupItemSUResExtIEsExtensionValue]"

definition ProtocolExtensionContainerPDUSessionResourceSetupItemSUResExtIEs :: gtype where
  "ProtocolExtensionContainerPDUSessionResourceSetupItemSUResExtIEs = TStruct [
     Field ''List'' ''sizeLB:1,sizeUB:65535'' (TSlice PDUSessionResourceSetupItemSUResExtIEs)]"

definition PDUSessionResourceSetupItemSURes :: gtype where
  "PDUSessionResourceSetupItemSURes = TStruct [
     Field ''PDUSessionID'' '''' PDUSessionID,
     Field ''PDUSessionResourceSetupResponseTransfer'' '''' TOctetString,
     Field ''IEExtensions'' ''optional'' (TPtr ProtocolExtensionContainerPDUSessionResourceSetupItemSUResExtIEs)]"

definition PDUSessionResourceSetupListSURes :: gtype where
  "PDUSessionResourceSetupListSURes = TStruct [
     Field ''List'' ''valueExt,sizeLB:1,sizeUB:256'' (TSlice PDUSessionResourceSetupItemSURes)]"

definition PDUSessionResourceFailedToSetupItemSUResExtIEsExtensionValue :: gtype where
  "PDUSessionResourceFailedToSetupItemSUResExtIEsExtensionValue = TStruct [Field ''Present'' '''' TInt]"

definition PDUSessionResourceFailedToSetupItemSUResExtIEs :: gtype where
  "PDUSessionResourceFailedToSetupItemSUResExtIEs = TStruct [
     Field ''Id'' '''' ProtocolExtensionID,
     Field ''Criticality'' '''' Criticality,
     Field ''ExtensionValue'' ''openType,referenceFieldName:Id'' PDUSessionResourceFailedToSetupItemSUResExtIEsExtensionValue]"

definition ProtocolExtensionContainerPDUSessionResourceFailedToSetupItemSUResExtIEs :: gtype where
  "ProtocolExtensionContainerPDUSessionResourceFailedToSetupItemSUResExtIEs = TStruct [
     Field ''List'' ''sizeLB:1,sizeUB:65535'' (TSlice PDUSessionResourceFailedToSetupItemSUResExtIEs)]"

definition PDUSessionResourceFailedToSetupItemSURes :: gtype where
  "PDUSessionResourceFailedToSetupItemSURes = TStruct [
     Field ''PDUSessionID'' '''' PDUSessionID,
     Field ''PDUSessionResourceSetupUnsuccessfulTransfer'' '''' TOctetString,
     Field ''IEExtensions'' ''optional'' (TPtr ProtocolExtensionContainerPDUSessionResourceFailedToSetupItemSUResExtIEs)]"

definition PDUSessionResourceFailedToSetupListSURes :: gtype where
  "PDUSessionResourceFailedToSetupListSURes = TStruct [
     Field ''List'' ''valueExt,sizeLB:1,sizeUB:256'' (TSlice PDUSessionResourceFailedToSetupItemSURes)]"

definition PDUSessionResourceSetupResponseIEsValue :: gtype where
  "PDUSessionResourceSetupResponseIEsValue = TStruct [
     Field ''Present'' '''' TInt,
     Field ''AMFUENGAPID'' ''referenceFieldValue:10'' (TPtr AMFUENGAPID),
     Field ''RANUENGAPID'' ''referenceFieldValue:85'' (TPtr RANUENGAPID),
     Field ''PDUSessionResourceSetupListSURes'' ''referenceFieldValue:75'' (TPtr PDUSessionResourceSetupListSURes),
     Field ''PDUSessionResourceFailedToSetupListSURes'' ''referenceFieldValue:58'' (TPtr PDUSessionResourceFailedToSetupListSURes),
     Field ''CriticalityDiagnostics'' ''valueExt,referenceFieldValue:19'' (TPtr CriticalityDiagnostics)]"

definition PDUSessionResourceSetupResponseIEs :: gtype where
  "PDUSessionResourceSetupResponseIEs = TStruct [
     Field ''Id'' '''' ProtocolIEID,
     Field ''Criticality'' '''' Criticality,
     Field ''Value'' ''openType,referenceFieldName:Id'' PDUSessionResourceSetupResponseIEsValue]"

definition ProtocolIEContainerPDUSessionResourceSetupResponseIEs :: gtype where
  "ProtocolIEContainerPDUSessionResourceSetupResponseIEs = TStruct [
     Field ''List'' ''sizeLB:0,sizeUB:65535'' (TSlice PDUSessionResourceSetupResponseIEs)]"

definition PDUSessionResourceSetupResponse :: gtype where
  "PDUSessionResourceSetupResponse = TStruct [
     Field ''ProtocolIEs'' '''' ProtocolIEContainerPDUSessionResourceSetupResponseIEs]"

definition NumberOfBroadcasts :: gtype where
  "NumberOfBroadcasts = TStruct [Field ''Value'' ''valueLB:0,valueUB:65535'' TInt]"

definition CellIDCancelledEUTRAItemExtIEsExtensionValue :: gtype where
  "CellIDCancelledEUTRAItemExtIEsExtensionValue = TStruct [Field ''Present'' '''' TInt]"

definition CellIDCancelledEUTRAItemExtIEs :: gtype where
  "CellIDCancelledEUTRAItemExtIEs = TStruct [
     Field ''Id'' '''' ProtocolExtensionID,
     Field ''Criticality'' '''' Criticality,
     Field ''ExtensionValue'' ''openType,referenceFieldName:Id'' CellIDCancelledEUTRAItemExtIEsExtensionValue]"

definition ProtocolExtensionContainerCellIDCancelledEUTRAItemExtIEs :: gtype where
  "ProtocolExtensionContainerCellIDCancelledEUTRAItemExtIEs = TStruct [
     Field ''List'' ''sizeLB:1,sizeUB:65535'' (TSlice CellIDCancelledEUTRAItemExtIEs)]"

definition CellIDCancelledEUTRAItem :: gtype where
  "CellIDCancelledEUTRAItem = TStruct [
     Field ''EUTRACGI'' ''valueExt'' EUTRACGI,
     Field ''NumberOfBroadcasts'' '''' NumberOfBroadcasts,
     Field ''IEExtensions'' ''optional'' (TPtr ProtocolExtensionContainerCellIDCancelledEUTRAItemExtIEs)]"

definition CellIDCancelledEUTRA :: gtype where
  "CellIDCancelledEUTRA = TStruct [
     Field ''List'' ''valueExt,sizeLB:1,sizeUB:65535'' (TSlice CellIDCancelledEUTRAItem)]"

definition CancelledCellsInTAIEUTRAItemExtIEsExtensionValue :: gtype where
  "CancelledCellsInTAIEUTRAItemExtIEsExtensionValue = TStruct [Field ''Present'' '''' TInt]"

definition CancelledCellsInTAIEUTRAItemExtIEs :: gtype where
  "CancelledCellsInTAIEUTRAItemExtIEs = TStruct [
     Field ''Id'' '''' ProtocolExtensionID,
     Field ''Criticality'' '''' Criticality,
     Field ''ExtensionValue'' ''openType,referenceFieldName:Id'' CancelledCellsInTAIEUTRAItemExtIEsExtensionValue]"

definition ProtocolExtensionContainerCancelledCellsInTAIEUTRAItemExtIEs :: gtype where
  "ProtocolExtensionContainerCancelledCellsInTAIEUTRAItemExtIEs = TStruct [
     Field ''List'' ''sizeLB:1,sizeUB:65535'' (TSlice CancelledCellsInTAIEUTRAItemExtIEs)]"

definition CancelledCellsInTAIEUTRAItem :: gtype where
  "CancelledCellsInTAIEUTRAItem = TStruct [
     Field ''EUTRACGI'' ''valueExt'' EUTRACGI,
     Field ''NumberOfBroadcasts'' '''' NumberOfBroadcasts,
     Field ''IEExtensions'' ''optional'' (TPtr ProtocolExtensionContainerCancelledCellsInTAIEUTRAItemExtIEs)]"

definition CancelledCellsInTAIEUTRA :: gtype where
  "CancelledCellsInTAIEUTRA = TStruct [
     Field ''List'' ''valueExt,sizeLB:1,sizeUB:65535'' (TSlice CancelledCellsInTAIEUTRAItem)]"

definition TAICancelledEUTRAItemExtIEsExtensionValue :: gtype where
  "TAICancelledEUTRAItemExtIEsExtensionValue = TStruct [Field ''Present'' '''' TInt]"

definition TAICancelledEUTRAItemExtIEs :: gtype where
  "TAICancelledEUTRAItemExtIEs = TStruct [
     Field ''Id'' '''' ProtocolExtensionID,
     Field ''Criticality'' '''' Criticality,
     Field ''ExtensionValue'' ''openType,referenceFieldName:Id'' TAICancelledEUTRAItemExtIEsExtensionValue]"

definition ProtocolExtensionContainerTAICancelledEUTRAItemExtIEs :: gtype where
  "ProtocolExtensionContainerTAICancelledEUTRAItemExtIEs = TStruct [
     Field ''List'' ''sizeLB:1,sizeUB:65535'' (TSlice TAICancelledEUTRAItemExtIEs)]"

definition TAICancelledEUTRAItem :: gtype where
  "TAICancelledEUTRAItem = TStruct [
     Field ''TAI'' ''valueExt'' TAI,
     Field ''CancelledCellsInTAIEUTRA'' '''' CancelledCellsInTAIEUTRA,
     Field ''IEExtensions'' ''optional'' (TPtr ProtocolExtensionContainerTAICancelledEUTRAItemExtIEs)]"

definition TAICancelledEUTRA :: gtype where
  "TAICancelledEUTRA = TStruct [
     Field ''List'' ''valueExt,sizeLB:1,sizeUB:65535'' (TSlice TAICancelledEUTRAItem)]"

definition CancelledCellsInEAIEUTRAItemExtIEsExtensionValue :: gtype where
  "CancelledCellsInEAIEUTRAItemExtIEsExtensionValue = TStruct [Field ''Present'' '''' TInt]"

definition CancelledCellsInEAIEUTRAItemExtIEs :: gtype where
  "CancelledCellsInEAIEUTRAItemExtIEs = TStruct [
     Field ''Id'' '''' ProtocolExtensionID,
     Field ''Criticality'' '''' Criticality,
     Field ''ExtensionValue'' ''openType,referenceFieldName:Id'' CancelledCellsInEAIEUTRAItemExtIEsExtensionValue]"

definition ProtocolExtensionContainerCancelledCellsInEAIEUTRAItemExtIEs :: gtype where
  "ProtocolExtensionContainerCancelledCellsInEAIEUTRAItemExtIEs = TStruct [
     Field ''List'' ''sizeLB:1,sizeUB:65535'' (TSlice CancelledCellsInEAIEUTRAItemExtIEs)]"

definition CancelledCellsInEAIEUTRAItem :: gtype where
  "CancelledCellsInEAIEUTRAItem = TStruct [
     Field ''EUTRACGI'' ''valueExt'' EUTRACGI,
     Field ''NumberOfBroadcasts'' '''' NumberOfBroadcasts,
     Field ''IEExtensions'' ''optional'' (TPtr ProtocolExtensionContainerCancelledCellsInEAIEUTRAItemExtIEs)]"

definition CancelledCellsInEAIEUTRA :: gtype where
  "CancelledCellsInEAIEUTRA = TStruct [
     Field ''List'' ''valueExt,sizeLB:1,sizeUB:65535'' (TSlice CancelledCellsInEAIEUTRAItem)]"

definition EmergencyAreaIDCancelledEUTRAItemExtIEsExtensionValue :: gtype where
  "EmergencyAreaIDCancelledEUTRAItemExtIEsExtensionValue = TStruct [Field ''Present'' '''' TInt]"

definition EmergencyAreaIDCancelledEUTRAItemExtIEs :: gtype where
  "EmergencyAreaIDCancelledEUTRAItemExtIEs = TStruct [
     Field ''Id'' '''' ProtocolExtensionID,
     Field ''Criticality'' '''' Criticality,
     Field ''ExtensionValue'' ''openType,referenceFieldName:Id'' EmergencyAreaIDCancelledEUTRAItemExtIEsExtensionValue]"

definition ProtocolExtensionContainerEmergencyAreaIDCancelledEUTRAItemExtIEs :: gtype where
  "ProtocolExtensionContainerEmergencyAreaIDCancelledEUTRAItemExtIEs = TStruct [
     Field ''List'' ''sizeLB:1,sizeUB:65535'' (TSlice EmergencyAreaIDCancelledEUTRAItemExtIEs)]"

definition EmergencyAreaIDCancelledEUTRAItem :: gtype where
  "EmergencyAreaIDCancelledEUTRAItem = TStruct [
     Field ''EmergencyAreaID'' '''' EmergencyAreaID,
     Field ''CancelledCellsInEAIEUTRA'' '''' CancelledCellsInEAIEUTRA,
     Field ''IEExtensions'' ''optional'' (TPtr ProtocolExtensionContainerEmergencyAreaIDCancelledEUTRAItemExtIEs)]"

definition EmergencyAreaIDCancelledEUTRA :: gtype where
  "EmergencyAreaIDCancelledEUTRA = TStruct [
     Field ''List'' ''valueExt,sizeLB:1,sizeUB:65535'' (TSlice EmergencyAreaIDCancelledEUTRAItem)]"

definition CellIDCancelledNRItemExtIEsExtensionValue :: gtype where
  "CellIDCancelledNRItemExtIEsExtensionValue = TStruct [Field ''Present'' '''' TInt]"

definition CellIDCancelledNRItemExtIEs :: gtype where
  "CellIDCancelledNRItemExtIEs = TStruct [
     Field ''Id'' '''' ProtocolExtensionID,
     Field ''Criticality'' '''' Criticality,
     Field ''ExtensionValue'' ''openType,referenceFieldName:Id'' CellIDCancelledNRItemExtIEsExtensionValue]"

definition ProtocolExtensionContainerCellIDCancelledNRItemExtIEs :: gtype where
  "ProtocolExtensionContainerCellIDCancelledNRItemExtIEs = TStruct [
     Field ''List'' ''sizeLB:1,sizeUB:65535'' (TSlice CellIDCancelledNRItemExtIEs)]"

definition CellIDCancelledNRItem :: gtype where
  "CellIDCancelledNRItem = TStruct [
     Field ''NRCGI'' ''valueExt'' NRCGI,
     Field ''NumberOfBroadcasts'' '''' NumberOfBroadcasts,
     Field ''IEExtensions'' ''optional'' (TPtr ProtocolExtensionContainerCellIDCancelledNRItemExtIEs)]"

definition CellIDCancelledNR :: gtype where
  "CellIDCancelledNR = TStruct [
     Field ''List'' ''valueExt,sizeLB:1,sizeUB:65535'' (TSlice CellIDCancelledNRItem)]"

definition CancelledCellsInTAINRItemExtIEsExtensionValue :: gtype where
  "CancelledCellsInTAINRItemExtIEsExtensionValue = TStruct [Field ''Present'' '''' TInt]"

definition CancelledCellsInTAINRItemExtIEs :: gtype where
  "CancelledCellsInTAINRItemExtIEs = TStruct [
     Field ''Id'' '''' ProtocolExtensionID,
     Field ''Criticality'' '''' Criticality,
     Field ''ExtensionValue'' ''openType,referenceFieldName:Id'' CancelledCellsInTAINRItemExtIEsExtensionValue]"

definition ProtocolExtensionContainerCancelledCellsInTAINRItemExtIEs :: gtype where
  "ProtocolExtensionContainerCancelledCellsInTAINRItemExtIEs = TStruct [
     Field ''List'' ''sizeLB:1,sizeUB:65535'' (TSlice CancelledCellsInTAINRItemExtIEs)]"

definition CancelledCellsInTAINRItem :: gtype where
  "CancelledCellsInTAINRItem = TStruct [
     Field ''NRCGI'' ''valueExt'' NRCGI,
     Field ''NumberOfBroadcasts'' '''' NumberOfBroadcasts,
     Field ''IEExtensions'' ''optional'' (TPtr ProtocolExtensionContainerCancelledCellsInTAINRItemExtIEs)]"

definition CancelledCellsInTAINR :: gtype where
  "CancelledCellsInTAINR = TStruct [
     Field ''List'' ''valueExt,sizeLB:1,sizeUB:65535'' (TSlice CancelledCellsInTAINRItem)]"

definition TAICancelledNRItemExtIEsExtensionValue :: gtype where
  "TAICancelledNRItemExtIEsExtensionValue = TStruct [Field ''Present'' '''' TInt]"

definition TAICancelledNRItemExtIEs :: gtype where
  "TAICancelledNRItemExtIEs = TStruct [
     Field ''Id'' '''' ProtocolExtensionID,
     Field ''Criticality'' '''' Criticality,
     Field ''ExtensionValue'' ''openType,referenceFieldName:Id'' TAICancelledNRItemExtIEsExtensionValue]"

definition ProtocolExtensionContainerTAICancelledNRItemExtIEs :: gtype where
  "ProtocolExtensionContainerTAICancelledNRItemExtIEs = TStruct [
     Field ''List'' ''sizeLB:1,sizeUB:65535'' (TSlice TAICancelledNRItemExtIEs)]"

definition TAICancelledNRItem :: gtype where
  "TAICancelledNRItem = TStruct [
     Field ''TAI'' ''valueExt'' TAI,
     Field ''CancelledCellsInTAINR'' '''' CancelledCellsInTAINR,
     Field ''IEExtensions'' ''optional'' (TPtr ProtocolExtensionContainerTAICancelledNRItemExtIEs)]"

definition TAICancelledNR :: gtype where
  "TAICancelledNR = TStruct [Field ''List'' ''valueExt,sizeLB:1,sizeUB:65535'' (TSlice TAICancelledNRItem)]"

definition CancelledCellsInEAINRItemExtIEsExtensionValue :: gtype where
  "CancelledCellsInEAINRItemExtIEsExtensionValue = TStruct [Field ''Present'' '''' TInt]"

definition CancelledCellsInEAINRItemExtIEs :: gtype where
  "CancelledCellsInEAINRItemExtIEs = TStruct [
     Field ''Id'' '''' ProtocolExtensionID,
     Field ''Criticality'' '''' Criticality,
     Field ''ExtensionValue'' ''openType,referenceFieldName:Id'' CancelledCellsInEAINRItemExtIEsExtensionValue]"

definition ProtocolExtensionContainerCancelledCellsInEAINRItemExtIEs :: gtype where
  "ProtocolExtensionContainerCancelledCellsInEAINRItemExtIEs = TStruct [
     Field ''List'' ''sizeLB:1,sizeUB:65535'' (TSlice CancelledCellsInEAINRItemExtIEs)]"

definition CancelledCellsInEAINRItem :: gtype where
  "CancelledCellsInEAINRItem = TStruct [
     Field ''NRCGI'' ''valueExt'' NRCGI,
     Field ''NumberOfBroadcasts'' '''' NumberOfBroadcasts,
     Field ''IEExtensions'' ''optional'' (TPtr ProtocolExtensionContainerCancelledCellsInEAINRItemExtIEs)]"

definition CancelledCellsInEAINR :: gtype where
  "CancelledCellsInEAINR = TStruct [
     Field ''List'' ''valueExt,sizeLB:1,sizeUB:65535'' (TSlice CancelledCellsInEAINRItem)]"

definition EmergencyAreaIDCancelledNRItemExtIEsExtensionValue :: gtype where
  "EmergencyAreaIDCancelledNRItemExtIEsExtensionValue = TStruct [Field ''Present'' '''' TInt]"

definition EmergencyAreaIDCancelledNRItemExtIEs :: gtype where
  "EmergencyAreaIDCancelledNRItemExtIEs = TStruct [
     Field ''Id'' '''' ProtocolExtensionID,
     Field ''Criticality'' '''' Criticality,
     Field ''ExtensionValue'' ''openType,referenceFieldName:Id'' EmergencyAreaIDCancelledNRItemExtIEsExtensionValue]"

definition ProtocolExtensionContainerEmergencyAreaIDCancelledNRItemExtIEs :: gtype where
  "ProtocolExtensionContainerEmergencyAreaIDCancelledNRItemExtIEs = TStruct [
     Field ''List'' ''sizeLB:1,sizeUB:65535'' (TSlice EmergencyAreaIDCancelledNRItemExtIEs)]"

definition EmergencyAreaIDCancelledNRItem :: gtype where
  "EmergencyAreaIDCancelledNRItem = TStruct [
     Field ''EmergencyAreaID'' '''' EmergencyAreaID,
     Field ''CancelledCellsInEAINR'' '''' CancelledCellsInEAINR,
     Field ''IEExtensions'' ''optional'' (TPtr ProtocolExtensionContainerEmergencyAreaIDCancelledNRItemExtIEs)]"

definition EmergencyAreaIDCancelledNR :: gtype where
  "EmergencyAreaIDCancelledNR = TStruct [
     Field ''List'' ''valueExt,sizeLB:1,sizeUB:65535'' (TSlice EmergencyAreaIDCancelledNRItem)]"

definition ProtocolIESingleContainerBroadcastCancelledAreaListExtIEs :: gtype where
  "ProtocolIESingleContainerBroadcastCancelledAreaListExtIEs = TStruct []"

definition BroadcastCancelledAreaList :: gtype where
  "BroadcastCancelledAreaList = TStruct [
     Field ''Present'' '''' TInt,
     Field ''CellIDCancelledEUTRA'' '''' (TPtr CellIDCancelledEUTRA),
     Field ''TAICancelledEUTRA'' '''' (TPtr TAICancelledEUTRA),
     Field ''EmergencyAreaIDCancelledEUTRA'' '''' (TPtr EmergencyAreaIDCancelledEUTRA),
     Field ''CellIDCancelledNR'' '''' (TPtr CellIDCancelledNR),
     Field ''TAICancelledNR'' '''' (TPtr TAICancelledNR),
     Field ''EmergencyAreaIDCancelledNR'' '''' (TPtr EmergencyAreaIDCancelledNR),
     Field ''ChoiceExtensions'' '''' (TPtr ProtocolIESingleContainerBroadcastCancelledAreaListExtIEs)]"

definition PWSCancelResponseIEsValue :: gtype where
  "PWSCancelResponseIEsValue = TStruct [
     Field ''Present'' '''' TInt,
     Field ''MessageIdentifier'' ''referenceFieldValue:35'' (TPtr MessageIdentifier),
     Field ''SerialNumber'' ''referenceFieldValue:95'' (TPtr SerialNumber),
     Field ''BroadcastCancelledAreaList'' ''referenceFieldValue:12,valueLB:0,valueUB:6'' (TPtr BroadcastCancelledAreaList),
     Field ''CriticalityDiagnostics'' ''valueExt,referenceFieldValue:19'' (TPtr CriticalityDiagnostics)]"

definition PWSCancelResponseIEs :: gtype where
  "PWSCancelResponseIEs = TStruct [
     Field ''Id'' '''' ProtocolIEID,
     Field ''Criticality'' '''' Criticality,
     Field ''Value'' ''openType,referenceFieldName:Id'' PWSCancelResponseIEsValue]"

definition ProtocolIEContainerPWSCancelResponseIEs :: gtype where
  "ProtocolIEContainerPWSCancelResponseIEs = TStruct [
     Field ''List'' ''sizeLB:0,sizeUB:65535'' (TSlice PWSCancelResponseIEs)]"

definition PWSCancelResponse :: gtype where
  "PWSCancelResponse = TStruct [Field ''ProtocolIEs'' '''' ProtocolIEContainerPWSCancelResponseIEs]"

definition RANConfigurationUpdateAcknowledgeIEsValue :: gtype where
  "RANConfigurationUpdateAcknowledgeIEsValue = TStruct [
     Field ''Present'' '''' TInt,
     Field ''CriticalityDiagnostics'' ''valueExt,referenceFieldValue:19'' (TPtr CriticalityDiagnostics)]"

definition RANConfigurationUpdateAcknowledgeIEs :: gtype where
  "RANConfigurationUpdateAcknowledgeIEs = TStruct [
     Field ''Id'' '''' ProtocolIEID,
     Field ''Criticality'' '''' Criticality,
     Field ''Value'' ''openType,referenceFieldName:Id'' RANConfigurationUpdateAcknowledgeIEsValue]"

definition ProtocolIEContainerRANConfigurationUpdateAcknowledgeIEs :: gtype where
  "ProtocolIEContainerRANConfigurationUpdateAcknowledgeIEs = TStruct [
     Field ''List'' ''sizeLB:0,sizeUB:65535'' (TSlice RANConfigurationUpdateAcknowledgeIEs)]"

definition RANConfigurationUpdateAcknowledge :: gtype where
  "RANConfigurationUpdateAcknowledge = TStruct [
     Field ''ProtocolIEs'' '''' ProtocolIEContainerRANConfigurationUpdateAcknowledgeIEs]"

definition UEContextModificationResponseIEsValue :: gtype where
  "UEContextModificationResponseIEsValue = TStruct [
     Field ''Present'' '''' TInt,
     Field ''AMFUENGAPID'' ''referenceFieldValue:10'' (TPtr AMFUENGAPID),
     Field ''RANUENGAPID'' ''referenceFieldValue:85'' (TPtr RANUENGAPID),
     Field ''RRCState'' ''referenceFieldValue:92'' (TPtr RRCState),
     Field ''UserLocationInformation'' ''referenceFieldValue:121,valueLB:0,valueUB:3'' (TPtr UserLocationInformation),
     Field ''CriticalityDiagnostics'' ''valueExt,referenceFieldValue:19'' (TPtr CriticalityDiagnostics)]"

definition UEContextModificationResponseIEs :: gtype where
  "UEContextModificationResponseIEs = TStruct [
     Field ''Id'' '''' ProtocolIEID,
     Field ''Criticality'' '''' Criticality,
     Field ''Value'' ''openType,referenceFieldName:Id'' UEContextModificationResponseIEsValue]"

definition ProtocolIEContainerUEContextModificationResponseIEs :: gtype where
  "ProtocolIEContainerUEContextModificationResponseIEs = TStruct [
     Field ''List'' ''sizeLB:0,sizeUB:65535'' (TSlice UEContextModificationResponseIEs)]"

definition UEContextModificationResponse :: gtype where
  "UEContextModificationResponse = TStruct [
     Field ''ProtocolIEs'' '''' ProtocolIEContainerUEContextModificationResponseIEs]"

definition ProtocolIESingleContainerAMFPagingTargetExtIEs :: gtype where
  "ProtocolIESingleContainerAMFPagingTargetExtIEs = TStruct []"

definition AMFPagingTarget :: gtype where
  "AMFPagingTarget = TStruct [
     Field ''Present'' '''' TInt,
     Field ''GlobalRANNodeID'' ''valueLB:0,valueUB:3'' (TPtr GlobalRANNodeID),
     Field ''TAI'' ''valueExt'' (TPtr TAI),
     Field ''ChoiceExtensions'' '''' (TPtr ProtocolIESingleContainerAMFPagingTargetExtIEs)]"

definition RecommendedRANNodeItemExtIEsExtensionValue :: gtype where
  "RecommendedRANNodeItemExtIEsExtensionValue = TStruct [Field ''Present'' '''' TInt]"

definition RecommendedRANNodeItemExtIEs :: gtype where
  "RecommendedRANNodeItemExtIEs = TStruct [
     Field ''Id'' '''' ProtocolExtensionID,
     Field ''Criticality'' '''' Criticality,
     Field ''ExtensionValue'' ''openType,referenceFieldName:Id'' RecommendedRANNodeItemExtIEsExtensionValue]"

definition ProtocolExtensionContainerRecommendedRANNodeItemExtIEs :: gtype where
  "ProtocolExtensionContainerRecommendedRANNodeItemExtIEs = TStruct [
     Field ''List'' ''sizeLB:1,sizeUB:65535'' (TSlice RecommendedRANNodeItemExtIEs)]"

definition RecommendedRANNodeItem :: gtype where
  "RecommendedRANNodeItem = TStruct [
     Field ''AMFPagingTarget'' ''valueLB:0,valueUB:2'' AMFPagingTarget,
     Field ''IEExtensions'' ''optional'' (TPtr ProtocolExtensionContainerRecommendedRANNodeItemExtIEs)]"

definition RecommendedRANNodeList :: gtype where
  "RecommendedRANNodeList = TStruct [
     Field ''List'' ''valueExt,sizeLB:1,sizeUB:16'' (TSlice RecommendedRANNodeItem)]"

definition RecommendedRANNodesForPagingExtIEsExtensionValue :: gtype where
  "RecommendedRANNodesForPagingExtIEsExtensionValue = TStruct [Field ''Present'' '''' TInt]"

definition RecommendedRANNodesForPagingExtIEs :: gtype where
  "RecommendedRANNodesForPagingExtIEs = TStruct [
     Field ''Id'' '''' ProtocolExtensionID,
     Field ''Criticality'' '''' Criticality,
     Field ''ExtensionValue'' ''openType,referenceFieldName:Id'' RecommendedRANNodesForPagingExtIEsExtensionValue]"

definition ProtocolExtensionContainerRecommendedRANNodesForPagingExtIEs :: gtype where
  "ProtocolExtensionContainerRecommendedRANNodesForPagingExtIEs = TStruct [
     Field ''List'' ''sizeLB:1,sizeUB:65535'' (TSlice RecommendedRANNodesForPagingExtIEs)]"

definition RecommendedRANNodesForPaging :: gtype where
  "RecommendedRANNodesForPaging = TStruct [
     Field ''RecommendedRANNodeList'' '''' RecommendedRANNodeList,
     Field ''IEExtensions'' ''optional'' (TPtr ProtocolExtensionContainerRecommendedRANNodesForPagingExtIEs)]"

definition InfoOnRecommendedCellsAndRANNodesForPagingExtIEsExtensionValue :: gtype where
  "InfoOnRecommendedCellsAndRANNodesForPagingExtIEsExtensionValue = TStruct [Field ''Present'' '''' TInt]"

definition InfoOnRecommendedCellsAndRANNodesForPagingExtIEs :: gtype where
  "InfoOnRecommendedCellsAndRANNodesForPagingExtIEs = TStruct [
     Field ''Id'' '''' ProtocolExtensionID,
     Field ''Criticality'' '''' Criticality,
     Field ''ExtensionValue'' ''openType,referenceFieldName:Id'' InfoOnRecommendedCellsAndRANNodesForPagingExtIEsExtensionValue]"

definition ProtocolExtensionContainerInfoOnRecommendedCellsAndRANNodesForPagingExtIEs :: gtype where
  "ProtocolExtensionContainerInfoOnRecommendedCellsAndRANNodesForPagingExtIEs = TStruct [
     Field ''List'' ''sizeLB:1,sizeUB:65535'' (TSlice InfoOnRecommendedCellsAndRANNodesForPagingExtIEs)]"

definition InfoOnRecommendedCellsAndRANNodesForPaging :: gtype where
  "InfoOnRecommendedCellsAndRANNodesForPaging = TStruct [
     Field ''RecommendedCellsForPaging'' ''valueExt'' RecommendedCellsForPaging,
     Field ''RecommendRANNodesForPaging'' ''valueExt'' RecommendedRANNodesForPaging,
     Field ''IEExtensions'' ''optional'' (TPtr ProtocolExtensionContainerInfoOnRecommendedCellsAndRANNodesForPagingExtIEs)]"

definition PDUSessionResourceItemCxtRelCplExtIEsExtensionValue :: gtype where
  "PDUSessionResourceItemCxtRelCplExtIEsExtensionValue = TStruct [Field ''Present'' '''' TInt]"

definition PDUSessionResourceItemCxtRelCplExtIEs :: gtype where
  "PDUSessionResourceItemCxtRelCplExtIEs = TStruct [
     Field ''Id'' '''' ProtocolExtensionID,
     Field ''Criticality'' '''' Criticality,
     Field ''ExtensionValue'' ''openType,referenceFieldName:Id'' PDUSessionResourceItemCxtRelCplExtIEsExtensionValue]"

definition ProtocolExtensionContainerPDUSessionResourceItemCxtRelCplExtIEs :: gtype where
  "ProtocolExtensionContainerPDUSessionResourceItemCxtRelCplExtIEs = TStruct [
     Field ''List'' ''sizeLB:1,sizeUB:65535'' (TSlice PDUSessionResourceItemCxtRelCplExtIEs)]"

definition PDUSessionResourceItemCxtRelCpl :: gtype where
  "PDUSessionResourceItemCxtRelCpl = TStruct [
     Field ''PDUSessionID'' '''' PDUSessionID,
     Field ''IEExtensions'' ''optional'' (TPtr ProtocolExtensionContainerPDUSessionResourceItemCxtRelCplExtIEs)]"

definition PDUSessionResourceListCxtRelCpl :: gtype where
  "PDUSessionResourceListCxtRelCpl = TStruct [
     Field ''List'' ''valueExt,sizeLB:1,sizeUB:256'' (TSlice PDUSessionResourceItemCxtRelCpl)]"

definition UEContextReleaseCompleteIEsValue :: gtype where
  "UEContextReleaseCompleteIEsValue = TStruct [
     Field ''Present'' '''' TInt,
     Field ''AMFUENGAPID'' ''referenceFieldValue:10'' (TPtr AMFUENGAPID),
     Field ''RANUENGAPID'' ''referenceFieldValue:85'' (TPtr RANUENGAPID),
     Field ''UserLocationInformation'' ''referenceFieldValue:121,valueLB:0,valueUB:3'' (TPtr UserLocationInformation),
     Field ''InfoOnRecommendedCellsAndRANNodesForPaging'' ''valueExt,referenceFieldValue:32'' (TPtr InfoOnRecommendedCellsAndRANNodesForPaging),
     Field ''PDUSessionResourceListCxtRelCpl'' ''referenceFieldValue:60'' (TPtr PDUSessionResourceListCxtRelCpl),
     Field ''CriticalityDiagnostics'' ''valueExt,referenceFieldValue:19'' (TPtr CriticalityDiagnostics)]"

definition UEContextReleaseCompleteIEs :: gtype where
  "UEContextReleaseCompleteIEs = TStruct [
     Field ''Id'' '''' ProtocolIEID,
     Field ''Criticality'' '''' Criticality,
     Field ''Value'' ''openType,referenceFieldName:Id'' UEContextReleaseCompleteIEsValue]"

definition ProtocolIEContainerUEContextReleaseCompleteIEs :: gtype where
  "ProtocolIEContainerUEContextReleaseCompleteIEs = TStruct [
     Field ''List'' ''sizeLB:0,sizeUB:65535'' (TSlice UEContextReleaseCompleteIEs)]"

definition UEContextReleaseComplete :: gtype where
  "UEContextReleaseComplete = TStruct [
     Field ''ProtocolIEs'' '''' ProtocolIEContainerUEContextReleaseCompleteIEs]"

definition IMSVoiceSupportIndicator :: gtype where
  "IMSVoiceSupportIndicator = TStruct [Field ''Value'' ''valueExt,valueLB:0,valueUB:1'' TEnumerated]"

definition UERadioCapabilityCheckResponseIEsValue :: gtype where
  "UERadioCapabilityCheckResponseIEsValue = TStruct [
     Field ''Present'' '''' TInt,
     Field ''AMFUENGAPID'' ''referenceFieldValue:10'' (TPtr AMFUENGAPID),
     Field ''RANUENGAPID'' ''referenceFieldValue:85'' (TPtr RANUENGAPID),
     Field ''IMSVoiceSupportIndicator'' ''referenceFieldValue:30'' (TPtr IMSVoiceSupportIndicator),
     Field ''CriticalityDiagnostics'' ''valueExt,referenceFieldValue:19'' (TPtr CriticalityDiagnostics)]"

definition UERadioCapabilityCheckResponseIEs :: gtype where
  "UERadioCapabilityCheckResponseIEs = TStruct [
     Field ''Id'' '''' ProtocolIEID,
     Field ''Criticality'' '''' Criticality,
     Field ''Value'' ''openType,referenceFieldName:Id'' UERadioCapabilityCheckResponseIEsValue]"

definition ProtocolIEContainerUERadioCapabilityCheckResponseIEs :: gtype where
  "ProtocolIEContainerUERadioCapabilityCheckResponseIEs = TStruct [
     Field ''List'' ''sizeLB:0,sizeUB:65535'' (TSlice UERadioCapabilityCheckResponseIEs)]"

definition UERadioCapabilityCheckResponse :: gtype where
  "UERadioCapabilityCheckResponse = TStruct [
     Field ''ProtocolIEs'' '''' ProtocolIEContainerUERadioCapabilityCheckResponseIEs]"

definition CellIDBroadcastEUTRAItemExtIEsExtensionValue :: gtype where
  "CellIDBroadcastEUTRAItemExtIEsExtensionValue = TStruct [Field ''Present'' '''' TInt]"

definition CellIDBroadcastEUTRAItemExtIEs :: gtype where
  "CellIDBroadcastEUTRAItemExtIEs = TStruct [
     Field ''Id'' '''' ProtocolExtensionID,
     Field ''Criticality'' '''' Criticality,
     Field ''ExtensionValue'' ''openType,referenceFieldName:Id'' CellIDBroadcastEUTRAItemExtIEsExtensionValue]"

definition ProtocolExtensionContainerCellIDBroadcastEUTRAItemExtIEs :: gtype where
  "ProtocolExtensionContainerCellIDBroadcastEUTRAItemExtIEs = TStruct [
     Field ''List'' ''sizeLB:1,sizeUB:65535'' (TSlice CellIDBroadcastEUTRAItemExtIEs)]"

definition CellIDBroadcastEUTRAItem :: gtype where
  "CellIDBroadcastEUTRAItem = TStruct [
     Field ''EUTRACGI'' ''valueExt'' EUTRACGI,
     Field ''IEExtensions'' ''optional'' (TPtr ProtocolExtensionContainerCellIDBroadcastEUTRAItemExtIEs)]"

definition CellIDBroadcastEUTRA :: gtype where
  "CellIDBroadcastEUTRA = TStruct [
     Field ''List'' ''valueExt,sizeLB:1,sizeUB:65535'' (TSlice CellIDBroadcastEUTRAItem)]"

definition CompletedCellsInTAIEUTRAItemExtIEsExtensionValue :: gtype where
  "CompletedCellsInTAIEUTRAItemExtIEsExtensionValue = TStruct [Field ''Present'' '''' TInt]"

definition CompletedCellsInTAIEUTRAItemExtIEs :: gtype where
  "CompletedCellsInTAIEUTRAItemExtIEs = TStruct [
     Field ''Id'' '''' ProtocolExtensionID,
     Field ''Criticality'' '''' Criticality,
     Field ''ExtensionValue'' ''openType,referenceFieldName:Id'' CompletedCellsInTAIEUTRAItemExtIEsExtensionValue]"

definition ProtocolExtensionContainerCompletedCellsInTAIEUTRAItemExtIEs :: gtype where
  "ProtocolExtensionContainerCompletedCellsInTAIEUTRAItemExtIEs = TStruct [
     Field ''List'' ''sizeLB:1,sizeUB:65535'' (TSlice CompletedCellsInTAIEUTRAItemExtIEs)]"

definition CompletedCellsInTAIEUTRAItem :: gtype where
  "CompletedCellsInTAIEUTRAItem = TStruct [
     Field ''EUTRACGI'' ''valueExt'' EUTRACGI,
     Field ''IEExtensions'' ''optional'' (TPtr ProtocolExtensionContainerCompletedCellsInTAIEUTRAItemExtIEs)]"

definition CompletedCellsInTAIEUTRA :: gtype where
  "CompletedCellsInTAIEUTRA = TStruct [
     Field ''List'' ''valueExt,sizeLB:1,sizeUB:65535'' (TSlice CompletedCellsInTAIEUTRAItem)]"

definition TAIBroadcastEUTRAItemExtIEsExtensionValue :: gtype where
  "TAIBroadcastEUTRAItemExtIEsExtensionValue = TStruct [Field ''Present'' '''' TInt]"

definition TAIBroadcastEUTRAItemExtIEs :: gtype where
  "TAIBroadcastEUTRAItemExtIEs = TStruct [
     Field ''Id'' '''' ProtocolExtensionID,
     Field ''Criticality'' '''' Criticality,
     Field ''ExtensionValue'' ''openType,referenceFieldName:Id'' TAIBroadcastEUTRAItemExtIEsExtensionValue]"

definition ProtocolExtensionContainerTAIBroadcastEUTRAItemExtIEs :: gtype where
  "ProtocolExtensionContainerTAIBroadcastEUTRAItemExtIEs = TStruct [
     Field ''List'' ''sizeLB:1,sizeUB:65535'' (TSlice TAIBroadcastEUTRAItemExtIEs)]"

definition TAIBroadcastEUTRAItem :: gtype where
  "TAIBroadcastEUTRAItem = TStruct [
     Field ''TAI'' ''valueExt'' TAI,
     Field ''CompletedCellsInTAIEUTRA'' '''' CompletedCellsInTAIEUTRA,
     Field ''IEExtensions'' ''optional'' (TPtr ProtocolExtensionContainerTAIBroadcastEUTRAItemExtIEs)]"

definition TAIBroadcastEUTRA :: gtype where
  "TAIBroadcastEUTRA = TStruct [
     Field ''List'' ''valueExt,sizeLB:1,sizeUB:65535'' (TSlice TAIBroadcastEUTRAItem)]"

definition CompletedCellsInEAIEUTRAItemExtIEsExtensionValue :: gtype where
  "CompletedCellsInEAIEUTRAItemExtIEsExtensionValue = TStruct [Field ''Present'' '''' TInt]"

definition CompletedCellsInEAIEUTRAItemExtIEs :: gtype where
  "CompletedCellsInEAIEUTRAItemExtIEs = TStruct [
     Field ''Id'' '''' ProtocolExtensionID,
     Field ''Criticality'' '''' Criticality,
     Field ''ExtensionValue'' ''openType,referenceFieldName:Id'' CompletedCellsInEAIEUTRAItemExtIEsExtensionValue]"

definition ProtocolExtensionContainerCompletedCellsInEAIEUTRAItemExtIEs :: gtype where
  "ProtocolExtensionContainerCompletedCellsInEAIEUTRAItemExtIEs = TStruct [
     Field ''List'' ''sizeLB:1,sizeUB:65535'' (TSlice CompletedCellsInEAIEUTRAItemExtIEs)]"

definition CompletedCellsInEAIEUTRAItem :: gtype where
  "CompletedCellsInEAIEUTRAItem = TStruct [
     Field ''EUTRACGI'' ''valueExt'' EUTRACGI,
     Field ''IEExtensions'' ''optional'' (TPtr ProtocolExtensionContainerCompletedCellsInEAIEUTRAItemExtIEs)]"

definition CompletedCellsInEAIEUTRA :: gtype where
  "CompletedCellsInEAIEUTRA = TStruct [
     Field ''List'' ''valueExt,sizeLB:1,sizeUB:65535'' (TSlice CompletedCellsInEAIEUTRAItem)]"

definition EmergencyAreaIDBroadcastEUTRAItemExtIEsExtensionValue :: gtype where
  "EmergencyAreaIDBroadcastEUTRAItemExtIEsExtensionValue = TStruct [Field ''Present'' '''' TInt]"

definition EmergencyAreaIDBroadcastEUTRAItemExtIEs :: gtype where
  "EmergencyAreaIDBroadcastEUTRAItemExtIEs = TStruct [
     Field ''Id'' '''' ProtocolExtensionID,
     Field ''Criticality'' '''' Criticality,
     Field ''ExtensionValue'' ''openType,referenceFieldName:Id'' EmergencyAreaIDBroadcastEUTRAItemExtIEsExtensionValue]"

definition ProtocolExtensionContainerEmergencyAreaIDBroadcastEUTRAItemExtIEs :: gtype where
  "ProtocolExtensionContainerEmergencyAreaIDBroadcastEUTRAItemExtIEs = TStruct [
     Field ''List'' ''sizeLB:1,sizeUB:65535'' (TSlice EmergencyAreaIDBroadcastEUTRAItemExtIEs)]"

definition EmergencyAreaIDBroadcastEUTRAItem :: gtype where
  "EmergencyAreaIDBroadcastEUTRAItem = TStruct [
     Field ''EmergencyAreaID'' '''' EmergencyAreaID,
     Field ''CompletedCellsInEAIEUTRA'' '''' CompletedCellsInEAIEUTRA,
     Field ''IEExtensions'' ''optional'' (TPtr ProtocolExtensionContainerEmergencyAreaIDBroadcastEUTRAItemExtIEs)]"

definition EmergencyAreaIDBroadcastEUTRA :: gtype where
  "EmergencyAreaIDBroadcastEUTRA = TStruct [
     Field ''List'' ''valueExt,sizeLB:1,sizeUB:65535'' (TSlice EmergencyAreaIDBroadcastEUTRAItem)]"

definition CellIDBroadcastNRItemExtIEsExtensionValue :: gtype where
  "CellIDBroadcastNRItemExtIEsExtensionValue = TStruct [Field ''Present'' '''' TInt]"

definition CellIDBroadcastNRItemExtIEs :: gtype where
  "CellIDBroadcastNRItemExtIEs = TStruct [
     Field ''Id'' '''' ProtocolExtensionID,
     Field ''Criticality'' '''' Criticality,
     Field ''ExtensionValue'' ''openType,referenceFieldName:Id'' CellIDBroadcastNRItemExtIEsExtensionValue]"

definition ProtocolExtensionContainerCellIDBroadcastNRItemExtIEs :: gtype where
  "ProtocolExtensionContainerCellIDBroadcastNRItemExtIEs = TStruct [
     Field ''List'' ''sizeLB:1,sizeUB:65535'' (TSlice CellIDBroadcastNRItemExtIEs)]"

definition CellIDBroadcastNRItem :: gtype where
  "CellIDBroadcastNRItem = TStruct [
     Field ''NRCGI'' ''valueExt'' NRCGI,
     Field ''IEExtensions'' ''optional'' (TPtr ProtocolExtensionContainerCellIDBroadcastNRItemExtIEs)]"

definition CellIDBroadcastNR :: gtype where
  "CellIDBroadcastNR = TStruct [
     Field ''List'' ''valueExt,sizeLB:1,sizeUB:65535'' (TSlice CellIDBroadcastNRItem)]"

definition CompletedCellsInTAINRItemExtIEsExtensionValue :: gtype where
  "CompletedCellsInTAINRItemExtIEsExtensionValue = TStruct [Field ''Present'' '''' TInt]"

definition CompletedCellsInTAINRItemExtIEs :: gtype where
  "CompletedCellsInTAINRItemExtIEs = TStruct [
     Field ''Id'' '''' ProtocolExtensionID,
     Field ''Criticality'' '''' Criticality,
     Field ''ExtensionValue'' ''openType,referenceFieldName:Id'' CompletedCellsInTAINRItemExtIEsExtensionValue]"

definition ProtocolExtensionContainerCompletedCellsInTAINRItemExtIEs :: gtype where
  "ProtocolExtensionContainerCompletedCellsInTAINRItemExtIEs = TStruct [
     Field ''List'' ''sizeLB:1,sizeUB:65535'' (TSlice CompletedCellsInTAINRItemExtIEs)]"

definition CompletedCellsInTAINRItem :: gtype where
  "CompletedCellsInTAINRItem = TStruct [
     Field ''NRCGI'' ''valueExt'' NRCGI,
     Field ''IEExtensions'' ''optional'' (TPtr ProtocolExtensionContainerCompletedCellsInTAINRItemExtIEs)]"

definition CompletedCellsInTAINR :: gtype where
  "CompletedCellsInTAINR = TStruct [
     Field ''List'' ''valueExt,sizeLB:1,sizeUB:65535'' (TSlice CompletedCellsInTAINRItem)]"

definition TAIBroadcastNRItemExtIEsExtensionValue :: gtype where
  "TAIBroadcastNRItemExtIEsExtensionValue = TStruct [Field ''Present'' '''' TInt]"

definition TAIBroadcastNRItemExtIEs :: gtype where
  "TAIBroadcastNRItemExtIEs = TStruct [
     Field ''Id'' '''' ProtocolExtensionID,
     Field ''Criticality'' '''' Criticality,
     Field ''ExtensionValue'' ''openType,referenceFieldName:Id'' TAIBroadcastNRItemExtIEsExtensionValue]"

definition ProtocolExtensionContainerTAIBroadcastNRItemExtIEs :: gtype where
  "ProtocolExtensionContainerTAIBroadcastNRItemExtIEs = TStruct [
     Field ''List'' ''sizeLB:1,sizeUB:65535'' (TSlice TAIBroadcastNRItemExtIEs)]"

definition TAIBroadcastNRItem :: gtype where
  "TAIBroadcastNRItem = TStruct [
     Field ''TAI'' ''valueExt'' TAI,
     Field ''CompletedCellsInTAINR'' '''' CompletedCellsInTAINR,
     Field ''IEExtensions'' ''optional'' (TPtr ProtocolExtensionContainerTAIBroadcastNRItemExtIEs)]"

definition TAIBroadcastNR :: gtype where
  "TAIBroadcastNR = TStruct [Field ''List'' ''valueExt,sizeLB:1,sizeUB:65535'' (TSlice TAIBroadcastNRItem)]"

definition CompletedCellsInEAINRItemExtIEsExtensionValue :: gtype where
  "CompletedCellsInEAINRItemExtIEsExtensionValue = TStruct [Field ''Present'' '''' TInt]"

definition CompletedCellsInEAINRItemExtIEs :: gtype where
  "CompletedCellsInEAINRItemExtIEs = TStruct [
     Field ''Id'' '''' ProtocolExtensionID,
     Field ''Criticality'' '''' Criticality,
     Field ''ExtensionValue'' ''openType,referenceFieldName:Id'' CompletedCellsInEAINRItemExtIEsExtensionValue]"

definition ProtocolExtensionContainerCompletedCellsInEAINRItemExtIEs :: gtype where
  "ProtocolExtensionContainerCompletedCellsInEAINRItemExtIEs = TStruct [
     Field ''List'' ''sizeLB:1,sizeUB:65535'' (TSlice CompletedCellsInEAINRItemExtIEs)]"

definition CompletedCellsInEAINRItem :: gtype where
  "CompletedCellsInEAINRItem = TStruct [
     Field ''NRCGI'' ''valueExt'' NRCGI,
     Field ''IEExtensions'' ''optional'' (TPtr ProtocolExtensionContainerCompletedCellsInEAINRItemExtIEs)]"

definition CompletedCellsInEAINR :: gtype where
  "CompletedCellsInEAINR = TStruct [
     Field ''List'' ''valueExt,sizeLB:1,sizeUB:65535'' (TSlice CompletedCellsInEAINRItem)]"

definition EmergencyAreaIDBroadcastNRItemExtIEsExtensionValue :: gtype where
  "EmergencyAreaIDBroadcastNRItemExtIEsExtensionValue = TStruct [Field ''Present'' '''' TInt]"

definition EmergencyAreaIDBroadcastNRItemExtIEs :: gtype where
  "EmergencyAreaIDBroadcastNRItemExtIEs = TStruct [
     Field ''Id'' '''' ProtocolExtensionID,
     Field ''Criticality'' '''' Criticality,
     Field ''ExtensionValue'' ''openType,referenceFieldName:Id'' EmergencyAreaIDBroadcastNRItemExtIEsExtensionValue]"

definition ProtocolExtensionContainerEmergencyAreaIDBroadcastNRItemExtIEs :: gtype where
  "ProtocolExtensionContainerEmergencyAreaIDBroadcastNRItemExtIEs = TStruct [
     Field ''List'' ''sizeLB:1,sizeUB:65535'' (TSlice EmergencyAreaIDBroadcastNRItemExtIEs)]"

definition EmergencyAreaIDBroadcastNRItem :: gtype where
  "EmergencyAreaIDBroadcastNRItem = TStruct [
     Field ''EmergencyAreaID'' '''' EmergencyAreaID,
     Field ''CompletedCellsInEAINR'' '''' CompletedCellsInEAINR,
     Field ''IEExtensions'' ''optional'' (TPtr ProtocolExtensionContainerEmergencyAreaIDBroadcastNRItemExtIEs)]"

definition EmergencyAreaIDBroadcastNR :: gtype where
  "EmergencyAreaIDBroadcastNR = TStruct [
     Field ''List'' ''valueExt,sizeLB:1,sizeUB:65535'' (TSlice EmergencyAreaIDBroadcastNRItem)]"

definition ProtocolIESingleContainerBroadcastCompletedAreaListExtIEs :: gtype where
  "ProtocolIESingleContainerBroadcastCompletedAreaListExtIEs = TStruct []"

definition BroadcastCompletedAreaList :: gtype where
  "BroadcastCompletedAreaList = TStruct [
     Field ''Present'' '''' TInt,
     Field ''CellIDBroadcastEUTRA'' '''' (TPtr CellIDBroadcastEUTRA),
     Field ''TAIBroadcastEUTRA'' '''' (TPtr TAIBroadcastEUTRA),
     Field ''EmergencyAreaIDBroadcastEUTRA'' '''' (TPtr EmergencyAreaIDBroadcastEUTRA),
     Field ''CellIDBroadcastNR'' '''' (TPtr CellIDBroadcastNR),
     Field ''TAIBroadcastNR'' '''' (TPtr TAIBroadcastNR),
     Field ''EmergencyAreaIDBroadcastNR'' '''' (TPtr EmergencyAreaIDBroadcastNR),
     Field ''ChoiceExtensions'' '''' (TPtr ProtocolIESingleContainerBroadcastCompletedAreaListExtIEs)]"

definition WriteReplaceWarningResponseIEsValue :: gtype where
  "WriteReplaceWarningResponseIEsValue = TStruct [
     Field ''Present'' '''' TInt,
     Field ''MessageIdentifier'' ''referenceFieldValue:35'' (TPtr MessageIdentifier),
     Field ''SerialNumber'' ''referenceFieldValue:95'' (TPtr SerialNumber),
     Field ''BroadcastCompletedAreaList'' ''referenceFieldValue:13,valueLB:0,valueUB:6'' (TPtr BroadcastCompletedAreaList),
     Field ''CriticalityDiagnostics'' ''valueExt,referenceFieldValue:19'' (TPtr CriticalityDiagnostics)]"

definition WriteReplaceWarningResponseIEs :: gtype where
  "WriteReplaceWarningResponseIEs = TStruct [
     Field ''Id'' '''' ProtocolIEID,
     Field ''Criticality'' '''' Criticality,
     Field ''Value'' ''openType,referenceFieldName:Id'' WriteReplaceWarningResponseIEsValue]"

definition ProtocolIEContainerWriteReplaceWarningResponseIEs :: gtype where
  "ProtocolIEContainerWriteReplaceWarningResponseIEs = TStruct [
     Field ''List'' ''sizeLB:0,sizeUB:65535'' (TSlice WriteReplaceWarningResponseIEs)]"

definition WriteReplaceWarningResponse :: gtype where
  "WriteReplaceWarningResponse = TStruct [
     Field ''ProtocolIEs'' '''' ProtocolIEContainerWriteReplaceWarningResponseIEs]"

definition SuccessfulOutcomeValue :: gtype where
  "SuccessfulOutcomeValue = TStruct [
     Field ''Present'' '''' TInt,
     Field ''AMFConfigurationUpdateAcknowledge'' ''valueExt,referenceFieldValue:0'' (TPtr AMFConfigurationUpdateAcknowledge),
     Field ''HandoverCancelAcknowledge'' ''valueExt,referenceFieldValue:10'' (TPtr HandoverCancelAcknowledge),
     Field ''HandoverCommand'' ''valueExt,referenceFieldValue:12'' (TPtr HandoverCommand),
     Field ''HandoverRequestAcknowledge'' ''valueExt,referenceFieldValue:13'' (TPtr HandoverRequestAcknowledge),
     Field ''InitialContextSetupResponse'' ''valueExt,referenceFieldValue:14'' (TPtr InitialContextSetupResponse),
     Field ''NGResetAcknowledge'' ''valueExt,referenceFieldValue:20'' (TPtr NGResetAcknowledge),
     Field ''NGSetupResponse'' ''valueExt,referenceFieldValue:21'' (TPtr NGSetupResponse),
     Field ''PathSwitchRequestAcknowledge'' ''valueExt,referenceFieldValue:25'' (TPtr PathSwitchRequestAcknowledge),
     Field ''PDUSessionResourceModifyResponse'' ''valueExt,referenceFieldValue:26'' (TPtr PDUSessionResourceModifyResponse),
     Field ''PDUSessionResourceModifyConfirm'' ''valueExt,referenceFieldValue:27'' (TPtr PDUSessionResourceModifyConfirm),
     Field ''PDUSessionResourceReleaseResponse'' ''valueExt,referenceFieldValue:28'' (TPtr PDUSessionResourceReleaseResponse),
     Field ''PDUSessionResourceSetupResponse'' ''valueExt,referenceFieldValue:29'' (TPtr PDUSessionResourceSetupResponse),
     Field ''PWSCancelResponse'' ''valueExt,referenceFieldValue:32'' (TPtr PWSCancelResponse),
     Field ''RANConfigurationUpdateAcknowledge'' ''valueExt,referenceFieldValue:35'' (TPtr RANConfigurationUpdateAcknowledge),
     Field ''UEContextModificationResponse'' ''valueExt,referenceFieldValue:40'' (TPtr UEContextModificationResponse),
     Field ''UEContextReleaseComplete'' ''valueExt,referenceFieldValue:41'' (TPtr UEContextReleaseComplete),
     Field ''UERadioCapabilityCheckResponse'' ''valueExt,referenceFieldValue:43'' (TPtr UERadioCapabilityCheckResponse),
     Field ''WriteReplaceWarningResponse'' ''valueExt,referenceFieldValue:51'' (TPtr WriteReplaceWarningResponse)]"

definition SuccessfulOutcome :: gtype where
  "SuccessfulOutcome = TStruct [
     Field ''ProcedureCode'' '''' ProcedureCode,
     Field ''Criticality'' '''' Criticality,
     Field ''Value'' ''openType,referenceFieldName:ProcedureCode'' SuccessfulOutcomeValue]"

definition TimeToWait :: gtype where
  "TimeToWait = TStruct [Field ''Value'' ''valueExt,valueLB:0,valueUB:5'' TEnumerated]"

definition AMFConfigurationUpdateFailureIEsValue :: gtype where
  "AMFConfigurationUpdateFailureIEsValue = TStruct [
     Field ''Present'' '''' TInt,
     Field ''Cause'' ''referenceFieldValue:15,valueLB:0,valueUB:5'' (TPtr Cause),
     Field ''TimeToWait'' ''referenceFieldValue:107'' (TPtr TimeToWait),
     Field ''CriticalityDiagnostics'' ''valueExt,referenceFieldValue:19'' (TPtr CriticalityDiagnostics)]"

definition AMFConfigurationUpdateFailureIEs :: gtype where
  "AMFConfigurationUpdateFailureIEs = TStruct [
     Field ''Id'' '''' ProtocolIEID,
     Field ''Criticality'' '''' Criticality,
     Field ''Value'' ''openType,referenceFieldName:Id'' AMFConfigurationUpdateFailureIEsValue]"

definition ProtocolIEContainerAMFConfigurationUpdateFailureIEs :: gtype where
  "ProtocolIEContainerAMFConfigurationUpdateFailureIEs = TStruct [
     Field ''List'' ''sizeLB:0,sizeUB:65535'' (TSlice AMFConfigurationUpdateFailureIEs)]"

definition AMFConfigurationUpdateFailure :: gtype where
  "AMFConfigurationUpdateFailure = TStruct [
     Field ''ProtocolIEs'' '''' ProtocolIEContainerAMFConfigurationUpdateFailureIEs]"

definition HandoverPreparationFailureIEsValue :: gtype where
  "HandoverPreparationFailureIEsValue = TStruct [
     Field ''Present'' '''' TInt,
     Field ''AMFUENGAPID'' ''referenceFieldValue:10'' (TPtr AMFUENGAPID),
     Field ''RANUENGAPID'' ''referenceFieldValue:85'' (TPtr RANUENGAPID),
     Field ''Cause'' ''referenceFieldValue:15,valueLB:0,valueUB:5'' (TPtr Cause),
     Field ''CriticalityDiagnostics'' ''valueExt,referenceFieldValue:19'' (TPtr CriticalityDiagnostics)]"

definition HandoverPreparationFailureIEs :: gtype where
  "HandoverPreparationFailureIEs = TStruct [
     Field ''Id'' '''' ProtocolIEID,
     Field ''Criticality'' '''' Criticality,
     Field ''Value'' ''openType,referenceFieldName:Id'' HandoverPreparationFailureIEsValue]"

definition ProtocolIEContainerHandoverPreparationFailureIEs :: gtype where
  "ProtocolIEContainerHandoverPreparationFailureIEs = TStruct [
     Field ''List'' ''sizeLB:0,sizeUB:65535'' (TSlice HandoverPreparationFailureIEs)]"

definition HandoverPreparationFailure :: gtype where
  "HandoverPreparationFailure = TStruct [
     Field ''ProtocolIEs'' '''' ProtocolIEContainerHandoverPreparationFailureIEs]"

definition HandoverFailureIEsValue :: gtype where
  "HandoverFailureIEsValue = TStruct [
     Field ''Present'' '''' TInt,
     Field ''AMFUENGAPID'' ''referenceFieldValue:10'' (TPtr AMFUENGAPID),
     Field ''Cause'' ''referenceFieldValue:15,valueLB:0,valueUB:5'' (TPtr Cause),
     Field ''CriticalityDiagnostics'' ''valueExt,referenceFieldValue:19'' (TPtr CriticalityDiagnostics)]"

definition HandoverFailureIEs :: gtype where
  "HandoverFailureIEs = TStruct [
     Field ''Id'' '''' ProtocolIEID,
     Field ''Criticality'' '''' Criticality,
     Field ''Value'' ''openType,referenceFieldName:Id'' HandoverFailureIEsValue]"

definition ProtocolIEContainerHandoverFailureIEs :: gtype where
  "ProtocolIEContainerHandoverFailureIEs = TStruct [
     Field ''List'' ''sizeLB:0,sizeUB:65535'' (TSlice HandoverFailureIEs)]"

definition HandoverFailure :: gtype where
  "HandoverFailure = TStruct [Field ''ProtocolIEs'' '''' ProtocolIEContainerHandoverFailureIEs]"

definition PDUSessionResourceFailedToSetupItemCxtFailExtIEsExtensionValue :: gtype where
  "PDUSessionResourceFailedToSetupItemCxtFailExtIEsExtensionValue = TStruct [Field ''Present'' '''' TInt]"

definition PDUSessionResourceFailedToSetupItemCxtFailExtIEs :: gtype where
  "PDUSessionResourceFailedToSetupItemCxtFailExtIEs = TStruct [
     Field ''Id'' '''' ProtocolExtensionID,
     Field ''Criticality'' '''' Criticality,
     Field ''ExtensionValue'' ''openType,referenceFieldName:Id'' PDUSessionResourceFailedToSetupItemCxtFailExtIEsExtensionValue]"

definition ProtocolExtensionContainerPDUSessionResourceFailedToSetupItemCxtFailExtIEs :: gtype where
  "ProtocolExtensionContainerPDUSessionResourceFailedToSetupItemCxtFailExtIEs = TStruct [
     Field ''List'' ''sizeLB:1,sizeUB:65535'' (TSlice PDUSessionResourceFailedToSetupItemCxtFailExtIEs)]"

definition PDUSessionResourceFailedToSetupItemCxtFail :: gtype where
  "PDUSessionResourceFailedToSetupItemCxtFail = TStruct [
     Field ''PDUSessionID'' '''' PDUSessionID,
     Field ''PDUSessionResourceSetupUnsuccessfulTransfer'' '''' TOctetString,
     Field ''IEExtensions'' ''optional'' (TPtr ProtocolExtensionContainerPDUSessionResourceFailedToSetupItemCxtFailExtIEs)]"

definition PDUSessionResourceFailedToSetupListCxtFail :: gtype where
  "PDUSessionResourceFailedToSetupListCxtFail = TStruct [
     Field ''List'' ''valueExt,sizeLB:1,sizeUB:256'' (TSlice PDUSessionResourceFailedToSetupItemCxtFail)]"

definition InitialContextSetupFailureIEsValue :: gtype where
  "InitialContextSetupFailureIEsValue = TStruct [
     Field ''Present'' '''' TInt,
     Field ''AMFUENGAPID'' ''referenceFieldValue:10'' (TPtr AMFUENGAPID),
     Field ''RANUENGAPID'' ''referenceFieldValue:85'' (TPtr RANUENGAPID),
     Field ''PDUSessionResourceFailedToSetupListCxtFail'' ''referenceFieldValue:132'' (TPtr PDUSessionResourceFailedToSetupListCxtFail),
     Field ''Cause'' ''referenceFieldValue:15,valueLB:0,valueUB:5'' (TPtr Cause),
     Field ''CriticalityDiagnostics'' ''valueExt,referenceFieldValue:19'' (TPtr CriticalityDiagnostics)]"

definition InitialContextSetupFailureIEs :: gtype where
  "InitialContextSetupFailureIEs = TStruct [
     Field ''Id'' '''' ProtocolIEID,
     Field ''Criticality'' '''' Criticality,
     Field ''Value'' ''openType,referenceFieldName:Id'' InitialContextSetupFailureIEsValue]"

definition ProtocolIEContainerInitialContextSetupFailureIEs :: gtype where
  "ProtocolIEContainerInitialContextSetupFailureIEs = TStruct [
     Field ''List'' ''sizeLB:0,sizeUB:65535'' (TSlice InitialContextSetupFailureIEs)]"

definition InitialContextSetupFailure :: gtype where
  "InitialContextSetupFailure = TStruct [
     Field ''ProtocolIEs'' '''' ProtocolIEContainerInitialContextSetupFailureIEs]"

definition NGSetupFailureIEsValue :: gtype where
  "NGSetupFailureIEsValue = TStruct [
     Field ''Present'' '''' TInt,
     Field ''Cause'' ''referenceFieldValue:15,valueLB:0,valueUB:5'' (TPtr Cause),
     Field ''TimeToWait'' ''referenceFieldValue:107'' (TPtr TimeToWait),
     Field ''CriticalityDiagnostics'' ''valueExt,referenceFieldValue:19'' (TPtr CriticalityDiagnostics)]"

definition NGSetupFailureIEs :: gtype where
  "NGSetupFailureIEs = TStruct [
     Field ''Id'' '''' ProtocolIEID,
     Field ''Criticality'' '''' Criticality,
     Field ''Value'' ''openType,referenceFieldName:Id'' NGSetupFailureIEsValue]"

definition ProtocolIEContainerNGSetupFailureIEs :: gtype where
  "ProtocolIEContainerNGSetupFailureIEs = TStruct [
     Field ''List'' ''sizeLB:0,sizeUB:65535'' (TSlice NGSetupFailureIEs)]"

definition NGSetupFailure :: gtype where
  "NGSetupFailure = TStruct [Field ''ProtocolIEs'' '''' ProtocolIEContainerNGSetupFailureIEs]"

definition PDUSessionResourceReleasedItemPSFailExtIEsExtensionValue :: gtype where
  "PDUSessionResourceReleasedItemPSFailExtIEsExtensionValue = TStruct [Field ''Present'' '''' TInt]"

definition PDUSessionResourceReleasedItemPSFailExtIEs :: gtype where
  "PDUSessionResourceReleasedItemPSFailExtIEs = TStruct [
     Field ''Id'' '''' ProtocolExtensionID,
     Field ''Criticality'' '''' Criticality,
     Field ''ExtensionValue'' ''openType,referenceFieldName:Id'' PDUSessionResourceReleasedItemPSFailExtIEsExtensionValue]"

definition ProtocolExtensionContainerPDUSessionResourceReleasedItemPSFailExtIEs :: gtype where
  "ProtocolExtensionContainerPDUSessionResourceReleasedItemPSFailExtIEs = TStruct [
     Field ''List'' ''sizeLB:1,sizeUB:65535'' (TSlice PDUSessionResourceReleasedItemPSFailExtIEs)]"

definition PDUSessionResourceReleasedItemPSFail :: gtype where
  "PDUSessionResourceReleasedItemPSFail = TStruct [
     Field ''PDUSessionID'' '''' PDUSessionID,
     Field ''PathSwitchRequestUnsuccessfulTransfer'' '''' TOctetString,
     Field ''IEExtensions'' ''optional'' (TPtr ProtocolExtensionContainerPDUSessionResourceReleasedItemPSFailExtIEs)]"

definition PDUSessionResourceReleasedListPSFail :: gtype where
  "PDUSessionResourceReleasedListPSFail = TStruct [
     Field ''List'' ''valueExt,sizeLB:1,sizeUB:256'' (TSlice PDUSessionResourceReleasedItemPSFail)]"

definition PathSwitchRequestFailureIEsValue :: gtype where
  "PathSwitchRequestFailureIEsValue = TStruct [
     Field ''Present'' '''' TInt,
     Field ''AMFUENGAPID'' ''referenceFieldValue:10'' (TPtr AMFUENGAPID),
     Field ''RANUENGAPID'' ''referenceFieldValue:85'' (TPtr RANUENGAPID),
     Field ''PDUSessionResourceReleasedListPSFail'' ''referenceFieldValue:69'' (TPtr PDUSessionResourceReleasedListPSFail),
     Field ''CriticalityDiagnostics'' ''valueExt,referenceFieldValue:19'' (TPtr CriticalityDiagnostics)]"

definition PathSwitchRequestFailureIEs :: gtype where
  "PathSwitchRequestFailureIEs = TStruct [
     Field ''Id'' '''' ProtocolIEID,
     Field ''Criticality'' '''' Criticality,
     Field ''Value'' ''openType,referenceFieldName:Id'' PathSwitchRequestFailureIEsValue]"

definition ProtocolIEContainerPathSwitchRequestFailureIEs :: gtype where
  "ProtocolIEContainerPathSwitchRequestFailureIEs = TStruct [
     Field ''List'' ''sizeLB:0,sizeUB:65535'' (TSlice PathSwitchRequestFailureIEs)]"

definition PathSwitchRequestFailure :: gtype where
  "PathSwitchRequestFailure = TStruct [
     Field ''ProtocolIEs'' '''' ProtocolIEContainerPathSwitchRequestFailureIEs]"

definition RANConfigurationUpdateFailureIEsValue :: gtype where
  "RANConfigurationUpdateFailureIEsValue = TStruct [
     Field ''Present'' '''' TInt,
     Field ''Cause'' ''referenceFieldValue:15,valueLB:0,valueUB:5'' (TPtr Cause),
     Field ''TimeToWait'' ''referenceFieldValue:107'' (TPtr TimeToWait),
     Field ''CriticalityDiagnostics'' ''valueExt,referenceFieldValue:19'' (TPtr CriticalityDiagnostics)]"

definition RANConfigurationUpdateFailureIEs :: gtype where
  "RANConfigurationUpdateFailureIEs = TStruct [
     Field ''Id'' '''' ProtocolIEID,
     Field ''Criticality'' '''' Criticality,
     Field ''Value'' ''openType,referenceFieldName:Id'' RANConfigurationUpdateFailureIEsValue]"

definition ProtocolIEContainerRANConfigurationUpdateFailureIEs :: gtype where
  "ProtocolIEContainerRANConfigurationUpdateFailureIEs = TStruct [
     Field ''List'' ''sizeLB:0,sizeUB:65535'' (TSlice RANConfigurationUpdateFailureIEs)]"

definition RANConfigurationUpdateFailure :: gtype where
  "RANConfigurationUpdateFailure = TStruct [
     Field ''ProtocolIEs'' '''' ProtocolIEContainerRANConfigurationUpdateFailureIEs]"

definition UEContextModificationFailureIEsValue :: gtype where
  "UEContextModificationFailureIEsValue = TStruct [
     Field ''Present'' '''' TInt,
     Field ''AMFUENGAPID'' ''referenceFieldValue:10'' (TPtr AMFUENGAPID),
     Field ''RANUENGAPID'' ''referenceFieldValue:85'' (TPtr RANUENGAPID),
     Field ''Cause'' ''referenceFieldValue:15,valueLB:0,valueUB:5'' (TPtr Cause),
     Field ''CriticalityDiagnostics'' ''valueExt,referenceFieldValue:19'' (TPtr CriticalityDiagnostics)]"

definition UEContextModificationFailureIEs :: gtype where
  "UEContextModificationFailureIEs = TStruct [
     Field ''Id'' '''' ProtocolIEID,
     Field ''Criticality'' '''' Criticality,
     Field ''Value'' ''openType,referenceFieldName:Id'' UEContextModificationFailureIEsValue]"

definition ProtocolIEContainerUEContextModificationFailureIEs :: gtype where
  "ProtocolIEContainerUEContextModificationFailureIEs = TStruct [
     Field ''List'' ''sizeLB:0,sizeUB:65535'' (TSlice UEContextModificationFailureIEs)]"

definition UEContextModificationFailure :: gtype where
  "UEContextModificationFailure = TStruct [
     Field ''ProtocolIEs'' '''' ProtocolIEContainerUEContextModificationFailureIEs]"

definition UnsuccessfulOutcomeValue :: gtype where
  "UnsuccessfulOutcomeValue = TStruct [
     Field ''Present'' '''' TInt,
     Field ''AMFConfigurationUpdateFailure'' ''valueExt,referenceFieldValue:0'' (TPtr AMFConfigurationUpdateFailure),
     Field ''HandoverPreparationFailure'' ''valueExt,referenceFieldValue:12'' (TPtr HandoverPreparationFailure),
     Field ''HandoverFailure'' ''valueExt,referenceFieldValue:13'' (TPtr HandoverFailure),
     Field ''InitialContextSetupFailure'' ''valueExt,referenceFieldValue:14'' (TPtr InitialContextSetupFailure),
     Field ''NGSetupFailure'' ''valueExt,referenceFieldValue:21'' (TPtr NGSetupFailure),
     Field ''PathSwitchRequestFailure'' ''valueExt,referenceFieldValue:25'' (TPtr PathSwitchRequestFailure),
     Field ''RANConfigurationUpdateFailure'' ''valueExt,referenceFieldValue:35'' (TPtr RANConfigurationUpdateFailure),
     Field ''UEContextModificationFailure'' ''valueExt,referenceFieldValue:40'' (TPtr UEContextModificationFailure)]"

definition UnsuccessfulOutcome :: gtype where
  "UnsuccessfulOutcome = TStruct [
     Field ''ProcedureCode'' '''' ProcedureCode,
     Field ''Criticality'' '''' Criticality,
     Field ''Value'' ''openType,referenceFieldName:ProcedureCode'' UnsuccessfulOutcomeValue]"

definition NGAPPDU :: gtype where
  "NGAPPDU = TStruct [
     Field ''Present'' '''' TInt,
     Field ''InitiatingMessage'' '''' (TPtr InitiatingMessage),
     Field ''SuccessfulOutcome'' '''' (TPtr SuccessfulOutcome),
     Field ''UnsuccessfulOutcome'' '''' (TPtr UnsuccessfulOutcome)]"

end
