(* ===== verification/Ngap_Transfer_Types.thy ===== *)
theory Ngap_Transfer_Types
  imports Ngap_Types
begin

text \<open>
  The structs of \<^verbatim>\<open>lib/ngap/ngapType\<close> that the message types do not reach: those of the transfers and
  containers that are encoded on their own and carried as OCTET STRINGs.
\<close>

definition AdditionalQosFlowInformation :: gtype where
  "AdditionalQosFlowInformation = TStruct [Field ''Value'' ''valueExt,valueLB:0,valueUB:0'' TEnumerated]"

definition PriorityLevelARP :: gtype where
  "PriorityLevelARP = TStruct [Field ''Value'' ''valueLB:1,valueUB:15'' TInt]"

definition PreEmptionCapability :: gtype where
  "PreEmptionCapability = TStruct [Field ''Value'' ''valueExt,valueLB:0,valueUB:1'' TEnumerated]"

definition PreEmptionVulnerability :: gtype where
  "PreEmptionVulnerability = TStruct [Field ''Value'' ''valueExt,valueLB:0,valueUB:1'' TEnumerated]"

definition AllocationAndRetentionPriorityExtIEsExtensionValue :: gtype where
  "AllocationAndRetentionPriorityExtIEsExtensionValue = TStruct [Field ''Present'' '''' TInt]"

definition AllocationAndRetentionPriorityExtIEs :: gtype where
  "AllocationAndRetentionPriorityExtIEs = TStruct [
     Field ''Id'' '''' ProtocolExtensionID,
     Field ''Criticality'' '''' Criticality,
     Field ''ExtensionValue'' ''openType,referenceFieldName:Id'' AllocationAndRetentionPriorityExtIEsExtensionValue]"

definition ProtocolExtensionContainerAllocationAndRetentionPriorityExtIEs :: gtype where
  "ProtocolExtensionContainerAllocationAndRetentionPriorityExtIEs = TStruct [
     Field ''List'' ''sizeLB:1,sizeUB:65535'' (TSlice AllocationAndRetentionPriorityExtIEs)]"

definition AllocationAndRetentionPriority :: gtype where
  "AllocationAndRetentionPriority = TStruct [
     Field ''PriorityLevelARP'' '''' PriorityLevelARP,
     Field ''PreEmptionCapability'' '''' PreEmptionCapability,
     Field ''PreEmptionVulnerability'' '''' PreEmptionVulnerability,
     Field ''IEExtensions'' ''optional'' (TPtr ProtocolExtensionContainerAllocationAndRetentionPriorityExtIEs)]"

definition QosFlowIdentifier :: gtype where
  "QosFlowIdentifier = TStruct [Field ''Value'' ''valueExt,valueLB:0,valueUB:63'' TInt]"

definition AssociatedQosFlowItemExtIEsExtensionValue :: gtype where
  "AssociatedQosFlowItemExtIEsExtensionValue = TStruct [Field ''Present'' '''' TInt]"

definition AssociatedQosFlowItemExtIEs :: gtype where
  "AssociatedQosFlowItemExtIEs = TStruct [
     Field ''Id'' '''' ProtocolExtensionID,
     Field ''Criticality'' '''' Criticality,
     Field ''ExtensionValue'' ''openType,referenceFieldName:Id'' AssociatedQosFlowItemExtIEsExtensionValue]"

definition ProtocolExtensionContainerAssociatedQosFlowItemExtIEs :: gtype where
  "ProtocolExtensionContainerAssociatedQosFlowItemExtIEs = TStruct [
     Field ''List'' ''sizeLB:1,sizeUB:65535'' (TSlice AssociatedQosFlowItemExtIEs)]"

definition AssociatedQosFlowItem :: gtype where
  "AssociatedQosFlowItem = TStruct [
     Field ''QosFlowIdentifier'' '''' QosFlowIdentifier,
     Field ''QosFlowMappingIndication'' ''optional'' (TPtr TEnumerated),
     Field ''IEExtensions'' ''optional'' (TPtr ProtocolExtensionContainerAssociatedQosFlowItemExtIEs)]"

definition AssociatedQosFlowList :: gtype where
  "AssociatedQosFlowList = TStruct [
     Field ''List'' ''valueExt,sizeLB:1,sizeUB:64'' (TSlice AssociatedQosFlowItem)]"

definition AveragingWindow :: gtype where
  "AveragingWindow = TStruct [Field ''Value'' ''valueExt,valueLB:0,valueUB:4095'' TInt]"

definition CellSize :: gtype where
  "CellSize = TStruct [Field ''Value'' ''valueExt,valueLB:0,valueUB:3'' TEnumerated]"

definition CellTypeExtIEsExtensionValue :: gtype where
  "CellTypeExtIEsExtensionValue = TStruct [Field ''Present'' '''' TInt]"

definition CellTypeExtIEs :: gtype where
  "CellTypeExtIEs = TStruct [
     Field ''Id'' '''' ProtocolExtensionID,
     Field ''Criticality'' '''' Criticality,
     Field ''ExtensionValue'' ''openType,referenceFieldName:Id'' CellTypeExtIEsExtensionValue]"

definition ProtocolExtensionContainerCellTypeExtIEs :: gtype where
  "ProtocolExtensionContainerCellTypeExtIEs = TStruct [
     Field ''List'' ''sizeLB:1,sizeUB:65535'' (TSlice CellTypeExtIEs)]"

definition CellType :: gtype where
  "CellType = TStruct [
     Field ''CellSize'' '''' CellSize,
     Field ''IEExtensions'' ''optional'' (TPtr ProtocolExtensionContainerCellTypeExtIEs)]"

definition ConfidentialityProtectionIndication :: gtype where
  "ConfidentialityProtectionIndication = TStruct [
     Field ''Value'' ''valueExt,valueLB:0,valueUB:2'' TEnumerated]"

definition ConfidentialityProtectionResult :: gtype where
  "ConfidentialityProtectionResult = TStruct [Field ''Value'' ''valueExt,valueLB:0,valueUB:1'' TEnumerated]"

definition DLForwarding :: gtype where
  "DLForwarding = TStruct [Field ''Value'' ''valueExt,valueLB:0,valueUB:0'' TEnumerated]"

definition DLNGUTNLInformationReused :: gtype where
  "DLNGUTNLInformationReused = TStruct [Field ''Value'' ''valueExt,valueLB:0,valueUB:0'' TEnumerated]"

definition DRBsToQosFlowsMappingItemExtIEsExtensionValue :: gtype where
  "DRBsToQosFlowsMappingItemExtIEsExtensionValue = TStruct [Field ''Present'' '''' TInt]"

definition DRBsToQosFlowsMappingItemExtIEs :: gtype where
  "DRBsToQosFlowsMappingItemExtIEs = TStruct [
     Field ''Id'' '''' ProtocolExtensionID,
     Field ''Criticality'' '''' Criticality,
     Field ''ExtensionValue'' ''openType,referenceFieldName:Id'' DRBsToQosFlowsMappingItemExtIEsExtensionValue]"

definition ProtocolExtensionContainerDRBsToQosFlowsMappingItemExtIEs :: gtype where
  "ProtocolExtensionContainerDRBsToQosFlowsMappingItemExtIEs = TStruct [
     Field ''List'' ''sizeLB:1,sizeUB:65535'' (TSlice DRBsToQosFlowsMappingItemExtIEs)]"

definition DRBsToQosFlowsMappingItem :: gtype where
  "DRBsToQosFlowsMappingItem = TStruct [
     Field ''DRBID'' '''' DRBID,
     Field ''AssociatedQosFlowList'' '''' AssociatedQosFlowList,
     Field ''IEExtensions'' ''optional'' (TPtr ProtocolExtensionContainerDRBsToQosFlowsMappingItemExtIEs)]"

definition DRBsToQosFlowsMappingList :: gtype where
  "DRBsToQosFlowsMappingList = TStruct [
     Field ''List'' ''valueExt,sizeLB:1,sizeUB:32'' (TSlice DRBsToQosFlowsMappingItem)]"

definition DataForwardingAccepted :: gtype where
  "DataForwardingAccepted = TStruct [Field ''Value'' ''valueExt,valueLB:0,valueUB:0'' TEnumerated]"

definition DataForwardingNotPossible :: gtype where
  "DataForwardingNotPossible = TStruct [Field ''Value'' ''valueExt,valueLB:0,valueUB:0'' TEnumerated]"

definition GTPTEID :: gtype where
  "GTPTEID = TStruct [Field ''Value'' ''sizeLB:4,sizeUB:4'' TOctetString]"

definition GTPTunnelExtIEsExtensionValue :: gtype where
  "GTPTunnelExtIEsExtensionValue = TStruct [Field ''Present'' '''' TInt]"

definition GTPTunnelExtIEs :: gtype where
  "GTPTunnelExtIEs = TStruct [
     Field ''Id'' '''' ProtocolExtensionID,
     Field ''Criticality'' '''' Criticality,
     Field ''ExtensionValue'' ''openType,referenceFieldName:Id'' GTPTunnelExtIEsExtensionValue]"

definition ProtocolExtensionContainerGTPTunnelExtIEs :: gtype where
  "ProtocolExtensionContainerGTPTunnelExtIEs = TStruct [
     Field ''List'' ''sizeLB:1,sizeUB:65535'' (TSlice GTPTunnelExtIEs)]"

definition GTPTunnel :: gtype where
  "GTPTunnel = TStruct [
     Field ''TransportLayerAddress'' '''' TransportLayerAddress,
     Field ''GTPTEID'' '''' GTPTEID,
     Field ''IEExtensions'' ''optional'' (TPtr ProtocolExtensionContainerGTPTunnelExtIEs)]"

definition ProtocolIESingleContainerUPTransportLayerInformationExtIEs :: gtype where
  "ProtocolIESingleContainerUPTransportLayerInformationExtIEs = TStruct []"

definition UPTransportLayerInformation :: gtype where
  "UPTransportLayerInformation = TStruct [
     Field ''Present'' '''' TInt,
     Field ''GTPTunnel'' ''valueExt'' (TPtr GTPTunnel),
     Field ''ChoiceExtensions'' '''' (TPtr ProtocolIESingleContainerUPTransportLayerInformationExtIEs)]"

definition DataForwardingResponseDRBItemExtIEsExtensionValue :: gtype where
  "DataForwardingResponseDRBItemExtIEsExtensionValue = TStruct [Field ''Present'' '''' TInt]"

definition DataForwardingResponseDRBItemExtIEs :: gtype where
  "DataForwardingResponseDRBItemExtIEs = TStruct [
     Field ''Id'' '''' ProtocolExtensionID,
     Field ''Criticality'' '''' Criticality,
     Field ''ExtensionValue'' ''openType,referenceFieldName:Id'' DataForwardingResponseDRBItemExtIEsExtensionValue]"

definition ProtocolExtensionContainerDataForwardingResponseDRBItemExtIEs :: gtype where
  "ProtocolExtensionContainerDataForwardingResponseDRBItemExtIEs = TStruct [
     Field ''List'' ''sizeLB:1,sizeUB:65535'' (TSlice DataForwardingResponseDRBItemExtIEs)]"

definition DataForwardingResponseDRBItem :: gtype where
  "DataForwardingResponseDRBItem = TStruct [
     Field ''DRBID'' '''' DRBID,
     Field ''DLForwardingUPTNLInformation'' ''valueLB:0,valueUB:1,optional'' (TPtr UPTransportLayerInformation),
     Field ''ULForwardingUPTNLInformation'' ''valueLB:0,valueUB:1,optional'' (TPtr UPTransportLayerInformation),
     Field ''IEExtensions'' ''optional'' (TPtr ProtocolExtensionContainerDataForwardingResponseDRBItemExtIEs)]"

definition DataForwardingResponseDRBList :: gtype where
  "DataForwardingResponseDRBList = TStruct [
     Field ''List'' ''valueExt,sizeLB:1,sizeUB:32'' (TSlice DataForwardingResponseDRBItem)]"

definition DelayCritical :: gtype where
  "DelayCritical = TStruct [Field ''Value'' ''valueExt,valueLB:0,valueUB:1'' TEnumerated]"

definition PriorityLevelQos :: gtype where
  "PriorityLevelQos = TStruct [Field ''Value'' ''valueExt,valueLB:1,valueUB:127'' TInt]"

definition PacketDelayBudget :: gtype where
  "PacketDelayBudget = TStruct [Field ''Value'' ''valueExt,valueLB:0,valueUB:1023'' TInt]"

definition PacketErrorRateExtIEsExtensionValue :: gtype where
  "PacketErrorRateExtIEsExtensionValue = TStruct [Field ''Present'' '''' TInt]"

definition PacketErrorRateExtIEs :: gtype where
  "PacketErrorRateExtIEs = TStruct [
     Field ''Id'' '''' ProtocolExtensionID,
     Field ''Criticality'' '''' Criticality,
     Field ''ExtensionValue'' ''openType,referenceFieldName:Id'' PacketErrorRateExtIEsExtensionValue]"

definition ProtocolExtensionContainerPacketErrorRateExtIEs :: gtype where
  "ProtocolExtensionContainerPacketErrorRateExtIEs = TStruct [
     Field ''List'' ''sizeLB:1,sizeUB:65535'' (TSlice PacketErrorRateExtIEs)]"

definition PacketErrorRate :: gtype where
  "PacketErrorRate = TStruct [
     Field ''PERScalar'' ''valueExt,valueLB:0,valueUB:9'' TInt,
     Field ''PERExponent'' ''valueExt,valueLB:0,valueUB:9'' TInt,
     Field ''IEExtensions'' ''optional'' (TPtr ProtocolExtensionContainerPacketErrorRateExtIEs)]"

definition FiveQI :: gtype where
  "FiveQI = TStruct [Field ''Value'' ''valueExt,valueLB:0,valueUB:255'' TInt]"

definition MaximumDataBurstVolume :: gtype where
  "MaximumDataBurstVolume = TStruct [Field ''Value'' ''valueExt,valueLB:0,valueUB:4095'' TInt]"

definition Dynamic5QIDescriptorExtIEsExtensionValue :: gtype where
  "Dynamic5QIDescriptorExtIEsExtensionValue = TStruct [Field ''Present'' '''' TInt]"

definition Dynamic5QIDescriptorExtIEs :: gtype where
  "Dynamic5QIDescriptorExtIEs = TStruct [
     Field ''Id'' '''' ProtocolExtensionID,
     Field ''Criticality'' '''' Criticality,
     Field ''ExtensionValue'' ''openType,referenceFieldName:Id'' Dynamic5QIDescriptorExtIEsExtensionValue]"

definition ProtocolExtensionContainerDynamic5QIDescriptorExtIEs :: gtype where
  "ProtocolExtensionContainerDynamic5QIDescriptorExtIEs = TStruct [
     Field ''List'' ''sizeLB:1,sizeUB:65535'' (TSlice Dynamic5QIDescriptorExtIEs)]"

definition Dynamic5QIDescriptor :: gtype where
  "Dynamic5QIDescriptor = TStruct [
     Field ''PriorityLevelQos'' '''' PriorityLevelQos,
     Field ''PacketDelayBudget'' '''' PacketDelayBudget,
     Field ''PacketErrorRate'' ''valueExt'' PacketErrorRate,
     Field ''FiveQI'' ''optional'' (TPtr FiveQI),
     Field ''DelayCritical'' ''optional'' (TPtr DelayCritical),
     Field ''AveragingWindow'' ''optional'' (TPtr AveragingWindow),
     Field ''MaximumDataBurstVolume'' ''optional'' (TPtr MaximumDataBurstVolume),
     Field ''IEExtensions'' ''optional'' (TPtr ProtocolExtensionContainerDynamic5QIDescriptorExtIEs)]"

definition ERABID :: gtype where
  "ERABID = TStruct [Field ''Value'' ''valueExt,valueLB:0,valueUB:15'' TInt]"

definition ERABInformationItemExtIEsExtensionValue :: gtype where
  "ERABInformationItemExtIEsExtensionValue = TStruct [Field ''Present'' '''' TInt]"

definition ERABInformationItemExtIEs :: gtype where
  "ERABInformationItemExtIEs = TStruct [
     Field ''Id'' '''' ProtocolExtensionID,
     Field ''Criticality'' '''' Criticality,
     Field ''ExtensionValue'' ''openType,referenceFieldName:Id'' ERABInformationItemExtIEsExtensionValue]"

definition ProtocolExtensionContainerERABInformationItemExtIEs :: gtype where
  "ProtocolExtensionContainerERABInformationItemExtIEs = TStruct [
     Field ''List'' ''sizeLB:1,sizeUB:65535'' (TSlice ERABInformationItemExtIEs)]"

definition ERABInformationItem :: gtype where
  "ERABInformationItem = TStruct [
     Field ''ERABID'' '''' ERABID,
     Field ''DLForwarding'' ''optional'' (TPtr DLForwarding),
     Field ''IEExtensions'' ''optional'' (TPtr ProtocolExtensionContainerERABInformationItemExtIEs)]"

definition ERABInformationList :: gtype where
  "ERABInformationList = TStruct [
     Field ''List'' ''valueExt,sizeLB:1,sizeUB:256'' (TSlice ERABInformationItem)]"

definition NotificationControl :: gtype where
  "NotificationControl = TStruct [Field ''Value'' ''valueExt,valueLB:0,valueUB:0'' TEnumerated]"

definition PacketLossRate :: gtype where
  "PacketLossRate = TStruct [Field ''Value'' ''valueExt,valueLB:0,valueUB:1000'' TInt]"

definition GBRQosInformationExtIEsExtensionValue :: gtype where
  "GBRQosInformationExtIEsExtensionValue = TStruct [Field ''Present'' '''' TInt]"

definition GBRQosInformationExtIEs :: gtype where
  "GBRQosInformationExtIEs = TStruct [
     Field ''Id'' '''' ProtocolExtensionID,
     Field ''Criticality'' '''' Criticality,
     Field ''ExtensionValue'' ''openType,referenceFieldName:Id'' GBRQosInformationExtIEsExtensionValue]"

definition ProtocolExtensionContainerGBRQosInformationExtIEs :: gtype where
  "ProtocolExtensionContainerGBRQosInformationExtIEs = TStruct [
     Field ''List'' ''sizeLB:1,sizeUB:65535'' (TSlice GBRQosInformationExtIEs)]"

definition GBRQosInformation :: gtype where
  "GBRQosInformation = TStruct [
     Field ''MaximumFlowBitRateDL'' '''' BitRate,
     Field ''MaximumFlowBitRateUL'' '''' BitRate,
     Field ''GuaranteedFlowBitRateDL'' '''' BitRate,
     Field ''GuaranteedFlowBitRateUL'' '''' BitRate,
     Field ''NotificationControl'' ''optional'' (TPtr NotificationControl),
     Field ''MaximumPacketLossRateDL'' ''optional'' (TPtr PacketLossRate),
     Field ''MaximumPacketLossRateUL'' ''optional'' (TPtr PacketLossRate),
     Field ''IEExtensions'' ''optional'' (TPtr ProtocolExtensionContainerGBRQosInformationExtIEs)]"

definition QosFlowToBeForwardedItemExtIEsExtensionValue :: gtype where
  "QosFlowToBeForwardedItemExtIEsExtensionValue = TStruct [Field ''Present'' '''' TInt]"

definition QosFlowToBeForwardedItemExtIEs :: gtype where
  "QosFlowToBeForwardedItemExtIEs = TStruct [
     Field ''Id'' '''' ProtocolExtensionID,
     Field ''Criticality'' '''' Criticality,
     Field ''ExtensionValue'' ''openType,referenceFieldName:Id'' QosFlowToBeForwardedItemExtIEsExtensionValue]"

definition ProtocolExtensionContainerQosFlowToBeForwardedItemExtIEs :: gtype where
  "ProtocolExtensionContainerQosFlowToBeForwardedItemExtIEs = TStruct [
     Field ''List'' ''sizeLB:1,sizeUB:65535'' (TSlice QosFlowToBeForwardedItemExtIEs)]"

definition QosFlowToBeForwardedItem :: gtype where
  "QosFlowToBeForwardedItem = TStruct [
     Field ''QosFlowIdentifier'' '''' QosFlowIdentifier,
     Field ''IEExtensions'' ''optional'' (TPtr ProtocolExtensionContainerQosFlowToBeForwardedItemExtIEs)]"

definition QosFlowToBeForwardedList :: gtype where
  "QosFlowToBeForwardedList = TStruct [
     Field ''List'' ''valueExt,sizeLB:1,sizeUB:64'' (TSlice QosFlowToBeForwardedItem)]"

definition HandoverCommandTransferExtIEsExtensionValue :: gtype where
  "HandoverCommandTransferExtIEsExtensionValue = TStruct [Field ''Present'' '''' TInt]"

definition HandoverCommandTransferExtIEs :: gtype where
  "HandoverCommandTransferExtIEs = TStruct [
     Field ''Id'' '''' ProtocolExtensionID,
     Field ''Criticality'' '''' Criticality,
     Field ''ExtensionValue'' ''openType,referenceFieldName:Id'' HandoverCommandTransferExtIEsExtensionValue]"

definition ProtocolExtensionContainerHandoverCommandTransferExtIEs :: gtype where
  "ProtocolExtensionContainerHandoverCommandTransferExtIEs = TStruct [
     Field ''List'' ''sizeLB:1,sizeUB:65535'' (TSlice HandoverCommandTransferExtIEs)]"

definition HandoverCommandTransfer :: gtype where
  "HandoverCommandTransfer = TStruct [
     Field ''DLForwardingUPTNLInformation'' ''valueLB:0,valueUB:1,optional'' (TPtr UPTransportLayerInformation),
     Field ''QosFlowToBeForwardedList'' ''optional'' (TPtr QosFlowToBeForwardedList),
     Field ''DataForwardingResponseDRBList'' ''optional'' (TPtr DataForwardingResponseDRBList),
     Field ''IEExtensions'' ''optional'' (TPtr ProtocolExtensionContainerHandoverCommandTransferExtIEs)]"

definition HandoverPreparationUnsuccessfulTransferExtIEsExtensionValue :: gtype where
  "HandoverPreparationUnsuccessfulTransferExtIEsExtensionValue = TStruct [Field ''Present'' '''' TInt]"

definition HandoverPreparationUnsuccessfulTransferExtIEs :: gtype where
  "HandoverPreparationUnsuccessfulTransferExtIEs = TStruct [
     Field ''Id'' '''' ProtocolExtensionID,
     Field ''Criticality'' '''' Criticality,
     Field ''ExtensionValue'' ''openType,referenceFieldName:Id'' HandoverPreparationUnsuccessfulTransferExtIEsExtensionValue]"

definition ProtocolExtensionContainerHandoverPreparationUnsuccessfulTransferExtIEs :: gtype where
  "ProtocolExtensionContainerHandoverPreparationUnsuccessfulTransferExtIEs = TStruct [
     Field ''List'' ''sizeLB:1,sizeUB:65535'' (TSlice HandoverPreparationUnsuccessfulTransferExtIEs)]"

definition HandoverPreparationUnsuccessfulTransfer :: gtype where
  "HandoverPreparationUnsuccessfulTransfer = TStruct [
     Field ''Cause'' ''valueLB:0,valueUB:5'' Cause,
     Field ''IEExtensions'' ''optional'' (TPtr ProtocolExtensionContainerHandoverPreparationUnsuccessfulTransferExtIEs)]"

definition IntegrityProtectionResult :: gtype where
  "IntegrityProtectionResult = TStruct [Field ''Value'' ''valueExt,valueLB:0,valueUB:1'' TEnumerated]"

definition SecurityResultExtIEsExtensionValue :: gtype where
  "SecurityResultExtIEsExtensionValue = TStruct [Field ''Present'' '''' TInt]"

definition SecurityResultExtIEs :: gtype where
  "SecurityResultExtIEs = TStruct [
     Field ''Id'' '''' ProtocolExtensionID,
     Field ''Criticality'' '''' Criticality,
     Field ''ExtensionValue'' ''openType,referenceFieldName:Id'' SecurityResultExtIEsExtensionValue]"

definition ProtocolExtensionContainerSecurityResultExtIEs :: gtype where
  "ProtocolExtensionContainerSecurityResultExtIEs = TStruct [
     Field ''List'' ''sizeLB:1,sizeUB:65535'' (TSlice SecurityResultExtIEs)]"

definition SecurityResult :: gtype where
  "SecurityResult = TStruct [
     Field ''IntegrityProtectionResult'' '''' IntegrityProtectionResult,
     Field ''ConfidentialityProtectionResult'' '''' ConfidentialityProtectionResult,
     Field ''IEExtensions'' ''optional'' (TPtr ProtocolExtensionContainerSecurityResultExtIEs)]"

definition QosFlowSetupResponseItemHOReqAckExtIEsExtensionValue :: gtype where
  "QosFlowSetupResponseItemHOReqAckExtIEsExtensionValue = TStruct [Field ''Present'' '''' TInt]"

definition QosFlowSetupResponseItemHOReqAckExtIEs :: gtype where
  "QosFlowSetupResponseItemHOReqAckExtIEs = TStruct [
     Field ''Id'' '''' ProtocolExtensionID,
     Field ''Criticality'' '''' Criticality,
     Field ''ExtensionValue'' ''openType,referenceFieldName:Id'' QosFlowSetupResponseItemHOReqAckExtIEsExtensionValue]"

definition ProtocolExtensionContainerQosFlowSetupResponseItemHOReqAckExtIEs :: gtype where
  "ProtocolExtensionContainerQosFlowSetupResponseItemHOReqAckExtIEs = TStruct [
     Field ''List'' ''sizeLB:1,sizeUB:65535'' (TSlice QosFlowSetupResponseItemHOReqAckExtIEs)]"

definition QosFlowSetupResponseItemHOReqAck :: gtype where
  "QosFlowSetupResponseItemHOReqAck = TStruct [
     Field ''QosFlowIdentifier'' '''' QosFlowIdentifier,
     Field ''DataForwardingAccepted'' ''optional'' (TPtr DataForwardingAccepted),
     Field ''IEExtensions'' ''optional'' (TPtr ProtocolExtensionContainerQosFlowSetupResponseItemHOReqAckExtIEs)]"

definition QosFlowSetupResponseListHOReqAck :: gtype where
  "QosFlowSetupResponseListHOReqAck = TStruct [
     Field ''List'' ''valueExt,sizeLB:1,sizeUB:64'' (TSlice QosFlowSetupResponseItemHOReqAck)]"

definition QosFlowItemExtIEsExtensionValue :: gtype where
  "QosFlowItemExtIEsExtensionValue = TStruct [Field ''Present'' '''' TInt]"

definition QosFlowItemExtIEs :: gtype where
  "QosFlowItemExtIEs = TStruct [
     Field ''Id'' '''' ProtocolExtensionID,
     Field ''Criticality'' '''' Criticality,
     Field ''ExtensionValue'' ''openType,referenceFieldName:Id'' QosFlowItemExtIEsExtensionValue]"

definition ProtocolExtensionContainerQosFlowItemExtIEs :: gtype where
  "ProtocolExtensionContainerQosFlowItemExtIEs = TStruct [
     Field ''List'' ''sizeLB:1,sizeUB:65535'' (TSlice QosFlowItemExtIEs)]"

definition QosFlowItem :: gtype where
  "QosFlowItem = TStruct [
     Field ''QosFlowIdentifier'' '''' QosFlowIdentifier,
     Field ''Cause'' ''valueLB:0,valueUB:5'' Cause,
     Field ''IEExtensions'' ''optional'' (TPtr ProtocolExtensionContainerQosFlowItemExtIEs)]"

definition QosFlowList :: gtype where
  "QosFlowList = TStruct [Field ''List'' ''valueExt,sizeLB:1,sizeUB:64'' (TSlice QosFlowItem)]"

definition HandoverRequestAcknowledgeTransferExtIEsExtensionValue :: gtype where
  "HandoverRequestAcknowledgeTransferExtIEsExtensionValue = TStruct [Field ''Present'' '''' TInt]"

definition HandoverRequestAcknowledgeTransferExtIEs :: gtype where
  "HandoverRequestAcknowledgeTransferExtIEs = TStruct [
     Field ''Id'' '''' ProtocolExtensionID,
     Field ''Criticality'' '''' Criticality,
     Field ''ExtensionValue'' ''openType,referenceFieldName:Id'' HandoverRequestAcknowledgeTransferExtIEsExtensionValue]"

definition ProtocolExtensionContainerHandoverRequestAcknowledgeTransferExtIEs :: gtype where
  "ProtocolExtensionContainerHandoverRequestAcknowledgeTransferExtIEs = TStruct [
     Field ''List'' ''sizeLB:1,sizeUB:65535'' (TSlice HandoverRequestAcknowledgeTransferExtIEs)]"

definition HandoverRequestAcknowledgeTransfer :: gtype where
  "HandoverRequestAcknowledgeTransfer = TStruct [
     Field ''DLNGUUPTNLInformation'' ''valueLB:0,valueUB:1'' UPTransportLayerInformation,
     Field ''DLForwardingUPTNLInformation'' ''valueLB:0,valueUB:1,optional'' (TPtr UPTransportLayerInformation),
     Field ''SecurityResult'' ''valueExt,optional'' (TPtr SecurityResult),
     Field ''QosFlowSetupResponseList'' '''' QosFlowSetupResponseListHOReqAck,
     Field ''QosFlowFailedToSetupList'' ''optional'' (TPtr QosFlowList),
     Field ''DataForwardingResponseDRBList'' ''optional'' (TPtr DataForwardingResponseDRBList),
     Field ''IEExtensions'' ''optional'' (TPtr ProtocolExtensionContainerHandoverRequestAcknowledgeTransferExtIEs)]"

definition HandoverRequiredTransferExtIEsExtensionValue :: gtype where
  "HandoverRequiredTransferExtIEsExtensionValue = TStruct [Field ''Present'' '''' TInt]"

definition HandoverRequiredTransferExtIEs :: gtype where
  "HandoverRequiredTransferExtIEs = TStruct [
     Field ''Id'' '''' ProtocolExtensionID,
     Field ''Criticality'' '''' Criticality,
     Field ''ExtensionValue'' ''openType,referenceFieldName:Id'' HandoverRequiredTransferExtIEsExtensionValue]"

definition ProtocolExtensionContainerHandoverRequiredTransferExtIEs :: gtype where
  "ProtocolExtensionContainerHandoverRequiredTransferExtIEs = TStruct [
     Field ''List'' ''sizeLB:1,sizeUB:65535'' (TSlice HandoverRequiredTransferExtIEs)]"

definition HandoverRequiredTransfer :: gtype where
  "HandoverRequiredTransfer = TStruct [
     Field ''DirectForwardingPathAvailability'' ''optional'' (TPtr DirectForwardingPathAvailability),
     Field ''IEExtensions'' ''optional'' (TPtr ProtocolExtensionContainerHandoverRequiredTransferExtIEs)]"

definition HandoverResourceAllocationUnsuccessfulTransferExtIEsExtensionValue :: gtype where
  "HandoverResourceAllocationUnsuccessfulTransferExtIEsExtensionValue = TStruct [Field ''Present'' '''' TInt]"

definition HandoverResourceAllocationUnsuccessfulTransferExtIEs :: gtype where
  "HandoverResourceAllocationUnsuccessfulTransferExtIEs = TStruct [
     Field ''Id'' '''' ProtocolExtensionID,
     Field ''Criticality'' '''' Criticality,
     Field ''ExtensionValue'' ''openType,referenceFieldName:Id'' HandoverResourceAllocationUnsuccessfulTransferExtIEsExtensionValue]"

definition ProtocolExtensionContainerHandoverResourceAllocationUnsuccessfulTransferExtIEs :: gtype where
  "ProtocolExtensionContainerHandoverResourceAllocationUnsuccessfulTransferExtIEs = TStruct [
     Field ''List'' ''sizeLB:1,sizeUB:65535'' (TSlice HandoverResourceAllocationUnsuccessfulTransferExtIEs)]"

definition HandoverResourceAllocationUnsuccessfulTransfer :: gtype where
  "HandoverResourceAllocationUnsuccessfulTransfer = TStruct [
     Field ''Cause'' ''valueLB:0,valueUB:5'' Cause,
     Field ''CriticalityDiagnostics'' ''valueExt,optional'' (TPtr CriticalityDiagnostics),
     Field ''IEExtensions'' ''optional'' (TPtr ProtocolExtensionContainerHandoverResourceAllocationUnsuccessfulTransferExtIEs)]"

definition IntegrityProtectionIndication :: gtype where
  "IntegrityProtectionIndication = TStruct [Field ''Value'' ''valueExt,valueLB:0,valueUB:2'' TEnumerated]"

definition TimeUEStayedInCell :: gtype where
  "TimeUEStayedInCell = TStruct [Field ''Value'' ''valueLB:0,valueUB:4095'' TInt]"

definition TimeUEStayedInCellEnhancedGranularity :: gtype where
  "TimeUEStayedInCellEnhancedGranularity = TStruct [Field ''Value'' ''valueLB:0,valueUB:40950'' TInt]"

definition LastVisitedNGRANCellInformationExtIEsExtensionValue :: gtype where
  "LastVisitedNGRANCellInformationExtIEsExtensionValue = TStruct [Field ''Present'' '''' TInt]"

definition LastVisitedNGRANCellInformationExtIEs :: gtype where
  "LastVisitedNGRANCellInformationExtIEs = TStruct [
     Field ''Id'' '''' ProtocolExtensionID,
     Field ''Criticality'' '''' Criticality,
     Field ''ExtensionValue'' ''openType,referenceFieldName:Id'' LastVisitedNGRANCellInformationExtIEsExtensionValue]"

definition ProtocolExtensionContainerLastVisitedNGRANCellInformationExtIEs :: gtype where
  "ProtocolExtensionContainerLastVisitedNGRANCellInformationExtIEs = TStruct [
     Field ''List'' ''sizeLB:1,sizeUB:65535'' (TSlice LastVisitedNGRANCellInformationExtIEs)]"

definition LastVisitedNGRANCellInformation :: gtype where
  "LastVisitedNGRANCellInformation = TStruct [
     Field ''GlobalCellID'' ''valueLB:0,valueUB:2'' NGRANCGI,
     Field ''CellType'' ''valueExt'' CellType,
     Field ''TimeUEStayedInCell'' '''' TimeUEStayedInCell,
     Field ''TimeUEStayedInCellEnhancedGranularity'' ''optional'' (TPtr TimeUEStayedInCellEnhancedGranularity),
     Field ''HOCauseValue'' ''valueLB:0,valueUB:5,optional'' (TPtr Cause),
     Field ''IEExtensions'' ''optional'' (TPtr ProtocolExtensionContainerLastVisitedNGRANCellInformationExtIEs)]"

definition LastVisitedEUTRANCellInformation :: gtype where
  "LastVisitedEUTRANCellInformation = TStruct [Field ''Value'' '''' TOctetString]"

definition LastVisitedUTRANCellInformation :: gtype where
  "LastVisitedUTRANCellInformation = TStruct [Field ''Value'' '''' TOctetString]"

definition LastVisitedGERANCellInformation :: gtype where
  "LastVisitedGERANCellInformation = TStruct [Field ''Value'' '''' TOctetString]"

definition ProtocolIESingleContainerLastVisitedCellInformationExtIEs :: gtype where
  "ProtocolIESingleContainerLastVisitedCellInformationExtIEs = TStruct []"

definition LastVisitedCellInformation :: gtype where
  "LastVisitedCellInformation = TStruct [
     Field ''Present'' '''' TInt,
     Field ''NGRANCell'' ''valueExt'' (TPtr LastVisitedNGRANCellInformation),
     Field ''EUTRANCell'' '''' (TPtr LastVisitedEUTRANCellInformation),
     Field ''UTRANCell'' '''' (TPtr LastVisitedUTRANCellInformation),
     Field ''GERANCell'' '''' (TPtr LastVisitedGERANCellInformation),
     Field ''ChoiceExtensions'' '''' (TPtr ProtocolIESingleContainerLastVisitedCellInformationExtIEs)]"

definition LastVisitedCellItemExtIEsExtensionValue :: gtype where
  "LastVisitedCellItemExtIEsExtensionValue = TStruct [Field ''Present'' '''' TInt]"

definition LastVisitedCellItemExtIEs :: gtype where
  "LastVisitedCellItemExtIEs = TStruct [
     Field ''Id'' '''' ProtocolExtensionID,
     Field ''Criticality'' '''' Criticality,
     Field ''ExtensionValue'' ''openType,referenceFieldName:Id'' LastVisitedCellItemExtIEsExtensionValue]"

definition ProtocolExtensionContainerLastVisitedCellItemExtIEs :: gtype where
  "ProtocolExtensionContainerLastVisitedCellItemExtIEs = TStruct [
     Field ''List'' ''sizeLB:1,sizeUB:65535'' (TSlice LastVisitedCellItemExtIEs)]"

definition LastVisitedCellItem :: gtype where
  "LastVisitedCellItem = TStruct [
     Field ''LastVisitedCellInformation'' ''valueLB:0,valueUB:4'' LastVisitedCellInformation,
     Field ''IEExtensions'' ''optional'' (TPtr ProtocolExtensionContainerLastVisitedCellItemExtIEs)]"

definition MaximumIntegrityProtectedDataRate :: gtype where
  "MaximumIntegrityProtectedDataRate = TStruct [Field ''Value'' ''valueExt,valueLB:0,valueUB:1'' TEnumerated]"

definition QosFlowPerTNLInformationExtIEsExtensionValue :: gtype where
  "QosFlowPerTNLInformationExtIEsExtensionValue = TStruct [Field ''Present'' '''' TInt]"

definition QosFlowPerTNLInformationExtIEs :: gtype where
  "QosFlowPerTNLInformationExtIEs = TStruct [
     Field ''Id'' '''' ProtocolExtensionID,
     Field ''Criticality'' '''' Criticality,
     Field ''ExtensionValue'' ''openType,referenceFieldName:Id'' QosFlowPerTNLInformationExtIEsExtensionValue]"

definition ProtocolExtensionContainerQosFlowPerTNLInformationExtIEs :: gtype where
  "ProtocolExtensionContainerQosFlowPerTNLInformationExtIEs = TStruct [
     Field ''List'' ''sizeLB:1,sizeUB:65535'' (TSlice QosFlowPerTNLInformationExtIEs)]"

definition QosFlowPerTNLInformation :: gtype where
  "QosFlowPerTNLInformation = TStruct [
     Field ''UPTransportLayerInformation'' ''valueLB:0,valueUB:1'' UPTransportLayerInformation,
     Field ''AssociatedQosFlowList'' '''' AssociatedQosFlowList,
     Field ''IEExtensions'' ''optional'' (TPtr ProtocolExtensionContainerQosFlowPerTNLInformationExtIEs)]"

definition TNLInformationItemExtIEsExtensionValue :: gtype where
  "TNLInformationItemExtIEsExtensionValue = TStruct [Field ''Present'' '''' TInt]"

definition TNLInformationItemExtIEs :: gtype where
  "TNLInformationItemExtIEs = TStruct [
     Field ''Id'' '''' ProtocolExtensionID,
     Field ''Criticality'' '''' Criticality,
     Field ''ExtensionValue'' ''openType,referenceFieldName:Id'' TNLInformationItemExtIEsExtensionValue]"

definition ProtocolExtensionContainerTNLInformationItemExtIEs :: gtype where
  "ProtocolExtensionContainerTNLInformationItemExtIEs = TStruct [
     Field ''List'' ''sizeLB:1,sizeUB:65535'' (TSlice TNLInformationItemExtIEs)]"

definition TNLInformationItem :: gtype where
  "TNLInformationItem = TStruct [
     Field ''QosFlowPerTNLInformation'' ''valueExt'' QosFlowPerTNLInformation,
     Field ''IEExtensions'' ''optional'' (TPtr ProtocolExtensionContainerTNLInformationItemExtIEs)]"

definition TNLInformationList :: gtype where
  "TNLInformationList = TStruct [Field ''List'' ''valueExt,sizeLB:1,sizeUB:4'' (TSlice TNLInformationItem)]"

definition MultipleTNLInformationExtIEsExtensionValue :: gtype where
  "MultipleTNLInformationExtIEsExtensionValue = TStruct [Field ''Present'' '''' TInt]"

definition MultipleTNLInformationExtIEs :: gtype where
  "MultipleTNLInformationExtIEs = TStruct [
     Field ''Id'' '''' ProtocolExtensionID,
     Field ''Criticality'' '''' Criticality,
     Field ''ExtensionValue'' ''openType,referenceFieldName:Id'' MultipleTNLInformationExtIEsExtensionValue]"

definition ProtocolExtensionContainerMultipleTNLInformationExtIEs :: gtype where
  "ProtocolExtensionContainerMultipleTNLInformationExtIEs = TStruct [
     Field ''List'' ''sizeLB:1,sizeUB:65535'' (TSlice MultipleTNLInformationExtIEs)]"

definition MultipleTNLInformation :: gtype where
  "MultipleTNLInformation = TStruct [
     Field ''TNLInformationList'' '''' TNLInformationList,
     Field ''IEExtensions'' ''optional'' (TPtr ProtocolExtensionContainerMultipleTNLInformationExtIEs)]"

definition NetworkInstance :: gtype where
  "NetworkInstance = TStruct [Field ''Value'' ''valueExt,valueLB:1,valueUB:256'' TInt]"

definition NonDynamic5QIDescriptorExtIEsExtensionValue :: gtype where
  "NonDynamic5QIDescriptorExtIEsExtensionValue = TStruct [Field ''Present'' '''' TInt]"

definition NonDynamic5QIDescriptorExtIEs :: gtype where
  "NonDynamic5QIDescriptorExtIEs = TStruct [
     Field ''Id'' '''' ProtocolExtensionID,
     Field ''Criticality'' '''' Criticality,
     Field ''ExtensionValue'' ''openType,referenceFieldName:Id'' NonDynamic5QIDescriptorExtIEsExtensionValue]"

definition ProtocolExtensionContainerNonDynamic5QIDescriptorExtIEs :: gtype where
  "ProtocolExtensionContainerNonDynamic5QIDescriptorExtIEs = TStruct [
     Field ''List'' ''sizeLB:1,sizeUB:65535'' (TSlice NonDynamic5QIDescriptorExtIEs)]"

definition NonDynamic5QIDescriptor :: gtype where
  "NonDynamic5QIDescriptor = TStruct [
     Field ''FiveQI'' '''' FiveQI,
     Field ''PriorityLevelQos'' ''optional'' (TPtr PriorityLevelQos),
     Field ''AveragingWindow'' ''optional'' (TPtr AveragingWindow),
     Field ''MaximumDataBurstVolume'' ''optional'' (TPtr MaximumDataBurstVolume),
     Field ''IEExtensions'' ''optional'' (TPtr ProtocolExtensionContainerNonDynamic5QIDescriptorExtIEs)]"

definition NotificationCause :: gtype where
  "NotificationCause = TStruct [Field ''Value'' ''valueExt,valueLB:0,valueUB:1'' TEnumerated]"

definition PDUSessionAggregateMaximumBitRateExtIEsExtensionValue :: gtype where
  "PDUSessionAggregateMaximumBitRateExtIEsExtensionValue = TStruct [Field ''Present'' '''' TInt]"

definition PDUSessionAggregateMaximumBitRateExtIEs :: gtype where
  "PDUSessionAggregateMaximumBitRateExtIEs = TStruct [
     Field ''Id'' '''' ProtocolExtensionID,
     Field ''Criticality'' '''' Criticality,
     Field ''ExtensionValue'' ''openType,referenceFieldName:Id'' PDUSessionAggregateMaximumBitRateExtIEsExtensionValue]"

definition ProtocolExtensionContainerPDUSessionAggregateMaximumBitRateExtIEs :: gtype where
  "ProtocolExtensionContainerPDUSessionAggregateMaximumBitRateExtIEs = TStruct [
     Field ''List'' ''sizeLB:1,sizeUB:65535'' (TSlice PDUSessionAggregateMaximumBitRateExtIEs)]"

definition PDUSessionAggregateMaximumBitRate :: gtype where
  "PDUSessionAggregateMaximumBitRate = TStruct [
     Field ''PDUSessionAggregateMaximumBitRateDL'' '''' BitRate,
     Field ''PDUSessionAggregateMaximumBitRateUL'' '''' BitRate,
     Field ''IEExtensions'' ''optional'' (TPtr ProtocolExtensionContainerPDUSessionAggregateMaximumBitRateExtIEs)]"

definition QosFlowInformationItemExtIEsExtensionValue :: gtype where
  "QosFlowInformationItemExtIEsExtensionValue = TStruct [Field ''Present'' '''' TInt]"

definition QosFlowInformationItemExtIEs :: gtype where
  "QosFlowInformationItemExtIEs = TStruct [
     Field ''Id'' '''' ProtocolExtensionID,
     Field ''Criticality'' '''' Criticality,
     Field ''ExtensionValue'' ''openType,referenceFieldName:Id'' QosFlowInformationItemExtIEsExtensionValue]"

definition ProtocolExtensionContainerQosFlowInformationItemExtIEs :: gtype where
  "ProtocolExtensionContainerQosFlowInformationItemExtIEs = TStruct [
     Field ''List'' ''sizeLB:1,sizeUB:65535'' (TSlice QosFlowInformationItemExtIEs)]"

definition QosFlowInformationItem :: gtype where
  "QosFlowInformationItem = TStruct [
     Field ''QosFlowIdentifier'' '''' QosFlowIdentifier,
     Field ''DLForwarding'' ''optional'' (TPtr DLForwarding),
     Field ''IEExtensions'' ''optional'' (TPtr ProtocolExtensionContainerQosFlowInformationItemExtIEs)]"

definition QosFlowInformationList :: gtype where
  "QosFlowInformationList = TStruct [
     Field ''List'' ''valueExt,sizeLB:1,sizeUB:64'' (TSlice QosFlowInformationItem)]"

definition PDUSessionResourceInformationItemExtIEsExtensionValue :: gtype where
  "PDUSessionResourceInformationItemExtIEsExtensionValue = TStruct [Field ''Present'' '''' TInt]"

definition PDUSessionResourceInformationItemExtIEs :: gtype where
  "PDUSessionResourceInformationItemExtIEs = TStruct [
     Field ''Id'' '''' ProtocolExtensionID,
     Field ''Criticality'' '''' Criticality,
     Field ''ExtensionValue'' ''openType,referenceFieldName:Id'' PDUSessionResourceInformationItemExtIEsExtensionValue]"

definition ProtocolExtensionContainerPDUSessionResourceInformationItemExtIEs :: gtype where
  "ProtocolExtensionContainerPDUSessionResourceInformationItemExtIEs = TStruct [
     Field ''List'' ''sizeLB:1,sizeUB:65535'' (TSlice PDUSessionResourceInformationItemExtIEs)]"

definition PDUSessionResourceInformationItem :: gtype where
  "PDUSessionResourceInformationItem = TStruct [
     Field ''PDUSessionID'' '''' PDUSessionID,
     Field ''QosFlowInformationList'' '''' QosFlowInformationList,
     Field ''DRBsToQosFlowsMappingList'' ''optional'' (TPtr DRBsToQosFlowsMappingList),
     Field ''IEExtensions'' ''optional'' (TPtr ProtocolExtensionContainerPDUSessionResourceInformationItemExtIEs)]"

definition PDUSessionResourceInformationList :: gtype where
  "PDUSessionResourceInformationList = TStruct [
     Field ''List'' ''valueExt,sizeLB:1,sizeUB:256'' (TSlice PDUSessionResourceInformationItem)]"

definition QosFlowModifyConfirmItemExtIEsExtensionValue :: gtype where
  "QosFlowModifyConfirmItemExtIEsExtensionValue = TStruct [Field ''Present'' '''' TInt]"

definition QosFlowModifyConfirmItemExtIEs :: gtype where
  "QosFlowModifyConfirmItemExtIEs = TStruct [
     Field ''Id'' '''' ProtocolExtensionID,
     Field ''Criticality'' '''' Criticality,
     Field ''ExtensionValue'' ''openType,referenceFieldName:Id'' QosFlowModifyConfirmItemExtIEsExtensionValue]"

definition ProtocolExtensionContainerQosFlowModifyConfirmItemExtIEs :: gtype where
  "ProtocolExtensionContainerQosFlowModifyConfirmItemExtIEs = TStruct [
     Field ''List'' ''sizeLB:1,sizeUB:65535'' (TSlice QosFlowModifyConfirmItemExtIEs)]"

definition QosFlowModifyConfirmItem :: gtype where
  "QosFlowModifyConfirmItem = TStruct [
     Field ''QosFlowIdentifier'' '''' QosFlowIdentifier,
     Field ''IEExtensions'' ''optional'' (TPtr ProtocolExtensionContainerQosFlowModifyConfirmItemExtIEs)]"

definition QosFlowModifyConfirmList :: gtype where
  "QosFlowModifyConfirmList = TStruct [
     Field ''List'' ''valueExt,sizeLB:1,sizeUB:64'' (TSlice QosFlowModifyConfirmItem)]"

definition TNLMappingItemExtIEsExtensionValue :: gtype where
  "TNLMappingItemExtIEsExtensionValue = TStruct [Field ''Present'' '''' TInt]"

definition TNLMappingItemExtIEs :: gtype where
  "TNLMappingItemExtIEs = TStruct [
     Field ''Id'' '''' ProtocolExtensionID,
     Field ''Criticality'' '''' Criticality,
     Field ''ExtensionValue'' ''openType,referenceFieldName:Id'' TNLMappingItemExtIEsExtensionValue]"

definition ProtocolExtensionContainerTNLMappingItemExtIEs :: gtype where
  "ProtocolExtensionContainerTNLMappingItemExtIEs = TStruct [
     Field ''List'' ''sizeLB:1,sizeUB:65535'' (TSlice TNLMappingItemExtIEs)]"

definition TNLMappingItem :: gtype where
  "TNLMappingItem = TStruct [
     Field ''DLNGUUPTNLInformation'' ''valueLB:0,valueUB:1'' UPTransportLayerInformation,
     Field ''ULNGUUPTNLInformation'' ''valueLB:0,valueUB:1'' UPTransportLayerInformation,
     Field ''IEExtensions'' ''optional'' (TPtr ProtocolExtensionContainerTNLMappingItemExtIEs)]"

definition TNLMappingList :: gtype where
  "TNLMappingList = TStruct [Field ''List'' ''valueExt,sizeLB:1,sizeUB:4'' (TSlice TNLMappingItem)]"

definition PDUSessionResourceModifyConfirmTransferExtIEsExtensionValue :: gtype where
  "PDUSessionResourceModifyConfirmTransferExtIEsExtensionValue = TStruct [Field ''Present'' '''' TInt]"

definition PDUSessionResourceModifyConfirmTransferExtIEs :: gtype where
  "PDUSessionResourceModifyConfirmTransferExtIEs = TStruct [
     Field ''Id'' '''' ProtocolExtensionID,
     Field ''Criticality'' '''' Criticality,
     Field ''ExtensionValue'' ''openType,referenceFieldName:Id'' PDUSessionResourceModifyConfirmTransferExtIEsExtensionValue]"

definition ProtocolExtensionContainerPDUSessionResourceModifyConfirmTransferExtIEs :: gtype where
  "ProtocolExtensionContainerPDUSessionResourceModifyConfirmTransferExtIEs = TStruct [
     Field ''List'' ''sizeLB:1,sizeUB:65535'' (TSlice PDUSessionResourceModifyConfirmTransferExtIEs)]"

definition PDUSessionResourceModifyConfirmTransfer :: gtype where
  "PDUSessionResourceModifyConfirmTransfer = TStruct [
     Field ''QosFlowModifyConfirmList'' '''' QosFlowModifyConfirmList,
     Field ''TNLMappingList'' ''optional'' (TPtr TNLMappingList),
     Field ''QosFlowFailedToModifyList'' ''optional'' (TPtr QosFlowList),
     Field ''IEExtensions'' ''optional'' (TPtr ProtocolExtensionContainerPDUSessionResourceModifyConfirmTransferExtIEs)]"

definition SingleTNLInformationExtIEsExtensionValue :: gtype where
  "SingleTNLInformationExtIEsExtensionValue = TStruct [Field ''Present'' '''' TInt]"

definition SingleTNLInformationExtIEs :: gtype where
  "SingleTNLInformationExtIEs = TStruct [
     Field ''Id'' '''' ProtocolExtensionID,
     Field ''Criticality'' '''' Criticality,
     Field ''ExtensionValue'' ''openType,referenceFieldName:Id'' SingleTNLInformationExtIEsExtensionValue]"

definition ProtocolExtensionContainerSingleTNLInformationExtIEs :: gtype where
  "ProtocolExtensionContainerSingleTNLInformationExtIEs = TStruct [
     Field ''List'' ''sizeLB:1,sizeUB:65535'' (TSlice SingleTNLInformationExtIEs)]"

definition SingleTNLInformation :: gtype where
  "SingleTNLInformation = TStruct [
     Field ''UPTransportLayerInformation'' ''valueLB:0,valueUB:1'' UPTransportLayerInformation,
     Field ''IEExtensions'' ''optional'' (TPtr ProtocolExtensionContainerSingleTNLInformationExtIEs)]"

definition ProtocolIESingleContainerUPTNLInformationExtIEs :: gtype where
  "ProtocolIESingleContainerUPTNLInformationExtIEs = TStruct []"

definition UPTNLInformation :: gtype where
  "UPTNLInformation = TStruct [
     Field ''Present'' '''' TInt,
     Field ''SingleTNLInformation'' ''valueExt'' (TPtr SingleTNLInformation),
     Field ''MultipleTNLInformation'' ''valueExt'' (TPtr MultipleTNLInformation),
     Field ''ChoiceExtensions'' '''' (TPtr ProtocolIESingleContainerUPTNLInformationExtIEs)]"

definition PDUSessionResourceModifyIndicationTransferExtIEsExtensionValue :: gtype where
  "PDUSessionResourceModifyIndicationTransferExtIEsExtensionValue = TStruct [Field ''Present'' '''' TInt]"

definition PDUSessionResourceModifyIndicationTransferExtIEs :: gtype where
  "PDUSessionResourceModifyIndicationTransferExtIEs = TStruct [
     Field ''Id'' '''' ProtocolExtensionID,
     Field ''Criticality'' '''' Criticality,
     Field ''ExtensionValue'' ''openType,referenceFieldName:Id'' PDUSessionResourceModifyIndicationTransferExtIEsExtensionValue]"

definition ProtocolExtensionContainerPDUSessionResourceModifyIndicationTransferExtIEs :: gtype where
  "ProtocolExtensionContainerPDUSessionResourceModifyIndicationTransferExtIEs = TStruct [
     Field ''List'' ''sizeLB:1,sizeUB:65535'' (TSlice PDUSessionResourceModifyIndicationTransferExtIEs)]"

definition PDUSessionResourceModifyIndicationTransfer :: gtype where
  "PDUSessionResourceModifyIndicationTransfer = TStruct [
     Field ''DLUPTNLInformation'' ''valueLB:0,valueUB:2,optional'' (TPtr UPTNLInformation),
     Field ''IEExtensions'' ''optional'' (TPtr ProtocolExtensionContainerPDUSessionResourceModifyIndicationTransferExtIEs)]"

definition PDUSessionResourceModifyIndicationUnsuccessfulTransferExtIEsExtensionValue :: gtype where
  "PDUSessionResourceModifyIndicationUnsuccessfulTransferExtIEsExtensionValue = TStruct [
     Field ''Present'' '''' TInt]"

definition PDUSessionResourceModifyIndicationUnsuccessfulTransferExtIEs :: gtype where
  "PDUSessionResourceModifyIndicationUnsuccessfulTransferExtIEs = TStruct [
     Field ''Id'' '''' ProtocolExtensionID,
     Field ''Criticality'' '''' Criticality,
     Field ''ExtensionValue'' ''openType,referenceFieldName:Id'' PDUSessionResourceModifyIndicationUnsuccessfulTransferExtIEsExtensionValue]"

definition ProtocolExtensionContainerPDUSessionResourceModifyIndicationUnsuccessfulTransferExtIEs :: gtype where
  "ProtocolExtensionContainerPDUSessionResourceModifyIndicationUnsuccessfulTransferExtIEs = TStruct [
     Field ''List'' ''sizeLB:1,sizeUB:65535'' (TSlice PDUSessionResourceModifyIndicationUnsuccessfulTransferExtIEs)]"

definition PDUSessionResourceModifyIndicationUnsuccessfulTransfer :: gtype where
  "PDUSessionResourceModifyIndicationUnsuccessfulTransfer = TStruct [
     Field ''Cause'' ''valueLB:0,valueUB:5'' Cause,
     Field ''IEExtensions'' ''optional'' (TPtr ProtocolExtensionContainerPDUSessionResourceModifyIndicationUnsuccessfulTransferExtIEs)]"

definition ULNGUUPTNLModifyItemExtIEsExtensionValue :: gtype where
  "ULNGUUPTNLModifyItemExtIEsExtensionValue = TStruct [Field ''Present'' '''' TInt]"

definition ULNGUUPTNLModifyItemExtIEs :: gtype where
  "ULNGUUPTNLModifyItemExtIEs = TStruct [
     Field ''Id'' '''' ProtocolExtensionID,
     Field ''Criticality'' '''' Criticality,
     Field ''ExtensionValue'' ''openType,referenceFieldName:Id'' ULNGUUPTNLModifyItemExtIEsExtensionValue]"

definition ProtocolExtensionContainerULNGUUPTNLModifyItemExtIEs :: gtype where
  "ProtocolExtensionContainerULNGUUPTNLModifyItemExtIEs = TStruct [
     Field ''List'' ''sizeLB:1,sizeUB:65535'' (TSlice ULNGUUPTNLModifyItemExtIEs)]"

definition ULNGUUPTNLModifyItem :: gtype where
  "ULNGUUPTNLModifyItem = TStruct [
     Field ''ULNGUUPTNLInformation'' ''valueLB:0,valueUB:1'' UPTransportLayerInformation,
     Field ''DLNGUUPTNLInformation'' ''valueLB:0,valueUB:1'' UPTransportLayerInformation,
     Field ''IEExtensions'' ''optional'' (TPtr ProtocolExtensionContainerULNGUUPTNLModifyItemExtIEs)]"

definition ULNGUUPTNLModifyList :: gtype where
  "ULNGUUPTNLModifyList = TStruct [
     Field ''List'' ''valueExt,sizeLB:0,sizeUB:4'' (TSlice ULNGUUPTNLModifyItem)]"

definition ProtocolIESingleContainerQosCharacteristicsExtIEs :: gtype where
  "ProtocolIESingleContainerQosCharacteristicsExtIEs = TStruct []"

definition QosCharacteristics :: gtype where
  "QosCharacteristics = TStruct [
     Field ''Present'' '''' TInt,
     Field ''NonDynamic5QI'' ''valueExt'' (TPtr NonDynamic5QIDescriptor),
     Field ''Dynamic5QI'' ''valueExt'' (TPtr Dynamic5QIDescriptor),
     Field ''ChoiceExtensions'' '''' (TPtr ProtocolIESingleContainerQosCharacteristicsExtIEs)]"

definition ReflectiveQosAttribute :: gtype where
  "ReflectiveQosAttribute = TStruct [Field ''Value'' ''valueExt,valueLB:0,valueUB:0'' TEnumerated]"

definition QosFlowLevelQosParametersExtIEsExtensionValue :: gtype where
  "QosFlowLevelQosParametersExtIEsExtensionValue = TStruct [Field ''Present'' '''' TInt]"

definition QosFlowLevelQosParametersExtIEs :: gtype where
  "QosFlowLevelQosParametersExtIEs = TStruct [
     Field ''Id'' '''' ProtocolExtensionID,
     Field ''Criticality'' '''' Criticality,
     Field ''ExtensionValue'' ''openType,referenceFieldName:Id'' QosFlowLevelQosParametersExtIEsExtensionValue]"

definition ProtocolExtensionContainerQosFlowLevelQosParametersExtIEs :: gtype where
  "ProtocolExtensionContainerQosFlowLevelQosParametersExtIEs = TStruct [
     Field ''List'' ''sizeLB:1,sizeUB:65535'' (TSlice QosFlowLevelQosParametersExtIEs)]"

definition QosFlowLevelQosParameters :: gtype where
  "QosFlowLevelQosParameters = TStruct [
     Field ''QosCharacteristics'' ''valueLB:0,valueUB:2'' QosCharacteristics,
     Field ''AllocationAndRetentionPriority'' ''valueExt'' AllocationAndRetentionPriority,
     Field ''GBRQosInformation'' ''valueExt,optional'' (TPtr GBRQosInformation),
     Field ''ReflectiveQosAttribute'' ''optional'' (TPtr ReflectiveQosAttribute),
     Field ''AdditionalQosFlowInformation'' ''optional'' (TPtr AdditionalQosFlowInformation),
     Field ''IEExtensions'' ''optional'' (TPtr ProtocolExtensionContainerQosFlowLevelQosParametersExtIEs)]"

definition QosFlowAddOrModifyRequestItemExtIEsExtensionValue :: gtype where
  "QosFlowAddOrModifyRequestItemExtIEsExtensionValue = TStruct [Field ''Present'' '''' TInt]"

definition QosFlowAddOrModifyRequestItemExtIEs :: gtype where
  "QosFlowAddOrModifyRequestItemExtIEs = TStruct [
     Field ''Id'' '''' ProtocolExtensionID,
     Field ''Criticality'' '''' Criticality,
     Field ''ExtensionValue'' ''openType,referenceFieldName:Id'' QosFlowAddOrModifyRequestItemExtIEsExtensionValue]"

definition ProtocolExtensionContainerQosFlowAddOrModifyRequestItemExtIEs :: gtype where
  "ProtocolExtensionContainerQosFlowAddOrModifyRequestItemExtIEs = TStruct [
     Field ''List'' ''sizeLB:1,sizeUB:65535'' (TSlice QosFlowAddOrModifyRequestItemExtIEs)]"

definition QosFlowAddOrModifyRequestItem :: gtype where
  "QosFlowAddOrModifyRequestItem = TStruct [
     Field ''QosFlowIdentifier'' '''' QosFlowIdentifier,
     Field ''QosFlowLevelQosParameters'' ''valueExt,optional'' (TPtr QosFlowLevelQosParameters),
     Field ''ERABID'' ''optional'' (TPtr ERABID),
     Field ''IEExtensions'' ''optional'' (TPtr ProtocolExtensionContainerQosFlowAddOrModifyRequestItemExtIEs)]"

definition QosFlowAddOrModifyRequestList :: gtype where
  "QosFlowAddOrModifyRequestList = TStruct [
     Field ''List'' ''valueExt,sizeLB:1,sizeUB:64'' (TSlice QosFlowAddOrModifyRequestItem)]"

definition PDUSessionResourceModifyRequestTransferIEsValue :: gtype where
  "PDUSessionResourceModifyRequestTransferIEsValue = TStruct [
     Field ''Present'' '''' TInt,
     Field ''PDUSessionAggregateMaximumBitRate'' ''valueExt,referenceFieldValue:130'' (TPtr PDUSessionAggregateMaximumBitRate),
     Field ''ULNGUUPTNLModifyList'' ''referenceFieldValue:140'' (TPtr ULNGUUPTNLModifyList),
     Field ''NetworkInstance'' ''referenceFieldValue:129'' (TPtr NetworkInstance),
     Field ''QosFlowAddOrModifyRequestList'' ''referenceFieldValue:135'' (TPtr QosFlowAddOrModifyRequestList),
     Field ''QosFlowToReleaseList'' ''referenceFieldValue:137'' (TPtr QosFlowList),
     Field ''AdditionalULNGUUPTNLInformation'' ''referenceFieldValue:126,valueLB:0,valueUB:1'' (TPtr UPTransportLayerInformation)]"

definition PDUSessionResourceModifyRequestTransferIEs :: gtype where
  "PDUSessionResourceModifyRequestTransferIEs = TStruct [
     Field ''Id'' '''' ProtocolIEID,
     Field ''Criticality'' '''' Criticality,
     Field ''Value'' ''openType,referenceFieldName:Id'' PDUSessionResourceModifyRequestTransferIEsValue]"

definition ProtocolIEContainerPDUSessionResourceModifyRequestTransferIEs :: gtype where
  "ProtocolIEContainerPDUSessionResourceModifyRequestTransferIEs = TStruct [
     Field ''List'' ''sizeLB:0,sizeUB:65535'' (TSlice PDUSessionResourceModifyRequestTransferIEs)]"

definition PDUSessionResourceModifyRequestTransfer :: gtype where
  "PDUSessionResourceModifyRequestTransfer = TStruct [
     Field ''ProtocolIEs'' '''' ProtocolIEContainerPDUSessionResourceModifyRequestTransferIEs]"

definition QosFlowAddOrModifyResponseItemExtIEsExtensionValue :: gtype where
  "QosFlowAddOrModifyResponseItemExtIEsExtensionValue = TStruct [Field ''Present'' '''' TInt]"

definition QosFlowAddOrModifyResponseItemExtIEs :: gtype where
  "QosFlowAddOrModifyResponseItemExtIEs = TStruct [
     Field ''Id'' '''' ProtocolExtensionID,
     Field ''Criticality'' '''' Criticality,
     Field ''ExtensionValue'' ''openType,referenceFieldName:Id'' QosFlowAddOrModifyResponseItemExtIEsExtensionValue]"

definition ProtocolExtensionContainerQosFlowAddOrModifyResponseItemExtIEs :: gtype where
  "ProtocolExtensionContainerQosFlowAddOrModifyResponseItemExtIEs = TStruct [
     Field ''List'' ''sizeLB:1,sizeUB:65535'' (TSlice QosFlowAddOrModifyResponseItemExtIEs)]"

definition QosFlowAddOrModifyResponseItem :: gtype where
  "QosFlowAddOrModifyResponseItem = TStruct [
     Field ''QosFlowIdentifier'' '''' QosFlowIdentifier,
     Field ''IEExtensions'' ''optional'' (TPtr ProtocolExtensionContainerQosFlowAddOrModifyResponseItemExtIEs)]"

definition QosFlowAddOrModifyResponseList :: gtype where
  "QosFlowAddOrModifyResponseList = TStruct [
     Field ''List'' ''valueExt,sizeLB:1,sizeUB:64'' (TSlice QosFlowAddOrModifyResponseItem)]"

definition PDUSessionResourceModifyResponseTransferExtIEsExtensionValue :: gtype where
  "PDUSessionResourceModifyResponseTransferExtIEsExtensionValue = TStruct [Field ''Present'' '''' TInt]"

definition PDUSessionResourceModifyResponseTransferExtIEs :: gtype where
  "PDUSessionResourceModifyResponseTransferExtIEs = TStruct [
     Field ''Id'' '''' ProtocolExtensionID,
     Field ''Criticality'' '''' Criticality,
     Field ''ExtensionValue'' ''openType,referenceFieldName:Id'' PDUSessionResourceModifyResponseTransferExtIEsExtensionValue]"

definition ProtocolExtensionContainerPDUSessionResourceModifyResponseTransferExtIEs :: gtype where
  "ProtocolExtensionContainerPDUSessionResourceModifyResponseTransferExtIEs = TStruct [
     Field ''List'' ''sizeLB:1,sizeUB:65535'' (TSlice PDUSessionResourceModifyResponseTransferExtIEs)]"

definition PDUSessionResourceModifyResponseTransfer :: gtype where
  "PDUSessionResourceModifyResponseTransfer = TStruct [
     Field ''DLNGUUPTNLInformation'' ''valueLB:0,valueUB:1,optional'' (TPtr UPTransportLayerInformation),
     Field ''ULNGUUPTNLInformation'' ''valueLB:0,valueUB:1,optional'' (TPtr UPTransportLayerInformation),
     Field ''QosFlowAddOrModifyResponseList'' ''optional'' (TPtr QosFlowAddOrModifyResponseList),
     Field ''AdditionalQosFlowPerTNLInformation'' ''valueExt,optional'' (TPtr QosFlowPerTNLInformation),
     Field ''QosFlowFailedToAddOrModifyList'' ''optional'' (TPtr QosFlowList),
     Field ''IEExtensions'' ''optional'' (TPtr ProtocolExtensionContainerPDUSessionResourceModifyResponseTransferExtIEs)]"

definition PDUSessionResourceModifyUnsuccessfulTransferExtIEsExtensionValue :: gtype where
  "PDUSessionResourceModifyUnsuccessfulTransferExtIEsExtensionValue = TStruct [Field ''Present'' '''' TInt]"

definition PDUSessionResourceModifyUnsuccessfulTransferExtIEs :: gtype where
  "PDUSessionResourceModifyUnsuccessfulTransferExtIEs = TStruct [
     Field ''Id'' '''' ProtocolExtensionID,
     Field ''Criticality'' '''' Criticality,
     Field ''ExtensionValue'' ''openType,referenceFieldName:Id'' PDUSessionResourceModifyUnsuccessfulTransferExtIEsExtensionValue]"

definition ProtocolExtensionContainerPDUSessionResourceModifyUnsuccessfulTransferExtIEs :: gtype where
  "ProtocolExtensionContainerPDUSessionResourceModifyUnsuccessfulTransferExtIEs = TStruct [
     Field ''List'' ''sizeLB:1,sizeUB:65535'' (TSlice PDUSessionResourceModifyUnsuccessfulTransferExtIEs)]"

definition PDUSessionResourceModifyUnsuccessfulTransfer :: gtype where
  "PDUSessionResourceModifyUnsuccessfulTransfer = TStruct [
     Field ''Cause'' ''valueLB:0,valueUB:5'' Cause,
     Field ''CriticalityDiagnostics'' ''valueExt,optional'' (TPtr CriticalityDiagnostics),
     Field ''IEExtensions'' ''optional'' (TPtr ProtocolExtensionContainerPDUSessionResourceModifyUnsuccessfulTransferExtIEs)]"

definition PDUSessionResourceNotifyReleasedTransferExtIEsExtensionValue :: gtype where
  "PDUSessionResourceNotifyReleasedTransferExtIEsExtensionValue = TStruct [Field ''Present'' '''' TInt]"

definition PDUSessionResourceNotifyReleasedTransferExtIEs :: gtype where
  "PDUSessionResourceNotifyReleasedTransferExtIEs = TStruct [
     Field ''Id'' '''' ProtocolExtensionID,
     Field ''Criticality'' '''' Criticality,
     Field ''ExtensionValue'' ''openType,referenceFieldName:Id'' PDUSessionResourceNotifyReleasedTransferExtIEsExtensionValue]"

definition ProtocolExtensionContainerPDUSessionResourceNotifyReleasedTransferExtIEs :: gtype where
  "ProtocolExtensionContainerPDUSessionResourceNotifyReleasedTransferExtIEs = TStruct [
     Field ''List'' ''sizeLB:1,sizeUB:65535'' (TSlice PDUSessionResourceNotifyReleasedTransferExtIEs)]"

definition PDUSessionResourceNotifyReleasedTransfer :: gtype where
  "PDUSessionResourceNotifyReleasedTransfer = TStruct [
     Field ''Cause'' ''valueLB:0,valueUB:5'' Cause,
     Field ''IEExtensions'' ''optional'' (TPtr ProtocolExtensionContainerPDUSessionResourceNotifyReleasedTransferExtIEs)]"

definition QosFlowNotifyItemExtIEsExtensionValue :: gtype where
  "QosFlowNotifyItemExtIEsExtensionValue = TStruct [Field ''Present'' '''' TInt]"

definition QosFlowNotifyItemExtIEs :: gtype where
  "QosFlowNotifyItemExtIEs = TStruct [
     Field ''Id'' '''' ProtocolExtensionID,
     Field ''Criticality'' '''' Criticality,
     Field ''ExtensionValue'' ''openType,referenceFieldName:Id'' QosFlowNotifyItemExtIEsExtensionValue]"

definition ProtocolExtensionContainerQosFlowNotifyItemExtIEs :: gtype where
  "ProtocolExtensionContainerQosFlowNotifyItemExtIEs = TStruct [
     Field ''List'' ''sizeLB:1,sizeUB:65535'' (TSlice QosFlowNotifyItemExtIEs)]"

definition QosFlowNotifyItem :: gtype where
  "QosFlowNotifyItem = TStruct [
     Field ''QosFlowIdentifier'' '''' QosFlowIdentifier,
     Field ''NotificationCause'' '''' NotificationCause,
     Field ''IEExtensions'' ''optional'' (TPtr ProtocolExtensionContainerQosFlowNotifyItemExtIEs)]"

definition QosFlowNotifyList :: gtype where
  "QosFlowNotifyList = TStruct [Field ''List'' ''valueExt,sizeLB:1,sizeUB:64'' (TSlice QosFlowNotifyItem)]"

definition PDUSessionResourceNotifyTransferExtIEsExtensionValue :: gtype where
  "PDUSessionResourceNotifyTransferExtIEsExtensionValue = TStruct [Field ''Present'' '''' TInt]"

definition PDUSessionResourceNotifyTransferExtIEs :: gtype where
  "PDUSessionResourceNotifyTransferExtIEs = TStruct [
     Field ''Id'' '''' ProtocolExtensionID,
     Field ''Criticality'' '''' Criticality,
     Field ''ExtensionValue'' ''openType,referenceFieldName:Id'' PDUSessionResourceNotifyTransferExtIEsExtensionValue]"

definition ProtocolExtensionContainerPDUSessionResourceNotifyTransferExtIEs :: gtype where
  "ProtocolExtensionContainerPDUSessionResourceNotifyTransferExtIEs = TStruct [
     Field ''List'' ''sizeLB:1,sizeUB:65535'' (TSlice PDUSessionResourceNotifyTransferExtIEs)]"

definition PDUSessionResourceNotifyTransfer :: gtype where
  "PDUSessionResourceNotifyTransfer = TStruct [
     Field ''QosFlowNotifyList'' ''optional'' (TPtr QosFlowNotifyList),
     Field ''QosFlowReleasedList'' ''optional'' (TPtr QosFlowList),
     Field ''IEExtensions'' ''optional'' (TPtr ProtocolExtensionContainerPDUSessionResourceNotifyTransferExtIEs)]"

definition PDUSessionResourceReleaseCommandTransferExtIEsExtensionValue :: gtype where
  "PDUSessionResourceReleaseCommandTransferExtIEsExtensionValue = TStruct [Field ''Present'' '''' TInt]"

definition PDUSessionResourceReleaseCommandTransferExtIEs :: gtype where
  "PDUSessionResourceReleaseCommandTransferExtIEs = TStruct [
     Field ''Id'' '''' ProtocolExtensionID,
     Field ''Criticality'' '''' Criticality,
     Field ''ExtensionValue'' ''openType,referenceFieldName:Id'' PDUSessionResourceReleaseCommandTransferExtIEsExtensionValue]"

definition ProtocolExtensionContainerPDUSessionResourceReleaseCommandTransferExtIEs :: gtype where
  "ProtocolExtensionContainerPDUSessionResourceReleaseCommandTransferExtIEs = TStruct [
     Field ''List'' ''sizeLB:1,sizeUB:65535'' (TSlice PDUSessionResourceReleaseCommandTransferExtIEs)]"

definition PDUSessionResourceReleaseCommandTransfer :: gtype where
  "PDUSessionResourceReleaseCommandTransfer = TStruct [
     Field ''Cause'' ''valueLB:0,valueUB:5'' Cause,
     Field ''IEExtensions'' ''optional'' (TPtr ProtocolExtensionContainerPDUSessionResourceReleaseCommandTransferExtIEs)]"

definition PDUSessionResourceReleaseResponseTransferExtIEsExtensionValue :: gtype where
  "PDUSessionResourceReleaseResponseTransferExtIEsExtensionValue = TStruct [Field ''Present'' '''' TInt]"

definition PDUSessionResourceReleaseResponseTransferExtIEs :: gtype where
  "PDUSessionResourceReleaseResponseTransferExtIEs = TStruct [
     Field ''Id'' '''' ProtocolExtensionID,
     Field ''Criticality'' '''' Criticality,
     Field ''ExtensionValue'' ''openType,referenceFieldName:Id'' PDUSessionResourceReleaseResponseTransferExtIEsExtensionValue]"

definition ProtocolExtensionContainerPDUSessionResourceReleaseResponseTransferExtIEs :: gtype where
  "ProtocolExtensionContainerPDUSessionResourceReleaseResponseTransferExtIEs = TStruct [
     Field ''List'' ''sizeLB:1,sizeUB:65535'' (TSlice PDUSessionResourceReleaseResponseTransferExtIEs)]"

definition PDUSessionResourceReleaseResponseTransfer :: gtype where
  "PDUSessionResourceReleaseResponseTransfer = TStruct [
     Field ''IEExtensions'' ''optional'' (TPtr ProtocolExtensionContainerPDUSessionResourceReleaseResponseTransferExtIEs)]"

definition UPTransportLayerInformationItemExtIEs :: gtype where
  "UPTransportLayerInformationItemExtIEs = TStruct []"

definition ProtocolExtensionContainerUPTransportLayerInformationItemExtIEs :: gtype where
  "ProtocolExtensionContainerUPTransportLayerInformationItemExtIEs = TStruct [
     Field ''List'' ''sizeLB:1,sizeUB:65535'' (TSlice UPTransportLayerInformationItemExtIEs)]"

definition UPTransportLayerInformationItem :: gtype where
  "UPTransportLayerInformationItem = TStruct [
     Field ''NGUUPTNLInformation'' '''' UPTransportLayerInformation,
     Field ''IEExtensions'' ''optional'' (TPtr ProtocolExtensionContainerUPTransportLayerInformationItemExtIEs)]"

definition UPTransportLayerInformationList :: gtype where
  "UPTransportLayerInformationList = TStruct [
     Field ''List'' ''valueExt,sizeLB:1,sizeUB:3'' (TSlice UPTransportLayerInformationItem)]"

definition PDUSessionType :: gtype where
  "PDUSessionType = TStruct [Field ''Value'' ''valueExt,valueLB:0,valueUB:4'' TEnumerated]"

definition SecurityIndicationExtIEsExtensionValue :: gtype where
  "SecurityIndicationExtIEsExtensionValue = TStruct [Field ''Present'' '''' TInt]"

definition SecurityIndicationExtIEs :: gtype where
  "SecurityIndicationExtIEs = TStruct [
     Field ''Id'' '''' ProtocolExtensionID,
     Field ''Criticality'' '''' Criticality,
     Field ''ExtensionValue'' ''openType,referenceFieldName:Id'' SecurityIndicationExtIEsExtensionValue]"

definition ProtocolExtensionContainerSecurityIndicationExtIEs :: gtype where
  "ProtocolExtensionContainerSecurityIndicationExtIEs = TStruct [
     Field ''List'' ''sizeLB:1,sizeUB:65535'' (TSlice SecurityIndicationExtIEs)]"

definition SecurityIndication :: gtype where
  "SecurityIndication = TStruct [
     Field ''IntegrityProtectionIndication'' '''' IntegrityProtectionIndication,
     Field ''ConfidentialityProtectionIndication'' '''' ConfidentialityProtectionIndication,
     Field ''MaximumIntegrityProtectedDataRate'' ''optional'' (TPtr MaximumIntegrityProtectedDataRate),
     Field ''IEExtensions'' ''optional'' (TPtr ProtocolExtensionContainerSecurityIndicationExtIEs)]"

definition QosFlowSetupRequestItemExtIEsExtensionValue :: gtype where
  "QosFlowSetupRequestItemExtIEsExtensionValue = TStruct [Field ''Present'' '''' TInt]"

definition QosFlowSetupRequestItemExtIEs :: gtype where
  "QosFlowSetupRequestItemExtIEs = TStruct [
     Field ''Id'' '''' ProtocolExtensionID,
     Field ''Criticality'' '''' Criticality,
     Field ''ExtensionValue'' ''openType,referenceFieldName:Id'' QosFlowSetupRequestItemExtIEsExtensionValue]"

definition ProtocolExtensionContainerQosFlowSetupRequestItemExtIEs :: gtype where
  "ProtocolExtensionContainerQosFlowSetupRequestItemExtIEs = TStruct [
     Field ''List'' ''sizeLB:1,sizeUB:65535'' (TSlice QosFlowSetupRequestItemExtIEs)]"

definition QosFlowSetupRequestItem :: gtype where
  "QosFlowSetupRequestItem = TStruct [
     Field ''QosFlowIdentifier'' '''' QosFlowIdentifier,
     Field ''QosFlowLevelQosParameters'' ''valueExt'' QosFlowLevelQosParameters,
     Field ''ERABID'' ''optional'' (TPtr ERABID),
     Field ''IEExtensions'' ''optional'' (TPtr ProtocolExtensionContainerQosFlowSetupRequestItemExtIEs)]"

definition QosFlowSetupRequestList :: gtype where
  "QosFlowSetupRequestList = TStruct [
     Field ''List'' ''valueExt,sizeLB:1,sizeUB:64'' (TSlice QosFlowSetupRequestItem)]"

definition PDUSessionResourceSetupRequestTransferIEsValue :: gtype where
  "PDUSessionResourceSetupRequestTransferIEsValue = TStruct [
     Field ''Present'' '''' TInt,
     Field ''PDUSessionAggregateMaximumBitRate'' ''valueExt,referenceFieldValue:130'' (TPtr PDUSessionAggregateMaximumBitRate),
     Field ''ULNGUUPTNLInformation'' ''referenceFieldValue:139,valueLB:0,valueUB:1'' (TPtr UPTransportLayerInformation),
     Field ''AdditionalULNGUUPTNLInformation'' ''referenceFieldValue:126'' (TPtr UPTransportLayerInformationList),
     Field ''DataForwardingNotPossible'' ''referenceFieldValue:127'' (TPtr DataForwardingNotPossible),
     Field ''PDUSessionType'' ''referenceFieldValue:134'' (TPtr PDUSessionType),
     Field ''SecurityIndication'' ''valueExt,referenceFieldValue:138'' (TPtr SecurityIndication),
     Field ''NetworkInstance'' ''referenceFieldValue:129'' (TPtr NetworkInstance),
     Field ''QosFlowSetupRequestList'' ''referenceFieldValue:136'' (TPtr QosFlowSetupRequestList)]"

definition PDUSessionResourceSetupRequestTransferIEs :: gtype where
  "PDUSessionResourceSetupRequestTransferIEs = TStruct [
     Field ''Id'' '''' ProtocolIEID,
     Field ''Criticality'' '''' Criticality,
     Field ''Value'' ''openType,referenceFieldName:Id'' PDUSessionResourceSetupRequestTransferIEsValue]"

definition ProtocolIEContainerPDUSessionResourceSetupRequestTransferIEs :: gtype where
  "ProtocolIEContainerPDUSessionResourceSetupRequestTransferIEs = TStruct [
     Field ''List'' ''sizeLB:0,sizeUB:65535'' (TSlice PDUSessionResourceSetupRequestTransferIEs)]"

definition PDUSessionResourceSetupRequestTransfer :: gtype where
  "PDUSessionResourceSetupRequestTransfer = TStruct [
     Field ''ProtocolIEs'' '''' ProtocolIEContainerPDUSessionResourceSetupRequestTransferIEs]"

definition PDUSessionResourceSetupResponseTransferExtIEsExtensionValue :: gtype where
  "PDUSessionResourceSetupResponseTransferExtIEsExtensionValue = TStruct [Field ''Present'' '''' TInt]"

definition PDUSessionResourceSetupResponseTransferExtIEs :: gtype where
  "PDUSessionResourceSetupResponseTransferExtIEs = TStruct [
     Field ''Id'' '''' ProtocolExtensionID,
     Field ''Criticality'' '''' Criticality,
     Field ''ExtensionValue'' ''openType,referenceFieldName:Id'' PDUSessionResourceSetupResponseTransferExtIEsExtensionValue]"

definition ProtocolExtensionContainerPDUSessionResourceSetupResponseTransferExtIEs :: gtype where
  "ProtocolExtensionContainerPDUSessionResourceSetupResponseTransferExtIEs = TStruct [
     Field ''List'' ''sizeLB:1,sizeUB:65535'' (TSlice PDUSessionResourceSetupResponseTransferExtIEs)]"

definition PDUSessionResourceSetupResponseTransfer :: gtype where
  "PDUSessionResourceSetupResponseTransfer = TStruct [
     Field ''QosFlowPerTNLInformation'' ''valueExt'' QosFlowPerTNLInformation,
     Field ''AdditionalQosFlowPerTNLInformation'' ''valueExt,optional'' (TPtr QosFlowPerTNLInformation),
     Field ''SecurityResult'' ''valueExt,optional'' (TPtr SecurityResult),
     Field ''QosFlowFailedToSetupList'' ''optional'' (TPtr QosFlowList),
     Field ''IEExtensions'' ''optional'' (TPtr ProtocolExtensionContainerPDUSessionResourceSetupResponseTransferExtIEs)]"

definition PDUSessionResourceSetupUnsuccessfulTransferExtIEsExtensionValue :: gtype where
  "PDUSessionResourceSetupUnsuccessfulTransferExtIEsExtensionValue = TStruct [Field ''Present'' '''' TInt]"

definition PDUSessionResourceSetupUnsuccessfulTransferExtIEs :: gtype where
  "PDUSessionResourceSetupUnsuccessfulTransferExtIEs = TStruct [
     Field ''Id'' '''' ProtocolExtensionID,
     Field ''Criticality'' '''' Criticality,
     Field ''ExtensionValue'' ''openType,referenceFieldName:Id'' PDUSessionResourceSetupUnsuccessfulTransferExtIEsExtensionValue]"

definition ProtocolExtensionContainerPDUSessionResourceSetupUnsuccessfulTransferExtIEs :: gtype where
  "ProtocolExtensionContainerPDUSessionResourceSetupUnsuccessfulTransferExtIEs = TStruct [
     Field ''List'' ''sizeLB:1,sizeUB:65535'' (TSlice PDUSessionResourceSetupUnsuccessfulTransferExtIEs)]"

definition PDUSessionResourceSetupUnsuccessfulTransfer :: gtype where
  "PDUSessionResourceSetupUnsuccessfulTransfer = TStruct [
     Field ''Cause'' ''valueLB:0,valueUB:5'' Cause,
     Field ''CriticalityDiagnostics'' ''valueExt,optional'' (TPtr CriticalityDiagnostics),
     Field ''IEExtensions'' ''optional'' (TPtr ProtocolExtensionContainerPDUSessionResourceSetupUnsuccessfulTransferExtIEs)]"

definition PathSwitchRequestAcknowledgeTransferExtIEsExtensionValue :: gtype where
  "PathSwitchRequestAcknowledgeTransferExtIEsExtensionValue = TStruct [Field ''Present'' '''' TInt]"

definition PathSwitchRequestAcknowledgeTransferExtIEs :: gtype where
  "PathSwitchRequestAcknowledgeTransferExtIEs = TStruct [
     Field ''Id'' '''' ProtocolExtensionID,
     Field ''Criticality'' '''' Criticality,
     Field ''ExtensionValue'' ''openType,referenceFieldName:Id'' PathSwitchRequestAcknowledgeTransferExtIEsExtensionValue]"

definition ProtocolExtensionContainerPathSwitchRequestAcknowledgeTransferExtIEs :: gtype where
  "ProtocolExtensionContainerPathSwitchRequestAcknowledgeTransferExtIEs = TStruct [
     Field ''List'' ''sizeLB:1,sizeUB:65535'' (TSlice PathSwitchRequestAcknowledgeTransferExtIEs)]"

definition PathSwitchRequestAcknowledgeTransfer :: gtype where
  "PathSwitchRequestAcknowledgeTransfer = TStruct [
     Field ''ULNGUUPTNLInformation'' ''valueLB:0,valueUB:1,optional'' (TPtr UPTransportLayerInformation),
     Field ''SecurityIndication'' ''valueExt,optional'' (TPtr SecurityIndication),
     Field ''IEExtensions'' ''optional'' (TPtr ProtocolExtensionContainerPathSwitchRequestAcknowledgeTransferExtIEs)]"

definition PathSwitchRequestSetupFailedTransferExtIEsExtensionValue :: gtype where
  "PathSwitchRequestSetupFailedTransferExtIEsExtensionValue = TStruct [Field ''Present'' '''' TInt]"

definition PathSwitchRequestSetupFailedTransferExtIEs :: gtype where
  "PathSwitchRequestSetupFailedTransferExtIEs = TStruct [
     Field ''Id'' '''' ProtocolExtensionID,
     Field ''Criticality'' '''' Criticality,
     Field ''ExtensionValue'' ''openType,referenceFieldName:Id'' PathSwitchRequestSetupFailedTransferExtIEsExtensionValue]"

definition ProtocolExtensionContainerPathSwitchRequestSetupFailedTransferExtIEs :: gtype where
  "ProtocolExtensionContainerPathSwitchRequestSetupFailedTransferExtIEs = TStruct [
     Field ''List'' ''sizeLB:1,sizeUB:65535'' (TSlice PathSwitchRequestSetupFailedTransferExtIEs)]"

definition PathSwitchRequestSetupFailedTransfer :: gtype where
  "PathSwitchRequestSetupFailedTransfer = TStruct [
     Field ''Cause'' ''valueLB:0,valueUB:5'' Cause,
     Field ''IEExtensions'' ''optional'' (TPtr ProtocolExtensionContainerPathSwitchRequestSetupFailedTransferExtIEs)]"

definition UserPlaneSecurityInformationExtIEsExtensionValue :: gtype where
  "UserPlaneSecurityInformationExtIEsExtensionValue = TStruct [Field ''Present'' '''' TInt]"

definition UserPlaneSecurityInformationExtIEs :: gtype where
  "UserPlaneSecurityInformationExtIEs = TStruct [
     Field ''Id'' '''' ProtocolExtensionID,
     Field ''Criticality'' '''' Criticality,
     Field ''ExtensionValue'' ''openType,referenceFieldName:Id'' UserPlaneSecurityInformationExtIEsExtensionValue]"

definition ProtocolExtensionContainerUserPlaneSecurityInformationExtIEs :: gtype where
  "ProtocolExtensionContainerUserPlaneSecurityInformationExtIEs = TStruct [
     Field ''List'' ''sizeLB:1,sizeUB:65535'' (TSlice UserPlaneSecurityInformationExtIEs)]"

definition UserPlaneSecurityInformation :: gtype where
  "UserPlaneSecurityInformation = TStruct [
     Field ''SecurityResult'' ''valueExt'' SecurityResult,
     Field ''SecurityIndication'' ''valueExt'' SecurityIndication,
     Field ''IEExtensions'' ''optional'' (TPtr ProtocolExtensionContainerUserPlaneSecurityInformationExtIEs)]"

definition QosFlowAcceptedItemExtIEsExtensionValue :: gtype where
  "QosFlowAcceptedItemExtIEsExtensionValue = TStruct [Field ''Present'' '''' TInt]"

definition QosFlowAcceptedItemExtIEs :: gtype where
  "QosFlowAcceptedItemExtIEs = TStruct [
     Field ''Id'' '''' ProtocolExtensionID,
     Field ''Criticality'' '''' Criticality,
     Field ''ExtensionValue'' ''openType,referenceFieldName:Id'' QosFlowAcceptedItemExtIEsExtensionValue]"

definition ProtocolExtensionContainerQosFlowAcceptedItemExtIEs :: gtype where
  "ProtocolExtensionContainerQosFlowAcceptedItemExtIEs = TStruct [
     Field ''List'' ''sizeLB:1,sizeUB:65535'' (TSlice QosFlowAcceptedItemExtIEs)]"

definition QosFlowAcceptedItem :: gtype where
  "QosFlowAcceptedItem = TStruct [
     Field ''QosFlowIdentifier'' '''' QosFlowIdentifier,
     Field ''IEExtensions'' ''optional'' (TPtr ProtocolExtensionContainerQosFlowAcceptedItemExtIEs)]"

definition QosFlowAcceptedList :: gtype where
  "QosFlowAcceptedList = TStruct [
     Field ''List'' ''valueExt,sizeLB:1,sizeUB:64'' (TSlice QosFlowAcceptedItem)]"

definition PathSwitchRequestTransferExtIEsExtensionValue :: gtype where
  "PathSwitchRequestTransferExtIEsExtensionValue = TStruct [Field ''Present'' '''' TInt]"

definition PathSwitchRequestTransferExtIEs :: gtype where
  "PathSwitchRequestTransferExtIEs = TStruct [
     Field ''Id'' '''' ProtocolExtensionID,
     Field ''Criticality'' '''' Criticality,
     Field ''ExtensionValue'' ''openType,referenceFieldName:Id'' PathSwitchRequestTransferExtIEsExtensionValue]"

definition ProtocolExtensionContainerPathSwitchRequestTransferExtIEs :: gtype where
  "ProtocolExtensionContainerPathSwitchRequestTransferExtIEs = TStruct [
     Field ''List'' ''sizeLB:1,sizeUB:65535'' (TSlice PathSwitchRequestTransferExtIEs)]"

definition PathSwitchRequestTransfer :: gtype where
  "PathSwitchRequestTransfer = TStruct [
     Field ''DLNGUUPTNLInformation'' ''valueLB:0,valueUB:1'' UPTransportLayerInformation,
     Field ''DLNGUTNLInformationReused'' ''optional'' (TPtr DLNGUTNLInformationReused),
     Field ''UserPlaneSecurityInformation'' ''valueExt,optional'' (TPtr UserPlaneSecurityInformation),
     Field ''QosFlowAcceptedList'' '''' QosFlowAcceptedList,
     Field ''IEExtensions'' ''optional'' (TPtr ProtocolExtensionContainerPathSwitchRequestTransferExtIEs)]"

definition PathSwitchRequestUnsuccessfulTransferExtIEsExtensionValue :: gtype where
  "PathSwitchRequestUnsuccessfulTransferExtIEsExtensionValue = TStruct [Field ''Present'' '''' TInt]"

definition PathSwitchRequestUnsuccessfulTransferExtIEs :: gtype where
  "PathSwitchRequestUnsuccessfulTransferExtIEs = TStruct [
     Field ''Id'' '''' ProtocolExtensionID,
     Field ''Criticality'' '''' Criticality,
     Field ''ExtensionValue'' ''openType,referenceFieldName:Id'' PathSwitchRequestUnsuccessfulTransferExtIEsExtensionValue]"

definition ProtocolExtensionContainerPathSwitchRequestUnsuccessfulTransferExtIEs :: gtype where
  "ProtocolExtensionContainerPathSwitchRequestUnsuccessfulTransferExtIEs = TStruct [
     Field ''List'' ''sizeLB:1,sizeUB:65535'' (TSlice PathSwitchRequestUnsuccessfulTransferExtIEs)]"

definition PathSwitchRequestUnsuccessfulTransfer :: gtype where
  "PathSwitchRequestUnsuccessfulTransfer = TStruct [
     Field ''Cause'' ''valueLB:0,valueUB:5'' Cause,
     Field ''IEExtensions'' ''optional'' (TPtr ProtocolExtensionContainerPathSwitchRequestUnsuccessfulTransferExtIEs)]"

definition Presence :: gtype where
  "Presence = TStruct [Field ''Value'' ''valueLB:0,valueUB:2'' TEnumerated]"

definition QosFlowSetupResponseItemSUResExtIEsExtensionValue :: gtype where
  "QosFlowSetupResponseItemSUResExtIEsExtensionValue = TStruct [Field ''Present'' '''' TInt]"

definition QosFlowSetupResponseItemSUResExtIEs :: gtype where
  "QosFlowSetupResponseItemSUResExtIEs = TStruct [
     Field ''Id'' '''' ProtocolExtensionID,
     Field ''Criticality'' '''' Criticality,
     Field ''ExtensionValue'' ''openType,referenceFieldName:Id'' QosFlowSetupResponseItemSUResExtIEsExtensionValue]"

definition ProtocolExtensionContainerQosFlowSetupResponseItemSUResExtIEs :: gtype where
  "ProtocolExtensionContainerQosFlowSetupResponseItemSUResExtIEs = TStruct [
     Field ''List'' ''sizeLB:1,sizeUB:65535'' (TSlice QosFlowSetupResponseItemSUResExtIEs)]"

definition SourceNGRANNodeToTargetNGRANNodeTransparentContainerExtIEsExtensionValue :: gtype where
  "SourceNGRANNodeToTargetNGRANNodeTransparentContainerExtIEsExtensionValue = TStruct [
     Field ''Present'' '''' TInt]"

definition SourceNGRANNodeToTargetNGRANNodeTransparentContainerExtIEs :: gtype where
  "SourceNGRANNodeToTargetNGRANNodeTransparentContainerExtIEs = TStruct [
     Field ''Id'' '''' ProtocolExtensionID,
     Field ''Criticality'' '''' Criticality,
     Field ''ExtensionValue'' ''openType,referenceFieldName:Id'' SourceNGRANNodeToTargetNGRANNodeTransparentContainerExtIEsExtensionValue]"

definition ProtocolExtensionContainerSourceNGRANNodeToTargetNGRANNodeTransparentContainerExtIEs :: gtype where
  "ProtocolExtensionContainerSourceNGRANNodeToTargetNGRANNodeTransparentContainerExtIEs = TStruct [
     Field ''List'' ''sizeLB:1,sizeUB:65535'' (TSlice SourceNGRANNodeToTargetNGRANNodeTransparentContainerExtIEs)]"

definition TargetNGRANNodeToSourceNGRANNodeTransparentContainerExtIEsExtensionValue :: gtype where
  "TargetNGRANNodeToSourceNGRANNodeTransparentContainerExtIEsExtensionValue = TStruct [
     Field ''Present'' '''' TInt]"

definition TargetNGRANNodeToSourceNGRANNodeTransparentContainerExtIEs :: gtype where
  "TargetNGRANNodeToSourceNGRANNodeTransparentContainerExtIEs = TStruct [
     Field ''Id'' '''' ProtocolExtensionID,
     Field ''Criticality'' '''' Criticality,
     Field ''ExtensionValue'' ''openType,referenceFieldName:Id'' TargetNGRANNodeToSourceNGRANNodeTransparentContainerExtIEsExtensionValue]"

definition ProtocolExtensionContainerTargetNGRANNodeToSourceNGRANNodeTransparentContainerExtIEs :: gtype where
  "ProtocolExtensionContainerTargetNGRANNodeToSourceNGRANNodeTransparentContainerExtIEs = TStruct [
     Field ''List'' ''sizeLB:1,sizeUB:65535'' (TSlice TargetNGRANNodeToSourceNGRANNodeTransparentContainerExtIEs)]"

definition AMFPagingTargetExtIEsValue :: gtype where
  "AMFPagingTargetExtIEsValue = TStruct [Field ''Present'' '''' TInt]"

definition AMFPagingTargetExtIEs :: gtype where
  "AMFPagingTargetExtIEs = TStruct [
     Field ''Id'' '''' ProtocolIEID,
     Field ''Criticality'' '''' Criticality,
     Field ''Value'' ''openType,referenceFieldName:Id'' AMFPagingTargetExtIEsValue]"

definition BroadcastCancelledAreaListExtIEsValue :: gtype where
  "BroadcastCancelledAreaListExtIEsValue = TStruct [Field ''Present'' '''' TInt]"

definition BroadcastCancelledAreaListExtIEs :: gtype where
  "BroadcastCancelledAreaListExtIEs = TStruct [
     Field ''Id'' '''' ProtocolIEID,
     Field ''Criticality'' '''' Criticality,
     Field ''Value'' ''openType,referenceFieldName:Id'' BroadcastCancelledAreaListExtIEsValue]"

definition BroadcastCompletedAreaListExtIEsValue :: gtype where
  "BroadcastCompletedAreaListExtIEsValue = TStruct [Field ''Present'' '''' TInt]"

definition BroadcastCompletedAreaListExtIEs :: gtype where
  "BroadcastCompletedAreaListExtIEs = TStruct [
     Field ''Id'' '''' ProtocolIEID,
     Field ''Criticality'' '''' Criticality,
     Field ''Value'' ''openType,referenceFieldName:Id'' BroadcastCompletedAreaListExtIEsValue]"

definition CauseExtIEsValue :: gtype where
  "CauseExtIEsValue = TStruct [Field ''Present'' '''' TInt]"

definition CauseExtIEs :: gtype where
  "CauseExtIEs = TStruct [
     Field ''Id'' '''' ProtocolIEID,
     Field ''Criticality'' '''' Criticality,
     Field ''Value'' ''openType,referenceFieldName:Id'' CauseExtIEsValue]"

definition CellIDListForRestartExtIEsValue :: gtype where
  "CellIDListForRestartExtIEsValue = TStruct [Field ''Present'' '''' TInt]"

definition CellIDListForRestartExtIEs :: gtype where
  "CellIDListForRestartExtIEs = TStruct [
     Field ''Id'' '''' ProtocolIEID,
     Field ''Criticality'' '''' Criticality,
     Field ''Value'' ''openType,referenceFieldName:Id'' CellIDListForRestartExtIEsValue]"

definition CPTransportLayerInformationExtIEsValue :: gtype where
  "CPTransportLayerInformationExtIEsValue = TStruct [Field ''Present'' '''' TInt]"

definition CPTransportLayerInformationExtIEs :: gtype where
  "CPTransportLayerInformationExtIEs = TStruct [
     Field ''Id'' '''' ProtocolIEID,
     Field ''Criticality'' '''' Criticality,
     Field ''Value'' ''openType,referenceFieldName:Id'' CPTransportLayerInformationExtIEsValue]"

definition DRBStatusDLExtIEsValue :: gtype where
  "DRBStatusDLExtIEsValue = TStruct [Field ''Present'' '''' TInt]"

definition DRBStatusDLExtIEs :: gtype where
  "DRBStatusDLExtIEs = TStruct [
     Field ''Id'' '''' ProtocolIEID,
     Field ''Criticality'' '''' Criticality,
     Field ''Value'' ''openType,referenceFieldName:Id'' DRBStatusDLExtIEsValue]"

definition DRBStatusULExtIEsValue :: gtype where
  "DRBStatusULExtIEsValue = TStruct [Field ''Present'' '''' TInt]"

definition DRBStatusULExtIEs :: gtype where
  "DRBStatusULExtIEs = TStruct [
     Field ''Id'' '''' ProtocolIEID,
     Field ''Criticality'' '''' Criticality,
     Field ''Value'' ''openType,referenceFieldName:Id'' DRBStatusULExtIEsValue]"

definition GlobalRANNodeIDExtIEsValue :: gtype where
  "GlobalRANNodeIDExtIEsValue = TStruct [Field ''Present'' '''' TInt]"

definition GlobalRANNodeIDExtIEs :: gtype where
  "GlobalRANNodeIDExtIEs = TStruct [
     Field ''Id'' '''' ProtocolIEID,
     Field ''Criticality'' '''' Criticality,
     Field ''Value'' ''openType,referenceFieldName:Id'' GlobalRANNodeIDExtIEsValue]"

definition GNBIDExtIEsValue :: gtype where
  "GNBIDExtIEsValue = TStruct [Field ''Present'' '''' TInt]"

definition GNBIDExtIEs :: gtype where
  "GNBIDExtIEs = TStruct [
     Field ''Id'' '''' ProtocolIEID,
     Field ''Criticality'' '''' Criticality,
     Field ''Value'' ''openType,referenceFieldName:Id'' GNBIDExtIEsValue]"

definition LastVisitedCellInformationExtIEsValue :: gtype where
  "LastVisitedCellInformationExtIEsValue = TStruct [Field ''Present'' '''' TInt]"

definition LastVisitedCellInformationExtIEs :: gtype where
  "LastVisitedCellInformationExtIEs = TStruct [
     Field ''Id'' '''' ProtocolIEID,
     Field ''Criticality'' '''' Criticality,
     Field ''Value'' ''openType,referenceFieldName:Id'' LastVisitedCellInformationExtIEsValue]"

definition N3IWFIDExtIEsValue :: gtype where
  "N3IWFIDExtIEsValue = TStruct [Field ''Present'' '''' TInt]"

definition N3IWFIDExtIEs :: gtype where
  "N3IWFIDExtIEs = TStruct [
     Field ''Id'' '''' ProtocolIEID,
     Field ''Criticality'' '''' Criticality,
     Field ''Value'' ''openType,referenceFieldName:Id'' N3IWFIDExtIEsValue]"

definition NgENBIDExtIEsValue :: gtype where
  "NgENBIDExtIEsValue = TStruct [Field ''Present'' '''' TInt]"

definition NgENBIDExtIEs :: gtype where
  "NgENBIDExtIEs = TStruct [
     Field ''Id'' '''' ProtocolIEID,
     Field ''Criticality'' '''' Criticality,
     Field ''Value'' ''openType,referenceFieldName:Id'' NgENBIDExtIEsValue]"

definition NGRANCGIExtIEsValue :: gtype where
  "NGRANCGIExtIEsValue = TStruct [Field ''Present'' '''' TInt]"

definition NGRANCGIExtIEs :: gtype where
  "NGRANCGIExtIEs = TStruct [
     Field ''Id'' '''' ProtocolIEID,
     Field ''Criticality'' '''' Criticality,
     Field ''Value'' ''openType,referenceFieldName:Id'' NGRANCGIExtIEsValue]"

definition OverloadResponseExtIEsValue :: gtype where
  "OverloadResponseExtIEsValue = TStruct [Field ''Present'' '''' TInt]"

definition OverloadResponseExtIEs :: gtype where
  "OverloadResponseExtIEs = TStruct [
     Field ''Id'' '''' ProtocolIEID,
     Field ''Criticality'' '''' Criticality,
     Field ''Value'' ''openType,referenceFieldName:Id'' OverloadResponseExtIEsValue]"

definition PWSFailedCellIDListExtIEsValue :: gtype where
  "PWSFailedCellIDListExtIEsValue = TStruct [Field ''Present'' '''' TInt]"

definition PWSFailedCellIDListExtIEs :: gtype where
  "PWSFailedCellIDListExtIEs = TStruct [
     Field ''Id'' '''' ProtocolIEID,
     Field ''Criticality'' '''' Criticality,
     Field ''Value'' ''openType,referenceFieldName:Id'' PWSFailedCellIDListExtIEsValue]"

definition QosCharacteristicsExtIEsValue :: gtype where
  "QosCharacteristicsExtIEsValue = TStruct [Field ''Present'' '''' TInt]"

definition QosCharacteristicsExtIEs :: gtype where
  "QosCharacteristicsExtIEs = TStruct [
     Field ''Id'' '''' ProtocolIEID,
     Field ''Criticality'' '''' Criticality,
     Field ''Value'' ''openType,referenceFieldName:Id'' QosCharacteristicsExtIEsValue]"

definition ResetTypeExtIEsValue :: gtype where
  "ResetTypeExtIEsValue = TStruct [Field ''Present'' '''' TInt]"

definition ResetTypeExtIEs :: gtype where
  "ResetTypeExtIEs = TStruct [
     Field ''Id'' '''' ProtocolIEID,
     Field ''Criticality'' '''' Criticality,
     Field ''Value'' ''openType,referenceFieldName:Id'' ResetTypeExtIEsValue]"

definition SONInformationExtIEsValue :: gtype where
  "SONInformationExtIEsValue = TStruct [Field ''Present'' '''' TInt]"

definition SONInformationExtIEs :: gtype where
  "SONInformationExtIEs = TStruct [
     Field ''Id'' '''' ProtocolIEID,
     Field ''Criticality'' '''' Criticality,
     Field ''Value'' ''openType,referenceFieldName:Id'' SONInformationExtIEsValue]"

definition TargetIDExtIEsValue :: gtype where
  "TargetIDExtIEsValue = TStruct [Field ''Present'' '''' TInt]"

definition TargetIDExtIEs :: gtype where
  "TargetIDExtIEs = TStruct [
     Field ''Id'' '''' ProtocolIEID,
     Field ''Criticality'' '''' Criticality,
     Field ''Value'' ''openType,referenceFieldName:Id'' TargetIDExtIEsValue]"

definition UEIdentityIndexValueExtIEsValue :: gtype where
  "UEIdentityIndexValueExtIEsValue = TStruct [Field ''Present'' '''' TInt]"

definition UEIdentityIndexValueExtIEs :: gtype where
  "UEIdentityIndexValueExtIEs = TStruct [
     Field ''Id'' '''' ProtocolIEID,
     Field ''Criticality'' '''' Criticality,
     Field ''Value'' ''openType,referenceFieldName:Id'' UEIdentityIndexValueExtIEsValue]"

definition UENGAPIDsExtIEsValue :: gtype where
  "UENGAPIDsExtIEsValue = TStruct [Field ''Present'' '''' TInt]"

definition UENGAPIDsExtIEs :: gtype where
  "UENGAPIDsExtIEs = TStruct [
     Field ''Id'' '''' ProtocolIEID,
     Field ''Criticality'' '''' Criticality,
     Field ''Value'' ''openType,referenceFieldName:Id'' UENGAPIDsExtIEsValue]"

definition UEPagingIdentityExtIEsValue :: gtype where
  "UEPagingIdentityExtIEsValue = TStruct [Field ''Present'' '''' TInt]"

definition UEPagingIdentityExtIEs :: gtype where
  "UEPagingIdentityExtIEs = TStruct [
     Field ''Id'' '''' ProtocolIEID,
     Field ''Criticality'' '''' Criticality,
     Field ''Value'' ''openType,referenceFieldName:Id'' UEPagingIdentityExtIEsValue]"

definition UPTNLInformationExtIEsValue :: gtype where
  "UPTNLInformationExtIEsValue = TStruct [Field ''Present'' '''' TInt]"

definition UPTNLInformationExtIEs :: gtype where
  "UPTNLInformationExtIEs = TStruct [
     Field ''Id'' '''' ProtocolIEID,
     Field ''Criticality'' '''' Criticality,
     Field ''Value'' ''openType,referenceFieldName:Id'' UPTNLInformationExtIEsValue]"

definition UPTransportLayerInformationExtIEsValue :: gtype where
  "UPTransportLayerInformationExtIEsValue = TStruct [Field ''Present'' '''' TInt]"

definition UPTransportLayerInformationExtIEs :: gtype where
  "UPTransportLayerInformationExtIEs = TStruct [
     Field ''Id'' '''' ProtocolIEID,
     Field ''Criticality'' '''' Criticality,
     Field ''Value'' ''openType,referenceFieldName:Id'' UPTransportLayerInformationExtIEsValue]"

definition UserLocationInformationExtIEsValue :: gtype where
  "UserLocationInformationExtIEsValue = TStruct [Field ''Present'' '''' TInt]"

definition UserLocationInformationExtIEs :: gtype where
  "UserLocationInformationExtIEs = TStruct [
     Field ''Id'' '''' ProtocolIEID,
     Field ''Criticality'' '''' Criticality,
     Field ''Value'' ''openType,referenceFieldName:Id'' UserLocationInformationExtIEsValue]"

definition WarningAreaListExtIEsValue :: gtype where
  "WarningAreaListExtIEsValue = TStruct [Field ''Present'' '''' TInt]"

definition WarningAreaListExtIEs :: gtype where
  "WarningAreaListExtIEs = TStruct [
     Field ''Id'' '''' ProtocolIEID,
     Field ''Criticality'' '''' Criticality,
     Field ''Value'' ''openType,referenceFieldName:Id'' WarningAreaListExtIEsValue]"

definition QosFlowSetupResponseItemSURes :: gtype where
  "QosFlowSetupResponseItemSURes = TStruct [
     Field ''QosFlowIdentifier'' '''' QosFlowIdentifier,
     Field ''IEExtensions'' ''optional'' (TPtr ProtocolExtensionContainerQosFlowSetupResponseItemSUResExtIEs)]"

definition QosFlowSetupResponseListSURes :: gtype where
  "QosFlowSetupResponseListSURes = TStruct [
     Field ''List'' ''valueExt,sizeLB:1,sizeUB:64'' (TSlice QosFlowSetupResponseItemSURes)]"

definition RRCContainer :: gtype where
  "RRCContainer = TStruct [Field ''Value'' '''' TOctetString]"

definition ReferenceID :: gtype where
  "ReferenceID = TStruct [Field ''Value'' ''valueExt,valueLB:1,valueUB:64'' TInt]"

definition UEHistoryInformation :: gtype where
  "UEHistoryInformation = TStruct [
     Field ''List'' ''valueExt,sizeLB:1,sizeUB:16'' (TSlice LastVisitedCellItem)]"

definition SourceNGRANNodeToTargetNGRANNodeTransparentContainer :: gtype where
  "SourceNGRANNodeToTargetNGRANNodeTransparentContainer = TStruct [
     Field ''RRCContainer'' '''' RRCContainer,
     Field ''PDUSessionResourceInformationList'' ''optional'' (TPtr PDUSessionResourceInformationList),
     Field ''ERABInformationList'' ''optional'' (TPtr ERABInformationList),
     Field ''TargetCellID'' ''valueLB:0,valueUB:2'' NGRANCGI,
     Field ''IndexToRFSP'' ''optional'' (TPtr IndexToRFSP),
     Field ''UEHistoryInformation'' '''' UEHistoryInformation,
     Field ''IEExtensions'' ''optional'' (TPtr ProtocolExtensionContainerSourceNGRANNodeToTargetNGRANNodeTransparentContainerExtIEs)]"

definition TargetNGRANNodeToSourceNGRANNodeTransparentContainer :: gtype where
  "TargetNGRANNodeToSourceNGRANNodeTransparentContainer = TStruct [
     Field ''RRCContainer'' '''' RRCContainer,
     Field ''IEExtensions'' ''optional'' (TPtr ProtocolExtensionContainerTargetNGRANNodeToSourceNGRANNodeTransparentContainerExtIEs)]"

end
