(* ===== verification/Ngap_Constants.thy ===== *)
theory Ngap_Constants
  imports Ngap_Transfer_Types
begin

text \<open>
  The constants of \<^verbatim>\<open>lib/ngap/ngapType\<close> that the message builders use: identifiers of procedures and
  information elements, alternatives of CHOICEs and enumerated values.
\<close>

abbreviation (input) CausePresentRadioNetwork :: int where
  "CausePresentRadioNetwork \<equiv> 1"

abbreviation (input) CauseRadioNetworkPresentHandoverDesirableForRadioReason :: u64 where
  "CauseRadioNetworkPresentHandoverDesirableForRadioReason \<equiv> 16"

abbreviation (input) CauseRadioNetworkPresentUserInactivity :: u64 where
  "CauseRadioNetworkPresentUserInactivity \<equiv> 20"

abbreviation (input) CellSizePresentVerysmall :: u64 where
  "CellSizePresentVerysmall \<equiv> 0"

abbreviation (input) CriticalityPresentReject :: u64 where
  "CriticalityPresentReject \<equiv> 0"

abbreviation (input) CriticalityPresentIgnore :: u64 where
  "CriticalityPresentIgnore \<equiv> 1"

abbreviation (input) GNBIDPresentGNBID :: int where
  "GNBIDPresentGNBID \<equiv> 1"

abbreviation (input) GlobalRANNodeIDPresentGlobalGNBID :: int where
  "GlobalRANNodeIDPresentGlobalGNBID \<equiv> 1"

abbreviation (input) HandoverTypePresentIntra5gs :: u64 where
  "HandoverTypePresentIntra5gs \<equiv> 0"

abbreviation (input) InitiatingMessagePresentHandoverRequired :: int where
  "InitiatingMessagePresentHandoverRequired \<equiv> 3"

abbreviation (input) InitiatingMessagePresentNGSetupRequest :: int where
  "InitiatingMessagePresentNGSetupRequest \<equiv> 7"

abbreviation (input) InitiatingMessagePresentPathSwitchRequest :: int where
  "InitiatingMessagePresentPathSwitchRequest \<equiv> 8"

abbreviation (input) InitiatingMessagePresentErrorIndication :: int where
  "InitiatingMessagePresentErrorIndication \<equiv> 27"

abbreviation (input) InitiatingMessagePresentHandoverNotify :: int where
  "InitiatingMessagePresentHandoverNotify \<equiv> 28"

abbreviation (input) InitiatingMessagePresentInitialUEMessage :: int where
  "InitiatingMessagePresentInitialUEMessage \<equiv> 29"

abbreviation (input) InitiatingMessagePresentUEContextReleaseRequest :: int where
  "InitiatingMessagePresentUEContextReleaseRequest \<equiv> 45"

abbreviation (input) InitiatingMessagePresentUplinkNASTransport :: int where
  "InitiatingMessagePresentUplinkNASTransport \<equiv> 48"

abbreviation (input) LastVisitedCellInformationPresentNGRANCell :: int where
  "LastVisitedCellInformationPresentNGRANCell \<equiv> 1"

abbreviation (input) NGAPPDUPresentInitiatingMessage :: int where
  "NGAPPDUPresentInitiatingMessage \<equiv> 1"

abbreviation (input) NGAPPDUPresentSuccessfulOutcome :: int where
  "NGAPPDUPresentSuccessfulOutcome \<equiv> 2"

abbreviation (input) NGRANCGIPresentNRCGI :: int where
  "NGRANCGIPresentNRCGI \<equiv> 1"

abbreviation (input) PagingDRXPresentV32 :: u64 where
  "PagingDRXPresentV32 \<equiv> 0"

abbreviation (input) PagingDRXPresentV64 :: u64 where
  "PagingDRXPresentV64 \<equiv> 1"

abbreviation (input) PagingDRXPresentV128 :: u64 where
  "PagingDRXPresentV128 \<equiv> 2"

abbreviation (input) PagingDRXPresentV256 :: u64 where
  "PagingDRXPresentV256 \<equiv> 3"

abbreviation (input) ProcedureCodeErrorIndication :: int where
  "ProcedureCodeErrorIndication \<equiv> 9"

abbreviation (input) ProcedureCodeHandoverNotification :: int where
  "ProcedureCodeHandoverNotification \<equiv> 11"

abbreviation (input) ProcedureCodeHandoverPreparation :: int where
  "ProcedureCodeHandoverPreparation \<equiv> 12"

abbreviation (input) ProcedureCodeHandoverResourceAllocation :: int where
  "ProcedureCodeHandoverResourceAllocation \<equiv> 13"

abbreviation (input) ProcedureCodeInitialContextSetup :: int where
  "ProcedureCodeInitialContextSetup \<equiv> 14"

abbreviation (input) ProcedureCodeInitialUEMessage :: int where
  "ProcedureCodeInitialUEMessage \<equiv> 15"

abbreviation (input) ProcedureCodeNGSetup :: int where
  "ProcedureCodeNGSetup \<equiv> 21"

abbreviation (input) ProcedureCodePathSwitchRequest :: int where
  "ProcedureCodePathSwitchRequest \<equiv> 25"

abbreviation (input) ProcedureCodePDUSessionResourceModify :: int where
  "ProcedureCodePDUSessionResourceModify \<equiv> 26"

abbreviation (input) ProcedureCodePDUSessionResourceRelease :: int where
  "ProcedureCodePDUSessionResourceRelease \<equiv> 28"

abbreviation (input) ProcedureCodePDUSessionResourceSetup :: int where
  "ProcedureCodePDUSessionResourceSetup \<equiv> 29"

abbreviation (input) ProcedureCodeUEContextRelease :: int where
  "ProcedureCodeUEContextRelease \<equiv> 41"

abbreviation (input) ProcedureCodeUEContextReleaseRequest :: int where
  "ProcedureCodeUEContextReleaseRequest \<equiv> 42"

abbreviation (input) ProcedureCodeUplinkNASTransport :: int where
  "ProcedureCodeUplinkNASTransport \<equiv> 46"

abbreviation (input) PDUSessionResourceSetupResponseIEsPresentAMFUENGAPID :: int where
  "PDUSessionResourceSetupResponseIEsPresentAMFUENGAPID \<equiv> 1"

abbreviation (input) PDUSessionResourceSetupResponseIEsPresentRANUENGAPID :: int where
  "PDUSessionResourceSetupResponseIEsPresentRANUENGAPID \<equiv> 2"

abbreviation (input) PDUSessionResourceSetupResponseIEsPresentPDUSessionResourceSetupListSURes :: int where
  "PDUSessionResourceSetupResponseIEsPresentPDUSessionResourceSetupListSURes \<equiv> 3"

abbreviation (input) PDUSessionResourceReleaseResponseIEsPresentAMFUENGAPID :: int where
  "PDUSessionResourceReleaseResponseIEsPresentAMFUENGAPID \<equiv> 1"

abbreviation (input) PDUSessionResourceReleaseResponseIEsPresentRANUENGAPID :: int where
  "PDUSessionResourceReleaseResponseIEsPresentRANUENGAPID \<equiv> 2"

abbreviation (input) PDUSessionResourceReleaseResponseIEsPresentPDUSessionResourceReleasedListRelRes :: int where
  "PDUSessionResourceReleaseResponseIEsPresentPDUSessionResourceReleasedListRelRes \<equiv> 3"

abbreviation (input) PDUSessionResourceModifyResponseIEsPresentAMFUENGAPID :: int where
  "PDUSessionResourceModifyResponseIEsPresentAMFUENGAPID \<equiv> 1"

abbreviation (input) PDUSessionResourceModifyResponseIEsPresentRANUENGAPID :: int where
  "PDUSessionResourceModifyResponseIEsPresentRANUENGAPID \<equiv> 2"

abbreviation (input) PDUSessionResourceModifyResponseIEsPresentPDUSessionResourceModifyListModRes :: int where
  "PDUSessionResourceModifyResponseIEsPresentPDUSessionResourceModifyListModRes \<equiv> 3"

abbreviation (input) InitialContextSetupResponseIEsPresentAMFUENGAPID :: int where
  "InitialContextSetupResponseIEsPresentAMFUENGAPID \<equiv> 1"

abbreviation (input) InitialContextSetupResponseIEsPresentRANUENGAPID :: int where
  "InitialContextSetupResponseIEsPresentRANUENGAPID \<equiv> 2"

abbreviation (input) InitialContextSetupResponseIEsPresentPDUSessionResourceSetupListCxtRes :: int where
  "InitialContextSetupResponseIEsPresentPDUSessionResourceSetupListCxtRes \<equiv> 3"

abbreviation (input) UEContextReleaseRequestIEsPresentAMFUENGAPID :: int where
  "UEContextReleaseRequestIEsPresentAMFUENGAPID \<equiv> 1"

abbreviation (input) UEContextReleaseRequestIEsPresentRANUENGAPID :: int where
  "UEContextReleaseRequestIEsPresentRANUENGAPID \<equiv> 2"

abbreviation (input) UEContextReleaseRequestIEsPresentCause :: int where
  "UEContextReleaseRequestIEsPresentCause \<equiv> 4"

abbreviation (input) UEContextReleaseCompleteIEsPresentAMFUENGAPID :: int where
  "UEContextReleaseCompleteIEsPresentAMFUENGAPID \<equiv> 1"

abbreviation (input) UEContextReleaseCompleteIEsPresentRANUENGAPID :: int where
  "UEContextReleaseCompleteIEsPresentRANUENGAPID \<equiv> 2"

abbreviation (input) HandoverRequiredIEsPresentAMFUENGAPID :: int where
  "HandoverRequiredIEsPresentAMFUENGAPID \<equiv> 1"

abbreviation (input) HandoverRequiredIEsPresentRANUENGAPID :: int where
  "HandoverRequiredIEsPresentRANUENGAPID \<equiv> 2"

abbreviation (input) HandoverRequiredIEsPresentHandoverType :: int where
  "HandoverRequiredIEsPresentHandoverType \<equiv> 3"

abbreviation (input) HandoverRequiredIEsPresentCause :: int where
  "HandoverRequiredIEsPresentCause \<equiv> 4"

abbreviation (input) HandoverRequiredIEsPresentTargetID :: int where
  "HandoverRequiredIEsPresentTargetID \<equiv> 5"

abbreviation (input) HandoverRequiredIEsPresentPDUSessionResourceListHORqd :: int where
  "HandoverRequiredIEsPresentPDUSessionResourceListHORqd \<equiv> 7"

abbreviation (input) HandoverRequiredIEsPresentSourceToTargetTransparentContainer :: int where
  "HandoverRequiredIEsPresentSourceToTargetTransparentContainer \<equiv> 8"

abbreviation (input) HandoverRequestAcknowledgeIEsPresentAMFUENGAPID :: int where
  "HandoverRequestAcknowledgeIEsPresentAMFUENGAPID \<equiv> 1"

abbreviation (input) HandoverRequestAcknowledgeIEsPresentRANUENGAPID :: int where
  "HandoverRequestAcknowledgeIEsPresentRANUENGAPID \<equiv> 2"

abbreviation (input) HandoverRequestAcknowledgeIEsPresentPDUSessionResourceAdmittedList :: int where
  "HandoverRequestAcknowledgeIEsPresentPDUSessionResourceAdmittedList \<equiv> 3"

abbreviation (input) HandoverRequestAcknowledgeIEsPresentTargetToSourceTransparentContainer :: int where
  "HandoverRequestAcknowledgeIEsPresentTargetToSourceTransparentContainer \<equiv> 5"

abbreviation (input) HandoverNotifyIEsPresentAMFUENGAPID :: int where
  "HandoverNotifyIEsPresentAMFUENGAPID \<equiv> 1"

abbreviation (input) HandoverNotifyIEsPresentRANUENGAPID :: int where
  "HandoverNotifyIEsPresentRANUENGAPID \<equiv> 2"

abbreviation (input) HandoverNotifyIEsPresentUserLocationInformation :: int where
  "HandoverNotifyIEsPresentUserLocationInformation \<equiv> 3"

abbreviation (input) PathSwitchRequestIEsPresentRANUENGAPID :: int where
  "PathSwitchRequestIEsPresentRANUENGAPID \<equiv> 1"

abbreviation (input) PathSwitchRequestIEsPresentSourceAMFUENGAPID :: int where
  "PathSwitchRequestIEsPresentSourceAMFUENGAPID \<equiv> 2"

abbreviation (input) PathSwitchRequestIEsPresentUserLocationInformation :: int where
  "PathSwitchRequestIEsPresentUserLocationInformation \<equiv> 3"

abbreviation (input) PathSwitchRequestIEsPresentUESecurityCapabilities :: int where
  "PathSwitchRequestIEsPresentUESecurityCapabilities \<equiv> 4"

abbreviation (input) PathSwitchRequestIEsPresentPDUSessionResourceToBeSwitchedDLList :: int where
  "PathSwitchRequestIEsPresentPDUSessionResourceToBeSwitchedDLList \<equiv> 5"

abbreviation (input) InitialUEMessageIEsPresentRANUENGAPID :: int where
  "InitialUEMessageIEsPresentRANUENGAPID \<equiv> 1"

abbreviation (input) InitialUEMessageIEsPresentNASPDU :: int where
  "InitialUEMessageIEsPresentNASPDU \<equiv> 2"

abbreviation (input) InitialUEMessageIEsPresentUserLocationInformation :: int where
  "InitialUEMessageIEsPresentUserLocationInformation \<equiv> 3"

abbreviation (input) InitialUEMessageIEsPresentRRCEstablishmentCause :: int where
  "InitialUEMessageIEsPresentRRCEstablishmentCause \<equiv> 4"

abbreviation (input) InitialUEMessageIEsPresentFiveGSTMSI :: int where
  "InitialUEMessageIEsPresentFiveGSTMSI \<equiv> 5"

abbreviation (input) InitialUEMessageIEsPresentUEContextRequest :: int where
  "InitialUEMessageIEsPresentUEContextRequest \<equiv> 7"

abbreviation (input) UplinkNASTransportIEsPresentAMFUENGAPID :: int where
  "UplinkNASTransportIEsPresentAMFUENGAPID \<equiv> 1"

abbreviation (input) UplinkNASTransportIEsPresentRANUENGAPID :: int where
  "UplinkNASTransportIEsPresentRANUENGAPID \<equiv> 2"

abbreviation (input) UplinkNASTransportIEsPresentNASPDU :: int where
  "UplinkNASTransportIEsPresentNASPDU \<equiv> 3"

abbreviation (input) UplinkNASTransportIEsPresentUserLocationInformation :: int where
  "UplinkNASTransportIEsPresentUserLocationInformation \<equiv> 4"

abbreviation (input) NGSetupRequestIEsPresentGlobalRANNodeID :: int where
  "NGSetupRequestIEsPresentGlobalRANNodeID \<equiv> 1"

abbreviation (input) NGSetupRequestIEsPresentRANNodeName :: int where
  "NGSetupRequestIEsPresentRANNodeName \<equiv> 2"

abbreviation (input) NGSetupRequestIEsPresentSupportedTAList :: int where
  "NGSetupRequestIEsPresentSupportedTAList \<equiv> 3"

abbreviation (input) NGSetupRequestIEsPresentDefaultPagingDRX :: int where
  "NGSetupRequestIEsPresentDefaultPagingDRX \<equiv> 4"

abbreviation (input) ErrorIndicationIEsPresentAMFUENGAPID :: int where
  "ErrorIndicationIEsPresentAMFUENGAPID \<equiv> 1"

abbreviation (input) ErrorIndicationIEsPresentRANUENGAPID :: int where
  "ErrorIndicationIEsPresentRANUENGAPID \<equiv> 2"

abbreviation (input) ErrorIndicationIEsPresentCause :: int where
  "ErrorIndicationIEsPresentCause \<equiv> 3"

abbreviation (input) ProtocolIEIDAMFUENGAPID :: int where
  "ProtocolIEIDAMFUENGAPID \<equiv> 10"

abbreviation (input) ProtocolIEIDCause :: int where
  "ProtocolIEIDCause \<equiv> 15"

abbreviation (input) ProtocolIEIDDefaultPagingDRX :: int where
  "ProtocolIEIDDefaultPagingDRX \<equiv> 21"

abbreviation (input) ProtocolIEIDFiveGSTMSI :: int where
  "ProtocolIEIDFiveGSTMSI \<equiv> 26"

abbreviation (input) ProtocolIEIDGlobalRANNodeID :: int where
  "ProtocolIEIDGlobalRANNodeID \<equiv> 27"

abbreviation (input) ProtocolIEIDHandoverType :: int where
  "ProtocolIEIDHandoverType \<equiv> 29"

abbreviation (input) ProtocolIEIDNASPDU :: int where
  "ProtocolIEIDNASPDU \<equiv> 38"

abbreviation (input) ProtocolIEIDPDUSessionResourceAdmittedList :: int where
  "ProtocolIEIDPDUSessionResourceAdmittedList \<equiv> 53"

abbreviation (input) ProtocolIEIDPDUSessionResourceListHORqd :: int where
  "ProtocolIEIDPDUSessionResourceListHORqd \<equiv> 61"

abbreviation (input) ProtocolIEIDPDUSessionResourceModifyListModRes :: int where
  "ProtocolIEIDPDUSessionResourceModifyListModRes \<equiv> 65"

abbreviation (input) ProtocolIEIDPDUSessionResourceReleasedListRelRes :: int where
  "ProtocolIEIDPDUSessionResourceReleasedListRelRes \<equiv> 70"

abbreviation (input) ProtocolIEIDPDUSessionResourceSetupListCxtRes :: int where
  "ProtocolIEIDPDUSessionResourceSetupListCxtRes \<equiv> 72"

abbreviation (input) ProtocolIEIDPDUSessionResourceSetupListSURes :: int where
  "ProtocolIEIDPDUSessionResourceSetupListSURes \<equiv> 75"

abbreviation (input) ProtocolIEIDPDUSessionResourceToBeSwitchedDLList :: int where
  "ProtocolIEIDPDUSessionResourceToBeSwitchedDLList \<equiv> 76"

abbreviation (input) ProtocolIEIDRANNodeName :: int where
  "ProtocolIEIDRANNodeName \<equiv> 82"

abbreviation (input) ProtocolIEIDRANUENGAPID :: int where
  "ProtocolIEIDRANUENGAPID \<equiv> 85"

abbreviation (input) ProtocolIEIDRRCEstablishmentCause :: int where
  "ProtocolIEIDRRCEstablishmentCause \<equiv> 90"

abbreviation (input) ProtocolIEIDSourceAMFUENGAPID :: int where
  "ProtocolIEIDSourceAMFUENGAPID \<equiv> 100"

abbreviation (input) ProtocolIEIDSourceToTargetTransparentContainer :: int where
  "ProtocolIEIDSourceToTargetTransparentContainer \<equiv> 101"

abbreviation (input) ProtocolIEIDSupportedTAList :: int where
  "ProtocolIEIDSupportedTAList \<equiv> 102"

abbreviation (input) ProtocolIEIDTargetID :: int where
  "ProtocolIEIDTargetID \<equiv> 105"

abbreviation (input) ProtocolIEIDTargetToSourceTransparentContainer :: int where
  "ProtocolIEIDTargetToSourceTransparentContainer \<equiv> 106"

abbreviation (input) ProtocolIEIDUEContextRequest :: int where
  "ProtocolIEIDUEContextRequest \<equiv> 112"

abbreviation (input) ProtocolIEIDUESecurityCapabilities :: int where
  "ProtocolIEIDUESecurityCapabilities \<equiv> 119"

abbreviation (input) ProtocolIEIDUserLocationInformation :: int where
  "ProtocolIEIDUserLocationInformation \<equiv> 121"

abbreviation (input) SuccessfulOutcomePresentHandoverRequestAcknowledge :: int where
  "SuccessfulOutcomePresentHandoverRequestAcknowledge \<equiv> 4"

abbreviation (input) SuccessfulOutcomePresentInitialContextSetupResponse :: int where
  "SuccessfulOutcomePresentInitialContextSetupResponse \<equiv> 5"

abbreviation (input) SuccessfulOutcomePresentPDUSessionResourceModifyResponse :: int where
  "SuccessfulOutcomePresentPDUSessionResourceModifyResponse \<equiv> 9"

abbreviation (input) SuccessfulOutcomePresentPDUSessionResourceReleaseResponse :: int where
  "SuccessfulOutcomePresentPDUSessionResourceReleaseResponse \<equiv> 11"

abbreviation (input) SuccessfulOutcomePresentPDUSessionResourceSetupResponse :: int where
  "SuccessfulOutcomePresentPDUSessionResourceSetupResponse \<equiv> 12"

abbreviation (input) SuccessfulOutcomePresentUEContextReleaseComplete :: int where
  "SuccessfulOutcomePresentUEContextReleaseComplete \<equiv> 16"

abbreviation (input) TargetIDPresentTargetRANNodeID :: int where
  "TargetIDPresentTargetRANNodeID \<equiv> 1"

abbreviation (input) UEContextRequestPresentRequested :: u64 where
  "UEContextRequestPresentRequested \<equiv> 0"

abbreviation (input) UPTransportLayerInformationPresentGTPTunnel :: int where
  "UPTransportLayerInformationPresentGTPTunnel \<equiv> 1"

abbreviation (input) UserLocationInformationPresentUserLocationInformationNR :: int where
  "UserLocationInformationPresentUserLocationInformationNR \<equiv> 2"

end
