(* ===== verification/Identity.thy ===== *)
theory Identity
  imports Go_Strings
begin

text \<open>
  Identities on the wire: PLMN (\<^verbatim>\<open>GetMccAndMncInOctets\<close> of both contexts, \<^verbatim>\<open>convertMccMnc\<close> of
  \<^verbatim>\<open>gnb/context/amf.go\<close>, \<^verbatim>\<open>lib/nas/nasConvert/PlmnId.go\<close>), the SUCI the UE sends and the string
  \<^verbatim>\<open>nasConvert.SuciToString\<close> makes of it, the 5G-GUTI and the AMF identifier. Go strings are lists
  of ASCII characters; indexing out of range is \<open>Panic\<close>.
\<close>

unbundle bit_operations_syntax

section \<open>PLMN\<close>

fun reverse_acc :: "string \<Rightarrow> string \<Rightarrow> string" where
  "reverse_acc [] aux = aux"
| "reverse_acc (valor # s) aux = reverse_acc s (valor # aux)"

definition reverse :: "string \<Rightarrow> string" where
  "reverse s = reverse_acc s []"

function pad_mcc :: "string \<Rightarrow> string" where
  "pad_mcc s = (if length s < 3 then pad_mcc (CHR ''0'' # s) else s)"
  by auto
termination by (relation "measure (\<lambda>s. 3 - length s)") auto

declare pad_mcc.simps [simp del]

definition GetMccAndMncInOctets :: "string \<Rightarrow> string \<Rightarrow> u8 list" where
  "GetMccAndMncInOctets mcc mnc =
     (let mccStr = TrimSpace mcc; mncStr = TrimSpace mnc;
          mccStr = (if length mccStr = 0 then ''001'' else mccStr);
          mccStr = pad_mcc mccStr;
          mccStr = (if length mccStr > 3 then take 3 mccStr else mccStr);
          mncStr = (if length mncStr = 0 then ''01'' else mncStr);
          mncStr = (if length mncStr = 1 then CHR ''0'' # mncStr else mncStr);
          mncStr = (if length mncStr > 3 then take 3 mncStr else mncStr);
          mcc = reverse mccStr; mnc = reverse mncStr;
          oct5 = take 2 (drop 1 mcc);
          (oct6, oct7) = (if length mncStr = 2 then ([CHR ''f'', mcc ! 0], mnc)
                          else ([mnc ! 0, mcc ! 0], take 2 (drop 1 mnc)))
      in case DecodeString (oct5 @ oct6 @ oct7) of
           (resu, None) \<Rightarrow> resu
         | (_, Some _) \<Rightarrow> [0x00, 0xf1, 0x10])"

definition convertMccMnc :: "string \<Rightarrow> (string \<times> string) res" where
  "convertMccMnc plmn =
     (if length plmn < 4 then Inl Panic
      else
        let mcc12 = take 2 plmn; mnc3 = plmn ! 2; mcc3 = plmn ! 3; mnc12 = drop 4 plmn;
            mcc = (if mcc3 \<noteq> CHR ''f'' then reverse mcc12 @ [mcc3] else reverse mcc12);
            mnc = (if mnc3 \<noteq> CHR ''f'' then reverse mnc12 @ [mnc3] else reverse mnc12)
        in Inr (mcc, mnc))"

text \<open>\<^verbatim>\<open>strconv.Atoi\<close> of a one-character string, with its zero on an error.\<close>

definition atoi1 :: "char \<Rightarrow> nat" where
  "atoi1 c = (if is_digit c then digit_val c else 0)"

definition PlmnIDToNas :: "string \<Rightarrow> string \<Rightarrow> u8 list res" where
  "PlmnIDToNas mcc mnc =
     (if length mcc < 3 \<or> length mnc < 2 then Inl Panic
      else
        let mncDigit3 = (if length mnc = 3 then atoi1 (mnc ! 2) else 0x0f)
        in Inr [of_nat (16 * atoi1 (mcc ! 1) + atoi1 (mcc ! 0)),
                of_nat (16 * mncDigit3 + atoi1 (mcc ! 2)),
                of_nat (16 * atoi1 (mnc ! 1) + atoi1 (mnc ! 0))])"

definition lo4 :: "u8 \<Rightarrow> u8" where
  "lo4 b = b AND 0x0f"

definition hi4 :: "u8 \<Rightarrow> u8" where
  "hi4 b = drop_bit 4 (b AND 0xf0)"

definition PlmnIDToString :: "u8 list \<Rightarrow> string res" where
  "PlmnIDToString nasBuf =
     (if length nasBuf < 3 then Inl Panic
      else
        let tmpBytes = [push_bit 4 (lo4 (nasBuf ! 0)) OR hi4 (nasBuf ! 0),
                        push_bit 4 (lo4 (nasBuf ! 1)) OR lo4 (nasBuf ! 2),
                        push_bit 4 (hi4 (nasBuf ! 2)) OR hi4 (nasBuf ! 1)];
            plmnID = EncodeToString tmpBytes
        in Inr (if plmnID ! 5 = CHR ''f'' then take 5 plmnID else plmnID))"

section \<open>SUCI\<close>

definition EncodeUeSuci :: "string \<Rightarrow> u8 list res" where
  "EncodeUeSuci msin =
     (case DecodeString (reverse msin) of
        (_, Some _) \<Rightarrow> Inr [0, 0, 0, 0, 0]
      | (suci, None) \<Rightarrow>
          if length msin = 8 then (if length suci < 4 then Inl Panic else Inr (take 4 suci @ [0]))
          else if length suci < 5 then Inl Panic else Inr (take 5 suci))"

text \<open>
  The identity \<^verbatim>\<open>NewRanUeContext\<close> stores: its length field and its buffer, nothing for an MSIN of
  another length than 8 or 10.
\<close>

definition suci_identity :: "string \<Rightarrow> string \<Rightarrow> string \<Rightarrow> (nat \<times> u8 list) option res" where
  "suci_identity mcc mnc msin =
     rbind (EncodeUeSuci msin) (\<lambda>v.
       let resu = GetMccAndMncInOctets mcc mnc;
           hdr = [0x01, resu ! 0, resu ! 1, resu ! 2, 0xf0, 0xff, 0x00, 0x00]
       in if length msin = 8 then Inr (Some (12, hdr @ [v ! 3, v ! 2, v ! 1, v ! 0]))
          else if length msin = 10 then Inr (Some (13, hdr @ [v ! 4, v ! 3, v ! 2, v ! 1, v ! 0]))
          else Inr None)"

definition RotateLeft8_4 :: "u8 \<Rightarrow> u8" where
  "RotateLeft8_4 b = push_bit 4 b OR drop_bit 4 b"

definition NaiToString :: "u8 list \<Rightarrow> string res" where
  "NaiToString buf = (if buf = [] then Inl Panic else Inr (''nai-1-'' @ EncodeToString (drop 1 buf)))"

definition SuciToString :: "u8 list \<Rightarrow> (string \<times> string) res" where
  "SuciToString buf =
     (if buf = [] then Inl Panic
      else if hi4 (buf ! 0) = 1 then rbind (NaiToString buf) (\<lambda>suci. Inr (suci, []))
      else if length buf < 8 then Inl Panic
      else
        let mcc = take 3 (EncodeToString [RotateLeft8_4 (buf ! 1), push_bit 4 (lo4 (buf ! 2))]);
            mnc = EncodeToString [RotateLeft8_4 (buf ! 3), push_bit 4 (hi4 (buf ! 2))];
            mnc = (if mnc ! 2 = CHR ''f'' then take 2 mnc else take 3 mnc);
            routingInd = takeWhile (\<lambda>c. c \<noteq> CHR ''f'')
              (EncodeToString [RotateLeft8_4 (buf ! 4), RotateLeft8_4 (buf ! 5)]);
            protectionScheme = (if unat (buf ! 6) < 16 then [hex_digit (unat (buf ! 6))] else hex_byte (buf ! 6));
            keyId = dec_nat (unat (buf ! 7))
        in rbind
             (if protectionScheme = ''0'' then
                let out = EncodeToString (map RotateLeft8_4 (drop 8 buf))
                in if out = [] then Inl Panic
                   else Inr (if last out = CHR ''f'' then butlast out else out)
              else Inr (EncodeToString (drop 8 buf)))
             (\<lambda>schemeOutput.
                Inr (''suci-0-'' @ mcc @ ''-'' @ mnc @ ''-'' @ routingInd @ ''-'' @ protectionScheme @ ''-'' @
                       keyId @ ''-'' @ schemeOutput, mcc @ mnc)))"

section \<open>GUTI and AMF identifier\<close>

definition AmfIdToNas :: "string \<Rightarrow> (u8 \<times> u16 \<times> u8) res" where
  "AmfIdToNas amfId =
     (let b = fst (DecodeString amfId) in
      if length b < 3 then Inl Panic
      else Inr (b ! 0,
                push_bit 2 (ucast (b ! 1)) + drop_bit 6 (ucast (b ! 2) AND 0x00c0),
                b ! 2 AND 0x3f))"

definition AmfIdToModels :: "u8 \<Rightarrow> u16 \<Rightarrow> u8 \<Rightarrow> string" where
  "AmfIdToModels amfRegionId amfSetId amfPointer =
     EncodeToString [amfRegionId, ucast (drop_bit 2 amfSetId) AND 0xff,
       ucast (amfSetId AND 0x03) + (amfPointer AND 0x3f)]"

definition GutiToString :: "u8 list \<Rightarrow> (string \<times> string \<times> string \<times> string) res" where
  "GutiToString buf =
     (if length buf < 7 then Inl Panic
      else rbind (PlmnIDToString (take 3 (drop 1 buf))) (\<lambda>plmnID.
        let amfID = EncodeToString (take 3 (drop 4 buf)); tmsi5G = EncodeToString (drop 7 buf)
        in Inr (take 3 plmnID, drop 3 plmnID, amfID, plmnID @ amfID @ tmsi5G)))"

section \<open>The serving network name\<close>

definition deriveSNN :: "string \<Rightarrow> string \<Rightarrow> string" where
  "deriveSNN mcc mnc =
     (if length mnc = 2 then ''5G:mnc0'' @ mnc @ ''.mcc'' @ mcc @ ''.3gppnetwork.org''
      else ''5G:mnc'' @ mnc @ ''.mcc'' @ mcc @ ''.3gppnetwork.org'')"

section \<open>Nibbles\<close>

definition nib :: "nat \<Rightarrow> nat \<Rightarrow> u8" where
  "nib x y = of_nat (16 * x + y)"

lemma nib_all:
  "list_all (\<lambda>x. list_all (\<lambda>y. RotateLeft8_4 (nib x y) = nib y x \<and> lo4 (nib x y) = nib 0 y \<and> hi4 (nib x y) = nib 0 x \<and>
     nib x 0 OR nib 0 y = nib x y \<and> push_bit 4 (nib 0 y) = nib y 0 \<and>
     hex_byte (nib x y) = [hex_digit x, hex_digit y]) [0..<16]) [0..<16]"
  by code_simp

lemma nib_simps:
  assumes "x < 16" "y < 16"
  shows "RotateLeft8_4 (nib x y) = nib y x" "lo4 (nib x y) = nib 0 y" "hi4 (nib x y) = nib 0 x"
    "nib x 0 OR nib 0 y = nib x y" "hex_byte (nib x y) = [hex_digit x, hex_digit y]"
  using nib_all assms by (simp_all add: list_all_iff)

lemma push_nib: "y < 16 \<Longrightarrow> push_bit 4 (nib 0 y) = nib y 0"
  using nib_all by (simp add: list_all_iff)

lemma digit_val_16: "is_digit c \<Longrightarrow> digit_val c < 16"
  using digit_val_less [of c] by simp

lemma reverse_rev [simp]: "reverse s = rev s"
proof -
  have "reverse_acc s aux = rev s @ aux" for aux by (induction s arbitrary: aux) simp_all
  then show ?thesis by (simp add: reverse_def)
qed

lemma DecodeString_nibbles:
  "DecodeString (a # b # r) =
     (case (hex_val a, hex_val b) of
        (Some x, Some y) \<Rightarrow> (nib x y # fst (DecodeString r), snd (DecodeString r))
      | _ \<Rightarrow> ([], Some (Fail ''encoding/hex: invalid byte'')))"
  by (simp add: nib_def split: option.split prod.split)

lemma hex_val_f: "hex_val CHR ''f'' = Some 15" "hex_digit 15 = CHR ''f''" "\<not> is_digit CHR ''f''"
  by code_simp+

lemma digit_not_f: "is_digit c \<Longrightarrow> c \<noteq> CHR ''f''"
  using hex_val_f(3) by blast

text \<open>A valid PLMN: three digits of MCC, two or three of MNC.\<close>

definition plmn_ok :: "string \<Rightarrow> string \<Rightarrow> bool" where
  "plmn_ok mcc mnc \<longleftrightarrow> length mcc = 3 \<and> (length mnc = 2 \<or> length mnc = 3) \<and>
     list_all is_digit mcc \<and> list_all is_digit mnc"

lemma plmn_cases:
  assumes "plmn_ok mcc mnc"
  obtains a b c d e where "mcc = [a, b, c]" "mnc = [d, e]" "is_digit a" "is_digit b" "is_digit c" "is_digit d" "is_digit e"
  | a b c d e f where "mcc = [a, b, c]" "mnc = [d, e, f]" "is_digit a" "is_digit b" "is_digit c" "is_digit d" "is_digit e" "is_digit f"
  using assms by (auto simp: plmn_ok_def numeral_eq_Suc length_Suc_conv)

lemma TrimSpace_digits: "list_all is_digit s \<Longrightarrow> TrimSpace s = s"
  by (rule TrimSpace_id) (auto simp: list_all_iff digit_not_space)

definition plmn_octets :: "string \<Rightarrow> string \<Rightarrow> u8 list" where
  "plmn_octets mcc mnc =
     [nib (digit_val (mcc ! 1)) (digit_val (mcc ! 0)),
      nib (if length mnc = 2 then 15 else digit_val (mnc ! 2)) (digit_val (mcc ! 2)),
      nib (digit_val (mnc ! 1)) (digit_val (mnc ! 0))]"

lemma GetMccAndMncInOctets_ok:
  assumes "plmn_ok mcc mnc"
  shows "GetMccAndMncInOctets mcc mnc = plmn_octets mcc mnc"
proof -
  have t: "TrimSpace mcc = mcc" "TrimSpace mnc = mnc" using assms by (auto simp: plmn_ok_def TrimSpace_digits)
  show ?thesis
    using assms
    by (cases rule: plmn_cases)
      (simp_all add: GetMccAndMncInOctets_def t [simplified] plmn_octets_def Let_def pad_mcc.simps numeral_eq_Suc
        DecodeString_nibbles hex_val_is_digit hex_val_f TrimSpace_digits del: DecodeString.simps(3))
qed

lemma digit_chars:
  assumes "is_digit c"
  shows "hex_digit (digit_val c) = c" "c \<noteq> CHR ''f''" "digit_val c < 16" "atoi1 c = digit_val c"
  using assms by (auto simp: hex_digit_val digit_not_f digit_val_16 atoi1_def)

lemmas plmn_simps = plmn_octets_def EncodeToString_def nib_simps push_nib digit_chars hex_val_f Let_def

text \<open>
  C30: a valid PLMN survives the wire. The three octets the contexts build, in the hexadecimal
  form a received PLMN is handed on in, are split into the same MCC and MNC again.
\<close>

theorem plmn_round_trip:
  "plmn_ok mcc mnc \<Longrightarrow> convertMccMnc (EncodeToString (GetMccAndMncInOctets mcc mnc)) = Inr (mcc, mnc)"
  unfolding GetMccAndMncInOctets_ok
  by (erule plmn_cases) (simp_all add: plmn_simps convertMccMnc_def)

lemma plmn_round_trip_witness:
  "convertMccMnc (EncodeToString (GetMccAndMncInOctets ''208'' ''93'')) = Inr (''208'', ''93'')"
  by (rule plmn_round_trip) code_simp

lemma PlmnIDToNas_octets: "plmn_ok mcc mnc \<Longrightarrow> PlmnIDToNas mcc mnc = Inr (plmn_octets mcc mnc)"
  by (erule plmn_cases) (simp_all add: PlmnIDToNas_def nib_def plmn_octets_def digit_chars)

lemma PlmnIDToString_octets: "plmn_ok mcc mnc \<Longrightarrow> PlmnIDToString (plmn_octets mcc mnc) = Inr (mcc @ mnc)"
  by (erule plmn_cases) (simp_all add: plmn_simps PlmnIDToString_def)

text \<open>
  The string-based encoder of the contexts and the arithmetic encoder of \<^verbatim>\<open>nasConvert\<close> give the
  same octets for every valid PLMN, and \<^verbatim>\<open>PlmnIDToString\<close> decodes them.
\<close>

theorem plmn_encoders_agree:
  "plmn_ok mcc mnc \<Longrightarrow>
     PlmnIDToNas mcc mnc = Inr (GetMccAndMncInOctets mcc mnc) \<and>
     PlmnIDToString (GetMccAndMncInOctets mcc mnc) = Inr (mcc @ mnc)"
  by (simp add: GetMccAndMncInOctets_ok PlmnIDToNas_octets PlmnIDToString_octets)

lemma plmn_encoders_agree_witness:
  "PlmnIDToNas ''310'' ''410'' = Inr (GetMccAndMncInOctets ''310'' ''410'') \<and>
     PlmnIDToString (GetMccAndMncInOctets ''310'' ''410'') = Inr (''310'' @ ''410'')"
  by (rule plmn_encoders_agree) code_simp

section \<open>The SUCI\<close>

lemma suci_digits:
  assumes "list_all is_digit msin" and "length msin = 8 \<or> length msin = 10"
  shows "\<exists>v. EncodeUeSuci msin = Inr v \<and>
    concat (map hex_byte (map RotateLeft8_4 (if length msin = 8 then [v ! 3, v ! 2, v ! 1, v ! 0]
      else [v ! 4, v ! 3, v ! 2, v ! 1, v ! 0]))) = msin"
proof -
  from assms(2) consider (eight) a b c d e f g h where "msin = [a, b, c, d, e, f, g, h]"
    | (ten) a b c d e f g h i j where "msin = [a, b, c, d, e, f, g, h, i, j]"
    by (auto simp: numeral_eq_Suc length_Suc_conv)
  then show ?thesis
    by cases (use assms(1) in \<open>simp_all add: EncodeUeSuci_def DecodeString_nibbles hex_val_is_digit nib_simps digit_chars
      del: DecodeString.simps(3)\<close>)
qed

lemma suci_constants:
  "hi4 1 \<noteq> 1" "takeWhile (\<lambda>c. c \<noteq> CHR ''f'') (EncodeToString [RotateLeft8_4 0xf0, RotateLeft8_4 0xff]) = ''0''"
  "hex_digit 0 = CHR ''0''" "dec_nat 0 = ''0''"
  by code_simp+

lemma SuciToString_null_scheme:
  assumes "plmn_ok mcc mnc" and "EncodeToString (map RotateLeft8_4 t) = msin" and "msin \<noteq> []" and "last msin \<noteq> CHR ''f''"
  shows "SuciToString ([1] @ plmn_octets mcc mnc @ [0xf0, 0xff, 0, 0] @ t) =
    Inr (''suci-0-'' @ mcc @ ''-'' @ mnc @ ''-0-0-0-'' @ msin, mcc @ mnc)"
proof -
  have "length (plmn_octets mcc mnc) = 3" by (simp add: plmn_octets_def)
  then have c: "SuciToString ([1] @ plmn_octets mcc mnc @ [0xf0, 0xff, 0, 0] @ t) =
     (let o3 = plmn_octets mcc mnc;
          m1 = take 3 (EncodeToString [RotateLeft8_4 (o3 ! 0), push_bit 4 (lo4 (o3 ! 1))]);
          m2 = EncodeToString [RotateLeft8_4 (o3 ! 2), push_bit 4 (hi4 (o3 ! 1))];
          m3 = (if m2 ! 2 = CHR ''f'' then take 2 m2 else take 3 m2)
      in Inr (''suci-0-'' @ m1 @ ''-'' @ m3 @ ''-0-0-0-'' @ msin, m1 @ m3))"
    using assms(2-4) suci_constants
    by (simp add: SuciToString_def nth_append Let_def)
  show ?thesis unfolding c using assms(1)
    by (cases rule: plmn_cases) (simp_all add: plmn_simps)
qed

lemma suci_identity_read:
  assumes "plmn_ok mcc mnc" and "list_all is_digit msin" and "length msin = 8 \<or> length msin = 10"
  shows "\<exists>buf. suci_identity mcc mnc msin = Inr (Some (length buf, buf)) \<and>
    SuciToString buf = Inr (''suci-0-'' @ mcc @ ''-'' @ mnc @ ''-0-0-0-'' @ msin, mcc @ mnc)"
proof -
  have "msin \<noteq> []" using assms(3) by auto
  then have msin: "msin \<noteq> []" "last msin \<noteq> CHR ''f''"
    using assms(2) last_in_set [of msin] digit_not_f by (auto simp: list_all_iff)
  obtain v where v: "EncodeUeSuci msin = Inr v"
    "EncodeToString (map RotateLeft8_4 (if length msin = 8 then [v ! 3, v ! 2, v ! 1, v ! 0]
      else [v ! 4, v ! 3, v ! 2, v ! 1, v ! 0])) = msin"
    using suci_digits [OF assms(2,3)] by (auto simp: EncodeToString_def)
  let ?t = "if length msin = 8 then [v ! 3, v ! 2, v ! 1, v ! 0] else [v ! 4, v ! 3, v ! 2, v ! 1, v ! 0]"
  let ?buf = "[1] @ plmn_octets mcc mnc @ [0xf0, 0xff, 0, 0] @ ?t"
  have "suci_identity mcc mnc msin = Inr (Some (length ?buf, ?buf))"
    using v(1) assms(3) by (auto simp: suci_identity_def GetMccAndMncInOctets_ok [OF assms(1)] plmn_octets_def)
  then show ?thesis using SuciToString_null_scheme [OF assms(1) v(2) msin] by blast
qed

text \<open>
  C31: the SUCI is what the network takes it for. For a valid PLMN and an MSIN of 8 or 10 digits
  the identity built by \<^verbatim>\<open>NewRanUeContext\<close> is read by \<^verbatim>\<open>SuciToString\<close> as the null-scheme SUCI with this
  MCC, MNC and MSIN.
\<close>

theorem suci_read_back:
  assumes "plmn_ok mcc mnc" and "list_all is_digit msin" and "length msin = 8 \<or> length msin = 10"
  shows "\<exists>buf. suci_identity mcc mnc msin = Inr (Some (length buf, buf)) \<and>
    SuciToString buf = Inr (''suci-0-'' @ mcc @ ''-'' @ mnc @ ''-0-0-0-'' @ msin, mcc @ mnc)"
  using assms by (rule suci_identity_read)

lemma suci_read_back_witness:
  "\<exists>buf. suci_identity ''001'' ''01'' ''0000000120'' = Inr (Some (length buf, buf)) \<and>
    SuciToString buf = Inr (''suci-0-'' @ ''001'' @ ''-'' @ ''01'' @ ''-0-0-0-'' @ ''0000000120'', ''001'' @ ''01'')"
  by (rule suci_read_back) code_simp+

text \<open>
  An MSIN of nine digits, which the configuration accepts, gets no identity at all: reversed
  it is no even number of hexadecimal digits, and \<^verbatim>\<open>NewRanUeContext\<close> has no case for its length.
\<close>

theorem nine_digit_msin_has_no_suci:
  assumes "length msin = 9"
  shows "suci_identity mcc mnc msin = Inr None"
proof -
  have "snd (DecodeString s) \<noteq> None" if "odd (length s)" for s
    using that by (induction s rule: DecodeString.induct) (auto split: option.split prod.split)
  then have "snd (DecodeString (rev msin)) \<noteq> None" using assms by simp
  then show ?thesis using assms by (auto simp: suci_identity_def EncodeUeSuci_def split: prod.split)
qed

lemma nine_digit_msin_has_no_suci_witness: "suci_identity ''001'' ''01'' ''000000120'' = Inr None"
  by (rule nine_digit_msin_has_no_suci) simp

section \<open>The AMF identifier\<close>

lemma low6: "x \<le> 63 \<Longrightarrow> x AND 0x3f = x" "x \<le> 63 \<Longrightarrow> ucast x AND 0xc0 = (0 :: u16)" for x :: u8
proof -
  assume "x \<le> 63"
  then have "unat x < 2 ^ 6" by (simp add: word_le_nat_alt)
  then have n: "take_bit 6 (unat x) = unat x" by (simp only: take_bit_nat_eq_self)
  have t: "take_bit 6 x = x" by (simp only: word_unat_eq_iff unsigned_take_bit_eq n)
  have m: "(0x3f :: u8) = mask 6" "(0xc0 :: u16) = push_bit 6 (mask 2)" by (simp_all add: mask_eq_exp_minus_1)
  show "x AND 0x3f = x" unfolding m take_bit_eq_mask [symmetric] by (rule t)
  have "\<not> bit x n" if "6 \<le> n" for n using t that by (metis bit_take_bit_iff not_le)
  then show "ucast x AND 0xc0 = (0 :: u16)"
    unfolding m by (intro bit_word_eqI) (auto simp: bit_and_iff bit_push_bit_iff bit_ucast_iff)
qed

lemma set_high:
  assumes "s < 1024"
  shows "push_bit 2 (ucast (ucast (drop_bit 2 s) AND 0xff :: u8)) = s AND NOT (3 :: u16)"
proof -
  have "unat s < 2 ^ 10" using assms by (simp add: word_less_nat_alt)
  then have n: "take_bit 10 (unat s) = unat s" by (simp only: take_bit_nat_eq_self)
  have t: "take_bit 10 s = s" by (simp only: word_unat_eq_iff unsigned_take_bit_eq n)
  have b: "bit s n \<Longrightarrow> n < 10" for n using t by (metis bit_take_bit_iff)
  have m: "(0xff :: u8) = mask 8" "(3 :: u16) = mask 2" by (simp_all add: mask_eq_exp_minus_1)
  have e: "2 \<le> n \<Longrightarrow> Suc (Suc (n - 2)) = n" for n by simp
  show ?thesis unfolding m
    by (rule bit_word_eqI)
     (auto simp: e not_less bit_and_iff bit_not_iff bit_push_bit_iff bit_ucast_iff bit_drop_bit_eq bit_mask_iff dest: b)
qed

lemma set_low: "unat (ucast (s AND 3 :: u16) :: u8) \<le> 3"
proof -
  have m: "(3 :: u16) = mask 2" by (simp add: mask_eq_exp_minus_1)
  have "unat (take_bit 2 s) = unat s mod 4" by (simp only: unsigned_take_bit_eq) (simp add: take_bit_eq_mod)
  then show ?thesis unfolding m take_bit_eq_mask [symmetric] unsigned_ucast_eq
    by (simp add: take_bit_eq_mod)
qed

lemma pointer_small:
  assumes "p \<le> (60::u8)"
  shows "p AND 0x3f = p" "ucast (s AND 3 :: u16) + p \<le> (63::u8)"
proof -
  have "p \<le> 63" using assms by (simp add: word_le_nat_alt)
  then show "p AND 0x3f = p" by (rule low6)
  show "ucast (s AND 3) + p \<le> (63::u8)" using assms set_low [of s] by (simp add: word_le_nat_alt unat_word_ariths)
qed

text \<open>
  \<^verbatim>\<open>AmfIdToModels\<close> adds the two low bits of the AMF set identifier to the pointer instead of
  placing them above it, so reading its result back loses them.
\<close>

theorem amf_id_loses_set_bits:
  assumes "p \<le> 60" and "s < 1024"
  shows "AmfIdToNas (AmfIdToModels r s p) = Inr (r, s AND NOT 3, p + ucast (s AND 3))"
proof -
  have "ucast (s AND 3) + p \<le> (63 :: u8)" by (rule pointer_small [OF assms(1)])
  then show ?thesis
    by (simp add: AmfIdToNas_def AmfIdToModels_def hex_round_trip pointer_small [OF assms(1)] low6 set_high [OF assms(2), simplified] add.commute)
qed

lemma amf_id_loses_set_bits_witness:
  "AmfIdToNas (AmfIdToModels 0xca 0x3fb 2) = Inr (0xca, 0x3fb AND NOT 3, 2 + ucast ((0x3fb :: u16) AND 3))"
  by (rule amf_id_loses_set_bits) simp_all

end
