(* ===== verification/Gnb_Context.thy ===== *)
theory Gnb_Context
  imports Identity
begin

text \<open>
  The state of a gNB: \<^verbatim>\<open>gnb/context/context.go\<close>, \<^verbatim>\<open>ue.go\<close> and \<^verbatim>\<open>amf.go\<close>. The pools of the code map
  identifiers to pointers to UE contexts, and one UE is in three of them; the UE contexts are
  therefore in a store indexed by references, and the pools map to references. AMF contexts are
  only reached through their pool, which holds them by value. A Go map or \<^verbatim>\<open>sync.Map\<close> is
  traversed in no specified order: the operations that traverse one take the order as an
  argument.
\<close>

unbundle bit_operations_syntax

section \<open>UE contexts\<close>

type_synonym ip = "u8 \<times> u8 \<times> u8 \<times> u8"

definition ip_string :: "ip option \<Rightarrow> string" where
  "ip_string ip = (case ip of None \<Rightarrow> ''<nil>''
     | Some (a, b, c, d) \<Rightarrow> dec_nat (unat a) @ ''.'' @ dec_nat (unat b) @ ''.'' @ dec_nat (unat c) @ ''.'' @ dec_nat (unat d))"

record SliceSupported =
  sst :: string
  sd :: string
  status :: string

text \<open>
  A linked list with its length field. Its elements are reached from the head only, so the list of
  its nodes stands for it; \<open>mov\<close> is a position in it, and stepping past the end gives nil.
\<close>

record PDUSession =
  pduSessionId :: int
  ranUeIP :: "ip option"
  uplinkTeid :: u32
  downlinkTeid :: u32
  slices :: "SliceSupported list"
  lenSlice :: nat
  pduType :: u64
  qosId :: int
  fiveQi :: int
  priArp :: int

record GNBUe =
  ranUeNgapId :: int
  amfUeNgapId :: int
  sourceAmfUeNgapId :: int
  amfId :: int
  ueState :: nat
  sctpConnection :: "nat option"
  unixSocketConnection :: "nat option"
  mobilityMcc :: string
  mobilityMnc :: string
  maskedIMEISV :: string
  pduSession :: PDUSession
  pduSessions :: "(int \<rightharpoonup> PDUSession) option"

definition zeroSession :: PDUSession where
  "zeroSession = \<lparr>pduSessionId = 0, ranUeIP = None, uplinkTeid = 0, downlinkTeid = 0, slices = [], lenSlice = 0,
     pduType = 0, qosId = 0, fiveQi = 0, priArp = 0\<rparr>"

definition zeroUe :: GNBUe where
  "zeroUe = \<lparr>ranUeNgapId = 0, amfUeNgapId = 0, sourceAmfUeNgapId = 0, amfId = 0, ueState = 0, sctpConnection = None,
     unixSocketConnection = None, mobilityMcc = [], mobilityMnc = [], maskedIMEISV = [], pduSession = zeroSession,
     pduSessions = None\<rparr>"

text \<open>The loop of \<^verbatim>\<open>addedSlice\<close>: \<open>n\<close> iterations left, the cursor at position \<open>mov\<close>.\<close>

fun added_loop :: "nat \<Rightarrow> nat \<Rightarrow> 'e \<Rightarrow> 'e list \<Rightarrow> 'e list res" where
  "added_loop 0 mov newElem l = Inr l"
| "added_loop (Suc n) mov newElem l =
     (if length l \<le> mov then Inl Panic
      else if Suc mov = length l then added_loop n mov newElem (l @ [newElem])
      else added_loop n (Suc mov) newElem l)"

definition added :: "'e \<Rightarrow> 'e list \<Rightarrow> nat \<Rightarrow> ('e list \<times> nat) res" where
  "added newElem l len =
     (if len = 0 then Inr ([newElem], 1)
      else rbind (added_loop len 0 newElem l) (\<lambda>l. Inr (l, len + 1)))"

definition addedSlice :: "string \<Rightarrow> string \<Rightarrow> string \<Rightarrow> GNBUe \<Rightarrow> GNBUe res" where
  "addedSlice sstv sdv st ue =
     rbind (added \<lparr>sst = sstv, sd = sdv, status = st\<rparr> (slices (pduSession ue)) (lenSlice (pduSession ue))) (\<lambda>(l, n).
       Inr (ue\<lparr>pduSession := (pduSession ue)\<lparr>slices := l, lenSlice := n\<rparr>\<rparr>))"

fun add_slices :: "string list \<Rightarrow> string list \<Rightarrow> GNBUe \<Rightarrow> GNBUe res" where
  "add_slices [] sds ue = Inr ue"
| "add_slices (s # ssts) [] ue = Inl Panic"
| "add_slices (s # ssts) (d # sds) ue = rbind (addedSlice s d ''inactive'' ue) (add_slices ssts sds)"

definition CreateUeContext :: "string \<Rightarrow> string \<Rightarrow> string list \<Rightarrow> string list \<Rightarrow> GNBUe \<Rightarrow> GNBUe res" where
  "CreateUeContext plmn imeisv ssts sds ue =
     (let ue = ue\<lparr>pduSession := (pduSession ue)\<lparr>lenSlice := 0\<rparr>\<rparr> in
      rbind (if plmn \<noteq> ''not informed'' then convertMccMnc plmn else Inr (plmn, plmn)) (\<lambda>(mcc, mnc).
        add_slices ssts sds (ue\<lparr>mobilityMcc := mcc, mobilityMnc := mnc, maskedIMEISV := imeisv\<rparr>)))"

text \<open>The search loops, which stop after \<open>lenSlice\<close> nodes and panic on nil.\<close>

fun find_slice :: "nat \<Rightarrow> nat \<Rightarrow> (SliceSupported \<Rightarrow> bool) \<Rightarrow> SliceSupported list \<Rightarrow> nat option res" where
  "find_slice 0 mov P l = Inr None"
| "find_slice (Suc n) mov P l =
     (if length l \<le> mov then Inl Panic
      else if P (l ! mov) then Inr (Some mov)
      else find_slice n (Suc mov) P l)"

definition pduSessionNssai :: "string \<Rightarrow> string \<Rightarrow> GNBUe \<Rightarrow> (bool \<times> GNBUe) res" where
  "pduSessionNssai sstv sdv ue =
     (let s = pduSession ue in
      rbind (find_slice (lenSlice s) 0 (\<lambda>e. sst e = sstv \<and> sd e = sdv) (slices s)) (\<lambda>r.
        case r of None \<Rightarrow> Inr (False, ue)
        | Some i \<Rightarrow> Inr (True, ue\<lparr>pduSession := s\<lparr>slices := (slices s)[i := (slices s ! i)\<lparr>status := ''active''\<rparr>]\<rparr>\<rparr>)))"

definition GetSelectedNssai :: "GNBUe \<Rightarrow> (string \<times> string) res" where
  "GetSelectedNssai ue =
     (let s = pduSession ue in
      rbind (find_slice (lenSlice s) 0 (\<lambda>e. status e = ''active'') (slices s)) (\<lambda>r.
        case r of None \<Rightarrow> Inr (''NSSAI was not selected'', ''NSSAI was not selected'')
        | Some i \<Rightarrow> Inr (sst (slices s ! i), sd (slices s ! i))))"

definition GetAllowedNssai :: "nat \<Rightarrow> GNBUe \<Rightarrow> (string \<times> string) res" where
  "GetAllowedNssai index ue =
     (let l = slices (pduSession ue) in
      if index < length l then Inr (sst (l ! index), sd (l ! index)) else Inl Panic)"

text \<open>
  \<^verbatim>\<open>CreatePduSession\<close>: the fields of the single session are overwritten before the slice is looked
  up. The new session keeps a pointer to the slice that was found, whose node no longer changes:
  its copy stands for it.
\<close>

definition CreatePduSession :: "int \<Rightarrow> string \<Rightarrow> string \<Rightarrow> u64 \<Rightarrow> int \<Rightarrow> int \<Rightarrow> int \<Rightarrow> u32 \<Rightarrow> ip option \<Rightarrow> u32 \<Rightarrow>
    GNBUe \<Rightarrow> (string \<times> GNBUe) res" where
  "CreatePduSession psi sstv sdv ptype qos arp fqi ulTeid ueIp dlTeid ue =
     (let ue = (if pduSessions ue = None then ue\<lparr>pduSessions := Some Map.empty\<rparr> else ue);
          ue = ue\<lparr>pduSession := (pduSession ue)\<lparr>pduSessionId := psi, pduType := ptype, qosId := qos, priArp := arp,
                   fiveQi := fqi, uplinkTeid := ulTeid, downlinkTeid := dlTeid, ranUeIP := ueIp\<rparr>\<rparr>;
          sess = \<lparr>pduSessionId = psi, ranUeIP = ueIp, uplinkTeid = ulTeid, downlinkTeid = dlTeid, slices = [], lenSlice = 0,
                  pduType = ptype, qosId = qos, fiveQi = fqi, priArp = arp\<rparr>
      in
      rbind (pduSessionNssai sstv sdv ue) (\<lambda>(found, ue).
        if \<not> found then Inr (''Slice was not found'', ue)
        else
          let l = slices (pduSession ue) in
          rbind (find_slice (lenSlice (pduSession ue)) 0 (\<lambda>e. sst e = sstv \<and> sd e = sdv) l) (\<lambda>r.
            let sess = (case r of None \<Rightarrow> sess | Some i \<Rightarrow> sess\<lparr>slices := [l ! i]\<rparr>)
            in Inr ([], ue\<lparr>pduSessions := Some ((the (pduSessions ue))(psi \<mapsto> sess))\<rparr>))))"

text \<open>The searches over the session map, in the order \<open>order\<close> of its keys.\<close>

fun find_session :: "int list \<Rightarrow> (PDUSession \<Rightarrow> bool) \<Rightarrow> (int \<rightharpoonup> PDUSession) \<Rightarrow> PDUSession option" where
  "find_session [] P m = None"
| "find_session (k # ks) P m =
     (case m k of Some sess \<Rightarrow> if P sess then Some sess else find_session ks P m | None \<Rightarrow> find_session ks P m)"

definition FindPduSessionByIp :: "int list \<Rightarrow> string \<Rightarrow> GNBUe \<Rightarrow> PDUSession option" where
  "FindPduSessionByIp order ip ue =
     (case pduSessions ue of None \<Rightarrow> None
      | Some m \<Rightarrow> find_session order (\<lambda>s. ranUeIP s \<noteq> None \<and> ip_string (ranUeIP s) = ip) m)"

definition FindPduSessionByDownlinkTeid :: "int list \<Rightarrow> u32 \<Rightarrow> GNBUe \<Rightarrow> PDUSession option" where
  "FindPduSessionByDownlinkTeid order teid ue =
     (case pduSessions ue of None \<Rightarrow> None | Some m \<Rightarrow> find_session order (\<lambda>s. downlinkTeid s = teid) m)"

definition GetTeidDownlinkOfSession :: "int \<Rightarrow> GNBUe \<Rightarrow> u32" where
  "GetTeidDownlinkOfSession psi ue =
     (case pduSessions ue of None \<Rightarrow> 0 | Some m \<Rightarrow> (case m psi of None \<Rightarrow> 0 | Some s \<Rightarrow> downlinkTeid s))"

definition GetQosIdOfSession :: "int \<Rightarrow> GNBUe \<Rightarrow> int" where
  "GetQosIdOfSession psi ue =
     (case pduSessions ue of None \<Rightarrow> 0 | Some m \<Rightarrow> (case m psi of None \<Rightarrow> 0 | Some s \<Rightarrow> qosId s))"

definition SetQosIdOfSession :: "int \<Rightarrow> int \<Rightarrow> GNBUe \<Rightarrow> GNBUe" where
  "SetQosIdOfSession psi q ue =
     (case pduSessions ue of None \<Rightarrow> ue
      | Some m \<Rightarrow> (case m psi of None \<Rightarrow> ue | Some s \<Rightarrow> ue\<lparr>pduSessions := Some (m(psi \<mapsto> s\<lparr>qosId := q\<rparr>))\<rparr>))"

definition GetPduType :: "GNBUe \<Rightarrow> string" where
  "GetPduType ue =
     (let t = pduType (pduSession ue) in
      if t = 0 then ''ipv4'' else if t = 1 then ''ipv6'' else if t = 2 then ''Ipv4Ipv6'' else if t = 3 then ''ethernet'' else [])"

text \<open>\<^verbatim>\<open>SetAmfUeId\<close> also tells the UE: ten bytes on its socket.\<close>

definition SetAmfUeId :: "int \<Rightarrow> GNBUe \<Rightarrow> GNBUe \<times> (nat \<times> u8 list) list" where
  "SetAmfUeId v ue =
     (ue\<lparr>amfUeNgapId := v\<rparr>,
      case unixSocketConnection ue of None \<Rightarrow> [] | Some c \<Rightarrow> [(c, [0x00, 0x03] @ be64_bytes (word_of_int v))])"

section \<open>AMF contexts\<close>

record GNBAmf =
  amfIpAddr :: string
  amfPortNo :: int
  amfKey :: int
  amfSctp :: "nat option"
  relativeAmfCapacity :: int
  amfState :: nat
  amfNameStr :: string
  plmns :: "(string \<times> string) list"
  amfSlices :: "(string \<times> string) list"
  amfLenSlice :: nat
  amfLenPlmn :: nat

definition AddedPlmn :: "string \<Rightarrow> GNBAmf \<Rightarrow> GNBAmf res" where
  "AddedPlmn plmn amf =
     rbind (convertMccMnc plmn) (\<lambda>p. rbind (added p (plmns amf) (amfLenPlmn amf)) (\<lambda>(l, n).
       Inr (amf\<lparr>plmns := l, amfLenPlmn := n\<rparr>)))"

definition AddedSlice :: "string \<Rightarrow> string \<Rightarrow> GNBAmf \<Rightarrow> GNBAmf res" where
  "AddedSlice s d amf =
     rbind (added (s, d) (amfSlices amf) (amfLenSlice amf)) (\<lambda>(l, n). Inr (amf\<lparr>amfSlices := l, amfLenSlice := n\<rparr>))"

definition GetSliceSupport :: "nat \<Rightarrow> GNBAmf \<Rightarrow> (string \<times> string) res" where
  "GetSliceSupport index amf = (if index < length (amfSlices amf) then Inr (amfSlices amf ! index) else Inl Panic)"

definition GetPlmnSupport :: "nat \<Rightarrow> GNBAmf \<Rightarrow> (string \<times> string) res" where
  "GetPlmnSupport index amf = (if index < length (plmns amf) then Inr (plmns amf ! index) else Inl Panic)"

section \<open>The gNB\<close>

record GNBContext =
  gnbMcc :: string
  gnbMnc :: string
  gnbTac :: string
  gnbId :: string
  gnbIp :: string
  gnbPort :: int
  gnbSst :: string
  gnbSd :: string
  upfIp :: string
  upfPort :: int
  gnbDataIp :: string
  gnbDataPort :: int
  gatewayGnbIp :: string
  gnbLinkType :: string
  gnbLinkPort :: int
  gnbSocketPath :: string
  gnbCellId :: int
  gnbPagingDRX :: string
  uePool :: "int \<rightharpoonup> nat"
  teidPool :: "u32 \<rightharpoonup> nat"
  ueIpPool :: "string \<rightharpoonup> nat"
  amfPool :: "int \<rightharpoonup> GNBAmf"
  idUeGenerator :: int
  idAmfGenerator :: int
  teidGenerator :: u32
  ueIpGenerator :: u8
  ues :: "nat \<rightharpoonup> GNBUe"
  nextRef :: nat

definition NewRanGnbContext :: "string \<Rightarrow> string \<Rightarrow> string \<Rightarrow> string \<Rightarrow> string \<Rightarrow> string \<Rightarrow> string \<Rightarrow> string \<Rightarrow> int \<Rightarrow> int \<Rightarrow>
    GNBContext \<Rightarrow> GNBContext" where
  "NewRanGnbContext gid mcc mnc tac sstv sdv ipv ipData port portData gnb =
     gnb\<lparr>gnbMcc := mcc, gnbMnc := mnc, gnbTac := tac, gnbId := gid, gnbSd := sdv, gnbSst := sstv, idUeGenerator := 1,
         idAmfGenerator := 1, gnbIp := ipv, teidGenerator := 1, ueIpGenerator := 3, gnbPort := port, upfPort := 2152,
         gatewayGnbIp := ''127.0.0.2'', upfIp := [], gnbDataIp := ipData, gnbDataPort := portData\<rparr>"

definition getRanUeId :: "GNBContext \<Rightarrow> int \<times> GNBContext" where
  "getRanUeId gnb = (idUeGenerator gnb, gnb\<lparr>idUeGenerator := i64 (idUeGenerator gnb + 1)\<rparr>)"

definition GetUeTeid :: "GNBContext \<Rightarrow> u32 \<times> GNBContext" where
  "GetUeTeid gnb = (teidGenerator gnb, gnb\<lparr>teidGenerator := teidGenerator gnb + 1\<rparr>)"

definition getRanUeIp :: "GNBContext \<Rightarrow> u8 \<times> GNBContext" where
  "getRanUeIp gnb = (ueIpGenerator gnb, gnb\<lparr>ueIpGenerator := ueIpGenerator gnb + 1\<rparr>)"

definition getRanAmfId :: "GNBContext \<Rightarrow> int \<times> GNBContext" where
  "getRanAmfId gnb = (idAmfGenerator gnb, gnb\<lparr>idAmfGenerator := i64 (idAmfGenerator gnb + 1)\<rparr>)"

definition NewGnBAmf :: "string \<Rightarrow> int \<Rightarrow> GNBContext \<Rightarrow> GNBAmf \<times> GNBContext" where
  "NewGnBAmf ipv port gnb =
     (let (k, gnb) = getRanAmfId gnb;
          amf = \<lparr>amfIpAddr = ipv, amfPortNo = port, amfKey = k, amfSctp = None, relativeAmfCapacity = 0, amfState = 0,
                 amfNameStr = [], plmns = [], amfSlices = [], amfLenSlice = 0, amfLenPlmn = 0\<rparr>
      in (amf, gnb\<lparr>amfPool := (amfPool gnb)(k \<mapsto> amf)\<rparr>))"

text \<open>\<^verbatim>\<open>Range\<close> over the AMF pool in the order \<open>order\<close>, up to the first hit.\<close>

fun range_amf :: "int list \<Rightarrow> (GNBAmf \<Rightarrow> bool) \<Rightarrow> (int \<rightharpoonup> GNBAmf) \<Rightarrow> GNBAmf option" where
  "range_amf [] P pool = None"
| "range_amf (k # ks) P pool =
     (case pool k of Some amf \<Rightarrow> if P amf then Some amf else range_amf ks P pool | None \<Rightarrow> range_amf ks P pool)"

definition selectAmFByActive :: "int list \<Rightarrow> GNBContext \<Rightarrow> GNBAmf option" where
  "selectAmFByActive order gnb = range_amf order (\<lambda>amf. amfState amf = 1) (amfPool gnb)"

definition selectAmFByCapacity :: "int list \<Rightarrow> GNBContext \<Rightarrow> GNBAmf option \<times> GNBContext" where
  "selectAmFByCapacity order gnb =
     (case range_amf order (\<lambda>amf. relativeAmfCapacity amf > 0) (amfPool gnb) of
        None \<Rightarrow> (None, gnb)
      | Some amf \<Rightarrow>
          let amf = amf\<lparr>relativeAmfCapacity := relativeAmfCapacity amf - 1\<rparr>
          in (Some amf, gnb\<lparr>amfPool := (amfPool gnb)(amfKey amf \<mapsto> amf)\<rparr>))"

definition GetActiveAmfIp :: "int list \<Rightarrow> GNBContext \<Rightarrow> string" where
  "GetActiveAmfIp order gnb = (case selectAmFByActive order gnb of Some amf \<Rightarrow> amfIpAddr amf | None \<Rightarrow> ''127.0.0.1'')"

definition NewGnBUe :: "int list \<Rightarrow> nat option \<Rightarrow> GNBContext \<Rightarrow> nat option \<times> GNBContext" where
  "NewGnBUe order conn gnb =
     (let ref = nextRef gnb;
          gnb = gnb\<lparr>nextRef := ref + 1\<rparr>;
          (ranId, gnb) = getRanUeId gnb;
          ue = zeroUe\<lparr>ranUeNgapId := ranId\<rparr>;
          (ue, _) = SetAmfUeId 0 ue;
          ue = ue\<lparr>unixSocketConnection := conn, ueState := 0\<rparr>;
          (teidDown, gnb) = GetUeTeid gnb;
          ue = ue\<lparr>pduSession := (pduSession ue)\<lparr>downlinkTeid := teidDown\<rparr>\<rparr>;
          gnb = gnb\<lparr>teidPool := (teidPool gnb)(teidDown \<mapsto> ref)\<rparr>;
          gnb = gnb\<lparr>uePool := (uePool gnb)(ranId \<mapsto> ref)\<rparr>;
          (ueIp, gnb) = getRanUeIp gnb;
          ue = ue\<lparr>pduSession := (pduSession ue)\<lparr>ranUeIP := Some (127, 0, 0, ueIp)\<rparr>\<rparr>;
          gnb = gnb\<lparr>ueIpPool := (ueIpPool gnb)(ip_string (ranUeIP (pduSession ue)) \<mapsto> ref)\<rparr>;
          amf = (case selectAmFByActive order gnb of Some amf \<Rightarrow> Some amf
                 | None \<Rightarrow> range_amf order (\<lambda>_. True) (amfPool gnb))
      in case amf of
           None \<Rightarrow> (None, gnb\<lparr>ues := (ues gnb)(ref \<mapsto> ue)\<rparr>)
         | Some a \<Rightarrow>
             let ue = ue\<lparr>amfId := amfKey a, sctpConnection := amfSctp a\<rparr>
             in (Some ref, gnb\<lparr>ues := (ues gnb)(ref \<mapsto> ue)\<rparr>))"

definition DeleteGnBUe :: "int \<Rightarrow> GNBContext \<Rightarrow> GNBContext" where
  "DeleteGnBUe ranUeId gnb = gnb\<lparr>uePool := (uePool gnb)(ranUeId := None)\<rparr>"

definition DeleteGnBUeByTeid :: "u32 \<Rightarrow> GNBContext \<Rightarrow> GNBContext" where
  "DeleteGnBUeByTeid teid gnb = gnb\<lparr>teidPool := (teidPool gnb)(teid := None)\<rparr>"

definition DeleteGnBUeByIp :: "string \<Rightarrow> GNBContext \<Rightarrow> GNBContext" where
  "DeleteGnBUeByIp ipv gnb = gnb\<lparr>ueIpPool := (ueIpPool gnb)(ipv := None)\<rparr>"

definition StoreTeid :: "u32 \<Rightarrow> nat \<Rightarrow> GNBContext \<Rightarrow> GNBContext" where
  "StoreTeid teid r gnb = gnb\<lparr>teidPool := (teidPool gnb)(teid \<mapsto> r)\<rparr>"

definition StoreUeIp :: "string \<Rightarrow> nat \<Rightarrow> GNBContext \<Rightarrow> GNBContext" where
  "StoreUeIp ipv r gnb = gnb\<lparr>ueIpPool := (ueIpPool gnb)(ipv \<mapsto> r)\<rparr>"

definition GetGnbUe :: "int \<Rightarrow> GNBContext \<Rightarrow> nat res" where
  "GetGnbUe ranUeId gnb = (case uePool gnb ranUeId of None \<Rightarrow> Inl (Fail ''UE is not find in GNB UE POOL'') | Some r \<Rightarrow> Inr r)"

definition GetGnbUeByIp :: "string \<Rightarrow> GNBContext \<Rightarrow> nat res" where
  "GetGnbUeByIp ipv gnb =
     (case ueIpPool gnb ipv of None \<Rightarrow> Inl (Fail ''UE is not find in GNB UE POOL using IP'') | Some r \<Rightarrow> Inr r)"

definition GetGnbUeByTeid :: "u32 \<Rightarrow> GNBContext \<Rightarrow> nat res" where
  "GetGnbUeByTeid teid gnb =
     (case teidPool gnb teid of None \<Rightarrow> Inl (Fail ''UE is not find in GNB UE POOL using TEID'') | Some r \<Rightarrow> Inr r)"

text \<open>The fields with a default, and those handed out as bytes.\<close>

definition GetPagingDRX :: "GNBContext \<Rightarrow> string" where
  "GetPagingDRX gnb = (if gnbPagingDRX gnb = [] then ''v128'' else gnbPagingDRX gnb)"

definition GetCellId :: "GNBContext \<Rightarrow> int" where
  "GetCellId gnb = (if gnbCellId gnb = 0 then 1 else gnbCellId gnb)"

definition GetLinkType :: "GNBContext \<Rightarrow> string" where
  "GetLinkType gnb = (if gnbLinkType gnb = [] then ''unix'' else gnbLinkType gnb)"

definition GetLinkPort :: "GNBContext \<Rightarrow> int" where
  "GetLinkPort gnb = (if gnbLinkPort gnb = 0 then 9488 else gnbLinkPort gnb)"

definition GetSocketPath :: "GNBContext \<Rightarrow> string" where
  "GetSocketPath gnb = (if gnbSocketPath gnb = [] then ''/tmp/gnb.sock'' else gnbSocketPath gnb)"

definition GetGnbIdInBytes :: "GNBContext \<Rightarrow> u8 list" where
  "GetGnbIdInBytes gnb = fst (DecodeString (gnbId gnb))"

definition GetTacInBytes :: "GNBContext \<Rightarrow> u8 list" where
  "GetTacInBytes gnb = fst (DecodeString (gnbTac gnb))"

definition GetSliceInBytes :: "GNBContext \<Rightarrow> u8 list \<times> u8 list option" where
  "GetSliceInBytes gnb =
     (fst (DecodeString (gnbSst gnb)), if gnbSd gnb \<noteq> [] then Some (fst (DecodeString (gnbSd gnb))) else None)"


section \<open>The linked lists\<close>

text \<open>
  A list whose length field is right, or one whose length was reset, which the next insertion
  starts afresh. Under it the insertion appends once and the searches never run off the list.
\<close>

abbreviation list_ok :: "'e list \<Rightarrow> nat \<Rightarrow> bool" where
  "list_ok l len \<equiv> len = length l \<or> len = 0"

lemma added_loop_appends:
  "mov + n = length l \<Longrightarrow> 0 < n \<Longrightarrow> added_loop n mov e l = Inr (l @ [e])"
proof (induction n arbitrary: mov)
  case 0
  then show ?case by simp
next
  case (Suc n)
  then show ?case by (cases n) auto
qed

lemma added_appends:
  "list_ok l len \<Longrightarrow> added e l len = Inr (take len l @ [e], Suc len)"
  by (auto simp: added_def added_loop_appends)

lemma find_slice_first:
  "mov + n \<le> length l \<Longrightarrow>
   (find_slice n mov P l = Inr None \<and> (\<forall>i. mov \<le> i \<and> i < mov + n \<longrightarrow> \<not> P (l ! i))) \<or>
   (\<exists>i. find_slice n mov P l = Inr (Some i) \<and> mov \<le> i \<and> i < mov + n \<and> P (l ! i) \<and>
     (\<forall>j. mov \<le> j \<and> j < i \<longrightarrow> \<not> P (l ! j)))"
proof (induction n arbitrary: mov)
  case 0
  then show ?case by auto
next
  case (Suc n)
  have split: "mov \<le> j \<longleftrightarrow> j = mov \<or> Suc mov \<le> j" for j
    by auto
  show ?case
  proof (cases "P (l ! mov)")
    case True
    then show ?thesis using Suc.prems by auto
  next
    case False
    then have "find_slice (Suc n) mov P l = find_slice n (Suc mov) P l"
      using Suc.prems by simp
    then show ?thesis
      using Suc.IH [of "Suc mov"] Suc.prems False unfolding split by fastforce
  qed
qed

lemma find_slice_cases:
  assumes "list_ok l len"
  obtains (none) "find_slice len 0 P l = Inr None" and "\<forall>i < len. \<not> P (l ! i)"
    | (some) i where "find_slice len 0 P l = Inr (Some i)" and "i < len" and "i < length l" and "P (l ! i)"
        and "\<forall>j < i. \<not> P (l ! j)"
proof -
  have "len \<le> length l"
    using assms by auto
  then show thesis
    using find_slice_first [of 0 len l P] none some by fastforce
qed

section \<open>Slices and sessions of a UE\<close>

text \<open>What the operations keep of a UE: its slice list is sound and a session is stored under its own identifier.\<close>

definition ue_ok :: "GNBUe \<Rightarrow> bool" where
  "ue_ok ue \<longleftrightarrow> list_ok (slices (pduSession ue)) (lenSlice (pduSession ue)) \<and>
     (\<forall>m k s. pduSessions ue = Some m \<longrightarrow> m k = Some s \<longrightarrow> pduSessionId s = k)"

lemma addedSlice_eq:
  "ue_ok ue \<Longrightarrow>
   addedSlice s d st ue = Inr (ue\<lparr>pduSession := (pduSession ue)\<lparr>
     slices := take (lenSlice (pduSession ue)) (slices (pduSession ue)) @ [\<lparr>sst = s, sd = d, status = st\<rparr>],
     lenSlice := Suc (lenSlice (pduSession ue))\<rparr>\<rparr>)"
  by (simp add: addedSlice_def added_appends ue_ok_def)

lemma addedSlice_ok:
  "ue_ok ue \<Longrightarrow> addedSlice s d st ue = Inr ue' \<Longrightarrow> ue_ok ue' \<and> ranUeNgapId ue' = ranUeNgapId ue"
  by (auto simp: addedSlice_eq) (auto simp: ue_ok_def)

lemma add_slices_appends:
  "ue_ok ue \<Longrightarrow> lenSlice (pduSession ue) = length (slices (pduSession ue)) \<Longrightarrow> length ssts = length sds \<Longrightarrow>
   add_slices ssts sds ue = Inr (ue\<lparr>pduSession := (pduSession ue)\<lparr>
     slices := slices (pduSession ue) @ map (\<lambda>(s, d). \<lparr>sst = s, sd = d, status = ''inactive''\<rparr>) (zip ssts sds),
     lenSlice := lenSlice (pduSession ue) + length ssts\<rparr>\<rparr>)"
proof (induction ssts sds ue rule: add_slices.induct)
  case (3 s ssts d sds ue)
  have "ue_ok (ue\<lparr>pduSession := (pduSession ue)\<lparr>slices := slices (pduSession ue) @ [\<lparr>sst = s, sd = d, status = ''inactive''\<rparr>],
      lenSlice := Suc (lenSlice (pduSession ue))\<rparr>\<rparr>)"
    using 3(2,3) by (auto simp: ue_ok_def)
  with 3 show ?case by (simp add: addedSlice_eq)
qed simp_all

lemma CreateUeContext_slices:
  assumes "ue_ok ue" and "length ssts = length sds" and "CreateUeContext plmn imeisv ssts sds ue = Inr ue'"
  shows "lenSlice (pduSession ue') = length ssts"
    and "ssts \<noteq> [] \<Longrightarrow> slices (pduSession ue') = map (\<lambda>(s, d). \<lparr>sst = s, sd = d, status = ''inactive''\<rparr>) (zip ssts sds)"
    and "ue_ok ue'" and "ranUeNgapId ue' = ranUeNgapId ue" and "pduSessions ue' = pduSessions ue"
proof -
  obtain mcc mnc where add: "add_slices ssts sds (ue\<lparr>pduSession := (pduSession ue)\<lparr>lenSlice := 0\<rparr>, mobilityMcc := mcc,
      mobilityMnc := mnc, maskedIMEISV := imeisv\<rparr>) = Inr ue'"
    using assms(3) by (auto simp: CreateUeContext_def rbind_eq_Inr)
  have main: "lenSlice (pduSession ue') = length ssts \<and>
      (ssts \<noteq> [] \<longrightarrow> slices (pduSession ue') = map (\<lambda>(s, d). \<lparr>sst = s, sd = d, status = ''inactive''\<rparr>) (zip ssts sds)) \<and>
      ue_ok ue' \<and> ranUeNgapId ue' = ranUeNgapId ue \<and> pduSessions ue' = pduSessions ue"
  proof (cases ssts)
    case Nil
    then show ?thesis using add assms(1) by (auto simp: ue_ok_def)
  next
    case (Cons s ss)
    with assms(2) obtain d ds where sds: "sds = d # ds" by (cases sds) auto
    let ?u = "ue\<lparr>pduSession := (pduSession ue)\<lparr>lenSlice := 0\<rparr>, mobilityMcc := mcc, mobilityMnc := mnc, maskedIMEISV := imeisv\<rparr>"
    let ?v = "?u\<lparr>pduSession := (pduSession ?u)\<lparr>slices := [\<lparr>sst = s, sd = d, status = ''inactive''\<rparr>], lenSlice := Suc 0\<rparr>\<rparr>"
    have u: "ue_ok ?u" and v: "ue_ok ?v"
      using assms(1) by (auto simp: ue_ok_def)
    then have "add_slices ss ds ?v = Inr ue'"
      using add by (simp add: Cons sds addedSlice_eq)
    then show ?thesis
      using assms(2) v by (auto simp: add_slices_appends Cons sds) (auto simp: ue_ok_def)
  qed
  show "lenSlice (pduSession ue') = length ssts"
    and "ssts \<noteq> [] \<Longrightarrow> slices (pduSession ue') = map (\<lambda>(s, d). \<lparr>sst = s, sd = d, status = ''inactive''\<rparr>) (zip ssts sds)"
    and "ue_ok ue'" and "ranUeNgapId ue' = ranUeNgapId ue" and "pduSessions ue' = pduSessions ue"
    using main by blast+
qed

definition has_slice :: "string \<Rightarrow> string \<Rightarrow> GNBUe \<Rightarrow> bool" where
  "has_slice s d ue \<longleftrightarrow> (\<exists>i < lenSlice (pduSession ue). sst (slices (pduSession ue) ! i) = s \<and> sd (slices (pduSession ue) ! i) = d)"

text \<open>Marking a slice does not move the first match.\<close>

lemma find_after_mark:
  assumes "find_slice n mov (\<lambda>e. sst e = s \<and> sd e = d) l = Inr (Some i)"
  shows "find_slice n mov (\<lambda>e. sst e = s \<and> sd e = d) (l[i := (l ! i)\<lparr>status := x\<rparr>]) = Inr (Some i)"
  using assms
proof (induction n arbitrary: mov)
  case (Suc n)
  then show ?case
    by (cases "i = mov") (auto split: if_splits)
qed simp

lemma CreatePduSession_missing:
  assumes "ue_ok ue" and "\<not> has_slice s d ue"
  shows "\<exists>ue'. CreatePduSession psi s d t q a f ul ip dl ue = Inr (''Slice was not found'', ue') \<and>
    pduSessions ue' = Some (case pduSessions ue of None \<Rightarrow> Map.empty | Some m \<Rightarrow> m) \<and>
    downlinkTeid (pduSession ue') = dl \<and> slices (pduSession ue') = slices (pduSession ue) \<and>
    lenSlice (pduSession ue') = lenSlice (pduSession ue) \<and> ranUeNgapId ue' = ranUeNgapId ue"
proof -
  have ok: "list_ok (slices (pduSession ue)) (lenSlice (pduSession ue))"
    using assms(1) by (simp add: ue_ok_def)
  have "find_slice (lenSlice (pduSession ue)) 0 (\<lambda>e. sst e = s \<and> sd e = d) (slices (pduSession ue)) = Inr None"
    using assms(2) by (cases rule: find_slice_cases [OF ok, of "\<lambda>e. sst e = s \<and> sd e = d"]) (auto simp: has_slice_def)
  then show ?thesis
    by (auto simp: CreatePduSession_def pduSessionNssai_def split: option.splits)
qed

lemma CreatePduSession_found:
  assumes "ue_ok ue" and "has_slice s d ue"
  shows "\<exists>ue'. CreatePduSession psi s d t q a f ul ip dl ue = Inr ([], ue') \<and>
    pduSessions ue' = Some ((case pduSessions ue of None \<Rightarrow> Map.empty | Some m \<Rightarrow> m)(psi \<mapsto>
      \<lparr>pduSessionId = psi, ranUeIP = ip, uplinkTeid = ul, downlinkTeid = dl, slices = [\<lparr>sst = s, sd = d, status = ''active''\<rparr>],
       lenSlice = 0, pduType = t, qosId = q, fiveQi = f, priArp = a\<rparr>)) \<and>
    downlinkTeid (pduSession ue') = dl \<and> length (slices (pduSession ue')) = length (slices (pduSession ue)) \<and>
    lenSlice (pduSession ue') = lenSlice (pduSession ue) \<and> ranUeNgapId ue' = ranUeNgapId ue"
proof -
  have ok: "list_ok (slices (pduSession ue)) (lenSlice (pduSession ue))"
    using assms(1) by (simp add: ue_ok_def)
  obtain i where i: "find_slice (lenSlice (pduSession ue)) 0 (\<lambda>e. sst e = s \<and> sd e = d) (slices (pduSession ue)) = Inr (Some i)"
      "i < length (slices (pduSession ue))" "sst (slices (pduSession ue) ! i) = s" "sd (slices (pduSession ue) ! i) = d"
    using assms(2) by (cases rule: find_slice_cases [OF ok, of "\<lambda>e. sst e = s \<and> sd e = d"]) (auto simp: has_slice_def)
  have sl: "(slices (pduSession ue) ! i)\<lparr>status := ''active''\<rparr> = \<lparr>sst = s, sd = d, status = ''active''\<rparr>"
    using i(3,4) by simp
  show ?thesis
    using i(1,2) find_after_mark [OF i(1), of "''active''"]
    by (auto simp: CreatePduSession_def pduSessionNssai_def sl split: option.splits)
qed

lemma CreatePduSession_ok:
  assumes "ue_ok ue" and "CreatePduSession psi s d t q a f ul ip dl ue = Inr (msg, ue')"
  shows "ue_ok ue' \<and> ranUeNgapId ue' = ranUeNgapId ue"
proof (cases "has_slice s d ue")
  case True
  then show ?thesis
    using CreatePduSession_found [OF assms(1) True, of psi t q a f ul ip dl] assms
    by (auto simp: ue_ok_def split: option.splits if_splits)
next
  case False
  then show ?thesis
    using CreatePduSession_missing [OF assms(1) False, of psi t q a f ul ip dl] assms
    by (auto simp: ue_ok_def split: option.splits)
qed

text \<open>
  C28: after the context of a UE was created with a list of allowed slices, a session on one of them
  is created and found again under its identifier with the parameters it was given, the other
  sessions stay as they were, and a session on another slice is refused and not stored.
\<close>

theorem pdu_session_on_allowed_slice:
  assumes "ue_ok ue" and "length ssts = length sds" and "CreateUeContext plmn imeisv ssts sds ue = Inr ue1"
  shows "if (s, d) \<in> set (zip ssts sds)
    then \<exists>ue2. CreatePduSession psi s d t q a f ul ip dl ue1 = Inr ([], ue2) \<and>
      GetTeidDownlinkOfSession psi ue2 = dl \<and> GetQosIdOfSession psi ue2 = q \<and>
      FindPduSessionByDownlinkTeid [psi] dl ue2 = the (pduSessions ue2) psi \<and>
      (\<forall>k. k \<noteq> psi \<longrightarrow> the (pduSessions ue2) k = (case pduSessions ue of None \<Rightarrow> None | Some m \<Rightarrow> m k))
    else \<exists>ue2. CreatePduSession psi s d t q a f ul ip dl ue1 = Inr (''Slice was not found'', ue2) \<and>
      (\<forall>k. the (pduSessions ue2) k = (case pduSessions ue of None \<Rightarrow> None | Some m \<Rightarrow> m k))"
proof -
  note ctx = CreateUeContext_slices [OF assms]
  have has: "has_slice s d ue1 \<longleftrightarrow> (s, d) \<in> set (zip ssts sds)"
  proof (cases ssts)
    case Nil
    then show ?thesis using ctx(1) by (simp add: has_slice_def)
  next
    case (Cons x xs)
    then have "slices (pduSession ue1) = map (\<lambda>(s, d). \<lparr>sst = s, sd = d, status = ''inactive''\<rparr>) (zip ssts sds)"
      by (intro ctx(2)) simp
    then show ?thesis
      using ctx(1) assms(2) by (auto simp: has_slice_def set_zip split: prod.splits)
  qed
  show ?thesis
  proof (cases "has_slice s d ue1")
    case True
    obtain ue2 where ue2: "CreatePduSession psi s d t q a f ul ip dl ue1 = Inr ([], ue2)"
        "pduSessions ue2 = Some ((case pduSessions ue1 of None \<Rightarrow> Map.empty | Some m \<Rightarrow> m)(psi \<mapsto>
          \<lparr>pduSessionId = psi, ranUeIP = ip, uplinkTeid = ul, downlinkTeid = dl,
           slices = [\<lparr>sst = s, sd = d, status = ''active''\<rparr>], lenSlice = 0, pduType = t, qosId = q, fiveQi = f, priArp = a\<rparr>))"
      using CreatePduSession_found [OF ctx(3) True, of psi t q a f ul ip dl] by blast
    then have "GetTeidDownlinkOfSession psi ue2 = dl" and "GetQosIdOfSession psi ue2 = q"
      and "FindPduSessionByDownlinkTeid [psi] dl ue2 = the (pduSessions ue2) psi"
      and "\<forall>k. k \<noteq> psi \<longrightarrow> the (pduSessions ue2) k = (case pduSessions ue of None \<Rightarrow> None | Some m \<Rightarrow> m k)"
      by (auto simp: GetTeidDownlinkOfSession_def GetQosIdOfSession_def FindPduSessionByDownlinkTeid_def ctx(5)
          split: option.splits)
    with ue2(1) has True show ?thesis by auto
  next
    case False
    with has CreatePduSession_missing [OF ctx(3) False, of psi t q a f ul ip dl] show ?thesis
      by (auto simp: ctx(5) split: option.splits)
  qed
qed

definition demo_ue :: GNBUe where
  "demo_ue = (case CreateUeContext ''not informed'' [] [''01'', ''02''] [''010203'', ''112233''] zeroUe of Inr ue \<Rightarrow> ue | Inl _ \<Rightarrow> zeroUe)"

lemma demo_ue_context:
  "CreateUeContext ''not informed'' [] [''01'', ''02''] [''010203'', ''112233''] zeroUe = Inr demo_ue"
  by (simp add: demo_ue_def CreateUeContext_def zeroUe_def zeroSession_def addedSlice_def added_def)

lemma zeroUe_ok: "ue_ok zeroUe"
  by (simp add: ue_ok_def zeroUe_def zeroSession_def)

lemma pdu_session_on_allowed_slice_witness:
  "\<exists>ue2. CreatePduSession 1 ''02'' ''112233'' 0 9 1 5 20 None 10 demo_ue = Inr ([], ue2) \<and>
     GetTeidDownlinkOfSession 1 ue2 = 10 \<and> GetQosIdOfSession 1 ue2 = 9"
  using pdu_session_on_allowed_slice [OF zeroUe_ok _ demo_ue_context, of "''02''" "''112233''" 1 0 9 1 5 20 None 10]
  by auto

text \<open>
  The selected slice that the gNB reports is the first one any session made active, not the one
  of the session just created.
\<close>

theorem selected_nssai_is_first_active:
  "\<exists>ue1 ue2. CreatePduSession 1 ''01'' ''010203'' 0 9 1 5 20 None 10 demo_ue = Inr ([], ue1) \<and>
     CreatePduSession 2 ''02'' ''112233'' 0 9 1 5 21 None 11 ue1 = Inr ([], ue2) \<and>
     pduSessionId (pduSession ue2) = 2 \<and> GetSelectedNssai ue2 = Inr (''01'', ''010203'')"
  by (simp add: demo_ue_def CreateUeContext_def zeroUe_def zeroSession_def addedSlice_def added_def
      CreatePduSession_def pduSessionNssai_def GetSelectedNssai_def)

section \<open>Pools\<close>

text \<open>
  The contract of an index over UE references: what a lookup returns after a store and after a
  deletion. Its client lemma is that a run of stores and deletions acts on the index as on a map.
\<close>

datatype ('k, 'v) pool_op = Store 'k 'v | Erase 'k

fun pool_map :: "('k, 'v) pool_op \<Rightarrow> ('k \<rightharpoonup> 'v) \<Rightarrow> ('k \<rightharpoonup> 'v)" where
  "pool_map (Store k v) m = m(k \<mapsto> v)"
| "pool_map (Erase k) m = m(k := None)"

fun pool_exec :: "('k \<Rightarrow> 'v \<Rightarrow> 's \<Rightarrow> 's) \<Rightarrow> ('k \<Rightarrow> 's \<Rightarrow> 's) \<Rightarrow> ('k, 'v) pool_op \<Rightarrow> 's \<Rightarrow> 's" where
  "pool_exec st del (Store k v) s = st k v s"
| "pool_exec st del (Erase k) s = del k s"

definition found :: "'v res \<Rightarrow> 'v option" where
  "found r = (case r of Inr v \<Rightarrow> Some v | Inl _ \<Rightarrow> None)"

locale keyed_pool =
  fixes store :: "'k \<Rightarrow> 'v \<Rightarrow> 's \<Rightarrow> 's" and remove :: "'k \<Rightarrow> 's \<Rightarrow> 's" and fetch :: "'k \<Rightarrow> 's \<Rightarrow> 'v res"
  assumes fetch_store: "found (fetch k' (store k v s)) = (if k' = k then Some v else found (fetch k' s))"
    and fetch_remove: "found (fetch k' (remove k s)) = (if k' = k then None else found (fetch k' s))"
begin

definition index :: "'s \<Rightarrow> ('k \<rightharpoonup> 'v)" where
  "index s = (\<lambda>k. found (fetch k s))"

lemma index_exec: "index (pool_exec store remove oper s) = pool_map oper (index s)"
  by (cases oper) (auto simp: index_def fetch_store fetch_remove)

lemma index_run: "index (fold (pool_exec store remove) ops s) = fold pool_map ops (index s)"
  by (induction ops arbitrary: s) (simp_all add: index_exec)

lemma fetch_run: "found (fetch k (fold (pool_exec store remove) ops s)) = fold pool_map ops (\<lambda>k. found (fetch k s)) k"
  using index_run [of ops s] by (simp add: index_def fun_eq_iff)

end

interpretation teid_index: keyed_pool StoreTeid DeleteGnBUeByTeid GetGnbUeByTeid
  by unfold_locales (auto simp: StoreTeid_def DeleteGnBUeByTeid_def GetGnbUeByTeid_def found_def)

interpretation ip_index: keyed_pool StoreUeIp DeleteGnBUeByIp GetGnbUeByIp
  by unfold_locales (auto simp: StoreUeIp_def DeleteGnBUeByIp_def GetGnbUeByIp_def found_def)


section \<open>New UEs\<close>

lemma NewGnBUe_simps [ctx_simps]:
  "fst (NewGnBUe order conn gnb) =
     (if selectAmFByActive order gnb = None \<and> range_amf order (\<lambda>_. True) (amfPool gnb) = None then None else Some (nextRef gnb))"
  "uePool (snd (NewGnBUe order conn gnb)) = (uePool gnb)(idUeGenerator gnb \<mapsto> nextRef gnb)"
  "teidPool (snd (NewGnBUe order conn gnb)) = (teidPool gnb)(teidGenerator gnb \<mapsto> nextRef gnb)"
  "ueIpPool (snd (NewGnBUe order conn gnb)) =
     (ueIpPool gnb)(ip_string (Some (127, 0, 0, ueIpGenerator gnb)) \<mapsto> nextRef gnb)"
  "amfPool (snd (NewGnBUe order conn gnb)) = amfPool gnb"
  "idUeGenerator (snd (NewGnBUe order conn gnb)) = i64 (idUeGenerator gnb + 1)"
  "teidGenerator (snd (NewGnBUe order conn gnb)) = teidGenerator gnb + 1"
  "ueIpGenerator (snd (NewGnBUe order conn gnb)) = ueIpGenerator gnb + 1"
  "nextRef (snd (NewGnBUe order conn gnb)) = nextRef gnb + 1"
  by (auto simp: NewGnBUe_def getRanUeId_def GetUeTeid_def getRanUeIp_def SetAmfUeId_def Let_def selectAmFByActive_def
      split: option.splits)

lemma NewGnBUe_ue:
  "\<exists>ue. ues (snd (NewGnBUe order conn gnb)) = (ues gnb)(nextRef gnb \<mapsto> ue) \<and> ranUeNgapId ue = idUeGenerator gnb \<and>
     unixSocketConnection ue = conn \<and> pduSessions ue = None \<and>
     pduSession ue = zeroSession\<lparr>downlinkTeid := teidGenerator gnb, ranUeIP := Some (127, 0, 0, ueIpGenerator gnb)\<rparr>"
  by (auto simp: NewGnBUe_def getRanUeId_def GetUeTeid_def getRanUeIp_def SetAmfUeId_def Let_def zeroUe_def
      split: option.splits)

text \<open>
  A new UE, when there is an AMF for it, is found by its RAN UE NGAP ID, by its downlink TEID and
  by its address, and every lookup under another key gives what it gave before.
\<close>

theorem new_ue_is_addressable:
  assumes "k \<in> set order" and "amfPool gnb k \<noteq> None"
  shows "fst (NewGnBUe order conn gnb) = Some (nextRef gnb) \<and>
    GetGnbUe i (snd (NewGnBUe order conn gnb)) = (if i = idUeGenerator gnb then Inr (nextRef gnb) else GetGnbUe i gnb) \<and>
    GetGnbUeByTeid t (snd (NewGnBUe order conn gnb)) =
      (if t = teidGenerator gnb then Inr (nextRef gnb) else GetGnbUeByTeid t gnb) \<and>
    GetGnbUeByIp a (snd (NewGnBUe order conn gnb)) =
      (if a = ip_string (Some (127, 0, 0, ueIpGenerator gnb)) then Inr (nextRef gnb) else GetGnbUeByIp a gnb)"
proof -
  have "k \<in> set ks \<Longrightarrow> range_amf ks (\<lambda>_. True) (amfPool gnb) \<noteq> None" for ks
    using assms(2) by (induction ks) (auto split: option.splits)
  with assms(1) have "fst (NewGnBUe order conn gnb) = Some (nextRef gnb)"
    by (auto simp: ctx_simps)
  then show ?thesis
    by (simp add: ctx_simps GetGnbUe_def GetGnbUeByTeid_def GetGnbUeByIp_def)
qed

definition zeroGnb :: GNBContext where
  "zeroGnb = \<lparr>gnbMcc = [], gnbMnc = [], gnbTac = [], gnbId = [], gnbIp = [], gnbPort = 0, gnbSst = [], gnbSd = [],
     upfIp = [], upfPort = 0, gnbDataIp = [], gnbDataPort = 0, gatewayGnbIp = [], gnbLinkType = [], gnbLinkPort = 0,
     gnbSocketPath = [], gnbCellId = 0, gnbPagingDRX = [], uePool = Map.empty, teidPool = Map.empty,
     ueIpPool = Map.empty, amfPool = Map.empty, idUeGenerator = 0, idAmfGenerator = 0, teidGenerator = 0,
     ueIpGenerator = 0, ues = Map.empty, nextRef = 0\<rparr>"

definition demo_gnb :: GNBContext where
  "demo_gnb = snd (NewGnBAmf ''127.0.0.1'' 38412 (NewRanGnbContext ''000001'' ''208'' ''93'' ''000001'' ''01'' ''010203''
     ''127.0.0.1'' ''127.0.0.1'' 9487 2152 zeroGnb))"

lemma new_ue_is_addressable_witness:
  "fst (NewGnBUe [1] None demo_gnb) = Some 0 \<and> GetGnbUe 1 (snd (NewGnBUe [1] None demo_gnb)) = Inr 0"
proof -
  have amf: "amfPool demo_gnb 1 \<noteq> None" and n: "nextRef demo_gnb = 0" and u: "idUeGenerator demo_gnb = 1"
    by (simp_all add: demo_gnb_def NewGnBAmf_def getRanAmfId_def NewRanGnbContext_def zeroGnb_def Let_def)
  have k: "(1::int) \<in> set [1]" by simp
  show ?thesis
    using new_ue_is_addressable [OF k amf, of None 1] by (simp add: n u)
qed

text \<open>
  A gNB without an AMF returns no UE, but the UE stays in its pools under the identifiers it was
  given.
\<close>

theorem refused_ue_stays_in_pools:
  assumes "amfPool gnb = Map.empty"
  shows "fst (NewGnBUe order conn gnb) = None \<and>
    GetGnbUe (idUeGenerator gnb) (snd (NewGnBUe order conn gnb)) = Inr (nextRef gnb)"
proof -
  have "range_amf ks P Map.empty = None" for ks P
    by (induction ks) auto
  then show ?thesis
    by (simp add: ctx_simps assms selectAmFByActive_def GetGnbUe_def)
qed

lemma refused_ue_stays_in_pools_witness:
  "fst (NewGnBUe [] (Some 4) zeroGnb) = None \<and> GetGnbUe 0 (snd (NewGnBUe [] (Some 4) zeroGnb)) = Inr 0"
  using refused_ue_stays_in_pools [of zeroGnb "[]" "Some 4"] by (simp add: zeroGnb_def)

text \<open>The address generator is a byte: 256 UEs later the same address is handed out again.\<close>

lemma generators_after_run:
  "ueIpGenerator (((\<lambda>g. snd (NewGnBUe order conn g)) ^^ n) gnb) = ueIpGenerator gnb + of_nat n \<and>
   nextRef (((\<lambda>g. snd (NewGnBUe order conn g)) ^^ n) gnb) = nextRef gnb + n"
  by (induction n) (simp_all add: ctx_simps)

text \<open>
  The 256th UE after a given one takes over its address, although the first is still connected.
\<close>

theorem ue_address_is_reused:
  "GetGnbUeByIp (ip_string (Some (127, 0, 0, ueIpGenerator gnb))) (snd (NewGnBUe order conn gnb)) = Inr (nextRef gnb) \<and>
   GetGnbUeByIp (ip_string (Some (127, 0, 0, ueIpGenerator gnb))) (((\<lambda>g. snd (NewGnBUe order conn g)) ^^ 257) gnb) =
     Inr (nextRef gnb + 256)"
proof -
  have 257: "((\<lambda>g. snd (NewGnBUe order conn g)) ^^ 257) gnb =
      snd (NewGnBUe order conn (((\<lambda>g. snd (NewGnBUe order conn g)) ^^ 256) gnb))"
    using funpow.simps(2) [of 256 "\<lambda>g. snd (NewGnBUe order conn g)"] by (simp add: numeral_eq_Suc)
  have "(256 :: u8) = 0"
    by simp
  then have "ueIpGenerator gnb + of_nat 256 = ueIpGenerator gnb"
    by (simp only: of_nat_numeral add_0_right)
  then show ?thesis
    using generators_after_run [where n = 256 and order = order and conn = conn and gnb = gnb] unfolding 257
    by (simp add: ctx_simps GetGnbUeByIp_def del: of_nat_numeral)
qed

section \<open>Sound states\<close>

text \<open>
  What every operation on the gNB context keeps, after at most \<open>n\<close> UEs were created: the pools lead to
  live contexts, those of the UE pool with the identifier they are stored under, identifiers in use are
  below the generator, and every UE context is sound.
\<close>

definition gnb_ok :: "nat \<Rightarrow> GNBContext \<Rightarrow> bool" where
  "gnb_ok n g \<longleftrightarrow> 1 \<le> idUeGenerator g \<and> idUeGenerator g \<le> int n + 1 \<and>
     (\<forall>k r. uePool g k = Some r \<longrightarrow> k < idUeGenerator g \<and> (\<exists>ue. ues g r = Some ue \<and> ranUeNgapId ue = k)) \<and>
     (\<forall>t r. teidPool g t = Some r \<longrightarrow> ues g r \<noteq> None) \<and>
     (\<forall>i r. ueIpPool g i = Some r \<longrightarrow> ues g r \<noteq> None) \<and>
     (\<forall>r ue. ues g r = Some ue \<longrightarrow> r < nextRef g \<and> ue_ok ue) \<and>
     (\<forall>k a. amfPool g k = Some a \<longrightarrow> amfKey a = k)"

lemma gnb_ok_new_ue:
  assumes "gnb_ok n g" and "n < 2 ^ 63 - 2"
  shows "gnb_ok (Suc n) (snd (NewGnBUe order conn g))"
proof -
  obtain ue where ue: "ues (snd (NewGnBUe order conn g)) = (ues g)(nextRef g \<mapsto> ue)" "ranUeNgapId ue = idUeGenerator g"
      "pduSessions ue = None"
      "pduSession ue = zeroSession\<lparr>downlinkTeid := teidGenerator g, ranUeIP := Some (127, 0, 0, ueIpGenerator g)\<rparr>"
    using NewGnBUe_ue by blast
  have ok: "ue_ok ue"
    using ue(3,4) by (simp add: ue_ok_def zeroSession_def)
  have gen: "i64 (idUeGenerator g + 1) = idUeGenerator g + 1"
  proof (rule i64_id)
    have "1 \<le> idUeGenerator g" and "idUeGenerator g \<le> int n + 1" and "int n < 2 ^ 63 - 2"
      using assms by (simp_all add: gnb_ok_def)
    then show "- (2 ^ 63) \<le> idUeGenerator g + 1" and "idUeGenerator g + 1 < 2 ^ 63"
      by linarith+
  qed
  have fresh: "ues g (nextRef g) = None"
  proof (rule ccontr)
    assume "ues g (nextRef g) \<noteq> None"
    with assms(1) have "nextRef g < nextRef g"
      unfolding gnb_ok_def by blast
    then show False by simp
  qed
  have old: "r \<noteq> nextRef g" if "ues g r = Some u" for r u
    using that fresh by auto
  note inv = assms(1) [unfolded gnb_ok_def]
  show ?thesis
    unfolding gnb_ok_def ctx_simps gen ue(1)
  proof (intro conjI allI impI)
    fix k r
    assume k: "((uePool g)(idUeGenerator g \<mapsto> nextRef g)) k = Some r"
    have "k \<noteq> idUeGenerator g \<Longrightarrow> k < idUeGenerator g"
      using k inv by simp
    then show "k < idUeGenerator g + 1"
      by (cases "k = idUeGenerator g") simp_all
    show "\<exists>u. ((ues g)(nextRef g \<mapsto> ue)) r = Some u \<and> ranUeNgapId u = k"
    proof (cases "k = idUeGenerator g")
      case True
      then show ?thesis using k ue(2) by auto
    next
      case False
      then obtain u where "ues g r = Some u" "ranUeNgapId u = k"
        using k inv by auto
      then show ?thesis using old by auto
    qed
  qed (use inv ok in \<open>auto split: if_splits simp: less_Suc_eq\<close>)
qed

lemma GetSelectedNssai_total: "ue_ok ue \<Longrightarrow> \<exists>p. GetSelectedNssai ue = Inr p"
  unfolding ue_ok_def GetSelectedNssai_def Let_def
  by (elim conjE, erule find_slice_cases [where P = "\<lambda>e. status e = ''active''"]) auto

lemma gnb_ok_lookups:
  assumes "gnb_ok n g"
  shows "(\<forall>k r. GetGnbUe k g = Inr r \<longrightarrow> (\<exists>ue. ues g r = Some ue \<and> ranUeNgapId ue = k)) \<and>
    (\<forall>k k' r. GetGnbUe k g = Inr r \<longrightarrow> GetGnbUe k' g = Inr r \<longrightarrow> k = k') \<and>
    (\<forall>r. GetGnbUe (idUeGenerator g) g \<noteq> Inr r) \<and>
    (\<forall>t r. GetGnbUeByTeid t g = Inr r \<longrightarrow> ues g r \<noteq> None) \<and>
    (\<forall>i r. GetGnbUeByIp i g = Inr r \<longrightarrow> ues g r \<noteq> None) \<and>
    (\<forall>r ue. ues g r = Some ue \<longrightarrow> (\<exists>p. GetSelectedNssai ue = Inr p))"
proof -
  note inv = assms [unfolded gnb_ok_def]
  have ue: "GetGnbUe k g = Inr r \<longleftrightarrow> uePool g k = Some r" for k r
    by (auto simp: GetGnbUe_def split: option.splits)
  have teid: "GetGnbUeByTeid t g = Inr r \<longleftrightarrow> teidPool g t = Some r" for t r
    by (auto simp: GetGnbUeByTeid_def split: option.splits)
  have ip: "GetGnbUeByIp i g = Inr r \<longleftrightarrow> ueIpPool g i = Some r" for i r
    by (auto simp: GetGnbUeByIp_def split: option.splits)
  have keyed: "uePool g k = Some r \<Longrightarrow> \<exists>u. ues g r = Some u \<and> ranUeNgapId u = k" for k r
    using inv by blast
  have "k = k'" if "uePool g k = Some r" and "uePool g k' = Some r" for k k' r
    using keyed [OF that(1)] keyed [OF that(2)] by auto
  moreover have "uePool g (idUeGenerator g) \<noteq> Some r" for r
    using inv by (metis less_irrefl)
  moreover have "ues g r = Some u \<Longrightarrow> \<exists>p. GetSelectedNssai u = Inr p" for r u
    using inv by (intro GetSelectedNssai_total) blast
  ultimately show ?thesis
    unfolding ue teid ip using inv by blast
qed

end
