(* ===== verification/Ngap_Builders.thy ===== *)
theory Ngap_Builders
  imports Ngap_Constants Gnb_Context
begin

text \<open>
  The NGAP messages the gNB sends, as \<^verbatim>\<open>gnb/ngap/message/ngap_control\<close> builds them, the converters of
  \<^verbatim>\<open>lib/ngap/ngapConvert\<close> they use, and the front end of the codec, \<^verbatim>\<open>lib/ngap/ngap.go\<close>. A builder fills a
  zero value field by field; here \<open>struct_of\<close> is given the fields that are set, by name. The variadic
  argument \<^verbatim>\<open>cellId ...int64\<close> is a list.
\<close>

unbundle bit_operations_syntax

section \<open>Structs by field name\<close>

definition fields_of :: "gtype \<Rightarrow> gfield list" where
  "fields_of t = (case t of TStruct fs \<Rightarrow> fs | _ \<Rightarrow> [])"

definition struct_of :: "gtype \<Rightarrow> (string \<times> gval) list \<Rightarrow> gval" where
  "struct_of t kvs =
     VStruct (map (\<lambda>f. case map_of kvs (fname f) of Some v \<Rightarrow> v | None \<Rightarrow> zero_val (ftype f)) (fields_of t))"

definition field_type :: "gtype \<Rightarrow> string \<Rightarrow> gtype" where
  "field_type t n = (case find (\<lambda>f. fname f = n) (fields_of t) of Some f \<Rightarrow> ftype f | None \<Rightarrow> t)"

text \<open>A struct whose only field is \<^verbatim>\<open>Value\<close> or \<^verbatim>\<open>List\<close>, and a CHOICE with \<^verbatim>\<open>Present\<close> and one pointer set.\<close>

definition wrap :: "gval \<Rightarrow> gval" where
  "wrap v = VStruct [v]"

definition alternative :: "gtype \<Rightarrow> int \<Rightarrow> string \<Rightarrow> gval \<Rightarrow> gval" where
  "alternative t present n v = struct_of t [(''Present'', VInt present), (n, VPtr (Some v))]"

text \<open>An information element, and a message of the procedures without or with a response.\<close>

definition ie_of :: "gtype \<Rightarrow> int \<Rightarrow> u64 \<Rightarrow> int \<Rightarrow> string \<Rightarrow> gval \<Rightarrow> gval" where
  "ie_of t i criticality present n v =
     struct_of t [(''Id'', wrap (VInt i)), (''Criticality'', wrap (VEnumerated criticality)),
       (''Value'', alternative (field_type t ''Value'') present n v)]"

definition procedure_of :: "gtype \<Rightarrow> int \<Rightarrow> u64 \<Rightarrow> int \<Rightarrow> string \<Rightarrow> gval list \<Rightarrow> gval" where
  "procedure_of t code criticality present n ies =
     struct_of t [(''ProcedureCode'', wrap (VInt code)), (''Criticality'', wrap (VEnumerated criticality)),
       (''Value'', alternative (field_type t ''Value'') present n (wrap (wrap (VSlice ies))))]"

definition initiating :: "int \<Rightarrow> u64 \<Rightarrow> int \<Rightarrow> string \<Rightarrow> gval list \<Rightarrow> gval" where
  "initiating code criticality present n ies =
     alternative NGAPPDU NGAPPDUPresentInitiatingMessage ''InitiatingMessage''
       (procedure_of InitiatingMessage code criticality present n ies)"

definition successful :: "int \<Rightarrow> u64 \<Rightarrow> int \<Rightarrow> string \<Rightarrow> gval list \<Rightarrow> gval" where
  "successful code criticality present n ies =
     alternative NGAPPDU NGAPPDUPresentSuccessfulOutcome ''SuccessfulOutcome''
       (procedure_of SuccessfulOutcome code criticality present n ies)"

section \<open>Encoder and decoder\<close>

definition Encoder :: "gval \<Rightarrow> u8 list res" where
  "Encoder pdu = MarshalWithParams NGAPPDU pdu ''valueExt,valueLB:0,valueUB:2''"

definition Decoder :: "u8 list \<Rightarrow> gval res" where
  "Decoder b = UnmarshalWithParams b NGAPPDU ''valueExt,valueLB:0,valueUB:2''"

text \<open>The bytes of an encoding whose error is dropped.\<close>

definition bytes_or_nil :: "u8 list res \<Rightarrow> u8 list res" where
  "bytes_or_nil r = (case r of Inl (Fail _) \<Rightarrow> Inr [] | _ \<Rightarrow> r)"

text \<open>A loop that appends one item for each element.\<close>

fun rmap_list :: "('a \<Rightarrow> 'b res) \<Rightarrow> 'a list \<Rightarrow> 'b list res" where
  "rmap_list f [] = Inr []"
| "rmap_list f (x # xs) = rbind (f x) (\<lambda>y. rbind (rmap_list f xs) (\<lambda>ys. Inr (y # ys)))"

section \<open>Converters\<close>

text \<open>
  \<^verbatim>\<open>net.ParseIP(s).To4()\<close> and \<^verbatim>\<open>net.ParseIP(s).To16()\<close> are the arguments \<open>fourOf\<close> and \<open>sixteenOf\<close>; nil is the
  empty list, on which an index panics.
\<close>

definition first_bytes :: "nat \<Rightarrow> u8 list \<Rightarrow> u8 list res" where
  "first_bytes n bs = (if length bs < n then Inl Panic else Inr (take n bs))"

definition IPAddressToNgap :: "(string \<Rightarrow> u8 list) \<Rightarrow> (string \<Rightarrow> u8 list) \<Rightarrow> string \<Rightarrow> string \<Rightarrow> BitString res" where
  "IPAddressToNgap fourOf sixteenOf ipv4Addr ipv6Addr =
     (if ipv4Addr = [] \<and> ipv6Addr = [] then Inr \<lparr>Bytes = [], BitLength = 0\<rparr>
      else if ipv4Addr \<noteq> [] \<and> ipv6Addr \<noteq> [] then
        rbind (first_bytes 4 (fourOf ipv4Addr)) (\<lambda>a. rbind (first_bytes 16 (sixteenOf ipv6Addr)) (\<lambda>b.
          Inr \<lparr>Bytes = a @ b, BitLength = 160\<rparr>))
      else if ipv4Addr \<noteq> [] then
        rbind (first_bytes 4 (fourOf ipv4Addr)) (\<lambda>a. Inr \<lparr>Bytes = a, BitLength = 32\<rparr>)
      else rbind (first_bytes 16 (sixteenOf ipv6Addr)) (\<lambda>b. Inr \<lparr>Bytes = b, BitLength = 128\<rparr>))"

text \<open>An MCC or MNC that is too short makes an index panic; an error of the decoding is dropped.\<close>

definition PlmnIdToNgap :: "string \<Rightarrow> string \<Rightarrow> u8 list res" where
  "PlmnIdToNgap mcc mnc =
     (if length mcc < 3 \<or> length mnc < 2 then Inl Panic
      else Inr (fst (DecodeString
        (if length mnc = 2 then [mcc ! 1, mcc ! 0, CHR ''f'', mcc ! 2, mnc ! 1, mnc ! 0]
         else [mcc ! 1, mcc ! 0, mnc ! 0, mcc ! 2, mnc ! 2, mnc ! 1]))))"

definition PlmnIdToModels :: "u8 list \<Rightarrow> (string \<times> string) res" where
  "PlmnIdToModels value =
     (let hexString = EncodeToString value in
      if length hexString < 6 then Inl Panic
      else Inr ([hexString ! 1, hexString ! 0, hexString ! 3],
        if hexString ! 2 = CHR ''f'' then [hexString ! 5, hexString ! 4]
        else [hexString ! 2, hexString ! 5, hexString ! 4]))"

section \<open>Parts the messages share\<close>

definition cell_identity :: "u8 list \<Rightarrow> int \<Rightarrow> gval" where
  "cell_identity gid cid =
     VBitString \<lparr>Bytes = (if length gid \<ge> 3 then take 3 gid else [0, 0, 0]) @
        [word_of_int (cid div 16), word_of_int (cid mod 16 * 16)], BitLength = 36\<rparr>"

definition nr_cgi :: "u8 list \<Rightarrow> u8 list \<Rightarrow> int \<Rightarrow> gval" where
  "nr_cgi plmn gid cid =
     struct_of NRCGI [(''PLMNIdentity'', wrap (VOctetString plmn)), (''NRCellIdentity'', wrap (cell_identity gid cid))]"

definition tai_of :: "u8 list \<Rightarrow> u8 list \<Rightarrow> gval" where
  "tai_of plmn tac =
     struct_of TAI [(''PLMNIdentity'', wrap (VOctetString plmn)), (''TAC'', wrap (VOctetString tac))]"

definition first_cell :: "int list \<Rightarrow> int" where
  "first_cell cellId = (if length cellId > 0 then cellId ! 0 else 1)"

definition user_location :: "u8 list \<Rightarrow> u8 list \<Rightarrow> u8 list \<Rightarrow> int list \<Rightarrow> gval" where
  "user_location plmn tac gid cellId =
     alternative UserLocationInformation UserLocationInformationPresentUserLocationInformationNR
       ''UserLocationInformationNR''
       (struct_of UserLocationInformationNR
          [(''NRCGI'', nr_cgi plmn gid (first_cell cellId)), (''TAI'', tai_of plmn tac)])"

definition global_gnb_id :: "u8 list \<Rightarrow> u8 list \<Rightarrow> gval" where
  "global_gnb_id plmn gid =
     alternative GlobalRANNodeID GlobalRANNodeIDPresentGlobalGNBID ''GlobalGNBID''
       (struct_of GlobalGNBID [(''PLMNIdentity'', wrap (VOctetString plmn)),
          (''GNBID'', alternative GNBID GNBIDPresentGNBID ''GNBID'' (VBitString \<lparr>Bytes = gid, BitLength = 24\<rparr>))])"

definition gtp_tunnel :: "BitString \<Rightarrow> u8 list \<Rightarrow> gval" where
  "gtp_tunnel address teid =
     alternative UPTransportLayerInformation UPTransportLayerInformationPresentGTPTunnel ''GTPTunnel''
       (struct_of GTPTunnel [(''TransportLayerAddress'', wrap (VBitString address)), (''GTPTEID'', wrap (VOctetString teid))])"

definition radio_cause :: "u64 \<Rightarrow> gval" where
  "radio_cause c = alternative Cause CausePresentRadioNetwork ''RadioNetwork'' (wrap (VEnumerated c))"

definition PutUint32 :: "u32 \<Rightarrow> u8 list" where
  "PutUint32 v = map (\<lambda>i. ucast (drop_bit (8 * i) v)) [3, 2, 1, 0]"

section \<open>NAS transport\<close>

definition buildUplinkNasTransport ::
    "int \<Rightarrow> int \<Rightarrow> u8 list \<Rightarrow> u8 list \<Rightarrow> u8 list \<Rightarrow> u8 list \<Rightarrow> int list \<Rightarrow> gval" where
  "buildUplinkNasTransport amfUeNgapID ranUeNgapID nasPdu plmn tac gid cellId =
     initiating ProcedureCodeUplinkNASTransport CriticalityPresentIgnore
       InitiatingMessagePresentUplinkNASTransport ''UplinkNASTransport''
       [ie_of UplinkNASTransportIEs ProtocolIEIDAMFUENGAPID CriticalityPresentReject
          UplinkNASTransportIEsPresentAMFUENGAPID ''AMFUENGAPID'' (wrap (VInt amfUeNgapID)),
        ie_of UplinkNASTransportIEs ProtocolIEIDRANUENGAPID CriticalityPresentReject
          UplinkNASTransportIEsPresentRANUENGAPID ''RANUENGAPID'' (wrap (VInt ranUeNgapID)),
        ie_of UplinkNASTransportIEs ProtocolIEIDNASPDU CriticalityPresentReject
          UplinkNASTransportIEsPresentNASPDU ''NASPDU'' (wrap (VOctetString nasPdu)),
        ie_of UplinkNASTransportIEs ProtocolIEIDUserLocationInformation CriticalityPresentIgnore
          UplinkNASTransportIEsPresentUserLocationInformation ''UserLocationInformation''
          (user_location plmn tac gid cellId)]"

definition getUplinkNASTransport ::
    "int \<Rightarrow> int \<Rightarrow> u8 list \<Rightarrow> u8 list \<Rightarrow> u8 list \<Rightarrow> u8 list \<Rightarrow> int list \<Rightarrow> u8 list res" where
  "getUplinkNASTransport amfUeNgapID ranUeNgapID nasPdu plmn tac gid cellId =
     Encoder (buildUplinkNasTransport amfUeNgapID ranUeNgapID nasPdu plmn tac gid cellId)"

text \<open>
  A 5G-S-TMSI of less than four characters makes the slice panic; the errors of the decoding are
  dropped. The AMF pointer is taken from the second byte as it is.
\<close>

definition five_g_s_tmsi :: "string \<Rightarrow> gval" where
  "five_g_s_tmsi s =
     struct_of FiveGSTMSI
       [(''AMFSetID'', wrap (VBitString \<lparr>Bytes = fst (DecodeString (take 4 s)), BitLength = 10\<rparr>)),
        (''AMFPointer'', wrap (VBitString \<lparr>Bytes = fst (DecodeString (take 2 (drop 2 s))), BitLength = 6\<rparr>)),
        (''FiveGTMSI'', wrap (VOctetString (fst (DecodeString (drop 4 s)))))]"

definition initial_ue_ies ::
    "int \<Rightarrow> u8 list \<Rightarrow> string \<Rightarrow> u8 list \<Rightarrow> u8 list \<Rightarrow> int \<Rightarrow> u8 list \<Rightarrow> int list \<Rightarrow> gval list" where
  "initial_ue_ies ranUeNgapID nasPdu fiveGSTmsi plmn tac rrcCause gid cellId =
     [ie_of InitialUEMessageIEs ProtocolIEIDRANUENGAPID CriticalityPresentReject
        InitialUEMessageIEsPresentRANUENGAPID ''RANUENGAPID'' (wrap (VInt ranUeNgapID)),
      ie_of InitialUEMessageIEs ProtocolIEIDNASPDU CriticalityPresentReject
        InitialUEMessageIEsPresentNASPDU ''NASPDU'' (wrap (VOctetString nasPdu)),
      ie_of InitialUEMessageIEs ProtocolIEIDUserLocationInformation CriticalityPresentReject
        InitialUEMessageIEsPresentUserLocationInformation ''UserLocationInformation''
        (user_location plmn tac gid cellId),
      ie_of InitialUEMessageIEs ProtocolIEIDRRCEstablishmentCause CriticalityPresentIgnore
        InitialUEMessageIEsPresentRRCEstablishmentCause ''RRCEstablishmentCause''
        (wrap (VEnumerated (word_of_int rrcCause)))] @
     (if fiveGSTmsi \<noteq> [] then
        [ie_of InitialUEMessageIEs ProtocolIEIDFiveGSTMSI CriticalityPresentReject
           InitialUEMessageIEsPresentFiveGSTMSI ''FiveGSTMSI'' (five_g_s_tmsi fiveGSTmsi)]
      else []) @
     [ie_of InitialUEMessageIEs ProtocolIEIDUEContextRequest CriticalityPresentIgnore
        InitialUEMessageIEsPresentUEContextRequest ''UEContextRequest''
        (wrap (VEnumerated UEContextRequestPresentRequested))]"

definition BuildInitialUEMessage ::
    "int \<Rightarrow> u8 list \<Rightarrow> string \<Rightarrow> u8 list \<Rightarrow> u8 list \<Rightarrow> int \<Rightarrow> u8 list \<Rightarrow> int list \<Rightarrow> gval res" where
  "BuildInitialUEMessage ranUeNgapID nasPdu fiveGSTmsi plmn tac rrcCause gid cellId =
     (if fiveGSTmsi \<noteq> [] \<and> length fiveGSTmsi < 4 then Inl Panic
      else Inr (initiating ProcedureCodeInitialUEMessage CriticalityPresentIgnore
        InitiatingMessagePresentInitialUEMessage ''InitialUEMessage''
        (initial_ue_ies ranUeNgapID nasPdu fiveGSTmsi plmn tac rrcCause gid cellId)))"

definition GetInitialUEMessage ::
    "int \<Rightarrow> u8 list \<Rightarrow> string \<Rightarrow> u8 list \<Rightarrow> u8 list \<Rightarrow> int \<Rightarrow> u8 list \<Rightarrow> int list \<Rightarrow> u8 list res" where
  "GetInitialUEMessage ranUeNgapID nasPdu fiveGSTmsi plmn tac rrcCause gid cellId =
     rbind (BuildInitialUEMessage ranUeNgapID nasPdu fiveGSTmsi plmn tac rrcCause gid cellId) Encoder"

section \<open>Interface management\<close>

definition paging_drx :: "string \<Rightarrow> u64" where
  "paging_drx s =
     (if s = ''v32'' then PagingDRXPresentV32 else if s = ''v64'' then PagingDRXPresentV64
      else if s = ''v128'' then PagingDRXPresentV128 else if s = ''v256'' then PagingDRXPresentV256
      else PagingDRXPresentV128)"

definition supported_ta :: "u8 list \<Rightarrow> u8 list \<Rightarrow> u8 list \<times> u8 list option \<Rightarrow> gval" where
  "supported_ta plmn tac sl =
     struct_of SupportedTAItem [(''TAC'', wrap (VOctetString tac)),
       (''BroadcastPLMNList'', wrap (VSlice [struct_of BroadcastPLMNItem
          [(''PLMNIdentity'', wrap (VOctetString plmn)),
           (''TAISliceSupportList'', wrap (VSlice [struct_of SliceSupportItem
              [(''SNSSAI'', struct_of SNSSAI [(''SST'', wrap (VOctetString (fst sl))),
                 (''SD'', VPtr (map_option (\<lambda>sd. wrap (VOctetString sd)) (snd sl)))])]]))]]))]"

text \<open>\<^verbatim>\<open>BuildNGSetupRequest\<close> puts in a fixed name, which \<^verbatim>\<open>NGSetupRequest\<close> replaces through the pointer.\<close>

definition ng_setup_request :: "GNBContext \<Rightarrow> string \<Rightarrow> gval" where
  "ng_setup_request gnb name =
     (let plmn = GetMccAndMncInOctets (gnbMcc gnb) (gnbMnc gnb) in
      initiating ProcedureCodeNGSetup CriticalityPresentReject
       InitiatingMessagePresentNGSetupRequest ''NGSetupRequest''
       [ie_of NGSetupRequestIEs ProtocolIEIDGlobalRANNodeID CriticalityPresentReject
          NGSetupRequestIEsPresentGlobalRANNodeID ''GlobalRANNodeID'' (global_gnb_id plmn (GetGnbIdInBytes gnb)),
        ie_of NGSetupRequestIEs ProtocolIEIDRANNodeName CriticalityPresentIgnore
          NGSetupRequestIEsPresentRANNodeName ''RANNodeName'' (wrap (VString (map of_char name))),
        ie_of NGSetupRequestIEs ProtocolIEIDSupportedTAList CriticalityPresentReject
          NGSetupRequestIEsPresentSupportedTAList ''SupportedTAList''
          (wrap (VSlice [supported_ta plmn (GetTacInBytes gnb) (GetSliceInBytes gnb)])),
        ie_of NGSetupRequestIEs ProtocolIEIDDefaultPagingDRX CriticalityPresentIgnore
          NGSetupRequestIEsPresentDefaultPagingDRX ''DefaultPagingDRX''
          (wrap (VEnumerated (paging_drx (GetPagingDRX gnb))))])"

definition BuildNGSetupRequest :: "GNBContext \<Rightarrow> gval" where
  "BuildNGSetupRequest gnb = ng_setup_request gnb ''OmniRANEmulator''"

definition NGSetupRequestOf :: "GNBContext \<Rightarrow> string \<Rightarrow> u8 list res" where
  "NGSetupRequestOf gnb name = Encoder (ng_setup_request gnb name)"

definition BuildErrorIndication :: "int option \<Rightarrow> int option \<Rightarrow> gval option \<Rightarrow> gval" where
  "BuildErrorIndication amfUeNgapID ranUeNgapID cause =
     initiating ProcedureCodeErrorIndication CriticalityPresentIgnore
       InitiatingMessagePresentErrorIndication ''ErrorIndication''
       ((case amfUeNgapID of None \<Rightarrow> [] | Some a \<Rightarrow>
          [ie_of ErrorIndicationIEs ProtocolIEIDAMFUENGAPID CriticalityPresentIgnore
             ErrorIndicationIEsPresentAMFUENGAPID ''AMFUENGAPID'' (wrap (VInt a))]) @
        (case ranUeNgapID of None \<Rightarrow> [] | Some r \<Rightarrow>
          [ie_of ErrorIndicationIEs ProtocolIEIDRANUENGAPID CriticalityPresentIgnore
             ErrorIndicationIEsPresentRANUENGAPID ''RANUENGAPID'' (wrap (VInt r))]) @
        (case cause of None \<Rightarrow> [] | Some c \<Rightarrow>
          [ie_of ErrorIndicationIEs ProtocolIEIDCause CriticalityPresentIgnore
             ErrorIndicationIEsPresentCause ''Cause'' c]))"

section \<open>PDU sessions\<close>

definition buildPDUSessionResourceSetupResponseTransfer :: "BitString \<Rightarrow> u32 \<Rightarrow> int \<Rightarrow> gval" where
  "buildPDUSessionResourceSetupResponseTransfer address teid qfi =
     struct_of PDUSessionResourceSetupResponseTransfer
       [(''QosFlowPerTNLInformation'', struct_of QosFlowPerTNLInformation
          [(''UPTransportLayerInformation'', gtp_tunnel address (PutUint32 teid)),
           (''AssociatedQosFlowList'', wrap (VSlice [struct_of AssociatedQosFlowItem
              [(''QosFlowIdentifier'', wrap (VInt qfi))]]))])]"

definition GetPDUSessionResourceSetupResponseTransfer ::
    "(string \<Rightarrow> u8 list) \<Rightarrow> (string \<Rightarrow> u8 list) \<Rightarrow> string \<Rightarrow> u32 \<Rightarrow> int \<Rightarrow> u8 list res" where
  "GetPDUSessionResourceSetupResponseTransfer fourOf sixteenOf ipv4 teid qfi =
     rbind (IPAddressToNgap fourOf sixteenOf ipv4 []) (\<lambda>address.
       bytes_or_nil (MarshalWithParams PDUSessionResourceSetupResponseTransfer
         (buildPDUSessionResourceSetupResponseTransfer address teid qfi) ''valueExt''))"

definition buildPDUSessionResourceSetupResponseForRegistrationTest ::
    "(string \<Rightarrow> u8 list) \<Rightarrow> (string \<Rightarrow> u8 list) \<Rightarrow> int \<Rightarrow> int \<Rightarrow> string \<Rightarrow> int \<Rightarrow> u32 \<Rightarrow> int \<Rightarrow> gval res" where
  "buildPDUSessionResourceSetupResponseForRegistrationTest fourOf sixteenOf amfUeNgapID ranUeNgapID ipv4 pduId teid qfi =
     rbind (GetPDUSessionResourceSetupResponseTransfer fourOf sixteenOf ipv4 teid qfi) (\<lambda>transfer.
      Inr (successful ProcedureCodePDUSessionResourceSetup CriticalityPresentReject
       SuccessfulOutcomePresentPDUSessionResourceSetupResponse ''PDUSessionResourceSetupResponse''
       [ie_of PDUSessionResourceSetupResponseIEs ProtocolIEIDAMFUENGAPID CriticalityPresentIgnore
          PDUSessionResourceSetupResponseIEsPresentAMFUENGAPID ''AMFUENGAPID'' (wrap (VInt amfUeNgapID)),
        ie_of PDUSessionResourceSetupResponseIEs ProtocolIEIDRANUENGAPID CriticalityPresentIgnore
          PDUSessionResourceSetupResponseIEsPresentRANUENGAPID ''RANUENGAPID'' (wrap (VInt ranUeNgapID)),
        ie_of PDUSessionResourceSetupResponseIEs ProtocolIEIDPDUSessionResourceSetupListSURes CriticalityPresentIgnore
          PDUSessionResourceSetupResponseIEsPresentPDUSessionResourceSetupListSURes ''PDUSessionResourceSetupListSURes''
          (wrap (VSlice [struct_of PDUSessionResourceSetupItemSURes
             [(''PDUSessionID'', wrap (VInt pduId)),
              (''PDUSessionResourceSetupResponseTransfer'', VOctetString transfer)]]))]))"

text \<open>
  The release response falls back on one zero byte when the transfer cannot be encoded. Its loop has
  no other early exit, nor has that of the modify response.
\<close>

definition released_item :: "int \<Rightarrow> gval res" where
  "released_item sessionId =
     rbind (case MarshalWithParams PDUSessionResourceReleaseResponseTransfer
              (struct_of PDUSessionResourceReleaseResponseTransfer []) ''valueExt'' of
              Inl (Fail _) \<Rightarrow> Inr [0x00] | r \<Rightarrow> r) (\<lambda>transferBytes.
       Inr (struct_of PDUSessionResourceReleasedItemRelRes
         [(''PDUSessionID'', wrap (VInt sessionId)),
          (''PDUSessionResourceReleaseResponseTransfer'', VOctetString transferBytes)]))"

definition buildPDUSessionResourceReleaseResponse :: "int \<Rightarrow> int \<Rightarrow> int list \<Rightarrow> gval res" where
  "buildPDUSessionResourceReleaseResponse amfUeNgapID ranUeNgapID pduSessionIds =
     rbind (rmap_list released_item pduSessionIds) (\<lambda>items.
      Inr (successful ProcedureCodePDUSessionResourceRelease CriticalityPresentReject
       SuccessfulOutcomePresentPDUSessionResourceReleaseResponse ''PDUSessionResourceReleaseResponse''
       [ie_of PDUSessionResourceReleaseResponseIEs ProtocolIEIDAMFUENGAPID CriticalityPresentIgnore
          PDUSessionResourceReleaseResponseIEsPresentAMFUENGAPID ''AMFUENGAPID'' (wrap (VInt amfUeNgapID)),
        ie_of PDUSessionResourceReleaseResponseIEs ProtocolIEIDRANUENGAPID CriticalityPresentIgnore
          PDUSessionResourceReleaseResponseIEsPresentRANUENGAPID ''RANUENGAPID'' (wrap (VInt ranUeNgapID)),
        ie_of PDUSessionResourceReleaseResponseIEs ProtocolIEIDPDUSessionResourceReleasedListRelRes CriticalityPresentIgnore
          PDUSessionResourceReleaseResponseIEsPresentPDUSessionResourceReleasedListRelRes
          ''PDUSessionResourceReleasedListRelRes'' (wrap (VSlice items))]))"

definition PDUSessionResourceReleaseResponseOf :: "int \<Rightarrow> int \<Rightarrow> int list \<Rightarrow> u8 list res" where
  "PDUSessionResourceReleaseResponseOf amfUe ranUe pduSessionIds =
     rbind (buildPDUSessionResourceReleaseResponse amfUe ranUe pduSessionIds) (\<lambda>pdu.
       case Encoder pdu of
         Inl (Fail e) \<Rightarrow> Inl (Fail (''error encoding PDU Session Resource Release Response: '' @ e))
       | r \<Rightarrow> r)"

definition modified_item :: "(int \<Rightarrow> int) \<Rightarrow> int \<Rightarrow> gval res" where
  "modified_item qosOf sessionId =
     rbind (bytes_or_nil (MarshalWithParams PDUSessionResourceModifyResponseTransfer
       (struct_of PDUSessionResourceModifyResponseTransfer
          [(''QosFlowAddOrModifyResponseList'', VPtr (Some (wrap (VSlice [struct_of QosFlowAddOrModifyResponseItem
              [(''QosFlowIdentifier'', wrap (VInt (qosOf sessionId)))]]))))]) ''valueExt'')) (\<lambda>transferBytes.
       Inr (struct_of PDUSessionResourceModifyItemModRes
         [(''PDUSessionID'', wrap (VInt sessionId)),
          (''PDUSessionResourceModifyResponseTransfer'', VPtr (Some (VOctetString transferBytes)))]))"

definition buildPDUSessionResourceModifyResponse :: "int \<Rightarrow> int \<Rightarrow> (int \<Rightarrow> int) \<Rightarrow> int list \<Rightarrow> gval res" where
  "buildPDUSessionResourceModifyResponse amfUeNgapID ranUeNgapID qosOf modifiedPduSessionIds =
     rbind (rmap_list (modified_item qosOf) modifiedPduSessionIds) (\<lambda>items.
      Inr (successful ProcedureCodePDUSessionResourceModify CriticalityPresentReject
       SuccessfulOutcomePresentPDUSessionResourceModifyResponse ''PDUSessionResourceModifyResponse''
       ([ie_of PDUSessionResourceModifyResponseIEs ProtocolIEIDAMFUENGAPID CriticalityPresentIgnore
           PDUSessionResourceModifyResponseIEsPresentAMFUENGAPID ''AMFUENGAPID'' (wrap (VInt amfUeNgapID)),
         ie_of PDUSessionResourceModifyResponseIEs ProtocolIEIDRANUENGAPID CriticalityPresentIgnore
           PDUSessionResourceModifyResponseIEsPresentRANUENGAPID ''RANUENGAPID'' (wrap (VInt ranUeNgapID))] @
        (if length modifiedPduSessionIds > 0 then
           [ie_of PDUSessionResourceModifyResponseIEs ProtocolIEIDPDUSessionResourceModifyListModRes CriticalityPresentIgnore
              PDUSessionResourceModifyResponseIEsPresentPDUSessionResourceModifyListModRes
              ''PDUSessionResourceModifyListModRes'' (wrap (VSlice items))]
         else []))))"

section \<open>UE contexts\<close>

text \<open>The sessions are given as identifier, downlink TEID and QoS identifier, in the order the map is ranged over.\<close>

definition context_item :: "(string \<Rightarrow> u8 list) \<Rightarrow> (string \<Rightarrow> u8 list) \<Rightarrow> string \<Rightarrow> int \<times> u32 \<times> int \<Rightarrow> gval res" where
  "context_item fourOf sixteenOf ipv sess = (case sess of (i, teid, qfi) \<Rightarrow>
     rbind (GetPDUSessionResourceSetupResponseTransfer fourOf sixteenOf ipv teid qfi) (\<lambda>transfer.
       Inr (struct_of PDUSessionResourceSetupItemCxtRes
         [(''PDUSessionID'', wrap (VInt i)), (''PDUSessionResourceSetupResponseTransfer'', VOctetString transfer)])))"

definition BuildInitialContextSetupResponse ::
    "(string \<Rightarrow> u8 list) \<Rightarrow> (string \<Rightarrow> u8 list) \<Rightarrow> int \<Rightarrow> int \<Rightarrow> (int \<times> u32 \<times> int) list \<Rightarrow> string \<Rightarrow> gval res" where
  "BuildInitialContextSetupResponse fourOf sixteenOf amfUe ranUe sessions ipv =
     rbind (rmap_list (context_item fourOf sixteenOf ipv) sessions) (\<lambda>items.
      Inr (successful ProcedureCodeInitialContextSetup CriticalityPresentReject
       SuccessfulOutcomePresentInitialContextSetupResponse ''InitialContextSetupResponse''
       ([ie_of InitialContextSetupResponseIEs ProtocolIEIDAMFUENGAPID CriticalityPresentIgnore
           InitialContextSetupResponseIEsPresentAMFUENGAPID ''AMFUENGAPID'' (wrap (VInt amfUe)),
         ie_of InitialContextSetupResponseIEs ProtocolIEIDRANUENGAPID CriticalityPresentIgnore
           InitialContextSetupResponseIEsPresentRANUENGAPID ''RANUENGAPID'' (wrap (VInt ranUe))] @
        (if length sessions > 0 then
           [ie_of InitialContextSetupResponseIEs ProtocolIEIDPDUSessionResourceSetupListCxtRes CriticalityPresentIgnore
              InitialContextSetupResponseIEsPresentPDUSessionResourceSetupListCxtRes
              ''PDUSessionResourceSetupListCxtRes'' (wrap (VSlice items))]
         else []))))"

definition BuildUEContextReleaseComplete :: "int \<Rightarrow> int \<Rightarrow> gval" where
  "BuildUEContextReleaseComplete ranUeNgapID amfUeNgapID =
     successful ProcedureCodeUEContextRelease CriticalityPresentReject
       SuccessfulOutcomePresentUEContextReleaseComplete ''UEContextReleaseComplete''
       [ie_of UEContextReleaseCompleteIEs ProtocolIEIDAMFUENGAPID CriticalityPresentIgnore
          UEContextReleaseCompleteIEsPresentAMFUENGAPID ''AMFUENGAPID'' (wrap (VInt amfUeNgapID)),
        ie_of UEContextReleaseCompleteIEs ProtocolIEIDRANUENGAPID CriticalityPresentIgnore
          UEContextReleaseCompleteIEsPresentRANUENGAPID ''RANUENGAPID'' (wrap (VInt ranUeNgapID))]"

definition BuildUEContextReleaseRequest :: "int \<Rightarrow> int \<Rightarrow> gval option \<Rightarrow> gval" where
  "BuildUEContextReleaseRequest ranUeNgapID amfUeNgapID cause =
     initiating ProcedureCodeUEContextReleaseRequest CriticalityPresentIgnore
       InitiatingMessagePresentUEContextReleaseRequest ''UEContextReleaseRequest''
       [ie_of UEContextReleaseRequestIEs ProtocolIEIDAMFUENGAPID CriticalityPresentReject
          UEContextReleaseRequestIEsPresentAMFUENGAPID ''AMFUENGAPID'' (wrap (VInt amfUeNgapID)),
        ie_of UEContextReleaseRequestIEs ProtocolIEIDRANUENGAPID CriticalityPresentReject
          UEContextReleaseRequestIEsPresentRANUENGAPID ''RANUENGAPID'' (wrap (VInt ranUeNgapID)),
        ie_of UEContextReleaseRequestIEs ProtocolIEIDCause CriticalityPresentIgnore
          UEContextReleaseRequestIEsPresentCause ''Cause''
          (case cause of Some c \<Rightarrow> c | None \<Rightarrow> radio_cause CauseRadioNetworkPresentUserInactivity)]"

section \<open>Mobility\<close>

definition BuildHandoverNotify :: "int \<Rightarrow> int \<Rightarrow> u8 list \<Rightarrow> u8 list \<Rightarrow> u8 list \<Rightarrow> int list \<Rightarrow> gval" where
  "BuildHandoverNotify ranUeNgapID amfUeNgapID plmn tac gid cellId =
     initiating ProcedureCodeHandoverNotification CriticalityPresentIgnore
       InitiatingMessagePresentHandoverNotify ''HandoverNotify''
       [ie_of HandoverNotifyIEs ProtocolIEIDAMFUENGAPID CriticalityPresentReject
          HandoverNotifyIEsPresentAMFUENGAPID ''AMFUENGAPID'' (wrap (VInt amfUeNgapID)),
        ie_of HandoverNotifyIEs ProtocolIEIDRANUENGAPID CriticalityPresentReject
          HandoverNotifyIEsPresentRANUENGAPID ''RANUENGAPID'' (wrap (VInt ranUeNgapID)),
        ie_of HandoverNotifyIEs ProtocolIEIDUserLocationInformation CriticalityPresentIgnore
          HandoverNotifyIEsPresentUserLocationInformation ''UserLocationInformation''
          (user_location plmn tac gid cellId)]"

definition address_bits :: "u8 list \<Rightarrow> BitString" where
  "address_bits ipv = \<lparr>Bytes = ipv, BitLength = of_nat (length ipv * 8)\<rparr>"

definition ack_transfer :: "u8 list \<Rightarrow> u8 list \<Rightarrow> int \<Rightarrow> gval" where
  "ack_transfer ipv dlTeid qfi =
     struct_of HandoverRequestAcknowledgeTransfer
       [(''DLNGUUPTNLInformation'', gtp_tunnel (address_bits ipv) dlTeid),
        (''QosFlowSetupResponseList'', wrap (VSlice [struct_of QosFlowSetupResponseItemHOReqAck
           [(''QosFlowIdentifier'', wrap (VInt qfi))]]))]"

definition BuildHandoverRequestAcknowledge :: "int \<Rightarrow> int \<Rightarrow> u8 \<Rightarrow> u8 list \<Rightarrow> u8 list \<Rightarrow> int \<Rightarrow> gval res" where
  "BuildHandoverRequestAcknowledge ranUeNgapID amfUeNgapID sessionId ipv dlTeid qfi =
     rbind (bytes_or_nil (MarshalWithParams HandoverRequestAcknowledgeTransfer (ack_transfer ipv dlTeid qfi) ''valueExt'')) (\<lambda>transferBytes.
     rbind (bytes_or_nil (MarshalWithParams TargetNGRANNodeToSourceNGRANNodeTransparentContainer
        (struct_of TargetNGRANNodeToSourceNGRANNodeTransparentContainer
           [(''RRCContainer'', wrap (VOctetString [0x00, 0x01, 0x02, 0x03]))]) ''valueExt'')) (\<lambda>containerBytes.
      Inr (successful ProcedureCodeHandoverResourceAllocation CriticalityPresentReject
       SuccessfulOutcomePresentHandoverRequestAcknowledge ''HandoverRequestAcknowledge''
       [ie_of HandoverRequestAcknowledgeIEs ProtocolIEIDAMFUENGAPID CriticalityPresentIgnore
          HandoverRequestAcknowledgeIEsPresentAMFUENGAPID ''AMFUENGAPID'' (wrap (VInt amfUeNgapID)),
        ie_of HandoverRequestAcknowledgeIEs ProtocolIEIDRANUENGAPID CriticalityPresentIgnore
          HandoverRequestAcknowledgeIEsPresentRANUENGAPID ''RANUENGAPID'' (wrap (VInt ranUeNgapID)),
        ie_of HandoverRequestAcknowledgeIEs ProtocolIEIDPDUSessionResourceAdmittedList CriticalityPresentIgnore
          HandoverRequestAcknowledgeIEsPresentPDUSessionResourceAdmittedList ''PDUSessionResourceAdmittedList''
          (wrap (VSlice [struct_of PDUSessionResourceAdmittedItem
             [(''PDUSessionID'', wrap (VInt (uint sessionId))),
              (''HandoverRequestAcknowledgeTransfer'', VOctetString transferBytes)]])),
        ie_of HandoverRequestAcknowledgeIEs ProtocolIEIDTargetToSourceTransparentContainer CriticalityPresentIgnore
          HandoverRequestAcknowledgeIEsPresentTargetToSourceTransparentContainer
          ''TargetToSourceTransparentContainer'' (wrap (VOctetString containerBytes))])))"

definition intTo3Bytes :: "int \<Rightarrow> u8 list" where
  "intTo3Bytes val = [word_of_int (val div 65536), word_of_int (val div 256), word_of_int val]"

definition second_cell :: "int list \<Rightarrow> int" where
  "second_cell cellId = (if length cellId > 1 then cellId ! 1 else first_cell cellId)"

definition source_container :: "int \<Rightarrow> u8 list \<Rightarrow> int \<Rightarrow> u8 list \<Rightarrow> int list \<Rightarrow> gval" where
  "source_container amfUeNgapID plmn targetGnbIdVal sourceGnbId cellId =
     struct_of SourceNGRANNodeToTargetNGRANNodeTransparentContainer
       [(''RRCContainer'', wrap (VOctetString ([0x05, 0x06] @ be64_bytes (word_of_int amfUeNgapID)))),
        (''TargetCellID'', alternative NGRANCGI NGRANCGIPresentNRCGI ''NRCGI''
           (nr_cgi plmn (intTo3Bytes targetGnbIdVal) (second_cell cellId))),
        (''UEHistoryInformation'', wrap (VSlice [struct_of LastVisitedCellItem
           [(''LastVisitedCellInformation'', alternative LastVisitedCellInformation
               LastVisitedCellInformationPresentNGRANCell ''NGRANCell''
               (struct_of LastVisitedNGRANCellInformation
                  [(''GlobalCellID'', alternative NGRANCGI NGRANCGIPresentNRCGI ''NRCGI''
                      (nr_cgi plmn sourceGnbId (first_cell cellId))),
                   (''CellType'', struct_of CellType [(''CellSize'', wrap (VEnumerated CellSizePresentVerysmall))]),
                   (''TimeUEStayedInCell'', wrap (VInt 10))]))]]))]"

definition BuildHandoverRequired ::
    "int \<Rightarrow> int \<Rightarrow> string \<Rightarrow> string \<Rightarrow> int \<Rightarrow> u8 list \<Rightarrow> u8 \<Rightarrow> u8 list \<Rightarrow> int list \<Rightarrow> gval res" where
  "BuildHandoverRequired ranUeNgapID amfUeNgapID targetMcc targetMnc targetGnbIdVal targetTacVal sessionId sourceGnbId cellId =
     rbind (PlmnIdToNgap targetMcc targetMnc) (\<lambda>plmn.
     rbind (bytes_or_nil (MarshalWithParams HandoverRequiredTransfer (struct_of HandoverRequiredTransfer []) ''valueExt'')) (\<lambda>transferBytes.
     rbind (bytes_or_nil (MarshalWithParams SourceNGRANNodeToTargetNGRANNodeTransparentContainer
        (source_container amfUeNgapID plmn targetGnbIdVal sourceGnbId cellId) ''valueExt'')) (\<lambda>containerBytes.
      Inr (initiating ProcedureCodeHandoverPreparation CriticalityPresentReject
       InitiatingMessagePresentHandoverRequired ''HandoverRequired''
       [ie_of HandoverRequiredIEs ProtocolIEIDAMFUENGAPID CriticalityPresentReject
          HandoverRequiredIEsPresentAMFUENGAPID ''AMFUENGAPID'' (wrap (VInt amfUeNgapID)),
        ie_of HandoverRequiredIEs ProtocolIEIDRANUENGAPID CriticalityPresentReject
          HandoverRequiredIEsPresentRANUENGAPID ''RANUENGAPID'' (wrap (VInt ranUeNgapID)),
        ie_of HandoverRequiredIEs ProtocolIEIDHandoverType CriticalityPresentReject
          HandoverRequiredIEsPresentHandoverType ''HandoverType'' (wrap (VEnumerated HandoverTypePresentIntra5gs)),
        ie_of HandoverRequiredIEs ProtocolIEIDCause CriticalityPresentIgnore
          HandoverRequiredIEsPresentCause ''Cause'' (radio_cause CauseRadioNetworkPresentHandoverDesirableForRadioReason),
        ie_of HandoverRequiredIEs ProtocolIEIDTargetID CriticalityPresentReject
          HandoverRequiredIEsPresentTargetID ''TargetID''
          (alternative TargetID TargetIDPresentTargetRANNodeID ''TargetRANNodeID''
             (struct_of TargetRANNodeID [(''GlobalRANNodeID'', global_gnb_id plmn (intTo3Bytes targetGnbIdVal)),
                (''SelectedTAI'', tai_of plmn targetTacVal)])),
        ie_of HandoverRequiredIEs ProtocolIEIDPDUSessionResourceListHORqd CriticalityPresentReject
          HandoverRequiredIEsPresentPDUSessionResourceListHORqd ''PDUSessionResourceListHORqd''
          (wrap (VSlice [struct_of PDUSessionResourceItemHORqd
             [(''PDUSessionID'', wrap (VInt (uint sessionId))), (''HandoverRequiredTransfer'', VOctetString transferBytes)]])),
        ie_of HandoverRequiredIEs ProtocolIEIDSourceToTargetTransparentContainer CriticalityPresentReject
          HandoverRequiredIEsPresentSourceToTargetTransparentContainer
          ''SourceToTargetTransparentContainer'' (wrap (VOctetString containerBytes))]))))"

definition security_capabilities :: gval where
  "security_capabilities =
     (let algorithms = wrap (VBitString \<lparr>Bytes = [0xe0, 0x00], BitLength = 16\<rparr>) in
      struct_of UESecurityCapabilities
        [(''NRencryptionAlgorithms'', algorithms), (''NRintegrityProtectionAlgorithms'', algorithms),
         (''EUTRAencryptionAlgorithms'', algorithms), (''EUTRAintegrityProtectionAlgorithms'', algorithms)])"

definition switch_transfer :: "u8 list \<Rightarrow> u8 list \<Rightarrow> gval" where
  "switch_transfer ipv dlTeid =
     struct_of PathSwitchRequestTransfer
       [(''DLNGUUPTNLInformation'', gtp_tunnel (address_bits ipv) dlTeid),
        (''QosFlowAcceptedList'', wrap (VSlice [struct_of QosFlowAcceptedItem
           [(''QosFlowIdentifier'', wrap (VInt 1))]]))]"

definition BuildPathSwitchRequest ::
    "int \<Rightarrow> int \<Rightarrow> u8 list \<Rightarrow> u8 list \<Rightarrow> u8 \<Rightarrow> u8 list \<Rightarrow> u8 list \<Rightarrow> u8 list \<Rightarrow> int list \<Rightarrow> gval res" where
  "BuildPathSwitchRequest ranUeNgapID amfUeNgapID plmn tac sessionId ipv dlTeid gid cellId =
     rbind (bytes_or_nil (MarshalWithParams PathSwitchRequestTransfer (switch_transfer ipv dlTeid) ''valueExt'')) (\<lambda>transferBytes.
      Inr (initiating ProcedureCodePathSwitchRequest CriticalityPresentReject
       InitiatingMessagePresentPathSwitchRequest ''PathSwitchRequest''
       [ie_of PathSwitchRequestIEs ProtocolIEIDRANUENGAPID CriticalityPresentReject
          PathSwitchRequestIEsPresentRANUENGAPID ''RANUENGAPID'' (wrap (VInt ranUeNgapID)),
        ie_of PathSwitchRequestIEs ProtocolIEIDSourceAMFUENGAPID CriticalityPresentReject
          PathSwitchRequestIEsPresentSourceAMFUENGAPID ''SourceAMFUENGAPID'' (wrap (VInt amfUeNgapID)),
        ie_of PathSwitchRequestIEs ProtocolIEIDUserLocationInformation CriticalityPresentIgnore
          PathSwitchRequestIEsPresentUserLocationInformation ''UserLocationInformation''
          (user_location plmn tac gid cellId),
        ie_of PathSwitchRequestIEs ProtocolIEIDUESecurityCapabilities CriticalityPresentIgnore
          PathSwitchRequestIEsPresentUESecurityCapabilities ''UESecurityCapabilities'' security_capabilities,
        ie_of PathSwitchRequestIEs ProtocolIEIDPDUSessionResourceToBeSwitchedDLList CriticalityPresentReject
          PathSwitchRequestIEsPresentPDUSessionResourceToBeSwitchedDLList ''PDUSessionResourceToBeSwitchedDLList''
          (wrap (VSlice [struct_of PDUSessionResourceToBeSwitchedDLItem
             [(''PDUSessionID'', wrap (VInt (uint sessionId))),
              (''PathSwitchRequestTransfer'', VOctetString transferBytes)]]))]))"

end
