(* ===== verification/Ngap_Slots.thy ===== *)
theory Ngap_Slots
  imports Aper_Round_Trip Ngap_Builders
begin

text \<open>
  When a message fits its type. The alternatives of an open type are looked up in the struct tags
  (\<open>slot_of\<close>); the tables below are what the tags of the types the builders use say. The rules of the
  second half reduce \<open>fits\<close> of a message to its values.
\<close>

section \<open>Alternatives\<close>

definition field_names :: "gtype \<Rightarrow> string list" where
  "field_names t = map fname (fields_of t)"

definition field_tags :: "gtype \<Rightarrow> string list" where
  "field_tags t = map ftag (fields_of t)"

lemmas signature = field_names_def field_tags_def fields_of_def gtype.case list.map gfield.sel

text \<open>The reference values of the alternatives of a CHOICE whose fields are named apart and mandatory.\<close>

definition choice_refs :: "string list \<Rightarrow> string list \<Rightarrow> int option list option" where
  "choice_refs ns ts =
     (if ns \<noteq> [] \<and> hd ns = ''Present'' \<and> distinct ns \<and> list_all exported ns \<and>
         list_all (\<lambda>s. \<not> optional (parseFieldParameters s)) ts
      then Some (map (\<lambda>s. referenceFieldValue (parseFieldParameters s)) ts) else None)"

definition position :: "int \<Rightarrow> int option list \<Rightarrow> nat option" where
  "position r refs = find (\<lambda>j. refs ! j = Some r) [1..<length refs]"

definition is_ptr :: "gtype \<Rightarrow> bool" where
  "is_ptr t = (case t of TPtr _ \<Rightarrow> True | _ \<Rightarrow> False)"

definition pointers :: "gtype \<Rightarrow> bool" where
  "pointers t \<longleftrightarrow> fields_of t \<noteq> [] \<and> ftype (hd (fields_of t)) = TInt
      \<and> list_all (\<lambda>f. is_ptr (ftype f)) (tl (fields_of t))"

text \<open>The alternative at an index: its name, its type and its tag.\<close>

definition choice_at :: "gtype \<Rightarrow> nat \<Rightarrow> (string \<times> gtype \<times> string) option" where
  "choice_at t k =
     (if choice_refs (field_names t) (field_tags t) \<noteq> None \<and> pointers t \<and> 0 < k
         \<and> k < length (fields_of t) then
        (case ftype (fields_of t ! k) of TPtr u \<Rightarrow> Some (fname (fields_of t ! k), u, ftag (fields_of t !
            k)) | _ \<Rightarrow> None)
      else None)"

definition slot_of :: "gtype \<Rightarrow> int \<Rightarrow> (nat \<times> string \<times> gtype \<times> string)
    option" where
  "slot_of t r =
     (case choice_refs (field_names t) (field_tags t) of None \<Rightarrow> None
      | Some refs \<Rightarrow>
        (case position r refs of None \<Rightarrow> None
         | Some k \<Rightarrow> map_option (Pair k) (choice_at t k)))"

lemma slotI:
  assumes "choice_refs (field_names t) (field_tags t) = Some refs" and "position r refs = Some k"
    and "pointers t \<and> 0 < k \<and> k < length (fields_of t) \<and> fields_of t ! k = Field n tag (TPtr u)"
  shows "slot_of t r = Some (k, n, u, tag)"
  using assms by (simp add: slot_of_def choice_at_def)

lemmas slot_rules = position_def pointers_def is_ptr_def fields_of_def

lemma find_cong_set: "(\<And>x. x \<in> set xs \<Longrightarrow> P x = Q x) \<Longrightarrow> find P xs = find Q xs"
  by (induction xs) auto

lemma slot_of_alternative:
  assumes "slot_of (TStruct fs) r = Some (k, s)"
  shows "find_alternative r fs = Some k" and "choice_at (TStruct fs) k = Some s"
proof -
  obtain refs where refs: "choice_refs (map fname fs) (map ftag fs) = Some refs" and k: "position r refs = Some k"
    and s: "choice_at (TStruct fs) k = Some s"
    using assms by (auto simp: slot_of_def field_names_def field_tags_def fields_of_def split: option.splits)
  have "refs = map (\<lambda>f. referenceFieldValue (parseFieldParameters (ftag f))) fs"
    using refs by (auto simp: choice_refs_def split: if_splits)
  then have "position r refs = find_alternative r fs"
    unfolding position_def find_alternative_def by (auto intro: find_cong_set)
  then show "find_alternative r fs = Some k" using k by simp
  show "choice_at (TStruct fs) k = Some s" by (rule s)
qed

lemma choice_at_facts:
  assumes "choice_at (TStruct fs) k = Some (n, u, tag)"
  shows "is_choice fs" "list_all (\<lambda>f. exported (fname f)) fs" "optional_count fs = 0" "distinct (map fname
      fs)"
    and "ftype (fs ! 0) = TInt" "list_all (\<lambda>f. is_ptr (ftype f)) (tl fs)" "fs \<noteq> []"
    and "0 < k" "k < length fs" "fs ! k = Field n tag (TPtr u)"
proof -
  have c: "choice_refs (map fname fs) (map ftag fs) \<noteq> None" and p: "pointers (TStruct fs)" and k: "0 < k" "k <
      length fs"
    and f: "ftype (fs ! k) = TPtr u" "fname (fs ! k) = n" "ftag (fs ! k) = tag"
    using assms by (auto simp: choice_at_def field_names_def field_tags_def fields_of_def split: if_splits
        gtype.splits)
  show ne: "fs \<noteq> []" using k by auto
  then show "is_choice fs" "list_all (\<lambda>f. exported (fname f)) fs" "optional_count fs = 0" "distinct (map
      fname fs)"
    using c by (auto simp: choice_refs_def is_choice_def hd_map optional_count_def list_all_iff filter_empty_conv
        split: if_splits)
  show "ftype (fs ! 0) = TInt" "list_all (\<lambda>f. is_ptr (ftype f)) (tl fs)"
    using p ne by (auto simp: pointers_def fields_of_def hd_conv_nth)
  show "fs ! k = Field n tag (TPtr u)" using f by (cases "fs ! k") simp
qed (use assms in \<open>auto simp: choice_at_def fields_of_def split: if_splits\<close>)

lemma alternative_chosen:
  assumes at: "choice_at (TStruct fs) k = Some (n, u, tag)"
  shows "alternative (TStruct fs) (int k) n v = chosen fs k (VPtr (Some v))"
proof -
  note facts = choice_at_facts [OF at]
  have n: "fname (fs ! k) = n" "fname (fs ! 0) = ''Present''"
    using facts(1,7,10) by (simp_all add: is_choice_def hd_conv_nth)
  have idx: "fname (fs ! i) = n \<longleftrightarrow> i = k" "fname (fs ! i) = ''Present'' \<longleftrightarrow> i = 0" if "i < length fs" for i
    using nth_eq_iff_index_eq [OF facts(4), of i k] nth_eq_iff_index_eq [OF facts(4), of i 0] facts(7-9) n that
        by auto
  have ne: "n \<noteq> ''Present''" using idx(2) [OF facts(9)] n(1) facts(8) by simp
  let ?g = "\<lambda>f. case map_of [(''Present'', VInt (int k)), (n, VPtr (Some v))] (fname f) of
      Some v \<Rightarrow> v | None \<Rightarrow> zero_val (ftype f)"
  have "map ?g fs = (map (\<lambda>f. zero_val (ftype f)) fs)[0 := VInt (int k), k := VPtr (Some v)]"
  proof (rule nth_equalityI)
    fix i assume "i < length (map ?g fs)"
    then have i: "i < length fs" by simp
    show "map ?g fs ! i = (map (\<lambda>f. zero_val (ftype f)) fs)[0 := VInt (int k), k := VPtr (Some v)] ! i"
      using facts(7-9) ne i by (simp add: nth_list_update idx [OF i])
  qed simp
  then show ?thesis by (simp add: alternative_def struct_of_def fields_of_def chosen_def)
qed

section \<open>When values fit\<close>

lemma noParameters_sel [simp]:
  "optional noParameters = False" "sizeExtensible noParameters = False" "valueExtensible noParameters = False"
  "sizeLowerBound noParameters = None" "sizeUpperBound noParameters = None" "valueLowerBound noParameters = None"
  "valueUpperBound noParameters = None" "defaultValue noParameters = None" "openType noParameters = False"
  "referenceFieldName noParameters = []" "referenceFieldValue noParameters = None"
  by (simp_all add: noParameters_def)

lemma fits_ptr: "fits (TPtr t) params (VPtr (Some v)) = fits t params v"
  by (simp add: fits.simps [of "TPtr t"])

lemma fits_seq:
  assumes "\<not> is_choice fs"
  shows "fits (TStruct fs) params (VStruct vs) \<longleftrightarrow>
    \<not> sizeExtensible params \<and> list_all (\<lambda>f. exported (fname f)) fs
        \<and> length vs = length fs \<and>
    optional_count fs \<le> 64 \<and> (valueExtensible params \<or> fs \<noteq> []) \<and> fits_fields fs vs []"
  using assms by (subst fits.simps) simp

lemma fits_prim:
  "fits TInt params (VInt i) \<longleftrightarrow> \<not> sizeExtensible params \<and>
     integer_ok (valueExtensible params) (valueLowerBound params) (valueUpperBound params) i \<and>
     (valueExtensible params \<or> valueLowerBound params = None \<or> valueLowerBound params \<noteq>
         valueUpperBound params)"
  "fits TEnumerated params (VEnumerated e) \<longleftrightarrow> \<not> sizeExtensible params \<and>
     (case (valueLowerBound params, valueUpperBound params) of
        (Some lb, Some ub) \<Rightarrow> enumerated_ok lb ub e
            \<and> (0 < ub \<or> valueExtensible params) | _ \<Rightarrow> False)"
  "fits TBitString params (VBitString w) \<longleftrightarrow> \<not> valueExtensible params \<and>
     bit_string_ok (sizeExtensible params) (sizeLowerBound params) (sizeUpperBound params) w"
  "fits TOctetString params (VOctetString bs) \<longleftrightarrow>
     octet_string_ok (sizeExtensible params) (sizeLowerBound params) (sizeUpperBound params) bs"
  "fits TString params (VString bs) \<longleftrightarrow> \<not> valueExtensible params \<and>
     octet_string_ok (sizeExtensible params) (sizeLowerBound params) (sizeUpperBound params) bs"
  "fits (TSlice t) params (VSlice xs) \<longleftrightarrow>
     counted_ok params xs \<and> list_all (\<lambda>v. fits t (elementParameters params) v) xs"
  by (subst fits.simps, simp)+

lemma chosen_fits:
  assumes at: "choice_at (TStruct fs) k = Some (n, u, tag)" and sz: "\<not> sizeExtensible params"
    and fit: "fits u (parseFieldParameters tag) v"
    and mode: "if openType params then
        (case referenceFieldValue params of Some r \<Rightarrow> find_alternative r fs = Some k
            \<and> room v \<le> 131064 | None \<Rightarrow> False)
      else (case valueUpperBound params of Some ub \<Rightarrow> int k \<le> ub + 1
          \<and> ub < 65536 | None \<Rightarrow> False)"
  shows "fits (TStruct fs) params (alternative (TStruct fs) (int k) n v)"
proof -
  note facts = choice_at_facts [OF at]
  let ?vs = "(map (\<lambda>f. zero_val (ftype f)) fs)[0 := VInt (int k), k := VPtr (Some v)]"
  have vs: "chosen fs k (VPtr (Some v)) = VStruct ?vs" "?vs ! k = VPtr (Some v)" "length ?vs = length fs"
    using facts(9) by (simp_all add: chosen_def)
  obtain rest where cs: "?vs = VInt (int k) # rest" using facts(7,8) by (cases fs; cases k) auto
  have "fits (TStruct fs) params (VStruct ?vs)"
    using facts sz mode fit vs
    by (subst fits.simps) (simp add: cs Let_def fits_ptr split: option.splits if_splits)
  then show ?thesis using alternative_chosen [OF at] vs(1) by simp
qed

lemma choice_struct: "choice_at t k = Some s \<Longrightarrow> \<exists>fs. t = TStruct fs"
  by (cases t) (auto simp: choice_at_def fields_of_def)

lemma slot_struct: "slot_of t r = Some s \<Longrightarrow> \<exists>fs. t = TStruct fs"
  by (cases t) (auto simp: slot_of_def choice_at_def fields_of_def split: option.splits)

text \<open>A CHOICE that is not an open type, and an open type.\<close>

lemma fits_choice:
  assumes "\<not> openType params" "\<not> sizeExtensible params" "0 < present"
    and "case choice_at t (nat present) of None \<Rightarrow> False | Some (n', u, tag) \<Rightarrow>
      n = n' \<and> fits u (parseFieldParameters tag) v"
    and "case valueUpperBound params of Some ub \<Rightarrow> present \<le> ub + 1
        \<and> ub < 65536 | None \<Rightarrow> False"
  shows "fits t params (alternative t present n v)"
proof -
  obtain n' u tag where at: "choice_at t (nat present) = Some (n', u, tag)" and "n = n'" "fits u
      (parseFieldParameters tag) v"
    using assms(4) by (auto split: option.splits)
  moreover obtain fs where "t = TStruct fs" using choice_struct [OF at] by blast
  ultimately show ?thesis
    using chosen_fits [of fs "nat present" n u tag params v] assms by (auto split: option.splits)
qed

lemma fits_open:
  assumes "openType params" "\<not> sizeExtensible params" "referenceFieldValue params = Some r"
    and "case slot_of t r of None \<Rightarrow> False | Some (k, n', u, tag) \<Rightarrow>
      present = int k \<and> n = n' \<and> fits u (parseFieldParameters tag) v \<and> room v \<le> 131064"
  shows "fits t params (alternative t present n v)"
proof -
  obtain k n' u tag where at: "slot_of t r = Some (k, n', u, tag)" and "present = int k" "n = n'"
    "fits u (parseFieldParameters tag) v" "room v \<le> 131064"
    using assms(4) by (auto split: option.splits)
  moreover obtain fs where "t = TStruct fs" using slot_struct [OF at] by blast
  ultimately show ?thesis
    using chosen_fits [of fs k n u tag params v] slot_of_alternative [of fs r k "(n', u, tag)"] assms by auto
qed

lemma room_zero_ptr: "is_ptr t \<Longrightarrow> room (zero_val t) = 0"
  by (cases t) (simp_all add: is_ptr_def)

lemma room_chosen:
  assumes "choice_at t k = Some (n, u, tag)"
  shows "room (alternative t (int k) n v) = 256 + room v"
proof -
  obtain fs where t: "t = TStruct fs" using choice_struct [OF assms] by blast
  note facts = choice_at_facts [OF assms [unfolded t]]
  obtain f gs where fs: "fs = f # gs" using facts(7) by (cases fs) auto
  obtain j where k: "k = Suc j" using facts(8) by (cases k) auto
  have z: "map room (map (\<lambda>f. zero_val (ftype f)) gs) = replicate (length gs) 0"
    using facts(6) by (auto simp: fs list_all_iff room_zero_ptr map_replicate_const [symmetric])
  have "sum_list ((map room (map (\<lambda>f. zero_val (ftype f)) gs))[j := room (VPtr (Some v))]) = room v"
    using facts(9) unfolding z by (simp add: fs k sum_list_update)
  then show ?thesis
    unfolding t alternative_chosen [OF assms [unfolded t]] by (simp add: chosen_def fs k map_update)
qed

section \<open>Information elements and messages\<close>

definition ie_value :: "gtype \<Rightarrow> gtype option" where
  "ie_value t =
     (if fields_of t = [Field ''Id'' '''' ProtocolIEID, Field ''Criticality'' '''' Criticality,
        Field ''Value'' ''openType,referenceFieldName:Id'' (field_type t ''Value'')]
      then Some (field_type t ''Value'') else None)"

definition message_ies :: "gtype \<Rightarrow> gtype option" where
  "message_ies t =
     (case t of TStruct [Field n tag (TStruct [Field n' tag' (TSlice u)])] \<Rightarrow>
        if n = ''ProtocolIEs'' \<and> tag = [] \<and> n' = ''List'' \<and> tag' = ''sizeLB:0,sizeUB:65535'' then Some u else None
      | _ \<Rightarrow> None)"

text \<open>The alternative an information element or a procedure carries is the one its identifier refers to.\<close>

definition slot_is :: "gtype \<Rightarrow> int \<Rightarrow> int \<Rightarrow> string \<Rightarrow> bool" where
  "slot_is t r present n =
     (case slot_of t r of None \<Rightarrow> False | Some (k, n', _) \<Rightarrow> present = int k \<and> n = n')"

definition slot_fits :: "gtype \<Rightarrow> int \<Rightarrow> gval \<Rightarrow> bool" where
  "slot_fits t r v =
     (case slot_of t r of None \<Rightarrow> False | Some (_, _, u, tag) \<Rightarrow> fits u (parseFieldParameters
         tag) v)"

lemma codec_tags [simp]:
  "parseFieldParameters '''' = noParameters"
  "parseFieldParameters ''openType,referenceFieldName:Id'' = noParameters\<lparr>openType := True, referenceFieldName := ''Id''\<rparr>"
  "parseFieldParameters ''openType,referenceFieldName:ProcedureCode'' =
     noParameters\<lparr>openType := True, referenceFieldName := ''ProcedureCode''\<rparr>"
  "parseFieldParameters ''valueExt,valueLB:0,valueUB:2'' =
     noParameters\<lparr>valueExtensible := True, valueLowerBound := Some 0, valueUpperBound := Some 2\<rparr>"
  "parseFieldParameters ''valueLB:0,valueUB:65535'' = noParameters\<lparr>valueLowerBound := Some 0, valueUpperBound := Some 65535\<rparr>"
  "parseFieldParameters ''valueLB:0,valueUB:255'' = noParameters\<lparr>valueLowerBound := Some 0, valueUpperBound := Some 255\<rparr>"
  "parseFieldParameters ''valueLB:0,valueUB:2'' = noParameters\<lparr>valueLowerBound := Some 0, valueUpperBound := Some 2\<rparr>"
  "parseFieldParameters ''sizeLB:0,sizeUB:65535'' = noParameters\<lparr>sizeLowerBound := Some 0, sizeUpperBound := Some 65535\<rparr>"
  "parseFieldParameters ''optional'' = noParameters\<lparr>optional := True\<rparr>"
  "parseFieldParameters ''valueExt'' = noParameters\<lparr>valueExtensible := True\<rparr>"
  by code_simp+

lemmas fits_rules = fits_ptr fits_seq fits_prim is_choice_def exported_def optional_count_def resolve_reference_def
    IsNil_def

lemmas ok_rules = integer_ok_def enumerated_ok_def octet_string_ok_def bit_string_ok_def counted_ok_def
    sequence_ok_def

lemma fits_slot:
  assumes "slot_is t r present n" "slot_fits t r v" "room v \<le> 131064"
    and "openType params" "\<not> sizeExtensible params" "referenceFieldValue params = Some r"
  shows "fits t params (alternative t present n v)"
  using assms by (intro fits_open [of params r]) (auto simp: slot_is_def slot_fits_def split: option.splits)

lemma room_slot:
  assumes "slot_is t r present n"
  shows "room (alternative t present n v) = 256 + room v"
proof -
  obtain k u tag where s: "slot_of t r = Some (k, n, u, tag)" and k: "present = int k"
    using assms by (auto simp: slot_is_def split: option.splits)
  then show ?thesis
    using room_chosen [of t k n u tag] by (auto simp: slot_of_def split: option.splits)
qed

lemma fits_ie:
  assumes V: "ie_value t = Some V" and slot: "slot_is V i present n" "slot_fits V i v" "room v \<le> 131064"
    and range: "0 \<le> i" "i < 65536" "c \<le> 2" and p: "\<not> sizeExtensible params"
  shows "fits t params (ie_of t i c present n v)"
proof -
  have c: "uint c \<le> 2" using range(3) by (simp add: word_le_def)
  have fs: "fields_of t = [Field ''Id'' '''' ProtocolIEID, Field ''Criticality'' '''' Criticality,
      Field ''Value'' ''openType,referenceFieldName:Id'' V]" and ft: "field_type t ''Value'' = V"
    using V by (auto simp: ie_value_def split: if_splits)
  then have t: "t = TStruct (fields_of t)" by (cases t) (auto simp: fields_of_def)
  have "fits V (noParameters\<lparr>openType := True, referenceFieldName := ''Id'', referenceFieldValue := Some i\<rparr>)
      (alternative V present n v)"
    using slot by (intro fits_slot [of V i]) simp_all
  then have "fits (TStruct (fields_of t)) params (ie_of t i c present n v)"
    using range c p unfolding ie_of_def struct_of_def ft fs
    by (simp add: wrap_def fits_rules ProtocolIEID_def Criticality_def ok_rules)
  then show ?thesis using t by simp
qed

lemma room_ie:
  assumes V: "ie_value t = Some V" and slot: "slot_is V i present n"
  shows "room (ie_of t i c present n v) = 832 + room v"
proof -
  have fs: "fields_of t = [Field ''Id'' '''' ProtocolIEID, Field ''Criticality'' '''' Criticality,
      Field ''Value'' ''openType,referenceFieldName:Id'' V]" and ft: "field_type t ''Value'' = V"
    using V by (auto simp: ie_value_def split: if_splits)
  then show ?thesis
    unfolding ie_of_def struct_of_def ft fs by (simp add: wrap_def room_slot [OF slot])
qed

lemma fits_message:
  assumes "message_ies t = Some u" "\<not> sizeExtensible params" "length ies < 65536" "list_all (fits u
      noParameters) ies"
  shows "fits t params (wrap (wrap (VSlice ies)))"
proof -
  have t: "t = TStruct [Field ''ProtocolIEs'' '''' (TStruct [Field ''List'' ''sizeLB:0,sizeUB:65535'' (TSlice u)])]"
    using assms(1) by (auto simp: message_ies_def split: gtype.splits list.splits gfield.splits if_splits)
  have e: "elementParameters (noParameters\<lparr>sizeLowerBound := Some 0, sizeUpperBound := Some 65535\<rparr>) =
      noParameters"
    by (simp add: elementParameters_def noParameters_def)
  show ?thesis using assms(2-4) by (simp add: t wrap_def fits_rules ok_rules e)
qed

lemma fits_procedure:
  assumes t: "t = TStruct [Field ''ProcedureCode'' '''' ProcedureCode, Field ''Criticality'' '''' Criticality,
      Field ''Value'' ''openType,referenceFieldName:ProcedureCode'' V]"
    and slot: "slot_is V code present n" "slot_fits V code (wrap (wrap (VSlice ies)))"
    and room: "room (VSlice ies) \<le> 130000" and range: "0 \<le> code" "code < 256" "c \<le> 2"
  shows "fits t noParameters (procedure_of t code c present n ies)"
proof -
  have c: "uint c \<le> 2" using range(3) by (simp add: word_le_def)
  have "room (wrap (wrap (VSlice ies))) \<le> 131064" using room by (simp add: wrap_def)
  then have "fits V (noParameters\<lparr>openType := True, referenceFieldName := ''ProcedureCode'', referenceFieldValue := Some code\<rparr>)
      (alternative V present n (wrap (wrap (VSlice ies))))"
    using slot by (intro fits_slot [of V code]) simp_all
  moreover have "field_type t ''Value'' = V" by (simp add: t field_type_def fields_of_def)
  ultimately show ?thesis
    using range c unfolding procedure_of_def struct_of_def
    by (simp add: t fields_of_def wrap_def fits_rules ProcedureCode_def Criticality_def ok_rules)
qed

lemma NGAPPDU_at:
  "choice_at NGAPPDU (Suc 0) = Some (''InitiatingMessage'', InitiatingMessage, '''')"
  "choice_at NGAPPDU 2 = Some (''SuccessfulOutcome'', SuccessfulOutcome, '''')"
  by (simp_all add: choice_at_def choice_refs_def field_names_def field_tags_def pointers_def is_ptr_def
    fields_of_def exported_def NGAPPDU_def)

text \<open>The type parameters of the front end.\<close>

abbreviation fits_pdu :: "gval \<Rightarrow> bool" where
  "fits_pdu \<equiv> fits NGAPPDU (parseFieldParameters ''valueExt,valueLB:0,valueUB:2'')"

lemma fits_initiating:
  assumes "slot_is InitiatingMessageValue code present n"
    and "slot_fits InitiatingMessageValue code (wrap (wrap (VSlice ies)))"
    and "room (VSlice ies) \<le> 130000" "0 \<le> code" "code < 256" "c \<le> 2"
  shows "fits_pdu (initiating code c present n ies)"
  unfolding initiating_def
  by (rule fits_choice) (use assms in \<open>simp_all add: NGAPPDU_at fits_procedure [OF
      InitiatingMessage_def]\<close>)

lemma fits_successful:
  assumes "slot_is SuccessfulOutcomeValue code present n"
    and "slot_fits SuccessfulOutcomeValue code (wrap (wrap (VSlice ies)))"
    and "room (VSlice ies) \<le> 130000" "0 \<le> code" "code < 256" "c \<le> 2"
  shows "fits_pdu (successful code c present n ies)"
  unfolding successful_def
  by (rule fits_choice) (use assms in \<open>simp_all add: NGAPPDU_at fits_procedure [OF
      SuccessfulOutcome_def]\<close>)

section \<open>Tables\<close>

text \<open>Struct tags.\<close>

lemma tag_facts [simp]:
  "parseFieldParameters ''referenceFieldValue:10'' = noParameters\<lparr>referenceFieldValue := Some 10\<rparr>"
  "parseFieldParameters ''referenceFieldValue:100'' = noParameters\<lparr>referenceFieldValue := Some 100\<rparr>"
  "parseFieldParameters ''referenceFieldValue:101'' = noParameters\<lparr>referenceFieldValue := Some 101\<rparr>"
  "parseFieldParameters ''referenceFieldValue:102'' = noParameters\<lparr>referenceFieldValue := Some 102\<rparr>"
  "parseFieldParameters ''referenceFieldValue:105,valueLB:0,valueUB:2'' =
     noParameters\<lparr>valueLowerBound := Some 0, valueUpperBound := Some 2, referenceFieldValue := Some
         105\<rparr>"
  "parseFieldParameters ''referenceFieldValue:106'' = noParameters\<lparr>referenceFieldValue := Some 106\<rparr>"
  "parseFieldParameters ''referenceFieldValue:112'' = noParameters\<lparr>referenceFieldValue := Some 112\<rparr>"
  "parseFieldParameters ''referenceFieldValue:121,valueLB:0,valueUB:3'' =
     noParameters\<lparr>valueLowerBound := Some 0, valueUpperBound := Some 3, referenceFieldValue := Some
         121\<rparr>"
  "parseFieldParameters ''referenceFieldValue:15,valueLB:0,valueUB:5'' =
     noParameters\<lparr>valueLowerBound := Some 0, valueUpperBound := Some 5, referenceFieldValue := Some 15\<rparr>"
  "parseFieldParameters ''referenceFieldValue:21'' = noParameters\<lparr>referenceFieldValue := Some 21\<rparr>"
  "parseFieldParameters ''referenceFieldValue:27,valueLB:0,valueUB:3'' =
     noParameters\<lparr>valueLowerBound := Some 0, valueUpperBound := Some 3, referenceFieldValue := Some 27\<rparr>"
  "parseFieldParameters ''referenceFieldValue:29'' = noParameters\<lparr>referenceFieldValue := Some 29\<rparr>"
  "parseFieldParameters ''referenceFieldValue:38'' = noParameters\<lparr>referenceFieldValue := Some 38\<rparr>"
  "parseFieldParameters ''referenceFieldValue:53'' = noParameters\<lparr>referenceFieldValue := Some 53\<rparr>"
  "parseFieldParameters ''referenceFieldValue:61'' = noParameters\<lparr>referenceFieldValue := Some 61\<rparr>"
  "parseFieldParameters ''referenceFieldValue:65'' = noParameters\<lparr>referenceFieldValue := Some 65\<rparr>"
  "parseFieldParameters ''referenceFieldValue:70'' = noParameters\<lparr>referenceFieldValue := Some 70\<rparr>"
  "parseFieldParameters ''referenceFieldValue:72'' = noParameters\<lparr>referenceFieldValue := Some 72\<rparr>"
  "parseFieldParameters ''referenceFieldValue:75'' = noParameters\<lparr>referenceFieldValue := Some 75\<rparr>"
  "parseFieldParameters ''referenceFieldValue:76'' = noParameters\<lparr>referenceFieldValue := Some 76\<rparr>"
  "parseFieldParameters ''referenceFieldValue:82'' = noParameters\<lparr>referenceFieldValue := Some 82\<rparr>"
  "parseFieldParameters ''referenceFieldValue:85'' = noParameters\<lparr>referenceFieldValue := Some 85\<rparr>"
  "parseFieldParameters ''referenceFieldValue:90'' = noParameters\<lparr>referenceFieldValue := Some 90\<rparr>"
  "parseFieldParameters ''sizeExt,sizeLB:1,sizeUB:150'' =
     noParameters\<lparr>sizeExtensible := True, sizeLowerBound := Some 1, sizeUpperBound := Some 150\<rparr>"
  "parseFieldParameters ''sizeExt,sizeLB:1,sizeUB:160'' =
     noParameters\<lparr>sizeExtensible := True, sizeLowerBound := Some 1, sizeUpperBound := Some 160\<rparr>"
  "parseFieldParameters ''sizeExt,sizeLB:16,sizeUB:16'' =
     noParameters\<lparr>sizeExtensible := True, sizeLowerBound := Some 16, sizeUpperBound := Some 16\<rparr>"
  "parseFieldParameters ''sizeLB:1,sizeUB:1'' =
     noParameters\<lparr>sizeLowerBound := Some 1, sizeUpperBound := Some 1\<rparr>"
  "parseFieldParameters ''sizeLB:10,sizeUB:10'' =
     noParameters\<lparr>sizeLowerBound := Some 10, sizeUpperBound := Some 10\<rparr>"
  "parseFieldParameters ''sizeLB:22,sizeUB:32'' =
     noParameters\<lparr>sizeLowerBound := Some 22, sizeUpperBound := Some 32\<rparr>"
  "parseFieldParameters ''sizeLB:3,sizeUB:3'' =
     noParameters\<lparr>sizeLowerBound := Some 3, sizeUpperBound := Some 3\<rparr>"
  "parseFieldParameters ''sizeLB:36,sizeUB:36'' =
     noParameters\<lparr>sizeLowerBound := Some 36, sizeUpperBound := Some 36\<rparr>"
  "parseFieldParameters ''sizeLB:4,sizeUB:4'' =
     noParameters\<lparr>sizeLowerBound := Some 4, sizeUpperBound := Some 4\<rparr>"
  "parseFieldParameters ''sizeLB:6,sizeUB:6'' =
     noParameters\<lparr>sizeLowerBound := Some 6, sizeUpperBound := Some 6\<rparr>"
  "parseFieldParameters ''valueExt,optional'' = noParameters\<lparr>optional := True, valueExtensible := True\<rparr>"
  "parseFieldParameters ''valueExt,referenceFieldValue:11'' =
     noParameters\<lparr>valueExtensible := True, referenceFieldValue := Some 11\<rparr>"
  "parseFieldParameters ''valueExt,referenceFieldValue:119'' =
     noParameters\<lparr>valueExtensible := True, referenceFieldValue := Some 119\<rparr>"
  "parseFieldParameters ''valueExt,referenceFieldValue:12'' =
     noParameters\<lparr>valueExtensible := True, referenceFieldValue := Some 12\<rparr>"
  "parseFieldParameters ''valueExt,referenceFieldValue:13'' =
     noParameters\<lparr>valueExtensible := True, referenceFieldValue := Some 13\<rparr>"
  "parseFieldParameters ''valueExt,referenceFieldValue:14'' =
     noParameters\<lparr>valueExtensible := True, referenceFieldValue := Some 14\<rparr>"
  "parseFieldParameters ''valueExt,referenceFieldValue:15'' =
     noParameters\<lparr>valueExtensible := True, referenceFieldValue := Some 15\<rparr>"
  "parseFieldParameters ''valueExt,referenceFieldValue:21'' =
     noParameters\<lparr>valueExtensible := True, referenceFieldValue := Some 21\<rparr>"
  "parseFieldParameters ''valueExt,referenceFieldValue:25'' =
     noParameters\<lparr>valueExtensible := True, referenceFieldValue := Some 25\<rparr>"
  "parseFieldParameters ''valueExt,referenceFieldValue:26'' =
     noParameters\<lparr>valueExtensible := True, referenceFieldValue := Some 26\<rparr>"
  "parseFieldParameters ''valueExt,referenceFieldValue:28'' =
     noParameters\<lparr>valueExtensible := True, referenceFieldValue := Some 28\<rparr>"
  "parseFieldParameters ''valueExt,referenceFieldValue:29'' =
     noParameters\<lparr>valueExtensible := True, referenceFieldValue := Some 29\<rparr>"
  "parseFieldParameters ''valueExt,referenceFieldValue:41'' =
     noParameters\<lparr>valueExtensible := True, referenceFieldValue := Some 41\<rparr>"
  "parseFieldParameters ''valueExt,referenceFieldValue:42'' =
     noParameters\<lparr>valueExtensible := True, referenceFieldValue := Some 42\<rparr>"
  "parseFieldParameters ''valueExt,referenceFieldValue:46'' =
     noParameters\<lparr>valueExtensible := True, referenceFieldValue := Some 46\<rparr>"
  "parseFieldParameters ''valueExt,referenceFieldValue:9'' =
     noParameters\<lparr>valueExtensible := True, referenceFieldValue := Some 9\<rparr>"
  "parseFieldParameters ''valueExt,sizeLB:1,sizeUB:1024'' =
     noParameters\<lparr>valueExtensible := True, sizeLowerBound := Some 1, sizeUpperBound := Some 1024\<rparr>"
  "parseFieldParameters ''valueExt,sizeLB:1,sizeUB:12'' =
     noParameters\<lparr>valueExtensible := True, sizeLowerBound := Some 1, sizeUpperBound := Some 12\<rparr>"
  "parseFieldParameters ''valueExt,sizeLB:1,sizeUB:16'' =
     noParameters\<lparr>valueExtensible := True, sizeLowerBound := Some 1, sizeUpperBound := Some 16\<rparr>"
  "parseFieldParameters ''valueExt,sizeLB:1,sizeUB:256'' =
     noParameters\<lparr>valueExtensible := True, sizeLowerBound := Some 1, sizeUpperBound := Some 256\<rparr>"
  "parseFieldParameters ''valueExt,sizeLB:1,sizeUB:64'' =
     noParameters\<lparr>valueExtensible := True, sizeLowerBound := Some 1, sizeUpperBound := Some 64\<rparr>"
  "parseFieldParameters ''valueExt,valueLB:0,valueUB:0'' =
     noParameters\<lparr>valueExtensible := True, valueLowerBound := Some 0, valueUpperBound := Some 0\<rparr>"
  "parseFieldParameters ''valueExt,valueLB:0,valueUB:3'' =
     noParameters\<lparr>valueExtensible := True, valueLowerBound := Some 0, valueUpperBound := Some 3\<rparr>"
  "parseFieldParameters ''valueExt,valueLB:0,valueUB:44'' =
     noParameters\<lparr>valueExtensible := True, valueLowerBound := Some 0, valueUpperBound := Some 44\<rparr>"
  "parseFieldParameters ''valueExt,valueLB:0,valueUB:63'' =
     noParameters\<lparr>valueExtensible := True, valueLowerBound := Some 0, valueUpperBound := Some 63\<rparr>"
  "parseFieldParameters ''valueExt,valueLB:0,valueUB:9'' =
     noParameters\<lparr>valueExtensible := True, valueLowerBound := Some 0, valueUpperBound := Some 9\<rparr>"
  "parseFieldParameters ''valueLB:0,valueUB:1'' =
     noParameters\<lparr>valueLowerBound := Some 0, valueUpperBound := Some 1\<rparr>"
  "parseFieldParameters ''valueLB:0,valueUB:1,optional'' =
     noParameters\<lparr>optional := True, valueLowerBound := Some 0, valueUpperBound := Some 1\<rparr>"
  "parseFieldParameters ''valueLB:0,valueUB:1099511627775'' =
     noParameters\<lparr>valueLowerBound := Some 0, valueUpperBound := Some 1099511627775\<rparr>"
  "parseFieldParameters ''valueLB:0,valueUB:3'' =
     noParameters\<lparr>valueLowerBound := Some 0, valueUpperBound := Some 3\<rparr>"
  "parseFieldParameters ''valueLB:0,valueUB:4'' =
     noParameters\<lparr>valueLowerBound := Some 0, valueUpperBound := Some 4\<rparr>"
  "parseFieldParameters ''valueLB:0,valueUB:4095'' =
     noParameters\<lparr>valueLowerBound := Some 0, valueUpperBound := Some 4095\<rparr>"
  "parseFieldParameters ''valueLB:0,valueUB:4294967295'' =
     noParameters\<lparr>valueLowerBound := Some 0, valueUpperBound := Some 4294967295\<rparr>"
  "parseFieldParameters ''valueLB:0,valueUB:5,optional'' =
     noParameters\<lparr>optional := True, valueLowerBound := Some 0, valueUpperBound := Some 5\<rparr>"
  by code_simp+

text \<open>The CHOICEs that are not open types.\<close>

lemma choices [simp]:
  "choice_at Cause (Suc 0) = Some (''RadioNetwork'', CauseRadioNetwork, '''')"
  "choice_at GNBID (Suc 0) = Some (''GNBID'', TBitString, ''sizeLB:22,sizeUB:32'')"
  "choice_at GlobalRANNodeID (Suc 0) = Some (''GlobalGNBID'', GlobalGNBID, ''valueExt'')"
  "choice_at LastVisitedCellInformation (Suc 0) = Some (''NGRANCell'', LastVisitedNGRANCellInformation, ''valueExt'')"
  "choice_at NGRANCGI (Suc 0) = Some (''NRCGI'', NRCGI, ''valueExt'')"
  "choice_at TargetID (Suc 0) = Some (''TargetRANNodeID'', TargetRANNodeID, ''valueExt'')"
  "choice_at UPTransportLayerInformation (Suc 0) = Some (''GTPTunnel'', GTPTunnel, ''valueExt'')"
  "choice_at UserLocationInformation 2 = Some (''UserLocationInformationNR'', UserLocationInformationNR, ''valueExt'')"
  by (simp_all add: choice_at_def choice_refs_def field_names_def field_tags_def pointers_def is_ptr_def
    fields_of_def exported_def Cause_def GNBID_def GlobalRANNodeID_def LastVisitedCellInformation_def NGRANCGI_def
        TargetID_def UPTransportLayerInformation_def UserLocationInformation_def)

text \<open>The open types: the reference values of their alternatives and the ones that are used.\<close>

lemma ErrorIndicationIEsValue_choice:
  "choice_refs (field_names ErrorIndicationIEsValue)
     (field_tags ErrorIndicationIEsValue) =
  Some [None, Some 10, Some 85, Some 15, Some 19]"
  by (simp only: signature ErrorIndicationIEsValue_def, code_simp)

lemma ErrorIndicationIEsValue_slots [simp]:
  "slot_of ErrorIndicationIEsValue 10 = Some (1, ''AMFUENGAPID'', AMFUENGAPID, ''referenceFieldValue:10'')"
  "slot_of ErrorIndicationIEsValue 15 = Some (3, ''Cause'', Cause, ''referenceFieldValue:15,valueLB:0,valueUB:5'')"
  "slot_of ErrorIndicationIEsValue 85 = Some (2, ''RANUENGAPID'', RANUENGAPID, ''referenceFieldValue:85'')"
  by (rule slotI [OF ErrorIndicationIEsValue_choice]; simp add: slot_rules ErrorIndicationIEsValue_def)+

lemma HandoverNotifyIEsValue_choice:
  "choice_refs (field_names HandoverNotifyIEsValue)
     (field_tags HandoverNotifyIEsValue) =
  Some [None, Some 10, Some 85, Some 121]"
  by (simp only: signature HandoverNotifyIEsValue_def, code_simp)

lemma HandoverNotifyIEsValue_slots [simp]:
  "slot_of HandoverNotifyIEsValue 10 = Some (1, ''AMFUENGAPID'', AMFUENGAPID, ''referenceFieldValue:10'')"
  "slot_of HandoverNotifyIEsValue 85 = Some (2, ''RANUENGAPID'', RANUENGAPID, ''referenceFieldValue:85'')"
  "slot_of HandoverNotifyIEsValue 121 =
     Some (3, ''UserLocationInformation'', UserLocationInformation, ''referenceFieldValue:121,valueLB:0,valueUB:3'')"
  by (rule slotI [OF HandoverNotifyIEsValue_choice]; simp add: slot_rules HandoverNotifyIEsValue_def)+

lemma HandoverRequestAcknowledgeIEsValue_choice:
  "choice_refs (field_names HandoverRequestAcknowledgeIEsValue)
     (field_tags HandoverRequestAcknowledgeIEsValue) =
  Some [None, Some 10, Some 85, Some 53, Some 56, Some 106, Some 19]"
  by (simp only: signature HandoverRequestAcknowledgeIEsValue_def, code_simp)

lemma HandoverRequestAcknowledgeIEsValue_slots [simp]:
  "slot_of HandoverRequestAcknowledgeIEsValue 10 = Some (1, ''AMFUENGAPID'', AMFUENGAPID, ''referenceFieldValue:10'')"
  "slot_of HandoverRequestAcknowledgeIEsValue 53 =
     Some (3, ''PDUSessionResourceAdmittedList'', PDUSessionResourceAdmittedList, ''referenceFieldValue:53'')"
  "slot_of HandoverRequestAcknowledgeIEsValue 85 = Some (2, ''RANUENGAPID'', RANUENGAPID, ''referenceFieldValue:85'')"
  "slot_of HandoverRequestAcknowledgeIEsValue 106 =
     Some (5, ''TargetToSourceTransparentContainer'', TargetToSourceTransparentContainer, ''referenceFieldValue:106'')"
  by (rule slotI [OF HandoverRequestAcknowledgeIEsValue_choice]; simp add: slot_rules
      HandoverRequestAcknowledgeIEsValue_def)+

lemma HandoverRequiredIEsValue_choice:
  "choice_refs (field_names HandoverRequiredIEsValue)
     (field_tags HandoverRequiredIEsValue) =
  Some [None, Some 10, Some 85, Some 29, Some 15, Some 105, Some 22, Some 61, Some 101]"
  by (simp only: signature HandoverRequiredIEsValue_def, code_simp)

lemma HandoverRequiredIEsValue_slots [simp]:
  "slot_of HandoverRequiredIEsValue 10 = Some (1, ''AMFUENGAPID'', AMFUENGAPID, ''referenceFieldValue:10'')"
  "slot_of HandoverRequiredIEsValue 15 = Some (4, ''Cause'', Cause, ''referenceFieldValue:15,valueLB:0,valueUB:5'')"
  "slot_of HandoverRequiredIEsValue 29 = Some (3, ''HandoverType'', HandoverType, ''referenceFieldValue:29'')"
  "slot_of HandoverRequiredIEsValue 61 =
     Some (7, ''PDUSessionResourceListHORqd'', PDUSessionResourceListHORqd, ''referenceFieldValue:61'')"
  "slot_of HandoverRequiredIEsValue 85 = Some (2, ''RANUENGAPID'', RANUENGAPID, ''referenceFieldValue:85'')"
  "slot_of HandoverRequiredIEsValue 101 =
     Some (8, ''SourceToTargetTransparentContainer'', SourceToTargetTransparentContainer, ''referenceFieldValue:101'')"
  "slot_of HandoverRequiredIEsValue 105 =
     Some (5, ''TargetID'', TargetID, ''referenceFieldValue:105,valueLB:0,valueUB:2'')"
  by (rule slotI [OF HandoverRequiredIEsValue_choice]; simp add: slot_rules HandoverRequiredIEsValue_def)+

lemma InitialContextSetupResponseIEsValue_choice:
  "choice_refs (field_names InitialContextSetupResponseIEsValue)
     (field_tags InitialContextSetupResponseIEsValue) =
  Some [None, Some 10, Some 85, Some 72, Some 55, Some 19]"
  by (simp only: signature InitialContextSetupResponseIEsValue_def, code_simp)

lemma InitialContextSetupResponseIEsValue_slots [simp]:
  "slot_of InitialContextSetupResponseIEsValue 10 =
     Some (1, ''AMFUENGAPID'', AMFUENGAPID, ''referenceFieldValue:10'')"
  "slot_of InitialContextSetupResponseIEsValue 72 =
     Some (3, ''PDUSessionResourceSetupListCxtRes'', PDUSessionResourceSetupListCxtRes, ''referenceFieldValue:72'')"
  "slot_of InitialContextSetupResponseIEsValue 85 =
     Some (2, ''RANUENGAPID'', RANUENGAPID, ''referenceFieldValue:85'')"
  by (rule slotI [OF InitialContextSetupResponseIEsValue_choice]; simp add: slot_rules
      InitialContextSetupResponseIEsValue_def)+

lemma InitialUEMessageIEsValue_choice:
  "choice_refs (field_names InitialUEMessageIEsValue)
     (field_tags InitialUEMessageIEsValue) =
  Some [None, Some 85, Some 38, Some 121, Some 90, Some 26, Some 3, Some 112, Some 0]"
  by (simp only: signature InitialUEMessageIEsValue_def, code_simp)

lemma InitialUEMessageIEsValue_slots [simp]:
  "slot_of InitialUEMessageIEsValue 26 = Some (5, ''FiveGSTMSI'', FiveGSTMSI, ''valueExt,referenceFieldValue:26'')"
  "slot_of InitialUEMessageIEsValue 38 = Some (2, ''NASPDU'', NASPDU, ''referenceFieldValue:38'')"
  "slot_of InitialUEMessageIEsValue 85 = Some (1, ''RANUENGAPID'', RANUENGAPID, ''referenceFieldValue:85'')"
  "slot_of InitialUEMessageIEsValue 90 =
     Some (4, ''RRCEstablishmentCause'', RRCEstablishmentCause, ''referenceFieldValue:90'')"
  "slot_of InitialUEMessageIEsValue 112 =
     Some (7, ''UEContextRequest'', UEContextRequest, ''referenceFieldValue:112'')"
  "slot_of InitialUEMessageIEsValue 121 =
     Some (3, ''UserLocationInformation'', UserLocationInformation, ''referenceFieldValue:121,valueLB:0,valueUB:3'')"
  by (rule slotI [OF InitialUEMessageIEsValue_choice]; simp add: slot_rules InitialUEMessageIEsValue_def)+

lemma InitiatingMessageValue_choice:
  "choice_refs (field_names InitiatingMessageValue)
     (field_tags InitiatingMessageValue) =
  Some [None, Some 0, Some 10, Some 12, Some 13, Some 14, Some 20, Some 21, Some 25, Some 26, Some 27, 
    Some 28, Some 29, Some 32, Some 35, Some 40, Some 41, Some 43, Some 51, Some 1, Some 2, Some 3, 
    Some 4, Some 5, Some 6, Some 7, Some 8, Some 9, Some 11, Some 15, Some 18, Some 16, Some 17, 
    Some 19, Some 22, Some 23, Some 24, Some 30, Some 31, Some 33, Some 34, Some 36, Some 37, 
    Some 38, Some 39, Some 42, Some 44, Some 45, Some 46, Some 47, Some 48, Some 49, Some 50]"
  by (simp only: signature InitiatingMessageValue_def, code_simp)

lemma InitiatingMessageValue_slots [simp]:
  "slot_of InitiatingMessageValue 9 =
     Some (27, ''ErrorIndication'', ErrorIndication, ''valueExt,referenceFieldValue:9'')"
  "slot_of InitiatingMessageValue 11 =
     Some (28, ''HandoverNotify'', HandoverNotify, ''valueExt,referenceFieldValue:11'')"
  "slot_of InitiatingMessageValue 12 =
     Some (3, ''HandoverRequired'', HandoverRequired, ''valueExt,referenceFieldValue:12'')"
  "slot_of InitiatingMessageValue 15 =
     Some (29, ''InitialUEMessage'', InitialUEMessage, ''valueExt,referenceFieldValue:15'')"
  "slot_of InitiatingMessageValue 21 =
     Some (7, ''NGSetupRequest'', NGSetupRequest, ''valueExt,referenceFieldValue:21'')"
  "slot_of InitiatingMessageValue 25 =
     Some (8, ''PathSwitchRequest'', PathSwitchRequest, ''valueExt,referenceFieldValue:25'')"
  "slot_of InitiatingMessageValue 42 =
     Some (45, ''UEContextReleaseRequest'', UEContextReleaseRequest, ''valueExt,referenceFieldValue:42'')"
  "slot_of InitiatingMessageValue 46 =
     Some (48, ''UplinkNASTransport'', UplinkNASTransport, ''valueExt,referenceFieldValue:46'')"
  by (rule slotI [OF InitiatingMessageValue_choice]; simp add: slot_rules InitiatingMessageValue_def)+

lemma NGSetupRequestIEsValue_choice:
  "choice_refs (field_names NGSetupRequestIEsValue)
     (field_tags NGSetupRequestIEsValue) =
  Some [None, Some 27, Some 82, Some 102, Some 21]"
  by (simp only: signature NGSetupRequestIEsValue_def, code_simp)

lemma NGSetupRequestIEsValue_slots [simp]:
  "slot_of NGSetupRequestIEsValue 21 = Some (4, ''DefaultPagingDRX'', PagingDRX, ''referenceFieldValue:21'')"
  "slot_of NGSetupRequestIEsValue 27 =
     Some (1, ''GlobalRANNodeID'', GlobalRANNodeID, ''referenceFieldValue:27,valueLB:0,valueUB:3'')"
  "slot_of NGSetupRequestIEsValue 82 = Some (2, ''RANNodeName'', RANNodeName, ''referenceFieldValue:82'')"
  "slot_of NGSetupRequestIEsValue 102 = Some (3, ''SupportedTAList'', SupportedTAList, ''referenceFieldValue:102'')"
  by (rule slotI [OF NGSetupRequestIEsValue_choice]; simp add: slot_rules NGSetupRequestIEsValue_def)+

lemma PDUSessionResourceModifyResponseIEsValue_choice:
  "choice_refs (field_names PDUSessionResourceModifyResponseIEsValue)
     (field_tags PDUSessionResourceModifyResponseIEsValue) =
  Some [None, Some 10, Some 85, Some 65, Some 54, Some 121, Some 19]"
  by (simp only: signature PDUSessionResourceModifyResponseIEsValue_def, code_simp)

lemma PDUSessionResourceModifyResponseIEsValue_slots [simp]:
  "slot_of PDUSessionResourceModifyResponseIEsValue 10 =
     Some (1, ''AMFUENGAPID'', AMFUENGAPID, ''referenceFieldValue:10'')"
  "slot_of PDUSessionResourceModifyResponseIEsValue 65 =
     Some (3, ''PDUSessionResourceModifyListModRes'', PDUSessionResourceModifyListModRes, ''referenceFieldValue:65'')"
  "slot_of PDUSessionResourceModifyResponseIEsValue 85 =
     Some (2, ''RANUENGAPID'', RANUENGAPID, ''referenceFieldValue:85'')"
  by (rule slotI [OF PDUSessionResourceModifyResponseIEsValue_choice]; simp add: slot_rules
      PDUSessionResourceModifyResponseIEsValue_def)+

lemma PDUSessionResourceReleaseResponseIEsValue_choice:
  "choice_refs (field_names PDUSessionResourceReleaseResponseIEsValue)
     (field_tags PDUSessionResourceReleaseResponseIEsValue) =
  Some [None, Some 10, Some 85, Some 70, Some 121, Some 19]"
  by (simp only: signature PDUSessionResourceReleaseResponseIEsValue_def, code_simp)

lemma PDUSessionResourceReleaseResponseIEsValue_slots [simp]:
  "slot_of PDUSessionResourceReleaseResponseIEsValue 10 =
     Some (1, ''AMFUENGAPID'', AMFUENGAPID, ''referenceFieldValue:10'')"
  "slot_of PDUSessionResourceReleaseResponseIEsValue 70 =
     Some (3, ''PDUSessionResourceReleasedListRelRes'', PDUSessionResourceReleasedListRelRes, ''referenceFieldValue:70'')"
  "slot_of PDUSessionResourceReleaseResponseIEsValue 85 =
     Some (2, ''RANUENGAPID'', RANUENGAPID, ''referenceFieldValue:85'')"
  by (rule slotI [OF PDUSessionResourceReleaseResponseIEsValue_choice]; simp add: slot_rules
      PDUSessionResourceReleaseResponseIEsValue_def)+

lemma PDUSessionResourceSetupResponseIEsValue_choice:
  "choice_refs (field_names PDUSessionResourceSetupResponseIEsValue)
     (field_tags PDUSessionResourceSetupResponseIEsValue) =
  Some [None, Some 10, Some 85, Some 75, Some 58, Some 19]"
  by (simp only: signature PDUSessionResourceSetupResponseIEsValue_def, code_simp)

lemma PDUSessionResourceSetupResponseIEsValue_slots [simp]:
  "slot_of PDUSessionResourceSetupResponseIEsValue 10 =
     Some (1, ''AMFUENGAPID'', AMFUENGAPID, ''referenceFieldValue:10'')"
  "slot_of PDUSessionResourceSetupResponseIEsValue 75 =
     Some (3, ''PDUSessionResourceSetupListSURes'', PDUSessionResourceSetupListSURes, ''referenceFieldValue:75'')"
  "slot_of PDUSessionResourceSetupResponseIEsValue 85 =
     Some (2, ''RANUENGAPID'', RANUENGAPID, ''referenceFieldValue:85'')"
  by (rule slotI [OF PDUSessionResourceSetupResponseIEsValue_choice]; simp add: slot_rules
      PDUSessionResourceSetupResponseIEsValue_def)+

lemma PathSwitchRequestIEsValue_choice:
  "choice_refs (field_names PathSwitchRequestIEsValue)
     (field_tags PathSwitchRequestIEsValue) =
  Some [None, Some 85, Some 100, Some 121, Some 119, Some 76, Some 57]"
  by (simp only: signature PathSwitchRequestIEsValue_def, code_simp)

lemma PathSwitchRequestIEsValue_slots [simp]:
  "slot_of PathSwitchRequestIEsValue 76 =
     Some (5, ''PDUSessionResourceToBeSwitchedDLList'', PDUSessionResourceToBeSwitchedDLList, ''referenceFieldValue:76'')"
  "slot_of PathSwitchRequestIEsValue 85 = Some (1, ''RANUENGAPID'', RANUENGAPID, ''referenceFieldValue:85'')"
  "slot_of PathSwitchRequestIEsValue 100 = Some (2, ''SourceAMFUENGAPID'', AMFUENGAPID, ''referenceFieldValue:100'')"
  "slot_of PathSwitchRequestIEsValue 119 =
     Some (4, ''UESecurityCapabilities'', UESecurityCapabilities, ''valueExt,referenceFieldValue:119'')"
  "slot_of PathSwitchRequestIEsValue 121 =
     Some (3, ''UserLocationInformation'', UserLocationInformation, ''referenceFieldValue:121,valueLB:0,valueUB:3'')"
  by (rule slotI [OF PathSwitchRequestIEsValue_choice]; simp add: slot_rules PathSwitchRequestIEsValue_def)+

lemma SuccessfulOutcomeValue_choice:
  "choice_refs (field_names SuccessfulOutcomeValue)
     (field_tags SuccessfulOutcomeValue) =
  Some [None, Some 0, Some 10, Some 12, Some 13, Some 14, Some 20, Some 21, Some 25, Some 26, Some 27, 
    Some 28, Some 29, Some 32, Some 35, Some 40, Some 41, Some 43, Some 51]"
  by (simp only: signature SuccessfulOutcomeValue_def, code_simp)

lemma SuccessfulOutcomeValue_slots [simp]:
  "slot_of SuccessfulOutcomeValue 13 =
     Some (4, ''HandoverRequestAcknowledge'', HandoverRequestAcknowledge, ''valueExt,referenceFieldValue:13'')"
  "slot_of SuccessfulOutcomeValue 14 =
     Some (5, ''InitialContextSetupResponse'', InitialContextSetupResponse, ''valueExt,referenceFieldValue:14'')"
  "slot_of SuccessfulOutcomeValue 26 =
     Some (9, ''PDUSessionResourceModifyResponse'', PDUSessionResourceModifyResponse, ''valueExt,referenceFieldValue:26'')"
  "slot_of SuccessfulOutcomeValue 28 =
     Some (11, ''PDUSessionResourceReleaseResponse'', PDUSessionResourceReleaseResponse, ''valueExt,referenceFieldValue:28'')"
  "slot_of SuccessfulOutcomeValue 29 =
     Some (12, ''PDUSessionResourceSetupResponse'', PDUSessionResourceSetupResponse, ''valueExt,referenceFieldValue:29'')"
  "slot_of SuccessfulOutcomeValue 41 =
     Some (16, ''UEContextReleaseComplete'', UEContextReleaseComplete, ''valueExt,referenceFieldValue:41'')"
  by (rule slotI [OF SuccessfulOutcomeValue_choice]; simp add: slot_rules SuccessfulOutcomeValue_def)+

lemma UEContextReleaseCompleteIEsValue_choice:
  "choice_refs (field_names UEContextReleaseCompleteIEsValue)
     (field_tags UEContextReleaseCompleteIEsValue) =
  Some [None, Some 10, Some 85, Some 121, Some 32, Some 60, Some 19]"
  by (simp only: signature UEContextReleaseCompleteIEsValue_def, code_simp)

lemma UEContextReleaseCompleteIEsValue_slots [simp]:
  "slot_of UEContextReleaseCompleteIEsValue 10 = Some (1, ''AMFUENGAPID'', AMFUENGAPID, ''referenceFieldValue:10'')"
  "slot_of UEContextReleaseCompleteIEsValue 85 = Some (2, ''RANUENGAPID'', RANUENGAPID, ''referenceFieldValue:85'')"
  by (rule slotI [OF UEContextReleaseCompleteIEsValue_choice]; simp add: slot_rules
      UEContextReleaseCompleteIEsValue_def)+

lemma UEContextReleaseRequestIEsValue_choice:
  "choice_refs (field_names UEContextReleaseRequestIEsValue)
     (field_tags UEContextReleaseRequestIEsValue) =
  Some [None, Some 10, Some 85, Some 133, Some 15]"
  by (simp only: signature UEContextReleaseRequestIEsValue_def, code_simp)

lemma UEContextReleaseRequestIEsValue_slots [simp]:
  "slot_of UEContextReleaseRequestIEsValue 10 = Some (1, ''AMFUENGAPID'', AMFUENGAPID, ''referenceFieldValue:10'')"
  "slot_of UEContextReleaseRequestIEsValue 15 =
     Some (4, ''Cause'', Cause, ''referenceFieldValue:15,valueLB:0,valueUB:5'')"
  "slot_of UEContextReleaseRequestIEsValue 85 = Some (2, ''RANUENGAPID'', RANUENGAPID, ''referenceFieldValue:85'')"
  by (rule slotI [OF UEContextReleaseRequestIEsValue_choice]; simp add: slot_rules
      UEContextReleaseRequestIEsValue_def)+

lemma UplinkNASTransportIEsValue_choice:
  "choice_refs (field_names UplinkNASTransportIEsValue)
     (field_tags UplinkNASTransportIEsValue) =
  Some [None, Some 10, Some 85, Some 38, Some 121]"
  by (simp only: signature UplinkNASTransportIEsValue_def, code_simp)

lemma UplinkNASTransportIEsValue_slots [simp]:
  "slot_of UplinkNASTransportIEsValue 10 = Some (1, ''AMFUENGAPID'', AMFUENGAPID, ''referenceFieldValue:10'')"
  "slot_of UplinkNASTransportIEsValue 38 = Some (3, ''NASPDU'', NASPDU, ''referenceFieldValue:38'')"
  "slot_of UplinkNASTransportIEsValue 85 = Some (2, ''RANUENGAPID'', RANUENGAPID, ''referenceFieldValue:85'')"
  "slot_of UplinkNASTransportIEsValue 121 =
     Some (4, ''UserLocationInformation'', UserLocationInformation, ''referenceFieldValue:121,valueLB:0,valueUB:3'')"
  by (rule slotI [OF UplinkNASTransportIEsValue_choice]; simp add: slot_rules UplinkNASTransportIEsValue_def)+

text \<open>The types of information elements and of messages.\<close>

lemma ie_values [simp]:
  "ie_value ErrorIndicationIEs = Some ErrorIndicationIEsValue"
  "ie_value HandoverNotifyIEs = Some HandoverNotifyIEsValue"
  "ie_value HandoverRequestAcknowledgeIEs = Some HandoverRequestAcknowledgeIEsValue"
  "ie_value HandoverRequiredIEs = Some HandoverRequiredIEsValue"
  "ie_value InitialContextSetupResponseIEs = Some InitialContextSetupResponseIEsValue"
  "ie_value InitialUEMessageIEs = Some InitialUEMessageIEsValue"
  "ie_value NGSetupRequestIEs = Some NGSetupRequestIEsValue"
  "ie_value PDUSessionResourceModifyResponseIEs = Some PDUSessionResourceModifyResponseIEsValue"
  "ie_value PDUSessionResourceReleaseResponseIEs = Some PDUSessionResourceReleaseResponseIEsValue"
  "ie_value PDUSessionResourceSetupResponseIEs = Some PDUSessionResourceSetupResponseIEsValue"
  "ie_value PathSwitchRequestIEs = Some PathSwitchRequestIEsValue"
  "ie_value UEContextReleaseCompleteIEs = Some UEContextReleaseCompleteIEsValue"
  "ie_value UEContextReleaseRequestIEs = Some UEContextReleaseRequestIEsValue"
  "ie_value UplinkNASTransportIEs = Some UplinkNASTransportIEsValue"
  by (simp_all add: ie_value_def field_type_def fields_of_def
    ErrorIndicationIEs_def
    HandoverNotifyIEs_def
    HandoverRequestAcknowledgeIEs_def
    HandoverRequiredIEs_def
    InitialContextSetupResponseIEs_def
    InitialUEMessageIEs_def
    NGSetupRequestIEs_def
    PDUSessionResourceModifyResponseIEs_def
    PDUSessionResourceReleaseResponseIEs_def
    PDUSessionResourceSetupResponseIEs_def
    PathSwitchRequestIEs_def
    UEContextReleaseCompleteIEs_def
    UEContextReleaseRequestIEs_def
    UplinkNASTransportIEs_def)

lemma message_types [simp]:
  "message_ies ErrorIndication = Some ErrorIndicationIEs"
  "message_ies HandoverNotify = Some HandoverNotifyIEs"
  "message_ies HandoverRequestAcknowledge = Some HandoverRequestAcknowledgeIEs"
  "message_ies HandoverRequired = Some HandoverRequiredIEs"
  "message_ies InitialContextSetupResponse = Some InitialContextSetupResponseIEs"
  "message_ies InitialUEMessage = Some InitialUEMessageIEs"
  "message_ies NGSetupRequest = Some NGSetupRequestIEs"
  "message_ies PDUSessionResourceModifyResponse = Some PDUSessionResourceModifyResponseIEs"
  "message_ies PDUSessionResourceReleaseResponse = Some PDUSessionResourceReleaseResponseIEs"
  "message_ies PDUSessionResourceSetupResponse = Some PDUSessionResourceSetupResponseIEs"
  "message_ies PathSwitchRequest = Some PathSwitchRequestIEs"
  "message_ies UEContextReleaseComplete = Some UEContextReleaseCompleteIEs"
  "message_ies UEContextReleaseRequest = Some UEContextReleaseRequestIEs"
  "message_ies UplinkNASTransport = Some UplinkNASTransportIEs"
  by (simp_all add: message_ies_def
    ErrorIndication_def ProtocolIEContainerErrorIndicationIEs_def
    HandoverNotify_def ProtocolIEContainerHandoverNotifyIEs_def
    HandoverRequestAcknowledge_def ProtocolIEContainerHandoverRequestAcknowledgeIEs_def
    HandoverRequired_def ProtocolIEContainerHandoverRequiredIEs_def
    InitialContextSetupResponse_def ProtocolIEContainerInitialContextSetupResponseIEs_def
    InitialUEMessage_def ProtocolIEContainerInitialUEMessageIEs_def
    NGSetupRequest_def ProtocolIEContainerNGSetupRequestIEs_def
    PDUSessionResourceModifyResponse_def ProtocolIEContainerPDUSessionResourceModifyResponseIEs_def
    PDUSessionResourceReleaseResponse_def ProtocolIEContainerPDUSessionResourceReleaseResponseIEs_def
    PDUSessionResourceSetupResponse_def ProtocolIEContainerPDUSessionResourceSetupResponseIEs_def
    PathSwitchRequest_def ProtocolIEContainerPathSwitchRequestIEs_def
    UEContextReleaseComplete_def ProtocolIEContainerUEContextReleaseCompleteIEs_def
    UEContextReleaseRequest_def ProtocolIEContainerUEContextReleaseRequestIEs_def
    UplinkNASTransport_def ProtocolIEContainerUplinkNASTransportIEs_def)

end
