(* ===== verification/Ngap_Messages.thy ===== *)
theory Ngap_Messages
  imports Ngap_Slots
begin

text \<open>
  The messages the gNB builds can be sent: for arguments in the ranges of the protocol each of them fits
  its type, so that it is encoded and the decoder gives it back.
\<close>

section \<open>Rules for rewriting\<close>

lemma fits_ie_rule:
  "ie_value t \<noteq> None \<Longrightarrow> slot_is (the (ie_value t)) i present n \<Longrightarrow> slot_fits (the (ie_value t)) i v \<Longrightarrow>
    room v \<le> 131064 \<Longrightarrow> 0 \<le> i \<Longrightarrow> i < 65536 \<Longrightarrow> c \<le> 2 \<Longrightarrow> \<not> sizeExtensible params \<Longrightarrow>
    fits t params (ie_of t i c present n v)"
  by (auto intro: fits_ie)

lemma fits_message_rule:
  "message_ies t \<noteq> None \<Longrightarrow> \<not> sizeExtensible params \<Longrightarrow> length ies < 65536 \<Longrightarrow>
    list_all (fits (the (message_ies t)) noParameters) ies \<Longrightarrow> fits t params (wrap (wrap (VSlice ies)))"
  by (auto intro: fits_message)

lemma room_ie_rule:
  "ie_value t \<noteq> None \<Longrightarrow> slot_is (the (ie_value t)) i present n \<Longrightarrow> room (ie_of t i c present n v) = 832 + room v"
  by (auto simp: room_ie)

lemma room_choice:
  assumes "0 < present" and "map_option fst (choice_at t (nat present)) = Some n"
  shows "room (alternative t present n v) = 256 + room v"
  using assms room_chosen [of t "nat present" n] by (cases "choice_at t (nat present)") auto

lemma room_wrap: "room (wrap v) = 128 + room v"
  by (simp add: wrap_def)

lemma element_none: "sizeExtensible p = False \<Longrightarrow> sizeUpperBound (elementParameters p) = None"
  by (simp add: elementParameters_def)

lemmas message_rules = slot_is_def slot_fits_def fits_ie_rule fits_message_rule room_ie_rule room_choice room_wrap

section \<open>Parts\<close>

lemma id_lengths: "length_bits 1 1099511627776 = length_bits 0 1099511627776"
  "length_bits 1 4294967296 = length_bits 0 4294967296"
  by code_simp+

lemma ids_fit:
  "\<not> sizeExtensible p \<Longrightarrow> 0 \<le> i \<Longrightarrow> i < 2 ^ 40 \<Longrightarrow> fits AMFUENGAPID p (wrap (VInt i))"
  "\<not> sizeExtensible p \<Longrightarrow> 0 \<le> i \<Longrightarrow> i < 2 ^ 32 \<Longrightarrow> fits RANUENGAPID p (wrap (VInt i))"
  "\<not> sizeExtensible p \<Longrightarrow> length bs < 16384 \<Longrightarrow> fits NASPDU p (wrap (VOctetString bs))"
  by (simp_all add: AMFUENGAPID_def RANUENGAPID_def NASPDU_def wrap_def fits_rules ok_rules id_lengths octets_ok_def)

lemma location_fits:
  assumes "length plmn = 3" "length tac = 3" "\<not> sizeExtensible p" "\<not> openType p" "valueUpperBound p = Some 3"
  shows "fits UserLocationInformation p (user_location plmn tac gid cellId)"
  unfolding user_location_def
  by (rule fits_choice)
    (use assms in \<open>simp_all add: UserLocationInformationNR_def NRCGI_def TAI_def PLMNIdentity_def NRCellIdentity_def TAC_def
      nr_cgi_def tai_of_def cell_identity_def struct_of_def fields_of_def wrap_def fits_rules ok_rules size_range_def\<close>)

lemma room_location:
  assumes "length plmn = 3" "length tac = 3"
  shows "room (user_location plmn tac gid cellId) \<le> 2000"
  using assms
  by (simp add: user_location_def room_choice UserLocationInformationNR_def NRCGI_def TAI_def nr_cgi_def tai_of_def cell_identity_def struct_of_def
    fields_of_def wrap_def)


lemma simple_room: "room (VInt i) = 128" "room (VEnumerated e) = 64" by simp_all

lemma cause_fits:
  assumes "uint c \<le> 44"
  shows "\<not> sizeExtensible p \<Longrightarrow> \<not> openType p \<Longrightarrow> valueUpperBound p = Some 5 \<Longrightarrow> fits Cause p (radio_cause c)"
    and "room (radio_cause c) = 448"
proof -
  show "fits Cause p (radio_cause c)" if "\<not> sizeExtensible p" "\<not> openType p" "valueUpperBound p = Some 5"
    unfolding radio_cause_def
    by (rule fits_choice) (use assms that in \<open>simp_all add: CauseRadioNetwork_def wrap_def fits_rules ok_rules\<close>)
qed (simp add: radio_cause_def room_choice wrap_def)

lemma gnb_id_fits:
  assumes "length plmn = 3" "length gid = 3"
  shows "\<not> sizeExtensible p \<Longrightarrow> \<not> openType p \<Longrightarrow> valueUpperBound p = Some 3 \<Longrightarrow> fits GlobalRANNodeID p (global_gnb_id plmn gid)"
    and "room (global_gnb_id plmn gid) \<le> 2000"
proof -
  have "fits GNBID (noParameters\<lparr>valueLowerBound := Some 0, valueUpperBound := Some 1\<rparr>)
      (alternative GNBID GNBIDPresentGNBID ''GNBID'' (VBitString \<lparr>Bytes = gid, BitLength = 24\<rparr>))"
    by (rule fits_choice) (use assms in \<open>simp_all add: fits_rules ok_rules size_range_def\<close>)
  then show "fits GlobalRANNodeID p (global_gnb_id plmn gid)"
    if "\<not> sizeExtensible p" "\<not> openType p" "valueUpperBound p = Some 3"
    unfolding global_gnb_id_def
    by (intro fits_choice)
      (use assms that in \<open>simp_all add: GlobalGNBID_def PLMNIdentity_def struct_of_def fields_of_def wrap_def fits_rules
        ok_rules size_range_def\<close>)
qed (use assms in \<open>simp add: global_gnb_id_def room_choice GlobalGNBID_def struct_of_def fields_of_def wrap_def\<close>)

lemma gtp_tunnel_fits:
  assumes "length teid = 4" "bit_string_ok True (Some 1) (Some 160) address"
    and "\<not> sizeExtensible p" "\<not> openType p" "valueUpperBound p = Some 1"
  shows "fits UPTransportLayerInformation p (gtp_tunnel address teid)"
  unfolding gtp_tunnel_def
  by (rule fits_choice)
    (use assms in \<open>simp_all add: GTPTunnel_def TransportLayerAddress_def GTPTEID_def struct_of_def fields_of_def wrap_def fits_rules
      octet_string_ok_def size_range_def\<close>)

lemma enums_fit:
  "\<not> sizeExtensible p \<Longrightarrow> uint c \<le> 9 \<Longrightarrow> fits RRCEstablishmentCause p (wrap (VEnumerated c))"
  "\<not> sizeExtensible p \<Longrightarrow> fits UEContextRequest p (wrap (VEnumerated UEContextRequestPresentRequested))"
  "\<not> sizeExtensible p \<Longrightarrow> fits HandoverType p (wrap (VEnumerated HandoverTypePresentIntra5gs))"
  "\<not> sizeExtensible p \<Longrightarrow> uint c \<le> 3 \<Longrightarrow> fits PagingDRX p (wrap (VEnumerated c))"
  by (simp_all add: RRCEstablishmentCause_def UEContextRequest_def HandoverType_def PagingDRX_def wrap_def fits_rules ok_rules)

section \<open>Messages without transfers\<close>

lemma uplink_fits:
  assumes "0 \<le> a" "a < 2 ^ 40" "0 \<le> r" "r < 2 ^ 32" "length nas \<le> 13000" "length plmn = 3" "length tac = 3"
  shows "fits_pdu (buildUplinkNasTransport a r nas plmn tac gid cellId)"
  unfolding buildUplinkNasTransport_def
  by (rule fits_initiating)
    (use assms room_location [of plmn tac gid cellId] in \<open>simp_all add: message_rules ids_fit location_fits\<close>)

definition tmsi_ok :: "string \<Rightarrow> bool" where
  "tmsi_ok s \<longleftrightarrow> s = [] \<or> 4 \<le> length s \<and> length (fst (DecodeString (take 4 s))) = 2 \<and>
     length (fst (DecodeString (take 2 (drop 2 s)))) = 1 \<and> length (fst (DecodeString (drop 4 s))) = 4"

lemma tmsi_fits:
  assumes "s \<noteq> []" "tmsi_ok s"
  shows "valueExtensible p \<Longrightarrow> \<not> sizeExtensible p \<Longrightarrow> fits FiveGSTMSI p (five_g_s_tmsi s)" and "room (five_g_s_tmsi s) \<le> 2000"
  using assms
  by (simp_all add: five_g_s_tmsi_def tmsi_ok_def FiveGSTMSI_def AMFSetID_def AMFPointer_def FiveGTMSI_def
    struct_of_def fields_of_def wrap_def fits_rules ok_rules size_range_def)

lemma initial_ue_fits:
  assumes "0 \<le> r" "r < 2 ^ 32" "length nas \<le> 13000" "length plmn = 3" "length tac = 3" "0 \<le> cause" "cause \<le> 9" "tmsi_ok s"
  shows "\<exists>m. BuildInitialUEMessage r nas s plmn tac cause gid cellId = Inr m \<and> fits_pdu m"
proof -
  have c: "uint (word_of_int cause :: u64) = cause"
    using assms(6,7) by (intro word_of_int_inverse [OF refl]) simp_all
  note facts = assms room_location [of plmn tac gid cellId] tmsi_fits [of s] c
  obtain m where "BuildInitialUEMessage r nas s plmn tac cause gid cellId = Inr m" and m: "m = initiating ProcedureCodeInitialUEMessage CriticalityPresentIgnore
      InitiatingMessagePresentInitialUEMessage ''InitialUEMessage''
      (initial_ue_ies r nas s plmn tac cause gid cellId)"
    using assms(8) by (auto simp: BuildInitialUEMessage_def initial_ue_ies_def tmsi_ok_def)
  moreover have "fits_pdu m"
    unfolding m by (rule fits_initiating) (use facts in \<open>auto simp: initial_ue_ies_def message_rules ids_fit location_fits enums_fit\<close>)
  ultimately show ?thesis by blast
qed


section \<open>Interface management\<close>

lemma supported_ta_fits:
  assumes "length plmn = 3" "length tac = 3" "length (fst sl) = 1" "\<forall>sd. snd sl = Some sd \<longrightarrow> length sd = 3"
  shows "\<not> sizeExtensible p \<Longrightarrow> fits SupportedTAList p (wrap (VSlice [supported_ta plmn tac sl]))"
    and "room (supported_ta plmn tac sl) \<le> 3000"
  using assms
  by (cases "snd sl"; simp add: supported_ta_def SupportedTAList_def SupportedTAItem_def TAC_def BroadcastPLMNList_def
      BroadcastPLMNItem_def PLMNIdentity_def SliceSupportList_def SliceSupportItem_def SNSSAI_def SST_def SD_def
      elementParameters_def struct_of_def fields_of_def wrap_def fits_rules ok_rules size_range_def)+

lemma ng_setup_fits:
  assumes "length (GetMccAndMncInOctets (gnbMcc gnb) (gnbMnc gnb)) = 3" "length (GetGnbIdInBytes gnb) = 3"
    and "length (GetTacInBytes gnb) = 3" "length (fst (GetSliceInBytes gnb)) = 1"
    and "\<forall>sd. snd (GetSliceInBytes gnb) = Some sd \<longrightarrow> length sd = 3" "name \<noteq> []" "length name \<le> 150"
  shows "fits_pdu (ng_setup_request gnb name)"
proof -
  have n: "fits RANNodeName p (wrap (VString (map of_char name)))" if "\<not> sizeExtensible p" for p
    using that assms(6,7) by (cases name) (simp_all add: RANNodeName_def wrap_def fits_rules ok_rules size_range_def octets_ok_def)
  have d: "uint (paging_drx s) \<le> 3" for s by (simp add: paging_drx_def)
  show ?thesis
    unfolding ng_setup_request_def Let_def
    by (rule fits_initiating)
      (use assms supported_ta_fits [OF assms(1,3,4,5)] gnb_id_fits [OF assms(1,2)] n d in \<open>simp_all add: message_rules enums_fit\<close>)
qed

lemma error_indication_fits:
  assumes "\<forall>i. a = Some i \<longrightarrow> 0 \<le> i \<and> i < 2 ^ 40" "\<forall>i. r = Some i \<longrightarrow> 0 \<le> i \<and> i < 2 ^ 32"
    and "\<forall>c. cause = Some c \<longrightarrow> (\<exists>e. uint e \<le> 44 \<and> c = radio_cause e)"
  shows "fits_pdu (BuildErrorIndication a r cause)"
  unfolding BuildErrorIndication_def
  by (rule fits_initiating) (use assms in \<open>auto simp: message_rules ids_fit cause_fits split: option.splits\<close>)

section \<open>UE contexts and mobility\<close>

lemma release_complete_fits:
  assumes "0 \<le> a" "a < 2 ^ 40" "0 \<le> r" "r < 2 ^ 32"
  shows "fits_pdu (BuildUEContextReleaseComplete r a)"
  unfolding BuildUEContextReleaseComplete_def
  by (rule fits_successful) (use assms in \<open>simp_all add: message_rules ids_fit\<close>)

lemma release_request_fits:
  assumes "0 \<le> a" "a < 2 ^ 40" "0 \<le> r" "r < 2 ^ 32"
    and "\<forall>c. cause = Some c \<longrightarrow> (\<exists>e. uint e \<le> 44 \<and> c = radio_cause e)"
  shows "fits_pdu (BuildUEContextReleaseRequest r a cause)"
  unfolding BuildUEContextReleaseRequest_def
  by (rule fits_initiating) (use assms in \<open>auto simp: message_rules ids_fit cause_fits split: option.splits\<close>)

lemma handover_notify_fits:
  assumes "0 \<le> a" "a < 2 ^ 40" "0 \<le> r" "r < 2 ^ 32" "length plmn = 3" "length tac = 3"
  shows "fits_pdu (BuildHandoverNotify r a plmn tac gid cellId)"
  unfolding BuildHandoverNotify_def
  by (rule fits_initiating)
    (use assms room_location [of plmn tac gid cellId] in \<open>simp_all add: message_rules ids_fit location_fits\<close>)


section \<open>Transfers\<close>

text \<open>A transfer that fits its type is encoded on its own, so that the error the builders drop does not occur.\<close>

lemma transfer_bytes:
  assumes "fits t (noParameters\<lparr>valueExtensible := True\<rparr>) v" and "room v \<le> 8 * n"
  obtains bs where "MarshalWithParams t v ''valueExt'' = Inr bs" and "length bs \<le> n"
    and "\<exists>v'. UnmarshalWithParams bs t ''valueExt'' = Inr v' \<and> spelled v' = spelled v"
proof -
  have fit: "fits t (parseFieldParameters ''valueExt'') v" using assms(1) by simp
  obtain bs where bs: "MarshalWithParams t v ''valueExt'' = Inr bs" "8 * length bs \<le> room v + 7"
    and rt: "\<And>rest. \<exists>v'. UnmarshalWithParams (bs @ rest) t ''valueExt'' = Inr v' \<and> spelled v' = spelled v"
    by (rule marshal_encodes [OF fit]) blast
  show thesis by (rule that [OF bs(1)]) (use bs(2) assms(2) rt [of "[]"] in auto)
qed

lemma tunnel_room: "length teid = 4 \<Longrightarrow> room (gtp_tunnel address teid) = 804 + 8 * length (Bytes address)"
  by (simp add: gtp_tunnel_def room_choice GTPTunnel_def struct_of_def fields_of_def wrap_def)

lemma PutUint32_length: "length (PutUint32 v) = 4"
  by (simp add: PutUint32_def)

lemma setup_transfer_fits:
  assumes "bit_string_ok True (Some 1) (Some 160) address" "0 \<le> q" "q \<le> 63"
  shows "fits PDUSessionResourceSetupResponseTransfer (noParameters\<lparr>valueExtensible := True\<rparr>)
      (buildPDUSessionResourceSetupResponseTransfer address teid q)"
    and "room (buildPDUSessionResourceSetupResponseTransfer address teid q) \<le> 2000 + 8 * length (Bytes address)"
  using assms(2,3) gtp_tunnel_fits [of "PutUint32 teid" address] assms(1)
  by (simp_all add: buildPDUSessionResourceSetupResponseTransfer_def PDUSessionResourceSetupResponseTransfer_def
    QosFlowPerTNLInformation_def AssociatedQosFlowList_def AssociatedQosFlowItem_def QosFlowIdentifier_def
    elementParameters_def struct_of_def fields_of_def wrap_def fits_rules ok_rules PutUint32_length tunnel_room)

text \<open>The items of the session lists have the same shape.\<close>

lemma item_fits:
  assumes t: "t = TStruct [Field ''PDUSessionID'' '''' PDUSessionID, Field n '''' TOctetString,
      Field ''IEExtensions'' ''optional'' (TPtr u)]" and n: "exported n" "n \<noteq> ''PDUSessionID''" "n \<noteq> ''IEExtensions''"
  shows "0 \<le> i \<Longrightarrow> i \<le> 255 \<Longrightarrow> length bs < 16384 \<Longrightarrow> \<not> sizeExtensible p \<Longrightarrow>
      fits t p (struct_of t [(''PDUSessionID'', wrap (VInt i)), (n, VOctetString bs)])"
    and "room (struct_of t [(''PDUSessionID'', wrap (VInt i)), (n, VOctetString bs)]) = 448 + 9 * length bs"
  using n by (auto simp: t PDUSessionID_def struct_of_def fields_of_def wrap_def fits_rules ok_rules octets_ok_def)

lemmas item_types = PDUSessionResourceSetupItemSURes_def PDUSessionResourceSetupItemCxtRes_def
  PDUSessionResourceReleasedItemRelRes_def PDUSessionResourceAdmittedItem_def PDUSessionResourceItemHORqd_def
  PDUSessionResourceToBeSwitchedDLItem_def

lemma exported_transfers [simp]:
  "exported ''PDUSessionResourceSetupResponseTransfer''" "exported ''PDUSessionResourceReleaseResponseTransfer''"
  "exported ''HandoverRequestAcknowledgeTransfer''" "exported ''HandoverRequiredTransfer''"
  "exported ''PathSwitchRequestTransfer''"
  by (simp_all add: exported_def)

lemmas items_fit = item_types [THEN item_fits(1)] and items_room = item_types [THEN item_fits(2)]

section \<open>Messages with transfers\<close>

lemma ipv4_address:
  assumes "ip \<noteq> []" "length (fourOf ip) = 4"
  shows "IPAddressToNgap fourOf sixteenOf ip [] = Inr \<lparr>Bytes = fourOf ip, BitLength = 32\<rparr>"
    and "bit_string_ok True (Some 1) (Some 160) \<lparr>Bytes = fourOf ip, BitLength = 32\<rparr>"
  using assms by (simp_all add: IPAddressToNgap_def first_bytes_def bit_string_ok_def)

lemma setup_transfer_bytes:
  assumes "ip \<noteq> []" "length (fourOf ip) = 4" "0 \<le> q" "q \<le> 63"
  obtains bs where "GetPDUSessionResourceSetupResponseTransfer fourOf sixteenOf ip teid q = Inr bs" and "length bs \<le> 300"
    and "\<exists>v. UnmarshalWithParams bs PDUSessionResourceSetupResponseTransfer ''valueExt'' = Inr v \<and>
      spelled v = spelled (buildPDUSessionResourceSetupResponseTransfer \<lparr>Bytes = fourOf ip, BitLength = 32\<rparr> teid q)"
proof -
  note tr = setup_transfer_fits [OF ipv4_address(2) [where fourOf = fourOf and ip = ip, OF assms(1,2)] assms(3,4), of teid]
  have r: "room (buildPDUSessionResourceSetupResponseTransfer \<lparr>Bytes = fourOf ip, BitLength = 32\<rparr> teid q) \<le> 8 * 300"
    using tr(2) assms(2) by simp
  show thesis
    by (rule transfer_bytes [OF tr(1) r], rule that)
      (simp_all add: GetPDUSessionResourceSetupResponseTransfer_def ipv4_address [where fourOf = fourOf and ip = ip, OF assms(1,2)] bytes_or_nil_def)
qed

lemma setup_response_fits:
  assumes "0 \<le> a" "a < 2 ^ 40" "0 \<le> r" "r < 2 ^ 32" "0 \<le> i" "i \<le> 255" "0 \<le> q" "q \<le> 63"
    and ip: "ip \<noteq> []" "length (fourOf ip) = 4"
  shows "\<exists>m. buildPDUSessionResourceSetupResponseForRegistrationTest fourOf sixteenOf a r ip i teid q = Inr m \<and> fits_pdu m"
proof -
  obtain bs where bs: "GetPDUSessionResourceSetupResponseTransfer fourOf sixteenOf ip teid q = Inr bs" "length bs \<le> 300"
    by (rule setup_transfer_bytes [where fourOf = fourOf and ip = ip, OF ip assms(7,8)]) blast
  have items: "fits PDUSessionResourceSetupListSURes p (wrap (VSlice [struct_of PDUSessionResourceSetupItemSURes
      [(''PDUSessionID'', wrap (VInt i)), (''PDUSessionResourceSetupResponseTransfer'', VOctetString bs)]]))"
    if "\<not> sizeExtensible p" for p
    using that assms(5,6) bs(2) items_fit [of i bs]
    by (simp add: PDUSessionResourceSetupListSURes_def wrap_def fits_rules ok_rules elementParameters_def)
  show ?thesis
    unfolding buildPDUSessionResourceSetupResponseForRegistrationTest_def bs(1) rbind_simps
    by (intro exI conjI, rule refl, rule fits_successful)
      (use assms bs(2) items in \<open>simp_all add: message_rules ids_fit items_room\<close>)
qed

section \<open>Messages with session lists\<close>

lemma rmap_list_all:
  assumes "\<And>x. x \<in> set xs \<Longrightarrow> \<exists>y. f x = Inr y \<and> P y"
  shows "\<exists>ys. rmap_list f xs = Inr ys \<and> length ys = length xs \<and> list_all P ys"
  using assms
proof (induction xs)
  case (Cons x xs)
  obtain y where "f x = Inr y" "P y" using Cons.prems [of x] by auto
  moreover obtain ys where "rmap_list f xs = Inr ys" "length ys = length xs" "list_all P ys"
    using Cons.IH Cons.prems by auto
  ultimately show ?case by simp
qed simp

lemma room_list: "list_all (\<lambda>y. room y \<le> k) ys \<Longrightarrow> sum_list (map room ys) \<le> length ys * k"
  by (induction ys) auto

text \<open>A list of items of bounded size; the lists have between 1 and 256 entries.\<close>

definition item_fit :: "gtype \<Rightarrow> nat \<Rightarrow> gval \<Rightarrow> bool" where
  "item_fit t k v \<longleftrightarrow> fits t (noParameters\<lparr>valueExtensible := True\<rparr>) v \<and> room v \<le> k"

lemma item_list:
  assumes "list_all (item_fit t k) ys" "ys \<noteq> []" "length ys \<le> 16"
    and u: "u = TStruct [Field ''List'' ''valueExt,sizeLB:1,sizeUB:256'' (TSlice t)]"
  shows "\<not> sizeExtensible p \<Longrightarrow> fits u p (wrap (VSlice ys))" and "room (VSlice ys) \<le> 64 + 16 * k"
proof -
  have fit: "list_all (fits t (noParameters\<lparr>valueExtensible := True\<rparr>)) ys" and r: "list_all (\<lambda>y. room y \<le> k) ys"
    using assms(1) by (simp_all add: list_all_iff item_fit_def)
  have "sum_list (map room ys) \<le> length ys * k" by (rule room_list [OF r])
  also have "\<dots> \<le> 16 * k" using assms(3) by (rule mult_right_mono) simp
  finally show "room (VSlice ys) \<le> 64 + 16 * k" by simp
  have e: "elementParameters (noParameters\<lparr>valueExtensible := True, sizeLowerBound := Some 1, sizeUpperBound := Some 256\<rparr>) =
      noParameters\<lparr>valueExtensible := True\<rparr>"
    by (simp add: elementParameters_def noParameters_def)
  have "1 \<le> length ys" using assms(2) by (cases ys) simp_all
  then show "fits u p (wrap (VSlice ys))" if "\<not> sizeExtensible p"
    using that fit assms(3) by (simp add: u wrap_def fits_rules ok_rules e)
qed

lemmas session_lists = PDUSessionResourceReleasedListRelRes_def PDUSessionResourceModifyListModRes_def
  PDUSessionResourceSetupListCxtRes_def

lemma released_item_fits:
  assumes "0 \<le> i" "i \<le> 255"
  shows "\<exists>y. released_item i = Inr y \<and> item_fit PDUSessionResourceReleasedItemRelRes 1000 y"
proof -
  have "fits PDUSessionResourceReleaseResponseTransfer (noParameters\<lparr>valueExtensible := True\<rparr>)
      (struct_of PDUSessionResourceReleaseResponseTransfer [])"
    and "room (struct_of PDUSessionResourceReleaseResponseTransfer []) \<le> 8 * 20"
    by (simp_all add: PDUSessionResourceReleaseResponseTransfer_def struct_of_def fields_of_def fits_rules)
  from transfer_bytes [OF this] obtain bs where "MarshalWithParams PDUSessionResourceReleaseResponseTransfer
      (struct_of PDUSessionResourceReleaseResponseTransfer []) ''valueExt'' = Inr bs" "length bs \<le> 20" by blast
  then show ?thesis
    using assms by (auto simp: released_item_def item_fit_def items_fit items_room)
qed

lemma release_response_fits:
  assumes "0 \<le> a" "a < 2 ^ 40" "0 \<le> r" "r < 2 ^ 32"
    and ids: "\<forall>i \<in> set ids. 0 \<le> i \<and> i \<le> 255" "ids \<noteq> []" "length ids \<le> 16"
  shows "\<exists>m. buildPDUSessionResourceReleaseResponse a r ids = Inr m \<and> fits_pdu m"
proof -
  obtain ys where ys: "rmap_list released_item ids = Inr ys" "length ys = length ids"
    "list_all (item_fit PDUSessionResourceReleasedItemRelRes 1000) ys"
    using rmap_list_all [of ids released_item] released_item_fits ids(1) by blast
  have ne: "ys \<noteq> []" "length ys \<le> 16" using ids(2,3) ys(2) by auto
  note l = item_list [OF ys(3) ne session_lists(1)]
  show ?thesis
    unfolding buildPDUSessionResourceReleaseResponse_def ys(1) rbind_simps
    by (intro exI conjI, rule refl, rule fits_successful) (use assms(1-4) l in \<open>simp_all add: message_rules ids_fit\<close>)
qed

lemma modified_item_fits:
  assumes "0 \<le> i" "i \<le> 255" "0 \<le> qosOf i" "qosOf i \<le> 63"
  shows "\<exists>y. modified_item qosOf i = Inr y \<and> item_fit PDUSessionResourceModifyItemModRes 3000 y"
proof -
  let ?v = "struct_of PDUSessionResourceModifyResponseTransfer
          [(''QosFlowAddOrModifyResponseList'', VPtr (Some (wrap (VSlice [struct_of QosFlowAddOrModifyResponseItem
              [(''QosFlowIdentifier'', wrap (VInt (qosOf i)))]]))))]"
  have "fits PDUSessionResourceModifyResponseTransfer (noParameters\<lparr>valueExtensible := True\<rparr>) ?v" and "room ?v \<le> 8 * 150"
    using assms(3,4)
    by (simp_all add: PDUSessionResourceModifyResponseTransfer_def QosFlowAddOrModifyResponseList_def
      QosFlowAddOrModifyResponseItem_def QosFlowIdentifier_def elementParameters_def struct_of_def fields_of_def wrap_def
      fits_rules ok_rules)
  from transfer_bytes [OF this] obtain bs where "MarshalWithParams PDUSessionResourceModifyResponseTransfer ?v ''valueExt'' = Inr bs"
    "length bs \<le> 150" by blast
  then show ?thesis
    using assms by (auto simp: modified_item_def item_fit_def bytes_or_nil_def PDUSessionResourceModifyItemModRes_def
      PDUSessionID_def struct_of_def fields_of_def wrap_def fits_rules ok_rules octets_ok_def)
qed

lemma modify_response_fits:
  assumes "0 \<le> a" "a < 2 ^ 40" "0 \<le> r" "r < 2 ^ 32"
    and ids: "\<forall>i \<in> set ids. 0 \<le> i \<and> i \<le> 255 \<and> 0 \<le> qosOf i \<and> qosOf i \<le> 63" "length ids \<le> 16"
  shows "\<exists>m. buildPDUSessionResourceModifyResponse a r qosOf ids = Inr m \<and> fits_pdu m"
proof -
  obtain ys where ys: "rmap_list (modified_item qosOf) ids = Inr ys" "length ys = length ids"
    "list_all (item_fit PDUSessionResourceModifyItemModRes 3000) ys"
    using rmap_list_all [of ids "modified_item qosOf"] modified_item_fits ids(1) by blast
  have ne: "ys \<noteq> []" "length ys \<le> 16" if "ids \<noteq> []" using that ys(2) ids(2) by auto
  note l = item_list [OF ys(3) ne session_lists(2)]
  show ?thesis
    unfolding buildPDUSessionResourceModifyResponse_def ys(1) rbind_simps
    by (intro exI conjI, rule refl, rule fits_successful) (use assms(1-4) l in \<open>auto simp: message_rules ids_fit\<close>)
qed

lemma context_item_fits:
  assumes "ip \<noteq> []" "length (fourOf ip) = 4" "0 \<le> i" "i \<le> 255" "0 \<le> q" "q \<le> 63"
  shows "\<exists>y. context_item fourOf sixteenOf ip (i, teid, q) = Inr y \<and> item_fit PDUSessionResourceSetupItemCxtRes 4000 y"
proof -
  obtain bs where "GetPDUSessionResourceSetupResponseTransfer fourOf sixteenOf ip teid q = Inr bs" "length bs \<le> 300"
    by (rule setup_transfer_bytes [where fourOf = fourOf and ip = ip, OF assms(1,2,5,6)]) blast
  then show ?thesis
    using assms(3,4) by (auto simp: context_item_def item_fit_def items_fit items_room)
qed

lemma context_setup_fits:
  assumes "0 \<le> a" "a < 2 ^ 40" "0 \<le> r" "r < 2 ^ 32" "ip \<noteq> []" "length (fourOf ip) = 4"
    and ids: "\<forall>(i, teid, q) \<in> set sessions. 0 \<le> i \<and> i \<le> 255 \<and> 0 \<le> q \<and> q \<le> 63" "length sessions \<le> 16"
  shows "\<exists>m. BuildInitialContextSetupResponse fourOf sixteenOf a r sessions ip = Inr m \<and> fits_pdu m"
proof -
  obtain ys where ys: "rmap_list (context_item fourOf sixteenOf ip) sessions = Inr ys" "length ys = length sessions"
    "list_all (item_fit PDUSessionResourceSetupItemCxtRes 4000) ys"
    using rmap_list_all [of sessions "context_item fourOf sixteenOf ip" "item_fit PDUSessionResourceSetupItemCxtRes 4000"]
      context_item_fits [where fourOf = fourOf and ip = ip, OF assms(5,6)] ids(1) by fastforce
  have ne: "ys \<noteq> []" "length ys \<le> 16" if "sessions \<noteq> []" using that ys(2) ids(2) by auto
  note l = item_list [OF ys(3) ne session_lists(3)]
  show ?thesis
    unfolding BuildInitialContextSetupResponse_def ys(1) rbind_simps
    by (intro exI conjI, rule refl, rule fits_successful) (use assms(1-4) l in \<open>auto simp: message_rules ids_fit\<close>)
qed

section \<open>Handover\<close>

lemma address_ok: "length ip = 4 \<Longrightarrow> bit_string_ok True (Some 1) (Some 160) (address_bits ip)"
  by (simp add: address_bits_def bit_string_ok_def)

lemma ack_transfer_fits:
  assumes "length ip = 4" "length teid = 4" "0 \<le> q" "q \<le> 63"
  shows "fits HandoverRequestAcknowledgeTransfer (noParameters\<lparr>valueExtensible := True\<rparr>) (ack_transfer ip teid q)"
    and "room (ack_transfer ip teid q) \<le> 8 * 300"
  using assms gtp_tunnel_fits [OF assms(2) address_ok [OF assms(1)]]
  by (simp_all add: ack_transfer_def HandoverRequestAcknowledgeTransfer_def QosFlowSetupResponseListHOReqAck_def
    QosFlowSetupResponseItemHOReqAck_def QosFlowIdentifier_def elementParameters_def struct_of_def fields_of_def wrap_def
    fits_rules ok_rules tunnel_room address_bits_def)

lemma switch_transfer_fits:
  assumes "length ip = 4" "length teid = 4"
  shows "fits PathSwitchRequestTransfer (noParameters\<lparr>valueExtensible := True\<rparr>) (switch_transfer ip teid)"
    and "room (switch_transfer ip teid) \<le> 8 * 300"
  using assms gtp_tunnel_fits [OF assms(2) address_ok [OF assms(1)]]
  by (simp_all add: switch_transfer_def PathSwitchRequestTransfer_def QosFlowAcceptedList_def
    QosFlowAcceptedItem_def QosFlowIdentifier_def elementParameters_def struct_of_def fields_of_def wrap_def
    fits_rules ok_rules tunnel_room address_bits_def)

lemma byte_range: "0 \<le> uint b" "uint b \<le> 255" for b :: u8
  using unsigned_less [of b, where 'a = int] by simp_all

lemma target_container_fits:
  "fits TargetNGRANNodeToSourceNGRANNodeTransparentContainer (noParameters\<lparr>valueExtensible := True\<rparr>)
     (struct_of TargetNGRANNodeToSourceNGRANNodeTransparentContainer [(''RRCContainer'', wrap (VOctetString [0, 1, 2, 3]))])"
  "room (struct_of TargetNGRANNodeToSourceNGRANNodeTransparentContainer
     [(''RRCContainer'', wrap (VOctetString [0, 1, 2, 3]))]) \<le> 8 * 100"
  by (simp_all add: TargetNGRANNodeToSourceNGRANNodeTransparentContainer_def RRCContainer_def struct_of_def fields_of_def
    wrap_def fits_rules ok_rules octets_ok_def)

lemma container_ie_fits:
  assumes "length bs \<le> 1000" "\<not> sizeExtensible p"
  shows "fits TargetToSourceTransparentContainer p (wrap (VOctetString bs))"
    and "fits SourceToTargetTransparentContainer p (wrap (VOctetString bs))"
  using assms
  by (simp_all add: TargetToSourceTransparentContainer_def SourceToTargetTransparentContainer_def wrap_def
    fits_rules ok_rules octets_ok_def)

text \<open>The lists with one session.\<close>

lemma single_lists:
  assumes "length bs \<le> 1000" "\<not> sizeExtensible p"
  shows "fits PDUSessionResourceAdmittedList p (wrap (VSlice [struct_of PDUSessionResourceAdmittedItem
      [(''PDUSessionID'', wrap (VInt (uint (i :: u8)))), (''HandoverRequestAcknowledgeTransfer'', VOctetString bs)]]))"
    and "fits PDUSessionResourceListHORqd p (wrap (VSlice [struct_of PDUSessionResourceItemHORqd
      [(''PDUSessionID'', wrap (VInt (uint i))), (''HandoverRequiredTransfer'', VOctetString bs)]]))"
    and "fits PDUSessionResourceToBeSwitchedDLList p (wrap (VSlice [struct_of PDUSessionResourceToBeSwitchedDLItem
      [(''PDUSessionID'', wrap (VInt (uint i))), (''PathSwitchRequestTransfer'', VOctetString bs)]]))"
  using assms byte_range [of i] items_fit [of "uint i" bs]
  by (simp_all add: PDUSessionResourceAdmittedList_def PDUSessionResourceListHORqd_def PDUSessionResourceToBeSwitchedDLList_def
    wrap_def fits_rules ok_rules elementParameters_def)

lemma handover_ack_fits:
  assumes "0 \<le> a" "a < 2 ^ 40" "0 \<le> r" "r < 2 ^ 32" "length ip = 4" "length teid = 4" "0 \<le> q" "q \<le> 63"
  shows "\<exists>m. BuildHandoverRequestAcknowledge r a i ip teid q = Inr m \<and> fits_pdu m"
proof -
  obtain bs where bs: "MarshalWithParams HandoverRequestAcknowledgeTransfer (ack_transfer ip teid q) ''valueExt'' = Inr bs"
    "length bs \<le> 300"
    by (rule transfer_bytes [OF ack_transfer_fits [OF assms(5-8)]]) blast
  obtain cs where cs: "MarshalWithParams TargetNGRANNodeToSourceNGRANNodeTransparentContainer
      (struct_of TargetNGRANNodeToSourceNGRANNodeTransparentContainer [(''RRCContainer'', wrap (VOctetString [0, 1, 2, 3]))])
      ''valueExt'' = Inr cs" "length cs \<le> 100"
    by (rule transfer_bytes [OF target_container_fits]) blast
  show ?thesis
    unfolding BuildHandoverRequestAcknowledge_def bs(1) cs(1) bytes_or_nil_def sum.case rbind_simps
    by (intro exI conjI, rule refl, rule fits_successful)
      (use assms bs(2) cs(2) in \<open>simp_all add: message_rules ids_fit single_lists container_ie_fits items_room\<close>)
qed

lemma security_capabilities_fits:
  "\<not> sizeExtensible p \<Longrightarrow> fits UESecurityCapabilities p security_capabilities" "room security_capabilities \<le> 2000"
  by (simp_all add: security_capabilities_def Let_def UESecurityCapabilities_def NRencryptionAlgorithms_def
    NRintegrityProtectionAlgorithms_def EUTRAencryptionAlgorithms_def EUTRAintegrityProtectionAlgorithms_def
    struct_of_def fields_of_def wrap_def fits_rules ok_rules)

lemma path_switch_fits:
  assumes "0 \<le> a" "a < 2 ^ 40" "0 \<le> r" "r < 2 ^ 32" "length ip = 4" "length teid = 4" "length plmn = 3" "length tac = 3"
  shows "\<exists>m. BuildPathSwitchRequest r a plmn tac i ip teid gid cellId = Inr m \<and> fits_pdu m"
proof -
  obtain bs where bs: "MarshalWithParams PathSwitchRequestTransfer (switch_transfer ip teid) ''valueExt'' = Inr bs" "length bs \<le> 300"
    by (rule transfer_bytes [OF switch_transfer_fits [OF assms(5,6)]]) blast
  show ?thesis
    unfolding BuildPathSwitchRequest_def bs(1) bytes_or_nil_def sum.case rbind_simps
    by (intro exI conjI, rule refl, rule fits_initiating)
      (use assms bs(2) room_location [OF assms(7,8), of gid cellId] security_capabilities_fits in
        \<open>simp_all add: message_rules ids_fit location_fits single_lists items_room\<close>)
qed

lemma cgi_fits:
  assumes "length plmn = 3" "\<not> sizeExtensible p" "\<not> openType p" "valueUpperBound p = Some 2"
  shows "fits NGRANCGI p (alternative NGRANCGI NGRANCGIPresentNRCGI ''NRCGI'' (nr_cgi plmn gid cid))"
  by (rule fits_choice)
    (use assms in \<open>simp_all add: NRCGI_def PLMNIdentity_def NRCellIdentity_def nr_cgi_def cell_identity_def struct_of_def
      fields_of_def wrap_def fits_rules ok_rules size_range_def\<close>)

lemma cgi_room: "length plmn = 3 \<Longrightarrow> room (alternative NGRANCGI NGRANCGIPresentNRCGI ''NRCGI'' (nr_cgi plmn gid cid)) \<le> 1200"
  by (simp add: room_choice NRCGI_def nr_cgi_def cell_identity_def struct_of_def fields_of_def wrap_def)

lemma last_cell_fits:
  assumes "length plmn = 3" "\<not> sizeExtensible p" "\<not> openType p" "valueUpperBound p = Some 4"
  shows "fits LastVisitedCellInformation p (alternative LastVisitedCellInformation LastVisitedCellInformationPresentNGRANCell
    ''NGRANCell'' (struct_of LastVisitedNGRANCellInformation
      [(''GlobalCellID'', alternative NGRANCGI NGRANCGIPresentNRCGI ''NRCGI'' (nr_cgi plmn gid cid)),
       (''CellType'', struct_of CellType [(''CellSize'', wrap (VEnumerated CellSizePresentVerysmall))]),
       (''TimeUEStayedInCell'', wrap (VInt 10))]))"
  by (rule fits_choice)
    (use assms cgi_fits [OF assms(1)] in \<open>simp_all add: LastVisitedNGRANCellInformation_def CellType_def CellSize_def TimeUEStayedInCell_def
      struct_of_def fields_of_def wrap_def fits_rules ok_rules\<close>)

lemma source_container_fits:
  assumes "length plmn = 3"
  shows "fits SourceNGRANNodeToTargetNGRANNodeTransparentContainer (noParameters\<lparr>valueExtensible := True\<rparr>)
      (source_container a plmn tid gid cellId)"
    and "room (source_container a plmn tid gid cellId) \<le> 8 * 900"
  using last_cell_fits [OF assms] cgi_fits [OF assms] cgi_room [OF assms, of gid "first_cell cellId"]
    cgi_room [OF assms, of "intTo3Bytes tid" "second_cell cellId"]
  by (simp_all add: source_container_def SourceNGRANNodeToTargetNGRANNodeTransparentContainer_def RRCContainer_def
    UEHistoryInformation_def LastVisitedCellItem_def elementParameters_def struct_of_def fields_of_def wrap_def
    room_choice LastVisitedNGRANCellInformation_def CellType_def fits_rules ok_rules octets_ok_def)


lemma source_container_length: "length (intTo3Bytes i) = 3"
  by (simp add: intTo3Bytes_def)

lemma target_fits:
  assumes "length plmn = 3" "length tac = 3" "\<not> sizeExtensible p" "\<not> openType p" "valueUpperBound p = Some 2"
  shows "fits TargetID p (alternative TargetID TargetIDPresentTargetRANNodeID ''TargetRANNodeID''
      (struct_of TargetRANNodeID [(''GlobalRANNodeID'', global_gnb_id plmn (intTo3Bytes tid)), (''SelectedTAI'', tai_of plmn tac)]))"
  by (rule fits_choice)
    (use assms gnb_id_fits [OF assms(1) source_container_length [of tid]] in \<open>simp_all add: TargetRANNodeID_def TAI_def
      PLMNIdentity_def TAC_def tai_of_def struct_of_def fields_of_def wrap_def fits_rules ok_rules size_range_def\<close>)

lemma target_room:
  assumes "length plmn = 3" "length tac = 3"
  shows "room (struct_of TargetRANNodeID [(''GlobalRANNodeID'', global_gnb_id plmn (intTo3Bytes tid)), (''SelectedTAI'', tai_of plmn tac)])
    \<le> 4000"
  using assms gnb_id_fits(2) [OF assms(1) source_container_length [of tid]]
  by (simp add: TargetRANNodeID_def TAI_def tai_of_def struct_of_def fields_of_def wrap_def)

lemma required_transfer_fits:
  "fits HandoverRequiredTransfer (noParameters\<lparr>valueExtensible := True\<rparr>) (struct_of HandoverRequiredTransfer [])"
  "room (struct_of HandoverRequiredTransfer []) \<le> 8 * 20"
  by (simp_all add: HandoverRequiredTransfer_def struct_of_def fields_of_def fits_rules)

lemma handover_required_fits:
  assumes "0 \<le> a" "a < 2 ^ 40" "0 \<le> r" "r < 2 ^ 32" "length tac = 3" "PlmnIdToNgap mcc mnc = Inr plmn" "length plmn = 3"
  shows "\<exists>m. BuildHandoverRequired r a mcc mnc tid tac i gid cellId = Inr m \<and> fits_pdu m"
proof -
  obtain bs where bs: "MarshalWithParams HandoverRequiredTransfer (struct_of HandoverRequiredTransfer []) ''valueExt'' = Inr bs"
    "length bs \<le> 20"
    by (rule transfer_bytes [OF required_transfer_fits]) blast
  obtain cs where cs: "MarshalWithParams SourceNGRANNodeToTargetNGRANNodeTransparentContainer
      (source_container a plmn tid gid cellId) ''valueExt'' = Inr cs" "length cs \<le> 900"
    by (rule transfer_bytes [OF source_container_fits [OF assms(7), of a tid gid cellId]]) blast
  show ?thesis
    unfolding BuildHandoverRequired_def assms(6) bs(1) cs(1) bytes_or_nil_def sum.case rbind_simps
    by (intro exI conjI, rule refl, rule fits_initiating)
      (use assms bs(2) cs(2) target_room [OF assms(7,5), of tid] in
        \<open>simp_all add: message_rules ids_fit enums_fit cause_fits target_fits single_lists container_ie_fits items_room\<close>)
qed

end
