(* ===== verification/Ngap_Convert.thy ===== *)
theory Ngap_Convert
  imports Ngap_Builders Identity Aper_Bits
begin

text \<open>
  The converters of \<^verbatim>\<open>lib/ngap/ngapConvert\<close> between the strings of the core network's models and the values
  of NGAP, and what they agree on with each other and with the PLMN encoding of the gNB context.
\<close>

unbundle bit_operations_syntax

section \<open>The model\<close>

text \<open>\<^verbatim>\<open>BitString.go\<close>: a length that does not match gives the zero value.\<close>

definition zero_bits :: BitString where
  "zero_bits = \<lparr>Bytes = [], BitLength = 0\<rparr>"

definition BitStringToHex :: "BitString \<Rightarrow> string res" where
  "BitStringToHex bitString =
     (let hexString = EncodeToString (Bytes bitString); hexLen = unat ((BitLength bitString + 3) div 4) in
      if hexLen > length hexString then Inl Panic else Inr (take hexLen hexString))"

definition HexToBitString :: "string \<Rightarrow> nat \<Rightarrow> BitString res" where
  "HexToBitString hexString bitLength =
     (let hexLen = length hexString in
      if hexLen \<noteq> (bitLength + 3) div 4 then Inr zero_bits
      else
        let bs = fst (DecodeString (if hexLen mod 2 = 1 then hexString @ ''0'' else hexString));
            mask = push_bit (8 - bitLength mod 8) (0xff :: u8)
        in if mask \<noteq> 0 then
             (if bs = [] then Inl Panic
              else Inr \<lparr>Bytes = butlast bs @ [last bs AND mask], BitLength = of_nat bitLength\<rparr>)
           else Inr \<lparr>Bytes = bs, BitLength = of_nat bitLength\<rparr>)"

definition ByteToBitString :: "u8 list \<Rightarrow> nat \<Rightarrow> BitString" where
  "ByteToBitString byteArray bitLength =
     (if (bitLength + 7) div 8 > length byteArray then zero_bits
      else \<lparr>Bytes = byteArray, BitLength = of_nat bitLength\<rparr>)"

text \<open>\<^verbatim>\<open>AmfId.go\<close>: an identifier of less than five characters makes a slice panic; on an error the pointer is zero.\<close>

definition AmfIdToNgap :: "string \<Rightarrow> (BitString \<times> BitString \<times> BitString) res" where
  "AmfIdToNgap s =
     (if length s < 5 then Inl Panic
      else
        rbind (HexToBitString (take 2 s) 8) (\<lambda>regionId.
        rbind (HexToBitString (take 3 (drop 2 s)) 10) (\<lambda>setId.
          case DecodeString (drop 4 s) of
            (_, Some _) \<Rightarrow> Inr (regionId, setId, zero_bits)
          | (tmpByte, None) \<Rightarrow>
              (case GetBitString tmpByte 2 6 of
                 Inl Panic \<Rightarrow> Inl Panic
               | Inl (Fail _) \<Rightarrow> Inr (regionId, setId, zero_bits)
               | Inr shiftByte \<Rightarrow> Inr (regionId, setId, \<lparr>Bytes = shiftByte, BitLength = 6\<rparr>)))))"

definition NgapAmfIdToModels :: "BitString \<Rightarrow> BitString \<Rightarrow> BitString \<Rightarrow> string res" where
  "NgapAmfIdToModels regionId setId ptrId =
     rbind (BitStringToHex regionId) (\<lambda>regionHex.
       if length (Bytes setId) < 2 \<or> Bytes ptrId = [] then Inl Panic
       else Inr (regionHex @ EncodeToString
         [Bytes setId ! 0, (Bytes setId ! 1 AND 0xc0) OR drop_bit 2 (Bytes ptrId ! 0)]))"

text \<open>\<^verbatim>\<open>PortNumber.go\<close>, \<^verbatim>\<open>SNssai.go\<close> and \<^verbatim>\<open>TAI.go\<close>.\<close>

definition PortNumberToNgap :: "u32 \<Rightarrow> u8 list" where
  "PortNumberToNgap port = [ucast (drop_bit 8 port), ucast port]"

definition PortNumberToInt :: "u8 list \<Rightarrow> u32 res" where
  "PortNumberToInt bs =
     (if length bs < 2 then Inl Panic else Inr (push_bit 8 (ucast (bs ! 0)) OR ucast (bs ! 1)))"

definition SNssaiToNgap :: "int \<Rightarrow> string \<Rightarrow> u8 list \<times> u8 list option" where
  "SNssaiToNgap n d =
     ([word_of_int n], if d \<noteq> [] then Some (fst (DecodeString d)) else None)"

definition SNssaiToModels :: "u8 list \<times> u8 list option \<Rightarrow> (int \<times> string) res" where
  "SNssaiToModels s =
     (if fst s = [] then Inl Panic
      else Inr (uint (fst s ! 0), case snd s of None \<Rightarrow> [] | Some d \<Rightarrow> EncodeToString d))"

definition TaiToNgap :: "string \<Rightarrow> string \<Rightarrow> string \<Rightarrow> (u8 list \<times> u8 list) res" where
  "TaiToNgap mcc mnc tac = rbind (PlmnIdToNgap mcc mnc) (\<lambda>plmn. Inr (plmn, fst (DecodeString tac)))"

definition TaiToModels :: "u8 list \<times> u8 list \<Rightarrow> ((string \<times> string) \<times> string) res" where
  "TaiToModels t = rbind (PlmnIdToModels (fst t)) (\<lambda>plmn. Inr (plmn, EncodeToString (snd t)))"

section \<open>PLMN\<close>

lemma PlmnIdToNgap_ok:
  assumes "plmn_ok mcc mnc"
  shows "PlmnIdToNgap mcc mnc = Inr
    [nib (digit_val (mcc ! 1)) (digit_val (mcc ! 0)),
     nib (if length mnc = 2 then 15 else digit_val (mnc ! 0)) (digit_val (mcc ! 2)),
     if length mnc = 2 then nib (digit_val (mnc ! 1)) (digit_val (mnc ! 0))
     else nib (digit_val (mnc ! 2)) (digit_val (mnc ! 1))]"
  using assms
  by (cases rule: plmn_cases)
    (simp_all add: PlmnIdToNgap_def DecodeString_nibbles hex_val_is_digit hex_val_f del: DecodeString.simps(3))

lemma nib_inject:
  assumes "x < 16" "y < 16" "x' < 16" "y' < 16"
  shows "nib x y = nib x' y' \<longleftrightarrow> x = x' \<and> y = y'"
proof -
  have "list_all (\<lambda>a. list_all (\<lambda>b. unat (nib a b) = 16 * a + b) [0..<16]) [0..<16]" by code_simp
  then have u: "unat (nib a b) = 16 * a + b" if "a < 16" "b < 16" for a b
    using that by (simp add: list_all_iff)
  show ?thesis
  proof
    assume "nib x y = nib x' y'"
    then have "16 * x + y = 16 * x' + y'" using u [OF assms(1,2)] u [OF assms(3,4)] by simp
    moreover have "(16 * x + y) div 16 = x" "(16 * x + y) mod 16 = y" "(16 * x' + y') div 16 = x'" "(16 * x' + y') mod 16 = y'"
      using assms by simp_all
    ultimately show "x = x' \<and> y = y'" by simp
  qed simp
qed

lemma digit_val_inject: "is_digit c \<Longrightarrow> is_digit d \<Longrightarrow> digit_val c = digit_val d \<longleftrightarrow> c = d"
  using hex_digit_val by metis

text \<open>
  C40: the PLMN that a handover names as its target is encoded the way the gNB encodes its own, as long as
  the network code has two digits; with three digits they differ, unless the three are the same.
\<close>

theorem plmn_encodings_agree:
  assumes "plmn_ok mcc mnc"
  shows "PlmnIdToNgap mcc mnc = Inr (GetMccAndMncInOctets mcc mnc) \<longleftrightarrow>
    length mnc = 2 \<or> mnc ! 0 = mnc ! 1 \<and> mnc ! 1 = mnc ! 2"
  using assms
  by (cases rule: plmn_cases)
    (use assms in \<open>auto simp: PlmnIdToNgap_ok GetMccAndMncInOctets_ok plmn_octets_def nib_inject digit_val_16 digit_val_inject\<close>)

lemma plmn_encodings_agree_witness:
  "PlmnIdToNgap ''310'' ''410'' \<noteq> Inr (GetMccAndMncInOctets ''310'' ''410'') \<and>
   PlmnIdToNgap ''208'' ''93'' = Inr (GetMccAndMncInOctets ''208'' ''93'')"
proof -
  have "plmn_ok ''310'' ''410''" "plmn_ok ''208'' ''93''" by code_simp+
  from plmn_encodings_agree [OF this(1)] plmn_encodings_agree [OF this(2)] show ?thesis by simp
qed

lemma plmn_models_round_trip:
  assumes "plmn_ok mcc mnc"
  shows "rbind (PlmnIdToNgap mcc mnc) PlmnIdToModels = Inr (mcc, mnc)"
  using assms
  by (cases rule: plmn_cases)
    (use assms in \<open>simp_all add: PlmnIdToNgap_ok PlmnIdToModels_def EncodeToString_def nib_simps digit_val_16 hex_digit_val
      hex_val_f Let_def digit_not_f\<close>)

section \<open>The other converters\<close>

lemma port_round_trip: "length bs = 2 \<Longrightarrow> map_sum id PortNumberToNgap (PortNumberToInt bs) = Inr bs"
proof -
  have "ucast (drop_bit 8 (push_bit 8 (ucast a) OR ucast b :: u32)) = a \<and> ucast (push_bit 8 (ucast a) OR ucast b :: u32) = b" for a b :: u8
    by (rule conjI; rule bit_eqI) (auto simp: bit_simps dest: bit_imp_le_length)
  then show "length bs = 2 \<Longrightarrow> map_sum id PortNumberToNgap (PortNumberToInt bs) = Inr bs"
    by (auto simp: PortNumberToInt_def PortNumberToNgap_def numeral_2_eq_2 length_Suc_conv)
qed

text \<open>An AMF identifier comes back from its three bit strings.\<close>

lemma byte_all:
  "list_all (\<lambda>i. let c = of_nat i :: u8 in drop_bit 2 (push_bit 2 c AND 252) OR (c AND 192) = c \<and>
     nib (i div 16) 0 AND 192 = c AND 192 \<and> hex_byte (nib (i div 16) 0) = [hex_digit (i div 16), CHR ''0'']) [0..<256]"
  by code_simp

lemma byte_pointer:
  "(c AND 192) OR drop_bit 2 (push_bit 2 c AND 252) = c" "nib (unat c div 16) 0 AND 192 = c AND 192"
  "hex_byte (nib (unat c div 16) 0) = [hex_digit (unat c div 16), CHR ''0'']" for c :: u8
proof -
  have c: "of_nat (unat c) = c" and "unat c \<in> set [0..<256]" using unat_byte [of c] by simp_all
  from bspec [OF byte_all [unfolded list_all_iff Let_def] this(2), unfolded c]
  show "(c AND 192) OR drop_bit 2 (push_bit 2 c AND 252) = c" "nib (unat c div 16) 0 AND 192 = c AND 192"
    "hex_byte (nib (unat c div 16) 0) = [hex_digit (unat c div 16), CHR ''0'']"
    by (simp_all only: or.commute)
qed

lemma word_mask: "(1020 :: u8) = 252" "(16320 :: u8) = 192" "(4032 :: u8) = 192"
  by simp_all

lemma amf_id_round_trip:
  "rbind (AmfIdToNgap (EncodeToString [a, b, c])) (\<lambda>(r, s, p). NgapAmfIdToModels r s p) = Inr (EncodeToString [a, b, c])"
proof -
  let ?s = "EncodeToString [a, b, c]"
  have parts: "take 2 ?s = EncodeToString [a]" "drop 4 ?s = EncodeToString [c]"
    "take 3 (drop 2 ?s) @ ''0'' = EncodeToString [b, nib (unat c div 16) 0]"
    by (simp_all add: EncodeToString_def hex_byte_def [of a] hex_byte_def [of b] hex_byte_def [of c] byte_pointer)
  have "GetBitString [c] 2 6 = Inr [push_bit 2 c AND 252]"
    by (subst GetBitString_closed) (simp_all add: shifted_def word_mask)
  moreover have "HexToBitString (take 2 ?s) 8 = Inr \<lparr>Bytes = [a], BitLength = 8\<rparr>"
    unfolding parts by (simp add: HexToBitString_def hex_round_trip)
  moreover have "HexToBitString (take 3 (drop 2 ?s)) 10 = Inr \<lparr>Bytes = [b, c AND 192], BitLength = 10\<rparr>"
    using parts(3) by (simp add: HexToBitString_def hex_round_trip byte_pointer word_mask)
  ultimately show ?thesis
    by (simp add: AmfIdToNgap_def parts hex_round_trip NgapAmfIdToModels_def BitStringToHex_def byte_pointer(1) [simplified])
      (simp add: EncodeToString_def hex_byte_def)
qed

lemma tai_round_trip:
  assumes "plmn_ok mcc mnc"
  shows "rbind (TaiToNgap mcc mnc (EncodeToString tac)) TaiToModels = Inr ((mcc, mnc), EncodeToString tac)"
  using plmn_models_round_trip [OF assms]
  by (auto simp: TaiToNgap_def TaiToModels_def hex_round_trip rbind_eq_Inr)

lemma snssai_round_trip:
  assumes "0 \<le> n" "n < 256"
  shows "SNssaiToModels (SNssaiToNgap n (EncodeToString d)) = Inr (n, EncodeToString d)"
proof -
  have "uint (word_of_int n :: u8) = n" using assms by (intro word_of_int_inverse [OF refl]) simp_all
  moreover have "EncodeToString d = [] \<longleftrightarrow> d = []" by (cases d) (simp_all add: EncodeToString_def hex_byte_def)
  ultimately show ?thesis by (auto simp: SNssaiToModels_def SNssaiToNgap_def hex_round_trip)
qed

end
