(* ===== verification/Aper_Typing.thy ===== *)
theory Aper_Typing
  imports Aper_Field
begin

text \<open>
  The decoder only makes values of the type it was given, whatever the bytes are: \<open>typed\<close> is the type
  system of the Go values, with a CHOICE holding exactly the alternative its \<^verbatim>\<open>Present\<close> names.
\<close>

section \<open>Values of a type\<close>

function (sequential) typed :: "gtype \<Rightarrow> gval \<Rightarrow> bool"
  and typed_fields :: "gfield list \<Rightarrow> gval list \<Rightarrow> bool"
where
  "typed t v =
     (case (t, v) of
        (TBitString, VBitString _) \<Rightarrow> True
      | (TOctetString, VOctetString _) \<Rightarrow> True
      | (TEnumerated, VEnumerated _) \<Rightarrow> True
      | (TBool, VBool _) \<Rightarrow> True
      | (TInt, VInt _) \<Rightarrow> True
      | (TString, VString _) \<Rightarrow> True
      | (TPtr t, VPtr (Some v)) \<Rightarrow> typed t v
      | (TSlice t, VSlice vs) \<Rightarrow> list_all (\<lambda>v. typed t v) vs
      | (TStruct fs, VStruct vs) \<Rightarrow>
          if is_choice fs then
            (case vs of VInt present # _ \<Rightarrow>
               if 0 < present \<and> present < int (length fs) then
                 let v = vs ! nat present in
                 VStruct vs = chosen fs (nat present) v \<and> typed (ftype (fs ! nat present)) v
               else False
             | _ \<Rightarrow> False)
          else typed_fields fs vs
      | _ \<Rightarrow> False)"
| "typed_fields [] vs = (vs = [])"
| "typed_fields (f # fs) (v # vs) =
     ((typed (ftype f) v \<or> optional (parseFieldParameters (ftag f)) \<and> v = zero_val (ftype f))
         \<and> typed_fields fs vs)"
| "typed_fields (f # fs) [] = False"
  by pat_completeness auto
termination
  by (relation "measure (\<lambda>x. case x of Inl (t, _) \<Rightarrow> size t | Inr (fs, _) \<Rightarrow> size_list
      size fs)")
    (auto intro!: field_size nth_mem simp: size_bounds split: if_splits)

declare typed.simps [simp del]

section \<open>The decoder is type safe\<close>

lemma get_all_all:
  assumes "\<And>pd w pd'. get pd = Inr (w, pd') \<Longrightarrow> P w"
  shows "get_all get n pd = Inr (ws, pd') \<Longrightarrow> list_all P ws"
  by (induction n arbitrary: pd ws) (auto simp: rbind_eq_Inr dest: assms)

lemma rmap_Inr: "rmap g r = Inr (w, pd) \<longleftrightarrow> (\<exists>v. r = Inr (v, pd) \<and> w = g v)"
  by (auto simp: rmap_def rbind_eq_Inr)

lemma parse_ext_Inr: "parse_ext ext f pd = Inr r \<Longrightarrow> \<exists>e pd'. f e pd' = Inr r"
  by (auto simp: parse_ext_def rbind_eq_Inr split: if_splits)

lemma open_type_Inr: "parseOpenType get pd = Inr (v, pd') \<Longrightarrow> \<exists>q q'. get q = Inr (v, q')"
  by (auto simp: parseOpenType_def rbind_eq_Inr)

lemma sequence_of_Inr:
  assumes "parseSequenceOf get lb ub ext pd = Inr (ws, pd')" and "\<And>q w q'. get q = Inr (w, q')
      \<Longrightarrow> P w"
  shows "list_all P ws"
  using assms(1) get_all_all [of get P, OF assms(2)]
  by (auto simp: parseSequenceOf_def rbind_eq_Inr split: if_splits)

lemma typed_chosen:
  assumes "is_choice fs" "0 < k" "k < length fs" "typed (ftype (fs ! k)) v"
  shows "typed (TStruct fs) (chosen fs k v)"
proof -
  let ?vs = "(map (\<lambda>f. zero_val (ftype f)) fs)[0 := VInt (int k), k := v]"
  obtain rest where cs: "?vs = VInt (int k) # rest" using assms(2,3) by (cases fs; cases k) auto
  have v: "?vs ! k = v" "chosen fs k v = VStruct ?vs" using assms(3) by (simp_all add: chosen_def)
  show ?thesis
    unfolding v(2) by (subst typed.simps) (use assms v cs in \<open>simp add: Let_def\<close>)
qed

lemma find_alternative_range: "find_alternative r fs = Some k \<Longrightarrow> 0 < k \<and> k < length fs"
  by (auto simp: find_alternative_def find_Some_iff)

lemma parse_fields_typed:
  assumes "parseFields fs prev present n pd = Inr (vs, pd')"
    and "\<And>f params q v q'. f \<in> set fs \<Longrightarrow> parseField (ftype f) params q = Inr (v, q')
        \<Longrightarrow> typed (ftype f) v"
  shows "typed_fields fs vs"
  using assms
proof (induction fs arbitrary: prev n pd vs)
  case (Cons f fs)
  then show ?case
    by (fastforce simp: parseFields.simps(2) Let_def rmap_Inr rbind_eq_Inr split: if_splits)
qed simp

lemma parse_struct_typed:
  assumes body: "parseBody (TStruct fs) params e1 e2 pd = Inr (v, pd')"
    and field: "\<And>f params q v q'. f \<in> set fs
        \<Longrightarrow> parseField (ftype f) params q = Inr (v, q') \<Longrightarrow> typed (ftype f) v"
  shows "typed (TStruct fs) v"
proof (cases "is_choice fs")
  case False
  then obtain vs where "v = VStruct vs" "\<exists>p n q. parseFields fs [] p n q = Inr (vs, pd')"
    using body by (auto simp: parseBody.simps rbind_eq_Inr rmap_Inr Let_def split: if_splits prod.splits)
  then show ?thesis
    using False parse_fields_typed [of fs "[]"] field by (auto simp: typed.simps)
next
  case True
  define C where "C v \<longleftrightarrow> (\<exists>k w. v = chosen fs k w \<and> 0 < k \<and> k < length fs \<and>
      (\<exists>p q q'. parseField (ftype (fs ! k)) p q = Inr (w, q')))" for v
  have I: "parseField (ftype (fs ! k)) p q = Inr (w, q') \<Longrightarrow> 0 < k
      \<Longrightarrow> k < length fs \<Longrightarrow> C (chosen fs k w)" for k p q w q'
    unfolding C_def by blast
  have "C v"
    using body True
    by (auto simp: parseBody.simps rbind_eq_Inr rmap_Inr Let_def field_at_def split: if_splits prod.splits
        option.splits
        sum.splits go_err.splits dest!: find_alternative_range open_type_Inr intro: I)
  then show ?thesis using typed_chosen [OF True] field unfolding C_def by (metis nth_mem)
qed

lemma parse_steps:
  assumes "parseField t params pd = Inr (v, pd')"
  obtains u w where "t = TPtr u" "v = VPtr (Some w)" "parseField u params pd = Inr (w, pd')"
    | e1 e2 q where "\<nexists>u. t = TPtr u" "parseBody t params e1 e2 q = Inr (v, pd')"
proof (cases t)
  case (TPtr u)
  then show ?thesis
    using assms that(1) by (auto simp: parseField.simps [of "TPtr u"] rmap_Inr split: if_splits)
qed (use assms [unfolded parseField.simps [of t]] that(2) in \<open>auto split: if_splits dest!:
    parse_ext_Inr\<close>)

lemma parse_slice_typed:
  assumes body: "parseBody (TSlice u) params e1 e2 pd = Inr (v, pd')"
    and elem: "\<And>params q v q'. parseField u params q = Inr (v, q') \<Longrightarrow> typed u v"
  shows "typed (TSlice u) v"
proof -
  obtain ws where v: "v = VSlice ws" and s: "parseSequenceOf (\<lambda>pd. parseField u (elementParameters params) pd)
      (sizeLowerBound params) (sizeUpperBound params) e1 pd = Inr (ws, pd')"
    using body by (auto simp: parseBody.simps rmap_Inr)
  then show ?thesis
    using sequence_of_Inr [OF s, of "typed u"] elem by (simp add: typed.simps [of "TSlice u"])
qed

lemma parse_typed: "parseField t params pd = Inr (v, pd') \<Longrightarrow> typed t v"
proof (induction "size t" arbitrary: t params pd v pd' rule: less_induct)
  case less
  from less.prems show ?case
  proof (cases rule: parse_steps)
    case (1 u w)
    then show ?thesis using less.hyps [of u] by (simp add: typed.simps [of "TPtr u"])
  next
    case (2 e1 e2 q)
    show ?thesis
    proof (cases t)
      case (TSlice u)
      then show ?thesis using parse_slice_typed 2(2) less.hyps [of u] by auto
    next
      case (TStruct fs)
      then show ?thesis using parse_struct_typed [of fs] 2(2) less.hyps field_size [of _ fs] by auto
    qed (use 2 in \<open>auto simp: parseBody.simps rmap_Inr typed.simps\<close>)
  qed
qed



end
