(* ===== verification/Ngap_Delivery.thy ===== *)
theory Ngap_Delivery
  imports Ngap_Messages Ngap_Convert Aper_Typing
begin

text \<open>
  What the other side of the interface gets: every message the gNB builds, in the ranges of the protocol, is
  encoded into bytes that decode to the message; one message, the release response for no session,
  cannot be encoded.
\<close>

section \<open>Delivery\<close>

text \<open>The bytes decode to the message, whatever follows them in the buffer.\<close>

definition delivered :: "gval \<Rightarrow> u8 list \<Rightarrow> bool" where
  "delivered m bs \<longleftrightarrow> bs \<noteq> [] \<and> (\<forall>rest. \<exists>m'. Decoder (bs @ rest) = Inr m' \<and> typed NGAPPDU m' \<and> spelled m' = spelled m)"

lemma decoder_typed: "Decoder b = Inr m \<Longrightarrow> typed NGAPPDU m"
  by (auto simp: Decoder_def UnmarshalWithParams_def rbind_eq_Inr dest: parse_typed)

lemma encoder_delivers:
  assumes "fits_pdu m"
  shows "\<exists>bs. Encoder m = Inr bs \<and> delivered m bs"
  using assms
  by (rule marshal_encodes) (auto simp: Encoder_def delivered_def Decoder_def [symmetric] dest: decoder_typed)

lemma built_delivers:
  assumes "\<exists>m. r = Inr m \<and> fits_pdu m"
  shows "\<exists>m bs. r = Inr m \<and> rbind r Encoder = Inr bs \<and> delivered m bs"
  using assms encoder_delivers by auto

section \<open>Values that cannot be encoded\<close>

definition unencodable :: "gtype \<Rightarrow> fieldParameters \<Rightarrow> gval \<Rightarrow> bool" where
  "unencodable t params v \<longleftrightarrow> (\<forall>pd pd'. makeField t v params pd \<noteq> Inr pd')"

lemma unencodableD: "unencodable t params v \<Longrightarrow> makeField t v params pd = Inr pd' \<Longrightarrow> False"
  by (simp add: unencodable_def)

lemma unencodable_ptr: "unencodable t params v \<Longrightarrow> unencodable (TPtr t) params (VPtr (Some v))"
  by (simp add: unencodable_def makeField.simps [of "TPtr t"])

lemma put_all_fails:
  "x \<in> set xs \<Longrightarrow> (\<And>pd pd'. f x pd \<noteq> Inr pd') \<Longrightarrow> put_all f xs pd \<noteq> Inr pd'"
  by (induction xs arbitrary: pd) (auto simp: rbind_eq_Inr)

lemma unencodable_slice:
  assumes "v \<in> set vs" "unencodable t (elementParameters params) v"
  shows "unencodable (TSlice t) params (VSlice vs)"
  using put_all_fails [of v vs] assms
  by (auto simp: unencodable_def makeField.simps [of "TSlice t"] appendSequenceOf_def rbind_eq_Inr)

lemma resolve_params:
  "resolve_reference prev params = Inr params' \<Longrightarrow> \<exists>r. params' = params\<lparr>referenceFieldValue := r\<rparr>"
  by (cases params) (auto simp: resolve_reference_def rbind_eq_Inr split: if_splits option.splits)

lemma unencodable_fields:
  assumes "(f, v) \<in> set (zip fs vs)" and "\<not> optional (parseFieldParameters (ftag f))"
    and "\<And>r. unencodable (ftype f) ((parseFieldParameters (ftag f))\<lparr>referenceFieldValue := r\<rparr>) v"
  shows "makeFields fs vs prev present n pd \<noteq> Inr pd'"
  using assms(1)
proof (induction fs arbitrary: vs prev n pd)
  case (Cons g gs)
  then obtain w ws where vs: "vs = w # ws" by (cases vs) auto
  show ?case
  proof (cases "(g, w) = (f, v)")
    case True
    then show ?thesis
      using assms(2,3) by (auto simp: vs makeFields.simps(1) Let_def rbind_eq_Inr dest!: resolve_params dest: unencodableD)
  next
    case False
    then have "(f, v) \<in> set (zip gs ws)" using Cons.prems vs by auto
    then show ?thesis
      using Cons.IH by (simp add: vs makeFields.simps(1) Let_def rbind_eq_Inr)
  qed
qed simp

lemma unencodable_seq:
  assumes "\<not> is_choice fs" "(f, v) \<in> set (zip fs vs)" "\<not> optional (parseFieldParameters (ftag f))"
    and "\<And>r. unencodable (ftype f) ((parseFieldParameters (ftag f))\<lparr>referenceFieldValue := r\<rparr>) v"
  shows "unencodable (TStruct fs) params (VStruct vs)"
  using unencodable_fields [OF assms(2-4)] assms(1)
  by (auto simp: unencodable_def makeField.simps [of "TStruct fs"] rbind_eq_Inr)

lemma unencodable_choice:
  assumes at: "choice_at (TStruct fs) k = Some (n, u, tag)" and fail: "unencodable u (parseFieldParameters tag) v"
  shows "unencodable (TStruct fs) params (alternative (TStruct fs) (int k) n v)"
proof -
  note facts = choice_at_facts [OF at]
  let ?vs = "(map (\<lambda>f. zero_val (ftype f)) fs)[0 := VInt (int k), k := VPtr (Some v)]"
  have vs: "alternative (TStruct fs) (int k) n v = VStruct ?vs" "?vs ! k = VPtr (Some v)" "length ?vs = length fs"
    using facts(9) alternative_chosen [OF at] by (simp_all add: chosen_def)
  obtain rest where cs: "?vs = VInt (int k) # rest" using facts(7,8) by (cases fs; cases k) auto
  have f: "field_at fs (int k) = Inr (Field n tag (TPtr u))" "field_at ?vs (int k) = Inr (VPtr (Some v))"
    using facts(9,10) vs(2,3) by (simp_all add: field_at_def)
  show ?thesis
    unfolding vs(1) unencodable_def
  proof (intro allI notI)
    fix pd pd' assume "makeField (TStruct fs) (VStruct ?vs) params pd = Inr pd'"
    then show False
      using facts(1) f unencodable_ptr [OF fail]
      by (subst (asm) makeField.simps)
        (auto simp: cs Let_def rbind_eq_Inr appendOpenType_def dest: unencodableD split: if_splits option.splits)
  qed
qed

text \<open>A list below its lower bound, and what carries it.\<close>

lemma unencodable_list:
  "\<not> sizeExtensible params \<Longrightarrow> sizeLowerBound params = Some 1 \<Longrightarrow> sizeUpperBound params = Some 256 \<Longrightarrow>
    unencodable (TSlice t) params (VSlice [])"
  by (simp add: unencodable_def makeField.simps [of "TSlice t"] appendSequenceOf_def put_sequence_length_def i64_def)

lemma unencodable_wrap:
  assumes "t = TStruct [Field n tag u]" "n \<noteq> ''Present''" "\<not> optional (parseFieldParameters tag)"
    and "\<And>r. unencodable u ((parseFieldParameters tag)\<lparr>referenceFieldValue := r\<rparr>) v"
  shows "unencodable t params (wrap v)"
  unfolding assms(1) wrap_def
  by (rule unencodable_seq [where f = "Field n tag u" and v = v]) (use assms in \<open>simp_all add: is_choice_def\<close>)

lemma unencodable_slot:
  assumes "slot_of t r = Some (k, n, u, tag)" "unencodable u (parseFieldParameters tag) v" "present = int k"
  shows "unencodable t params (alternative t present n v)"
proof -
  obtain fs where t: "t = TStruct fs" using slot_struct [OF assms(1)] by blast
  show ?thesis
    unfolding t assms(3) by (rule unencodable_choice [OF slot_of_alternative(2) [OF assms(1) [unfolded t]] assms(2)])
qed

lemma unencodable_ie:
  assumes "ie_value t = Some V" "slot_of V i = Some (k, n, u, tag)" "unencodable u (parseFieldParameters tag) v" "present = int k"
  shows "unencodable t params (ie_of t i c present n v)"
proof -
  have fs: "fields_of t = [Field ''Id'' '''' ProtocolIEID, Field ''Criticality'' '''' Criticality,
      Field ''Value'' ''openType,referenceFieldName:Id'' V]" and ft: "field_type t ''Value'' = V"
    using assms(1) by (auto simp: ie_value_def split: if_splits)
  then have t: "t = TStruct (fields_of t)" by (cases t) (auto simp: fields_of_def)
  have "unencodable (TStruct (fields_of t)) params (ie_of t i c present n v)"
    unfolding ie_of_def struct_of_def ft fs
    by (rule unencodable_seq [where f = "Field ''Value'' ''openType,referenceFieldName:Id'' V" and v = "alternative V present n v"])
      (simp_all add: is_choice_def unencodable_slot [OF assms(2-4)])
  then show ?thesis using t by simp
qed

lemma unencodable_message:
  assumes t: "message_ies t = Some u" and ie: "ie \<in> set ies" "\<And>p. unencodable u p ie"
  shows "unencodable t params (wrap (wrap (VSlice ies)))"
proof -
  have t: "t = TStruct [Field ''ProtocolIEs'' '''' (TStruct [Field ''List'' ''sizeLB:0,sizeUB:65535'' (TSlice u)])]"
    using t by (auto simp: message_ies_def split: gtype.splits list.splits gfield.splits if_splits)
  have l: "unencodable (TStruct [Field ''List'' ''sizeLB:0,sizeUB:65535'' (TSlice u)]) p (wrap (VSlice ies))" for p
    by (rule unencodable_wrap [OF refl]) (simp_all add: unencodable_slice [OF ie])
  show ?thesis by (rule unencodable_wrap [OF t]) (simp_all add: l)
qed

lemma unencodable_successful:
  assumes "slot_of SuccessfulOutcomeValue code = Some (k, n, u, tag)" "present = int k"
    and "unencodable u (parseFieldParameters tag) (wrap (wrap (VSlice ies)))"
  shows "unencodable NGAPPDU params (successful code c present n ies)"
proof -
  have v: "procedure_of SuccessfulOutcome code c present n ies =
      VStruct [wrap (VInt code), wrap (VEnumerated c), alternative SuccessfulOutcomeValue present n (wrap (wrap (VSlice ies)))]"
    by (simp add: procedure_of_def struct_of_def SuccessfulOutcome_def fields_of_def field_type_def)
  have val: "unencodable SuccessfulOutcomeValue p (alternative SuccessfulOutcomeValue present n (wrap (wrap (VSlice ies))))" for p
    by (rule unencodable_slot [OF assms(1,3,2)])
  have "unencodable SuccessfulOutcome p (procedure_of SuccessfulOutcome code c present n ies)" for p
    unfolding v unfolding SuccessfulOutcome_def
    by (rule unencodable_seq [where f = "Field ''Value'' ''openType,referenceFieldName:ProcedureCode'' SuccessfulOutcomeValue"
          and v = "alternative SuccessfulOutcomeValue present n (wrap (wrap (VSlice ies)))"])
      (simp_all add: is_choice_def val)
  then have "unencodable NGAPPDU params (alternative NGAPPDU (int 2) ''SuccessfulOutcome'' (procedure_of SuccessfulOutcome code c present n ies))"
    using unencodable_choice [OF NGAPPDU_at(2) [unfolded NGAPPDU_def]] unfolding NGAPPDU_def by simp
  then show ?thesis by (simp add: successful_def)
qed

lemma release_of_nothing:
  "buildPDUSessionResourceReleaseResponse a r [] = Inr m \<Longrightarrow> Encoder m \<noteq> Inr bs"
proof -
  assume m: "buildPDUSessionResourceReleaseResponse a r [] = Inr m"
  have l: "unencodable PDUSessionResourceReleasedListRelRes p (wrap (VSlice []))" for p
    by (rule unencodable_wrap [OF session_lists(1)]) (simp_all add: unencodable_list)
  have ie: "unencodable PDUSessionResourceReleaseResponseIEs p
      (ie_of PDUSessionResourceReleaseResponseIEs 70 c 3 ''PDUSessionResourceReleasedListRelRes'' (wrap (VSlice [])))" for p c
    by (rule unencodable_ie [OF _ PDUSessionResourceReleaseResponseIEsValue_slots(2)]) (simp_all add: l)
  have "unencodable NGAPPDU (parseFieldParameters ''valueExt,valueLB:0,valueUB:2'') m"
    using m unfolding buildPDUSessionResourceReleaseResponse_def
    by (auto intro!: unencodable_successful unencodable_message [OF _ _ ie])
  then show ?thesis
    by (auto simp: Encoder_def MarshalWithParams_def rbind_eq_Inr dest: unencodableD)
qed

section \<open>What is delivered\<close>

text \<open>
  C5: the NG setup request of a gNB with a valid configuration is encoded, and the AMF decodes it to the
  message with the PLMN, identifier, tracking area and slice of the configuration.
\<close>

theorem ng_setup_delivered:
  assumes "plmn_ok (gnbMcc gnb) (gnbMnc gnb)" "length (GetGnbIdInBytes gnb) = 3" "length (GetTacInBytes gnb) = 3"
    and "length (fst (GetSliceInBytes gnb)) = 1" "\<forall>sd. snd (GetSliceInBytes gnb) = Some sd \<longrightarrow> length sd = 3"
    and "name \<noteq> []" "length name \<le> 150"
  shows "\<exists>bs. NGSetupRequestOf gnb name = Inr bs \<and> delivered (ng_setup_request gnb name) bs"
proof -
  have "length (GetMccAndMncInOctets (gnbMcc gnb) (gnbMnc gnb)) = 3"
    using GetMccAndMncInOctets_ok [OF assms(1)] by (simp add: plmn_octets_def)
  then show ?thesis
    using encoder_delivers [OF ng_setup_fits] assms(2-) by (simp add: NGSetupRequestOf_def)
qed

lemma ng_setup_delivered_witness:
  "\<exists>bs. NGSetupRequestOf (NewRanGnbContext ''000001'' ''208'' ''93'' ''000001'' ''01'' ''010203'' ''127.0.0.1'' ''127.0.0.1''
      9487 2152 zeroGnb) ''gnb'' = Inr bs \<and>
    delivered (ng_setup_request (NewRanGnbContext ''000001'' ''208'' ''93'' ''000001'' ''01'' ''010203'' ''127.0.0.1''
      ''127.0.0.1'' 9487 2152 zeroGnb) ''gnb'') bs"
proof (rule ng_setup_delivered)
  let ?g = "NewRanGnbContext ''000001'' ''208'' ''93'' ''000001'' ''01'' ''010203'' ''127.0.0.1'' ''127.0.0.1'' 9487 2152 zeroGnb"
  have "plmn_ok ''208'' ''93''" by code_simp
  then show "plmn_ok (gnbMcc ?g) (gnbMnc ?g)" by (simp add: NewRanGnbContext_def)
  have d: "length (fst (DecodeString ''000001'')) = 3" "length (fst (DecodeString ''01'')) = 1"
    "length (fst (DecodeString ''010203'')) = 3" by code_simp+
  show "length (GetGnbIdInBytes ?g) = 3" "length (GetTacInBytes ?g) = 3" "length (fst (GetSliceInBytes ?g)) = 1"
    "\<forall>sd. snd (GetSliceInBytes ?g) = Some sd \<longrightarrow> length sd = 3"
    by (simp_all add: GetGnbIdInBytes_def GetTacInBytes_def GetSliceInBytes_def NewRanGnbContext_def d del: DecodeString.simps)
qed simp_all

text \<open>
  C6: a NAS message of up to 13000 bytes that a UE sends through the gNB is encoded in an INITIAL UE MESSAGE and
  in an UPLINK NAS TRANSPORT, and the AMF decodes the message with the NAS PDU, the identifiers and the location.
\<close>

theorem nas_message_delivered:
  assumes "0 \<le> a" "a < 2 ^ 40" "0 \<le> r" "r < 2 ^ 32" "length nas \<le> 13000" "length plmn = 3" "length tac = 3"
    and "0 \<le> cause" "cause \<le> 9" "tmsi_ok s"
  shows "(\<exists>bs. getUplinkNASTransport a r nas plmn tac gid cellId = Inr bs \<and>
      delivered (buildUplinkNasTransport a r nas plmn tac gid cellId) bs) \<and>
    (\<exists>m bs. BuildInitialUEMessage r nas s plmn tac cause gid cellId = Inr m \<and>
      GetInitialUEMessage r nas s plmn tac cause gid cellId = Inr bs \<and> delivered m bs)"
  using encoder_delivers [OF uplink_fits] built_delivers [OF initial_ue_fits] assms
  by (simp_all add: getUplinkNASTransport_def GetInitialUEMessage_def)

lemma nas_message_delivered_witness:
  "(\<exists>bs. getUplinkNASTransport 1 2 [0x7e, 0x00] [0x02, 0xf8, 0x39] [0, 0, 1] [0, 0, 1] [1] = Inr bs \<and>
      delivered (buildUplinkNasTransport 1 2 [0x7e, 0x00] [0x02, 0xf8, 0x39] [0, 0, 1] [0, 0, 1] [1]) bs) \<and>
   (\<exists>m bs. BuildInitialUEMessage 2 [0x7e, 0x00] '''' [0x02, 0xf8, 0x39] [0, 0, 1] 3 [0, 0, 1] [1] = Inr m \<and>
      GetInitialUEMessage 2 [0x7e, 0x00] '''' [0x02, 0xf8, 0x39] [0, 0, 1] 3 [0, 0, 1] [1] = Inr bs \<and> delivered m bs)"
  using nas_message_delivered [of 1 2 "[0x7e, 0x00]" "[0x02, 0xf8, 0x39]" "[0, 0, 1]" 3 "''''" "[0, 0, 1]" "[1]"]
  by (simp_all add: tmsi_ok_def)

text \<open>
  C8: the responses that set up PDU sessions are encoded and decoded, for up to 16 sessions, and the transfer they
  carry decodes on its own to the gNB's address and downlink TEID.
\<close>

theorem session_setup_delivered:
  assumes "0 \<le> a" "a < 2 ^ 40" "0 \<le> r" "r < 2 ^ 32" "0 \<le> i" "i \<le> 255" "0 \<le> q" "q \<le> 63"
    and "ip \<noteq> []" "length (fourOf ip) = 4" "length sessions \<le> 16"
    and "\<forall>(i, teid, q) \<in> set sessions. 0 \<le> i \<and> i \<le> 255 \<and> 0 \<le> q \<and> q \<le> 63"
  shows "(\<exists>m bs. buildPDUSessionResourceSetupResponseForRegistrationTest fourOf sixteenOf a r ip i teid q = Inr m \<and>
      Encoder m = Inr bs \<and> delivered m bs) \<and>
    (\<exists>m bs. BuildInitialContextSetupResponse fourOf sixteenOf a r sessions ip = Inr m \<and>
      Encoder m = Inr bs \<and> delivered m bs) \<and>
    (\<exists>bs v. GetPDUSessionResourceSetupResponseTransfer fourOf sixteenOf ip teid q = Inr bs \<and>
      UnmarshalWithParams bs PDUSessionResourceSetupResponseTransfer ''valueExt'' = Inr v \<and>
      spelled v = spelled (buildPDUSessionResourceSetupResponseTransfer \<lparr>Bytes = fourOf ip, BitLength = 32\<rparr> teid q))"
proof (intro conjI)
  show "\<exists>m bs. buildPDUSessionResourceSetupResponseForRegistrationTest fourOf sixteenOf a r ip i teid q = Inr m \<and>
      Encoder m = Inr bs \<and> delivered m bs"
    using built_delivers [OF setup_response_fits [where fourOf = fourOf and ip = ip, OF assms(1-10)]] by fastforce
  show "\<exists>m bs. BuildInitialContextSetupResponse fourOf sixteenOf a r sessions ip = Inr m \<and> Encoder m = Inr bs \<and> delivered m bs"
    using built_delivers [OF context_setup_fits [where fourOf = fourOf and ip = ip, OF assms(1-4,9,10,12,11)]] by fastforce
  show "\<exists>bs v. GetPDUSessionResourceSetupResponseTransfer fourOf sixteenOf ip teid q = Inr bs \<and>
      UnmarshalWithParams bs PDUSessionResourceSetupResponseTransfer ''valueExt'' = Inr v \<and>
      spelled v = spelled (buildPDUSessionResourceSetupResponseTransfer \<lparr>Bytes = fourOf ip, BitLength = 32\<rparr> teid q)"
    by (rule setup_transfer_bytes [where fourOf = fourOf and ip = ip, OF assms(9,10,7,8)]) blast
qed

lemma session_setup_delivered_witness:
  "\<exists>bs v. GetPDUSessionResourceSetupResponseTransfer (\<lambda>_. [127, 0, 0, 1]) (\<lambda>_. []) ''127.0.0.1'' 5 1 = Inr bs \<and>
      UnmarshalWithParams bs PDUSessionResourceSetupResponseTransfer ''valueExt'' = Inr v \<and>
      spelled v = spelled (buildPDUSessionResourceSetupResponseTransfer \<lparr>Bytes = [127, 0, 0, 1], BitLength = 32\<rparr> 5 1)"
  using session_setup_delivered [of 1 2 3 1 "''127.0.0.1''" "\<lambda>_. [127, 0, 0, 1]" "[(3, 5, 1)]" "\<lambda>_. []" 5] by simp

text \<open>
  C10: the response to the release of up to 16 sessions can be encoded exactly when there is a session in it: the
  list has a lower bound of one, and the builder puts the list in even when it is empty.
\<close>

theorem release_response_sent_iff:
  assumes "0 \<le> a" "a < 2 ^ 40" "0 \<le> r" "r < 2 ^ 32" "\<forall>i \<in> set ids. 0 \<le> i \<and> i \<le> 255" "length ids \<le> 16"
  shows "(\<exists>m bs. buildPDUSessionResourceReleaseResponse a r ids = Inr m \<and> PDUSessionResourceReleaseResponseOf a r ids = Inr bs \<and>
      delivered m bs) \<longleftrightarrow> ids \<noteq> []"
proof
  assume "\<exists>m bs. buildPDUSessionResourceReleaseResponse a r ids = Inr m \<and> PDUSessionResourceReleaseResponseOf a r ids = Inr bs \<and>
      delivered m bs"
  then obtain m bs where m: "buildPDUSessionResourceReleaseResponse a r ids = Inr m" "Encoder m = Inr bs"
    by (auto simp: PDUSessionResourceReleaseResponseOf_def split: sum.splits go_err.splits)
  then show "ids \<noteq> []" using release_of_nothing [of a r m] by auto
next
  assume "ids \<noteq> []"
  then show "\<exists>m bs. buildPDUSessionResourceReleaseResponse a r ids = Inr m \<and> PDUSessionResourceReleaseResponseOf a r ids = Inr bs \<and>
      delivered m bs"
    using built_delivers [OF release_response_fits [OF assms(1-5) _ assms(6)]]
    by (fastforce simp: PDUSessionResourceReleaseResponseOf_def)
qed

lemma release_response_sent_iff_witness:
  "\<not> (\<exists>m bs. buildPDUSessionResourceReleaseResponse 1 2 [] = Inr m \<and> PDUSessionResourceReleaseResponseOf 1 2 [] = Inr bs \<and>
      delivered m bs) \<and>
   (\<exists>m bs. buildPDUSessionResourceReleaseResponse 1 2 [5] = Inr m \<and> PDUSessionResourceReleaseResponseOf 1 2 [5] = Inr bs \<and>
      delivered m bs)"
  using release_response_sent_iff [of 1 2 "[]"] release_response_sent_iff [of 1 2 "[5]"] by simp

text \<open>
  C9: the messages of a handover, from the requirement to the path switch, are encoded and decoded; the target
  PLMN is any that has the three octets of the encoding.
\<close>

theorem handover_delivered:
  assumes "0 \<le> a" "a < 2 ^ 40" "0 \<le> r" "r < 2 ^ 32" "plmn_ok mcc mnc" "length tac = 3" "length plmn = 3"
    and "length ip = 4" "length teid = 4" "0 \<le> q" "q \<le> 63"
  shows "(\<exists>m bs. BuildHandoverRequired r a mcc mnc tid tac i gid cellId = Inr m \<and> Encoder m = Inr bs \<and> delivered m bs) \<and>
    (\<exists>m bs. BuildHandoverRequestAcknowledge r a i ip teid q = Inr m \<and> Encoder m = Inr bs \<and> delivered m bs) \<and>
    (\<exists>bs. Encoder (BuildHandoverNotify r a plmn tac gid cellId) = Inr bs \<and>
      delivered (BuildHandoverNotify r a plmn tac gid cellId) bs) \<and>
    (\<exists>m bs. BuildPathSwitchRequest r a plmn tac i ip teid gid cellId = Inr m \<and> Encoder m = Inr bs \<and> delivered m bs)"
proof (intro conjI)
  show "\<exists>m bs. BuildHandoverRequired r a mcc mnc tid tac i gid cellId = Inr m \<and> Encoder m = Inr bs \<and> delivered m bs"
    using built_delivers [OF handover_required_fits [OF assms(1-4,6) PlmnIdToNgap_ok [OF assms(5)]]] by fastforce
  show "\<exists>m bs. BuildHandoverRequestAcknowledge r a i ip teid q = Inr m \<and> Encoder m = Inr bs \<and> delivered m bs"
    using built_delivers [OF handover_ack_fits [OF assms(1-4,8-11)]] by fastforce
  show "\<exists>bs. Encoder (BuildHandoverNotify r a plmn tac gid cellId) = Inr bs \<and> delivered (BuildHandoverNotify r a plmn tac gid cellId) bs"
    by (rule encoder_delivers [OF handover_notify_fits [OF assms(1-4,7,6)]])
  show "\<exists>m bs. BuildPathSwitchRequest r a plmn tac i ip teid gid cellId = Inr m \<and> Encoder m = Inr bs \<and> delivered m bs"
    using built_delivers [OF path_switch_fits [OF assms(1-4,8,9,7,6)]] by fastforce
qed

lemma handover_delivered_witness:
  "\<exists>m bs. BuildHandoverRequired 2 1 ''208'' ''93'' 2 [0, 0, 1] 1 [0, 0, 1] [] = Inr m \<and> Encoder m = Inr bs \<and> delivered m bs"
proof -
  have "plmn_ok ''208'' ''93''" by code_simp
  then show ?thesis
    using handover_delivered [of 1 2 "''208''" "''93''" "[0, 0, 1]" "[0x02, 0xf8, 0x39]" "[127, 0, 0, 1]" "[0, 0, 0, 5]" 1
      2 1 "[0, 0, 1]" "[]"] by simp
qed

end
