(* ===== verification/Snow3g.thy ===== *)
theory Snow3g
  imports Prelude
begin

text \<open>
  The SNOW 3G keystream generator of \<^verbatim>\<open>lib/nas/security/snow3g/snow3g.go\<close>. The Go package keeps
  the shift register and the finite state machine in package variables; here they are a record
  that the operations pass along. \<open>InitSnow3g\<close> overwrites all of it, so a keystream depends on
  the key and the initialisation vector only.
\<close>

unbundle bit_operations_syntax

definition sr :: "u8 list" where
  "sr = [
    0x63, 0x7c, 0x77, 0x7b, 0xf2, 0x6b, 0x6f, 0xc5, 0x30, 0x01, 0x67, 0x2b, 0xfe, 0xd7, 0xab, 0x76,
    0xca, 0x82, 0xc9, 0x7d, 0xfa, 0x59, 0x47, 0xf0, 0xad, 0xd4, 0xa2, 0xaf, 0x9c, 0xa4, 0x72, 0xc0,
    0xb7, 0xfd, 0x93, 0x26, 0x36, 0x3f, 0xf7, 0xcc, 0x34, 0xa5, 0xe5, 0xf1, 0x71, 0xd8, 0x31, 0x15,
    0x04, 0xc7, 0x23, 0xc3, 0x18, 0x96, 0x05, 0x9a, 0x07, 0x12, 0x80, 0xe2, 0xeb, 0x27, 0xb2, 0x75,
    0x09, 0x83, 0x2c, 0x1a, 0x1b, 0x6e, 0x5a, 0xa0, 0x52, 0x3b, 0xd6, 0xb3, 0x29, 0xe3, 0x2f, 0x84,
    0x53, 0xd1, 0x00, 0xed, 0x20, 0xfc, 0xb1, 0x5b, 0x6a, 0xcb, 0xbe, 0x39, 0x4a, 0x4c, 0x58, 0xcf,
    0xd0, 0xef, 0xaa, 0xfb, 0x43, 0x4d, 0x33, 0x85, 0x45, 0xf9, 0x02, 0x7f, 0x50, 0x3c, 0x9f, 0xa8,
    0x51, 0xa3, 0x40, 0x8f, 0x92, 0x9d, 0x38, 0xf5, 0xbc, 0xb6, 0xda, 0x21, 0x10, 0xff, 0xf3, 0xd2,
    0xcd, 0x0c, 0x13, 0xec, 0x5f, 0x97, 0x44, 0x17, 0xc4, 0xa7, 0x7e, 0x3d, 0x64, 0x5d, 0x19, 0x73,
    0x60, 0x81, 0x4f, 0xdc, 0x22, 0x2a, 0x90, 0x88, 0x46, 0xee, 0xb8, 0x14, 0xde, 0x5e, 0x0b, 0xdb,
    0xe0, 0x32, 0x3a, 0x0a, 0x49, 0x06, 0x24, 0x5c, 0xc2, 0xd3, 0xac, 0x62, 0x91, 0x95, 0xe4, 0x79,
    0xe7, 0xc8, 0x37, 0x6d, 0x8d, 0xd5, 0x4e, 0xa9, 0x6c, 0x56, 0xf4, 0xea, 0x65, 0x7a, 0xae, 0x08,
    0xba, 0x78, 0x25, 0x2e, 0x1c, 0xa6, 0xb4, 0xc6, 0xe8, 0xdd, 0x74, 0x1f, 0x4b, 0xbd, 0x8b, 0x8a,
    0x70, 0x3e, 0xb5, 0x66, 0x48, 0x03, 0xf6, 0x0e, 0x61, 0x35, 0x57, 0xb9, 0x86, 0xc1, 0x1d, 0x9e,
    0xe1, 0xf8, 0x98, 0x11, 0x69, 0xd9, 0x8e, 0x94, 0x9b, 0x1e, 0x87, 0xe9, 0xce, 0x55, 0x28, 0xdf,
    0x8c, 0xa1, 0x89, 0x0d, 0xbf, 0xe6, 0x42, 0x68, 0x41, 0x99, 0x2d, 0x0f, 0xb0, 0x54, 0xbb, 0x16]"

definition sq :: "u8 list" where
  "sq = [
    0x25, 0x24, 0x73, 0x67, 0xd7, 0xae, 0x5c, 0x30, 0xa4, 0xee, 0x6e, 0xcb, 0x7d, 0xb5, 0x82, 0xdb,
    0xe4, 0x8e, 0x48, 0x49, 0x4f, 0x5d, 0x6a, 0x78, 0x70, 0x88, 0xe8, 0x5f, 0x5e, 0x84, 0x65, 0xe2,
    0xd8, 0xe9, 0xcc, 0xed, 0x40, 0x2f, 0x11, 0x28, 0x57, 0xd2, 0xac, 0xe3, 0x4a, 0x15, 0x1b, 0xb9,
    0xb2, 0x80, 0x85, 0xa6, 0x2e, 0x02, 0x47, 0x29, 0x07, 0x4b, 0x0e, 0xc1, 0x51, 0xaa, 0x89, 0xd4,
    0xca, 0x01, 0x46, 0xb3, 0xef, 0xdd, 0x44, 0x7b, 0xc2, 0x7f, 0xbe, 0xc3, 0x9f, 0x20, 0x4c, 0x64,
    0x83, 0xa2, 0x68, 0x42, 0x13, 0xb4, 0x41, 0xcd, 0xba, 0xc6, 0xbb, 0x6d, 0x4d, 0x71, 0x21, 0xf4,
    0x8d, 0xb0, 0xe5, 0x93, 0xfe, 0x8f, 0xe6, 0xcf, 0x43, 0x45, 0x31, 0x22, 0x37, 0x36, 0x96, 0xfa,
    0xbc, 0x0f, 0x08, 0x52, 0x1d, 0x55, 0x1a, 0xc5, 0x4e, 0x23, 0x69, 0x7a, 0x92, 0xff, 0x5b, 0x5a,
    0xeb, 0x9a, 0x1c, 0xa9, 0xd1, 0x7e, 0x0d, 0xfc, 0x50, 0x8a, 0xb6, 0x62, 0xf5, 0x0a, 0xf8, 0xdc,
    0x03, 0x3c, 0x0c, 0x39, 0xf1, 0xb8, 0xf3, 0x3d, 0xf2, 0xd5, 0x97, 0x66, 0x81, 0x32, 0xa0, 0x00,
    0x06, 0xce, 0xf6, 0xea, 0xb7, 0x17, 0xf7, 0x8c, 0x79, 0xd6, 0xa7, 0xbf, 0x8b, 0x3f, 0x1f, 0x53,
    0x63, 0x75, 0x35, 0x2c, 0x60, 0xfd, 0x27, 0xd3, 0x94, 0xa5, 0x7c, 0xa1, 0x05, 0x58, 0x2d, 0xbd,
    0xd9, 0xc7, 0xaf, 0x6b, 0x54, 0x0b, 0xe0, 0x38, 0x04, 0xc8, 0x9d, 0xe7, 0x14, 0xb1, 0x87, 0x9c,
    0xdf, 0x6f, 0xf9, 0xda, 0x2a, 0xc4, 0x59, 0x16, 0x74, 0x91, 0xab, 0x26, 0x61, 0x76, 0x34, 0x2b,
    0xad, 0x99, 0xfb, 0x72, 0xec, 0x33, 0x12, 0xde, 0x98, 0x3b, 0xc0, 0x9b, 0x3e, 0x18, 0x10, 0x3a,
    0x56, 0xe1, 0x77, 0xc9, 0x1e, 0x9e, 0x95, 0xa3, 0x90, 0x19, 0xa8, 0x6c, 0x09, 0xd0, 0xf0, 0x86]"

record snow_state =
  lfsr :: "u32 list"
  fsm :: "u32 list"

definition mulx8 :: "u8 \<Rightarrow> u8 \<Rightarrow> u8" where
  "mulx8 V c = (if V AND 0x80 \<noteq> 0 then push_bit 1 V XOR c else push_bit 1 V)"

fun mulxPow8 :: "u8 \<Rightarrow> nat \<Rightarrow> u8 \<Rightarrow> u8" where
  "mulxPow8 V 0 c = V"
| "mulxPow8 V (Suc i) c = mulx8 (mulxPow8 V i c) c"

text \<open>The bytes of a word, most significant first, and a word from its bytes.\<close>

definition byte_at :: "u32 \<Rightarrow> nat \<Rightarrow> u8" where
  "byte_at w j = ucast (drop_bit (8 * (3 - j)) w)"

definition word_of_bytes :: "u8 \<Rightarrow> u8 \<Rightarrow> u8 \<Rightarrow> u8 \<Rightarrow> u32" where
  "word_of_bytes r0 r1 r2 r3 =
     push_bit 24 (ucast r0) OR push_bit 16 (ucast r1) OR push_bit 8 (ucast r2) OR ucast r3"

definition s1 :: "u32 \<Rightarrow> u32" where
  "s1 w = (let w0 = sr ! unat (byte_at w 0); w1 = sr ! unat (byte_at w 1);
               w2 = sr ! unat (byte_at w 2); w3 = sr ! unat (byte_at w 3);
               m = (\<lambda>x. mulx8 x 0x1b)
           in word_of_bytes
                (m w0 XOR w1 XOR w2 XOR m w3 XOR w3)
                (m w0 XOR w0 XOR m w1 XOR w2 XOR w3)
                (w0 XOR m w1 XOR w1 XOR m w2 XOR w3)
                (w0 XOR w1 XOR m w2 XOR w2 XOR m w3))"

definition s2 :: "u32 \<Rightarrow> u32" where
  "s2 w = (let w0 = sq ! unat (byte_at w 0); w1 = sq ! unat (byte_at w 1);
               w2 = sq ! unat (byte_at w 2); w3 = sq ! unat (byte_at w 3);
               m = (\<lambda>x. mulx8 x 0x69)
           in word_of_bytes
                (m w0 XOR w1 XOR w2 XOR m w3 XOR w3)
                (m w0 XOR w0 XOR m w1 XOR w2 XOR w3)
                (w0 XOR m w1 XOR w1 XOR m w2 XOR w3)
                (w0 XOR w1 XOR m w2 XOR w2 XOR m w3))"

definition mulAlpha :: "u8 \<Rightarrow> u32" where
  "mulAlpha c = word_of_bytes (mulxPow8 c 23 0xa9) (mulxPow8 c 245 0xa9)
     (mulxPow8 c 48 0xa9) (mulxPow8 c 239 0xa9)"

definition divAlpha :: "u8 \<Rightarrow> u32" where
  "divAlpha c = word_of_bytes (mulxPow8 c 16 0xa9) (mulxPow8 c 39 0xa9)
     (mulxPow8 c 6 0xa9) (mulxPow8 c 64 0xa9)"

definition lfsr_feedback :: "u32 list \<Rightarrow> u32" where
  "lfsr_feedback s = push_bit 8 (s ! 0) XOR mulAlpha (byte_at (s ! 0) 0) XOR s ! 2 XOR
     drop_bit 8 (s ! 11) XOR divAlpha (ucast (s ! 11))"

definition lfsrInitialisationMode :: "u32 \<Rightarrow> snow_state \<Rightarrow> snow_state" where
  "lfsrInitialisationMode F st = st\<lparr>lfsr := tl (lfsr st) @ [lfsr_feedback (lfsr st) XOR F]\<rparr>"

definition lfsrKeystreamMode :: "snow_state \<Rightarrow> snow_state" where
  "lfsrKeystreamMode st = st\<lparr>lfsr := tl (lfsr st) @ [lfsr_feedback (lfsr st)]\<rparr>"

definition clockFsm :: "snow_state \<Rightarrow> u32 \<times> snow_state" where
  "clockFsm st =
     (let s15 = lfsr st ! 15; s5 = lfsr st ! 5; r = fsm st;
          F = (s15 + r ! 0) XOR r ! 1;
          n = r ! 1 + (r ! 2 XOR s5)
      in (F, st\<lparr>fsm := [n, s1 (r ! 0), s2 (r ! 1)]\<rparr>))"

fun init_rounds :: "nat \<Rightarrow> snow_state \<Rightarrow> snow_state" where
  "init_rounds 0 st = st"
| "init_rounds (Suc n) st = (let (F, st) = clockFsm st in init_rounds n (lfsrInitialisationMode F st))"

definition InitSnow3g :: "u32 list \<Rightarrow> u32 list \<Rightarrow> snow_state" where
  "InitSnow3g k iv =
     (let ones = 0xffffffff in
      init_rounds 32
        \<lparr>lfsr = [k ! 0 XOR ones, k ! 1 XOR ones, k ! 2 XOR ones, k ! 3 XOR ones,
                 k ! 0, k ! 1, k ! 2, k ! 3,
                 k ! 0 XOR ones, k ! 1 XOR ones XOR iv ! 3, k ! 2 XOR ones XOR iv ! 2, k ! 3 XOR ones,
                 k ! 0 XOR iv ! 1, k ! 1, k ! 2, k ! 3 XOR iv ! 0],
         fsm = [0, 0, 0]\<rparr>)"

fun keystream_words :: "nat \<Rightarrow> snow_state \<Rightarrow> u32 list" where
  "keystream_words 0 st = []"
| "keystream_words (Suc n) st =
     (let (F, st) = clockFsm st in (F XOR lfsr st ! 0) # keystream_words n (lfsrKeystreamMode st))"

definition GenerateKeystream :: "nat \<Rightarrow> snow_state \<Rightarrow> u32 list" where
  "GenerateKeystream n st = keystream_words n (lfsrKeystreamMode (snd (clockFsm st)))"

section \<open>The register and the multiplications\<close>

text \<open>The sizes of the arrays, which every index of the code stays inside.\<close>

definition snow_wf :: "snow_state \<Rightarrow> bool" where
  "snow_wf st \<longleftrightarrow> length (lfsr st) = 16 \<and> length (fsm st) = 3"

lemma length_tables: "length sr = 256" "length sq = 256"
  by (simp_all add: sr_def sq_def)

lemma snow_wf_steps [simp]:
  "snow_wf st \<Longrightarrow> snow_wf (lfsrInitialisationMode F st)"
  "snow_wf st \<Longrightarrow> snow_wf (lfsrKeystreamMode st)"
  "snow_wf st \<Longrightarrow> snow_wf (snd (clockFsm st))"
  by (simp_all add: snow_wf_def lfsrInitialisationMode_def lfsrKeystreamMode_def clockFsm_def Let_def)

lemma snow_wf_init: "snow_wf (InitSnow3g k iv)"
proof -
  have "snow_wf st \<Longrightarrow> snow_wf (init_rounds n st)" for n st
    by (induction n arbitrary: st) (auto simp: split_beta Let_def)
  then show ?thesis by (simp add: InitSnow3g_def Let_def snow_wf_def)
qed

lemma length_keystream [simp]: "length (GenerateKeystream n st) = n"
proof -
  have "length (keystream_words n st) = n" for st
    by (induction n arbitrary: st) (auto simp: split_beta Let_def)
  then show ?thesis by (simp add: GenerateKeystream_def)
qed

lemma keystream_words_take: "take m (keystream_words n st) = keystream_words (min m n) st"
proof (induction n arbitrary: m st)
  case 0
  then show ?case by simp
next
  case (Suc n)
  then show ?case by (cases m) (simp_all add: split_beta Let_def)
qed

text \<open>A shorter keystream is a prefix of a longer one.\<close>

lemma keystream_prefix: "m \<le> n \<Longrightarrow> take m (GenerateKeystream n st) = GenerateKeystream m st"
  by (simp add: GenerateKeystream_def keystream_words_take min_def)

lemma mulx8_linear: "mulx8 (a XOR b) c = mulx8 a c XOR mulx8 b c"
proof -
  have "(128 :: u8) = 2 ^ 7" by simp
  then have top: "x AND 128 \<noteq> 0 \<longleftrightarrow> bit x 7" for x :: u8
    using and_exp_eq_0_iff_not_bit [of x 7] by simp
  show ?thesis
    by (cases "bit a 7"; cases "bit b 7")
      (simp_all add: mulx8_def top bit_xor_iff push_bit_xor ac_simps)
qed

lemma mulxPow8_linear: "mulxPow8 (a XOR b) i c = mulxPow8 a i c XOR mulxPow8 b i c"
  by (induction i) (simp_all add: mulx8_linear)

end
