(* ===== verification/Nas_Security.thy ===== *)
theory Nas_Security
  imports Snow3g
begin

text \<open>
  NAS security: the 24-bit counter of \<^verbatim>\<open>lib/nas/security/counter.go\<close>, the ciphering and
  integrity algorithms of \<^verbatim>\<open>lib/nas/security/security.go\<close>, and how the UE applies them to a
  message, \<^verbatim>\<open>NASEncode\<close> for the uplink and the first half of \<^verbatim>\<open>DispatchNas\<close> for the downlink.
  The AES block function of Go's \<^verbatim>\<open>crypto/aes\<close> and the CMAC of \<^verbatim>\<open>github.com/aead/cmac\<close> are
  parameters (\<open>aes\<close> takes a key and a block, \<open>cmac\<close> a key and a message).
\<close>

unbundle bit_operations_syntax

section \<open>The counter\<close>

type_synonym Count = u32

definition maskTo24Bits :: "Count \<Rightarrow> Count" where
  "maskTo24Bits c = c AND 0x00ffffff"

definition Count_SetSQN :: "u8 \<Rightarrow> Count \<Rightarrow> Count" where
  "Count_SetSQN sqn c = (c AND 0xffffff00) OR ucast sqn"

definition Count_SetOverflow :: "u16 \<Rightarrow> Count \<Rightarrow> Count" where
  "Count_SetOverflow ovf c = (c AND 0xff0000ff) OR push_bit 8 (ucast ovf)"

definition Count_Set :: "u16 \<Rightarrow> u8 \<Rightarrow> Count \<Rightarrow> Count" where
  "Count_Set ovf sqn c = Count_SetSQN sqn (Count_SetOverflow ovf c)"

definition Count_AddOne :: "Count \<Rightarrow> Count" where
  "Count_AddOne c = maskTo24Bits (c + 1)"

definition Count_SQN :: "Count \<Rightarrow> u8" where
  "Count_SQN c = ucast (c AND 0x000000ff)"

definition Count_Overflow :: "Count \<Rightarrow> u16" where
  "Count_Overflow c = ucast (drop_bit 8 (c AND 0x00ffff00))"

section \<open>Bytes and words\<close>

definition be32 :: "u8 list \<Rightarrow> u32" where
  "be32 b = word_of_bytes (b ! 0) (b ! 1) (b ! 2) (b ! 3)"

definition put32 :: "u32 \<Rightarrow> u8 list" where
  "put32 w = map (byte_at w) [0..<4]"

definition be64 :: "u8 list \<Rightarrow> u64" where
  "be64 b = push_bit 32 (ucast (be32 (take 4 b))) OR ucast (be32 (drop 4 b))"

text \<open>The four words of a 128-bit key, the last bytes first.\<close>

definition key_words :: "u8 list \<Rightarrow> u32 list" where
  "key_words ck = map (\<lambda>i. be32 (take 4 (drop (4 * (3 - i)) ck))) [0..<4]"

section \<open>Ciphering\<close>

definition ks_byte :: "u32 list \<Rightarrow> nat \<Rightarrow> u8" where
  "ks_byte ks i = byte_at (ks ! (i div 4)) (i mod 4)"

definition NEA1 :: "u8 list \<Rightarrow> u32 \<Rightarrow> u32 \<Rightarrow> u32 \<Rightarrow> u8 list \<Rightarrow> u32 \<Rightarrow> u8 list res" where
  "NEA1 ck countC bearer direction ibs len =
     (let iv0 = push_bit 27 bearer OR push_bit 26 direction;
          st = InitSnow3g (key_words ck) [iv0, countC, iv0, countC];
          l = unat ((len + 31) div 32);
          r = unat (len mod 32);
          ks = GenerateKeystream l st;
          n = 4 * unat (len div 32) + (r + 7) div 8
      in
      if l = 0 \<or> length ibs < n then Inl Panic
      else
        let ks = ks[l - 1 := ks ! (l - 1) AND NOT (push_bit (32 - r) 1 - 1)] in
        Inr (map (\<lambda>i. if i < n then ibs ! i XOR ks_byte ks i else 0) [0..<length ibs]))"

text \<open>
  \<^verbatim>\<open>cipher.NewCTR\<close>: the counter block is a 128-bit big-endian number; block \<open>i\<close> of the keystream
  is the encryption of the initial value plus \<open>i\<close>.
\<close>

definition ctr_block :: "u8 list \<Rightarrow> nat \<Rightarrow> u8 list" where
  "ctr_block iv i =
     (let v = (val_of (bits_of iv) + i) mod 2 ^ 128
      in map (\<lambda>j. of_nat (v div 256 ^ (15 - j))) [0..<16])"

definition xor_key_stream :: "(u8 list \<Rightarrow> u8 list) \<Rightarrow> u8 list \<Rightarrow> u8 list \<Rightarrow> u8 list" where
  "xor_key_stream block iv ibs =
     map (\<lambda>i. ibs ! i XOR block (ctr_block iv (i div 16)) ! (i mod 16)) [0..<length ibs]"

definition NEA2 :: "(u8 list \<Rightarrow> u8 list \<Rightarrow> u8 list) \<Rightarrow> u8 list \<Rightarrow> u32 \<Rightarrow> u8 \<Rightarrow> u8 \<Rightarrow> u8 list \<Rightarrow> u8 list res" where
  "NEA2 aes key count bearer direction ibs =
     (let couterBlk = put32 count @ [push_bit 3 bearer OR push_bit 2 direction] @ replicate 11 0
      in Inr (xor_key_stream (aes key) couterBlk ibs))"

text \<open>\<^verbatim>\<open>NASEncrypt\<close> overwrites its payload; the new contents are the result. \<open>None\<close> is a nil slice.\<close>

definition NASEncrypt :: "(u8 list \<Rightarrow> u8 list \<Rightarrow> u8 list) \<Rightarrow> u8 \<Rightarrow> u8 list \<Rightarrow> u32 \<Rightarrow> u8 \<Rightarrow> u8 \<Rightarrow>
    u8 list option \<Rightarrow> u8 list res" where
  "NASEncrypt aes AlgoID KnasEnc count Bearer Direction payload =
     (if Bearer > 0x1f then Inl (Fail ''Bearer is beyond 5 bits'')
      else if Direction > 1 then Inl (Fail ''Direction is beyond 1 bits'')
      else case payload of
        None \<Rightarrow> Inl (Fail ''Nas Payload is nil'')
      | Some p \<Rightarrow>
          if AlgoID = 0 then Inr p
          else if AlgoID = 1 then
            NEA1 KnasEnc count (ucast Bearer) (ucast Direction) p (of_nat (length p) * 8)
          else if AlgoID = 2 then NEA2 aes KnasEnc count Bearer Direction p
          else if AlgoID = 3 then Inl (Fail ''NEA3 not implement yet.'')
          else Inl (Fail ''Unknown Algorithm Identity''))"

section \<open>Integrity\<close>

definition mulx64 :: "u64 \<Rightarrow> u64 \<Rightarrow> u64" where
  "mulx64 V c = (if V AND 0x8000000000000000 \<noteq> 0 then push_bit 1 V XOR c else push_bit 1 V)"

fun mulxPow64 :: "u64 \<Rightarrow> nat \<Rightarrow> u64 \<Rightarrow> u64" where
  "mulxPow64 V 0 c = V"
| "mulxPow64 V (Suc i) c = mulx64 (mulxPow64 V i c) c"

definition mul64 :: "u64 \<Rightarrow> u64 \<Rightarrow> u64 \<Rightarrow> u64" where
  "mul64 V P c =
     foldl (\<lambda>rst i. if drop_bit i P AND 1 = 1 then rst XOR mulxPow64 V i c else rst) 0 [0..<64]"

definition NIA1 :: "u8 list \<Rightarrow> u32 \<Rightarrow> u8 \<Rightarrow> u32 \<Rightarrow> u8 list \<Rightarrow> u8 list res" where
  "NIA1 ik countI bearer direction msg =
     (let fresh = push_bit 27 (ucast bearer);
          iv = [fresh XOR push_bit 15 direction, countI XOR push_bit 31 direction, fresh, countI];
          z = GenerateKeystream 5 (InitSnow3g (key_words ik) iv);
          P = push_bit 32 (ucast (z ! 0)) OR ucast (z ! 1);
          Q = push_bit 32 (ucast (z ! 2)) OR ucast (z ! 3);
          blocks = (length msg + 7) div 8
      in
      if blocks = 0 then Inl Panic
      else
        let Eval = foldl (\<lambda>Eval i. mul64 (Eval XOR be64 (take 8 (drop (8 * i) msg))) P 0x1b) 0 [0..<blocks - 1];
            tmp = drop (8 * (blocks - 1)) msg;
            M = be64 (tmp @ replicate (8 - length tmp) 0);
            Eval = mul64 (Eval XOR M) P 0x1b;
            Eval = mul64 (Eval XOR of_nat (length msg * 8)) Q 0x1b
        in Inr (put32 (ucast (drop_bit 32 Eval) XOR z ! 4)))"

definition NIA2 :: "(u8 list \<Rightarrow> u8 list \<Rightarrow> u8 list) \<Rightarrow> u8 list \<Rightarrow> u32 \<Rightarrow> u8 \<Rightarrow> u8 \<Rightarrow> u8 list \<Rightarrow> u8 list res" where
  "NIA2 cmac key count bearer direction msg =
     (let m = put32 count @ [push_bit 3 bearer OR push_bit 2 direction, 0, 0, 0] @ msg;
          mac = cmac key m
      in if length mac < 4 then Inl Panic else Inr (take 4 mac))"

text \<open>A nil MAC is \<open>None\<close>.\<close>

definition NASMacCalculate :: "(u8 list \<Rightarrow> u8 list \<Rightarrow> u8 list) \<Rightarrow> u8 \<Rightarrow> u8 list \<Rightarrow> u32 \<Rightarrow> u8 \<Rightarrow> u8 \<Rightarrow>
    u8 list option \<Rightarrow> u8 list option res" where
  "NASMacCalculate cmac AlgoID KnasInt count Bearer Direction msg =
     (if Bearer > 0x1f then Inl (Fail ''Bearer is beyond 5 bits'')
      else if Direction > 1 then Inl (Fail ''Direction is beyond 1 bits'')
      else case msg of
        None \<Rightarrow> Inl (Fail ''Nas Payload is nil'')
      | Some m \<Rightarrow>
          if AlgoID = 0 then Inr None
          else if AlgoID = 1 then
            rbind (NIA1 KnasInt count Bearer (ucast Direction) m) (\<lambda>mac. Inr (Some mac))
          else if AlgoID = 2 then
            rbind (NIA2 cmac KnasInt count Bearer Direction m) (\<lambda>mac. Inr (Some mac))
          else if AlgoID = 3 then Inr None
          else Inl (Fail ''Unknown Algorithm Identity''))"

section \<open>The counter is a 24-bit number\<close>

definition count24 :: "u32 \<Rightarrow> bool" where
  "count24 c \<longleftrightarrow> unat c < 2 ^ 24"

lemma bit_count24: "count24 c \<Longrightarrow> bit c n \<Longrightarrow> n < 24"
proof -
  assume "count24 c" and b: "bit c n"
  then have "take_bit 24 (unat c) = unat c" by (simp add: count24_def take_bit_nat_eq_self)
  moreover have "bit (unat c) n" using b by (simp add: bit_unsigned_iff)
  ultimately show ?thesis by (metis bit_take_bit_iff)
qed

lemma count24I: "(\<And>n. bit c n \<Longrightarrow> n < 24) \<Longrightarrow> count24 c"
proof -
  assume "\<And>n. bit c n \<Longrightarrow> n < 24"
  then have "take_bit 24 c = c" by (intro bit_eqI) (auto simp: bit_take_bit_iff)
  then have "take_bit 24 (unat c) = unat c" by (metis unsigned_take_bit_eq)
  then show ?thesis by (metis count24_def take_bit_nat_less_exp)
qed

text \<open>The masks of the counter, bit by bit.\<close>

lemma bit_masks:
  "bit (0x00ffffff :: u32) n \<longleftrightarrow> n < 24"
  "bit (0xffffff00 :: u32) n \<longleftrightarrow> 8 \<le> n \<and> n < 32"
  "bit (0xff0000ff :: u32) n \<longleftrightarrow> n < 8 \<or> 24 \<le> n \<and> n < 32"
  "bit (0x000000ff :: u32) n \<longleftrightarrow> n < 8"
  "bit (0x00ffff00 :: u32) n \<longleftrightarrow> 8 \<le> n \<and> n < 24"
proof -
  have m: "(0x00ffffff :: u32) = mask 24" "(0xffffff00 :: u32) = push_bit 8 (mask 24)"
    "(0xff0000ff :: u32) = push_bit 24 (mask 8) OR mask 8" "(0x000000ff :: u32) = mask 8"
    "(0x00ffff00 :: u32) = push_bit 8 (mask 16)"
    by (simp_all add: mask_eq_exp_minus_1)
  show "bit (0x00ffffff :: u32) n \<longleftrightarrow> n < 24" unfolding m(1) by (auto simp: bit_mask_iff)
  show "bit (0xffffff00 :: u32) n \<longleftrightarrow> 8 \<le> n \<and> n < 32" unfolding m(2)
    by (auto simp: bit_push_bit_iff bit_mask_iff)
  show "bit (0xff0000ff :: u32) n \<longleftrightarrow> n < 8 \<or> 24 \<le> n \<and> n < 32" unfolding m(3)
    by (auto simp: bit_or_iff bit_push_bit_iff bit_mask_iff)
  show "bit (0x000000ff :: u32) n \<longleftrightarrow> n < 8" unfolding m(4) by (auto simp: bit_mask_iff)
  show "bit (0x00ffff00 :: u32) n \<longleftrightarrow> 8 \<le> n \<and> n < 24" unfolding m(5)
    by (auto simp: bit_push_bit_iff bit_mask_iff)
qed

lemma bit_counter:
  "bit (maskTo24Bits c) n \<longleftrightarrow> bit c n \<and> n < 24"
  "bit (Count_SetSQN s c) n \<longleftrightarrow> (if n < 8 then bit s n else bit c n)"
  "bit (Count_SetOverflow v c) n \<longleftrightarrow> (if 8 \<le> n \<and> n < 24 then bit v (n - 8) else bit c n)"
  "bit (Count_SQN c) n \<longleftrightarrow> bit c n \<and> n < 8"
  "bit (Count_Overflow c) n \<longleftrightarrow> bit c (n + 8) \<and> n < 16"
proof -
  have c: "bit c n \<Longrightarrow> n < 32" "bit c (8 + n) \<Longrightarrow> n < 24" "bit s n \<Longrightarrow> n < 8" "bit v (n - 8) \<Longrightarrow> n < 24"
    using bit_imp_le_length [of c] bit_imp_le_length [of s] bit_imp_le_length [of v "n - 8"] by force+
  show "bit (maskTo24Bits c) n \<longleftrightarrow> bit c n \<and> n < 24"
    by (simp only: maskTo24Bits_def bit_and_iff bit_masks)
  show "bit (Count_SetSQN s c) n \<longleftrightarrow> (if n < 8 then bit s n else bit c n)"
    unfolding Count_SetSQN_def bit_or_iff bit_and_iff bit_masks using c by (auto simp: bit_ucast_iff)
  show "bit (Count_SetOverflow v c) n \<longleftrightarrow> (if 8 \<le> n \<and> n < 24 then bit v (n - 8) else bit c n)"
    unfolding Count_SetOverflow_def bit_or_iff bit_and_iff bit_masks using c
    by (auto simp: bit_ucast_iff bit_push_bit_iff)
  show "bit (Count_SQN c) n \<longleftrightarrow> bit c n \<and> n < 8"
    unfolding Count_SQN_def bit_ucast_iff bit_and_iff bit_masks by auto
  show "bit (Count_Overflow c) n \<longleftrightarrow> bit c (n + 8) \<and> n < 16"
    unfolding Count_Overflow_def bit_ucast_iff bit_drop_bit_eq bit_and_iff bit_masks
    by (auto simp: add.commute)
qed


lemma counter_invariant:
  "count24 (maskTo24Bits c)"
  "count24 (Count_AddOne c)"
  "count24 c \<Longrightarrow> count24 (Count_SetSQN sqn c)"
  "count24 c \<Longrightarrow> count24 (Count_SetOverflow ovf c)"
  "count24 c \<Longrightarrow> count24 (Count_Set ovf sqn c)"
proof -
  show m: "count24 (maskTo24Bits c)" for c by (rule count24I) (simp add: bit_counter)
  show "count24 (Count_AddOne c)" unfolding Count_AddOne_def by (rule m)
  show q: "count24 c \<Longrightarrow> count24 (Count_SetSQN sqn c)" for c
    by (rule count24I) (auto simp: bit_counter bit_count24 split: if_splits)
  show v: "count24 c \<Longrightarrow> count24 (Count_SetOverflow ovf c)"
    by (rule count24I) (auto simp: bit_counter bit_count24 split: if_splits)
  show "count24 c \<Longrightarrow> count24 (Count_Set ovf sqn c)"
    unfolding Count_Set_def by (rule q) (rule v)
qed

lemma counter_fields:
  "Count_SQN (Count_Set ovf sqn c) = sqn"
  "Count_Overflow (Count_Set ovf sqn c) = ovf"
  by (rule bit_word_eqI; auto simp: Count_Set_def bit_counter dest: bit_imp_le_length)+

lemma SQN_SetSQN [simp]: "Count_SQN (Count_SetSQN sqn c) = sqn"
  by (rule bit_word_eqI; auto simp: bit_counter dest: bit_imp_le_length)

lemma unat_counter_fields:
  assumes "count24 c"
  shows "unat c = 256 * unat (Count_Overflow c) + unat (Count_SQN c)"
proof -
  have s: "unat (Count_SQN c) = unat c mod 256"
  proof -
    have "Count_SQN c = ucast (take_bit 8 c)"
      by (rule bit_word_eqI) (auto simp: bit_counter bit_ucast_iff bit_take_bit_iff)
    then show ?thesis
      by (simp only: unsigned_ucast_eq unsigned_take_bit_eq) (simp add: take_bit_eq_mod)
  qed
  have o: "unat (Count_Overflow c) = unat c div 256"
  proof -
    have "Count_Overflow c = ucast (drop_bit 8 c)"
      by (rule bit_word_eqI) (auto simp: bit_counter bit_ucast_iff bit_drop_bit_eq add.commute)
    then have "unat (Count_Overflow c) = take_bit 16 (unat c div 2 ^ 8)"
      by (simp only: unsigned_ucast_eq unat_drop_bit_eq) (simp add: drop_bit_eq_div)
    moreover have "unat c div 2 ^ 8 < 2 ^ 16" using assms by (simp add: count24_def less_mult_imp_div_less)
    ultimately show ?thesis by (simp add: take_bit_nat_eq_self)
  qed
  show ?thesis unfolding s o by simp
qed

lemma unat_Count_AddOne: "unat (Count_AddOne c) = (unat c + 1) mod 2 ^ 24"
proof -
  have "Count_AddOne c = take_bit 24 (c + 1)"
    unfolding Count_AddOne_def
    by (rule bit_word_eqI) (auto simp: bit_counter bit_take_bit_iff)
  then have "unat (Count_AddOne c) = unat (c + 1) mod 2 ^ 24"
    by (simp only: unsigned_take_bit_eq) (simp add: take_bit_eq_mod)
  also have "\<dots> = (unat c + 1) mod 2 ^ 32 mod 2 ^ 24" by (simp add: unat_word_ariths)
  finally show ?thesis by (simp add: mod_mod_cancel)
qed

text \<open>
  The estimate \<^verbatim>\<open>DispatchNas\<close> makes of the sender's counter from the eight bits it receives is
  right while fewer than 256 messages are lost in a row.
\<close>

definition estimate :: "Count \<Rightarrow> u8 \<Rightarrow> Count" where
  "estimate c sqn =
     Count_SetSQN sqn (if Count_SQN c > sqn then Count_SetOverflow (Count_Overflow c + 1) c else c)"

lemma estimate_correct:
  assumes c: "count24 c" and n: "count24 n" and ahead: "unat c \<le> unat n" "unat n < unat c + 256"
  shows "estimate c (Count_SQN n) = n"
proof -
  let ?ov = "if Count_SQN c > Count_SQN n then Count_Overflow c + 1 else Count_Overflow c"
  have fc: "unat c = 256 * unat (Count_Overflow c) + unat (Count_SQN c)" by (rule unat_counter_fields [OF c])
  have fn: "unat n = 256 * unat (Count_Overflow n) + unat (Count_SQN n)" by (rule unat_counter_fields [OF n])
  have sl: "unat (Count_SQN c) < 256" "unat (Count_SQN n) < 256"
    using unsigned_less [of "Count_SQN c", where 'a = nat] unsigned_less [of "Count_SQN n", where 'a = nat] by simp_all
  have "unat (Count_Overflow n) = unat (Count_Overflow c) + of_bool (Count_SQN c > Count_SQN n)"
    using fc fn sl ahead by (auto simp: word_less_nat_alt split: if_splits)
  moreover have "unat (Count_Overflow n) < 2 ^ 16"
    using unsigned_less [of "Count_Overflow n", where 'a = nat] by simp
  ultimately have ov: "?ov = Count_Overflow n"
    by (auto simp: word_unat_eq_iff unat_word_ariths)
  have "estimate c (Count_SQN n) = Count_SetSQN (Count_SQN n) (Count_SetOverflow ?ov c)"
    by (rule bit_word_eqI)
      (use bit_count24 [OF c] in \<open>force simp: estimate_def bit_counter add.commute\<close>)
  also have "\<dots> = n"
    unfolding ov
    by (rule bit_word_eqI) (use bit_count24 [OF c] bit_count24 [OF n] in \<open>force simp: bit_counter\<close>)
  finally show ?thesis .
qed

section \<open>Stream ciphers\<close>

text \<open>
  What the callers need of a ciphering algorithm: a keystream that depends on the parameters and
  the length of the text only, combined with the text by exclusive or.
\<close>

locale stream_cipher =
  fixes crypt :: "'p \<Rightarrow> u8 list \<Rightarrow> u8 list res"
    and keystream :: "'p \<Rightarrow> nat \<Rightarrow> nat \<Rightarrow> u8"
    and fits :: "nat \<Rightarrow> bool"
  assumes crypt_xor: "fits (length t) \<Longrightarrow>
    crypt p t = Inr (map (\<lambda>i. t ! i XOR keystream p (length t) i) [0..<length t])"
begin

lemma crypt_length: "fits (length t) \<Longrightarrow> crypt p t = Inr u \<Longrightarrow> length u = length t"
  by (auto simp: crypt_xor)

lemma crypt_involutive:
  assumes "fits (length t)"
  shows "\<exists>u. crypt p t = Inr u \<and> length u = length t \<and> crypt p u = Inr t"
proof -
  let ?u = "map (\<lambda>i. t ! i XOR keystream p (length t) i) [0..<length t]"
  have "crypt p ?u = Inr (map (\<lambda>i. ?u ! i XOR keystream p (length t) i) [0..<length t])"
    using crypt_xor [of ?u p] assms by simp
  also have "map (\<lambda>i. ?u ! i XOR keystream p (length t) i) [0..<length t] = t"
    by (rule nth_equalityI) (simp_all add: xor.assoc)
  finally show ?thesis using crypt_xor [OF assms, of p] by simp
qed

end

interpretation nea0: stream_cipher "\<lambda>_ t. Inr t" "\<lambda>_ _ _. 0" "\<lambda>_. True"
  by unfold_locales (simp add: map_nth)

text \<open>The keystream of NEA1 after the code has cleared the bits it takes for superfluous.\<close>

definition nea1_words :: "u8 list \<times> u32 \<times> u32 \<times> u32 \<Rightarrow> nat \<Rightarrow> u32 list" where
  "nea1_words p n =
     (let (ck, countC, bearer, direction) = p;
          iv0 = push_bit 27 bearer OR push_bit 26 direction;
          l = (8 * n + 31) div 32;
          ks = GenerateKeystream l (InitSnow3g (key_words ck) [iv0, countC, iv0, countC])
      in ks[l - 1 := ks ! (l - 1) AND NOT (push_bit (32 - 8 * n mod 32) 1 - 1)])"

lemma nea1_sizes:
  assumes "0 < n" "n < 2 ^ 28"
  defines "len \<equiv> of_nat n * 8 :: u32"
  shows "unat ((len + 31) div 32) = (8 * n + 31) div 32" "unat (len mod 32) = 8 * n mod 32"
    and "4 * unat (len div 32) + (unat (len mod 32) + 7) div 8 = n" "(8 * n + 31) div 32 \<noteq> 0"
proof -
  have u: "unat len = 8 * n"
    using assms(2) unfolding len_def by (simp add: unat_word_ariths unat_of_nat)
  then have u31: "unat (len + 31) = 8 * n + 31"
    using assms(2) by (simp add: unat_word_ariths)
  show "unat ((len + 31) div 32) = (8 * n + 31) div 32" by (simp add: unat_div u31)
  show r: "unat (len mod 32) = 8 * n mod 32" by (simp add: unat_mod u)
  have "8 * n mod 32 = 8 * (n mod 4)" "8 * n div 32 = n div 4"
    using mod_mult_mult1 [of 8 n 4] div_mult_mult1 [of 8 n 4] by simp_all
  then show "4 * unat (len div 32) + (unat (len mod 32) + 7) div 8 = n"
    unfolding r unat_div by (simp add: u)
  show "(8 * n + 31) div 32 \<noteq> 0" using assms(1) by (simp add: div_eq_0_iff)
qed

interpretation nea1: stream_cipher
  "\<lambda>p t. (let (ck, countC, bearer, direction) = p in NEA1 ck countC bearer direction t (of_nat (length t) * 8))"
  "\<lambda>p n i. ks_byte (nea1_words p n) i" "\<lambda>n. 0 < n \<and> n < 2 ^ 28"
proof unfold_locales
  fix t :: "u8 list" and p :: "u8 list \<times> u32 \<times> u32 \<times> u32"
  assume n: "0 < length t \<and> length t < 2 ^ 28"
  obtain ck c b d where p: "p = (ck, c, b, d)" by (metis prod_cases4)
  note sz = nea1_sizes [of "length t"]
  show "(let (ck, countC, bearer, direction) = p in NEA1 ck countC bearer direction t (of_nat (length t) * 8)) =
      Inr (map (\<lambda>i. t ! i XOR ks_byte (nea1_words p (length t)) i) [0..<length t])"
    unfolding p NEA1_def Let_def prod.case nea1_words_def using sz n by simp
qed

interpretation nea2: stream_cipher "\<lambda>(key, c, b, d) t. NEA2 aes key c b d t"
  "\<lambda>(key, c, b, d) _ i. aes key (ctr_block (put32 c @ [push_bit 3 b OR push_bit 2 d] @ replicate 11 0) (i div 16)) ! (i mod 16)"
  "\<lambda>_. True" for aes
  by unfold_locales (simp add: NEA2_def xor_key_stream_def split: prod.splits)

lemma put32_length [simp]: "length (put32 w) = 4"
  by (simp add: put32_def)

section \<open>Properties of the algorithms\<close>

lemma nas_encrypt_round:
  assumes alg: "alg \<in> {0, 1, 2}" and b: "bearer \<le> 0x1f" "dir \<le> 1"
    and p: "0 < length p" "length p < 2 ^ 28"
  shows "\<exists>q. NASEncrypt aes alg k c bearer dir (Some p) = Inr q \<and> length q = length p \<and>
    NASEncrypt aes alg k c bearer dir (Some q) = Inr p"
proof -
  have g: "\<not> bearer > 0x1f" "\<not> dir > 1" using b by simp_all
  consider "alg = 0" | "alg = 1" | "alg = 2" using alg by auto
  then show ?thesis
  proof cases
    case 1
    then show ?thesis using g by (simp add: NASEncrypt_def)
  next
    case 2
    from nea1.crypt_involutive [of p "(k, c, ucast bearer, ucast dir)"] p obtain q where
      q: "NEA1 k c (ucast bearer) (ucast dir) p (of_nat (length p) * 8) = Inr q" "length q = length p"
      "NEA1 k c (ucast bearer) (ucast dir) q (of_nat (length q) * 8) = Inr p" by auto
    with 2 g show ?thesis by (intro exI [of _ q]) (simp add: NASEncrypt_def)
  next
    case 3
    from nea2.crypt_involutive [where t = p and aes = aes and p = "(k, c, bearer, dir)"] obtain q where
      "NEA2 aes k c bearer dir p = Inr q" "length q = length p" "NEA2 aes k c bearer dir q = Inr p" by auto
    with 3 g show ?thesis by (intro exI [of _ q]) (simp add: NASEncrypt_def)
  qed
qed

text \<open>C26: ciphering with any implemented algorithm keeps the length and is undone by ciphering again.\<close>

theorem nas_encrypt_involution:
  assumes "alg \<in> {0, 1, 2}" and "bearer \<le> 0x1f" and "dir \<le> 1" and "0 < length p" and "length p < 2 ^ 28"
  shows "\<exists>q. NASEncrypt aes alg k c bearer dir (Some p) = Inr q \<and> length q = length p \<and>
    NASEncrypt aes alg k c bearer dir (Some q) = Inr p"
  using assms by (rule nas_encrypt_round)

lemma nas_encrypt_involution_witness:
  "\<exists>q. NASEncrypt (\<lambda>_ b. b) 1 (replicate 16 0) 5 1 0 (Some [1, 2, 3]) = Inr q \<and> length q = length [1, 2, 3 :: u8] \<and>
    NASEncrypt (\<lambda>_ b. b) 1 (replicate 16 0) 5 1 0 (Some q) = Inr [1, 2, 3]"
  by (rule nas_encrypt_involution) simp_all

text \<open>
  With NEA1 the last four bytes of a payload whose length is a multiple of four are sent in
  clear. The mask that is to clear the bits behind the text clears the last word of the keystream.
\<close>

theorem nea1_last_word_in_clear:
  assumes "bearer \<le> 0x1f" and "dir \<le> 1" and "4 dvd length p" and "0 < length p" and "length p < 2 ^ 28"
  shows "\<exists>q. NASEncrypt aes 1 k c bearer dir (Some p) = Inr q \<and>
    drop (length p - 4) q = drop (length p - 4) p"
proof -
  let ?pp = "(k, c, ucast bearer, ucast dir)" and ?n = "length p"
  obtain m where m: "?n = 4 * m" "0 < m" using assms(3,4) by (auto elim: dvdE)
  have l: "(8 * ?n + 31) div 32 = m" "8 * ?n mod 32 = 0" using m by simp_all
  have "push_bit 32 1 = (0 :: u32)"
    by (rule bit_word_eqI) (simp only: bit_push_bit_iff bit_0 simp_thms, simp)
  then have mask: "NOT (push_bit (32 - 0) 1 - 1) = (0 :: u32)" by (simp only: diff_zero) simp
  have zero: "nea1_words ?pp ?n ! (m - 1) = 0"
    using m unfolding nea1_words_def Let_def prod.case l mask by simp
  have "ks_byte (nea1_words ?pp ?n) i = 0" if "?n - 4 \<le> i" "i < ?n" for i
  proof -
    have "i div 4 = m - 1" using that m by (intro div_nat_eqI) simp_all
    then show ?thesis using zero by (simp add: ks_byte_def byte_at_def)
  qed
  moreover have "NASEncrypt aes 1 k c bearer dir (Some p) =
      Inr (map (\<lambda>i. p ! i XOR ks_byte (nea1_words ?pp ?n) i) [0..<?n])"
    using nea1.crypt_xor [of p ?pp] assms by (simp add: NASEncrypt_def not_less)
  ultimately show ?thesis
    by (intro exI [of _ "map (\<lambda>i. p ! i XOR ks_byte (nea1_words ?pp ?n) i) [0..<?n]"])
      (auto intro!: nth_equalityI)
qed

lemma nea1_last_word_in_clear_witness:
  "\<exists>q. NASEncrypt (\<lambda>_ b. b) 1 (replicate 16 0) 5 1 0 (Some [1, 2, 3, 4, 5, 6, 7, 8]) = Inr q \<and>
    drop (length [1 :: u8, 2, 3, 4, 5, 6, 7, 8] - 4) q = drop (length [1 :: u8, 2, 3, 4, 5, 6, 7, 8] - 4) [1, 2, 3, 4, 5, 6, 7, 8]"
  by (rule nea1_last_word_in_clear) (simp_all add: dvd_def exI [of _ 2])

text \<open>
  C27: the counter stays a 24-bit number under every operation, its two fields are what was
  set, and adding one counts modulo 2^24.
\<close>

theorem counter_algebra:
  "count24 c \<Longrightarrow> count24 (Count_Set ovf sqn c) \<and> count24 (Count_AddOne c) \<and> count24 (Count_SetSQN sqn c) \<and>
     count24 (Count_SetOverflow ovf c) \<and>
     Count_SQN (Count_Set ovf sqn c) = sqn \<and> Count_Overflow (Count_Set ovf sqn c) = ovf \<and>
     unat c = 256 * unat (Count_Overflow c) + unat (Count_SQN c) \<and>
     unat (Count_AddOne c) = (unat c + 1) mod 2 ^ 24"
  by (intro conjI counter_invariant counter_fields unat_counter_fields unat_Count_AddOne)

lemma counter_algebra_witness:
  "count24 (Count_Set 7 8 0x00fffffe) \<and> count24 (Count_AddOne 0x00fffffe) \<and> count24 (Count_SetSQN 8 0x00fffffe) \<and>
     count24 (Count_SetOverflow 7 0x00fffffe) \<and>
     Count_SQN (Count_Set 7 8 0x00fffffe) = 8 \<and> Count_Overflow (Count_Set 7 8 0x00fffffe) = 7 \<and>
     unat (0x00fffffe :: Count) = 256 * unat (Count_Overflow 0x00fffffe) + unat (Count_SQN 0x00fffffe) \<and>
     unat (Count_AddOne 0x00fffffe) = (unat (0x00fffffe :: Count) + 1) mod 2 ^ 24"
  by (rule counter_algebra) (simp add: count24_def)

end
