(* ===== verification/Aes.thy ===== *)
theory Aes
  imports Nas_Security
begin

text \<open>
  The AES block cipher of \<^verbatim>\<open>lib/aes/aes.go\<close>, which Milenage runs on: key expansion and encryption
  over 32-bit words with the tables \<open>Te0\<close> to \<open>Te4\<close>. The reference is the byte-oriented cipher of
  FIPS-197, with the S-box given by inversion in the field of 256 elements. The tables are
  checked against it entry by entry, the table rounds are shown to be the reference rounds, and
  both key schedules agree for the three key sizes.
\<close>

unbundle bit_operations_syntax

section \<open>The tables\<close>

definition Te0 :: "u32 list" where
  "Te0 = [
    0xc66363a5, 0xf87c7c84, 0xee777799, 0xf67b7b8d, 0xfff2f20d, 0xd66b6bbd, 0xde6f6fb1, 0x91c5c554,
    0x60303050, 0x02010103, 0xce6767a9, 0x562b2b7d, 0xe7fefe19, 0xb5d7d762, 0x4dababe6, 0xec76769a,
    0x8fcaca45, 0x1f82829d, 0x89c9c940, 0xfa7d7d87, 0xeffafa15, 0xb25959eb, 0x8e4747c9, 0xfbf0f00b,
    0x41adadec, 0xb3d4d467, 0x5fa2a2fd, 0x45afafea, 0x239c9cbf, 0x53a4a4f7, 0xe4727296, 0x9bc0c05b,
    0x75b7b7c2, 0xe1fdfd1c, 0x3d9393ae, 0x4c26266a, 0x6c36365a, 0x7e3f3f41, 0xf5f7f702, 0x83cccc4f,
    0x6834345c, 0x51a5a5f4, 0xd1e5e534, 0xf9f1f108, 0xe2717193, 0xabd8d873, 0x62313153, 0x2a15153f,
    0x0804040c, 0x95c7c752, 0x46232365, 0x9dc3c35e, 0x30181828, 0x379696a1, 0x0a05050f, 0x2f9a9ab5,
    0x0e070709, 0x24121236, 0x1b80809b, 0xdfe2e23d, 0xcdebeb26, 0x4e272769, 0x7fb2b2cd, 0xea75759f,
    0x1209091b, 0x1d83839e, 0x582c2c74, 0x341a1a2e, 0x361b1b2d, 0xdc6e6eb2, 0xb45a5aee, 0x5ba0a0fb,
    0xa45252f6, 0x763b3b4d, 0xb7d6d661, 0x7db3b3ce, 0x5229297b, 0xdde3e33e, 0x5e2f2f71, 0x13848497,
    0xa65353f5, 0xb9d1d168, 0x00000000, 0xc1eded2c, 0x40202060, 0xe3fcfc1f, 0x79b1b1c8, 0xb65b5bed,
    0xd46a6abe, 0x8dcbcb46, 0x67bebed9, 0x7239394b, 0x944a4ade, 0x984c4cd4, 0xb05858e8, 0x85cfcf4a,
    0xbbd0d06b, 0xc5efef2a, 0x4faaaae5, 0xedfbfb16, 0x864343c5, 0x9a4d4dd7, 0x66333355, 0x11858594,
    0x8a4545cf, 0xe9f9f910, 0x04020206, 0xfe7f7f81, 0xa05050f0, 0x783c3c44, 0x259f9fba, 0x4ba8a8e3,
    0xa25151f3, 0x5da3a3fe, 0x804040c0, 0x058f8f8a, 0x3f9292ad, 0x219d9dbc, 0x70383848, 0xf1f5f504,
    0x63bcbcdf, 0x77b6b6c1, 0xafdada75, 0x42212163, 0x20101030, 0xe5ffff1a, 0xfdf3f30e, 0xbfd2d26d,
    0x81cdcd4c, 0x180c0c14, 0x26131335, 0xc3ecec2f, 0xbe5f5fe1, 0x359797a2, 0x884444cc, 0x2e171739,
    0x93c4c457, 0x55a7a7f2, 0xfc7e7e82, 0x7a3d3d47, 0xc86464ac, 0xba5d5de7, 0x3219192b, 0xe6737395,
    0xc06060a0, 0x19818198, 0x9e4f4fd1, 0xa3dcdc7f, 0x44222266, 0x542a2a7e, 0x3b9090ab, 0x0b888883,
    0x8c4646ca, 0xc7eeee29, 0x6bb8b8d3, 0x2814143c, 0xa7dede79, 0xbc5e5ee2, 0x160b0b1d, 0xaddbdb76,
    0xdbe0e03b, 0x64323256, 0x743a3a4e, 0x140a0a1e, 0x924949db, 0x0c06060a, 0x4824246c, 0xb85c5ce4,
    0x9fc2c25d, 0xbdd3d36e, 0x43acacef, 0xc46262a6, 0x399191a8, 0x319595a4, 0xd3e4e437, 0xf279798b,
    0xd5e7e732, 0x8bc8c843, 0x6e373759, 0xda6d6db7, 0x018d8d8c, 0xb1d5d564, 0x9c4e4ed2, 0x49a9a9e0,
    0xd86c6cb4, 0xac5656fa, 0xf3f4f407, 0xcfeaea25, 0xca6565af, 0xf47a7a8e, 0x47aeaee9, 0x10080818,
    0x6fbabad5, 0xf0787888, 0x4a25256f, 0x5c2e2e72, 0x381c1c24, 0x57a6a6f1, 0x73b4b4c7, 0x97c6c651,
    0xcbe8e823, 0xa1dddd7c, 0xe874749c, 0x3e1f1f21, 0x964b4bdd, 0x61bdbddc, 0x0d8b8b86, 0x0f8a8a85,
    0xe0707090, 0x7c3e3e42, 0x71b5b5c4, 0xcc6666aa, 0x904848d8, 0x06030305, 0xf7f6f601, 0x1c0e0e12,
    0xc26161a3, 0x6a35355f, 0xae5757f9, 0x69b9b9d0, 0x17868691, 0x99c1c158, 0x3a1d1d27, 0x279e9eb9,
    0xd9e1e138, 0xebf8f813, 0x2b9898b3, 0x22111133, 0xd26969bb, 0xa9d9d970, 0x078e8e89, 0x339494a7,
    0x2d9b9bb6, 0x3c1e1e22, 0x15878792, 0xc9e9e920, 0x87cece49, 0xaa5555ff, 0x50282878, 0xa5dfdf7a,
    0x038c8c8f, 0x59a1a1f8, 0x09898980, 0x1a0d0d17, 0x65bfbfda, 0xd7e6e631, 0x844242c6, 0xd06868b8,
    0x824141c3, 0x299999b0, 0x5a2d2d77, 0x1e0f0f11, 0x7bb0b0cb, 0xa85454fc, 0x6dbbbbd6, 0x2c16163a]"

definition Te1 :: "u32 list" where
  "Te1 = [
    0xa5c66363, 0x84f87c7c, 0x99ee7777, 0x8df67b7b, 0x0dfff2f2, 0xbdd66b6b, 0xb1de6f6f, 0x5491c5c5,
    0x50603030, 0x03020101, 0xa9ce6767, 0x7d562b2b, 0x19e7fefe, 0x62b5d7d7, 0xe64dabab, 0x9aec7676,
    0x458fcaca, 0x9d1f8282, 0x4089c9c9, 0x87fa7d7d, 0x15effafa, 0xebb25959, 0xc98e4747, 0x0bfbf0f0,
    0xec41adad, 0x67b3d4d4, 0xfd5fa2a2, 0xea45afaf, 0xbf239c9c, 0xf753a4a4, 0x96e47272, 0x5b9bc0c0,
    0xc275b7b7, 0x1ce1fdfd, 0xae3d9393, 0x6a4c2626, 0x5a6c3636, 0x417e3f3f, 0x02f5f7f7, 0x4f83cccc,
    0x5c683434, 0xf451a5a5, 0x34d1e5e5, 0x08f9f1f1, 0x93e27171, 0x73abd8d8, 0x53623131, 0x3f2a1515,
    0x0c080404, 0x5295c7c7, 0x65462323, 0x5e9dc3c3, 0x28301818, 0xa1379696, 0x0f0a0505, 0xb52f9a9a,
    0x090e0707, 0x36241212, 0x9b1b8080, 0x3ddfe2e2, 0x26cdebeb, 0x694e2727, 0xcd7fb2b2, 0x9fea7575,
    0x1b120909, 0x9e1d8383, 0x74582c2c, 0x2e341a1a, 0x2d361b1b, 0xb2dc6e6e, 0xeeb45a5a, 0xfb5ba0a0,
    0xf6a45252, 0x4d763b3b, 0x61b7d6d6, 0xce7db3b3, 0x7b522929, 0x3edde3e3, 0x715e2f2f, 0x97138484,
    0xf5a65353, 0x68b9d1d1, 0x00000000, 0x2cc1eded, 0x60402020, 0x1fe3fcfc, 0xc879b1b1, 0xedb65b5b,
    0xbed46a6a, 0x468dcbcb, 0xd967bebe, 0x4b723939, 0xde944a4a, 0xd4984c4c, 0xe8b05858, 0x4a85cfcf,
    0x6bbbd0d0, 0x2ac5efef, 0xe54faaaa, 0x16edfbfb, 0xc5864343, 0xd79a4d4d, 0x55663333, 0x94118585,
    0xcf8a4545, 0x10e9f9f9, 0x06040202, 0x81fe7f7f, 0xf0a05050, 0x44783c3c, 0xba259f9f, 0xe34ba8a8,
    0xf3a25151, 0xfe5da3a3, 0xc0804040, 0x8a058f8f, 0xad3f9292, 0xbc219d9d, 0x48703838, 0x04f1f5f5,
    0xdf63bcbc, 0xc177b6b6, 0x75afdada, 0x63422121, 0x30201010, 0x1ae5ffff, 0x0efdf3f3, 0x6dbfd2d2,
    0x4c81cdcd, 0x14180c0c, 0x35261313, 0x2fc3ecec, 0xe1be5f5f, 0xa2359797, 0xcc884444, 0x392e1717,
    0x5793c4c4, 0xf255a7a7, 0x82fc7e7e, 0x477a3d3d, 0xacc86464, 0xe7ba5d5d, 0x2b321919, 0x95e67373,
    0xa0c06060, 0x98198181, 0xd19e4f4f, 0x7fa3dcdc, 0x66442222, 0x7e542a2a, 0xab3b9090, 0x830b8888,
    0xca8c4646, 0x29c7eeee, 0xd36bb8b8, 0x3c281414, 0x79a7dede, 0xe2bc5e5e, 0x1d160b0b, 0x76addbdb,
    0x3bdbe0e0, 0x56643232, 0x4e743a3a, 0x1e140a0a, 0xdb924949, 0x0a0c0606, 0x6c482424, 0xe4b85c5c,
    0x5d9fc2c2, 0x6ebdd3d3, 0xef43acac, 0xa6c46262, 0xa8399191, 0xa4319595, 0x37d3e4e4, 0x8bf27979,
    0x32d5e7e7, 0x438bc8c8, 0x596e3737, 0xb7da6d6d, 0x8c018d8d, 0x64b1d5d5, 0xd29c4e4e, 0xe049a9a9,
    0xb4d86c6c, 0xfaac5656, 0x07f3f4f4, 0x25cfeaea, 0xafca6565, 0x8ef47a7a, 0xe947aeae, 0x18100808,
    0xd56fbaba, 0x88f07878, 0x6f4a2525, 0x725c2e2e, 0x24381c1c, 0xf157a6a6, 0xc773b4b4, 0x5197c6c6,
    0x23cbe8e8, 0x7ca1dddd, 0x9ce87474, 0x213e1f1f, 0xdd964b4b, 0xdc61bdbd, 0x860d8b8b, 0x850f8a8a,
    0x90e07070, 0x427c3e3e, 0xc471b5b5, 0xaacc6666, 0xd8904848, 0x05060303, 0x01f7f6f6, 0x121c0e0e,
    0xa3c26161, 0x5f6a3535, 0xf9ae5757, 0xd069b9b9, 0x91178686, 0x5899c1c1, 0x273a1d1d, 0xb9279e9e,
    0x38d9e1e1, 0x13ebf8f8, 0xb32b9898, 0x33221111, 0xbbd26969, 0x70a9d9d9, 0x89078e8e, 0xa7339494,
    0xb62d9b9b, 0x223c1e1e, 0x92158787, 0x20c9e9e9, 0x4987cece, 0xffaa5555, 0x78502828, 0x7aa5dfdf,
    0x8f038c8c, 0xf859a1a1, 0x80098989, 0x171a0d0d, 0xda65bfbf, 0x31d7e6e6, 0xc6844242, 0xb8d06868,
    0xc3824141, 0xb0299999, 0x775a2d2d, 0x111e0f0f, 0xcb7bb0b0, 0xfca85454, 0xd66dbbbb, 0x3a2c1616]"

definition Te2 :: "u32 list" where
  "Te2 = [
    0x63a5c663, 0x7c84f87c, 0x7799ee77, 0x7b8df67b, 0xf20dfff2, 0x6bbdd66b, 0x6fb1de6f, 0xc55491c5,
    0x30506030, 0x01030201, 0x67a9ce67, 0x2b7d562b, 0xfe19e7fe, 0xd762b5d7, 0xabe64dab, 0x769aec76,
    0xca458fca, 0x829d1f82, 0xc94089c9, 0x7d87fa7d, 0xfa15effa, 0x59ebb259, 0x47c98e47, 0xf00bfbf0,
    0xadec41ad, 0xd467b3d4, 0xa2fd5fa2, 0xafea45af, 0x9cbf239c, 0xa4f753a4, 0x7296e472, 0xc05b9bc0,
    0xb7c275b7, 0xfd1ce1fd, 0x93ae3d93, 0x266a4c26, 0x365a6c36, 0x3f417e3f, 0xf702f5f7, 0xcc4f83cc,
    0x345c6834, 0xa5f451a5, 0xe534d1e5, 0xf108f9f1, 0x7193e271, 0xd873abd8, 0x31536231, 0x153f2a15,
    0x040c0804, 0xc75295c7, 0x23654623, 0xc35e9dc3, 0x18283018, 0x96a13796, 0x050f0a05, 0x9ab52f9a,
    0x07090e07, 0x12362412, 0x809b1b80, 0xe23ddfe2, 0xeb26cdeb, 0x27694e27, 0xb2cd7fb2, 0x759fea75,
    0x091b1209, 0x839e1d83, 0x2c74582c, 0x1a2e341a, 0x1b2d361b, 0x6eb2dc6e, 0x5aeeb45a, 0xa0fb5ba0,
    0x52f6a452, 0x3b4d763b, 0xd661b7d6, 0xb3ce7db3, 0x297b5229, 0xe33edde3, 0x2f715e2f, 0x84971384,
    0x53f5a653, 0xd168b9d1, 0x00000000, 0xed2cc1ed, 0x20604020, 0xfc1fe3fc, 0xb1c879b1, 0x5bedb65b,
    0x6abed46a, 0xcb468dcb, 0xbed967be, 0x394b7239, 0x4ade944a, 0x4cd4984c, 0x58e8b058, 0xcf4a85cf,
    0xd06bbbd0, 0xef2ac5ef, 0xaae54faa, 0xfb16edfb, 0x43c58643, 0x4dd79a4d, 0x33556633, 0x85941185,
    0x45cf8a45, 0xf910e9f9, 0x02060402, 0x7f81fe7f, 0x50f0a050, 0x3c44783c, 0x9fba259f, 0xa8e34ba8,
    0x51f3a251, 0xa3fe5da3, 0x40c08040, 0x8f8a058f, 0x92ad3f92, 0x9dbc219d, 0x38487038, 0xf504f1f5,
    0xbcdf63bc, 0xb6c177b6, 0xda75afda, 0x21634221, 0x10302010, 0xff1ae5ff, 0xf30efdf3, 0xd26dbfd2,
    0xcd4c81cd, 0x0c14180c, 0x13352613, 0xec2fc3ec, 0x5fe1be5f, 0x97a23597, 0x44cc8844, 0x17392e17,
    0xc45793c4, 0xa7f255a7, 0x7e82fc7e, 0x3d477a3d, 0x64acc864, 0x5de7ba5d, 0x192b3219, 0x7395e673,
    0x60a0c060, 0x81981981, 0x4fd19e4f, 0xdc7fa3dc, 0x22664422, 0x2a7e542a, 0x90ab3b90, 0x88830b88,
    0x46ca8c46, 0xee29c7ee, 0xb8d36bb8, 0x143c2814, 0xde79a7de, 0x5ee2bc5e, 0x0b1d160b, 0xdb76addb,
    0xe03bdbe0, 0x32566432, 0x3a4e743a, 0x0a1e140a, 0x49db9249, 0x060a0c06, 0x246c4824, 0x5ce4b85c,
    0xc25d9fc2, 0xd36ebdd3, 0xacef43ac, 0x62a6c462, 0x91a83991, 0x95a43195, 0xe437d3e4, 0x798bf279,
    0xe732d5e7, 0xc8438bc8, 0x37596e37, 0x6db7da6d, 0x8d8c018d, 0xd564b1d5, 0x4ed29c4e, 0xa9e049a9,
    0x6cb4d86c, 0x56faac56, 0xf407f3f4, 0xea25cfea, 0x65afca65, 0x7a8ef47a, 0xaee947ae, 0x08181008,
    0xbad56fba, 0x7888f078, 0x256f4a25, 0x2e725c2e, 0x1c24381c, 0xa6f157a6, 0xb4c773b4, 0xc65197c6,
    0xe823cbe8, 0xdd7ca1dd, 0x749ce874, 0x1f213e1f, 0x4bdd964b, 0xbddc61bd, 0x8b860d8b, 0x8a850f8a,
    0x7090e070, 0x3e427c3e, 0xb5c471b5, 0x66aacc66, 0x48d89048, 0x03050603, 0xf601f7f6, 0x0e121c0e,
    0x61a3c261, 0x355f6a35, 0x57f9ae57, 0xb9d069b9, 0x86911786, 0xc15899c1, 0x1d273a1d, 0x9eb9279e,
    0xe138d9e1, 0xf813ebf8, 0x98b32b98, 0x11332211, 0x69bbd269, 0xd970a9d9, 0x8e89078e, 0x94a73394,
    0x9bb62d9b, 0x1e223c1e, 0x87921587, 0xe920c9e9, 0xce4987ce, 0x55ffaa55, 0x28785028, 0xdf7aa5df,
    0x8c8f038c, 0xa1f859a1, 0x89800989, 0x0d171a0d, 0xbfda65bf, 0xe631d7e6, 0x42c68442, 0x68b8d068,
    0x41c38241, 0x99b02999, 0x2d775a2d, 0x0f111e0f, 0xb0cb7bb0, 0x54fca854, 0xbbd66dbb, 0x163a2c16]"

definition Te3 :: "u32 list" where
  "Te3 = [
    0x6363a5c6, 0x7c7c84f8, 0x777799ee, 0x7b7b8df6, 0xf2f20dff, 0x6b6bbdd6, 0x6f6fb1de, 0xc5c55491,
    0x30305060, 0x01010302, 0x6767a9ce, 0x2b2b7d56, 0xfefe19e7, 0xd7d762b5, 0xababe64d, 0x76769aec,
    0xcaca458f, 0x82829d1f, 0xc9c94089, 0x7d7d87fa, 0xfafa15ef, 0x5959ebb2, 0x4747c98e, 0xf0f00bfb,
    0xadadec41, 0xd4d467b3, 0xa2a2fd5f, 0xafafea45, 0x9c9cbf23, 0xa4a4f753, 0x727296e4, 0xc0c05b9b,
    0xb7b7c275, 0xfdfd1ce1, 0x9393ae3d, 0x26266a4c, 0x36365a6c, 0x3f3f417e, 0xf7f702f5, 0xcccc4f83,
    0x34345c68, 0xa5a5f451, 0xe5e534d1, 0xf1f108f9, 0x717193e2, 0xd8d873ab, 0x31315362, 0x15153f2a,
    0x04040c08, 0xc7c75295, 0x23236546, 0xc3c35e9d, 0x18182830, 0x9696a137, 0x05050f0a, 0x9a9ab52f,
    0x0707090e, 0x12123624, 0x80809b1b, 0xe2e23ddf, 0xebeb26cd, 0x2727694e, 0xb2b2cd7f, 0x75759fea,
    0x09091b12, 0x83839e1d, 0x2c2c7458, 0x1a1a2e34, 0x1b1b2d36, 0x6e6eb2dc, 0x5a5aeeb4, 0xa0a0fb5b,
    0x5252f6a4, 0x3b3b4d76, 0xd6d661b7, 0xb3b3ce7d, 0x29297b52, 0xe3e33edd, 0x2f2f715e, 0x84849713,
    0x5353f5a6, 0xd1d168b9, 0x00000000, 0xeded2cc1, 0x20206040, 0xfcfc1fe3, 0xb1b1c879, 0x5b5bedb6,
    0x6a6abed4, 0xcbcb468d, 0xbebed967, 0x39394b72, 0x4a4ade94, 0x4c4cd498, 0x5858e8b0, 0xcfcf4a85,
    0xd0d06bbb, 0xefef2ac5, 0xaaaae54f, 0xfbfb16ed, 0x4343c586, 0x4d4dd79a, 0x33335566, 0x85859411,
    0x4545cf8a, 0xf9f910e9, 0x02020604, 0x7f7f81fe, 0x5050f0a0, 0x3c3c4478, 0x9f9fba25, 0xa8a8e34b,
    0x5151f3a2, 0xa3a3fe5d, 0x4040c080, 0x8f8f8a05, 0x9292ad3f, 0x9d9dbc21, 0x38384870, 0xf5f504f1,
    0xbcbcdf63, 0xb6b6c177, 0xdada75af, 0x21216342, 0x10103020, 0xffff1ae5, 0xf3f30efd, 0xd2d26dbf,
    0xcdcd4c81, 0x0c0c1418, 0x13133526, 0xecec2fc3, 0x5f5fe1be, 0x9797a235, 0x4444cc88, 0x1717392e,
    0xc4c45793, 0xa7a7f255, 0x7e7e82fc, 0x3d3d477a, 0x6464acc8, 0x5d5de7ba, 0x19192b32, 0x737395e6,
    0x6060a0c0, 0x81819819, 0x4f4fd19e, 0xdcdc7fa3, 0x22226644, 0x2a2a7e54, 0x9090ab3b, 0x8888830b,
    0x4646ca8c, 0xeeee29c7, 0xb8b8d36b, 0x14143c28, 0xdede79a7, 0x5e5ee2bc, 0x0b0b1d16, 0xdbdb76ad,
    0xe0e03bdb, 0x32325664, 0x3a3a4e74, 0x0a0a1e14, 0x4949db92, 0x06060a0c, 0x24246c48, 0x5c5ce4b8,
    0xc2c25d9f, 0xd3d36ebd, 0xacacef43, 0x6262a6c4, 0x9191a839, 0x9595a431, 0xe4e437d3, 0x79798bf2,
    0xe7e732d5, 0xc8c8438b, 0x3737596e, 0x6d6db7da, 0x8d8d8c01, 0xd5d564b1, 0x4e4ed29c, 0xa9a9e049,
    0x6c6cb4d8, 0x5656faac, 0xf4f407f3, 0xeaea25cf, 0x6565afca, 0x7a7a8ef4, 0xaeaee947, 0x08081810,
    0xbabad56f, 0x787888f0, 0x25256f4a, 0x2e2e725c, 0x1c1c2438, 0xa6a6f157, 0xb4b4c773, 0xc6c65197,
    0xe8e823cb, 0xdddd7ca1, 0x74749ce8, 0x1f1f213e, 0x4b4bdd96, 0xbdbddc61, 0x8b8b860d, 0x8a8a850f,
    0x707090e0, 0x3e3e427c, 0xb5b5c471, 0x6666aacc, 0x4848d890, 0x03030506, 0xf6f601f7, 0x0e0e121c,
    0x6161a3c2, 0x35355f6a, 0x5757f9ae, 0xb9b9d069, 0x86869117, 0xc1c15899, 0x1d1d273a, 0x9e9eb927,
    0xe1e138d9, 0xf8f813eb, 0x9898b32b, 0x11113322, 0x6969bbd2, 0xd9d970a9, 0x8e8e8907, 0x9494a733,
    0x9b9bb62d, 0x1e1e223c, 0x87879215, 0xe9e920c9, 0xcece4987, 0x5555ffaa, 0x28287850, 0xdfdf7aa5,
    0x8c8c8f03, 0xa1a1f859, 0x89898009, 0x0d0d171a, 0xbfbfda65, 0xe6e631d7, 0x4242c684, 0x6868b8d0,
    0x4141c382, 0x9999b029, 0x2d2d775a, 0x0f0f111e, 0xb0b0cb7b, 0x5454fca8, 0xbbbbd66d, 0x16163a2c]"

definition Te4 :: "u32 list" where
  "Te4 = [
    0x63636363, 0x7c7c7c7c, 0x77777777, 0x7b7b7b7b, 0xf2f2f2f2, 0x6b6b6b6b, 0x6f6f6f6f, 0xc5c5c5c5,
    0x30303030, 0x01010101, 0x67676767, 0x2b2b2b2b, 0xfefefefe, 0xd7d7d7d7, 0xabababab, 0x76767676,
    0xcacacaca, 0x82828282, 0xc9c9c9c9, 0x7d7d7d7d, 0xfafafafa, 0x59595959, 0x47474747, 0xf0f0f0f0,
    0xadadadad, 0xd4d4d4d4, 0xa2a2a2a2, 0xafafafaf, 0x9c9c9c9c, 0xa4a4a4a4, 0x72727272, 0xc0c0c0c0,
    0xb7b7b7b7, 0xfdfdfdfd, 0x93939393, 0x26262626, 0x36363636, 0x3f3f3f3f, 0xf7f7f7f7, 0xcccccccc,
    0x34343434, 0xa5a5a5a5, 0xe5e5e5e5, 0xf1f1f1f1, 0x71717171, 0xd8d8d8d8, 0x31313131, 0x15151515,
    0x04040404, 0xc7c7c7c7, 0x23232323, 0xc3c3c3c3, 0x18181818, 0x96969696, 0x05050505, 0x9a9a9a9a,
    0x07070707, 0x12121212, 0x80808080, 0xe2e2e2e2, 0xebebebeb, 0x27272727, 0xb2b2b2b2, 0x75757575,
    0x09090909, 0x83838383, 0x2c2c2c2c, 0x1a1a1a1a, 0x1b1b1b1b, 0x6e6e6e6e, 0x5a5a5a5a, 0xa0a0a0a0,
    0x52525252, 0x3b3b3b3b, 0xd6d6d6d6, 0xb3b3b3b3, 0x29292929, 0xe3e3e3e3, 0x2f2f2f2f, 0x84848484,
    0x53535353, 0xd1d1d1d1, 0x00000000, 0xedededed, 0x20202020, 0xfcfcfcfc, 0xb1b1b1b1, 0x5b5b5b5b,
    0x6a6a6a6a, 0xcbcbcbcb, 0xbebebebe, 0x39393939, 0x4a4a4a4a, 0x4c4c4c4c, 0x58585858, 0xcfcfcfcf,
    0xd0d0d0d0, 0xefefefef, 0xaaaaaaaa, 0xfbfbfbfb, 0x43434343, 0x4d4d4d4d, 0x33333333, 0x85858585,
    0x45454545, 0xf9f9f9f9, 0x02020202, 0x7f7f7f7f, 0x50505050, 0x3c3c3c3c, 0x9f9f9f9f, 0xa8a8a8a8,
    0x51515151, 0xa3a3a3a3, 0x40404040, 0x8f8f8f8f, 0x92929292, 0x9d9d9d9d, 0x38383838, 0xf5f5f5f5,
    0xbcbcbcbc, 0xb6b6b6b6, 0xdadadada, 0x21212121, 0x10101010, 0xffffffff, 0xf3f3f3f3, 0xd2d2d2d2,
    0xcdcdcdcd, 0x0c0c0c0c, 0x13131313, 0xecececec, 0x5f5f5f5f, 0x97979797, 0x44444444, 0x17171717,
    0xc4c4c4c4, 0xa7a7a7a7, 0x7e7e7e7e, 0x3d3d3d3d, 0x64646464, 0x5d5d5d5d, 0x19191919, 0x73737373,
    0x60606060, 0x81818181, 0x4f4f4f4f, 0xdcdcdcdc, 0x22222222, 0x2a2a2a2a, 0x90909090, 0x88888888,
    0x46464646, 0xeeeeeeee, 0xb8b8b8b8, 0x14141414, 0xdededede, 0x5e5e5e5e, 0x0b0b0b0b, 0xdbdbdbdb,
    0xe0e0e0e0, 0x32323232, 0x3a3a3a3a, 0x0a0a0a0a, 0x49494949, 0x06060606, 0x24242424, 0x5c5c5c5c,
    0xc2c2c2c2, 0xd3d3d3d3, 0xacacacac, 0x62626262, 0x91919191, 0x95959595, 0xe4e4e4e4, 0x79797979,
    0xe7e7e7e7, 0xc8c8c8c8, 0x37373737, 0x6d6d6d6d, 0x8d8d8d8d, 0xd5d5d5d5, 0x4e4e4e4e, 0xa9a9a9a9,
    0x6c6c6c6c, 0x56565656, 0xf4f4f4f4, 0xeaeaeaea, 0x65656565, 0x7a7a7a7a, 0xaeaeaeae, 0x08080808,
    0xbabababa, 0x78787878, 0x25252525, 0x2e2e2e2e, 0x1c1c1c1c, 0xa6a6a6a6, 0xb4b4b4b4, 0xc6c6c6c6,
    0xe8e8e8e8, 0xdddddddd, 0x74747474, 0x1f1f1f1f, 0x4b4b4b4b, 0xbdbdbdbd, 0x8b8b8b8b, 0x8a8a8a8a,
    0x70707070, 0x3e3e3e3e, 0xb5b5b5b5, 0x66666666, 0x48484848, 0x03030303, 0xf6f6f6f6, 0x0e0e0e0e,
    0x61616161, 0x35353535, 0x57575757, 0xb9b9b9b9, 0x86868686, 0xc1c1c1c1, 0x1d1d1d1d, 0x9e9e9e9e,
    0xe1e1e1e1, 0xf8f8f8f8, 0x98989898, 0x11111111, 0x69696969, 0xd9d9d9d9, 0x8e8e8e8e, 0x94949494,
    0x9b9b9b9b, 0x1e1e1e1e, 0x87878787, 0xe9e9e9e9, 0xcececece, 0x55555555, 0x28282828, 0xdfdfdfdf,
    0x8c8c8c8c, 0xa1a1a1a1, 0x89898989, 0x0d0d0d0d, 0xbfbfbfbf, 0xe6e6e6e6, 0x42424242, 0x68686868,
    0x41414141, 0x99999999, 0x2d2d2d2d, 0x0f0f0f0f, 0xb0b0b0b0, 0x54545454, 0xbbbbbbbb, 0x16161616]"

definition rcon :: "u32 list" where
  "rcon = [
    0x01000000, 0x02000000, 0x04000000, 0x08000000, 0x10000000, 0x20000000, 0x40000000, 0x80000000,
    0x1b000000, 0x36000000]"

section \<open>Key expansion\<close>

definition GETU32 :: "u8 list \<Rightarrow> nat \<Rightarrow> u32" where
  "GETU32 key index = push_bit 24 (ucast (key ! index)) XOR push_bit 16 (ucast (key ! (index + 1))) XOR
     push_bit 8 (ucast (key ! (index + 2))) XOR ucast (key ! (index + 3))"

definition PUTU32 :: "u32 \<Rightarrow> u8 list" where
  "PUTU32 st = [ucast (drop_bit 24 st), ucast (drop_bit 16 st), ucast (drop_bit 8 st), ucast st]"

text \<open>The word the code computes from \<open>temp\<close>: substituted and rotated, or substituted only.\<close>

definition sub_rot :: "u32 \<Rightarrow> u32" where
  "sub_rot temp = (Te4 ! unat (drop_bit 16 temp AND 0xff) AND 0xff000000) XOR
     (Te4 ! unat (drop_bit 8 temp AND 0xff) AND 0x00ff0000) XOR
     (Te4 ! unat (temp AND 0xff) AND 0x0000ff00) XOR (Te4 ! unat (drop_bit 24 temp) AND 0x000000ff)"

definition sub_only :: "u32 \<Rightarrow> u32" where
  "sub_only temp = (Te4 ! unat (drop_bit 24 temp) AND 0xff000000) XOR
     (Te4 ! unat (drop_bit 16 temp AND 0xff) AND 0x00ff0000) XOR
     (Te4 ! unat (drop_bit 8 temp AND 0xff) AND 0x0000ff00) XOR (Te4 ! unat (temp AND 0xff) AND 0x000000ff)"

text \<open>
  The three loops. The schedule is an array that the code fills from the left while its slice
  moves on; here it is the list of the words written so far, and \<open>b\<close> is where the slice begins.
\<close>

fun setup128 :: "nat \<Rightarrow> nat \<Rightarrow> u32 list \<Rightarrow> u32 list" where
  "setup128 0 i rk = rk"
| "setup128 (Suc n) i rk =
     (let b = 4 * i;
          r4 = rk ! b XOR sub_rot (rk ! (b + 3)) XOR rcon ! i;
          r5 = rk ! (b + 1) XOR r4; r6 = rk ! (b + 2) XOR r5; r7 = rk ! (b + 3) XOR r6
      in setup128 n (i + 1) (rk @ [r4, r5, r6, r7]))"

fun setup192 :: "nat \<Rightarrow> nat \<Rightarrow> u32 list \<Rightarrow> u32 list" where
  "setup192 0 i rk = rk"
| "setup192 (Suc n) i rk =
     (let b = 6 * i;
          r6 = rk ! b XOR sub_rot (rk ! (b + 5)) XOR rcon ! i;
          r7 = rk ! (b + 1) XOR r6; r8 = rk ! (b + 2) XOR r7; r9 = rk ! (b + 3) XOR r8;
          r10 = rk ! (b + 4) XOR r9; r11 = rk ! (b + 5) XOR r10
      in if n = 0 then rk @ [r6, r7, r8, r9] else setup192 n (i + 1) (rk @ [r6, r7, r8, r9, r10, r11]))"

fun setup256 :: "nat \<Rightarrow> nat \<Rightarrow> u32 list \<Rightarrow> u32 list" where
  "setup256 0 i rk = rk"
| "setup256 (Suc n) i rk =
     (let b = 8 * i;
          r8 = rk ! b XOR sub_rot (rk ! (b + 7)) XOR rcon ! i;
          r9 = rk ! (b + 1) XOR r8; r10 = rk ! (b + 2) XOR r9; r11 = rk ! (b + 3) XOR r10;
          r12 = rk ! (b + 4) XOR sub_only r11;
          r13 = rk ! (b + 5) XOR r12; r14 = rk ! (b + 6) XOR r13; r15 = rk ! (b + 7) XOR r14
      in if n = 0 then rk @ [r8, r9, r10, r11]
         else setup256 n (i + 1) (rk @ [r8, r9, r10, r11, r12, r13, r14, r15]))"

text \<open>
  \<^verbatim>\<open>AesSetupEnc\<close>: the words it writes to an array of \<open>rkLen\<close> words, and the number of rounds.
\<close>

definition AesSetupEnc :: "nat \<Rightarrow> u8 list \<Rightarrow> int \<Rightarrow> (u32 list \<times> nat) res" where
  "AesSetupEnc rkLen key keybits =
     (let words = (\<lambda>n. map (\<lambda>j. GETU32 key (4 * j)) [0..<n]);
          fits = (\<lambda>rks ks. rks \<le> rkLen \<and> ks \<le> length key)
      in
      if keybits = 128 then (if fits 44 16 then Inr (setup128 10 0 (words 4), 10) else Inl Panic)
      else if keybits = 192 then (if fits 52 24 then Inr (setup192 8 0 (words 6), 12) else Inl Panic)
      else if keybits = 256 then (if fits 60 32 then Inr (setup256 7 0 (words 8), 14) else Inl Panic)
      else if fits 8 32 then Inr (words 8, 0) else Inl Panic)"

section \<open>Encryption\<close>

type_synonym aes_state = "u32 \<times> u32 \<times> u32 \<times> u32"

definition te_word :: "u32 \<Rightarrow> u32 \<Rightarrow> u32 \<Rightarrow> u32 \<Rightarrow> u32" where
  "te_word a b c d = Te0 ! unat (drop_bit 24 a) XOR Te1 ! unat (drop_bit 16 b AND 0xff) XOR
     Te2 ! unat (drop_bit 8 c AND 0xff) XOR Te3 ! unat (d AND 0xff)"

fun te_round :: "u32 list \<Rightarrow> nat \<Rightarrow> aes_state \<Rightarrow> aes_state" where
  "te_round rk r (a, b, c, d) =
     (te_word a b c d XOR rk ! (4 * r), te_word b c d a XOR rk ! (4 * r + 1),
      te_word c d a b XOR rk ! (4 * r + 2), te_word d a b c XOR rk ! (4 * r + 3))"

definition te4_word :: "u32 \<Rightarrow> u32 \<Rightarrow> u32 \<Rightarrow> u32 \<Rightarrow> u32" where
  "te4_word a b c d = (Te4 ! unat (drop_bit 24 a) AND 0xff000000) XOR
     (Te4 ! unat (drop_bit 16 b AND 0xff) AND 0x00ff0000) XOR
     (Te4 ! unat (drop_bit 8 c AND 0xff) AND 0x0000ff00) XOR (Te4 ! unat (d AND 0xff) AND 0x000000ff)"

fun te_last :: "u32 list \<Rightarrow> nat \<Rightarrow> aes_state \<Rightarrow> u8 list" where
  "te_last rk r (a, b, c, d) =
     PUTU32 (te4_word a b c d XOR rk ! (4 * r)) @ PUTU32 (te4_word b c d a XOR rk ! (4 * r + 1)) @
     PUTU32 (te4_word c d a b XOR rk ! (4 * r + 2)) @ PUTU32 (te4_word d a b c XOR rk ! (4 * r + 3))"

definition AesEncrypt :: "u32 list \<Rightarrow> nat \<Rightarrow> u8 list \<Rightarrow> u8 list res" where
  "AesEncrypt rk nrounds plaintext =
     (if length plaintext < 16 \<or> length rk < 40 \<or> length rk < 4 * nrounds + 4 then Inl Panic
      else
        let s = (GETU32 plaintext 0 XOR rk ! 0, GETU32 plaintext 4 XOR rk ! 1,
                 GETU32 plaintext 8 XOR rk ! 2, GETU32 plaintext 12 XOR rk ! 3);
            t = foldl (\<lambda>s r. te_round rk r s) s [1, 2, 3, 4, 5, 6, 7, 8, 9];
            t = (if nrounds > 10 then
                   let t = te_round rk 11 (te_round rk 10 t)
                   in if nrounds > 12 then te_round rk 13 (te_round rk 12 t) else t
                 else t)
        in Inr (te_last rk nrounds t))"

section \<open>The reference cipher\<close>

definition mix_column :: "u8 \<Rightarrow> u8 \<Rightarrow> u8 \<Rightarrow> u8 \<Rightarrow> u8 list" where
  "mix_column a b c d =
     (let x = (\<lambda>v. mulx8 v 0x1b); y = (\<lambda>v. mulx8 v 0x1b XOR v)
      in [x a XOR y b XOR c XOR d, a XOR x b XOR y c XOR d, a XOR b XOR x c XOR y d, y a XOR b XOR c XOR x d])"

definition sub_byte :: "u8 \<Rightarrow> u8" where
  "sub_byte b = sr ! unat b"

definition shift_rows :: "u8 list \<Rightarrow> u8 list" where
  "shift_rows s = map (\<lambda>i. s ! ((i + 4 * (i mod 4)) mod 16)) [0..<16]"

definition mix_columns :: "u8 list \<Rightarrow> u8 list" where
  "mix_columns s = concat (map (\<lambda>c. mix_column (s ! (4 * c)) (s ! (4 * c + 1)) (s ! (4 * c + 2)) (s ! (4 * c + 3))) [0..<4])"

definition round_key :: "u32 list \<Rightarrow> nat \<Rightarrow> u8 list" where
  "round_key w r = concat (map PUTU32 (take 4 (drop (4 * r) w)))"

definition add_round_key :: "u32 list \<Rightarrow> nat \<Rightarrow> u8 list \<Rightarrow> u8 list" where
  "add_round_key w r s = map2 (XOR) s (round_key w r)"

definition fips_round :: "u32 list \<Rightarrow> u8 list \<Rightarrow> nat \<Rightarrow> u8 list" where
  "fips_round w s r = add_round_key w r (mix_columns (shift_rows (map sub_byte s)))"

definition fips_cipher :: "u32 list \<Rightarrow> nat \<Rightarrow> u8 list \<Rightarrow> u8 list" where
  "fips_cipher w nr s =
     add_round_key w nr (shift_rows (map sub_byte (foldl (fips_round w) (add_round_key w 0 s) [1..<nr])))"

subsection \<open>The tables are the reference operations\<close>

lemma table_len: "length Te0 = 256" "length Te1 = 256" "length Te2 = 256" "length Te3 = 256" "length Te4 = 256" "length sr = 256"
  by (simp_all add: Te0_def Te1_def Te2_def Te3_def Te4_def sr_def)
lemma Te0_table: "Te0 = map (\<lambda>s. word_of_bytes (mulx8 s 0x1b) s s (mulx8 s 0x1b XOR s)) sr"
  by code_simp
lemma Te1_table: "Te1 = map (\<lambda>s. word_of_bytes (mulx8 s 0x1b XOR s) (mulx8 s 0x1b) s s) sr"
  by code_simp
lemma Te2_table: "Te2 = map (\<lambda>s. word_of_bytes s (mulx8 s 0x1b XOR s) (mulx8 s 0x1b) s) sr"
  by code_simp
lemma Te3_table: "Te3 = map (\<lambda>s. word_of_bytes s s (mulx8 s 0x1b XOR s) (mulx8 s 0x1b)) sr"
  by code_simp
lemma Te4_table: "Te4 = map (\<lambda>s. word_of_bytes s s s s) sr"
  by code_simp

text \<open>
  The S-box is inversion in the field of 256 elements followed by an affine map: undoing the
  affine map gives the inverse.
\<close>

fun gf_mul :: "nat \<Rightarrow> u8 \<Rightarrow> u8 \<Rightarrow> u8" where
  "gf_mul 0 a b = 0"
| "gf_mul (Suc n) a b = (if bit b 0 then a else 0) XOR gf_mul n (mulx8 a 0x1b) (drop_bit 1 b)"

definition rotl8 :: "nat \<Rightarrow> u8 \<Rightarrow> u8" where
  "rotl8 k b = push_bit k b OR drop_bit (8 - k) b"

definition inv_affine :: "u8 \<Rightarrow> u8" where
  "inv_affine s = rotl8 1 s XOR rotl8 3 s XOR rotl8 6 s XOR 0x05"

fun inverses_from :: "u8 \<Rightarrow> u8 list \<Rightarrow> bool" where
  "inverses_from i [] = True"
| "inverses_from i (s # ss) = (gf_mul 8 i (inv_affine s) = 1 \<and> inverses_from (i + 1) ss)"

lemma inverses_from_nth:
  "inverses_from i ss \<Longrightarrow> j < length ss \<Longrightarrow> gf_mul 8 (i + of_nat j) (inv_affine (ss ! j)) = 1"
  by (induction ss arbitrary: i j) (auto simp: nth_Cons ac_simps split: nat.splits, metis add.assoc)

lemma sr_inverses: "inverses_from 1 (tl sr)"
  by code_simp

lemma byte_index:
  "unat (drop_bit 24 (a :: u32)) = unat (ucast (drop_bit 24 a) :: u8)"
  "unat (drop_bit 16 a AND 0xff) = unat (ucast (drop_bit 16 a) :: u8)"
  "unat (drop_bit 8 a AND 0xff) = unat (ucast (drop_bit 8 a) :: u8)"
  "unat (a AND 0xff) = unat (ucast a :: u8)"
proof -
  have m: "(0xff :: u32) = mask 8" by (simp add: mask_eq_exp_minus_1)
  have tb: "unat (take_bit 8 x) = unat (ucast x :: u8)" for x :: u32
    by (simp only: unsigned_take_bit_eq unsigned_ucast_eq) simp
  have "take_bit 8 (drop_bit 24 a) = drop_bit 24 a"
    by (rule bit_word_eqI) (auto simp: bit_take_bit_iff bit_drop_bit_eq dest: bit_imp_le_length)
  from arg_cong [where f = unat, OF this]
  show "unat (drop_bit 24 a) = unat (ucast (drop_bit 24 a) :: u8)" unfolding tb by (rule sym)
  show "unat (drop_bit 16 a AND 0xff) = unat (ucast (drop_bit 16 a) :: u8)"
    "unat (drop_bit 8 a AND 0xff) = unat (ucast (drop_bit 8 a) :: u8)"
    "unat (a AND 0xff) = unat (ucast a :: u8)"
    unfolding m take_bit_eq_mask [symmetric] tb by (rule refl)+
qed

lemma PUTU32_word_of_bytes: "PUTU32 (word_of_bytes p q r s) = [p, q, r, s]"
  unfolding PUTU32_def word_of_bytes_def
  by (intro list.inject [THEN iffD2] conjI refl; rule bit_word_eqI)
     (auto simp: bit_or_iff bit_push_bit_iff bit_drop_bit_eq bit_ucast_iff dest: bit_imp_le_length)

lemma PUTU32_xor: "PUTU32 (x XOR y) = map2 (XOR) (PUTU32 x) (PUTU32 y)"
  unfolding PUTU32_def
  by (simp; intro conjI; rule bit_word_eqI) (auto simp: bit_xor_iff bit_drop_bit_eq bit_ucast_iff)


lemmas table_nth = Te0_table Te1_table Te2_table Te3_table Te4_table

lemma te_lookup:
  fixes b :: u8
  shows "PUTU32 (Te0 ! unat b) = (let s = sub_byte b in [mulx8 s 0x1b, s, s, mulx8 s 0x1b XOR s])"
    "PUTU32 (Te1 ! unat b) = (let s = sub_byte b in [mulx8 s 0x1b XOR s, mulx8 s 0x1b, s, s])"
    "PUTU32 (Te2 ! unat b) = (let s = sub_byte b in [s, mulx8 s 0x1b XOR s, mulx8 s 0x1b, s])"
    "PUTU32 (Te3 ! unat b) = (let s = sub_byte b in [s, s, mulx8 s 0x1b XOR s, mulx8 s 0x1b])"
    "PUTU32 (Te4 ! unat b) = (let s = sub_byte b in [s, s, s, s])"
proof -
  have "unat b < 256" using unsigned_less [of b, where 'a = nat] by simp
  then have l: "unat b < length sr" by (simp add: table_len)
  show "PUTU32 (Te0 ! unat b) = (let s = sub_byte b in [mulx8 s 0x1b, s, s, mulx8 s 0x1b XOR s])"
    "PUTU32 (Te1 ! unat b) = (let s = sub_byte b in [mulx8 s 0x1b XOR s, mulx8 s 0x1b, s, s])"
    "PUTU32 (Te2 ! unat b) = (let s = sub_byte b in [s, mulx8 s 0x1b XOR s, mulx8 s 0x1b, s])"
    "PUTU32 (Te3 ! unat b) = (let s = sub_byte b in [s, s, mulx8 s 0x1b XOR s, mulx8 s 0x1b])"
    "PUTU32 (Te4 ! unat b) = (let s = sub_byte b in [s, s, s, s])"
    unfolding table_nth nth_map [OF l] PUTU32_word_of_bytes Let_def sub_byte_def by (rule refl)+
qed

lemma te_word_bytes:
  "PUTU32 (te_word a b c d) = mix_column (sub_byte (PUTU32 a ! 0)) (sub_byte (PUTU32 b ! 1))
     (sub_byte (PUTU32 c ! 2)) (sub_byte (PUTU32 d ! 3))"
  unfolding te_word_def byte_index PUTU32_xor te_lookup Let_def mix_column_def
  by (simp add: PUTU32_def ac_simps)

lemma PUTU32_mask:
  "PUTU32 (x AND 0xff000000) = [PUTU32 x ! 0, 0, 0, 0]"
  "PUTU32 (x AND 0x00ff0000) = [0, PUTU32 x ! 1, 0, 0]"
  "PUTU32 (x AND 0x0000ff00) = [0, 0, PUTU32 x ! 2, 0]"
  "PUTU32 (x AND 0x000000ff) = [0, 0, 0, PUTU32 x ! 3]"
proof -
  have m: "(0xff000000 :: u32) = push_bit 24 (mask 8)" "(0x00ff0000 :: u32) = push_bit 16 (mask 8)"
    "(0x0000ff00 :: u32) = push_bit 8 (mask 8)" "(0x000000ff :: u32) = mask 8"
    by (simp_all add: mask_eq_exp_minus_1)
  show "PUTU32 (x AND 0xff000000) = [PUTU32 x ! 0, 0, 0, 0]"
    "PUTU32 (x AND 0x00ff0000) = [0, PUTU32 x ! 1, 0, 0]"
    "PUTU32 (x AND 0x0000ff00) = [0, 0, PUTU32 x ! 2, 0]"
    "PUTU32 (x AND 0x000000ff) = [0, 0, 0, PUTU32 x ! 3]"
    unfolding m PUTU32_def
    by (simp only: nth_Cons_0 nth_Cons_Suc numeral_eq_Suc pred_numeral_simps One_nat_def;
        intro list.inject [THEN iffD2] conjI refl; rule bit_word_eqI;
        auto simp: bit_and_iff bit_push_bit_iff bit_drop_bit_eq bit_ucast_iff bit_mask_iff dest: bit_imp_le_length)+
qed

lemma te4_word_bytes:
  "PUTU32 (te4_word a b c d) = map sub_byte [PUTU32 a ! 0, PUTU32 b ! 1, PUTU32 c ! 2, PUTU32 d ! 3]"
  unfolding te4_word_def byte_index PUTU32_xor PUTU32_mask te_lookup Let_def
  by (simp add: PUTU32_def)

fun state_bytes :: "aes_state \<Rightarrow> u8 list" where
  "state_bytes (a, b, c, d) = PUTU32 a @ PUTU32 b @ PUTU32 c @ PUTU32 d"

lemma round_key_words:
  "4 * r + 3 < length rk \<Longrightarrow> round_key rk r = state_bytes (rk ! (4 * r), rk ! (4 * r + 1), rk ! (4 * r + 2), rk ! (4 * r + 3))"
proof -
  assume l: "4 * r + 3 < length rk"
  have "take 4 (drop (4 * r) rk) = [rk ! (4 * r), rk ! (4 * r + 1), rk ! (4 * r + 2), rk ! (4 * r + 3)]"
    using l by (intro nth_equalityI) (auto simp: less_Suc_eq numeral_eq_Suc)
  then show ?thesis by (simp add: round_key_def)
qed

lemma PUTU32_split: "PUTU32 x = [PUTU32 x ! 0, PUTU32 x ! 1, PUTU32 x ! 2, PUTU32 x ! 3]"
  by (simp add: PUTU32_def)

lemma length_PUTU32 [simp]: "length (PUTU32 x) = 4"
  by (simp add: PUTU32_def)

lemma shift_rows_state:
  "shift_rows (map f (state_bytes (a, b, c, d))) =
     map f [PUTU32 a ! 0, PUTU32 b ! 1, PUTU32 c ! 2, PUTU32 d ! 3, PUTU32 b ! 0, PUTU32 c ! 1, PUTU32 d ! 2, PUTU32 a ! 3,
       PUTU32 c ! 0, PUTU32 d ! 1, PUTU32 a ! 2, PUTU32 b ! 3, PUTU32 d ! 0, PUTU32 a ! 1, PUTU32 b ! 2, PUTU32 c ! 3]"
  by (simp add: PUTU32_def shift_rows_def upt_rec)

lemma add_round_key_state:
  "4 * r + 3 < length rk \<Longrightarrow>
   add_round_key rk r (PUTU32 a @ PUTU32 b @ PUTU32 c @ PUTU32 d) =
     state_bytes (a XOR rk ! (4 * r), b XOR rk ! (4 * r + 1), c XOR rk ! (4 * r + 2), d XOR rk ! (4 * r + 3))"
  unfolding add_round_key_def round_key_words state_bytes.simps PUTU32_xor by (simp add: zip_append)

lemma te_round_fips:
  "4 * r + 3 < length rk \<Longrightarrow> state_bytes (te_round rk r s) = fips_round rk (state_bytes s) r"
proof (cases s)
  case (fields a b c d)
  assume l: "4 * r + 3 < length rk"
  have "mix_columns (shift_rows (map sub_byte (state_bytes (a, b, c, d)))) =
      PUTU32 (te_word a b c d) @ PUTU32 (te_word b c d a) @ PUTU32 (te_word c d a b) @ PUTU32 (te_word d a b c)"
    unfolding shift_rows_state te_word_bytes mix_columns_def by (simp add: upt_rec)
  then show ?thesis
    unfolding fields fips_round_def by (simp add: add_round_key_state [OF l])
qed

lemma te_last_fips:
  "4 * r + 3 < length rk \<Longrightarrow> te_last rk r s = add_round_key rk r (shift_rows (map sub_byte (state_bytes s)))"
proof (cases s)
  case (fields a b c d)
  assume l: "4 * r + 3 < length rk"
  have "shift_rows (map sub_byte (state_bytes (a, b, c, d))) =
      PUTU32 (te4_word a b c d) @ PUTU32 (te4_word b c d a) @ PUTU32 (te4_word c d a b) @ PUTU32 (te4_word d a b c)"
    unfolding shift_rows_state te4_word_bytes by simp
  then show ?thesis
    unfolding fields by (simp add: add_round_key_state [OF l])
qed

lemma te_rounds_fips:
  assumes "\<And>r. r \<in> set rs \<Longrightarrow> 4 * r + 3 < length rk"
  shows "state_bytes (foldl (\<lambda>s r. te_round rk r s) s rs) = foldl (fips_round rk) (state_bytes s) rs"
  using assms by (induction rs arbitrary: s) (simp_all add: te_round_fips)

lemma GETU32_bytes:
  "PUTU32 (GETU32 p i) = [p ! i, p ! (i + 1), p ! (i + 2), p ! (i + 3)]"
proof -
  have "GETU32 p i = word_of_bytes (p ! i) (p ! (i + 1)) (p ! (i + 2)) (p ! (i + 3))"
    unfolding GETU32_def word_of_bytes_def
    by (rule bit_word_eqI)
      (auto simp: bit_or_iff bit_xor_iff bit_push_bit_iff bit_ucast_iff dest: bit_imp_le_length)
  then show ?thesis by (simp only: PUTU32_word_of_bytes)
qed

lemma AesEncrypt_rounds:
  assumes "nr \<in> {10, 12, 14}" and "16 \<le> length p" and "4 * nr + 4 \<le> length rk"
  shows "AesEncrypt rk nr p =
    Inr (te_last rk nr (foldl (\<lambda>s r. te_round rk r s)
      (GETU32 p 0 XOR rk ! 0, GETU32 p 4 XOR rk ! 1, GETU32 p 8 XOR rk ! 2, GETU32 p 12 XOR rk ! 3) [1..<nr]))"
proof -
  have u: "[Suc 0..<10] = [1, 2, 3, 4, 5, 6, 7, 8, 9 :: nat]" "[Suc 0..<12] = [1, 2, 3, 4, 5, 6, 7, 8, 9] @ [10, 11 :: nat]"
    "[Suc 0..<14] = [1, 2, 3, 4, 5, 6, 7, 8, 9] @ [10, 11] @ [12, 13 :: nat]" by (simp_all add: upt_rec)
  have g: "\<not> (length p < 16 \<or> length rk < 40 \<or> length rk < 4 * nr + 4)" using assms by auto
  from assms(1) consider "nr = 10" | "nr = 12" | "nr = 14" by auto
  then show ?thesis
    by cases (use g in \<open>simp_all add: AesEncrypt_def Let_def u del: te_round.simps te_last.simps\<close>)
qed

lemma initial_state:
  assumes "16 \<le> length p" and "4 \<le> length rk"
  shows "state_bytes (GETU32 p 0 XOR rk ! 0, GETU32 p 4 XOR rk ! 1, GETU32 p 8 XOR rk ! 2, GETU32 p 12 XOR rk ! 3) =
    add_round_key rk 0 (take 16 p)"
proof -
  have "take 16 p = map ((!) p) [0..<16]" using assms(1) by (intro nth_equalityI) simp_all
  also have "\<dots> = PUTU32 (GETU32 p 0) @ PUTU32 (GETU32 p 4) @ PUTU32 (GETU32 p 8) @ PUTU32 (GETU32 p 12)"
    unfolding GETU32_bytes by (simp add: upt_rec numeral_eq_Suc)
  finally show ?thesis using add_round_key_state [of 0 rk] assms(2) by (simp add: numeral_2_eq_2)
qed

lemma AesEncrypt_fips:
  assumes "nr \<in> {10, 12, 14}" and "16 \<le> length p" and "4 * nr + 4 \<le> length rk"
  shows "AesEncrypt rk nr p = Inr (fips_cipher rk nr (take 16 p))"
proof -
  have "\<And>r. r \<in> set [1..<nr] \<Longrightarrow> 4 * r + 3 < length rk" using assms(3) by simp
  from te_rounds_fips [OF this, of "[1..<nr]"] show ?thesis
    unfolding AesEncrypt_rounds [OF assms] fips_cipher_def using assms(3)
    by (simp only: te_last_fips initial_state [OF assms(2)]) 
qed

subsection \<open>Key expansion\<close>

definition SubWord :: "u32 \<Rightarrow> u32" where
  "SubWord w = (case map sub_byte (PUTU32 w) of [a, b, c, d] \<Rightarrow> word_of_bytes a b c d)"

definition RotWord :: "u32 \<Rightarrow> u32" where
  "RotWord w = (case PUTU32 w of [a, b, c, d] \<Rightarrow> word_of_bytes b c d a)"

definition expansion_step :: "nat \<Rightarrow> u32 list \<Rightarrow> u32" where
  "expansion_step nk w =
     (let i = length w; temp = w ! (i - 1) in
      w ! (i - nk) XOR
        (if i mod nk = 0 then SubWord (RotWord temp) XOR rcon ! (i div nk - 1)
         else if 6 < nk \<and> i mod nk = 4 then SubWord temp else temp))"

fun expand :: "nat \<Rightarrow> nat \<Rightarrow> u32 list \<Rightarrow> u32 list" where
  "expand nk 0 w = w"
| "expand nk (Suc n) w = expand nk n (w @ [expansion_step nk w])"

lemma word_of_PUTU32: "word_of_bytes (PUTU32 x ! 0) (PUTU32 x ! 1) (PUTU32 x ! 2) (PUTU32 x ! 3) = x"
proof (rule bit_word_eqI)
  fix n assume "n < LENGTH(32)"
  then consider "n < 8" | "8 \<le> n" "n < 16" | "16 \<le> n" "n < 24" | "24 \<le> n" "n < 32" by fastforce
  then show "bit (word_of_bytes (PUTU32 x ! 0) (PUTU32 x ! 1) (PUTU32 x ! 2) (PUTU32 x ! 3)) n = bit x n"
    by cases (auto simp: word_of_bytes_def PUTU32_def bit_or_iff bit_push_bit_iff bit_drop_bit_eq bit_ucast_iff)
qed

lemma PUTU32_inject: "PUTU32 x = PUTU32 y \<Longrightarrow> x = y"
  by (metis word_of_PUTU32)

lemma PUTU32_SubWord: "PUTU32 (SubWord w) = map sub_byte (PUTU32 w)"
  unfolding SubWord_def by (subst (1 2) PUTU32_split [of w]) (simp add: PUTU32_word_of_bytes)

lemma PUTU32_RotWord: "PUTU32 (RotWord w) = [PUTU32 w ! 1, PUTU32 w ! 2, PUTU32 w ! 3, PUTU32 w ! 0]"
  unfolding RotWord_def by (subst (1) PUTU32_split [of w]) (simp add: PUTU32_word_of_bytes)

lemma sub_rot_SubWord: "sub_rot w = SubWord (RotWord w)"
  by (rule PUTU32_inject, unfold sub_rot_def byte_index PUTU32_xor PUTU32_mask te_lookup Let_def PUTU32_SubWord PUTU32_RotWord)
    (simp add: PUTU32_def)

lemma sub_only_SubWord: "sub_only w = SubWord w"
  by (rule PUTU32_inject, unfold sub_only_def byte_index PUTU32_xor PUTU32_mask te_lookup Let_def PUTU32_SubWord)
    (simp add: PUTU32_def)

lemmas schedule_simps = Let_def expansion_step_def nth_append sub_rot_SubWord sub_only_SubWord ac_simps

lemma setup128_expand:
  "length rk = 4 * i + 4 \<Longrightarrow> setup128 n i rk = expand 4 (4 * n) rk"
proof (induction n arbitrary: i rk)
  case (Suc n)
  have m: "Suc (4 * i) mod 4 = 1" "Suc (Suc (4 * i)) mod 4 = 2" "Suc (Suc (Suc (4 * i))) mod 4 = 3"
    by presburger+
  have e: "4 * Suc n = Suc (Suc (Suc (Suc (4 * n))))" by simp
  show ?case
    unfolding e setup128.simps expand.simps Let_def using Suc.prems
    by (subst Suc.IH) (simp_all add: schedule_simps m)
qed simp

lemma setup192_expand:
  "length rk = 6 * i + 6 \<Longrightarrow> setup192 (Suc n) i rk = expand 6 (6 * n + 4) rk"
proof (induction n arbitrary: i rk)
  case 0
  have m: "Suc (6 * i) mod 6 = 1" "Suc (Suc (6 * i)) mod 6 = 2" "Suc (Suc (Suc (6 * i))) mod 6 = 3" by presburger+
  have e: "6 * 0 + 4 = Suc (Suc (Suc (Suc 0)))" by simp
  show ?case unfolding e setup192.simps expand.simps Let_def using 0
    by (simp add: schedule_simps m)
next
  case (Suc n)
  have m: "Suc (6 * i) mod 6 = 1" "Suc (Suc (6 * i)) mod 6 = 2" "Suc (Suc (Suc (6 * i))) mod 6 = 3"
    "Suc (Suc (Suc (Suc (6 * i)))) mod 6 = 4" "Suc (Suc (Suc (Suc (Suc (6 * i))))) mod 6 = 5" by presburger+
  have e: "6 * Suc n + 4 = Suc (Suc (Suc (Suc (Suc (Suc (6 * n + 4))))))" by simp
  show ?case
    unfolding e setup192.simps(2) [of "Suc n"] expand.simps Let_def using Suc.prems
    by (subst Suc.IH) (simp_all add: schedule_simps m)
qed

lemma setup256_expand:
  "length rk = 8 * i + 8 \<Longrightarrow> setup256 (Suc n) i rk = expand 8 (8 * n + 4) rk"
proof (induction n arbitrary: i rk)
  case 0
  have m: "Suc (8 * i) mod 8 = 1" "Suc (Suc (8 * i)) mod 8 = 2" "Suc (Suc (Suc (8 * i))) mod 8 = 3" by presburger+
  have e: "8 * 0 + 4 = Suc (Suc (Suc (Suc 0)))" by simp
  show ?case unfolding e setup256.simps expand.simps Let_def using 0
    by (simp add: schedule_simps m)
next
  case (Suc n)
  have m: "Suc (8 * i) mod 8 = 1" "Suc (Suc (8 * i)) mod 8 = 2" "Suc (Suc (Suc (8 * i))) mod 8 = 3"
    "Suc (Suc (Suc (Suc (8 * i)))) mod 8 = 4" "Suc (Suc (Suc (Suc (Suc (8 * i))))) mod 8 = 5"
    "Suc (Suc (Suc (Suc (Suc (Suc (8 * i)))))) mod 8 = 6" "Suc (Suc (Suc (Suc (Suc (Suc (Suc (8 * i))))))) mod 8 = 7"
    by presburger+
  have e: "8 * Suc n + 4 = Suc (Suc (Suc (Suc (Suc (Suc (Suc (Suc (8 * n + 4))))))))" by simp
  show ?case
    unfolding e setup256.simps(2) [of "Suc n"] expand.simps Let_def using Suc.prems
    by (subst Suc.IH) (simp_all add: schedule_simps m)
qed

lemma length_expand [simp]: "length (expand nk n w) = length w + n"
  by (induction n arbitrary: w) simp_all

definition key_words_of :: "u8 list \<Rightarrow> u32 list" where
  "key_words_of key = map (\<lambda>j. GETU32 key (4 * j)) [0..<length key div 4]"

lemma AesSetupEnc_expand:
  assumes "nk \<in> {4, 6, 8}" and "length key = 4 * nk" and "4 * nk + 28 \<le> rkLen"
  shows "AesSetupEnc rkLen key (int (32 * nk)) = Inr (expand nk (3 * nk + 28) (key_words_of key), nk + 6)"
proof -
  from assms(1) consider "nk = 4" | "nk = 6" | "nk = 8" by auto
  then show ?thesis
  proof cases
    case 1
    have "setup128 10 0 (key_words_of key) = expand 4 (4 * 10) (key_words_of key)"
      by (rule setup128_expand) (use 1 assms(2) in \<open>simp add: key_words_of_def\<close>)
    then show ?thesis using 1 assms by (simp add: AesSetupEnc_def key_words_of_def)
  next
    case 2
    have "setup192 (Suc 7) 0 (key_words_of key) = expand 6 (6 * 7 + 4) (key_words_of key)"
      by (rule setup192_expand) (use 2 assms(2) in \<open>simp add: key_words_of_def\<close>)
    then show ?thesis using 2 assms by (simp add: AesSetupEnc_def key_words_of_def del: setup192.simps)
  next
    case 3
    have "setup256 (Suc 6) 0 (key_words_of key) = expand 8 (8 * 6 + 4) (key_words_of key)"
      by (rule setup256_expand) (use 3 assms(2) in \<open>simp add: key_words_of_def\<close>)
    then show ?thesis using 3 assms by (simp add: AesSetupEnc_def key_words_of_def del: setup256.simps)
  qed
qed

section \<open>Properties\<close>

text \<open>
  C17: the table-driven cipher is AES. For each of the three key sizes the key schedule is the
  expansion of FIPS-197, and encrypting a block with it gives what the reference cipher gives.
\<close>

theorem aes_matches_fips197:
  assumes "nk \<in> {4, 6, 8}" and "length key = 4 * nk" and "4 * nk + 28 \<le> rkLen" and "length p = 16"
  shows "\<exists>w. AesSetupEnc rkLen key (int (32 * nk)) = Inr (w, nk + 6) \<and>
    w = expand nk (3 * nk + 28) (key_words_of key) \<and>
    AesEncrypt w (nk + 6) p = Inr (fips_cipher w (nk + 6) p)"
  using assms AesSetupEnc_expand [of nk key rkLen]
    AesEncrypt_fips [of "nk + 6" p "expand nk (3 * nk + 28) (key_words_of key)"]
  by (auto simp: key_words_of_def)

lemma aes_matches_fips197_witness:
  "\<exists>w. AesSetupEnc 44 (replicate 16 0x2b) (int (32 * 4)) = Inr (w, 4 + 6) \<and>
    w = expand 4 (3 * 4 + 28) (key_words_of (replicate 16 0x2b)) \<and>
    AesEncrypt w (4 + 6) (replicate 16 0x32) = Inr (fips_cipher w (4 + 6) (replicate 16 0x32))"
  by (rule aes_matches_fips197) simp_all

text \<open>
  The S-box shared by AES and SNOW 3G is built on field inversion. Undoing its affine map
  gives the inverse of the byte that was substituted.
\<close>

theorem sbox_inverts:
  "b \<noteq> 0 \<Longrightarrow> gf_mul 8 b (inv_affine (sub_byte b)) = 1 \<and> sub_byte b = byte_at (Te4 ! unat b) 0"
proof
  assume b: "b \<noteq> 0"
  then have n: "unat b = Suc (unat b - 1)" by (simp add: unat_gt_0)
  have l: "unat b - 1 < length (tl sr)" using unsigned_less [of b, where 'a = nat] n by (simp add: table_len)
  have "1 + of_nat (unat b - 1) = b" using n by (metis of_nat_Suc of_nat_unat ucast_id)
  with inverses_from_nth [OF sr_inverses l] show "gf_mul 8 b (inv_affine (sub_byte b)) = 1"
    by (metis n nth_tl l sub_byte_def)
  show "sub_byte b = byte_at (Te4 ! unat b) 0"
    using te_lookup(5) [of b] by (simp add: PUTU32_def byte_at_def Let_def)
qed

lemma sbox_inverts_witness:
  "gf_mul 8 0x53 (inv_affine (sub_byte 0x53)) = 1 \<and> sub_byte 0x53 = byte_at (Te4 ! unat (0x53 :: u8)) 0"
  by (rule sbox_inverts) simp

end
