(* ===== verification/Nas_Convert.thy ===== *)
theory Nas_Convert
  imports Identity "HOL-Library.Signed_Division"
begin

text \<open>
  The converters of \<^verbatim>\<open>lib/nas/nasConvert\<close> between values and the octets of NAS elements: slices, session
  types, status bit maps, timers, protocol configuration options, tracking areas, GUTIs and equipment
  identities. A slice of a buffer has no capacity beyond its length, as the buffers are made with their
  length.
\<close>

unbundle bit_operations_syntax

section \<open>Slices\<close>

record Snssai =
  mSst :: int
  mSd :: string

definition SnssaiToNas :: "Snssai \<Rightarrow> u8 list" where
  "SnssaiToNas s =
     (if mSd s = [] then [0x01, word_of_int (mSst s)]
      else [0x04, word_of_int (mSst s)] @ fst (DecodeString (mSd s)))"

definition RejectedSnssaiToNas :: "Snssai \<Rightarrow> u8 \<Rightarrow> u8 list" where
  "RejectedSnssaiToNas s cause =
     (if mSd s = [] then [push_bit 4 0x01 + cause, word_of_int (mSst s)]
      else [push_bit 4 0x04 + cause, word_of_int (mSst s)] @ fst (DecodeString (mSd s)))"

text \<open>The length octet and the contents.\<close>

definition RejectedNssaiToNas :: "Snssai list \<Rightarrow> Snssai list \<Rightarrow> u8 \<times> u8 list" where
  "RejectedNssaiToNas inPlmn inTa =
     (let b = concat (map (\<lambda>s. RejectedSnssaiToNas s 0x00) inPlmn) @ concat (map (\<lambda>s. RejectedSnssaiToNas s 0x01) inTa)
      in (of_nat (length b), b))"

definition requestedSnssaiToModels :: "u8 list \<Rightarrow> (Snssai \<times> nat) res" where
  "requestedSnssaiToModels buf =
     (if buf = [] then Inl Panic
      else if buf ! 0 = 0x01 then
        (if length buf < 2 then Inl Panic else Inr (\<lparr>mSst = uint (buf ! 1), mSd = []\<rparr>, 2))
      else if buf ! 0 = 0x04 then
        (if length buf < 5 then Inl Panic else Inr (\<lparr>mSst = uint (buf ! 1), mSd = EncodeToString (take 3 (drop 2 buf))\<rparr>, 5))
      else Inr (\<lparr>mSst = 0, mSd = []\<rparr>, 0))"

text \<open>The loop may run forever; then its value is \<open>None\<close>.\<close>

partial_function (option) nssai_loop :: "u8 list \<Rightarrow> nat \<Rightarrow> Snssai list \<Rightarrow> Snssai list res option" where
  "nssai_loop buf off nssai =
     (if off < length buf then
        case requestedSnssaiToModels (drop off buf) of
          Inl e \<Rightarrow> Some (Inl e)
        | Inr p \<Rightarrow> nssai_loop buf (off + snd p) (nssai @ [fst p])
      else Some (Inr nssai))"

definition RequestedNssaiToModels :: "u8 list \<Rightarrow> Snssai list res option" where
  "RequestedNssaiToModels buf = nssai_loop buf 0 []"

section \<open>Local area data networks\<close>

partial_function (option) ladn_loop :: "u8 list \<Rightarrow> nat \<Rightarrow> u8 list list \<Rightarrow> u8 list list res option" where
  "ladn_loop buf off dnns =
     (if off < length buf then
        let n = unat (buf ! off) in
        if off + n > length buf then Some (Inl Panic)
        else ladn_loop buf (off + n) (dnns @ [take n (drop off buf)])
      else Some (Inr dnns))"

definition LadnToModels :: "u8 list \<Rightarrow> u8 list list res option" where
  "LadnToModels buf = ladn_loop buf 1 []"

section \<open>Session types and status\<close>

datatype PduSessionType = NoSessionType | IPV4 | IPV6 | IPV4_V6 | UNSTRUCTURED | ETHERNET

definition PDUSessionTypeToModels :: "u8 \<Rightarrow> PduSessionType" where
  "PDUSessionTypeToModels t =
     (if t = 1 then IPV4 else if t = 2 then IPV6 else if t = 3 then IPV4_V6 else if t = 4 then UNSTRUCTURED
      else if t = 5 then ETHERNET else NoSessionType)"

fun ModelsToPDUSessionType :: "PduSessionType \<Rightarrow> u8" where
  "ModelsToPDUSessionType IPV4 = 1"
| "ModelsToPDUSessionType IPV6 = 2"
| "ModelsToPDUSessionType IPV4_V6 = 3"
| "ModelsToPDUSessionType UNSTRUCTURED = 4"
| "ModelsToPDUSessionType ETHERNET = 5"
| "ModelsToPDUSessionType NoSessionType = 0"

definition PSIToBooleanArray :: "u8 list \<Rightarrow> bool list" where
  "PSIToBooleanArray buf =
     (if length buf < 2 then replicate 16 False
      else map (\<lambda>i. (buf ! (i div 8)) AND push_bit (i mod 8) 1 \<noteq> 0) [0..<16])"

definition PSIToBuf :: "bool list \<Rightarrow> u8 list" where
  "PSIToBuf a = fold (\<lambda>i buf. if a ! i then buf[i div 8 := buf ! (i div 8) OR push_bit (i mod 8) 1] else buf) [0..<16] [0, 0]"

definition PDUSessionReactivationResultErrorCauseToBuf :: "u8 list option \<Rightarrow> u8 list \<Rightarrow> u8 list" where
  "PDUSessionReactivationResultErrorCauseToBuf ids causes =
     (case ids of None \<Rightarrow> []
      | Some l \<Rightarrow> if length l \<noteq> length causes then [] else concat (map (\<lambda>(i, c). [i, c]) (zip l causes)))"

section \<open>Timers\<close>

definition GPRSTimer2ToNas :: "int \<Rightarrow> u8" where
  "GPRSTimer2ToNas v =
     (if v \<le> 64 then if v smod 2 \<noteq> 0 then 0 else word_of_int (v sdiv 2)
      else
        let t = (word_of_int (v sdiv 60) :: u8) in
        if t \<le> 31 then 0x20 + t
        else if t mod 6 \<noteq> 0 then 0 else 0x40 + t div 6)"

definition GPRSTimer3ToNas :: "int \<Rightarrow> u8" where
  "GPRSTimer3ToNas v =
     (if v \<le> 2 * 31 then push_bit 5 3 + word_of_int (v sdiv 2)
      else if v \<le> 30 * 31 then push_bit 5 4 + word_of_int (v sdiv 30)
      else if v \<le> 60 * 31 then push_bit 5 5 + word_of_int (v sdiv 60)
      else if v \<le> 600 * 31 then push_bit 5 0 + word_of_int (v sdiv 600)
      else if v \<le> 3600 * 31 then push_bit 5 1 + word_of_int (v sdiv 3600)
      else push_bit 5 2 + word_of_int (v sdiv 36000))"

section \<open>Protocol configuration options\<close>

record ProtocolOrContainerUnit =
  ProtocolOrContainerID :: u16
  LengthofContents :: u8
  Contents :: "u8 list"

datatype PCOReadingState = ReadingID | ReadingLength | ReadingContent

definition NewProtocolOrContainerUnit :: ProtocolOrContainerUnit where
  "NewProtocolOrContainerUnit = \<lparr>ProtocolOrContainerID = 0, LengthofContents = 0, Contents = []\<rparr>"

definition be16_bytes :: "u16 \<Rightarrow> u8 list" where
  "be16_bytes v = [ucast (drop_bit 8 v), ucast v]"

definition pco_Marshal :: "ProtocolOrContainerUnit list \<Rightarrow> u8 list" where
  "pco_Marshal us =
     [push_bit 7 1 OR push_bit 6 0 OR 0] @
     concat (map (\<lambda>u. be16_bytes (ProtocolOrContainerID u) @ [LengthofContents u] @ Contents u) us)"

text \<open>
  The loop of \<^verbatim>\<open>UnMarshal\<close>: the state, the unit being read, the bytes not read yet, the counter, and the
  units read so far. \<^verbatim>\<open>binary.Read\<close> fails when bytes are missing.
\<close>

definition read_error :: "u8 list \<Rightarrow> go_err option" where
  "read_error bytes = Some (Fail (if bytes = [] then ''EOF'' else ''unexpected EOF''))"

function pco_loop :: "PCOReadingState \<Rightarrow> ProtocolOrContainerUnit \<Rightarrow> u8 list \<Rightarrow> int \<Rightarrow> ProtocolOrContainerUnit list \<Rightarrow>
    ProtocolOrContainerUnit list \<times> go_err option" where
  "pco_loop state cur bytes n us =
     (if n \<le> 0 then (us, None)
      else case state of
        ReadingID \<Rightarrow>
          if length bytes < 2 then (us, read_error bytes)
          else pco_loop ReadingLength
                 (NewProtocolOrContainerUnit\<lparr>ProtocolOrContainerID := ucast (bytes ! 0) * 256 + ucast (bytes ! 1)\<rparr>) (drop 2 bytes) (n - 2) us
      | ReadingLength \<Rightarrow>
          if length bytes < 1 then (us, read_error bytes)
          else
            let cur = cur\<lparr>LengthofContents := bytes ! 0\<rparr>
            in pco_loop ReadingContent cur (drop 1 bytes) (n - 1) (if LengthofContents cur = 0 then us @ [cur] else us)
      | ReadingContent \<Rightarrow>
          let l = unat (LengthofContents cur) in
          if l = 0 then pco_loop ReadingID cur bytes n us
          else if length bytes < l then (us, read_error bytes)
          else pco_loop ReadingID (cur\<lparr>Contents := take l bytes\<rparr>) (drop l bytes) (n - int l) (us @ [cur\<lparr>Contents := take l bytes\<rparr>]))"
  by pat_completeness auto

termination pco_loop
  by (relation "measure (\<lambda>(state, cur, bytes, n, us). 2 * nat n + (if state = ReadingContent then 1 else 0))")
    (auto simp: less_Suc_eq_le nat_le_eq_zle)

definition pco_UnMarshal :: "u8 list \<Rightarrow> ProtocolOrContainerUnit list \<Rightarrow> ProtocolOrContainerUnit list \<times> go_err option" where
  "pco_UnMarshal data us =
     (if data = [] then (us, read_error data)
      else pco_loop ReadingID NewProtocolOrContainerUnit (tl data) (int (length data) - 1) us)"

definition pco_unit :: "u16 \<Rightarrow> u8 list \<Rightarrow> ProtocolOrContainerUnit" where
  "pco_unit i c = \<lparr>ProtocolOrContainerID = i, LengthofContents = of_nat (length c), Contents = c\<rparr>"

definition AddDNSServerIPv4AddressRequest :: "ProtocolOrContainerUnit list \<Rightarrow> ProtocolOrContainerUnit list" where
  "AddDNSServerIPv4AddressRequest us = us @ [pco_unit 0x000d []]"

definition AddDNSServerIPv6AddressRequest :: "ProtocolOrContainerUnit list \<Rightarrow> ProtocolOrContainerUnit list" where
  "AddDNSServerIPv6AddressRequest us = us @ [pco_unit 0x0003 []]"

definition AddIPAddressAllocationViaNASSignallingUL :: "ProtocolOrContainerUnit list \<Rightarrow> ProtocolOrContainerUnit list" where
  "AddIPAddressAllocationViaNASSignallingUL us = us @ [pco_unit 0x000a []]"

text \<open>An address is given by its 4 or 16 octets; \<^verbatim>\<open>To4\<close> also takes the IPv4 addresses in IPv6 form.\<close>

definition To4 :: "u8 list \<Rightarrow> u8 list option" where
  "To4 ip = (if length ip = 4 then Some ip
     else if length ip = 16 \<and> take 12 ip = replicate 10 0 @ [0xff, 0xff] then Some (drop 12 ip) else None)"

definition AddDNSServerIPv4Address :: "u8 list \<Rightarrow> ProtocolOrContainerUnit list \<Rightarrow> ProtocolOrContainerUnit list \<times> go_err option" where
  "AddDNSServerIPv4Address ip us =
     (case To4 ip of None \<Rightarrow> (us, Some (Fail ''The DNS IP should be IPv4 in AddDNSServerIPv4Address!''))
      | Some a \<Rightarrow> (us @ [pco_unit 0x000d a], None))"

definition AddDNSServerIPv6Address :: "u8 list \<Rightarrow> ProtocolOrContainerUnit list \<Rightarrow> ProtocolOrContainerUnit list \<times> go_err option" where
  "AddDNSServerIPv6Address ip us =
     (if length ip \<noteq> 4 \<and> length ip \<noteq> 16 then (us, Some (Fail ''The DNS IP should be IPv6 in AddDNSServerIPv6Address!''))
      else if length ip \<noteq> 16 then (us, Some (Fail ''The length of DNS IPv6 is wrong!''))
      else (us @ [pco_unit 0x0003 ip], None))"


section \<open>Tracking areas\<close>

record Tai =
  taiPlmn :: "string \<times> string"
  taiTac :: string

definition tacs_of :: "Tai list \<Rightarrow> u8 list" where
  "tacs_of l = concat (map (\<lambda>t. fst (DecodeString (taiTac t))) l)"

fun tais_with_plmn :: "Tai list \<Rightarrow> u8 list res" where
  "tais_with_plmn [] = Inr []"
| "tais_with_plmn (t # l) =
     rbind (PlmnIDToNas (fst (taiPlmn t)) (snd (taiPlmn t))) (\<lambda>p.
     rbind (tais_with_plmn l) (\<lambda>r. Inr (p @ fst (DecodeString (taiTac t)) @ r)))"

definition TaiListToNas :: "Tai list \<Rightarrow> u8 list res" where
  "TaiListToNas l =
     (case l of [] \<Rightarrow> Inl Panic
      | t # _ \<Rightarrow>
          let plmn = taiPlmn t;
              typeOfList = (if list_all (\<lambda>t. taiPlmn t = plmn) l then 0x00 else 0x02 :: u8);
              first = push_bit 5 typeOfList + (of_nat (length l) - 1)
          in if typeOfList = 0x00 then rbind (PlmnIDToNas (fst plmn) (snd plmn)) (\<lambda>p. Inr (first # p @ tacs_of l))
             else rbind (tais_with_plmn l) (\<lambda>r. Inr (first # r)))"

definition LadnToNas :: "u8 list \<Rightarrow> Tai list \<Rightarrow> u8 list res" where
  "LadnToNas dnn l =
     rbind (TaiListToNas l) (\<lambda>t. Inr ([of_nat (length dnn)] @ dnn @ [of_nat (length t)] @ t))"

text \<open>The areas are given by their lists of tracking area codes.\<close>

definition PartialServiceAreaListToNas :: "string \<times> string \<Rightarrow> bool \<Rightarrow> string list list \<Rightarrow> u8 list res" where
  "PartialServiceAreaListToNas plmn allowed areas =
     (let allowedType = (if allowed then 0x00 else 0x01 :: u8);
          firstByte = (push_bit 7 allowedType AND 0x80) + of_nat (length areas)
      in rbind (PlmnIDToNas (fst plmn) (snd plmn)) (\<lambda>p.
           Inr (firstByte # p @ concat (map (\<lambda>tacs. concat (map (\<lambda>t. fst (DecodeString t)) tacs)) areas))))"

section \<open>GUTI\<close>

text \<open>The setters of \<^verbatim>\<open>nasType.GUTI5G\<close> on its octets.\<close>

definition set_low :: "nat \<Rightarrow> u8 \<Rightarrow> u8 list \<Rightarrow> u8 list" where
  "set_low i v os = os[i := (os ! i AND 240) + (v AND 15)]"

definition set_high :: "nat \<Rightarrow> u8 \<Rightarrow> u8 list \<Rightarrow> u8 list" where
  "set_high i v os = os[i := (os ! i AND 15) + push_bit 4 (v AND 15)]"

definition SetAMFSetID :: "u16 \<Rightarrow> u8 list \<Rightarrow> u8 list" where
  "SetAMFSetID v os = os[5 := ucast (drop_bit 2 v) AND 255, 6 := (os ! 6 AND 0) + push_bit 6 (ucast (v AND 3))]"

definition SetAMFPointer :: "u8 \<Rightarrow> u8 list \<Rightarrow> u8 list" where
  "SetAMFPointer v os = os[6 := (os ! 6 AND 192) + (v AND 63)]"

definition GutiToNas :: "string \<Rightarrow> u8 list res" where
  "GutiToNas guti =
     (if length guti < 5 then Inl Panic
      else
        let os = replicate 11 (0 :: u8);
            os = os[0 := (os ! 0 AND 247) + push_bit 3 (0 AND 1)];
            os = os[0 := (os ! 0 AND 248) + (0x02 AND 7)];
            digit = (\<lambda>i. of_nat (atoi1 (guti ! i)) :: u8)
        in if length guti \<noteq> 20 \<and> length guti < 11 then Inl Panic
           else
             let (mnc3, amfId, tmsi) = (if length guti = 20 then (digit 5, take 6 (drop 6 guti), drop 12 guti)
                                        else (0x0f, take 6 (drop 5 guti), drop 11 guti));
                 os = set_high 3 (digit 4) (set_low 3 (digit 3) (set_low 2 (digit 2) (set_high 1 (digit 1) (set_low 1 (digit 0) os))));
                 os = set_high 2 mnc3 os
             in rbind (AmfIdToNas amfId) (\<lambda>(region, setId, pointer).
                  let os = SetAMFPointer pointer (SetAMFSetID setId (os[4 := region]));
                      t = take 4 (fst (DecodeString tmsi))
                  in Inr (take 7 os @ t @ drop (7 + length t) os)))"

section \<open>Equipment identities\<close>

definition PeiToString :: "u8 list \<Rightarrow> string res" where
  "PeiToString buf =
     (case buf of [] \<Rightarrow> Inl Panic
      | b # r \<Rightarrow>
          let prefix = (if b AND 0x07 = 0x03 then ''imei-'' else ''imeisv-'');
              odd = drop_bit 3 (b AND 0x08);
              tmp = fold (\<lambda>x t. butlast t @ [last t + (x AND 0x0f), x AND 0xf0]) r [b AND 0xf0];
              d = butlast (EncodeToString tmp)
          in Inr (prefix @ (if odd = 0 then butlast d else d)))"

section \<open>Names of networks\<close>

text \<open>\<open>1 << (ub - lb)\<close> is computed on octets.\<close>

definition GetBitMask :: "u8 \<Rightarrow> u8 \<Rightarrow> u8" where
  "GetBitMask ub lb = push_bit (unat lb) (push_bit (unat (ub - lb)) 1 - 1)"

text \<open>The loop of \<^verbatim>\<open>FullNetworkNameToNas\<close> after the first character: the shift and the octets so far.\<close>

fun pack_chars :: "u8 list \<Rightarrow> u8 \<Rightarrow> u8 list \<Rightarrow> u8 list" where
  "pack_chars [] idx buf = buf"
| "pack_chars (c # cs) idx buf =
     (let buf = butlast buf @ [(last buf AND GetBitMask (idx + 1) 0) + push_bit (unat idx) c];
          buf = buf @ [drop_bit (unat (8 - idx)) c];
          idx = idx - 1
      in pack_chars cs (if idx = 255 then 7 else idx) buf)"

text \<open>The length, the number of spare bits in the last octet and the text.\<close>

definition FullNetworkNameToNas :: "u8 list \<Rightarrow> u8 \<times> u8 \<times> u8 list" where
  "FullNetworkNameToNas name =
     (let numOfSpareBits = 8 - (7 * length name) mod 8;
          buf = (case name of [] \<Rightarrow> [] | c # cs \<Rightarrow> pack_chars cs 7 [c])
      in (of_nat (1 + length buf), of_nat numOfSpareBits AND 7, buf))"

section \<open>Reading a list of slices\<close>

definition snssai_ok :: "Snssai \<Rightarrow> bool" where
  "snssai_ok s \<longleftrightarrow> 0 \<le> mSst s \<and> mSst s < 256 \<and>
     (mSd s = [] \<or> length (fst (DecodeString (mSd s))) = 3 \<and> EncodeToString (fst (DecodeString (mSd s))) = mSd s)"

lemma requested_read_back:
  assumes "snssai_ok s"
  shows "requestedSnssaiToModels (SnssaiToNas s @ rest) = Inr (s, length (SnssaiToNas s))"
proof (cases "mSd s = []")
  case True
  then show ?thesis
    using assms by (cases s) (simp add: requestedSnssaiToModels_def SnssaiToNas_def snssai_ok_def uint_word_of_int_eq take_bit_int_eq_self)
next
  case False
  then show ?thesis
    using assms by (cases s) (simp add: requestedSnssaiToModels_def SnssaiToNas_def snssai_ok_def uint_word_of_int_eq take_bit_int_eq_self)
qed

lemma nssai_loop_reads:
  assumes "\<forall>s \<in> set ss. snssai_ok s" and "drop off buf = concat (map SnssaiToNas ss) @ rest"
  shows "nssai_loop buf off acc = nssai_loop buf (off + length (concat (map SnssaiToNas ss))) (acc @ ss)"
  using assms
proof (induction ss arbitrary: off acc)
  case (Cons s ss)
  let ?n = "length (SnssaiToNas s)"
  have pos: "off < length buf"
    using Cons.prems(2) by (cases "off < length buf") (auto simp: SnssaiToNas_def split: if_splits)
  have step: "nssai_loop buf off acc = nssai_loop buf (off + ?n) (acc @ [s])"
    using pos Cons.prems requested_read_back [of s "concat (map SnssaiToNas ss) @ rest"]
    by (subst nssai_loop.simps) simp
  have "drop (off + ?n) buf = concat (map SnssaiToNas ss) @ rest"
    using Cons.prems(2) by (simp flip: drop_drop add: add.commute [of off])
  with Cons.IH [of "off + ?n" "acc @ [s]"] Cons.prems(1) step show ?case
    by (simp add: add.assoc)
qed simp

text \<open>
  C36: a list of slices encoded element by element is read back as it was, and reading ends.
\<close>

theorem requested_nssai_read_back:
  assumes "\<forall>s \<in> set ss. snssai_ok s"
  shows "RequestedNssaiToModels (concat (map SnssaiToNas ss)) = Some (Inr ss)"
proof -
  let ?buf = "concat (map SnssaiToNas ss)"
  have "nssai_loop ?buf 0 [] = nssai_loop ?buf (0 + length ?buf) ([] @ ss)"
    by (rule nssai_loop_reads [where rest = "[]", OF assms]) simp_all
  also have "\<dots> = Some (Inr ss)"
    by (subst nssai_loop.simps) simp
  finally show ?thesis by (simp add: RequestedNssaiToModels_def)
qed

lemma requested_nssai_read_back_witness:
  "RequestedNssaiToModels [1, 3, 4, 1, 0x11, 0x22, 0x33] = Some (Inr [\<lparr>mSst = 3, mSd = []\<rparr>, \<lparr>mSst = 1, mSd = ''112233''\<rparr>])"
proof -
  have "\<forall>s \<in> set [\<lparr>mSst = 3, mSd = []\<rparr>, \<lparr>mSst = 1, mSd = ''112233''\<rparr>]. snssai_ok s"
    and "concat (map SnssaiToNas [\<lparr>mSst = 3, mSd = []\<rparr>, \<lparr>mSst = 1, mSd = ''112233''\<rparr>]) = [1, 3, 4, 1, 0x11, 0x22, 0x33]"
    by code_simp+
  with requested_nssai_read_back show ?thesis by metis
qed

lemma nssai_loop_stuck:
  assumes "off < length buf" and "buf ! off \<notin> {1, 4}"
  shows "nssai_loop buf off acc = None"
proof (rule ccontr)
  assume "nssai_loop buf off acc \<noteq> None"
  then obtain y where "nssai_loop buf off acc = Some y" by blast
  then have "\<not> (off < length buf \<and> buf ! off \<notin> {1, 4})"
  proof (induction rule: nssai_loop.raw_induct [rotated, where P = "\<lambda>b k a y. \<not> (k < length b \<and> b ! k \<notin> {1, 4})", consumes 1])
    case (1 f b k a y)
    show ?case
    proof
      assume "k < length b \<and> b ! k \<notin> {1, 4}"
      then show False using 1 by (auto simp: requestedSnssaiToModels_def)
    qed
  qed
  with assms show False by blast
qed


text \<open>
  C37: reading requested slices does not end on every input: a slice whose length octet is neither 1 nor
  4, after any number of slices of a supported length, makes the loop run forever.
\<close>

theorem requested_nssai_diverges:
  assumes "\<forall>s \<in> set ss. snssai_ok s" and "b \<notin> {1, 4}"
  shows "RequestedNssaiToModels (concat (map SnssaiToNas ss) @ b # rest) = None"
proof -
  let ?l = "length (concat (map SnssaiToNas ss))" and ?buf = "concat (map SnssaiToNas ss) @ b # rest"
  have "nssai_loop ?buf 0 [] = nssai_loop ?buf (0 + ?l) ([] @ ss)"
    by (rule nssai_loop_reads [OF assms(1)]) simp
  also have "\<dots> = None"
    using assms(2) by (intro nssai_loop_stuck) (simp_all add: nth_append)
  finally show ?thesis by (simp add: RequestedNssaiToModels_def)
qed

lemma requested_nssai_diverges_witness: "RequestedNssaiToModels [1, 3, 2, 1, 1] = None"
proof -
  have "\<forall>s \<in> set [\<lparr>mSst = 3, mSd = []\<rparr>]. snssai_ok s" and "concat (map SnssaiToNas [\<lparr>mSst = 3, mSd = []\<rparr>]) = [1, 3]"
    by code_simp+
  then show ?thesis
    using requested_nssai_diverges [of "[\<lparr>mSst = 3, mSd = []\<rparr>]" 2 "[1, 1]"] by simp
qed

text \<open>A zero octet makes the reader of local area data networks run forever too.\<close>

lemma ladn_loop_stuck:
  assumes "off < length buf" and "buf ! off = 0"
  shows "ladn_loop buf off acc = None"
proof (rule ccontr)
  assume "ladn_loop buf off acc \<noteq> None"
  then obtain y where "ladn_loop buf off acc = Some y" by blast
  then have "\<not> (off < length buf \<and> buf ! off = 0)"
  proof (induction rule: ladn_loop.raw_induct [rotated, where P = "\<lambda>b k a y. \<not> (k < length b \<and> b ! k = 0)", consumes 1])
    case (1 f b k a y)
    show ?case
    proof
      assume "k < length b \<and> b ! k = 0"
      then show False using 1 by (auto simp: Let_def)
    qed
  qed
  with assms show False by blast
qed

text \<open>
  The network name is cut out with its length octet and without its last octet, so what an encoder
  wrote is not read back.
\<close>

lemma ladn_includes_length: "LadnToModels [0, 2, 0x61, 0x62] = Some (Inl Panic)"
  unfolding LadnToModels_def by (subst ladn_loop.simps, simp, subst ladn_loop.simps, simp)

section \<open>Protocol configuration options are read back\<close>

definition pcu_ok :: "ProtocolOrContainerUnit \<Rightarrow> bool" where
  "pcu_ok u \<longleftrightarrow> unat (LengthofContents u) = length (Contents u)"

lemma be16_read: "ucast (be16_bytes v ! 0) * 256 + ucast (be16_bytes v ! Suc 0) = (v :: u16)"
proof -
  have "(ucast (be16_bytes v ! 0) * 256 + ucast (be16_bytes v ! Suc 0) :: u16) =
      push_bit 8 (ucast (ucast (drop_bit 8 v) :: u8)) + ucast (ucast v :: u8)"
    by (simp add: be16_bytes_def push_bit_eq_mult)
  also have "\<dots> = push_bit 8 (ucast (ucast (drop_bit 8 v) :: u8)) OR ucast (ucast v :: u8)"
    by (rule disjunctive_add) (auto simp: bit_simps)
  also have "\<dots> = v"
    by (rule bit_word_eqI) (auto simp: bit_simps)
  finally show ?thesis .
qed

declare pco_loop.simps [simp del]

lemma pco_loop_cur: "pco_loop ReadingID c bytes n us = pco_loop ReadingID c' bytes n us"
  by (subst (1 2) pco_loop.simps) simp

lemma pco_loop_content:
  "0 < l \<Longrightarrow> unat (LengthofContents c) = l \<Longrightarrow> length d = l \<Longrightarrow> 0 < n \<Longrightarrow>
   pco_loop ReadingContent c (d @ rest) n us = pco_loop ReadingID (c\<lparr>Contents := d\<rparr>) rest (n - int l) (us @ [c\<lparr>Contents := d\<rparr>])"
  by (subst pco_loop.simps) auto

lemma pco_loop_unit:
  assumes "pcu_ok u"
  shows "pco_loop ReadingID cur (be16_bytes (ProtocolOrContainerID u) @ [LengthofContents u] @ Contents u @ rest)
      (int (length (Contents u)) + 3 + int (length rest)) us = pco_loop ReadingID cur rest (int (length rest)) (us @ [u])"
proof -
  let ?l = "length (Contents u)"
  let ?c1 = "NewProtocolOrContainerUnit\<lparr>ProtocolOrContainerID := ProtocolOrContainerID u\<rparr>"
  let ?c2 = "?c1\<lparr>LengthofContents := LengthofContents u\<rparr>"
  have two: "length (be16_bytes v) = 2" for v by (simp add: be16_bytes_def)
  have l: "unat (LengthofContents u) = ?l" using assms by (simp add: pcu_ok_def)
  have "pco_loop ReadingID cur (be16_bytes (ProtocolOrContainerID u) @ [LengthofContents u] @ Contents u @ rest)
      (int ?l + 3 + int (length rest)) us =
    pco_loop ReadingLength ?c1 ([LengthofContents u] @ Contents u @ rest) (int ?l + 1 + int (length rest)) us"
    by (subst pco_loop.simps) (simp add: two nth_append be16_read, simp add: ac_simps)
  also have "\<dots> = pco_loop ReadingContent ?c2 (Contents u @ rest) (int ?l + int (length rest))
      (if LengthofContents u = 0 then us @ [?c2] else us)"
    by (subst pco_loop.simps) (simp add: Let_def)
  also have "\<dots> = pco_loop ReadingID cur rest (int (length rest)) (us @ [u])"
  proof (cases "?l = 0")
    case True
    then have "LengthofContents u = 0" using l by (metis unat_eq_zero)
    moreover from this True have "?c2 = u" by (cases u) (simp add: NewProtocolOrContainerUnit_def)
    ultimately show ?thesis
      using True pco_loop_cur by (subst pco_loop.simps) (auto simp: pco_loop.simps [of ReadingID])
  next
    case False
    then have "0 < ?l" "0 < int ?l + int (length rest)" by linarith+
    moreover have "LengthofContents u \<noteq> 0" using l False by auto
    moreover have u: "?c2\<lparr>Contents := Contents u\<rparr> = u" by (cases u) (simp add: NewProtocolOrContainerUnit_def)
    ultimately have "pco_loop ReadingContent ?c2 (Contents u @ rest) (int ?l + int (length rest)) us =
        pco_loop ReadingID u rest (int (length rest)) (us @ [u])"
      using pco_loop_content [of ?l ?c2 "Contents u" "int ?l + int (length rest)" rest us] l unfolding u by simp
    with \<open>LengthofContents u \<noteq> 0\<close> show ?thesis
      using pco_loop_cur by simp
  qed
  finally show ?thesis .
qed

lemma pco_loop_units:
  "\<forall>u \<in> set vs. pcu_ok u \<Longrightarrow> pco_loop ReadingID cur (concat (map (\<lambda>u. be16_bytes (ProtocolOrContainerID u) @ [LengthofContents u] @ Contents u) vs))
     (int (length (concat (map (\<lambda>u. be16_bytes (ProtocolOrContainerID u) @ [LengthofContents u] @ Contents u) vs)))) us = (us @ vs, None)"
proof (induction vs arbitrary: us)
  case Nil
  then show ?case by (subst pco_loop.simps) simp
next
  case (Cons u vs)
  have two: "length (be16_bytes v) = 2" for v by (simp add: be16_bytes_def)
  show ?case
    using pco_loop_unit [of u cur "concat (map (\<lambda>u. be16_bytes (ProtocolOrContainerID u) @ [LengthofContents u] @ Contents u) vs)" us]
      Cons by (simp add: two ac_simps)
qed

text \<open>
  C38: protocol configuration options are read back as they were written, for any list of containers
  whose length octet is the length of their contents, and are appended to those already present.
\<close>

theorem pco_round_trip:
  assumes "\<forall>u \<in> set vs. pcu_ok u"
  shows "pco_UnMarshal (pco_Marshal vs) us = (us @ vs, None)"
  using pco_loop_units [OF assms] by (simp add: pco_UnMarshal_def pco_Marshal_def)

lemma pco_round_trip_witness:
  "pco_UnMarshal (pco_Marshal (fst (AddDNSServerIPv4Address [8, 8, 8, 8] (AddDNSServerIPv4AddressRequest [])))) [] =
     ([pco_unit 0x000d [], pco_unit 0x000d [8, 8, 8, 8]], None)"
  using pco_round_trip [of "[pco_unit 0x000d [], pco_unit 0x000d [8, 8, 8, 8]]" "[]"]
  by (simp add: AddDNSServerIPv4Address_def AddDNSServerIPv4AddressRequest_def To4_def pcu_ok_def pco_unit_def)

text \<open>Options cut off after an identifier or a length are accepted without an error, and the container is lost.\<close>

lemma truncated_pco_accepted: "pco_UnMarshal [0x80, 0, 13] [] = ([], None)" "pco_UnMarshal [0x80, 0, 13, 4] [] = ([], None)"
  unfolding pco_UnMarshal_def by (simp_all add: pco_loop.simps)

section \<open>Status bit maps\<close>

lemma psi_fold:
  fixes a :: "bool list"
  assumes "n \<le> 16"
  defines "buf \<equiv> fold (\<lambda>i buf. if a ! i then buf[i div 8 := buf ! (i div 8) OR push_bit (i mod 8) 1] else buf) [0..<n] [0, 0 :: u8]"
  shows "length buf = 2 \<and> (\<forall>i < 16. bit (buf ! (i div 8)) (i mod 8) = (i < n \<and> a ! i))"
  using assms(1) unfolding buf_def
proof (induction n)
  case 0
  have "[0, 0 :: u8] ! (i div 8) = 0" if "i < 16" for i
    using that by (cases "i div 8 = 0") (auto simp: div_eq_0_iff nth_Cons' le_div_geq)
  then show ?case by simp
next
  case (Suc n)
  let ?f = "\<lambda>i buf. if a ! i then buf[i div 8 := buf ! (i div 8) OR push_bit (i mod 8) 1] else buf"
  let ?b = "fold ?f [0..<n] [0, 0 :: u8]"
  have b: "length ?b = 2" "\<forall>i < 16. bit (?b ! (i div 8)) (i mod 8) = (i < n \<and> a ! i)"
    using Suc by simp_all
  have eq: "i div 8 = n div 8 \<Longrightarrow> i mod 8 = n mod 8 \<Longrightarrow> i = n" for i
    by (metis div_mult_mod_eq)
  have n: "n div 8 < 2" using Suc.prems by simp
  have "bit (?f n ?b ! (i div 8)) (i mod 8) = (i < Suc n \<and> a ! i)" if "i < 16" for i
  proof (cases "i = n")
    case True
    then show ?thesis using b that n by (simp add: bit_simps)
  next
    case False
    then have "i < Suc n \<longleftrightarrow> i < n" by auto
    moreover have "bit (?f n ?b ! (i div 8)) (i mod 8) = bit (?b ! (i div 8)) (i mod 8)"
    proof (cases "i div 8 = n div 8")
      case True
      then have "i mod 8 \<noteq> n mod 8" using eq False by blast
      with True show ?thesis using b(1) n by (auto simp: bit_simps)
    qed simp
    ultimately show ?thesis using b(2) that by simp
  qed
  then show ?case using b(1) by simp
qed

text \<open>
  The status of the sixteen sessions is read back from its two octets as it was written.
\<close>

theorem psi_round_trip:
  assumes "length a = 16"
  shows "PSIToBooleanArray (PSIToBuf a) = a"
proof -
  have b: "length (PSIToBuf a) = 2" "\<forall>i < 16. bit (PSIToBuf a ! (i div 8)) (i mod 8) = a ! i"
    using psi_fold [of 16 a] by (simp_all add: PSIToBuf_def)
  show ?thesis
    using b assms unfolding PSIToBooleanArray_def bit_iff_and_push_bit_not_eq_0 [symmetric]
    by (intro nth_equalityI) simp_all
qed

lemma psi_round_trip_witness: "PSIToBooleanArray (PSIToBuf (True # replicate 15 False)) = True # replicate 15 False"
  by (rule psi_round_trip) simp

section \<open>Timers\<close>

text \<open>What the octets of a GPRS timer 3 mean (TS 24.008 10.5.7.4a), in seconds.\<close>

definition timer3_seconds :: "u8 \<Rightarrow> int" where
  "timer3_seconds b = [600, 3600, 36000, 2, 30, 60, 1152000, 0] ! unat (drop_bit 5 b) * uint (b AND 0x1f)"

lemma timer3_parts:
  assumes "0 \<le> t" and "t < 32" and "u < 6"
  shows "timer3_seconds (push_bit 5 (of_nat u) + word_of_int t) = [600, 3600, 36000, 2, 30, 60, 1152000, 0] ! u * t"
proof -
  have "list_all (\<lambda>u. list_all (\<lambda>k. timer3_seconds (push_bit 5 (of_nat u) + word_of_int (int k)) =
      [600, 3600, 36000, 2, 30, 60, 1152000, 0] ! u * int k) [0..<32]) [0..<6]"
    by code_simp
  moreover have "nat t \<in> set [0..<32]" "u \<in> set [0..<6]" and "t = int (nat t)"
    using assms by auto
  ultimately show ?thesis unfolding list_all_iff by metis
qed

text \<open>
  A GPRS timer 3 never exceeds the configured number of seconds, and falls short of it by less than
  the unit that was chosen, for every duration up to 310 hours.
\<close>

theorem gprs_timer3_bounds:
  assumes "0 \<le> v" and "v \<le> 36000 * 31"
  shows "timer3_seconds (GPRSTimer3ToNas v) \<le> v \<and>
    v < timer3_seconds (GPRSTimer3ToNas v) +
      (if v \<le> 62 then 2 else if v \<le> 930 then 30 else if v \<le> 1860 then 60 else if v \<le> 18600 then 600 else if v \<le> 111600 then 3600 else 36000)"
proof -
  have q: "v sdiv d = v div d \<and> d * (v div d) \<le> v \<and> v < d * (v div d) + d \<and> 0 \<le> v div d" if "0 < d" for d
  proof -
    have e: "d * (v div d) + v mod d = v" by simp
    have "v mod d < d" "0 \<le> v mod d" using that by simp_all
    then have "d * (v div d) \<le> v" "v < d * (v div d) + d"
      using e by linarith+
    moreover have "v sdiv d = v div d"
      using assms(1) that by (cases "v = 0") (simp_all add: signed_divide_int_def)
    ultimately show ?thesis
      using assms(1) that by (simp add: pos_imp_zdiv_nonneg_iff)
  qed
  consider "v \<le> 62" | "62 < v" "v \<le> 930" | "930 < v" "v \<le> 1860" | "1860 < v" "v \<le> 18600" | "18600 < v" "v \<le> 111600" | "111600 < v"
    by linarith
  then show ?thesis
  proof cases
    case 1
    then have "GPRSTimer3ToNas v = push_bit 5 (of_nat 3) + word_of_int (v div 2)" "v div 2 < 32"
      using q [of 2] by (simp_all add: GPRSTimer3ToNas_def)
    then show ?thesis using 1 q [of 2] timer3_parts [of "v div 2" 3] by simp
  next
    case 2
    then have "GPRSTimer3ToNas v = push_bit 5 (of_nat 4) + word_of_int (v div 30)" "v div 30 < 32"
      using q [of 30] by (simp_all add: GPRSTimer3ToNas_def)
    then show ?thesis using 2 q [of 30] timer3_parts [of "v div 30" 4] by simp
  next
    case 3
    then have "GPRSTimer3ToNas v = push_bit 5 (of_nat 5) + word_of_int (v div 60)" "v div 60 < 32"
      using q [of 60] by (simp_all add: GPRSTimer3ToNas_def)
    then show ?thesis using 3 q [of 60] timer3_parts [of "v div 60" 5] by simp
  next
    case 4
    then have "GPRSTimer3ToNas v = push_bit 5 (of_nat 0) + word_of_int (v div 600)" "v div 600 < 32"
      using q [of 600] by (simp_all add: GPRSTimer3ToNas_def)
    then show ?thesis using 4 q [of 600] timer3_parts [of "v div 600" 0] by simp
  next
    case 5
    then have "GPRSTimer3ToNas v = push_bit 5 (of_nat 1) + word_of_int (v div 3600)" "v div 3600 < 32"
      using q [of 3600] by (simp_all add: GPRSTimer3ToNas_def)
    then show ?thesis using 5 q [of 3600] timer3_parts [of "v div 3600" 1] by simp
  next
    case 6
    then have "GPRSTimer3ToNas v = push_bit 5 (of_nat 2) + word_of_int (v div 36000)" "v div 36000 < 32"
      using q [of 36000] assms(2) by (simp_all add: GPRSTimer3ToNas_def)
    then show ?thesis using 6 q [of 36000] timer3_parts [of "v div 36000" 2] by simp
  qed
qed

lemma gprs_timer3_bounds_witness: "timer3_seconds (GPRSTimer3ToNas 3600) \<le> 3600 \<and> 3600 < timer3_seconds (GPRSTimer3ToNas 3600) + 600"
  using gprs_timer3_bounds [of 3600] by simp

text \<open>Longer durations wrap: 320 hours become no time at all. A timer 2 of 64 seconds does too.\<close>

lemma timers_wrap: "timer3_seconds (GPRSTimer3ToNas 1152000) = 0" "GPRSTimer2ToNas 64 = 0x20"
  by code_simp+


section \<open>GUTIs are read back\<close>

lemma two_digits:
  assumes "x < 16" and "y < 16"
  shows "(((0 AND 240) + (of_nat y AND 15)) AND 15) + push_bit 4 (of_nat x AND 15) = nib x y"
proof -
  have "list_all (\<lambda>x. list_all (\<lambda>y. (((0 AND 240) + (of_nat y AND 15)) AND 15) + push_bit 4 (of_nat x AND 15) = nib x y) [0..<16]) [0..<16]"
    by code_simp
  with assms show ?thesis by (simp add: list_all_iff)
qed

lemma amf_id_back:
  fixes x y :: u8
  defines "v \<equiv> push_bit 2 (ucast x) + drop_bit 6 (ucast y AND 0x00c0) :: u16"
  shows "ucast (drop_bit 2 v) AND 255 = x"
    and "(((0 AND 0) + push_bit 6 (ucast (v AND 3))) AND 192) + (y AND 0x3f AND 63) = y"
proof -
  have m: "(0x00c0 :: u16) = push_bit 6 (mask 2)" "(3 :: u16) = mask 2" "(255 :: u8) = mask 8" "(192 :: u8) = push_bit 6 (mask 2)"
    "(0x3f :: u8) = mask 6"
    by (simp_all add: mask_eq_exp_minus_1)
  have v: "v = push_bit 2 (ucast x) OR drop_bit 6 (ucast y AND push_bit 6 (mask 2))"
    unfolding v_def m(1) by (rule disjunctive_add) (auto simp: bit_simps)
  show "ucast (drop_bit 2 v) AND 255 = x"
    unfolding v m(3) by (rule bit_word_eqI) (auto simp: bit_simps)
  have "(((0 AND 0) + push_bit 6 (ucast (v AND 3))) AND 192) + (y AND 0x3f AND 63) =
      (push_bit 6 (ucast (v AND mask 2)) AND push_bit 6 (mask 2)) OR (y AND mask 6)"
    unfolding m by (subst disjunctive_add) (auto simp: bit_simps)
  also have "\<dots> = y"
    unfolding v by (rule bit_word_eqI) (auto simp: bit_simps)
  finally show "(((0 AND 0) + push_bit 6 (ucast (v AND 3))) AND 192) + (y AND 0x3f AND 63) = y" .
qed


lemma GutiToNas_octets:
  assumes "plmn_ok mcc mnc" and "length a = 3" and "length t = 4"
  shows "GutiToNas (mcc @ mnc @ EncodeToString a @ EncodeToString t) = Inr ([2] @ plmn_octets mcc mnc @ a @ t)"
proof -
  obtain x y z where a: "a = [x, y, z]"
    using assms(2) by (auto simp: numeral_eq_Suc length_Suc_conv)
  obtain p q r s where t: "t = [p, q, r, s]"
    using assms(3) by (auto simp: numeral_eq_Suc length_Suc_conv)
  have amf: "AmfIdToNas (EncodeToString a) = Inr (x, push_bit 2 (ucast y) + drop_bit 6 (ucast z AND 0x00c0), z AND 0x3f)"
    by (simp add: AmfIdToNas_def hex_round_trip a)
  have len: "length (EncodeToString a) = 6" "length (EncodeToString t) = 8"
    by (simp_all add: a t EncodeToString_def hex_byte_def)
  note id_back = amf_id_back [of y z]
  show ?thesis
    using assms(1)
  proof (cases rule: plmn_cases)
    case (1 a' b c d e)
    note d16 = digit_val_16 [OF 1(3)] digit_val_16 [OF 1(4)] digit_val_16 [OF 1(5)] digit_val_16 [OF 1(6)] digit_val_16 [OF 1(7)]
    have f: "(15 :: nat) < 16" by simp
    from 1 show ?thesis
      using amf id_back two_digits [OF d16(2,1)] two_digits [OF f d16(3)] two_digits [OF d16(5,4)]
      by (simp add: GutiToNas_def len set_low_def set_high_def SetAMFSetID_def SetAMFPointer_def plmn_octets_def hex_round_trip t a
          digit_chars numeral_eq_Suc)
  next
    case (2 a' b c d e f)
    note d16 = digit_val_16 [OF 2(3)] digit_val_16 [OF 2(4)] digit_val_16 [OF 2(5)] digit_val_16 [OF 2(6)] digit_val_16 [OF 2(7)]
      digit_val_16 [OF 2(8)]
    from 2 show ?thesis
      using amf id_back two_digits [OF d16(2,1)] two_digits [OF d16(6,3)] two_digits [OF d16(5,4)]
      by (simp add: GutiToNas_def len set_low_def set_high_def SetAMFSetID_def SetAMFPointer_def plmn_octets_def hex_round_trip t a
          digit_chars numeral_eq_Suc)
  qed
qed

text \<open>
  C39: the octets of a GUTI are read back as the same PLMN, AMF identifier and GUTI, for two- and
  three-digit MNCs.
\<close>

theorem guti_round_trip:
  assumes "plmn_ok mcc mnc" and "length a = 3" and "length t = 4"
  defines "guti \<equiv> mcc @ mnc @ EncodeToString a @ EncodeToString t"
  shows "\<exists>os. GutiToNas guti = Inr os \<and> length os = 11 \<and> GutiToString os = Inr (mcc, mnc, EncodeToString a, guti)"
proof -
  have p: "length (plmn_octets mcc mnc) = 3" "length mcc = 3"
    using assms(1) by (simp_all add: plmn_octets_def plmn_ok_def)
  then have "GutiToString ([2] @ plmn_octets mcc mnc @ a @ t) = Inr (mcc, mnc, EncodeToString a, guti)"
    using assms(2,3) PlmnIDToString_octets [OF assms(1)] by (simp add: GutiToString_def guti_def Let_def)
  then show ?thesis
    using GutiToNas_octets [OF assms(1-3)] p assms(2,3) by (simp add: guti_def)
qed

lemma guti_round_trip_witness:
  "\<exists>os. GutiToNas ''20893cafe0000000001'' = Inr os \<and> GutiToString os = Inr (''208'', ''93'', ''cafe00'', ''20893cafe0000000001'')"
proof -
  have "plmn_ok ''208'' ''93''" by code_simp
  moreover have "''208'' @ ''93'' @ EncodeToString [0xca, 0xfe, 0] @ EncodeToString [0, 0, 0, 1] = ''20893cafe0000000001''"
    and "EncodeToString [0xca, 0xfe, 0] = ''cafe00''"
    by code_simp+
  ultimately show ?thesis
    using guti_round_trip [of "''208''" "''93''" "[0xca, 0xfe, 0]" "[0, 0, 0, 1]"] by auto
qed

section \<open>Names of networks\<close>

text \<open>
  The septets of a text packed as TS 23.038 asks: the bits of all characters, least significant first,
  in octets.
\<close>

definition septets :: "u8 list \<Rightarrow> bool list" where
  "septets cs = concat (map (\<lambda>c. map (bit c) [0..<7]) cs)"

definition octet_bits :: "u8 list \<Rightarrow> bool list" where
  "octet_bits bs = concat (map (\<lambda>b. map (bit b) [0..<8]) bs)"

text \<open>Names of up to eight characters are packed right, longer ones are not.\<close>

lemma short_name_packed:
  "take 56 (octet_bits (snd (snd (FullNetworkNameToNas [0x4f, 0x6d, 0x6e, 0x69, 0x52, 0x41, 0x4e, 0x35])))) =
     septets [0x4f, 0x6d, 0x6e, 0x69, 0x52, 0x41, 0x4e, 0x35]"
  by code_simp

lemma long_name_garbled:
  "take 70 (octet_bits (snd (snd (FullNetworkNameToNas (replicate 10 0x41))))) \<noteq> septets (replicate 10 0x41)"
  by code_simp

end
