(* ===== verification/Gnb_Ngap.thy ===== *)
theory Gnb_Ngap
  imports Gnb_Context
begin

text \<open>
  The NGAP handlers of the gNB (\<^verbatim>\<open>gnb/ngap/handler/handler.go\<close>) with the triggers that answer
  (\<^verbatim>\<open>gnb/ngap/trigger/trigger.go\<close>) and the dispatcher. A handler receives the information elements of
  the decoded message in their order; a pointer that may be nil is an option, and one the code
  follows without a check panics. Logging, the error hook and the packet capture hook are left out.
\<close>

unbundle bit_operations_syntax

section \<open>Messages\<close>

record snssai =
  ieSst :: "u8 list option"
  ieSd :: "u8 list option"

text \<open>
  A setup transfer is nil, bytes the codec rejects, or its elements; a flow without a non-dynamic
  5QI has \<open>None\<close> there.
\<close>

datatype transfer_ie = ULNGUUPTNLInformation "u8 list" "u8 list" | QosFlowSetupRequestList "(int \<times> int option \<times> int) list"
  | PDUSessionType u64 | OtherTransferIE

datatype transfer = NilTransfer | BadTransfer | Transfer "transfer_ie list"

record setup_item =
  itemNas :: "u8 list option"
  itemSession :: int
  itemSnssai :: snssai
  itemTransfer :: transfer

record modify_item =
  modSession :: int
  modNas :: "u8 list option"
  modQos :: "int list"

datatype ue_ids = UENGAPIDPair int int | OnlyAMFUENGAPID int | OtherIds

datatype ngap_ie =
    AMFUENGAPID "int option"
  | RANUENGAPID "int option"
  | NASPDU "u8 list option"
  | SecurityKey bool
  | GUAMI bool
  | AllowedNSSAI "snssai list option"
  | MobilityRestrictionList "u8 list option"
  | MaskedIMEISV "u8 list option"
  | UESecurityCapabilities bool
  | PDUSessionResourceSetupListCxtReq "setup_item list option"
  | PDUSessionResourceSetupListSUReq "setup_item list option"
  | PDUSessionResourceToReleaseListRelCmd "int list option"
  | PDUSessionResourceSwitchedList "(int \<times> u8 list option) list option"
  | PDUSessionResourceSetupListHOReq "int list option"
  | SourceToTargetTransparentContainer "u8 list option"
  | UENGAPIDs "ue_ids option"
  | PDUSessionResourceModifyListModReq "modify_item list option"
  | OtherIE

datatype ngap_msg =
    InitialContextSetupResponse int int "(int \<times> u32 \<times> int) list"
  | PDUSessionResourceSetupResponse int int int u32 int
  | PDUSessionResourceReleaseResponse int int "int list"
  | PDUSessionResourceModifyResponse int int "(int \<times> int) list"
  | HandoverRequestAcknowledge int int u8 u32 int
  | UEContextReleaseComplete int int
  | InitialUEMessage int "u8 list"
  | UplinkNASTransport int int "u8 list"
  | HandoverRequired int int string string int "u8 list" u8 "u8 list"
  | HandoverNotify int int
  | PathSwitchRequest int int u8 u32
  | EmptyMessage

text \<open>
  The gNB and what surrounds it: the association of the gNB, whether the GTP plane and the Xn socket
  are up, the error and the loss signal shown to the user, what was written to UEs, handed to the
  NGAP sender and sent to other gNBs, and the tasks started that play the AMF when there is none.
  The environment says which messages can be encoded, whether the tunnel comes up, in which order
  the maps are traversed, and the Xn address (host and link port) of another gNB that knows an AMF UE
  NGAP ID, if there is one (\<^verbatim>\<open>FindUeInOtherGnb\<close>).
\<close>

datatype mock_task = MockHandover int int int u8 | MockPathSwitch int int u8

record ngap_state =
  gnb :: GNBContext
  n2 :: "nat option"
  gtpPlane :: bool
  lastError :: string
  connLost :: bool
  ueOut :: "(nat \<times> u8 list) list"
  amfOut :: "(nat option \<times> ngap_msg) list"
  xnConn :: bool
  xnOut :: "((string \<times> int) \<times> u8 list) list"
  spawned :: "mock_task list"

record ngap_env =
  builds :: "ngap_msg \<Rightarrow> bool"
  tunnelUp :: bool
  sessionOrder :: "int list"
  ueOrder :: "int list"
  amfOrder :: "int list"
  otherGnb :: "int \<Rightarrow> (string \<times> int) option"

section \<open>Operations on a UE through its pointer\<close>

definition ue_at :: "nat \<Rightarrow> ngap_state \<Rightarrow> GNBUe" where
  "ue_at r st = (case ues (gnb st) r of Some ue \<Rightarrow> ue | None \<Rightarrow> zeroUe)"

definition put_ue :: "nat \<Rightarrow> GNBUe \<Rightarrow> ngap_state \<Rightarrow> ngap_state" where
  "put_ue r ue st = st\<lparr>gnb := (gnb st)\<lparr>ues := (ues (gnb st))(r \<mapsto> ue)\<rparr>\<rparr>"

definition set_amf_ue_id :: "nat \<Rightarrow> int \<Rightarrow> ngap_state \<Rightarrow> ngap_state" where
  "set_amf_ue_id r v st =
     (let (ue, out) = SetAmfUeId v (ue_at r st) in (put_ue r ue st)\<lparr>ueOut := ueOut st @ out\<rparr>)"

definition SendToUe :: "nat \<Rightarrow> u8 list \<Rightarrow> ngap_state \<Rightarrow> ngap_state res" where
  "SendToUe r message st =
     (case unixSocketConnection (ue_at r st) of None \<Rightarrow> Inl Panic
      | Some c \<Rightarrow> Inr (st\<lparr>ueOut := ueOut st @ [(c, message)]\<rparr>))"

definition to_amf :: "nat option \<Rightarrow> ngap_msg \<Rightarrow> ngap_state \<Rightarrow> ngap_state" where
  "to_amf conn m st = st\<lparr>amfOut := amfOut st @ [(conn, m)]\<rparr>"

section \<open>Triggers\<close>

definition session_list :: "int list \<Rightarrow> GNBUe \<Rightarrow> (int \<times> u32 \<times> int) list" where
  "session_list order ue =
     (case pduSessions ue of None \<Rightarrow> []
      | Some m \<Rightarrow> concat (map (\<lambda>k. case m k of None \<Rightarrow> [] | Some s \<Rightarrow> [(k, downlinkTeid s, qosId s)]) order))"

definition SendInitialContextSetupResponse :: "ngap_env \<Rightarrow> nat \<Rightarrow> ngap_state \<Rightarrow> ngap_state" where
  "SendInitialContextSetupResponse env r st =
     (let ue = ue_at r st;
          m = InitialContextSetupResponse (amfUeNgapId ue) (ranUeNgapId ue) (session_list (sessionOrder env) ue)
      in if builds env m then to_amf (sctpConnection ue) m st else st)"

definition SendPduSessionResourceSetupResponse :: "ngap_env \<Rightarrow> nat \<Rightarrow> int \<Rightarrow> ngap_state \<Rightarrow> ngap_state" where
  "SendPduSessionResourceSetupResponse env r psi st =
     (let ue = ue_at r st;
          m = PDUSessionResourceSetupResponse (amfUeNgapId ue) (ranUeNgapId ue) psi (GetTeidDownlinkOfSession psi ue)
                (GetQosIdOfSession psi ue)
      in if builds env m then to_amf (sctpConnection ue) m (put_ue r (ue\<lparr>ueState := 2\<rparr>) st) else st)"

definition SendPduSessionResourceReleaseResponse :: "ngap_env \<Rightarrow> nat \<Rightarrow> int list \<Rightarrow> ngap_state \<Rightarrow> ngap_state" where
  "SendPduSessionResourceReleaseResponse env r ids st =
     (let ue = ue_at r st; m = PDUSessionResourceReleaseResponse (amfUeNgapId ue) (ranUeNgapId ue) ids
      in if builds env m then to_amf (sctpConnection ue) m st else st)"

definition SendPDUSessionResourceModifyResponse :: "ngap_env \<Rightarrow> nat \<Rightarrow> int list \<Rightarrow> ngap_state \<Rightarrow> ngap_state" where
  "SendPDUSessionResourceModifyResponse env r ids st =
     (let ue = ue_at r st;
          m = PDUSessionResourceModifyResponse (amfUeNgapId ue) (ranUeNgapId ue) (map (\<lambda>i. (i, GetQosIdOfSession i ue)) ids)
      in if builds env m then to_amf (sctpConnection ue) m st else st)"

section \<open>Downlink NAS transport\<close>

record ids =
  ranUeId :: int
  amfUeId :: int
  messageNas :: "u8 list option"

text \<open>The loop over the elements: \<open>None\<close> when a missing element ends the handler.\<close>

fun dl_nas_ies :: "ngap_ie list \<Rightarrow> ids \<Rightarrow> ids option" where
  "dl_nas_ies [] a = Some a"
| "dl_nas_ies (AMFUENGAPID v # l) a = (case v of None \<Rightarrow> None | Some x \<Rightarrow> dl_nas_ies l (a\<lparr>amfUeId := x\<rparr>))"
| "dl_nas_ies (RANUENGAPID v # l) a = (case v of None \<Rightarrow> None | Some x \<Rightarrow> dl_nas_ies l (a\<lparr>ranUeId := x\<rparr>))"
| "dl_nas_ies (NASPDU v # l) a = (case v of None \<Rightarrow> None | Some x \<Rightarrow> dl_nas_ies l (a\<lparr>messageNas := Some x\<rparr>))"
| "dl_nas_ies (_ # l) a = dl_nas_ies l a"

definition nas_bytes :: "u8 list option \<Rightarrow> u8 list" where
  "nas_bytes m = (case m of None \<Rightarrow> [] | Some b \<Rightarrow> b)"

definition HandlerDownlinkNasTransport :: "ngap_ie list \<Rightarrow> ngap_state \<Rightarrow> ngap_state res" where
  "HandlerDownlinkNasTransport ies st =
     (case dl_nas_ies ies \<lparr>ranUeId = 0, amfUeId = 0, messageNas = None\<rparr> of
        None \<Rightarrow> Inr st
      | Some a \<Rightarrow>
          (case GetGnbUe (ranUeId a) (gnb st) of
             Inl _ \<Rightarrow> Inr st
           | Inr r \<Rightarrow>
               if amfUeNgapId (ue_at r st) = 0 then SendToUe r (nas_bytes (messageNas a)) (set_amf_ue_id r (amfUeId a) st)
               else if amfUeNgapId (ue_at r st) \<noteq> amfUeId a then Inr st
               else SendToUe r (nas_bytes (messageNas a)) st))"

section \<open>Session parameters\<close>

definition not_informed :: "u8 list option \<Rightarrow> string" where
  "not_informed v = (case v of None \<Rightarrow> ''not informed'' | Some b \<Rightarrow> EncodeToString b)"

record session_args =
  ulTeid :: u32
  upfAddress :: "u8 list"
  argQosId :: int
  argFiveQi :: int
  argPriArp :: int
  argType :: u64

definition no_args :: session_args where
  "no_args = \<lparr>ulTeid = 0, upfAddress = [], argQosId = 0, argFiveQi = 0, argPriArp = 0, argType = 0\<rparr>"

definition be32_of :: "u8 list \<Rightarrow> u32" where
  "be32_of bs = foldl (\<lambda>v b. push_bit 8 v OR ucast b) 0 (take 4 bs)"

fun qos_flows :: "(int \<times> int option \<times> int) list \<Rightarrow> session_args \<Rightarrow> session_args res" where
  "qos_flows [] a = Inr a"
| "qos_flows ((q, f, p) # l) a =
     (case f of None \<Rightarrow> Inl Panic | Some x \<Rightarrow> qos_flows l (a\<lparr>argQosId := q, argFiveQi := x, argPriArp := p\<rparr>))"

fun transfer_ies :: "transfer_ie list \<Rightarrow> session_args \<Rightarrow> session_args res" where
  "transfer_ies [] a = Inr a"
| "transfer_ies (ULNGUUPTNLInformation t addr # l) a =
     (if length t < 4 then Inl Panic else transfer_ies l (a\<lparr>ulTeid := be32_of t, upfAddress := addr\<rparr>))"
| "transfer_ies (QosFlowSetupRequestList qs # l) a = rbind (qos_flows qs a) (transfer_ies l)"
| "transfer_ies (PDUSessionType t # l) a = transfer_ies l (a\<lparr>argType := t\<rparr>)"
| "transfer_ies (OtherTransferIE # l) a = transfer_ies l a"

definition v4_16 :: "u8 \<Rightarrow> u8 list" where
  "v4_16 x = replicate 10 0 @ [0xff, 0xff, 127, 0, 0, x]"

text \<open>
  The part both setup handlers share: a downlink TEID and an address are taken and indexed, the
  session is created, and the address of the UPF is kept when none is known yet.
\<close>

definition upf_text :: "u8 list \<Rightarrow> string" where
  "upf_text a = dec_nat (unat (a ! 0)) @ ''.'' @ dec_nat (unat (a ! 1)) @ ''.'' @ dec_nat (unat (a ! 2)) @ ''.'' @
     dec_nat (unat (a ! 3))"

definition setup_session :: "nat \<Rightarrow> int \<Rightarrow> string \<Rightarrow> string \<Rightarrow> session_args \<Rightarrow> ngap_state \<Rightarrow> (u8 \<times> ngap_state) res" where
  "setup_session r psi sstv sdv a st =
     (let (teidDown, g) = GetUeTeid (gnb st);
          g = StoreTeid teidDown r g;
          (x, g) = getRanUeIp g;
          g = StoreUeIp (ip_string (Some (127, 0, 0, x))) r g;
          st = st\<lparr>gnb := g\<rparr>
      in rbind (CreatePduSession psi sstv sdv (argType a) (argQosId a)
                 (argPriArp a) (argFiveQi a) (ulTeid a) (Some (127, 0, 0, x)) teidDown (ue_at r st)) (\<lambda>(_, ue).
           let st = put_ue r ue st;
               st = (if upfIp (gnb st) = [] \<and> length (upfAddress a) \<ge> 4
                     then st\<lparr>gnb := (gnb st)\<lparr>upfIp := upf_text (upfAddress a)\<rparr>\<rparr> else st)
           in Inr (x, st)))"

section \<open>Initial context setup\<close>

record ics =
  icsIds :: ids
  icsSst :: "string list"
  icsSd :: "string list"
  icsMobility :: string
  icsImeisv :: string
  icsList :: "setup_item list option"

definition no_ics :: ics where
  "no_ics = \<lparr>icsIds = \<lparr>ranUeId = 0, amfUeId = 0, messageNas = None\<rparr>, icsSst = [], icsSd = [], icsMobility = ''not informed'',
     icsImeisv = [], icsList = None\<rparr>"

text \<open>The loop over the elements: a panic, the end of the handler, or what was read.\<close>

fun ics_ies :: "ngap_ie list \<Rightarrow> ics \<Rightarrow> ics option res" where
  "ics_ies [] a = Inr (Some a)"
| "ics_ies (PDUSessionResourceSetupListCxtReq v # l) a =
     (case v of None \<Rightarrow> Inr None | Some x \<Rightarrow> ics_ies l (a\<lparr>icsList := Some x\<rparr>))"
| "ics_ies (AMFUENGAPID v # l) a =
     (case v of None \<Rightarrow> Inr None | Some x \<Rightarrow> ics_ies l (a\<lparr>icsIds := (icsIds a)\<lparr>amfUeId := x\<rparr>\<rparr>))"
| "ics_ies (RANUENGAPID v # l) a =
     (case v of None \<Rightarrow> Inr None | Some x \<Rightarrow> ics_ies l (a\<lparr>icsIds := (icsIds a)\<lparr>ranUeId := x\<rparr>\<rparr>))"
| "ics_ies (NASPDU v # l) a =
     (case v of None \<Rightarrow> Inl Panic | Some x \<Rightarrow> ics_ies l (a\<lparr>icsIds := (icsIds a)\<lparr>messageNas := Some x\<rparr>\<rparr>))"
| "ics_ies (SecurityKey p # l) a = (if p then ics_ies l a else Inr None)"
| "ics_ies (GUAMI p # l) a = (if p then ics_ies l a else Inr None)"
| "ics_ies (AllowedNSSAI v # l) a =
     (case v of None \<Rightarrow> Inr None
      | Some x \<Rightarrow> ics_ies l (a\<lparr>icsSst := map (\<lambda>s. not_informed (ieSst s)) x, icsSd := map (\<lambda>s. not_informed (ieSd s)) x\<rparr>))"
| "ics_ies (MobilityRestrictionList v # l) a = ics_ies l (a\<lparr>icsMobility := not_informed v\<rparr>)"
| "ics_ies (MaskedIMEISV v # l) a = ics_ies l (a\<lparr>icsImeisv := not_informed v\<rparr>)"
| "ics_ies (UESecurityCapabilities p # l) a = (if p then ics_ies l a else Inr None)"
| "ics_ies (_ # l) a = ics_ies l a"

fun cxt_sessions :: "nat \<Rightarrow> setup_item list \<Rightarrow> ngap_state \<Rightarrow> ngap_state res" where
  "cxt_sessions r [] st = Inr st"
| "cxt_sessions r (item # l) st =
     rbind (case itemTransfer item of Transfer ies \<Rightarrow> transfer_ies ies no_args | _ \<Rightarrow> Inr no_args) (\<lambda>a.
     rbind (setup_session r (itemSession item) (not_informed (ieSst (itemSnssai item))) (not_informed (ieSd (itemSnssai item))) a st)
       (\<lambda>(_, st). cxt_sessions r l st))"

definition HandlerInitialContextSetupRequest :: "ngap_env \<Rightarrow> ngap_ie list \<Rightarrow> ngap_state \<Rightarrow> ngap_state res" where
  "HandlerInitialContextSetupRequest env ies st =
     rbind (ics_ies ies no_ics) (\<lambda>m.
       case m of None \<Rightarrow> Inr st
       | Some a \<Rightarrow>
           (case GetGnbUe (ranUeId (icsIds a)) (gnb st) of
              Inl _ \<Rightarrow> Inr st
            | Inr r \<Rightarrow>
                if amfUeNgapId (ue_at r st) \<noteq> amfUeId (icsIds a) then Inr st
                else
                  rbind (CreateUeContext (icsMobility a) (icsImeisv a) (icsSst a) (icsSd a) (ue_at r st)) (\<lambda>ue.
                  rbind (cxt_sessions r (case icsList a of None \<Rightarrow> [] | Some l \<Rightarrow> l) (put_ue r ue st)) (\<lambda>st.
                  rbind (SendToUe r (nas_bytes (messageNas (icsIds a))) st) (\<lambda>st.
                    Inr (SendInitialContextSetupResponse env r st))))))"

section \<open>Session setup\<close>

record su =
  suIds :: ids
  suSession :: int
  suSst :: string
  suSd :: string
  suArgs :: session_args

definition no_su :: su where
  "no_su = \<lparr>suIds = \<lparr>ranUeId = 0, amfUeId = 0, messageNas = None\<rparr>, suSession = 0,
     suSst = [], suSd = [], suArgs = no_args\<rparr>"

text \<open>The items of the list overwrite the same variables.\<close>

fun su_items :: "setup_item list \<Rightarrow> su \<Rightarrow> su option res" where
  "su_items [] a = Inr (Some a)"
| "su_items (item # l) a =
     (case itemNas item of None \<Rightarrow> Inr None
      | Some nas \<Rightarrow>
          let a = a\<lparr>suIds := (suIds a)\<lparr>messageNas := Some nas\<rparr>, suSession := itemSession item,
                   suSst := not_informed (ieSst (itemSnssai item)), suSd := not_informed (ieSd (itemSnssai item))\<rparr> in
          case itemTransfer item of
            NilTransfer \<Rightarrow> Inr None
          | BadTransfer \<Rightarrow> su_items l a
          | Transfer ies \<Rightarrow> rbind (transfer_ies ies (suArgs a)) (\<lambda>x. su_items l (a\<lparr>suArgs := x\<rparr>)))"

fun su_ies :: "ngap_ie list \<Rightarrow> su \<Rightarrow> su option res" where
  "su_ies [] a = Inr (Some a)"
| "su_ies (AMFUENGAPID v # l) a =
     (case v of None \<Rightarrow> Inr None | Some x \<Rightarrow> su_ies l (a\<lparr>suIds := (suIds a)\<lparr>amfUeId := x\<rparr>\<rparr>))"
| "su_ies (RANUENGAPID v # l) a =
     (case v of None \<Rightarrow> Inr None | Some x \<Rightarrow> su_ies l (a\<lparr>suIds := (suIds a)\<lparr>ranUeId := x\<rparr>\<rparr>))"
| "su_ies (PDUSessionResourceSetupListSUReq v # l) a =
     (case v of None \<Rightarrow> Inr None
      | Some items \<Rightarrow> rbind (su_items items a) (\<lambda>m. case m of None \<Rightarrow> Inr None | Some a \<Rightarrow> su_ies l a))"
| "su_ies (_ # l) a = su_ies l a"

definition HandlerPduSessionResourceSetupRequest :: "ngap_env \<Rightarrow> ngap_ie list \<Rightarrow> ngap_state \<Rightarrow> ngap_state res" where
  "HandlerPduSessionResourceSetupRequest env ies st =
     rbind (su_ies ies no_su) (\<lambda>m.
       case m of None \<Rightarrow> Inr st
       | Some a \<Rightarrow>
           (case GetGnbUe (ranUeId (suIds a)) (gnb st) of
              Inl _ \<Rightarrow> Inr st
            | Inr r \<Rightarrow>
                if amfUeNgapId (ue_at r st) \<noteq> amfUeId (suIds a) then Inr st
                else
                  rbind (setup_session r (suSession a) (suSst a) (suSd a) (suArgs a) st) (\<lambda>(x, st).
                  rbind (SendToUe r (nas_bytes (messageNas (suIds a))) st) (\<lambda>st.
                    let st = SendPduSessionResourceSetupResponse env r (suSession a) st;
                        st = (if gtpPlane st then st else st\<lparr>gtpPlane := tunnelUp env\<rparr>)
                    in SendToUe r (word_of_int (suSession a) # v4_16 x) st))))"

section \<open>Session release and modification\<close>

record rel =
  relIds :: ids
  relSessions :: "int list"
  relQos :: "(int \<times> int) list"

fun rel_ies :: "ngap_ie list \<Rightarrow> rel \<Rightarrow> rel" where
  "rel_ies [] a = a"
| "rel_ies (AMFUENGAPID (Some x) # l) a = rel_ies l (a\<lparr>relIds := (relIds a)\<lparr>amfUeId := x\<rparr>\<rparr>)"
| "rel_ies (RANUENGAPID (Some x) # l) a = rel_ies l (a\<lparr>relIds := (relIds a)\<lparr>ranUeId := x\<rparr>\<rparr>)"
| "rel_ies (NASPDU (Some x) # l) a = rel_ies l (a\<lparr>relIds := (relIds a)\<lparr>messageNas := Some x\<rparr>\<rparr>)"
| "rel_ies (PDUSessionResourceToReleaseListRelCmd (Some x) # l) a = rel_ies l (a\<lparr>relSessions := relSessions a @ x\<rparr>)"
| "rel_ies (_ # l) a = rel_ies l a"

definition no_rel :: rel where
  "no_rel = \<lparr>relIds = \<lparr>ranUeId = 0, amfUeId = 0, messageNas = None\<rparr>, relSessions = [], relQos = []\<rparr>"

definition HandlerPduSessionResourceReleaseCommand :: "ngap_env \<Rightarrow> ngap_ie list \<Rightarrow> ngap_state \<Rightarrow> ngap_state res" where
  "HandlerPduSessionResourceReleaseCommand env ies st =
     (let a = rel_ies ies no_rel in
      case GetGnbUe (ranUeId (relIds a)) (gnb st) of
        Inl _ \<Rightarrow> Inr st
      | Inr r \<Rightarrow>
          rbind (case messageNas (relIds a) of None \<Rightarrow> Inr st | Some m \<Rightarrow> SendToUe r m st) (\<lambda>st.
            Inr (SendPduSessionResourceReleaseResponse env r (relSessions a) st)))"

text \<open>The items of a modification; the last flow of a session is the one kept.\<close>

fun mod_items :: "modify_item list \<Rightarrow> rel \<Rightarrow> rel" where
  "mod_items [] a = a"
| "mod_items (item # l) a =
     mod_items l (a\<lparr>relSessions := relSessions a @ [modSession item],
       relIds := (case modNas item of None \<Rightarrow> relIds a | Some m \<Rightarrow> (relIds a)\<lparr>messageNas := Some m\<rparr>),
       relQos := relQos a @ map (\<lambda>q. (modSession item, q)) (modQos item)\<rparr>)"

fun mod_ies :: "ngap_ie list \<Rightarrow> rel \<Rightarrow> rel" where
  "mod_ies [] a = a"
| "mod_ies (AMFUENGAPID (Some x) # l) a = mod_ies l (a\<lparr>relIds := (relIds a)\<lparr>amfUeId := x\<rparr>\<rparr>)"
| "mod_ies (RANUENGAPID (Some x) # l) a = mod_ies l (a\<lparr>relIds := (relIds a)\<lparr>ranUeId := x\<rparr>\<rparr>)"
| "mod_ies (PDUSessionResourceModifyListModReq (Some x) # l) a = mod_ies l (mod_items x a)"
| "mod_ies (_ # l) a = mod_ies l a"

text \<open>
  Setting the flows from the map of the last flow per session is the same as setting them one after
  the other in the order they were read.
\<close>

definition HandlerPDUSessionResourceModifyRequest :: "ngap_env \<Rightarrow> ngap_ie list \<Rightarrow> ngap_state \<Rightarrow> ngap_state res" where
  "HandlerPDUSessionResourceModifyRequest env ies st =
     (let a = mod_ies ies no_rel in
      case GetGnbUe (ranUeId (relIds a)) (gnb st) of
        Inl _ \<Rightarrow> Inr st
      | Inr r \<Rightarrow>
          let st = put_ue r (fold (\<lambda>(i, q). SetQosIdOfSession i q) (relQos a) (ue_at r st)) st in
          rbind (case messageNas (relIds a) of None \<Rightarrow> Inr st | Some m \<Rightarrow> SendToUe r m st) (\<lambda>st.
            Inr (SendPDUSessionResourceModifyResponse env r (relSessions a) st)))"

section \<open>Paging, path switch and handover\<close>

definition HandlerPaging :: "ngap_env \<Rightarrow> ngap_state \<Rightarrow> ngap_state" where
  "HandlerPaging env st =
     st\<lparr>ueOut := ueOut st @ concat (map (\<lambda>k.
          case uePool (gnb st) k of None \<Rightarrow> []
          | Some r \<Rightarrow> (case unixSocketConnection (ue_at r st) of None \<Rightarrow> [] | Some c \<Rightarrow> [(c, [0x00, 0x01])])) (ueOrder env))\<rparr>"

text \<open>
  The switched sessions: the uplink TEID of each is stored for the UE read so far. A transfer that
  does not decode, or is no GTP tunnel, is \<open>None\<close>.
\<close>

fun switched :: "int \<Rightarrow> (int \<times> u8 list option) list \<Rightarrow> ngap_state \<Rightarrow> ngap_state res" where
  "switched ranv [] st = Inr st"
| "switched ranv ((psi, None) # l) st = switched ranv l st"
| "switched ranv ((psi, Some t) # l) st =
     (if length t < 4 then Inl Panic
      else switched ranv l (case GetGnbUe ranv (gnb st) of Inl _ \<Rightarrow> st | Inr r \<Rightarrow> st\<lparr>gnb := StoreTeid (be32_of t) r (gnb st)\<rparr>))"

fun switch_ies :: "ngap_ie list \<Rightarrow> ids \<Rightarrow> ngap_state \<Rightarrow> (ids \<times> ngap_state) res" where
  "switch_ies [] a st = Inr (a, st)"
| "switch_ies (AMFUENGAPID v # l) a st = (case v of None \<Rightarrow> Inl Panic | Some x \<Rightarrow> switch_ies l (a\<lparr>amfUeId := x\<rparr>) st)"
| "switch_ies (RANUENGAPID v # l) a st = (case v of None \<Rightarrow> Inl Panic | Some x \<Rightarrow> switch_ies l (a\<lparr>ranUeId := x\<rparr>) st)"
| "switch_ies (PDUSessionResourceSwitchedList v # l) a st =
     (case v of None \<Rightarrow> Inl Panic | Some x \<Rightarrow> rbind (switched (ranUeId a) x st) (switch_ies l a))"
| "switch_ies (_ # l) a st = switch_ies l a st"

definition xn_send :: "string \<times> int \<Rightarrow> u8 list \<Rightarrow> ngap_state \<Rightarrow> ngap_state" where
  "xn_send to m st = (if xnConn st then st\<lparr>xnOut := xnOut st @ [(to, m)]\<rparr> else st)"

definition xn_message :: "u8 \<Rightarrow> int \<Rightarrow> u8 list" where
  "xn_message t v = [0x58, 0x4e, t] @ be64_bytes (word_of_int v)"

definition HandlerPathSwitchRequestAcknowledge :: "ngap_env \<Rightarrow> ngap_ie list \<Rightarrow> ngap_state \<Rightarrow> ngap_state res" where
  "HandlerPathSwitchRequestAcknowledge env ies st =
     rbind (switch_ies ies \<lparr>ranUeId = 0, amfUeId = 0, messageNas = None\<rparr> st) (\<lambda>(a, st).
       case GetGnbUe (ranUeId a) (gnb st) of Inl _ \<Rightarrow> Inr st
       | Inr r \<Rightarrow>
           let st = set_amf_ue_id r (amfUeId a) st in
           Inr (case otherGnb env (amfUeId a) of None \<Rightarrow> st
                | Some (host, port) \<Rightarrow> xn_send (host, port + 1) (xn_message 0x03 (amfUeId a)) st))"

record ho =
  hoAmf :: int
  hoSession :: u8
  hoSource :: "int option"

definition be64_int :: "u8 list \<Rightarrow> int" where
  "be64_int bs = sint (be64_of bs)"

fun ho_ies :: "ngap_ie list \<Rightarrow> ho \<Rightarrow> ho res" where
  "ho_ies [] a = Inr a"
| "ho_ies (AMFUENGAPID v # l) a = (case v of None \<Rightarrow> Inl Panic | Some x \<Rightarrow> ho_ies l (a\<lparr>hoAmf := x\<rparr>))"
| "ho_ies (PDUSessionResourceSetupListHOReq v # l) a =
     (case v of None \<Rightarrow> ho_ies l a
      | Some x \<Rightarrow> ho_ies l (if x = [] then a else a\<lparr>hoSession := word_of_int (last x)\<rparr>))"
| "ho_ies (SourceToTargetTransparentContainer v # l) a =
     (case v of None \<Rightarrow> ho_ies l a
      | Some rrc \<Rightarrow>
          if length rrc \<ge> 10 \<and> rrc ! 0 = 0x05 \<and> rrc ! 1 = 0x06
          then ho_ies l (a\<lparr>hoSource := Some (be64_int (take 8 (drop 2 rrc)))\<rparr>)
          else ho_ies l a)"
| "ho_ies (_ # l) a = ho_ies l a"

text \<open>
  The acknowledgement carries the downlink TEID that the context holds after the session was
  created. The source identifier -1 means that none was read.
\<close>

definition HandlerHandoverRequest :: "ngap_env \<Rightarrow> ngap_ie list \<Rightarrow> ngap_state \<Rightarrow> ngap_state res" where
  "HandlerHandoverRequest env ies st =
     rbind (ho_ies ies \<lparr>hoAmf = 0, hoSession = 1, hoSource = None\<rparr>) (\<lambda>a.
       case NewGnBUe (amfOrder env) None (gnb st) of
         (None, g) \<Rightarrow> Inr (st\<lparr>gnb := g\<rparr>)
       | (Some r, g) \<Rightarrow>
           let st = set_amf_ue_id r (hoAmf a) (st\<lparr>gnb := g\<rparr>);
               ue = ue_at r st;
               ue = (case hoSource a of Some v \<Rightarrow> if v \<noteq> -1 then ue\<lparr>sourceAmfUeNgapId := v\<rparr> else ue | None \<Rightarrow> ue);
               ue = ue\<lparr>ueState := 1\<rparr>
           in
           rbind (CreatePduSession (uint (hoSession a)) ''01'' ''010203'' 1 1 1 1 (downlinkTeid (pduSession ue))
                   (ranUeIP (pduSession ue)) 0 ue) (\<lambda>(_, ue).
             let st = put_ue r ue st;
                 m = HandoverRequestAcknowledge (ranUeNgapId ue) (hoAmf a) (hoSession a) (downlinkTeid (pduSession ue)) 1
             in Inr (if builds env m then to_amf (sctpConnection ue) m st else st)))"

fun pair_ies :: "ngap_ie list \<Rightarrow> ids \<Rightarrow> ids res" where
  "pair_ies [] a = Inr a"
| "pair_ies (AMFUENGAPID v # l) a = (case v of None \<Rightarrow> Inl Panic | Some x \<Rightarrow> pair_ies l (a\<lparr>amfUeId := x\<rparr>))"
| "pair_ies (RANUENGAPID v # l) a = (case v of None \<Rightarrow> Inl Panic | Some x \<Rightarrow> pair_ies l (a\<lparr>ranUeId := x\<rparr>))"
| "pair_ies (_ # l) a = pair_ies l a"

definition HandlerHandoverCommand :: "ngap_ie list \<Rightarrow> ngap_state \<Rightarrow> ngap_state res" where
  "HandlerHandoverCommand ies st =
     rbind (pair_ies ies \<lparr>ranUeId = 0, amfUeId = 0, messageNas = None\<rparr>) (\<lambda>a.
       case GetGnbUe (ranUeId a) (gnb st) of Inl _ \<Rightarrow> Inr st | Inr r \<Rightarrow> SendToUe r [0x00, 0x05] st)"

section \<open>UE context release\<close>

fun release_ids :: "ngap_ie list \<Rightarrow> ids \<Rightarrow> ids" where
  "release_ids [] a = a"
| "release_ids (UENGAPIDs (Some (UENGAPIDPair am ra)) # l) a = release_ids l (a\<lparr>amfUeId := am, ranUeId := ra\<rparr>)"
| "release_ids (UENGAPIDs (Some (OnlyAMFUENGAPID am)) # l) a = release_ids l (a\<lparr>amfUeId := am\<rparr>)"
| "release_ids (_ # l) a = release_ids l a"

text \<open>The first UE, in the order of the traversal, that satisfies a condition.\<close>

fun find_ue :: "int list \<Rightarrow> (GNBUe \<Rightarrow> bool) \<Rightarrow> ngap_state \<Rightarrow> int option" where
  "find_ue [] P st = None"
| "find_ue (k # ks) P st =
     (case uePool (gnb st) k of None \<Rightarrow> find_ue ks P st
      | Some r \<Rightarrow> if P (ue_at r st) then Some k else find_ue ks P st)"

definition drop_session :: "PDUSession \<Rightarrow> GNBContext \<Rightarrow> GNBContext" where
  "drop_session s g =
     (let g = DeleteGnBUeByTeid (downlinkTeid s) g
      in if ranUeIP s \<noteq> None then DeleteGnBUeByIp (ip_string (ranUeIP s)) g else g)"

definition drop_tunnels :: "int list \<Rightarrow> GNBUe \<Rightarrow> GNBContext \<Rightarrow> GNBContext" where
  "drop_tunnels order ue g =
     (let g = DeleteGnBUeByTeid (downlinkTeid (pduSession ue)) g;
          g = DeleteGnBUeByIp (ip_string (ranUeIP (pduSession ue))) g
      in case pduSessions ue of None \<Rightarrow> g
         | Some m \<Rightarrow> fold (\<lambda>k g. case m k of None \<Rightarrow> g | Some s \<Rightarrow> drop_session s g) order g)"

definition HandlerUeContextReleaseCommand :: "ngap_env \<Rightarrow> ngap_ie list \<Rightarrow> ngap_state \<Rightarrow> ngap_state" where
  "HandlerUeContextReleaseCommand env ies st =
     (let a = release_ids ies \<lparr>ranUeId = 0, amfUeId = 0, messageNas = None\<rparr>;
          ranv = (if ranUeId a = 0 \<and> amfUeId a \<noteq> 0
                 then (case find_ue (ueOrder env) (\<lambda>ue. amfUeNgapId ue = amfUeId a) st of Some k \<Rightarrow> k | None \<Rightarrow> 0)
                 else ranUeId a);
          st = (case GetGnbUe ranv (gnb st) of
                  Inl _ \<Rightarrow> st
                | Inr r \<Rightarrow>
                    let ue = ue_at r st;
                        st = (case unixSocketConnection ue of None \<Rightarrow> st
                              | Some c \<Rightarrow> st\<lparr>ueOut := ueOut st @ [(c, [0x00, 0x06])]\<rparr>);
                        st = st\<lparr>gnb := drop_tunnels (sessionOrder env) ue (gnb st)\<rparr>
                    in put_ue r (ue\<lparr>ueState := 0\<rparr>) st);
          m = UEContextReleaseComplete ranv (amfUeId a)
      in if builds env m \<and> n2 st \<noteq> None then to_amf (n2 st) m st else st)"

section \<open>NG setup\<close>

record guami =
  hasRegion :: bool
  hasPointer :: bool
  hasSet :: bool

datatype setup_ie =
    AMFName "string option"
  | ServedGUAMIList "guami list option option"
  | RelativeAMFCapacity "int option"
  | PLMNSupportList "(u8 list \<times> snssai list option) list option"
  | OtherSetupIE

definition was_not_informed :: "u8 list option \<Rightarrow> string" where
  "was_not_informed v = (case v of None \<Rightarrow> ''was not informed'' | Some b \<Rightarrow> EncodeToString b)"

fun add_amf_slices :: "snssai list \<Rightarrow> GNBAmf \<Rightarrow> GNBAmf res" where
  "add_amf_slices [] amf = Inr amf"
| "add_amf_slices (s # l) amf =
     rbind (AddedSlice (was_not_informed (ieSst s)) (was_not_informed (ieSd s)) amf) (add_amf_slices l)"

fun add_plmns :: "(u8 list \<times> snssai list option) list \<Rightarrow> bool \<times> GNBAmf \<Rightarrow> (bool \<times> GNBAmf) res" where
  "add_plmns [] a = Inr a"
| "add_plmns ((plmn, sl) # l) (err, amf) =
     rbind (AddedPlmn (EncodeToString plmn) amf) (\<lambda>amf.
     rbind (add_amf_slices (case sl of None \<Rightarrow> [] | Some x \<Rightarrow> x) amf) (\<lambda>amf.
       add_plmns l (err \<or> sl = None, amf)))"

fun setup_ies :: "setup_ie list \<Rightarrow> bool \<times> GNBAmf \<Rightarrow> (bool \<times> GNBAmf) res" where
  "setup_ies [] a = Inr a"
| "setup_ies (AMFName v # l) (err, amf) =
     (case v of None \<Rightarrow> setup_ies l (True, amf) | Some n \<Rightarrow> setup_ies l (err, amf\<lparr>amfNameStr := n\<rparr>))"
| "setup_ies (ServedGUAMIList v # l) (err, amf) =
     (case v of None \<Rightarrow> Inl Panic
      | Some None \<Rightarrow> setup_ies l (True, amf)
      | Some (Some gs) \<Rightarrow> setup_ies l (err \<or> (\<exists>g \<in> set gs. \<not> (hasRegion g \<and> hasPointer g \<and> hasSet g)), amf))"
| "setup_ies (RelativeAMFCapacity v # l) (err, amf) =
     (case v of None \<Rightarrow> setup_ies l (err, amf) | Some c \<Rightarrow> setup_ies l (err, amf\<lparr>relativeAmfCapacity := c\<rparr>))"
| "setup_ies (PLMNSupportList v # l) (err, amf) =
     (case v of None \<Rightarrow> Inl Panic | Some ps \<Rightarrow> rbind (add_plmns ps (err, amf)) (setup_ies l))"
| "setup_ies (OtherSetupIE # l) a = setup_ies l a"

text \<open>The AMF contexts are in the pool by value: \<open>k\<close> is the key of the AMF that answered. State 0 is inactive, 1 active.\<close>

definition HandlerNgSetupResponse :: "int \<Rightarrow> setup_ie list \<Rightarrow> ngap_state \<Rightarrow> ngap_state res" where
  "HandlerNgSetupResponse k ies st =
     (case amfPool (gnb st) k of None \<Rightarrow> Inl Panic
      | Some amf \<Rightarrow>
          rbind (setup_ies ies (False, amf)) (\<lambda>(err, amf).
            Inr (st\<lparr>gnb := (gnb st)\<lparr>amfPool := (amfPool (gnb st))(k \<mapsto> amf\<lparr>amfState := (if err then 0 else 1)\<rparr>)\<rparr>\<rparr>)))"

datatype cause_ie = CauseMisc int | CauseRadioNetwork int | CauseTransport int | CauseProtocol int | CauseNas int | OtherCause

definition dec_int :: "int \<Rightarrow> string" where
  "dec_int i = (if i < 0 then CHR ''-'' # dec_nat (nat (- i)) else dec_nat (nat i))"

fun cause_text :: "cause_ie \<Rightarrow> string \<Rightarrow> string" where
  "cause_text (CauseMisc c) t =
     (if c = 4 then ''Unknown PLMN in Supported TAI (AMF core does not serve this MCC/MNC)''
      else if c = 5 then ''AMF rejected setup (Cause unspecified)''
      else ''AMF Misc Cause #'' @ dec_int c)"
| "cause_text (CauseRadioNetwork c) t = ''AMF RadioNetwork Cause #'' @ dec_int c"
| "cause_text (CauseTransport c) t = ''AMF Transport Cause #'' @ dec_int c"
| "cause_text (CauseProtocol c) t = ''AMF Protocol Cause #'' @ dec_int c"
| "cause_text (CauseNas c) t = ''AMF NAS Cause #'' @ dec_int c"
| "cause_text OtherCause t = t"

definition HandlerNgSetupFailure :: "int \<Rightarrow> cause_ie list \<Rightarrow> ngap_state \<Rightarrow> ngap_state res" where
  "HandlerNgSetupFailure k causes st =
     (case amfPool (gnb st) k of None \<Rightarrow> Inl Panic
      | Some amf \<Rightarrow>
          let txt = fold cause_text causes ''Unspecified NG Setup Failure'' in
          Inr (st\<lparr>lastError := ''NGAP NG Setup Rejected by AMF ('' @ amfIpAddr amf @ '':'' @ dec_int (amfPortNo amf) @ ''): '' @ txt,
                 connLost := True,
                 gnb := (gnb st)\<lparr>amfPool := (amfPool (gnb st))(k \<mapsto> amf\<lparr>amfState := 0\<rparr>)\<rparr>\<rparr>))"

section \<open>Dispatch\<close>

text \<open>A decoded message by its kind; a message the codec rejects leaves a nil pointer that is followed.\<close>

datatype ngap_pdu =
    Undecodable
  | DownlinkNASTransportPdu "ngap_ie list"
  | InitialContextSetupRequestPdu "ngap_ie list"
  | PDUSessionResourceSetupRequestPdu "ngap_ie list"
  | PDUSessionResourceReleaseCommandPdu "ngap_ie list"
  | PDUSessionResourceModifyRequestPdu "ngap_ie list"
  | PagingPdu
  | HandoverRequestPdu "ngap_ie list"
  | UEContextReleaseCommandPdu "ngap_ie list"
  | NGSetupResponsePdu "setup_ie list"
  | PathSwitchRequestAcknowledgePdu "ngap_ie list"
  | HandoverCommandPdu "ngap_ie list"
  | NGSetupFailurePdu "cause_ie list"
  | OtherPdu

definition Dispatch :: "ngap_env \<Rightarrow> int \<Rightarrow> ngap_pdu \<Rightarrow> ngap_state \<Rightarrow> ngap_state res" where
  "Dispatch env k pdu st =
     (case pdu of
        Undecodable \<Rightarrow> Inl Panic
      | DownlinkNASTransportPdu ies \<Rightarrow> HandlerDownlinkNasTransport ies st
      | InitialContextSetupRequestPdu ies \<Rightarrow> HandlerInitialContextSetupRequest env ies st
      | PDUSessionResourceSetupRequestPdu ies \<Rightarrow> HandlerPduSessionResourceSetupRequest env ies st
      | PDUSessionResourceReleaseCommandPdu ies \<Rightarrow> HandlerPduSessionResourceReleaseCommand env ies st
      | PDUSessionResourceModifyRequestPdu ies \<Rightarrow> HandlerPDUSessionResourceModifyRequest env ies st
      | PagingPdu \<Rightarrow> Inr (HandlerPaging env st)
      | HandoverRequestPdu ies \<Rightarrow> HandlerHandoverRequest env ies st
      | UEContextReleaseCommandPdu ies \<Rightarrow> Inr (HandlerUeContextReleaseCommand env ies st)
      | NGSetupResponsePdu ies \<Rightarrow> HandlerNgSetupResponse k ies st
      | PathSwitchRequestAcknowledgePdu ies \<Rightarrow> HandlerPathSwitchRequestAcknowledge env ies st
      | HandoverCommandPdu ies \<Rightarrow> HandlerHandoverCommand ies st
      | NGSetupFailurePdu cs \<Rightarrow> HandlerNgSetupFailure k cs st
      | OtherPdu \<Rightarrow> Inr st)"

section \<open>Streams\<close>

text \<open>
  \<^verbatim>\<open>getNgapMsgType\<close> and \<^verbatim>\<open>isUeAssociatedMessage\<close> of \<^verbatim>\<open>sender/send.go\<close> on the messages the gNB sends: the name
  by which the sender chooses the SCTP stream.
\<close>

fun getNgapMsgType :: "ngap_msg \<Rightarrow> string" where
  "getNgapMsgType (InitialUEMessage _ _) = ''InitialUEMessage''"
| "getNgapMsgType (UplinkNASTransport _ _ _) = ''UplinkNASTransport''"
| "getNgapMsgType EmptyMessage = ''Unknown''"
| "getNgapMsgType (HandoverRequired _ _ _ _ _ _ _ _) = ''HandoverRequired''"
| "getNgapMsgType (PathSwitchRequest _ _ _ _) = ''PathSwitchRequest''"
| "getNgapMsgType (InitialContextSetupResponse _ _ _) = ''InitialContextSetupResponse''"
| "getNgapMsgType (PDUSessionResourceSetupResponse _ _ _ _ _) = ''PDUSessionResourceSetupResponse''"
| "getNgapMsgType _ = ''NGAP-Message''"

definition isUeAssociatedMessage :: "string \<Rightarrow> bool" where
  "isUeAssociatedMessage t \<longleftrightarrow>
     t \<notin> {''NGSetupRequest'', ''NGSetupResponse'', ''NGSetupFailure'', ''Unknown'', ''NGAP-Message''}"

definition stream_of :: "ngap_msg \<Rightarrow> u16" where
  "stream_of m = (if isUeAssociatedMessage (getNgapMsgType m) then 1 else 0)"

end
