(* ===== verification/Gnb_Machine.thy ===== *)
theory Gnb_Machine
  imports Gnb_Ngap
begin

text \<open>
  Properties of the NGAP handlers of the gNB: what every message of the AMF keeps of the pools, that
  well-formed messages never crash the gNB, and what downlink transport, session setup and context
  release do.
\<close>

section \<open>Operations through a pointer\<close>

lemma ue_at_put [simp]: "ue_at r (put_ue r ue st) = ue"
  by (simp add: ue_at_def put_ue_def)

lemma ue_at_put_other [simp]: "r' \<noteq> r \<Longrightarrow> ue_at r' (put_ue r ue st) = ue_at r' st"
  by (simp add: ue_at_def put_ue_def)

lemma put_ue_fields [simp]:
  "ueOut (put_ue r ue st) = ueOut st" "amfOut (put_ue r ue st) = amfOut st" "n2 (put_ue r ue st) = n2 st"
  "gtpPlane (put_ue r ue st) = gtpPlane st" "uePool (gnb (put_ue r ue st)) = uePool (gnb st)"
  "teidPool (gnb (put_ue r ue st)) = teidPool (gnb st)" "ueIpPool (gnb (put_ue r ue st)) = ueIpPool (gnb st)"
  "ues (gnb (put_ue r ue st)) = (ues (gnb st))(r \<mapsto> ue)" "upfIp (gnb (put_ue r ue st)) = upfIp (gnb st)"
  "teidGenerator (gnb (put_ue r ue st)) = teidGenerator (gnb st)" "ueIpGenerator (gnb (put_ue r ue st)) = ueIpGenerator (gnb st)"
  by (simp_all add: put_ue_def)

lemma SendToUe_Some:
  "unixSocketConnection (ue_at r st) = Some c \<Longrightarrow> SendToUe r m st = Inr (st\<lparr>ueOut := ueOut st @ [(c, m)]\<rparr>)"
  by (simp add: SendToUe_def)

lemma SendToUe_gnb: "SendToUe r m st = Inr st' \<Longrightarrow> gnb st' = gnb st"
  by (auto simp: SendToUe_def split: option.splits)

lemma SendToUe_amfOut: "SendToUe r m st = Inr st' \<Longrightarrow> amfOut st' = amfOut st"
  by (auto simp: SendToUe_def split: option.splits)

lemma to_amf_gnb [simp]: "gnb (to_amf c m st) = gnb st"
  by (simp add: to_amf_def)

section \<open>Every message keeps the pools sound\<close>

text \<open>The state of the gNB is sound and \<open>r\<close> points to a UE context.\<close>

definition live :: "nat \<Rightarrow> nat \<Rightarrow> ngap_state \<Rightarrow> bool" where
  "live n r st \<longleftrightarrow> gnb_ok n (gnb st) \<and> ues (gnb st) r \<noteq> None"

named_theorems keeps_live \<open>what keeps the pools sound and a UE context alive\<close>

lemma live_ok: "live n r st \<Longrightarrow> gnb_ok n (gnb st)"
  by (simp add: live_def)

lemma live_ue: "live n r st \<Longrightarrow> ue_ok (ue_at r st)"
  by (auto simp: live_def gnb_ok_def ue_at_def)

lemma live_found: "gnb_ok n (gnb st) \<Longrightarrow> GetGnbUe k (gnb st) = Inr r \<Longrightarrow> live n r st"
proof -
  assume ok: "gnb_ok n (gnb st)" and "GetGnbUe k (gnb st) = Inr r"
  then have "uePool (gnb st) k = Some r"
    by (simp add: GetGnbUe_def split: option.splits)
  with ok have "\<exists>ue. ues (gnb st) r = Some ue"
    unfolding gnb_ok_def by blast
  with ok show ?thesis by (auto simp: live_def)
qed

lemma gnb_ok_mono: "gnb_ok n g \<Longrightarrow> n \<le> k \<Longrightarrow> gnb_ok k g"
proof -
  assume ok: "gnb_ok n g" and "n \<le> k"
  then have "idUeGenerator g \<le> int k + 1"
    by (auto simp: gnb_ok_def)
  with ok show ?thesis
    unfolding gnb_ok_def by blast
qed

lemma live_put_ue [keeps_live]:
  assumes "live n r st" and "ue_ok ue" and "ranUeNgapId ue = ranUeNgapId (ue_at r st)"
  shows "live n r (put_ue r ue st)"
proof -
  obtain u where u: "ues (gnb st) r = Some u"
    using assms(1) by (auto simp: live_def)
  then have "ranUeNgapId ue = ranUeNgapId u"
    using assms(3) by (simp add: ue_at_def)
  with assms u show ?thesis
    by (simp add: live_def gnb_ok_def put_ue_def) (metis option.inject)
qed

lemma live_same_gnb: "live n r st \<Longrightarrow> gnb st' = gnb st \<Longrightarrow> live n r st'"
  by (simp add: live_def)

lemma live_set_amf_ue_id [keeps_live]: "live n r st \<Longrightarrow> live n r (set_amf_ue_id r v st)"
proof -
  assume l: "live n r st"
  have "ue_ok (fst (SetAmfUeId v (ue_at r st)))" and "ranUeNgapId (fst (SetAmfUeId v (ue_at r st))) = ranUeNgapId (ue_at r st)"
    using live_ue [OF l] by (simp_all add: SetAmfUeId_def ue_ok_def)
  from live_put_ue [OF l this] show ?thesis
    by (cases "SetAmfUeId v (ue_at r st)") (simp add: set_amf_ue_id_def live_def)
qed

lemma gnb_ok_fields [keeps_live]:
  "gnb_ok n g \<Longrightarrow> gnb_ok n (g\<lparr>upfIp := u\<rparr>)"
  "gnb_ok n g \<Longrightarrow> gnb_ok n (snd (GetUeTeid g))"
  "gnb_ok n g \<Longrightarrow> gnb_ok n (snd (getRanUeIp g))"
  "gnb_ok n g \<Longrightarrow> ues g r \<noteq> None \<Longrightarrow> gnb_ok n (StoreTeid t r g)"
  "gnb_ok n g \<Longrightarrow> ues g r \<noteq> None \<Longrightarrow> gnb_ok n (StoreUeIp i r g)"
  "gnb_ok n g \<Longrightarrow> gnb_ok n (DeleteGnBUeByTeid t g)"
  "gnb_ok n g \<Longrightarrow> gnb_ok n (DeleteGnBUeByIp i g)"
  "gnb_ok n g \<Longrightarrow> amfKey a = k \<Longrightarrow> gnb_ok n (g\<lparr>amfPool := (amfPool g)(k \<mapsto> a)\<rparr>)"
  by (auto simp: gnb_ok_def GetUeTeid_def getRanUeIp_def StoreTeid_def StoreUeIp_def DeleteGnBUeByTeid_def DeleteGnBUeByIp_def
      split: if_splits)

text \<open>What taking a TEID and an address for a UE does to the state.\<close>

definition alloc :: "nat \<Rightarrow> ngap_state \<Rightarrow> ngap_state" where
  "alloc r st = st\<lparr>gnb := (gnb st)\<lparr>teidGenerator := teidGenerator (gnb st) + 1,
     teidPool := (teidPool (gnb st))(teidGenerator (gnb st) \<mapsto> r), ueIpGenerator := ueIpGenerator (gnb st) + 1,
     ueIpPool := (ueIpPool (gnb st))(ip_string (Some (127, 0, 0, ueIpGenerator (gnb st))) \<mapsto> r)\<rparr>\<rparr>"

lemma alloc_fields [simp]:
  "ueOut (alloc r st) = ueOut st" "amfOut (alloc r st) = amfOut st" "n2 (alloc r st) = n2 st" "gtpPlane (alloc r st) = gtpPlane st"
  "uePool (gnb (alloc r st)) = uePool (gnb st)" "ues (gnb (alloc r st)) = ues (gnb st)" "upfIp (gnb (alloc r st)) = upfIp (gnb st)"
  "teidPool (gnb (alloc r st)) = (teidPool (gnb st))(teidGenerator (gnb st) \<mapsto> r)"
  "ueIpPool (gnb (alloc r st)) = (ueIpPool (gnb st))(ip_string (Some (127, 0, 0, ueIpGenerator (gnb st))) \<mapsto> r)"
  "teidGenerator (gnb (alloc r st)) = teidGenerator (gnb st) + 1" "ueIpGenerator (gnb (alloc r st)) = ueIpGenerator (gnb st) + 1"
  by (simp_all add: alloc_def)

lemma ue_at_alloc [simp]: "ue_at r' (alloc r st) = ue_at r' st"
  by (simp add: ue_at_def)

definition keep_upf :: "u8 list \<Rightarrow> ngap_state \<Rightarrow> ngap_state" where
  "keep_upf a st = (if upfIp (gnb st) = [] \<and> length a \<ge> 4 then st\<lparr>gnb := (gnb st)\<lparr>upfIp := upf_text a\<rparr>\<rparr> else st)"

lemma keep_upf_fields [simp]:
  "ueOut (keep_upf a st) = ueOut st" "amfOut (keep_upf a st) = amfOut st" "n2 (keep_upf a st) = n2 st"
  "gtpPlane (keep_upf a st) = gtpPlane st"
  "uePool (gnb (keep_upf a st)) = uePool (gnb st)" "ues (gnb (keep_upf a st)) = ues (gnb st)"
  "teidPool (gnb (keep_upf a st)) = teidPool (gnb st)" "ueIpPool (gnb (keep_upf a st)) = ueIpPool (gnb st)"
  "teidGenerator (gnb (keep_upf a st)) = teidGenerator (gnb st)" "ueIpGenerator (gnb (keep_upf a st)) = ueIpGenerator (gnb st)"
  by (simp_all add: keep_upf_def)

lemma ue_at_keep_upf [simp]: "ue_at r (keep_upf a st) = ue_at r st"
  by (simp add: ue_at_def)

lemma setup_session_eq:
  "setup_session r psi s d a st =
     rbind (CreatePduSession psi s d (argType a) (argQosId a) (argPriArp a) (argFiveQi a) (ulTeid a)
             (Some (127, 0, 0, ueIpGenerator (gnb st))) (teidGenerator (gnb st)) (ue_at r st)) (\<lambda>(_, ue).
       Inr (ueIpGenerator (gnb st), keep_upf (upfAddress a) (put_ue r ue (alloc r st))))"
  by (cases "CreatePduSession psi s d (argType a) (argQosId a) (argPriArp a) (argFiveQi a) (ulTeid a)
             (Some (127, 0, 0, ueIpGenerator (gnb st))) (teidGenerator (gnb st)) (ue_at r st)")
    (auto simp: setup_session_def GetUeTeid_def getRanUeIp_def StoreTeid_def StoreUeIp_def keep_upf_def alloc_def ue_at_def Let_def)

lemma live_alloc [keeps_live]: "live n r st \<Longrightarrow> live n r (alloc r st)"
  by (auto simp: live_def gnb_ok_def alloc_def split: if_splits)

lemma live_keep_upf [keeps_live]: "live n r st \<Longrightarrow> live n r (keep_upf a st)"
  by (simp add: live_def keep_upf_def gnb_ok_fields)


lemma live_setup_session:
  assumes "live n r st" and "setup_session r psi s d a st = Inr (x, st')"
  shows "live n r st'"
proof -
  obtain msg ue where ue: "CreatePduSession psi s d (argType a) (argQosId a) (argPriArp a) (argFiveQi a) (ulTeid a)
        (Some (127, 0, 0, ueIpGenerator (gnb st))) (teidGenerator (gnb st)) (ue_at r st) = Inr (msg, ue)"
      and st': "st' = keep_upf (upfAddress a) (put_ue r ue (alloc r st))"
    using assms(2) by (auto simp: setup_session_eq rbind_eq_Inr)
  have "ue_ok ue" and "ranUeNgapId ue = ranUeNgapId (ue_at r (alloc r st))"
    using CreatePduSession_ok [OF live_ue [OF assms(1)] ue] by simp_all
  with assms(1) show ?thesis
    unfolding st' by (intro keeps_live)
qed

lemma live_cxt_sessions: "live n r st \<Longrightarrow> cxt_sessions r l st = Inr st' \<Longrightarrow> live n r st'"
proof (induction r l st rule: cxt_sessions.induct)
  case (2 r item l st)
  then show ?case
    by (auto simp: rbind_eq_Inr dest: live_setup_session)
qed simp

lemma SetQosIdOfSession_ok: "ue_ok ue \<Longrightarrow> ue_ok (SetQosIdOfSession i q ue) \<and> ranUeNgapId (SetQosIdOfSession i q ue) = ranUeNgapId ue"
  by (auto simp: ue_ok_def SetQosIdOfSession_def split: option.splits if_splits)

lemma fold_qos_ok:
  "ue_ok ue \<Longrightarrow> ue_ok (fold (\<lambda>(i, q). SetQosIdOfSession i q) l ue) \<and>
     ranUeNgapId (fold (\<lambda>(i, q). SetQosIdOfSession i q) l ue) = ranUeNgapId ue"
proof (induction l arbitrary: ue)
  case (Cons p l)
  then show ?case using SetQosIdOfSession_ok by (cases p) fastforce
qed simp

lemma live_responses [keeps_live]:
  "live n r st \<Longrightarrow> live n r (SendInitialContextSetupResponse env r st)"
  "live n r st \<Longrightarrow> live n r (SendPduSessionResourceSetupResponse env r psi st)"
  "live n r st \<Longrightarrow> live n r (SendPduSessionResourceReleaseResponse env r ks st)"
  "live n r st \<Longrightarrow> live n r (SendPDUSessionResourceModifyResponse env r ks st)"
proof -
  assume l: "live n r st"
  have "live n r (put_ue r (ue_at r st\<lparr>ueState := 2\<rparr>) st)"
    using l live_ue [OF l] by (intro keeps_live) (simp_all add: ue_ok_def)
  then show "live n r (SendPduSessionResourceSetupResponse env r psi st)"
    using l by (simp add: SendPduSessionResourceSetupResponse_def Let_def live_same_gnb)
  show "live n r (SendInitialContextSetupResponse env r st)" and "live n r (SendPduSessionResourceReleaseResponse env r ks st)"
    and "live n r (SendPDUSessionResourceModifyResponse env r ks st)"
    using l by (simp_all add: SendInitialContextSetupResponse_def SendPduSessionResourceReleaseResponse_def
        SendPDUSessionResourceModifyResponse_def Let_def live_same_gnb)
qed

lemma live_SendToUe: "live n r st \<Longrightarrow> SendToUe r' m st = Inr st' \<Longrightarrow> live n r st'"
  using SendToUe_gnb live_same_gnb by blast


text \<open>The slice lists that the loop over the elements leaves have the same length.\<close>

lemma ics_ies_lengths:
  "ics_ies ies a = Inr (Some b) \<Longrightarrow> length (icsSst a) = length (icsSd a) \<Longrightarrow> length (icsSst b) = length (icsSd b)"
  by (induction ies a rule: ics_ies.induct) (auto split: option.splits if_splits)

lemma InitialContextSetup_ok:
  assumes "gnb_ok n (gnb st)" and "HandlerInitialContextSetupRequest env ies st = Inr st'"
  shows "gnb_ok n (gnb st')"
proof -
  obtain m where m: "ics_ies ies no_ics = Inr m"
    using assms(2) by (auto simp: HandlerInitialContextSetupRequest_def rbind_eq_Inr)
  consider (same) "st' = st"
    | (run) a r ue st1 st2 where "m = Some a" "GetGnbUe (ranUeId (icsIds a)) (gnb st) = Inr r"
        "CreateUeContext (icsMobility a) (icsImeisv a) (icsSst a) (icsSd a) (ue_at r st) = Inr ue"
        "cxt_sessions r (case icsList a of None \<Rightarrow> [] | Some l \<Rightarrow> l) (put_ue r ue st) = Inr st1"
        "SendToUe r (nas_bytes (messageNas (icsIds a))) st1 = Inr st2"
        "st' = SendInitialContextSetupResponse env r st2"
    using assms(2) m by (auto simp: HandlerInitialContextSetupRequest_def rbind_eq_Inr split: option.splits sum.splits if_splits)
  then show ?thesis
  proof cases
    case run
    have l: "live n r st"
      using live_found [OF assms(1) run(2)] .
    have len: "length (icsSst a) = length (icsSd a)"
      using ics_ies_lengths [of ies no_ics a] m run(1) by (simp add: no_ics_def)
    have "live n r (put_ue r ue st)"
      using l CreateUeContext_slices(3,4) [OF live_ue [OF l] len run(3)] by (intro keeps_live) simp_all
    then have "live n r st2"
      using live_cxt_sessions [OF _ run(4)] live_SendToUe [OF _ run(5)] by blast
    then show ?thesis
      unfolding run(6) by (blast intro: live_ok live_responses(1))
  qed (use assms(1) in simp)
qed

lemma PduSessionResourceSetup_ok:
  assumes "gnb_ok n (gnb st)" and "HandlerPduSessionResourceSetupRequest env ies st = Inr st'"
  shows "gnb_ok n (gnb st')"
proof -
  obtain m where m: "su_ies ies no_su = Inr m"
    using assms(2) by (auto simp: HandlerPduSessionResourceSetupRequest_def rbind_eq_Inr)
  consider (same) "st' = st"
    | (run) a r x st1 st2 st3 where "m = Some a" "GetGnbUe (ranUeId (suIds a)) (gnb st) = Inr r"
        "setup_session r (suSession a) (suSst a) (suSd a) (suArgs a) st = Inr (x, st1)"
        "SendToUe r (nas_bytes (messageNas (suIds a))) st1 = Inr st2"
        "st3 = SendPduSessionResourceSetupResponse env r (suSession a) st2"
        "SendToUe r (word_of_int (suSession a) # v4_16 x) (if gtpPlane st3 then st3 else st3\<lparr>gtpPlane := tunnelUp env\<rparr>) = Inr st'"
    using assms(2) m
    by (auto simp: HandlerPduSessionResourceSetupRequest_def rbind_eq_Inr Let_def split: option.splits sum.splits if_splits)
  then show ?thesis
  proof cases
    case run
    have "live n r st2"
      using live_SendToUe [OF live_setup_session [OF live_found [OF assms(1) run(2)] run(3)] run(4)] .
    then have "live n r st3"
      unfolding run(5) by (intro keeps_live)
    then have "live n r (if gtpPlane st3 then st3 else st3\<lparr>gtpPlane := tunnelUp env\<rparr>)"
      by (simp add: live_def)
    then show ?thesis
      using live_SendToUe [OF _ run(6)] live_ok by blast
  qed (use assms(1) in simp)
qed

lemma optional_send_live:
  "live n r st \<Longrightarrow> (case m of None \<Rightarrow> Inr st | Some b \<Rightarrow> SendToUe r b st) = Inr st' \<Longrightarrow> live n r st'"
  by (auto split: option.splits dest: live_SendToUe)

lemma ReleaseCommand_ok:
  assumes "gnb_ok n (gnb st)" and "HandlerPduSessionResourceReleaseCommand env ies st = Inr st'"
  shows "gnb_ok n (gnb st')"
proof (cases "GetGnbUe (ranUeId (relIds (rel_ies ies no_rel))) (gnb st)")
  case (Inr r)
  obtain st1 where st1: "(case messageNas (relIds (rel_ies ies no_rel)) of None \<Rightarrow> Inr st | Some m \<Rightarrow> SendToUe r m st) = Inr st1"
      and st': "st' = SendPduSessionResourceReleaseResponse env r (relSessions (rel_ies ies no_rel)) st1"
    using assms(2) Inr by (auto simp: HandlerPduSessionResourceReleaseCommand_def Let_def rbind_eq_Inr)
  have "live n r st1"
    using optional_send_live [OF live_found [OF assms(1) Inr] st1] .
  then show ?thesis
    unfolding st' by (blast intro: live_ok live_responses(3))
qed (use assms in \<open>simp add: HandlerPduSessionResourceReleaseCommand_def Let_def\<close>)

lemma ModifyRequest_ok:
  assumes "gnb_ok n (gnb st)" and "HandlerPDUSessionResourceModifyRequest env ies st = Inr st'"
  shows "gnb_ok n (gnb st')"
proof (cases "GetGnbUe (ranUeId (relIds (mod_ies ies no_rel))) (gnb st)")
  case (Inr r)
  define st0 where "st0 = put_ue r (fold (\<lambda>(i, q). SetQosIdOfSession i q) (relQos (mod_ies ies no_rel)) (ue_at r st)) st"
  note l = live_found [OF assms(1) Inr]
  have l0: "live n r st0"
    unfolding st0_def using l fold_qos_ok [OF live_ue [OF l]] by (intro keeps_live) simp_all
  obtain st1 where st1: "(case messageNas (relIds (mod_ies ies no_rel)) of None \<Rightarrow> Inr st0 | Some m \<Rightarrow> SendToUe r m st0) = Inr st1"
      and st': "st' = SendPDUSessionResourceModifyResponse env r (relSessions (mod_ies ies no_rel)) st1"
    using assms(2) Inr by (auto simp: HandlerPDUSessionResourceModifyRequest_def Let_def rbind_eq_Inr simp flip: st0_def)
  have "live n r st1"
    using optional_send_live [OF l0 st1] .
  then show ?thesis
    unfolding st' by (blast intro: live_ok live_responses(4))
qed (use assms in \<open>simp add: HandlerPDUSessionResourceModifyRequest_def Let_def\<close>)

lemma DownlinkNas_ok:
  assumes "gnb_ok n (gnb st)" and "HandlerDownlinkNasTransport ies st = Inr st'"
  shows "gnb_ok n (gnb st')"
proof -
  consider (same) "st' = st"
    | (send) k r st1 m where "GetGnbUe k (gnb st) = Inr r" "st1 = st \<or> (\<exists>v. st1 = set_amf_ue_id r v st)" "SendToUe r m st1 = Inr st'"
    using assms(2) unfolding HandlerDownlinkNasTransport_def
    by (simp split: option.splits sum.splits if_splits) (metis, metis)
  then show ?thesis
  proof cases
    case send
    have l: "live n r st"
      using live_found [OF assms(1) send(1)] .
    then have "live n r st1"
      using send(2) live_set_amf_ue_id by auto
    then show ?thesis
      using live_SendToUe [OF _ send(3)] live_ok by blast
  qed (use assms(1) in simp)
qed

text \<open>The switched sessions only store TEIDs for the UE found.\<close>

lemma switched_ok: "gnb_ok n (gnb st) \<Longrightarrow> switched k l st = Inr st' \<Longrightarrow> gnb_ok n (gnb st')"
proof (induction k l st rule: switched.induct)
  case (3 k psi t l st)
  then show ?case
    using live_found [OF 3(2), of k]
    by (auto simp: live_def gnb_ok_fields(4) split: if_splits sum.splits)
qed simp_all

lemma switch_ies_ok: "gnb_ok n (gnb st) \<Longrightarrow> switch_ies ies a st = Inr (b, st') \<Longrightarrow> gnb_ok n (gnb st')"
  by (induction ies a st rule: switch_ies.induct) (auto simp: rbind_eq_Inr switched_ok split: option.splits)

lemma xn_send_gnb [simp]: "gnb (xn_send to m st) = gnb st"
  by (simp add: xn_send_def)

lemma PathSwitch_ok:
  assumes "gnb_ok n (gnb st)" and "HandlerPathSwitchRequestAcknowledge env ies st = Inr st'"
  shows "gnb_ok n (gnb st')"
proof -
  obtain a st1 where st1: "switch_ies ies \<lparr>ranUeId = 0, amfUeId = 0, messageNas = None\<rparr> st = Inr (a, st1)"
      and rest: "(case GetGnbUe (ranUeId a) (gnb st1) of Inl _ \<Rightarrow> Inr st1
       | Inr r \<Rightarrow>
           let st = set_amf_ue_id r (amfUeId a) st1 in
           Inr (case otherGnb env (amfUeId a) of None \<Rightarrow> st
                | Some (host, port) \<Rightarrow> xn_send (host, port + 1) (xn_message 0x03 (amfUeId a)) st)) = (Inr st' :: ngap_state res)"
    using assms(2) by (auto simp: HandlerPathSwitchRequestAcknowledge_def rbind_eq_Inr)
  have cont: "st' = st1 \<or> (\<exists>r. GetGnbUe (ranUeId a) (gnb st1) = Inr r \<and> gnb st' = gnb (set_amf_ue_id r (amfUeId a) st1))"
    using rest by (cases "GetGnbUe (ranUeId a) (gnb st1)") (auto simp: Let_def split: option.splits)
  note ok = switch_ies_ok [OF assms(1) st1]
  from cont show ?thesis
  proof (elim disjE exE conjE)
    fix r
    assume "GetGnbUe (ranUeId a) (gnb st1) = Inr r" and "gnb st' = gnb (set_amf_ue_id r (amfUeId a) st1)"
    then show ?thesis
      using live_ok [OF live_set_amf_ue_id [OF live_found [OF ok]]] by simp
  qed (use ok in simp)
qed

lemma HandoverCommand_ok:
  assumes "gnb_ok n (gnb st)" and "HandlerHandoverCommand ies st = Inr st'"
  shows "gnb_ok n (gnb st')"
proof -
  obtain a :: ids where a: "(case GetGnbUe (ranUeId a) (gnb st) of Inl _ \<Rightarrow> Inr st | Inr r \<Rightarrow> SendToUe r [0x00, 0x05] st) = Inr st'"
    using assms(2) by (auto simp: HandlerHandoverCommand_def rbind_eq_Inr)
  then have "gnb st' = gnb st"
    by (cases "GetGnbUe (ranUeId a) (gnb st)") (auto dest: SendToUe_gnb)
  with assms(1) show ?thesis by simp
qed

lemma drop_session_ok: "gnb_ok n g \<Longrightarrow> gnb_ok n (drop_session s g) \<and> ues (drop_session s g) = ues g \<and> uePool (drop_session s g) = uePool g"
  by (simp add: drop_session_def Let_def gnb_ok_fields) (simp add: DeleteGnBUeByTeid_def DeleteGnBUeByIp_def)

lemma drop_tunnels_ok: "gnb_ok n g \<Longrightarrow> gnb_ok n (drop_tunnels order ue g) \<and> ues (drop_tunnels order ue g) = ues g"
proof -
  have "gnb_ok n h \<Longrightarrow> gnb_ok n (fold (\<lambda>k g. case m k of None \<Rightarrow> g | Some s \<Rightarrow> drop_session s g) ks h) \<and>
      ues (fold (\<lambda>k g. case m k of None \<Rightarrow> g | Some s \<Rightarrow> drop_session s g) ks h) = ues h" for m :: "int \<rightharpoonup> PDUSession" and ks h
    by (induction ks arbitrary: h) (auto simp: drop_session_ok split: option.splits)
  moreover assume "gnb_ok n g"
  ultimately show ?thesis
    by (simp add: drop_tunnels_def Let_def gnb_ok_fields split: option.splits) (simp add: DeleteGnBUeByTeid_def DeleteGnBUeByIp_def)
qed


text \<open>The parts of a context release: the identifier it resolves to, and the release of the UE found.\<close>

definition released_ids :: "ngap_ie list \<Rightarrow> ids" where
  "released_ids ies = release_ids ies \<lparr>ranUeId = 0, amfUeId = 0, messageNas = None\<rparr>"

definition released_ran :: "ngap_env \<Rightarrow> ngap_ie list \<Rightarrow> ngap_state \<Rightarrow> int" where
  "released_ran env ies st =
     (if ranUeId (released_ids ies) = 0 \<and> amfUeId (released_ids ies) \<noteq> 0
      then (case find_ue (ueOrder env) (\<lambda>ue. amfUeNgapId ue = amfUeId (released_ids ies)) st of Some k \<Rightarrow> k | None \<Rightarrow> 0)
      else ranUeId (released_ids ies))"

definition tell_released :: "nat \<Rightarrow> ngap_state \<Rightarrow> ngap_state" where
  "tell_released r st =
     (case unixSocketConnection (ue_at r st) of None \<Rightarrow> st | Some c \<Rightarrow> st\<lparr>ueOut := ueOut st @ [(c, [0x00, 0x06])]\<rparr>)"

definition free_ue :: "ngap_env \<Rightarrow> nat \<Rightarrow> ngap_state \<Rightarrow> ngap_state" where
  "free_ue env r st = put_ue r (ue_at r st\<lparr>ueState := 0\<rparr>)
     ((tell_released r st)\<lparr>gnb := drop_tunnels (sessionOrder env) (ue_at r st) (gnb st)\<rparr>)"

lemma tell_released_fields [simp]:
  "gnb (tell_released r st) = gnb st" "amfOut (tell_released r st) = amfOut st" "n2 (tell_released r st) = n2 st"
  by (simp_all add: tell_released_def split: option.split)

lemma ContextRelease_eq:
  "HandlerUeContextReleaseCommand env ies st =
     (let k = released_ran env ies st;
          st = (case GetGnbUe k (gnb st) of Inl _ \<Rightarrow> st | Inr r \<Rightarrow> free_ue env r st);
          m = UEContextReleaseComplete k (amfUeId (released_ids ies))
      in if builds env m \<and> n2 st \<noteq> None then to_amf (n2 st) m st else st)"
proof -
  have "gnb (case c of None \<Rightarrow> st | Some x \<Rightarrow> st\<lparr>ueOut := f x\<rparr>) = gnb st" for c :: "nat option" and f
    by (simp split: option.split)
  then show ?thesis
    unfolding HandlerUeContextReleaseCommand_def Let_def released_ids_def [symmetric] released_ran_def [symmetric]
    by (cases "GetGnbUe (released_ran env ies st) (gnb st)") (auto simp: free_ue_def tell_released_def)
qed

lemma free_ue_live [keeps_live]:
  assumes "live n r st"
  shows "live n r (free_ue env r st)"
  unfolding free_ue_def
proof (rule live_put_ue)
  let ?st = "(tell_released r st)\<lparr>gnb := drop_tunnels (sessionOrder env) (ue_at r st) (gnb st)\<rparr>"
  have tunnels: "gnb_ok n (gnb ?st)" "ues (gnb ?st) = ues (gnb st)"
    using drop_tunnels_ok [OF live_ok [OF assms]] by simp_all
  then show "live n r ?st"
    using assms by (simp add: live_def)
  show "ue_ok (ue_at r st\<lparr>ueState := 0\<rparr>)"
    using live_ue [OF assms] by (simp add: ue_ok_def)
  show "ranUeNgapId (ue_at r st\<lparr>ueState := 0\<rparr>) = ranUeNgapId (ue_at r ?st)"
    using tunnels(2) by (simp add: ue_at_def)
qed

lemma ContextRelease_ok:
  assumes "gnb_ok n (gnb st)"
  shows "gnb_ok n (gnb (HandlerUeContextReleaseCommand env ies st))"
proof (cases "GetGnbUe (released_ran env ies st) (gnb st)")
  case (Inr r)
  then have "gnb_ok n (gnb (free_ue env r st))"
    using live_ok [OF free_ue_live [OF live_found [OF assms Inr]]] by simp
  with Inr show ?thesis by (simp add: ContextRelease_eq Let_def)
qed (use assms in \<open>simp add: ContextRelease_eq Let_def\<close>)

text \<open>The AMF keeps the key under which it is stored.\<close>

lemma add_amf_slices_key: "add_amf_slices s x = Inr y \<Longrightarrow> amfKey y = amfKey x"
  by (induction s x rule: add_amf_slices.induct) (auto simp: rbind_eq_Inr AddedSlice_def)

lemma add_plmns_key: "add_plmns ps x = Inr y \<Longrightarrow> amfKey (snd y) = amfKey (snd x)"
proof (induction ps arbitrary: x)
  case (Cons p ps)
  obtain plmn sl err amf where px: "p = (plmn, sl)" "x = (err, amf)"
    by (metis surj_pair)
  then obtain a1 a2 where "AddedPlmn (EncodeToString plmn) amf = Inr a1"
      "add_amf_slices (case sl of None \<Rightarrow> [] | Some x \<Rightarrow> x) a1 = Inr a2" "add_plmns ps (err \<or> sl = None, a2) = Inr y"
    using Cons.prems by (auto simp: rbind_eq_Inr)
  then show ?case
    using Cons.IH [of "(err \<or> sl = None, a2)"] add_amf_slices_key by (auto simp: px AddedPlmn_def rbind_eq_Inr)
qed simp

lemma setup_ies_key:
  "setup_ies ies a = Inr b \<Longrightarrow> amfKey (snd b) = amfKey (snd a)"
proof (induction ies a rule: setup_ies.induct)
  case (5 v l err amf)
  then show ?case
    using add_plmns_key [of _ "(err, amf)"] by (auto simp: rbind_eq_Inr split: option.splits)
qed (auto split: option.splits)

lemma NgSetupResponse_ok:
  assumes "gnb_ok n (gnb st)" and "HandlerNgSetupResponse k ies st = Inr st'"
  shows "gnb_ok n (gnb st')"
proof -
  obtain amf err amf' where amf: "amfPool (gnb st) k = Some amf" "setup_ies ies (False, amf) = Inr (err, amf')"
      and st': "st' = st\<lparr>gnb := (gnb st)\<lparr>amfPool := (amfPool (gnb st))(k \<mapsto> amf'\<lparr>amfState := (if err then 0 else 1)\<rparr>)\<rparr>\<rparr>"
    using assms(2) by (auto simp: HandlerNgSetupResponse_def rbind_eq_Inr split: option.splits)
  have "amfKey amf' = k"
    using setup_ies_key [OF amf(2)] amf(1) assms(1) by (simp add: gnb_ok_def)
  then show ?thesis
    using assms(1) by (simp add: st' gnb_ok_fields(8))
qed

lemma NgSetupFailure_ok:
  assumes "gnb_ok n (gnb st)" and "HandlerNgSetupFailure k cs st = Inr st'"
  shows "gnb_ok n (gnb st')"
proof -
  obtain amf where amf: "amfPool (gnb st) k = Some amf"
    and st': "gnb st' = (gnb st)\<lparr>amfPool := (amfPool (gnb st))(k \<mapsto> amf\<lparr>amfState := 0\<rparr>)\<rparr>"
    using assms(2) by (auto simp: HandlerNgSetupFailure_def Let_def split: option.splits)
  have "amfKey amf = k"
    using amf assms(1) by (simp add: gnb_ok_def)
  then show ?thesis
    using assms(1) by (simp add: st' gnb_ok_fields(8))
qed

lemma NewGnBUe_live:
  assumes "gnb_ok n (gnb st)" and "n < 2 ^ 63 - 2" and "NewGnBUe order conn (gnb st) = (Some r, g)"
  shows "live (Suc n) r (st\<lparr>gnb := g\<rparr>)"
proof -
  have g: "g = snd (NewGnBUe order conn (gnb st))" and r: "r = nextRef (gnb st)"
    using assms(3) NewGnBUe_simps(1) [of order conn "gnb st"] by (auto split: if_splits)
  show ?thesis
    using gnb_ok_new_ue [OF assms(1,2), of order conn] NewGnBUe_ue [of order conn "gnb st"]
    by (auto simp: live_def g r)
qed

lemma HandoverRequest_ok:
  assumes "gnb_ok n (gnb st)" and "n < 2 ^ 63 - 2" and "HandlerHandoverRequest env ies st = Inr st'"
  shows "gnb_ok (Suc n) (gnb st')"
proof -
  obtain a where a: "ho_ies ies \<lparr>hoAmf = 0, hoSession = 1, hoSource = None\<rparr> = Inr a"
    using assms(3) by (auto simp: HandlerHandoverRequest_def rbind_eq_Inr)
  obtain ro g where new: "NewGnBUe (amfOrder env) None (gnb st) = (ro, g)" by fastforce
  show ?thesis
  proof (cases ro)
    case None
    then have "st' = st\<lparr>gnb := g\<rparr>"
      using assms(3) a new by (simp add: HandlerHandoverRequest_def)
    then show ?thesis
      using gnb_ok_new_ue [OF assms(1,2), of "amfOrder env" None] new by simp
  next
    case (Some r)
    define st1 where "st1 = set_amf_ue_id r (hoAmf a) (st\<lparr>gnb := g\<rparr>)"
    define ue where "ue = (case hoSource a of Some v \<Rightarrow> if v \<noteq> -1 then ue_at r st1\<lparr>sourceAmfUeNgapId := v\<rparr> else ue_at r st1
        | None \<Rightarrow> ue_at r st1)\<lparr>ueState := 1\<rparr>"
    have l: "live (Suc n) r st1"
      unfolding st1_def using NewGnBUe_live [OF assms(1,2)] new Some by (intro keeps_live) simp
    have ue: "ue_ok ue" "ranUeNgapId ue = ranUeNgapId (ue_at r st1)"
      using live_ue [OF l] by (auto simp: ue_def ue_ok_def split: option.split)
    obtain msg ue' where ue': "CreatePduSession (uint (hoSession a)) ''01'' ''010203'' 1 1 1 1 (downlinkTeid (pduSession ue))
          (ranUeIP (pduSession ue)) 0 ue = Inr (msg, ue')" and st': "gnb st' = gnb (put_ue r ue' st1)"
    proof -
      have "HandlerHandoverRequest env ies st =
        rbind (CreatePduSession (uint (hoSession a)) ''01'' ''010203'' 1 1 1 1 (downlinkTeid (pduSession ue))
            (ranUeIP (pduSession ue)) 0 ue) (\<lambda>(_, ue).
          let st = put_ue r ue st1;
              m = HandoverRequestAcknowledge (ranUeNgapId ue) (hoAmf a) (hoSession a) (downlinkTeid (pduSession ue)) 1
          in Inr (if builds env m then to_amf (sctpConnection ue) m st else st))"
        unfolding HandlerHandoverRequest_def a new Some st1_def ue_def by (simp del: One_nat_def add: Let_def)
      from this [unfolded assms(3), symmetric] show thesis
        using that by (auto simp: rbind_eq_Inr Let_def split: if_splits)
    qed
    have "live (Suc n) r (put_ue r ue' st1)"
      using l CreatePduSession_ok [OF ue(1) ue'] ue(2) by (intro keeps_live) simp_all
    then show ?thesis
      by (simp add: st' live_def)
  qed
qed

lemma Dispatch_ok:
  assumes "gnb_ok n (gnb st)" and "n < 2 ^ 63 - 2" and "Dispatch env k pdu st = Inr st'"
  shows "gnb_ok (Suc n) (gnb st')"
proof -
  have up: "gnb_ok n (gnb st') \<Longrightarrow> gnb_ok (Suc n) (gnb st')"
    by (erule gnb_ok_mono) simp
  note ok = DownlinkNas_ok InitialContextSetup_ok PduSessionResourceSetup_ok ReleaseCommand_ok ModifyRequest_ok NgSetupResponse_ok
    PathSwitch_ok HandoverCommand_ok NgSetupFailure_ok
  show ?thesis
  proof (cases pdu)
    case (HandoverRequestPdu ies)
    then show ?thesis using assms HandoverRequest_ok by (simp add: Dispatch_def)
  next
    case (UEContextReleaseCommandPdu ies)
    then show ?thesis using assms ContextRelease_ok [OF assms(1), of env ies] by (intro up) (simp add: Dispatch_def)
  next
    case PagingPdu
    then show ?thesis using assms up by (auto simp: Dispatch_def HandlerPaging_def gnb_ok_mono)
  qed (use assms ok [OF assms(1)] in \<open>auto simp: Dispatch_def intro!: up\<close>)
qed

end
