(* ===== verification/Gnb_Procedures.thy ===== *)
theory Gnb_Procedures
  imports Gnb_Machine
begin

text \<open>
  What the procedures of the gNB achieve: session setup, initial context setup, downlink transport and
  context release, from the message of the AMF to the answers, the pools and the messages to the UE.
\<close>

section \<open>Session setup\<close>

lemma ue_at_out [simp]:
  "ue_at r (st\<lparr>ueOut := o1\<rparr>) = ue_at r st" "ue_at r (st\<lparr>gtpPlane := b\<rparr>) = ue_at r st" "ue_at r (to_amf k m st) = ue_at r st"
  by (simp_all add: ue_at_def to_amf_def)

lemma to_amf_fields [simp]:
  "amfOut (to_amf k m st) = amfOut st @ [(k, m)]" "ueOut (to_amf k m st) = ueOut st" "gtpPlane (to_amf k m st) = gtpPlane st"
  by (simp_all add: to_amf_def)

text \<open>What creating a session leaves of the rest of the UE context.\<close>

lemma pduSessionNssai_frame:
  "pduSessionNssai s d ue = Inr (b, ue') \<Longrightarrow> amfUeNgapId ue' = amfUeNgapId ue \<and> sctpConnection ue' = sctpConnection ue \<and>
     unixSocketConnection ue' = unixSocketConnection ue \<and> ranUeNgapId ue' = ranUeNgapId ue \<and> pduSessions ue' = pduSessions ue"
  by (auto simp: pduSessionNssai_def Let_def rbind_eq_Inr split: option.splits)

lemma CreatePduSession_frame:
  assumes "CreatePduSession psi s d t q a f ul ip dl ue = Inr (msg, ue')"
  shows "amfUeNgapId ue' = amfUeNgapId ue \<and> sctpConnection ue' = sctpConnection ue \<and>
    unixSocketConnection ue' = unixSocketConnection ue \<and> ranUeNgapId ue' = ranUeNgapId ue"
  using assms by (auto simp: CreatePduSession_def Let_def rbind_eq_Inr split: if_splits dest!: pduSessionNssai_frame)

lemma CreatePduSession_lookup:
  assumes "ue_ok ue" and "has_slice s d ue"
  obtains ue' where "CreatePduSession psi s d t q a f ul ip dl ue = Inr ([], ue')"
    and "GetTeidDownlinkOfSession psi ue' = dl" and "GetQosIdOfSession psi ue' = q"
    and "\<exists>x. the (pduSessions ue') psi = Some x \<and> pduSessionId x = psi \<and> uplinkTeid x = ul \<and> downlinkTeid x = dl \<and> ranUeIP x = ip"
    and "pduSessions ue' \<noteq> None"
    and "\<forall>k. k \<noteq> psi \<longrightarrow> the (pduSessions ue') k = (case pduSessions ue of None \<Rightarrow> None | Some m \<Rightarrow> m k)"
proof -
  obtain ue' where 1: "CreatePduSession psi s d t q a f ul ip dl ue = Inr ([], ue')"
      and 2: "pduSessions ue' = Some ((case pduSessions ue of None \<Rightarrow> Map.empty | Some m \<Rightarrow> m)(psi \<mapsto>
        \<lparr>pduSessionId = psi, ranUeIP = ip, uplinkTeid = ul, downlinkTeid = dl, slices = [\<lparr>sst = s, sd = d, status = ''active''\<rparr>],
         lenSlice = 0, pduType = t, qosId = q, fiveQi = f, priArp = a\<rparr>))"
    using CreatePduSession_found [OF assms, of psi t q a f ul ip dl] by blast
  show thesis
    by (rule that [OF 1]) (auto simp: 2 GetTeidDownlinkOfSession_def GetQosIdOfSession_def split: option.split)
qed

lemma GetGnbUe_put_alloc [simp]:
  "GetGnbUeByTeid t (gnb (keep_upf u (put_ue r ue (alloc r st)))) =
     (if t = teidGenerator (gnb st) then Inr r else GetGnbUeByTeid t (gnb st))"
  "GetGnbUeByIp i (gnb (keep_upf u (put_ue r ue (alloc r st)))) =
     (if i = ip_string (Some (127, 0, 0, ueIpGenerator (gnb st))) then Inr r else GetGnbUeByIp i (gnb st))"
  by (simp_all add: GetGnbUeByTeid_def GetGnbUeByIp_def)

text \<open>The end of a session setup: the NAS message, the answer to the AMF, the tunnel and the address.\<close>

lemma finish_session_setup:
  assumes "ue_at r st = ue" and "unixSocketConnection ue = Some c" and "\<forall>m. builds env m"
  obtains st' where
    "rbind (SendToUe r nas st) (\<lambda>st.
       let st = SendPduSessionResourceSetupResponse env r psi st;
           st = (if gtpPlane st then st else st\<lparr>gtpPlane := tunnelUp env\<rparr>)
       in SendToUe r addr st) = Inr st'"
    and "gnb st' = gnb (put_ue r (ue\<lparr>ueState := 2\<rparr>) st)" and "ueOut st' = ueOut st @ [(c, nas), (c, addr)]"
    and "amfOut st' = amfOut st @ [(sctpConnection ue, PDUSessionResourceSetupResponse (amfUeNgapId ue) (ranUeNgapId ue) psi
      (GetTeidDownlinkOfSession psi ue) (GetQosIdOfSession psi ue))]"
proof -
  define st2 where "st2 = st\<lparr>ueOut := ueOut st @ [(c, nas)]\<rparr>"
  have send: "SendToUe r nas st = Inr st2"
    using assms(1,2) by (simp add: SendToUe_def st2_def)
  define st3 where "st3 = SendPduSessionResourceSetupResponse env r psi st2"
  have ue3: "ue_at r st3 = ue\<lparr>ueState := 2\<rparr>"
    using assms by (simp add: st3_def st2_def SendPduSessionResourceSetupResponse_def)
  have st3: "gnb st3 = gnb (put_ue r (ue\<lparr>ueState := 2\<rparr>) st)"
      "ueOut st3 = ueOut st @ [(c, nas)]"
      "amfOut st3 = amfOut st @ [(sctpConnection ue, PDUSessionResourceSetupResponse (amfUeNgapId ue) (ranUeNgapId ue) psi
        (GetTeidDownlinkOfSession psi ue) (GetQosIdOfSession psi ue))]"
    using assms by (simp_all add: st3_def st2_def SendPduSessionResourceSetupResponse_def put_ue_def)
  define st4 where "st4 = (if gtpPlane st3 then st3 else st3\<lparr>gtpPlane := tunnelUp env\<rparr>)"
  have st4: "ue_at r st4 = ue\<lparr>ueState := 2\<rparr>" "gnb st4 = gnb st3" "ueOut st4 = ueOut st3" "amfOut st4 = amfOut st3"
    by (simp_all add: st4_def ue3)
  have addr: "SendToUe r addr st4 = Inr (st4\<lparr>ueOut := ueOut st4 @ [(c, addr)]\<rparr>)"
    using assms(2) by (simp add: SendToUe_def st4(1))
  show thesis
  proof (rule that)
    show "rbind (SendToUe r nas st) (\<lambda>st.
       let st = SendPduSessionResourceSetupResponse env r psi st;
           st = (if gtpPlane st then st else st\<lparr>gtpPlane := tunnelUp env\<rparr>)
       in SendToUe r addr st) = Inr (st4\<lparr>ueOut := ueOut st4 @ [(c, addr)]\<rparr>)"
      unfolding send rbind_simps Let_def st3_def [symmetric] st4_def [symmetric] by (rule addr)
  qed (simp_all add: st4 st3)
qed

text \<open>
  C11: a session setup request for a UE on one of its allowed slices takes a fresh downlink TEID and
  address. Afterwards both lead to the UE, and at the UE to the session with its uplink TEID. The AMF
  is answered with that TEID and the QoS flow, the UE gets the NAS message and then its address for the
  session, it is ready, and no other UE changes.
\<close>

theorem session_setup_end_to_end:
  assumes "GetGnbUe ra (gnb st) = Inr r" and "ue_ok (ue_at r st)" and "amfUeNgapId (ue_at r st) = am"
    and "unixSocketConnection (ue_at r st) = Some c"
    and "itemNas item = Some nas" and "itemTransfer item = Transfer ies" and "transfer_ies ies no_args = Inr a"
    and "has_slice (not_informed (ieSst (itemSnssai item))) (not_informed (ieSd (itemSnssai item))) (ue_at r st)"
    and "\<forall>m. builds env m"
  shows "\<exists>st'. HandlerPduSessionResourceSetupRequest env
      [AMFUENGAPID (Some am), RANUENGAPID (Some ra), PDUSessionResourceSetupListSUReq (Some [item])] st = Inr st' \<and>
    GetGnbUeByTeid (teidGenerator (gnb st)) (gnb st') = Inr r \<and>
    GetGnbUeByIp (ip_string (Some (127, 0, 0, ueIpGenerator (gnb st)))) (gnb st') = Inr r \<and>
    (\<exists>s. FindPduSessionByDownlinkTeid [itemSession item] (teidGenerator (gnb st)) (ue_at r st') = Some s \<and>
      pduSessionId s = itemSession item \<and> uplinkTeid s = ulTeid a \<and> ranUeIP s = Some (127, 0, 0, ueIpGenerator (gnb st))) \<and>
    amfOut st' = amfOut st @ [(sctpConnection (ue_at r st), PDUSessionResourceSetupResponse am (ranUeNgapId (ue_at r st))
      (itemSession item) (teidGenerator (gnb st)) (argQosId a))] \<and>
    ueOut st' = ueOut st @ [(c, nas), (c, word_of_int (itemSession item) # v4_16 (ueIpGenerator (gnb st)))] \<and>
    ueState (ue_at r st') = 2 \<and> (\<forall>r'. r' \<noteq> r \<longrightarrow> ues (gnb st') r' = ues (gnb st) r')"
proof -
  let ?s = "not_informed (ieSst (itemSnssai item))" and ?d = "not_informed (ieSd (itemSnssai item))" and ?psi = "itemSession item"
  let ?t = "teidGenerator (gnb st)" and ?x = "ueIpGenerator (gnb st)"
  obtain ue where ue: "CreatePduSession ?psi ?s ?d (argType a) (argQosId a) (argPriArp a) (argFiveQi a) (ulTeid a)
        (Some (127, 0, 0, ?x)) ?t (ue_at r st) = Inr ([], ue)"
      and look: "GetTeidDownlinkOfSession ?psi ue = ?t" "GetQosIdOfSession ?psi ue = argQosId a"
        "\<exists>x. the (pduSessions ue) ?psi = Some x \<and> pduSessionId x = ?psi \<and> uplinkTeid x = ulTeid a \<and>
          downlinkTeid x = ?t \<and> ranUeIP x = Some (127, 0, 0, ?x)" "pduSessions ue \<noteq> None"
    by (rule CreatePduSession_lookup [OF assms(2,8)]) blast
  note frame = CreatePduSession_frame [OF ue]
  define st1 where "st1 = keep_upf (upfAddress a) (put_ue r ue (alloc r st))"
  have sess: "setup_session r ?psi ?s ?d a st = Inr (?x, st1)"
    by (simp add: setup_session_eq ue st1_def)
  have ies: "su_ies [AMFUENGAPID (Some am), RANUENGAPID (Some ra), PDUSessionResourceSetupListSUReq (Some [item])] no_su =
      Inr (Some \<lparr>suIds = \<lparr>ranUeId = ra, amfUeId = am, messageNas = Some nas\<rparr>, suSession = ?psi, suSst = ?s, suSd = ?d, suArgs = a\<rparr>)"
    using assms(5-7) by (simp add: no_su_def)
  have ue1: "ue_at r st1 = ue"
    by (simp add: st1_def)
  have c: "unixSocketConnection ue = Some c"
    using assms(4) frame by simp
  obtain st' where run: "rbind (SendToUe r nas st1) (\<lambda>st.
        let st = SendPduSessionResourceSetupResponse env r ?psi st;
            st = (if gtpPlane st then st else st\<lparr>gtpPlane := tunnelUp env\<rparr>)
        in SendToUe r (word_of_int ?psi # v4_16 ?x) st) = Inr st'"
      and st': "gnb st' = gnb (put_ue r (ue\<lparr>ueState := 2\<rparr>) st1)"
        "ueOut st' = ueOut st1 @ [(c, nas), (c, word_of_int ?psi # v4_16 ?x)]"
        "amfOut st' = amfOut st1 @ [(sctpConnection ue, PDUSessionResourceSetupResponse (amfUeNgapId ue) (ranUeNgapId ue) ?psi
          (GetTeidDownlinkOfSession ?psi ue) (GetQosIdOfSession ?psi ue))]"
    by (rule finish_session_setup [OF ue1 c assms(9)])
  have "HandlerPduSessionResourceSetupRequest env
      [AMFUENGAPID (Some am), RANUENGAPID (Some ra), PDUSessionResourceSetupListSUReq (Some [item])] st = Inr st'"
    unfolding HandlerPduSessionResourceSetupRequest_def ies using assms(1,3) run by (simp add: sess nas_bytes_def)
  moreover have "ue_at r st' = ue\<lparr>ueState := 2\<rparr>"
    by (simp add: ue_at_def st')
  moreover have "GetGnbUeByTeid ?t (gnb st') = Inr r" and "GetGnbUeByIp (ip_string (Some (127, 0, 0, ?x))) (gnb st') = Inr r"
    and "\<forall>r'. r' \<noteq> r \<longrightarrow> ues (gnb st') r' = ues (gnb st) r'"
    by (simp_all add: GetGnbUeByTeid_def GetGnbUeByIp_def st' st1_def)
  ultimately show ?thesis
    using look frame assms(3) by (auto simp: FindPduSessionByDownlinkTeid_def st' st1_def)
qed


text \<open>A gNB with one connected UE that is allowed two slices, and a request for a session on the second.\<close>

definition demo_station :: ngap_state where
  "demo_station = \<lparr>gnb = (snd (NewGnBUe [1] (Some 7) demo_gnb))\<lparr>ues := [0 \<mapsto> demo_ue\<lparr>ranUeNgapId := 1, amfUeNgapId := 5,
       unixSocketConnection := Some 7\<rparr>]\<rparr>, n2 = None, gtpPlane = False, lastError = [], connLost = False, ueOut = [], amfOut = [],
     xnConn = False, xnOut = [], spawned = []\<rparr>"

definition demo_ngap_env :: ngap_env where
  "demo_ngap_env = \<lparr>builds = (\<lambda>_. True), tunnelUp = True, sessionOrder = [1, 2], ueOrder = [1], amfOrder = [1], otherGnb = (\<lambda>_. None)\<rparr>"

definition demo_item :: setup_item where
  "demo_item = \<lparr>itemNas = Some [0x7e, 0], itemSession = 1, itemSnssai = \<lparr>ieSst = Some [2], ieSd = Some [0x11, 0x22, 0x33]\<rparr>,
     itemTransfer = Transfer [ULNGUUPTNLInformation [0, 0, 0, 9] [10, 0, 0, 1], QosFlowSetupRequestList [(3, Some 9, 8)]]\<rparr>"

definition demo_args :: session_args where
  "demo_args = \<lparr>ulTeid = 9, upfAddress = [10, 0, 0, 1], argQosId = 3, argFiveQi = 9, argPriArp = 8, argType = 0\<rparr>"

lemma demo_args_read: "transfer_ies [ULNGUUPTNLInformation [0, 0, 0, 9] [10, 0, 0, 1], QosFlowSetupRequestList [(3, Some 9, 8)]]
    no_args = Inr demo_args"
  by (simp add: no_args_def be32_of_def demo_args_def)

lemma demo_station_simps:
  "GetGnbUe 1 (gnb demo_station) = Inr 0" "ue_at 0 demo_station = demo_ue\<lparr>ranUeNgapId := 1, amfUeNgapId := 5, unixSocketConnection := Some 7\<rparr>"
  "teidGenerator (gnb demo_station) = 2" "ueIpGenerator (gnb demo_station) = 4"
  by (simp_all add: demo_station_def GetGnbUe_def ue_at_def ctx_simps demo_gnb_def NewGnBAmf_def getRanAmfId_def
      NewRanGnbContext_def zeroGnb_def Let_def)

lemma demo_ue_slices: "slices (pduSession demo_ue) = [\<lparr>sst = ''01'', sd = ''010203'', status = ''inactive''\<rparr>,
    \<lparr>sst = ''02'', sd = ''112233'', status = ''inactive''\<rparr>]" "lenSlice (pduSession demo_ue) = 2" "pduSessions demo_ue = None"
  by (simp_all add: demo_ue_def CreateUeContext_def zeroUe_def zeroSession_def addedSlice_def added_def)

lemma demo_station_ue_ok: "ue_ok (ue_at 0 demo_station)"
  by (simp add: demo_station_simps ue_ok_def demo_ue_slices)

lemma session_setup_end_to_end_witness:
  "\<exists>st'. HandlerPduSessionResourceSetupRequest demo_ngap_env
      [AMFUENGAPID (Some 5), RANUENGAPID (Some 1), PDUSessionResourceSetupListSUReq (Some [demo_item])] demo_station = Inr st' \<and>
    GetGnbUeByTeid 2 (gnb st') = Inr 0 \<and> ueState (ue_at 0 st') = 2"
proof -
  have hex: "not_informed (Some [2]) = ''02''" "not_informed (Some [0x11, 0x22, 0x33]) = ''112233''"
    by (simp_all add: not_informed_def EncodeToString_def hex_byte_def hex_digit_def)
  have "has_slice ''02'' ''112233'' (ue_at 0 demo_station)"
    unfolding has_slice_def demo_station_simps by (rule exI [of _ 1]) (simp add: demo_ue_slices)
  then have slice: "has_slice (not_informed (ieSst (itemSnssai demo_item))) (not_informed (ieSd (itemSnssai demo_item))) (ue_at 0 demo_station)"
    by (simp add: demo_item_def hex)
  have ue: "amfUeNgapId (ue_at 0 demo_station) = 5" "unixSocketConnection (ue_at 0 demo_station) = Some 7"
    by (simp_all add: demo_station_simps)
  have item: "itemNas demo_item = Some [0x7e, 0]"
      "itemTransfer demo_item = Transfer [ULNGUUPTNLInformation [0, 0, 0, 9] [10, 0, 0, 1], QosFlowSetupRequestList [(3, Some 9, 8)]]"
    by (simp_all add: demo_item_def)
  have "\<forall>m. builds demo_ngap_env m"
    by (simp add: demo_ngap_env_def)
  from session_setup_end_to_end [OF demo_station_simps(1) demo_station_ue_ok ue item demo_args_read slice this]
  show ?thesis
    unfolding demo_station_simps(3,4) by blast
qed


section \<open>Initial context setup\<close>

text \<open>Creating a session marks a slice but keeps which slices there are.\<close>

lemma has_slice_mark:
  assumes "pduSessionNssai s d ue = Inr (b, ue')"
  shows "has_slice s' d' ue' = has_slice s' d' ue"
  using assms
  by (auto simp: pduSessionNssai_def Let_def rbind_eq_Inr has_slice_def nth_list_update split: option.splits)
    (metis (no_types, lifting) SliceSupported.select_convs(1,2) SliceSupported.surjective SliceSupported.update_convs(3) list_update_beyond
      nth_list_update_eq nth_list_update_neq linorder_not_less)+

lemma has_slice_session:
  assumes "CreatePduSession psi s d t q a f ul ip dl ue = Inr (msg, ue')"
  shows "has_slice s' d' ue' = has_slice s' d' ue"
proof -
  have cong: "slices (pduSession v) = slices (pduSession w) \<Longrightarrow> lenSlice (pduSession v) = lenSlice (pduSession w) \<Longrightarrow>
      has_slice s' d' v = has_slice s' d' w" for v w
    by (simp add: has_slice_def)
  obtain b ue0 ue1 where "pduSessionNssai s d ue0 = Inr (b, ue1)" and "pduSession ue' = pduSession ue1"
      and "slices (pduSession ue0) = slices (pduSession ue)" and "lenSlice (pduSession ue0) = lenSlice (pduSession ue)"
    using assms by (auto simp: CreatePduSession_def Let_def rbind_eq_Inr split: if_splits)
  then show ?thesis
    using has_slice_mark cong by metis
qed

lemma CreatePduSession_keeps:
  assumes "ue_ok ue" and "CreatePduSession psi s d t q a f ul ip dl ue = Inr (msg, ue')"
  shows "ue_ok ue'" "has_slice s' d' ue' = has_slice s' d' ue" "amfUeNgapId ue' = amfUeNgapId ue"
    "sctpConnection ue' = sctpConnection ue" "unixSocketConnection ue' = unixSocketConnection ue" "ranUeNgapId ue' = ranUeNgapId ue"
  using CreatePduSession_ok [OF assms] has_slice_session [OF assms(2)] CreatePduSession_frame [OF assms(2)] by auto

definition item_args :: "setup_item \<Rightarrow> session_args res" where
  "item_args item = (case itemTransfer item of Transfer ies \<Rightarrow> transfer_ies ies no_args | _ \<Rightarrow> Inr no_args)"

text \<open>The session of an item in a UE context, as set up with the \<open>i\<close>th TEID after \<open>t\<close>.\<close>

definition set_up :: "u32 \<Rightarrow> nat \<Rightarrow> session_args \<Rightarrow> int \<Rightarrow> GNBUe \<Rightarrow> bool" where
  "set_up t i a psi ue \<longleftrightarrow> (\<exists>m s. pduSessions ue = Some m \<and> m psi = Some s \<and> downlinkTeid s = t + of_nat i \<and> qosId s = argQosId a)"

lemma cxt_sessions_Cons:
  assumes "ue_ok (ue_at r st)" and "item_args item = Inr a"
    and "has_slice (not_informed (ieSst (itemSnssai item))) (not_informed (ieSd (itemSnssai item))) (ue_at r st)"
  obtains st' where "cxt_sessions r (item # l) st = cxt_sessions r l st'"
    and "ue_ok (ue_at r st')" and "\<forall>s d. has_slice s d (ue_at r st') = has_slice s d (ue_at r st)"
    and "amfUeNgapId (ue_at r st') = amfUeNgapId (ue_at r st)" "sctpConnection (ue_at r st') = sctpConnection (ue_at r st)"
      "unixSocketConnection (ue_at r st') = unixSocketConnection (ue_at r st)" "ranUeNgapId (ue_at r st') = ranUeNgapId (ue_at r st)"
    and "set_up (teidGenerator (gnb st)) 0 a (itemSession item) (ue_at r st')"
    and "\<forall>t i b k. k \<noteq> itemSession item \<longrightarrow> set_up t i b k (ue_at r st) \<longrightarrow> set_up t i b k (ue_at r st')"
    and "teidPool (gnb st') = (teidPool (gnb st))(teidGenerator (gnb st) \<mapsto> r)"
    and "teidGenerator (gnb st') = teidGenerator (gnb st) + 1"
    and "ueOut st' = ueOut st" "amfOut st' = amfOut st"
proof -
  let ?x = "ueIpGenerator (gnb st)" and ?t = "teidGenerator (gnb st)"
  let ?s = "not_informed (ieSst (itemSnssai item))" and ?d = "not_informed (ieSd (itemSnssai item))"
  obtain ue where ue: "CreatePduSession (itemSession item) ?s ?d (argType a) (argQosId a) (argPriArp a) (argFiveQi a) (ulTeid a)
        (Some (127, 0, 0, ?x)) ?t (ue_at r st) = Inr ([], ue)"
      and map: "pduSessions ue = Some ((case pduSessions (ue_at r st) of None \<Rightarrow> Map.empty | Some m \<Rightarrow> m)(itemSession item \<mapsto>
        \<lparr>pduSessionId = itemSession item, ranUeIP = Some (127, 0, 0, ?x), uplinkTeid = ulTeid a, downlinkTeid = ?t,
         slices = [\<lparr>sst = ?s, sd = ?d, status = ''active''\<rparr>], lenSlice = 0, pduType = argType a, qosId = argQosId a,
         fiveQi = argFiveQi a, priArp = argPriArp a\<rparr>))"
    using CreatePduSession_found [OF assms(1,3)] by blast
  show thesis
  proof (rule that [of "keep_upf (upfAddress a) (put_ue r ue (alloc r st))"])
    show "cxt_sessions r (item # l) st = cxt_sessions r l (keep_upf (upfAddress a) (put_ue r ue (alloc r st)))"
      using assms(2) ue by (simp add: item_args_def setup_session_eq)
  qed (use CreatePduSession_keeps [OF assms(1) ue] in \<open>auto simp: map set_up_def split: option.splits\<close>)
qed

lemma cxt_sessions_all:
  assumes "ue_ok (ue_at r st)" and "distinct (map itemSession items)" and "\<forall>item \<in> set items. item_args item = Inr (args item)"
    and "\<forall>item \<in> set items. has_slice (not_informed (ieSst (itemSnssai item))) (not_informed (ieSd (itemSnssai item))) (ue_at r st)"
  shows "\<exists>st'. cxt_sessions r items st = Inr st' \<and> ueOut st' = ueOut st \<and> amfOut st' = amfOut st \<and>
    amfUeNgapId (ue_at r st') = amfUeNgapId (ue_at r st) \<and> sctpConnection (ue_at r st') = sctpConnection (ue_at r st) \<and>
    unixSocketConnection (ue_at r st') = unixSocketConnection (ue_at r st) \<and> ranUeNgapId (ue_at r st') = ranUeNgapId (ue_at r st) \<and>
    (\<forall>i < length items. set_up (teidGenerator (gnb st)) i (args (items ! i)) (itemSession (items ! i)) (ue_at r st')) \<and>
    (\<forall>i < length items. teidPool (gnb st') (teidGenerator (gnb st) + of_nat i) = Some r) \<and>
    (\<forall>t. teidPool (gnb st) t = Some r \<longrightarrow> teidPool (gnb st') t = Some r) \<and>
    (\<forall>t i b k. k \<notin> itemSession ` set items \<longrightarrow> set_up t i b k (ue_at r st) \<longrightarrow> set_up t i b k (ue_at r st'))"
  using assms
proof (induction items arbitrary: st)
  case (Cons item items)
  obtain st1 where st1: "cxt_sessions r (item # items) st = cxt_sessions r items st1" "ue_ok (ue_at r st1)"
      "\<forall>s d. has_slice s d (ue_at r st1) = has_slice s d (ue_at r st)"
      "amfUeNgapId (ue_at r st1) = amfUeNgapId (ue_at r st)" "sctpConnection (ue_at r st1) = sctpConnection (ue_at r st)"
      "unixSocketConnection (ue_at r st1) = unixSocketConnection (ue_at r st)" "ranUeNgapId (ue_at r st1) = ranUeNgapId (ue_at r st)"
      "set_up (teidGenerator (gnb st)) 0 (args item) (itemSession item) (ue_at r st1)"
      "\<forall>t i b k. k \<noteq> itemSession item \<longrightarrow> set_up t i b k (ue_at r st) \<longrightarrow> set_up t i b k (ue_at r st1)"
      "teidPool (gnb st1) = (teidPool (gnb st))(teidGenerator (gnb st) \<mapsto> r)" "teidGenerator (gnb st1) = teidGenerator (gnb st) + 1"
      "ueOut st1 = ueOut st" "amfOut st1 = amfOut st"
    by (rule cxt_sessions_Cons [OF Cons.prems(1), of item "args item" items]) (use Cons.prems(3,4) in auto)
  obtain st' where st': "cxt_sessions r items st1 = Inr st'" "ueOut st' = ueOut st1" "amfOut st' = amfOut st1"
      "amfUeNgapId (ue_at r st') = amfUeNgapId (ue_at r st1)" "sctpConnection (ue_at r st') = sctpConnection (ue_at r st1)"
      "unixSocketConnection (ue_at r st') = unixSocketConnection (ue_at r st1)" "ranUeNgapId (ue_at r st') = ranUeNgapId (ue_at r st1)"
      "\<forall>i < length items. set_up (teidGenerator (gnb st1)) i (args (items ! i)) (itemSession (items ! i)) (ue_at r st')"
      "\<forall>i < length items. teidPool (gnb st') (teidGenerator (gnb st1) + of_nat i) = Some r"
      "\<forall>t. teidPool (gnb st1) t = Some r \<longrightarrow> teidPool (gnb st') t = Some r"
      "\<forall>t i b k. k \<notin> itemSession ` set items \<longrightarrow> set_up t i b k (ue_at r st1) \<longrightarrow> set_up t i b k (ue_at r st')"
    using Cons.IH [of st1] Cons.prems st1(2,3) by auto
  have shift: "set_up (t + 1) i b k u = set_up t (Suc i) b k u" for t i b k u
    by (simp add: set_up_def algebra_simps)
  have head: "set_up (teidGenerator (gnb st)) 0 (args item) (itemSession item) (ue_at r st')"
    using st1(8) st'(11) Cons.prems(2) by auto
  have "\<forall>i < length (item # items). set_up (teidGenerator (gnb st)) i (args ((item # items) ! i)) (itemSession ((item # items) ! i)) (ue_at r st')"
    using head st'(8) by (auto simp: less_Suc_eq_0_disj st1(11) shift)
  moreover have "\<forall>i < length (item # items). teidPool (gnb st') (teidGenerator (gnb st) + of_nat i) = Some r"
    using st'(9,10) by (auto simp: less_Suc_eq_0_disj st1(10,11) algebra_simps)
  ultimately show ?case
    using st1 st' by auto
qed auto


lemma session_list_set_up:
  assumes "set_up t i a psi ue" and "psi \<in> set order"
  shows "(psi, t + of_nat i, argQosId a) \<in> set (session_list order ue)"
proof -
  obtain m s where ms: "pduSessions ue = Some m" "m psi = Some s" "downlinkTeid s = t + of_nat i" "qosId s = argQosId a"
    using assms(1) unfolding set_up_def by blast
  show ?thesis
    unfolding session_list_def using assms(2) by (simp add: ms(1)) (rule bexI [of _ psi], simp_all add: ms)
qed

lemma CreateUeContext_frame:
  assumes "ue_ok ue" and "length ssts = length sds" and "CreateUeContext plmn imeisv ssts sds ue = Inr ue'"
  shows "amfUeNgapId ue' = amfUeNgapId ue \<and> sctpConnection ue' = sctpConnection ue \<and> unixSocketConnection ue' = unixSocketConnection ue"
proof -
  have "add_slices ss ds u = Inr u' \<Longrightarrow> amfUeNgapId u' = amfUeNgapId u \<and> sctpConnection u' = sctpConnection u \<and>
      unixSocketConnection u' = unixSocketConnection u" for ss ds u u'
    by (induction ss ds u rule: add_slices.induct) (auto simp: rbind_eq_Inr addedSlice_def)
  note keep = this
  obtain mcc mnc where "add_slices ssts sds (ue\<lparr>pduSession := (pduSession ue)\<lparr>lenSlice := 0\<rparr>, mobilityMcc := mcc,
      mobilityMnc := mnc, maskedIMEISV := imeisv\<rparr>) = Inr ue'"
    using assms(3) by (auto simp: CreateUeContext_def rbind_eq_Inr)
  from keep [OF this] show ?thesis by simp
qed

lemma has_slice_context:
  assumes "ue_ok ue" and "length ssts = length sds" and "CreateUeContext plmn imeisv ssts sds ue = Inr ue'"
    and "(s, d) \<in> set (zip ssts sds)"
  shows "has_slice s d ue'"
proof -
  obtain i where i: "i < length ssts" "ssts ! i = s" "sds ! i = d"
    using assms(2,4) by (auto simp: set_zip)
  then have "slices (pduSession ue') = map (\<lambda>(s, d). \<lparr>sst = s, sd = d, status = ''inactive''\<rparr>) (zip ssts sds)"
    by (intro CreateUeContext_slices(2) [OF assms(1-3)]) auto
  with i show ?thesis
    using CreateUeContext_slices(1) [OF assms(1-3)] assms(2) unfolding has_slice_def by (intro exI [of _ i]) simp
qed

lemma add_slices_total: "ue_ok u \<Longrightarrow> length ssts = length sds \<Longrightarrow> \<exists>u'. add_slices ssts sds u = Inr u'"
proof (induction ssts sds u rule: add_slices.induct)
  case (3 s ssts d sds ue)
  obtain ue1 where ue1: "addedSlice s d ''inactive'' ue = Inr ue1"
    using addedSlice_eq [OF 3(2)] by simp
  moreover have "ue_ok ue1"
    using addedSlice_ok [OF 3(2) ue1] ..
  ultimately show ?case
    using 3(1) [OF ue1] 3(3) by simp
qed auto

lemma CreateUeContext_total:
  assumes "ue_ok ue" and "length ssts = length sds" and "plmn = ''not informed'' \<or> 4 \<le> length plmn"
  shows "\<exists>ue'. CreateUeContext plmn imeisv ssts sds ue = Inr ue'"
proof -
  have "\<exists>p. (if plmn \<noteq> ''not informed'' then convertMccMnc plmn else Inr (plmn, plmn)) = Inr p"
    using assms(3) by (auto simp: convertMccMnc_def Let_def)
  then obtain mcc mnc where "(if plmn \<noteq> ''not informed'' then convertMccMnc plmn else Inr (plmn, plmn)) = Inr (mcc, mnc)"
    by auto
  moreover have "ue_ok (ue\<lparr>pduSession := (pduSession ue)\<lparr>lenSlice := 0\<rparr>, mobilityMcc := mcc, mobilityMnc := mnc, maskedIMEISV := imeisv\<rparr>)"
    using assms(1) by (simp add: ue_ok_def)
  ultimately show ?thesis
    using add_slices_total assms(2) by (simp add: CreateUeContext_def Let_def)
qed




section \<open>Context release\<close>

text \<open>The TEIDs and addresses that a release takes from the indices.\<close>

definition held_teids :: "int list \<Rightarrow> GNBUe \<Rightarrow> u32 set" where
  "held_teids order ue = insert (downlinkTeid (pduSession ue))
     (case pduSessions ue of None \<Rightarrow> {} | Some m \<Rightarrow> {downlinkTeid s | k s. k \<in> set order \<and> m k = Some s})"

definition held_ips :: "int list \<Rightarrow> GNBUe \<Rightarrow> string set" where
  "held_ips order ue = insert (ip_string (ranUeIP (pduSession ue)))
     (case pduSessions ue of None \<Rightarrow> {}
      | Some m \<Rightarrow> {ip_string (ranUeIP s) | k s. k \<in> set order \<and> m k = Some s \<and> ranUeIP s \<noteq> None})"

lemma drop_session_pools:
  "teidPool (drop_session s g) t = (if t = downlinkTeid s then None else teidPool g t)"
  "ueIpPool (drop_session s g) i = (if ranUeIP s \<noteq> None \<and> i = ip_string (ranUeIP s) then None else ueIpPool g i)"
  "uePool (drop_session s g) = uePool g" "ues (drop_session s g) = ues g"
  by (auto simp: drop_session_def Let_def DeleteGnBUeByTeid_def DeleteGnBUeByIp_def)

lemma fold_drop_pools:
  fixes m :: "int \<rightharpoonup> PDUSession"
  defines "each \<equiv> \<lambda>k g. case m k of None \<Rightarrow> g | Some s \<Rightarrow> drop_session s g"
  shows "teidPool (fold each order g) t = (if \<exists>k \<in> set order. \<exists>s. m k = Some s \<and> downlinkTeid s = t then None else teidPool g t)"
    and "ueIpPool (fold each order g) i =
      (if \<exists>k \<in> set order. \<exists>s. m k = Some s \<and> ranUeIP s \<noteq> None \<and> ip_string (ranUeIP s) = i then None else ueIpPool g i)"
    and "uePool (fold each order g) = uePool g" and "ues (fold each order g) = ues g"
  unfolding each_def by (induction order arbitrary: g) (auto simp: drop_session_pools split: option.splits)

lemma drop_tunnels_pools:
  "teidPool (drop_tunnels order ue g) t = (if t \<in> held_teids order ue then None else teidPool g t)"
  "ueIpPool (drop_tunnels order ue g) i = (if i \<in> held_ips order ue then None else ueIpPool g i)"
  "uePool (drop_tunnels order ue g) = uePool g" "ues (drop_tunnels order ue g) = ues g"
  by (cases "pduSessions ue";
      auto simp: drop_tunnels_def held_teids_def held_ips_def fold_drop_pools DeleteGnBUeByTeid_def DeleteGnBUeByIp_def)+

text \<open>
  C19: a context release for a UE deletes exactly the tunnels it holds: its current TEID and address and
  those of every session no longer lead to it, every other TEID and address leads where it did. The UE
  is told, stays in the pool in its initial state, and the AMF is answered when there is an association.
\<close>

theorem context_release_frees_tunnels:
  assumes "GetGnbUe ra (gnb st) = Inr r" and "ra \<noteq> 0" and "unixSocketConnection (ue_at r st) = Some c"
    and "n2 st = Some k" and "\<forall>m. builds env m"
  shows "let st' = HandlerUeContextReleaseCommand env [UENGAPIDs (Some (UENGAPIDPair am ra))] st in
    (\<forall>t. found (GetGnbUeByTeid t (gnb st')) =
       (if t \<in> held_teids (sessionOrder env) (ue_at r st) then None else found (GetGnbUeByTeid t (gnb st)))) \<and>
    (\<forall>i. found (GetGnbUeByIp i (gnb st')) =
       (if i \<in> held_ips (sessionOrder env) (ue_at r st) then None else found (GetGnbUeByIp i (gnb st)))) \<and>
    GetGnbUe ra (gnb st') = Inr r \<and> ue_at r st' = (ue_at r st)\<lparr>ueState := 0\<rparr> \<and>
    ueOut st' = ueOut st @ [(c, [0, 6])] \<and> amfOut st' = amfOut st @ [(Some k, UEContextReleaseComplete ra am)]"
proof -
  let ?st = "free_ue env r st"
  have ids: "released_ran env [UENGAPIDs (Some (UENGAPIDPair am ra))] st = ra"
    "amfUeId (released_ids [UENGAPIDs (Some (UENGAPIDPair am ra))]) = am"
    using assms(2) by (simp_all add: released_ran_def released_ids_def)
  have n2: "n2 ?st = Some k"
    using assms(4) by (simp add: free_ue_def)
  have st': "HandlerUeContextReleaseCommand env [UENGAPIDs (Some (UENGAPIDPair am ra))] st =
      to_amf (Some k) (UEContextReleaseComplete ra am) ?st"
    using assms(1,5) n2 by (simp add: ContextRelease_eq ids Let_def)
  have teid: "found (GetGnbUeByTeid t g) = teidPool g t" and ip: "found (GetGnbUeByIp i g) = ueIpPool g i" for t i g
    by (auto simp: GetGnbUeByTeid_def GetGnbUeByIp_def found_def split: option.splits)
  have free: "teidPool (gnb ?st) t = (if t \<in> held_teids (sessionOrder env) (ue_at r st) then None else teidPool (gnb st) t)"
    "ueIpPool (gnb ?st) i = (if i \<in> held_ips (sessionOrder env) (ue_at r st) then None else ueIpPool (gnb st) i)"
    "uePool (gnb ?st) = uePool (gnb st)" "ue_at r ?st = (ue_at r st)\<lparr>ueState := 0\<rparr>" "ueOut ?st = ueOut st @ [(c, [0, 6])]"
    "amfOut ?st = amfOut st" for t i
    using assms(3) by (simp_all add: free_ue_def drop_tunnels_pools tell_released_def)
  show ?thesis
    using assms(1) unfolding st' Let_def teid ip by (simp add: free GetGnbUe_def)
qed

lemma context_release_frees_tunnels_witness:
  "let st = demo_station\<lparr>n2 := Some 3\<rparr>;
       st' = HandlerUeContextReleaseCommand demo_ngap_env [UENGAPIDs (Some (UENGAPIDPair 5 1))] st in
   GetGnbUe 1 (gnb st') = Inr 0 \<and> amfOut st' = amfOut st @ [(Some 3, UEContextReleaseComplete 1 5)]"
proof -
  have "GetGnbUe 1 (gnb (demo_station\<lparr>n2 := Some 3\<rparr>)) = Inr 0" and "(1 :: int) \<noteq> 0"
    and "unixSocketConnection (ue_at 0 (demo_station\<lparr>n2 := Some 3\<rparr>)) = Some 7" and "n2 (demo_station\<lparr>n2 := Some 3\<rparr>) = Some 3"
    and "\<forall>m. builds demo_ngap_env m"
    using demo_station_simps(1,2) by (simp_all add: demo_ngap_env_def ue_at_def)
  from context_release_frees_tunnels [OF this, of 5] show ?thesis
    by (simp add: Let_def)
qed

end
