(* ===== verification/Gnb_Robust.thy ===== *)
theory Gnb_Robust
  imports Gnb_Procedures
begin

text \<open>
  Well-formed messages never crash the gNB. The handlers follow pointers of the decoded message
  without a check; the predicates here say which elements have to be there, how long the fields that
  are indexed have to be, and which UEs need a connection.
\<close>

section \<open>Well-formed messages\<close>

fun transfer_ie_ok :: "transfer_ie \<Rightarrow> bool" where
  "transfer_ie_ok (ULNGUUPTNLInformation t a) \<longleftrightarrow> 4 \<le> length t"
| "transfer_ie_ok (QosFlowSetupRequestList l) \<longleftrightarrow> (\<forall>(q, f, p) \<in> set l. f \<noteq> None)"
| "transfer_ie_ok _ \<longleftrightarrow> True"

definition item_ok :: "setup_item \<Rightarrow> bool" where
  "item_ok item \<longleftrightarrow> (case itemTransfer item of Transfer ies \<Rightarrow> list_all transfer_ie_ok ies | _ \<Rightarrow> True)"

fun ie_ok :: "ngap_ie \<Rightarrow> bool" where
  "ie_ok (AMFUENGAPID v) \<longleftrightarrow> v \<noteq> None"
| "ie_ok (RANUENGAPID v) \<longleftrightarrow> v \<noteq> None"
| "ie_ok (NASPDU v) \<longleftrightarrow> v \<noteq> None"
| "ie_ok (MobilityRestrictionList v) \<longleftrightarrow> (case v of None \<Rightarrow> True | Some b \<Rightarrow> 2 \<le> length b)"
| "ie_ok (PDUSessionResourceSetupListCxtReq v) \<longleftrightarrow> (case v of None \<Rightarrow> True | Some l \<Rightarrow> list_all item_ok l)"
| "ie_ok (PDUSessionResourceSetupListSUReq v) \<longleftrightarrow> (case v of None \<Rightarrow> True | Some l \<Rightarrow> list_all item_ok l)"
| "ie_ok (PDUSessionResourceSwitchedList v) \<longleftrightarrow>
     (case v of None \<Rightarrow> False | Some l \<Rightarrow> \<forall>(psi, t) \<in> set l. case t of None \<Rightarrow> True | Some b \<Rightarrow> 4 \<le> length b)"
| "ie_ok _ \<longleftrightarrow> True"

fun setup_ie_ok :: "setup_ie \<Rightarrow> bool" where
  "setup_ie_ok (ServedGUAMIList v) \<longleftrightarrow> v \<noteq> None"
| "setup_ie_ok (PLMNSupportList v) \<longleftrightarrow> (case v of None \<Rightarrow> False | Some l \<Rightarrow> \<forall>(plmn, sl) \<in> set l. 2 \<le> length plmn)"
| "setup_ie_ok _ \<longleftrightarrow> True"

fun pdu_ok :: "ngap_pdu \<Rightarrow> bool" where
  "pdu_ok Undecodable \<longleftrightarrow> False"
| "pdu_ok (DownlinkNASTransportPdu ies) \<longleftrightarrow> list_all ie_ok ies"
| "pdu_ok (InitialContextSetupRequestPdu ies) \<longleftrightarrow> list_all ie_ok ies"
| "pdu_ok (PDUSessionResourceSetupRequestPdu ies) \<longleftrightarrow> list_all ie_ok ies"
| "pdu_ok (PDUSessionResourceReleaseCommandPdu ies) \<longleftrightarrow> list_all ie_ok ies"
| "pdu_ok (PDUSessionResourceModifyRequestPdu ies) \<longleftrightarrow> list_all ie_ok ies"
| "pdu_ok (HandoverRequestPdu ies) \<longleftrightarrow> list_all ie_ok ies"
| "pdu_ok (UEContextReleaseCommandPdu ies) \<longleftrightarrow> list_all ie_ok ies"
| "pdu_ok (NGSetupResponsePdu ies) \<longleftrightarrow> list_all setup_ie_ok ies"
| "pdu_ok (PathSwitchRequestAcknowledgePdu ies) \<longleftrightarrow> list_all ie_ok ies"
| "pdu_ok (HandoverCommandPdu ies) \<longleftrightarrow> list_all ie_ok ies"
| "pdu_ok _ \<longleftrightarrow> True"

text \<open>Every UE in the pool has a connection, and the lists of an AMF are sound.\<close>

definition connected :: "ngap_state \<Rightarrow> bool" where
  "connected st \<longleftrightarrow> (\<forall>k r. GetGnbUe k (gnb st) = Inr r \<longrightarrow> unixSocketConnection (ue_at r st) \<noteq> None)"

definition amf_ok :: "GNBAmf \<Rightarrow> bool" where
  "amf_ok a \<longleftrightarrow> list_ok (plmns a) (amfLenPlmn a) \<and> list_ok (amfSlices a) (amfLenSlice a)"

section \<open>Reading the elements\<close>

lemma qos_flows_total: "\<forall>(q, f, p) \<in> set l. f \<noteq> None \<Longrightarrow> \<exists>b. qos_flows l a = Inr b"
  by (induction l a rule: qos_flows.induct) (auto split: option.splits)

lemma transfer_ies_total: "list_all transfer_ie_ok ies \<Longrightarrow> \<exists>b. transfer_ies ies a = Inr b"
proof (induction ies a rule: transfer_ies.induct)
  case (3 qs l a)
  then show ?case using qos_flows_total [of qs a] by (fastforce simp: rbind_eq_Inr)
qed auto

lemma item_args_total: "item_ok item \<Longrightarrow> \<exists>b. (case itemTransfer item of Transfer ies \<Rightarrow> transfer_ies ies a | _ \<Rightarrow> Inr a) = Inr b"
  by (auto simp: item_ok_def transfer_ies_total split: transfer.splits)

lemma ics_ies_total: "list_all ie_ok ies \<Longrightarrow> \<exists>m. ics_ies ies a = Inr m"
  by (induction ies a rule: ics_ies.induct) (auto split: option.split)

text \<open>What the loop of a context setup leaves: readable items, and a PLMN that is long enough or the placeholder.\<close>

lemma EncodeToString_length: "length (EncodeToString b) = 2 * length b"
  by (induction b) (simp_all add: EncodeToString_def hex_byte_def)

lemma ics_ies_ok:
  assumes "list_all ie_ok ies" and "ics_ies ies a = Inr (Some b)"
    and "icsMobility a = ''not informed'' \<or> 4 \<le> length (icsMobility a)" and "\<forall>l. icsList a = Some l \<longrightarrow> list_all item_ok l"
  shows "(icsMobility b = ''not informed'' \<or> 4 \<le> length (icsMobility b)) \<and> (\<forall>l. icsList b = Some l \<longrightarrow> list_all item_ok l)"
  using assms
proof (induction ies a rule: ics_ies.induct)
  case (9 v l a)
  then show ?case by (cases v) (auto simp: not_informed_def EncodeToString_length)
qed (auto split: option.splits if_splits)


lemma su_items_total: "list_all item_ok l \<Longrightarrow> \<exists>m. su_items l a = Inr m"
proof (induction l arbitrary: a)
  case (Cons item l)
  then have tr: "itemTransfer item = Transfer ies \<Longrightarrow> \<exists>b. transfer_ies ies x = Inr b" for ies x
    by (auto simp: item_ok_def transfer_ies_total)
  show ?case
  proof (cases "itemTransfer item")
    case (Transfer ies)
    obtain b where "transfer_ies ies (suArgs a) = Inr b"
      using tr [OF Transfer] by blast
    then show ?thesis
      using Cons by (auto simp: Transfer Let_def split: option.split)
  qed (use Cons in \<open>auto simp: Let_def split: option.split\<close>)
qed simp

lemma su_ies_total: "list_all ie_ok ies \<Longrightarrow> \<exists>m. su_ies ies a = Inr m"
proof (induction ies a rule: su_ies.induct)
  case (4 v l a)
  show ?case
  proof (cases v)
    case (Some items)
    then obtain m where "su_items items a = Inr m"
      using 4(2) su_items_total by fastforce
    then show ?thesis
      using 4 Some by (auto split: option.split)
  qed simp
qed (auto split: option.split)

lemma ho_ies_total: "list_all ie_ok ies \<Longrightarrow> \<exists>b. ho_ies ies a = Inr b"
  by (induction ies a rule: ho_ies.induct) (auto split: option.split)

lemma pair_ies_total: "list_all ie_ok ies \<Longrightarrow> \<exists>b. pair_ies ies a = Inr b"
  by (induction ies a rule: pair_ies.induct) auto

lemma switched_total: "\<forall>(psi, t) \<in> set l. case t of None \<Rightarrow> True | Some b \<Rightarrow> 4 \<le> length b \<Longrightarrow> \<exists>st'. switched k l st = Inr st'"
  by (induction k l st rule: switched.induct) auto

lemma switch_ies_total: "list_all ie_ok ies \<Longrightarrow> \<exists>b. switch_ies ies a st = Inr b"
proof (induction ies a st rule: switch_ies.induct)
  case (4 v l a st)
  then obtain x where v: "v = Some x" and x: "\<forall>(psi, t) \<in> set x. case t of None \<Rightarrow> True | Some b \<Rightarrow> 4 \<le> length b"
    by (auto split: option.splits)
  obtain st1 where "switched (ranUeId a) x st = Inr st1"
    using switched_total [OF x] by blast
  then show ?case using 4 v by simp
qed auto

section \<open>Operations that cannot fail\<close>

lemma SendToUe_total: "unixSocketConnection (ue_at r st) \<noteq> None \<Longrightarrow> \<exists>st'. SendToUe r m st = Inr st'"
  by (auto simp: SendToUe_def)

lemma CreatePduSession_total: "ue_ok ue \<Longrightarrow> \<exists>msg ue'. CreatePduSession psi s d t q a f ul ip dl ue = Inr (msg, ue')"
  using CreatePduSession_found [of ue s d psi t q a f ul ip dl] CreatePduSession_missing [of ue s d psi t q a f ul ip dl] by blast

lemma setup_session_total:
  assumes "ue_ok (ue_at r st)"
  shows "\<exists>x st'. setup_session r psi s d a st = Inr (x, st') \<and> ue_ok (ue_at r st') \<and>
    unixSocketConnection (ue_at r st') = unixSocketConnection (ue_at r st)"
proof -
  obtain msg ue where ue: "CreatePduSession psi s d (argType a) (argQosId a) (argPriArp a) (argFiveQi a) (ulTeid a)
      (Some (127, 0, 0, ueIpGenerator (gnb st))) (teidGenerator (gnb st)) (ue_at r st) = Inr (msg, ue)"
    using CreatePduSession_total [OF assms] by blast
  then show ?thesis
    using CreatePduSession_keeps(1,5) [OF assms ue] by (simp add: setup_session_eq)
qed

lemma cxt_sessions_total:
  assumes "ue_ok (ue_at r st)" and "list_all item_ok l"
  shows "\<exists>st'. cxt_sessions r l st = Inr st' \<and> unixSocketConnection (ue_at r st') = unixSocketConnection (ue_at r st)"
  using assms
proof (induction l arbitrary: st)
  case (Cons item l)
  then obtain a where a: "(case itemTransfer item of Transfer ies \<Rightarrow> transfer_ies ies no_args | _ \<Rightarrow> Inr no_args) = Inr a"
    using item_args_total [of item no_args] by auto
  obtain x st1 where st1: "setup_session r (itemSession item) (not_informed (ieSst (itemSnssai item)))
        (not_informed (ieSd (itemSnssai item))) a st = Inr (x, st1)" "ue_ok (ue_at r st1)"
      "unixSocketConnection (ue_at r st1) = unixSocketConnection (ue_at r st)"
    using setup_session_total [OF Cons.prems(1)] by blast
  show ?case
    using Cons.IH [OF st1(2)] Cons.prems(2) by (simp add: a st1(1,3))
qed simp


section \<open>The handlers\<close>

text \<open>What a handler may rely on for a UE it found: its context is sound and it has a connection.\<close>

lemma found_ue:
  assumes "gnb_ok n (gnb st)" and "connected st" and "GetGnbUe k (gnb st) = Inr r"
  shows "ue_ok (ue_at r st)" and "unixSocketConnection (ue_at r st) \<noteq> None"
  using assms live_ue [OF live_found [OF assms(1,3)]] unfolding connected_def by blast+

lemma DownlinkNas_total:
  assumes "gnb_ok n (gnb st)" and "connected st"
  shows "\<exists>st'. HandlerDownlinkNasTransport ies st = Inr st'"
proof -
  have "unixSocketConnection (ue_at r (set_amf_ue_id r v st)) = unixSocketConnection (ue_at r st)" for r v
    by (simp add: set_amf_ue_id_def SetAmfUeId_def ue_at_def put_ue_def)
  then show ?thesis
    using found_ue(2) [OF assms]
    by (auto simp: HandlerDownlinkNasTransport_def SendToUe_total split: option.split sum.split)
qed

lemma InitialContextSetup_total:
  assumes "gnb_ok n (gnb st)" and "connected st" and "list_all ie_ok ies"
  shows "\<exists>st'. HandlerInitialContextSetupRequest env ies st = Inr st'"
proof -
  obtain m where m: "ics_ies ies no_ics = Inr m"
    using ics_ies_total [OF assms(3)] by blast
  show ?thesis
  proof (cases "\<exists>a r. m = Some a \<and> GetGnbUe (ranUeId (icsIds a)) (gnb st) = Inr r \<and> amfUeNgapId (ue_at r st) = amfUeId (icsIds a)")
    case True
    then obtain a r where a: "m = Some a" and r: "GetGnbUe (ranUeId (icsIds a)) (gnb st) = Inr r"
        "amfUeNgapId (ue_at r st) = amfUeId (icsIds a)"
      by blast
    note ue = found_ue [OF assms(1,2) r(1)]
    have len: "length (icsSst a) = length (icsSd a)"
      using ics_ies_lengths [of ies no_ics a] m a by (simp add: no_ics_def)
    have read: "icsMobility a = ''not informed'' \<or> 4 \<le> length (icsMobility a)" "\<forall>l. icsList a = Some l \<longrightarrow> list_all item_ok l"
      using ics_ies_ok [OF assms(3), of no_ics a] m a by (simp_all add: no_ics_def)
    obtain u where u: "CreateUeContext (icsMobility a) (icsImeisv a) (icsSst a) (icsSd a) (ue_at r st) = Inr u"
      using CreateUeContext_total [OF ue(1) len read(1)] by blast
    have "list_all item_ok (case icsList a of None \<Rightarrow> [] | Some l \<Rightarrow> l)"
      using read(2) by (simp split: option.split)
    then obtain st1 where st1: "cxt_sessions r (case icsList a of None \<Rightarrow> [] | Some l \<Rightarrow> l) (put_ue r u st) = Inr st1"
        "unixSocketConnection (ue_at r st1) = unixSocketConnection u"
      using cxt_sessions_total [of r "put_ue r u st"] CreateUeContext_slices(3) [OF ue(1) len u] by auto
    have "unixSocketConnection (ue_at r st1) \<noteq> None"
      using CreateUeContext_frame [OF ue(1) len u] ue(2) st1(2) by simp
    then obtain st2 where "SendToUe r (nas_bytes (messageNas (icsIds a))) st1 = Inr st2"
      using SendToUe_total by blast
    then show ?thesis
      using m a r u st1(1) by (simp add: HandlerInitialContextSetupRequest_def)
  qed (use m in \<open>auto simp: HandlerInitialContextSetupRequest_def split: option.split sum.split\<close>)
qed

lemma PduSessionResourceSetup_total:
  assumes "gnb_ok n (gnb st)" and "connected st" and "list_all ie_ok ies"
  shows "\<exists>st'. HandlerPduSessionResourceSetupRequest env ies st = Inr st'"
proof -
  obtain m where m: "su_ies ies no_su = Inr m"
    using su_ies_total [OF assms(3)] by blast
  show ?thesis
  proof (cases "\<exists>a r. m = Some a \<and> GetGnbUe (ranUeId (suIds a)) (gnb st) = Inr r \<and> amfUeNgapId (ue_at r st) = amfUeId (suIds a)")
    case True
    then obtain a r where a: "m = Some a" and r: "GetGnbUe (ranUeId (suIds a)) (gnb st) = Inr r"
        "amfUeNgapId (ue_at r st) = amfUeId (suIds a)"
      by blast
    note ue = found_ue [OF assms(1,2) r(1)]
    obtain x st1 where st1: "setup_session r (suSession a) (suSst a) (suSd a) (suArgs a) st = Inr (x, st1)"
        "unixSocketConnection (ue_at r st1) = unixSocketConnection (ue_at r st)"
      using setup_session_total [OF ue(1)] by blast
    then obtain c where c: "unixSocketConnection (ue_at r st1) = Some c"
      using ue(2) by auto
    have keep: "unixSocketConnection (ue_at r (SendPduSessionResourceSetupResponse env r p s)) = unixSocketConnection (ue_at r s)" for p s
      by (simp add: SendPduSessionResourceSetupResponse_def Let_def)
    define st3 where "st3 = SendPduSessionResourceSetupResponse env r (suSession a)
        (st1\<lparr>ueOut := ueOut st1 @ [(c, nas_bytes (messageNas (suIds a)))]\<rparr>)"
    have "unixSocketConnection (ue_at r st3) = Some c"
      using c by (simp add: st3_def keep)
    then show ?thesis
      using m a r st1(1) c by (simp add: HandlerPduSessionResourceSetupRequest_def SendToUe_Some Let_def flip: st3_def)
  qed (use m in \<open>auto simp: HandlerPduSessionResourceSetupRequest_def split: option.split sum.split\<close>)
qed

lemma ReleaseCommand_total:
  assumes "gnb_ok n (gnb st)" and "connected st"
  shows "\<exists>st'. HandlerPduSessionResourceReleaseCommand env ies st = Inr st'"
proof (cases "GetGnbUe (ranUeId (relIds (rel_ies ies no_rel))) (gnb st)")
  case (Inr r)
  then show ?thesis
    using SendToUe_total [OF found_ue(2) [OF assms Inr]]
    by (auto simp: HandlerPduSessionResourceReleaseCommand_def Let_def rbind_eq_Inr split: option.split)
qed (simp add: HandlerPduSessionResourceReleaseCommand_def Let_def)

lemma fold_qos_socket: "unixSocketConnection (fold (\<lambda>(i, q). SetQosIdOfSession i q) l ue) = unixSocketConnection ue"
proof (induction l arbitrary: ue)
  case (Cons p l)
  then show ?case by (cases p) (simp add: SetQosIdOfSession_def split: option.split)
qed simp

lemma ModifyRequest_total:
  assumes "gnb_ok n (gnb st)" and "connected st"
  shows "\<exists>st'. HandlerPDUSessionResourceModifyRequest env ies st = Inr st'"
proof (cases "GetGnbUe (ranUeId (relIds (mod_ies ies no_rel))) (gnb st)")
  case (Inr r)
  define st0 where "st0 = put_ue r (fold (\<lambda>(i, q). SetQosIdOfSession i q) (relQos (mod_ies ies no_rel)) (ue_at r st)) st"
  have "unixSocketConnection (ue_at r st0) \<noteq> None"
    using found_ue(2) [OF assms Inr] by (simp add: st0_def fold_qos_socket)
  then have "\<exists>st1. (case messageNas (relIds (mod_ies ies no_rel)) of None \<Rightarrow> Inr st0 | Some m \<Rightarrow> SendToUe r m st0) = Inr st1"
    using SendToUe_total by (auto split: option.split)
  then show ?thesis
    using Inr by (auto simp: HandlerPDUSessionResourceModifyRequest_def Let_def rbind_eq_Inr simp flip: st0_def)
qed (simp add: HandlerPDUSessionResourceModifyRequest_def Let_def)

lemma HandoverCommand_total:
  assumes "gnb_ok n (gnb st)" and "connected st" and "list_all ie_ok ies"
  shows "\<exists>st'. HandlerHandoverCommand ies st = Inr st'"
proof -
  obtain a where "pair_ies ies \<lparr>ranUeId = 0, amfUeId = 0, messageNas = None\<rparr> = Inr a"
    using pair_ies_total [OF assms(3)] by blast
  then show ?thesis
    using SendToUe_total [OF found_ue(2) [OF assms(1,2)]]
    by (auto simp: HandlerHandoverCommand_def split: sum.split)
qed


lemma PathSwitch_total:
  assumes "list_all ie_ok ies"
  shows "\<exists>st'. HandlerPathSwitchRequestAcknowledge env ies st = Inr st'"
proof -
  obtain a st1 where "switch_ies ies \<lparr>ranUeId = 0, amfUeId = 0, messageNas = None\<rparr> st = Inr (a, st1)"
    using switch_ies_total [OF assms] by (metis surj_pair)
  then show ?thesis
    by (cases "GetGnbUe (ranUeId a) (gnb st1)") (simp_all add: HandlerPathSwitchRequestAcknowledge_def Let_def)
qed

lemma HandoverRequest_total:
  assumes "gnb_ok n (gnb st)" and "n < 2 ^ 63 - 2" and "list_all ie_ok ies"
  shows "\<exists>st'. HandlerHandoverRequest env ies st = Inr st'"
proof -
  obtain a where a: "ho_ies ies \<lparr>hoAmf = 0, hoSession = 1, hoSource = None\<rparr> = Inr a"
    using ho_ies_total [OF assms(3)] by blast
  obtain ro g where new: "NewGnBUe (amfOrder env) None (gnb st) = (ro, g)" by fastforce
  show ?thesis
  proof (cases ro)
    case None
    then show ?thesis by (simp add: HandlerHandoverRequest_def a new)
  next
    case (Some r)
    have l: "ue_ok (ue_at r (set_amf_ue_id r (hoAmf a) (st\<lparr>gnb := g\<rparr>)))"
      using live_ue [OF live_set_amf_ue_id [OF NewGnBUe_live [OF assms(1,2)]]] new Some by blast
    have u: "ue_ok ((case hoSource a of Some v \<Rightarrow> if v \<noteq> -1 then u\<lparr>sourceAmfUeNgapId := v\<rparr> else u | None \<Rightarrow> u)\<lparr>ueState := 1\<rparr>)"
      if "ue_ok u" for u
      using that by (simp add: ue_ok_def split: option.split)
    show ?thesis
      using CreatePduSession_total [OF u [OF l]] unfolding HandlerHandoverRequest_def a new Some
      by (simp del: One_nat_def add: Let_def rbind_eq_Inr)
  qed
qed

lemma AddedPlmn_total:
  assumes "amf_ok a" and "2 \<le> length plmn"
  shows "\<exists>a'. AddedPlmn (EncodeToString plmn) a = Inr a' \<and> amf_ok a'"
proof -
  obtain p where "convertMccMnc (EncodeToString plmn) = Inr p"
    using assms(2) by (simp add: convertMccMnc_def EncodeToString_length Let_def)
  then show ?thesis
    using assms(1) by (auto simp: AddedPlmn_def amf_ok_def added_appends)
qed

lemma add_amf_slices_total: "amf_ok a \<Longrightarrow> \<exists>a'. add_amf_slices l a = Inr a' \<and> amf_ok a'"
proof (induction l arbitrary: a)
  case (Cons s l)
  then have "\<exists>a'. AddedSlice (was_not_informed (ieSst s)) (was_not_informed (ieSd s)) a = Inr a' \<and> amf_ok a'"
    by (auto simp: AddedSlice_def amf_ok_def added_appends)
  then show ?case using Cons.IH by auto
qed simp

lemma add_plmns_total:
  "amf_ok (snd x) \<Longrightarrow> \<forall>(plmn, sl) \<in> set l. 2 \<le> length plmn \<Longrightarrow> \<exists>y. add_plmns l x = Inr y \<and> amf_ok (snd y)"
proof (induction l arbitrary: x)
  case (Cons p l)
  obtain plmn sl err a where px: "p = (plmn, sl)" "x = (err, a)" by (metis surj_pair)
  then obtain a1 where a1: "AddedPlmn (EncodeToString plmn) a = Inr a1" "amf_ok a1"
    using Cons.prems AddedPlmn_total by force
  obtain a2 where a2: "add_amf_slices (case sl of None \<Rightarrow> [] | Some x \<Rightarrow> x) a1 = Inr a2" "amf_ok a2"
    using add_amf_slices_total [OF a1(2)] by blast
  show ?case
    using Cons.IH [of "(err \<or> sl = None, a2)"] Cons.prems(2) a2(2) by (simp add: px a1(1) a2(1))
qed simp

lemma setup_ies_total: "amf_ok (snd x) \<Longrightarrow> list_all setup_ie_ok ies \<Longrightarrow> \<exists>y. setup_ies ies x = Inr y"
proof (induction ies x rule: setup_ies.induct)
  case (5 v l err amf)
  then obtain ps where v: "v = Some ps" and ps: "\<forall>(plmn, sl) \<in> set ps. 2 \<le> length plmn"
    by (auto split: option.splits)
  obtain y where "add_plmns ps (err, amf) = Inr y" "amf_ok (snd y)"
    using add_plmns_total [OF _ ps, of "(err, amf)"] 5(2) by auto
  then show ?case using 5(1) [OF v] 5(3) v by simp
qed (auto simp: amf_ok_def split: option.split)



lemma demo_station_pools:
  "uePool (gnb demo_station) = [1 \<mapsto> 0]" "teidPool (gnb demo_station) = [1 \<mapsto> 0]"
  "ueIpPool (gnb demo_station) = [ip_string (Some (127, 0, 0, 3)) \<mapsto> 0]"
  "ues (gnb demo_station) = [0 \<mapsto> demo_ue\<lparr>ranUeNgapId := 1, amfUeNgapId := 5, unixSocketConnection := Some 7\<rparr>]"
  "amfPool (gnb demo_station) = [1 \<mapsto> \<lparr>amfIpAddr = ''127.0.0.1'', amfPortNo = 38412, amfKey = 1, amfSctp = None, relativeAmfCapacity = 0,
     amfState = 0, amfNameStr = [], plmns = [], amfSlices = [], amfLenSlice = 0, amfLenPlmn = 0\<rparr>]"
  "idUeGenerator (gnb demo_station) = 2" "nextRef (gnb demo_station) = 1"
  by (simp_all add: demo_station_def ctx_simps demo_gnb_def NewGnBAmf_def getRanAmfId_def NewRanGnbContext_def zeroGnb_def Let_def i64_def)

lemma demo_station_ok: "gnb_ok 1 (gnb demo_station)"
  using demo_station_ue_ok unfolding gnb_ok_def demo_station_pools by (simp add: demo_station_simps split: if_splits)

lemma demo_station_connected: "connected demo_station"
  unfolding connected_def GetGnbUe_def demo_station_pools by (auto simp: demo_station_simps split: if_splits)


end
