(* ===== verification/Gnb_Nas.thy ===== *)
theory Gnb_Nas
  imports Gnb_Robust
begin

text \<open>
  What the gNB does with messages from UEs and from other gNBs: the dispatcher and the handlers of
  \<^verbatim>\<open>gnb/nas\<close>, the Xn messages of \<^verbatim>\<open>gnb/ngap/service/service.go\<close>, and the tasks that play the AMF during
  a handover when the gNB has no association. The messages those tasks inject are given by their
  elements, with those no handler reads as \<open>OtherIE\<close>.
\<close>

section \<open>Triggers a UE sends\<close>

definition uint64_at :: "nat \<Rightarrow> u8 list \<Rightarrow> int" where
  "uint64_at i m = be64_int (take 8 (drop i m))"

definition text_of :: "u8 list \<Rightarrow> string" where
  "text_of bs = map (\<lambda>b. char_of (unat b)) bs"

definition trim_right_zero :: "string \<Rightarrow> string" where
  "trim_right_zero s = rev (dropWhile (\<lambda>c. c = CHR 0x00) (rev s))"

text \<open>The container for the target gNB, as far as the target reads it.\<close>

definition rrc_container :: "int \<Rightarrow> u8 list" where
  "rrc_container v = [0x05, 0x06] @ be64_bytes (word_of_int v)"

text \<open>The result is \<open>None\<close> for a message that is not this trigger.\<close>

definition handleXnHandoverTrigger :: "u8 list \<Rightarrow> ngap_state \<Rightarrow> ngap_state option" where
  "handleXnHandoverTrigger m st =
     (if length m = 17 \<and> m ! 0 = 0x00 \<and> m ! 1 = 0x06 then
        let targetIp = upf_text (take 4 (drop 2 m));
            targetPort = (ucast (m ! 6) * 256 + ucast (m ! 7) :: u16);
            v = uint64_at 8 m
        in Some (xn_send (targetIp, uint (targetPort + 1)) (xn_message 0x01 v) st)
      else None)"

definition handleN2HandoverTrigger :: "ngap_env \<Rightarrow> nat \<Rightarrow> u8 list \<Rightarrow> ngap_state \<Rightarrow> ngap_state option" where
  "handleN2HandoverTrigger env r m st =
     (if length m = 28 \<and> m ! 0 = 0x00 \<and> m ! 1 = 0x02 then
        let v = uint64_at 2 m;
            psi = m ! 10;
            targetMcc = text_of (take 3 (drop 11 m));
            targetMnc = trim_right_zero (text_of (take 3 (drop 14 m)));
            targetTac = take 3 (drop 17 m);
            targetGnb = uint64_at 20 m;
            st = set_amf_ue_id r v st;
            ue = ue_at r st;
            msg = HandoverRequired (ranUeNgapId ue) v targetMcc targetMnc targetGnb targetTac psi (rrc_container v)
        in Some (if \<not> builds env msg then st
                 else let st = to_amf (sctpConnection ue) msg st
                      in if n2 st = None then st\<lparr>spawned := spawned st @ [MockHandover (ranUeNgapId ue) v targetGnb psi]\<rparr> else st)
      else None)"

definition handleTargetAccessTrigger :: "ngap_env \<Rightarrow> nat \<Rightarrow> u8 list \<Rightarrow> ngap_state \<Rightarrow> ngap_state res option" where
  "handleTargetAccessTrigger env r m st =
     (if length m = 10 \<and> m ! 0 = 0x00 \<and> m ! 1 = 0x04 then
        let v = uint64_at 2 m in
        Some (case find_ue (ueOrder env) (\<lambda>u. amfUeNgapId u = v \<or> sourceAmfUeNgapId u = v) st of
            None \<Rightarrow> Inr st
          | Some k \<Rightarrow>
              let q = the (uePool (gnb st) k);
                  st = put_ue q ((ue_at q st)\<lparr>unixSocketConnection := unixSocketConnection (ue_at r st), ueState := 2\<rparr>) st;
                  real = ue_at q st
              in rbind (if amfUeNgapId real \<noteq> v then SendToUe q ([0x00, 0x03] @ be64_bytes (word_of_int (amfUeNgapId real))) st
                        else Inr st) (\<lambda>st.
                   let st = st\<lparr>gnb := DeleteGnBUe (ranUeNgapId (ue_at r st)) (gnb st)\<rparr>;
                       msg = HandoverNotify (ranUeNgapId real) v
                   in Inr (if builds env msg then to_amf (sctpConnection real) msg st else st)))
      else None)"

definition handlePathSwitchTrigger :: "ngap_env \<Rightarrow> nat \<Rightarrow> u8 list \<Rightarrow> ngap_state \<Rightarrow> ngap_state option" where
  "handlePathSwitchTrigger env r m st =
     (if length m = 11 \<and> m ! 0 = 0x00 \<and> m ! 1 = 0x03 then
        let v = uint64_at 2 m;
            psi = m ! 10;
            st = set_amf_ue_id r v st;
            ue = (ue_at r st)\<lparr>ueState := 2\<rparr>;
            st = put_ue r ue st;
            msg = PathSwitchRequest (ranUeNgapId ue) v psi (downlinkTeid (pduSession ue))
        in Some (if \<not> builds env msg then st
                 else let st = to_amf (sctpConnection ue) msg st
                      in if n2 st = None then st\<lparr>spawned := spawned st @ [MockPathSwitch (ranUeNgapId ue) v psi]\<rparr> else st)
      else None)"

text \<open>The four checks every handler starts with.\<close>

definition triggers :: "ngap_env \<Rightarrow> nat \<Rightarrow> u8 list \<Rightarrow> ngap_state \<Rightarrow> ngap_state res option" where
  "triggers env r m st =
     (case handleXnHandoverTrigger m st of Some st \<Rightarrow> Some (Inr st)
      | None \<Rightarrow> (case handleN2HandoverTrigger env r m st of Some st \<Rightarrow> Some (Inr st)
        | None \<Rightarrow> (case handleTargetAccessTrigger env r m st of Some x \<Rightarrow> Some x
          | None \<Rightarrow> map_option Inr (handlePathSwitchTrigger env r m st))))"

section \<open>Forwarding\<close>

definition HandlerUeInitialized :: "ngap_env \<Rightarrow> nat \<Rightarrow> u8 list \<Rightarrow> ngap_state \<Rightarrow> ngap_state res" where
  "HandlerUeInitialized env r m st =
     (case triggers env r m st of Some x \<Rightarrow> x
      | None \<Rightarrow>
          let ue = ue_at r st; msg = InitialUEMessage (ranUeNgapId ue) m
          in Inr (to_amf (sctpConnection ue) (if builds env msg then msg else EmptyMessage) (put_ue r (ue\<lparr>ueState := 1\<rparr>) st)))"

definition HandlerUeOngoing :: "ngap_env \<Rightarrow> nat \<Rightarrow> u8 list \<Rightarrow> ngap_state \<Rightarrow> ngap_state res" where
  "HandlerUeOngoing env r m st =
     (case triggers env r m st of Some x \<Rightarrow> x
      | None \<Rightarrow>
          let ue = ue_at r st; msg = UplinkNASTransport (amfUeNgapId ue) (ranUeNgapId ue) m
          in Inr (to_amf (sctpConnection ue) (if builds env msg then msg else EmptyMessage) st))"

definition HandlerUeReady :: "ngap_env \<Rightarrow> nat \<Rightarrow> u8 list \<Rightarrow> ngap_state \<Rightarrow> ngap_state res" where
  "HandlerUeReady env r m st =
     (case triggers env r m st of Some x \<Rightarrow> x
      | None \<Rightarrow>
          let ue = ue_at r st; msg = UplinkNASTransport (amfUeNgapId ue) (ranUeNgapId ue) m
          in Inr (if builds env msg then to_amf (sctpConnection ue) msg st else st))"

definition NasDispatch :: "ngap_env \<Rightarrow> nat \<Rightarrow> u8 list \<Rightarrow> ngap_state \<Rightarrow> ngap_state res" where
  "NasDispatch env r m st =
     (let s = ueState (ue_at r st) in
      if s = 0 then HandlerUeInitialized env r m st
      else if s = 1 then HandlerUeOngoing env r m st
      else if s = 2 then HandlerUeReady env r m st else Inr st)"

text \<open>One message read from the connection \<open>conn\<close> that was accepted for UE \<open>r\<close>.\<close>

definition processingConn :: "ngap_env \<Rightarrow> nat \<Rightarrow> nat \<Rightarrow> u8 list \<Rightarrow> ngap_state \<Rightarrow> ngap_state res" where
  "processingConn env r conn m st =
     (let active = (case find_ue (ueOrder env) (\<lambda>u. unixSocketConnection u = Some conn) st of
                      None \<Rightarrow> r | Some k \<Rightarrow> the (uePool (gnb st) k))
      in NasDispatch env active m st)"

section \<open>Messages between gNBs\<close>

definition processXnMessage :: "ngap_env \<Rightarrow> string \<times> int \<Rightarrow> u8 list \<Rightarrow> ngap_state \<Rightarrow> ngap_state" where
  "processXnMessage env remote m st =
     (if length m < 3 \<or> m ! 0 \<noteq> 0x58 \<or> m ! 1 \<noteq> 0x4e then st
      else
        let v = (if length m \<ge> 11 then uint64_at 3 m else 0);
            known = find_ue (ueOrder env) (\<lambda>u. amfUeNgapId u = v) st
        in if m ! 2 = 0x01 then xn_send remote (xn_message 0x02 v) st
           else if m ! 2 = 0x02 then (case known of None \<Rightarrow> st | Some _ \<Rightarrow> xn_send remote (xn_message 0x04 v) st)
           else if m ! 2 = 0x03 \<and> length m \<ge> 11 then
             (case known of None \<Rightarrow> st | Some k \<Rightarrow> if k \<noteq> -1 then st\<lparr>gnb := DeleteGnBUe k (gnb st)\<rparr> else st)
           else st)"

section \<open>The tasks that play the AMF\<close>

definition GetHandoverRequest :: "int \<Rightarrow> int \<Rightarrow> u8 \<Rightarrow> ngap_ie list" where
  "GetHandoverRequest ranv v psi = [AMFUENGAPID (Some v), OtherIE, OtherIE, PDUSessionResourceSetupListHOReq (Some [uint psi]),
     OtherIE, UESecurityCapabilities True, OtherIE]"

definition GetHandoverCommand :: "int \<Rightarrow> int \<Rightarrow> ngap_ie list" where
  "GetHandoverCommand ranv v = [AMFUENGAPID (Some v), RANUENGAPID (Some ranv), OtherIE]"

definition GetUEContextReleaseCommand :: "int \<Rightarrow> int \<Rightarrow> ngap_ie list" where
  "GetUEContextReleaseCommand ranv v = [UENGAPIDs (Some (UENGAPIDPair v ranv)), OtherIE]"

definition GetPathSwitchRequestAcknowledge :: "int \<Rightarrow> int \<Rightarrow> u8 \<Rightarrow> u8 list \<Rightarrow> ngap_ie list" where
  "GetPathSwitchRequestAcknowledge ranv v psi teid = [AMFUENGAPID (Some v), RANUENGAPID (Some ranv),
     PDUSessionResourceSwitchedList (Some [(uint psi, Some teid)])]"

text \<open>
  The handover task in the order of its waits, on the source gNB and a target that is another gNB: the
  request to the target and the check that it knows the UE, the command to the source, and the release.
\<close>

definition mock_request :: "ngap_env \<Rightarrow> int \<Rightarrow> int \<Rightarrow> u8 \<Rightarrow> ngap_state \<Rightarrow> (bool \<times> ngap_state) res" where
  "mock_request env srcRan v psi target =
     rbind (HandlerHandoverRequest env (GetHandoverRequest srcRan v psi) target) (\<lambda>target.
       Inr (case find_ue (ueOrder env) (\<lambda>u. amfUeNgapId u = v) target of None \<Rightarrow> False | Some k \<Rightarrow> k \<noteq> -1, target))"

definition mock_command :: "int \<Rightarrow> int \<Rightarrow> ngap_state \<Rightarrow> ngap_state res" where
  "mock_command srcRan v source = HandlerHandoverCommand (GetHandoverCommand srcRan v) source"

definition mock_release :: "ngap_env \<Rightarrow> int \<Rightarrow> int \<Rightarrow> ngap_state \<Rightarrow> ngap_state" where
  "mock_release env srcRan v source = HandlerUeContextReleaseCommand env (GetUEContextReleaseCommand srcRan v) source"

definition mock_path_switch :: "ngap_env \<Rightarrow> int \<Rightarrow> int \<Rightarrow> u8 \<Rightarrow> ngap_state \<Rightarrow> ngap_state res" where
  "mock_path_switch env ranv v psi st =
     (let t = (word_of_int ranv :: u32);
          teid = [ucast (drop_bit 24 t), ucast (drop_bit 16 t), ucast (drop_bit 8 t), ucast t]
      in HandlerPathSwitchRequestAcknowledge env (GetPathSwitchRequestAcknowledge ranv v psi teid) st)"


section \<open>Every message keeps the pools sound\<close>

lemma find_ue_Some: "find_ue ks P st = Some k \<Longrightarrow> k \<in> set ks \<and> (\<exists>r. uePool (gnb st) k = Some r \<and> P (ue_at r st))"
  by (induction ks) (auto split: option.splits if_splits)

lemma gnb_ok_delete: "gnb_ok n g \<Longrightarrow> gnb_ok n (DeleteGnBUe k g)"
  by (auto simp: gnb_ok_def DeleteGnBUe_def split: if_splits)

lemma live_spawned [simp]: "live n r (st\<lparr>spawned := x\<rparr>) = live n r st" "live n r (to_amf c m st) = live n r st"
  by (simp_all add: live_def)

lemma live_pool: "gnb_ok n (gnb st) \<Longrightarrow> uePool (gnb st) k = Some r \<Longrightarrow> live n r st"
  by (rule live_found [of n st k]) (simp_all add: GetGnbUe_def)

lemma N2HandoverTrigger_live: "live n r st \<Longrightarrow> handleN2HandoverTrigger env r m st = Some st' \<Longrightarrow> live n r st'"
  by (auto simp: handleN2HandoverTrigger_def Let_def live_set_amf_ue_id split: if_splits)

lemma PathSwitchTrigger_live:
  assumes "live n r st" and "handlePathSwitchTrigger env r m st = Some st'"
  shows "live n r st'"
proof -
  note l = live_set_amf_ue_id [OF assms(1)]
  have "live n r (put_ue r (ue_at r (set_amf_ue_id r v st)\<lparr>ueState := 2\<rparr>) (set_amf_ue_id r v st))" for v
    using live_ue [OF l] by (intro live_put_ue l) (simp_all add: ue_ok_def)
  then show ?thesis
    using assms(2) by (auto simp: handlePathSwitchTrigger_def Let_def split: if_splits)
qed

lemma TargetAccessTrigger_ok:
  assumes "gnb_ok n (gnb st)" and "handleTargetAccessTrigger env r m st = Some (Inr st')"
  shows "gnb_ok n (gnb st')"
proof (cases "find_ue (ueOrder env) (\<lambda>u. amfUeNgapId u = uint64_at 2 m \<or> sourceAmfUeNgapId u = uint64_at 2 m) st")
  case None
  then show ?thesis using assms by (auto simp: handleTargetAccessTrigger_def Let_def split: if_splits)
next
  case (Some k)
  let ?q = "the (uePool (gnb st) k)"
  let ?st = "put_ue ?q ((ue_at ?q st)\<lparr>unixSocketConnection := unixSocketConnection (ue_at r st), ueState := 2\<rparr>) st"
  have l: "live n ?q st"
    using find_ue_Some [OF Some] live_pool [OF assms(1)] by auto
  have ok: "gnb_ok n (gnb ?st)"
    using live_ue [OF l] by (intro live_ok [OF live_put_ue [OF l]]) (simp_all add: ue_ok_def)
  obtain st1 where st1: "gnb st1 = gnb ?st" and st': "gnb st' = DeleteGnBUe (ranUeNgapId (ue_at r st1)) (gnb st1)"
    using assms(2) Some
    by (auto simp: handleTargetAccessTrigger_def Let_def rbind_eq_Inr dest!: SendToUe_gnb split: if_splits)
  show ?thesis
    using gnb_ok_delete ok by (simp add: st' st1)
qed

lemma triggers_ok:
  assumes "live n r st" and "triggers env r m st = Some (Inr st')"
  shows "gnb_ok n (gnb st')"
proof -
  consider (xn) "handleXnHandoverTrigger m st = Some st'" | (n2) "handleN2HandoverTrigger env r m st = Some st'"
    | (access) "handleTargetAccessTrigger env r m st = Some (Inr st')" | (path) "handlePathSwitchTrigger env r m st = Some st'"
    using assms(2) by (auto simp: triggers_def split: option.splits)
  then show ?thesis
  proof cases
    case xn
    then show ?thesis using xn live_ok [OF assms(1)] by (auto simp: handleXnHandoverTrigger_def Let_def split: if_splits)
  next
    case n2
    then show ?thesis using N2HandoverTrigger_live [OF assms(1)] live_ok by blast
  next
    case access
    then show ?thesis using TargetAccessTrigger_ok [OF live_ok [OF assms(1)]] by blast
  next
    case path
    then show ?thesis using PathSwitchTrigger_live [OF assms(1)] live_ok by blast
  qed
qed

lemma NasDispatch_ok:
  assumes "live n r st" and "NasDispatch env r m st = Inr st'"
  shows "gnb_ok n (gnb st')"
proof -
  have "live n r (put_ue r (ue_at r st\<lparr>ueState := 1\<rparr>) st)"
    using assms(1) live_ue [OF assms(1)] by (intro keeps_live) (simp_all add: ue_ok_def)
  then have init: "gnb_ok n (gnb (put_ue r (ue_at r st\<lparr>ueState := 1\<rparr>) st))"
    by (rule live_ok)
  show ?thesis
  proof (cases "triggers env r m st")
    case None
    then show ?thesis
      using assms(2) init live_ok [OF assms(1)]
      by (auto simp: NasDispatch_def HandlerUeInitialized_def HandlerUeOngoing_def HandlerUeReady_def Let_def split: if_splits)
  next
    case (Some x)
    then have "st' = st \<or> x = Inr st'"
      using assms(2)
      by (auto simp: NasDispatch_def HandlerUeInitialized_def HandlerUeOngoing_def HandlerUeReady_def Let_def split: if_splits)
    then show ?thesis
      using triggers_ok [OF assms(1)] Some live_ok [OF assms(1)] by auto
  qed
qed

lemma processingConn_ok:
  assumes "live n r st" and "processingConn env r conn m st = Inr st'"
  shows "gnb_ok n (gnb st')"
proof -
  have "live n (case find_ue (ueOrder env) (\<lambda>u. unixSocketConnection u = Some conn) st of None \<Rightarrow> r
      | Some k \<Rightarrow> the (uePool (gnb st) k)) st"
    using assms(1) live_pool [OF live_ok [OF assms(1)]] find_ue_Some [of "ueOrder env" "\<lambda>u. unixSocketConnection u = Some conn" st]
    by (force split: option.split)
  then show ?thesis
    using NasDispatch_ok assms(2) by (simp add: processingConn_def)
qed

lemma processXnMessage_ok: "gnb_ok n (gnb st) \<Longrightarrow> gnb_ok n (gnb (processXnMessage env remote m st))"
  by (auto simp: processXnMessage_def Let_def gnb_ok_delete split: option.splits)


section \<open>Reachable states\<close>

text \<open>
  The states of a gNB after \<open>n\<close> events: UEs connect, and messages arrive from the AMF, from UEs and from
  other gNBs, each handled to its end. \<open>link\<close> covers what happens to associations and sockets.
\<close>

inductive station_reach :: "nat \<Rightarrow> ngap_state \<Rightarrow> bool" where
  boot: "gnb st = (NewRanGnbContext gid mcc mnc tac s d ipv ipData port portData zeroGnb)\<lparr>gnbLinkType := lt, gnbLinkPort := lp,
    gnbPagingDRX := drx, gnbCellId := cell\<rparr> \<Longrightarrow> station_reach 0 st"
| new_amf: "station_reach n st \<Longrightarrow> station_reach (Suc n) (st\<lparr>gnb := snd (NewGnBAmf ipv port (gnb st))\<rparr>)"
| accept: "station_reach n st \<Longrightarrow> station_reach (Suc n) (st\<lparr>gnb := snd (NewGnBUe order conn (gnb st))\<rparr>)"
| from_amf: "station_reach n st \<Longrightarrow> Dispatch env k pdu st = Inr st' \<Longrightarrow> station_reach (Suc n) st'"
| from_ue: "station_reach n st \<Longrightarrow> ues (gnb st) r \<noteq> None \<Longrightarrow> processingConn env r conn m st = Inr st' \<Longrightarrow> station_reach (Suc n) st'"
| from_gnb: "station_reach n st \<Longrightarrow> station_reach (Suc n) (processXnMessage env remote m st)"
| link: "station_reach n st \<Longrightarrow> gnb st' = gnb st \<Longrightarrow> station_reach (Suc n) st'"

lemma station_reach_ok: "station_reach n st \<Longrightarrow> n < 2 ^ 63 - 1 \<Longrightarrow> gnb_ok n (gnb st)"
proof (induction rule: station_reach.induct)
  case (boot st gid mcc mnc tac s d ipv ipData port portData lt lp drx cell)
  then show ?case by (simp add: gnb_ok_def NewRanGnbContext_def zeroGnb_def)
next
  case (new_amf n st ipv port)
  then have "gnb_ok n (snd (NewGnBAmf ipv port (gnb st)))"
    by (auto simp: gnb_ok_def NewGnBAmf_def getRanAmfId_def Let_def split: if_splits)
  then show ?case by (simp add: gnb_ok_mono)
next
  case (accept n st order conn)
  then show ?case by (simp add: gnb_ok_new_ue)
next
  case (from_amf n st env k pdu st')
  then show ?case by (intro Dispatch_ok) auto
next
  case (from_ue n st r env conn m st')
  then have "gnb_ok n (gnb st')"
    by (intro processingConn_ok [of n r st]) (simp_all add: live_def)
  then show ?case by (simp add: gnb_ok_mono)
next
  case (from_gnb n st env remote m)
  then show ?case by (intro gnb_ok_mono [OF processXnMessage_ok]) auto
next
  case (link n st st')
  then show ?case by (simp add: gnb_ok_mono)
qed

text \<open>
  C12: in every state a gNB reaches, a UE found by its RAN UE NGAP ID is a live context with that
  identifier, no two identifiers lead to the same UE, the next identifier is unused, the TEID and
  address indices lead to live contexts, and looking for the selected slice of a UE never runs off its
  list. The bound on the number of events is the width of the identifier generator.
\<close>

theorem gnb_pools_sound:
  assumes "station_reach n st" and "n < 2 ^ 63 - 1"
  shows "(\<forall>k r. GetGnbUe k (gnb st) = Inr r \<longrightarrow> (\<exists>ue. ues (gnb st) r = Some ue \<and> ranUeNgapId ue = k)) \<and>
    (\<forall>k k' r. GetGnbUe k (gnb st) = Inr r \<longrightarrow> GetGnbUe k' (gnb st) = Inr r \<longrightarrow> k = k') \<and>
    (\<forall>r. GetGnbUe (idUeGenerator (gnb st)) (gnb st) \<noteq> Inr r) \<and>
    (\<forall>t r. GetGnbUeByTeid t (gnb st) = Inr r \<longrightarrow> ues (gnb st) r \<noteq> None) \<and>
    (\<forall>i r. GetGnbUeByIp i (gnb st) = Inr r \<longrightarrow> ues (gnb st) r \<noteq> None) \<and>
    (\<forall>r ue. ues (gnb st) r = Some ue \<longrightarrow> (\<exists>p. GetSelectedNssai ue = Inr p))"
  using gnb_ok_lookups [OF station_reach_ok [OF assms]] .

definition demo_booted :: ngap_state where
  "demo_booted = demo_station\<lparr>gnb := demo_gnb\<rparr>"

lemma demo_booted_reach: "station_reach (Suc 0) demo_booted"
proof -
  let ?g = "NewRanGnbContext ''000001'' ''208'' ''93'' ''000001'' ''01'' ''010203'' ''127.0.0.1'' ''127.0.0.1'' 9487 2152 zeroGnb"
  have "?g = ?g\<lparr>gnbLinkType := [], gnbLinkPort := 0, gnbPagingDRX := [], gnbCellId := 0\<rparr>"
    by (simp add: NewRanGnbContext_def zeroGnb_def)
  then have "station_reach 0 (demo_station\<lparr>gnb := ?g\<rparr>)"
    by (intro station_reach.boot) simp
  from station_reach.new_amf [OF this, of "''127.0.0.1''" 38412] show ?thesis
    by (simp add: demo_booted_def demo_gnb_def)
qed

lemma gnb_pools_sound_witness:
  "\<exists>st ue. station_reach 3 st \<and> ues (gnb st) 0 = Some ue \<and> ranUeNgapId ue = 1"
proof -
  let ?st = "demo_booted\<lparr>gnb := snd (NewGnBUe [1] (Some 7) demo_gnb)\<rparr>"
  have "station_reach (Suc (Suc 0)) ?st"
    using demo_booted_reach station_reach.accept [of "Suc 0" demo_booted "[1]" "Some 7"] by (simp add: demo_booted_def)
  then have "station_reach (Suc (Suc (Suc 0))) (processXnMessage demo_ngap_env ([], 0) [] ?st)"
    by (rule station_reach.from_gnb)
  then have reach: "station_reach 3 ?st"
    by (simp add: processXnMessage_def numeral_3_eq_3)
  have "GetGnbUe 1 (gnb ?st) = Inr 0"
    by (simp add: GetGnbUe_def ctx_simps demo_gnb_def NewGnBAmf_def getRanAmfId_def NewRanGnbContext_def zeroGnb_def Let_def)
  moreover have "(3 :: nat) < 2 ^ 63 - 1" by simp
  ultimately obtain ue where "ues (gnb ?st) 0 = Some ue" "ranUeNgapId ue = 1"
    using gnb_pools_sound [OF reach] by blast
  with reach show ?thesis by blast
qed

end
