(* ===== verification/Milenage.thy ===== *)
theory Milenage
  imports Aes
begin

text \<open>
  The Milenage functions of \<^verbatim>\<open>lib/milenage/milenage.go\<close>: f1 and f1* (\<open>milenageF1\<close>), f2 to f5*
  (\<open>milenageF2345\<close>), the network's side of the challenge (\<open>MilenageGenerate\<close>, \<open>Milenage_auts\<close>) and
  a terminal's side (\<open>Milenage_check\<close>). The output buffers the Go functions fill are the results
  here; a buffer that the caller leaves nil is a result the caller does not use, since no output
  depends on another buffer. An argument shorter than its field is an index out of range.
\<close>

unbundle bit_operations_syntax

section \<open>The model\<close>

definition rtLength :: "nat \<Rightarrow> nat" where
  "rtLength keybits = keybits div 8 + 28"

definition aes128EncryptBlock :: "u8 list \<Rightarrow> u8 list \<Rightarrow> u8 list res" where
  "aes128EncryptBlock key inp =
     rbind (AesSetupEnc (rtLength 128) key 128) (\<lambda>(rk, nrounds). AesEncrypt rk nrounds inp)"

definition xor_block :: "nat \<Rightarrow> u8 list \<Rightarrow> u8 list \<Rightarrow> u8 list" where
  "xor_block n a b = map (\<lambda>i. a ! i XOR b ! i) [0..<n]"

text \<open>\<open>tmp[(i + r) % 16] = x[i]\<close> for all \<open>i\<close>, and the constant of the function in the last byte.\<close>

definition rotate_block :: "nat \<Rightarrow> u8 list \<Rightarrow> u8 list" where
  "rotate_block r x = map (\<lambda>j. x ! ((j + (16 - r)) mod 16)) [0..<16]"

definition add_constant :: "u8 \<Rightarrow> u8 list \<Rightarrow> u8 list" where
  "add_constant c x = x[15 := x ! 15 XOR c]"

definition milenageF1 :: "u8 list \<Rightarrow> u8 list \<Rightarrow> u8 list \<Rightarrow> u8 list \<Rightarrow> u8 list \<Rightarrow> (u8 list \<times> u8 list) res" where
  "milenageF1 opc k rand sqn amf =
     (if length rand < 16 \<or> length opc < 16 then Inl Panic
      else rbind (aes128EncryptBlock k (xor_block 16 rand opc)) (\<lambda>tmp1.
        if length sqn < 6 \<or> length amf < 2 then Inl Panic
        else
          let in1 = take 6 sqn @ take 2 amf;
              tmp2 = in1 @ in1;
              tmp3 = rotate_block 8 (xor_block 16 tmp2 opc);
              tmp3 = xor_block 16 tmp3 tmp1
          in rbind (aes128EncryptBlock k tmp3) (\<lambda>out.
               let out1 = xor_block 16 out opc in Inr (take 8 out1, drop 8 out1))))"

record f2345 =
  RES :: "u8 list"
  CK :: "u8 list"
  IK :: "u8 list"
  AK :: "u8 list"
  AKstar :: "u8 list"

definition milenageF2345 :: "u8 list \<Rightarrow> u8 list \<Rightarrow> u8 list \<Rightarrow> f2345 res" where
  "milenageF2345 opc k rand =
     (if length rand < 16 \<or> length opc < 16 then Inl Panic
      else rbind (aes128EncryptBlock k (xor_block 16 rand opc)) (\<lambda>tmp2.
        let x = xor_block 16 tmp2 opc in
        rbind (aes128EncryptBlock k (add_constant 1 x)) (\<lambda>o2.
        rbind (aes128EncryptBlock k (add_constant 2 (rotate_block 12 x))) (\<lambda>o3.
        rbind (aes128EncryptBlock k (add_constant 4 (rotate_block 8 x))) (\<lambda>o4.
        rbind (aes128EncryptBlock k (add_constant 8 (rotate_block 4 x))) (\<lambda>o5.
        let out2 = xor_block 16 o2 opc
        in Inr \<lparr>RES = drop 8 out2, CK = xor_block 16 o3 opc, IK = xor_block 16 o4 opc,
                AK = take 6 out2, AKstar = xor_block 6 o5 opc\<rparr>))))))"

text \<open>The network's challenge: the response and keys of f2 to f5 and the token AUTN.\<close>

definition MilenageGenerate :: "u8 list \<Rightarrow> u8 list \<Rightarrow> u8 list \<Rightarrow> u8 list \<Rightarrow> u8 list \<Rightarrow> nat \<Rightarrow> (f2345 \<times> u8 list) option res" where
  "MilenageGenerate opc amf k sqn rand res_len =
     (if res_len < 8 then Inr None
      else rbind (milenageF1 opc k rand sqn amf) (\<lambda>(mac_a, _).
        rbind (milenageF2345 opc k rand) (\<lambda>v.
          Inr (Some (v, xor_block 6 sqn (AK v) @ take 2 amf @ mac_a)))))"

text \<open>The network's check of a resynchronisation token; the sequence number it recovers.\<close>

definition Milenage_auts :: "u8 list \<Rightarrow> u8 list \<Rightarrow> u8 list \<Rightarrow> u8 list \<Rightarrow> u8 list option res" where
  "Milenage_auts opc k rand auts =
     rbind (milenageF2345 opc k rand) (\<lambda>v.
       if length auts < 6 then Inl Panic
       else
         let sqn = xor_block 6 auts (AKstar v) in
         rbind (milenageF1 opc k rand sqn [0, 0]) (\<lambda>(_, mac_s).
           if length auts < 14 then Inl Panic
           else if mac_s = take 8 (drop 6 auts) then Inr (Some sqn) else Inr None))"

fun memcmp_from :: "u8 list \<Rightarrow> u8 list \<Rightarrow> nat \<Rightarrow> nat \<Rightarrow> int" where
  "memcmp_from a b i 0 = 0"
| "memcmp_from a b i (Suc n) =
     (if a ! i < b ! i then - int i else if a ! i > b ! i then int i else memcmp_from a b (i + 1) n)"

definition os_memcmp :: "u8 list \<Rightarrow> u8 list \<Rightarrow> nat \<Rightarrow> int" where
  "os_memcmp a b num = memcmp_from a b 0 num"

datatype check_result = CheckOk f2345 | CheckFailed | CheckSync "u8 list"

definition Milenage_check :: "u8 list \<Rightarrow> u8 list \<Rightarrow> u8 list \<Rightarrow> u8 list \<Rightarrow> u8 list \<Rightarrow> check_result res" where
  "Milenage_check opc k sqn rand autn =
     rbind (milenageF2345 opc k rand) (\<lambda>v.
       if length autn < 16 \<or> length sqn < 6 then Inl Panic
       else
         let rx_sqn = xor_block 6 autn (AK v) in
         if os_memcmp rx_sqn sqn 6 \<le> 0 then
           rbind (milenageF1 opc k rand sqn [0, 0]) (\<lambda>(_, mac_s).
             Inr (CheckSync (xor_block 6 sqn (AKstar v) @ mac_s)))
         else
           rbind (milenageF1 opc k rand rx_sqn (drop 6 autn)) (\<lambda>(mac_a, _).
             if os_memcmp mac_a (drop 8 autn) 8 \<noteq> 0 then Inr CheckFailed else Inr (CheckOk v)))"

definition milenage_opc :: "u8 list \<Rightarrow> u8 list \<Rightarrow> u8 list res" where
  "milenage_opc k opv =
     rbind (aes128EncryptBlock k opv) (\<lambda>c. Inr (xor_block 16 c opv))"

section \<open>Sizes\<close>

lemma length_xor_block [simp]: "length (xor_block n a b) = n"
  by (simp add: xor_block_def)

lemma length_rotate_block [simp]: "length (rotate_block r x) = 16"
  by (simp add: rotate_block_def)

lemma length_add_constant [simp]: "length (add_constant c x) = length x"
  by (simp add: add_constant_def)

lemma xor_block_cancel: "length a = n \<Longrightarrow> xor_block n (xor_block n a b) b = a"
  by (rule nth_equalityI) (simp_all add: xor_block_def xor.assoc)

lemma length_te_last [simp]: "length (te_last rk r s) = 16"
  by (cases s) simp

lemma aes128_block:
  assumes "length k = 16" and "16 \<le> length p"
  shows "\<exists>c. aes128EncryptBlock k p = Inr c \<and> length c = 16"
proof -
  have s: "AesSetupEnc 44 k (int (32 * 4)) = Inr (expand 4 (3 * 4 + 28) (key_words_of k), 4 + 6)"
    using assms by (intro AesSetupEnc_expand) simp_all
  show ?thesis
    using assms(2) AesEncrypt_rounds [of 10 p "expand 4 40 (key_words_of k)"] s assms(1)
    by (simp add: aes128EncryptBlock_def rtLength_def key_words_of_def)
qed

lemma milenageF1_total:
  assumes "length k = 16" "length opc = 16" "length rand = 16" "6 \<le> length sqn" "2 \<le> length amf"
  shows "\<exists>mac_a mac_s. milenageF1 opc k rand sqn amf = Inr (mac_a, mac_s) \<and> length mac_a = 8 \<and> length mac_s = 8"
proof -
  have b: "\<exists>c. aes128EncryptBlock k p = Inr c \<and> length c = 16" if "length p = 16" for p
    using aes128_block [OF assms(1), of p] that by simp
  obtain t where t: "aes128EncryptBlock k (xor_block 16 rand opc) = Inr t" using b by force
  let ?x = "xor_block 16 (rotate_block 8 (xor_block 16 ((take 6 sqn @ take 2 amf) @ take 6 sqn @ take 2 amf) opc)) t"
  obtain u where "aes128EncryptBlock k ?x = Inr u" using b by force
  with t show ?thesis using assms by (simp add: milenageF1_def Let_def)
qed

lemma milenageF2345_total:
  assumes "length k = 16" "length opc = 16" "length rand = 16"
  shows "\<exists>v. milenageF2345 opc k rand = Inr v \<and> length (RES v) = 8 \<and> length (CK v) = 16 \<and> length (IK v) = 16 \<and>
    length (AK v) = 6 \<and> length (AKstar v) = 6"
proof -
  have b: "\<exists>c. aes128EncryptBlock k p = Inr c \<and> length c = 16" if "length p = 16" for p
    using aes128_block [OF assms(1), of p] that by simp
  obtain t where t: "aes128EncryptBlock k (xor_block 16 rand opc) = Inr t" using b by force
  let ?x = "xor_block 16 t opc"
  obtain o2 where "aes128EncryptBlock k (add_constant 1 ?x) = Inr o2" using b by force
  moreover obtain o3 where "aes128EncryptBlock k (add_constant 2 (rotate_block 12 ?x)) = Inr o3" using b by force
  moreover obtain o4 where "aes128EncryptBlock k (add_constant 4 (rotate_block 8 ?x)) = Inr o4" using b by force
  moreover obtain o5 where "aes128EncryptBlock k (add_constant 8 (rotate_block 4 ?x)) = Inr o5" using b by force
  ultimately show ?thesis using assms t by (simp add: milenageF2345_def Let_def)
qed

section \<open>The comparison\<close>

text \<open>
  \<open>os_memcmp\<close> returns the index of the first difference with the sign of the comparison. At index
  zero that is zero, which its callers read as equality.
\<close>

lemma memcmp_from_zero:
  "0 < i \<Longrightarrow> memcmp_from a b i n = 0 \<longleftrightarrow> (\<forall>j < n. a ! (i + j) = b ! (i + j))"
proof (induction n arbitrary: i)
  case (Suc n)
  have "(\<forall>j < Suc n. a ! (i + j) = b ! (i + j)) \<longleftrightarrow> a ! i = b ! i \<and> (\<forall>j < n. a ! (Suc i + j) = b ! (Suc i + j))"
    by (auto simp: less_Suc_eq_0_disj)
  then show ?case using Suc.IH [of "Suc i"] Suc.prems by auto
qed simp

lemma os_memcmp_zero:
  "os_memcmp a b (Suc n) = 0 \<longleftrightarrow> a ! 0 \<noteq> b ! 0 \<or> (\<forall>j \<le> n. a ! j = b ! j)"
proof (cases "a ! 0 = b ! 0")
  case True
  then have "os_memcmp a b (Suc n) = memcmp_from a b 1 n" by (simp add: os_memcmp_def)
  then show ?thesis using memcmp_from_zero [of 1 a b n] True
    by (auto simp: le_less_Suc_eq less_Suc_eq_le [symmetric] less_Suc_eq_0_disj)
next
  case False
  then show ?thesis by (auto simp: os_memcmp_def)
qed

section \<open>A forged token\<close>

lemma xor_block_append: "length a = n \<Longrightarrow> xor_block n (a @ x) b = xor_block n a b"
  by (simp add: xor_block_def nth_append)

text \<open>
  \<open>Milenage_check\<close> accepts a token without a valid MAC. Whenever the first byte of the MAC in
  the token differs from the first byte of the computed one, whatever the other seven bytes are,
  the comparison returns zero and the token passes.
\<close>

theorem forged_mac_accepted:
  assumes "milenageF2345 opc k rand = Inr v" and "length (AK v) = 6"
    and "milenageF1 opc k rand rx amf = Inr (mac_a, mac_s)" and "length amf = 2"
    and "length rx = 6" and "6 \<le> length sqn" and "os_memcmp rx sqn 6 > 0"
    and "length mac' = 8" and "mac' ! 0 \<noteq> mac_a ! 0"
  shows "Milenage_check opc k sqn rand (xor_block 6 rx (AK v) @ amf @ mac') = Inr (CheckOk v)"
proof -
  let ?autn = "xor_block 6 rx (AK v) @ amf @ mac'"
  have "xor_block 6 ?autn (AK v) = rx"
    using assms(5) by (simp add: xor_block_append xor_block_cancel)
  moreover have "milenageF1 opc k rand rx (amf @ mac') = milenageF1 opc k rand rx amf"
    using assms(4) by (simp add: milenageF1_def cong: if_cong)
  moreover have "os_memcmp mac_a mac' 8 = 0"
    using assms(9) os_memcmp_zero [of mac_a mac' 7] by simp
  ultimately show ?thesis
    using assms by (simp add: Milenage_check_def Let_def not_le)
qed

lemma forged_mac_accepted_witness:
  "\<exists>v mac'. Milenage_check (replicate 16 1) (replicate 16 2) [0, 0, 0, 0, 0, 1] (replicate 16 3)
     (xor_block 6 [0, 0, 0, 0, 0, 2] (AK v) @ [0x80, 0] @ mac') = Inr (CheckOk v)"
proof -
  obtain v where v: "milenageF2345 (replicate 16 1) (replicate 16 2) (replicate 16 3) = Inr v" "length (AK v) = 6"
    using milenageF2345_total [of "replicate 16 2" "replicate 16 1" "replicate 16 3"] by auto
  obtain a s where m: "milenageF1 (replicate 16 1) (replicate 16 2) (replicate 16 3) [0, 0, 0, 0, 0, 2] [0x80, 0] = Inr (a, s)"
    using milenageF1_total [of "replicate 16 2" "replicate 16 1" "replicate 16 3" "[0, 0, 0, 0, 0, 2]" "[0x80, 0]"] by auto
  have "os_memcmp [0, 0, 0, 0, 0, 2] [0, 0, 0, 0, 0, 1] 6 > 0" by code_simp
  from forged_mac_accepted [OF v m _ _ _ this, of "(a ! 0 + 1) # replicate 7 0"] show ?thesis by auto
qed

end
