(* ===== verification/Ue_Auth.thy ===== *)
theory Ue_Auth
  imports Milenage Go_Strings
begin

text \<open>
  5G-AKA in the UE: the key derivation of \<^verbatim>\<open>lib/UeauCommon\<close> and the functions of
  \<^verbatim>\<open>ue/context/context.go\<close> that answer a challenge (\<^verbatim>\<open>DeriveRESstarAndSetKey\<close>, \<^verbatim>\<open>DerivateKamf\<close>,
  \<^verbatim>\<open>DerivateAlgKey\<close>). HMAC-SHA-256 of Go's library is the argument \<open>hmac\<close>. The theorems run the
  UE against the network functions of Milenage.
\<close>

unbundle bit_operations_syntax

section \<open>Key derivation\<close>

definition KDFLen :: "u8 list \<Rightarrow> u8 list" where
  "KDFLen input = (let n = of_nat (length input) :: u16 in [ucast (drop_bit 8 n), ucast n])"

definition GetKDFValue :: "(u8 list \<Rightarrow> u8 list \<Rightarrow> u8 list) \<Rightarrow> u8 list \<Rightarrow> string \<Rightarrow> u8 list list \<Rightarrow> u8 list" where
  "GetKDFValue hmac key FC param = hmac key (fst (DecodeString FC) @ concat param)"

definition bytes_of_string :: "string \<Rightarrow> u8 list" where
  "bytes_of_string s = map of_char s"

section \<open>The UE\<close>

record auth_subs =
  PermanentKeyValue :: string
  OpcValue :: string
  OpValue :: string
  AuthenticationManagementField :: string
  SequenceNumber :: string

record ue_keys =
  Supi :: string
  CipheringAlgId :: u8
  IntegrityAlgId :: u8
  Kamf :: "u8 list"
  KeyNasEnc :: "u8 list"
  KeyNasInt :: "u8 list"
  AuthenticationSubs :: auth_subs

text \<open>\<^verbatim>\<open>(?:imsi|supi)-([0-9]{5,15})\<close>: the digits of the leftmost match.\<close>

definition supi_match :: "string \<Rightarrow> string option" where
  "supi_match s =
     (if take 5 s = ''imsi-'' \<or> take 5 s = ''supi-'' then
        let d = takeWhile is_digit (drop 5 s) in if length d \<ge> 5 then Some (take 15 d) else None
      else None)"

fun supi_find :: "string \<Rightarrow> string option" where
  "supi_find [] = None"
| "supi_find (c # s) = (case supi_match (c # s) of Some d \<Rightarrow> Some d | None \<Rightarrow> supi_find s)"

definition SetAuthSubscription :: "string \<Rightarrow> string \<Rightarrow> string \<Rightarrow> string \<Rightarrow> string \<Rightarrow> ue_keys \<Rightarrow> ue_keys" where
  "SetAuthSubscription k opc opv amf sqn ue =
     ue\<lparr>AuthenticationSubs := \<lparr>PermanentKeyValue = k, OpcValue = opc, OpValue = opv,
          AuthenticationManagementField = amf, SequenceNumber = sqn\<rparr>\<rparr>"

definition DerivateKamf :: "(u8 list \<Rightarrow> u8 list \<Rightarrow> u8 list) \<Rightarrow> u8 list \<Rightarrow> string \<Rightarrow> u8 list \<Rightarrow> u8 list \<Rightarrow> ue_keys \<Rightarrow> ue_keys res" where
  "DerivateKamf hmac key snName SQN AKv ue =
     (if length SQN > 6 \<or> length SQN > length AKv then Inl Panic
      else
        let P0 = bytes_of_string snName;
            P1 = xor_block (length SQN) SQN AKv @ replicate (6 - length SQN) 0;
            Kausf = GetKDFValue hmac key ''6A'' [P0, KDFLen P0, P1, KDFLen P1];
            Kseaf = GetKDFValue hmac Kausf ''6C'' [P0, KDFLen P0]
        in case supi_find (Supi ue) of None \<Rightarrow> Inl Panic
           | Some d \<Rightarrow>
               let P0 = bytes_of_string d; P1 = [0, 0]
               in Inr (ue\<lparr>Kamf := GetKDFValue hmac Kseaf ''6D'' [P0, KDFLen P0, P1, KDFLen P1]\<rparr>))"

text \<open>\<open>copy(dst[:], src[16:32])\<close> for a \<open>dst\<close> of 16 bytes.\<close>

definition DerivateAlgKey :: "(u8 list \<Rightarrow> u8 list \<Rightarrow> u8 list) \<Rightarrow> ue_keys \<Rightarrow> ue_keys res" where
  "DerivateAlgKey hmac ue =
     (let kdf = (\<lambda>typ alg. GetKDFValue hmac (Kamf ue) ''69'' [[typ], KDFLen [typ], [alg], KDFLen [alg]]);
          kenc = kdf 1 (CipheringAlgId ue); kint = kdf 2 (IntegrityAlgId ue)
      in if length kenc < 32 \<or> length kint < 32 then Inl Panic
         else Inr (ue\<lparr>KeyNasEnc := take 16 (drop 16 kenc), KeyNasInt := take 16 (drop 16 kint)\<rparr>))"

fun bytes_Compare :: "u8 list \<Rightarrow> u8 list \<Rightarrow> int" where
  "bytes_Compare [] [] = 0"
| "bytes_Compare [] (_ # _) = -1"
| "bytes_Compare (_ # _) [] = 1"
| "bytes_Compare (a # x) (b # y) = (if a < b then -1 else if a > b then 1 else bytes_Compare x y)"

definition deriveAUTN :: "u8 list \<Rightarrow> u8 list \<Rightarrow> (u8 list \<times> u8 list \<times> u8 list) res" where
  "deriveAUTN autn ak =
     (if length autn < 8 \<or> length ak < 6 then Inl Panic
      else Inr (xor_block 6 autn ak, take 2 (drop 6 autn), drop 8 autn))"

text \<open>
  The result of \<^verbatim>\<open>DeriveRESstarAndSetKey\<close> is the UE, the bytes to send and the verdict. The
  subscription is passed by value, so the assignment of the new sequence number to it is lost:
  nothing of \<open>ue\<close> but the keys changes.
\<close>

definition DeriveRESstarAndSetKey :: "(u8 list \<Rightarrow> u8 list \<Rightarrow> u8 list) \<Rightarrow> auth_subs \<Rightarrow> u8 list \<Rightarrow> string \<Rightarrow> u8 list \<Rightarrow> ue_keys \<Rightarrow>
    (ue_keys \<times> u8 list \<times> string) res" where
  "DeriveRESstarAndSetKey hmac subs RAND snName AUTN ue =
     (let OPC = fst (DecodeString (OpcValue subs));
          K = fst (DecodeString (PermanentKeyValue subs));
          sqnUe = fst (DecodeString (SequenceNumber subs));
          AMF = fst (DecodeString (AuthenticationManagementField subs))
      in
      rbind (milenageF2345 OPC K RAND) (\<lambda>v.
      rbind (deriveAUTN AUTN (AK v)) (\<lambda>(sqnHn, _, mac_aHn).
      rbind (milenageF1 OPC K RAND sqnHn AMF) (\<lambda>(mac_a, _).
        if mac_a \<noteq> mac_aHn then Inr (ue, [], ''MAC failure'')
        else if bytes_Compare sqnUe sqnHn > 0 then
          rbind (milenageF1 OPC K RAND sqnUe (fst (DecodeString ''0000''))) (\<lambda>(_, mac_s).
            if length sqnUe > 6 then Inl Panic
            else Inr (ue, xor_block (length sqnUe) sqnUe (AKstar v) @ replicate (6 - length sqnUe) 0 @ mac_s, ''SQN failure''))
        else
          let key = CK v @ IK v; P0 = bytes_of_string snName in
          rbind (DerivateKamf hmac key snName sqnHn (AK v) ue) (\<lambda>ue.
          rbind (DerivateAlgKey hmac ue) (\<lambda>ue.
            let kdfVal = GetKDFValue hmac key ''6B'' [P0, KDFLen P0, RAND, KDFLen RAND, RES v, KDFLen (RES v)]
            in Inr (ue, drop (length kdfVal div 2) kdfVal, ''successful'')))))))"

section \<open>The challenge and its answer\<close>

text \<open>
  What the network computes from its authentication vector: the expected response and the key
  hierarchy of TS 33.501 Annex A, with SQN xor AK taken from the token.
\<close>

definition xres_star :: "(u8 list \<Rightarrow> u8 list \<Rightarrow> u8 list) \<Rightarrow> f2345 \<Rightarrow> string \<Rightarrow> u8 list \<Rightarrow> u8 list" where
  "xres_star hmac v sn rand =
     (let P0 = bytes_of_string sn
      in drop 16 (hmac (CK v @ IK v) (0x6b # P0 @ KDFLen P0 @ rand @ KDFLen rand @ RES v @ KDFLen (RES v))))"

definition network_kamf :: "(u8 list \<Rightarrow> u8 list \<Rightarrow> u8 list) \<Rightarrow> f2345 \<Rightarrow> string \<Rightarrow> u8 list \<Rightarrow> string \<Rightarrow> u8 list" where
  "network_kamf hmac v sn autn imsi =
     (let P0 = bytes_of_string sn; P1 = take 6 autn; I = bytes_of_string imsi;
          kausf = hmac (CK v @ IK v) (0x6a # P0 @ KDFLen P0 @ P1 @ KDFLen P1);
          kseaf = hmac kausf (0x6c # P0 @ KDFLen P0)
      in hmac kseaf (0x6d # I @ KDFLen I @ [0, 0, 0, 2]))"

definition network_nas_key :: "(u8 list \<Rightarrow> u8 list \<Rightarrow> u8 list) \<Rightarrow> u8 list \<Rightarrow> u8 \<Rightarrow> u8 \<Rightarrow> u8 list" where
  "network_nas_key hmac kamf typ alg = take 16 (drop 16 (hmac kamf [0x69, typ, 0, 1, alg, 0, 1]))"

text \<open>A subscription whose fields are the hexadecimal forms of values of the right sizes.\<close>

definition usim :: "auth_subs \<Rightarrow> u8 list \<Rightarrow> u8 list \<Rightarrow> u8 list \<Rightarrow> u8 list \<Rightarrow> bool" where
  "usim subs opc k amf sqn \<longleftrightarrow>
     DecodeString (OpcValue subs) = (opc, None) \<and> length opc = 16 \<and>
     DecodeString (PermanentKeyValue subs) = (k, None) \<and> length k = 16 \<and>
     DecodeString (AuthenticationManagementField subs) = (amf, None) \<and> length amf = 2 \<and>
     DecodeString (SequenceNumber subs) = (sqn, None) \<and> length sqn = 6"

declare DecodeString.simps [simp del]

lemma fc_codes:
  "fst (DecodeString ''6A'') = [0x6a]" "fst (DecodeString ''6B'') = [0x6b]" "fst (DecodeString ''6C'') = [0x6c]"
  "fst (DecodeString ''6D'') = [0x6d]" "fst (DecodeString ''69'') = [0x69]" "fst (DecodeString ''0000'') = [0, 0]"
  by code_simp+

lemma KDFLen_small:
  "KDFLen [a] = [0, 1]" "KDFLen [a, b] = [0, 2]"
  by (simp_all add: KDFLen_def)

lemma generated_autn:
  assumes "usim subs opc k amf sqnUe" "length sqn = 6" "length rand = 16"
    and "MilenageGenerate opc amf k sqn rand 8 = Inr (Some (v, autn))"
  shows "\<exists>mac_a mac_s. milenageF2345 opc k rand = Inr v \<and> length (AK v) = 6 \<and> length (AKstar v) = 6 \<and>
    milenageF1 opc k rand sqn amf = Inr (mac_a, mac_s) \<and> length mac_a = 8 \<and> length mac_s = 8 \<and>
    autn = xor_block 6 sqn (AK v) @ amf @ mac_a"
proof -
  have l: "length k = 16" "length opc = 16" "length amf = 2" using assms(1) by (auto simp: usim_def)
  obtain v' where "milenageF2345 opc k rand = Inr v'" "length (AK v') = 6" "length (AKstar v') = 6"
    using milenageF2345_total [OF l(1,2) assms(3)] by auto
  moreover obtain a s where "milenageF1 opc k rand sqn amf = Inr (a, s)" "length a = 8" "length s = 8"
    using milenageF1_total [OF l(1,2) assms(3), of sqn amf] assms(2) l(3) by auto
  ultimately show ?thesis using assms(4) l by (auto simp: MilenageGenerate_def)
qed

lemma deriveAUTN_generated:
  "length ak = 6 \<Longrightarrow> length sqn = 6 \<Longrightarrow> length amf = 2 \<Longrightarrow>
   deriveAUTN (xor_block 6 sqn ak @ amf @ mac) ak = Inr (sqn, amf, mac)"
  by (simp add: deriveAUTN_def xor_block_append xor_block_cancel)

lemma DerivateKamf_network:
  assumes "supi_find (Supi ue) = Some imsi" "length sqn = 6" "length (AK v) = 6"
  shows "DerivateKamf hmac (CK v @ IK v) sn sqn (AK v) ue =
    Inr (ue\<lparr>Kamf := network_kamf hmac v sn (xor_block 6 sqn (AK v) @ rest) imsi\<rparr>)"
  using assms by (simp add: DerivateKamf_def network_kamf_def GetKDFValue_def Let_def fc_codes KDFLen_small)

lemma DerivateAlgKey_network:
  assumes "\<And>key m. length (hmac key m) = 32"
  shows "DerivateAlgKey hmac ue =
    Inr (ue\<lparr>KeyNasEnc := network_nas_key hmac (Kamf ue) 1 (CipheringAlgId ue),
             KeyNasInt := network_nas_key hmac (Kamf ue) 2 (IntegrityAlgId ue)\<rparr>)"
  by (simp add: DerivateAlgKey_def network_nas_key_def GetKDFValue_def Let_def fc_codes KDFLen_small assms)

lemma challenge_answered:
  assumes "usim subs opc k amf sqnUe" and "\<And>key m. length (hmac key m) = 32"
    and "length sqn = 6" and "length rand = 16" and "supi_find (Supi ue) = Some imsi"
    and "MilenageGenerate opc amf k sqn rand 8 = Inr (Some (v, autn))" and "bytes_Compare sqnUe sqn \<le> 0"
  shows "\<exists>ue'. DeriveRESstarAndSetKey hmac subs rand sn autn ue = Inr (ue', xres_star hmac v sn rand, ''successful'') \<and>
    Kamf ue' = network_kamf hmac v sn autn imsi \<and>
    KeyNasEnc ue' = network_nas_key hmac (Kamf ue') 1 (CipheringAlgId ue) \<and>
    KeyNasInt ue' = network_nas_key hmac (Kamf ue') 2 (IntegrityAlgId ue)"
proof -
  obtain a s where g: "milenageF2345 opc k rand = Inr v" "length (AK v) = 6"
    "milenageF1 opc k rand sqn amf = Inr (a, s)" "autn = xor_block 6 sqn (AK v) @ amf @ a"
    using generated_autn [OF assms(1,3,4,6)] by auto
  have u: "fst (DecodeString (OpcValue subs)) = opc" "fst (DecodeString (PermanentKeyValue subs)) = k"
    "fst (DecodeString (AuthenticationManagementField subs)) = amf" "fst (DecodeString (SequenceNumber subs)) = sqnUe"
    "length amf = 2" using assms(1) by (auto simp: usim_def)
  show ?thesis
    unfolding DeriveRESstarAndSetKey_def Let_def u g(1,4)
    using assms(7) g(3) DerivateKamf_network [OF assms(5,3) g(2), of hmac sn "amf @ a"]
    by (simp add: deriveAUTN_generated [OF g(2) assms(3) u(5)] DerivateAlgKey_network [OF assms(2)]
        xres_star_def GetKDFValue_def Let_def fc_codes assms(2))
qed

lemma MilenageGenerate_total:
  assumes "length k = 16" "length opc = 16" "length rand = 16" "6 \<le> length sqn" "2 \<le> length amf"
  shows "\<exists>v autn. MilenageGenerate opc amf k sqn rand 8 = Inr (Some (v, autn))"
proof -
  obtain v where "milenageF2345 opc k rand = Inr v" using milenageF2345_total [OF assms(1-3)] by auto
  moreover obtain a s where "milenageF1 opc k rand sqn amf = Inr (a, s)" using milenageF1_total [OF assms] by auto
  ultimately show ?thesis by (simp add: MilenageGenerate_def)
qed

text \<open>A subscription for the examples, with a hash that forgets its input.\<close>

definition demo_subs :: auth_subs where
  "demo_subs = \<lparr>PermanentKeyValue = concat (replicate 16 ''4a''), OpcValue = concat (replicate 16 ''E9''),
     OpValue = [], AuthenticationManagementField = ''8000'', SequenceNumber = ''000000000020''\<rparr>"

definition demo_ue :: ue_keys where
  "demo_ue = \<lparr>Supi = ''imsi-001010000000001'', CipheringAlgId = 0, IntegrityAlgId = 2, Kamf = [],
     KeyNasEnc = [], KeyNasInt = [], AuthenticationSubs = demo_subs\<rparr>"

definition demo_hmac :: "u8 list \<Rightarrow> u8 list \<Rightarrow> u8 list" where
  "demo_hmac key m = replicate 32 0"

lemma demo_usim: "usim demo_subs (replicate 16 0xe9) (replicate 16 0x4a) [0x80, 0] [0, 0, 0, 0, 0, 0x20]"
  by code_simp

lemma demo_supi: "supi_find (Supi demo_ue) = Some ''001010000000001''"
  by code_simp

lemma demo_hmac_length: "length (demo_hmac key m) = 32"
  by (simp add: demo_hmac_def)

lemma demo_compare:
  "bytes_Compare [0, 0, 0, 0, 0, 0x20] [0, 0, 0, 0, 0, 0x21] \<le> 0" "bytes_Compare [0, 0, 0, 0, 0, 0x20] [0, 0, 0, 0, 0, 0x1f] > 0"
  by code_simp+

text \<open>
  C2: mutual authentication. A challenge the network generates with the subscriber's key for a
  sequence number not below the UE's is accepted; the UE answers with the response the network
  expects and both sides hold the same Kamf and NAS keys.
\<close>

theorem aka_agreement:
  assumes "usim subs opc k amf sqnUe" and "\<And>key m. length (hmac key m) = 32"
    and "length sqn = 6" and "length rand = 16" and "supi_find (Supi ue) = Some imsi"
    and "MilenageGenerate opc amf k sqn rand 8 = Inr (Some (v, autn))" and "bytes_Compare sqnUe sqn \<le> 0"
  shows "\<exists>ue'. DeriveRESstarAndSetKey hmac subs rand sn autn ue = Inr (ue', xres_star hmac v sn rand, ''successful'') \<and>
    Kamf ue' = network_kamf hmac v sn autn imsi \<and>
    KeyNasEnc ue' = network_nas_key hmac (Kamf ue') 1 (CipheringAlgId ue) \<and>
    KeyNasInt ue' = network_nas_key hmac (Kamf ue') 2 (IntegrityAlgId ue)"
  using assms by (rule challenge_answered)

lemma aka_agreement_witness:
  "\<exists>v autn ue'. MilenageGenerate (replicate 16 0xe9) [0x80, 0] (replicate 16 0x4a) [0, 0, 0, 0, 0, 0x21] (replicate 16 1) 8 =
      Inr (Some (v, autn)) \<and>
    DeriveRESstarAndSetKey demo_hmac demo_subs (replicate 16 1) ''5G:mnc001'' autn demo_ue =
      Inr (ue', xres_star demo_hmac v ''5G:mnc001'' (replicate 16 1), ''successful'') \<and>
    Kamf ue' = network_kamf demo_hmac v ''5G:mnc001'' autn ''001010000000001''"
proof -
  obtain v autn where g: "MilenageGenerate (replicate 16 0xe9) [0x80, 0] (replicate 16 0x4a) [0, 0, 0, 0, 0, 0x21]
      (replicate 16 1) 8 = Inr (Some (v, autn))"
    using MilenageGenerate_total [of "replicate 16 0x4a" "replicate 16 0xe9" "replicate 16 1" "[0, 0, 0, 0, 0, 0x21]" "[0x80, 0]"]
    by auto
  then show ?thesis
    using aka_agreement [where hmac = demo_hmac and sn = "''5G:mnc001''", OF demo_usim demo_hmac_length _ _ demo_supi g demo_compare(1)] by auto
qed

text \<open>
  C23: resynchronisation. When the challenge is authentic but its sequence number is below the
  UE's, the UE answers with a token from which the network's check recovers the UE's number.
\<close>

theorem aka_resynchronisation:
  assumes "usim subs opc k amf sqnUe" and "length sqn = 6" and "length rand = 16"
    and "MilenageGenerate opc amf k sqn rand 8 = Inr (Some (v, autn))" and "bytes_Compare sqnUe sqn > 0"
  shows "\<exists>auts. DeriveRESstarAndSetKey hmac subs rand sn autn ue = Inr (ue, auts, ''SQN failure'') \<and>
    length auts = 14 \<and> Milenage_auts opc k rand auts = Inr (Some sqnUe)"
proof -
  obtain a s where g: "milenageF2345 opc k rand = Inr v" "length (AK v) = 6" "length (AKstar v) = 6"
    "milenageF1 opc k rand sqn amf = Inr (a, s)" "autn = xor_block 6 sqn (AK v) @ amf @ a"
    using generated_autn [OF assms(1-4)] by auto
  have u: "fst (DecodeString (OpcValue subs)) = opc" "fst (DecodeString (PermanentKeyValue subs)) = k"
    "fst (DecodeString (AuthenticationManagementField subs)) = amf" "fst (DecodeString (SequenceNumber subs)) = sqnUe"
    "length amf = 2" "length sqnUe = 6" "length k = 16" "length opc = 16" using assms(1) by (auto simp: usim_def)
  obtain a' m where f: "milenageF1 opc k rand sqnUe [0, 0] = Inr (a', m)" "length m = 8"
    using milenageF1_total [OF u(7,8) assms(3), of sqnUe "[0, 0]"] u(6) by auto
  let ?auts = "xor_block 6 sqnUe (AKstar v) @ m"
  have "DeriveRESstarAndSetKey hmac subs rand sn autn ue = Inr (ue, ?auts, ''SQN failure'')"
    unfolding DeriveRESstarAndSetKey_def Let_def u(1-4) g(1,5)
    using assms(5) g(4) f u(6) by (simp add: deriveAUTN_generated [OF g(2) assms(2) u(5)] fc_codes)
  moreover have "Milenage_auts opc k rand ?auts = Inr (Some sqnUe)"
    using g f u(6) by (simp add: Milenage_auts_def Let_def xor_block_append xor_block_cancel)
  ultimately show ?thesis using f(2) by auto
qed

lemma aka_resynchronisation_witness:
  "\<exists>v autn auts. MilenageGenerate (replicate 16 0xe9) [0x80, 0] (replicate 16 0x4a) [0, 0, 0, 0, 0, 0x1f] (replicate 16 1) 8 =
      Inr (Some (v, autn)) \<and>
    DeriveRESstarAndSetKey demo_hmac demo_subs (replicate 16 1) ''5G:mnc001'' autn demo_ue =
      Inr (demo_ue, auts, ''SQN failure'') \<and>
    Milenage_auts (replicate 16 0xe9) (replicate 16 0x4a) (replicate 16 1) auts = Inr (Some [0, 0, 0, 0, 0, 0x20])"
proof -
  obtain v autn where g: "MilenageGenerate (replicate 16 0xe9) [0x80, 0] (replicate 16 0x4a) [0, 0, 0, 0, 0, 0x1f]
      (replicate 16 1) 8 = Inr (Some (v, autn))"
    using MilenageGenerate_total [of "replicate 16 0x4a" "replicate 16 0xe9" "replicate 16 1" "[0, 0, 0, 0, 0, 0x1f]" "[0x80, 0]"]
    by auto
  then show ?thesis
    using aka_resynchronisation [OF demo_usim _ _ g demo_compare(2), of demo_hmac "''5G:mnc001''" demo_ue] by auto
qed

text \<open>
  C24: a challenge whose MAC is not the one computed from the subscriber's key is rejected, and
  the UE keeps all its state.
\<close>

theorem aka_rejects_forgery:
  assumes "usim subs opc k amf sqnUe" and "length rand = 16" and "length autn = 16"
    and "milenageF2345 opc k rand = Inr v"
    and "milenageF1 opc k rand (xor_block 6 autn (AK v)) amf = Inr (mac_a, mac_s)" and "drop 8 autn \<noteq> mac_a"
  shows "DeriveRESstarAndSetKey hmac subs rand sn autn ue = Inr (ue, [], ''MAC failure'')"
proof -
  have u: "fst (DecodeString (OpcValue subs)) = opc" "fst (DecodeString (PermanentKeyValue subs)) = k"
    "fst (DecodeString (AuthenticationManagementField subs)) = amf" "length k = 16" "length opc = 16"
    using assms(1) by (auto simp: usim_def)
  have "length (AK v) = 6" using milenageF2345_total [OF u(4,5) assms(2)] assms(4) by auto
  then show ?thesis
    using assms u(1-3) by (auto simp: DeriveRESstarAndSetKey_def Let_def deriveAUTN_def)
qed

lemma aka_rejects_forgery_witness:
  "\<exists>autn. DeriveRESstarAndSetKey demo_hmac demo_subs (replicate 16 1) ''5G:mnc001'' autn demo_ue =
     Inr (demo_ue, [], ''MAC failure'')"
proof -
  obtain v where v: "milenageF2345 (replicate 16 0xe9) (replicate 16 0x4a) (replicate 16 1) = Inr v"
    using milenageF2345_total [of "replicate 16 0x4a" "replicate 16 0xe9" "replicate 16 1"] by auto
  let ?x = "xor_block 6 (replicate 8 0) (AK v)"
  obtain a s where m: "milenageF1 (replicate 16 0xe9) (replicate 16 0x4a) (replicate 16 1) ?x [0x80, 0] = Inr (a, s)"
    using milenageF1_total [of "replicate 16 0x4a" "replicate 16 0xe9" "replicate 16 1" ?x "[0x80, 0]"] by auto
  let ?autn = "replicate 8 0 @ (a ! 0 + 1) # replicate 7 0"
  have "xor_block 6 ?autn (AK v) = ?x" by (simp add: xor_block_def nth_append)
  moreover have "drop 8 ?autn \<noteq> a" by (cases a) auto
  ultimately show ?thesis
    using aka_rejects_forgery [OF demo_usim _ _ v, of ?autn a s] m by auto
qed

lemma keys_rederived:
  assumes "DerivateKamf hmac key sn sqn ak ue = Inr u" "DerivateAlgKey hmac u = Inr ue'"
  shows "AuthenticationSubs ue' = AuthenticationSubs ue \<and>
    rbind (DerivateKamf hmac key sn sqn ak ue') (DerivateAlgKey hmac) = Inr ue'"
  using assms by (auto simp: DerivateKamf_def DerivateAlgKey_def Let_def split: if_splits option.splits)

text \<open>
  The sequence number of the UE never advances. The subscription is passed by value, so
  after a successful run it is as before, and the same challenge succeeds a second time.
\<close>

theorem aka_challenge_replay:
  assumes "DeriveRESstarAndSetKey hmac (AuthenticationSubs ue) rand sn autn ue = Inr (ue', r, ''successful'')"
  shows "AuthenticationSubs ue' = AuthenticationSubs ue \<and>
    DeriveRESstarAndSetKey hmac (AuthenticationSubs ue') rand sn autn ue' = Inr (ue', r, ''successful'')"
proof -
  let ?subs = "AuthenticationSubs ue"
  let ?opc = "fst (DecodeString (OpcValue ?subs))" and ?k = "fst (DecodeString (PermanentKeyValue ?subs))"
  let ?amf = "fst (DecodeString (AuthenticationManagementField ?subs))"
  obtain v sqn w mac s u where *: "milenageF2345 ?opc ?k rand = Inr v" "deriveAUTN autn (AK v) = Inr (sqn, w, mac)"
    "milenageF1 ?opc ?k rand sqn ?amf = Inr (mac, s)"
    "\<not> bytes_Compare (fst (DecodeString (SequenceNumber ?subs))) sqn > 0"
    "DerivateKamf hmac (CK v @ IK v) sn sqn (AK v) ue = Inr u" "DerivateAlgKey hmac u = Inr ue'"
    using assms unfolding DeriveRESstarAndSetKey_def Let_def
    by (auto simp: rbind_eq_Inr split: if_splits)
  then have r: "AuthenticationSubs ue' = ?subs"
    "rbind (DerivateKamf hmac (CK v @ IK v) sn sqn (AK v) ue') (DerivateAlgKey hmac) = Inr ue'"
    using keys_rederived by blast+
  then obtain u' where "DerivateKamf hmac (CK v @ IK v) sn sqn (AK v) ue' = Inr u'" "DerivateAlgKey hmac u' = Inr ue'"
    by (auto simp: rbind_eq_Inr)
  with * r(1) assms show ?thesis
    unfolding DeriveRESstarAndSetKey_def Let_def by simp
qed

lemma aka_challenge_replay_witness:
  "\<exists>ue' r autn. AuthenticationSubs ue' = AuthenticationSubs demo_ue \<and>
    DeriveRESstarAndSetKey demo_hmac (AuthenticationSubs ue') (replicate 16 1) ''5G:mnc001'' autn ue' =
      Inr (ue', r, ''successful'')"
proof -
  obtain v autn where g: "MilenageGenerate (replicate 16 0xe9) [0x80, 0] (replicate 16 0x4a) [0, 0, 0, 0, 0, 0x21]
      (replicate 16 1) 8 = Inr (Some (v, autn))"
    using MilenageGenerate_total [of "replicate 16 0x4a" "replicate 16 0xe9" "replicate 16 1" "[0, 0, 0, 0, 0, 0x21]" "[0x80, 0]"]
    by auto
  have d: "demo_subs = AuthenticationSubs demo_ue" by (simp add: demo_ue_def)
  obtain ue' r where "DeriveRESstarAndSetKey demo_hmac (AuthenticationSubs demo_ue) (replicate 16 1) ''5G:mnc001'' autn demo_ue =
      Inr (ue', r, ''successful'')"
    using challenge_answered [where hmac = demo_hmac and sn = "''5G:mnc001''", OF demo_usim demo_hmac_length _ _ demo_supi g demo_compare(1)] d by auto
  from aka_challenge_replay [OF this] show ?thesis by blast
qed

end
