(* ===== verification/Nas_Channel.thy ===== *)
theory Nas_Channel
  imports Nas_Security
begin

text \<open>
  How the UE protects what it sends and checks what it receives: \<^verbatim>\<open>NASEncode\<close> of
  \<^verbatim>\<open>integrity-ciphering-nas.go\<close> and \<^verbatim>\<open>DispatchNas\<close> of \<^verbatim>\<open>ue/nas/dispatcher.go\<close>, up to the call of a
  handler. The plain message codec of \<^verbatim>\<open>lib/nas\<close> enters as the bytes it produces
  (\<^verbatim>\<open>PlainNasEncode\<close>) or receives (\<^verbatim>\<open>PlainNasDecode\<close>).
\<close>

unbundle bit_operations_syntax

section \<open>The model\<close>

record sec_ctx =
  CipheringAlg :: u8
  IntegrityAlg :: u8
  KnasEnc :: "u8 list"
  KnasInt :: "u8 list"
  ULCount :: Count
  DLCount :: Count

text \<open>A message to send: its security header and what \<^verbatim>\<open>PlainNasEncode\<close> returns for it.\<close>

record out_msg =
  ProtocolDiscriminator :: u8
  SecurityHeaderType :: u8
  plain :: "u8 list res"

definition NASEncode :: "(u8 list \<Rightarrow> u8 list \<Rightarrow> u8 list) \<Rightarrow> (u8 list \<Rightarrow> u8 list \<Rightarrow> u8 list) \<Rightarrow>
    sec_ctx option \<Rightarrow> out_msg option \<Rightarrow> bool \<Rightarrow> bool \<Rightarrow> sec_ctx option \<times> u8 list res" where
  "NASEncode aes cmac ue msg securityContextAvailable newSecurityContext =
     (case ue of None \<Rightarrow> (None, Inl (Fail ''amfUe is nil''))
      | Some sec \<Rightarrow>
        (case msg of None \<Rightarrow> (Some sec, Inl (Fail ''Nas message is empty''))
         | Some m \<Rightarrow>
           if \<not> securityContextAvailable then (Some sec, plain m)
           else
             let sec = (if newSecurityContext
                        then sec\<lparr>ULCount := Count_Set 0 0 (ULCount sec), DLCount := Count_Set 0 0 (DLCount sec)\<rparr>
                        else sec);
                 sequenceNumber = Count_SQN (ULCount sec)
             in
             case plain m of Inl e \<Rightarrow> (Some sec, Inl e)
             | Inr payload \<Rightarrow>
               (case NASEncrypt aes (CipheringAlg sec) (KnasEnc sec) (ULCount sec) 1 0 (Some payload) of
                  Inl e \<Rightarrow> (Some sec, Inl e)
                | Inr payload \<Rightarrow>
                  let payload = sequenceNumber # payload in
                  case NASMacCalculate cmac (IntegrityAlg sec) (KnasInt sec) (ULCount sec) 1 0 (Some payload) of
                    Inl e \<Rightarrow> (Some sec, Inl e)
                  | Inr mac32 \<Rightarrow>
                      (Some (sec\<lparr>ULCount := Count_AddOne (ULCount sec)\<rparr>),
                       Inr ([ProtocolDiscriminator m, SecurityHeaderType m] @
                            (case mac32 of None \<Rightarrow> [] | Some mac \<Rightarrow> mac) @ payload)))))"

text \<open>
  The outcome of the first half of \<^verbatim>\<open>DispatchNas\<close>: the message is dropped with what the code logs,
  the code panics, or the bytes are handed to \<^verbatim>\<open>PlainNasDecode\<close>.
\<close>

datatype nas_outcome = Dropped string | Crashed | Delivered "u8 list"

definition dispatch_security :: "(u8 list \<Rightarrow> u8 list \<Rightarrow> u8 list) \<Rightarrow> (u8 list \<Rightarrow> u8 list \<Rightarrow> u8 list) \<Rightarrow>
    sec_ctx \<Rightarrow> u8 list option \<Rightarrow> sec_ctx \<times> nas_outcome" where
  "dispatch_security aes cmac sec message =
     (case message of None \<Rightarrow> (sec, Dropped ''NAS message is nil'')
      | Some m \<Rightarrow>
        if length m < 2 then (sec, Crashed)
        else
          let sht = m ! 1 AND 0x0f in
          if sht = 0 then (sec, Delivered m)
          else if length m < 7 then (sec, Crashed)
          else
            let sequenceNumber = m ! 6;
                macReceived = take 4 (drop 2 m);
                payload = drop 6 m;
                cph = (sht = 2 \<or> sht = 4);
                sec = (if sht = 3 \<or> sht = 4 then sec\<lparr>DLCount := Count_Set 0 0 (DLCount sec)\<rparr> else sec);
                sec = sec\<lparr>DLCount := estimate (DLCount sec) sequenceNumber\<rparr>
            in
            case NASMacCalculate cmac (IntegrityAlg sec) (KnasInt sec) (DLCount sec) 1 1 (Some payload) of
              Inl Panic \<Rightarrow> (sec, Crashed)
            | Inl (Fail _) \<Rightarrow> (sec, Dropped ''NAS MAC calculate error'')
            | Inr mac32 \<Rightarrow>
                if mac32 \<noteq> Some macReceived then (sec, Dropped ''NAS MAC verification failed'')
                else if cph then
                  (case NASEncrypt aes (CipheringAlg sec) (KnasEnc sec) (DLCount sec) 1 1 (Some (drop 1 payload)) of
                     Inl Panic \<Rightarrow> (sec, Crashed)
                   | Inl (Fail _) \<Rightarrow> (sec, Dropped ''error in encrypt algorithm'')
                   | Inr p \<Rightarrow> (sec, Delivered p))
                else (sec, Delivered (drop 7 m)))"

text \<open>
  The handlers of \<^verbatim>\<open>ue/nas/handler\<close> by the message type that selects them. A message of another
  protocol than 5GMM leaves \<^verbatim>\<open>m.GmmMessage\<close> nil, which the switch dereferences; a message too
  short for a header leaves the header zero.
\<close>

datatype nas_handler = AuthenticationRequest | AuthenticationReject | IdentityRequest
  | SecurityModeCommand | RegistrationAccept | ConfigurationUpdateCommand | DLNASTransport
  | RegistrationReject | ServiceAccept | ServiceReject | Status5GMM | DeregistrationRequestUETerminated

definition gmm_handler :: "u8 \<Rightarrow> nas_handler option" where
  "gmm_handler t =
     map_of [(86, AuthenticationRequest), (88, AuthenticationReject), (91, IdentityRequest),
       (93, SecurityModeCommand), (66, RegistrationAccept), (84, ConfigurationUpdateCommand),
       (104, DLNASTransport), (68, RegistrationReject), (78, ServiceAccept), (77, ServiceReject),
       (100, Status5GMM), (71, DeregistrationRequestUETerminated)] t"

datatype dispatch_result = Ignored | Panicked | Handle nas_handler "u8 list"

definition DispatchNas :: "(u8 list \<Rightarrow> u8 list \<Rightarrow> u8 list) \<Rightarrow> (u8 list \<Rightarrow> u8 list \<Rightarrow> u8 list) \<Rightarrow>
    sec_ctx \<Rightarrow> u8 list option \<Rightarrow> sec_ctx \<times> dispatch_result" where
  "DispatchNas aes cmac sec message =
     (case dispatch_security aes cmac sec message of
        (sec, Dropped _) \<Rightarrow> (sec, Ignored)
      | (sec, Crashed) \<Rightarrow> (sec, Panicked)
      | (sec, Delivered p) \<Rightarrow>
          if p = [] \<or> p ! 0 \<noteq> 0x7e then (sec, Panicked)
          else
            case gmm_handler (if length p < 3 then 0 else p ! 2) of
              None \<Rightarrow> (sec, Ignored)
            | Some h \<Rightarrow> (sec, Handle h p))"

section \<open>The channel between the two directions\<close>

text \<open>
  What the specification of 5GMM asks of a sender: cipher the plain message with the counter,
  prepend the low octet of the counter, compute the MAC over both, prepend the header and the MAC.
\<close>

definition protect :: "(u8 list \<Rightarrow> u8 list \<Rightarrow> u8 list) \<Rightarrow> (u8 list \<Rightarrow> u8 list \<Rightarrow> u8 list) \<Rightarrow> sec_ctx \<Rightarrow>
    Count \<Rightarrow> u8 \<Rightarrow> u8 \<Rightarrow> u8 \<Rightarrow> u8 list \<Rightarrow> u8 list res" where
  "protect aes cmac sec n dir epd sht p =
     rbind (NASEncrypt aes (CipheringAlg sec) (KnasEnc sec) n 1 dir (Some p)) (\<lambda>q.
     rbind (NASMacCalculate cmac (IntegrityAlg sec) (KnasInt sec) n 1 dir (Some (Count_SQN n # q))) (\<lambda>mac.
     Inr ([epd, sht] @ (case mac of None \<Rightarrow> [] | Some m \<Rightarrow> m) @ Count_SQN n # q)))"

lemma NASMac_implemented:
  assumes "alg \<in> {1, 2}" "\<And>key m. 4 \<le> length (cmac key m)" "dir \<le> 1" "m \<noteq> []"
  shows "\<exists>mac. NASMacCalculate cmac alg k n 1 dir (Some m) = Inr (Some mac) \<and> length mac = 4"
proof -
  have "0 < (length m + 7) div 8" using assms(4) by (cases m) simp_all
  moreover have "\<not> length (cmac key x) < 4" for key x using assms(2) [of key x] by simp
  moreover have "\<not> 1 < dir" "\<not> 0x1f < (1 :: u8)" using assms(3) by simp_all
  ultimately show ?thesis using assms(1)
    by (auto simp: NASMacCalculate_def NIA1_def NIA2_def Let_def min_absorb2 assms(2))
qed

lemma NASEncode_protect:
  "plain m = Inr p \<Longrightarrow>
   NASEncode aes cmac (Some sec) (Some m) True False =
     (case protect aes cmac sec (ULCount sec) 0 (ProtocolDiscriminator m) (SecurityHeaderType m) p of
        Inl e \<Rightarrow> (Some sec, Inl e)
      | Inr b \<Rightarrow> (Some (sec\<lparr>ULCount := Count_AddOne (ULCount sec)\<rparr>), Inr b))"
  by (simp add: NASEncode_def protect_def Let_def rbind_def split: sum.splits)

lemma protect_shape:
  assumes "CipheringAlg sec \<in> {0, 1, 2}" "IntegrityAlg sec \<in> {1, 2}" "\<And>key m. 4 \<le> length (cmac key m)"
    and "dir \<le> 1" "0 < length p" "length p < 2 ^ 28"
  shows "\<exists>q mac. NASEncrypt aes (CipheringAlg sec) (KnasEnc sec) n 1 dir (Some p) = Inr q \<and> length q = length p \<and>
    NASEncrypt aes (CipheringAlg sec) (KnasEnc sec) n 1 dir (Some q) = Inr p \<and>
    NASMacCalculate cmac (IntegrityAlg sec) (KnasInt sec) n 1 dir (Some (Count_SQN n # q)) = Inr (Some mac) \<and>
    length mac = 4 \<and> protect aes cmac sec n dir epd sht p = Inr ([epd, sht] @ mac @ Count_SQN n # q)"
proof -
  obtain q where q: "NASEncrypt aes (CipheringAlg sec) (KnasEnc sec) n 1 dir (Some p) = Inr q"
    "length q = length p" "NASEncrypt aes (CipheringAlg sec) (KnasEnc sec) n 1 dir (Some q) = Inr p"
    using nas_encrypt_round [of "CipheringAlg sec" 1 dir p aes "KnasEnc sec" n] assms by auto
  moreover obtain mac where
    "NASMacCalculate cmac (IntegrityAlg sec) (KnasInt sec) n 1 dir (Some (Count_SQN n # q)) = Inr (Some mac)"
    "length mac = 4"
    using NASMac_implemented [of "IntegrityAlg sec" cmac dir "Count_SQN n # q" "KnasInt sec" n] assms by auto
  ultimately show ?thesis by (auto simp: protect_def)
qed

lemma dispatch_protected:
  assumes "length mac = 4" "sht = 1 \<or> sht = 2"
    and "NASMacCalculate cmac (IntegrityAlg sec) (KnasInt sec) n 1 1 (Some (Count_SQN n # q)) = Inr (Some mac)"
    and "estimate (DLCount sec) (Count_SQN n) = n"
  shows "dispatch_security aes cmac sec (Some ([epd, sht] @ mac @ Count_SQN n # q)) =
    (sec\<lparr>DLCount := n\<rparr>,
     if sht = 2 then
       (case NASEncrypt aes (CipheringAlg sec) (KnasEnc sec) n 1 1 (Some q) of
          Inl Panic \<Rightarrow> Crashed | Inl (Fail _) \<Rightarrow> Dropped ''error in encrypt algorithm'' | Inr p \<Rightarrow> Delivered p)
     else Delivered q)"
proof -
  obtain a b c d where mac: "mac = [a, b, c, d]"
    using assms(1) by (auto simp: numeral_eq_Suc length_Suc_conv)
  have sht: "sht AND 0x0f = sht" "sht \<noteq> 0" "sht \<noteq> 3" "sht \<noteq> 4" using assms(2) by auto
  show ?thesis
    unfolding dispatch_security_def Let_def
    using assms(3,4) sht by (simp add: mac split: sum.split go_err.split)
qed

text \<open>
  C3: the secure channel. A message protected by the network with counter \<open>n\<close>, for any \<open>n\<close> from
  the counter of the last message received up to 255 ahead, is accepted by \<^verbatim>\<open>DispatchNas\<close>, its
  plain content is delivered, and the downlink counter becomes \<open>n\<close>.
\<close>

theorem secure_channel:
  assumes "CipheringAlg sec \<in> {0, 1, 2}" and "IntegrityAlg sec \<in> {1, 2}"
    and "\<And>key m. 4 \<le> length (cmac key m)"
    and "count24 (DLCount sec)" and "count24 n"
    and "unat (DLCount sec) \<le> unat n" and "unat n < unat (DLCount sec) + 256"
    and "0 < length p" and "length p < 2 ^ 28"
  shows "\<exists>b. protect aes cmac sec n 1 epd 2 p = Inr b \<and>
    dispatch_security aes cmac sec (Some b) = (sec\<lparr>DLCount := n\<rparr>, Delivered p)"
proof -
  obtain q mac where *: "length mac = 4"
    "NASEncrypt aes (CipheringAlg sec) (KnasEnc sec) n 1 1 (Some q) = Inr p"
    "NASMacCalculate cmac (IntegrityAlg sec) (KnasInt sec) n 1 1 (Some (Count_SQN n # q)) = Inr (Some mac)"
    "protect aes cmac sec n 1 epd 2 p = Inr ([epd, 2] @ mac @ Count_SQN n # q)"
    using protect_shape [of sec cmac 1 p aes n epd 2] assms by auto
  show ?thesis
    unfolding *(4) using dispatch_protected [OF *(1) _ *(3) estimate_correct] assms *(2) by simp
qed

definition demo_sec :: sec_ctx where
  "demo_sec = \<lparr>CipheringAlg = 2, IntegrityAlg = 2, KnasEnc = replicate 16 7, KnasInt = replicate 16 9,
     ULCount = 0, DLCount = 0x1fe\<rparr>"

lemma secure_channel_witness:
  "\<exists>b. protect (\<lambda>k x. map2 (XOR) k x) (\<lambda>k m. take 4 (k @ replicate 4 0)) demo_sec 0x203 1 0x7e 2 [0x7e, 0, 0x42] = Inr b \<and>
    dispatch_security (\<lambda>k x. map2 (XOR) k x) (\<lambda>k m. take 4 (k @ replicate 4 0)) demo_sec (Some b) =
      (demo_sec\<lparr>DLCount := 0x203\<rparr>, Delivered [0x7e, 0, 0x42])"
  by (rule secure_channel) (simp_all add: demo_sec_def count24_def)

text \<open>
  C20: authenticity. Whatever is delivered from a message with a security header other than plain
  was at least seven bytes long and carried the MAC of its own sequence number and payload under
  the integrity key and the updated counter.
\<close>

theorem delivered_is_authentic:
  assumes "dispatch_security aes cmac sec (Some m) = (sec', Delivered p)" and "m ! 1 AND 0x0f \<noteq> 0"
  shows "7 \<le> length m \<and>
    NASMacCalculate cmac (IntegrityAlg sec) (KnasInt sec) (DLCount sec') 1 1 (Some (drop 6 m)) =
      Inr (Some (take 4 (drop 2 m))) \<and>
    Count_SQN (DLCount sec') = m ! 6 \<and> sec' = sec\<lparr>DLCount := DLCount sec'\<rparr>"
  using assms
  by (auto simp: dispatch_security_def Let_def estimate_def counter_fields split: if_splits sum.splits go_err.splits)

lemma delivered_is_authentic_witness:
  "7 \<le> length [0x7e, 1, 9, 9, 9, 9, 5, 0x7e, 0, 0x42 :: u8] \<and>
    NASMacCalculate (\<lambda>k m. k) (IntegrityAlg demo_sec) (KnasInt demo_sec)
        (DLCount (demo_sec\<lparr>DLCount := 0x205\<rparr>)) 1 1 (Some (drop 6 [0x7e, 1, 9, 9, 9, 9, 5, 0x7e, 0, 0x42])) =
      Inr (Some (take 4 (drop 2 [0x7e, 1, 9, 9, 9, 9, 5, 0x7e, 0, 0x42]))) \<and>
    Count_SQN (DLCount (demo_sec\<lparr>DLCount := 0x205\<rparr>)) = [0x7e, 1, 9, 9, 9, 9, 5, 0x7e, 0, 0x42] ! 6 \<and>
    demo_sec\<lparr>DLCount := 0x205\<rparr> = demo_sec\<lparr>DLCount := DLCount (demo_sec\<lparr>DLCount := 0x205\<rparr>)\<rparr>"
  by (rule delivered_is_authentic [of "\<lambda>k m. k" _ _ _ _ "[0x7e, 0, 0x42]"])
    code_simp+

text \<open>
  C21: what the UE sends is the protected form of the plain message under its uplink counter, and
  each message sent advances the counter by one modulo 2^24, so that no two of the next
  2^24 messages share a counter.
\<close>

theorem nas_encode_refines_protect:
  assumes "plain m = Inr p" and "CipheringAlg sec \<in> {0, 1, 2}" and "IntegrityAlg sec \<in> {1, 2}"
    and "\<And>key x. 4 \<le> length (cmac key x)" and "0 < length p" and "length p < 2 ^ 28" and "count24 (ULCount sec)"
  shows "\<exists>b sec'. protect aes cmac sec (ULCount sec) 0 (ProtocolDiscriminator m) (SecurityHeaderType m) p = Inr b \<and>
    NASEncode aes cmac (Some sec) (Some m) True False = (Some sec', Inr b) \<and>
    length b = 7 + length p \<and> b ! 6 = Count_SQN (ULCount sec) \<and>
    sec' = sec\<lparr>ULCount := ULCount sec'\<rparr> \<and> unat (ULCount sec') = (unat (ULCount sec) + 1) mod 2 ^ 24"
proof -
  obtain q mac where *: "length q = length p" "length mac = 4"
    "protect aes cmac sec (ULCount sec) 0 (ProtocolDiscriminator m) (SecurityHeaderType m) p =
       Inr ([ProtocolDiscriminator m, SecurityHeaderType m] @ mac @ Count_SQN (ULCount sec) # q)"
    using protect_shape [of sec cmac 0 p aes "ULCount sec" "ProtocolDiscriminator m" "SecurityHeaderType m"] assms
    by auto
  obtain a b c d where "mac = [a, b, c, d]"
    using *(2) by (auto simp: numeral_eq_Suc length_Suc_conv)
  then show ?thesis
    using NASEncode_protect [of m p aes cmac sec] assms(1,7) *(1,3) by (simp add: unat_Count_AddOne)
qed

lemma nas_encode_refines_protect_witness:
  "\<exists>b sec'. protect (\<lambda>k x. k) (\<lambda>k m. take 4 (k @ replicate 4 0)) demo_sec (ULCount demo_sec) 0
      (ProtocolDiscriminator \<lparr>ProtocolDiscriminator = 0x7e, SecurityHeaderType = 2, plain = Inr [0x7e, 0, 0x43]\<rparr>)
      (SecurityHeaderType \<lparr>ProtocolDiscriminator = 0x7e, SecurityHeaderType = 2, plain = Inr [0x7e, 0, 0x43]\<rparr>)
      [0x7e, 0, 0x43] = Inr b \<and>
    NASEncode (\<lambda>k x. k) (\<lambda>k m. take 4 (k @ replicate 4 0)) (Some demo_sec)
      (Some \<lparr>ProtocolDiscriminator = 0x7e, SecurityHeaderType = 2, plain = Inr [0x7e, 0, 0x43]\<rparr>) True False =
      (Some sec', Inr b) \<and>
    length b = 7 + length [0x7e, 0, 0x43 :: u8] \<and> b ! 6 = Count_SQN (ULCount demo_sec) \<and>
    sec' = demo_sec\<lparr>ULCount := ULCount sec'\<rparr> \<and> unat (ULCount sec') = (unat (ULCount demo_sec) + 1) mod 2 ^ 24"
  by (rule nas_encode_refines_protect) (simp_all add: demo_sec_def count24_def)

text \<open>
  A protected message that was accepted is accepted again. The estimate of the counter treats
  an equal sequence number as new, so there is no protection against replay of the last message.
\<close>

theorem replay_is_accepted:
  assumes "dispatch_security aes cmac sec (Some m) = (sec', Delivered p)" and "m ! 1 AND 0x0f \<notin> {3, 4}"
  shows "dispatch_security aes cmac sec' (Some m) = (sec', Delivered p)"
proof -
  have "Count_SetSQN s (Count_SetSQN s c) = Count_SetSQN s c" for c s
    by (rule bit_word_eqI) (auto simp: bit_counter)
  then have "estimate (estimate c s) s = estimate c s" for c s
    by (simp add: estimate_def)
  then show ?thesis
    using assms by (auto simp: dispatch_security_def Let_def split: if_splits sum.splits go_err.splits)
qed

lemma replay_is_accepted_witness:
  "dispatch_security (\<lambda>k x. k) (\<lambda>k m. k) (demo_sec\<lparr>DLCount := 0x205\<rparr>)
      (Some [0x7e, 1, 9, 9, 9, 9, 5, 0x7e, 0, 0x42]) = (demo_sec\<lparr>DLCount := 0x205\<rparr>, Delivered [0x7e, 0, 0x42])"
  by (rule replay_is_accepted [of _ _ demo_sec]) code_simp+

text \<open>
  With the null integrity algorithm (or NIA3, which is not implemented) the computed MAC is
  nil, which never equals four received bytes: no message with a security header is delivered.
\<close>

theorem null_integrity_delivers_nothing:
  assumes "IntegrityAlg sec \<in> {0, 3}" and "m ! 1 AND 0x0f \<noteq> 0"
  shows "snd (dispatch_security aes cmac sec (Some m)) \<noteq> Delivered p"
  using assms by (auto simp: dispatch_security_def Let_def NASMacCalculate_def)

lemma null_integrity_delivers_nothing_witness:
  "snd (dispatch_security (\<lambda>k x. k) (\<lambda>k m. k) (demo_sec\<lparr>IntegrityAlg := 0\<rparr>)
      (Some [0x7e, 1, 0, 0, 0, 0, 5, 0x7e, 0, 0x42])) \<noteq> Delivered [0x7e, 0, 0x42]"
  by (rule null_integrity_delivers_nothing) simp_all

text \<open>
  A plain message whose first byte is not the 5GMM discriminator crashes the UE, whatever
  follows: the message stays without a 5GMM part, which the switch on the message type reads.
\<close>

theorem non_gmm_message_crashes:
  assumes "2 \<le> length m" and "m ! 1 AND 0x0f = 0" and "m ! 0 \<noteq> 0x7e"
  shows "DispatchNas aes cmac sec (Some m) = (sec, Panicked)"
  using assms by (simp add: DispatchNas_def dispatch_security_def)

lemma non_gmm_message_crashes_witness:
  "DispatchNas (\<lambda>k x. k) (\<lambda>k m. k) demo_sec (Some [0x2e, 0x10, 0x01, 0xc2]) = (demo_sec, Panicked)"
  by (rule non_gmm_message_crashes) simp_all

end
