(* ===== verification/Fleet.thy ===== *)
theory Fleet
  imports Go_Strings
begin

text \<open>
  Configuration and profiles: \<^verbatim>\<open>config/config.go\<close> (\<^verbatim>\<open>Validate\<close>) and \<^verbatim>\<open>config/fleet.go\<close>, the store of
  named UE, gNB, AMF, slice and security profiles. Writing the store to disk can fail; its result
  is the argument \<open>save\<close>. Reading the file and parsing JSON is the argument of \<open>LoadFleet\<close>, and
  \<^verbatim>\<open>net.ParseIP(s) != nil\<close> is the argument \<open>ipOk\<close>.
\<close>

section \<open>Configuration\<close>

record PDUSessionConfig =
  sessId :: u8
  sessDnn :: string
  sessType :: string
  sessSst :: int
  sessSd :: string

record GNodeBConf =
  controlIp :: string
  controlPort :: int
  dataIp :: string
  dataPort :: int
  plmnMcc :: string
  plmnMnc :: string
  plmnTac :: string
  plmnGnbId :: string
  sliceSst :: string
  sliceSd :: string
  linkType :: string
  linkPort :: int
  pagingDRX :: string
  cellId :: int

record UeConf =
  ueMsin :: string
  ueKey :: string
  ueOpc :: string
  ueAmf :: string
  ueSqn :: string
  ueDnn :: string
  uePduSessionType :: string
  ueRegistrationType :: string
  hplmnMcc :: string
  hplmnMnc :: string
  snssaiSst :: int
  snssaiSd :: string
  uePduSessions :: "PDUSessionConfig list option"

record Config =
  GNodeB :: GNodeBConf
  Ue :: UeConf
  amfIp :: string
  amfPort :: int
  logLevel :: int

definition digits_between :: "nat \<Rightarrow> nat \<Rightarrow> string \<Rightarrow> bool" where
  "digits_between lo hi s \<longleftrightarrow> lo \<le> length s \<and> length s \<le> hi \<and> list_all is_digit s"

definition hex_ok :: "nat \<Rightarrow> string \<Rightarrow> bool" where
  "hex_ok n s \<longleftrightarrow> length s = n \<and> snd (DecodeString s) = None"

definition port_ok :: "int \<Rightarrow> bool" where
  "port_ok p \<longleftrightarrow> \<not> (p \<le> 0 \<or> p > 65535)"

text \<open>The first failing check of a list of checks, each with its message.\<close>

fun first_error :: "(bool \<times> string) list \<Rightarrow> go_err option" where
  "first_error [] = None"
| "first_error (c # cs) = (if fst c then first_error cs else Some (Fail (snd c)))"

definition session_checks :: "PDUSessionConfig \<Rightarrow> (bool \<times> string) list" where
  "session_checks sess =
     [(\<not> (sessId sess < 2 \<or> sessId sess > 15), ''Secondary PDU Session ID '' @ dec_nat (unat (sessId sess)) @ '' must be between 2 and 15''),
      (\<not> (sessSst sess < 0 \<or> sessSst sess > 255), ''PDU Session '' @ dec_nat (unat (sessId sess)) @ '' SST must be between 0 and 255''),
      (sessSd sess = [] \<or> length (sessSd sess) = 6, ''PDU Session '' @ dec_nat (unat (sessId sess)) @ '' SD must be exactly 6 hex characters (or empty)''),
      (sessSd sess = [] \<or> snd (DecodeString (sessSd sess)) = None, ''PDU Session '' @ dec_nat (unat (sessId sess)) @ '' SD must be a valid hex string'')]"

definition config_checks :: "(string \<Rightarrow> bool) \<Rightarrow> Config \<Rightarrow> (bool \<times> string) list" where
  "config_checks ipOk c =
     [(digits_between 3 3 (plmnMcc (GNodeB c)), ''GNodeB PLMN MCC must be exactly 3 digits''),
      (digits_between 2 3 (plmnMnc (GNodeB c)), ''GNodeB PLMN MNC must be 2 or 3 digits''),
      (digits_between 3 3 (hplmnMcc (Ue c)), ''UE HPLMN MCC must be exactly 3 digits''),
      (digits_between 2 3 (hplmnMnc (Ue c)), ''UE HPLMN MNC must be 2 or 3 digits''),
      (length (ueKey (Ue c)) = 32, ''UE Key must be exactly 32 hex characters (128-bit)''),
      (snd (DecodeString (ueKey (Ue c))) = None, ''UE Key must be a valid hex string''),
      (length (ueOpc (Ue c)) = 32, ''UE OPc must be exactly 32 hex characters (128-bit)''),
      (snd (DecodeString (ueOpc (Ue c))) = None, ''UE OPc must be a valid hex string''),
      (length (ueAmf (Ue c)) = 4, ''UE AMF field must be exactly 4 hex characters''),
      (snd (DecodeString (ueAmf (Ue c))) = None, ''UE AMF must be a valid hex string''),
      (length (ueSqn (Ue c)) = 12, ''UE SQN field must be exactly 12 hex characters''),
      (snd (DecodeString (ueSqn (Ue c))) = None, ''UE SQN must be a valid hex string''),
      (digits_between 8 10 (ueMsin (Ue c)), ''UE MSIN must be between 8 and 10 numeric digits''),
      (ipOk (controlIp (GNodeB c)), ''GNodeB Control IP '' @ CHR 0x27 # controlIp (GNodeB c) @ CHR 0x27 # '' is invalid''),
      (ipOk (dataIp (GNodeB c)), ''GNodeB Data IP '' @ CHR 0x27 # dataIp (GNodeB c) @ CHR 0x27 # '' is invalid''),
      (ipOk (amfIp c), ''AMF IP '' @ CHR 0x27 # amfIp c @ CHR 0x27 # '' is invalid''),
      (port_ok (controlPort (GNodeB c)), ''GNodeB Control Port must be between 1 and 65535''),
      (port_ok (dataPort (GNodeB c)), ''GNodeB Data Port must be between 1 and 65535''),
      (port_ok (linkPort (GNodeB c)), ''GNodeB Link Port must be between 1 and 65535''),
      (port_ok (amfPort c), ''AMF Port must be between 1 and 65535''),
      (\<not> (snssaiSst (Ue c) < 0 \<or> snssaiSst (Ue c) > 255), ''UE Slice SST must be between 0 and 255''),
      (snssaiSd (Ue c) = [] \<or> length (snssaiSd (Ue c)) = 6, ''UE Slice SD must be exactly 6 hex characters (or empty)''),
      (snssaiSd (Ue c) = [] \<or> snd (DecodeString (snssaiSd (Ue c))) = None, ''UE Slice SD must be a valid hex string'')]"

definition Validate :: "(string \<Rightarrow> bool) \<Rightarrow> Config \<Rightarrow> go_err option" where
  "Validate ipOk c =
     first_error (config_checks ipOk c @
       concat (map session_checks (case uePduSessions (Ue c) of None \<Rightarrow> [] | Some ss \<Rightarrow> ss)))"

section \<open>Profiles\<close>

record UEProfile =
  ueName :: string
  pMsin :: string
  pKey :: string
  pOpc :: string
  pAmf :: string
  pSqn :: string
  pDnn :: string
  pPduSessionType :: string
  pRegistrationType :: string
  pMcc :: string
  pMnc :: string
  pSst :: int
  pSd :: string
  pPduSessions :: "PDUSessionConfig list option"

record GNBProfile =
  gnbName :: string
  gGnbId :: string
  gMcc :: string
  gMnc :: string
  gTac :: string
  gSliceSst :: string
  gSliceSd :: string
  gControlIp :: string
  gControlPort :: int
  gDataIp :: string
  gDataPort :: int
  gLinkType :: string
  gLinkPort :: int
  gAmfIp :: string
  gAmfPort :: int

record AMFProfile =
  amfName :: string
  aIp :: string
  aPort :: int
  aMcc :: string
  aMnc :: string
  aDescription :: string

record SliceProfile =
  sliceName :: string
  sSst :: int
  sSd :: string
  sCategory :: string
  sDescription :: string

record SecurityProfile =
  secName :: string
  kKey :: string
  kOpc :: string
  kAmf :: string
  kSqn :: string
  kDescription :: string

record FleetConfig =
  UEProfiles :: "UEProfile list"
  GNBProfiles :: "GNBProfile list"
  AMFProfiles :: "AMFProfile list"
  SliceProfiles :: "SliceProfile list"
  SecurityProfiles :: "SecurityProfile list"

text \<open>The three loops over a profile list.\<close>

fun upsert_loop :: "('p \<Rightarrow> string) \<Rightarrow> 'p \<Rightarrow> 'p list \<Rightarrow> 'p list" where
  "upsert_loop nm p [] = [p]"
| "upsert_loop nm p (x # xs) = (if nm x = nm p then p # xs else x # upsert_loop nm p xs)"

fun delete_loop :: "('p \<Rightarrow> string) \<Rightarrow> string \<Rightarrow> 'p list \<Rightarrow> 'p list option" where
  "delete_loop nm n [] = None"
| "delete_loop nm n (x # xs) = (if nm x = n then Some xs else map_option ((#) x) (delete_loop nm n xs))"

fun get_loop :: "('p \<Rightarrow> string) \<Rightarrow> string \<Rightarrow> 'p list \<Rightarrow> 'p option" where
  "get_loop nm n [] = None"
| "get_loop nm n (x # xs) = (if nm x = n then Some x else get_loop nm n xs)"

type_synonym save = "FleetConfig \<Rightarrow> go_err option"

definition UpsertUEProfile :: "save \<Rightarrow> UEProfile \<Rightarrow> FleetConfig \<Rightarrow> FleetConfig \<times> go_err option" where
  "UpsertUEProfile save p fc =
     (if ueName p = [] then (fc, Some (Fail ''UE profile name cannot be empty''))
      else let fc = fc\<lparr>UEProfiles := upsert_loop ueName p (UEProfiles fc)\<rparr> in (fc, save fc))"

definition DeleteUEProfile :: "save \<Rightarrow> string \<Rightarrow> FleetConfig \<Rightarrow> FleetConfig \<times> go_err option" where
  "DeleteUEProfile save n fc =
     (case delete_loop ueName n (UEProfiles fc) of
        None \<Rightarrow> (fc, Some (Fail ''UE profile not found''))
      | Some ps \<Rightarrow> let fc = fc\<lparr>UEProfiles := ps\<rparr> in (fc, save fc))"

definition GetUEProfile :: "string \<Rightarrow> FleetConfig \<Rightarrow> UEProfile option" where
  "GetUEProfile n fc = get_loop ueName n (UEProfiles fc)"

definition UpsertGNBProfile :: "save \<Rightarrow> GNBProfile \<Rightarrow> FleetConfig \<Rightarrow> FleetConfig \<times> go_err option" where
  "UpsertGNBProfile save p fc =
     (if gnbName p = [] then (fc, Some (Fail ''gNB profile name cannot be empty''))
      else let fc = fc\<lparr>GNBProfiles := upsert_loop gnbName p (GNBProfiles fc)\<rparr> in (fc, save fc))"

definition DeleteGNBProfile :: "save \<Rightarrow> string \<Rightarrow> FleetConfig \<Rightarrow> FleetConfig \<times> go_err option" where
  "DeleteGNBProfile save n fc =
     (case delete_loop gnbName n (GNBProfiles fc) of
        None \<Rightarrow> (fc, Some (Fail ''gNB profile not found''))
      | Some ps \<Rightarrow> let fc = fc\<lparr>GNBProfiles := ps\<rparr> in (fc, save fc))"

definition GetGNBProfile :: "string \<Rightarrow> FleetConfig \<Rightarrow> GNBProfile option" where
  "GetGNBProfile n fc = get_loop gnbName n (GNBProfiles fc)"

definition UpsertAMFProfile :: "save \<Rightarrow> AMFProfile \<Rightarrow> FleetConfig \<Rightarrow> FleetConfig \<times> go_err option" where
  "UpsertAMFProfile save p fc =
     (if amfName p = [] then (fc, Some (Fail ''AMF profile name cannot be empty''))
      else if aIp p = [] \<or> aPort p \<le> 0 \<or> aPort p > 65535 then (fc, Some (Fail ''invalid AMF IP or Port''))
      else let fc = fc\<lparr>AMFProfiles := upsert_loop amfName p (AMFProfiles fc)\<rparr> in (fc, save fc))"

definition DeleteAMFProfile :: "save \<Rightarrow> string \<Rightarrow> FleetConfig \<Rightarrow> FleetConfig \<times> go_err option" where
  "DeleteAMFProfile save n fc =
     (case delete_loop amfName n (AMFProfiles fc) of
        None \<Rightarrow> (fc, Some (Fail ''AMF profile not found''))
      | Some ps \<Rightarrow> let fc = fc\<lparr>AMFProfiles := ps\<rparr> in (fc, save fc))"

definition UpsertSliceProfile :: "save \<Rightarrow> SliceProfile \<Rightarrow> FleetConfig \<Rightarrow> FleetConfig \<times> go_err option" where
  "UpsertSliceProfile save p fc =
     (if sliceName p = [] then (fc, Some (Fail ''Slice profile name cannot be empty''))
      else let fc = fc\<lparr>SliceProfiles := upsert_loop sliceName p (SliceProfiles fc)\<rparr> in (fc, save fc))"

definition DeleteSliceProfile :: "save \<Rightarrow> string \<Rightarrow> FleetConfig \<Rightarrow> FleetConfig \<times> go_err option" where
  "DeleteSliceProfile save n fc =
     (case delete_loop sliceName n (SliceProfiles fc) of
        None \<Rightarrow> (fc, Some (Fail ''Slice profile not found''))
      | Some ps \<Rightarrow> let fc = fc\<lparr>SliceProfiles := ps\<rparr> in (fc, save fc))"

definition UpsertSecurityProfile :: "save \<Rightarrow> SecurityProfile \<Rightarrow> FleetConfig \<Rightarrow> FleetConfig \<times> go_err option" where
  "UpsertSecurityProfile save p fc =
     (if secName p = [] then (fc, Some (Fail ''Security profile name cannot be empty''))
      else let fc = fc\<lparr>SecurityProfiles := upsert_loop secName p (SecurityProfiles fc)\<rparr> in (fc, save fc))"

definition DeleteSecurityProfile :: "save \<Rightarrow> string \<Rightarrow> FleetConfig \<Rightarrow> FleetConfig \<times> go_err option" where
  "DeleteSecurityProfile save n fc =
     (case delete_loop secName n (SecurityProfiles fc) of
        None \<Rightarrow> (fc, Some (Fail ''Security profile not found''))
      | Some ps \<Rightarrow> let fc = fc\<lparr>SecurityProfiles := ps\<rparr> in (fc, save fc))"

text \<open>A fleet as JSON gives it, where an absent list is nil.\<close>

record RawFleet =
  rawUE :: "UEProfile list option"
  rawGNB :: "GNBProfile list option"
  rawAMF :: "AMFProfile list option"
  rawSlice :: "SliceProfile list option"
  rawSecurity :: "SecurityProfile list option"

definition ImportFleet :: "save \<Rightarrow> RawFleet \<Rightarrow> FleetConfig \<Rightarrow> FleetConfig \<times> go_err option" where
  "ImportFleet save fc old =
     (let new = \<lparr>UEProfiles = (case rawUE fc of Some l \<Rightarrow> l | None \<Rightarrow> UEProfiles old),
                 GNBProfiles = (case rawGNB fc of Some l \<Rightarrow> l | None \<Rightarrow> GNBProfiles old),
                 AMFProfiles = (case rawAMF fc of Some l \<Rightarrow> l | None \<Rightarrow> AMFProfiles old),
                 SliceProfiles = (case rawSlice fc of Some l \<Rightarrow> l | None \<Rightarrow> SliceProfiles old),
                 SecurityProfiles = (case rawSecurity fc of Some l \<Rightarrow> l | None \<Rightarrow> SecurityProfiles old)\<rparr>
      in (new, save new))"

definition getDefaultAMFProfiles :: "AMFProfile list" where
  "getDefaultAMFProfiles =
     [\<lparr>amfName = ''Local Open5GS Core'', aIp = ''127.0.0.18'', aPort = 38412, aMcc = ''208'', aMnc = ''93'',
       aDescription = ''Default local Open5GS 5G Core AMF''\<rparr>,
      \<lparr>amfName = ''Loopback AMF (127.0.0.1)'', aIp = ''127.0.0.1'', aPort = 38412, aMcc = ''208'', aMnc = ''93'',
       aDescription = ''Standard loopback 5GC AMF''\<rparr>]"

definition getDefaultSliceProfiles :: "SliceProfile list" where
  "getDefaultSliceProfiles =
     [\<lparr>sliceName = ''eMBB General (SST:1, SD:010203)'', sSst = 1, sSd = ''010203'', sCategory = ''eMBB'',
       sDescription = ''Enhanced Mobile Broadband standard slice''\<rparr>,
      \<lparr>sliceName = ''URLLC Ultra-Low Latency (SST:2, SD:112233)'', sSst = 2, sSd = ''112233'', sCategory = ''URLLC'',
       sDescription = ''Ultra-reliable low-latency communications''\<rparr>,
      \<lparr>sliceName = ''MIoT Smart Metering (SST:3, SD:FFFFFF)'', sSst = 3, sSd = ''FFFFFF'', sCategory = ''MIoT'',
       sDescription = ''Massive Internet of Things slice''\<rparr>,
      \<lparr>sliceName = ''IMS VoNR Voice (SST:1, SD:111111)'', sSst = 1, sSd = ''111111'', sCategory = ''VoNR'',
       sDescription = ''Dedicated Voice over NR IMS slice''\<rparr>]"

definition getDefaultSecurityProfiles :: "SecurityProfile list" where
  "getDefaultSecurityProfiles =
     [\<lparr>secName = ''Standard 3GPP Test Keys'', kKey = ''465B5CE8B2E8863F638D4F72EC869C96'',
       kOpc = ''E8ED289DEBA952E4283B54E88E6183CA'', kAmf = ''8000'', kSqn = ''000000000020'',
       kDescription = ''Default 5G AKA authentication credentials''\<rparr>]"

text \<open>What reading \<^verbatim>\<open>fleet.json\<close> gives.\<close>

datatype fleet_file = FileAbsent | ReadFailed | Unparsable | Parsed RawFleet

definition or_default :: "'p list \<Rightarrow> 'p list option \<Rightarrow> 'p list" where
  "or_default def l = (case l of None \<Rightarrow> def | Some [] \<Rightarrow> def | Some ps \<Rightarrow> ps)"

definition LoadFleet :: "save \<Rightarrow> fleet_file \<Rightarrow> FleetConfig \<Rightarrow> FleetConfig \<times> go_err option" where
  "LoadFleet save file old =
     (case file of
        FileAbsent \<Rightarrow>
          let new = \<lparr>UEProfiles = [], GNBProfiles = [], AMFProfiles = getDefaultAMFProfiles,
                     SliceProfiles = getDefaultSliceProfiles, SecurityProfiles = getDefaultSecurityProfiles\<rparr>
          in (new, save new)
      | ReadFailed \<Rightarrow> (old, Some (Fail ''failed to read fleet config''))
      | Unparsable \<Rightarrow> (old, Some (Fail ''failed to parse fleet config''))
      | Parsed fc \<Rightarrow>
          (\<lparr>UEProfiles = (case rawUE fc of Some l \<Rightarrow> l | None \<Rightarrow> []),
            GNBProfiles = (case rawGNB fc of Some l \<Rightarrow> l | None \<Rightarrow> []),
            AMFProfiles = or_default getDefaultAMFProfiles (rawAMF fc),
            SliceProfiles = or_default getDefaultSliceProfiles (rawSlice fc),
            SecurityProfiles = or_default getDefaultSecurityProfiles (rawSecurity fc)\<rparr>, None))"

section \<open>From a profile to a configuration\<close>

definition BuildConfigFromGNBProfile :: "Config \<Rightarrow> GNBProfile \<Rightarrow> Config" where
  "BuildConfigFromGNBProfile Data p =
     (let g = (GNodeB Data)\<lparr>plmnGnbId := gGnbId p, plmnMcc := gMcc p, plmnMnc := gMnc p, plmnTac := gTac p,
            sliceSst := gSliceSst p, sliceSd := gSliceSd p, controlIp := gControlIp p, controlPort := gControlPort p,
            dataIp := gDataIp p, dataPort := gDataPort p, linkType := gLinkType p, linkPort := gLinkPort p\<rparr>;
          cfg = Data\<lparr>GNodeB := g\<rparr>;
          cfg = (if gAmfIp p \<noteq> [] then cfg\<lparr>amfIp := gAmfIp p\<rparr> else cfg)
      in if gAmfPort p \<noteq> 0 then cfg\<lparr>amfPort := gAmfPort p\<rparr> else cfg)"

definition BuildConfigFromUEProfile :: "Config \<Rightarrow> UEProfile \<Rightarrow> Config" where
  "BuildConfigFromUEProfile Data p =
     (let u = (Ue Data)\<lparr>ueMsin := pMsin p, ueKey := pKey p, ueOpc := pOpc p, ueAmf := pAmf p, ueSqn := pSqn p, ueDnn := pDnn p\<rparr>;
          u = (if pPduSessionType p \<noteq> [] then u\<lparr>uePduSessionType := pPduSessionType p\<rparr> else u);
          u = (if pRegistrationType p \<noteq> [] then u\<lparr>ueRegistrationType := pRegistrationType p\<rparr> else u);
          u = u\<lparr>hplmnMcc := pMcc p, hplmnMnc := pMnc p, snssaiSst := pSst p, snssaiSd := pSd p\<rparr>;
          u = (if pPduSessions p \<noteq> None then u\<lparr>uePduSessions := pPduSessions p\<rparr> else u)
      in Data\<lparr>Ue := u\<rparr>)"

definition ValidateUEProfile :: "(string \<Rightarrow> bool) \<Rightarrow> Config \<Rightarrow> UEProfile \<Rightarrow> go_err option" where
  "ValidateUEProfile ipOk Data p =
     (if ueName p = [] then Some (Fail ''profile name is required'')
      else Validate ipOk (BuildConfigFromUEProfile Data p))"

definition ValidateGNBProfile :: "GNBProfile \<Rightarrow> go_err option" where
  "ValidateGNBProfile p =
     first_error
       [(gnbName p \<noteq> [], ''profile name is required''), (gGnbId p \<noteq> [], ''gNB ID is required''),
        (gControlIp p \<noteq> [], ''control IP is required''), (port_ok (gControlPort p), ''control port must be 1-65535''),
        (port_ok (gLinkPort p), ''link port must be 1-65535''), (gAmfIp p \<noteq> [], ''AMF IP is required''),
        (port_ok (gAmfPort p), ''AMF port must be 1-65535'')]"

section \<open>The contract of a profile store\<close>

text \<open>
  A client of one kind of profile relies on three laws: what a lookup returns after an upsert and
  after a delete, and that both keep names unique. Everything about sequences of requests follows.
\<close>

datatype 'p request = Put 'p | Remove string

fun map_request :: "('p \<Rightarrow> string) \<Rightarrow> ('p \<Rightarrow> bool) \<Rightarrow> 'p request \<Rightarrow> (string \<rightharpoonup> 'p) \<Rightarrow> (string \<rightharpoonup> 'p)" where
  "map_request nm admissible (Put p) m = (if admissible p then m(nm p \<mapsto> p) else m)"
| "map_request nm admissible (Remove n) m = m(n := None)"

fun serve :: "('p \<Rightarrow> 'f \<Rightarrow> 'f \<times> go_err option) \<Rightarrow> (string \<Rightarrow> 'f \<Rightarrow> 'f \<times> go_err option) \<Rightarrow> 'p request \<Rightarrow> 'f \<Rightarrow> 'f" where
  "serve upsert remove (Put p) f = fst (upsert p f)"
| "serve upsert remove (Remove n) f = fst (remove n f)"

locale profile_store =
  fixes nm :: "'p \<Rightarrow> string"
    and admissible :: "'p \<Rightarrow> bool"
    and unique :: "'f \<Rightarrow> bool"
    and get :: "string \<Rightarrow> 'f \<Rightarrow> 'p option"
    and upsert :: "'p \<Rightarrow> 'f \<Rightarrow> 'f \<times> go_err option"
    and remove :: "string \<Rightarrow> 'f \<Rightarrow> 'f \<times> go_err option"
  assumes get_upsert: "admissible p \<Longrightarrow> get n (fst (upsert p f)) = (if n = nm p then Some p else get n f)"
    and upsert_rejects: "\<not> admissible p \<Longrightarrow> fst (upsert p f) = f \<and> snd (upsert p f) \<noteq> None"
    and get_remove: "unique f \<Longrightarrow> get n (fst (remove n' f)) = (if n = n' then None else get n f)"
    and unique_upsert: "unique f \<Longrightarrow> unique (fst (upsert p f))"
    and unique_remove: "unique f \<Longrightarrow> unique (fst (remove n f))"
begin

lemma serve_refines:
  assumes "unique f"
  shows "unique (serve upsert remove r f) \<and> (\<lambda>n. get n (serve upsert remove r f)) = map_request nm admissible r (\<lambda>n. get n f)"
proof (cases r)
  case (Put p)
  then show ?thesis
    using assms get_upsert [of p _ f] upsert_rejects [of p f] unique_upsert [of f p] by (auto simp: fun_eq_iff)
next
  case (Remove n)
  then show ?thesis using assms get_remove [of f _ n] unique_remove [of f n] by (auto simp: fun_eq_iff)
qed

lemma requests_refine:
  "unique f \<Longrightarrow> unique (fold (serve upsert remove) rs f) \<and>
     (\<lambda>n. get n (fold (serve upsert remove) rs f)) = fold (map_request nm admissible) rs (\<lambda>n. get n f)"
  by (induction rs arbitrary: f) (simp_all add: serve_refines)

end

lemma get_upsert_loop: "get_loop nm n (upsert_loop nm p xs) = (if n = nm p then Some p else get_loop nm n xs)"
  by (induction xs) auto

lemma set_upsert_names: "set (map nm (upsert_loop nm p xs)) = insert (nm p) (set (map nm xs))"
  by (induction xs) auto

lemma distinct_upsert: "distinct (map nm xs) \<Longrightarrow> distinct (map nm (upsert_loop nm p xs))"
proof (induction xs)
  case (Cons x xs)
  then show ?case using set_upsert_names [of nm p xs] by auto
qed simp

lemma get_loop_None: "n \<notin> nm ` set xs \<Longrightarrow> get_loop nm n xs = None"
  by (induction xs) auto

lemma delete_loop_set: "delete_loop nm n xs = Some ys \<Longrightarrow> set ys \<subseteq> set xs"
  by (induction xs arbitrary: ys) (auto split: if_splits)

lemma delete_loop_spec:
  assumes "distinct (map nm xs)"
  shows "case delete_loop nm n xs of
      None \<Rightarrow> n \<notin> nm ` set xs
    | Some ys \<Rightarrow> distinct (map nm ys) \<and> (\<forall>m. get_loop nm m ys = (if m = n then None else get_loop nm m xs))"
  using assms
proof (induction xs)
  case (Cons x xs)
  then show ?case
    by (auto simp: get_loop_None split: option.splits dest: delete_loop_set)
qed simp

lemma delete_law:
  assumes "distinct (map nm xs)" "delete_loop nm n xs = Some ys"
  shows "distinct (map nm ys)" "get_loop nm m ys = (if m = n then None else get_loop nm m xs)"
  using delete_loop_spec [OF assms(1), of n] assms(2) by auto

lemma delete_absent: "distinct (map nm xs) \<Longrightarrow> delete_loop nm n xs = None \<Longrightarrow> get_loop nm n xs = None"
  using delete_loop_spec [of nm xs n] by (auto simp: get_loop_None)

lemmas store_defs = GetUEProfile_def UpsertUEProfile_def DeleteUEProfile_def
  GetGNBProfile_def UpsertGNBProfile_def DeleteGNBProfile_def
  UpsertAMFProfile_def DeleteAMFProfile_def UpsertSliceProfile_def DeleteSliceProfile_def
  UpsertSecurityProfile_def DeleteSecurityProfile_def

lemmas store_laws = get_upsert_loop distinct_upsert delete_law delete_absent Let_def

interpretation ue_store: profile_store ueName "\<lambda>p. ueName p \<noteq> []" "\<lambda>f. distinct (map ueName (UEProfiles f))"
  GetUEProfile "UpsertUEProfile sv" "DeleteUEProfile sv" for sv
  by unfold_locales (auto simp: store_defs store_laws split: option.splits)

interpretation gnb_store: profile_store gnbName "\<lambda>p. gnbName p \<noteq> []" "\<lambda>f. distinct (map gnbName (GNBProfiles f))"
  GetGNBProfile "UpsertGNBProfile sv" "DeleteGNBProfile sv" for sv
  by unfold_locales (auto simp: store_defs store_laws split: option.splits)

interpretation amf_store: profile_store amfName "\<lambda>p. amfName p \<noteq> [] \<and> aIp p \<noteq> [] \<and> 0 < aPort p \<and> aPort p \<le> 65535"
  "\<lambda>f. distinct (map amfName (AMFProfiles f))" "\<lambda>n f. get_loop amfName n (AMFProfiles f)"
  "UpsertAMFProfile sv" "DeleteAMFProfile sv" for sv
  by unfold_locales (auto simp: store_defs store_laws split: option.splits)

interpretation slice_store: profile_store sliceName "\<lambda>p. sliceName p \<noteq> []" "\<lambda>f. distinct (map sliceName (SliceProfiles f))"
  "\<lambda>n f. get_loop sliceName n (SliceProfiles f)" "UpsertSliceProfile sv" "DeleteSliceProfile sv" for sv
  by unfold_locales (auto simp: store_defs store_laws split: option.splits)

interpretation security_store: profile_store secName "\<lambda>p. secName p \<noteq> []" "\<lambda>f. distinct (map secName (SecurityProfiles f))"
  "\<lambda>n f. get_loop secName n (SecurityProfiles f)" "UpsertSecurityProfile sv" "DeleteSecurityProfile sv" for sv
  by unfold_locales (auto simp: store_defs store_laws split: option.splits)

section \<open>Properties\<close>

text \<open>
  C29: the UE profiles are a map from names. While names are unique, any sequence of upserts and
  deletes through the API, whether or not writing to disk fails, has the effect on
  \<^verbatim>\<open>GetUEProfile\<close> that it has on a map, where an upsert with an empty name does nothing, and names
  stay unique.
\<close>

theorem ue_profiles_refine_map:
  assumes "distinct (map ueName (UEProfiles f))"
  shows "(\<lambda>n. GetUEProfile n (fold (serve (UpsertUEProfile sv) (DeleteUEProfile sv)) rs f)) =
      fold (map_request ueName (\<lambda>p. ueName p \<noteq> [])) rs (\<lambda>n. GetUEProfile n f) \<and>
    distinct (map ueName (UEProfiles (fold (serve (UpsertUEProfile sv) (DeleteUEProfile sv)) rs f)))"
  using ue_store.requests_refine [OF assms, of sv rs] by simp

definition no_fleet :: FleetConfig where
  "no_fleet = \<lparr>UEProfiles = [], GNBProfiles = [], AMFProfiles = [], SliceProfiles = [], SecurityProfiles = []\<rparr>"

definition demo_profile :: "string \<Rightarrow> string \<Rightarrow> UEProfile" where
  "demo_profile n msin = \<lparr>ueName = n, pMsin = msin, pKey = [], pOpc = [], pAmf = [], pSqn = [], pDnn = ''internet'',
     pPduSessionType = [], pRegistrationType = [], pMcc = [], pMnc = [], pSst = 1, pSd = [], pPduSessions = None\<rparr>"

lemma ue_profiles_refine_map_witness:
  "(\<lambda>n. GetUEProfile n (fold (serve (UpsertUEProfile (\<lambda>_. Some Panic)) (DeleteUEProfile (\<lambda>_. None)))
       [Put (demo_profile ''a'' ''1''), Put (demo_profile ''b'' ''2''), Remove ''a''] no_fleet)) =
     [''b'' \<mapsto> demo_profile ''b'' ''2'']"
proof -
  have d: "distinct (map ueName (UEProfiles no_fleet))" by (simp add: no_fleet_def)
  have e: "fold (serve (UpsertUEProfile (\<lambda>_. Some Panic)) (DeleteUEProfile (\<lambda>_. None))) rs f =
      fold (serve (UpsertUEProfile (\<lambda>_. None)) (DeleteUEProfile (\<lambda>_. None))) rs f" for rs f
  proof (induction rs arbitrary: f)
    case (Cons r rs)
    then show ?case by (cases r) (simp_all add: UpsertUEProfile_def Let_def)
  qed simp
  show ?thesis
    using ue_profiles_refine_map [OF d, of "\<lambda>_. None" "[Put (demo_profile ''a'' ''1''), Put (demo_profile ''b'' ''2''), Remove ''a'']"]
    unfolding e by (auto simp: demo_profile_def GetUEProfile_def no_fleet_def fun_eq_iff)
qed

text \<open>
  The AMF store keeps only usable endpoints. Every AMF profile that is not among those the
  store started with has a name, an address and a port from 1 to 65535.
\<close>

theorem amf_profiles_usable:
  assumes "p \<in> set (AMFProfiles (fold (serve (UpsertAMFProfile sv) (DeleteAMFProfile sv)) rs f))"
  shows "p \<in> set (AMFProfiles f) \<or> amfName p \<noteq> [] \<and> aIp p \<noteq> [] \<and> 0 < aPort p \<and> aPort p \<le> 65535"
proof -
  have up: "set (upsert_loop nm q xs) \<subseteq> insert q (set xs)" for nm :: "AMFProfile \<Rightarrow> string" and q xs
    by (induction xs) auto
  have one: "p \<in> set (AMFProfiles (serve (UpsertAMFProfile sv) (DeleteAMFProfile sv) r g)) \<Longrightarrow>
      p \<in> set (AMFProfiles g) \<or> amfName p \<noteq> [] \<and> aIp p \<noteq> [] \<and> 0 < aPort p \<and> aPort p \<le> 65535" for r g
    using up delete_loop_set [of amfName _ "AMFProfiles g"]
    by (cases r) (fastforce simp: UpsertAMFProfile_def DeleteAMFProfile_def Let_def split: if_splits option.splits)+
  show ?thesis using assms by (induction rs arbitrary: f) (auto dest: one)
qed

lemma amf_profiles_usable_witness:
  "hd getDefaultAMFProfiles \<in> set (AMFProfiles no_fleet) \<or>
     amfName (hd getDefaultAMFProfiles) \<noteq> [] \<and> aIp (hd getDefaultAMFProfiles) \<noteq> [] \<and>
     0 < aPort (hd getDefaultAMFProfiles) \<and> aPort (hd getDefaultAMFProfiles) \<le> 65535"
  by (rule amf_profiles_usable [of _ "\<lambda>_. None" "[Put (hd getDefaultAMFProfiles)]"])
    (simp add: getDefaultAMFProfiles_def no_fleet_def UpsertAMFProfile_def Let_def)

text \<open>
  \<^verbatim>\<open>ImportFleet\<close> takes lists as they are. After importing two profiles of one name, deleting
  that name reports success and leaves the second profile in place.
\<close>

theorem imported_duplicate_survives_delete:
  assumes "rawUE raw = Some [p, q]" and "ueName p = ueName q"
  shows "GetUEProfile (ueName p) (fst (DeleteUEProfile (\<lambda>_. None) (ueName p) (fst (ImportFleet sv raw f)))) = Some q \<and>
    snd (DeleteUEProfile (\<lambda>_. None) (ueName p) (fst (ImportFleet sv raw f))) = None"
  using assms by (simp add: ImportFleet_def DeleteUEProfile_def GetUEProfile_def Let_def)

lemma imported_duplicate_survives_delete_witness:
  "GetUEProfile (ueName (demo_profile ''a'' ''1'')) (fst (DeleteUEProfile (\<lambda>_. None) (ueName (demo_profile ''a'' ''1''))
     (fst (ImportFleet (\<lambda>_. None) \<lparr>rawUE = Some [demo_profile ''a'' ''1'', demo_profile ''a'' ''2''], rawGNB = None, rawAMF = None,
       rawSlice = None, rawSecurity = None\<rparr> no_fleet)))) = Some (demo_profile ''a'' ''2'') \<and>
   snd (DeleteUEProfile (\<lambda>_. None) (ueName (demo_profile ''a'' ''1''))
     (fst (ImportFleet (\<lambda>_. None) \<lparr>rawUE = Some [demo_profile ''a'' ''1'', demo_profile ''a'' ''2''], rawGNB = None, rawAMF = None,
       rawSlice = None, rawSecurity = None\<rparr> no_fleet))) = None"
  by (rule imported_duplicate_survives_delete) (simp_all add: demo_profile_def)

end
