(* ===== verification/Ue_Context.thy ===== *)
theory Ue_Context
  imports Ue_Auth Nas_Channel Identity Fleet
begin

text \<open>
  The state of a UE: \<^verbatim>\<open>ue/context/context.go\<close>. The sessions are only reached through the map of
  the context, which holds them by value here. A Go map is traversed in no specified order: the
  operations that traverse one take the order of its keys as an argument. Connections and network
  interfaces are numbers; what is deleted in the kernel is appended to a log. The time stamp of a
  request is left out.
\<close>

unbundle bit_operations_syntax

section \<open>State\<close>

definition MM5G_NULL :: int where "MM5G_NULL = 0"
definition MM5G_DEREGISTERED :: int where "MM5G_DEREGISTERED = 1"
definition MM5G_REGISTERED_INITIATED :: int where "MM5G_REGISTERED_INITIATED = 2"
definition MM5G_REGISTERED :: int where "MM5G_REGISTERED = 3"
definition MM5G_SERVICE_REQ_INIT :: int where "MM5G_SERVICE_REQ_INIT = 4"
definition MM5G_DEREGISTERED_INIT :: int where "MM5G_DEREGISTERED_INIT = 5"
definition SM5G_PDU_SESSION_INACTIVE :: int where "SM5G_PDU_SESSION_INACTIVE = 6"
definition SM5G_PDU_SESSION_ACTIVE_PENDING :: int where "SM5G_PDU_SESSION_ACTIVE_PENDING = 7"
definition SM5G_PDU_SESSION_ACTIVE :: int where "SM5G_PDU_SESSION_ACTIVE = 8"

lemmas mm_states = MM5G_NULL_def MM5G_DEREGISTERED_def MM5G_REGISTERED_INITIATED_def MM5G_REGISTERED_def
  MM5G_SERVICE_REQ_INIT_def MM5G_DEREGISTERED_INIT_def

lemmas sm_states = SM5G_PDU_SESSION_INACTIVE_def SM5G_PDU_SESSION_ACTIVE_PENDING_def SM5G_PDU_SESSION_ACTIVE_def

record UeSession =
  Id :: u8
  ueIP :: string
  ueGnbIP :: "u8 list"
  Dnn :: string
  PduSessionType :: string
  Sst :: int
  Sd :: string
  gatewayIP :: "u8 list"
  tun :: "nat option"
  routeTun :: "nat list"
  ruleTun :: "nat list"
  State :: int
  Error :: string

datatype net_delete = LinkDel nat | RouteDel nat | RuleDel nat

text \<open>
  The fields of \<^verbatim>\<open>SECURITY\<close> that authentication uses are in \<open>aka\<close>, those that protect messages in
  \<open>nas\<close>: the two theories on them have their own view of the struct. \<open>ActiveUEs\<close> is the registry of the
  package and \<open>self\<close> the reference under which this UE is stored in it. \<open>toGnb\<close>, \<open>netDeleted\<close> and \<open>connsClosed\<close>
  record what was written to connections, deleted from the kernel, and which connections were closed.
\<close>

record UEContext =
  ueId :: u8
  Msin :: string
  mcc :: string
  mnc :: string
  aka :: ue_keys
  nas :: sec_ctx
  Snn :: string
  Suci :: "nat \<times> u8 list"
  Guti :: "u8 list"
  NgKsi :: u8
  StateMM :: int
  StateSM :: int
  RegistrationType :: u8
  AmfUeNgapId :: u64
  UnixConn :: "nat option"
  PduSession :: UeSession
  PduSessions :: "(u8 \<rightharpoonup> UeSession) option"
  amfRegionId :: u8
  amfSetId :: u16
  amfPointer :: u8
  gnbLinkType :: string
  gnbLinkPort :: int
  gnbControlIp :: string
  gnbSocketPath :: string
  mmErr :: string
  smErr :: string
  OnRedirection :: bool
  ActiveUEs :: "u8 \<rightharpoonup> nat"
  self :: nat
  toGnb :: "(nat \<times> u8 list) list"
  netDeleted :: "net_delete list"
  connsClosed :: "nat list"

definition session_map :: "UEContext \<Rightarrow> u8 \<rightharpoonup> UeSession" where
  "session_map ue = (case PduSessions ue of None \<Rightarrow> Map.empty | Some m \<Rightarrow> m)"

definition put_session :: "u8 \<Rightarrow> UeSession \<Rightarrow> UEContext \<Rightarrow> UEContext" where
  "put_session i s ue = ue\<lparr>PduSessions := Some ((session_map ue)(i \<mapsto> s))\<rparr>"

definition newSession :: "u8 \<Rightarrow> UeSession" where
  "newSession i = \<lparr>Id = i, ueIP = [], ueGnbIP = [], Dnn = [], PduSessionType = [], Sst = 0, Sd = [],
     gatewayIP = [127, 0, 0, 2], tun = None, routeTun = [], ruleTun = [], State = SM5G_PDU_SESSION_INACTIVE, Error = []\<rparr>"

section \<open>Registry\<close>

definition RegisterUE :: "UEContext \<Rightarrow> UEContext" where
  "RegisterUE ue = ue\<lparr>ActiveUEs := (ActiveUEs ue)(ueId ue \<mapsto> self ue)\<rparr>"

definition UnregisterUE :: "u8 \<Rightarrow> UEContext \<Rightarrow> UEContext" where
  "UnregisterUE i ue = ue\<lparr>ActiveUEs := (ActiveUEs ue)(i := None)\<rparr>"

definition GetActiveUE :: "u8 \<Rightarrow> UEContext \<Rightarrow> nat option" where
  "GetActiveUE i ue = ActiveUEs ue i"

section \<open>Creation\<close>

fun add_sessions :: "PDUSessionConfig list \<Rightarrow> (u8 \<rightharpoonup> UeSession) \<Rightarrow> (u8 \<rightharpoonup> UeSession)" where
  "add_sessions [] m = m"
| "add_sessions (c # cs) m =
     (if sessId c = 0 \<or> sessId c = 1 then add_sessions cs m
      else add_sessions cs (m(sessId c \<mapsto> (newSession (sessId c))\<lparr>Dnn := sessDnn c,
             PduSessionType := (if sessType c = [] then ''IPv4'' else sessType c),
             Sst := signed_take_bit 31 (sessSst c), Sd := sessSd c\<rparr>)))"

text \<open>The parameters of a subscription are texts of hexadecimal digits.\<close>

type_synonym hex_text = string

definition NewRanUeContext :: "string \<Rightarrow> u8 \<Rightarrow> u8 \<Rightarrow> hex_text \<Rightarrow> hex_text \<Rightarrow> hex_text \<Rightarrow> hex_text \<Rightarrow> hex_text \<Rightarrow> string \<Rightarrow> string \<Rightarrow>
    string \<Rightarrow> string \<Rightarrow> int \<Rightarrow> string \<Rightarrow> u8 \<Rightarrow> PDUSessionConfig list \<Rightarrow> UEContext \<Rightarrow> UEContext res" where
  "NewRanUeContext msin ciph integ k opc opv amf sqn mccv mncv dnn stype sst sd idv extra ue =
     (let ue = ue\<lparr>Msin := msin, aka := (aka ue)\<lparr>CipheringAlgId := ciph, IntegrityAlgId := integ\<rparr>,
                 nas := (nas ue)\<lparr>CipheringAlg := ciph, IntegrityAlg := integ\<rparr>\<rparr>;
          ue = ue\<lparr>aka := SetAuthSubscription k opc opv amf sqn (aka ue)\<rparr>
      in
      rbind (suci_identity mccv mncv msin) (\<lambda>suci.
        let ue = ue\<lparr>mcc := mccv, mnc := mncv, aka := (aka ue)\<lparr>Supi := ''imsi-'' @ mccv @ mncv @ msin\<rparr>, ueId := idv,
                   RegistrationType := 1\<rparr>;
            st = (if stype = [] then ''IPv4'' else stype);
            ue = ue\<lparr>PduSession := (PduSession ue)\<lparr>Id := 1, Sd := sd, Sst := sst, Dnn := dnn, PduSessionType := st,
                   gatewayIP := [127, 0, 0, 2], State := SM5G_PDU_SESSION_INACTIVE\<rparr>\<rparr>;
            dflt = (newSession 1)\<lparr>Dnn := dnn, PduSessionType := st, Sst := sst, Sd := sd\<rparr>;
            ue = ue\<lparr>PduSessions := Some (add_sessions extra [1 \<mapsto> dflt])\<rparr>;
            ue = (case suci of None \<Rightarrow> ue | Some s \<Rightarrow> ue\<lparr>Suci := s\<rparr>);
            ue = ue\<lparr>Snn := deriveSNN mccv mncv, StateMM := MM5G_NULL, StateSM := SM5G_PDU_SESSION_INACTIVE, NgKsi := 7\<rparr>
        in Inr (RegisterUE ue)))"

section \<open>Sessions\<close>

fun first_session :: "u8 list \<Rightarrow> (u8 \<rightharpoonup> UeSession) \<Rightarrow> UeSession option" where
  "first_session [] m = None"
| "first_session (k # ks) m = (case m k of Some s \<Rightarrow> Some s | None \<Rightarrow> first_session ks m)"

definition GetPduSession :: "u8 list \<Rightarrow> u8 \<Rightarrow> UEContext \<Rightarrow> UeSession \<times> UEContext" where
  "GetPduSession order i ue =
     (let m = session_map ue in
      case m i of
        Some s \<Rightarrow> (s, ue\<lparr>PduSessions := Some m\<rparr>)
      | None \<Rightarrow>
          let s = (case first_session order m of None \<Rightarrow> newSession i
                   | Some d \<Rightarrow> (newSession i)\<lparr>Dnn := Dnn d, PduSessionType := PduSessionType d, Sst := Sst d, Sd := Sd d\<rparr>)
          in (s, put_session i s ue))"

text \<open>An assignment through the pointer that \<^verbatim>\<open>GetPduSession\<close> returns.\<close>

definition update_session :: "u8 list \<Rightarrow> u8 \<Rightarrow> (UeSession \<Rightarrow> UeSession) \<Rightarrow> UEContext \<Rightarrow> UEContext" where
  "update_session order i f ue = (let (s, ue) = GetPduSession order i ue in put_session i (f s) ue)"

definition SetPduSessionPending :: "u8 list \<Rightarrow> u8 \<Rightarrow> UEContext \<Rightarrow> UEContext" where
  "SetPduSessionPending order i ue =
     update_session order i (\<lambda>s. s\<lparr>State := SM5G_PDU_SESSION_ACTIVE_PENDING, Error := []\<rparr>)
       (ue\<lparr>StateSM := SM5G_PDU_SESSION_ACTIVE_PENDING\<rparr>)"

definition ipv4_text :: "u8 list \<Rightarrow> string" where
  "ipv4_text a = dec_nat (unat (a ! 0)) @ ''.'' @ dec_nat (unat (a ! 1)) @ ''.'' @ dec_nat (unat (a ! 2)) @ ''.'' @
     dec_nat (unat (a ! 3))"

definition ipv6_text :: "u8 list \<Rightarrow> string" where
  "ipv6_text a = ''2001:db8:1::'' @ hex_byte (a ! 0) @ hex_byte (a ! 1) @ '':'' @ hex_byte (a ! 2) @ hex_byte (a ! 3) @ '':'' @
     hex_byte (a ! 4) @ hex_byte (a ! 5) @ '':'' @ hex_byte (a ! 6) @ hex_byte (a ! 7)"

text \<open>The argument is an array of twelve bytes.\<close>

definition SetIp :: "u8 list \<Rightarrow> u8 \<Rightarrow> u8 list \<Rightarrow> UEContext \<Rightarrow> UEContext" where
  "SetIp order i ip ue =
     update_session order i (\<lambda>s. s\<lparr>ueIP :=
       (if PduSessionType s = ''IPv6'' then ipv6_text ip
        else if PduSessionType s = ''IPv4v6'' then ipv4_text ip @ '','' @ ipv6_text (drop 4 ip)
        else ipv4_text ip)\<rparr>) ue"

fun first_ip :: "u8 list \<Rightarrow> (u8 \<rightharpoonup> UeSession) \<Rightarrow> string" where
  "first_ip [] m = []"
| "first_ip (k # ks) m = (case m k of Some s \<Rightarrow> if ueIP s \<noteq> [] then ueIP s else first_ip ks m | None \<Rightarrow> first_ip ks m)"

definition GetFirstActiveIP :: "u8 list \<Rightarrow> UEContext \<Rightarrow> string" where
  "GetFirstActiveIP order ue = (case PduSessions ue of None \<Rightarrow> [] | Some m \<Rightarrow> first_ip order m)"

definition SetupPduSession :: "u8 list \<Rightarrow> u8 \<Rightarrow> string \<Rightarrow> string \<Rightarrow> int \<Rightarrow> string \<Rightarrow> UEContext \<Rightarrow> UEContext" where
  "SetupPduSession order i dnn stype sst sd ue =
     update_session order i (\<lambda>s.
       let s = (if dnn \<noteq> [] then s\<lparr>Dnn := dnn\<rparr> else s);
           s = (if stype \<noteq> [] then s\<lparr>PduSessionType := stype\<rparr> else s);
           s = (if sst \<noteq> 0 then s\<lparr>Sst := sst\<rparr> else s)
       in if sd \<noteq> [] then s\<lparr>Sd := sd\<rparr> else s) ue"

section \<open>Release\<close>

text \<open>One session of the loops of \<^verbatim>\<open>Terminate\<close> and \<^verbatim>\<open>ReleaseConnection\<close>: what is deleted, in order.\<close>

definition session_deletes :: "UeSession \<Rightarrow> net_delete list" where
  "session_deletes s =
     (case tun s of None \<Rightarrow> [] | Some l \<Rightarrow> [LinkDel l]) @ map RouteDel (routeTun s) @ map RuleDel (ruleTun s)"

definition clean_session :: "UeSession \<Rightarrow> UeSession" where
  "clean_session s = s\<lparr>tun := None, routeTun := [], ruleTun := []\<rparr>"

definition sessions_in :: "u8 list \<Rightarrow> (u8 \<rightharpoonup> UeSession) \<Rightarrow> UeSession list" where
  "sessions_in order m = map the (filter (\<lambda>x. x \<noteq> None) (map m order))"

definition Terminate :: "u8 list \<Rightarrow> UEContext \<Rightarrow> UEContext" where
  "Terminate order ue =
     (let ue = UnregisterUE (ueId ue) ue;
          dels = concat (map session_deletes (sessions_in order (session_map ue)));
          ue = ue\<lparr>netDeleted := netDeleted ue @ dels,
                  PduSessions := map_option (\<lambda>m. map_option clean_session \<circ> m) (PduSessions ue)\<rparr>
      in case UnixConn ue of None \<Rightarrow> ue | Some c \<Rightarrow> ue\<lparr>connsClosed := connsClosed ue @ [c], UnixConn := None\<rparr>)"

definition ReleaseConnection :: "u8 list \<Rightarrow> UEContext \<Rightarrow> UEContext" where
  "ReleaseConnection order ue =
     (let dels = concat (map session_deletes (sessions_in order (session_map ue)))
      in ue\<lparr>netDeleted := netDeleted ue @ dels,
            PduSessions := map_option (\<lambda>m. map_option (\<lambda>s. (clean_session s)\<lparr>State := SM5G_PDU_SESSION_INACTIVE\<rparr>) \<circ> m)
              (PduSessions ue)\<rparr>)"

section \<open>Accessors with defaults, descriptions\<close>

definition GetGnbLinkType :: "UEContext \<Rightarrow> string" where
  "GetGnbLinkType ue = (if gnbLinkType ue = [] then ''unix'' else gnbLinkType ue)"

definition GetGnbLinkPort :: "UEContext \<Rightarrow> int" where
  "GetGnbLinkPort ue = (if gnbLinkPort ue = 0 then 9488 else gnbLinkPort ue)"

definition GetGnbControlIp :: "UEContext \<Rightarrow> string" where
  "GetGnbControlIp ue = (if gnbControlIp ue = [] then ''127.0.0.1'' else gnbControlIp ue)"

definition GetGnbSocketPath :: "UEContext \<Rightarrow> string" where
  "GetGnbSocketPath ue = (if gnbSocketPath ue = [] then ''/tmp/gnb.sock'' else gnbSocketPath ue)"

definition GetRegistrationType :: "UEContext \<Rightarrow> u8" where
  "GetRegistrationType ue = (if RegistrationType ue = 0 then 1 else RegistrationType ue)"

definition GetStateMMDesc :: "int \<Rightarrow> string" where
  "GetStateMMDesc s =
     (if s = MM5G_NULL then ''5GMM-NULL'' else if s = MM5G_DEREGISTERED then ''5GMM-DEREGISTERED''
      else if s = MM5G_REGISTERED_INITIATED then ''5GMM-REGISTERED-INITIATED''
      else if s = MM5G_REGISTERED then ''5GMM-REGISTERED''
      else if s = MM5G_SERVICE_REQ_INIT then ''5GMM-SERVICE-REQ-INIT''
      else if s = MM5G_DEREGISTERED_INIT then ''5GMM-DEREGISTERED-INIT'' else ''UNKNOWN'')"

definition GetStateSMDesc :: "int \<Rightarrow> string" where
  "GetStateSMDesc s =
     (if s = SM5G_PDU_SESSION_INACTIVE then ''5GSM-INACTIVE''
      else if s = SM5G_PDU_SESSION_ACTIVE_PENDING then ''5GSM-ACTIVE-PENDING''
      else if s = SM5G_PDU_SESSION_ACTIVE then ''5GSM-ACTIVE'' else ''UNKNOWN'')"

text \<open>
  \<^verbatim>\<open>SetUESecurityCapability\<close>: eight bytes of which the first two carry one bit per algorithm, the
  most significant bit for algorithm 0.
\<close>

definition SetUESecurityCapability :: "UEContext \<Rightarrow> u8 list" where
  "SetUESecurityCapability ue =
     (let alg_bit = (\<lambda>a :: u8. if a \<le> 3 then push_bit (7 - unat a) 1 else 0 :: u8)
      in [alg_bit (CipheringAlg (nas ue)), alg_bit (IntegrityAlg (nas ue)), 0, 0, 0, 0, 0, 0])"

end
