(* ===== verification/Ue_Nas.thy ===== *)
theory Ue_Nas
  imports Ue_Context
begin

text \<open>
  The NAS handlers of the UE (\<^verbatim>\<open>ue/nas/handler/handler.go\<close>), what they send
  (\<^verbatim>\<open>ue/nas/message/nas_control\<close>) and the dispatcher of messages from the gNB
  (\<^verbatim>\<open>ue/state/dispatch.go\<close>). A handler receives the fields it reads of the decoded message; an
  information element that may be absent is an option, and reading an absent one is a nil pointer
  dereference. The plain message codec of \<^verbatim>\<open>lib/nas\<close>, the block cipher, CMAC and HMAC are
  collected in an environment.
\<close>

unbundle bit_operations_syntax

section \<open>Environment\<close>

text \<open>The messages the UE builds, by what it puts into them.\<close>

datatype ul_msg =
    AuthenticationFailureMsg string "u8 list"
  | AuthenticationResponseMsg "u8 list"
  | SecurityModeCompleteMsg "u8 list"
  | RegistrationRequestMsg u8 u8 bool "nat \<times> u8 list" "u8 list"
  | RegistrationCompleteMsg
  | EstablishmentRequestMsg u8 u8 string int string string
  | ReleaseCompleteMsg u8
  | ModificationCompleteMsg u8
  | DeregistrationAcceptMsg
  | IdentityResponseMsg "nat \<times> u8 list"
  | ConfigurationUpdateCompleteMsg
  | ServiceRequestMsg u8 u8 u16 u8 "u8 list"

text \<open>
  A payload container after \<^verbatim>\<open>PlainNasDecode\<close>: an error, a mobility management message, or a session
  management message with what the handlers read of it.
\<close>

datatype gsm_body =
    EstablishmentAccept u8 "u8 list option"
  | EstablishmentReject "(u8 \<times> u8) option"
  | Status5GSM "(u8 \<times> u8) option"
  | ReleaseCommand u8
  | ModificationCommand u8
  | OtherGsm u8

datatype plain_dec = BadPlain | GmmPlain | GsmPlain gsm_body

text \<open>
  \<open>enc\<close> is \<^verbatim>\<open>GmmMessageEncode\<close> of a built message; \<open>recode\<close> is \<^verbatim>\<open>PlainNasDecode\<close> of such bytes followed by
  \<^verbatim>\<open>PlainNasEncode\<close>, each of which may fail; \<open>gmmDecode\<close> gives the fields of a received message and
  \<open>gsmDecode\<close> a payload container.
\<close>

record gmm_fields =
  fRand :: "u8 list"
  fAutn :: "u8 list"
  fNgKsi :: u8
  fRinmr :: "u8 option"
  fGuti :: "(u8 \<times> u8 \<times> u16 \<times> u8 list) option"
  fAllowed :: "u8 list option"
  fCause :: u8
  fContainer :: "u8 list"

record ue_env =
  blockCipher :: "u8 list \<Rightarrow> u8 list \<Rightarrow> u8 list"
  cmacOf :: "u8 list \<Rightarrow> u8 list \<Rightarrow> u8 list"
  hmacOf :: "u8 list \<Rightarrow> u8 list \<Rightarrow> u8 list"
  enc :: "ul_msg \<Rightarrow> u8 list"
  recode :: "u8 list \<Rightarrow> u8 list res res"
  gsmDecode :: "u8 list \<Rightarrow> plain_dec"
  gmmDecode :: "u8 list \<Rightarrow> gmm_fields"

section \<open>Sending\<close>

text \<open>What is handed to the fault injection of \<^verbatim>\<open>internal/chaos\<close> and, unless that interferes, to the socket.\<close>

definition SendToGnb :: "u8 list \<Rightarrow> UEContext \<Rightarrow> UEContext" where
  "SendToGnb message ue =
     (case UnixConn ue of None \<Rightarrow> ue | Some c \<Rightarrow> ue\<lparr>toGnb := toGnb ue @ [(c, message)]\<rparr>)"

definition EncodeNasPduWithSecurity :: "ue_env \<Rightarrow> u8 list \<Rightarrow> u8 \<Rightarrow> bool \<Rightarrow> bool \<Rightarrow> UEContext \<Rightarrow> UEContext \<times> u8 list res" where
  "EncodeNasPduWithSecurity env pdu sht available new ue =
     (case recode env pdu of
        Inl e \<Rightarrow> (ue, Inl e)
      | Inr p \<Rightarrow>
          (case NASEncode (blockCipher env) (cmacOf env) (Some (nas ue))
                  (Some \<lparr>ProtocolDiscriminator = 0x7e, SecurityHeaderType = sht, plain = p\<rparr>) available new of
             (None, r) \<Rightarrow> (ue, r)
           | (Some sec, r) \<Rightarrow> (ue\<lparr>nas := sec\<rparr>, r)))"

text \<open>The builders that protect their message: header type 2, or 4 with fresh counters for the security mode.\<close>

definition secured :: "ue_env \<Rightarrow> ul_msg \<Rightarrow> UEContext \<Rightarrow> UEContext \<times> u8 list res" where
  "secured env msg = EncodeNasPduWithSecurity env (enc env msg) 2 True False"

definition UlNasTransport :: "ue_env \<Rightarrow> u8 list \<Rightarrow> u8 \<Rightarrow> u8 \<Rightarrow> UEContext \<Rightarrow> UEContext \<times> u8 list res" where
  "UlNasTransport env order psi requestType ue =
     (let (s, ue) = GetPduSession order psi ue
      in secured env (EstablishmentRequestMsg psi requestType (Dnn s) (Sst s) (Sd s) (PduSessionType s)) ue)"

definition GetRegistrationRequest :: "bool \<Rightarrow> UEContext \<Rightarrow> ul_msg" where
  "GetRegistrationRequest capability ue =
     (let t = GetRegistrationType ue
      in RegistrationRequestMsg t (if t = 1 then 7 else NgKsi ue) capability (Suci ue) (SetUESecurityCapability ue))"

text \<open>The security mode complete carries a registration request, whatever the request for one says.\<close>

definition SecurityModeComplete :: "ue_env \<Rightarrow> u8 \<Rightarrow> UEContext \<Rightarrow> UEContext \<times> u8 list res" where
  "SecurityModeComplete env rinmr ue =
     EncodeNasPduWithSecurity env
       (enc env (SecurityModeCompleteMsg (enc env (GetRegistrationRequest True ue)))) 4 True True ue"

definition ServiceRequest :: "ue_env \<Rightarrow> u8 \<Rightarrow> UEContext \<Rightarrow> UEContext \<times> u8 list res" where
  "ServiceRequest env serviceType ue =
     secured env (ServiceRequestMsg serviceType (NgKsi ue) (amfSetId ue) (amfPointer ue) (Guti ue)) ue"

text \<open>Send what a builder returned, or do nothing on its error.\<close>

definition send_or_stop :: "UEContext \<times> u8 list res \<Rightarrow> UEContext" where
  "send_or_stop r = (case r of (ue, Inl _) \<Rightarrow> ue | (ue, Inr m) \<Rightarrow> SendToGnb m ue)"

definition InitRegistration :: "ue_env \<Rightarrow> UEContext \<Rightarrow> UEContext" where
  "InitRegistration env ue = (SendToGnb (enc env (GetRegistrationRequest False ue)) ue)\<lparr>StateMM := MM5G_DEREGISTERED\<rparr>"

section \<open>Causes\<close>

definition Get5GSMCauseDesc :: "u8 \<Rightarrow> string" where
  "Get5GSMCauseDesc cause =
     (case map_of [
       (8, ''Operator determined barring''),
       (26, ''Insufficient resources''),
       (27, ''Missing or unknown DNN''),
       (28, ''Unknown PDU session type''),
       (29, ''User authentication failed''),
       (31, ''Request rejected by Serving GW or PDN GW / SMF''),
       (32, ''Service option not supported''),
       (33, ''Requested service option not subscribed''),
       (35, ''PTI already in use''),
       (38, ''Network failure''),
       (43, ''Invalid PDU session identity''),
       (44, ''Semantic error in the TFT operation''),
       (45, ''Syntactical error in the TFT operation''),
       (50, ''PDU session type IPv4 only allowed''),
       (51, ''PDU session type IPv6 only allowed''),
       (54, ''PDU session does not exist''),
       (65, ''Maximum number of PDU sessions reached''),
       (67, ''Insufficient resources for specific slice and DNN''),
       (68, ''Not supported SST/SD''),
       (69, ''Maximum number of PDU sessions reached for slice''),
       (70, ''Insufficient resources for specific slice''),
       (95, ''Semantically incorrect message''),
       (96, ''Invalid mandatory information''),
       (97, ''Message type non-existent or not implemented''),
       (98, ''Message type not compatible with protocol state''),
       (99, ''Information element non-existent or not implemented''),
       (100, ''Conditional IE error''),
       (101, ''Message not compatible with protocol state''),
       (111, ''Protocol error, unspecified'')] cause of
        Some d \<Rightarrow> d | None \<Rightarrow> ''5GSM Cause #'' @ dec_nat (unat cause))"

definition Get5GMMCauseDesc :: "u8 \<Rightarrow> string" where
  "Get5GMMCauseDesc cause =
     (case map_of [
       (3, ''Illegal UE''),
       (6, ''Illegal ME''),
       (7, ''5GS services not allowed''),
       (9, ''UE identity cannot be derived by network''),
       (10, ''Implicitly deregistered''),
       (11, ''PLMN not allowed''),
       (12, ''Tracking area not allowed''),
       (13, ''Roaming not allowed in this tracking area''),
       (15, ''No suitable cells in tracking area''),
       (20, ''MAC failure / Authentication failure''),
       (21, ''Synch failure''),
       (22, ''Congestion / Core busy''),
       (27, ''N1 mode not allowed''),
       (28, ''Restricted service area''),
       (31, ''Redirection to EPC required''),
       (65, ''Maximum number of PDU sessions reached''),
       (73, ''Serving network not authorized''),
       (95, ''Semantically incorrect message''),
       (96, ''Invalid mandatory information''),
       (97, ''Message type non-existent or not implemented''),
       (98, ''Message type not compatible with protocol state''),
       (99, ''Information element non-existent or not implemented''),
       (100, ''Conditional IE error''),
       (101, ''Message not compatible with protocol state''),
       (111, ''Protocol error, unspecified'')] cause of
        Some d \<Rightarrow> d | None \<Rightarrow> ''5GMM Cause #'' @ dec_nat (unat cause))"

section \<open>Handlers\<close>

text \<open>The loops over the sessions that mark those in some states as failed.\<close>

definition fail_sessions :: "(int \<Rightarrow> bool) \<Rightarrow> string \<Rightarrow> UEContext \<Rightarrow> UEContext" where
  "fail_sessions P msg ue =
     ue\<lparr>PduSessions := map_option (\<lambda>m. map_option (\<lambda>s.
          if P (State s) then s\<lparr>State := SM5G_PDU_SESSION_INACTIVE, Error := msg\<rparr> else s) \<circ> m) (PduSessions ue)\<rparr>"

abbreviation pending :: "int \<Rightarrow> bool" where
  "pending st \<equiv> st = SM5G_PDU_SESSION_ACTIVE_PENDING"

abbreviation pending_or_unset :: "int \<Rightarrow> bool" where
  "pending_or_unset st \<equiv> st = SM5G_PDU_SESSION_ACTIVE_PENDING \<or> st = 0"

text \<open>What a rejection of the registration, the authentication or the service does.\<close>

definition reject_mm :: "string \<Rightarrow> UEContext \<Rightarrow> UEContext" where
  "reject_mm msg ue =
     fail_sessions pending_or_unset msg
       (ue\<lparr>mmErr := msg, smErr := msg, StateMM := MM5G_DEREGISTERED, StateSM := SM5G_PDU_SESSION_INACTIVE\<rparr>)"

definition HandlerAuthenticationReject :: "UEContext \<Rightarrow> UEContext" where
  "HandlerAuthenticationReject ue =
     reject_mm ''Authentication Rejected by AMF (Plain NAS 5GS Msg 0x58 - 3GPP TS 24.501 5GMM Cause #21: 5GS services not allowed)'' ue"

definition HandlerRegistrationReject :: "u8 \<Rightarrow> UEContext \<Rightarrow> UEContext" where
  "HandlerRegistrationReject cause ue =
     reject_mm (''Registration Rejected by AMF (Plain NAS 5GS Msg 0x59 - 3GPP TS 24.501 5GMM Cause #'' @
       dec_nat (unat cause) @ '': '' @ Get5GMMCauseDesc cause @ '')'') ue"

definition HandlerServiceReject :: "u8 \<Rightarrow> UEContext \<Rightarrow> UEContext" where
  "HandlerServiceReject cause ue =
     reject_mm (''Service Request Rejected by AMF (Plain NAS 5GS Msg 0x4D - 3GPP TS 24.501 5GMM Cause #'' @
       dec_nat (unat cause) @ '': '' @ Get5GMMCauseDesc cause @ '')'') ue"

definition HandlerStatus5GMM :: "u8 \<Rightarrow> UEContext \<Rightarrow> UEContext" where
  "HandlerStatus5GMM cause ue =
     (let msg = ''5GMM Status Message from AMF (3GPP TS 24.501 5GMM Cause #'' @ dec_nat (unat cause) @ '': '' @
        Get5GMMCauseDesc cause @ '')''
      in fail_sessions pending_or_unset msg (ue\<lparr>mmErr := msg, smErr := msg\<rparr>))"

definition HandlerServiceAccept :: "UEContext \<Rightarrow> UEContext" where
  "HandlerServiceAccept ue = ue\<lparr>StateMM := MM5G_REGISTERED\<rparr>"

text \<open>
  The keys that authentication derives are those that protect messages. A response is sent in every
  case, an empty one when the check is none of the three.
\<close>

definition HandlerAuthenticationRequest :: "ue_env \<Rightarrow> u8 list \<Rightarrow> u8 list \<Rightarrow> UEContext \<Rightarrow> UEContext res" where
  "HandlerAuthenticationRequest env rand autn ue =
     rbind (DeriveRESstarAndSetKey (hmacOf env) (AuthenticationSubs (aka ue)) rand (Snn ue) autn (aka ue)) (\<lambda>(keys, par, check).
       let ue = ue\<lparr>aka := keys, nas := (nas ue)\<lparr>KnasEnc := KeyNasEnc keys, KnasInt := KeyNasInt keys\<rparr>\<rparr> in
       if check = ''MAC failure'' \<or> check = ''SQN failure'' then
         Inr (SendToGnb (enc env (AuthenticationFailureMsg check par)) ue)
       else if check = ''successful'' then
         Inr (SendToGnb (enc env (AuthenticationResponseMsg par)) (ue\<lparr>StateMM := MM5G_REGISTERED_INITIATED\<rparr>))
       else Inr (SendToGnb [] ue))"

definition HandlerSecurityModeCommand :: "ue_env \<Rightarrow> u8 \<Rightarrow> u8 option \<Rightarrow> UEContext \<Rightarrow> UEContext res" where
  "HandlerSecurityModeCommand env ngKsi rinmr ue =
     (case rinmr of None \<Rightarrow> Inl Panic
      | Some r \<Rightarrow> Inr (send_or_stop (SecurityModeComplete env r (ue\<lparr>NgKsi := ngKsi\<rparr>))))"

text \<open>The verb \<open>%x\<close> on a byte, which writes no leading zero.\<close>

definition hex_short :: "u8 \<Rightarrow> string" where
  "hex_short b = (if unat b < 16 then [hex_digit (unat b)] else hex_byte b)"

text \<open>The end of \<^verbatim>\<open>HandlerRegistrationAccept\<close>: the completion, then the request for the default session.\<close>

definition finish_registration :: "ue_env \<Rightarrow> u8 list \<Rightarrow> UEContext \<Rightarrow> UEContext" where
  "finish_registration env order ue =
     (case secured env RegistrationCompleteMsg ue of
        (ue, Inl _) \<Rightarrow> ue
      | (ue, Inr m) \<Rightarrow>
          let ue = SendToGnb m ue; psi = Id (PduSession ue) in
          case UlNasTransport env order psi 1 ue of
            (ue, Inl _) \<Rightarrow> ue
          | (ue, Inr m) \<Rightarrow> SendToGnb m (SetPduSessionPending order psi ue))"

definition HandlerRegistrationAccept :: "ue_env \<Rightarrow> u8 list \<Rightarrow> (u8 \<times> u8 \<times> u16 \<times> u8 list) option \<Rightarrow> u8 list option \<Rightarrow>
    UEContext \<Rightarrow> UEContext res" where
  "HandlerRegistrationAccept env order guti allowed ue =
     (case guti of None \<Rightarrow> Inl Panic
      | Some (region, pointer, setId, tmsi) \<Rightarrow>
        let ue = ue\<lparr>StateMM := MM5G_REGISTERED, amfRegionId := region, amfPointer := pointer, amfSetId := setId, Guti := tmsi\<rparr> in
        if Sst (PduSession ue) = 0 then
          (case allowed of None \<Rightarrow> Inl Panic
           | Some v \<Rightarrow>
               if length v < 5 then Inl Panic
               else Inr (finish_registration env order (ue\<lparr>PduSession := (PduSession ue)\<lparr>Sst := uint (v ! 1),
                 Sd := ''0'' @ hex_short (v ! 2) @ ''0'' @ hex_short (v ! 3) @ ''0'' @ hex_short (v ! 4)\<rparr>\<rparr>)))
        else Inr (finish_registration env order ue))"

definition gsm_type :: "gsm_body \<Rightarrow> u8" where
  "gsm_type b = (case b of EstablishmentAccept _ _ \<Rightarrow> 194 | EstablishmentReject _ \<Rightarrow> 195 | Status5GSM _ \<Rightarrow> 214
     | ReleaseCommand _ \<Rightarrow> 211 | ModificationCommand _ \<Rightarrow> 203 | OtherGsm t \<Rightarrow> t)"

text \<open>A container that decodes as a mobility management message leaves the session header nil.\<close>

definition gsm_of :: "plain_dec \<Rightarrow> gsm_body option res" where
  "gsm_of d = (case d of BadPlain \<Rightarrow> Inr None | GmmPlain \<Rightarrow> Inl Panic
     | GsmPlain b \<Rightarrow> Inr (if gsm_type b \<noteq> 0 then Some b else None))"

definition GetNasPduFromPduAccept :: "ue_env \<Rightarrow> u8 list \<Rightarrow> gsm_body option res" where
  "GetNasPduFromPduAccept env payload =
     (if payload = [] then Inr None
      else
        rbind (gsm_of (gsmDecode env payload)) (\<lambda>r.
          case r of Some b \<Rightarrow> Inr (Some b)
          | None \<Rightarrow>
              if length payload > 7 \<and> payload ! 0 = 0x7e then gsm_of (gsmDecode env (drop 7 payload))
              else Inr None))"

text \<open>A rejection of session \<open>psi\<close>: it and every pending session become inactive.\<close>

definition reject_session :: "u8 list \<Rightarrow> u8 \<Rightarrow> string \<Rightarrow> UEContext \<Rightarrow> UEContext" where
  "reject_session order psi msg ue =
     (fail_sessions pending msg
       (update_session order psi (\<lambda>s. s\<lparr>State := SM5G_PDU_SESSION_INACTIVE, Error := msg\<rparr>) ue))\<lparr>smErr := msg\<rparr>"

definition reject_text :: "u8 \<Rightarrow> u8 \<Rightarrow> string" where
  "reject_text psi cause = ''PDU Session #'' @ dec_nat (unat psi) @ '' Rejected by 5G Core (SMF/AMF): 5GSM Cause #'' @
     dec_nat (unat cause) @ '' ('' @ Get5GSMCauseDesc cause @ '')''"

definition status_text :: "u8 \<Rightarrow> u8 \<Rightarrow> string" where
  "status_text psi cause = ''PDU Session #'' @ dec_nat (unat psi) @ '' Rejected via 5GSM Status from 5G Core: 5GSM Cause #'' @
     dec_nat (unat cause) @ '' ('' @ Get5GSMCauseDesc cause @ '')''"

text \<open>The second and third parts of \<^verbatim>\<open>HandlerDlNasTransportPduaccept\<close>, on the raw container.\<close>

definition raw_fallback :: "u8 list \<Rightarrow> u8 list \<Rightarrow> UEContext \<Rightarrow> UEContext" where
  "raw_fallback order raw ue =
     (if length raw \<ge> 5 \<and> raw ! 0 = 0x2e \<and> raw ! 3 \<in> {195, 214, 202, 210}
      then reject_session order (raw ! 1) (reject_text (raw ! 1) (raw ! 4)) ue
      else fail_sessions pending
        ''PDU Session Rejected by 5G Core: DL NAS Transport payload container (5GSM) unparseable or rejected by SMF/AMF.'' ue)"

definition HandlerDlNasTransportPduaccept :: "ue_env \<Rightarrow> u8 list \<Rightarrow> u8 list \<Rightarrow> UEContext \<Rightarrow> UEContext res" where
  "HandlerDlNasTransportPduaccept env order raw ue =
     rbind (GetNasPduFromPduAccept env raw) (\<lambda>body.
       case body of
         Some (EstablishmentAccept psi ip) \<Rightarrow>
           let ue = update_session order psi (\<lambda>s. s\<lparr>State := SM5G_PDU_SESSION_ACTIVE, Error := []\<rparr>) ue in
           (case ip of None \<Rightarrow> Inl Panic | Some a \<Rightarrow> Inr (SetIp order psi a ue))
       | Some (EstablishmentReject r) \<Rightarrow>
           let (psi, cause) = (case r of None \<Rightarrow> (1, 31) | Some p \<Rightarrow> p)
           in Inr (reject_session order psi (reject_text psi cause) ue)
       | Some (Status5GSM r) \<Rightarrow>
           let (psi, cause) = (case r of None \<Rightarrow> (1, 31) | Some p \<Rightarrow> p)
           in Inr (reject_session order psi (status_text psi cause) ue)
       | Some (ReleaseCommand psi) \<Rightarrow>
           Inr (send_or_stop (secured env (ReleaseCompleteMsg psi)
             (update_session order psi (\<lambda>s. s\<lparr>State := SM5G_PDU_SESSION_INACTIVE\<rparr>) ue)))
       | Some (ModificationCommand psi) \<Rightarrow>
           (case secured env (ModificationCompleteMsg psi) ue of
              (ue, Inl _) \<Rightarrow> Inr ue
            | (ue, Inr m) \<Rightarrow> Inr (raw_fallback order raw (SendToGnb m ue)))
       | _ \<Rightarrow> Inr (raw_fallback order raw ue))"

definition HandlerDeregistrationRequestUETerminatedDeregistration :: "ue_env \<Rightarrow> u8 list \<Rightarrow> UEContext \<Rightarrow> UEContext" where
  "HandlerDeregistrationRequestUETerminatedDeregistration env order ue =
     (case secured env DeregistrationAcceptMsg (Terminate order ue) of
        (ue, Inl _) \<Rightarrow> ue
      | (ue, Inr m) \<Rightarrow> (SendToGnb m ue)\<lparr>StateMM := MM5G_DEREGISTERED, StateSM := SM5G_PDU_SESSION_INACTIVE\<rparr>)"

definition HandlerIdentityRequest :: "ue_env \<Rightarrow> UEContext \<Rightarrow> UEContext" where
  "HandlerIdentityRequest env ue = SendToGnb (enc env (IdentityResponseMsg (Suci ue))) ue"

definition HandlerConfigurationUpdateCommand :: "ue_env \<Rightarrow> UEContext \<Rightarrow> UEContext" where
  "HandlerConfigurationUpdateCommand env ue = send_or_stop (secured env ConfigurationUpdateCompleteMsg ue)"

text \<open>The handler that \<^verbatim>\<open>DispatchNas\<close> selects, on the fields of the message.\<close>

definition run_handler :: "ue_env \<Rightarrow> u8 list \<Rightarrow> nas_handler \<Rightarrow> gmm_fields \<Rightarrow> UEContext \<Rightarrow> UEContext res" where
  "run_handler env order h f ue =
     (case h of
        AuthenticationRequest \<Rightarrow> HandlerAuthenticationRequest env (fRand f) (fAutn f) ue
      | AuthenticationReject \<Rightarrow> Inr (HandlerAuthenticationReject ue)
      | IdentityRequest \<Rightarrow> Inr (HandlerIdentityRequest env ue)
      | SecurityModeCommand \<Rightarrow> HandlerSecurityModeCommand env (fNgKsi f) (fRinmr f) ue
      | RegistrationAccept \<Rightarrow> HandlerRegistrationAccept env order (fGuti f) (fAllowed f) ue
      | ConfigurationUpdateCommand \<Rightarrow> Inr (HandlerConfigurationUpdateCommand env ue)
      | DLNASTransport \<Rightarrow> HandlerDlNasTransportPduaccept env order (fContainer f) ue
      | RegistrationReject \<Rightarrow> Inr (HandlerRegistrationReject (fCause f) ue)
      | ServiceAccept \<Rightarrow> Inr (HandlerServiceAccept ue)
      | ServiceReject \<Rightarrow> Inr (HandlerServiceReject (fCause f) ue)
      | Status5GMM \<Rightarrow> Inr (HandlerStatus5GMM (fCause f) ue)
      | DeregistrationRequestUETerminated \<Rightarrow> Inr (HandlerDeregistrationRequestUETerminatedDeregistration env order ue))"

definition receive_nas :: "ue_env \<Rightarrow> u8 list \<Rightarrow> u8 list \<Rightarrow> UEContext \<Rightarrow> UEContext res" where
  "receive_nas env order message ue =
     (case DispatchNas (blockCipher env) (cmacOf env) (nas ue) (Some message) of
        (sec, Ignored) \<Rightarrow> Inr (ue\<lparr>nas := sec\<rparr>)
      | (sec, Panicked) \<Rightarrow> Inl Panic
      | (sec, Handle h p) \<Rightarrow> run_handler env order h (gmmDecode env p) (ue\<lparr>nas := sec\<rparr>))"

section \<open>Data plane\<close>

text \<open>
  What the kernel answers while an interface is set up: the new link, whether it comes up, and for
  each address the step that fails or the route and the rule that are added.
\<close>

datatype ip_result = BadIp | AddrFails | RouteFails | RuleFails nat | IpAdded nat nat

record net_env =
  linkAdd :: "nat option"
  linkUp :: bool
  addIp :: "string \<Rightarrow> ip_result"

fun split_comma :: "string \<Rightarrow> string list" where
  "split_comma [] = [[]]"
| "split_comma (c # s) =
     (if c = CHR '','' then [] # split_comma s
      else case split_comma s of [] \<Rightarrow> [[c]] | w # ws \<Rightarrow> (c # w) # ws)"

text \<open>The loop over the addresses; the second component says whether it ran to its end.\<close>

fun add_addresses :: "net_env \<Rightarrow> string list \<Rightarrow> UeSession \<Rightarrow> UeSession \<times> bool" where
  "add_addresses net [] s = (s, True)"
| "add_addresses net (a # as) s =
     (case addIp net a of
        BadIp \<Rightarrow> add_addresses net as s
      | AddrFails \<Rightarrow> (s, False)
      | RouteFails \<Rightarrow> (s, False)
      | RuleFails r \<Rightarrow> (s\<lparr>routeTun := routeTun s @ [r]\<rparr>, False)
      | IpAdded r u \<Rightarrow> add_addresses net as (s\<lparr>routeTun := routeTun s @ [r], ruleTun := ruleTun s @ [u]\<rparr>))"

definition plane_session :: "net_env \<Rightarrow> u8 list \<Rightarrow> UeSession \<Rightarrow> UeSession" where
  "plane_session net gnbIp s =
     (let s = s\<lparr>ueGnbIP := gnbIp\<rparr> in
      case linkAdd net of None \<Rightarrow> s
      | Some l \<Rightarrow>
          if \<not> linkUp net then s
          else let (s, complete) = add_addresses net (split_comma (ueIP s)) s
               in if complete then s\<lparr>tun := Some l\<rparr> else s)"

definition InitDataPlane :: "net_env \<Rightarrow> u8 list \<Rightarrow> u8 \<Rightarrow> u8 list \<Rightarrow> UEContext \<Rightarrow> UEContext" where
  "InitDataPlane net order psi gnbIp ue = update_session order psi (plane_session net gnbIp) ue"

section \<open>Messages from the gNB\<close>

fun first_inactive :: "u8 list \<Rightarrow> (u8 \<rightharpoonup> UeSession) \<Rightarrow> u8" where
  "first_inactive [] m = 0"
| "first_inactive (k # ks) m =
     (case m k of Some s \<Rightarrow> if State s = SM5G_PDU_SESSION_INACTIVE then k else first_inactive ks m
      | None \<Rightarrow> first_inactive ks m)"

definition triggerNextPduSession :: "ue_env \<Rightarrow> u8 list \<Rightarrow> UEContext \<Rightarrow> UEContext" where
  "triggerNextPduSession env order ue =
     (let next = first_inactive order (session_map ue) in
      if next = 0 then ue
      else case UlNasTransport env order next 1 ue of
        (ue, Inl _) \<Rightarrow> ue
      | (ue, Inr m) \<Rightarrow>
          SendToGnb m (update_session order next (\<lambda>s. s\<lparr>State := SM5G_PDU_SESSION_ACTIVE_PENDING\<rparr>) ue))"

text \<open>Dialling: \<open>n\<close> attempts, the result of each given by its number.\<close>

fun dial :: "nat \<Rightarrow> (nat \<Rightarrow> nat option) \<Rightarrow> nat \<Rightarrow> nat option" where
  "dial 0 attempt i = None"
| "dial (Suc n) attempt i = (case attempt i of Some c \<Rightarrow> Some c | None \<Rightarrow> dial n attempt (Suc i))"

definition accessTarget :: "(nat \<Rightarrow> nat option) \<Rightarrow> UEContext \<Rightarrow> UEContext" where
  "accessTarget attempt ue =
     (let ue = (case UnixConn ue of None \<Rightarrow> ue | Some c \<Rightarrow> ue\<lparr>connsClosed := connsClosed ue @ [c]\<rparr>)
      in case dial (if GetGnbLinkType ue = ''tcp'' then 1 else 10) attempt 0 of
        None \<Rightarrow> ue
      | Some c \<Rightarrow> ue\<lparr>UnixConn := Some c, toGnb := toGnb ue @ [(c, [0x00, 0x04] @ be64_bytes (AmfUeNgapId ue))]\<rparr>)"

definition DispatchState :: "ue_env \<Rightarrow> net_env \<Rightarrow> (nat \<Rightarrow> nat option) \<Rightarrow> u8 list \<Rightarrow> u8 list \<Rightarrow> UEContext \<Rightarrow> UEContext res" where
  "DispatchState env net attempt order message ue =
     (case message of [] \<Rightarrow> Inr ue
      | b # rest \<Rightarrow>
          if b = 0x7e \<or> b = 0x2e then receive_nas env order message ue
          else if b = 0x00 then
            Inr (if length message = 2 \<and> message ! 1 = 0x01 then send_or_stop (ServiceRequest env 2 ue)
                 else if length message = 10 \<and> message ! 1 = 0x03 then ue\<lparr>AmfUeNgapId := be64_of (drop 2 message)\<rparr>
                 else if length message = 2 \<and> message ! 1 = 0x05 then accessTarget attempt ue
                 else if length message = 2 \<and> message ! 1 = 0x06 then ReleaseConnection order ue
                 else ue)
          else if length message > 1 then
            Inr (triggerNextPduSession env order (InitDataPlane net order b rest ue))
          else Inr ue)"

end
