(* ===== verification/Ue_Machine.thy ===== *)
theory Ue_Machine
  imports Ue_Nas
begin

text \<open>
  What the UE keeps while it handles messages: lemmas on the session map, the invariant of the states
  the UE can reach and the properties of its procedures.
\<close>

section \<open>Sessions\<close>

lemma session_map_simps [simp]:
  "session_map (ue\<lparr>PduSessions := Some m\<rparr>) = m"
  "session_map (put_session i s ue) = (session_map ue)(i \<mapsto> s)"
  by (simp_all add: session_map_def put_session_def)

lemma GetPduSession_eq:
  "GetPduSession order i ue =
     (fst (GetPduSession order i ue), ue\<lparr>PduSessions := Some ((session_map ue)(i \<mapsto> fst (GetPduSession order i ue)))\<rparr>)"
  by (auto simp: GetPduSession_def put_session_def Let_def fun_upd_idem split: option.splits)

lemma GetPduSession_known: "session_map ue i = Some s \<Longrightarrow> fst (GetPduSession order i ue) = s"
  by (simp add: GetPduSession_def)

lemma GetPduSession_new:
  "session_map ue i = None \<Longrightarrow> Id (fst (GetPduSession order i ue)) = i \<and>
     State (fst (GetPduSession order i ue)) = SM5G_PDU_SESSION_INACTIVE"
  by (auto simp: GetPduSession_def newSession_def Let_def split: option.splits)

lemma update_session_eq:
  "update_session order i f ue =
     ue\<lparr>PduSessions := Some ((session_map ue)(i \<mapsto> f (fst (GetPduSession order i ue))))\<rparr>"
  unfolding update_session_def by (subst GetPduSession_eq) (simp add: put_session_def Let_def)

definition session_ok :: "u8 \<Rightarrow> UeSession \<Rightarrow> bool" where
  "session_ok i s \<longleftrightarrow> Id s = i \<and>
     State s \<in> {SM5G_PDU_SESSION_INACTIVE, SM5G_PDU_SESSION_ACTIVE_PENDING, SM5G_PDU_SESSION_ACTIVE}"

definition sessions_ok :: "UEContext \<Rightarrow> bool" where
  "sessions_ok ue \<longleftrightarrow> (\<forall>i s. session_map ue i = Some s \<longrightarrow> session_ok i s) \<and> session_map ue 1 \<noteq> None"

lemma GetPduSession_ok: "sessions_ok ue \<Longrightarrow> session_ok i (fst (GetPduSession order i ue))"
  by (cases "session_map ue i")
    (auto simp: sessions_ok_def session_ok_def GetPduSession_known dest!: GetPduSession_new [of ue i order])

lemma sessions_ok_update:
  assumes "sessions_ok ue" and "\<And>s. session_ok i s \<Longrightarrow> session_ok i (f s)"
  shows "sessions_ok (update_session order i f ue)"
  using assms GetPduSession_ok [OF assms(1), of i order] unfolding update_session_eq
  by (auto simp: sessions_ok_def)

lemma sessions_ok_get: "sessions_ok ue \<Longrightarrow> sessions_ok (snd (GetPduSession order i ue))"
  using GetPduSession_ok [of ue i order] by (subst GetPduSession_eq) (auto simp: sessions_ok_def)

lemma sessions_ok_cong: "PduSessions ue' = PduSessions ue \<Longrightarrow> sessions_ok ue' \<longleftrightarrow> sessions_ok ue"
  by (simp add: sessions_ok_def session_map_def)

text \<open>A loop over all sessions.\<close>

lemma session_map_map:
  "session_map (ue\<lparr>PduSessions := map_option (\<lambda>m. map_option f \<circ> m) (PduSessions ue)\<rparr>) i = map_option f (session_map ue i)"
  by (simp add: session_map_def split: option.splits)

lemma sessions_ok_map:
  assumes "sessions_ok ue" and "\<And>i s. session_ok i s \<Longrightarrow> session_ok i (f s)"
  shows "sessions_ok (ue\<lparr>PduSessions := map_option (\<lambda>m. map_option f \<circ> m) (PduSessions ue)\<rparr>)"
  using assms unfolding sessions_ok_def session_map_map by auto

lemma sessions_ok_fail: "sessions_ok ue \<Longrightarrow> sessions_ok (fail_sessions P msg ue)"
  unfolding fail_sessions_def by (rule sessions_ok_map) (auto simp: session_ok_def)

section \<open>The invariant\<close>

text \<open>Authentication and message protection use the same algorithms and keys.\<close>

definition keys_agree :: "UEContext \<Rightarrow> bool" where
  "keys_agree ue \<longleftrightarrow> KnasEnc (nas ue) = KeyNasEnc (aka ue) \<and> KnasInt (nas ue) = KeyNasInt (aka ue) \<and>
     CipheringAlg (nas ue) = CipheringAlgId (aka ue) \<and> IntegrityAlg (nas ue) = IntegrityAlgId (aka ue)"

definition ue_inv :: "UEContext \<Rightarrow> bool" where
  "ue_inv ue \<longleftrightarrow> sessions_ok ue \<and> keys_agree ue \<and>
     StateMM ue \<in> {MM5G_NULL, MM5G_DEREGISTERED, MM5G_REGISTERED_INITIATED, MM5G_REGISTERED} \<and>
     StateSM ue \<in> {SM5G_PDU_SESSION_INACTIVE, SM5G_PDU_SESSION_ACTIVE_PENDING}"

named_theorems keeps \<open>operations that keep the invariant\<close>

lemma NASEncode_keys:
  "NASEncode aes cmac (Some sec) m a n = (r, x) \<Longrightarrow>
   \<exists>sec'. r = Some sec' \<and> KnasEnc sec' = KnasEnc sec \<and> KnasInt sec' = KnasInt sec \<and>
     CipheringAlg sec' = CipheringAlg sec \<and> IntegrityAlg sec' = IntegrityAlg sec"
  by (auto simp: NASEncode_def Let_def split: option.splits sum.splits if_splits)

lemma dispatch_security_keys:
  "dispatch_security aes cmac sec m = (sec', x) \<Longrightarrow>
   KnasEnc sec' = KnasEnc sec \<and> KnasInt sec' = KnasInt sec \<and>
     CipheringAlg sec' = CipheringAlg sec \<and> IntegrityAlg sec' = IntegrityAlg sec"
  by (auto simp: dispatch_security_def Let_def split: option.splits sum.splits if_splits go_err.splits)

lemma DispatchNas_keys:
  "DispatchNas aes cmac sec m = (sec', x) \<Longrightarrow>
   KnasEnc sec' = KnasEnc sec \<and> KnasInt sec' = KnasInt sec \<and>
     CipheringAlg sec' = CipheringAlg sec \<and> IntegrityAlg sec' = IntegrityAlg sec"
  by (cases "dispatch_security aes cmac sec m")
    (auto simp: DispatchNas_def dest!: dispatch_security_keys split: nas_outcome.splits if_splits option.splits)

lemma ue_inv_nas:
  "ue_inv ue \<Longrightarrow> KnasEnc sec = KnasEnc (nas ue) \<and> KnasInt sec = KnasInt (nas ue) \<and>
     CipheringAlg sec = CipheringAlg (nas ue) \<and> IntegrityAlg sec = IntegrityAlg (nas ue) \<Longrightarrow>
   ue_inv (ue\<lparr>nas := sec\<rparr>)"
  by (auto simp: ue_inv_def keys_agree_def sessions_ok_def session_map_def)

text \<open>Changes of fields that the invariant does not mention.\<close>

lemma ue_inv_fields [keeps]:
  "ue_inv ue \<Longrightarrow> ue_inv (ue\<lparr>toGnb := a\<rparr>)"
  "ue_inv ue \<Longrightarrow> ue_inv (ue\<lparr>NgKsi := b\<rparr>)"
  "ue_inv ue \<Longrightarrow> ue_inv (ue\<lparr>smErr := c\<rparr>)"
  "ue_inv ue \<Longrightarrow> ue_inv (ue\<lparr>mmErr := c, smErr := d\<rparr>)"
  "ue_inv ue \<Longrightarrow> ue_inv (ue\<lparr>UnixConn := e\<rparr>)"
  "ue_inv ue \<Longrightarrow> ue_inv (ue\<lparr>UnixConn := e, toGnb := a\<rparr>)"
  "ue_inv ue \<Longrightarrow> ue_inv (ue\<lparr>connsClosed := h\<rparr>)"
  "ue_inv ue \<Longrightarrow> ue_inv (ue\<lparr>UnixConn := e, connsClosed := h\<rparr>)"
  "ue_inv ue \<Longrightarrow> ue_inv (ue\<lparr>UnixConn := e, toGnb := a, connsClosed := h\<rparr>)"
  "ue_inv ue \<Longrightarrow> ue_inv (ue\<lparr>AmfUeNgapId := f\<rparr>)"
  "ue_inv ue \<Longrightarrow> ue_inv (ue\<lparr>PduSession := g\<rparr>)"
  by (auto simp: ue_inv_def keys_agree_def sessions_ok_def session_map_def)

lemma ue_inv_states [keeps]:
  "ue_inv ue \<Longrightarrow> ue_inv (ue\<lparr>StateMM := MM5G_REGISTERED\<rparr>)"
  "ue_inv ue \<Longrightarrow> ue_inv (ue\<lparr>StateMM := MM5G_DEREGISTERED\<rparr>)"
  "ue_inv ue \<Longrightarrow> ue_inv (ue\<lparr>StateMM := MM5G_REGISTERED_INITIATED\<rparr>)"
  "ue_inv ue \<Longrightarrow> ue_inv (ue\<lparr>StateSM := SM5G_PDU_SESSION_ACTIVE_PENDING\<rparr>)"
  "ue_inv ue \<Longrightarrow> ue_inv (ue\<lparr>StateMM := MM5G_DEREGISTERED, StateSM := SM5G_PDU_SESSION_INACTIVE\<rparr>)"
  "ue_inv ue \<Longrightarrow> ue_inv (ue\<lparr>mmErr := c, smErr := d, StateMM := MM5G_DEREGISTERED, StateSM := SM5G_PDU_SESSION_INACTIVE\<rparr>)"
  "ue_inv ue \<Longrightarrow> ue_inv (ue\<lparr>StateMM := MM5G_REGISTERED, amfRegionId := r, amfPointer := p, amfSetId := i, Guti := g\<rparr>)"
  by (auto simp: ue_inv_def keys_agree_def sessions_ok_def session_map_def)

lemma SendToGnb_inv [keeps]: "ue_inv ue \<Longrightarrow> ue_inv (SendToGnb m ue)"
  by (auto simp: SendToGnb_def keeps split: option.splits)

lemma ue_inv_sessions:
  "ue_inv ue \<Longrightarrow> sessions_ok (ue\<lparr>PduSessions := m\<rparr>) \<Longrightarrow> ue_inv (ue\<lparr>PduSessions := m\<rparr>)"
  by (simp add: ue_inv_def keys_agree_def)

lemma update_session_inv [keeps]:
  assumes "ue_inv ue" and "\<And>s. session_ok i s \<Longrightarrow> session_ok i (f s)"
  shows "ue_inv (update_session order i f ue)"
  using sessions_ok_update [of ue i f order] assms unfolding update_session_eq
  by (intro ue_inv_sessions) (auto simp: ue_inv_def)

lemma GetPduSession_snd:
  "snd (GetPduSession order i ue) = ue\<lparr>PduSessions := Some ((session_map ue)(i \<mapsto> fst (GetPduSession order i ue)))\<rparr>"
  by (subst GetPduSession_eq) simp

lemma GetPduSession_inv [keeps]: "ue_inv ue \<Longrightarrow> ue_inv (snd (GetPduSession order i ue))"
  using sessions_ok_get [of ue order i] unfolding GetPduSession_snd
  by (intro ue_inv_sessions) (auto simp: ue_inv_def)

lemma fail_sessions_inv [keeps]: "ue_inv ue \<Longrightarrow> ue_inv (fail_sessions P msg ue)"
  using sessions_ok_fail [of ue P msg] unfolding fail_sessions_def
  by (intro ue_inv_sessions) (auto simp: ue_inv_def)

lemma EncodeNasPduWithSecurity_inv [keeps]:
  "ue_inv ue \<Longrightarrow> ue_inv (fst (EncodeNasPduWithSecurity env pdu sht a n ue))"
  by (auto simp: EncodeNasPduWithSecurity_def split: sum.splits prod.splits option.splits intro!: ue_inv_nas dest!: NASEncode_keys)

lemma secured_inv [keeps]: "ue_inv ue \<Longrightarrow> ue_inv (fst (secured env msg ue))"
  by (simp add: secured_def keeps)

lemma UlNasTransport_inv [keeps]: "ue_inv ue \<Longrightarrow> ue_inv (fst (UlNasTransport env order i t ue))"
  using GetPduSession_inv [of ue order i] by (cases "GetPduSession order i ue") (simp add: UlNasTransport_def secured_inv)

lemma send_or_stop_inv [keeps]: "ue_inv (fst r) \<Longrightarrow> ue_inv (send_or_stop r)"
  by (auto simp: send_or_stop_def keeps split: prod.splits sum.splits)

lemma DerivateKamf_algs:
  "DerivateKamf hmac key sn sqn ak k = Inr k' \<Longrightarrow> CipheringAlgId k' = CipheringAlgId k \<and> IntegrityAlgId k' = IntegrityAlgId k"
  by (auto simp: DerivateKamf_def Let_def split: if_splits option.splits)

lemma DerivateAlgKey_algs:
  "DerivateAlgKey hmac k = Inr k' \<Longrightarrow> CipheringAlgId k' = CipheringAlgId k \<and> IntegrityAlgId k' = IntegrityAlgId k"
  by (auto simp: DerivateAlgKey_def Let_def split: if_splits)

lemma DeriveRES_algs:
  "DeriveRESstarAndSetKey hmac subs rand sn autn k = Inr (k', p, c) \<Longrightarrow>
   CipheringAlgId k' = CipheringAlgId k \<and> IntegrityAlgId k' = IntegrityAlgId k"
  by (auto simp: DeriveRESstarAndSetKey_def Let_def rbind_eq_Inr split: if_splits prod.splits
      dest!: DerivateKamf_algs DerivateAlgKey_algs)

lemma ue_inv_keys:
  "ue_inv ue \<Longrightarrow> CipheringAlgId k = CipheringAlgId (aka ue) \<and> IntegrityAlgId k = IntegrityAlgId (aka ue) \<Longrightarrow>
   ue_inv (ue\<lparr>aka := k, nas := (nas ue)\<lparr>KnasEnc := KeyNasEnc k, KnasInt := KeyNasInt k\<rparr>\<rparr>)"
  by (simp add: ue_inv_def keys_agree_def sessions_ok_def session_map_def)

lemma HandlerAuthenticationRequest_inv:
  assumes "ue_inv ue" and "HandlerAuthenticationRequest env rand autn ue = Inr ue'"
  shows "ue_inv ue'"
proof -
  obtain k p c where d: "DeriveRESstarAndSetKey (hmacOf env) (AuthenticationSubs (aka ue)) rand (Snn ue) autn (aka ue) = Inr (k, p, c)"
    using assms(2) by (auto simp: HandlerAuthenticationRequest_def rbind_eq_Inr)
  let ?u = "ue\<lparr>aka := k, nas := (nas ue)\<lparr>KnasEnc := KeyNasEnc k, KnasInt := KeyNasInt k\<rparr>\<rparr>"
  have "ue_inv ?u"
    using ue_inv_keys [OF assms(1)] DeriveRES_algs [OF d] by blast
  moreover have "ue_inv (?u\<lparr>StateMM := MM5G_REGISTERED_INITIATED\<rparr>)"
    using calculation by (rule ue_inv_states)
  ultimately show ?thesis
    using assms(2) d by (auto simp: HandlerAuthenticationRequest_def Let_def SendToGnb_inv split: if_splits)
qed

lemma reject_mm_inv [keeps]: "ue_inv ue \<Longrightarrow> ue_inv (reject_mm msg ue)"
  by (simp add: reject_mm_def keeps)

lemma reject_session_inv [keeps]: "ue_inv ue \<Longrightarrow> ue_inv (reject_session order i msg ue)"
  unfolding reject_session_def
  by (intro ue_inv_fields fail_sessions_inv update_session_inv) (auto simp: session_ok_def)

lemma raw_fallback_inv [keeps]: "ue_inv ue \<Longrightarrow> ue_inv (raw_fallback order raw ue)"
  by (simp add: raw_fallback_def keeps)

lemma SetIp_inv [keeps]: "ue_inv ue \<Longrightarrow> ue_inv (SetIp order i ip ue)"
  unfolding SetIp_def by (rule update_session_inv) (auto simp: session_ok_def)

lemma set_state_inv:
  "ue_inv ue \<Longrightarrow> st \<in> {SM5G_PDU_SESSION_INACTIVE, SM5G_PDU_SESSION_ACTIVE_PENDING, SM5G_PDU_SESSION_ACTIVE} \<Longrightarrow>
   ue_inv (update_session order i (\<lambda>s. s\<lparr>State := st\<rparr>) ue)"
  "ue_inv ue \<Longrightarrow> st \<in> {SM5G_PDU_SESSION_INACTIVE, SM5G_PDU_SESSION_ACTIVE_PENDING, SM5G_PDU_SESSION_ACTIVE} \<Longrightarrow>
   ue_inv (update_session order i (\<lambda>s. s\<lparr>State := st, Error := e\<rparr>) ue)"
  by (rule update_session_inv; auto simp: session_ok_def)+

lemma SetPduSessionPending_inv [keeps]: "ue_inv ue \<Longrightarrow> ue_inv (SetPduSessionPending order i ue)"
  unfolding SetPduSessionPending_def by (intro set_state_inv keeps) simp_all

lemma finish_registration_inv:
  assumes "ue_inv ue"
  shows "ue_inv (finish_registration env order ue)"
proof -
  obtain v x where v: "secured env RegistrationCompleteMsg ue = (v, x)" by fastforce
  then have iv: "ue_inv v" using secured_inv [OF assms, of env RegistrationCompleteMsg] by simp
  show ?thesis
  proof (cases x)
    case (Inl e)
    then show ?thesis using v iv by (simp add: finish_registration_def)
  next
    case (Inr m)
    let ?psi = "Id (PduSession (SendToGnb m v))"
    obtain w y where w: "UlNasTransport env order ?psi 1 (SendToGnb m v) = (w, y)" by fastforce
    then have "ue_inv w"
      using UlNasTransport_inv [OF SendToGnb_inv [OF iv], of env order ?psi 1 m] by simp
    then show ?thesis
      using v w Inr by (simp add: finish_registration_def Let_def SendToGnb_inv SetPduSessionPending_inv split: sum.split)
  qed
qed

lemma HandlerRegistrationAccept_inv:
  assumes "ue_inv ue" and "HandlerRegistrationAccept env order guti allowed ue = Inr ue'"
  shows "ue_inv ue'"
proof -
  obtain r p i g where guti: "guti = Some (r, p, i, g)"
    using assms(2) by (cases guti) (auto simp: HandlerRegistrationAccept_def)
  let ?u = "ue\<lparr>StateMM := MM5G_REGISTERED, amfRegionId := r, amfPointer := p, amfSetId := i, Guti := g\<rparr>"
  have u: "ue_inv ?u"
    using assms(1) by (rule ue_inv_states)
  have "ue_inv (?u\<lparr>PduSession := s\<rparr>)" for s
    using u by (rule ue_inv_fields)
  with u show ?thesis
    using assms(2) by (auto simp: HandlerRegistrationAccept_def guti Let_def finish_registration_inv split: option.splits if_splits)
qed

lemma HandlerDlNasTransport_inv:
  assumes "ue_inv ue" and "HandlerDlNasTransportPduaccept env order raw ue = Inr ue'"
  shows "ue_inv ue'"
proof -
  obtain body where body: "GetNasPduFromPduAccept env raw = Inr body"
    using assms(2) by (auto simp: HandlerDlNasTransportPduaccept_def rbind_eq_Inr)
  have sec: "ue_inv v" if "ue_inv u" and "secured env m u = (v, x)" for u v x m
    using secured_inv [OF that(1), of env m] that(2) by simp
  note def = HandlerDlNasTransportPduaccept_def body
  show ?thesis
  proof (cases body)
    case None
    then show ?thesis using assms by (auto simp: def keeps)
  next
    case (Some b)
    show ?thesis
    proof (cases b)
      case (EstablishmentAccept i ip)
      then show ?thesis using assms Some
        by (auto simp: def Let_def split: option.splits intro!: SetIp_inv set_state_inv)
    next
      case (EstablishmentReject r)
      then show ?thesis using assms Some by (auto simp: def keeps split: prod.splits)
    next
      case (Status5GSM r)
      then show ?thesis using assms Some by (auto simp: def keeps split: prod.splits)
    next
      case (ReleaseCommand i)
      then show ?thesis using assms Some
        by (auto simp: def intro!: send_or_stop_inv secured_inv set_state_inv)
    next
      case (ModificationCommand i)
      obtain v x where "secured env (ModificationCompleteMsg i) ue = (v, x)" by fastforce
      then show ?thesis using assms Some ModificationCommand sec [OF assms(1)]
        by (auto simp: def intro!: raw_fallback_inv SendToGnb_inv split: sum.splits)
    next
      case (OtherGsm t)
      then show ?thesis using assms Some by (auto simp: def keeps)
    qed
  qed
qed

lemma ue_inv_map:
  assumes "ue_inv ue" and "\<And>i s. session_ok i s \<Longrightarrow> session_ok i (f s)"
  shows "ue_inv (ue\<lparr>PduSessions := map_option (\<lambda>m. map_option f \<circ> m) (PduSessions ue)\<rparr>)"
  using assms sessions_ok_map [of ue f] by (intro ue_inv_sessions) (auto simp: ue_inv_def)

lemma accessTarget_inv [keeps]: "ue_inv ue \<Longrightarrow> ue_inv (accessTarget attempt ue)"
  by (cases "UnixConn ue") (auto simp: accessTarget_def Let_def keeps split: option.split)

lemma Terminate_eq:
  "Terminate order ue = ue\<lparr>UnixConn := None, PduSessions := map_option (\<lambda>m. map_option clean_session \<circ> m) (PduSessions ue),
     ActiveUEs := (ActiveUEs ue)(ueId ue := None),
     netDeleted := netDeleted ue @ concat (map session_deletes (sessions_in order (session_map ue))),
     connsClosed := connsClosed ue @ (case UnixConn ue of None \<Rightarrow> [] | Some c \<Rightarrow> [c])\<rparr>"
  by (cases ue; cases "UnixConn ue") (simp_all add: Terminate_def UnregisterUE_def session_map_def Let_def)

lemma Terminate_inv [keeps]: "ue_inv ue \<Longrightarrow> ue_inv (Terminate order ue)"
proof -
  assume "ue_inv ue"
  then have "ue_inv (ue\<lparr>PduSessions := map_option (\<lambda>m. map_option clean_session \<circ> m) (PduSessions ue)\<rparr>)"
    by (rule ue_inv_map) (simp add: session_ok_def clean_session_def)
  then show ?thesis
    by (simp add: Terminate_eq ue_inv_def keys_agree_def sessions_ok_def session_map_def)
qed

lemma ReleaseConnection_inv [keeps]: "ue_inv ue \<Longrightarrow> ue_inv (ReleaseConnection order ue)"
proof -
  assume "ue_inv ue"
  then have "ue_inv (ue\<lparr>PduSessions := map_option (\<lambda>m. map_option (\<lambda>s. (clean_session s)\<lparr>State := SM5G_PDU_SESSION_INACTIVE\<rparr>) \<circ> m)
      (PduSessions ue)\<rparr>)"
    by (rule ue_inv_map) (simp add: session_ok_def clean_session_def)
  then show ?thesis
    by (simp add: ReleaseConnection_def Let_def ue_inv_def keys_agree_def sessions_ok_def session_map_def)
qed

lemma Deregistration_inv [keeps]:
  assumes "ue_inv ue"
  shows "ue_inv (HandlerDeregistrationRequestUETerminatedDeregistration env order ue)"
proof -
  obtain v x where v: "secured env DeregistrationAcceptMsg (Terminate order ue) = (v, x)" by fastforce
  then have "ue_inv v"
    using secured_inv [OF Terminate_inv [OF assms, of order], of env DeregistrationAcceptMsg] by simp
  then show ?thesis
    using v by (auto simp: HandlerDeregistrationRequestUETerminatedDeregistration_def keeps split: sum.splits)
qed

lemma plane_session_keeps: "State (plane_session net ip s) = State s \<and> Id (plane_session net ip s) = Id s"
proof -
  have "State (fst (add_addresses net as x)) = State x \<and> Id (fst (add_addresses net as x)) = Id x" for as x
    by (induction as arbitrary: x) (auto split: ip_result.splits)
  then have "add_addresses net as x = (y, c) \<Longrightarrow> State y = State x \<and> Id y = Id x" for as x y c
    by (metis fst_conv)
  then show ?thesis
    by (fastforce simp: plane_session_def Let_def split: option.splits prod.splits)
qed

lemma InitDataPlane_inv [keeps]: "ue_inv ue \<Longrightarrow> ue_inv (InitDataPlane net order i ip ue)"
  unfolding InitDataPlane_def
  by (rule update_session_inv) (auto simp: session_ok_def plane_session_keeps)

lemma triggerNext_inv [keeps]: "ue_inv ue \<Longrightarrow> ue_inv (triggerNextPduSession env order ue)"
proof -
  assume u: "ue_inv ue"
  let ?n = "first_inactive order (session_map ue)"
  obtain v x where v: "UlNasTransport env order ?n 1 ue = (v, x)" by fastforce
  then have "ue_inv v" using UlNasTransport_inv [OF u, of env order ?n 1] by simp
  then show ?thesis
    using u v by (auto simp: triggerNextPduSession_def Let_def split: sum.splits intro!: SendToGnb_inv set_state_inv)
qed

lemma run_handler_inv:
  assumes "ue_inv ue" and "run_handler env order h f ue = Inr ue'"
  shows "ue_inv ue'"
proof (cases h)
  case AuthenticationRequest
  then show ?thesis using assms by (auto simp: run_handler_def intro: HandlerAuthenticationRequest_inv)
next
  case SecurityModeCommand
  then show ?thesis using assms
    by (auto simp: run_handler_def HandlerSecurityModeCommand_def SecurityModeComplete_def split: option.splits intro!: keeps)
next
  case RegistrationAccept
  then show ?thesis using assms by (auto simp: run_handler_def intro: HandlerRegistrationAccept_inv)
next
  case DLNASTransport
  then show ?thesis using assms by (auto simp: run_handler_def intro: HandlerDlNasTransport_inv)
qed (use assms in \<open>auto simp: run_handler_def HandlerAuthenticationReject_def HandlerIdentityRequest_def
    HandlerConfigurationUpdateCommand_def HandlerRegistrationReject_def HandlerServiceAccept_def HandlerServiceReject_def
    HandlerStatus5GMM_def Let_def intro!: keeps\<close>)

lemma receive_nas_inv:
  assumes "ue_inv ue" and "receive_nas env order m ue = Inr ue'"
  shows "ue_inv ue'"
proof -
  obtain sec r where d: "DispatchNas (blockCipher env) (cmacOf env) (nas ue) (Some m) = (sec, r)" by fastforce
  then have "ue_inv (ue\<lparr>nas := sec\<rparr>)"
    using ue_inv_nas [OF assms(1)] DispatchNas_keys [OF d] by blast
  then show ?thesis
    using assms(2) d by (auto simp: receive_nas_def split: dispatch_result.splits dest: run_handler_inv)
qed

lemma DispatchState_inv:
  assumes "ue_inv ue" and "DispatchState env net attempt order m ue = Inr ue'"
  shows "ue_inv ue'"
  using assms
  by (auto simp: DispatchState_def ServiceRequest_def receive_nas_inv
      split: list.splits if_splits option.splits intro!: keeps)

section \<open>Reachable states\<close>

definition zeroUE :: "nat \<Rightarrow> (u8 \<rightharpoonup> nat) \<Rightarrow> UEContext" where
  "zeroUE me reg = \<lparr>ueId = 0, Msin = [], mcc = [], mnc = [],
     aka = \<lparr>Supi = [], CipheringAlgId = 0, IntegrityAlgId = 0, Kamf = [], KeyNasEnc = replicate 16 0, KeyNasInt = replicate 16 0,
       AuthenticationSubs = \<lparr>PermanentKeyValue = [], OpcValue = [], OpValue = [], AuthenticationManagementField = [],
         SequenceNumber = []\<rparr>\<rparr>,
     nas = \<lparr>CipheringAlg = 0, IntegrityAlg = 0, KnasEnc = replicate 16 0, KnasInt = replicate 16 0, ULCount = 0, DLCount = 0\<rparr>,
     Snn = [], Suci = (0, []), Guti = replicate 4 0, NgKsi = 0, StateMM = 0, StateSM = 0, RegistrationType = 0,
     AmfUeNgapId = 0, UnixConn = None, PduSession = (newSession 0)\<lparr>gatewayIP := [], State := 0\<rparr>, PduSessions = None,
     amfRegionId = 0, amfSetId = 0, amfPointer = 0, gnbLinkType = [], gnbLinkPort = 0, gnbControlIp = [], gnbSocketPath = [],
     mmErr = [], smErr = [], OnRedirection = False, ActiveUEs = reg, self = me, toGnb = [], netDeleted = [], connsClosed = []\<rparr>"

text \<open>
  What happens to a UE: it is created from a configuration, connected, registered, configured with
  sessions, it handles a message from the gNB, and it is terminated.
\<close>

inductive ue_reach :: "ue_env \<Rightarrow> UEContext \<Rightarrow> bool" for env where
  create: "NewRanUeContext msin ciph integ k opc opv amf sqn mccv mncv dnn stype sst sd idv extra (zeroUE me reg) = Inr ue \<Longrightarrow>
    ue_reach env ue"
| connect: "ue_reach env ue \<Longrightarrow> ue_reach env (ue\<lparr>UnixConn := Some c\<rparr>)"
| register: "ue_reach env ue \<Longrightarrow> ue_reach env (InitRegistration env ue)"
| configure: "ue_reach env ue \<Longrightarrow> ue_reach env (SetupPduSession order i dnn stype sst sd ue)"
| receive: "ue_reach env ue \<Longrightarrow> DispatchState env net attempt order m ue = Inr ue' \<Longrightarrow> ue_reach env ue'"
| terminate: "ue_reach env ue \<Longrightarrow> ue_reach env (Terminate order ue)"

lemma add_sessions_ok:
  "(\<forall>i s. m i = Some s \<longrightarrow> session_ok i s) \<Longrightarrow> add_sessions cs m i = Some s \<Longrightarrow> session_ok i s"
proof (induction cs arbitrary: m)
  case (Cons c cs)
  show ?case
  proof (cases "sessId c = 0 \<or> sessId c = 1")
    case True
    then show ?thesis using Cons by auto
  next
    case False
    show ?thesis
      using Cons.prems False by (intro Cons.IH) (auto simp: session_ok_def newSession_def split: if_splits)
  qed
qed simp

lemma add_sessions_default: "m 1 \<noteq> None \<Longrightarrow> add_sessions cs m 1 = m 1"
  by (induction cs arbitrary: m) auto

lemma NewRanUeContext_fields:
  assumes "NewRanUeContext msin ciph integ k opc opv amf sqn mccv mncv dnn stype sst sd idv extra ue0 = Inr ue"
  obtains suci where "suci_identity mccv mncv msin = Inr suci"
    and "PduSessions ue = Some (add_sessions extra
      [1 \<mapsto> (newSession 1)\<lparr>Dnn := dnn, PduSessionType := (if stype = [] then ''IPv4'' else stype), Sst := sst, Sd := sd\<rparr>])"
    and "aka ue = (SetAuthSubscription k opc opv amf sqn ((aka ue0)\<lparr>CipheringAlgId := ciph, IntegrityAlgId := integ\<rparr>))\<lparr>Supi :=
      ''imsi-'' @ mccv @ mncv @ msin\<rparr>"
    and "nas ue = (nas ue0)\<lparr>CipheringAlg := ciph, IntegrityAlg := integ\<rparr>"
    and "StateMM ue = MM5G_NULL" and "StateSM ue = SM5G_PDU_SESSION_INACTIVE" and "Snn ue = deriveSNN mccv mncv"
    and "Suci ue = (case suci of None \<Rightarrow> Suci ue0 | Some x \<Rightarrow> x)" and "UnixConn ue = UnixConn ue0"
proof -
  obtain suci where suci: "suci_identity mccv mncv msin = Inr suci"
    using assms by (cases "suci_identity mccv mncv msin") (simp_all add: NewRanUeContext_def Let_def)
  have ue: "ue = (case NewRanUeContext msin ciph integ k opc opv amf sqn mccv mncv dnn stype sst sd idv extra ue0 of Inr u \<Rightarrow> u)"
    using assms by simp
  show thesis
    by (rule that [OF suci]; subst ue; cases suci; simp add: NewRanUeContext_def suci Let_def RegisterUE_def)
qed

lemma NewRanUeContext_inv:
  assumes "NewRanUeContext msin ciph integ k opc opv amf sqn mccv mncv dnn stype sst sd idv extra (zeroUE me reg) = Inr ue"
  shows "ue_inv ue"
  using assms
proof (rule NewRanUeContext_fields)
  let ?d = "[1 \<mapsto> (newSession 1)\<lparr>Dnn := dnn, PduSessionType := (if stype = [] then ''IPv4'' else stype), Sst := sst, Sd := sd\<rparr>]"
  assume m: "PduSessions ue = Some (add_sessions extra ?d)"
    and a: "aka ue = (SetAuthSubscription k opc opv amf sqn ((aka (zeroUE me reg))\<lparr>CipheringAlgId := ciph,
      IntegrityAlgId := integ\<rparr>))\<lparr>Supi := ''imsi-'' @ mccv @ mncv @ msin\<rparr>"
    and n: "nas ue = (nas (zeroUE me reg))\<lparr>CipheringAlg := ciph, IntegrityAlg := integ\<rparr>"
    and st: "StateMM ue = MM5G_NULL" "StateSM ue = SM5G_PDU_SESSION_INACTIVE"
  have d: "\<forall>i s. ?d i = Some s \<longrightarrow> session_ok i s"
    by (auto simp: session_ok_def newSession_def split: if_splits)
  have "add_sessions extra ?d 1 \<noteq> None"
    by (subst add_sessions_default) simp_all
  then have "sessions_ok ue"
    using add_sessions_ok [OF d, of extra] unfolding sessions_ok_def session_map_def m option.case by blast
  moreover have "keys_agree ue"
    by (simp add: keys_agree_def a n SetAuthSubscription_def zeroUE_def)
  ultimately show ?thesis by (simp add: ue_inv_def st)
qed

lemma SetupPduSession_inv [keeps]: "ue_inv ue \<Longrightarrow> ue_inv (SetupPduSession order i dnn stype sst sd ue)"
  unfolding SetupPduSession_def by (rule update_session_inv) (auto simp: session_ok_def Let_def)

lemma ue_reach_inv: "ue_reach env ue \<Longrightarrow> ue_inv ue"
  by (induction rule: ue_reach.induct)
    (auto simp: InitRegistration_def NewRanUeContext_inv intro: DispatchState_inv intro!: keeps)

text \<open>
  C13: in every state the UE can reach, each session is stored under its own identifier in one of the
  three session states, the default session exists, the registration state is one of the four the
  handlers use, message protection uses the algorithms and the keys of the last authentication, and
  the session state of the UE as a whole never says that a session is active.
\<close>

theorem ue_states_sound:
  assumes "ue_reach env ue"
  shows "(\<forall>i s. session_map ue i = Some s \<longrightarrow> Id s = i \<and>
      State s \<in> {SM5G_PDU_SESSION_INACTIVE, SM5G_PDU_SESSION_ACTIVE_PENDING, SM5G_PDU_SESSION_ACTIVE}) \<and>
    session_map ue 1 \<noteq> None \<and>
    StateMM ue \<in> {MM5G_NULL, MM5G_DEREGISTERED, MM5G_REGISTERED_INITIATED, MM5G_REGISTERED} \<and>
    KnasEnc (nas ue) = KeyNasEnc (aka ue) \<and> KnasInt (nas ue) = KeyNasInt (aka ue) \<and>
    CipheringAlg (nas ue) = CipheringAlgId (aka ue) \<and> IntegrityAlg (nas ue) = IntegrityAlgId (aka ue) \<and>
    StateSM ue \<noteq> SM5G_PDU_SESSION_ACTIVE"
  using ue_reach_inv [OF assms]
  by (auto simp: ue_inv_def sessions_ok_def session_ok_def keys_agree_def sm_states)

definition demo_new :: "UEContext res" where
  "demo_new = NewRanUeContext ''00000001'' 0 2 (replicate 32 CHR ''4'') (replicate 32 CHR ''e'') [] ''8000'' ''000000000020''
     ''208'' ''93'' ''internet'' [] 1 ''010203'' 1 [] (zeroUE 0 Map.empty)"

lemma demo_new_ok: "\<exists>ue. demo_new = Inr ue"
proof -
  have "case suci_identity ''208'' ''93'' ''00000001'' of Inr _ \<Rightarrow> True | Inl _ \<Rightarrow> False"
    by code_simp
  then show ?thesis
    by (cases "suci_identity ''208'' ''93'' ''00000001''") (simp_all add: demo_new_def NewRanUeContext_def Let_def)
qed

lemma ue_states_sound_witness:
  "\<exists>ue. demo_new = Inr ue \<and> session_map ue 1 \<noteq> None \<and> StateSM ue \<noteq> SM5G_PDU_SESSION_ACTIVE"
proof -
  obtain ue where ue: "demo_new = Inr ue"
    using demo_new_ok by blast
  then have "ue_reach env ue" for env
    unfolding demo_new_def by (rule ue_reach.create)
  from ue_states_sound [OF this] ue show ?thesis by blast
qed

section \<open>Termination\<close>



text \<open>
  The answer to a deregistration by the network is never sent: the UE closes its connection before
  it builds the answer. Nothing is handed to the gNB, whatever the message and the state.
\<close>

theorem deregistration_accept_is_lost:
  "toGnb (HandlerDeregistrationRequestUETerminatedDeregistration env order ue) = toGnb ue \<and>
   UnixConn (HandlerDeregistrationRequestUETerminatedDeregistration env order ue) = None"
proof -
  have e: "toGnb (fst (EncodeNasPduWithSecurity env pdu sht a n u)) = toGnb u \<and>
      UnixConn (fst (EncodeNasPduWithSecurity env pdu sht a n u)) = UnixConn u" for pdu sht a n u
    by (auto simp: EncodeNasPduWithSecurity_def split: sum.splits prod.splits option.splits)
  obtain v x where v: "secured env DeregistrationAcceptMsg (Terminate order ue) = (v, x)" by fastforce
  then have "toGnb v = toGnb ue" and "UnixConn v = None"
    using e [of "enc env DeregistrationAcceptMsg" 2 True False "Terminate order ue"]
    by (auto simp: secured_def Terminate_eq)
  then show ?thesis
    using v by (auto simp: HandlerDeregistrationRequestUETerminatedDeregistration_def SendToGnb_def split: sum.splits)
qed

text \<open>
  An interface that was created but could not be given its address is not recorded: terminating the
  UE does not delete it.
\<close>

lemma failed_setup_leaks_link:
  assumes "session_map ue i = Some s" and "tun s = None" and "linkAdd net = Some l" and "linkUp net"
    and "ueIP s \<noteq> []" and "\<And>a. addIp net a = AddrFails"
  shows "\<exists>s'. session_map (InitDataPlane net order i ip ue) i = Some s' \<and> LinkDel l \<notin> set (session_deletes s')"
proof -
  have "split_comma t \<noteq> []" for t
    by (cases t) (auto split: list.splits)
  then obtain w ws where w: "split_comma (ueIP s) = w # ws"
    by (cases "split_comma (ueIP s)") auto
  show ?thesis
    using assms by (auto simp: InitDataPlane_def plane_session_def update_session_eq GetPduSession_known Let_def w session_deletes_def)
qed

section \<open>Rejections and modifications\<close>

text \<open>Sending leaves the sessions alone.\<close>

lemma session_map_SendToGnb [simp]: "session_map (SendToGnb m ue) = session_map ue"
  by (cases "UnixConn ue") (simp_all add: SendToGnb_def session_map_def)

lemma session_map_secured: "secured env msg ue = (ue', x) \<Longrightarrow> session_map ue' = session_map ue"
  by (auto simp: secured_def EncodeNasPduWithSecurity_def session_map_def split: sum.splits prod.splits option.splits)

lemma session_map_fail:
  "session_map (fail_sessions P msg ue) i =
     map_option (\<lambda>s. if P (State s) then s\<lparr>State := SM5G_PDU_SESSION_INACTIVE, Error := msg\<rparr> else s) (session_map ue i)"
  unfolding fail_sessions_def session_map_map by simp

text \<open>
  A modification command for one session makes every session whose establishment is pending fail:
  after the confirmation is sent the handler goes on to its error branch.
\<close>

theorem modification_fails_pending_sessions:
  assumes "gsmDecode env raw = GsmPlain (ModificationCommand j)" and "5 \<le> length raw" and "raw ! 3 = 203"
    and "secured env (ModificationCompleteMsg j) ue = (ue1, Inr m)" and "session_map ue i = Some s"
    and "State s = SM5G_PDU_SESSION_ACTIVE_PENDING"
  shows "\<exists>ue' s'. HandlerDlNasTransportPduaccept env order raw ue = Inr ue' \<and> session_map ue' i = Some s' \<and>
    State s' = SM5G_PDU_SESSION_INACTIVE \<and> Error s' \<noteq> []"
proof -
  have raw: "raw \<noteq> []" using assms(2) by auto
  have "session_map (SendToGnb m ue1) i = Some s"
    using session_map_secured [OF assms(4)] assms(5) by simp
  then show ?thesis
    using assms raw
    by (simp add: HandlerDlNasTransportPduaccept_def GetNasPduFromPduAccept_def gsm_of_def gsm_type_def raw_fallback_def
        session_map_fail)
qed

definition demo_env :: ue_env where
  "demo_env = \<lparr>blockCipher = (\<lambda>_ b. b), cmacOf = (\<lambda>_ _. replicate 16 0), hmacOf = (\<lambda>_ _. replicate 32 0), enc = (\<lambda>_. [1]),
     recode = (\<lambda>b. Inr (Inr b)), gsmDecode = (\<lambda>b. if length b \<ge> 5 then GsmPlain (ModificationCommand (b ! 1)) else BadPlain),
     gmmDecode = (\<lambda>_. \<lparr>fRand = [], fAutn = [], fNgKsi = 0, fRinmr = None, fGuti = Some (1, 2, 3, [1, 2, 3, 4]), fAllowed = None,
       fCause = 0, fContainer = []\<rparr>)\<rparr>"

definition demo_pending :: UEContext where
  "demo_pending = (zeroUE 0 Map.empty)\<lparr>nas := \<lparr>CipheringAlg = 0, IntegrityAlg = 2, KnasEnc = replicate 16 0,
     KnasInt = replicate 16 0, ULCount = 0, DLCount = 0\<rparr>,
     PduSessions := Some [1 \<mapsto> newSession 1, 2 \<mapsto> (newSession 2)\<lparr>State := SM5G_PDU_SESSION_ACTIVE_PENDING\<rparr>]\<rparr>"

lemma demo_secured: "\<exists>v m. secured demo_env msg demo_pending = (v, Inr m)"
  by (simp add: secured_def EncodeNasPduWithSecurity_def demo_env_def demo_pending_def NASEncode_def NASEncrypt_def
      NASMacCalculate_def NIA2_def zeroUE_def Let_def)

lemma modification_fails_pending_sessions_witness:
  "\<exists>ue' s'. HandlerDlNasTransportPduaccept demo_env [1, 2] [0x2e, 1, 0, 203, 0] demo_pending = Inr ue' \<and>
     session_map ue' 2 = Some s' \<and> State s' = SM5G_PDU_SESSION_INACTIVE \<and> Error s' \<noteq> []"
proof -
  obtain v m where v: "secured demo_env (ModificationCompleteMsg 1) demo_pending = (v, Inr m)"
    using demo_secured by blast
  show ?thesis
    by (rule modification_fails_pending_sessions [where s = "(newSession 2)\<lparr>State := SM5G_PDU_SESSION_ACTIVE_PENDING\<rparr>", OF _ _ _ v])
      (simp_all add: demo_env_def demo_pending_def session_map_def newSession_def)
qed

section \<open>Establishing the configured sessions\<close>

text \<open>
  Each message that configures the data plane of one session makes the UE request the next inactive
  one. \<open>inactive\<close> are the sessions not yet requested.
\<close>

definition inactive :: "UEContext \<Rightarrow> u8 set" where
  "inactive ue = {i. \<exists>s. session_map ue i = Some s \<and> State s = SM5G_PDU_SESSION_INACTIVE}"

lemma finite_inactive [simp]: "finite (inactive ue)"
  by (rule finite)

lemma first_inactive_spec:
  "(\<exists>k \<in> set order. \<exists>s. m k = Some s \<and> State s = SM5G_PDU_SESSION_INACTIVE) \<Longrightarrow>
   \<exists>s. m (first_inactive order m) = Some s \<and> State s = SM5G_PDU_SESSION_INACTIVE"
  by (induction order) (auto split: option.splits)

lemma first_inactive_none:
  "(\<And>k s. m k = Some s \<Longrightarrow> State s \<noteq> SM5G_PDU_SESSION_INACTIVE) \<Longrightarrow> first_inactive order m = 0"
  by (induction order) (auto split: option.splits)

text \<open>
  A UE with the algorithms \<^verbatim>\<open>RegistrationUe\<close> gives it, NEA0 and NIA2, and a codec that reads back what it
  builds.
\<close>

definition can_send :: "ue_env \<Rightarrow> UEContext \<Rightarrow> bool" where
  "can_send env ue \<longleftrightarrow> CipheringAlg (nas ue) = 0 \<and> IntegrityAlg (nas ue) = 2 \<and>
     (\<forall>msg. \<exists>p. recode env (enc env msg) = Inr (Inr p)) \<and> (\<forall>key m. 4 \<le> length (cmacOf env key m))"

lemma secured_can_send:
  assumes "can_send env ue"
  shows "\<exists>v m. secured env msg ue = (v, Inr m) \<and> can_send env v"
proof -
  obtain p where p: "recode env (enc env msg) = Inr (Inr p)"
    using assms unfolding can_send_def by blast
  have cmac: "\<not> length (cmacOf env key m) < 4" for key m
    using assms by (auto simp: can_send_def not_less)
  have "\<exists>v m. secured env msg ue = (v, Inr m)"
    using assms p cmac
    by (auto simp: secured_def EncodeNasPduWithSecurity_def NASEncode_def NASEncrypt_def NASMacCalculate_def NIA2_def can_send_def Let_def)
  then obtain v m where v: "secured env msg ue = (v, Inr m)" by blast
  then have "CipheringAlg (nas v) = CipheringAlg (nas ue) \<and> IntegrityAlg (nas v) = IntegrityAlg (nas ue)"
    by (auto simp: secured_def EncodeNasPduWithSecurity_def split: sum.splits prod.splits option.splits dest!: NASEncode_keys)
  then show ?thesis using v assms by (auto simp: can_send_def)
qed

lemma triggerNext_inactive:
  assumes "dom (session_map ue) \<subseteq> set order" and "session_map ue 0 = None" and "can_send env ue"
  shows "can_send env (triggerNextPduSession env order ue) \<and>
    dom (session_map (triggerNextPduSession env order ue)) = dom (session_map ue) \<and>
    (if inactive ue = {} then inactive (triggerNextPduSession env order ue) = {}
     else \<exists>k \<in> inactive ue. inactive (triggerNextPduSession env order ue) = inactive ue - {k})"
proof (cases "inactive ue = {}")
  case True
  then have "first_inactive order (session_map ue) = 0"
    by (intro first_inactive_none) (auto simp: inactive_def)
  then show ?thesis using True assms(3) by (simp add: triggerNextPduSession_def)
next
  case False
  let ?k = "first_inactive order (session_map ue)"
  have "\<exists>k \<in> set order. \<exists>s. session_map ue k = Some s \<and> State s = SM5G_PDU_SESSION_INACTIVE"
    using False assms(1) by (auto simp: inactive_def dom_def)
  from first_inactive_spec [OF this] obtain s where s: "session_map ue ?k = Some s" "State s = SM5G_PDU_SESSION_INACTIVE"
    by blast
  then have k0: "?k \<noteq> 0" using assms(2) by auto
  have "can_send env (snd (GetPduSession order ?k ue))"
    using assms(3) by (simp add: GetPduSession_snd can_send_def)
  then obtain v m where v: "UlNasTransport env order ?k 1 ue = (v, Inr m)" "can_send env v"
    using secured_can_send by (cases "GetPduSession order ?k ue") (fastforce simp: UlNasTransport_def)
  have "session_map v = session_map (snd (GetPduSession order ?k ue))"
    using v(1) by (cases "GetPduSession order ?k ue") (auto simp: UlNasTransport_def dest: session_map_secured)
  then have sv: "session_map v = session_map ue"
    using s(1) by (simp add: GetPduSession_snd GetPduSession_known fun_upd_idem)
  have m: "session_map (triggerNextPduSession env order ue) =
      (session_map ue)(?k \<mapsto> s\<lparr>State := SM5G_PDU_SESSION_ACTIVE_PENDING\<rparr>)"
    using k0 v(1) s(1) sv by (simp add: triggerNextPduSession_def Let_def update_session_eq GetPduSession_known)
  have "inactive (triggerNextPduSession env order ue) = inactive ue - {?k}"
    by (auto simp: inactive_def m sm_states)
  moreover have "?k \<in> inactive ue" using s by (auto simp: inactive_def)
  moreover have "can_send env (triggerNextPduSession env order ue)"
    using k0 v by (simp add: triggerNextPduSession_def Let_def update_session_eq can_send_def SendToGnb_def split: option.splits)
  ultimately show ?thesis using False s(1) by (auto simp: m)
qed

lemma InitDataPlane_sessions:
  assumes "session_map ue i = Some s"
  shows "dom (session_map (InitDataPlane net order i ip ue)) = dom (session_map ue) \<and>
    inactive (InitDataPlane net order i ip ue) = inactive ue \<and> nas (InitDataPlane net order i ip ue) = nas ue"
  using assms plane_session_keeps [of net ip s]
  by (auto simp: InitDataPlane_def update_session_eq GetPduSession_known inactive_def split: if_splits)

definition configure_session :: "ue_env \<Rightarrow> net_env \<Rightarrow> (nat \<Rightarrow> nat option) \<Rightarrow> u8 list \<Rightarrow> u8 \<times> u8 list \<Rightarrow> UEContext \<Rightarrow> UEContext" where
  "configure_session env net attempt order m ue =
     (case DispatchState env net attempt order (fst m # snd m) ue of Inr ue' \<Rightarrow> ue' | Inl _ \<Rightarrow> ue)"


definition demo_net :: net_env where
  "demo_net = \<lparr>linkAdd = None, linkUp = False, addIp = (\<lambda>_. BadIp)\<rparr>"

definition demo_sessions :: UEContext where
  "demo_sessions = demo_pending\<lparr>PduSessions := Some [1 \<mapsto> newSession 1, 2 \<mapsto> newSession 2]\<rparr>"

lemma demo_sessions_inactive: "inactive demo_sessions = {1, 2}"
  by (auto simp: inactive_def demo_sessions_def newSession_def)


section \<open>Unprotected and incomplete messages\<close>

text \<open>
  A registration accept without any protection registers the UE, from every state: a UE that was
  never authenticated ends up registered.
\<close>

theorem plain_registration_accept_registers:
  assumes "fGuti (gmmDecode env ([0x7e, 0, 66] @ rest)) \<noteq> None" and "Sst (PduSession ue) \<noteq> 0"
  shows "\<exists>ue'. DispatchState env net attempt order ([0x7e, 0, 66] @ rest) ue = Inr ue' \<and> StateMM ue' = MM5G_REGISTERED"
proof -
  have keep: "StateMM (fst (secured env msg u)) = StateMM u" for msg u
    by (auto simp: secured_def EncodeNasPduWithSecurity_def split: sum.splits prod.splits option.splits)
  have fin: "StateMM (finish_registration env order u) = StateMM u" for u
  proof -
    obtain v x where v: "secured env RegistrationCompleteMsg u = (v, x)" by fastforce
    have send: "StateMM (SendToGnb m w) = StateMM w" for m w
      by (simp add: SendToGnb_def split: option.splits)
    have ul: "StateMM (fst (UlNasTransport env order psi 1 w)) = StateMM w" for psi w
      using GetPduSession_snd [of order psi w]
      by (cases "GetPduSession order psi w") (simp add: UlNasTransport_def keep)
    show ?thesis
    proof (cases x)
      case (Inl e)
      then show ?thesis using v keep [of RegistrationCompleteMsg u] by (simp add: finish_registration_def)
    next
      case (Inr m)
      let ?psi = "Id (PduSession (SendToGnb m v))"
      obtain w y where w: "UlNasTransport env order ?psi 1 (SendToGnb m v) = (w, y)" by fastforce
      then show ?thesis
        using v Inr keep [of RegistrationCompleteMsg u] ul [of ?psi "SendToGnb m v"]
        by (simp add: finish_registration_def Let_def send SetPduSessionPending_def update_session_eq split: sum.split)
    qed
  qed
  have "dispatch_security (blockCipher env) (cmacOf env) (nas ue) (Some (0x7e # 0 # 66 # rest)) = (nas ue, Delivered (0x7e # 0 # 66 # rest))"
    by (simp add: dispatch_security_def)
  then show ?thesis
    using assms fin
    by (auto simp: DispatchState_def receive_nas_def DispatchNas_def gmm_handler_def run_handler_def
        HandlerRegistrationAccept_def Let_def)
qed

lemma plain_registration_accept_registers_witness:
  "\<exists>ue'. DispatchState demo_env demo_net (\<lambda>_. None) [1, 2] ([0x7e, 0, 66] @ [])
     (demo_sessions\<lparr>PduSession := (newSession 1)\<lparr>Sst := 1\<rparr>\<rparr>) = Inr ue' \<and> StateMM ue' = MM5G_REGISTERED"
  by (rule plain_registration_accept_registers) (simp_all add: demo_env_def)

text \<open>Optional information elements that the handlers read without a check.\<close>

lemma absent_elements_crash:
  "HandlerSecurityModeCommand env ngKsi None ue = Inl Panic"
  "HandlerRegistrationAccept env order None allowed ue = Inl Panic"
  by (simp_all add: HandlerSecurityModeCommand_def HandlerRegistrationAccept_def)

text \<open>
  The slice the network allows is stored in the context, but the request for the default session is
  built from the session map, which keeps its own slice.
\<close>

lemma allowed_slice_not_requested:
  "session_map ue 1 = Some s \<Longrightarrow>
   UlNasTransport env order 1 1 (ue\<lparr>PduSession := (PduSession ue)\<lparr>Sst := sst, Sd := sd\<rparr>\<rparr>) =
   secured env (EstablishmentRequestMsg 1 1 (Dnn s) (Sst s) (Sd s) (PduSessionType s))
     (ue\<lparr>PduSession := (PduSession ue)\<lparr>Sst := sst, Sd := sd\<rparr>, PduSessions := Some (session_map ue)\<rparr>)"
  by (simp add: UlNasTransport_def GetPduSession_def session_map_def)

text \<open>The text of a slice differentiator is six digits only when each byte is below 16.\<close>

lemma allowed_sd_length:
  "length (''0'' @ hex_short a @ ''0'' @ hex_short b @ ''0'' @ hex_short c) = 6 \<longleftrightarrow> unat a < 16 \<and> unat b < 16 \<and> unat c < 16"
  by (simp add: hex_short_def hex_byte_def)

end
