(* ===== verification/Handover.thy ===== *)
theory Handover
  imports Gnb_Nas Ue_Machine
begin

text \<open>
  The N2 handover of a UE from one gNB to another, across the UE and both gNBs: the request to the
  target, the command of the source to the UE, the access of the UE to the target, and the traffic of
  the UE after that.
\<close>

section \<open>Looking for a UE\<close>

lemma find_ue_unique:
  assumes "k \<in> set ks" and "uePool (gnb st) k = Some r" and "P (ue_at r st)"
    and "\<And>k' r'. uePool (gnb st) k' = Some r' \<Longrightarrow> P (ue_at r' st) \<Longrightarrow> k' = k"
  shows "find_ue ks P st = Some k"
  using assms(1)
proof (induction ks)
  case (Cons k' ks)
  show ?case
  proof (cases "k' = k")
    case True
    then show ?thesis using assms(2,3) by simp
  next
    case False
    then have "uePool (gnb st) k' = Some r' \<Longrightarrow> \<not> P (ue_at r' st)" for r'
      using assms(4) by blast
    then show ?thesis using Cons False by (auto split: option.split)
  qed
qed simp

lemma NewGnBUe_fields:
  "\<exists>ue. ues (snd (NewGnBUe order conn g)) = (ues g)(nextRef g \<mapsto> ue) \<and> ranUeNgapId ue = idUeGenerator g \<and>
     unixSocketConnection ue = conn \<and> amfUeNgapId ue = 0 \<and> sourceAmfUeNgapId ue = 0 \<and> ueState ue = 0 \<and>
     pduSessions ue = None \<and> lenSlice (pduSession ue) = 0"
  by (auto simp: NewGnBUe_def getRanUeId_def GetUeTeid_def getRanUeIp_def SetAmfUeId_def Let_def zeroUe_def zeroSession_def
      split: option.splits)

lemma range_amf_found: "k \<in> set ks \<Longrightarrow> pool k \<noteq> None \<Longrightarrow> range_amf ks (\<lambda>_. True) pool \<noteq> None"
  by (induction ks) (auto split: option.splits)

lemma NewGnBUe_found:
  "k \<in> set order \<Longrightarrow> amfPool g k \<noteq> None \<Longrightarrow> fst (NewGnBUe order conn g) = Some (nextRef g)"
  using range_amf_found [of k order "amfPool g"] by (auto simp: NewGnBUe_simps)

lemma uint64_at_bytes: "- (2 ^ 63) \<le> v \<Longrightarrow> v < 2 ^ 63 \<Longrightarrow> uint64_at 2 ([a, b] @ be64_bytes (word_of_int v)) = v"
  by (simp add: uint64_at_def be64_int_def be64_round_trip signed_take_bit_int_eq_self sint_sbintrunc')

lemma CreatePduSession_no_slices:
  assumes "lenSlice (pduSession ue) = 0"
  shows "CreatePduSession psi a b pt q arp fqi ul ip dl ue = Inr (''Slice was not found'', ue\<lparr>
     pduSession := (pduSession ue)\<lparr>pduSessionId := psi, pduType := pt, qosId := q, priArp := arp, fiveQi := fqi, uplinkTeid := ul,
       downlinkTeid := dl, ranUeIP := ip\<rparr>,
     pduSessions := (if pduSessions ue = None then Some Map.empty else pduSessions ue)\<rparr>)"
  using assms by (simp add: CreatePduSession_def pduSessionNssai_def Let_def)

section \<open>The target prepares\<close>

text \<open>The target holds one context for the UE the AMF calls \<open>v\<close>, under the identifier \<open>k\<close>.\<close>

definition prepared :: "int \<Rightarrow> int \<Rightarrow> nat \<Rightarrow> ngap_state \<Rightarrow> bool" where
  "prepared v k r st \<longleftrightarrow> uePool (gnb st) k = Some r \<and> ranUeNgapId (ue_at r st) = k \<and> amfUeNgapId (ue_at r st) = v \<and>
     k < idUeGenerator (gnb st) \<and> (\<forall>k' r'. uePool (gnb st) k' = Some r' \<longrightarrow> r' < nextRef (gnb st)) \<and>
     (\<forall>k' r'. uePool (gnb st) k' = Some r' \<longrightarrow> amfUeNgapId (ue_at r' st) = v \<or> sourceAmfUeNgapId (ue_at r' st) = v \<longrightarrow> k' = k)"

definition unknown :: "int \<Rightarrow> ngap_state \<Rightarrow> bool" where
  "unknown v st \<longleftrightarrow> (\<forall>k r. uePool (gnb st) k = Some r \<longrightarrow> amfUeNgapId (ue_at r st) \<noteq> v \<and> sourceAmfUeNgapId (ue_at r st) \<noteq> v)"

definition unused :: "nat \<Rightarrow> ngap_state \<Rightarrow> bool" where
  "unused c st \<longleftrightarrow> (\<forall>k r. uePool (gnb st) k = Some r \<longrightarrow> unixSocketConnection (ue_at r st) \<noteq> Some c)"

lemma ho_ies_mock: "ho_ies (GetHandoverRequest ranv v psi) a = Inr (a\<lparr>hoAmf := v, hoSession := psi\<rparr>)"
  by (simp add: GetHandoverRequest_def)


lemma set_amf_ue_id_silent:
  "unixSocketConnection (ue_at r st) = None \<Longrightarrow> set_amf_ue_id r v st = put_ue r ((ue_at r st)\<lparr>amfUeNgapId := v\<rparr>) st"
  by (simp add: set_amf_ue_id_def SetAmfUeId_def put_ue_def)

lemma put_ue_twice [simp]: "put_ue r a (put_ue r b st) = put_ue r a st"
  by (simp add: put_ue_def)

lemma HandlerHandoverRequest_eq:
  assumes "kA \<in> set (amfOrder env)" and "amfPool (gnb st) kA \<noteq> None" and "\<forall>m. builds env m"
  shows "\<exists>ue d. amfUeNgapId ue = v \<and> sourceAmfUeNgapId ue = 0 \<and> ranUeNgapId ue = idUeGenerator (gnb st) \<and>
    unixSocketConnection ue = None \<and>
    HandlerHandoverRequest env (GetHandoverRequest srcRan v psi) st =
      Inr (to_amf (sctpConnection ue) (HandoverRequestAcknowledge (ranUeNgapId ue) v psi d 1)
        (put_ue (nextRef (gnb st)) ue (st\<lparr>gnb := snd (NewGnBUe (amfOrder env) None (gnb st))\<rparr>)))"
proof -
  let ?r = "nextRef (gnb st)"
  obtain g where n: "NewGnBUe (amfOrder env) None (gnb st) = (Some ?r, g)"
    using NewGnBUe_found [OF assms(1,2)] by (metis prod.collapse)
  obtain u where u: "ues g = (ues (gnb st))(?r \<mapsto> u)" "ranUeNgapId u = idUeGenerator (gnb st)" "unixSocketConnection u = None"
      "sourceAmfUeNgapId u = 0" "lenSlice (pduSession u) = 0"
    using NewGnBUe_fields [of "amfOrder env" None "gnb st"] by (auto simp: n)
  have at: "ue_at ?r (st\<lparr>gnb := g\<rparr>) = u"
    by (simp add: ue_at_def u(1))
  let ?u = "u\<lparr>amfUeNgapId := v, ueState := 1\<rparr>"
  let ?c = "CreatePduSession (uint psi) ''01'' ''010203'' 1 1 1 1 (downlinkTeid (pduSession ?u)) (ranUeIP (pduSession ?u)) 0 ?u"
  obtain w where c: "?c = Inr (''Slice was not found'', w)" and w: "amfUeNgapId w = v" "sourceAmfUeNgapId w = 0"
      "ranUeNgapId w = ranUeNgapId u" "unixSocketConnection w = None"
    using CreatePduSession_no_slices [of ?u] u(3,4,5) by simp
  have sa: "set_amf_ue_id ?r v (st\<lparr>gnb := g\<rparr>) = put_ue ?r (u\<lparr>amfUeNgapId := v\<rparr>) (st\<lparr>gnb := g\<rparr>)"
    using set_amf_ue_id_silent at u(3) by simp
  have "HandlerHandoverRequest env (GetHandoverRequest srcRan v psi) st =
      Inr (to_amf (sctpConnection w) (HandoverRequestAcknowledge (ranUeNgapId w) v psi (downlinkTeid (pduSession w)) 1)
        (put_ue ?r w (st\<lparr>gnb := g\<rparr>)))"
    using c assms(3) by (simp add: HandlerHandoverRequest_def ho_ies_mock n sa Let_def)
  then show ?thesis
    using u(2) w unfolding n snd_conv by (intro exI [of _ w] exI [of _ "downlinkTeid (pduSession w)"]) simp
qed


lemma ue_at_same_ues: "ues (gnb st) r = ues (gnb st') r \<Longrightarrow> ue_at r st = ue_at r st'"
  by (simp add: ue_at_def)

lemma to_amf_view [simp]:
  "ueOut (to_amf c m st) = ueOut st" "amfOut (to_amf c m st) = amfOut st @ [(c, m)]" "ue_at r (to_amf c m st) = ue_at r st"
  by (simp_all add: to_amf_def ue_at_def)

lemma pool_ref_below: "gnb_ok n g \<Longrightarrow> uePool g k = Some r \<Longrightarrow> r < nextRef g \<and> k < idUeGenerator g"
  unfolding gnb_ok_def by blast

lemma mock_request_prepares:
  assumes ok: "gnb_ok n (gnb st)" "n < 2 ^ 63 - 2" and amf: "kA \<in> set (amfOrder env)" "amfPool (gnb st) kA \<noteq> None"
    and b: "\<forall>m. builds env m" and new: "unknown v st" "unused c st" and k: "idUeGenerator (gnb st) \<in> set (ueOrder env)"
  shows "\<exists>st'. mock_request env srcRan v psi st = Inr (True, st') \<and>
    prepared v (idUeGenerator (gnb st)) (nextRef (gnb st)) st' \<and> unused c st' \<and> ueOut st' = ueOut st \<and>
    idUeGenerator (gnb st') = idUeGenerator (gnb st) + 1 \<and> amfPool (gnb st') = amfPool (gnb st)"
proof -
  let ?r = "nextRef (gnb st)" and ?k = "idUeGenerator (gnb st)"
  obtain ue d where ue: "amfUeNgapId ue = v" "sourceAmfUeNgapId ue = 0" "ranUeNgapId ue = ?k" "unixSocketConnection ue = None"
    and eq: "HandlerHandoverRequest env (GetHandoverRequest srcRan v psi) st =
      Inr (to_amf (sctpConnection ue) (HandoverRequestAcknowledge (ranUeNgapId ue) v psi d 1)
        (put_ue ?r ue (st\<lparr>gnb := snd (NewGnBUe (amfOrder env) None (gnb st))\<rparr>)))"
    using HandlerHandoverRequest_eq [OF amf b] by blast
  define st' where "st' = to_amf (sctpConnection ue) (HandoverRequestAcknowledge (ranUeNgapId ue) v psi d 1)
        (put_ue ?r ue (st\<lparr>gnb := snd (NewGnBUe (amfOrder env) None (gnb st))\<rparr>))"
  have pool: "uePool (gnb st') = (uePool (gnb st))(?k \<mapsto> ?r)" and gen: "idUeGenerator (gnb st') = ?k + 1"
    and nxt: "nextRef (gnb st') = ?r + 1"
    using ok by (simp_all add: st'_def NewGnBUe_simps put_ue_def gnb_ok_def i64_id)
  have at: "ue_at ?r st' = ue"
    by (simp add: st'_def)
  have old: "ue_at r st' = ue_at r st" and below: "r < ?r" if "uePool (gnb st) k = Some r" for k r
  proof -
    show "r < ?r" using pool_ref_below [OF ok(1) that] by blast
    then show "ue_at r st' = ue_at r st"
      using NewGnBUe_fields [of "amfOrder env" None "gnb st"] by (auto simp: st'_def ue_at_def)
  qed
  have prep: "prepared v ?k ?r st'"
    unfolding prepared_def pool gen nxt
    using at ue new(1) old below by (fastforce simp: unknown_def split: if_splits)
  have "unused c st'"
    unfolding unused_def pool
    using at ue new(2) old by (fastforce simp: unused_def split: if_splits)
  moreover have "find_ue (ueOrder env) (\<lambda>u. amfUeNgapId u = v) st' = Some ?k"
    using prep k by (intro find_ue_unique [where r = ?r]) (auto simp: prepared_def)
  ultimately show ?thesis
    using prep ok(1) gen eq unfolding mock_request_def st'_def [symmetric]
    by (intro exI [of _ st']) (auto simp: st'_def gnb_ok_def NewGnBUe_simps put_ue_def)
qed


section \<open>The UE accesses the target\<close>

lemma accepted_ue:
  fixes order :: "int list"
  assumes "prepared v k r st" and "unused c st" and "v \<noteq> 0"
  defines "st2 \<equiv> st\<lparr>gnb := snd (NewGnBUe order (Some c) (gnb st))\<rparr>"
  shows "uePool (gnb st2) = (uePool (gnb st))(idUeGenerator (gnb st) \<mapsto> nextRef (gnb st))"
    and "unixSocketConnection (ue_at (nextRef (gnb st)) st2) = Some c" and "ueState (ue_at (nextRef (gnb st)) st2) = 0"
    and "ranUeNgapId (ue_at (nextRef (gnb st)) st2) = idUeGenerator (gnb st)"
    and "amfUeNgapId (ue_at (nextRef (gnb st)) st2) = 0" and "sourceAmfUeNgapId (ue_at (nextRef (gnb st)) st2) = 0"
    and "uePool (gnb st) k' = Some r' \<Longrightarrow> ue_at r' st2 = ue_at r' st \<and> r' \<noteq> nextRef (gnb st)"
proof -
  obtain u where u: "ues (gnb st2) = (ues (gnb st))(nextRef (gnb st) \<mapsto> u)" "ranUeNgapId u = idUeGenerator (gnb st)"
      "unixSocketConnection u = Some c" "amfUeNgapId u = 0" "sourceAmfUeNgapId u = 0" "ueState u = 0"
    using NewGnBUe_fields [of order "Some c" "gnb st"] by (auto simp: st2_def)
  show "uePool (gnb st2) = (uePool (gnb st))(idUeGenerator (gnb st) \<mapsto> nextRef (gnb st))"
    by (simp add: st2_def NewGnBUe_simps)
  have at: "ue_at (nextRef (gnb st)) st2 = u"
    by (simp add: ue_at_def u(1))
  show "unixSocketConnection (ue_at (nextRef (gnb st)) st2) = Some c" "ueState (ue_at (nextRef (gnb st)) st2) = 0"
    "ranUeNgapId (ue_at (nextRef (gnb st)) st2) = idUeGenerator (gnb st)"
    "amfUeNgapId (ue_at (nextRef (gnb st)) st2) = 0" "sourceAmfUeNgapId (ue_at (nextRef (gnb st)) st2) = 0"
    by (simp_all add: at u)
  assume "uePool (gnb st) k' = Some r'"
  then have "r' < nextRef (gnb st)"
    using assms(1) by (simp add: prepared_def)
  then show "ue_at r' st2 = ue_at r' st \<and> r' \<noteq> nextRef (gnb st)"
    by (simp add: ue_at_def u(1))
qed

lemma target_access:
  fixes order :: "int list"
  assumes prep: "prepared v k r st" and free: "unused c st" and v: "v \<noteq> 0" "- (2 ^ 63) \<le> v" "v < 2 ^ 63"
    and ks: "k \<in> set (ueOrder env)" "idUeGenerator (gnb st) \<in> set (ueOrder env)" and b: "\<forall>m. builds env m"
  defines "st2 \<equiv> st\<lparr>gnb := snd (NewGnBUe order (Some c) (gnb st))\<rparr>"
  defines "ue \<equiv> (ue_at r st)\<lparr>unixSocketConnection := Some c, ueState := 2\<rparr>"
  shows "processingConn env (nextRef (gnb st)) c ([0x00, 0x04] @ be64_bytes (word_of_int v)) st2 =
    Inr (to_amf (sctpConnection ue) (HandoverNotify k v)
      ((put_ue r ue st2)\<lparr>gnb := DeleteGnBUe (idUeGenerator (gnb st)) (gnb (put_ue r ue st2))\<rparr>))"
proof -
  let ?k = "idUeGenerator (gnb st)" and ?r = "nextRef (gnb st)" and ?m = "[0x00, 0x04] @ be64_bytes (word_of_int v)"
  note acc = accepted_ue [OF prep free v(1), where order = order, folded st2_def]
  have k: "uePool (gnb st) k = Some r" "ranUeNgapId (ue_at r st) = k" "amfUeNgapId (ue_at r st) = v" "k \<noteq> ?k"
    using prep by (auto simp: prepared_def)
  have conn: "find_ue (ueOrder env) (\<lambda>u. unixSocketConnection u = Some c) st2 = Some ?k"
  proof (rule find_ue_unique [OF ks(2), where r = ?r])
    show "k' = ?k" if "uePool (gnb st2) k' = Some r'" "unixSocketConnection (ue_at r' st2) = Some c" for k' r'
      using that acc(1) acc(7) [of k' r'] free by (auto simp: unused_def split: if_splits)
  qed (simp_all add: acc(1,2))
  have found: "find_ue (ueOrder env) (\<lambda>u. amfUeNgapId u = v \<or> sourceAmfUeNgapId u = v) st2 = Some k"
  proof (rule find_ue_unique [OF ks(1), where r = r])
    show "uePool (gnb st2) k = Some r" using acc(1) k by simp
    show "amfUeNgapId (ue_at r st2) = v \<or> sourceAmfUeNgapId (ue_at r st2) = v" using acc(7) [OF k(1)] k(3) by simp
    show "k' = k" if "uePool (gnb st2) k' = Some r'" "amfUeNgapId (ue_at r' st2) = v \<or> sourceAmfUeNgapId (ue_at r' st2) = v" for k' r'
    proof (cases "k' = ?k")
      case True
      then have "r' = ?r" using that(1) by (simp add: acc(1))
      then show ?thesis using that(2) v(1) by (simp add: acc(5,6))
    next
      case False
      then have old: "uePool (gnb st) k' = Some r'" using that(1) by (simp add: acc(1))
      then show ?thesis using that(2) prep acc(7) [OF old] unfolding prepared_def by metis
    qed
  qed
  have at: "ue_at r st2 = ue_at r st" "r \<noteq> ?r" and pool: "the (uePool (gnb st2) k) = r" "the (uePool (gnb st2) ?k) = ?r"
    using acc(1) acc(7) [OF k(1)] k by auto
  have id: "uint64_at 2 ?m = v"
    by (rule uint64_at_bytes [OF v(2,3)])
  have "handleTargetAccessTrigger env ?r ?m st2 = Some (Inr (to_amf (sctpConnection ue) (HandoverNotify k v)
      ((put_ue r ue st2)\<lparr>gnb := DeleteGnBUe ?k (gnb (put_ue r ue st2))\<rparr>)))"
    unfolding handleTargetAccessTrigger_def id Let_def found option.case pool
    using at k acc(2,4) b by (simp add: ue_def)
  then have "triggers env ?r ?m st2 = Some (Inr (to_amf (sctpConnection ue) (HandoverNotify k v)
      ((put_ue r ue st2)\<lparr>gnb := DeleteGnBUe ?k (gnb (put_ue r ue st2))\<rparr>)))"
    by (simp add: triggers_def handleXnHandoverTrigger_def handleN2HandoverTrigger_def)
  then show ?thesis
    unfolding processingConn_def conn Let_def option.case pool
    by (simp add: NasDispatch_def HandlerUeInitialized_def acc(3))
qed


section \<open>Traffic after the handover\<close>

lemma triggers_nas: "b \<noteq> 0 \<Longrightarrow> triggers env r (b # rest) st = None"
  by (simp add: triggers_def handleXnHandoverTrigger_def handleN2HandoverTrigger_def handleTargetAccessTrigger_def
      handlePathSwitchTrigger_def)

lemma uplink_after_access:
  fixes order :: "int list" and s :: "nat option" and msg :: ngap_msg
  assumes prep: "prepared v k r st" and free: "unused c st" and v: "v \<noteq> 0"
    and ks: "k \<in> set (ueOrder env)" and b: "\<forall>m. builds env m" and nas: "b \<noteq> 0"
  defines "st2 \<equiv> st\<lparr>gnb := snd (NewGnBUe order (Some c) (gnb st))\<rparr>"
  defines "ue \<equiv> (ue_at r st)\<lparr>unixSocketConnection := Some c, ueState := 2\<rparr>"
  defines "st3 \<equiv> to_amf s msg ((put_ue r ue st2)\<lparr>gnb := DeleteGnBUe (idUeGenerator (gnb st)) (gnb (put_ue r ue st2))\<rparr>)"
  shows "processingConn env q c (b # rest) st3 = Inr (to_amf (sctpConnection ue) (UplinkNASTransport v k (b # rest)) st3)"
proof -
  note acc = accepted_ue [OF prep free v, where order = order, folded st2_def]
  have k: "uePool (gnb st) k = Some r" "ranUeNgapId (ue_at r st) = k" "amfUeNgapId (ue_at r st) = v" "k < idUeGenerator (gnb st)"
    using prep by (auto simp: prepared_def)
  have pool: "uePool (gnb st3) k' = (if k' = idUeGenerator (gnb st) then None else uePool (gnb st) k')" for k'
    by (simp add: st3_def DeleteGnBUe_def acc(1))
  have at: "ue_at r st3 = ue"
    by (simp add: st3_def ue_at_def DeleteGnBUe_def)
  have old: "ue_at r' st3 = ue_at r' st" if "uePool (gnb st) k' = Some r'" "r' \<noteq> r" for k' r'
    using that acc(7) [OF that(1)] by (simp add: st3_def ue_at_def DeleteGnBUe_def)
  have conn: "find_ue (ueOrder env) (\<lambda>u. unixSocketConnection u = Some c) st3 = Some k"
  proof (rule find_ue_unique [OF ks, where r = r])
    show "k' = k" if "uePool (gnb st3) k' = Some r'" "unixSocketConnection (ue_at r' st3) = Some c" for k' r'
    proof (cases "r' = r")
      case True
      then have "uePool (gnb st) k' = Some r" using that(1) by (simp add: pool split: if_splits)
      then show ?thesis using prep k(3) unfolding prepared_def by metis
    next
      case False
      then show ?thesis using that free old [of k' r'] by (simp add: pool unused_def split: if_splits)
    qed
  qed (use k in \<open>simp_all add: pool at ue_def\<close>)
  have r: "the (uePool (gnb st3) k) = r" and ue: "ueState ue = 2" "amfUeNgapId ue = v" "ranUeNgapId ue = k"
    using k by (simp_all add: pool ue_def)
  then show ?thesis
    using b unfolding processingConn_def conn Let_def option.case r NasDispatch_def at
    by (simp add: HandlerUeReady_def triggers_nas [OF nas] at Let_def)
qed



definition demo_moving :: UEContext where
  "demo_moving = (zeroUE 0 Map.empty)\<lparr>AmfUeNgapId := 5, UnixConn := Some 7\<rparr>"


end
