(* ===== verification/Chaos.thy ===== *)
theory Chaos
  imports Ue_Machine Complex_Main
begin

text \<open>
  The fault injection of \<^verbatim>\<open>internal/chaos/chaos.go\<close> and the two senders that call it: dropping, delaying and
  mutating messages by rule. Random draws are arguments: \<open>roll\<close> stands for a call of \<^verbatim>\<open>rand.Float64\<close> and
  \<open>pick i n\<close> for the result of the call number \<open>i\<close> of \<^verbatim>\<open>rand.Intn(n)\<close> while one message is handled, which
  is below \<open>n\<close>. Probabilities are the rational numbers their floating point values stand for.
\<close>

unbundle bit_operations_syntax

section \<open>Rules\<close>

record ChaosConfig =
  DropProbability :: rat
  DelayDuration :: int
  TargetMsgType :: string
  ruleEnabled :: bool

record FuzzConfig =
  TargetMsg :: string
  FuzzType :: string
  Probability :: rat
  fuzzEnabled :: bool

record ChaosManager =
  NasRules :: "u8 \<rightharpoonup> ChaosConfig"
  NgapRules :: "string \<rightharpoonup> ChaosConfig"
  DroppedNas :: int
  DelayedNas :: int
  DroppedNgap :: int
  DelayedNgap :: int
  FuzzRule :: FuzzConfig
  FuzzedMsgs :: int

definition GlobalChaosManager :: ChaosManager where
  "GlobalChaosManager = \<lparr>NasRules = Map.empty, NgapRules = Map.empty, DroppedNas = 0, DelayedNas = 0, DroppedNgap = 0, DelayedNgap = 0,
     FuzzRule = \<lparr>TargetMsg = [], FuzzType = [], Probability = 0, fuzzEnabled = False\<rparr>, FuzzedMsgs = 0\<rparr>"

definition ConfigureNas :: "u8 \<Rightarrow> ChaosConfig \<Rightarrow> ChaosManager \<Rightarrow> ChaosManager" where
  "ConfigureNas i c m = m\<lparr>NasRules := (NasRules m)(i \<mapsto> c)\<rparr>"

definition ConfigureNgap :: "string \<Rightarrow> ChaosConfig \<Rightarrow> ChaosManager \<Rightarrow> ChaosManager" where
  "ConfigureNgap g c m = m\<lparr>NgapRules := (NgapRules m)(g \<mapsto> c)\<rparr>"

definition ConfigureFuzz :: "FuzzConfig \<Rightarrow> ChaosManager \<Rightarrow> ChaosManager" where
  "ConfigureFuzz c m = m\<lparr>FuzzRule := c\<rparr>"

definition chaos_Reset :: "ChaosManager \<Rightarrow> ChaosManager" where
  "chaos_Reset m = m\<lparr>NasRules := Map.empty, NgapRules := Map.empty, DroppedNas := 0, DelayedNas := 0, DroppedNgap := 0, DelayedNgap := 0\<rparr>"

definition GetStats :: "ChaosManager \<Rightarrow> (string \<times> int) list" where
  "GetStats m = [(''droppedNas'', DroppedNas m), (''delayedNas'', DelayedNas m), (''droppedNgap'', DroppedNgap m),
     (''delayedNgap'', DelayedNgap m)]"

section \<open>Names of messages\<close>

definition GetLastNasMsgType :: "(u8 \<rightharpoonup> string) \<Rightarrow> u8 \<Rightarrow> string" where
  "GetLastNasMsgType seen i = (case seen i of Some t \<Rightarrow> t | None \<Rightarrow> ''CipheredNAS'')"

definition gmm_names :: "(u8 \<times> string) list" where
  "gmm_names = [(0x41, ''RegistrationRequest''), (0x42, ''RegistrationAccept''), (0x43, ''RegistrationComplete''),
     (0x44, ''RegistrationReject''), (0x45, ''DeregistrationRequest''), (0x46, ''DeregistrationAccept''), (0x54, ''ServiceRequest''),
     (0x56, ''ServiceReject''), (0x57, ''ServiceAccept''), (0x64, ''AuthenticationRequest''), (0x65, ''AuthenticationResponse''),
     (0x67, ''AuthenticationFailure''), (0x68, ''SecurityModeCommand''), (0x69, ''SecurityModeComplete''),
     (0x6a, ''SecurityModeReject''), (0x6e, ''IdentityRequest''), (0x6f, ''IdentityResponse'')]"

definition gsm_names :: "(u8 \<times> string) list" where
  "gsm_names = [(0xc1, ''PduSessionEstablishmentRequest''), (0xc2, ''PduSessionEstablishmentAccept''),
     (0xc3, ''PduSessionEstablishmentReject''), (0xc5, ''PduSessionModificationRequest''), (0xc6, ''PduSessionModificationCommand''),
     (0xc7, ''PduSessionModificationComplete''), (0xca, ''PduSessionReleaseRequest''), (0xcb, ''PduSessionReleaseCommand''),
     (0xcc, ''PduSessionReleaseComplete'')]"

definition GetNasMsgNameFromBytes :: "(u8 \<rightharpoonup> string) \<Rightarrow> u8 list \<Rightarrow> u8 \<Rightarrow> string" where
  "GetNasMsgNameFromBytes seen msg i =
     (if length msg < 3 then ''Unknown''
      else
        let gmm = (if msg ! 0 = 0x7e \<and> msg ! 1 = 0x00 then map_of gmm_names (msg ! 2) else None);
            gsm = (if msg ! 0 = 0x2e \<and> length msg \<ge> 4 then map_of gsm_names (msg ! 3) else None)
        in case gmm of Some n \<Rightarrow> n
           | None \<Rightarrow> (case gsm of Some n \<Rightarrow> n
             | None \<Rightarrow> if msg ! 0 = 0x7e \<and> msg ! 1 \<noteq> 0x00 then GetLastNasMsgType seen i else ''NAS-Message''))"

section \<open>Dropping and delaying\<close>

definition EvalNas :: "rat \<Rightarrow> u8 \<Rightarrow> string \<Rightarrow> ChaosManager \<Rightarrow> (bool \<times> int) \<times> ChaosManager" where
  "EvalNas roll i t m =
     (case NasRules m i of None \<Rightarrow> ((False, 0), m)
      | Some c \<Rightarrow>
          if \<not> ruleEnabled c then ((False, 0), m)
          else if TargetMsgType c \<noteq> [] \<and> TargetMsgType c \<noteq> t then ((False, 0), m)
          else
            let hit = (DropProbability c > 0 \<and> roll < DropProbability c);
                m = (if hit then m\<lparr>DroppedNas := i64 (DroppedNas m + 1)\<rparr> else m)
            in if \<not> hit \<and> DelayDuration c > 0
               then ((hit, DelayDuration c), m\<lparr>DelayedNas := i64 (DelayedNas m + 1)\<rparr>)
               else ((hit, 0), m))"

definition EvalNgap :: "rat \<Rightarrow> string \<Rightarrow> string \<Rightarrow> ChaosManager \<Rightarrow> (bool \<times> int) \<times> ChaosManager" where
  "EvalNgap roll g t m =
     (case NgapRules m g of None \<Rightarrow> ((False, 0), m)
      | Some c \<Rightarrow>
          if \<not> ruleEnabled c then ((False, 0), m)
          else if TargetMsgType c \<noteq> [] \<and> TargetMsgType c \<noteq> t then ((False, 0), m)
          else
            let hit = (DropProbability c > 0 \<and> roll < DropProbability c);
                m = (if hit then m\<lparr>DroppedNgap := i64 (DroppedNgap m + 1)\<rparr> else m)
            in if \<not> hit \<and> DelayDuration c > 0
               then ((hit, DelayDuration c), m\<lparr>DelayedNgap := i64 (DelayedNgap m + 1)\<rparr>)
               else ((hit, 0), m))"

section \<open>Mutating\<close>

text \<open>\<^verbatim>\<open>rand.Intn\<close> panics for an argument that is not positive.\<close>

definition Intn :: "(nat \<Rightarrow> nat \<Rightarrow> nat) \<Rightarrow> nat \<Rightarrow> nat \<Rightarrow> nat res" where
  "Intn pick i n = (if n = 0 then Inl Panic else Inr (pick i n))"

fun flip_bits :: "(nat \<Rightarrow> nat \<Rightarrow> nat) \<Rightarrow> nat \<Rightarrow> nat \<Rightarrow> u8 list \<Rightarrow> u8 list res" where
  "flip_bits pick i 0 m = Inr m"
| "flip_bits pick i (Suc n) m =
     rbind (Intn pick i (length m)) (\<lambda>byteIdx.
     rbind (Intn pick (i + 1) 8) (\<lambda>bitIdx.
       if byteIdx \<ge> length m then Inl Panic
       else flip_bits pick (i + 2) n (m[byteIdx := m ! byteIdx XOR push_bit bitIdx 1])))"

definition zero_range :: "nat \<Rightarrow> nat \<Rightarrow> u8 list \<Rightarrow> u8 list" where
  "zero_range start n m = take start m @ replicate n 0 @ drop (start + n) m"

definition mutate :: "(nat \<Rightarrow> nat \<Rightarrow> nat) \<Rightarrow> u8 list \<Rightarrow> string \<Rightarrow> u8 list \<Rightarrow> u8 list res" where
  "mutate pick junk t m =
     (if t = ''bit_flip'' then
        (if length m > 0 then rbind (Intn pick 0 3) (\<lambda>n. flip_bits pick 1 (n + 1) m) else Inr m)
      else if t = ''truncate'' then
        (if length m > 4 then rbind (Intn pick 0 (length m - 4)) (\<lambda>n. Inr (take (n + 4) m)) else Inr m)
      else if t = ''overflow'' then Inr (m @ junk)
      else if t = ''zero_out'' then
        (if length m > 4 then
           rbind (Intn pick 0 (length m - 2)) (\<lambda>start.
           rbind (Intn pick 1 (length m - start)) (\<lambda>n.
             let n = n + 1; n = (if start + n > length m then length m - start else n)
             in Inr (zero_range start n m)))
         else Inr m)
      else Inr m)"

definition EvalFuzz :: "rat \<Rightarrow> (nat \<Rightarrow> nat \<Rightarrow> nat) \<Rightarrow> u8 list \<Rightarrow> string \<Rightarrow> u8 list \<Rightarrow> ChaosManager \<Rightarrow>
    ((bool \<times> u8 list) \<times> ChaosManager) res" where
  "EvalFuzz roll pick junk t msg m =
     (let rule = FuzzRule m in
      if \<not> fuzzEnabled rule then Inr ((False, msg), m)
      else if TargetMsg rule \<noteq> [] \<and> TargetMsg rule \<noteq> t then Inr ((False, msg), m)
      else if roll \<ge> Probability rule then Inr ((False, msg), m)
      else
        let m = m\<lparr>FuzzedMsgs := i64 (FuzzedMsgs m + 1)\<rparr>
        in rbind (mutate pick junk (FuzzType rule) msg) (\<lambda>b. Inr ((True, b), m)))"

section \<open>The senders\<close>

text \<open>The draws made while one message is sent.\<close>

record draws =
  fuzzRoll :: rat
  dropRoll :: rat
  picks :: "nat \<Rightarrow> nat \<Rightarrow> nat"
  junkBytes :: "u8 list"

definition SendToGnb_hooked :: "draws \<Rightarrow> (u8 \<rightharpoonup> string) \<Rightarrow> u8 list \<Rightarrow> ChaosManager \<times> UEContext \<Rightarrow> (ChaosManager \<times> UEContext) res" where
  "SendToGnb_hooked d seen message s =
     (let (m, ue) = s in
      case UnixConn ue of None \<Rightarrow> Inr (m, ue)
      | Some c \<Rightarrow>
          let t = GetNasMsgNameFromBytes seen message (ueId ue) in
          rbind (EvalFuzz (fuzzRoll d) (picks d) (junkBytes d) t message m) (\<lambda>((_, message), m).
            let ((hit, delay), m) = EvalNas (dropRoll d) (ueId ue) t m
            in Inr (m, if hit then ue else ue\<lparr>toGnb := toGnb ue @ [(c, message)]\<rparr>)))"

text \<open>The registry of gNBs by identifier, with the association of each, traversed in some order.\<close>

fun findGnbId :: "string list \<Rightarrow> (string \<rightharpoonup> nat option) \<Rightarrow> nat \<Rightarrow> string" where
  "findGnbId [] gnbs conn = []"
| "findGnbId (i # l) gnbs conn = (if gnbs i = Some (Some conn) then i else findGnbId l gnbs conn)"

text \<open>What is written is the connection, the stream and the bytes; a write that fails adds an error text only.\<close>

definition sendToAmfOnStream :: "draws \<Rightarrow> string \<Rightarrow> string \<Rightarrow> u8 list \<Rightarrow> nat option \<Rightarrow> u16 \<Rightarrow>
    ChaosManager \<times> (nat \<times> u16 \<times> u8 list) list \<Rightarrow> (string option \<times> ChaosManager \<times> (nat \<times> u16 \<times> u8 list) list) res" where
  "sendToAmfOnStream d g t message conn stream s =
     (case conn of None \<Rightarrow> Inr (Some ''SCTPConn is nil'', s)
      | Some c \<Rightarrow>
          rbind (EvalFuzz (fuzzRoll d) (picks d) (junkBytes d) t message (fst s)) (\<lambda>((_, message), m).
            let ((hit, delay), m) = EvalNgap (dropRoll d) g t m
            in Inr (None, m, if hit then snd s else snd s @ [(c, stream, message)])))"


section \<open>What a mutation may do\<close>

text \<open>What the documentation of \<^verbatim>\<open>rand.Intn\<close> promises.\<close>

definition in_range :: "(nat \<Rightarrow> nat \<Rightarrow> nat) \<Rightarrow> bool" where
  "in_range pick \<longleftrightarrow> (\<forall>i n. 0 < n \<longrightarrow> pick i n < n)"

lemma in_rangeD: "in_range pick \<Longrightarrow> 0 < n \<Longrightarrow> pick i n < n"
  by (simp add: in_range_def)

definition differing :: "u8 list \<Rightarrow> u8 list \<Rightarrow> (nat \<times> nat) set" where
  "differing a b = {(i, j). i < length a \<and> bit (a ! i) j \<noteq> bit (b ! i) j}"

definition mutated :: "string \<Rightarrow> u8 list \<Rightarrow> u8 list \<Rightarrow> u8 list \<Rightarrow> bool" where
  "mutated t junk m b \<longleftrightarrow>
     (if t = ''bit_flip'' then length b = length m \<and> card (differing m b) \<le> 3
      else if t = ''truncate'' then if length m > 4 then 4 \<le> length b \<and> length b < length m \<and> b = take (length b) m else b = m
      else if t = ''overflow'' then b = m @ junk
      else if t = ''zero_out'' then length b = length m \<and> (\<forall>i < length m. b ! i = m ! i \<or> b ! i = 0)
      else b = m)"

lemma finite_differing: "finite (differing a b)"
proof (rule finite_subset)
  show "differing a b \<subseteq> {..< length a} \<times> {..< 8}"
    by (auto simp: differing_def dest: bit_imp_le_length)
qed simp

lemma differing_trans: "length a = length b \<Longrightarrow> differing a c \<subseteq> differing a b \<union> differing b c"
  by (auto simp: differing_def)

lemma differing_flip: "differing m (m[k := m ! k XOR push_bit j 1]) \<subseteq> {(k, j)}"
proof (cases "k < length m")
  case True
  then show ?thesis by (auto simp: differing_def nth_list_update bit_simps split: if_splits)
next
  case False
  then show ?thesis by (simp add: differing_def list_update_beyond)
qed

lemma flip_bits_differing:
  assumes "in_range pick" and "m \<noteq> []"
  shows "\<exists>b. flip_bits pick i n m = Inr b \<and> length b = length m \<and> card (differing m b) \<le> n"
  using assms(2)
proof (induction n arbitrary: i m)
  case 0
  then show ?case by (simp add: differing_def)
next
  case (Suc n)
  let ?k = "pick i (length m)" and ?j = "pick (i + 1) 8"
  let ?m = "m[?k := m ! ?k XOR push_bit ?j 1]"
  have k: "?k < length m" using in_rangeD [OF assms(1)] Suc.prems by simp
  obtain b where b: "flip_bits pick (i + 2) n ?m = Inr b" "length b = length m" "card (differing ?m b) \<le> n"
    using Suc.IH [of ?m "i + 2"] Suc.prems by auto
  have "card (differing m b) \<le> card (differing m ?m \<union> differing ?m b)"
    by (intro card_mono differing_trans) (simp_all add: finite_differing)
  also have "\<dots> \<le> card (differing m ?m) + card (differing ?m b)"
    by (rule card_Un_le)
  also have "card (differing m ?m) \<le> 1"
    using card_mono [OF _ differing_flip] by simp
  finally have "card (differing m b) \<le> Suc n"
    using b(3) by simp
  then show ?case
    using b Suc.prems k by (simp add: Intn_def)
qed

lemma nth_zero_range:
  "start + n \<le> length m \<Longrightarrow> i < length m \<Longrightarrow> zero_range start n m ! i = (if start \<le> i \<and> i < start + n then 0 else m ! i)"
  by (auto simp: zero_range_def nth_append)

lemma mutate_mutated:
  assumes pick: "in_range pick"
  shows "\<exists>b. mutate pick junk t m = Inr b \<and> mutated t junk m b"
proof -
  consider "t = ''bit_flip''" | "t = ''truncate''" | "t = ''overflow''" | "t = ''zero_out''"
    | "t \<notin> {''bit_flip'', ''truncate'', ''overflow'', ''zero_out''}" by blast
  then show ?thesis
  proof cases
    case 1
    show ?thesis
    proof (cases "m = []")
      case True
      then show ?thesis using 1 by (simp add: mutate_def mutated_def differing_def)
    next
      case False
      have "pick 0 3 < 3" by (rule in_rangeD [OF pick]) simp
      with False show ?thesis
        using 1 flip_bits_differing [OF pick False, where i = 1 and n = "pick 0 3 + 1"] by (fastforce simp: mutate_def mutated_def Intn_def)
    qed
  next
    case 2
    then show ?thesis
      using in_rangeD [OF pick, of "length m - 4" 0] by (auto simp: mutate_def mutated_def Intn_def)
  next
    case 4
    show ?thesis
    proof (cases "length m > 4")
      case True
      let ?s = "pick 0 (length m - 2)"
      let ?n = "pick 1 (length m - ?s) + 1"
      have "?s < length m - 2" using True by (intro in_rangeD [OF pick]) simp
      moreover from this have "?n \<le> length m - ?s"
        using in_rangeD [OF pick, of "length m - ?s" 1] by linarith
      ultimately have "?s + ?n \<le> length m" and "0 < length m - ?s" by simp_all
      moreover from this have "length (zero_range ?s ?n m) = length m" by (simp add: zero_range_def)
      ultimately show ?thesis
        using 4 True by (auto simp: mutate_def mutated_def Intn_def Let_def nth_zero_range)
    qed (simp add: 4 mutate_def mutated_def)
  qed (auto simp: mutate_def mutated_def)
qed

text \<open>
  C34: mutating a message never panics and does what the rule is named for: at most three bits differ
  after a bit flip, a truncation keeps a proper prefix of at least four octets, an overflow appends
  the junk, zeroing changes octets to zero only, and an unknown rule changes nothing. A message that
  is not mutated is passed on as it is, and the counter counts exactly the mutated ones.
\<close>

theorem fuzz_mutates_as_named:
  assumes "in_range pick"
  shows "\<exists>hit b. EvalFuzz roll pick junk t msg m =
      Inr ((hit, b), if hit then m\<lparr>FuzzedMsgs := i64 (FuzzedMsgs m + 1)\<rparr> else m) \<and>
    (if hit then mutated (FuzzType (FuzzRule m)) junk msg b else b = msg)"
proof -
  let ?r = "FuzzRule m"
  obtain b where b: "mutate pick junk (FuzzType ?r) msg = Inr b" "mutated (FuzzType ?r) junk msg b"
    using mutate_mutated [OF assms] by blast
  show ?thesis
  proof (cases "fuzzEnabled ?r \<and> (TargetMsg ?r = [] \<or> TargetMsg ?r = t) \<and> roll < Probability ?r")
    case True
    then have "EvalFuzz roll pick junk t msg m = Inr ((True, b), m\<lparr>FuzzedMsgs := i64 (FuzzedMsgs m + 1)\<rparr>)"
      using b(1) by (auto simp: EvalFuzz_def Let_def)
    then show ?thesis using b(2) by (intro exI [of _ True] exI [of _ b]) simp
  next
    case False
    then have "EvalFuzz roll pick junk t msg m = Inr ((False, msg), m)"
      by (auto simp: EvalFuzz_def Let_def)
    then show ?thesis by (intro exI [of _ False] exI [of _ msg]) simp
  qed
qed

definition demo_fuzz :: ChaosManager where
  "demo_fuzz = ConfigureFuzz \<lparr>TargetMsg = [], FuzzType = ''truncate'', Probability = 1, fuzzEnabled = True\<rparr> GlobalChaosManager"

lemma fuzz_mutates_as_named_witness:
  "\<exists>b. EvalFuzz 0 (\<lambda>_ _. 0) (replicate 256 1) [] [1, 2, 3, 4, 5, 6] demo_fuzz = Inr ((True, b), demo_fuzz\<lparr>FuzzedMsgs := i64 1\<rparr>) \<and>
    mutated ''truncate'' (replicate 256 1) [1, 2, 3, 4, 5, 6] b"
proof -
  have rule: "FuzzType (FuzzRule demo_fuzz) = ''truncate''" "FuzzedMsgs demo_fuzz = 0"
    by (simp_all add: demo_fuzz_def ConfigureFuzz_def GlobalChaosManager_def)
  have pick: "in_range (\<lambda>_ _. 0)" by (simp add: in_range_def)
  have e: "EvalFuzz 0 (\<lambda>_ _. 0) (replicate 256 1) [] [1, 2, 3, 4, 5, 6] demo_fuzz = Inr ((hit, b), m) \<Longrightarrow> hit" for hit b m
    by (auto simp: EvalFuzz_def demo_fuzz_def ConfigureFuzz_def GlobalChaosManager_def Let_def rbind_eq_Inr)
  from fuzz_mutates_as_named [OF pick] obtain hit b where
    "EvalFuzz 0 (\<lambda>_ _. 0) (replicate 256 1) [] [1, 2, 3, 4, 5, 6] demo_fuzz =
       Inr ((hit, b), if hit then demo_fuzz\<lparr>FuzzedMsgs := i64 (FuzzedMsgs demo_fuzz + 1)\<rparr> else demo_fuzz)"
    "if hit then mutated (FuzzType (FuzzRule demo_fuzz)) (replicate 256 1) [1, 2, 3, 4, 5, 6] b else b = [1, 2, 3, 4, 5, 6]"
    by blast
  with e [OF this(1)] show ?thesis
    by (intro exI [of _ b]) (simp add: rule)
qed

text \<open>
  Two flips may hit the same bit, so that a message counted as mutated goes out unchanged.
\<close>

lemma flips_may_cancel: "mutate (\<lambda>i n. if i = 0 then 1 else 0) junk ''bit_flip'' [a] = Inr [a]"
  by (simp add: mutate_def Intn_def numeral_eq_Suc xor.assoc)

text \<open>Reset keeps the mutation rule and its counter.\<close>

lemma reset_keeps_fuzz: "FuzzRule (chaos_Reset m) = FuzzRule m \<and> FuzzedMsgs (chaos_Reset m) = FuzzedMsgs m"
  by (simp add: chaos_Reset_def)


section \<open>Without rules nothing happens\<close>

definition quiet :: "u8 \<Rightarrow> ChaosManager \<Rightarrow> bool" where
  "quiet i m \<longleftrightarrow> \<not> fuzzEnabled (FuzzRule m) \<and> (\<forall>c. NasRules m i = Some c \<longrightarrow> \<not> ruleEnabled c)"

lemma EvalNas_quiet: "quiet i m \<Longrightarrow> EvalNas roll i t m = ((False, 0), m)"
  by (auto simp: quiet_def EvalNas_def split: option.split)

text \<open>
  A UE for which no rule is enabled sends as if there were no fault injection, and rules of other
  UEs do not matter.
\<close>

theorem no_faults_without_rules:
  assumes "quiet (ueId ue) m"
  shows "SendToGnb_hooked d seen message (m, ue) = Inr (m, SendToGnb message ue)"
  using assms EvalNas_quiet [OF assms]
  by (cases "UnixConn ue") (simp_all add: SendToGnb_hooked_def SendToGnb_def EvalFuzz_def quiet_def Let_def)

definition demo_drop :: ChaosManager where
  "demo_drop = ConfigureNas 2 \<lparr>DropProbability = 1, DelayDuration = 0, TargetMsgType = [], ruleEnabled = True\<rparr> GlobalChaosManager"

definition demo_draws :: draws where
  "demo_draws = \<lparr>fuzzRoll = 0, dropRoll = 0, picks = (\<lambda>_ _. 0), junkBytes = []\<rparr>"

lemma no_faults_without_rules_witness:
  "SendToGnb_hooked demo_draws Map.empty [0x7e, 0, 0x41] (demo_drop, (zeroUE 0 Map.empty)\<lparr>UnixConn := Some 4\<rparr>) =
     Inr (demo_drop, (zeroUE 0 Map.empty)\<lparr>UnixConn := Some 4, toGnb := [(4, [0x7e, 0, 0x41])]\<rparr>)"
proof -
  have "quiet (ueId ((zeroUE 0 Map.empty)\<lparr>UnixConn := Some 4\<rparr>)) demo_drop"
    by (simp add: zeroUE_def quiet_def demo_drop_def ConfigureNas_def GlobalChaosManager_def)
  from no_faults_without_rules [OF this, of demo_draws Map.empty "[0x7e, 0, 0x41]"] show ?thesis
    by (simp add: SendToGnb_def zeroUE_def)
qed

section \<open>The counters\<close>

lemma i64_Suc: "i64 (i64 x + 1) = i64 (x + 1)"
  using signed_take_bit_add [of 63 x 1] by (simp add: i64_def)

fun nas_run :: "u8 \<Rightarrow> (rat \<times> string) list \<Rightarrow> ChaosManager \<Rightarrow> (bool \<times> int) list \<times> ChaosManager" where
  "nas_run i [] m = ([], m)"
| "nas_run i (x # xs) m =
     (let (o1, m) = EvalNas (fst x) i (snd x) m; (os, m) = nas_run i xs m in (o1 # os, m))"

lemma EvalNas_counts:
  "EvalNas roll i t m = (o1, m') \<Longrightarrow> m' = m\<lparr>DroppedNas := if fst o1 then i64 (DroppedNas m + 1) else DroppedNas m,
     DelayedNas := if snd o1 > 0 then i64 (DelayedNas m + 1) else DelayedNas m\<rparr> \<and> \<not> (fst o1 \<and> snd o1 > 0)"
  by (auto simp: EvalNas_def Let_def split: option.splits if_splits)

lemma nas_run_counts:
  "nas_run i xs m = (os, m') \<Longrightarrow> length os = length xs \<and> (\<forall>x \<in> set os. \<not> (fst x \<and> snd x > 0)) \<and>
     i64 (DroppedNas m') = i64 (DroppedNas m + int (length (filter fst os))) \<and>
     i64 (DelayedNas m') = i64 (DelayedNas m + int (length (filter (\<lambda>x. snd x > 0) os))) \<and>
     NasRules m' = NasRules m"
proof (induction xs arbitrary: m os)
  case (Cons x xs)
  obtain o1 m1 os1 where 1: "EvalNas (fst x) i (snd x) m = (o1, m1)" and 2: "nas_run i xs m1 = (os1, m')" and os: "os = o1 # os1"
    using Cons.prems by (auto simp: Let_def split: prod.splits)
  note c = EvalNas_counts [OF 1] and ih = Cons.IH [OF 2]
  have shift: "i64 (i64 (a + 1) + b) = i64 (a + (1 + b))" for a b
    using signed_take_bit_add [of 63 "a + 1" b] signed_take_bit_add [of 63 "signed_take_bit 63 (a + 1)" b] by (simp add: i64_def add.assoc)
  show ?case
    using c ih by (auto simp: os shift)
qed simp



end
