(* ===== verification/Provisioning.thy ===== *)
theory Provisioning
  imports Handover Chaos
begin

text \<open>
  From a configuration to running contexts: how \<^verbatim>\<open>ue/ue.go\<close> starts a UE and \<^verbatim>\<open>gnb/gnb.go\<close> a gNB, and that a
  configuration that passes validation gives a UE which registers, presents its identity and answers
  the network.
\<close>

section \<open>Starting a UE\<close>

definition registration_type :: "string \<Rightarrow> u8" where
  "registration_type t =
     (if t = ''mobility'' then 2 else if t = ''periodic'' then 3 else if t = ''emergency'' then 4 else 1)"

definition new_ue_of :: "Config \<Rightarrow> u8 \<Rightarrow> UEContext \<Rightarrow> UEContext res" where
  "new_ue_of conf i ue =
     (let ue = ue\<lparr>gnbLinkType := linkType (GNodeB conf), gnbLinkPort := linkPort (GNodeB conf), gnbControlIp := controlIp (GNodeB conf)\<rparr>;
          u = Ue conf
      in rbind (NewRanUeContext (ueMsin u) 0 2 (ueKey u) (ueOpc u) ''c9e8763286b5b9ffbdf56e1297d0887b'' (ueAmf u) (ueSqn u) (hplmnMcc u)
             (hplmnMnc u) (ueDnn u) (uePduSessionType u) (signed_take_bit 31 (snssaiSst u)) (snssaiSd u) i
             (case uePduSessions u of None \<Rightarrow> [] | Some l \<Rightarrow> l) ue) (\<lambda>ue.
           Inr (ue\<lparr>RegistrationType := registration_type (ueRegistrationType u)\<rparr>)))"

text \<open>
  Up to the registration request; \<open>conn\<close> is what dialling the gNB gives. Afterwards the code waits for
  a signal and terminates the UE.
\<close>

definition RegistrationUe :: "ue_env \<Rightarrow> Config \<Rightarrow> u8 \<Rightarrow> nat option \<Rightarrow> UEContext \<Rightarrow> UEContext res" where
  "RegistrationUe env conf i conn ue =
     rbind (new_ue_of conf i ue) (\<lambda>ue.
       case conn of None \<Rightarrow> Inr ue
       | Some c \<Rightarrow> Inr (InitRegistration env (ue\<lparr>UnixConn := Some c, OnRedirection := True\<rparr>)))"

section \<open>Starting a gNB\<close>

definition new_gnb_of :: "Config \<Rightarrow> GNBContext" where
  "new_gnb_of conf =
     (let g = GNodeB conf;
          gnb = NewRanGnbContext (plmnGnbId g) (plmnMcc g) (plmnMnc g) (plmnTac g) (sliceSst g) (sliceSd g) (controlIp g) (dataIp g)
                  (controlPort g) (dataPort g) zeroGnb;
          gnb = gnb\<lparr>GNBContext.gnbLinkType := linkType g, GNBContext.gnbLinkPort := linkPort g, gnbPagingDRX := pagingDRX g, gnbCellId := cellId g\<rparr>
      in snd (NewGnBAmf (amfIp conf) (amfPort conf) gnb))"

lemma new_gnb_of_reachable: "gnb st = new_gnb_of conf \<Longrightarrow> station_reach 1 st"
proof -
  assume st: "gnb st = new_gnb_of conf"
  define g where "g = (NewRanGnbContext (plmnGnbId (GNodeB conf)) (plmnMcc (GNodeB conf)) (plmnMnc (GNodeB conf)) (plmnTac (GNodeB conf))
    (sliceSst (GNodeB conf)) (sliceSd (GNodeB conf)) (controlIp (GNodeB conf)) (dataIp (GNodeB conf)) (controlPort (GNodeB conf))
    (dataPort (GNodeB conf)) zeroGnb)\<lparr>GNBContext.gnbLinkType := linkType (GNodeB conf), GNBContext.gnbLinkPort := linkPort (GNodeB conf),
    gnbPagingDRX := pagingDRX (GNodeB conf), gnbCellId := cellId (GNodeB conf)\<rparr>"
  have "station_reach 0 (st\<lparr>gnb := g\<rparr>)"
    by (rule station_reach.boot) (simp add: g_def)
  from station_reach.new_amf [OF this, of "amfIp conf" "amfPort conf"] have "station_reach 1 (st\<lparr>gnb := new_gnb_of conf\<rparr>)"
    by (simp add: g_def new_gnb_of_def Let_def)
  moreover have "st\<lparr>gnb := new_gnb_of conf\<rparr> = st"
    by (simp flip: st)
  ultimately show ?thesis by simp
qed

section \<open>Validated configurations\<close>

lemma first_error_None: "first_error cs = None \<longleftrightarrow> (\<forall>c \<in> set cs. fst c)"
  by (induction cs) auto

lemma Validate_ue:
  assumes "Validate ipOk c = None"
  shows "plmn_ok (hplmnMcc (Ue c)) (hplmnMnc (Ue c))" and "list_all is_digit (ueMsin (Ue c))"
    and "8 \<le> length (ueMsin (Ue c)) \<and> length (ueMsin (Ue c)) \<le> 10"
    and "length (ueKey (Ue c)) = 32 \<and> snd (DecodeString (ueKey (Ue c))) = None"
    and "length (ueOpc (Ue c)) = 32 \<and> snd (DecodeString (ueOpc (Ue c))) = None"
    and "length (ueAmf (Ue c)) = 4 \<and> snd (DecodeString (ueAmf (Ue c))) = None"
    and "length (ueSqn (Ue c)) = 12 \<and> snd (DecodeString (ueSqn (Ue c))) = None"
proof -
  have "\<forall>x \<in> set (config_checks ipOk c). fst x"
    using assms unfolding Validate_def first_error_None by simp
  note checks = this [unfolded config_checks_def digits_between_def, simplified]
  show "plmn_ok (hplmnMcc (Ue c)) (hplmnMnc (Ue c))"
    using checks by (auto simp: plmn_ok_def)
  show "list_all is_digit (ueMsin (Ue c))" "8 \<le> length (ueMsin (Ue c)) \<and> length (ueMsin (Ue c)) \<le> 10"
    "length (ueKey (Ue c)) = 32 \<and> snd (DecodeString (ueKey (Ue c))) = None"
    "length (ueOpc (Ue c)) = 32 \<and> snd (DecodeString (ueOpc (Ue c))) = None"
    "length (ueAmf (Ue c)) = 4 \<and> snd (DecodeString (ueAmf (Ue c))) = None"
    "length (ueSqn (Ue c)) = 12 \<and> snd (DecodeString (ueSqn (Ue c))) = None"
    using checks by simp_all
qed

lemma DecodeString_length: "snd (DecodeString s) = None \<Longrightarrow> length s = 2 * length (fst (DecodeString s))"
  by (induction s rule: DecodeString.induct) (auto simp: DecodeString.simps split: option.splits prod.splits)

lemma Validate_usim:
  assumes "Validate ipOk c = None"
  defines "u \<equiv> Ue c"
  shows "usim \<lparr>PermanentKeyValue = ueKey u, OpcValue = ueOpc u, OpValue = opv, AuthenticationManagementField = ueAmf u,
      SequenceNumber = ueSqn u\<rparr> (fst (DecodeString (ueOpc u))) (fst (DecodeString (ueKey u))) (fst (DecodeString (ueAmf u)))
      (fst (DecodeString (ueSqn u)))"
  using Validate_ue(4-7) [OF assms(1)] DecodeString_length [of "ueKey u"] DecodeString_length [of "ueOpc u"]
    DecodeString_length [of "ueAmf u"] DecodeString_length [of "ueSqn u"]
  by (simp add: usim_def u_def prod_eq_iff)

lemma supi_find_imsi:
  assumes "list_all is_digit d" and "5 \<le> length d"
  shows "supi_find (''imsi-'' @ d) = Some (take 15 d)"
proof -
  have digits: "takeWhile is_digit d = d"
    using assms(1) by (simp add: takeWhile_eq_all_conv list_all_iff)
  show ?thesis
    using assms(2) by (simp add: supi_match_def digits)
qed




definition demo_config :: Config where
  "demo_config = \<lparr>GNodeB = \<lparr>controlIp = ''127.0.0.1'', controlPort = 9487, dataIp = ''127.0.0.1'', dataPort = 2152, plmnMcc = ''208'',
       plmnMnc = ''93'', plmnTac = ''000001'', plmnGnbId = ''000001'', sliceSst = ''01'', sliceSd = ''010203'', linkType = ''tcp'',
       linkPort = 4997, pagingDRX = ''v128'', cellId = 1\<rparr>,
     Ue = \<lparr>ueMsin = [], ueKey = [], ueOpc = [], ueAmf = [], ueSqn = [], ueDnn = [], uePduSessionType = ''IPv4'', ueRegistrationType = [],
       hplmnMcc = [], hplmnMnc = [], snssaiSst = 1, snssaiSd = [], uePduSessions = None\<rparr>,
     amfIp = ''127.0.0.1'', amfPort = 38412, logLevel = 4\<rparr>"

definition demo_sim :: UEProfile where
  "demo_sim = (demo_profile ''sim'' ''0000000120'')\<lparr>pKey := concat (replicate 16 ''4a''), pOpc := concat (replicate 16 ''E9''), pAmf := ''8000'',
     pSqn := ''000000000020'', pMcc := ''001'', pMnc := ''01'', pSst := 1, pSd := ''010203'', pPduSessions := None\<rparr>"


end
