(* ===== verification/Spec2Isabelle.thy ===== *)
theory Spec2Isabelle
  imports Ngap_Delivery Aes Nas_Convert Provisioning
begin

text \<open>
  OmniRAN-Emulator simulates the radio side of a 5G network: terminals (UEs) and base stations
  (gNBs) that speak NAS and NGAP with a real core network. This development models its protocol
  logic in HOL and proves what makes it correct. Paths below are relative to \<^verbatim>\<open>src/\<close>;
  \<^verbatim>\<open>ue/\<close> and \<^verbatim>\<open>gnb/\<close> stand for \<^verbatim>\<open>internal/control_test_engine/ue/\<close> and \<^verbatim>\<open>.../gnb/\<close>.

  \<^bold>\<open>The parts of the program and how they interact.\<close> A configuration or a fleet of profiles
  (\<^verbatim>\<open>config\<close>) describes UEs and gNBs. \<^verbatim>\<open>gnb/gnb.go\<close> builds a gNB, which connects to its AMFs by
  SCTP, and \<^verbatim>\<open>ue/ue.go\<close> builds a UE, which connects to a gNB by a socket and sends a registration
  request. The gNB gives every UE identifiers, a tunnel endpoint and an address, and keeps it in
  three pools (\<^verbatim>\<open>gnb/context\<close>). It wraps the NAS messages of UEs into NGAP messages for the AMF
  (\<^verbatim>\<open>gnb/nas\<close>), and handles what the AMF sends (\<^verbatim>\<open>gnb/ngap\<close>): it passes NAS messages on to the UE,
  sets up sessions, prepares handovers, releases contexts. The UE (\<^verbatim>\<open>ue/nas\<close>, \<^verbatim>\<open>ue/state\<close>,
  \<^verbatim>\<open>ue/context\<close>) authenticates (Milenage on AES and the key derivation of TS 33.501), protects
  its messages (\<^verbatim>\<open>lib/nas/security\<close>), requests sessions and sets up an interface for each.
  NGAP messages are built by \<^verbatim>\<open>gnb/ngap/message/ngap_control\<close> as values of \<^verbatim>\<open>lib/ngap/ngapType\<close> and coded by
  \<^verbatim>\<open>lib/ngap\<close> and \<^verbatim>\<open>lib/aper\<close> (aligned PER, driven by struct tags); elements of NAS by \<^verbatim>\<open>lib/nas/nasConvert\<close>. \<^verbatim>\<open>internal/chaos\<close> may drop, delay or change a message on
  its way out.

  \<^bold>\<open>The theories\<close>, from the leaves up.
  \<^item> \<open>Prelude\<close>: Go's integer types, the result type \<open>res\<close> of a call (a value, a returned error or
    a panic), signed wrap-around, big-endian bytes, bit lists, and lemmas on them.
  \<^item> \<open>Aper_Bits\<close> and \<open>Aper_Writer\<close>: the bit reader \<^verbatim>\<open>perBitData\<close> and the bit writer
    \<^verbatim>\<open>perRawBitData\<close> of \<^verbatim>\<open>lib/aper\<close>, each shown to read and to write the bit list its bytes stand for.
    \<open>Aper_Codec\<close> states the contract of a codec as the locale \<open>per_codec\<close>: the writer appends an
    encoding, the reader returns its value and stops behind it. \<open>Aper_Prim\<close> (whole numbers,
    lengths, BOOLEAN, ENUMERATED, CHOICE), \<open>Aper_Integer\<close>, \<open>Aper_Strings\<close> with \<open>Aper_Bit_String\<close>
    (OCTET STRING, BIT STRING, open types, fragmentation) model the functions of \<^verbatim>\<open>marshal.go\<close> and
    \<^verbatim>\<open>aper.go\<close> and interpret the locale on them; \<open>Aper_Sequence\<close> does SEQUENCE OF, with the coder of
    the elements as argument, and holds the round-trip and robustness properties of the primitives.
  \<^item> \<open>Aper_Field\<close>: the struct tags (\<^verbatim>\<open>common.go\<close>) and the walk over a Go value, \<^verbatim>\<open>makeField\<close> and \<^verbatim>\<open>parseField\<close>. The code
    walks with the reflection library; here a Go type is a value of \<open>gtype\<close> and a Go value one of \<open>gval\<close>.
    \<open>Aper_Round_Trip\<close>: the executable predicate \<open>fits\<close> says which values of a type the codec supports, and
    \<^verbatim>\<open>Unmarshal\<close> is shown to invert \<^verbatim>\<open>Marshal\<close> on them, by way of \<open>carries\<close>, a relation of writers and readers closed under
    the combinations the walk makes. Equality is up to \<open>spelled\<close>, the bits of a BIT STRING that its length counts.
    \<open>Aper_Typing\<close>: for any bytes the decoder fails or gives a value of its type.
  \<^item> \<open>Ngap_Types\<close>, \<open>Ngap_Transfer_Types\<close>, \<open>Ngap_Constants\<close>: the structs of \<^verbatim>\<open>lib/ngap/ngapType\<close> with their tags, and the constants
    the builders use. \<open>Ngap_Builders\<close>: \<^verbatim>\<open>Encoder\<close> and \<^verbatim>\<open>Decoder\<close> of \<^verbatim>\<open>lib/ngap\<close>, and every message the gNB sends to
    the AMF. \<open>Ngap_Slots\<close>: which alternative of each open type belongs to which identifier, and rules that
    reduce \<open>fits\<close> of a message to its fields. \<open>Ngap_Messages\<close>: each message fits its type.
    \<open>Ngap_Convert\<close>: \<^verbatim>\<open>lib/ngap/ngapConvert\<close>. \<open>Ngap_Delivery\<close>: what the gNB builds is encoded, and decodes to the message
    at the other side; the release response for no session cannot be encoded.
  \<^item> \<open>Snow3g\<close>: \<^verbatim>\<open>lib/nas/security/snow3g\<close>. \<open>Nas_Security\<close>: the NAS COUNT and the algorithms of
    \<^verbatim>\<open>security.go\<close>; the locale \<open>stream_cipher\<close>, interpreted on NEA0, NEA1 and NEA2, gives that
    enciphering twice is the identity. \<open>Nas_Channel\<close>: \<^verbatim>\<open>NASEncode\<close> and the checks of \<^verbatim>\<open>DispatchNas\<close>;
    what one side protects the other accepts, what is delivered carries a right MAC, and the
    encoder refines a specification of the protected message.
  \<^item> \<open>Aes\<close>: \<^verbatim>\<open>lib/aes\<close>, shown equal to FIPS-197 by way of its tables. \<open>Milenage\<close>: \<^verbatim>\<open>lib/milenage\<close>.
    \<open>Ue_Auth\<close>: \<^verbatim>\<open>lib/UeauCommon\<close> and the authentication functions of \<^verbatim>\<open>ue/context/context.go\<close>; the UE
    and a network built from the same functions agree on RES* and on all keys, a forged challenge
    is refused, and a synchronisation failure gives the network the UE's sequence number.
  \<^item> \<open>Go_Strings\<close>: what is used of Go's \<^verbatim>\<open>hex\<close>, \<^verbatim>\<open>strings\<close>, \<^verbatim>\<open>fmt\<close> and \<^verbatim>\<open>strconv\<close>. \<open>Identity\<close>: PLMN,
    SUCI, GUTI and AMF identifiers as written by the UE and the gNB and as read by \<^verbatim>\<open>nasConvert\<close>.
    \<open>Nas_Convert\<close>: the other converters of \<^verbatim>\<open>lib/nas/nasConvert\<close>.
  \<^item> \<open>Fleet\<close>: \<^verbatim>\<open>config/config.go\<close> (validation) and \<^verbatim>\<open>config/fleet.go\<close>; the locale \<open>profile_store\<close> has
    the laws of a table of named profiles and is interpreted on the five tables, which refine maps.
  \<^item> \<open>Ue_Context\<close>, \<open>Ue_Nas\<close>, \<open>Ue_Machine\<close>: \<^verbatim>\<open>ue/context\<close>, \<^verbatim>\<open>ue/nas\<close>, \<^verbatim>\<open>ue/state\<close> and \<^verbatim>\<open>ue/data\<close>. The state
    is the record \<open>UEContext\<close>, every handler is a function on it, and \<open>ue_reach\<close> is the relation of
    the states a UE reaches by its messages and requests. The invariant of these states, the
    request of all configured sessions and the release of everything at the end are proved.
  \<^item> \<open>Gnb_Context\<close>, \<open>Gnb_Ngap\<close>, \<open>Gnb_Machine\<close>, \<open>Gnb_Procedures\<close>, \<open>Gnb_Robust\<close>, \<open>Gnb_Nas\<close>: \<^verbatim>\<open>gnb/context\<close>,
    \<^verbatim>\<open>gnb/ngap\<close> and \<^verbatim>\<open>gnb/nas\<close>. The pools of the code hold pointers, and one UE is in three of them:
    the UE contexts are in a store and the pools hold references. The locale \<open>keyed_pool\<close> is
    interpreted on the index of tunnels and the index of addresses. \<open>station_reach\<close> is the relation of
    the states a gNB reaches by messages of AMFs, UEs and other gNBs; its invariant says that the
    pools point to existing contexts and the indices to the UE that owns the key. The procedures
    are followed from the message of the AMF to the answer, the pools and the UE, and well-formed
    messages are shown never to crash the gNB.
  \<^item> \<open>Handover\<close>: an N2 handover over the UE and both gNBs, to the traffic after it.
  \<^item> \<open>Chaos\<close>: \<^verbatim>\<open>internal/chaos\<close> and the two senders that call it.
  \<^item> \<open>Provisioning\<close>: \<^verbatim>\<open>ue/ue.go\<close> and \<^verbatim>\<open>gnb/gnb.go\<close>, from a configuration to contexts; a validated UE
    configuration gives a UE that registers, presents its identity and answers a challenge.

  \<^bold>\<open>How code becomes definitions.\<close> Structs are records, enumerations are datatypes, fixed-width
  integers are words, or integers with the wrap-around written out (\<open>i64\<close>). A Go function with an error
  result is a function into \<open>res\<close>, and an index out of range or a nil pointer is \<open>Panic\<close>. Package
  variables and mutated objects are passed along. Code outside the repository is an argument:
  \<open>aes\<close> and \<open>cmac\<close> for the NAS algorithms, \<open>hmac\<close> for key derivation, \<open>ipOk\<close> for \<^verbatim>\<open>net.ParseIP\<close>, \<open>save\<close>
  for the result of writing a file, the order in which a Go map is traversed, the random
  draws of the fault injection. What the kernel, the dialler and the message codecs answer is collected in
  the records \<open>ue_env\<close>, \<open>net_env\<close> and \<open>ngap_env\<close>. Hypotheses on these arguments are stated in the theorems,
  and witnesses instantiate them with concrete functions.

  \<^bold>\<open>Bounds and termination.\<close> All functions are total, with no fuel. The two loops of \<^verbatim>\<open>nasConvert\<close> that may run
  forever are partial functions into \<open>option\<close>; on lists of supported slices the loop is proved to return, and
  on an unsupported length to diverge. Identifier generators are 64-bit integers in the code: the
  invariant of the gNB holds for runs of fewer than 2^63 events, since each event uses one identifier at most.
  The round trips of the codec hold for values in one fragment and in the range of
  their constraints; the lemmas on longer strings show where the code differs. An open type is in one fragment
  when its value takes less than 16384 octets: \<open>room\<close> bounds the bits of a value, and 131064 bits is the
  limit in \<open>fits\<close>. A NAS message of 13000 bytes and 16 sessions stay below it. The walk terminates because types are finite: no
  struct of \<^verbatim>\<open>ngapType\<close> refers to itself.

  \<^bold>\<open>Not modelled.\<close>
  \<^item> In the walk of \<^verbatim>\<open>lib/aper\<close>: interface values, which no type of NGAP has; and the printer of messages in
    \<^verbatim>\<open>lib/ngap\<close>.
  \<^item> The field-by-field codecs of plain NAS messages (\<^verbatim>\<open>lib/nas/nasMessage\<close>, \<^verbatim>\<open>lib/nas/nasType\<close>), which are generated, and the
    OpenAPI models. Handlers receive the fields they read of NAS and of incoming NGAP messages, and the builders of NAS messages are
    kept as the values that depend on state. Handlers and builders of NGAP meet in the arguments of the builders: a
    handler of \<open>Gnb_Ngap\<close> gives the message as a value with these arguments.
  \<^item> The messages of the simulated AMF (\<^verbatim>\<open>mock_amf_messages.go\<close>).
  \<^item> In \<^verbatim>\<open>nasConvert\<close>: session AMBR, time zones, UPU, ngKSI and the copies of capabilities; in
    \<^verbatim>\<open>lib/milenage\<close> the GSM functions; in \<^verbatim>\<open>ngapConvert\<close> the converters the program does not call
    (RAN identifiers, time stamps, trace data, RAT restrictions, bit rates).
  \<^item> Sockets, SCTP, GTP tunnels, netlink, files, HTTP (\<^verbatim>\<open>internal/webserver\<close>), scenarios
    (\<^verbatim>\<open>internal/templates\<close>), monitoring, arrival models and the command line: input and output,
    timers and processes around the modelled operations.
  \<^item> Interleavings inside a handler: the code starts a goroutine per message, the model
    handles each message to its end. The order of messages is arbitrary in the step relations.
  \<^item> The Go toolchain under \<^verbatim>\<open>go_sdk\<close>, which is third-party code.

  \<^bold>\<open>Open ends.\<close> The rest of the converters of \<^verbatim>\<open>nasConvert\<close>, the header codec of plain NAS messages
  (\<^verbatim>\<open>lib/nas/nas.go\<close>), the requests a user starts at a UE, the compliance check of outgoing NGAP
  messages, and interleavings of the goroutines of a gNB.
\<close>

end
